(* ===== verification/Prelude.thy ===== *)
theory Prelude
  imports Main
begin

text \<open>
  Shared vocabulary of the development: collections of simplification rules, the generic
  operations on the rows of a table (look a row up by its primary key, replace it, append one),
  and the few lemmas on \<open>List.find\<close>, \<open>filter\<close> and sums that several components use.
  Nothing here is specific to one component of the program.
\<close>

named_theorems frame
  \<comment> \<open>which tables an effect leaves alone\<close>
named_theorems query
  \<comment> \<open>what lookups return\<close>

subsection \<open>Optional text\<close>

definition or_empty :: "string option \<Rightarrow> string" where
  "or_empty s = (case s of None \<Rightarrow> '''' | Some t \<Rightarrow> t)"

definition none_if_empty :: "string \<Rightarrow> string option" where
  "none_if_empty s = (if s = '''' then None else Some s)"

definition or_else :: "'a option \<Rightarrow> 'a option \<Rightarrow> 'a option" where
  "or_else a b = (case a of None \<Rightarrow> b | Some _ \<Rightarrow> a)"

lemma or_empty_simps [simp]: "or_empty None = ''''" "or_empty (Some s) = s"
  by (simp_all add: or_empty_def)

lemma none_if_empty_simps [simp]:
  "none_if_empty '''' = None" "s \<noteq> '''' \<Longrightarrow> none_if_empty s = Some s"
  by (simp_all add: none_if_empty_def)

lemma or_else_simps [simp]: "or_else None b = b" "or_else (Some x) b = Some x"
  by (simp_all add: or_else_def)

subsection \<open>Rows of a table\<close>

definition row_get :: "('r \<Rightarrow> int) \<Rightarrow> int \<Rightarrow> 'r list \<Rightarrow> 'r option" where
  "row_get key k rs = List.find (\<lambda>r. key r = k) rs"

definition row_put :: "('r \<Rightarrow> int) \<Rightarrow> 'r \<Rightarrow> 'r list \<Rightarrow> 'r list" where
  "row_put key r rs = map (\<lambda>x. if key x = key r then r else x) rs"

definition row_del :: "('r \<Rightarrow> int) \<Rightarrow> int \<Rightarrow> 'r list \<Rightarrow> 'r list" where
  "row_del key k rs = filter (\<lambda>x. key x \<noteq> k) rs"

definition keys_ok :: "('r \<Rightarrow> int) \<Rightarrow> int \<Rightarrow> 'r list \<Rightarrow> bool" where
  "keys_ok key n rs \<longleftrightarrow> distinct (map key rs) \<and> (\<forall>r\<in>set rs. key r \<le> n)"

lemma find_Some_D: "List.find P xs = Some x \<Longrightarrow> x \<in> set xs \<and> P x"
  by (induction xs) (auto split: if_splits)

lemma find_None_D: "List.find P xs = None \<Longrightarrow> x \<in> set xs \<Longrightarrow> \<not> P x"
  by (induction xs) (auto split: if_splits)

lemma find_None_iff_all: "List.find P xs = None \<longleftrightarrow> (\<forall>x\<in>set xs. \<not> P x)"
  by (induction xs) auto

lemma find_unique:
  assumes "distinct (map key xs)" and "x \<in> set xs" and "key x = k"
  shows "List.find (\<lambda>r. key r = k) xs = Some x"
  using assms by (induction xs) (auto simp: rev_image_eqI)

lemma find_only:
  assumes "x \<in> set xs" and "P x" and "\<And>y. y \<in> set xs \<Longrightarrow> P y \<Longrightarrow> y = x"
  shows "List.find P xs = Some x"
proof (cases "List.find P xs")
  case None
  then show ?thesis using assms(1,2) by (auto simp: find_None_iff)
next
  case (Some y)
  then show ?thesis using assms(3) [of y] by (auto dest: find_Some_D)
qed

lemma row_get_in: "row_get key k rs = Some r \<Longrightarrow> r \<in> set rs \<and> key r = k"
  unfolding row_get_def by (rule find_Some_D)

lemma row_get_mem:
  "distinct (map key rs) \<Longrightarrow> r \<in> set rs \<Longrightarrow> row_get key (key r) rs = Some r"
  unfolding row_get_def by (rule find_unique) auto

lemma row_put_keys [simp]: "map key (row_put key r rs) = map key rs"
  by (induction rs) (auto simp: row_put_def)

lemma length_row_put [simp]: "length (row_put key r rs) = length rs"
  by (simp add: row_put_def)

lemma keys_ok_put [simp]: "keys_ok key n (row_put key r rs) = keys_ok key n rs"
proof -
  have "key ` set (row_put key r rs) = key ` set rs"
    by (metis list.set_map row_put_keys)
  then have "(\<forall>x\<in>set (row_put key r rs). key x \<le> n) = (\<forall>x\<in>set rs. key x \<le> n)"
    by (metis (no_types, lifting) image_iff)
  then show ?thesis by (simp add: keys_ok_def)
qed

lemma keys_ok_snoc:
  "keys_ok key n rs \<Longrightarrow> n < key r \<Longrightarrow> keys_ok key (key r) (rs @ [r])"
  by (force simp: keys_ok_def)

lemma set_row_put: "x \<in> set (row_put key r rs) \<Longrightarrow> x = r \<or> (x \<in> set rs \<and> key x \<noteq> key r)"
  by (auto simp: row_put_def split: if_splits)

lemma row_put_other: "x \<in> set rs \<Longrightarrow> key x \<noteq> key r \<Longrightarrow> x \<in> set (row_put key r rs)"
  by (force simp: row_put_def)

lemma row_get_put_same:
  "row_get key (key r) rs \<noteq> None \<Longrightarrow> row_get key (key r) (row_put key r rs) = Some r"
  by (induction rs) (auto simp: row_get_def row_put_def split: if_splits)

lemma row_get_put_other:
  "key r \<noteq> k \<Longrightarrow> row_get key k (row_put key r rs) = row_get key k rs"
  by (induction rs) (auto simp: row_get_def row_put_def)

lemma row_get_snoc:
  "row_get key k (rs @ [r]) =
     (case row_get key k rs of Some x \<Rightarrow> Some x | None \<Rightarrow> if key r = k then Some r else None)"
  by (induction rs) (auto simp: row_get_def)

lemma row_put_absent: "\<forall>x\<in>set rs. key x \<noteq> key r \<Longrightarrow> row_put key r rs = rs"
  by (simp add: row_put_def map_idI)

lemma filter_row_put_other:
  assumes "\<And>x. x \<in> set rs \<Longrightarrow> key x = key r \<Longrightarrow> \<not> P x" and "\<not> P r"
  shows "filter P (row_put key r rs) = filter P rs"
  using assms by (induction rs) (auto simp: row_put_def)

text \<open>Several rows written back, one after the other.\<close>

lemma fold_put_keys [simp]:
  "map key (fold (\<lambda>c. row_put key (f c)) cs rs) = map key rs"
  by (induction cs arbitrary: rs) simp_all

lemma fold_put_mem:
  assumes "\<And>c. key (f c) = key c" and "x \<in> set (fold (\<lambda>c. row_put key (f c)) cs rs)"
  shows "(x \<in> set rs \<and> key x \<notin> key ` set cs) \<or> (\<exists>c\<in>set cs. x = f c)"
  using assms(2)
proof (induction cs arbitrary: rs)
  case (Cons c cs)
  then have "(x \<in> set (row_put key (f c) rs) \<and> key x \<notin> key ` set cs) \<or> (\<exists>c\<in>set cs. x = f c)" by simp
  then show ?case using set_row_put [of x key "f c" rs] assms(1) by auto
qed simp

lemma fold_put_other:
  assumes "\<And>c. key (f c) = key c" and "x \<in> set rs" and "key x \<notin> key ` set cs"
  shows "x \<in> set (fold (\<lambda>c. row_put key (f c)) cs rs)"
  using assms(2,3)
proof (induction cs arbitrary: rs)
  case (Cons c cs)
  then show ?case using row_put_other [of x rs key "f c"] assms(1) by simp
qed simp

subsection \<open>Dictionaries and sorted rows\<close>

text \<open>\<open>d.update(e)\<close> and \<open>d[k] = v\<close> on a dictionary in insertion order.\<close>

definition dict_set :: "'k \<Rightarrow> 'v \<Rightarrow> ('k \<times> 'v) list \<Rightarrow> ('k \<times> 'v) list" where
  "dict_set k v d =
     (if k \<in> set (map fst d) then map (\<lambda>(a, b). (a, if a = k then v else b)) d else d @ [(k, v)])"

definition dict_update :: "('k \<times> 'v) list \<Rightarrow> ('k \<times> 'v) list \<Rightarrow> ('k \<times> 'v) list" where
  "dict_update d e = foldl (\<lambda>acc (k, v). dict_set k v acc) d e"

text \<open>\<open>order_by(f, g)\<close> and \<open>order_by(f.desc(), g.desc())\<close>.\<close>

definition order2 :: "('r \<Rightarrow> int) \<Rightarrow> ('r \<Rightarrow> int) \<Rightarrow> 'r list \<Rightarrow> 'r list" where
  "order2 f g rs = sort_key f (sort_key g rs)"

definition order2_desc :: "('r \<Rightarrow> int) \<Rightarrow> ('r \<Rightarrow> int) \<Rightarrow> 'r list \<Rightarrow> 'r list" where
  "order2_desc f g rs = rev (order2 f g rs)"

lemma order2_set [simp]: "set (order2 f g rs) = set rs" "set (order2_desc f g rs) = set rs"
  by (simp_all add: order2_def order2_desc_def)

lemma order2_length [simp]:
  "length (order2 f g rs) = length rs" "length (order2_desc f g rs) = length rs"
  by (simp_all add: order2_def order2_desc_def)

lemma order2_sorted: "sorted (map f (order2 f g rs))"
  by (simp add: order2_def)

text \<open>\<open>a or b\<close> on optional text: the empty string counts as missing.\<close>

definition text_or :: "string option \<Rightarrow> string option \<Rightarrow> string option" where
  "text_or a b = (case a of None \<Rightarrow> b | Some s \<Rightarrow> if s = '''' then b else a)"

lemma text_or_simps [simp]:
  "text_or None b = b" "text_or (Some '''') b = b" "s \<noteq> '''' \<Longrightarrow> text_or (Some s) b = Some s"
  by (simp_all add: text_or_def)

subsection \<open>Sums over rows\<close>

lemma sum_list_filter_snoc:
  "(\<Sum>x\<leftarrow>filter P (xs @ [y]). f x) = (\<Sum>x\<leftarrow>filter P xs. f x) + (if P y then f y else (0::int))"
  by simp

lemma sum_list_nonneg_int: "\<forall>x\<in>set xs. (0::int) \<le> f x \<Longrightarrow> 0 \<le> (\<Sum>x\<leftarrow>xs. f x)"
  by (induction xs) auto

lemma pairwise_snoc:
  assumes "symp R"
  shows "(\<forall>x\<in>set (xs @ [y]). \<forall>z\<in>set (xs @ [y]). x \<noteq> z \<longrightarrow> R x z) \<longleftrightarrow>
         (\<forall>x\<in>set xs. \<forall>z\<in>set xs. x \<noteq> z \<longrightarrow> R x z) \<and> (\<forall>x\<in>set xs. x \<noteq> y \<longrightarrow> R x y)"
  using assms by (auto simp: symp_def)

lemma filter_at_most_one:
  assumes "distinct (map key xs)" and "\<And>x y. x \<in> set xs \<Longrightarrow> y \<in> set xs \<Longrightarrow> P x \<Longrightarrow> P y \<Longrightarrow> key x = key y"
  shows "length (filter P xs) \<le> 1"
  using assms
proof (induction xs)
  case (Cons x xs)
  have IH: "length (filter P xs) \<le> 1" by (rule Cons.IH) (use Cons.prems in auto)
  show ?case
  proof (cases "P x")
    case True
    have "filter P xs = []"
      unfolding filter_empty_conv
    proof (intro ballI notI)
      fix y assume y: "y \<in> set xs" "P y"
      then have "key x = key y" using Cons.prems(2) [of x y] True by simp
      then have "key x \<in> key ` set xs" using y(1) by simp
      then show False using Cons.prems(1) by simp
    qed
    then show ?thesis using True by simp
  qed (use IH in simp)
qed simp

end
