(* ===== verification/PyText.thy ===== *)
theory PyText
  imports Prelude
begin

text \<open>
  The part of Python's text and number handling that the services use on request values:
  \<open>str.strip\<close>, \<open>str.lower\<close>, \<open>str.upper\<close>, \<open>str.isalpha\<close>, \<open>str.split\<close>, slicing, \<open>in\<close> on
  strings, \<open>int(...)\<close> of text, zero-padded formatting, and \<open>str\<close> of an integer.
  A Python string is a list of characters; the case and blank classes are those of the ASCII
  range, other characters are passed through unchanged.
  \<open>scalar\<close> is a request value (JSON or form field): \<open>None\<close>, a bool, an int or a string.
  A JSON number with a fraction arrives as the text Python's \<open>str\<close> gives it.
\<close>

subsection \<open>Blank, lower and upper case\<close>

definition is_blank :: "char \<Rightarrow> bool" where
  "is_blank c \<longleftrightarrow> (let n = (of_char c :: nat) in (9 \<le> n \<and> n \<le> 13) \<or> (28 \<le> n \<and> n \<le> 32))"

definition strip :: "string \<Rightarrow> string" where
  "strip s = rev (dropWhile is_blank (rev (dropWhile is_blank s)))"

definition lower_char :: "char \<Rightarrow> char" where
  "lower_char c = (let n = (of_char c :: nat) in if 65 \<le> n \<and> n \<le> 90 then char_of (n + 32) else c)"

definition upper_char :: "char \<Rightarrow> char" where
  "upper_char c = (let n = (of_char c :: nat) in if 97 \<le> n \<and> n \<le> 122 then char_of (n - 32) else c)"

definition lower :: "string \<Rightarrow> string" where "lower s = map lower_char s"
definition upper :: "string \<Rightarrow> string" where "upper s = map upper_char s"

definition is_alpha_char :: "char \<Rightarrow> bool" where
  "is_alpha_char c \<longleftrightarrow>
     (let n = (of_char c :: nat) in (65 \<le> n \<and> n \<le> 90) \<or> (97 \<le> n \<and> n \<le> 122))"

definition is_alpha :: "string \<Rightarrow> bool" where
  "is_alpha s \<longleftrightarrow> s \<noteq> [] \<and> list_all is_alpha_char s"

definition is_digit :: "char \<Rightarrow> bool" where
  "is_digit c \<longleftrightarrow> (let n = (of_char c :: nat) in 48 \<le> n \<and> n \<le> 57)"

definition starts_with :: "string \<Rightarrow> string \<Rightarrow> bool" where
  "starts_with p s \<longleftrightarrow> take (length p) s = p"

fun contains :: "string \<Rightarrow> string \<Rightarrow> bool" where
  "contains p [] = (p = [])"
| "contains p (c # s) = (starts_with p (c # s) \<or> contains p s)"

fun split_on :: "char \<Rightarrow> string \<Rightarrow> string list" where
  "split_on c [] = [[]]"
| "split_on c (x # xs) =
     (if x = c then [] # split_on c xs
      else (case split_on c xs of [] \<Rightarrow> [[x]] | w # ws \<Rightarrow> (x # w) # ws))"

fun join_with :: "string \<Rightarrow> string list \<Rightarrow> string" where
  "join_with sep [] = []"
| "join_with sep [x] = x"
| "join_with sep (x # xs) = x @ sep @ join_with sep xs"

text \<open>The text before the first occurrence of a character, all of it when there is none.\<close>

definition before_char :: "char \<Rightarrow> string \<Rightarrow> string" where
  "before_char c s = takeWhile (\<lambda>x. x \<noteq> c) s"

subsection \<open>Decimal digits\<close>

definition digit_of :: "nat \<Rightarrow> char" where "digit_of d = char_of (48 + d)"
definition val_of :: "char \<Rightarrow> nat" where "val_of c = of_char c - 48"

lemma digit_of_simps [simp]:
  "digit_of 0 = CHR ''0''" "digit_of (Suc 0) = CHR ''1''" "digit_of 1 = CHR ''1''" "digit_of 2 = CHR ''2''"
  "digit_of 3 = CHR ''3''" "digit_of 4 = CHR ''4''" "digit_of 5 = CHR ''5''" "digit_of 6 = CHR ''6''"
  "digit_of 7 = CHR ''7''" "digit_of 8 = CHR ''8''" "digit_of 9 = CHR ''9''"
  by (simp_all add: digit_of_def char_of_def bit_iff_odd)

fun show_nat :: "nat \<Rightarrow> string" where
  "show_nat n = (if n < 10 then [digit_of n] else show_nat (n div 10) @ [digit_of (n mod 10)])"

declare show_nat.simps [simp del]

definition show_int :: "int \<Rightarrow> string" where
  "show_int i = (if i < 0 then CHR ''-'' # show_nat (nat (- i)) else show_nat (nat i))"

definition digits_val :: "string \<Rightarrow> nat" where
  "digits_val s = foldl (\<lambda>a c. 10 * a + val_of c) 0 s"

definition all_digits :: "string \<Rightarrow> bool" where
  "all_digits s \<longleftrightarrow> s \<noteq> [] \<and> list_all is_digit s"

text \<open>\<open>f"{n:0wd}"\<close> of a non-negative number: zeros on the left up to width \<open>w\<close>.\<close>

definition pad0 :: "nat \<Rightarrow> nat \<Rightarrow> string" where
  "pad0 w n = (let s = show_nat n in replicate (w - length s) (CHR ''0'') @ s)"

definition fmt0 :: "nat \<Rightarrow> int \<Rightarrow> string" where
  "fmt0 w i = (if i < 0 then CHR ''-'' # pad0 (w - 1) (nat (- i)) else pad0 w (nat i))"

lemma is_digit_digit_of: "d < 10 \<Longrightarrow> is_digit (digit_of d)"
  by (simp add: is_digit_def digit_of_def Let_def)

lemma val_digit_of: "d < 10 \<Longrightarrow> val_of (digit_of d) = d"
  by (simp add: val_of_def digit_of_def)

lemma digits_val_snoc [simp]: "digits_val (s @ [c]) = 10 * digits_val s + val_of c"
  by (simp add: digits_val_def)

lemma digits_val_Nil [simp]: "digits_val [] = 0"
  by (simp add: digits_val_def)

lemma show_nat_nonempty [simp]: "show_nat n \<noteq> []"
  by (subst show_nat.simps) simp

lemma show_nat_digits: "list_all is_digit (show_nat n)"
proof (induction n rule: show_nat.induct)
  case (1 n)
  then show ?case
    by (subst show_nat.simps) (auto simp: is_digit_digit_of)
qed

lemma all_digits_show_nat [simp]: "all_digits (show_nat n)"
  by (simp add: all_digits_def show_nat_digits)

lemma digits_val_show_nat [simp]: "digits_val (show_nat n) = n"
proof (induction n rule: show_nat.induct)
  case (1 n)
  show ?case
  proof (cases "n < 10")
    case True
    then show ?thesis by (subst show_nat.simps) (simp add: digits_val_def val_digit_of)
  next
    case False
    with 1 have "digits_val (show_nat (n div 10)) = n div 10" by simp
    with False show ?thesis by (subst show_nat.simps) (simp add: val_digit_of)
  qed
qed

lemma digits_val_append: "digits_val (s @ t) = digits_val s * 10 ^ length t + digits_val t"
  by (induction t rule: rev_induct) (simp_all add: append_assoc [symmetric] del: append_assoc)

lemma digits_val_zeros [simp]: "digits_val (replicate k (CHR ''0'')) = 0"
  by (induction k) (simp_all add: digits_val_def val_of_def)

lemma list_all_replicate: "list_all P (replicate k c) \<longleftrightarrow> k = 0 \<or> P c"
  by (induction k) auto

lemma digits_val_pad0 [simp]: "digits_val (pad0 w n) = n"
  by (simp add: pad0_def Let_def digits_val_append)

lemma all_digits_pad0 [simp]: "all_digits (pad0 w n)"
  using show_nat_digits [of n]
  by (simp add: pad0_def Let_def all_digits_def list_all_replicate is_digit_def)

lemma length_show_nat_le: "n < 10 ^ k \<Longrightarrow> 0 < k \<Longrightarrow> length (show_nat n) \<le> k"
proof (induction k arbitrary: n)
  case 0
  then show ?case by simp
next
  case (Suc k)
  show ?case
  proof (cases "n < 10")
    case True
    then show ?thesis by (subst show_nat.simps) simp
  next
    case False
    with Suc.prems have "n div 10 < 10 ^ k" and "0 < k"
      by (auto simp: less_mult_imp_div_less mult.commute intro: Nat.gr0I)
    then have "length (show_nat (n div 10)) \<le> k" by (rule Suc.IH)
    with False show ?thesis by (subst show_nat.simps) simp
  qed
qed

lemma length_pad0: "n < 10 ^ w \<Longrightarrow> 0 < w \<Longrightarrow> length (pad0 w n) = w"
  using length_show_nat_le [of n w] by (simp add: pad0_def Let_def)

lemma length_pad0_ge: "w \<le> length (pad0 w n)"
  by (simp add: pad0_def Let_def)

lemma fmt0_inj:
  assumes "fmt0 w i = fmt0 w j" and "0 \<le> i" and "0 \<le> j"
  shows "i = j"
proof -
  from assms have "pad0 w (nat i) = pad0 w (nat j)" by (simp add: fmt0_def)
  then have "digits_val (pad0 w (nat i)) = digits_val (pad0 w (nat j))" by simp
  with assms show ?thesis by simp
qed

lemma show_int_inj:
  assumes "show_int i = show_int j" and "0 \<le> i" and "0 \<le> j"
  shows "i = j"
proof -
  from assms have "digits_val (show_nat (nat i)) = digits_val (show_nat (nat j))"
    by (simp add: show_int_def)
  with assms show ?thesis by simp
qed

subsection \<open>Request values\<close>

datatype scalar = SNone | SBool bool | SInt int | SStr string

fun truthy :: "scalar \<Rightarrow> bool" where
  "truthy SNone = False"
| "truthy (SBool b) = b"
| "truthy (SInt i) = (i \<noteq> 0)"
| "truthy (SStr s) = (s \<noteq> [])"

fun py_str :: "scalar \<Rightarrow> string" where
  "py_str SNone = ''None''"
| "py_str (SBool b) = (if b then ''True'' else ''False'')"
| "py_str (SInt i) = show_int i"
| "py_str (SStr s) = s"

text \<open>\<open>str(x or d)\<close>\<close>

definition str_or :: "scalar \<Rightarrow> string \<Rightarrow> string" where
  "str_or x d = (if truthy x then py_str x else d)"

datatype py_error = TypeError | ValueError | AttributeError | InvalidOperation | RuntimeError
  | IntegrityError | LookupError

text \<open>
  \<open>int(text)\<close>: blanks around, an optional sign, digits with single underscores between them.
\<close>

fun digit_groups :: "string list \<Rightarrow> string option" where
  "digit_groups [] = None"
| "digit_groups [g] = (if all_digits g then Some g else None)"
| "digit_groups (g # gs) =
     (if all_digits g then map_option (\<lambda>r. g @ r) (digit_groups gs) else None)"

definition int_of_text :: "string \<Rightarrow> int option" where
  "int_of_text s =
     (let t = strip s;
          neg = (case t of c # _ \<Rightarrow> c = CHR ''-'' | [] \<Rightarrow> False);
          sgn = (case t of c # _ \<Rightarrow> c = CHR ''-'' \<or> c = CHR ''+'' | [] \<Rightarrow> False);
          body = (if sgn then tl t else t)
      in map_option (\<lambda>d. (if neg then - int (digits_val d) else int (digits_val d)))
           (digit_groups (split_on (CHR ''_'') body)))"

fun py_int :: "scalar \<Rightarrow> py_error + int" where
  "py_int SNone = Inl TypeError"
| "py_int (SBool b) = Inr (if b then 1 else 0)"
| "py_int (SInt i) = Inr i"
| "py_int (SStr s) = (case int_of_text s of None \<Rightarrow> Inl ValueError | Some i \<Rightarrow> Inr i)"

text \<open>\<open>(x or "").strip()\<close> on a request value: a truthy non-string has no \<open>strip\<close>.\<close>

fun strip_text :: "scalar \<Rightarrow> py_error + string" where
  "strip_text (SStr s) = Inr (strip s)"
| "strip_text x = (if truthy x then Inl AttributeError else Inr '''')"

subsection \<open>Blank trimming\<close>

lemma strip_Nil [simp]: "strip [] = []"
  by (simp add: strip_def)

lemma strip_id:
  assumes "s \<noteq> [] \<Longrightarrow> \<not> is_blank (hd s) \<and> \<not> is_blank (last s)"
  shows "strip s = s"
proof (cases s)
  case Nil
  then show ?thesis by simp
next
  case (Cons c t)
  then have a: "dropWhile is_blank s = s" using assms by simp
  from Cons have "rev s \<noteq> []" by simp
  then have "dropWhile is_blank (rev s) = rev s"
    using assms Cons by (cases "rev s") (auto simp: hd_rev [symmetric])
  with a show ?thesis by (simp add: strip_def)
qed

lemma digit_not_blank: "is_digit c \<Longrightarrow> \<not> is_blank c"
  by (auto simp: is_digit_def is_blank_def Let_def)

lemma strip_digits:
  "s \<noteq> [] \<Longrightarrow> is_digit (hd s) \<Longrightarrow> is_digit (last s) \<Longrightarrow> strip s = s"
  by (rule strip_id) (simp add: digit_not_blank)


subsection \<open>\<open>int(str(i)) = i\<close>\<close>

lemma split_on_none: "c \<notin> set s \<Longrightarrow> split_on c s = [s]"
  by (induction s) auto

lemma int_of_digits:
  assumes "all_digits s"
  shows "int_of_text s = Some (int (digits_val s))"
proof -
  obtain c t where c: "s = c # t" "is_digit c" using assms by (cases s) (auto simp: all_digits_def)
  have l: "is_digit (last s)" using assms by (auto simp: all_digits_def list_all_iff)
  have "strip s = s" using c l by (intro strip_digits) auto
  moreover have "split_on (CHR ''_'') s = [s]"
    using assms by (intro split_on_none) (auto simp: all_digits_def list_all_iff is_digit_def Let_def)
  moreover have "c \<noteq> CHR ''-''" "c \<noteq> CHR ''+''" using c(2) by (auto simp: is_digit_def Let_def)
  ultimately show ?thesis using assms by (simp add: int_of_text_def c(1))
qed

lemma minus_not_blank: "\<not> is_blank (CHR ''-'')"
  by (simp add: is_blank_def)

lemma int_of_show_int [simp]: "int_of_text (show_int i) = Some i"
proof (cases "i < 0")
  case False
  then show ?thesis using int_of_digits [OF all_digits_show_nat] by (simp add: show_int_def)
next
  case True
  let ?d = "show_nat (nat (- i))"
  have d: "all_digits ?d" by simp
  have l: "is_digit (last ?d)" using d unfolding all_digits_def list_all_iff by auto
  have "strip (CHR ''-'' # ?d) = CHR ''-'' # ?d"
    by (rule strip_id) (use digit_not_blank [OF l] minus_not_blank in simp)
  moreover have "CHR ''_'' \<notin> set ?d"
    using d by (auto simp: all_digits_def list_all_iff is_digit_def Let_def)
  ultimately show ?thesis using True d
    by (simp add: int_of_text_def show_int_def split_on_none)
qed

lemma dropWhile_last: "dropWhile P xs \<noteq> [] \<Longrightarrow> last (dropWhile P xs) = last xs"
  by (induction xs) auto

lemma dropWhile_stop: "xs = [] \<or> \<not> P (hd xs) \<Longrightarrow> dropWhile P xs = xs"
  by (cases xs) auto

lemma strip_strip: "strip (strip s) = strip s"
proof -
  let ?a = "dropWhile is_blank s"
  let ?b = "rev (dropWhile is_blank (rev ?a))"
  have b: "strip s = ?b" by (simp add: strip_def)
  show ?thesis
  proof (cases "?b = []")
    case False
    then have "hd ?b = hd ?a"
      using dropWhile_last [of is_blank "rev ?a"] by (simp add: hd_rev last_rev)
    moreover have "?a \<noteq> []" using False by (metis dropWhile.simps(1) rev.simps(1))
    ultimately have "\<not> is_blank (hd ?b)" using hd_dropWhile [of is_blank s] by simp
    then have "dropWhile is_blank ?b = ?b" by (simp add: dropWhile_stop)
    then show ?thesis unfolding b by (simp add: strip_def)
  next
    case True
    then have "strip s = []" using b by (simp only:)
    then show ?thesis by simp
  qed
qed

lemma blank_lower_char [simp]: "is_blank (lower_char c) = is_blank c"
  by (simp add: is_blank_def lower_char_def Let_def)

lemma strip_lower: "strip (lower s) = lower (strip s)"
proof -
  have "dropWhile is_blank (map lower_char xs) = map lower_char (dropWhile is_blank xs)" for xs
    by (simp add: dropWhile_map comp_def)
  then show ?thesis by (simp add: strip_def lower_def rev_map)
qed

lemma lower_idem [simp]: "lower (lower s) = lower s"
proof -
  have c: "lower_char (lower_char c) = lower_char c" for c
  proof -
    have "(of_char (char_of (n + 32 :: nat)) :: nat) = n + 32" if "n \<le> 90" for n
      using that by (simp add: of_char_of)
    then show ?thesis by (auto simp: lower_char_def Let_def split: if_splits)
  qed
  then show ?thesis by (simp add: lower_def)
qed

lemma mail_once: "lower (strip (lower (strip e))) = lower (strip e)"
  by (simp add: strip_lower strip_strip)

end
