(* ===== verification/PyDate.thy ===== *)
theory PyDate
  imports PyText
begin

text \<open>
  Python's \<open>datetime.date\<close>, as its proleptic Gregorian ordinal: day 1 is 0001-01-01 and the last
  representable day, 9999-12-31, is \<open>max_ordinal\<close>. Comparison and \<open>timedelta(days=n)\<close> arithmetic
  are those of the ordinals. The theory gives the year-month-day view, \<open>isoformat\<close>,
  \<open>fromisoformat\<close> (calendar and week forms, with and without dashes), \<open>weekday\<close>, \<open>isocalendar\<close>,
  and the text of a UTC timestamp. Main facts: the year-month-day round trip and
  \<open>fromisoformat (isoformat d) = d\<close>.
\<close>

type_synonym date = int

subsection \<open>Days before a year and before a month\<close>

definition is_leap :: "int \<Rightarrow> bool" where
  "is_leap y \<longleftrightarrow> 4 dvd y \<and> (\<not> 100 dvd y \<or> 400 dvd y)"

definition days_before_year :: "int \<Rightarrow> int" where
  "days_before_year y = (let k = y - 1 in 365 * k + k div 4 - k div 100 + k div 400)"

definition month_starts :: "int list" where
  "month_starts = [0, 31, 59, 90, 120, 151, 181, 212, 243, 273, 304, 334]"

definition days_before_month :: "int \<Rightarrow> int \<Rightarrow> int" where
  "days_before_month y m =
     (month_starts ! nat (m - 1)) + (if 2 < m \<and> is_leap y then 1 else 0)"

definition days_in_month :: "int \<Rightarrow> int \<Rightarrow> int" where
  "days_in_month y m =
     (if m = 2 then (if is_leap y then 29 else 28)
      else if m = 4 \<or> m = 6 \<or> m = 9 \<or> m = 11 then 30 else 31)"

definition max_ordinal :: int where "max_ordinal = 3652059"

definition valid_date :: "date \<Rightarrow> bool" where
  "valid_date d \<longleftrightarrow> 1 \<le> d \<and> d \<le> max_ordinal"

definition valid_ymd :: "int \<Rightarrow> int \<Rightarrow> int \<Rightarrow> bool" where
  "valid_ymd y m d \<longleftrightarrow> 1 \<le> y \<and> y \<le> 9999 \<and> 1 \<le> m \<and> m \<le> 12 \<and> 1 \<le> d \<and> d \<le> days_in_month y m"

definition ordinal_of :: "int \<Rightarrow> int \<Rightarrow> int \<Rightarrow> date" where
  "ordinal_of y m d = days_before_year y + days_before_month y m + d"

text \<open>The year of a day: an estimate from the mean length of a year, which is at most one too low.\<close>

definition year_of :: "date \<Rightarrow> int" where
  "year_of n = (let y = (400 * (n - 1)) div 146097 + 1
                in if days_before_year (y + 1) < n then y + 1 else y)"

definition month_of_doy :: "int \<Rightarrow> int \<Rightarrow> int" where
  \<comment> \<open>month of the day of the year \<open>k\<close> (from 1)\<close>
  "month_of_doy y k = 1 + int (length (filter (\<lambda>m. days_before_month y m < k) [2..12]))"

definition month_of :: "date \<Rightarrow> int" where
  "month_of n = month_of_doy (year_of n) (n - days_before_year (year_of n))"

definition day_of :: "date \<Rightarrow> int" where
  "day_of n = n - days_before_year (year_of n) - days_before_month (year_of n) (month_of n)"

definition weekday :: "date \<Rightarrow> int" where
  \<comment> \<open>Monday is 0\<close>
  "weekday n = (n + 6) mod 7"

lemma div_plus_one:
  assumes "0 < (n::int)"
  shows "(k + 1) div n = k div n + (if n dvd (k + 1) then 1 else 0)"
proof (cases "k mod n + 1 = n")
  case True
  then have e: "k + 1 = n * (k div n + 1)"
    by (metis add.assoc distrib_left mult.right_neutral mult_div_mod_eq)
  have "n dvd (k + 1)" unfolding e by simp
  moreover have "(k + 1) div n = k div n + 1" unfolding e using assms by simp
  ultimately show ?thesis by simp
next
  case False
  have r: "0 \<le> k mod n + 1" "k mod n + 1 < n"
    using assms False pos_mod_bound [OF assms, of k] pos_mod_sign [OF assms, of k]
    by linarith+
  have m: "(k + 1) mod n = k mod n + 1"
    using r by (metis mod_add_left_eq mod_pos_pos_trivial)
  then have "\<not> n dvd (k + 1)" using assms by (simp add: dvd_eq_mod_eq_0 add_nonneg_eq_0_iff)
  moreover have "(k + 1) div n = k div n"
  proof -
    have "k + 1 = n * (k div n) + (k mod n + 1)" by simp
    then show ?thesis using r by (metis add.commute div_mult_self4 div_pos_pos_trivial add.right_neutral assms less_irrefl)
  qed
  ultimately show ?thesis by simp
qed

lemma leap_arith:
  assumes "b4 = a4 + (if p4 then 1 else (0::int))" and "b100 = a100 + (if p100 then 1 else (0::int))"
    and "b400 = a400 + (if p400 then 1 else (0::int))" and "p400 \<Longrightarrow> p100" and "p100 \<Longrightarrow> p4"
  shows "365 * y + b4 - b100 + b400 =
    365 * (y - 1) + a4 - a100 + a400 + (if p4 \<and> (\<not> p100 \<or> p400) then 366 else 365)"
  using assms by (cases p4; cases p100; cases p400) auto

lemma days_before_year_Suc:
  "days_before_year (y + 1) = days_before_year y + (if is_leap y then 366 else 365)"
proof -
  have d: "400 dvd y \<Longrightarrow> 100 dvd y" "100 dvd y \<Longrightarrow> 4 dvd y"
    by (auto intro: dvd_trans [of 100 400] dvd_trans [of 4 100])
  have e: "y div 4 = (y - 1) div 4 + (if 4 dvd y then 1 else 0)"
    "y div 100 = (y - 1) div 100 + (if 100 dvd y then 1 else 0)"
    "y div 400 = (y - 1) div 400 + (if 400 dvd y then 1 else 0)"
    using div_plus_one [of 4 "y - 1"] div_plus_one [of 100 "y - 1"] div_plus_one [of 400 "y - 1"]
    by (simp_all only: diff_add_cancel)
  have a: "days_before_year (y + 1) = 365 * y + y div 4 - y div 100 + y div 400"
    "days_before_year y = 365 * (y - 1) + (y - 1) div 4 - (y - 1) div 100 + (y - 1) div 400"
    by (simp_all only: days_before_year_def Let_def add_diff_cancel)
  show ?thesis
    unfolding a is_leap_def by (rule leap_arith [OF e d])
qed

lemma days_before_year_mono:
  assumes "x \<le> y"
  shows "days_before_year x \<le> days_before_year y"
  using assms
proof (induction y rule: int_ge_induct)
  case base
  show ?case by simp
next
  case (step i)
  then show ?case using days_before_year_Suc [of i] by (auto split: if_splits)
qed

lemma div_bounds:
  assumes "0 < (n::int)"
  shows "n * (k div n) \<le> k" and "k \<le> n * (k div n) + (n - 1)"
  using assms pos_mod_bound [OF assms, of k] pos_mod_sign [OF assms, of k]
    mult_div_mod_eq [of n k] by linarith+

lemma year_bounds:
  assumes "1 \<le> n"
  shows "days_before_year (year_of n) < n" and "n \<le> days_before_year (year_of n + 1)"
proof -
  define k where "k = (400 * (n - 1)) div 146097"
  have k: "146097 * k \<le> 400 * (n - 1)" "400 * (n - 1) < 146097 * (k + 1)"
    unfolding k_def using div_bounds [of 146097 "400 * (n - 1)"] by auto
  have lo: "400 * days_before_year (k + 1) \<le> 146097 * k + 399"
  proof -
    show ?thesis
      using div_bounds [of 4 k] div_bounds [of 100 k] div_bounds [of 400 k]
      by (simp add: days_before_year_def Let_def)
  qed
  have hi: "146097 * (k + 2) - 1000 \<le> 400 * days_before_year (k + 3)"
  proof -
    show ?thesis
      using div_bounds [of 4 "k + 2"] div_bounds [of 100 "k + 2"] div_bounds [of 400 "k + 2"]
      by (simp add: days_before_year_def Let_def add.commute)
  qed
  have "400 * days_before_year (k + 1) < 400 * n" using k(1) lo by (simp add: algebra_simps)
  then have 1: "days_before_year (k + 1) < n" by simp
  have "400 * (n - 1) < 400 * days_before_year (k + 3)" using k(2) hi by (simp add: algebra_simps)
  then have 2: "n \<le> days_before_year (k + 3)" by simp
  have y: "year_of n = (if days_before_year (k + 2) < n then k + 2 else k + 1)"
    by (simp add: year_of_def k_def Let_def add.commute add.left_commute)
  show "days_before_year (year_of n) < n" using 1 by (simp add: y)
  show "n \<le> days_before_year (year_of n + 1)" using 2 by (simp add: y add.commute add.left_commute)
qed

lemma year_unique:
  assumes "days_before_year y < n" and "n \<le> days_before_year (y + 1)" and "1 \<le> n"
  shows "year_of n = y"
proof (rule ccontr)
  assume "year_of n \<noteq> y"
  then consider "year_of n + 1 \<le> y" | "y + 1 \<le> year_of n" by linarith
  then show False
    using year_bounds [OF assms(3)] assms(1,2) days_before_year_mono
    by cases (meson leD le_less_trans less_le_trans)+
qed

lemma month_starts_nth:
  assumes "1 \<le> m" and "m \<le> (12::int)"
  shows "m \<in> {1, 2, 3, 4, 5, 6, 7, 8, 9, 10, 11, 12}"
proof -
  have "{1..12::int} = {1, 2, 3, 4, 5, 6, 7, 8, 9, 10, 11, 12}"
    by (simp add: upto.simps flip: set_upto)
  with assms show ?thesis by (metis atLeastAtMost_iff)
qed

lemma upto_2_12: "[2..12] = [2, 3, 4, 5, 6, 7, 8, 9, 10, 11, 12::int]"
  by (simp add: upto.simps)

lemma doy_bounds:
  assumes "1 \<le> m" and "m \<le> 12" and "1 \<le> d" and "d \<le> days_in_month y m"
  shows "1 \<le> days_before_month y m + d"
    and "days_before_month y m + d \<le> (if is_leap y then 366 else 365)"
    and "month_of_doy y (days_before_month y m + d) = m"
proof -
  have m: "m \<in> {1, 2, 3, 4, 5, 6, 7, 8, 9, 10, 11, 12}"
    using month_starts_nth assms by blast
  note defs = days_before_month_def month_starts_def days_in_month_def
  show "1 \<le> days_before_month y m + d"
    using m assms(3) by (auto simp: defs)
  show "days_before_month y m + d \<le> (if is_leap y then 366 else 365)"
    using m assms(4) by (auto simp: defs split: if_splits)
  show "month_of_doy y (days_before_month y m + d) = m"
    using m assms(3,4)
    by (elim insertE emptyE) (simp_all add: month_of_doy_def upto_2_12 defs split: if_splits)
qed

lemma ordinal_of_bounds:
  assumes "valid_ymd y m d"
  shows "days_before_year y < ordinal_of y m d" and "ordinal_of y m d \<le> days_before_year (y + 1)"
    and "valid_date (ordinal_of y m d)"
proof -
  from assms have v: "1 \<le> m" "m \<le> 12" "1 \<le> d" "d \<le> days_in_month y m" "1 \<le> y" "y \<le> 9999"
    by (auto simp: valid_ymd_def)
  note b = doy_bounds(1,2) [OF v(1-4)]
  show 1: "days_before_year y < ordinal_of y m d" using b by (simp add: ordinal_of_def)
  show 2: "ordinal_of y m d \<le> days_before_year (y + 1)"
    using b days_before_year_Suc [of y] by (simp add: ordinal_of_def split: if_splits)
  have "days_before_year 1 \<le> days_before_year y" "days_before_year (y + 1) \<le> days_before_year 10000"
    using v by (auto intro: days_before_year_mono)
  then show "valid_date (ordinal_of y m d)"
    using 1 2 by (simp add: valid_date_def max_ordinal_def days_before_year_def [of 1]
        days_before_year_def [of 10000] Let_def)
qed

lemma year_of_ordinal: "valid_ymd y m d \<Longrightarrow> year_of (ordinal_of y m d) = y"
  using ordinal_of_bounds by (intro year_unique) (auto simp: valid_date_def)

lemma month_of_ordinal:
  assumes "valid_ymd y m d"
  shows "month_of (ordinal_of y m d) = m"
  using doy_bounds(3) [of m d y] assms
  unfolding month_of_def year_of_ordinal [OF assms]
  by (simp add: ordinal_of_def valid_ymd_def)

lemma day_of_ordinal:
  assumes "valid_ymd y m d"
  shows "day_of (ordinal_of y m d) = d"
  unfolding day_of_def year_of_ordinal [OF assms] month_of_ordinal [OF assms]
  by (simp add: ordinal_of_def)

text \<open>Every valid day has a year, month and day, and the ordinal can be rebuilt from them.\<close>

lemma doy_split:
  assumes "1 \<le> k" and "k \<le> (if is_leap y then 366 else 365)"
  obtains m d where "1 \<le> m" "m \<le> 12" "1 \<le> d" "d \<le> days_in_month y m"
    "k = days_before_month y m + d"
proof -
  note defs = days_before_month_def month_starts_def days_in_month_def
  have "\<exists>m\<in>{1, 2, 3, 4, 5, 6, 7, 8, 9, 10, 11, 12}.
      days_before_month y m < k \<and> k \<le> days_before_month y m + days_in_month y m"
    using assms by (cases "is_leap y") (simp add: defs; linarith)+
  then obtain m where m: "m \<in> {1, 2, 3, 4, 5, 6, 7, 8, 9, 10, 11, 12}"
    and k: "days_before_month y m < k" "k \<le> days_before_month y m + days_in_month y m" by blast
  show ?thesis
    by (rule that [of m "k - days_before_month y m"]) (use m k in auto)
qed

lemma ymd_of_ordinal:
  assumes "valid_date n"
  shows "valid_ymd (year_of n) (month_of n) (day_of n)"
    and "ordinal_of (year_of n) (month_of n) (day_of n) = n"
proof -
  let ?y = "year_of n"
  have n: "1 \<le> n" "n \<le> max_ordinal" using assms by (auto simp: valid_date_def)
  note b = year_bounds [OF n(1)]
  have y1: "1 \<le> ?y"
  proof (rule ccontr)
    assume "\<not> 1 \<le> ?y"
    then have "days_before_year (?y + 1) \<le> days_before_year 1" by (intro days_before_year_mono) simp
    then show False using b n by (simp add: days_before_year_def [of 1] Let_def)
  qed
  have y2: "?y \<le> 9999"
  proof (rule ccontr)
    assume "\<not> ?y \<le> 9999"
    then have "days_before_year 10000 \<le> days_before_year ?y" by (intro days_before_year_mono) simp
    then show False using b n by (simp add: days_before_year_def [of 10000] Let_def max_ordinal_def)
  qed
  have "1 \<le> n - days_before_year ?y" "n - days_before_year ?y \<le> (if is_leap ?y then 366 else 365)"
    using b days_before_year_Suc [of ?y] by (auto split: if_splits)
  then obtain m d where md: "1 \<le> m" "m \<le> 12" "1 \<le> d" "d \<le> days_in_month ?y m"
    and e: "n - days_before_year ?y = days_before_month ?y m + d" by (rule doy_split)
  have v: "valid_ymd ?y m d" using md y1 y2 by (simp add: valid_ymd_def)
  have o: "ordinal_of ?y m d = n" using e by (simp add: ordinal_of_def)
  have "month_of n = m" "day_of n = d"
    using month_of_ordinal [OF v] day_of_ordinal [OF v] by (simp_all add: o)
  with v o show "valid_ymd ?y (month_of n) (day_of n)"
    and "ordinal_of ?y (month_of n) (day_of n) = n" by simp_all
qed

subsection \<open>Text of a date\<close>

definition isoformat :: "date \<Rightarrow> string" where
  "isoformat n = fmt0 4 (year_of n) @ ''-'' @ fmt0 2 (month_of n) @ ''-'' @ fmt0 2 (day_of n)"

definition mk_date :: "int \<Rightarrow> int \<Rightarrow> int \<Rightarrow> date option" where
  "mk_date y m d = (if valid_ymd y m d then Some (ordinal_of y m d) else None)"

text \<open>ISO weeks: week 1 of a year is the one that holds its first Thursday.\<close>

definition week1_monday :: "int \<Rightarrow> date" where
  "week1_monday y =
     (let first = ordinal_of y 1 1; wd = weekday first; mon = first - wd
      in if 3 < wd then mon + 7 else mon)"

definition date_of_isoweek :: "int \<Rightarrow> int \<Rightarrow> int \<Rightarrow> date option" where
  "date_of_isoweek y w d =
     (let n = week1_monday y + 7 * (w - 1) + (d - 1);
          last = (week1_monday (y + 1) - week1_monday y) div 7
      in if 1 \<le> y \<and> y \<le> 9999 \<and> 1 \<le> w \<and> w \<le> last \<and> 1 \<le> d \<and> d \<le> 7 \<and> valid_date n
         then Some n else None)"

definition iso_year :: "date \<Rightarrow> int" where
  "iso_year n =
     (let y = year_of n
      in if n < week1_monday y then y - 1
         else if week1_monday (y + 1) \<le> n then y + 1 else y)"

definition iso_week :: "date \<Rightarrow> int" where
  "iso_week n = (n - week1_monday (iso_year n)) div 7 + 1"

definition num :: "string \<Rightarrow> int" where "num s = int (digits_val s)"

text \<open>
  \<open>date.fromisoformat\<close>: YYYY-MM-DD, YYYYMMDD, YYYY-Www-D, YYYYWwwD, YYYY-Www and YYYYWww.
\<close>

definition fromisoformat :: "string \<Rightarrow> date option" where
  "fromisoformat s =
     (let y = take 4 s; r = drop 4 s in
      if \<not> list_all is_digit y \<or> length y \<noteq> 4 then None
      else if length s = 10 \<and> r ! 0 = CHR ''-'' \<and> r ! 1 = CHR ''W'' \<and> r ! 4 = CHR ''-''
           \<and> list_all is_digit [r ! 2, r ! 3, r ! 5]
        then date_of_isoweek (num y) (num [r ! 2, r ! 3]) (num [r ! 5])
      else if length s = 10 \<and> r ! 0 = CHR ''-'' \<and> r ! 3 = CHR ''-''
           \<and> list_all is_digit [r ! 1, r ! 2, r ! 4, r ! 5]
        then mk_date (num y) (num [r ! 1, r ! 2]) (num [r ! 4, r ! 5])
      else if length s = 8 \<and> r ! 0 = CHR ''-'' \<and> r ! 1 = CHR ''W''
           \<and> list_all is_digit [r ! 2, r ! 3]
        then date_of_isoweek (num y) (num [r ! 2, r ! 3]) 1
      else if length s = 8 \<and> r ! 0 = CHR ''W'' \<and> list_all is_digit [r ! 1, r ! 2, r ! 3]
        then date_of_isoweek (num y) (num [r ! 1, r ! 2]) (num [r ! 3])
      else if length s = 7 \<and> r ! 0 = CHR ''W'' \<and> list_all is_digit [r ! 1, r ! 2]
        then date_of_isoweek (num y) (num [r ! 1, r ! 2]) 1
      else if length s = 8 \<and> list_all is_digit r
        then mk_date (num y) (num (take 2 r)) (num (drop 2 r))
      else None)"

lemma two_digits:
  assumes "0 \<le> m" and "m < 100"
  obtains a b where "fmt0 2 m = [a, b]" "is_digit a" "is_digit b" "num [a, b] = m"
proof -
  have "length (pad0 2 (nat m)) = 2" using assms by (intro length_pad0) auto
  then obtain a b where ab: "pad0 2 (nat m) = [a, b]"
    by (auto simp: length_Suc_conv numeral_2_eq_2)
  then have "all_digits [a, b]" "digits_val [a, b] = nat m"
    by (metis all_digits_pad0, metis digits_val_pad0)
  with ab assms that [of a b] show thesis by (simp add: fmt0_def num_def all_digits_def)
qed

lemma four_digits:
  assumes "0 \<le> y" and "y < 10000"
  shows "length (fmt0 4 y) = 4" and "list_all is_digit (fmt0 4 y)" and "num (fmt0 4 y) = y"
  using assms length_pad0 [of "nat y" 4] all_digits_pad0 [of 4 "nat y"]
  by (auto simp: fmt0_def num_def all_digits_def)

lemma digit_chars: "is_digit c \<Longrightarrow> c \<noteq> CHR ''W'' \<and> c \<noteq> CHR ''-''"
  by (auto simp: is_digit_def Let_def)

lemma ymd_small:
  assumes "valid_ymd y m d"
  shows "0 \<le> y" "y < 10000" "0 \<le> m" "m < 100" "0 \<le> d" "d < 100"
  using assms by (auto simp: valid_ymd_def days_in_month_def split: if_splits)

theorem fromisoformat_isoformat:
  assumes "valid_date n"
  shows "fromisoformat (isoformat n) = Some n"
proof -
  note v = ymd_of_ordinal [OF assms]
  note sm = ymd_small [OF v(1)]
  note y4 = four_digits [OF sm(1,2)]
  obtain a b where m: "fmt0 2 (month_of n) = [a, b]" "is_digit a" "is_digit b" "num [a, b] = month_of n"
    using two_digits [OF sm(3,4)] .
  obtain c d where d: "fmt0 2 (day_of n) = [c, d]" "is_digit c" "is_digit d" "num [c, d] = day_of n"
    using two_digits [OF sm(5,6)] .
  have iso: "isoformat n = fmt0 4 (year_of n) @ [CHR ''-'', a, b, CHR ''-'', c, d]"
    by (simp add: isoformat_def m d)
  show ?thesis
    using m d y4 v digit_chars [OF m(2)]
    by (simp add: fromisoformat_def iso mk_date_def)
qed

lemma strip_isoformat:
  assumes "valid_date n"
  shows "strip (isoformat n) = isoformat n"
proof -
  note v = ymd_of_ordinal [OF assms]
  note sm = ymd_small [OF v(1)]
  note y4 = four_digits [OF sm(1,2)]
  obtain c d where d: "fmt0 2 (day_of n) = [c, d]" "is_digit c" "is_digit d"
    using two_digits [OF sm(5,6)] by metis
  obtain x xs where x: "fmt0 4 (year_of n) = x # xs" using y4(1) by (cases "fmt0 4 (year_of n)") auto
  with y4(2) have "is_digit x" by simp
  with d x show ?thesis by (intro strip_digits) (simp_all add: isoformat_def)
qed

lemma fromisoformat_valid: "fromisoformat s = Some n \<Longrightarrow> valid_date n"
  using ordinal_of_bounds(3)
  by (auto simp: fromisoformat_def mk_date_def date_of_isoweek_def Let_def split: if_splits)

lemma isoformat_inj: "valid_date a \<Longrightarrow> valid_date b \<Longrightarrow> isoformat a = isoformat b \<Longrightarrow> a = b"
  by (metis fromisoformat_isoformat option.inject)

lemma weekday_range: "0 \<le> weekday n \<and> weekday n < 7"
  unfolding weekday_def by simp

subsection \<open>UTC timestamps\<close>

text \<open>A timestamp is the number of microseconds since 1970-01-01T00:00:00Z.\<close>

type_synonym stamp = int

definition us_per_second :: int where "us_per_second = 1000000"
definition us_per_day :: int where "us_per_day = 86400 * us_per_second"
definition epoch_ordinal :: date where "epoch_ordinal = 719163"

definition seconds :: "int \<Rightarrow> stamp" where "seconds n = n * us_per_second"
definition hours :: "int \<Rightarrow> stamp" where "hours n = n * 3600 * us_per_second"
definition days :: "int \<Rightarrow> stamp" where "days n = n * us_per_day"

definition utc_date :: "stamp \<Rightarrow> date" where "utc_date t = t div us_per_day + epoch_ordinal"
definition utc_midnight :: "date \<Rightarrow> stamp" where "utc_midnight d = (d - epoch_ordinal) * us_per_day"

text \<open>\<open>isoformat\<close> of an aware UTC datetime: the fraction is printed when it is not zero.\<close>

definition stamp_iso :: "stamp \<Rightarrow> string" where
  "stamp_iso t =
     (let us = t mod us_per_day; s = us div us_per_second; f = us mod us_per_second
      in isoformat (utc_date t) @ ''T'' @ fmt0 2 (s div 3600) @ '':'' @ fmt0 2 (s div 60 mod 60)
         @ '':'' @ fmt0 2 (s mod 60) @ (if f = 0 then '''' else ''.'' @ fmt0 6 f) @ ''+00:00'')"

lemma utc_date_midnight [simp]: "utc_date (utc_midnight d) = d"
  by (simp add: utc_date_def utc_midnight_def us_per_day_def us_per_second_def)

lemma seconds_mono: "m \<le> n \<Longrightarrow> seconds m \<le> seconds n"
  by (simp add: seconds_def us_per_second_def)

end
