(* ===== verification/Money.thy ===== *)
theory Money
  imports PyText
begin

text \<open>
  Python's \<open>decimal.Decimal\<close> as far as the services use it. A finite decimal is \<open>DFin c e\<close>, the
  value \<open>c * 10 ^ e\<close>; infinities and the two kinds of NaN are kept, because a request can spell
  them. Parsing from text is exact; \<open>quantize\<close> to two places and multiplication work in the
  default context of 28 digits. Stored money columns (\<open>Numeric(_, 2)\<close>) are an \<open>int\<close> number of
  cents. Main facts: the two rounding rules are within half a unit, and parsing the text of a
  stored amount gives the amount back.
\<close>

type_synonym cents = int

datatype decimal = DFin int int | DInf | DNaN bool
  \<comment> \<open>\<open>DNaN True\<close> is the signalling one\<close>

datatype rounding = HalfEven | HalfUp

definition div_half_even :: "int \<Rightarrow> int \<Rightarrow> int" where
  "div_half_even n d =
     (let q = n div d; r = n mod d
      in if 2 * r < d then q else if d < 2 * r then q + 1 else if even q then q else q + 1)"

definition div_half_up :: "int \<Rightarrow> int \<Rightarrow> int" where
  "div_half_up n d = sgn n * ((2 * \<bar>n\<bar> + d) div (2 * d))"

fun round_div :: "rounding \<Rightarrow> int \<Rightarrow> int \<Rightarrow> int" where
  "round_div HalfEven n d = div_half_even n d"
| "round_div HalfUp n d = div_half_up n d"

definition context_limit :: int where "context_limit = 10 ^ 28"

definition to_cents :: "rounding \<Rightarrow> int \<Rightarrow> int \<Rightarrow> cents" where
  "to_cents rnd c e =
     (if - 2 \<le> e then c * 10 ^ nat (e + 2) else round_div rnd c (10 ^ nat (- 2 - e)))"

text \<open>\<open>d.quantize(Decimal("0.01"), rounding=rnd)\<close>; \<open>None\<close> is \<open>InvalidOperation\<close>.\<close>

fun quantize :: "rounding \<Rightarrow> decimal \<Rightarrow> decimal option" where
  "quantize rnd (DFin c e) =
     (let n = to_cents rnd c e in if \<bar>n\<bar> < context_limit then Some (DFin n (- 2)) else None)"
| "quantize rnd DInf = None"
| "quantize rnd (DNaN signalling) = (if signalling then None else Some (DNaN False))"

text \<open>A product, rounded half-even to the 28 digits of the context.\<close>

definition context_round :: "int \<Rightarrow> int \<Rightarrow> int \<times> int" where
  "context_round c e =
     (if \<bar>c\<bar> < context_limit then (c, e)
      else let k = length (show_nat (nat \<bar>c\<bar>)) - 28
           in (div_half_even c (10 ^ k), e + int k))"

definition context_mult :: "int \<times> int \<Rightarrow> int \<times> int \<Rightarrow> int \<times> int" where
  "context_mult a b = context_round (fst a * fst b) (snd a + snd b)"

subsection \<open>\<open>Decimal(text)\<close>\<close>

definition exponent_of :: "string \<Rightarrow> int option" where
  "exponent_of s =
     (let neg = (s \<noteq> [] \<and> hd s = CHR ''-''); sgn = (s \<noteq> [] \<and> (hd s = CHR ''-'' \<or> hd s = CHR ''+''));
          ds = (if sgn then tl s else s)
      in if all_digits ds then Some (if neg then - int (digits_val ds) else int (digits_val ds))
         else None)"

definition mantissa_of :: "string \<Rightarrow> (int \<times> int) option" where
  "mantissa_of s =
     (let w = takeWhile (\<lambda>c. c \<noteq> CHR ''.'') s; rest = drop (length w) s;
          f = (if rest = [] then [] else tl rest)
      in if all_digits (w @ f) then Some (int (digits_val (w @ f)), int (length f)) else None)"

definition parse_decimal :: "string \<Rightarrow> decimal option" where
  "parse_decimal text =
     (let t = lower (filter (\<lambda>c. c \<noteq> CHR ''_'') (strip text));
          neg = (t \<noteq> [] \<and> hd t = CHR ''-''); sgn = (t \<noteq> [] \<and> (hd t = CHR ''-'' \<or> hd t = CHR ''+''));
          b = (if sgn then tl t else t);
          m = takeWhile (\<lambda>c. c \<noteq> CHR ''e'') b; rest = drop (length m) b
      in if b = ''inf'' \<or> b = ''infinity'' then Some DInf
         else if starts_with ''nan'' b \<and> list_all is_digit (drop 3 b) then Some (DNaN False)
         else if starts_with ''snan'' b \<and> list_all is_digit (drop 4 b) then Some (DNaN True)
         else (case mantissa_of m of None \<Rightarrow> None
               | Some (c, k) \<Rightarrow>
                   (case (if rest = [] then Some 0 else exponent_of (tl rest)) of
                      None \<Rightarrow> None
                    | Some e \<Rightarrow> Some (DFin (if neg then - c else c) (e - k)))))"

subsection \<open>\<open>str(amount)\<close> of a stored amount\<close>

definition money_str :: "cents \<Rightarrow> string" where
  "money_str c =
     (if c < 0 then ''-'' else '''') @ show_nat (nat \<bar>c\<bar> div 100) @ ''.'' @ pad0 2 (nat \<bar>c\<bar> mod 100)"

lemma context_limit_pos [simp]: "0 < context_limit"
  by (simp add: context_limit_def)

lemma digit_plain:
  assumes "is_digit c"
  shows "lower_char c = c" "c \<noteq> CHR ''_''" "c \<noteq> CHR ''e''" "c \<noteq> CHR ''.''" "c \<noteq> CHR ''-''"
    "c \<noteq> CHR ''+''" "c \<noteq> CHR ''i''" "c \<noteq> CHR ''n''" "c \<noteq> CHR ''s''"
  using assms by (auto simp: is_digit_def lower_char_def Let_def)

lemma digits_plain:
  assumes "list_all is_digit s"
  shows "map lower_char s = s" "filter (\<lambda>c. c \<noteq> CHR ''_'') s = s"
    "takeWhile (\<lambda>c. c \<noteq> CHR ''e'') s = s" "takeWhile (\<lambda>c. c \<noteq> CHR ''.'') s = s"
  using assms by (induction s) (auto simp: digit_plain)

lemma takeWhile_digits_append:
  assumes "list_all is_digit s"
  shows "takeWhile (\<lambda>c. c \<noteq> CHR ''e'') (s @ t) = s @ takeWhile (\<lambda>c. c \<noteq> CHR ''e'') t"
    "takeWhile (\<lambda>c. c \<noteq> CHR ''.'') (s @ t) = s @ takeWhile (\<lambda>c. c \<noteq> CHR ''.'') t"
  using assms by (induction s) (auto simp: digit_plain)

lemma length_pad0_two: "n < 100 \<Longrightarrow> length (pad0 2 n) = 2"
  using length_pad0 [of n 2] by simp

text \<open>The text of an amount without its sign is digits, a point and two digits.\<close>

lemma money_text_parse:
  fixes n :: nat
  defines "w \<equiv> show_nat (n div 100)" and "f \<equiv> pad0 2 (n mod 100)"
  shows "mantissa_of (w @ CHR ''.'' # f) = Some (int n, 2)"
    and "takeWhile (\<lambda>c. c \<noteq> CHR ''e'') (w @ CHR ''.'' # f) = w @ CHR ''.'' # f"
proof -
  have dw: "all_digits w" and df: "all_digits f" by (simp_all add: w_def f_def)
  have lf: "length f = 2" by (simp add: f_def length_pad0_two)
  have "takeWhile (\<lambda>c. c \<noteq> CHR ''.'') (w @ CHR ''.'' # f) = w"
    using dw by (simp add: all_digits_def takeWhile_digits_append)
  moreover have "digits_val (w @ f) = n"
    using lf by (simp add: digits_val_append w_def f_def)
  ultimately show "mantissa_of (w @ CHR ''.'' # f) = Some (int n, 2)"
    using dw df lf by (simp add: mantissa_of_def Let_def all_digits_def)
  show "takeWhile (\<lambda>c. c \<noteq> CHR ''e'') (w @ CHR ''.'' # f) = w @ CHR ''.'' # f"
    using dw df digits_plain(3) [of f] by (simp add: all_digits_def takeWhile_digits_append)
qed

theorem parse_money_str: "parse_decimal (money_str c) = Some (DFin c (- 2))"
proof -
  define n where "n = nat \<bar>c\<bar>"
  define b where "b = show_nat (n div 100) @ CHR ''.'' # pad0 2 (n mod 100)"
  have str: "money_str c = (if c < 0 then CHR ''-'' # b else b)"
    by (simp add: money_str_def b_def n_def)
  obtain d ds where d: "show_nat (n div 100) = d # ds" "is_digit d"
    using show_nat_digits [of "n div 100"] show_nat_nonempty [of "n div 100"]
    by (cases "show_nat (n div 100)") auto
  have dl: "pad0 2 (n mod 100) \<noteq> []" "is_digit (last (pad0 2 (n mod 100)))"
    using all_digits_pad0 [of 2 "n mod 100"] unfolding all_digits_def
    by (auto simp: list_all_iff last_in_set)
  have last: "last b = last (pad0 2 (n mod 100))" using dl by (simp add: b_def)
  have hd: "hd b = d" "b \<noteq> []" by (simp_all add: b_def d)
  have s1: "strip (money_str c) = money_str c"
    unfolding str using d dl last hd digit_not_blank
    by (intro strip_id) (auto simp: is_blank_def Let_def)
  have lowb: "lower b = b" "filter (\<lambda>c. c \<noteq> CHR ''_'') b = b"
    using show_nat_digits [of "n div 100"] all_digits_pad0 [of 2 "n mod 100"]
    by (auto simp: b_def lower_def all_digits_def digits_plain lower_char_def)
  have t: "lower (filter (\<lambda>c. c \<noteq> CHR ''_'') (strip (money_str c))) = money_str c"
    unfolding s1 using lowb by (auto simp: str lower_def lower_char_def)
  have nb: "b \<noteq> ''inf''" "b \<noteq> ''infinity''" "\<not> starts_with ''nan'' b" "\<not> starts_with ''snan'' b"
    using hd digit_plain(7-9) [OF d(2)] by (cases b; auto simp: starts_with_def)+
  note p = money_text_parse [of n, folded b_def]
  have n: "int n = \<bar>c\<bar>" by (simp add: n_def)
  show ?thesis
  proof (cases "c < 0")
    case True
    then show ?thesis using nb n t by (simp add: parse_decimal_def Let_def str p)
  next
    case False
    then show ?thesis using nb n t hd digit_plain(5,6) [OF d(2)]
      by (simp add: parse_decimal_def Let_def str p)
  qed
qed

subsection \<open>Rounding\<close>

lemma strip_money: "strip (money_str c) = money_str c"
proof -
  define n where "n = nat \<bar>c\<bar>"
  have d: "all_digits (show_nat (n div 100))" "all_digits (pad0 2 (n mod 100))" by simp_all
  have h: "is_digit (hd (show_nat (n div 100)))" "is_digit (last (pad0 2 (n mod 100)))"
    using d by (auto simp: all_digits_def list_all_iff)
  have s: "money_str c = (if c < 0 then [CHR ''-''] else []) @ show_nat (n div 100) @ CHR ''.'' # pad0 2 (n mod 100)"
    by (simp add: money_str_def n_def)
  have "pad0 2 (n mod 100) \<noteq> []" using d(2) by (auto simp: all_digits_def)
  then show ?thesis
    unfolding s by (intro strip_id) (use h [THEN digit_not_blank] minus_not_blank in \<open>auto simp: hd_append\<close>)
qed

lemma div_half_even_close:
  assumes "0 < d"
  shows "\<bar>2 * n - 2 * d * div_half_even n d\<bar> \<le> d"
proof -
  define q where "q = n div d"
  define r where "r = n mod d"
  have e: "n = d * q + r" by (simp add: q_def r_def)
  have r: "0 \<le> r" "r < d" using assms by (auto simp: r_def)
  consider "div_half_even n d = q" "2 * r \<le> d" | "div_half_even n d = q + 1" "d \<le> 2 * r"
    by (cases "2 * r < d"; cases "d < 2 * r"; cases "even q")
       (auto simp: div_half_even_def Let_def q_def r_def)
  then show ?thesis
  proof cases
    case 1
    then have "2 * n - 2 * d * div_half_even n d = 2 * r" by (simp add: e algebra_simps)
    then show ?thesis using 1 r by simp
  next
    case 2
    then have "2 * n - 2 * d * div_half_even n d = 2 * r - 2 * d"
      using e by (simp add: algebra_simps)
    then show ?thesis using 2 r by simp
  qed
qed

lemma div_half_up_close:
  assumes "0 < d"
  shows "\<bar>2 * n - 2 * d * div_half_up n d\<bar> \<le> d"
proof -
  define a where "a = \<bar>n\<bar>"
  define q where "q = (2 * a + d) div (2 * d)"
  have b: "2 * d * q \<le> 2 * a + d" "2 * a + d < 2 * d * q + 2 * d"
    using assms pos_mod_bound [of "2 * d" "2 * a + d"] pos_mod_sign [of "2 * d" "2 * a + d"]
      mult_div_mod_eq [of "2 * d" "2 * a + d"] unfolding q_def by linarith+
  have "div_half_up n d = sgn n * q" by (simp add: div_half_up_def q_def a_def)
  moreover have "n = sgn n * a" by (simp add: a_def mult.commute abs_mult_sgn)
  ultimately show ?thesis
    using b by (cases "n = 0"; cases "n < 0") (auto simp: sgn_if a_def q_def)
qed

lemma div_half_up_nonneg: "0 \<le> n \<Longrightarrow> 0 < d \<Longrightarrow> 0 \<le> div_half_up n d"
  by (auto simp: div_half_up_def sgn_if intro!: mult_nonneg_nonneg pos_imp_zdiv_nonneg_iff [THEN iffD2])

lemma div_half_up_0 [simp]: "div_half_up 0 d = 0"
  by (simp add: div_half_up_def)

lemma context_mult_exact:
  "\<bar>a * b\<bar> < context_limit \<Longrightarrow> context_mult (a, i) (b, j) = (a * b, i + j)"
  by (simp add: context_mult_def context_round_def)

lemma quantize_cents [simp]:
  "\<bar>c\<bar> < context_limit \<Longrightarrow> quantize rnd (DFin c (- 2)) = Some (DFin c (- 2))"
  by (simp add: to_cents_def Let_def)

lemma quantize_bound: "quantize rnd d = Some (DFin c e) \<Longrightarrow> \<bar>c\<bar> < context_limit \<and> e = - 2"
  by (cases d) (auto simp: Let_def split: if_splits)

end
