(* ===== verification/Db.thy ===== *)
theory Db
  imports PyDate Money
begin

text \<open>
  The data model: one record per ORM model (the columns the modelled services read or write),
  the database as a record of tables, the world a request runs in, and the exceptions.

  A world holds the session's view \<open>cur\<close> and the last committed state \<open>com\<close>: \<open>commit\<close> copies the
  first to the second, \<open>rollback\<close> the other way, as the SQLAlchemy session does. The end of a
  request rolls back whatever is not committed. \<open>out\<close> lists the calls to other systems in
  order; \<open>env\<close> holds what a request cannot change: its context, the configuration, and the
  behaviour of code outside the repository (hash functions, HTTP peers, the template engine).
  Every clock reading of one request gives the same \<open>clock\<close>.
\<close>

subsection \<open>JSON values\<close>

datatype json = JNull | JBool bool | JInt int | JStr string | JList "json list"
  | JObj "(string \<times> json) list"

definition jint :: "int option \<Rightarrow> json" where
  "jint x = (case x of None \<Rightarrow> JNull | Some i \<Rightarrow> JInt i)"
definition jstr :: "string option \<Rightarrow> json" where
  "jstr x = (case x of None \<Rightarrow> JNull | Some s \<Rightarrow> JStr s)"
definition jdate :: "date option \<Rightarrow> json" where
  "jdate x = (case x of None \<Rightarrow> JNull | Some d \<Rightarrow> JStr (isoformat d))"
definition jstamp :: "stamp option \<Rightarrow> json" where
  "jstamp x = (case x of None \<Rightarrow> JNull | Some t \<Rightarrow> JStr (stamp_iso t))"
definition jmoney :: "cents option \<Rightarrow> json" where
  "jmoney x = (case x of None \<Rightarrow> JNull | Some c \<Rightarrow> JStr (money_str c))"

definition obj_get :: "string \<Rightarrow> json \<Rightarrow> json option" where
  "obj_get k j = (case j of JObj kvs \<Rightarrow> map_of kvs k | _ \<Rightarrow> None)"

subsection \<open>Exceptions\<close>

datatype service = Reservation_service | Lease_service | Invoice_service | Payment_service
  | Notification_service | Portal_service | Idempotency_service | Maintenance_service | Tag_service
  | Comment_service | Expense_service | Guest_service | Property_service | Image_service | Calendar_service

datatype exn = ServiceError service string string nat | PyError py_error
  | IdempotencyKeyConflict | EmailTemplateNotFound
  \<comment> \<open>a service exception with code, message and HTTP status; any other exception\<close>

fun is_service_error :: "exn \<Rightarrow> bool" where
  "is_service_error (ServiceError _ _ _ _) = True"
| "is_service_error _ = False"

definition lift_py :: "py_error + 'a \<Rightarrow> exn + 'a" where
  "lift_py r = (case r of Inl e \<Rightarrow> Inl (PyError e) | Inr x \<Rightarrow> Inr x)"

subsection \<open>Rows\<close>

record org_row =
  org_id :: int
  org_name :: string

record user_row =
  usr_id :: int
  usr_org :: int
  usr_email :: string
  usr_password_hash :: string
  usr_role :: string
  usr_active :: bool
  usr_totp_secret :: "string option"
  usr_2fa :: bool
  usr_backup_codes :: "string list"
  usr_first_name :: "string option"
  usr_last_name :: "string option"
  usr_phone :: "string option"
  usr_address :: "string option"
  usr_anonymized_at :: "stamp option"
  usr_created_at :: stamp
  usr_updated_at :: stamp

record guest_row =
  g_id :: int
  g_org :: int
  g_first_name :: string
  g_last_name :: string
  g_email :: "string option"
  g_phone :: "string option"
  g_notes :: "string option"
  g_preferences :: "string option"
  g_created_at :: stamp
  g_updated_at :: stamp

record property_row =
  p_id :: int
  p_org :: int
  p_name :: string
  p_address :: "string option"
  p_maintenance_email :: "string option"
  p_city :: "string option"
  p_postal :: "string option"
  p_street :: "string option"
  p_lat :: "int option"  \<comment> \<open>in units of the last place of \<open>Numeric(10, 7)\<close>\<close>
  p_lon :: "int option"
  p_year :: "int option"
  p_elevator :: bool
  p_parking :: bool
  p_sauna :: bool
  p_courtyard :: bool
  p_aircon :: bool
  p_description :: "string option"
  p_url :: "string option"
  p_created_at :: stamp
  p_updated_at :: stamp

record unit_row =
  u_id :: int
  u_property :: int
  u_name :: string
  u_type :: "string option"
  u_floor :: "int option"
  u_area :: "cents option"  \<comment> \<open>hundredths of a square metre\<close>
  u_bedrooms :: int
  u_kitchen :: bool
  u_bathroom :: bool
  u_balcony :: bool
  u_terrace :: bool
  u_dishwasher :: bool
  u_washing_machine :: bool
  u_tv :: bool
  u_wifi :: bool
  u_max_guests :: int
  u_description :: "string option"
  u_floor_plan :: "int option"
  u_created_at :: stamp
  u_updated_at :: stamp

record property_image =
  pi_id :: int
  pi_org :: int
  pi_property :: int
  pi_url :: string
  pi_thumb_url :: string
  pi_key :: string
  pi_thumb_key :: string
  pi_alt :: string
  pi_order :: int
  pi_size :: int
  pi_content_type :: string
  pi_uploaded_by :: "int option"
  pi_created_at :: stamp

record reservation =
  res_id :: int
  res_unit :: int
  res_guest :: "int option"
  res_guest_name :: string
  res_start :: date
  res_end :: date
  res_status :: string
  res_amount :: "cents option"
  res_currency :: string
  res_payment_status :: string
  res_invoice_number :: "string option"
  res_invoice_date :: "date option"
  res_due_date :: "date option"
  res_created_at :: stamp
  res_updated_at :: stamp

record lease_template =
  lt_id :: int
  lt_org :: int
  lt_name :: string
  lt_description :: "string option"
  lt_body :: string
  lt_default :: bool
  lt_created_at :: stamp
  lt_updated_at :: stamp

record lease =
  le_id :: int
  le_org :: int
  le_unit :: int
  le_guest :: int
  le_reservation :: "int option"
  le_start :: date
  le_end :: "date option"
  le_rent :: cents
  le_deposit :: cents
  le_cycle :: string
  le_status :: string
  le_notes :: "string option"
  le_template :: "int option"
  le_token_hash :: "string option"
  le_signing_sent_at :: "stamp option"
  le_signed_at :: "stamp option"
  le_signed_ip :: "string option"
  le_signed_user_agent :: "string option"
  le_signed_pdf :: "string option"
  le_created_by :: int
  le_updated_by :: "int option"
  le_created_at :: stamp
  le_updated_at :: stamp

record invoice =
  inv_id :: int
  inv_org :: int
  inv_lease :: "int option"
  inv_reservation :: "int option"
  inv_guest :: "int option"
  inv_number :: "string option"
  inv_amount :: cents
  inv_vat_rate :: cents
  inv_vat_amount :: cents
  inv_subtotal :: cents
  inv_total :: cents
  inv_currency :: string
  inv_due :: date
  inv_paid_at :: "stamp option"
  inv_status :: string
  inv_description :: "string option"
  inv_metadata :: json
  inv_created_by :: int
  inv_updated_by :: "int option"
  inv_created_at :: stamp
  inv_updated_at :: stamp

record payment =
  pay_id :: int
  pay_org :: int
  pay_invoice :: "int option"
  pay_reservation :: "int option"
  pay_provider :: string
  pay_provider_payment :: "string option"
  pay_provider_session :: "string option"
  pay_amount :: cents
  pay_currency :: string
  pay_status :: string
  pay_method :: "string option"
  pay_last_error :: "string option"
  pay_idem_key :: "string option"
  pay_return_url :: "string option"
  pay_cancel_url :: "string option"
  pay_metadata :: json
  pay_created_at :: stamp
  pay_completed_at :: "stamp option"

record payment_refund =
  rf_id :: int
  rf_payment :: int
  rf_amount :: cents
  rf_reason :: "string option"
  rf_provider_refund :: "string option"
  rf_status :: string
  rf_idem_key :: "string option"
  rf_last_error :: "string option"
  rf_actor :: "int option"
  rf_completed_at :: "stamp option"

record lock_device =
  lock_id :: int
  lock_org :: int
  lock_unit :: int
  lock_provider :: string
  lock_device_id :: string

record access_code =
  ac_id :: int
  ac_reservation :: int
  ac_lock :: int
  ac_hash :: string
  ac_provider_code :: "string option"
  ac_idem_key :: "string option"
  ac_valid_from :: stamp
  ac_valid_until :: stamp
  ac_active :: bool
  ac_revoked_at :: "stamp option"
  ac_revoked_by :: "int option"

record token_row =
  \<comment> \<open>one-time link tokens: portal sign-in, check-in, password reset, e-mail code\<close>
  tk_id :: int
  tk_subject :: int
  tk_hash :: string
  tk_expires_at :: stamp
  tk_used_at :: "stamp option"
  tk_created_at :: stamp

record guest_checkin =
  gc_id :: int
  gc_reservation :: int
  gc_full_name :: string
  gc_birth :: date
  gc_document :: string
  gc_rules_accepted :: bool
  gc_signature :: string
  gc_checked_in_at :: stamp

record login_attempt =
  la_id :: int
  la_email :: string
  la_ip :: "string option"
  la_success :: bool
  la_created_at :: stamp

record audit_log =
  al_id :: int
  al_action :: string
  al_status :: "string option"
  al_actor_type :: string
  al_actor_id :: "int option"
  al_actor_email :: "string option"
  al_org :: "int option"
  al_target_type :: "string option"
  al_target_id :: "int option"
  al_ip :: "string option"
  al_user_agent :: "string option"
  al_context :: json
  al_created_at :: stamp

record notification =
  nt_id :: int
  nt_org :: int
  nt_user :: "int option"
  nt_type :: string
  nt_title :: string
  nt_body :: "string option"
  nt_link :: "string option"
  nt_severity :: string
  nt_read :: bool
  nt_created_at :: stamp
  nt_read_at :: "stamp option"

record email_item =
  em_id :: int
  em_to :: string
  em_org :: json
  em_template :: string
  em_context :: "(string \<times> json) list"
  em_subject :: string
  em_status :: string
  em_scheduled_at :: stamp
  em_attempts :: int
  em_last_error :: "string option"
  em_next_attempt_at :: "stamp option"
  em_sent_at :: "stamp option"
  em_created_at :: stamp

record webhook_sub =
  ws_id :: int
  ws_org :: int
  ws_url :: string
  ws_secret_hash :: string
  ws_secret_encrypted :: string
  ws_events :: "string list"
  ws_active :: bool
  ws_last_delivery_at :: "stamp option"
  ws_last_status :: "int option"
  ws_failures :: int
  ws_created_by :: "int option"
  ws_created_at :: stamp
  ws_updated_at :: stamp

record webhook_delivery =
  wd_id :: int
  wd_sub :: int
  wd_event :: string
  wd_payload :: json
  wd_payload_hash :: string
  wd_signature :: string
  wd_status :: "int option"
  wd_body :: "string option"
  wd_attempt :: int
  wd_delivered_at :: "stamp option"
  wd_next_retry_at :: "stamp option"
  wd_created_at :: stamp

record webhook_event =
  we_id :: int
  we_provider :: string
  we_type :: string
  we_external :: "string option"
  we_payload :: json
  we_signature :: string
  we_verified :: bool
  we_processed :: bool
  we_attempts :: int
  we_error :: "string option"
  we_org :: "int option"
  we_created_at :: stamp
  we_processed_at :: "stamp option"

record idem_key =
  ik_id :: int
  ik_key :: string
  ik_endpoint :: string
  ik_hash :: string
  ik_status :: "int option"
  ik_body :: "string option"
  ik_org :: "int option"
  ik_created_at :: stamp
  ik_expires_at :: stamp

record maintenance_request =
  mr_id :: int
  mr_org :: int
  mr_property :: int
  mr_unit :: "int option"
  mr_guest :: "int option"
  mr_reservation :: "int option"
  mr_title :: string
  mr_description :: "string option"
  mr_status :: string
  mr_priority :: string
  mr_assigned_to :: "int option"
  mr_due :: "date option"
  mr_resolved_at :: "stamp option"
  mr_created_by :: int
  mr_created_at :: stamp
  mr_updated_at :: stamp

record api_key =
  ky_id :: int
  ky_org :: int
  ky_user :: "int option"
  ky_name :: string
  ky_prefix :: string
  ky_hash :: string
  ky_scopes :: string
  ky_active :: bool
  ky_rotated_at :: "stamp option"
  ky_expires_at :: "stamp option"
  ky_last_used_at :: "stamp option"
  ky_created_at :: stamp

record api_key_usage =
  ku_id :: int
  ku_key :: int
  ku_endpoint :: string
  ku_status :: int
  ku_ip :: "string option"
  ku_user_agent :: "string option"
  ku_created_at :: stamp

record tag =
  tg_id :: int
  tg_org :: int
  tg_name :: string
  tg_color :: string
  tg_created_by :: int
  tg_created_at :: stamp

record comment =
  cm_id :: int
  cm_org :: int
  cm_target_type :: string
  cm_target :: int
  cm_author :: int
  cm_body :: string
  cm_created_at :: stamp
  cm_edited_at :: "stamp option"
  cm_internal :: bool

record expense =
  ex_id :: int
  ex_org :: int
  ex_property :: "int option"
  ex_category :: string
  ex_amount :: cents
  ex_vat :: cents
  ex_date :: date
  ex_description :: "string option"
  ex_payee :: "string option"

record owner_row =
  ow_id :: int
  ow_org :: int
  ow_name :: string
  ow_email :: string
  ow_phone :: "string option"
  ow_iban :: "string option"
  ow_active :: bool

record owner_assignment =
  oa_id :: int
  oa_property :: int
  oa_owner :: int
  oa_pct :: int  \<comment> \<open>in ten-thousandths, as \<open>Numeric(5, 4)\<close> keeps it\<close>
  oa_fee_pct :: int
  oa_from :: date
  oa_to :: "date option"

record owner_payout =
  op_id :: int
  op_owner :: int
  op_month :: string
  op_gross :: int
  op_fee :: int
  op_expenses :: int
  op_net :: int
  op_status :: string
  op_pdf :: "string option"
  op_sent_at :: "stamp option"
  op_paid_at :: "stamp option"

record owner_user =
  ou_id :: int
  ou_owner :: int
  ou_email :: string
  ou_password_hash :: string
  ou_active :: bool
  ou_last_login_at :: "stamp option"

record calendar_feed =
  fd_id :: int
  fd_org :: int
  fd_unit :: int
  fd_name :: "string option"
  fd_url :: string
  fd_active :: bool
  fd_synced_at :: "stamp option"
  fd_error :: "string option"

record imported_event =
  ie_id :: int
  ie_org :: int
  ie_unit :: int
  ie_feed :: int
  ie_uid :: string
  ie_summary :: "string option"
  ie_start :: date
  ie_end :: date
  ie_created_at :: stamp

record status_component =
  sc_id :: int
  sc_key :: string
  sc_name :: string
  sc_state :: string
  sc_scheduled :: bool

record status_incident =
  si_id :: int
  si_title :: string
  si_body :: string
  si_started_at :: stamp
  si_resolved_at :: "stamp option"
  si_components :: "string list"
  si_severity :: string
  si_status :: string

record status_check =
  sk_id :: int
  sk_component :: string
  sk_at :: stamp
  sk_ok :: bool
  sk_latency :: "int option"
  sk_error :: "string option"

record backup_row =
  bk_id :: int
  bk_filename :: string
  bk_location :: string
  bk_size :: "int option"
  bk_status :: string
  bk_trigger :: string
  bk_created_at :: stamp
  bk_completed_at :: "stamp option"
  bk_created_by :: "int option"
  bk_error :: "string option"
  bk_uploads :: "string option"
  bk_templates :: "string option"
  bk_settings :: "string option"
  bk_s3 :: "string option"

record saved_filter =
  sf_id :: int
  sf_user :: int
  sf_name :: string
  sf_view :: string
  sf_params :: json
  sf_created_at :: stamp

record setting =
  st_id :: int
  st_key :: string
  st_value :: "string option"
  st_type :: string
  st_description :: string
  st_secret :: bool
  st_updated_by :: "int option"

datatype setting_value = VNone | VStr string | VInt int | VBool bool | VDec decimal | VJson json
  \<comment> \<open>a native Python value of a setting; \<open>VJson\<close> is a list or a dictionary\<close>

subsection \<open>The database\<close>

datatype table =
    T_reservations | T_lease_templates | T_leases | T_invoices | T_payments | T_refunds
    | T_access_codes | T_magic_links | T_checkin_tokens | T_reset_tokens | T_email_codes
    | T_checkins | T_login_attempts | T_audit | T_notifications | T_email | T_webhook_subs
    | T_deliveries | T_webhook_events | T_idem | T_maintenance | T_settings
    | T_users | T_guests | T_api_keys | T_key_usage | T_tags | T_comments | T_expenses | T_owners | T_assignments
    | T_payouts | T_owner_users
    | T_orgs | T_properties | T_units | T_images | T_feeds | T_imported | T_components | T_incidents | T_checks
    | T_backups | T_filters

record db =
  orgs :: "org_row list"
  users :: "user_row list"
  guests :: "guest_row list"
  properties :: "property_row list"
  units :: "unit_row list"
  reservations :: "reservation list"
  lease_templates :: "lease_template list"
  leases :: "lease list"
  invoices :: "invoice list"
  payments :: "payment list"
  refunds :: "payment_refund list"
  locks :: "lock_device list"
  access_codes :: "access_code list"
  magic_links :: "token_row list"
  checkin_tokens :: "token_row list"
  reset_tokens :: "token_row list"
  email_codes :: "token_row list"
  checkins :: "guest_checkin list"
  login_attempts :: "login_attempt list"
  audit_logs :: "audit_log list"
  notifications :: "notification list"
  email_queue :: "email_item list"
  email_templates :: "string list"
  webhook_subs :: "webhook_sub list"
  webhook_deliveries :: "webhook_delivery list"
  webhook_events :: "webhook_event list"
  idem_keys :: "idem_key list"
  maintenance :: "maintenance_request list"
  settings :: "setting list"
  api_keys :: "api_key list"
  key_usage :: "api_key_usage list"
  tags :: "tag list"
  guest_tags :: "(int \<times> int) list"  \<comment> \<open>target, tag\<close>
  reservation_tags :: "(int \<times> int) list"
  property_tags :: "(int \<times> int) list"
  comments :: "comment list"
  expenses :: "expense list"
  owners :: "owner_row list"
  assignments :: "owner_assignment list"
  payouts :: "owner_payout list"
  owner_users :: "owner_user list"
  images :: "property_image list"
  feeds :: "calendar_feed list"
  imported :: "imported_event list"
  components :: "status_component list"
  incidents :: "status_incident list"
  checks :: "status_check list"
  backups :: "backup_row list"
  saved_filters :: "saved_filter list"
  seqs :: "table \<Rightarrow> int"
    \<comment> \<open>the last key each table handed out\<close>

definition empty_db :: db where
  "empty_db = \<lparr>
     orgs = [], users = [], guests = [], properties = [], units = [], reservations = [],
     lease_templates = [], leases = [], invoices = [], payments = [], refunds = [], locks = [],
     access_codes = [], magic_links = [], checkin_tokens = [], reset_tokens = [],
     email_codes = [], checkins = [], login_attempts = [], audit_logs = [], notifications = [],
     email_queue = [], email_templates = [], webhook_subs = [], webhook_deliveries = [],
     webhook_events = [], idem_keys = [], maintenance = [], settings = [], api_keys = [], key_usage = [], tags = [],
     guest_tags = [], reservation_tags = [], property_tags = [], comments = [], expenses = [], owners = [],
     assignments = [], payouts = [], owner_users = [],
     images = [], feeds = [], imported = [], components = [], incidents = [], checks = [], backups = [],
     saved_filters = [], seqs = (\<lambda>_. 0)\<rparr>"

lemma empty_db_simps [simp]:
  "orgs empty_db = []" "users empty_db = []" "guests empty_db = []" "properties empty_db = []"
  "units empty_db = []" "reservations empty_db = []" "lease_templates empty_db = []"
  "leases empty_db = []" "invoices empty_db = []" "payments empty_db = []"
  "refunds empty_db = []" "locks empty_db = []" "access_codes empty_db = []"
  "magic_links empty_db = []" "checkin_tokens empty_db = []" "reset_tokens empty_db = []"
  "email_codes empty_db = []" "checkins empty_db = []" "login_attempts empty_db = []"
  "audit_logs empty_db = []" "notifications empty_db = []" "email_queue empty_db = []"
  "email_templates empty_db = []" "webhook_subs empty_db = []"
  "webhook_deliveries empty_db = []" "webhook_events empty_db = []" "idem_keys empty_db = []"
  "maintenance empty_db = []" "settings empty_db = []" "api_keys empty_db = []" "key_usage empty_db = []"
  "tags empty_db = []" "guest_tags empty_db = []" "reservation_tags empty_db = []" "property_tags empty_db = []"
  "comments empty_db = []" "expenses empty_db = []" "owners empty_db = []" "assignments empty_db = []"
  "payouts empty_db = []" "owner_users empty_db = []" "images empty_db = []" "feeds empty_db = []"
  "imported empty_db = []" "components empty_db = []" "incidents empty_db = []" "checks empty_db = []"
  "backups empty_db = []" "saved_filters empty_db = []"
  "seqs empty_db = (\<lambda>_. 0)"
  by (simp_all add: empty_db_def)

definition next_key :: "table \<Rightarrow> db \<Rightarrow> int" where
  "next_key t d = seqs d t + 1"

definition bump :: "table \<Rightarrow> int \<Rightarrow> db \<Rightarrow> db" where
  "bump t k d = d\<lparr>seqs := (seqs d)(t := k)\<rparr>"

subsection \<open>The world of a request\<close>

datatype outcall =
    WebhookPost string string string  \<comment> \<open>url, body, signature\<close>
  | LockProvision string string string string  \<comment> \<open>device, code, from, until\<close>
  | LockRevoke string string  \<comment> \<open>device, provider code\<close>
  | ProviderCheckout string int string  \<comment> \<open>provider, payment, idempotency key\<close>
  | ProviderRefund string cents string  \<comment> \<open>provider, amount, idempotency key\<close>
  | MailSend string string string  \<comment> \<open>recipient, subject, text\<close>
  | BackgroundDispatch "int list" string json  \<comment> \<open>subscriptions, event, payload\<close>
  | CalendarFetch string
  | HttpGet string
  | StorageUpload string
  | StorageDelete string

record world =
  cur :: db
  com :: db
  clock :: stamp
  out :: "outcall list"
  memo :: "(string \<times> setting_value) list"
    \<comment> \<open>the settings read in this request (\<open>flask.g\<close>)\<close>

definition on_db :: "(db \<Rightarrow> db) \<Rightarrow> world \<Rightarrow> world" where
  "on_db f w = w\<lparr>cur := f (cur w)\<rparr>"

definition commit :: "world \<Rightarrow> world" where
  "commit w = w\<lparr>com := cur w\<rparr>"

definition rollback :: "world \<Rightarrow> world" where
  "rollback w = w\<lparr>cur := com w\<rparr>"

definition call_out :: "outcall \<Rightarrow> world \<Rightarrow> world" where
  "call_out c w = w\<lparr>out := out w @ [c]\<rparr>"

text \<open>Today in UTC.\<close>

definition today :: "world \<Rightarrow> date" where "today w = utc_date (clock w)"

record api_key_ctx =
  ak_id :: int
  ak_owner_email :: "string option"
  ak_org :: int

record req_ctx =
  rq_app :: bool  \<comment> \<open>an application context is active\<close>
  rq_request :: bool  \<comment> \<open>a request context is active\<close>
  rq_api_key :: "api_key_ctx option"
  rq_user :: "user_row option"  \<comment> \<open>the logged-in user\<close>
  rq_forwarded :: string
  rq_remote :: "string option"
  rq_user_agent :: "string option"

record env =
  req :: req_ctx
  local_today :: date  \<comment> \<open>\<open>date.today()\<close> of the server\<close>
  sha256 :: "string \<Rightarrow> string"
  hmac256 :: "string \<Rightarrow> string \<Rightarrow> string"
  encrypt :: "string \<Rightarrow> string"
  decrypt :: "string \<Rightarrow> string option"
  check_password_hash :: "string \<Rightarrow> string \<Rightarrow> bool"
  password_hash :: "string \<Rightarrow> string"
  max_login_attempts :: int
  totp_verify :: "string \<Rightarrow> string \<Rightarrow> stamp \<Rightarrow> bool"
  json_loads :: "string \<Rightarrow> json option"
  inbound_secret_config :: string
  webhook_async :: bool
  webhook_peer :: "outcall list \<Rightarrow> string \<Rightarrow> string + int \<times> string"
    \<comment> \<open>the text of a transport error, or the status and body of the response\<close>
  lock_provision :: "outcall list \<Rightarrow> py_error + string option"
  lock_revoke :: "outcall list \<Rightarrow> py_error + unit"
  jinja :: "string \<Rightarrow> (string \<times> json) list \<Rightarrow> string + string \<times> string"
    \<comment> \<open>the text of an error, or the rendered subject and text of a mail\<close>
  jinja_text :: "string \<Rightarrow> (string \<times> json) list \<Rightarrow> py_error + string"
  mail_dev_only :: bool
  mail_api_key :: string
  mail_domain :: string
  mail_http :: "outcall list \<Rightarrow> string + int \<times> string"
  pay_enabled :: "string \<Rightarrow> bool"
  pay_expiry_hours :: int
  provider_checkout ::
    "outcall list \<Rightarrow> py_error + (string option \<times> string option \<times> string option)"
    \<comment> \<open>payment reference, session, redirect URL in the answer of the provider\<close>
  provider_refund :: "outcall list \<Rightarrow> string + (string option \<times> string)"
    \<comment> \<open>the text of an error, or the refund's id and status in the answer of the provider\<close>
  idem_ttl :: int
  collation :: "string \<Rightarrow> string"  \<comment> \<open>the sort key the database gives a text column\<close>
  ical_secret :: string
  ical_fetch :: "outcall list \<Rightarrow> string + string"
    \<comment> \<open>the message of a failed download, or the text of the calendar\<close>
  app_base_url :: string
  http_get :: "outcall list \<Rightarrow> string + int"  \<comment> \<open>the text of an error, or the status\<close>

lemma on_db_simps [simp]:
  "cur (on_db f w) = f (cur w)" "com (on_db f w) = com w" "clock (on_db f w) = clock w"
  "out (on_db f w) = out w" "memo (on_db f w) = memo w"
  by (simp_all add: on_db_def)

lemma commit_simps [simp]:
  "cur (commit w) = cur w" "com (commit w) = cur w" "clock (commit w) = clock w"
  "out (commit w) = out w" "memo (commit w) = memo w"
  by (simp_all add: commit_def)

lemma rollback_simps [simp]:
  "cur (rollback w) = com w" "com (rollback w) = com w" "clock (rollback w) = clock w"
  "out (rollback w) = out w" "memo (rollback w) = memo w"
  by (simp_all add: rollback_def)

lemma call_out_simps [simp]:
  "cur (call_out c w) = cur w" "com (call_out c w) = com w" "clock (call_out c w) = clock w"
  "out (call_out c w) = out w @ [c]" "memo (call_out c w) = memo w"
  by (simp_all add: call_out_def)

lemma today_simps [simp]:
  "today (on_db f w) = today w" "today (commit w) = today w" "today (rollback w) = today w"
  "today (call_out c w) = today w"
  by (simp_all add: today_def)

subsection \<open>The interface of a keyed table\<close>

text \<open>
  What a service relies on when it adds a row with the next key (\<open>append_table\<close>) and, where rows
  change later, writes a row back (\<open>keyed_table\<close>): the table's rows, its key, its sequence. The
  laws say how the two writes show in the rows; the lemmas say what a lookup by key then
  returns and that keys stay distinct.
\<close>

locale append_table =
  fixes rows :: "db \<Rightarrow> 'r list"
    and key :: "'r \<Rightarrow> int"
    and tab :: table
    and add :: "'r \<Rightarrow> db \<Rightarrow> db"
  assumes rows_add: "rows (add r d) = rows d @ [r]"
    and seq_add: "seqs (add r d) tab = key r"
begin

lemma ok_add:
  assumes "keys_ok key (seqs d tab) (rows d)" and "key r = next_key tab d"
  shows "keys_ok key (seqs (add r d) tab) (rows (add r d))"
  using assms keys_ok_snoc [of key "seqs d tab" "rows d" r]
  by (simp add: rows_add seq_add next_key_def)

lemma fresh:
  assumes "keys_ok key (seqs d tab) (rows d)" and "x \<in> set (rows d)"
  shows "key x \<noteq> next_key tab d"
  using assms by (force simp: keys_ok_def next_key_def)

lemma get_add:
  assumes "keys_ok key (seqs d tab) (rows d)" and "key r = next_key tab d"
  shows "row_get key k (rows (add r d)) = (if k = key r then Some r else row_get key k (rows d))"
proof -
  have "row_get key (key r) (rows d) = None"
    using fresh [OF assms(1)] assms(2) by (simp add: row_get_def find_None_iff_all)
  then show ?thesis by (auto simp: rows_add row_get_snoc split: option.splits)
qed

end

locale keyed_table = append_table +
  fixes put :: "'a \<Rightarrow> db \<Rightarrow> db"
  assumes rows_put: "rows (put r d) = row_put key r (rows d)"
    and seq_put: "seqs (put r d) = seqs d"
begin

lemma ok_put: "keys_ok key (seqs d tab) (rows d) \<Longrightarrow> keys_ok key (seqs (put r d) tab) (rows (put r d))"
  by (simp add: rows_put seq_put)

lemma get_put:
  assumes "row_get key (key r) (rows d) \<noteq> None"
  shows "row_get key k (rows (put r d)) = (if k = key r then Some r else row_get key k (rows d))"
  using assms by (auto simp: rows_put row_get_put_same row_get_put_other)

lemma put_other_mem:
  "x \<in> set (rows d) \<Longrightarrow> key x \<noteq> key r \<Longrightarrow> x \<in> set (rows (put r d))"
  by (simp add: rows_put row_put_other)

lemma put_mem: "x \<in> set (rows (put r d)) \<Longrightarrow> x = r \<or> (x \<in> set (rows d) \<and> key x \<noteq> key r)"
  by (simp add: rows_put set_row_put)

end

end
