(* ===== verification/Tables.thy ===== *)
theory Tables
  imports Db
begin

text \<open>
  The writes of the session to each table: \<open>add_x\<close> inserts a row with the next key
  (\<open>session.add\<close> and \<open>flush\<close>), \<open>put_x\<close> writes a changed row back. They are unfolded by the
  simplifier, so that a projection to another table passes through them. Each table is an
  instance of \<open>append_table\<close> or, where rows change later, of \<open>keyed_table\<close>.
\<close>

declare bump_def [simp]

definition add_reservation :: "reservation \<Rightarrow> db \<Rightarrow> db" where
  [simp]: "add_reservation r d = bump T_reservations (res_id r) (d\<lparr>reservations := reservations d @ [r]\<rparr>)"

definition put_reservation :: "reservation \<Rightarrow> db \<Rightarrow> db" where
  [simp]: "put_reservation r d = d\<lparr>reservations := row_put res_id r (reservations d)\<rparr>"

interpretation reservation_tab: keyed_table reservations res_id T_reservations add_reservation put_reservation
  by unfold_locales simp_all

definition add_lease_template :: "lease_template \<Rightarrow> db \<Rightarrow> db" where
  [simp]: "add_lease_template r d = bump T_lease_templates (lt_id r) (d\<lparr>lease_templates := lease_templates d @ [r]\<rparr>)"

definition put_lease_template :: "lease_template \<Rightarrow> db \<Rightarrow> db" where
  [simp]: "put_lease_template r d = d\<lparr>lease_templates := row_put lt_id r (lease_templates d)\<rparr>"

interpretation lease_template_tab: keyed_table lease_templates lt_id T_lease_templates add_lease_template put_lease_template
  by unfold_locales simp_all

definition add_lease :: "lease \<Rightarrow> db \<Rightarrow> db" where
  [simp]: "add_lease r d = bump T_leases (le_id r) (d\<lparr>leases := leases d @ [r]\<rparr>)"

definition put_lease :: "lease \<Rightarrow> db \<Rightarrow> db" where
  [simp]: "put_lease r d = d\<lparr>leases := row_put le_id r (leases d)\<rparr>"

interpretation lease_tab: keyed_table leases le_id T_leases add_lease put_lease
  by unfold_locales simp_all

definition add_invoice :: "invoice \<Rightarrow> db \<Rightarrow> db" where
  [simp]: "add_invoice r d = bump T_invoices (inv_id r) (d\<lparr>invoices := invoices d @ [r]\<rparr>)"

definition put_invoice :: "invoice \<Rightarrow> db \<Rightarrow> db" where
  [simp]: "put_invoice r d = d\<lparr>invoices := row_put inv_id r (invoices d)\<rparr>"

interpretation invoice_tab: keyed_table invoices inv_id T_invoices add_invoice put_invoice
  by unfold_locales simp_all

definition add_payment :: "payment \<Rightarrow> db \<Rightarrow> db" where
  [simp]: "add_payment r d = bump T_payments (pay_id r) (d\<lparr>payments := payments d @ [r]\<rparr>)"

definition put_payment :: "payment \<Rightarrow> db \<Rightarrow> db" where
  [simp]: "put_payment r d = d\<lparr>payments := row_put pay_id r (payments d)\<rparr>"

interpretation payment_tab: keyed_table payments pay_id T_payments add_payment put_payment
  by unfold_locales simp_all

definition add_refund :: "payment_refund \<Rightarrow> db \<Rightarrow> db" where
  [simp]: "add_refund r d = bump T_refunds (rf_id r) (d\<lparr>refunds := refunds d @ [r]\<rparr>)"

definition put_refund :: "payment_refund \<Rightarrow> db \<Rightarrow> db" where
  [simp]: "put_refund r d = d\<lparr>refunds := row_put rf_id r (refunds d)\<rparr>"

interpretation refund_tab: keyed_table refunds rf_id T_refunds add_refund put_refund
  by unfold_locales simp_all

definition add_access_code :: "access_code \<Rightarrow> db \<Rightarrow> db" where
  [simp]: "add_access_code r d = bump T_access_codes (ac_id r) (d\<lparr>access_codes := access_codes d @ [r]\<rparr>)"

definition put_access_code :: "access_code \<Rightarrow> db \<Rightarrow> db" where
  [simp]: "put_access_code r d = d\<lparr>access_codes := row_put ac_id r (access_codes d)\<rparr>"

interpretation access_code_tab: keyed_table access_codes ac_id T_access_codes add_access_code put_access_code
  by unfold_locales simp_all

definition add_magic_link :: "token_row \<Rightarrow> db \<Rightarrow> db" where
  [simp]: "add_magic_link r d = bump T_magic_links (tk_id r) (d\<lparr>magic_links := magic_links d @ [r]\<rparr>)"

definition put_magic_link :: "token_row \<Rightarrow> db \<Rightarrow> db" where
  [simp]: "put_magic_link r d = d\<lparr>magic_links := row_put tk_id r (magic_links d)\<rparr>"

interpretation magic_link_tab: keyed_table magic_links tk_id T_magic_links add_magic_link put_magic_link
  by unfold_locales simp_all

definition add_checkin_token :: "token_row \<Rightarrow> db \<Rightarrow> db" where
  [simp]: "add_checkin_token r d = bump T_checkin_tokens (tk_id r) (d\<lparr>checkin_tokens := checkin_tokens d @ [r]\<rparr>)"

definition put_checkin_token :: "token_row \<Rightarrow> db \<Rightarrow> db" where
  [simp]: "put_checkin_token r d = d\<lparr>checkin_tokens := row_put tk_id r (checkin_tokens d)\<rparr>"

interpretation checkin_token_tab: keyed_table checkin_tokens tk_id T_checkin_tokens add_checkin_token put_checkin_token
  by unfold_locales simp_all

definition add_reset_token :: "token_row \<Rightarrow> db \<Rightarrow> db" where
  [simp]: "add_reset_token r d = bump T_reset_tokens (tk_id r) (d\<lparr>reset_tokens := reset_tokens d @ [r]\<rparr>)"

definition put_reset_token :: "token_row \<Rightarrow> db \<Rightarrow> db" where
  [simp]: "put_reset_token r d = d\<lparr>reset_tokens := row_put tk_id r (reset_tokens d)\<rparr>"

interpretation reset_token_tab: keyed_table reset_tokens tk_id T_reset_tokens add_reset_token put_reset_token
  by unfold_locales simp_all

definition add_email_code :: "token_row \<Rightarrow> db \<Rightarrow> db" where
  [simp]: "add_email_code r d = bump T_email_codes (tk_id r) (d\<lparr>email_codes := email_codes d @ [r]\<rparr>)"

definition put_email_code :: "token_row \<Rightarrow> db \<Rightarrow> db" where
  [simp]: "put_email_code r d = d\<lparr>email_codes := row_put tk_id r (email_codes d)\<rparr>"

interpretation email_code_tab: keyed_table email_codes tk_id T_email_codes add_email_code put_email_code
  by unfold_locales simp_all

definition add_checkin :: "guest_checkin \<Rightarrow> db \<Rightarrow> db" where
  [simp]: "add_checkin r d = bump T_checkins (gc_id r) (d\<lparr>checkins := checkins d @ [r]\<rparr>)"

definition put_checkin :: "guest_checkin \<Rightarrow> db \<Rightarrow> db" where
  [simp]: "put_checkin r d = d\<lparr>checkins := row_put gc_id r (checkins d)\<rparr>"

interpretation checkin_tab: keyed_table checkins gc_id T_checkins add_checkin put_checkin
  by unfold_locales simp_all

definition add_login_attempt :: "login_attempt \<Rightarrow> db \<Rightarrow> db" where
  [simp]: "add_login_attempt r d = bump T_login_attempts (la_id r) (d\<lparr>login_attempts := login_attempts d @ [r]\<rparr>)"

interpretation login_attempt_tab: append_table login_attempts la_id T_login_attempts add_login_attempt
  by unfold_locales simp_all

definition add_audit :: "audit_log \<Rightarrow> db \<Rightarrow> db" where
  [simp]: "add_audit r d = bump T_audit (al_id r) (d\<lparr>audit_logs := audit_logs d @ [r]\<rparr>)"

interpretation audit_tab: append_table audit_logs al_id T_audit add_audit
  by unfold_locales simp_all

definition add_notification :: "notification \<Rightarrow> db \<Rightarrow> db" where
  [simp]: "add_notification r d = bump T_notifications (nt_id r) (d\<lparr>notifications := notifications d @ [r]\<rparr>)"

definition put_notification :: "notification \<Rightarrow> db \<Rightarrow> db" where
  [simp]: "put_notification r d = d\<lparr>notifications := row_put nt_id r (notifications d)\<rparr>"

interpretation notification_tab: keyed_table notifications nt_id T_notifications add_notification put_notification
  by unfold_locales simp_all

definition add_email :: "email_item \<Rightarrow> db \<Rightarrow> db" where
  [simp]: "add_email r d = bump T_email (em_id r) (d\<lparr>email_queue := email_queue d @ [r]\<rparr>)"

definition put_email :: "email_item \<Rightarrow> db \<Rightarrow> db" where
  [simp]: "put_email r d = d\<lparr>email_queue := row_put em_id r (email_queue d)\<rparr>"

interpretation email_tab: keyed_table email_queue em_id T_email add_email put_email
  by unfold_locales simp_all

definition add_webhook_sub :: "webhook_sub \<Rightarrow> db \<Rightarrow> db" where
  [simp]: "add_webhook_sub r d = bump T_webhook_subs (ws_id r) (d\<lparr>webhook_subs := webhook_subs d @ [r]\<rparr>)"

definition put_webhook_sub :: "webhook_sub \<Rightarrow> db \<Rightarrow> db" where
  [simp]: "put_webhook_sub r d = d\<lparr>webhook_subs := row_put ws_id r (webhook_subs d)\<rparr>"

interpretation webhook_sub_tab: keyed_table webhook_subs ws_id T_webhook_subs add_webhook_sub put_webhook_sub
  by unfold_locales simp_all

definition add_delivery :: "webhook_delivery \<Rightarrow> db \<Rightarrow> db" where
  [simp]: "add_delivery r d = bump T_deliveries (wd_id r) (d\<lparr>webhook_deliveries := webhook_deliveries d @ [r]\<rparr>)"

definition put_delivery :: "webhook_delivery \<Rightarrow> db \<Rightarrow> db" where
  [simp]: "put_delivery r d = d\<lparr>webhook_deliveries := row_put wd_id r (webhook_deliveries d)\<rparr>"

interpretation delivery_tab: keyed_table webhook_deliveries wd_id T_deliveries add_delivery put_delivery
  by unfold_locales simp_all

definition add_webhook_event :: "webhook_event \<Rightarrow> db \<Rightarrow> db" where
  [simp]: "add_webhook_event r d = bump T_webhook_events (we_id r) (d\<lparr>webhook_events := webhook_events d @ [r]\<rparr>)"

definition put_webhook_event :: "webhook_event \<Rightarrow> db \<Rightarrow> db" where
  [simp]: "put_webhook_event r d = d\<lparr>webhook_events := row_put we_id r (webhook_events d)\<rparr>"

interpretation webhook_event_tab: keyed_table webhook_events we_id T_webhook_events add_webhook_event put_webhook_event
  by unfold_locales simp_all

definition add_idem :: "idem_key \<Rightarrow> db \<Rightarrow> db" where
  [simp]: "add_idem r d = bump T_idem (ik_id r) (d\<lparr>idem_keys := idem_keys d @ [r]\<rparr>)"

definition put_idem :: "idem_key \<Rightarrow> db \<Rightarrow> db" where
  [simp]: "put_idem r d = d\<lparr>idem_keys := row_put ik_id r (idem_keys d)\<rparr>"

interpretation idem_tab: keyed_table idem_keys ik_id T_idem add_idem put_idem
  by unfold_locales simp_all

definition add_maintenance :: "maintenance_request \<Rightarrow> db \<Rightarrow> db" where
  [simp]: "add_maintenance r d = bump T_maintenance (mr_id r) (d\<lparr>maintenance := maintenance d @ [r]\<rparr>)"

definition put_maintenance :: "maintenance_request \<Rightarrow> db \<Rightarrow> db" where
  [simp]: "put_maintenance r d = d\<lparr>maintenance := row_put mr_id r (maintenance d)\<rparr>"

interpretation maintenance_tab: keyed_table maintenance mr_id T_maintenance add_maintenance put_maintenance
  by unfold_locales simp_all

subsection \<open>Settings\<close>

definition add_setting :: "setting \<Rightarrow> db \<Rightarrow> db" where
  [simp]: "add_setting r d = bump T_settings (st_id r) (d\<lparr>settings := settings d @ [r]\<rparr>)"

definition put_setting :: "setting \<Rightarrow> db \<Rightarrow> db" where
  [simp]: "put_setting r d = d\<lparr>settings := row_put st_id r (settings d)\<rparr>"

interpretation setting_tab: keyed_table settings st_id T_settings add_setting put_setting
  by unfold_locales simp_all

definition add_guest :: "guest_row \<Rightarrow> db \<Rightarrow> db" where
  [simp]: "add_guest r d = bump T_guests (g_id r) (d\<lparr>guests := guests d @ [r]\<rparr>)"

definition put_guest :: "guest_row \<Rightarrow> db \<Rightarrow> db" where
  [simp]: "put_guest r d = d\<lparr>guests := row_put g_id r (guests d)\<rparr>"

interpretation guest_tab: keyed_table guests g_id T_guests add_guest put_guest
  by unfold_locales simp_all

definition add_api_key :: "api_key \<Rightarrow> db \<Rightarrow> db" where
  [simp]: "add_api_key r d = bump T_api_keys (ky_id r) (d\<lparr>api_keys := api_keys d @ [r]\<rparr>)"

definition put_api_key :: "api_key \<Rightarrow> db \<Rightarrow> db" where
  [simp]: "put_api_key r d = d\<lparr>api_keys := row_put ky_id r (api_keys d)\<rparr>"

interpretation api_key_tab: keyed_table api_keys ky_id T_api_keys add_api_key put_api_key
  by unfold_locales simp_all

definition add_key_usage :: "api_key_usage \<Rightarrow> db \<Rightarrow> db" where
  [simp]: "add_key_usage r d = bump T_key_usage (ku_id r) (d\<lparr>key_usage := key_usage d @ [r]\<rparr>)"

interpretation key_usage_tab: append_table key_usage ku_id T_key_usage add_key_usage
  by unfold_locales simp_all

definition add_tag :: "tag \<Rightarrow> db \<Rightarrow> db" where
  [simp]: "add_tag r d = bump T_tags (tg_id r) (d\<lparr>tags := tags d @ [r]\<rparr>)"

interpretation tag_tab: append_table tags tg_id T_tags add_tag
  by unfold_locales simp_all

definition add_comment :: "comment \<Rightarrow> db \<Rightarrow> db" where
  [simp]: "add_comment r d = bump T_comments (cm_id r) (d\<lparr>comments := comments d @ [r]\<rparr>)"

definition put_comment :: "comment \<Rightarrow> db \<Rightarrow> db" where
  [simp]: "put_comment r d = d\<lparr>comments := row_put cm_id r (comments d)\<rparr>"

interpretation comment_tab: keyed_table comments cm_id T_comments add_comment put_comment
  by unfold_locales simp_all

definition add_expense :: "expense \<Rightarrow> db \<Rightarrow> db" where
  [simp]: "add_expense r d = bump T_expenses (ex_id r) (d\<lparr>expenses := expenses d @ [r]\<rparr>)"

interpretation expense_tab: append_table expenses ex_id T_expenses add_expense
  by unfold_locales simp_all

definition add_owner :: "owner_row \<Rightarrow> db \<Rightarrow> db" where
  [simp]: "add_owner r d = bump T_owners (ow_id r) (d\<lparr>owners := owners d @ [r]\<rparr>)"

definition put_owner :: "owner_row \<Rightarrow> db \<Rightarrow> db" where
  [simp]: "put_owner r d = d\<lparr>owners := row_put ow_id r (owners d)\<rparr>"

interpretation owner_tab: keyed_table owners ow_id T_owners add_owner put_owner
  by unfold_locales simp_all

definition add_assignment :: "owner_assignment \<Rightarrow> db \<Rightarrow> db" where
  [simp]: "add_assignment r d = bump T_assignments (oa_id r) (d\<lparr>assignments := assignments d @ [r]\<rparr>)"

interpretation assignment_tab: append_table assignments oa_id T_assignments add_assignment
  by unfold_locales simp_all

definition add_payout :: "owner_payout \<Rightarrow> db \<Rightarrow> db" where
  [simp]: "add_payout r d = bump T_payouts (op_id r) (d\<lparr>payouts := payouts d @ [r]\<rparr>)"

definition put_payout :: "owner_payout \<Rightarrow> db \<Rightarrow> db" where
  [simp]: "put_payout r d = d\<lparr>payouts := row_put op_id r (payouts d)\<rparr>"

interpretation payout_tab: keyed_table payouts op_id T_payouts add_payout put_payout
  by unfold_locales simp_all

definition add_owner_user :: "owner_user \<Rightarrow> db \<Rightarrow> db" where
  [simp]: "add_owner_user r d = bump T_owner_users (ou_id r) (d\<lparr>owner_users := owner_users d @ [r]\<rparr>)"

definition put_owner_user :: "owner_user \<Rightarrow> db \<Rightarrow> db" where
  [simp]: "put_owner_user r d = d\<lparr>owner_users := row_put ou_id r (owner_users d)\<rparr>"

interpretation owner_user_tab: keyed_table owner_users ou_id T_owner_users add_owner_user put_owner_user
  by unfold_locales simp_all

definition add_user :: "user_row \<Rightarrow> db \<Rightarrow> db" where
  [simp]: "add_user r d = bump T_users (usr_id r) (d\<lparr>users := users d @ [r]\<rparr>)"

definition put_user :: "user_row \<Rightarrow> db \<Rightarrow> db" where
  [simp]: "put_user r d = d\<lparr>users := row_put usr_id r (users d)\<rparr>"

interpretation user_tab: keyed_table users usr_id T_users add_user put_user
  by unfold_locales simp_all

definition add_image :: "property_image \<Rightarrow> db \<Rightarrow> db" where
  [simp]: "add_image r d = bump T_images (pi_id r) (d\<lparr>images := images d @ [r]\<rparr>)"

definition put_image :: "property_image \<Rightarrow> db \<Rightarrow> db" where
  [simp]: "put_image r d = d\<lparr>images := row_put pi_id r (images d)\<rparr>"

interpretation image_tab: keyed_table images pi_id T_images add_image put_image
  by unfold_locales simp_all

definition add_feed :: "calendar_feed \<Rightarrow> db \<Rightarrow> db" where
  [simp]: "add_feed r d = bump T_feeds (fd_id r) (d\<lparr>feeds := feeds d @ [r]\<rparr>)"

definition put_feed :: "calendar_feed \<Rightarrow> db \<Rightarrow> db" where
  [simp]: "put_feed r d = d\<lparr>feeds := row_put fd_id r (feeds d)\<rparr>"

interpretation feed_tab: keyed_table feeds fd_id T_feeds add_feed put_feed
  by unfold_locales simp_all

definition add_imported :: "imported_event \<Rightarrow> db \<Rightarrow> db" where
  [simp]: "add_imported r d = bump T_imported (ie_id r) (d\<lparr>imported := imported d @ [r]\<rparr>)"

interpretation imported_tab: append_table imported ie_id T_imported add_imported
  by unfold_locales simp_all

definition add_component :: "status_component \<Rightarrow> db \<Rightarrow> db" where
  [simp]: "add_component r d = bump T_components (sc_id r) (d\<lparr>components := components d @ [r]\<rparr>)"

definition put_component :: "status_component \<Rightarrow> db \<Rightarrow> db" where
  [simp]: "put_component r d = d\<lparr>components := row_put sc_id r (components d)\<rparr>"

interpretation component_tab: keyed_table components sc_id T_components add_component put_component
  by unfold_locales simp_all

definition add_incident :: "status_incident \<Rightarrow> db \<Rightarrow> db" where
  [simp]: "add_incident r d = bump T_incidents (si_id r) (d\<lparr>incidents := incidents d @ [r]\<rparr>)"

definition put_incident :: "status_incident \<Rightarrow> db \<Rightarrow> db" where
  [simp]: "put_incident r d = d\<lparr>incidents := row_put si_id r (incidents d)\<rparr>"

interpretation incident_tab: keyed_table incidents si_id T_incidents add_incident put_incident
  by unfold_locales simp_all

definition add_check :: "status_check \<Rightarrow> db \<Rightarrow> db" where
  [simp]: "add_check r d = bump T_checks (sk_id r) (d\<lparr>checks := checks d @ [r]\<rparr>)"

interpretation check_tab: append_table checks sk_id T_checks add_check
  by unfold_locales simp_all

definition add_backup :: "backup_row \<Rightarrow> db \<Rightarrow> db" where
  [simp]: "add_backup r d = bump T_backups (bk_id r) (d\<lparr>backups := backups d @ [r]\<rparr>)"

definition put_backup :: "backup_row \<Rightarrow> db \<Rightarrow> db" where
  [simp]: "put_backup r d = d\<lparr>backups := row_put bk_id r (backups d)\<rparr>"

interpretation backup_tab: keyed_table backups bk_id T_backups add_backup put_backup
  by unfold_locales simp_all

definition add_saved_filter :: "saved_filter \<Rightarrow> db \<Rightarrow> db" where
  [simp]: "add_saved_filter r d = bump T_filters (sf_id r) (d\<lparr>saved_filters := saved_filters d @ [r]\<rparr>)"

interpretation saved_filter_tab: append_table saved_filters sf_id T_filters add_saved_filter
  by unfold_locales simp_all

definition add_org :: "org_row \<Rightarrow> db \<Rightarrow> db" where
  [simp]: "add_org r d = bump T_orgs (org_id r) (d\<lparr>orgs := orgs d @ [r]\<rparr>)"

definition put_org :: "org_row \<Rightarrow> db \<Rightarrow> db" where
  [simp]: "put_org r d = d\<lparr>orgs := row_put org_id r (orgs d)\<rparr>"

interpretation org_tab: keyed_table orgs org_id T_orgs add_org put_org
  by unfold_locales simp_all

definition add_property :: "property_row \<Rightarrow> db \<Rightarrow> db" where
  [simp]: "add_property r d = bump T_properties (p_id r) (d\<lparr>properties := properties d @ [r]\<rparr>)"

definition put_property :: "property_row \<Rightarrow> db \<Rightarrow> db" where
  [simp]: "put_property r d = d\<lparr>properties := row_put p_id r (properties d)\<rparr>"

interpretation property_tab: keyed_table properties p_id T_properties add_property put_property
  by unfold_locales simp_all

definition add_unit :: "unit_row \<Rightarrow> db \<Rightarrow> db" where
  [simp]: "add_unit r d = bump T_units (u_id r) (d\<lparr>units := units d @ [r]\<rparr>)"

definition put_unit :: "unit_row \<Rightarrow> db \<Rightarrow> db" where
  [simp]: "put_unit r d = d\<lparr>units := row_put u_id r (units d)\<rparr>"

interpretation unit_tab: keyed_table units u_id T_units add_unit put_unit
  by unfold_locales simp_all

end
