(* ===== verification/AuditLog.thy ===== *)
theory AuditLog
  imports Tables
begin

text \<open>
  The audit log (app/audit): who acted (API key, logged-in user, anonymous request or the
  system itself), from where, and one row per event. A call names the keywords it passes by
  updating \<open>audit_defaults\<close>. \<open>record\<close> swallows database failures; those do not occur here.
\<close>

subsection \<open>Actor and request metadata\<close>

definition resolve_actor :: "env \<Rightarrow> string \<times> int option \<times> string option \<times> int option" where
  "resolve_actor en =
     (let r = req en in
      if \<not> rq_app r then (''system'', None, None, None)
      else case rq_api_key r of
        Some k \<Rightarrow> (''api_key'', Some (ak_id k), ak_owner_email k, Some (ak_org k))
      | None \<Rightarrow>
        if rq_request r then
          (case rq_user r of
             Some u \<Rightarrow> (''user'', Some (usr_id u), Some (usr_email u), Some (usr_org u))
           | None \<Rightarrow> (''anonymous'', None, None, None))
        else (''system'', None, None, None))"

definition resolve_request_metadata :: "env \<Rightarrow> string option \<times> string option" where
  "resolve_request_metadata en =
     (let r = req en in
      if \<not> rq_request r then (None, None)
      else
        let fwd = rq_forwarded r;
            ip = (if fwd \<noteq> '''' then Some (strip (before_char (CHR '','') fwd))
                  else text_or (rq_remote r) None);
            ua = text_or (text_or (rq_user_agent r) None) (rq_user_agent r)
        in (ip, map_option (take 512) ua))"

subsection \<open>Recording an event\<close>

record audit_args =
  aa_status :: "string option"
  aa_actor_type :: "string option"
  aa_actor_id :: "int option"
  aa_actor_email :: "string option"
  aa_org :: "int option"
  aa_target_type :: "string option"
  aa_target_id :: "int option"
  aa_context :: "(string \<times> json) list option"
  aa_metadata :: "(string \<times> json) list option"
  aa_ip :: "string option option"  \<comment> \<open>\<open>None\<close>: not passed\<close>
  aa_user_agent :: "string option option"
  aa_commit :: bool

definition audit_defaults :: audit_args where
  "audit_defaults = \<lparr>aa_status = Some ''success'', aa_actor_type = None, aa_actor_id = None,
     aa_actor_email = None, aa_org = None, aa_target_type = None, aa_target_id = None,
     aa_context = None, aa_metadata = None, aa_ip = None, aa_user_agent = None,
     aa_commit = False\<rparr>"

definition merged_context :: "audit_args \<Rightarrow> json" where
  "merged_context a =
     (if aa_metadata a = None \<and> aa_context a = None then JNull
      else JObj (dict_update
        (dict_update [] (case aa_metadata a of None \<Rightarrow> [] | Some m \<Rightarrow> m))
        (case aa_context a of None \<Rightarrow> [] | Some c \<Rightarrow> c)))"

definition audit_entry :: "env \<Rightarrow> string \<Rightarrow> audit_args \<Rightarrow> world \<Rightarrow> audit_log" where
  "audit_entry en action a w =
     (let (rtype, rid, remail, rorg) = resolve_actor en;
          (rip, rua) = resolve_request_metadata en
      in \<lparr>al_id = next_key T_audit (cur w), al_action = action, al_status = aa_status a,
          al_actor_type = (case text_or (aa_actor_type a) None of Some t \<Rightarrow> t | None \<Rightarrow> rtype),
          al_actor_id = or_else (aa_actor_id a) rid,
          al_actor_email = text_or (aa_actor_email a) remail,
          al_org = or_else (aa_org a) rorg,
          al_target_type = aa_target_type a, al_target_id = aa_target_id a,
          al_ip = (case aa_ip a of None \<Rightarrow> rip | Some v \<Rightarrow> v),
          al_user_agent = (case aa_user_agent a of None \<Rightarrow> rua | Some v \<Rightarrow> v),
          al_context = merged_context a, al_created_at = clock w\<rparr>)"

definition audit_record :: "env \<Rightarrow> string \<Rightarrow> audit_args \<Rightarrow> world \<Rightarrow> world" where
  "audit_record en action a w =
     (let w1 = on_db (add_audit (audit_entry en action a w)) w
      in if aa_commit a then commit w1 else w1)"

definition vacuum_audit_logs :: "env \<Rightarrow> int \<Rightarrow> world \<Rightarrow> (exn + int) \<times> world" where
  "vacuum_audit_logs en keep_days w =
     (if keep_days \<le> 0 then (Inl (PyError ValueError), w)
      else
        let cutoff = clock w - days keep_days;
            old = (\<lambda>a. al_created_at a < cutoff);
            deleted = int (length (filter old (audit_logs (cur w))));
            w1 = commit (on_db
              (\<lambda>d. d\<lparr>audit_logs := filter (\<lambda>a. \<not> old a) (audit_logs d)\<rparr>) w);
            w2 = audit_record en ''audit.logs.vacuumed''
              (audit_defaults\<lparr>aa_actor_type := Some ''system'',
                 aa_target_type := Some ''audit_log'',
                 aa_context := Some [(''deleted_count'', JInt deleted),
                                     (''keep_days'', JInt keep_days)],
                 aa_commit := True\<rparr>) w1
        in (Inr deleted, w2))"

subsection \<open>Frame\<close>

lemma audit_record_cur [simp]:
  "cur (audit_record en act a w) = add_audit (audit_entry en act a w) (cur w)"
  by (simp add: audit_record_def Let_def)

lemma audit_record_world [simp]:
  "clock (audit_record en act a w) = clock w" "out (audit_record en act a w) = out w"
  "today (audit_record en act a w) = today w" "memo (audit_record en act a w) = memo w"
  by (simp_all add: audit_record_def Let_def today_def)

lemma audit_record_com [simp]:
  "\<not> aa_commit a \<Longrightarrow> com (audit_record en act a w) = com w"
  "aa_commit a \<Longrightarrow> com (audit_record en act a w) = cur (audit_record en act a w)"
  by (simp_all add: audit_record_def Let_def)

lemma aa_commit_default [simp]: "\<not> aa_commit audit_defaults"
  by (simp add: audit_defaults_def)

lemma audit_entry_fields [simp]:
  "al_id (audit_entry en act a w) = next_key T_audit (cur w)"
  "al_action (audit_entry en act a w) = act"
  "al_target_id (audit_entry en act a w) = aa_target_id a"
  "al_created_at (audit_entry en act a w) = clock w"
  by (simp_all add: audit_entry_def split_beta Let_def)

subsection \<open>What the log records\<close>

text \<open>An explicit organization wins; otherwise it is that of the API key, else of the user.\<close>

lemma audit_entry_org:
  "al_org (audit_entry en act a w) =
     (case aa_org a of Some i \<Rightarrow> Some i
      | None \<Rightarrow> if \<not> rq_app (req en) then None
        else case rq_api_key (req en) of Some k \<Rightarrow> Some (ak_org k)
        | None \<Rightarrow> if rq_request (req en) then map_option usr_org (rq_user (req en)) else None)"
  by (auto simp: audit_entry_def resolve_actor_def Let_def or_else_def
      split: option.splits prod.splits if_splits)

lemma dict_set_get: "map_of (dict_set k v d) = (map_of d)(k \<mapsto> v)"
proof (cases "k \<in> set (map fst d)")
  case True
  have "map_of (map (\<lambda>(a, b). (a, if a = k then v else b)) d) x =
      (if x = k then map_option (\<lambda>_. v) (map_of d x) else map_of d x)" for x
    by (induction d) auto
  moreover have "map_of d k \<noteq> None" using True by (auto simp: map_of_eq_None_iff)
  ultimately show ?thesis using True by (auto simp: dict_set_def fun_eq_iff)
next
  case False
  then have n: "map_of d k = None" by (simp add: map_of_eq_None_iff)
  have "dict_set k v d = d @ [(k, v)]" using False by (auto simp: dict_set_def)
  then have "map_of (dict_set k v d) = map_of [(k, v)] ++ map_of d" by (simp only: map_of_append)
  then show ?thesis using n by (auto simp: fun_eq_iff map_add_def split: option.splits)
qed

lemma dict_update_get: "distinct (map fst e) \<Longrightarrow> map_of (dict_update d e) = map_of d ++ map_of e"
proof (induction e rule: rev_induct)
  case Nil
  then show ?case by (simp add: dict_update_def)
next
  case (snoc x xs)
  obtain k v where [simp]: "x = (k, v)" by fastforce
  have n: "map_of xs k = None" using snoc.prems by (auto simp: map_of_eq_None_iff)
  have "map_of (dict_update d (xs @ [x])) = (map_of d ++ map_of xs)(k \<mapsto> v)"
    using snoc by (simp add: dict_update_def dict_set_get)
  then show ?case using n by (auto simp: fun_eq_iff map_add_def split: option.splits)
qed

text \<open>On a key that both carry, the context wins over the metadata.\<close>

lemma merged_context_get:
  assumes "aa_metadata a = Some m" and "aa_context a = Some c"
    and "distinct (map fst m)" and "distinct (map fst c)"
  shows "obj_get k (merged_context a) = (case map_of c k of Some v \<Rightarrow> Some v | None \<Rightarrow> map_of m k)"
  using assms
  by (auto simp: merged_context_def obj_get_def dict_update_get map_add_def split: option.splits)

text \<open>
  After a vacuum every row left is younger than the cutoff, and exactly one row, the record of
  the vacuum itself, is new.
\<close>

lemma vacuum_keeps_recent:
  assumes "vacuum_audit_logs en k w = (Inr n, w')"
  shows "\<forall>a\<in>set (audit_logs (cur w')). clock w - days k \<le> al_created_at a"
    and "int (length (audit_logs (cur w'))) = int (length (audit_logs (cur w))) - n + 1"
    and "com w' = cur w'"
proof -
  let ?old = "\<lambda>a. al_created_at a < clock w - days k"
  from assms have k: "0 < k" by (auto simp: vacuum_audit_logs_def split: if_splits)
  have d: "0 \<le> days k" using k by (simp add: days_def us_per_day_def us_per_second_def)
  have n: "n = int (length (filter ?old (audit_logs (cur w))))"
    using assms k by (simp add: vacuum_audit_logs_def Let_def)
  have l: "\<exists>e. audit_logs (cur w') = filter (\<lambda>a. \<not> ?old a) (audit_logs (cur w)) @ [e]
      \<and> al_created_at e = clock w"
    using assms k by (auto simp: vacuum_audit_logs_def Let_def)
  show "\<forall>a\<in>set (audit_logs (cur w')). clock w - days k \<le> al_created_at a" using l d by auto
  show "int (length (audit_logs (cur w'))) = int (length (audit_logs (cur w))) - n + 1"
    using l n sum_length_filter_compl [of ?old "audit_logs (cur w)"] by auto
  show "com w' = cur w'" using assms k by (auto simp: vacuum_audit_logs_def Let_def)
qed

end
