(* ===== verification/Json.thy ===== *)
theory Json
  imports Db "HOL-Library.List_Lexorder" "HOL-Library.Char_ord"
begin

text \<open>
  The text of JSON values as \<open>json.dumps(..., separators=(",", ":"), ensure_ascii=False)\<close> prints
  them, with keys in insertion order or sorted (the canonical form that is hashed and signed),
  and the byte length of text in UTF-8.
\<close>

definition hex_digit :: "nat \<Rightarrow> char" where
  "hex_digit n = (if n < 10 then char_of (48 + n) else char_of (87 + n))"

definition json_escape_char :: "char \<Rightarrow> string" where
  "json_escape_char c =
     (let n = (of_char c :: nat) in
      if n = 34 then [CHR 0x5C, CHR 0x22]
      else if n = 92 then [CHR 0x5C, CHR 0x5C]
      else if n = 10 then [CHR 0x5C, CHR ''n'']
      else if n = 13 then [CHR 0x5C, CHR ''r'']
      else if n = 9 then [CHR 0x5C, CHR ''t'']
      else if n = 8 then [CHR 0x5C, CHR ''b'']
      else if n = 12 then [CHR 0x5C, CHR ''f'']
      else if n < 32 then [CHR 0x5C] @ ''u00'' @ [hex_digit (n div 16), hex_digit (n mod 16)]
      else [c])"

definition json_quote :: "string \<Rightarrow> string" where
  "json_quote s = [CHR 0x22] @ concat (map json_escape_char s) @ [CHR 0x22]"

fun json_print :: "string \<Rightarrow> string \<Rightarrow> json \<Rightarrow> string" where
  "json_print sep colon JNull = ''null''"
| "json_print sep colon (JBool b) = (if b then ''true'' else ''false'')"
| "json_print sep colon (JInt i) = show_int i"
| "json_print sep colon (JStr s) = json_quote s"
| "json_print sep colon (JList xs) = ''['' @ join_with sep (map (json_print sep colon) xs) @ '']''"
| "json_print sep colon (JObj kvs) =
     ''{'' @ join_with sep (map (\<lambda>(k, v). json_quote k @ colon @ json_print sep colon v) kvs) @ ''}''"

definition json_dumps :: "json \<Rightarrow> string" where
  "json_dumps j = json_print '','' '':'' j"

text \<open>\<open>bool(x)\<close>, \<open>str(x)\<close> and \<open>repr(x)\<close> of a decoded JSON value.\<close>

fun json_truthy :: "json \<Rightarrow> bool" where
  "json_truthy JNull = False"
| "json_truthy (JBool b) = b"
| "json_truthy (JInt i) = (i \<noteq> 0)"
| "json_truthy (JStr s) = (s \<noteq> [])"
| "json_truthy (JList xs) = (xs \<noteq> [])"
| "json_truthy (JObj kvs) = (kvs \<noteq> [])"

definition repr_char :: "char \<Rightarrow> char \<Rightarrow> string" where
  "repr_char quote c =
     (let n = (of_char c :: nat) in
      if c = quote \<or> n = 92 then [CHR 0x5C, c]
      else if n = 10 then [CHR 0x5C, CHR ''n''] else if n = 13 then [CHR 0x5C, CHR ''r'']
      else if n = 9 then [CHR 0x5C, CHR ''t'']
      else if n < 32 \<or> (127 \<le> n \<and> n \<le> 160) \<or> n = 173
        then [CHR 0x5C, CHR ''x'', hex_digit (n div 16), hex_digit (n mod 16)]
      else [c])"

definition repr_text :: "string \<Rightarrow> string" where
  "repr_text s =
     (let quote = (if CHR 0x27 \<in> set s \<and> CHR 0x22 \<notin> set s then CHR 0x22 else CHR 0x27)
      in [quote] @ concat (map (repr_char quote) s) @ [quote])"

fun json_repr :: "json \<Rightarrow> string" where
  "json_repr JNull = ''None''"
| "json_repr (JBool b) = (if b then ''True'' else ''False'')"
| "json_repr (JInt i) = show_int i"
| "json_repr (JStr s) = repr_text s"
| "json_repr (JList xs) = ''['' @ join_with '', '' (map json_repr xs) @ '']''"
| "json_repr (JObj kvs) =
     ''{'' @ join_with '', '' (map (\<lambda>(k, v). repr_text k @ '': '' @ json_repr v) kvs) @ ''}''"

definition json_str :: "json \<Rightarrow> string" where
  "json_str j = (case j of JStr s \<Rightarrow> s | _ \<Rightarrow> json_repr j)"

text \<open>\<open>int(x)\<close> of a decoded JSON value.\<close>

definition json_int :: "json \<Rightarrow> py_error + int" where
  "json_int j = (case j of JBool b \<Rightarrow> Inr (if b then 1 else 0) | JInt i \<Rightarrow> Inr i
     | JStr s \<Rightarrow> (case int_of_text s of None \<Rightarrow> Inl ValueError | Some i \<Rightarrow> Inr i)
     | _ \<Rightarrow> Inl TypeError)"

fun json_sorted :: "json \<Rightarrow> json" where
  "json_sorted (JList xs) = JList (map json_sorted xs)"
| "json_sorted (JObj kvs) = JObj (sort_key fst (map (\<lambda>(k, v). (k, json_sorted v)) kvs))"
| "json_sorted j = j"

definition json_dumps_sorted :: "json \<Rightarrow> string" where
  "json_dumps_sorted j = json_dumps (json_sorted j)"

subsection \<open>UTF-8 length\<close>

definition utf8_len :: "char \<Rightarrow> nat" where
  "utf8_len c = (if (of_char c :: nat) < 128 then 1 else 2)"

definition utf8_size :: "string \<Rightarrow> nat" where
  "utf8_size s = sum_list (map utf8_len s)"

text \<open>The first \<open>n\<close> bytes of the text, a character cut in two dropped.\<close>

fun utf8_take :: "nat \<Rightarrow> string \<Rightarrow> string" where
  "utf8_take n [] = []"
| "utf8_take n (c # cs) = (if utf8_len c \<le> n then c # utf8_take (n - utf8_len c) cs else [])"

lemma utf8_take_size: "utf8_size (utf8_take n s) \<le> n"
  by (induction n s rule: utf8_take.induct) (auto simp: utf8_size_def)

lemma utf8_take_all: "utf8_size s \<le> n \<Longrightarrow> utf8_take n s = s"
  by (induction n s rule: utf8_take.induct) (auto simp: utf8_size_def)

subsection \<open>Sorting keys\<close>

lemma json_sorted_idem: "json_sorted (json_sorted j) = json_sorted j"
proof (induction j rule: json_sorted.induct)
  case (1 xs)
  then show ?case by simp
next
  case (2 kvs)
  let ?f = "\<lambda>(k, v). (k :: string, json_sorted v)"
  have "map ?f (sort_key fst (map ?f kvs)) = sort_key fst (map ?f kvs)"
    by (rule map_idI) (use 2 in \<open>force split: prod.splits\<close>)
  then show ?case by (simp add: sort_key_id_if_sorted)
qed auto

text \<open>The canonical text does not depend on the order in which the keys were inserted.\<close>

lemma json_dumps_sorted_order:
  assumes "distinct (map fst kvs)" and "distinct (map fst kvs')" and "set kvs = set kvs'"
  shows "json_dumps_sorted (JObj kvs) = json_dumps_sorted (JObj kvs')"
proof -
  let ?g = "map (\<lambda>(k, v). (k, json_sorted v))"
  have key: "map fst (?g l) = map fst l" for l by (induction l) auto
  have d: "distinct (map fst (sort_key fst (?g l)))" if "distinct (map fst l)" for l
  proof -
    have "distinct (map fst (?g l))" using that by (simp only: key)
    then have "distinct (?g l)" "inj_on fst (set (?g l))" by (simp_all only: distinct_map)
    then show ?thesis by (simp only: distinct_map [of fst "sort_key fst (?g l)"] distinct_sort set_sort)
  qed
  have s: "set (sort_key fst (?g kvs)) = set (sort_key fst (?g kvs'))" using assms(3) by simp
  have "inj_on fst (set (sort_key fst (?g kvs)))" using d [OF assms(1)] by (simp only: distinct_map)
  then have "sort_key fst (?g kvs) = sort_key fst (?g kvs')"
    using d [OF assms(1)] d [OF assms(2)] s
    by (intro map_sorted_distinct_set_unique [of fst]) simp_all
  then show ?thesis by (simp add: json_dumps_sorted_def)
qed

end
