(* ===== verification/Notifications.thy ===== *)
theory Notifications
  imports AuditLog Json
begin

text \<open>
  In-app notifications (app/notifications): creation with its severity check, the visibility
  rule (the owner, or a broadcast to the user's organization), reading one or all of them,
  the unread lists, and pruning. Main facts: nobody reads a notification that is neither his
  nor a broadcast of his organization, and \<open>mark_all_read\<close> leaves nothing unread in its scope
  and touches nothing outside it.
\<close>

definition severities :: "string list" where
  "severities = [''info'', ''warning'', ''danger'', ''success'']"

definition e_nt_severity :: exn where
  "e_nt_severity = ServiceError Notification_service ''validation_error''
     ''Invalid notification severity.'' 400"
definition e_nt_no_member :: exn where
  "e_nt_no_member = ServiceError Notification_service ''not_found''
     ''User not found in organization.'' 404"
definition e_nt_not_found :: exn where
  "e_nt_not_found = ServiceError Notification_service ''not_found'' ''Notification not found.'' 404"
definition e_nt_no_user :: exn where
  "e_nt_no_user = ServiceError Notification_service ''not_found'' ''User not found.'' 404"
definition e_nt_forbidden :: exn where
  "e_nt_forbidden = ServiceError Notification_service ''forbidden'' ''Forbidden.'' 403"

subsection \<open>Creation\<close>

text \<open>\<open>User\<close> has no \<open>preferences\<close> attribute, so \<open>getattr(user, "preferences", None)\<close> is \<open>None\<close>.\<close>

definition user_preferences :: "user_row \<Rightarrow> json" where "user_preferences u = JNull"

definition is_type_enabled_for_user :: "user_row option \<Rightarrow> string \<Rightarrow> bool" where
  "is_type_enabled_for_user u ty =
     (case u of None \<Rightarrow> True | Some v \<Rightarrow>
       (case user_preferences v of
          JObj prefs \<Rightarrow>
            (case map_of prefs ''notifications'' of
               Some (JObj np) \<Rightarrow>
                 (case map_of np ''disabled_types'' of
                    Some (JList xs) \<Rightarrow> ty \<notin> set (map (\<lambda>x. strip (json_str x)) xs)
                  | _ \<Rightarrow> True)
             | _ \<Rightarrow> True)
        | _ \<Rightarrow> True))"

definition user_in_org :: "int \<Rightarrow> int \<Rightarrow> db \<Rightarrow> user_row option" where
  "user_in_org uid oid d = List.find (\<lambda>u. usr_id u = uid \<and> usr_org u = oid) (users d)"

definition new_notification ::
  "int \<Rightarrow> string \<Rightarrow> string \<Rightarrow> string option \<Rightarrow> string option \<Rightarrow> string \<Rightarrow> int option \<Rightarrow> world
   \<Rightarrow> notification" where
  "new_notification oid ty title body link sev uid w =
     \<lparr>nt_id = next_key T_notifications (cur w), nt_org = oid, nt_user = uid,
      nt_type = strip ty, nt_title = strip title,
      nt_body = none_if_empty (strip (or_empty body)),
      nt_link = none_if_empty (strip (or_empty link)), nt_severity = sev,
      nt_read = False, nt_created_at = clock w, nt_read_at = None\<rparr>"

definition notification_audit :: "int \<Rightarrow> notification \<Rightarrow> audit_args" where
  "notification_audit oid row =
     audit_defaults\<lparr>aa_target_type := Some ''notification'',
       aa_target_id := Some (nt_id row), aa_org := Some oid,
       aa_metadata := Some [(''type'', JStr (nt_type row)), (''severity'', JStr (nt_severity row))]\<rparr>"

definition notification_create ::
  "env \<Rightarrow> int \<Rightarrow> string \<Rightarrow> string \<Rightarrow> string option \<Rightarrow> string option \<Rightarrow> string \<Rightarrow> int option
   \<Rightarrow> world \<Rightarrow> (exn + notification option) \<times> world" where
  "notification_create en oid ty title body link severity uid w =
     (let sev = lower (strip (if severity = '''' then ''info'' else severity));
          target = (case uid of None \<Rightarrow> None | Some i \<Rightarrow> user_in_org i oid (cur w))
      in if sev \<notin> set severities then (Inl e_nt_severity, w)
         else if uid \<noteq> None \<and> target = None then (Inl e_nt_no_member, w)
         else if uid \<noteq> None \<and> \<not> is_type_enabled_for_user target ty then (Inr None, w)
         else
           let row = new_notification oid ty title body link sev uid w
           in (Inr (Some row), audit_record en ''notification.created''
                (notification_audit oid row)
                (on_db (add_notification row) w)))"

subsection \<open>Reading\<close>

definition user_get :: "int \<Rightarrow> db \<Rightarrow> user_row option" where
  "user_get uid d = row_get usr_id uid (users d)"

definition visible_to :: "user_row \<Rightarrow> notification \<Rightarrow> bool" where
  "visible_to u n \<longleftrightarrow>
     nt_user n = Some (usr_id u) \<or> (nt_user n = None \<and> nt_org n = usr_org u)"

definition get_visible_notification_for_user :: "int \<Rightarrow> user_row \<Rightarrow> db \<Rightarrow> exn + notification" where
  "get_visible_notification_for_user nid u d =
     (case row_get nt_id nid (notifications d) of
        None \<Rightarrow> Inl e_nt_not_found
      | Some n \<Rightarrow> if visible_to u n then Inr n else Inl e_nt_forbidden)"

definition notification_mark_read :: "int \<Rightarrow> int \<Rightarrow> world \<Rightarrow> (exn + notification) \<times> world" where
  "notification_mark_read nid uid w =
     (case user_get uid (cur w) of
        None \<Rightarrow> (Inl e_nt_no_user, w)
      | Some u \<Rightarrow>
        (case get_visible_notification_for_user nid u (cur w) of
           Inl e \<Rightarrow> (Inl e, w)
         | Inr n \<Rightarrow>
             if nt_read n then (Inr n, w)
             else let n1 = n\<lparr>nt_read := True, nt_read_at := Some (clock w)\<rparr>
                  in (Inr n1, on_db (put_notification n1) w)))"

definition unread_in_scope :: "int \<Rightarrow> int \<Rightarrow> notification \<Rightarrow> bool" where
  "unread_in_scope uid oid n \<longleftrightarrow>
     nt_org n = oid \<and> \<not> nt_read n \<and> (nt_user n = Some uid \<or> nt_user n = None)"

definition notification_mark_all_read :: "int \<Rightarrow> int \<Rightarrow> world \<Rightarrow> (exn + int) \<times> world" where
  "notification_mark_all_read uid oid w =
     (case user_get uid (cur w) of
        None \<Rightarrow> (Inl e_nt_no_user, w)
      | Some u \<Rightarrow>
        if usr_role u \<noteq> ''superadmin'' \<and> usr_org u \<noteq> oid then (Inl e_nt_forbidden, w)
        else
          let scope = (if usr_role u \<noteq> ''superadmin'' then usr_org u else oid);
              hit = unread_in_scope (usr_id u) scope;
              rows = filter hit (notifications (cur w))
          in (Inr (int (length rows)),
              on_db (\<lambda>d. d\<lparr>notifications := map (\<lambda>n. if hit n
                then n\<lparr>nt_read := True, nt_read_at := Some (clock w)\<rparr> else n)
                (notifications d)\<rparr>) w))"

definition clamp :: "int \<Rightarrow> int \<Rightarrow> nat" where
  "clamp most n = nat (max 1 (min (if n = 0 then most else n) most))"

definition notification_list_unread :: "int \<Rightarrow> int \<Rightarrow> int \<Rightarrow> db \<Rightarrow> notification list" where
  "notification_list_unread uid oid lim d =
     take (clamp 50 lim)
       (order2_desc nt_created_at nt_id (filter (unread_in_scope uid oid) (notifications d)))"

definition notification_list_all_for_user :: "int \<Rightarrow> int \<Rightarrow> int \<Rightarrow> db \<Rightarrow> notification list" where
  "notification_list_all_for_user uid oid lim d =
     take (clamp 200 lim)
       (order2_desc nt_created_at nt_id
          (filter (\<lambda>n. nt_org n = oid \<and> (nt_user n = Some uid \<or> nt_user n = None))
             (notifications d)))"

definition notification_unread_count :: "int \<Rightarrow> int \<Rightarrow> db \<Rightarrow> int" where
  "notification_unread_count uid oid d =
     int (length (filter (unread_in_scope uid oid) (notifications d)))"

definition notification_prune_old :: "int \<Rightarrow> world \<Rightarrow> int \<times> world" where
  "notification_prune_old retention w =
     (let keep = max 1 (if retention = 0 then 90 else retention);
          old = (\<lambda>n. nt_created_at n < clock w - days keep)
      in (int (length (filter old (notifications (cur w)))),
          on_db (\<lambda>d. d\<lparr>notifications := filter (\<lambda>n. \<not> old n) (notifications d)\<rparr>) w))"

lemma is_type_enabled [simp]: "is_type_enabled_for_user u ty"
  by (simp add: is_type_enabled_for_user_def user_preferences_def split: option.splits)

subsection \<open>Who reads what\<close>

lemma mark_read_visible:
  assumes "notification_mark_read nid uid w = (Inr n, w')"
  obtains u m where "user_get uid (cur w) = Some u" "row_get nt_id nid (notifications (cur w)) = Some m"
    "visible_to u m" "nt_read n"
    "n = m \<or> n = m\<lparr>nt_read := True, nt_read_at := Some (clock w)\<rparr>"
  using assms
  by (auto simp: notification_mark_read_def get_visible_notification_for_user_def Let_def
      split: option.splits if_splits sum.splits)

lemma mark_all_read_count:
  assumes "notification_mark_all_read uid oid w = (Inr k, w')"
  shows "k = notification_unread_count uid oid (cur w)"
    and "notification_unread_count uid oid (cur w') = 0"
    and "notifications (cur w') = map (\<lambda>n. if unread_in_scope uid oid n
        then n\<lparr>nt_read := True, nt_read_at := Some (clock w)\<rparr> else n) (notifications (cur w))"
proof -
  from assms obtain u where u: "user_get uid (cur w) = Some u"
    and scope: "(if usr_role u \<noteq> ''superadmin'' then usr_org u else oid) = oid"
    by (auto simp: notification_mark_all_read_def split: option.splits if_splits)
  have i: "usr_id u = uid" using u by (auto simp: user_get_def dest: row_get_in)
  define hit where "hit = unread_in_scope uid oid"
  have r: "k = int (length (filter hit (notifications (cur w))))"
    and n: "notifications (cur w') = map (\<lambda>n. if hit n
       then n\<lparr>nt_read := True, nt_read_at := Some (clock w)\<rparr> else n) (notifications (cur w))"
    using assms u scope
    by (auto simp: notification_mark_all_read_def Let_def i hit_def split: if_splits)
  show "k = notification_unread_count uid oid (cur w)"
    using r by (simp add: notification_unread_count_def hit_def)
  show "notification_unread_count uid oid (cur w') = 0"
    by (auto simp: notification_unread_count_def n filter_empty_conv hit_def unread_in_scope_def)
  show "notifications (cur w') = map (\<lambda>n. if unread_in_scope uid oid n
      then n\<lparr>nt_read := True, nt_read_at := Some (clock w)\<rparr> else n) (notifications (cur w))"
    by (simp add: n hit_def)
qed

lemma list_unread_bounds:
  "length (notification_list_unread uid oid lim d) \<le> 50"
  "set (notification_list_unread uid oid lim d) \<subseteq>
     {n \<in> set (notifications d). unread_in_scope uid oid n}"
  by (auto simp: notification_list_unread_def clamp_def dest: in_set_takeD)

lemma new_notification_simps [simp]:
  "nt_org (new_notification oid ty title body link sev uid w) = oid"
  "nt_user (new_notification oid ty title body link sev uid w) = uid"
  "nt_severity (new_notification oid ty title body link sev uid w) = sev"
  "\<not> nt_read (new_notification oid ty title body link sev uid w)"
  "nt_id (new_notification oid ty title body link sev uid w) = next_key T_notifications (cur w)"
  by (simp_all add: new_notification_def)

lemma notification_create_cases:
  assumes "notification_create en oid ty title body link sev uid w = (r, w')"
  obtains e where "r = Inl e" "w' = w" "is_service_error e"
  | n a where "r = Inr (Some n)" "w' = audit_record en ''notification.created'' a (on_db (add_notification n) w)"
      "\<not> aa_commit a" "nt_org n = oid" "nt_user n = uid" "\<not> nt_read n" "nt_severity n \<in> set severities"
      "nt_id n = next_key T_notifications (cur w)"
      "\<forall>i. uid = Some i \<longrightarrow> user_in_org i oid (cur w) \<noteq> None"
proof -
  define sev1 where "sev1 = lower (strip (if sev = '''' then ''info'' else sev))"
  define target where "target = (case uid of None \<Rightarrow> None | Some i \<Rightarrow> user_in_org i oid (cur w))"
  note eq = assms [unfolded notification_create_def, folded sev1_def target_def, unfolded Let_def]
  show ?thesis
  proof (cases "sev1 \<in> set severities")
    case False
    with eq show ?thesis by (intro that(1) [of e_nt_severity]) (simp_all add: e_nt_severity_def)
  next
    case sev: True
    show ?thesis
    proof (cases "uid \<noteq> None \<and> target = None")
      case True
      with eq sev show ?thesis by (intro that(1) [of e_nt_no_member]) (simp_all add: e_nt_no_member_def)
    next
      case False
      then have "\<forall>i. uid = Some i \<longrightarrow> user_in_org i oid (cur w) \<noteq> None"
        by (auto simp: target_def)
      with False eq sev show ?thesis
        by (intro that(2) [where n = "new_notification oid ty title body link sev1 uid w"
              and a = "notification_audit oid (new_notification oid ty title body link sev1 uid w)"])
          (auto simp: notification_audit_def)
    qed
  qed
qed

lemma create_adds_one:
  assumes "notification_create en oid ty title body link sev uid w = (Inr r, w')"
  shows "\<exists>n. r = Some n \<and> notifications (cur w') = notifications (cur w) @ [n] \<and> nt_org n = oid
     \<and> \<not> nt_read n \<and> nt_severity n \<in> set severities
     \<and> (\<forall>i. uid = Some i \<longrightarrow> (\<exists>u\<in>set (users (cur w)). usr_id u = i \<and> usr_org u = oid))"
  using assms
  by (rule notification_create_cases) (auto simp: user_in_org_def dest: find_Some_D)

lemma create_frame:
  assumes "notification_create en oid ty title body link sev uid w = (r, w')"
  shows "com w' = com w" "clock w' = clock w" "out w' = out w"
    "reservations (cur w') = reservations (cur w)" "leases (cur w') = leases (cur w)"
    "invoices (cur w') = invoices (cur w)" "payments (cur w') = payments (cur w)"
    "access_codes (cur w') = access_codes (cur w)" "users (cur w') = users (cur w)"
    "units (cur w') = units (cur w)" "properties (cur w') = properties (cur w)"
    "guests (cur w') = guests (cur w)" "webhook_subs (cur w') = webhook_subs (cur w)"
    "webhook_deliveries (cur w') = webhook_deliveries (cur w)"
  by (rule notification_create_cases [OF assms]; simp)+

end
