(* ===== verification/Scope.thy ===== *)
theory Scope
  imports Tables
begin

text \<open>
  Tenant scoping. A unit belongs to the organization of its property; a reservation to that of
  its unit. \<open>tenant_scope\<close> is the interface of a lookup that joins these tables and filters on the
  organization: what it returns belongs to the tenant, and rows of other tenants do not matter.
\<close>

definition property_get :: "int \<Rightarrow> db \<Rightarrow> property_row option" where
  "property_get pid d = row_get p_id pid (properties d)"

definition unit_get :: "int \<Rightarrow> db \<Rightarrow> unit_row option" where
  "unit_get uid d = row_get u_id uid (units d)"

definition guest_get :: "int \<Rightarrow> db \<Rightarrow> guest_row option" where
  "guest_get gid d = row_get g_id gid (guests d)"

definition property_org :: "int \<Rightarrow> db \<Rightarrow> int option" where
  "property_org pid d = map_option p_org (property_get pid d)"

text \<open>\<open>unit.property.organization_id\<close>\<close>

definition unit_org :: "int \<Rightarrow> db \<Rightarrow> int option" where
  "unit_org uid d =
     (case unit_get uid d of None \<Rightarrow> None | Some u \<Rightarrow> property_org (u_property u) d)"

definition res_org :: "db \<Rightarrow> reservation \<Rightarrow> int option" where
  "res_org d r = unit_org (res_unit r) d"

definition find_property :: "int \<Rightarrow> int \<Rightarrow> db \<Rightarrow> property_row option" where
  "find_property oid pid d = List.find (\<lambda>p. p_id p = pid \<and> p_org p = oid) (properties d)"

definition find_unit :: "int \<Rightarrow> int \<Rightarrow> db \<Rightarrow> unit_row option" where
  "find_unit oid uid d = List.find (\<lambda>u. u_id u = uid \<and> property_org (u_property u) d = Some oid) (units d)"

definition find_guest :: "int \<Rightarrow> int \<Rightarrow> db \<Rightarrow> guest_row option" where
  "find_guest oid gid d = List.find (\<lambda>g. g_id g = gid \<and> g_org g = oid) (guests d)"

definition scoped_reservations :: "int \<Rightarrow> db \<Rightarrow> reservation list" where
  "scoped_reservations oid d = filter (\<lambda>r. res_org d r = Some oid) (reservations d)"

definition find_reservation :: "int \<Rightarrow> int \<Rightarrow> db \<Rightarrow> reservation option" where
  "find_reservation oid rid d = List.find (\<lambda>r. res_id r = rid) (scoped_reservations oid d)"

subsection \<open>The interface\<close>

locale tenant_scope =
  fixes rows :: "db \<Rightarrow> 'r list"
    and key :: "'r \<Rightarrow> int"
    and owner :: "db \<Rightarrow> 'r \<Rightarrow> int option"
    and lookup :: "int \<Rightarrow> int \<Rightarrow> db \<Rightarrow> 'r option"
  assumes lookup_some: "lookup oid k d = Some r \<Longrightarrow> r \<in> set (rows d) \<and> key r = k \<and> owner d r = Some oid"
    and lookup_none: "lookup oid k d = None \<Longrightarrow> r \<in> set (rows d) \<Longrightarrow> key r = k \<Longrightarrow> owner d r \<noteq> Some oid"
begin

lemma own: "lookup oid k d = Some r \<Longrightarrow> owner d r = Some oid"
  using lookup_some by blast

lemma member: "lookup oid k d = Some r \<Longrightarrow> r \<in> set (rows d) \<and> key r = k"
  using lookup_some by blast

lemma foreign:
  assumes "distinct (map key (rows d))" and "r \<in> set (rows d)" and "owner d r \<noteq> Some oid"
  shows "lookup oid (key r) d = None"
proof (rule ccontr)
  assume "lookup oid (key r) d \<noteq> None"
  then obtain s where s: "lookup oid (key r) d = Some s" by auto
  then have "s \<in> set (rows d)" "key s = key r" "owner d s = Some oid" using lookup_some by blast+
  then show False using assms by (auto simp: distinct_map inj_on_def)
qed

lemma found:
  assumes "distinct (map key (rows d))" and "r \<in> set (rows d)" and "owner d r = Some oid"
  shows "lookup oid (key r) d = Some r"
proof (cases "lookup oid (key r) d")
  case None
  then show ?thesis using lookup_none assms(2,3) by blast
next
  case (Some s)
  then have "s \<in> set (rows d)" "key s = key r" using lookup_some by blast+
  then show ?thesis using assms Some by (auto simp: distinct_map inj_on_def)
qed

lemma exclusive:
  assumes "distinct (map key (rows d))" and "lookup oid k d = Some r" and "lookup oid' k d = Some r'"
  shows "oid = oid'"
proof -
  have "r \<in> set (rows d)" "key r = k" "owner d r = Some oid" "r' \<in> set (rows d)" "key r' = k"
    "owner d r' = Some oid'" using lookup_some assms(2,3) by blast+
  then show ?thesis using assms(1) by (auto simp: distinct_map inj_on_def)
qed

end

interpretation reservation_scope: tenant_scope reservations res_id res_org find_reservation
proof
  fix oid k d and r :: reservation
  show "find_reservation oid k d = Some r \<Longrightarrow> r \<in> set (reservations d) \<and> res_id r = k \<and> res_org d r = Some oid"
    by (auto simp: find_reservation_def scoped_reservations_def dest: find_Some_D)
  show "find_reservation oid k d = None \<Longrightarrow> r \<in> set (reservations d) \<Longrightarrow> res_id r = k \<Longrightarrow> res_org d r \<noteq> Some oid"
    by (auto simp: find_reservation_def scoped_reservations_def dest: find_None_D)
qed

interpretation unit_scope: tenant_scope units u_id "\<lambda>d u. property_org (u_property u) d" find_unit
proof
  fix oid k d and u :: unit_row
  show "find_unit oid k d = Some u \<Longrightarrow> u \<in> set (units d) \<and> u_id u = k \<and> property_org (u_property u) d = Some oid"
    by (auto simp: find_unit_def dest: find_Some_D)
  show "find_unit oid k d = None \<Longrightarrow> u \<in> set (units d) \<Longrightarrow> u_id u = k \<Longrightarrow> property_org (u_property u) d \<noteq> Some oid"
    by (auto simp: find_unit_def dest: find_None_D)
qed

interpretation guest_scope: tenant_scope guests g_id "\<lambda>d g. Some (g_org g)" find_guest
proof
  fix oid k d and g :: guest_row
  show "find_guest oid k d = Some g \<Longrightarrow> g \<in> set (guests d) \<and> g_id g = k \<and> Some (g_org g) = Some oid"
    by (auto simp: find_guest_def dest: find_Some_D)
  show "find_guest oid k d = None \<Longrightarrow> g \<in> set (guests d) \<Longrightarrow> g_id g = k \<Longrightarrow> Some (g_org g) \<noteq> Some oid"
    by (auto simp: find_guest_def dest: find_None_D)
qed

lemma find_unit_get:
  assumes "distinct (map u_id (units d))" and "find_unit oid uid d = Some u"
  shows "unit_get uid d = Some u" and "unit_org uid d = Some oid"
proof -
  have m: "u \<in> set (units d)" "u_id u = uid" "property_org (u_property u) d = Some oid"
    using unit_scope.lookup_some [OF assms(2)] by auto
  show g: "unit_get uid d = Some u"
    unfolding unit_get_def using row_get_mem [OF assms(1) m(1)] m(2) by simp
  show "unit_org uid d = Some oid" by (simp add: unit_org_def g m(3))
qed

lemma unit_org_cong:
  "units d' = units d \<Longrightarrow> properties d' = properties d \<Longrightarrow> unit_org u d' = unit_org u d"
  by (simp add: unit_org_def unit_get_def property_org_def property_get_def split: option.split)

lemma scope_frame:
  assumes "units d' = units d" and "properties d' = properties d"
  shows "res_org d' = res_org d"
    and "reservations d' = reservations d \<Longrightarrow> find_reservation oid rid d' = find_reservation oid rid d"
  using unit_org_cong [OF assms]
  by (auto simp: fun_eq_iff res_org_def find_reservation_def scoped_reservations_def)

end
