(* ===== verification/Samples.thy ===== *)
theory Samples
  imports Tables
begin

text \<open>
  A concrete environment and world, for evaluating the definitions on small inputs: every
  function of the environment is a simple executable one. 2026-01-10T12:00:00Z is the clock.
\<close>

definition sample_request :: req_ctx where
  "sample_request = \<lparr>rq_app = True, rq_request = True, rq_api_key = None, rq_user = None,
     rq_forwarded = '''', rq_remote = Some ''10.0.0.1'', rq_user_agent = Some ''curl''\<rparr>"

definition sample_env :: env where
  "sample_env = \<lparr>req = sample_request, local_today = ordinal_of 2026 1 10,
     sha256 = (\<lambda>s. ''h:'' @ s), hmac256 = (\<lambda>k s. k @ '':'' @ s), encrypt = (\<lambda>s. ''gAAAAA'' @ s),
     decrypt = (\<lambda>s. Some (drop 6 s)), check_password_hash = (\<lambda>h p. h = p),
     password_hash = (\<lambda>s. s), max_login_attempts = 5,
     totp_verify = (\<lambda>s c t. s = c), json_loads = (\<lambda>s. None), inbound_secret_config = '''',
     webhook_async = False, webhook_peer = (\<lambda>o1 u. Inr (200, ''ok'')),
     lock_provision = (\<lambda>o1. Inr (Some ''pc-1'')), lock_revoke = (\<lambda>o1. Inr ()),
     jinja = (\<lambda>t c. Inr (t, t)), jinja_text = (\<lambda>t c. Inr t), mail_dev_only = False,
     mail_api_key = ''k'', mail_domain = ''mg'', mail_http = (\<lambda>o1. Inr (200, ''ok'')), pay_enabled = (\<lambda>p. p = ''stripe''), pay_expiry_hours = 24,
     provider_checkout = (\<lambda>o1. Inr (Some ''pi_1'', Some ''cs_1'', Some ''https://pay'')),
     provider_refund = (\<lambda>o1. Inr (Some ''re_1'', ''succeeded'')), idem_ttl = 86400,
     collation = (\<lambda>s. s), ical_secret = ''feed'', ical_fetch = (\<lambda>o1. Inr ''BEGIN:VCALENDAR''),
     app_base_url = ''http://127.0.0.1:5000'', http_get = (\<lambda>o1. Inr 200)\<rparr>"

lemma sample_env_simps:
  "mail_dev_only sample_env = False" "jinja sample_env t c = Inr (t, t)" "jinja_text sample_env t c = Inr t"
  "sha256 sample_env s = ''h:'' @ s" "lock_revoke sample_env h = Inr ()"
  "lock_provision sample_env h = Inr (Some ''pc-1'')" "webhook_async sample_env = False"
  "local_today sample_env = ordinal_of 2026 1 10" "pay_enabled sample_env p = (p = ''stripe'')"
  "pay_expiry_hours sample_env = 24" "provider_checkout sample_env h = Inr (Some ''pi_1'', Some ''cs_1'', Some ''https://pay'')"
  "provider_refund sample_env h = Inr (Some ''re_1'', ''succeeded'')"
  by (simp_all add: sample_env_def)

definition sample_clock :: stamp where
  "sample_clock = utc_midnight (ordinal_of 2026 1 10) + hours 12"

definition world_of :: "db \<Rightarrow> world" where
  "world_of d = \<lparr>cur = d, com = d, clock = sample_clock, out = [], memo = []\<rparr>"

lemma world_of_simps [simp]:
  "cur (world_of d) = d" "com (world_of d) = d" "clock (world_of d) = sample_clock"
  "out (world_of d) = []" "memo (world_of d) = []"
  by (simp_all add: world_of_def)

definition sample_property :: "int \<Rightarrow> int \<Rightarrow> string \<Rightarrow> property_row" where
  "sample_property i oid name = \<lparr>p_id = i, p_org = oid, p_name = name, p_address = None, p_maintenance_email = None,
     p_city = None, p_postal = None, p_street = None, p_lat = None, p_lon = None, p_year = None, p_elevator = False,
     p_parking = False, p_sauna = False, p_courtyard = False, p_aircon = False, p_description = None, p_url = None,
     p_created_at = 0, p_updated_at = 0\<rparr>"

definition sample_unit :: "int \<Rightarrow> int \<Rightarrow> string \<Rightarrow> unit_row" where
  "sample_unit i pid name = \<lparr>u_id = i, u_property = pid, u_name = name, u_type = None, u_floor = None, u_area = None,
     u_bedrooms = 0, u_kitchen = False, u_bathroom = True, u_balcony = False, u_terrace = False, u_dishwasher = False,
     u_washing_machine = False, u_tv = False, u_wifi = True, u_max_guests = 2, u_description = None, u_floor_plan = None,
     u_created_at = 0, u_updated_at = 0\<rparr>"

lemma sample_place_simps [simp]:
  "p_id (sample_property i oid n) = i" "p_org (sample_property i oid n) = oid" "p_name (sample_property i oid n) = n"
  "p_address (sample_property i oid n) = None" "p_maintenance_email (sample_property i oid n) = None"
  "u_id (sample_unit i pid n) = i" "u_property (sample_unit i pid n) = pid" "u_name (sample_unit i pid n) = n"
  "u_type (sample_unit i pid n) = None"
  by (simp_all add: sample_property_def sample_unit_def)

definition sample_person :: "int \<Rightarrow> int \<Rightarrow> string \<Rightarrow> string \<Rightarrow> user_row" where
  "sample_person i oid mail role = \<lparr>usr_id = i, usr_org = oid, usr_email = mail, usr_password_hash = ''pw'', usr_role = role,
     usr_active = True, usr_totp_secret = None, usr_2fa = False, usr_backup_codes = [], usr_first_name = None,
     usr_last_name = None, usr_phone = None, usr_address = None, usr_anonymized_at = None, usr_created_at = 0,
     usr_updated_at = 0\<rparr>"

lemma sample_person_simps [simp]:
  "usr_id (sample_person i oid m r) = i" "usr_org (sample_person i oid m r) = oid" "usr_email (sample_person i oid m r) = m"
  "usr_password_hash (sample_person i oid m r) = ''pw''" "usr_role (sample_person i oid m r) = r"
  "usr_active (sample_person i oid m r)" "usr_totp_secret (sample_person i oid m r) = None"
  "\<not> usr_2fa (sample_person i oid m r)" "usr_backup_codes (sample_person i oid m r) = []"
  by (simp_all add: sample_person_def)

definition sample_db :: db where
  "sample_db = empty_db\<lparr>
     orgs := [\<lparr>org_id = 1, org_name = ''Lakeside''\<rparr>, \<lparr>org_id = 2, org_name = ''Hill''\<rparr>],
     guests := [\<lparr>g_id = 5, g_org = 1, g_first_name = ''Ada'', g_last_name = ''Lovelace'',
                 g_email = Some ''ada@example.com'', g_phone = None, g_notes = None, g_preferences = None,
                 g_created_at = 0, g_updated_at = 0\<rparr>],
     properties := [sample_property 1 1 ''North'',
                    sample_property 2 2 ''South''],
     units := [sample_unit 1 1 ''A1'',
               sample_unit 2 2 ''B1'']\<rparr>"

definition sample_stay :: reservation where
  "sample_stay = \<lparr>res_id = 1, res_unit = 1, res_guest = Some 5, res_guest_name = ''Ada'',
     res_start = ordinal_of 2026 1 9, res_end = ordinal_of 2026 1 12, res_status = ''confirmed'',
     res_amount = Some 10000, res_currency = ''EUR'', res_payment_status = ''pending'',
     res_invoice_number = None, res_invoice_date = None, res_due_date = None,
     res_created_at = sample_clock, res_updated_at = sample_clock\<rparr>"

definition sample_lock :: lock_device where
  "sample_lock = \<lparr>lock_id = 1, lock_org = 1, lock_unit = 1, lock_provider = ''pindora'',
     lock_device_id = ''dev-1''\<rparr>"

text \<open>One stay in unit 1 of organization 1, with a lock on the unit.\<close>

definition sample_hotel :: db where
  "sample_hotel = sample_db\<lparr>reservations := [sample_stay], locks := [sample_lock],
     seqs := (\<lambda>_. 1)\<rparr>"

lemma sample_db_simps [simp]:
  "reservations sample_db = []" "leases sample_db = []" "invoices sample_db = []"
  "payments sample_db = []" "webhook_subs sample_db = []" "access_codes sample_db = []"
  "settings sample_db = []" "api_keys sample_db = []" "refunds sample_db = []" "idem_keys sample_db = []" "audit_logs sample_db = []"
  "email_templates sample_db = []" "notifications sample_db = []" "users sample_db = []"
  "seqs sample_db = (\<lambda>_. 0)"
  by (simp_all add: sample_db_def)

lemma sample_hotel_simps [simp]:
  "reservations sample_hotel = [sample_stay]" "locks sample_hotel = [sample_lock]"
  "units sample_hotel = units sample_db" "properties sample_hotel = properties sample_db"
  "guests sample_hotel = guests sample_db" "access_codes sample_hotel = []"
  "webhook_subs sample_hotel = []" "email_templates sample_hotel = []" "users sample_hotel = []"
  "audit_logs sample_hotel = []" "notifications sample_hotel = []" "seqs sample_hotel = (\<lambda>_. 1)"
  "refunds sample_hotel = []" "leases sample_hotel = []" "invoices sample_hotel = []" "payments sample_hotel = []"
  by (simp_all add: sample_hotel_def)

end
