(* ===== verification/Email.thy ===== *)
theory Email
  imports AuditLog Samples
begin

text \<open>
  Outgoing mail (app/email/services): the context is stripped of keys that look like secrets,
  the template is rendered, and the mail is queued (or, in development mode, logged and audited).
  Rendering is \<open>jinja\<close>; a template exists when its key is in \<open>email_templates\<close>. Every path commits
  the session, which is how the mail of an operation also commits the operation itself.
\<close>

definition context_secret_keys :: "string list" where
  "context_secret_keys = [''password'', ''token'', ''api_key'', ''secret'', ''authorization'']"

definition secret_context_key :: "string \<Rightarrow> bool" where
  "secret_context_key k \<longleftrightarrow> (\<exists>p\<in>set context_secret_keys. contains p (lower (strip k)))"

definition sanitize_context :: "(string \<times> json) list \<Rightarrow> (string \<times> json) list" where
  "sanitize_context ctx = filter (\<lambda>(k, v). \<not> secret_context_key k) ctx"

text \<open>Text before and after the first @.\<close>

definition local_part :: "string \<Rightarrow> string" where "local_part s = before_char (CHR ''@'') s"
definition domain_part :: "string \<Rightarrow> string" where
  "domain_part s = tl (dropWhile (\<lambda>c. c \<noteq> CHR ''@'') s)"

definition is_valid_email :: "string \<Rightarrow> bool" where
  "is_valid_email value =
     (let addr = strip value in
      if addr = '''' \<or> CHR '' '' \<in> set addr then False
      else if CHR ''@'' \<notin> set addr then False
      else local_part addr \<noteq> '''' \<and> domain_part addr \<noteq> '''' \<and> CHR ''.'' \<in> set (domain_part addr))"

definition mask_email :: "string \<Rightarrow> string" where
  "mask_email value =
     (let addr = strip value in
      if CHR ''@'' \<notin> set addr then ''***''
      else
        let loc = local_part addr;
            visible = (if length loc \<le> 2 then take 1 loc @ ''*'' else take 2 loc @ ''***'')
        in visible @ ''@'' @ domain_part addr)"

definition email_failed_audit :: "(string \<times> json) list \<Rightarrow> audit_args" where
  "email_failed_audit ctx =
     audit_defaults\<lparr>aa_status := Some ''failure'', aa_target_type := Some ''email_template'',
       aa_context := Some ctx, aa_commit := True\<rparr>"

definition email_sent_audit :: "string \<Rightarrow> string \<Rightarrow> string \<Rightarrow> audit_args" where
  "email_sent_audit key to transport =
     audit_defaults\<lparr>aa_target_type := Some ''email_template'',
       aa_context := Some [(''key'', JStr key), (''to'', JStr to), (''transport'', JStr transport)],
       aa_commit := True\<rparr>"

definition render_failed :: "env \<Rightarrow> string \<Rightarrow> string \<Rightarrow> string \<Rightarrow> world \<Rightarrow> world" where
  "render_failed en key to err w =
     audit_record en ''email.failed''
       (email_failed_audit [(''key'', JStr key), (''to'', JStr (mask_email to)),
          (''stage'', JStr ''render''), (''error'', JStr (take 240 err))]) w"

definition send_rendered :: "env \<Rightarrow> string \<Rightarrow> string \<Rightarrow> string \<Rightarrow> string \<Rightarrow> world \<Rightarrow> bool \<times> world" where
  "send_rendered en key to subject body w =
     (if mail_dev_only en \<or> strip (mail_api_key en) = '''' then
        (True, audit_record en ''email.sent'' (email_sent_audit key to ''dev_log_only'') w)
      else if mail_domain en = '''' then
        (False, audit_record en ''email.failed''
           (email_failed_audit [(''key'', JStr key), (''to'', JStr to), (''stage'', JStr ''config''),
              (''error'', JStr ''missing MAILGUN_DOMAIN'')]) w)
      else
        let w1 = call_out (MailSend to subject body) w in
        case mail_http en (out w) of
          Inl err \<Rightarrow>
            (False, audit_record en ''email.failed''
               (email_failed_audit [(''key'', JStr key), (''to'', JStr to),
                  (''stage'', JStr ''transport''), (''error'', JStr err)]) w1)
        | Inr (status, resp) \<Rightarrow>
            if 300 \<le> status then
              (False, audit_record en ''email.failed''
                 (email_failed_audit [(''key'', JStr key), (''to'', JStr to),
                    (''stage'', JStr ''mailgun''), (''status'', JInt status),
                    (''response'', JStr (take 300 resp))]) w1)
            else (True, audit_record en ''email.sent'' (email_sent_audit key to ''mailgun'') w1))"

definition queued_mail :: "string \<Rightarrow> string \<Rightarrow> (string \<times> json) list \<Rightarrow> string \<Rightarrow> world \<Rightarrow> email_item" where
  "queued_mail key to ctx subject w =
     \<lparr>em_id = next_key T_email (cur w), em_to = to,
      em_org = (case map_of ctx ''organization_id'' of None \<Rightarrow> JNull | Some j \<Rightarrow> j),
      em_template = key, em_context = ctx, em_subject = subject, em_status = ''pending'',
      em_scheduled_at = clock w, em_attempts = 0, em_last_error = None, em_next_attempt_at = Some (clock w),
      em_sent_at = None, em_created_at = clock w\<rparr>"

definition queued_audit :: "email_item \<Rightarrow> audit_args" where
  "queued_audit m =
     audit_defaults\<lparr>aa_org := (case em_org m of JInt i \<Rightarrow> Some i | _ \<Rightarrow> None),
       aa_target_type := Some ''email_queue'', aa_target_id := Some (em_id m),
       aa_metadata := Some [(''template_key'', JStr (em_template m)),
          (''recipient_email'', JStr (mask_email (em_to m))), (''status'', JStr (em_status m))],
       aa_commit := True\<rparr>"

definition send_template ::
  "env \<Rightarrow> string \<Rightarrow> string \<Rightarrow> (string \<times> json) list \<Rightarrow> world \<Rightarrow> (exn + bool) \<times> world" where
  "send_template en key to context w =
     (let ctx = sanitize_context context in
      if key \<notin> set (email_templates (cur w)) then (Inl EmailTemplateNotFound, w)
      else case jinja en key ctx of
        Inl err \<Rightarrow> (Inr False, render_failed en key to err w)
      | Inr (subject, body) \<Rightarrow>
          if mail_dev_only en then
            (case send_rendered en key to subject body w of (b, w1) \<Rightarrow> (Inr b, w1))
          else
            let m = queued_mail key to ctx subject w;
                w1 = commit (on_db (add_email m) w)
            in (Inr True, audit_record en ''email.queued'' (queued_audit m) w1))"

definition send_template_now ::
  "env \<Rightarrow> string \<Rightarrow> string \<Rightarrow> (string \<times> json) list \<Rightarrow> world \<Rightarrow> (exn + bool) \<times> world" where
  "send_template_now en key to context w =
     (let ctx = sanitize_context context in
      if key \<notin> set (email_templates (cur w)) then (Inl EmailTemplateNotFound, w)
      else case jinja en key ctx of
        Inl err \<Rightarrow> (Inr False, render_failed en key to err w)
      | Inr (subject, body) \<Rightarrow>
          (case send_rendered en key to subject body w of (b, w1) \<Rightarrow> (Inr b, w1)))"

subsection \<open>What mail does to the state\<close>

text \<open>The parts of the database that mail never touches.\<close>

lemma audit_commits [simp]:
  "aa_commit (email_failed_audit c)" "aa_commit (email_sent_audit k t s)" "aa_commit (queued_audit m)"
  by (simp_all add: email_failed_audit_def email_sent_audit_def queued_audit_def)

definition mail_only :: "db \<Rightarrow> db \<Rightarrow> bool" where
  "mail_only d d' \<longleftrightarrow> (\<exists>a q s. d' = d\<lparr>audit_logs := a, email_queue := q, seqs := s\<rparr>
     \<and> (\<forall>t. t \<noteq> T_audit \<longrightarrow> t \<noteq> T_email \<longrightarrow> s t = seqs d t))"

lemma mail_only_refl [simp]: "mail_only d d"
  unfolding mail_only_def by (intro exI [of _ "audit_logs d"] exI [of _ "email_queue d"] exI [of _ "seqs d"]) simp

lemma mail_only_audit: "mail_only d (add_audit e d)"
  unfolding mail_only_def
  by (intro exI [of _ "audit_logs d @ [e]"] exI [of _ "email_queue d"] exI [of _ "(seqs d)(T_audit := al_id e)"]) simp

lemma mail_only_queue: "mail_only d (add_audit e (add_email m d))"
  unfolding mail_only_def
  by (intro exI [of _ "audit_logs d @ [e]"] exI [of _ "email_queue d @ [m]"]
      exI [of _ "(seqs d)(T_email := em_id m, T_audit := al_id e)"]) simp

lemma send_rendered_world:
  assumes "send_rendered en key to s b w = (r, w')"
  shows "mail_only (cur w) (cur w')" and "com w' = cur w'" and "clock w' = clock w" and "memo w' = memo w"
  using assms
  by (auto simp: send_rendered_def Let_def mail_only_audit simp del: add_audit_def
      split: if_split_asm sum.splits prod.splits)

lemma send_template_missing:
  "key \<notin> set (email_templates (cur w)) \<Longrightarrow> send_template en key to ctx w = (Inl EmailTemplateNotFound, w)"
  unfolding send_template_def Let_def by simp

lemma send_template_cases:
  assumes "send_template en key to ctx w = (r, w')"
  obtains "key \<notin> set (email_templates (cur w))" "r = Inl EmailTemplateNotFound" "w' = w"
  | err where "r = Inr False" "w' = render_failed en key to err w"
  | s b ok where "r = Inr ok" "send_rendered en key to s b w = (ok, w')"
  | s where "r = Inr True" "w' = audit_record en ''email.queued''
        (queued_audit (queued_mail key to (sanitize_context ctx) s w))
        (commit (on_db (add_email (queued_mail key to (sanitize_context ctx) s w)) w))"
proof -
  note run = assms [unfolded send_template_def Let_def]
  consider (none) "key \<notin> set (email_templates (cur w))"
    | (bad) err where "key \<in> set (email_templates (cur w))" "jinja en key (sanitize_context ctx) = Inl err"
    | (dev) s b where "key \<in> set (email_templates (cur w))"
        "jinja en key (sanitize_context ctx) = Inr (s, b)" "mail_dev_only en"
    | (queue) s b where "key \<in> set (email_templates (cur w))"
        "jinja en key (sanitize_context ctx) = Inr (s, b)" "\<not> mail_dev_only en"
    by (cases "jinja en key (sanitize_context ctx)") auto
  then show ?thesis
  proof cases
    case none
    then have "r = Inl EmailTemplateNotFound \<and> w' = w" using run by simp
    with none show ?thesis using that(1) by blast
  next
    case (bad err)
    then have "r = Inr False \<and> w' = render_failed en key to err w" using run by simp
    then show ?thesis using that(2) by blast
  next
    case (dev s b)
    obtain ok w1 where q: "send_rendered en key to s b w = (ok, w1)" by fastforce
    then have "r = Inr ok \<and> w1 = w'" using run dev by simp
    with q show ?thesis using that(3) by blast
  next
    case (queue s b)
    then have "r = Inr True \<and> w' = audit_record en ''email.queued''
        (queued_audit (queued_mail key to (sanitize_context ctx) s w))
        (commit (on_db (add_email (queued_mail key to (sanitize_context ctx) s w)) w))" using run by simp
    then show ?thesis using that(4) by blast
  qed
qed

lemma render_failed_world [simp]:
  "cur (render_failed en key to err w) = add_audit (audit_entry en ''email.failed''
     (email_failed_audit [(''key'', JStr key), (''to'', JStr (mask_email to)),
          (''stage'', JStr ''render''), (''error'', JStr (take 240 err))]) w) (cur w)"
  "com (render_failed en key to err w) = cur (render_failed en key to err w)"
  "clock (render_failed en key to err w) = clock w" "memo (render_failed en key to err w) = memo w"
  by (simp_all add: render_failed_def)

lemma send_template_world:
  assumes "send_template en key to ctx w = (r, w')"
  shows "mail_only (cur w) (cur w')" and "r = Inl EmailTemplateNotFound \<longrightarrow> w' = w"
    and "r \<noteq> Inl EmailTemplateNotFound \<longrightarrow> com w' = cur w'" and "clock w' = clock w" and "memo w' = memo w"
  by (rule send_template_cases [OF assms];
      simp add: mail_only_audit mail_only_queue send_rendered_world del: add_audit_def add_email_def)+

lemma mail_only_tables:
  assumes "mail_only d d'"
  shows "reservations d' = reservations d" "leases d' = leases d" "invoices d' = invoices d"
    "payments d' = payments d" "units d' = units d" "properties d' = properties d"
    "guests d' = guests d" "users d' = users d" "access_codes d' = access_codes d"
    "refunds d' = refunds d" "locks d' = locks d" "lease_templates d' = lease_templates d"
    "checkin_tokens d' = checkin_tokens d" "magic_links d' = magic_links d" "checkins d' = checkins d"
    "idem_keys d' = idem_keys d" "webhook_subs d' = webhook_subs d" "settings d' = settings d"
    "webhook_deliveries d' = webhook_deliveries d" "maintenance d' = maintenance d"
    "notifications d' = notifications d" "orgs d' = orgs d"
    "t \<noteq> T_audit \<Longrightarrow> t \<noteq> T_email \<Longrightarrow> seqs d' t = seqs d t"
proof -
  obtain a q s where "d' = d\<lparr>audit_logs := a, email_queue := q, seqs := s\<rparr>"
    and s: "\<forall>t. t \<noteq> T_audit \<longrightarrow> t \<noteq> T_email \<longrightarrow> s t = seqs d t"
    using assms unfolding mail_only_def by blast
  then show "reservations d' = reservations d" "leases d' = leases d" "invoices d' = invoices d"
    "payments d' = payments d" "units d' = units d" "properties d' = properties d"
    "guests d' = guests d" "users d' = users d" "access_codes d' = access_codes d"
    "refunds d' = refunds d" "locks d' = locks d" "lease_templates d' = lease_templates d"
    "checkin_tokens d' = checkin_tokens d" "magic_links d' = magic_links d" "checkins d' = checkins d"
    "idem_keys d' = idem_keys d" "webhook_subs d' = webhook_subs d" "settings d' = settings d"
    "webhook_deliveries d' = webhook_deliveries d" "maintenance d' = maintenance d"
    "notifications d' = notifications d" "orgs d' = orgs d"
    "t \<noteq> T_audit \<Longrightarrow> t \<noteq> T_email \<Longrightarrow> seqs d' t = seqs d t"
    by simp_all
qed

text \<open>No secret reaches the mail queue. Whatever context an operation passes, the context of
  a queued mail holds no key that contains password, token, api_key, secret or authorization
  in any letter case.\<close>

theorem queued_context_sanitized:
  assumes "send_template en key to ctx w = (r, w')" and "m \<in> set (email_queue (cur w'))"
    and "m \<notin> set (email_queue (cur w))"
  shows "\<forall>k\<in>set (map fst (em_context m)). \<not> secret_context_key k"
proof -
  have same: "email_queue (cur w1) = email_queue (cur w)" if "send_rendered en key to s b w = (ok, w1)" for s b ok w1
    using that by (auto simp: send_rendered_def Let_def split: if_split_asm sum.splits prod.splits)
  have "em_context m = sanitize_context ctx"
    by (rule send_template_cases [OF assms(1)])
      (use assms(2,3) same in \<open>auto simp: queued_mail_def\<close>)
  then show ?thesis by (auto simp: sanitize_context_def)
qed

definition sample_mail_db :: db where
  "sample_mail_db = empty_db\<lparr>email_templates := [''welcome'']\<rparr>"

definition sample_context :: "(string \<times> json) list" where
  "sample_context = [(''name'', JStr ''Ada''), (''Reset_TOKEN'', JStr ''t-1'')]"

theorem queued_context_sanitized_witness:
  "\<exists>m. email_queue (cur (snd (send_template sample_env ''welcome'' ''a@b.fi'' sample_context
        (world_of sample_mail_db)))) = [m] \<and> filter secret_context_key (map fst (em_context m)) = []"
proof -
  let ?m = "queued_mail ''welcome'' ''a@b.fi'' (sanitize_context sample_context) ''welcome'' (world_of sample_mail_db)"
  let ?w = "audit_record sample_env ''email.queued'' (queued_audit ?m)
      (commit (on_db (add_email ?m) (world_of sample_mail_db)))"
  have run: "send_template sample_env ''welcome'' ''a@b.fi'' sample_context (world_of sample_mail_db)
      = (Inr True, ?w)"
    by (simp add: send_template_def sample_mail_db_def sample_env_simps Let_def)
  have q: "email_queue (cur ?w) = [?m]" by (simp add: sample_mail_db_def)
  have "\<forall>k\<in>set (map fst (em_context ?m)). \<not> secret_context_key k"
    by (rule queued_context_sanitized [OF run]) (simp_all add: q, simp add: sample_mail_db_def)
  then show ?thesis unfolding run using q by (simp add: filter_empty_conv)
qed

end
