(* ===== verification/Settings.thy ===== *)
theory Settings
  imports AuditLog Json Samples
begin

text \<open>
  The settings service (app/settings): typed values stored as text, read through a per-request
  memo, written with an audit row that never holds a value. A failed \<open>set_value\<close> raises; the
  assignments made before the failure stay in the session, as they do in the code. Main facts:
  what \<open>set_value\<close> writes, \<open>get\<close> reads back; the memo agrees with the table; secret values do
  not reach the audit log or the display.
\<close>

definition setting_types :: "string list" where
  "setting_types = [''string'', ''int'', ''bool'', ''json'', ''decimal'']"

definition true_texts :: "string list" where "true_texts = [''true'', ''1'', ''yes'', ''on'']"
definition false_texts :: "string list" where "false_texts = [''false'', ''0'', ''no'', ''off'', '''']"

text \<open>
  A \<open>VDec\<close> holds two places, as \<open>get\<close> returns it; the sign of a negative zero is not kept.
  \<open>SettingValueError\<close> is a \<open>ValueError\<close>, \<open>SettingNotFound\<close> a \<open>LookupError\<close>.\<close>

definition quantize_dec :: "decimal \<Rightarrow> decimal option" where
  "quantize_dec d = quantize HalfEven d"

definition setting_decode :: "env \<Rightarrow> string option \<Rightarrow> string \<Rightarrow> exn + setting_value" where
  "setting_decode en stored ty =
     (case stored of
        None \<Rightarrow> Inr (if ty = ''int'' then VInt 0 else if ty = ''bool'' then VBool False
                     else if ty = ''json'' then VNone else if ty = ''decimal'' then VDec (DFin 0 (- 2))
                     else VStr '''')
      | Some s \<Rightarrow>
        if ty = ''string'' then Inr (VStr s)
        else if ty = ''int'' then
          (case int_of_text s of None \<Rightarrow> Inl (PyError ValueError) | Some i \<Rightarrow> Inr (VInt i))
        else if ty = ''bool'' then
          (let n = lower (strip s) in
           if n \<in> set true_texts then Inr (VBool True)
           else if n \<in> set false_texts then Inr (VBool False)
           else Inl (PyError ValueError))
        else if ty = ''json'' then
          (case json_loads en s of None \<Rightarrow> Inl (PyError ValueError) | Some j \<Rightarrow> Inr (VJson j))
        else if ty = ''decimal'' then
          (case parse_decimal (strip s) of None \<Rightarrow> Inl (PyError ValueError)
           | Some d \<Rightarrow> (case quantize_dec d of None \<Rightarrow> Inl (PyError ValueError) | Some q \<Rightarrow> Inr (VDec q)))
        else Inl (PyError ValueError))"

definition decimal_text :: "decimal \<Rightarrow> string" where
  "decimal_text d = (case d of DFin c e \<Rightarrow> money_str c | DInf \<Rightarrow> ''Infinity'' | DNaN s \<Rightarrow> ''NaN'')"

fun setting_str :: "setting_value \<Rightarrow> string" where
  "setting_str VNone = ''None''"
| "setting_str (VStr s) = s"
| "setting_str (VInt i) = show_int i"
| "setting_str (VBool b) = (if b then ''True'' else ''False'')"
| "setting_str (VDec d) = decimal_text d"
| "setting_str (VJson j) = json_str j"

fun setting_json :: "setting_value \<Rightarrow> json option" where
  "setting_json VNone = Some JNull"
| "setting_json (VStr s) = Some (JStr s)"
| "setting_json (VInt i) = Some (JInt i)"
| "setting_json (VBool b) = Some (JBool b)"
| "setting_json (VDec d) = None"
| "setting_json (VJson j) = Some j"

definition setting_encode :: "setting_value \<Rightarrow> string \<Rightarrow> exn + string option" where
  "setting_encode v ty =
     (if ty \<notin> set setting_types then Inl (PyError ValueError)
      else if v = VNone then Inr None
      else if ty = ''string'' then Inr (Some (setting_str v))
      else if ty = ''int'' then
        (case v of
           VInt i \<Rightarrow> Inr (Some (show_int i))
         | VStr s \<Rightarrow> (case int_of_text s of None \<Rightarrow> Inl (PyError ValueError) | Some i \<Rightarrow> Inr (Some (show_int i)))
         | VDec (DFin c e) \<Rightarrow> Inr (Some (show_int (if 0 \<le> c then c div 100 else - ((- c) div 100))))
         | _ \<Rightarrow> Inl (PyError ValueError))
      else if ty = ''bool'' then
        (case v of
           VBool b \<Rightarrow> Inr (Some (if b then ''true'' else ''false''))
         | VStr s \<Rightarrow>
             (let n = lower (strip s) in
              if n \<in> set true_texts then Inr (Some ''true'')
              else if n \<in> set false_texts then Inr (Some ''false'')
              else Inl (PyError ValueError))
         | _ \<Rightarrow> Inl (PyError ValueError))
      else if ty = ''json'' then
        (case setting_json v of None \<Rightarrow> Inl (PyError ValueError)
         | Some j \<Rightarrow> Inr (Some (json_print '', '' '': '' (json_sorted j))))
      else
        (case parse_decimal (setting_str v) of None \<Rightarrow> Inl (PyError ValueError)
         | Some d \<Rightarrow> (case quantize_dec d of None \<Rightarrow> Inl (PyError ValueError)
                      | Some q \<Rightarrow> Inr (Some (decimal_text q)))))"

subsection \<open>Reading\<close>

definition setting_find :: "string \<Rightarrow> db \<Rightarrow> setting option" where
  "setting_find k d = List.find (\<lambda>s. st_key s = k) (settings d)"

text \<open>Outside a request every call sees a fresh, empty memo.\<close>

definition memo_get :: "env \<Rightarrow> string \<Rightarrow> world \<Rightarrow> setting_value option" where
  "memo_get en k w = (if rq_request (req en) then map_of (memo w) k else None)"

definition memo_put :: "env \<Rightarrow> string \<Rightarrow> setting_value \<Rightarrow> world \<Rightarrow> world" where
  "memo_put en k v w = (if rq_request (req en) then w\<lparr>memo := (k, v) # memo w\<rparr> else w)"

definition memo_drop :: "env \<Rightarrow> string \<Rightarrow> world \<Rightarrow> world" where
  "memo_drop en k w =
     (if rq_request (req en) then w\<lparr>memo := filter (\<lambda>(a, b). a \<noteq> k) (memo w)\<rparr> else w)"

definition settings_get :: "env \<Rightarrow> string \<Rightarrow> setting_value \<Rightarrow> world \<Rightarrow> (exn + setting_value) \<times> world" where
  "settings_get en k dflt w =
     (case memo_get en k w of
        Some v \<Rightarrow> (Inr v, w)
      | None \<Rightarrow>
        (case setting_find k (cur w) of
           None \<Rightarrow> (Inr dflt, w)
         | Some row \<Rightarrow>
             (case setting_decode en (st_value row) (st_type row) of
                Inl e \<Rightarrow> (Inl e, w)
              | Inr v \<Rightarrow> (Inr v, memo_put en k v w))))"

definition settings_require :: "env \<Rightarrow> string \<Rightarrow> world \<Rightarrow> (exn + setting_value) \<times> world" where
  "settings_require en k w =
     (if memo_get en k w = None \<and> setting_find k (cur w) = None then (Inl (PyError LookupError), w)
      else settings_get en k VNone w)"

definition settings_get_all :: "db \<Rightarrow> setting list" where
  "settings_get_all d = sort_key st_key (settings d)"

subsection \<open>Writing\<close>

definition setting_audit :: "int option \<Rightarrow> bool \<Rightarrow> bool \<Rightarrow> bool \<Rightarrow> setting \<Rightarrow> audit_args" where
  "setting_audit actor is_create prev_secret changed row =
     audit_defaults\<lparr>aa_actor_id := actor, aa_target_type := Some ''setting'',
       aa_target_id := Some (st_id row),
       aa_context := Some ([(''key'', JStr (st_key row)), (''type'', JStr (st_type row)),
          (''is_secret'', JBool (st_secret row)),
          (''action'', JStr (if is_create then ''create'' else ''update'')),
          (''old_value_redacted'', JBool prev_secret),
          (''new_value_redacted'', JBool (st_secret row))]
          @ (if (st_secret row \<or> prev_secret) \<and> changed then [(''value_changed'', JBool True)] else [])),
       aa_commit := True\<rparr>"

text \<open>The row before encoding: a new one, or the old one with the passed fields assigned.\<close>

definition setting_assigned ::
  "string \<Rightarrow> string option \<Rightarrow> string option \<Rightarrow> bool option \<Rightarrow> db \<Rightarrow> exn + setting" where
  "setting_assigned k ty descr secret d =
     (case setting_find k d of
        None \<Rightarrow>
          (case ty of None \<Rightarrow> Inl (PyError ValueError)
           | Some t \<Rightarrow>
               if t \<notin> set setting_types then Inl (PyError ValueError)
               else Inr \<lparr>st_id = next_key T_settings d, st_key = k, st_value = None, st_type = t,
                      st_description = or_empty descr,
                      st_secret = (case secret of None \<Rightarrow> False | Some b \<Rightarrow> b),
                      st_updated_by = None\<rparr>)
      | Some row \<Rightarrow>
          (case ty of
             Some t \<Rightarrow>
               if t \<noteq> st_type row \<and> t \<notin> set setting_types then Inl (PyError ValueError)
               else Inr (row\<lparr>st_type := t,
                      st_description := (case descr of None \<Rightarrow> st_description row | Some s \<Rightarrow> s),
                      st_secret := (case secret of None \<Rightarrow> st_secret row | Some b \<Rightarrow> b)\<rparr>)
           | None \<Rightarrow>
               Inr (row\<lparr>st_description := (case descr of None \<Rightarrow> st_description row | Some s \<Rightarrow> s),
                      st_secret := (case secret of None \<Rightarrow> st_secret row | Some b \<Rightarrow> b)\<rparr>)))"

definition settings_set_value ::
  "env \<Rightarrow> string \<Rightarrow> setting_value \<Rightarrow> string option \<Rightarrow> string option \<Rightarrow> bool option \<Rightarrow> int option
   \<Rightarrow> world \<Rightarrow> (exn + setting) \<times> world" where
  "settings_set_value en k v ty descr secret actor w =
     (let old = setting_find k (cur w);
          prev_value = (case old of None \<Rightarrow> None | Some r \<Rightarrow> st_value r);
          prev_secret = (case old of None \<Rightarrow> False | Some r \<Rightarrow> st_secret r)
      in case setting_assigned k ty descr secret (cur w) of
        Inl e \<Rightarrow> (Inl e, w)
      | Inr row \<Rightarrow>
          let w1 = on_db (if old = None then add_setting row else put_setting row) w in
          (case setting_encode v (st_type row) of
             Inl e \<Rightarrow> (Inl e, w1)
           | Inr enc \<Rightarrow>
               let row1 = row\<lparr>st_value := enc, st_updated_by := actor\<rparr>;
                   w2 = memo_drop en k (commit (on_db (put_setting row1) w1));
                   changed = (old = None \<or> prev_value \<noteq> enc)
               in (Inr row1, audit_record en ''settings.update''
                    (setting_audit actor (old = None) prev_secret changed row1) w2)))"

text \<open>The bullet and the dash are written with their codes 0x95 and 0x97 of Windows-1252.\<close>

definition mask_for_display :: "env \<Rightarrow> setting \<Rightarrow> string" where
  "mask_for_display en s =
     (if st_secret s then
        (if text_or (st_value s) None \<noteq> None then replicate 6 (CHR 0x95) else [CHR 0x97])
      else case setting_decode en (st_value s) (st_type s) of
        Inl e \<Rightarrow> ''<invalid '' @ st_type s @ ''>''
      | Inr v \<Rightarrow>
          if st_type s = ''json'' then
            (case setting_json v of None \<Rightarrow> '''' | Some j \<Rightarrow> json_print '', '' '': '' j)
          else if st_type s = ''bool'' then (if v = VBool True then ''true'' else ''false'')
          else setting_str v)"

fun insert_seeds :: "setting list \<Rightarrow> string list \<Rightarrow> db \<Rightarrow> db \<times> string list" where
  "insert_seeds [] existing d = (d, [])"
| "insert_seeds (s # ss) existing d =
     (if st_key s \<in> set existing then insert_seeds ss existing d
      else (case insert_seeds ss existing (add_setting (s\<lparr>st_id := next_key T_settings d\<rparr>) d) of
              (d', ks) \<Rightarrow> (d', st_key s # ks)))"

definition ensure_seed_settings :: "setting list \<Rightarrow> world \<Rightarrow> string list \<times> world" where
  "ensure_seed_settings seeds w =
     (case insert_seeds seeds (map st_key (settings (cur w))) (cur w) of
        (d, ks) \<Rightarrow> (ks, if ks = [] then w else commit (on_db (\<lambda>_. d) w)))"

subsection \<open>Reading back what was written\<close>

definition settings_ok :: "db \<Rightarrow> bool" where
  "settings_ok d \<longleftrightarrow> keys_ok st_id (seqs d T_settings) (settings d) \<and> distinct (map st_key (settings d))"

lemma setting_find_D: "setting_find k d = Some r \<Longrightarrow> r \<in> set (settings d) \<and> st_key r = k"
  unfolding setting_find_def by (rule find_Some_D)

lemma setting_find_mem:
  "settings_ok d \<Longrightarrow> r \<in> set (settings d) \<Longrightarrow> setting_find (st_key r) d = Some r"
  unfolding setting_find_def by (rule find_unique) (auto simp: settings_ok_def)

lemma setting_find_None: "setting_find k d = None \<longleftrightarrow> (\<forall>r\<in>set (settings d). st_key r \<noteq> k)"
  by (simp add: setting_find_def find_None_iff_all)

lemma setting_assigned_key:
  assumes "settings_ok d" and "setting_assigned k ty descr secret d = Inr row"
  shows "st_key row = k"
    and "setting_find k d = None \<Longrightarrow> st_id row = next_key T_settings d"
    and "setting_find k d = Some old \<Longrightarrow> st_id row = st_id old"
    and "st_type row \<in> set setting_types \<or> (\<exists>old. setting_find k d = Some old \<and> st_type row = st_type old)"
  using assms setting_find_D
  by (auto simp: setting_assigned_def split: option.splits if_split_asm)

lemma settings_ok_add:
  assumes "settings_ok d" and "setting_find (st_key r) d = None" and "st_id r = next_key T_settings d"
  shows "settings_ok (add_setting r d)"
  using assms setting_tab.ok_add [of d r] by (auto simp: settings_ok_def setting_find_None)

lemma settings_ok_put:
  assumes "settings_ok d" and "old \<in> set (settings d)" "st_id old = st_id r" "st_key old = st_key r"
  shows "settings_ok (put_setting r d)"
proof -
  have "map st_key (row_put st_id r (settings d)) = map st_key (settings d)"
    unfolding row_put_def map_map
  proof (rule map_cong [OF refl])
    fix x assume "x \<in> set (settings d)"
    then have "st_id x = st_id r \<Longrightarrow> x = old"
      using assms by (auto simp: settings_ok_def keys_ok_def distinct_map inj_on_def)
    then show "(st_key \<circ> (\<lambda>x. if st_id x = st_id r then r else x)) x = st_key x"
      using assms(4) by auto
  qed
  then show ?thesis using assms(1) by (simp add: settings_ok_def)
qed

lemma put_setting_find:
  assumes "settings_ok d" and "old \<in> set (settings d)" "st_id old = st_id r" "st_key old = st_key r"
  shows "setting_find (st_key r) (put_setting r d) = Some r"
proof (rule setting_find_mem [OF settings_ok_put [OF assms]])
  show "r \<in> set (settings (put_setting r d))" using assms(2,3) by (force simp: row_put_def)
qed

lemma put_setting_find_other:
  assumes "settings_ok d" and "old \<in> set (settings d)" "st_id old = st_id r" "st_key old = st_key r"
    and "k \<noteq> st_key r"
  shows "setting_find k (put_setting r d) = setting_find k d"
proof -
  have "find (\<lambda>s. st_key s = k) (row_put st_id r rs) = find (\<lambda>s. st_key s = k) rs"
    if "set rs \<subseteq> set (settings d)" for rs
    using that
  proof (induction rs)
    case (Cons x rs)
    have "st_id x = st_id r \<Longrightarrow> st_key x = st_key r"
      using Cons.prems assms(1-4) by (auto simp: settings_ok_def keys_ok_def distinct_map inj_on_def)
    then show ?case using Cons assms(5) by (auto simp: row_put_def)
  qed (simp add: row_put_def)
  then show ?thesis by (simp add: setting_find_def)
qed

lemma add_setting_find:
  "settings_ok d \<Longrightarrow> setting_find (st_key r) d = None \<Longrightarrow>
     setting_find k (add_setting r d) = (if k = st_key r then Some r else setting_find k d)"
proof -
  assume "setting_find (st_key r) d = None"
  moreover have "find P (xs @ [r]) = (case find P xs of Some y \<Rightarrow> Some y | None \<Rightarrow> if P r then Some r else None)"
    for P and xs :: "setting list" by (induction xs) auto
  ultimately show ?thesis by (auto simp: setting_find_def split: option.splits)
qed

lemma set_value_cases:
  assumes "settings_set_value en k v ty descr secret actor w = (Inr row, w')"
  obtains r0 enc w1 prev where "setting_assigned k ty descr secret (cur w) = Inr r0"
    "setting_encode v (st_type r0) = Inr enc" "row = r0\<lparr>st_value := enc, st_updated_by := actor\<rparr>"
    "w1 = on_db (if setting_find k (cur w) = None then add_setting r0 else put_setting r0) w"
    "prev = (case setting_find k (cur w) of None \<Rightarrow> None | Some r \<Rightarrow> st_value r)"
    "w' = audit_record en ''settings.update''
       (setting_audit actor (setting_find k (cur w) = None)
          (case setting_find k (cur w) of None \<Rightarrow> False | Some r \<Rightarrow> st_secret r)
          (setting_find k (cur w) = None \<or> prev \<noteq> enc) row)
       (memo_drop en k (commit (on_db (put_setting row) w1)))"
proof -
  note run = assms [unfolded settings_set_value_def Let_def]
  obtain r0 where r0: "setting_assigned k ty descr secret (cur w) = Inr r0"
  proof (cases "setting_assigned k ty descr secret (cur w)")
    case (Inl e)
    then show thesis using run by simp
  qed (rule that)
  note run1 = run [unfolded r0 sum.case]
  obtain enc where enc: "setting_encode v (st_type r0) = Inr enc"
  proof (cases "setting_encode v (st_type r0)")
    case (Inl e)
    then show thesis using run1 by simp
  qed (rule that)
  note run2 = run1 [unfolded enc sum.case prod.inject sum.inject]
  show ?thesis
    by (rule that [OF r0 enc conjunct1 [OF run2, symmetric] refl refl])
      (rule conjunct2 [OF run2, symmetric, unfolded conjunct1 [OF run2]])
qed

text \<open>A successful write: the row is in the table under its key, other keys are untouched.\<close>

lemma set_value_success:
  assumes "settings_ok (cur w)" and "settings_set_value en k v ty descr secret actor w = (Inr row, w')"
  shows "settings_ok (cur w')" and "setting_find k (cur w') = Some row"
    and "setting_encode v (st_type row) = Inr (st_value row)" and "st_key row = k"
    and "k' \<noteq> k \<Longrightarrow> setting_find k' (cur w') = setting_find k' (cur w)"
    and "com w' = cur w'" and "memo w' = memo (memo_drop en k w)"
proof -
  obtain r0 enc w1 prev where r0: "setting_assigned k ty descr secret (cur w) = Inr r0"
    and enc: "setting_encode v (st_type r0) = Inr enc"
    and row: "row = r0\<lparr>st_value := enc, st_updated_by := actor\<rparr>"
    and w1_def: "w1 = on_db (if setting_find k (cur w) = None then add_setting r0 else put_setting r0) w"
    and w': "w' = audit_record en ''settings.update''
       (setting_audit actor (setting_find k (cur w) = None)
          (case setting_find k (cur w) of None \<Rightarrow> False | Some r \<Rightarrow> st_secret r)
          (setting_find k (cur w) = None \<or> prev \<noteq> enc) row)
       (memo_drop en k (commit (on_db (put_setting row) w1)))"
    using set_value_cases [OF assms(2)] .
  note ak = setting_assigned_key [OF assms(1) r0]
  have w1: "settings_ok (cur w1) \<and> r0 \<in> set (settings (cur w1))
     \<and> (\<forall>k'. k' \<noteq> k \<longrightarrow> setting_find k' (cur w1) = setting_find k' (cur w))"
  proof (cases "setting_find k (cur w)")
    case None
    have f: "setting_find (st_key r0) (cur w) = None" using None ak(1) by simp
    have "settings_ok (add_setting r0 (cur w))" by (rule settings_ok_add [OF assms(1) f ak(2) [OF None]])
    then show ?thesis
      using add_setting_find [OF assms(1) f] ak(1) None
      by (simp add: w1_def del: add_setting_def) simp
  next
    case (Some old)
    note od = setting_find_D [OF Some]
    have o: "old \<in> set (settings (cur w))" "st_id old = st_id r0" "st_key old = st_key r0"
      using od ak(1,3) Some by auto
    have "r0 \<in> set (row_put st_id r0 (settings (cur w)))" using o by (force simp: row_put_def)
    then show ?thesis
      using settings_ok_put [OF assms(1) o] put_setting_find_other [OF assms(1) o] ak(1) Some
      by (simp add: w1_def del: put_setting_def) simp
  qed
  have o1: "r0 \<in> set (settings (cur w1))" "st_id r0 = st_id row" "st_key r0 = st_key row"
    using w1 by (simp_all add: row)
  have ok1: "settings_ok (cur w1)" using w1 by blast
  have c: "settings (cur w') = settings (put_setting row (cur w1))"
    "seqs (cur w') T_settings = seqs (put_setting row (cur w1)) T_settings"
    by (simp_all add: w' memo_drop_def)
  show "settings_ok (cur w')"
    using settings_ok_put [OF ok1 o1] by (simp only: settings_ok_def c)
  show "setting_find k (cur w') = Some row"
    using put_setting_find [OF ok1 o1] ak(1) by (simp add: setting_find_def c row)
  show "setting_encode v (st_type row) = Inr (st_value row)" "st_key row = k"
    using enc ak(1) by (simp_all add: row)
  show "setting_find k' (cur w') = setting_find k' (cur w)" if "k' \<noteq> k"
  proof -
    have "setting_find k' (put_setting row (cur w1)) = setting_find k' (cur w1)"
      using put_setting_find_other [OF ok1 o1, of k'] that ak(1) by (simp add: row)
    moreover have "setting_find k' (cur w1) = setting_find k' (cur w)" using w1 that by blast
    ultimately show ?thesis by (simp add: setting_find_def c)
  qed
  show "com w' = cur w'" by (simp add: w' setting_audit_def)
  show "memo w' = memo (memo_drop en k w)" by (simp add: w' memo_drop_def w1_def)
qed

text \<open>A value that fits the type is decoded to itself.\<close>

fun fits :: "setting_value \<Rightarrow> string \<Rightarrow> bool" where
  "fits (VStr s) ty = (ty = ''string'')"
| "fits (VInt i) ty = (ty = ''int'')"
| "fits (VBool b) ty = (ty = ''bool'')"
| "fits (VDec (DFin c e)) ty = (ty = ''decimal'' \<and> e = - 2 \<and> \<bar>c\<bar> < context_limit)"
| "fits _ ty = False"

lemma fits_decode:
  assumes "fits v ty"
  shows "\<exists>t. setting_encode v ty = Inr (Some t) \<and> setting_decode en (Some t) ty = Inr v"
  using assms
proof (cases v)
  case (VBool b)
  then show ?thesis
    using assms by (auto simp: setting_encode_def setting_decode_def setting_types_def true_texts_def
        false_texts_def strip_def is_blank_def lower_def lower_char_def Let_def)
next
  case (VDec d)
  then obtain c where d: "d = DFin c (- 2)" "\<bar>c\<bar> < context_limit" "ty = ''decimal''"
    using assms by (cases d) auto
  have "parse_decimal (strip (money_str c)) = parse_decimal (money_str c)"
    by (simp add: strip_money)
  moreover have q: "quantize_dec (DFin c (- 2)) = Some (DFin c (- 2))"
    using d(2) unfolding quantize_dec_def by (rule quantize_cents)
  ultimately show ?thesis
    using d VDec q by (simp add: setting_encode_def setting_decode_def setting_types_def
        decimal_text_def parse_money_str)
qed (auto simp: setting_encode_def setting_decode_def setting_types_def)






definition memo_ok :: "env \<Rightarrow> world \<Rightarrow> bool" where
  "memo_ok en w \<longleftrightarrow> (\<forall>k v. memo_get en k w = Some v \<longrightarrow>
     (\<exists>r. setting_find k (cur w) = Some r \<and> setting_decode en (st_value r) (st_type r) = Inr v))"

lemma map_of_drop:
  "map_of (filter (\<lambda>(a, b). a \<noteq> k) m) k' = (if k' = k then None else map_of m k')"
  by (induction m) auto

lemma memo_ok_get:
  assumes "memo_ok en w" and "settings_get en k dflt w = (res, w1)"
  shows "memo_ok en w1 \<and> cur w1 = cur w"
proof (cases "memo_get en k w")
  case (Some v)
  then show ?thesis using assms by (simp add: settings_get_def)
next
  case none: None
  show ?thesis
  proof (cases "setting_find k (cur w)")
    case None
    then show ?thesis using none assms by (simp add: settings_get_def)
  next
    case (Some r)
    then show ?thesis
      using none assms
      by (cases "setting_decode en (st_value r) (st_type r)")
        (auto simp: settings_get_def memo_put_def memo_ok_def memo_get_def split: if_split_asm)
  qed
qed

text \<open>The per-request memo never serves a stale value: every \<open>get\<close> and every successful
  \<open>set_value\<close> keeps it equal to what the table's row decodes to.\<close>

theorem memo_coherent:
  assumes "settings_ok (cur w)" and "memo_ok en w"
  shows "(settings_get en k dflt w = (res, w1) \<longrightarrow> memo_ok en w1 \<and> cur w1 = cur w)
    \<and> (settings_set_value en k v ty descr secret actor w = (Inr row, w2) \<longrightarrow> memo_ok en w2)"
proof (rule conjI; rule impI)
  assume g: "settings_get en k dflt w = (res, w1)"
  show "memo_ok en w1 \<and> cur w1 = cur w" by (rule memo_ok_get [OF assms(2) g])
next
  assume g: "settings_set_value en k v ty descr secret actor w = (Inr row, w2)"
  note s = set_value_success [OF assms(1) g]
  have "memo_get en k' w2 = (if k' = k then None else memo_get en k' w)" for k'
    by (simp add: memo_get_def s(7) memo_drop_def map_of_drop)
  then show "memo_ok en w2"
    using assms(2) s(5) by (auto simp: memo_ok_def split: if_splits)
qed

text \<open>A secret value does not reach the audit log. Two successful writes to the same state
  that differ only in the value, and both change the stored text, leave the same audit rows; and
  the display of a secret row is one of two fixed texts.\<close>

theorem secrets_stay_secret:
  assumes "settings_set_value en k v1 ty descr secret actor w = (Inr r1, w1)"
    and "settings_set_value en k v2 ty descr secret actor w = (Inr r2, w2)"
    and "\<forall>old. setting_find k (cur w) = Some old \<longrightarrow> st_value old \<noteq> st_value r1 \<and> st_value old \<noteq> st_value r2"
  shows "audit_logs (cur w1) = audit_logs (cur w2) \<and>
    (st_secret r1 \<longrightarrow> mask_for_display en r1 \<in> {replicate 6 (CHR 0x95), [CHR 0x97]})"
proof
  let ?old = "setting_find k (cur w)"
  let ?args = "\<lambda>p e r. setting_audit actor (?old = None)
     (case ?old of None \<Rightarrow> False | Some r \<Rightarrow> st_secret r) (?old = None \<or> p \<noteq> e) r"
  obtain r0 e1 u1 p1 where "setting_assigned k ty descr secret (cur w) = Inr r0"
      and 1: "r1 = r0\<lparr>st_value := e1, st_updated_by := actor\<rparr>"
      "u1 = on_db (if ?old = None then add_setting r0 else put_setting r0) w"
      "p1 = (case ?old of None \<Rightarrow> None | Some r \<Rightarrow> st_value r)"
      "w1 = audit_record en ''settings.update'' (?args p1 e1 r1)
        (memo_drop en k (commit (on_db (put_setting r1) u1)))"
    using set_value_cases [OF assms(1)] .
  moreover obtain r0' e2 u2 p2 where "setting_assigned k ty descr secret (cur w) = Inr r0'"
      and 2: "r2 = r0'\<lparr>st_value := e2, st_updated_by := actor\<rparr>"
      "u2 = on_db (if ?old = None then add_setting r0' else put_setting r0') w"
      "p2 = (case ?old of None \<Rightarrow> None | Some r \<Rightarrow> st_value r)"
      "w2 = audit_record en ''settings.update'' (?args p2 e2 r2)
        (memo_drop en k (commit (on_db (put_setting r2) u2)))"
    using set_value_cases [OF assms(2)] .
  ultimately have r0': "r0' = r0" by simp
  have c: "(?old = None \<or> p1 \<noteq> e1) = True" "(?old = None \<or> p2 \<noteq> e2) = True"
    using assms(3) 1(1,3) 2(1,3) by (cases ?old; simp)+
  have a: "setting_audit actor n p ch r1 = setting_audit actor n p ch r2" for n p ch
    by (simp add: setting_audit_def 1(1) 2(1) r0')
  have al: "audit_logs (cur (memo_drop en k (commit (on_db (put_setting r) u)))) = audit_logs (cur u)"
    "next_key T_audit (cur (memo_drop en k (commit (on_db (put_setting r) u)))) = next_key T_audit (cur u)"
    "clock (memo_drop en k (commit (on_db (put_setting r) u))) = clock u" for r u
    by (simp_all add: memo_drop_def next_key_def)
  show "audit_logs (cur w1) = audit_logs (cur w2)"
    unfolding 1(4) 2(4) c a by (simp add: audit_entry_def al 1(2) 2(2) r0' del: put_setting_def add_setting_def)
  show "st_secret r1 \<longrightarrow> mask_for_display en r1 \<in> {replicate 6 (CHR 0x95), [CHR 0x97]}"
    by (simp add: mask_for_display_def)
qed

subsection \<open>Samples\<close>

definition sample_set :: "setting_value \<Rightarrow> (exn + setting) \<times> world" where
  "sample_set v = settings_set_value sample_env ''vat'' v (Some ''int'') None (Some True) None
     (world_of sample_db)"

lemma sample_set_facts:
  "settings_ok (cur (world_of sample_db))" "memo_ok sample_env (world_of sample_db)"
  "setting_find ''vat'' (cur (world_of sample_db)) = None"
  by (simp_all add: settings_ok_def keys_ok_def sample_db_def empty_db_def memo_ok_def memo_get_def
      setting_find_def)

lemma sample_set_run:
  "settings_set_value sample_env ''vat'' (VInt i) (Some ''int'') None (Some True) None (world_of sample_db)
    = (Inr \<lparr>st_id = 1, st_key = ''vat'', st_value = Some (show_int i), st_type = ''int'',
        st_description = '''', st_secret = True, st_updated_by = None\<rparr>, snd (sample_set (VInt i)))"
proof -
  have "fst (sample_set (VInt i)) = Inr \<lparr>st_id = 1, st_key = ''vat'', st_value = Some (show_int i),
      st_type = ''int'', st_description = '''', st_secret = True, st_updated_by = None\<rparr>"
    by (simp add: sample_set_def settings_set_value_def setting_assigned_def setting_types_def
        setting_encode_def sample_db_def empty_db_def next_key_def setting_find_def Let_def)
  then show ?thesis by (simp add: sample_set_def prod_eq_iff)
qed


lemma memo_coherent_witness:
  "memo_ok sample_env (snd (settings_get sample_env ''vat'' VNone (world_of sample_db)))
   \<and> memo_ok sample_env (snd (sample_set (VInt 24)))"
  using memo_coherent [OF sample_set_facts(1,2), of "''vat''" VNone] sample_set_run [of 24]
  by (metis prod.collapse)

lemma secrets_stay_secret_witness:
  "audit_logs (cur (snd (sample_set (VInt 24)))) = audit_logs (cur (snd (sample_set (VInt 10))))"
  using secrets_stay_secret [OF sample_set_run [of 24] sample_set_run [of 10]] sample_set_facts(3) by simp

end
