(* ===== verification/Idempotency.thy ===== *)
theory Idempotency
  imports AuditLog Json Samples
begin

text \<open>
  Idempotency keys (app/idempotency): reserving a key for a request body, caching the response
  under it, and the wrapper of POST views that replays it. \<open>rivals i\<close> is a row that another
  session commits between our lookup and our insert in attempt \<open>i\<close>; it makes the insert fail
  with \<open>IntegrityError\<close> when it has our key. Main facts: keys stay unique; a repeated request
  gets the stored response and does not run the view; a conflicting body does not run it either;
  a response that is not cached frees the key; no value under a sensitive key is stored.
\<close>

subsection \<open>Reserving a key\<close>

definition resolve_organization_id :: "env \<Rightarrow> int option" where
  "resolve_organization_id en =
     (let r = req en in
      if \<not> rq_request r then None
      else case rq_api_key r of Some k \<Rightarrow> Some (ak_org k)
           | None \<Rightarrow> map_option usr_org (rq_user r))"

definition idem_find :: "string \<Rightarrow> db \<Rightarrow> idem_key option" where
  "idem_find k d = List.find (\<lambda>r. ik_key r = k) (idem_keys d)"

definition idem_delete :: "int \<Rightarrow> db \<Rightarrow> db" where
  "idem_delete i d = d\<lparr>idem_keys := row_del ik_id i (idem_keys d)\<rparr>"

definition new_idem_key :: "env \<Rightarrow> string \<Rightarrow> string \<Rightarrow> string \<Rightarrow> int option \<Rightarrow> world \<Rightarrow> idem_key" where
  "new_idem_key en key endpoint hash org w =
     \<lparr>ik_id = next_key T_idem (cur w), ik_key = key, ik_endpoint = endpoint, ik_hash = hash,
      ik_status = None, ik_body = None, ik_org = org, ik_created_at = clock w,
      ik_expires_at = clock w + seconds (idem_ttl en)\<rparr>"

text \<open>The insert of another session, committed while ours is open: our flush fails, we roll back.\<close>

definition rival_commits :: "idem_key \<Rightarrow> world \<Rightarrow> world" where
  "rival_commits r w = rollback (w\<lparr>com := add_idem r (com w)\<rparr>)"

definition insert_idem ::
  "env \<Rightarrow> idem_key option \<Rightarrow> string \<Rightarrow> string \<Rightarrow> string \<Rightarrow> int option \<Rightarrow> world
   \<Rightarrow> world + idem_key \<times> world" where
  "insert_idem en rival key endpoint hash org w =
     (let row = new_idem_key en key endpoint hash org w;
          ok = Inr (row, on_db (add_idem row) w)
      in case rival of
           Some r \<Rightarrow> if ik_key r = key then Inl (rival_commits r w) else ok
         | None \<Rightarrow> ok)"

definition idem_audit :: "string option \<Rightarrow> (string \<times> json) list \<Rightarrow> idem_key \<Rightarrow> audit_args" where
  "idem_audit status metadata row =
     audit_defaults\<lparr>aa_status := status, aa_target_type := Some ''idempotency_key'',
       aa_target_id := Some (ik_id row), aa_metadata := Some metadata\<rparr>"

definition check_live_key ::
  "env \<Rightarrow> string \<Rightarrow> string \<Rightarrow> string \<Rightarrow> world \<Rightarrow> ((exn + idem_key \<times> bool) \<times> world) + world" where
  "check_live_key en key endpoint hash w =
     (case idem_find key (cur w) of
        None \<Rightarrow> Inr w
      | Some row \<Rightarrow>
          if clock w < ik_expires_at row then
            if ik_hash row = hash then Inl (Inr (row, False), w)
            else Inl (Inl IdempotencyKeyConflict,
                  audit_record en ''idempotency.conflict''
                    (idem_audit (Some ''failure'')
                       [(''endpoint'', JStr endpoint), (''status'', JStr ''failure'')] row) w)
          else Inr (on_db (idem_delete (ik_id row)) w))"

fun get_or_create_loop ::
  "nat \<Rightarrow> env \<Rightarrow> (nat \<Rightarrow> idem_key option) \<Rightarrow> string \<Rightarrow> string \<Rightarrow> string \<Rightarrow> int option \<Rightarrow> world
   \<Rightarrow> (exn + idem_key \<times> bool) \<times> world" where
  "get_or_create_loop 0 en rivals key endpoint hash org w = (Inl (PyError RuntimeError), w)"
| "get_or_create_loop (Suc n) en rivals key endpoint hash org w =
     (case check_live_key en key endpoint hash w of
        Inl done \<Rightarrow> done
      | Inr w1 \<Rightarrow>
          (case insert_idem en (rivals n) key endpoint hash org w1 of
             Inl w2 \<Rightarrow> get_or_create_loop n en rivals key endpoint hash org w2
           | Inr (row, w2) \<Rightarrow> (Inr (row, True), w2)))"

definition get_or_create ::
  "env \<Rightarrow> (nat \<Rightarrow> idem_key option) \<Rightarrow> string \<Rightarrow> string \<Rightarrow> string \<Rightarrow> int option \<Rightarrow> world
   \<Rightarrow> (exn + idem_key \<times> bool) \<times> world" where
  "get_or_create en rivals key endpoint hash org w =
     get_or_create_loop 8 en rivals key endpoint hash
       (or_else org (resolve_organization_id en)) w"

subsection \<open>What is stored of a response\<close>

definition should_cache :: "int \<Rightarrow> bool" where
  "should_cache status \<longleftrightarrow>
     \<not> 500 \<le> status \<and> \<not> (400 \<le> status \<and> status < 500 \<and> status \<noteq> 422)"

definition sensitive_fragments :: "string list" where
  "sensitive_fragments = [''password'', ''secret'', ''token'', ''authorization'', ''api_key'',
     ''apikey'', ''access_token'', ''refresh_token'', ''client_secret'', ''bearer'', ''signature'']"

definition sensitive_key :: "string \<Rightarrow> bool" where
  "sensitive_key k \<longleftrightarrow> (\<exists>f\<in>set sensitive_fragments. contains f (lower k))"

fun redact_for_cache :: "json \<Rightarrow> json" where
  "redact_for_cache (JObj kvs) =
     JObj (map (\<lambda>(k, v). (k, if sensitive_key k then JStr ''[REDACTED]'' else redact_for_cache v)) kvs)"
| "redact_for_cache (JList xs) = JList (map redact_for_cache xs)"
| "redact_for_cache j = j"

text \<open>A body that is JSON (a dictionary, a list, or a response with JSON data), text, or nothing.\<close>

datatype view_body = BodyNone | BodyJson json | BodyText string

fun normalize_response_body :: "view_body \<Rightarrow> string" where
  "normalize_response_body BodyNone = ''''"
| "normalize_response_body (BodyJson j) = json_dumps (redact_for_cache j)"
| "normalize_response_body (BodyText s) = s"

definition record_response :: "idem_key \<Rightarrow> int \<Rightarrow> view_body \<Rightarrow> world \<Rightarrow> world" where
  "record_response row status body w =
     (if \<not> should_cache status then commit (on_db (idem_delete (ik_id row)) w)
      else
        let text = normalize_response_body body;
            stored = (if 65536 < utf8_size text then utf8_take 65536 text else text)
        in commit (on_db (put_idem (row\<lparr>ik_status := Some status, ik_body := Some stored\<rparr>)) w))"

definition prune_expired :: "world \<Rightarrow> int \<times> world" where
  "prune_expired w =
     (let old = (\<lambda>r. ik_expires_at r < clock w)
      in (int (length (filter old (idem_keys (cur w)))),
          commit (on_db (\<lambda>d. d\<lparr>idem_keys := filter (\<lambda>r. \<not> old r) (idem_keys d)\<rparr>) w)))"

subsection \<open>The wrapper of POST views\<close>

text \<open>The values of the headers \<open>Idempotency-Key\<close> and \<open>X-Idempotency-Key\<close>, in this order.\<close>

fun read_idempotency_key :: "string option list \<Rightarrow> string option" where
  "read_idempotency_key [] = None"
| "read_idempotency_key (h # hs) =
     (let raw = strip (or_empty h)
      in if raw \<noteq> '''' then Some (take 128 raw) else read_idempotency_key hs)"

definition request_body_hash :: "env \<Rightarrow> json option \<Rightarrow> string" where
  "request_body_hash en payload =
     sha256 en (json_dumps_sorted (case payload of None \<Rightarrow> JObj [] | Some p \<Rightarrow> p))"

definition json_error_body :: "string \<Rightarrow> string \<Rightarrow> json" where
  "json_error_body code msg = JObj [(''success'', JBool False), (''data'', JNull),
     (''error'', JObj [(''code'', JStr code), (''message'', JStr msg)])]"

definition json_ok_body :: "json \<Rightarrow> json" where
  "json_ok_body data = JObj [(''success'', JBool True), (''data'', data), (''error'', JNull)]"

type_synonym view = "world \<Rightarrow> (exn + int \<times> view_body) \<times> world"

definition idempotent_post ::
  "env \<Rightarrow> (nat \<Rightarrow> idem_key option) \<Rightarrow> string \<Rightarrow> string option list \<Rightarrow> json option \<Rightarrow> view \<Rightarrow> view" where
  "idempotent_post en rivals endpoint headers payload view w =
     (case read_idempotency_key headers of
        None \<Rightarrow> (Inr (400, BodyJson (json_error_body ''idempotency_key_required''
          ''Send 'Idempotency-Key: <unique-string>' header to safely retry POST requests.'')), w)
      | Some key \<Rightarrow>
        (case get_or_create en rivals key endpoint (request_body_hash en payload) None w of
           (Inl IdempotencyKeyConflict, w1) \<Rightarrow>
             (Inr (409, BodyJson (json_error_body ''idempotency_key_conflict''
               ''This idempotency key was already used with a different JSON body.'')), w1)
         | (Inl e, w1) \<Rightarrow> (Inl e, w1)
         | (Inr (row, created), w1) \<Rightarrow>
             if \<not> created then
               (case (ik_status row, ik_body row) of
                  (Some st, Some body) \<Rightarrow>
                    (Inr (st, BodyText body),
                     audit_record en ''idempotency.replay''
                       (idem_audit (Some ''success'') [(''endpoint'', JStr endpoint)] row) w1)
                | _ \<Rightarrow> (Inr (503, BodyJson (json_error_body ''idempotency_request_in_progress''
                    ''This idempotency key is already in use for an in-flight request; retry shortly.'')),
                    w1))
             else
               (case view w1 of
                  (Inl e, w2) \<Rightarrow> (Inl e, rollback w2)
                | (Inr (st, body), w2) \<Rightarrow> (Inr (st, body), record_response row st body w2))))"

subsection \<open>Keys stay unique\<close>

definition idem_ok :: "db \<Rightarrow> bool" where
  "idem_ok d \<longleftrightarrow> keys_ok ik_id (seqs d T_idem) (idem_keys d) \<and> distinct (map ik_key (idem_keys d))"

lemma idem_find_D: "idem_find k d = Some r \<Longrightarrow> r \<in> set (idem_keys d) \<and> ik_key r = k"
  unfolding idem_find_def by (rule find_Some_D)

lemma idem_ok_find: "idem_ok d \<Longrightarrow> r \<in> set (idem_keys d) \<Longrightarrow> idem_find (ik_key r) d = Some r"
  unfolding idem_find_def by (rule find_unique) (auto simp: idem_ok_def)

lemma idem_find_None: "idem_find k d = None \<longleftrightarrow> (\<forall>r\<in>set (idem_keys d). ik_key r \<noteq> k)"
  by (simp add: idem_find_def find_None_iff_all)

lemma keys_ok_filter: "keys_ok key n rs \<Longrightarrow> keys_ok key n (filter P rs)"
  by (simp add: keys_ok_def distinct_map_filter)

lemma idem_ok_delete: "idem_ok d \<Longrightarrow> idem_ok (idem_delete i d)"
  by (simp add: idem_ok_def idem_delete_def row_del_def keys_ok_filter distinct_map_filter)

lemma idem_deleted:
  assumes "idem_ok d" and "idem_find k d = Some r"
  shows "idem_find k (idem_delete (ik_id r) d) = None"
proof -
  have r: "r \<in> set (idem_keys d)" "ik_key r = k" using idem_find_D assms(2) by blast+
  have "ik_id x = ik_id r" if "x \<in> set (idem_keys d)" "ik_key x = k" for x
    using assms(1) that r by (auto simp: idem_ok_def distinct_map inj_on_def)
  then show ?thesis by (auto simp: idem_find_None idem_delete_def row_del_def)
qed

lemma idem_ok_add:
  assumes "idem_ok d" and "idem_find (ik_key r) d = None" and "ik_id r = next_key T_idem d"
  shows "idem_ok (add_idem r d)"
  using assms idem_tab.ok_add [of d r]
  by (auto simp: idem_ok_def idem_find_None)

lemma idem_ok_put:
  assumes "idem_ok d" and "row_get ik_id (ik_id r) (idem_keys d) = Some r0" and "ik_key r = ik_key r0"
  shows "idem_ok (put_idem r d)"
proof -
  have "map ik_key (row_put ik_id r (idem_keys d)) = map ik_key (idem_keys d)"
    unfolding row_put_def map_map
  proof (rule map_cong [OF refl])
    fix x assume x: "x \<in> set (idem_keys d)"
    then have "ik_id x = ik_id r \<Longrightarrow> x = r0"
      using assms(1) row_get_mem [of ik_id "idem_keys d" x] assms(2)
      by (auto simp: idem_ok_def keys_ok_def)
    then show "(ik_key \<circ> (\<lambda>x. if ik_id x = ik_id r then r else x)) x = ik_key x"
      using assms(3) by auto
  qed
  then show ?thesis using assms(1) by (simp add: idem_ok_def)
qed


text \<open>Neither our insert nor one of another session under the same key breaks uniqueness.\<close>

lemma idem_audit_commit [simp]: "\<not> aa_commit (idem_audit st md row)"
  by (simp add: idem_audit_def)

lemma check_live_key_cases:
  obtains row where "idem_find key (cur w) = Some row" "clock w < ik_expires_at row" "ik_hash row = hash"
      "check_live_key en key ep hash w = Inl (Inr (row, False), w)"
  | row a where "idem_find key (cur w) = Some row" "clock w < ik_expires_at row" "ik_hash row \<noteq> hash"
      "check_live_key en key ep hash w =
         Inl (Inl IdempotencyKeyConflict, audit_record en ''idempotency.conflict'' a w)"
      "\<not> aa_commit a"
  | row where "idem_find key (cur w) = Some row" "ik_expires_at row \<le> clock w"
      "check_live_key en key ep hash w = Inr (on_db (idem_delete (ik_id row)) w)"
  | "idem_find key (cur w) = None" "check_live_key en key ep hash w = Inr w"
proof (cases "idem_find key (cur w)")
  case None
  then show ?thesis using that(4) by (simp add: check_live_key_def)
next
  case (Some row)
  consider "clock w < ik_expires_at row" "ik_hash row = hash"
    | "clock w < ik_expires_at row" "ik_hash row \<noteq> hash" | "ik_expires_at row \<le> clock w" by linarith
  then show ?thesis
  proof cases
    case 1
    then show ?thesis using Some that(1) by (simp add: check_live_key_def)
  next
    case 2
    then have "check_live_key en key ep hash w =
       Inl (Inl IdempotencyKeyConflict, audit_record en ''idempotency.conflict''
         (idem_audit (Some ''failure'') [(''endpoint'', JStr ep), (''status'', JStr ''failure'')] row) w)"
      using Some by (simp add: check_live_key_def)
    then show ?thesis using that(2) [OF Some 2] by simp
  next
    case 3
    then show ?thesis using Some that(3) by (simp add: check_live_key_def)
  qed
qed

lemma check_live_key_Inr:
  assumes "check_live_key en key ep hash w = Inr w1" and "idem_ok (cur w)"
  shows "idem_ok (cur w1)" "idem_find key (cur w1) = None" "com w1 = com w" "clock w1 = clock w"
    "out w1 = out w"
proof -
  have "idem_ok (cur w1) \<and> idem_find key (cur w1) = None \<and> com w1 = com w \<and> clock w1 = clock w
      \<and> out w1 = out w"
    by (rule check_live_key_cases [of key w hash en ep])
      (use assms in \<open>auto simp: idem_ok_delete idem_deleted\<close>)
  then show "idem_ok (cur w1)" "idem_find key (cur w1) = None" "com w1 = com w"
    "clock w1 = clock w" "out w1 = out w" by simp_all
qed

definition rivals_fresh :: "(nat \<Rightarrow> idem_key option) \<Rightarrow> string \<Rightarrow> bool" where
  "rivals_fresh rivals key \<longleftrightarrow> (\<forall>n r. rivals n = Some r \<longrightarrow> ik_key r \<noteq> key)"

text \<open>Without a rival for the key, one pass of the loop decides.\<close>

lemma get_or_create_cases:
  assumes "idem_ok (cur w)" and "rivals_fresh rivals key"
    and res: "get_or_create en rivals key ep hash org w = (r, w')"
  obtains row where "idem_find key (cur w) = Some row" "clock w < ik_expires_at row"
      "ik_hash row = hash" "r = Inr (row, False)" "w' = w"
  | row a where "idem_find key (cur w) = Some row" "clock w < ik_expires_at row" "ik_hash row \<noteq> hash"
      "r = Inl IdempotencyKeyConflict" "w' = audit_record en ''idempotency.conflict'' a w" "\<not> aa_commit a"
  | w1 where "\<forall>row. idem_find key (cur w) = Some row \<longrightarrow> ik_expires_at row \<le> clock w"
      "idem_ok (cur w1)" "idem_find key (cur w1) = None" "com w1 = com w" "clock w1 = clock w"
      "out w1 = out w"
      "r = Inr (new_idem_key en key ep hash (or_else org (resolve_organization_id en)) w1, True)"
      "w' = on_db (add_idem (new_idem_key en key ep hash (or_else org (resolve_organization_id en)) w1)) w1"
      "\<forall>x\<in>set (idem_keys (cur w1)). x \<in> set (idem_keys (cur w))"
proof -
  have eight: "(8::nat) = Suc 7" by simp
  let ?new = "new_idem_key en key ep hash (or_else org (resolve_organization_id en))"
  have ins: "insert_idem en (rivals 7) key ep hash (or_else org (resolve_organization_id en)) w1
      = Inr (?new w1, on_db (add_idem (?new w1)) w1)" for w1
    using assms(2) by (simp add: insert_idem_def rivals_fresh_def Let_def split: option.split)
  note res' = res [unfolded get_or_create_def eight get_or_create_loop.simps]
  show ?thesis
  proof (rule check_live_key_cases [of key w hash en ep])
    fix row
    assume a: "idem_find key (cur w) = Some row" "clock w < ik_expires_at row" "ik_hash row = hash"
      "check_live_key en key ep hash w = Inl (Inr (row, False), w)"
    show ?thesis by (rule that(1) [OF a(1-3)]) (use res' a(4) in simp_all)
  next
    fix row a
    assume a: "idem_find key (cur w) = Some row" "clock w < ik_expires_at row" "ik_hash row \<noteq> hash"
      "check_live_key en key ep hash w =
         Inl (Inl IdempotencyKeyConflict, audit_record en ''idempotency.conflict'' a w)"
      "\<not> aa_commit a"
    show ?thesis by (rule that(2) [OF a(1-3) _ _ a(5)]) (use res' a(4) in simp_all)
  next
    fix row
    assume a: "idem_find key (cur w) = Some row" "ik_expires_at row \<le> clock w"
      "check_live_key en key ep hash w = Inr (on_db (idem_delete (ik_id row)) w)"
    show ?thesis
      by (rule that(3) [OF _ check_live_key_Inr [OF a(3) assms(1)]])
        (use res' a ins in \<open>simp_all add: idem_delete_def row_del_def\<close>)
  next
    assume a: "idem_find key (cur w) = None" "check_live_key en key ep hash w = Inr w"
    show ?thesis
      by (rule that(3) [OF _ check_live_key_Inr [OF a(2) assms(1)]]) (use res' a ins in simp_all)
  qed
qed

lemma new_idem_key_simps [simp]:
  "ik_key (new_idem_key en key ep hash org w) = key"
  "ik_id (new_idem_key en key ep hash org w) = next_key T_idem (cur w)"
  "ik_hash (new_idem_key en key ep hash org w) = hash"
  "ik_status (new_idem_key en key ep hash org w) = None"
  "ik_expires_at (new_idem_key en key ep hash org w) = clock w + seconds (idem_ttl en)"
  by (simp_all add: new_idem_key_def)

lemma get_or_create_ok:
  assumes "idem_ok (cur w)" and "rivals_fresh rivals key"
    and "get_or_create en rivals key ep hash org w = (r, w')"
  shows "idem_ok (cur w')"
proof (rule get_or_create_cases [OF assms])
  fix w1 assume w1: "idem_ok (cur w1)" "idem_find key (cur w1) = None"
    and w': "w' = on_db (add_idem (new_idem_key en key ep hash (or_else org (resolve_organization_id en)) w1)) w1"
  show ?thesis unfolding w' on_db_simps by (rule idem_ok_add) (simp_all add: w1)
qed (use assms(1) in \<open>simp_all add: idem_ok_def\<close>)

subsection \<open>Replay\<close>

definition stored_body :: "view_body \<Rightarrow> string" where
  "stored_body body = utf8_take 65536 (normalize_response_body body)"

lemma record_response_cached:
  "should_cache st \<Longrightarrow> record_response row st body w =
     commit (on_db (put_idem (row\<lparr>ik_status := Some st, ik_body := Some (stored_body body)\<rparr>)) w)"
  by (simp add: record_response_def Let_def stored_body_def utf8_take_all)

lemma idem_find_put:
  assumes "idem_ok d" and "row_get ik_id (ik_id r) (idem_keys d) = Some r0" and "ik_key r = ik_key r0"
  shows "idem_find (ik_key r) (put_idem r d) = Some r"
proof -
  have "idem_ok (put_idem r d)" using assms by (rule idem_ok_put)
  moreover have "r \<in> set (idem_keys (put_idem r d))"
    using row_get_in [OF assms(2)] by (force simp: row_put_def)
  ultimately show ?thesis by (rule idem_ok_find)
qed

definition keeps_idem :: "view \<Rightarrow> bool" where
  "keeps_idem view \<longleftrightarrow> (\<forall>w. idem_keys (cur (snd (view w))) = idem_keys (cur w)
     \<and> seqs (cur (snd (view w))) T_idem = seqs (cur w) T_idem)"

text \<open>The first run of a key: the view is called once, and the outcome is stored or the key freed.\<close>

lemma first_run:
  assumes ok: "idem_ok (cur w)" "rivals_fresh rivals key" "read_idempotency_key headers = Some key"
    and none: "\<forall>row. idem_find key (cur w) = Some row \<longrightarrow> ik_expires_at row \<le> clock w"
    and run: "idempotent_post en rivals ep headers payload view w = (Inr (st, body), w')"
    and keeps: "keeps_idem view"
  obtains row w1 w2 where "view w1 = (Inr (st, body), w2)" "w' = record_response row st body w2"
    "idem_ok (cur w2)" "row_get ik_id (ik_id row) (idem_keys (cur w2)) = Some row"
    "ik_key row = key" "ik_hash row = request_body_hash en payload"
    "ik_expires_at row = clock w + seconds (idem_ttl en)"
proof -
  let ?h = "request_body_hash en payload"
  obtain r w1 where g: "get_or_create en rivals key ep ?h None w = (r, w1)" by fastforce
  show ?thesis
  proof (rule get_or_create_cases [OF ok(1,2) g])
    fix w0
    let ?row = "new_idem_key en key ep ?h (or_else None (resolve_organization_id en)) w0"
    assume w0: "idem_ok (cur w0)" "idem_find key (cur w0) = None" "clock w0 = clock w"
      and r: "r = Inr (?row, True)" and w1: "w1 = on_db (add_idem ?row) w0"
    obtain v w2 where v: "view w1 = (v, w2)" by fastforce
    have v': "v = Inr (st, body)" "w' = record_response ?row st body w2"
      using run unfolding idempotent_post_def ok(3) option.case g r
      by (auto simp: v split: sum.splits prod.splits)
    have k: "idem_keys (cur w2) = idem_keys (cur w1)" "seqs (cur w2) T_idem = seqs (cur w1) T_idem"
      using keeps v by (auto simp: keeps_idem_def dest: spec [of _ w1])
    have ok1: "idem_ok (cur w1)" unfolding w1 on_db_simps by (rule idem_ok_add) (simp_all add: w0)
    then have "row_get ik_id (ik_id ?row) (idem_keys (cur w1)) = Some ?row"
      unfolding w1 by (intro row_get_mem) (simp_all add: idem_ok_def keys_ok_def)
    then show ?thesis
      using v v' k ok1 w0(3) by (intro that [of w1 w2 ?row]) (simp_all add: idem_ok_def)
  qed (use none in \<open>simp_all add: not_less [symmetric]\<close>)
qed

text \<open>C6: a repeated request is answered from the store. After a first run whose response is
  cacheable, the same key and body within the lifetime of the key return the stored status and
  the stored (redacted) body, and whatever view is given is not run: only the audit log grows.\<close>

theorem idempotent_replay:
  assumes "idem_ok (cur w)" and "rivals_fresh rivals key"
    and "read_idempotency_key headers = Some key"
    and "\<forall>row. idem_find key (cur w) = Some row \<longrightarrow> ik_expires_at row \<le> clock w"
    and "idempotent_post en rivals ep headers payload view w = (Inr (st, body), w')"
    and "keeps_idem view" and "should_cache st"
    and "idem_keys (cur v) = idem_keys (cur w')" and "clock v < clock w + seconds (idem_ttl en)"
  shows "\<exists>a. idempotent_post en rivals' ep headers payload view' v =
     (Inr (st, BodyText (stored_body body)), audit_record en ''idempotency.replay'' a v)"
proof -
  obtain row w1 w2 where f: "w' = record_response row st body w2" "idem_ok (cur w2)"
    "row_get ik_id (ik_id row) (idem_keys (cur w2)) = Some row" "ik_key row = key"
    "ik_hash row = request_body_hash en payload"
    "ik_expires_at row = clock w + seconds (idem_ttl en)"
    using first_run [OF assms(1-6)] .
  define row' where "row' = row\<lparr>ik_status := Some st, ik_body := Some (stored_body body)\<rparr>"
  have w': "w' = commit (on_db (put_idem row') w2)"
    using f(1) record_response_cached [OF assms(7)] by (simp add: row'_def)
  have "idem_find (ik_key row') (put_idem row' (cur w2)) = Some row'"
    by (rule idem_find_put [OF f(2), of _ row]) (simp_all add: row'_def f(3))
  then have found: "idem_find key (cur v) = Some row'"
    using assms(8) f(4) by (simp add: idem_find_def w' row'_def)
  have live: "clock v < ik_expires_at row'" "ik_hash row' = request_body_hash en payload"
    using assms(9) f by (simp_all add: row'_def)
  have "get_or_create en rivals' key ep (request_body_hash en payload) None v = (Inr (row', False), v)"
    unfolding get_or_create_def numeral_eq_Suc pred_numeral_simps get_or_create_loop.simps
    by (simp add: check_live_key_def found live)
  then show ?thesis
    by (intro exI) (simp add: idempotent_post_def assms(3) row'_def)
qed

text \<open>While a key is live, the view is never run: a different body is answered with 409 and a
  key whose first run has not finished with 503, and nothing but the audit log changes.\<close>

theorem live_key_never_runs_view:
  assumes "read_idempotency_key headers = Some key" and "idem_find key (cur w) = Some row"
    and "clock w < ik_expires_at row"
    and "idempotent_post en rivals ep headers payload view w = (res, w')"
  shows "idempotent_post en rivals ep headers payload view' w = (res, w')
      \<and> (ik_hash row \<noteq> request_body_hash en payload \<longrightarrow> (\<exists>b. res = Inr (409, b)))
      \<and> (ik_hash row = request_body_hash en payload \<and> ik_status row = None \<longrightarrow> (\<exists>b. res = Inr (503, b)))
      \<and> com w' = com w
      \<and> (w' = w \<or> (\<exists>e. cur w' = add_audit e (cur w)))"
proof -
  have g: "get_or_create en rivals key ep (request_body_hash en payload) None w =
      (if ik_hash row = request_body_hash en payload then (Inr (row, False), w)
       else (Inl IdempotencyKeyConflict, audit_record en ''idempotency.conflict''
         (idem_audit (Some ''failure'') [(''endpoint'', JStr ep), (''status'', JStr ''failure'')] row) w))"
    unfolding get_or_create_def numeral_eq_Suc pred_numeral_simps get_or_create_loop.simps
    by (simp add: check_live_key_def assms(2,3))
  note e = idempotent_post_def [of en rivals ep headers payload _ w, unfolded assms(1) option.case g]
  have "idempotent_post en rivals ep headers payload view' w = (res, w')"
    using assms(4) unfolding e by (cases "ik_hash row = request_body_hash en payload") simp_all
  moreover have "(ik_hash row \<noteq> request_body_hash en payload \<longrightarrow> (\<exists>b. res = Inr (409, b)))
      \<and> (ik_hash row = request_body_hash en payload \<and> ik_status row = None \<longrightarrow> (\<exists>b. res = Inr (503, b)))
      \<and> com w' = com w \<and> (w' = w \<or> (\<exists>e. cur w' = add_audit e (cur w)))"
  proof (cases "ik_hash row = request_body_hash en payload")
    case True
    then show ?thesis
      using assms(4) unfolding e
      by (cases "ik_status row"; cases "ik_body row") (auto simp del: add_audit_def)
  next
    case False
    then show ?thesis using assms(4) unfolding e by (auto simp del: add_audit_def)
  qed
  ultimately show ?thesis by simp
qed

text \<open>A response that is not cached (5xx, and 4xx other than 422) frees the key: after the
  request the key is not in the table, also in the committed state, so a retry runs the view.\<close>

theorem uncached_frees_key:
  assumes "idem_ok (cur w)" and "rivals_fresh rivals key"
    and "read_idempotency_key headers = Some key"
    and "\<forall>row. idem_find key (cur w) = Some row \<longrightarrow> ik_expires_at row \<le> clock w"
    and "idempotent_post en rivals ep headers payload view w = (Inr (st, body), w')"
    and "keeps_idem view" and "\<not> should_cache st"
  shows "idem_find key (cur w') = None \<and> com w' = cur w' \<and> idem_ok (cur w')"
proof -
  obtain row w1 w2 where f: "w' = record_response row st body w2" "idem_ok (cur w2)"
    "row_get ik_id (ik_id row) (idem_keys (cur w2)) = Some row" "ik_key row = key"
    using first_run [OF assms(1-6)] .
  have "idem_find (ik_key row) (cur w2) = Some row"
    using idem_ok_find [OF f(2)] row_get_in [OF f(3)] by blast
  then have "idem_find key (idem_delete (ik_id row) (cur w2)) = None"
    using idem_deleted [OF f(2)] f(4) by simp
  then show ?thesis using f(1,2) assms(7) by (simp add: record_response_def idem_ok_delete)
qed

subsection \<open>Redaction\<close>

fun no_secret :: "json \<Rightarrow> bool" where
  "no_secret (JObj kvs) =
     list_all (\<lambda>(k, v). (sensitive_key k \<longrightarrow> v = JStr ''[REDACTED]'') \<and> no_secret v) kvs"
| "no_secret (JList xs) = list_all no_secret xs"
| "no_secret _ = True"

text \<open>Whatever the response, the JSON that is stored holds no value under a sensitive key at
  any depth, and redacting it again changes nothing.\<close>

theorem redaction_complete:
  "no_secret (redact_for_cache j) \<and> redact_for_cache (redact_for_cache j) = redact_for_cache j"
  by (induction j rule: redact_for_cache.induct)
    (auto simp: list_all_iff split: prod.splits)

subsection \<open>Samples\<close>

definition sample_view :: view where
  "sample_view w = (Inr (200, BodyText ''ok''), w)"

definition sample_row :: idem_key where
  "sample_row = \<lparr>ik_id = 1, ik_key = ''k1'', ik_endpoint = ''checkout'',
     ik_hash = request_body_hash sample_env None, ik_status = None, ik_body = None,
     ik_org = None, ik_created_at = sample_clock, ik_expires_at = sample_clock + seconds 86400\<rparr>"

lemma sample_facts:
  "idem_keys sample_db = []" "seqs sample_db = (\<lambda>_. 0)"
  "idem_ok sample_db" "idem_find ''k1'' sample_db = None" "keeps_idem sample_view"
  "rivals_fresh (\<lambda>_. None) k" "strip ''k1'' = ''k1''"
  "read_idempotency_key [Some ''k1'', None] = Some ''k1''"
  "resolve_organization_id sample_env = None" "idem_ttl sample_env = 86400"
  by (simp_all add: idem_ok_def keys_ok_def idem_find_def sample_db_def empty_db_def keeps_idem_def
      sample_view_def rivals_fresh_def strip_def is_blank_def resolve_organization_id_def
      sample_env_def sample_request_def)

lemma sample_first:
  "get_or_create sample_env (\<lambda>_. None) ''k1'' ''checkout'' (request_body_hash sample_env None) None
     (world_of sample_db) = (Inr (sample_row, True), on_db (add_idem sample_row) (world_of sample_db))"
proof -
  have "new_idem_key sample_env ''k1'' ''checkout'' (request_body_hash sample_env None) None
      (world_of sample_db) = sample_row"
    by (simp add: new_idem_key_def sample_row_def sample_facts next_key_def)
  then show ?thesis
    unfolding get_or_create_def numeral_eq_Suc pred_numeral_simps get_or_create_loop.simps
    by (simp add: check_live_key_def insert_idem_def sample_facts)
qed

text \<open>The world after a first request with key k1 whose view answers 200.\<close>

definition sample_served :: world where
  "sample_served = record_response sample_row 200 (BodyText ''ok'')
     (on_db (add_idem sample_row) (world_of sample_db))"

lemma sample_served_keys:
  "idem_keys (cur sample_served) = [sample_row\<lparr>ik_status := Some 200, ik_body := Some (stored_body (BodyText ''ok''))\<rparr>]"
  "clock sample_served = sample_clock"
  unfolding sample_served_def
  by (subst record_response_cached; simp add: should_cache_def sample_facts row_put_def sample_row_def)+

lemma sample_first_post:
  "idempotent_post sample_env (\<lambda>_. None) ''checkout'' [Some ''k1'', None] None sample_view
     (world_of sample_db) = (Inr (200, BodyText ''ok''), sample_served)"
  by (simp add: idempotent_post_def sample_facts sample_first sample_view_def sample_served_def
      del: add_idem_def)

lemma idempotent_replay_witness:
  "\<exists>a. idempotent_post sample_env (\<lambda>_. None) ''checkout'' [Some ''k1'', None] None
      (\<lambda>w. (Inl (PyError TypeError), w)) sample_served
    = (Inr (200, BodyText (stored_body (BodyText ''ok''))),
       audit_record sample_env ''idempotency.replay'' a sample_served)"
  by (rule idempotent_replay [OF _ _ sample_facts(8) _ sample_first_post])
    (simp_all add: sample_facts should_cache_def sample_served_keys seconds_def us_per_second_def)

lemma live_key_never_runs_view_witness:
  "\<exists>b. fst (idempotent_post sample_env (\<lambda>_. None) ''checkout'' [Some ''k1'', None] (Some (JInt 1))
     sample_view sample_served) = Inr (409, b)"
proof -
  have h: "request_body_hash sample_env None \<noteq> request_body_hash sample_env (Some (JInt 1))"
    by (simp add: request_body_hash_def sample_env_def json_dumps_sorted_def json_dumps_def show_int_def)
      (subst show_nat.simps, simp add: digit_of_def)
  show ?thesis
    using live_key_never_runs_view [OF sample_facts(8), of sample_served, OF _ _ prod.collapse [symmetric]]
      h
    by (force simp: idem_find_def sample_served_keys sample_row_def seconds_def us_per_second_def)
qed

lemma uncached_frees_key_witness:
  "idem_find ''k1'' (cur (snd (idempotent_post sample_env (\<lambda>_. None) ''checkout'' [Some ''k1'', None] None
     (\<lambda>w. (Inr (404, BodyNone), w)) (world_of sample_db)))) = None"
proof -
  have run: "idempotent_post sample_env (\<lambda>_. None) ''checkout'' [Some ''k1'', None] None
     (\<lambda>w. (Inr (404, BodyNone), w)) (world_of sample_db) =
     (Inr (404, BodyNone), record_response sample_row 404 BodyNone (on_db (add_idem sample_row) (world_of sample_db)))"
    by (simp add: idempotent_post_def sample_facts sample_first del: add_idem_def)
  from uncached_frees_key [OF _ _ sample_facts(8) _ run] show ?thesis
    unfolding run by (simp add: sample_facts should_cache_def keeps_idem_def)
qed

end
