(* ===== verification/Webhooks.thy ===== *)
theory Webhooks
  imports Settings Idempotency
begin

text \<open>
  Webhooks (app/webhooks): signatures, the payloads of business events, delivery to a
  subscription with its retry schedule and circuit breaker, the publisher, and the store of
  inbound events with its background processing. An HTTP peer is \<open>webhook_peer\<close>, asked with the
  calls made so far. Main facts: a subscription is disabled at its fifth failure in a row and
  is never called again; a published event reaches only active subscriptions of the same
  organization that asked for it, signed with their own secret; an inbound event is stored once.
\<close>

subsection \<open>Signatures\<close>

definition hmac_sha256_hex_digest :: "env \<Rightarrow> string \<Rightarrow> string \<Rightarrow> string" where
  "hmac_sha256_hex_digest en secret body = hmac256 en secret body"

text \<open>The first part that starts with v1=, when the header is a list with such a part.\<close>

fun v1_part :: "string list \<Rightarrow> string \<Rightarrow> string" where
  "v1_part [] candidate = candidate"
| "v1_part (p # ps) candidate =
     (let q = strip p in if starts_with ''v1='' q then strip (drop 3 q) else v1_part ps candidate)"

definition signature_candidate :: "string \<Rightarrow> string" where
  "signature_candidate header =
     (let c = strip header in
      if contains '','' c \<and> contains ''v1='' c then v1_part (split_on (CHR '','') c) c else c)"

definition verify_hmac_sha256_hex :: "env \<Rightarrow> string \<Rightarrow> string \<Rightarrow> string \<Rightarrow> bool" where
  "verify_hmac_sha256_hex en secret body header =
     (if secret = '''' \<or> header = '''' then False
      else
        let expected = hmac_sha256_hex_digest en secret body;
            candidate = signature_candidate header
        in if length candidate \<noteq> length expected then False else expected = candidate)"

definition verify_signature :: "env \<Rightarrow> string \<Rightarrow> string \<Rightarrow> string \<Rightarrow> string \<Rightarrow> bool" where
  "verify_signature en provider body header secret =
     (if provider \<in> {''pindora_lock'', ''vismapay'', ''stripe''}
      then verify_hmac_sha256_hex en secret body header else False)"

definition decrypt_if_encrypted :: "env \<Rightarrow> string \<Rightarrow> string" where
  "decrypt_if_encrypted en stored =
     (let s = strip stored in
      if starts_with ''gAAAAA'' s then or_empty (decrypt en s) else s)"

definition inbound_setting_key :: "string \<Rightarrow> string option" where
  "inbound_setting_key provider =
     (if provider = ''stripe'' then Some ''webhooks.stripe.secret''
      else if provider = ''paytrail'' then Some ''webhooks.paytrail.secret''
      else if provider = ''vismapay'' then Some ''webhooks.vismapay.secret''
      else if provider = ''pindora_lock'' then Some ''webhooks.pindora_lock.secret''
      else None)"

definition get_inbound_webhook_secret :: "env \<Rightarrow> string \<Rightarrow> world \<Rightarrow> (exn + string) \<times> world" where
  "get_inbound_webhook_secret en provider w =
     (let configured = strip (inbound_secret_config en) in
      if provider = ''pindora_lock'' \<and> configured \<noteq> '''' then (Inr configured, w)
      else case inbound_setting_key provider of
        None \<Rightarrow> (Inr '''', w)
      | Some k \<Rightarrow>
          (case settings_get en k (VStr '''') w of
             (Inl e, w1) \<Rightarrow> (Inl e, w1)
           | (Inr (VStr raw), w1) \<Rightarrow>
               (Inr (if strip raw \<noteq> '''' then decrypt_if_encrypted en raw else ''''), w1)
           | (Inr v, w1) \<Rightarrow> (Inr '''', w1)))"

definition persist_inbound_webhook_secret ::
  "env \<Rightarrow> string \<Rightarrow> string \<Rightarrow> int option \<Rightarrow> world \<Rightarrow> (exn + unit) \<times> world" where
  "persist_inbound_webhook_secret en provider plaintext actor w =
     (case inbound_setting_key provider of
        None \<Rightarrow> (Inl (PyError ValueError), w)
      | Some k \<Rightarrow>
          (case settings_set_value en k (VStr (encrypt en plaintext)) (Some ''string'')
                  (Some (''Inbound webhook signing secret for '' @ provider)) (Some True) actor w of
             (Inl e, w1) \<Rightarrow> (Inl e, w1)
           | (Inr r, w1) \<Rightarrow> (Inr (), w1)))"

definition provider_is_known :: "string \<Rightarrow> bool" where
  "provider_is_known p \<longleftrightarrow> p \<in> {''stripe'', ''paytrail'', ''vismapay'', ''pindora_lock''}"

subsection \<open>Payloads\<close>

definition supported_webhook_events :: "string list" where
  "supported_webhook_events = [''reservation.created'', ''reservation.cancelled'',
     ''reservation.updated'', ''invoice.created'', ''invoice.paid'', ''invoice.refunded'',
     ''guest.checked_in'', ''guest.checked_out'', ''maintenance.requested'']"

definition base_payload :: "string \<Rightarrow> int \<Rightarrow> (string \<times> json) list \<Rightarrow> world \<Rightarrow> json" where
  "base_payload event org data w =
     JObj [(''event'', JStr event), (''occurred_at'', JStr (stamp_iso (clock w))),
           (''organization_id'', JInt org), (''data'', JObj data)]"

text \<open>\<open>org\<close> is \<open>reservation.unit.property.organization_id\<close>.\<close>

definition build_reservation_created_payload :: "int \<Rightarrow> reservation \<Rightarrow> world \<Rightarrow> json" where
  "build_reservation_created_payload org r w =
     base_payload ''reservation.created'' org
       [(''reservation_id'', JInt (res_id r)), (''unit_id'', JInt (res_unit r)),
        (''start_date'', JStr (isoformat (res_start r))), (''end_date'', JStr (isoformat (res_end r))),
        (''status'', JStr (res_status r)), (''guest_id'', jint (res_guest r))] w"

definition build_reservation_cancelled_payload :: "int \<Rightarrow> reservation \<Rightarrow> world \<Rightarrow> json" where
  "build_reservation_cancelled_payload org r w =
     base_payload ''reservation.cancelled'' org
       [(''reservation_id'', JInt (res_id r)), (''unit_id'', JInt (res_unit r)),
        (''status'', JStr (res_status r)), (''guest_id'', jint (res_guest r)),
        (''payment_status'', JStr (res_payment_status r))] w"

definition build_reservation_updated_payload :: "int \<Rightarrow> reservation \<Rightarrow> world \<Rightarrow> json" where
  "build_reservation_updated_payload org r w =
     base_payload ''reservation.updated'' org
       [(''reservation_id'', JInt (res_id r)), (''unit_id'', JInt (res_unit r)),
        (''start_date'', JStr (isoformat (res_start r))), (''end_date'', JStr (isoformat (res_end r))),
        (''status'', JStr (res_status r)), (''guest_id'', jint (res_guest r))] w"

definition build_invoice_created_payload :: "invoice \<Rightarrow> world \<Rightarrow> json" where
  "build_invoice_created_payload i w =
     base_payload ''invoice.created'' (inv_org i)
       [(''invoice_id'', JInt (inv_id i)), (''invoice_number'', jstr (inv_number i)),
        (''guest_id'', jint (inv_guest i)), (''reservation_id'', jint (inv_reservation i)),
        (''lease_id'', jint (inv_lease i)), (''amount'', JStr (money_str (inv_total i))),
        (''currency'', JStr (inv_currency i)), (''status'', JStr (inv_status i)),
        (''due_date'', JStr (isoformat (inv_due i)))] w"

definition build_invoice_paid_payload :: "invoice \<Rightarrow> world \<Rightarrow> json" where
  "build_invoice_paid_payload i w =
     base_payload ''invoice.paid'' (inv_org i)
       [(''invoice_id'', JInt (inv_id i)), (''invoice_number'', jstr (inv_number i)),
        (''status'', JStr (inv_status i)), (''paid_at'', jstamp (inv_paid_at i))] w"

definition build_invoice_refunded_payload :: "invoice \<Rightarrow> world \<Rightarrow> json" where
  "build_invoice_refunded_payload i w =
     base_payload ''invoice.refunded'' (inv_org i)
       [(''invoice_id'', JInt (inv_id i)), (''invoice_number'', jstr (inv_number i)),
        (''status'', JStr (inv_status i))] w"

definition build_guest_checked_in_payload :: "int \<Rightarrow> guest_checkin \<Rightarrow> reservation \<Rightarrow> world \<Rightarrow> json" where
  "build_guest_checked_in_payload org c r w =
     base_payload ''guest.checked_in'' org
       [(''reservation_id'', JInt (res_id r)), (''check_in_id'', JInt (gc_id c)),
        (''guest_id'', jint (res_guest r)), (''checked_in_at'', JStr (stamp_iso (gc_checked_in_at c)))] w"

definition build_maintenance_requested_payload :: "maintenance_request \<Rightarrow> world \<Rightarrow> json" where
  "build_maintenance_requested_payload m w =
     base_payload ''maintenance.requested'' (mr_org m)
       [(''request_id'', JInt (mr_id m)), (''property_id'', JInt (mr_property m)),
        (''unit_id'', jint (mr_unit m)), (''reservation_id'', jint (mr_reservation m)),
        (''guest_id'', jint (mr_guest m)), (''status'', JStr (mr_status m)),
        (''priority'', JStr (mr_priority m))] w"

subsection \<open>One delivery\<close>

definition backoff_seconds :: "int list" where
  "backoff_seconds = [60, 300, 1800, 7200, 43200]"

definition truncate_text :: "nat \<Rightarrow> string option \<Rightarrow> string option" where
  "truncate_text n s = map_option (take n) s"

definition send_http ::
  "env \<Rightarrow> string \<Rightarrow> string \<Rightarrow> string \<Rightarrow> world \<Rightarrow> (int option \<times> string option) \<times> world" where
  "send_http en url body sig w =
     (let w1 = call_out (WebhookPost url body sig) w in
      case webhook_peer en (out w) url of
        Inr (status, text) \<Rightarrow> ((Some status, Some (take 8192 text)), w1)
      | Inl err \<Rightarrow> ((None, Some (take 8192 err)), w1))"

definition is_2xx :: "int option \<Rightarrow> bool" where
  "is_2xx st = (case st of None \<Rightarrow> False | Some c \<Rightarrow> 200 \<le> c \<and> c < 300)"

text \<open>What an attempt does to the subscription, and whether it trips the breaker.\<close>

definition sub_after :: "int option \<Rightarrow> stamp \<Rightarrow> webhook_sub \<Rightarrow> webhook_sub" where
  "sub_after st now s =
     (if is_2xx st
      then s\<lparr>ws_last_delivery_at := Some now, ws_last_status := st, ws_failures := 0,
             ws_updated_at := now\<rparr>
      else s\<lparr>ws_last_status := st, ws_failures := ws_failures s + 1,
             ws_active := (if 5 \<le> ws_failures s + 1 then False else ws_active s),
             ws_updated_at := now\<rparr>)"

definition trips :: "int option \<Rightarrow> webhook_sub \<Rightarrow> bool" where
  "trips st s \<longleftrightarrow> \<not> is_2xx st \<and> 5 \<le> ws_failures s + 1"

definition delivery_after ::
  "int option \<Rightarrow> string option \<Rightarrow> stamp \<Rightarrow> int \<Rightarrow> bool \<Rightarrow> webhook_delivery \<Rightarrow> webhook_delivery" where
  "delivery_after st body now wait tripped d =
     (if is_2xx st
      then d\<lparr>wd_status := st, wd_body := body, wd_delivered_at := Some now, wd_next_retry_at := None\<rparr>
      else d\<lparr>wd_status := st, wd_body := body,
             wd_next_retry_at := (if tripped then None else Some (now + seconds wait))\<rparr>)"

definition disabled_audit :: "webhook_sub \<Rightarrow> audit_args" where
  "disabled_audit s = audit_defaults\<lparr>aa_status := Some ''failure'', aa_org := Some (ws_org s),
     aa_target_type := Some ''webhook_subscription'', aa_target_id := Some (ws_id s),
     aa_metadata := Some [(''reason'', JStr ''max_failures'')]\<rparr>"

definition dispatched_audit :: "bool \<Rightarrow> webhook_sub \<Rightarrow> webhook_delivery \<Rightarrow> audit_args" where
  "dispatched_audit ok s d =
     audit_defaults\<lparr>aa_status := Some (if ok then ''success'' else ''failure''),
       aa_org := Some (ws_org s), aa_target_type := Some ''webhook_delivery'',
       aa_target_id := Some (wd_id d),
       aa_metadata := Some [(''event_type'', JStr (wd_event d)), (''subscription_id'', JInt (ws_id s)),
                            (''http_status'', jint (wd_status d))]\<rparr>"

text \<open>The writes after an attempt, up to the commit.\<close>

definition store_attempt ::
  "env \<Rightarrow> int option \<Rightarrow> string option \<Rightarrow> int \<Rightarrow> webhook_sub \<Rightarrow> webhook_delivery \<Rightarrow> world \<Rightarrow> world" where
  "store_attempt en st body wait sub d w =
     (let now = clock w;
          w1 = on_db (\<lambda>x. put_webhook_sub (sub_after st now sub)
                 (put_delivery (delivery_after st body now wait (trips st sub) d) x)) w;
          w2 = (if trips st sub
                then audit_record en ''webhook.subscription_disabled'' (disabled_audit sub) w1 else w1)
      in commit w2)"

definition new_delivery :: "env \<Rightarrow> webhook_sub \<Rightarrow> string \<Rightarrow> json \<Rightarrow> string \<Rightarrow> world \<Rightarrow> webhook_delivery" where
  "new_delivery en sub event payload sig w =
     \<lparr>wd_id = next_key T_deliveries (cur w), wd_sub = ws_id sub, wd_event = event,
      wd_payload = payload, wd_payload_hash = sha256 en (json_dumps_sorted payload),
      wd_signature = take 256 sig, wd_status = None, wd_body = None, wd_attempt = 1,
      wd_delivered_at = None, wd_next_retry_at = None, wd_created_at = clock w\<rparr>"

definition dispatch ::
  "env \<Rightarrow> int \<Rightarrow> string \<Rightarrow> json \<Rightarrow> world \<Rightarrow> (exn + webhook_delivery) \<times> world" where
  "dispatch en sid event payload w =
     (case row_get ws_id sid (webhook_subs (cur w)) of
        None \<Rightarrow> (Inl (PyError ValueError), w)
      | Some sub \<Rightarrow>
        if \<not> ws_active sub then (Inl (PyError ValueError), w)
        else if event \<notin> set (ws_events sub) then (Inl (PyError ValueError), w)
        else case decrypt en (ws_secret_encrypted sub) of
          None \<Rightarrow> (Inl (PyError RuntimeError), w)
        | Some secret \<Rightarrow>
            let body = json_dumps_sorted payload;
                sig = hmac_sha256_hex_digest en secret body;
                d = new_delivery en sub event payload sig w;
                w1 = on_db (add_delivery d) w;
                ((st, text), w2) = send_http en (ws_url sub) body sig w1;
                w3 = store_attempt en st text (hd backoff_seconds) sub d w2;
                d1 = delivery_after st text (clock w2) (hd backoff_seconds) (trips st sub) d
            in (Inr d1, audit_record en ''webhook.dispatched'' (dispatched_audit (is_2xx st) sub d1) w3))"

subsection \<open>Retries\<close>

definition due_deliveries :: "world \<Rightarrow> webhook_delivery list" where
  "due_deliveries w =
     take 200 (order2 (\<lambda>d. case wd_next_retry_at d of None \<Rightarrow> 0 | Some t \<Rightarrow> t) wd_id
       (filter (\<lambda>d. wd_delivered_at d = None \<and>
          (case wd_next_retry_at d of None \<Rightarrow> False | Some t \<Rightarrow> t \<le> clock w))
          (webhook_deliveries (cur w))))"

definition retry_wait :: "int \<Rightarrow> int" where
  "retry_wait attempt = backoff_seconds ! nat (min (attempt - 1) 4)"

text \<open>One delivery of the batch; the flag says whether it was processed.\<close>

definition retry_one :: "env \<Rightarrow> webhook_delivery \<Rightarrow> world \<Rightarrow> (exn + bool) \<times> world" where
  "retry_one en d w =
     (case row_get ws_id (wd_sub d) (webhook_subs (cur w)) of
        None \<Rightarrow> (Inr False, commit (on_db (put_delivery (d\<lparr>wd_next_retry_at := None\<rparr>)) w))
      | Some sub \<Rightarrow>
        if \<not> ws_active sub
        then (Inr False, commit (on_db (put_delivery (d\<lparr>wd_next_retry_at := None\<rparr>)) w))
        else case decrypt en (ws_secret_encrypted sub) of
          None \<Rightarrow> (Inl (PyError RuntimeError), w)
        | Some secret \<Rightarrow>
            let body = json_dumps_sorted (case wd_payload d of JObj kvs \<Rightarrow> JObj kvs | _ \<Rightarrow> JObj []);
                sig = hmac_sha256_hex_digest en secret body;
                d1 = d\<lparr>wd_attempt := wd_attempt d + 1\<rparr>;
                ((st, text), w2) = send_http en (ws_url sub) body sig w
            in (Inr True, store_attempt en st text (retry_wait (wd_attempt d1)) sub d1 w2))"

fun retry_loop :: "env \<Rightarrow> webhook_delivery list \<Rightarrow> int \<Rightarrow> world \<Rightarrow> (exn + int) \<times> world" where
  "retry_loop en [] n w = (Inr n, w)"
| "retry_loop en (d # ds) n w =
     (case retry_one en d w of
        (Inl e, w1) \<Rightarrow> (Inl e, w1)
      | (Inr p, w1) \<Rightarrow> retry_loop en ds (if p then n + 1 else n) w1)"

definition retry_pending_deliveries :: "env \<Rightarrow> world \<Rightarrow> (exn + int) \<times> world" where
  "retry_pending_deliveries en w = retry_loop en (due_deliveries w) 0 w"

subsection \<open>Subscriptions\<close>

text \<open>\<open>raw\<close> is the secret drawn by \<open>secrets.token_urlsafe\<close>.\<close>

definition create_outbound_subscription ::
  "env \<Rightarrow> int \<Rightarrow> string \<Rightarrow> string list \<Rightarrow> int option \<Rightarrow> string \<Rightarrow> world \<Rightarrow> (webhook_sub \<times> string) \<times> world" where
  "create_outbound_subscription en org url events created_by raw w =
     (let s = \<lparr>ws_id = next_key T_webhook_subs (cur w), ws_org = org, ws_url = take 512 (strip url),
            ws_secret_hash = sha256 en raw, ws_secret_encrypted = encrypt en raw,
            ws_events = events, ws_active = True, ws_last_delivery_at = None,
            ws_last_status = None, ws_failures = 0, ws_created_by = created_by,
            ws_created_at = clock w, ws_updated_at = clock w\<rparr>
      in ((s, raw), commit (on_db (add_webhook_sub s) w)))"

definition deactivate_outbound_subscription :: "int \<Rightarrow> int \<Rightarrow> world \<Rightarrow> bool \<times> world" where
  "deactivate_outbound_subscription sid org w =
     (case List.find (\<lambda>s. ws_id s = sid \<and> ws_org s = org) (webhook_subs (cur w)) of
        None \<Rightarrow> (False, w)
      | Some s \<Rightarrow> (True, commit (on_db
           (put_webhook_sub (s\<lparr>ws_active := False, ws_updated_at := clock w\<rparr>)) w)))"

definition list_subscriptions_for_org :: "int \<Rightarrow> db \<Rightarrow> webhook_sub list" where
  "list_subscriptions_for_org org d =
     rev (sort_key ws_id (filter (\<lambda>s. ws_org s = org) (webhook_subs d)))"

definition list_recent_deliveries :: "int \<Rightarrow> nat \<Rightarrow> db \<Rightarrow> webhook_delivery list" where
  "list_recent_deliveries sid limit d =
     take limit (rev (sort_key wd_id (filter (\<lambda>x. wd_sub x = sid) (webhook_deliveries d))))"

subsection \<open>Publishing\<close>

definition matching_subscription_ids :: "int \<Rightarrow> string \<Rightarrow> db \<Rightarrow> int list" where
  "matching_subscription_ids org event d =
     map ws_id (filter (\<lambda>s. event \<in> set (ws_events s))
       (sort_key ws_id (filter (\<lambda>s. ws_org s = org \<and> ws_active s) (webhook_subs d))))"

text \<open>Exceptions of a dispatch are logged; the session is not rolled back.\<close>

definition dispatch_one :: "env \<Rightarrow> string \<Rightarrow> json \<Rightarrow> int \<Rightarrow> world \<Rightarrow> world" where
  "dispatch_one en event payload sid w = snd (dispatch en sid event payload w)"

definition published_audit :: "int \<Rightarrow> string \<Rightarrow> int \<Rightarrow> audit_args" where
  "published_audit org event n =
     audit_defaults\<lparr>aa_org := Some org, aa_target_type := Some ''webhook_event'',
       aa_metadata := Some [(''event_type'', JStr event), (''organization_id'', JInt org),
                            (''subscriber_count'', JInt n)],
       aa_commit := True\<rparr>"

definition dispatch_head :: "env \<Rightarrow> string \<Rightarrow> json \<Rightarrow> int list \<Rightarrow> world \<Rightarrow> world" where
  "dispatch_head en event payload ids w = fold (dispatch_one en event payload) ids w"

definition publish :: "env \<Rightarrow> string \<Rightarrow> int \<Rightarrow> json \<Rightarrow> world \<Rightarrow> world" where
  "publish en event org payload w =
     (let ids = matching_subscription_ids org event (cur w) in
      if ids = [] then audit_record en ''webhook.published'' (published_audit org event 0) w
      else
        let w1 = (if webhook_async en then call_out (BackgroundDispatch ids event payload) w
                  else
                    let w2 = dispatch_head en event payload (take 3 ids) w
                    in if drop 3 ids = [] then w2
                       else call_out (BackgroundDispatch (drop 3 ids) event payload) w2)
        in audit_record en ''webhook.published'' (published_audit org event (int (length ids))) w1)"

subsection \<open>Inbound events\<close>

definition event_find :: "string \<Rightarrow> string \<Rightarrow> db \<Rightarrow> webhook_event option" where
  "event_find provider ext d =
     (case sort_key we_id (filter (\<lambda>e. we_provider e = provider \<and> we_external e = Some ext)
         (webhook_events d)) of [] \<Rightarrow> None | e # _ \<Rightarrow> Some e)"

definition event_audit ::
  "string option \<Rightarrow> int option \<Rightarrow> int \<Rightarrow> (string \<times> json) list \<Rightarrow> audit_args" where
  "event_audit status org target metadata =
     audit_defaults\<lparr>aa_status := status, aa_org := org, aa_target_type := Some ''webhook_event'',
       aa_target_id := Some target, aa_metadata := Some metadata\<rparr>"

definition new_event ::
  "string \<Rightarrow> string \<Rightarrow> string option \<Rightarrow> json \<Rightarrow> string \<Rightarrow> bool \<Rightarrow> int option \<Rightarrow> world \<Rightarrow> webhook_event" where
  "new_event provider ty ext payload sig verified org w =
     \<lparr>we_id = next_key T_webhook_events (cur w), we_provider = provider, we_type = ty,
      we_external = ext, we_payload = payload, we_signature = take 256 sig, we_verified = verified,
      we_processed = False, we_attempts = 0, we_error = None, we_org = org,
      we_created_at = clock w, we_processed_at = None\<rparr>"

text \<open>\<open>rival\<close> is an event that another session commits between our lookup and our flush.\<close>

definition record_inbound_event ::
  "env \<Rightarrow> webhook_event option \<Rightarrow> string \<Rightarrow> string \<Rightarrow> string option \<Rightarrow> json \<Rightarrow> string \<Rightarrow> bool
   \<Rightarrow> int option \<Rightarrow> world \<Rightarrow> (exn + webhook_event) \<times> world" where
  "record_inbound_event en rival provider ty ext payload sig verified org w =
     (case (case text_or ext None of None \<Rightarrow> None | Some x \<Rightarrow> event_find provider x (cur w)) of
        Some old \<Rightarrow>
          (Inr old, audit_record en ''webhook.duplicate_ignored''
             (event_audit (Some ''success'') (we_org old) (we_id old)
                [(''provider'', JStr provider), (''external_id'', jstr ext)]) w)
      | None \<Rightarrow>
        (case rival of
           Some r \<Rightarrow>
             let w1 = rollback (w\<lparr>com := add_webhook_event r (com w)\<rparr>) in
             (case event_find provider (or_empty ext) (cur w1) of
                Some old \<Rightarrow> (Inr old, w1)
              | None \<Rightarrow> (Inl (PyError IntegrityError), w1))
         | None \<Rightarrow>
             let e = new_event provider ty ext payload sig verified org w in
             (Inr e, audit_record en ''webhook.received''
                (event_audit (Some ''success'') org (we_id e)
                   [(''provider'', JStr provider), (''event_type'', JStr ty)])
                (on_db (add_webhook_event e) w))))"

definition mark_processed :: "env \<Rightarrow> int \<Rightarrow> string option \<Rightarrow> world \<Rightarrow> world" where
  "mark_processed en eid err w =
     (case row_get we_id eid (webhook_events (cur w)) of
        None \<Rightarrow> w
      | Some e \<Rightarrow>
          let e1 = e\<lparr>we_processed := True, we_processed_at := Some (clock w), we_error := err\<rparr>;
              w1 = on_db (put_webhook_event e1) w
          in case err of
            None \<Rightarrow> audit_record en ''webhook.processed''
              (event_audit (Some ''success'') (we_org e) eid
                 [(''provider'', JStr (we_provider e)), (''event_type'', JStr (we_type e))]) w1
          | Some m \<Rightarrow> audit_record en ''webhook.failed''
              (event_audit (Some ''failure'') (we_org e) eid
                 [(''provider'', JStr (we_provider e)), (''event_type'', JStr (we_type e)),
                  (''error'', JStr (if take 512 m = '''' then ''error'' else take 512 m))]) w1)"

definition apply_idempotency_for_inbound ::
  "env \<Rightarrow> (nat \<Rightarrow> idem_key option) \<Rightarrow> string \<Rightarrow> string \<Rightarrow> json \<Rightarrow> int option \<Rightarrow> world
   \<Rightarrow> (exn + unit) \<times> world" where
  "apply_idempotency_for_inbound en rivals provider ext payload org w =
     (case get_or_create en rivals (''webhook:'' @ provider @ '':'' @ ext)
             (''POST /api/v1/webhooks/'' @ provider) (sha256 en (json_dumps_sorted payload)) org w of
        (Inl e, w1) \<Rightarrow> (Inl e, w1)
      | (Inr r, w1) \<Rightarrow> (Inr (), w1))"

text \<open>\<open>payload.get(k)\<close>: a missing key is \<open>None\<close>.\<close>

definition pget :: "json \<Rightarrow> string \<Rightarrow> json" where
  "pget payload k = (case obj_get k payload of None \<Rightarrow> JNull | Some v \<Rightarrow> v)"

definition json_or :: "json \<Rightarrow> json \<Rightarrow> json" where
  "json_or a b = (if json_truthy a then a else b)"

definition ext_text :: "json \<Rightarrow> string option" where
  "ext_text j = (if j = JNull then None else Some (json_str j))"

fun org_from_keys :: "json list \<Rightarrow> int option" where
  "org_from_keys [] = None"
| "org_from_keys (raw # rest) =
     (if raw \<noteq> JNull \<and> strip (json_str raw) \<noteq> ''''
      then (case json_int raw of Inl _ \<Rightarrow> None | Inr i \<Rightarrow> Some i)
      else org_from_keys rest)"

definition extract_event_metadata :: "string \<Rightarrow> json \<Rightarrow> string \<times> string option \<times> int option" where
  "extract_event_metadata provider payload =
     (let org = org_from_keys [pget payload ''organization_id'', pget payload ''org_id''] in
      if provider = ''stripe'' then
        (json_str (json_or (pget payload ''type'') (JStr ''stripe.event'')),
         ext_text (pget payload ''id''), org)
      else if provider = ''vismapay'' then
        (json_str (json_or (json_or (pget payload ''type'') (pget payload ''event_type''))
           (JStr ''vismapay.event'')),
         ext_text (json_or (pget payload ''id'') (pget payload ''order_number'')), org)
      else
        (json_str (json_or (json_or (pget payload ''event'') (pget payload ''type''))
           (JStr ''pindora_lock.event'')),
         ext_text (json_or (pget payload ''id'') (pget payload ''event_id'')), org))"

definition mark_inbound_handler_dead_letter ::
  "env \<Rightarrow> webhook_event \<Rightarrow> string option \<Rightarrow> world \<Rightarrow> world" where
  "mark_inbound_handler_dead_letter en e err w =
     (let text = (case text_or (truncate_text 512 err) None of None \<Rightarrow> ''handler_dead_letter''
                  | Some t \<Rightarrow> t);
          e1 = e\<lparr>we_processed := True, we_processed_at := Some (clock w), we_error := Some text\<rparr>
      in audit_record en ''webhook.handler_dead_letter''
           (event_audit (Some ''failure'') (we_org e) (we_id e)
              [(''provider'', JStr (we_provider e)), (''event_type'', JStr (we_type e)),
               (''attempts'', JInt (we_attempts e))])
           (on_db (put_webhook_event e1) w))"

text \<open>A handler returns or raises with a text. The handlers of the repository do nothing.\<close>

definition dispatch_handler :: "webhook_event \<Rightarrow> string + unit" where
  "dispatch_handler e = Inr ()"

definition process_inbound_one ::
  "env \<Rightarrow> (webhook_event \<Rightarrow> string + unit) \<Rightarrow> webhook_event \<Rightarrow> world \<Rightarrow> world" where
  "process_inbound_one en handler e w =
     commit
      (if 5 \<le> we_attempts e then mark_inbound_handler_dead_letter en e (we_error e) w
       else case handler e of
         Inr _ \<Rightarrow> mark_processed en (we_id e) None w
       | Inl err \<Rightarrow>
           let e1 = e\<lparr>we_attempts := we_attempts e + 1, we_error := Some (take 512 err)\<rparr>;
               w1 = on_db (put_webhook_event e1) w
           in if 5 \<le> we_attempts e1
              then mark_inbound_handler_dead_letter en e1 (Some (take 512 err)) w1 else w1)"

definition stale_events :: "int \<Rightarrow> nat \<Rightarrow> world \<Rightarrow> webhook_event list" where
  "stale_events min_age batch w =
     take batch (sort_key we_id (filter (\<lambda>e. \<not> we_processed e
       \<and> we_created_at e \<le> clock w - seconds (max 5 min_age)) (webhook_events (cur w))))"

definition process_stale_inbound_webhook_events ::
  "env \<Rightarrow> (webhook_event \<Rightarrow> string + unit) \<Rightarrow> int \<Rightarrow> nat \<Rightarrow> world \<Rightarrow> int \<times> world" where
  "process_stale_inbound_webhook_events en handler min_age batch w =
     (let es = stale_events min_age batch w
      in (int (length es), fold (process_inbound_one en handler) es w))"

subsection \<open>Signatures are accepted exactly when they match\<close>

lemma verify_signature_iff:
  "verify_signature en provider body header secret \<longleftrightarrow>
     provider \<in> {''pindora_lock'', ''vismapay'', ''stripe''} \<and> secret \<noteq> '''' \<and> header \<noteq> '''' \<and>
     signature_candidate header = hmac256 en secret body"
  by (auto simp: verify_signature_def verify_hmac_sha256_hex_def hmac_sha256_hex_digest_def Let_def)

lemma starts_with_append: "starts_with p (p @ s)"
  by (simp add: starts_with_def)

lemma contains_single: "contains [c] s \<longleftrightarrow> c \<in> set s"
  by (induction s) (auto simp: starts_with_def)

lemma contains_prefix: "contains p (p @ b)"
  by (cases "p @ b") (simp, metis contains.simps(2) starts_with_append)

lemma contains_mid: "contains p (a @ p @ b)"
  by (induction a) (simp_all add: contains_prefix)

lemma split_on_append: "c \<notin> set a \<Longrightarrow> split_on c (a @ c # b) = a # split_on c b"
  by (induction a) auto

definition digest_like :: "string \<Rightarrow> bool" where
  "digest_like m \<longleftrightarrow> m \<noteq> '''' \<and> list_all (\<lambda>c. \<not> is_blank c \<and> c \<noteq> CHR '','') m"

lemma digest_like_D:
  assumes "digest_like m"
  shows "\<not> is_blank (hd m)" "\<not> is_blank (last m)" "CHR '','' \<notin> set m" "strip m = m"
proof -
  show nb: "\<not> is_blank (hd m)" "\<not> is_blank (last m)" and "CHR '','' \<notin> set m"
    using assms by (auto simp: digest_like_def list_all_iff)
  show "strip m = m" by (rule strip_id) (simp add: nb)
qed

lemma candidate_bare: "digest_like m \<Longrightarrow> signature_candidate m = m"
  using digest_like_D [of m] by (simp add: signature_candidate_def contains_single Let_def)

text \<open>A header carries a digest when it is the digest, or a list in which the first part that starts with
  v1= goes on with it.\<close>

definition carries :: "string \<Rightarrow> string \<Rightarrow> bool" where
  "carries header m \<longleftrightarrow> strip header = m
     \<or> (\<exists>ps p qs. split_on (CHR '','') (strip header) = ps @ p # qs \<and> (ps \<noteq> [] \<or> qs \<noteq> [])
         \<and> starts_with ''v1='' (strip p) \<and> strip (drop 3 (strip p)) = m \<and> (\<forall>q\<in>set ps. \<not> starts_with ''v1='' (strip q)))"

lemma v1_part_found:
  "starts_with ''v1='' (strip p) \<Longrightarrow> \<forall>q\<in>set ps. \<not> starts_with ''v1='' (strip q) \<Longrightarrow>
     v1_part (ps @ p # qs) c = strip (drop 3 (strip p))"
  by (induction ps) (simp_all add: Let_def)

lemma v1_part_none: "\<forall>q\<in>set ps. \<not> starts_with ''v1='' (strip q) \<Longrightarrow> v1_part ps c = c"
  by (induction ps) (simp_all add: Let_def)

lemma split_on_parts:
  "\<exists>w ws b. split_on c s = w # ws \<and> s = w @ b \<and> (\<forall>p\<in>set ws. \<exists>a b. s = a @ p @ b)"
proof (induction s)
  case (Cons x s)
  then obtain w ws b where w: "split_on c s = w # ws" "s = w @ b" "\<forall>p\<in>set ws. \<exists>a b. s = a @ p @ b" by blast
  have later: "\<exists>a b. x # s = a @ p @ b" if "p \<in> set ws" for p
    using w(3) that by (metis append_Cons)
  show ?case
  proof (cases "x = c")
    case True
    have "\<exists>a b. x # s = a @ p @ b" if "p \<in> set (w # ws)" for p
      using that later w(2) by (cases "p = w") (metis append_Cons append_Nil, simp)
    then show ?thesis using True w(1) by simp
  next
    case False
    then show ?thesis using w later by simp
  qed
qed simp

lemma split_on_listed: "c \<in> set s \<Longrightarrow> 1 < length (split_on c s)"
proof (induction s)
  case (Cons x s)
  obtain w ws where "split_on c s = w # ws" using split_on_parts by blast
  then show ?case using Cons by (cases "x = c") simp_all
qed simp

lemma split_on_part: "p \<in> set (split_on c s) \<Longrightarrow> \<exists>a b. s = a @ p @ b"
  using split_on_parts [of c s] by (elim exE conjE) (metis append_Nil set_ConsD)

lemma strip_part: "\<exists>a b. s = a @ strip s @ b"
proof -
  define t where "t = dropWhile is_blank s"
  have "s = takeWhile is_blank s @ t" by (simp add: t_def)
  moreover have "t = strip s @ rev (takeWhile is_blank (rev t))"
    unfolding strip_def t_def by (metis rev_append rev_rev_ident takeWhile_dropWhile_id)
  ultimately show ?thesis by metis
qed

lemma listed_contains:
  assumes "p \<in> set (split_on c s)" and "starts_with ''v1='' (strip p)"
  shows "contains ''v1='' s"
proof -
  obtain a b where 1: "s = a @ p @ b" using split_on_part [OF assms(1)] by blast
  obtain a' b' where 2: "p = a' @ strip p @ b'" using strip_part by blast
  obtain x where 3: "strip p = ''v1='' @ x" using assms(2) by (metis append_take_drop_id starts_with_def)
  have "s = (a @ a') @ ''v1='' @ (x @ b' @ b)" using 1 2 3 by (metis append.assoc)
  then show ?thesis using contains_mid by metis
qed

lemma candidate_iff:
  assumes "digest_like m"
  shows "signature_candidate header = m \<longleftrightarrow> carries header m"
proof -
  let ?c = "strip header" and ?ps = "split_on (CHR '','') (strip header)"
  let ?v = "\<lambda>p. starts_with ''v1='' (strip p)"
  note m = digest_like_D [OF assms]
  consider (plain) "CHR '','' \<notin> set ?c" | (none) "CHR '','' \<in> set ?c" "\<forall>p\<in>set ?ps. \<not> ?v p"
    | (listed) "CHR '','' \<in> set ?c" "\<exists>p\<in>set ?ps. ?v p" by blast
  then show ?thesis
  proof cases
    case plain
    then have "?ps = [?c]" by (rule split_on_none)
    then show ?thesis using plain by (auto simp: signature_candidate_def carries_def contains_single Let_def Cons_eq_append_conv)
  next
    case none
    have "signature_candidate header = ?c" using v1_part_none [OF none(2)] by (simp add: signature_candidate_def Let_def)
    moreover have "\<not> (\<exists>ps p qs. ?ps = ps @ p # qs \<and> ?v p)" using none(2) by (metis in_set_conv_decomp)
    ultimately show ?thesis by (auto simp: carries_def)
  next
    case listed
    then obtain ps p qs where p: "?ps = ps @ p # qs" "?v p" "\<forall>q\<in>set ps. \<not> ?v q"
      using split_list_first_prop [of ?ps ?v] by blast
    have "contains ''v1='' ?c" using listed_contains [of p "CHR '',''" ?c] p(1,2) by simp
    then have cand: "signature_candidate header = strip (drop 3 (strip p))"
      using listed(1) p by (simp add: signature_candidate_def Let_def contains_single v1_part_found)
    have ne: "ps \<noteq> [] \<or> qs \<noteq> []"
    proof (rule ccontr)
      assume "\<not> (ps \<noteq> [] \<or> qs \<noteq> [])"
      then have "length ?ps = 1" using p(1) by simp
      then show False using split_on_listed [OF listed(1)] by simp
    qed
    have only: "p' = p" if "?ps = ps' @ p' # qs'" "?v p'" "\<forall>q\<in>set ps'. \<not> ?v q" for ps' p' qs'
    proof -
      have "dropWhile (\<lambda>q. \<not> ?v q) (ps' @ p' # qs') = p' # qs'" "dropWhile (\<lambda>q. \<not> ?v q) (ps @ p # qs) = p # qs"
        using that(2,3) p(2,3) by (simp_all add: dropWhile_append2)
      then show ?thesis using that(1) p(1) by simp
    qed
    have "?c \<noteq> m" using listed(1) m(3) by blast
    then show ?thesis using cand p ne only unfolding carries_def by metis
  qed
qed

text \<open>C9: Signing and verifying agree exactly. For a known provider and a secret, a header is accepted just when, blanks
  around it aside, it is the hexadecimal digest of the body, or a list of parts whose first v1 part is that digest; so
  no other text passes. The form with sha256= in front of the digest, which the documentation gives, is refused. Without a
  secret or for another provider nothing is accepted.\<close>

theorem signature_sound_complete:
  assumes "digest_like (hmac256 en secret body)"
  shows "(verify_signature en provider body header secret \<longleftrightarrow>
      provider \<in> {''pindora_lock'', ''vismapay'', ''stripe''} \<and> secret \<noteq> '''' \<and> carries header (hmac256 en secret body))
    \<and> \<not> verify_signature en provider body (''sha256='' @ hmac256 en secret body) secret"
proof -
  let ?m = "hmac256 en secret body"
  note m = digest_like_D [OF assms]
  have ne: "?m \<noteq> ''''" using assms by (simp add: digest_like_def)
  have "\<not> carries '''' ?m" using ne by (auto simp: carries_def strip_def Cons_eq_append_conv)
  then have "verify_signature en provider body header secret \<longleftrightarrow>
      provider \<in> {''pindora_lock'', ''vismapay'', ''stripe''} \<and> secret \<noteq> '''' \<and> carries header ?m"
    unfolding verify_signature_iff candidate_iff [OF assms] by auto
  moreover have "signature_candidate (''sha256='' @ ?m) \<noteq> ?m"
  proof -
    have "digest_like (''sha256='' @ ?m)" using assms by (simp add: digest_like_def is_blank_def)
    from candidate_bare [OF this] show ?thesis by simp
  qed
  ultimately show ?thesis by (simp add: verify_signature_iff)
qed

subsection \<open>The circuit breaker\<close>

definition sub_ok :: "webhook_sub \<Rightarrow> bool" where
  "sub_ok s \<longleftrightarrow> 0 \<le> ws_failures s \<and> (ws_active s \<longrightarrow> ws_failures s < 5)"

definition delivery_ok :: "webhook_delivery \<Rightarrow> bool" where
  "delivery_ok d \<longleftrightarrow> 1 \<le> wd_attempt d \<and> (wd_delivered_at d \<noteq> None \<longrightarrow> wd_next_retry_at d = None)
     \<and> (wd_delivered_at d \<noteq> None \<longrightarrow> is_2xx (wd_status d))"

definition hooks_ok :: "db \<Rightarrow> bool" where
  "hooks_ok d \<longleftrightarrow> keys_ok ws_id (seqs d T_webhook_subs) (webhook_subs d)
     \<and> keys_ok wd_id (seqs d T_deliveries) (webhook_deliveries d)
     \<and> list_all sub_ok (webhook_subs d) \<and> list_all delivery_ok (webhook_deliveries d)"

lemma list_all_row_put: "list_all P rs \<Longrightarrow> P r \<Longrightarrow> list_all P (row_put key r rs)"
  by (auto simp: list_all_iff dest: set_row_put)

lemma sub_after_ok: "sub_ok s \<Longrightarrow> sub_ok (sub_after st now s)"
  by (auto simp: sub_ok_def sub_after_def)

lemma sub_after_fields [simp]:
  "ws_id (sub_after st now s) = ws_id s" "ws_org (sub_after st now s) = ws_org s"
  "ws_url (sub_after st now s) = ws_url s" "ws_events (sub_after st now s) = ws_events s"
  "ws_secret_encrypted (sub_after st now s) = ws_secret_encrypted s"
  by (simp_all add: sub_after_def)

lemma sub_after_active: "ws_active (sub_after st now s) \<Longrightarrow> ws_active s"
  by (auto simp: sub_after_def split: if_splits)

lemma delivery_after_ok:
  "1 \<le> wd_attempt d \<Longrightarrow> wd_delivered_at d = None \<Longrightarrow> delivery_ok (delivery_after st b now wt tr d)"
  by (auto simp: delivery_ok_def delivery_after_def)

lemma delivery_after_id [simp]: "wd_id (delivery_after st b now wt tr d) = wd_id d"
  by (simp add: delivery_after_def)

lemma store_attempt_simps:
  "webhook_subs (cur (store_attempt en st b wt s d w)) =
     row_put ws_id (sub_after st (clock w) s) (webhook_subs (cur w))"
  "webhook_deliveries (cur (store_attempt en st b wt s d w)) =
     row_put wd_id (delivery_after st b (clock w) wt (trips st s) d) (webhook_deliveries (cur w))"
  "seqs (cur (store_attempt en st b wt s d w)) T_webhook_subs = seqs (cur w) T_webhook_subs"
  "seqs (cur (store_attempt en st b wt s d w)) T_deliveries = seqs (cur w) T_deliveries"
  "clock (store_attempt en st b wt s d w) = clock w" "out (store_attempt en st b wt s d w) = out w"
  "com (store_attempt en st b wt s d w) = cur (store_attempt en st b wt s d w)"
  by (simp_all add: store_attempt_def Let_def)

lemma send_http_world:
  "send_http en url body sig w = (r, w') \<Longrightarrow> w' = call_out (WebhookPost url body sig) w"
  by (auto simp: send_http_def Let_def split: sum.splits)

text \<open>Every outcome of a dispatch: nothing, or one attempt on an active subscription.\<close>

lemma dispatch_cases:
  assumes "dispatch en sid event payload w = (r, w')"
  obtains e where "r = Inl e" "w' = w"
  | sub secret st bd d w2 a where "row_get ws_id sid (webhook_subs (cur w)) = Some sub" "ws_active sub"
      "event \<in> set (ws_events sub)" "decrypt en (ws_secret_encrypted sub) = Some secret"
      "d = new_delivery en sub event payload (hmac256 en secret (json_dumps_sorted payload)) w"
      "w2 = call_out (WebhookPost (ws_url sub) (json_dumps_sorted payload)
              (hmac256 en secret (json_dumps_sorted payload))) (on_db (add_delivery d) w)"
      "w' = audit_record en ''webhook.dispatched'' a (store_attempt en st bd 60 sub d w2)"
      "\<not> aa_commit a" "r = Inr (delivery_after st bd (clock w2) 60 (trips st sub) d)"
proof (cases "row_get ws_id sid (webhook_subs (cur w))")
  case None
  then show ?thesis using assms by (intro that(1)) (auto simp: dispatch_def)
next
  case (Some sub)
  note run = assms [unfolded dispatch_def Some option.case]
  show ?thesis
  proof (cases "ws_active sub \<and> event \<in> set (ws_events sub) \<and> decrypt en (ws_secret_encrypted sub) \<noteq> None")
    case False
    then have "\<exists>e. r = Inl e \<and> w' = w" using run by (auto split: if_splits)
    then show ?thesis using that(1) by blast
  next
    case True
    then obtain secret where sc: "decrypt en (ws_secret_encrypted sub) = Some secret" by auto
    let ?sig = "hmac256 en secret (json_dumps_sorted payload)"
    let ?d = "new_delivery en sub event payload ?sig w"
    obtain st bd w2 where h: "send_http en (ws_url sub) (json_dumps_sorted payload) ?sig
        (on_db (add_delivery ?d) w) = ((st, bd), w2)" by (metis prod.exhaust)
    have res: "w' = audit_record en ''webhook.dispatched''
         (dispatched_audit (is_2xx st) sub (delivery_after st bd (clock w2) 60 (trips st sub) ?d))
         (store_attempt en st bd 60 sub ?d w2)"
      "r = Inr (delivery_after st bd (clock w2) 60 (trips st sub) ?d)"
      using run True sc h
      by (simp_all add: Let_def hmac_sha256_hex_digest_def backoff_seconds_def)
    show ?thesis
      by (rule that(2) [OF Some _ _ sc refl send_http_world [OF h] res(1) _ res(2)])
        (use True in \<open>simp_all add: dispatched_audit_def\<close>)
  qed
qed

lemma new_delivery_simps [simp]:
  "wd_id (new_delivery en sub ev p sig w) = next_key T_deliveries (cur w)"
  "wd_attempt (new_delivery en sub ev p sig w) = 1"
  "wd_delivered_at (new_delivery en sub ev p sig w) = None"
  by (simp_all add: new_delivery_def)

lemma dispatch_hooks_ok:
  assumes "hooks_ok (cur w)" and "dispatch en sid event payload w = (r, w')"
  shows "hooks_ok (cur w')"
proof (rule dispatch_cases [OF assms(2)])
  fix sub secret st bd d w2 a
  assume sub: "row_get ws_id sid (webhook_subs (cur w)) = Some sub"
    and d: "d = new_delivery en sub event payload (hmac256 en secret (json_dumps_sorted payload)) w"
    and w2: "w2 = call_out (WebhookPost (ws_url sub) (json_dumps_sorted payload)
              (hmac256 en secret (json_dumps_sorted payload))) (on_db (add_delivery d) w)"
    and w': "w' = audit_record en ''webhook.dispatched'' a (store_attempt en st bd 60 sub d w2)"
  have s: "sub_ok sub" using assms(1) row_get_in [OF sub] by (auto simp: hooks_ok_def list_all_iff)
  have k: "keys_ok wd_id (seqs (add_delivery d (cur w)) T_deliveries) (webhook_deliveries (add_delivery d (cur w)))"
    by (rule delivery_tab.ok_add) (use assms(1) d in \<open>simp_all add: hooks_ok_def\<close>)
  have o: "list_all delivery_ok (row_put wd_id (delivery_after st bd (clock w) 60 (trips st sub) d)
      (webhook_deliveries (cur w) @ [d]))"
    by (rule list_all_row_put)
      (use assms(1) d delivery_after_ok [of d] in \<open>simp_all add: hooks_ok_def delivery_ok_def\<close>)
  show ?thesis
    using assms(1) s k o
    by (simp add: hooks_ok_def w' w2 store_attempt_simps list_all_row_put sub_after_ok del: list_all_append)
qed (use assms(1) in simp)

lemma retry_one_cases:
  assumes "retry_one en d w = (r, w')"
  obtains e where "r = Inl e" "w' = w"
  | "r = Inr False" "w' = commit (on_db (put_delivery (d\<lparr>wd_next_retry_at := None\<rparr>)) w)"
      "\<forall>sub. row_get ws_id (wd_sub d) (webhook_subs (cur w)) = Some sub \<longrightarrow> \<not> ws_active sub"
  | sub secret body st bd w2 where "row_get ws_id (wd_sub d) (webhook_subs (cur w)) = Some sub"
      "ws_active sub" "decrypt en (ws_secret_encrypted sub) = Some secret"
      "w2 = call_out (WebhookPost (ws_url sub) body (hmac256 en secret body)) w"
      "w' = store_attempt en st bd (retry_wait (wd_attempt d + 1)) sub (d\<lparr>wd_attempt := wd_attempt d + 1\<rparr>) w2"
      "r = Inr True"
proof (cases "row_get ws_id (wd_sub d) (webhook_subs (cur w))")
  case None
  then show ?thesis using assms by (intro that(2)) (auto simp: retry_one_def)
next
  case (Some sub)
  note run = assms [unfolded retry_one_def Some option.case]
  show ?thesis
  proof (cases "ws_active sub")
    case False
    then show ?thesis using run Some by (intro that(2)) auto
  next
    case act: True
    show ?thesis
    proof (cases "decrypt en (ws_secret_encrypted sub)")
      case None
      then show ?thesis using run act by (intro that(1)) auto
    next
      case sc: (Some secret)
      define body where "body = json_dumps_sorted (case wd_payload d of JObj kvs \<Rightarrow> JObj kvs | _ \<Rightarrow> JObj [])"
      obtain st bd w2 where h: "send_http en (ws_url sub) body (hmac256 en secret body) w = ((st, bd), w2)"
        by (metis prod.exhaust)
      have "r = Inr True"
        "w' = store_attempt en st bd (retry_wait (wd_attempt d + 1)) sub (d\<lparr>wd_attempt := wd_attempt d + 1\<rparr>) w2"
        using run act sc h by (simp_all add: Let_def hmac_sha256_hex_digest_def body_def)
      then show ?thesis using send_http_world [OF h] by (intro that(3) [OF Some act sc])
    qed
  qed
qed

lemma retry_one_hooks_ok:
  assumes "hooks_ok (cur w)" and "retry_one en d w = (r, w')" and "1 \<le> wd_attempt d"
    and "wd_delivered_at d = None"
  shows "hooks_ok (cur w')"
proof (rule retry_one_cases [OF assms(2)])
  assume w': "w' = commit (on_db (put_delivery (d\<lparr>wd_next_retry_at := None\<rparr>)) w)"
  show ?thesis
    using assms(1,3,4) by (simp add: w' hooks_ok_def list_all_row_put delivery_ok_def)
next
  fix sub secret body st bd w2
  assume sub: "row_get ws_id (wd_sub d) (webhook_subs (cur w)) = Some sub"
    and w2: "w2 = call_out (WebhookPost (ws_url sub) body (hmac256 en secret body)) w"
    and w': "w' = store_attempt en st bd (retry_wait (wd_attempt d + 1)) sub (d\<lparr>wd_attempt := wd_attempt d + 1\<rparr>) w2"
  have s: "sub_ok sub" using assms(1) row_get_in [OF sub] by (auto simp: hooks_ok_def list_all_iff)
  then show ?thesis
    using assms(1,3,4)
    by (simp add: hooks_ok_def w' w2 store_attempt_simps list_all_row_put sub_after_ok delivery_after_ok)
qed (use assms(1) in simp)

lemma retry_one_other:
  assumes "retry_one en d w = (r, w')"
  shows "set (map wd_id (webhook_deliveries (cur w'))) = set (map wd_id (webhook_deliveries (cur w)))"
    and "clock w' = clock w"
  by (rule retry_one_cases [OF assms]; simp only: on_db_simps commit_simps call_out_simps
      put_delivery_def store_attempt_simps db.select_convs db.update_convs row_put_keys; simp)+

lemma retry_loop_hooks_ok:
  assumes "hooks_ok (cur w)" and "\<forall>d\<in>set ds. 1 \<le> wd_attempt d \<and> wd_delivered_at d = None"
    and "retry_loop en ds n w = (r, w')"
  shows "hooks_ok (cur w')"
  using assms
proof (induction ds arbitrary: n w)
  case Nil
  then show ?case by simp
next
  case (Cons d ds)
  obtain r1 w1 where o: "retry_one en d w = (r1, w1)" by fastforce
  have "hooks_ok (cur w1)" by (rule retry_one_hooks_ok [OF Cons.prems(1) o]) (use Cons.prems(2) in auto)
  then show ?case using Cons.IH Cons.prems(2,3) o by (cases r1) auto
qed

lemma due_deliveries_pending:
  assumes "hooks_ok (cur w)" and "d \<in> set (due_deliveries w)"
  shows "1 \<le> wd_attempt d \<and> wd_delivered_at d = None"
  using assms by (auto simp: due_deliveries_def hooks_ok_def list_all_iff delivery_ok_def
      dest!: in_set_takeD)

lemma dispatch_one_hooks_ok: "hooks_ok (cur w) \<Longrightarrow> hooks_ok (cur (dispatch_one en ev p sid w))"
  unfolding dispatch_one_def by (rule dispatch_hooks_ok [OF _ prod.collapse [symmetric]])

lemma dispatch_head_hooks_ok: "hooks_ok (cur w) \<Longrightarrow> hooks_ok (cur (dispatch_head en ev p ids w))"
  unfolding dispatch_head_def by (induction ids arbitrary: w) (auto simp: dispatch_one_hooks_ok)

lemma hooks_ok_audit [simp]:
  "hooks_ok (d\<lparr>audit_logs := l, seqs := (seqs d)(T_audit := k)\<rparr>) = hooks_ok d"
  by (simp add: hooks_ok_def)

lemma publish_hooks_ok: "hooks_ok (cur w) \<Longrightarrow> hooks_ok (cur (publish en ev org p w))"
  using dispatch_head_hooks_ok [of w en ev p] by (simp add: publish_def Let_def)

definition hooks_inv :: "world \<Rightarrow> bool" where
  "hooks_inv w \<longleftrightarrow> hooks_ok (cur w) \<and> hooks_ok (com w)"

lemma dispatch_inv:
  assumes "hooks_inv w" and "dispatch en sid ev p w = (r, w')"
  shows "hooks_inv w'"
proof -
  have "hooks_ok (cur w')" by (rule dispatch_hooks_ok [OF _ assms(2)]) (use assms(1) in \<open>simp add: hooks_inv_def\<close>)
  moreover have "hooks_ok (com w')"
    by (rule dispatch_cases [OF assms(2)])
      (use assms(1) calculation in \<open>simp_all add: hooks_inv_def store_attempt_simps\<close>)
  ultimately show ?thesis by (simp add: hooks_inv_def)
qed

lemma retry_one_com: "retry_one en d w = (r, w') \<Longrightarrow> com w' = com w \<or> com w' = cur w'"
  by (erule retry_one_cases) (simp_all add: store_attempt_simps)

lemma retry_loop_inv:
  assumes "hooks_inv w" and "\<forall>d\<in>set ds. 1 \<le> wd_attempt d \<and> wd_delivered_at d = None"
    and "retry_loop en ds n w = (r, w')"
  shows "hooks_inv w'"
  using assms
proof (induction ds arbitrary: n w)
  case Nil
  then show ?case by simp
next
  case (Cons d ds)
  obtain r1 w1 where o: "retry_one en d w = (r1, w1)" by fastforce
  have "hooks_ok (cur w1)"
    by (rule retry_one_hooks_ok [OF _ o]) (use Cons.prems(1,2) in \<open>auto simp: hooks_inv_def\<close>)
  then have "hooks_inv w1" using retry_one_com [OF o] Cons.prems(1) by (auto simp: hooks_inv_def)
  then show ?case using Cons.IH Cons.prems(2,3) o by (cases r1) auto
qed

lemma dispatch_one_inv: "hooks_inv w \<Longrightarrow> hooks_inv (dispatch_one en ev p sid w)"
  unfolding dispatch_one_def by (rule dispatch_inv [OF _ prod.collapse [symmetric]])

lemma dispatch_head_inv: "hooks_inv w \<Longrightarrow> hooks_inv (dispatch_head en ev p ids w)"
  unfolding dispatch_head_def by (induction ids arbitrary: w) (auto simp: dispatch_one_inv)

lemma publish_inv: "hooks_inv w \<Longrightarrow> hooks_inv (publish en ev org p w)"
  using dispatch_head_inv [of w en ev p]
  by (simp add: publish_def Let_def hooks_inv_def published_audit_def)

lemma create_subscription_inv:
  assumes "hooks_inv w" and "create_outbound_subscription en org url evs by raw w = (r, w')"
  shows "hooks_inv w'"
proof -
  have "keys_ok ws_id (ws_id s) (webhook_subs (cur w) @ [s])"
    if "ws_id s = next_key T_webhook_subs (cur w)" for s
    using webhook_sub_tab.ok_add [of "cur w" s] that assms(1) by (simp add: hooks_inv_def hooks_ok_def)
  then show ?thesis
    using assms by (auto simp: create_outbound_subscription_def Let_def hooks_inv_def hooks_ok_def sub_ok_def)
qed

lemma deactivate_inv:
  assumes "hooks_inv w" and "deactivate_outbound_subscription sid org w = (r, w')"
  shows "hooks_inv w'"
  using assms
  by (auto simp: deactivate_outbound_subscription_def hooks_inv_def hooks_ok_def sub_ok_def list_all_iff
      split: option.splits dest!: set_row_put find_Some_D)

text \<open>The steps of the subsystem, and the moments at which a request aborts or time passes.\<close>

inductive hook_step :: "env \<Rightarrow> world \<Rightarrow> world \<Rightarrow> bool" for en where
  publish: "hook_step en w (publish en ev org p w)"
| dispatch: "dispatch en sid ev p w = (r, w') \<Longrightarrow> hook_step en w w'"
| retry: "retry_pending_deliveries en w = (r, w') \<Longrightarrow> hook_step en w w'"
| subscribe: "create_outbound_subscription en org url evs by raw w = (r, w') \<Longrightarrow> hook_step en w w'"
| deactivate: "deactivate_outbound_subscription sid org w = (r, w') \<Longrightarrow> hook_step en w w'"
| tick: "clock w \<le> t \<Longrightarrow> hook_step en w (w\<lparr>clock := t\<rparr>)"
| abort: "hook_step en w (rollback w)"

inductive_cases hook_stepE: "hook_step en w w'"

lemma hook_step_inv:
  assumes "hook_step en w w'" and "hooks_inv w"
  shows "hooks_inv w'"
  using assms(1)
proof cases
  case (publish ev org p)
  then show ?thesis using publish_inv [OF assms(2)] by simp
next
  case (dispatch sid ev p r)
  then show ?thesis using dispatch_inv [OF assms(2)] by simp
next
  case (retry r)
  have "\<forall>d\<in>set (due_deliveries w). 1 \<le> wd_attempt d \<and> wd_delivered_at d = None"
    using due_deliveries_pending [of w] assms(2) by (auto simp: hooks_inv_def)
  then show ?thesis
    using retry_loop_inv [OF assms(2)] retry unfolding retry_pending_deliveries_def by blast
next
  case (subscribe org url evs u raw r)
  then show ?thesis using create_subscription_inv [OF assms(2)] by simp
next
  case (deactivate sid org r)
  then show ?thesis using deactivate_inv [OF assms(2)] by simp
next
  case (tick t)
  then show ?thesis using assms(2) by (simp add: hooks_inv_def)
next
  case abort
  then show ?thesis using assms(2) by (simp add: hooks_inv_def)
qed

inductive hook_reachable :: "env \<Rightarrow> world \<Rightarrow> bool" for en where
  start: "cur w = empty_db \<Longrightarrow> com w = empty_db \<Longrightarrow> hook_reachable en w"
| step: "hook_reachable en w \<Longrightarrow> hook_step en w w' \<Longrightarrow> hook_reachable en w'"

lemma hooks_ok_empty: "hooks_ok empty_db"
  by (simp add: hooks_ok_def keys_ok_def)

lemma hook_reachable_inv: "hook_reachable en w \<Longrightarrow> hooks_inv w"
proof (induction rule: hook_reachable.induct)
  case (start w)
  then show ?case by (simp add: hooks_inv_def hooks_ok_empty)
next
  case (step w w')
  show ?case by (rule hook_step_inv [OF step.hyps(2) step.IH])
qed

text \<open>C5: the circuit breaker. In every state reached by publishing, dispatching, retrying,
  subscribing, deactivating, aborted requests and passing time, an active subscription has fewer
  than five failures in a row, and a delivery that succeeded has a 2xx status and is never
  scheduled again.\<close>

theorem breaker_invariant:
  assumes "hook_reachable en w"
  shows "(\<forall>s\<in>set (webhook_subs (cur w)). ws_active s \<longrightarrow> 0 \<le> ws_failures s \<and> ws_failures s < 5)
    \<and> (\<forall>d\<in>set (webhook_deliveries (cur w)). wd_delivered_at d \<noteq> None \<longrightarrow>
         wd_next_retry_at d = None \<and> is_2xx (wd_status d))"
proof -
  have "hooks_inv w" by (rule hook_reachable_inv [OF assms])
  then have "list_all sub_ok (webhook_subs (cur w))" "list_all delivery_ok (webhook_deliveries (cur w))"
    by (simp_all add: hooks_inv_def hooks_ok_def)
  then show ?thesis by (simp add: list_all_iff sub_ok_def delivery_ok_def)
qed

subsection \<open>Who receives a published event\<close>

definition matching_subs :: "int \<Rightarrow> string \<Rightarrow> db \<Rightarrow> webhook_sub list" where
  "matching_subs org event d =
     filter (\<lambda>s. event \<in> set (ws_events s))
       (sort_key ws_id (filter (\<lambda>s. ws_org s = org \<and> ws_active s) (webhook_subs d)))"

definition hook_post :: "env \<Rightarrow> json \<Rightarrow> webhook_sub \<Rightarrow> outcall list" where
  "hook_post en payload s =
     (case decrypt en (ws_secret_encrypted s) of
        None \<Rightarrow> []
      | Some k \<Rightarrow> [WebhookPost (ws_url s) (json_dumps_sorted payload)
                     (hmac256 en k (json_dumps_sorted payload))])"

lemma matching_ids: "matching_subscription_ids org event d = map ws_id (matching_subs org event d)"
  by (simp add: matching_subscription_ids_def matching_subs_def)

lemma matching_subs_mem:
  "s \<in> set (matching_subs org event d) \<longleftrightarrow>
     s \<in> set (webhook_subs d) \<and> ws_org s = org \<and> ws_active s \<and> event \<in> set (ws_events s)"
  by (auto simp: matching_subs_def)

lemma matching_subs_distinct:
  assumes "distinct (map ws_id (webhook_subs d))"
  shows "distinct (map ws_id (matching_subs org event d))"
proof -
  have srt: "distinct (map ws_id (sort_key ws_id xs))" if "distinct (map ws_id xs)" for xs
    using that by (simp add: distinct_map)
  show ?thesis unfolding matching_subs_def by (intro distinct_map_filter srt assms)
qed

lemma dispatch_one_subs:
  assumes "k \<noteq> sid"
  shows "row_get ws_id k (webhook_subs (cur (dispatch_one en ev p sid w))) =
    row_get ws_id k (webhook_subs (cur w))"
proof -
  obtain r w' where d: "dispatch en sid ev p w = (r, w')" by fastforce
  have "row_get ws_id k (webhook_subs (cur w')) = row_get ws_id k (webhook_subs (cur w))"
  proof (rule dispatch_cases [OF d])
    fix sub st bd d w2 a secret
    assume sub: "row_get ws_id sid (webhook_subs (cur w)) = Some sub"
      and w2: "w2 = call_out (WebhookPost (ws_url sub) (json_dumps_sorted p)
              (hmac256 en secret (json_dumps_sorted p))) (on_db (add_delivery d) w)"
      and w': "w' = audit_record en ''webhook.dispatched'' a (store_attempt en st bd 60 sub d w2)"
    have "ws_id sub = sid" using row_get_in [OF sub] by simp
    then show ?thesis using assms by (simp add: w' w2 store_attempt_simps row_get_put_other)
  qed simp
  then show ?thesis by (simp add: dispatch_one_def d)
qed

lemma dispatch_one_out:
  assumes "row_get ws_id sid (webhook_subs (cur w)) = Some s" and "ws_active s" and "ev \<in> set (ws_events s)"
  shows "out (dispatch_one en ev p sid w) = out w @ hook_post en p s"
proof -
  obtain r w' where d: "dispatch en sid ev p w = (r, w')" by fastforce
  have "out w' = out w @ hook_post en p s"
  proof (cases "decrypt en (ws_secret_encrypted s)")
    case None
    then show ?thesis using d assms by (auto simp: dispatch_def hook_post_def)
  next
    case (Some k)
    show ?thesis
      by (rule dispatch_cases [OF d])
        (use d assms Some in \<open>auto simp: dispatch_def hook_post_def store_attempt_simps Let_def split: prod.splits\<close>)
  qed
  then show ?thesis by (simp add: dispatch_one_def d)
qed

lemma dispatch_head_out:
  assumes "distinct (map ws_id ss)"
    and "\<forall>s\<in>set ss. row_get ws_id (ws_id s) (webhook_subs (cur w)) = Some s \<and> ws_active s \<and> ev \<in> set (ws_events s)"
  shows "out (dispatch_head en ev p (map ws_id ss) w) = out w @ concat (map (hook_post en p) ss)"
  using assms
proof (induction ss arbitrary: w)
  case Nil
  then show ?case by (simp add: dispatch_head_def)
next
  case (Cons s ss)
  let ?w = "dispatch_one en ev p (ws_id s) w"
  have o: "out ?w = out w @ hook_post en p s" by (rule dispatch_one_out) (use Cons.prems in auto)
  have "out (dispatch_head en ev p (map ws_id ss) ?w) = out ?w @ concat (map (hook_post en p) ss)"
  proof (rule Cons.IH)
    show "distinct (map ws_id ss)" using Cons.prems(1) by simp
    show "\<forall>s\<in>set ss. row_get ws_id (ws_id s) (webhook_subs (cur ?w)) = Some s \<and> ws_active s
        \<and> ev \<in> set (ws_events s)"
    proof
      fix t assume t: "t \<in> set ss"
      then have "ws_id t \<noteq> ws_id s" using Cons.prems(1) by (metis distinct.simps(2) image_eqI list.map(2) set_map)
      then show "row_get ws_id (ws_id t) (webhook_subs (cur ?w)) = Some t \<and> ws_active t \<and> ev \<in> set (ws_events t)"
        using Cons.prems(2) t by (simp add: dispatch_one_subs)
    qed
  qed
  then show ?case using o by (simp add: dispatch_head_def)
qed

text \<open>C4: An event goes exactly to its tenant's subscribers. \<open>S\<close> lists the active subscriptions of the same organization
  that name the event, by their ids. Published synchronously, it causes for each of the first three one POST to its URL
  with the payload and the digest of it under its secret (none for one whose secret cannot be decrypted), and hands the rest
  to the background worker; published asynchronously, it hands all of them over. Nobody else is called, and everything
  is committed.\<close>

theorem publish_exact:
  assumes "distinct (map ws_id (webhook_subs (cur w)))" and "S = matching_subs org ev (cur w)"
  shows "out (publish en ev org p w) = out w
      @ (if S = [] then []
         else if webhook_async en then [BackgroundDispatch (map ws_id S) ev p]
         else concat (map (\<lambda>s. case decrypt en (ws_secret_encrypted s) of None \<Rightarrow> []
             | Some k \<Rightarrow> [WebhookPost (ws_url s) (json_dumps_sorted p) (hmac256 en k (json_dumps_sorted p))]) (take 3 S))
           @ (if length S \<le> 3 then [] else [BackgroundDispatch (map ws_id (drop 3 S)) ev p]))
    \<and> (\<forall>s. s \<in> set S \<longleftrightarrow> s \<in> set (webhook_subs (cur w)) \<and> ws_org s = org \<and> ws_active s \<and> ev \<in> set (ws_events s))
    \<and> sorted (map ws_id S) \<and> distinct (map ws_id S)
    \<and> com (publish en ev org p w) = cur (publish en ev org p w)"
proof -
  note S = assms(2)
  have dS: "distinct (map ws_id S)" using matching_subs_distinct [OF assms(1), of org ev] by (simp add: S)
  then have d: "distinct (map ws_id (take 3 S))" by (simp add: take_map [symmetric] distinct_take)
  have m: "\<forall>s\<in>set (take 3 S). row_get ws_id (ws_id s) (webhook_subs (cur w)) = Some s \<and> ws_active s
      \<and> ev \<in> set (ws_events s)"
    using assms(1) matching_subs_mem [of _ org ev "cur w"]
    by (auto simp: S dest!: in_set_takeD intro: row_get_mem)
  have o: "out (dispatch_head en ev p (map ws_id (take 3 S)) w) = out w @ concat (map (hook_post en p) (take 3 S))"
    by (rule dispatch_head_out [OF d m])
  have post: "(\<lambda>s. case decrypt en (ws_secret_encrypted s) of None \<Rightarrow> []
             | Some k \<Rightarrow> [WebhookPost (ws_url s) (json_dumps_sorted p) (hmac256 en k (json_dumps_sorted p))]) = hook_post en p"
    by (rule ext) (simp add: hook_post_def)
  have c: "com (audit_record en act (published_audit org ev n) v) = cur (audit_record en act (published_audit org ev n) v)"
    for act n v by (simp add: published_audit_def)
  show ?thesis
  proof (intro conjI)
    show "out (publish en ev org p w) = out w
      @ (if S = [] then []
         else if webhook_async en then [BackgroundDispatch (map ws_id S) ev p]
         else concat (map (\<lambda>s. case decrypt en (ws_secret_encrypted s) of None \<Rightarrow> []
             | Some k \<Rightarrow> [WebhookPost (ws_url s) (json_dumps_sorted p) (hmac256 en k (json_dumps_sorted p))]) (take 3 S))
           @ (if length S \<le> 3 then [] else [BackgroundDispatch (map ws_id (drop 3 S)) ev p]))"
      unfolding post publish_def matching_ids S [symmetric]
      using o by (cases "S = []"; cases "webhook_async en") (auto simp: Let_def take_map drop_map)
    show "\<forall>s. s \<in> set S \<longleftrightarrow> s \<in> set (webhook_subs (cur w)) \<and> ws_org s = org \<and> ws_active s \<and> ev \<in> set (ws_events s)"
      by (simp add: S matching_subs_mem)
    show "sorted (map ws_id S)" unfolding S matching_subs_def by (intro sorted_filter) simp
    show "com (publish en ev org p w) = cur (publish en ev org p w)"
      unfolding publish_def Let_def by (simp only: c split: if_split) simp
  qed (rule dS)
qed

subsection \<open>Inbound events are stored once\<close>

definition events_unique :: "db \<Rightarrow> bool" where
  "events_unique d \<longleftrightarrow>
     distinct (map (\<lambda>e. (we_provider e, we_external e)) (filter (\<lambda>e. we_external e \<noteq> None) (webhook_events d)))"

lemma event_find_Some:
  "event_find p x d = Some e \<Longrightarrow> e \<in> set (webhook_events d) \<and> we_provider e = p \<and> we_external e = Some x"
proof -
  assume a: "event_find p x d = Some e"
  let ?l = "sort_key we_id (filter (\<lambda>e. we_provider e = p \<and> we_external e = Some x) (webhook_events d))"
  have "e \<in> set ?l" using a by (cases ?l) (auto simp: event_find_def)
  then show ?thesis by simp
qed

lemma event_find_None:
  "event_find p x d = None \<Longrightarrow> e \<in> set (webhook_events d) \<Longrightarrow> \<not> (we_provider e = p \<and> we_external e = Some x)"
proof -
  assume a: "event_find p x d = None" "e \<in> set (webhook_events d)"
  let ?l = "sort_key we_id (filter (\<lambda>e. we_provider e = p \<and> we_external e = Some x) (webhook_events d))"
  have "?l = []" using a(1) by (cases ?l) (auto simp: event_find_def)
  then have "set ?l = {}" by simp
  then show ?thesis using a(2) by auto
qed

text \<open>An inbound event is stored at most once per provider and external id. Recording keeps
  the pairs distinct, and recording the same event again returns the stored one and only adds
  an audit row.\<close>

theorem inbound_recorded_once:
  assumes "events_unique (cur w)" and "ext \<noteq> ''''"
    and "record_inbound_event en None provider ty (Some ext) payload sig verified org w = (Inr e, w1)"
  shows "events_unique (cur w1) \<and> e \<in> set (webhook_events (cur w1))
    \<and> we_provider e = provider \<and> we_external e = Some ext
    \<and> (\<exists>e2 w2. record_inbound_event en rival provider ty2 (Some ext) payload2 sig2 verified2 org2 w1 = (Inr e2, w2)
         \<and> webhook_events (cur w2) = webhook_events (cur w1) \<and> e2 = e)"
proof (cases "event_find provider ext (cur w)")
  case (Some old)
  note od = event_find_Some [OF Some]
  have e: "e = old" and w1: "webhook_events (cur w1) = webhook_events (cur w)"
    using assms(2,3) Some by (auto simp: record_inbound_event_def)
  have "event_find provider ext (cur w1) = Some old"
    using Some by (simp add: event_find_def w1)
  then show ?thesis
    using od assms(1,2) by (auto simp: record_inbound_event_def e w1 events_unique_def)
next
  case None
  note no = event_find_None [OF None]
  have e: "e = new_event provider ty (Some ext) payload sig verified org w"
    and w1: "webhook_events (cur w1) = webhook_events (cur w) @ [e]"
    using assms(2,3) None by (auto simp: record_inbound_event_def Let_def)
  have f: "we_provider e = provider" "we_external e = Some ext" by (simp_all add: e new_event_def)
  have u: "events_unique (cur w1)"
    using assms(1) no f by (auto simp: events_unique_def w1)
  have "filter (\<lambda>e. we_provider e = provider \<and> we_external e = Some ext) (webhook_events (cur w1)) = [e]"
    using no f by (auto simp: w1 filter_empty_conv)
  then have "event_find provider ext (cur w1) = Some e" by (simp add: event_find_def)
  then show ?thesis using u f assms(2) by (auto simp: record_inbound_event_def w1)
qed

subsection \<open>The retry schedule\<close>

text \<open>The retry schedule. A retried delivery has its attempt number raised by one; on success
  it is delivered and never due again; on failure it waits 1, 5, 30, 120 or 720 minutes after
  the first, second, third, fourth and any later attempt, unless this failure is the fifth in a
  row of its subscription: then the subscription is disabled and the delivery is not due again.\<close>

theorem retry_schedule:
  assumes "retry_one en d w = (Inr True, w')"
    and "row_get wd_id (wd_id d) (webhook_deliveries (cur w)) = Some d"
    and "row_get ws_id (wd_sub d) (webhook_subs (cur w)) = Some sub"
    and "1 \<le> wd_attempt d" and "wd_delivered_at d = None"
  shows "\<exists>d' sub'. row_get wd_id (wd_id d) (webhook_deliveries (cur w')) = Some d'
    \<and> row_get ws_id (wd_sub d) (webhook_subs (cur w')) = Some sub'
    \<and> wd_attempt d' = wd_attempt d + 1
    \<and> (if is_2xx (wd_status d')
       then wd_delivered_at d' = Some (clock w) \<and> wd_next_retry_at d' = None \<and> ws_failures sub' = 0
       else wd_delivered_at d' = None \<and> ws_failures sub' = ws_failures sub + 1 \<and>
         (if 5 \<le> ws_failures sub + 1 then \<not> ws_active sub' \<and> wd_next_retry_at d' = None
          else wd_next_retry_at d' = Some (clock w + seconds
            (if wd_attempt d = 1 then 300 else if wd_attempt d = 2 then 1800
             else if wd_attempt d = 3 then 7200 else 43200))))"
proof (rule retry_one_cases [OF assms(1)])
  fix sub0 secret body st bd w2
  assume sub0: "row_get ws_id (wd_sub d) (webhook_subs (cur w)) = Some sub0"
    and w2: "w2 = call_out (WebhookPost (ws_url sub0) body (hmac256 en secret body)) w"
    and w': "w' = store_attempt en st bd (retry_wait (wd_attempt d + 1)) sub0 (d\<lparr>wd_attempt := wd_attempt d + 1\<rparr>) w2"
  let ?d = "d\<lparr>wd_attempt := wd_attempt d + 1\<rparr>"
  let ?d' = "delivery_after st bd (clock w) (retry_wait (wd_attempt d + 1)) (trips st sub0) ?d"
  let ?s' = "sub_after st (clock w) sub0"
  have eq: "sub0 = sub" using sub0 assms(3) by simp
  have k: "ws_id sub = wd_sub d" using row_get_in [OF assms(3)] by simp
  have "row_get wd_id (wd_id ?d') (row_put wd_id ?d' (webhook_deliveries (cur w))) = Some ?d'"
    by (rule row_get_put_same) (simp add: assms(2))
  moreover have "row_get ws_id (ws_id ?s') (row_put ws_id ?s' (webhook_subs (cur w))) = Some ?s'"
    by (rule row_get_put_same) (simp add: k eq assms(3))
  moreover have "retry_wait (wd_attempt d + 1) = (if wd_attempt d = 1 then 300 else if wd_attempt d = 2
      then 1800 else if wd_attempt d = 3 then 7200 else 43200)"
  proof -
    consider "wd_attempt d = 1" | "wd_attempt d = 2" | "wd_attempt d = 3" | "4 \<le> wd_attempt d"
      using assms(4) by linarith
    then show ?thesis by cases (simp_all add: retry_wait_def backoff_seconds_def min_def)
  qed
  ultimately have g: "row_get wd_id (wd_id d) (webhook_deliveries (cur w')) = Some ?d'"
      "row_get ws_id (wd_sub d) (webhook_subs (cur w')) = Some ?s'"
    and rw: "retry_wait (wd_attempt d + 1) = (if wd_attempt d = 1 then 300 else if wd_attempt d = 2
      then 1800 else if wd_attempt d = 3 then 7200 else 43200)"
    by (simp_all add: w' w2 store_attempt_simps k eq)
  show ?thesis
    by (rule exI, rule exI, rule conjI [OF g(1)], rule conjI [OF g(2)])
      (use assms(5) in \<open>simp add: delivery_after_def sub_after_def trips_def eq rw\<close>)
qed simp_all

subsection \<open>Samples\<close>

definition sample_hooks :: world where
  "sample_hooks = snd (create_outbound_subscription sample_env 1 ''https://a.example'' [''invoice.paid'']
     None ''raw'' (world_of empty_db))"

definition sample_sub :: webhook_sub where
  "sample_sub = \<lparr>ws_id = 1, ws_org = 1, ws_url = ''https://a.example'', ws_secret_hash = ''h:raw'',
     ws_secret_encrypted = ''gAAAAAraw'', ws_events = [''invoice.paid''], ws_active = True,
     ws_last_delivery_at = None, ws_last_status = None, ws_failures = 0, ws_created_by = None,
     ws_created_at = sample_clock, ws_updated_at = sample_clock\<rparr>"

lemma sample_hooks_simps [simp]:
  "webhook_subs (cur sample_hooks) = [sample_sub]" "out sample_hooks = []"
  "webhook_deliveries (cur sample_hooks) = []" "webhook_events (cur sample_hooks) = []"
  "clock sample_hooks = sample_clock"
  by (simp_all add: sample_hooks_def create_outbound_subscription_def sample_sub_def Let_def next_key_def
      sample_env_def strip_def is_blank_def)

lemma breaker_invariant_witness:
  "filter (\<lambda>s. ws_active s \<and> 5 \<le> ws_failures s)
     (webhook_subs (cur (publish sample_env ''invoice.paid'' 1 (JObj []) sample_hooks))) = []"
proof -
  have "hook_reachable sample_env (world_of empty_db)" by (rule hook_reachable.start) simp_all
  then have "hook_reachable sample_env sample_hooks"
    unfolding sample_hooks_def by (rule hook_reachable.step [OF _ hook_step.subscribe]) (rule prod.collapse [symmetric])
  then have "hook_reachable sample_env (publish sample_env ''invoice.paid'' 1 (JObj []) sample_hooks)"
    by (rule hook_reachable.step) (rule hook_step.publish)
  from breaker_invariant [OF this] show ?thesis by (force simp: filter_empty_conv)
qed

lemma publish_exact_witness:
  "out (publish sample_env ''invoice.paid'' 1 (JObj []) sample_hooks) =
     [WebhookPost ''https://a.example'' (json_dumps_sorted (JObj [])) (''raw:'' @ json_dumps_sorted (JObj []))]"
proof -
  have S: "matching_subs 1 ''invoice.paid'' (cur sample_hooks) = [sample_sub]"
    by (simp add: matching_subs_def sample_sub_def)
  have e: "webhook_async sample_env = False" "hmac256 sample_env k b = k @ '':'' @ b" "decrypt sample_env x = Some (drop 6 x)" for k b x
    by (simp_all add: sample_env_def)
  from publish_exact [OF _ S [symmetric], of sample_env "JObj []"] show ?thesis by (simp add: e) (simp add: sample_sub_def e)
qed

lemma inbound_recorded_once_witness:
  "events_unique (cur (snd (record_inbound_event sample_env None ''vismapay'' ''paid'' (Some ''e1'') (JObj [])
     ''s'' True None sample_hooks)))"
proof -
  let ?r = "record_inbound_event sample_env None ''vismapay'' ''paid'' (Some ''e1'') (JObj []) ''s'' True None sample_hooks"
  have "?r = (Inr (new_event ''vismapay'' ''paid'' (Some ''e1'') (JObj []) ''s'' True None sample_hooks), snd ?r)"
    by (rule prod_eqI) (simp_all add: record_inbound_event_def event_find_def Let_def)
  from inbound_recorded_once [OF _ _ this] show ?thesis by (simp add: events_unique_def)
qed

lemma signature_sound_complete_witness:
  "verify_signature sample_env ''vismapay'' ''b'' ''t=1,v1=k:b'' ''k''
   \<and> \<not> verify_signature sample_env ''vismapay'' ''b'' ''sha256=k:b'' ''k''"
proof -
  have d: "digest_like (hmac256 sample_env ''k'' ''b'')" "hmac256 sample_env ''k'' ''b'' = ''k:b''"
    by (simp_all add: sample_env_def digest_like_def is_blank_def)
  have h: "split_on (CHR '','') (strip ''t=1,v1=k:b'') = [''t=1''] @ ''v1=k:b'' # []" by code_simp
  have v: "starts_with ''v1='' (strip ''v1=k:b'')" "strip (drop 3 (strip ''v1=k:b'')) = ''k:b''" "\<not> starts_with ''v1='' (strip ''t=1'')"
    by code_simp+
  have "carries ''t=1,v1=k:b'' (hmac256 sample_env ''k'' ''b'')"
    unfolding carries_def d(2)
    by (rule disjI2, rule exI [of _ "[''t=1'']"], rule exI [of _ "''v1=k:b''"], rule exI [of _ "[]"]) (simp add: h [simplified] v)
  then show ?thesis
    using signature_sound_complete [OF d(1), of "''vismapay''" "''t=1,v1=k:b''"] by (simp add: d(2))
qed

definition sample_delivery :: webhook_delivery where
  "sample_delivery = new_delivery sample_env sample_sub ''invoice.paid'' (JObj []) ''s'' sample_hooks"

definition sample_down :: env where
  "sample_down = sample_env\<lparr>webhook_peer := \<lambda>o1 u. Inr (500, '''')\<rparr>"

lemma retry_schedule_witness:
  "\<exists>d'. row_get wd_id 1 (webhook_deliveries (cur (snd (retry_one sample_down sample_delivery
       (on_db (add_delivery sample_delivery) sample_hooks))))) = Some d' \<and> wd_attempt d' = 2"
proof -
  let ?w = "on_db (add_delivery sample_delivery) sample_hooks"
  have d: "wd_sub sample_delivery = 1" "wd_id sample_delivery = 1" "wd_attempt sample_delivery = 1"
    "wd_delivered_at sample_delivery = None"
    by (simp_all add: sample_delivery_def new_delivery_def sample_sub_def next_key_def
        sample_hooks_def create_outbound_subscription_def Let_def)
  have g: "row_get ws_id 1 (webhook_subs (cur ?w)) = Some sample_sub"
    "row_get wd_id 1 (webhook_deliveries (cur ?w)) = Some sample_delivery"
    by (simp_all add: row_get_def d) (simp add: sample_sub_def)
  have "fst (retry_one sample_down sample_delivery ?w) = Inr True"
    using g(1) by (simp add: retry_one_def d Let_def split_beta) (simp add: sample_sub_def sample_down_def sample_env_def Let_def split_beta)
  then have "retry_one sample_down sample_delivery ?w = (Inr True, snd (retry_one sample_down sample_delivery ?w))"
    by (simp add: prod_eq_iff)
  from retry_schedule [OF this, of sample_sub] show ?thesis using d g by fastforce
qed

end
