(* ===== verification/Portal.thy ===== *)
theory Portal
  imports Scope Email Webhooks
begin

text \<open>
  The guest portal (app/portal): one-time link tokens, the guest's lists, door access codes
  (issued through the lock vendor, revoked with the stay, expired by the scheduler) and the
  check-in. The vendor is \<open>lock_provision\<close> and \<open>lock_revoke\<close>; the client in the repository
  raises \<open>RuntimeError\<close> on every call. Drawn values (tokens, six digits, file names) are arguments.
  Main facts: a token works once and only before it expires; codes of another tenant or another
  reservation are never revoked; a code is active only for reservations of the lock's tenant.
\<close>

definition e_portal :: "string \<Rightarrow> string \<Rightarrow> nat \<Rightarrow> exn" where
  "e_portal code msg status = ServiceError Portal_service code msg status"

definition e_portal_reservation :: exn where
  "e_portal_reservation = e_portal ''not_found'' ''Reservation not found.'' 404"

subsection \<open>One-time tokens\<close>

text \<open>Portal sign-in links live 20 minutes, check-in links 7 days.\<close>

definition portal_magic_link_ttl :: stamp where "portal_magic_link_ttl = seconds (20 * 60)"
definition checkin_token_ttl :: stamp where "checkin_token_ttl = days 7"

definition hash_token :: "env \<Rightarrow> string \<Rightarrow> string" where "hash_token en raw = sha256 en raw"

definition token_issue :: "env \<Rightarrow> int \<Rightarrow> int \<Rightarrow> string \<Rightarrow> stamp \<Rightarrow> world \<Rightarrow> token_row" where
  "token_issue en key subject raw ttl w =
     \<lparr>tk_id = key, tk_subject = subject, tk_hash = hash_token en raw,
      tk_expires_at = clock w + ttl, tk_used_at = None, tk_created_at = clock w\<rparr>"

definition token_find_active :: "env \<Rightarrow> string \<Rightarrow> stamp \<Rightarrow> token_row list \<Rightarrow> token_row option" where
  "token_find_active en raw now rows =
     (if raw = '''' then None
      else case List.find (\<lambda>t. tk_hash t = hash_token en raw) rows of
        None \<Rightarrow> None
      | Some t \<Rightarrow>
          if tk_used_at t \<noteq> None then None
          else if tk_expires_at t < now then None
          else Some t)"

definition token_mark_used :: "stamp \<Rightarrow> token_row \<Rightarrow> token_row" where
  "token_mark_used now t = t\<lparr>tk_used_at := Some now\<rparr>"

subsection \<open>Portal users\<close>

definition find_user_email :: "string \<Rightarrow> db \<Rightarrow> user_row option" where
  "find_user_email email d = List.find (\<lambda>u. usr_email u = lower (strip email)) (users d)"

definition authenticate_portal_user :: "env \<Rightarrow> string \<Rightarrow> string \<Rightarrow> db \<Rightarrow> user_row option" where
  "authenticate_portal_user en email password d =
     (case find_user_email email d of
        None \<Rightarrow> None
      | Some u \<Rightarrow>
          if \<not> usr_active u then None
          else if usr_role u \<noteq> ''user'' then None
          else if \<not> check_password_hash en (usr_password_hash u) password then None
          else Some u)"

definition get_portal_user_or_none :: "int option \<Rightarrow> db \<Rightarrow> user_row option" where
  "get_portal_user_or_none uid d =
     (case uid of
        None \<Rightarrow> None
      | Some i \<Rightarrow>
          (case List.find (\<lambda>u. usr_id u = i \<and> usr_active u) (users d) of
             None \<Rightarrow> None
           | Some u \<Rightarrow> if usr_role u \<noteq> ''user'' then None else Some u))"

definition issue_magic_link :: "env \<Rightarrow> string \<Rightarrow> string \<Rightarrow> world \<Rightarrow> token_row option \<times> world" where
  "issue_magic_link en raw email w =
     (case List.find (\<lambda>u. usr_email u = lower (strip email) \<and> usr_active u) (users (cur w)) of
        None \<Rightarrow> (None, w)
      | Some u \<Rightarrow>
          if usr_role u \<noteq> ''user'' then (None, w)
          else
            let t = token_issue en (next_key T_magic_links (cur w)) (usr_id u) raw portal_magic_link_ttl w
            in (Some t, commit (on_db (add_magic_link t) w)))"

definition authenticate_by_magic_link :: "env \<Rightarrow> string \<Rightarrow> world \<Rightarrow> user_row option \<times> world" where
  "authenticate_by_magic_link en raw w =
     (case token_find_active en raw (clock w) (magic_links (cur w)) of
        None \<Rightarrow> (None, w)
      | Some t \<Rightarrow>
          (case row_get usr_id (tk_subject t) (users (cur w)) of
             None \<Rightarrow> (None, w)
           | Some u \<Rightarrow>
               if \<not> usr_active u \<or> usr_role u \<noteq> ''user'' then (None, w)
               else (Some u, commit (on_db (put_magic_link (token_mark_used (clock w) t)) w))))"

definition portal_login_audit :: "string \<Rightarrow> user_row \<Rightarrow> audit_args" where
  "portal_login_audit status u =
     audit_defaults\<lparr>aa_status := Some status, aa_actor_type := Some ''user'',
       aa_actor_id := Some (usr_id u), aa_actor_email := Some (usr_email u),
       aa_org := Some (usr_org u), aa_target_type := Some ''user'',
       aa_target_id := Some (usr_id u), aa_commit := True\<rparr>"

definition portal_login_with_audit :: "env \<Rightarrow> string \<Rightarrow> string \<Rightarrow> world \<Rightarrow> user_row option \<times> world" where
  "portal_login_with_audit en email password w =
     (case authenticate_portal_user en email password (cur w) of
        None \<Rightarrow> (None, audit_record en ''portal.login.failure''
          (audit_defaults\<lparr>aa_status := Some ''failure'', aa_actor_type := Some ''anonymous'',
             aa_actor_email := none_if_empty email, aa_commit := True\<rparr>) w)
      | Some u \<Rightarrow> (Some u, audit_record en ''portal.login.success'' (portal_login_audit ''success'' u) w))"

definition complete_portal_magic_link_login :: "env \<Rightarrow> string \<Rightarrow> world \<Rightarrow> user_row option \<times> world" where
  "complete_portal_magic_link_login en raw w =
     (case authenticate_by_magic_link en raw w of
        (None, w1) \<Rightarrow> (None, w1)
      | (Some u, w1) \<Rightarrow>
          (Some u, audit_record en ''portal.magic_link.login'' (portal_login_audit ''success'' u) w1))"

subsection \<open>What a guest sees\<close>

definition guest_reservations :: "int \<Rightarrow> int \<Rightarrow> db \<Rightarrow> reservation list" where
  "guest_reservations oid gid d =
     filter (\<lambda>r. res_org d r = Some oid \<and> res_guest r = Some gid) (reservations d)"

definition unit_name_of :: "db \<Rightarrow> int \<Rightarrow> string" where
  "unit_name_of d uid = (case unit_get uid d of None \<Rightarrow> '''' | Some u \<Rightarrow> u_name u)"

definition property_of_unit :: "db \<Rightarrow> int \<Rightarrow> property_row option" where
  "property_of_unit d uid = (case unit_get uid d of None \<Rightarrow> None | Some u \<Rightarrow> property_get (u_property u) d)"

definition property_name_of :: "db \<Rightarrow> int \<Rightarrow> string" where
  "property_name_of d uid = (case property_of_unit d uid of None \<Rightarrow> '''' | Some p \<Rightarrow> p_name p)"

definition portal_dashboard_stats :: "env \<Rightarrow> int \<Rightarrow> int \<Rightarrow> db \<Rightarrow> json" where
  "portal_dashboard_stats en oid gid d =
     (let today = local_today en;
          active = filter (\<lambda>r. res_status r = ''confirmed'' \<and> res_start r \<le> today \<and> today < res_end r)
                     (guest_reservations oid gid d);
          ls = order2_desc le_start le_id (filter (\<lambda>l. le_org l = oid \<and> le_guest l = gid
                     \<and> le_status l = ''active'') (leases d));
          unpaid = filter (\<lambda>i. inv_org i = oid \<and> inv_guest i = Some gid
                     \<and> inv_status i \<in> {''open'', ''overdue''}) (invoices d);
          open_m = filter (\<lambda>m. mr_org m = oid \<and> mr_guest m = Some gid
                     \<and> mr_status m \<in> {''new'', ''in_progress'', ''waiting''}) (maintenance d)
      in JObj [(''active_reservations'', JInt (int (length active))),
               (''active_lease_id'', (case ls of [] \<Rightarrow> JNull | l # _ \<Rightarrow> JInt (le_id l))),
               (''unpaid_invoices'', JInt (int (length unpaid))),
               (''open_maintenance_requests'', JInt (int (length open_m)))])"

definition portal_list_reservations :: "int \<Rightarrow> int \<Rightarrow> db \<Rightarrow> json list" where
  "portal_list_reservations oid gid d =
     map (\<lambda>r. JObj [(''id'', JInt (res_id r)), (''property_name'', JStr (property_name_of d (res_unit r))),
        (''unit_name'', JStr (unit_name_of d (res_unit r))),
        (''start_date'', JStr (isoformat (res_start r))), (''end_date'', JStr (isoformat (res_end r))),
        (''status'', JStr (res_status r))])
       (order2_desc res_start res_id (guest_reservations oid gid d))"

definition portal_invoice :: "invoice \<Rightarrow> json" where
  "portal_invoice i =
     JObj [(''id'', JInt (inv_id i)), (''invoice_number'', jstr (inv_number i)),
       (''amount'', JStr (money_str (inv_total i))),
       (''subtotal_excl_vat'', JStr (money_str (inv_subtotal i))),
       (''vat_rate'', JStr (money_str (inv_vat_rate i))),
       (''vat_amount'', JStr (money_str (inv_vat_amount i))),
       (''total_incl_vat'', JStr (money_str (inv_total i))),
       (''currency'', JStr (inv_currency i)), (''due_date'', JStr (isoformat (inv_due i))),
       (''status'', JStr (inv_status i))]"

definition portal_list_invoices :: "int \<Rightarrow> int \<Rightarrow> db \<Rightarrow> json list" where
  "portal_list_invoices oid gid d =
     map portal_invoice (order2_desc inv_due inv_id
       (filter (\<lambda>i. inv_org i = oid \<and> inv_guest i = Some gid) (invoices d)))"

definition portal_get_invoice :: "int \<Rightarrow> int \<Rightarrow> int \<Rightarrow> db \<Rightarrow> exn + json" where
  "portal_get_invoice oid gid iid d =
     (case List.find (\<lambda>i. inv_id i = iid \<and> inv_org i = oid \<and> inv_guest i = Some gid) (invoices d) of
        None \<Rightarrow> Inl (e_portal ''not_found'' ''Invoice not found.'' 404)
      | Some i \<Rightarrow> Inr (portal_invoice i))"

text \<open>The newest confirmed stay of each unit.\<close>

fun first_per_unit :: "reservation list \<Rightarrow> int list \<Rightarrow> reservation list" where
  "first_per_unit [] seen = []"
| "first_per_unit (r # rs) seen =
     (if res_unit r \<in> set seen then first_per_unit rs seen
      else r # first_per_unit rs (res_unit r # seen))"

definition maintenance_form_scope :: "int \<Rightarrow> int \<Rightarrow> db \<Rightarrow> json list" where
  "maintenance_form_scope oid gid d =
     map (\<lambda>r. JObj [(''reservation_id'', JInt (res_id r)),
        (''property_id'', jint (map_option u_property (unit_get (res_unit r) d))),
        (''property_name'', JStr (property_name_of d (res_unit r))),
        (''unit_id'', JInt (res_unit r)), (''unit_name'', JStr (unit_name_of d (res_unit r)))])
       (first_per_unit (order2_desc res_start res_id
          (filter (\<lambda>r. res_status r = ''confirmed'') (guest_reservations oid gid d))) [])"

subsection \<open>Access codes\<close>

definition issue_checkin_token :: "env \<Rightarrow> string \<Rightarrow> int \<Rightarrow> world \<Rightarrow> string \<times> world" where
  "issue_checkin_token en raw rid w =
     (raw, commit (on_db (add_checkin_token
        (token_issue en (next_key T_checkin_tokens (cur w)) rid raw checkin_token_ttl w)) w))"

definition provision_access_code ::
  "env \<Rightarrow> string \<Rightarrow> string \<Rightarrow> stamp \<Rightarrow> stamp \<Rightarrow> world \<Rightarrow> (exn + string option) \<times> world" where
  "provision_access_code en device code from until w =
     (lift_py (lock_provision en (out w)),
      call_out (LockProvision device code (stamp_iso from) (stamp_iso until)) w)"

definition revoke_access_code :: "env \<Rightarrow> string \<Rightarrow> string \<Rightarrow> world \<Rightarrow> (exn + unit) \<times> world" where
  "revoke_access_code en device code w =
     (lift_py (lock_revoke en (out w)), call_out (LockRevoke device code) w)"

definition issued_audit :: "int \<Rightarrow> int option \<Rightarrow> reservation \<Rightarrow> access_code \<Rightarrow> audit_args" where
  "issued_audit oid actor r c =
     audit_defaults\<lparr>aa_org := Some oid, aa_target_type := Some ''reservation'',
       aa_target_id := Some (res_id r), aa_actor_id := actor,
       aa_context := Some [(''access_code_id'', JInt (ac_id c)), (''user_id'', jint actor),
          (''currency'', JStr (res_currency r)), (''amount'', jmoney (res_amount r)),
          (''external_id'', jstr (ac_provider_code c))]\<rparr>"

definition find_lock :: "int \<Rightarrow> int \<Rightarrow> db \<Rightarrow> lock_device option" where
  "find_lock oid uid d =
     List.find (\<lambda>l. lock_org l = oid \<and> lock_unit l = uid \<and> lock_provider l = ''pindora'') (locks d)"

definition code_from :: "reservation \<Rightarrow> world \<Rightarrow> stamp" where
  "code_from r w = max (clock w) (utc_midnight (res_start r))"

definition code_until :: "reservation \<Rightarrow> stamp" where
  "code_until r = utc_midnight (res_end r) + hours 1"

definition new_access_code ::
  "env \<Rightarrow> reservation \<Rightarrow> lock_device \<Rightarrow> string \<Rightarrow> string option \<Rightarrow> string option \<Rightarrow> world \<Rightarrow> access_code" where
  "new_access_code en r l code ext key w =
     \<lparr>ac_id = next_key T_access_codes (cur w), ac_reservation = res_id r, ac_lock = lock_id l,
      ac_hash = hash_token en code, ac_provider_code = ext, ac_idem_key = key,
      ac_valid_from = code_from r w, ac_valid_until = code_until r,
      ac_active = True, ac_revoked_at = None, ac_revoked_by = None\<rparr>"

text \<open>\<open>draw\<close> is the value of \<open>secrets.randbelow(1_000_000)\<close>.\<close>

definition issue_access_code_for_reservation ::
  "env \<Rightarrow> int \<Rightarrow> int \<Rightarrow> int \<Rightarrow> int option \<Rightarrow> string option \<Rightarrow> world
   \<Rightarrow> (exn + (access_code \<times> string) option) \<times> world" where
  "issue_access_code_for_reservation en draw rid oid actor key w =
     (case find_reservation oid rid (cur w) of
        None \<Rightarrow> (Inr None, w)
      | Some r \<Rightarrow>
        (case find_lock oid (res_unit r) (cur w) of
           None \<Rightarrow> (Inr None, w)
         | Some l \<Rightarrow>
           (case (case text_or key None of None \<Rightarrow> None
                  | Some k \<Rightarrow> List.find (\<lambda>c. ac_idem_key c = Some k) (access_codes (cur w))) of
              Some c \<Rightarrow> (Inr (Some (c, '''')), w)
            | None \<Rightarrow>
                let code = fmt0 6 draw in
                (case provision_access_code en (lock_device_id l) code (code_from r w) (code_until r) w of
                   (Inl e, w1) \<Rightarrow> (Inl e, w1)
                 | (Inr ext, w1) \<Rightarrow>
                     let c = new_access_code en r l code ext key w in
                     (Inr (Some (c, code)),
                      commit (audit_record en ''lock.code_issued'' (issued_audit oid actor r c)
                        (on_db (add_access_code c) w1)))))))"

definition revoked_audit :: "int \<Rightarrow> int \<Rightarrow> int option \<Rightarrow> string \<Rightarrow> access_code \<Rightarrow> audit_args" where
  "revoked_audit oid rid actor reason c =
     audit_defaults\<lparr>aa_org := Some oid, aa_target_type := Some ''reservation'',
       aa_target_id := Some rid, aa_actor_id := actor,
       aa_context := Some [(''access_code_id'', JInt (ac_id c)), (''reason'', JStr reason),
          (''external_id'', jstr (ac_provider_code c))]\<rparr>"

text \<open>The vendor is called when the lock is known and gave the code an id.\<close>

definition revoke_at_vendor :: "env \<Rightarrow> access_code \<Rightarrow> world \<Rightarrow> (exn + unit) \<times> world" where
  "revoke_at_vendor en c w =
     (case (List.find (\<lambda>l. lock_id l = ac_lock c) (locks (cur w)), text_or (ac_provider_code c) None) of
        (Some l, Some ext) \<Rightarrow> revoke_access_code en (lock_device_id l) ext w
      | _ \<Rightarrow> (Inr (), w))"

definition revoked :: "stamp \<Rightarrow> int option \<Rightarrow> access_code \<Rightarrow> access_code" where
  "revoked now actor c = c\<lparr>ac_active := False, ac_revoked_at := Some now, ac_revoked_by := actor\<rparr>"

fun revoke_loop ::
  "env \<Rightarrow> int \<Rightarrow> int \<Rightarrow> int option \<Rightarrow> string \<Rightarrow> access_code list \<Rightarrow> world \<Rightarrow> (exn + unit) \<times> world" where
  "revoke_loop en oid rid actor reason [] w = (Inr (), w)"
| "revoke_loop en oid rid actor reason (c # cs) w =
     (case revoke_at_vendor en c w of
        (Inl e, w1) \<Rightarrow> (Inl e, w1)
      | (Inr _, w1) \<Rightarrow>
          revoke_loop en oid rid actor reason cs
            (audit_record en ''lock.code_revoked'' (revoked_audit oid rid actor reason c)
              (on_db (put_access_code (revoked (clock w1) actor c)) w1)))"

definition revocable_codes :: "int \<Rightarrow> int \<Rightarrow> db \<Rightarrow> access_code list" where
  "revocable_codes rid oid d =
     filter (\<lambda>c. ac_reservation c = rid \<and> ac_active c \<and> find_reservation oid (ac_reservation c) d \<noteq> None)
       (access_codes d)"

definition revoke_access_codes_for_reservation ::
  "env \<Rightarrow> int \<Rightarrow> int \<Rightarrow> int option \<Rightarrow> string \<Rightarrow> world \<Rightarrow> (exn + int) \<times> world" where
  "revoke_access_codes_for_reservation en rid oid actor reason w =
     (let rows = revocable_codes rid oid (cur w) in
      if rows = [] then (Inr 0, w)
      else case revoke_loop en oid rid actor reason rows w of
        (Inl e, w1) \<Rightarrow> (Inl e, w1)
      | (Inr _, w1) \<Rightarrow> (Inr (int (length rows)), commit w1))"

text \<open>
  \<open>AccessCode\<close> has a \<open>reservation_id\<close> column but no \<open>reservation\<close> relationship, so the second loop
  of \<open>auto_revoke_expired_access_codes\<close> raises \<open>AttributeError\<close> on its first row.
\<close>

fun expire_loop :: "env \<Rightarrow> stamp \<Rightarrow> access_code list \<Rightarrow> world \<Rightarrow> (exn + unit) \<times> world" where
  "expire_loop en now [] w = (Inr (), w)"
| "expire_loop en now (c # cs) w =
     (case revoke_at_vendor en c w of
        (Inl e, w1) \<Rightarrow> (Inl e, w1)
      | (Inr _, w1) \<Rightarrow>
          expire_loop en now cs
            (audit_record en ''guest.checked_out''
              (audit_defaults\<lparr>aa_target_type := Some ''reservation'',
                 aa_target_id := Some (ac_reservation c),
                 aa_context := Some [(''access_code_id'', JInt (ac_id c))]\<rparr>)
              (on_db (put_access_code (c\<lparr>ac_active := False, ac_revoked_at := Some now\<rparr>)) w1)))"

definition access_code_reservation :: "access_code \<Rightarrow> exn + reservation option" where
  "access_code_reservation c = Inl (PyError AttributeError)"

fun publish_checkouts :: "env \<Rightarrow> access_code list \<Rightarrow> world \<Rightarrow> (exn + unit) \<times> world" where
  "publish_checkouts en [] w = (Inr (), w)"
| "publish_checkouts en (c # cs) w =
     (case access_code_reservation c of
        Inl e \<Rightarrow> (Inl e, w)
      | Inr None \<Rightarrow> publish_checkouts en cs w
      | Inr (Some r) \<Rightarrow>
          (case res_org (cur w) r of
             None \<Rightarrow> publish_checkouts en cs w
           | Some oid \<Rightarrow>
               publish_checkouts en cs (publish en ''guest.checked_out'' oid
                 (base_payload ''guest.checked_out'' oid
                    [(''reservation_id'', JInt (ac_reservation c)), (''guest_id'', jint (res_guest r)),
                     (''access_code_id'', JInt (ac_id c)), (''revoked_at'', jstamp (ac_revoked_at c))] w) w)))"

definition auto_revoke_expired_access_codes :: "env \<Rightarrow> stamp option \<Rightarrow> world \<Rightarrow> (exn + int) \<times> world" where
  "auto_revoke_expired_access_codes en now w =
     (let now_dt = (case now of None \<Rightarrow> clock w | Some t \<Rightarrow> t);
          rows = filter (\<lambda>c. ac_active c \<and> ac_valid_until c \<le> now_dt) (access_codes (cur w))
      in if rows = [] then (Inr 0, w)
         else case expire_loop en now_dt rows w of
           (Inl e, w1) \<Rightarrow> (Inl e, w1)
         | (Inr _, w1) \<Rightarrow>
             (case publish_checkouts en rows (commit w1) of
                (Inl e, w2) \<Rightarrow> (Inl e, w2)
              | (Inr _, w2) \<Rightarrow> (Inr (int (length rows)), w2)))"

subsection \<open>Check-in\<close>

definition e_lock_provider :: exn where
  "e_lock_provider = e_portal ''lock_provider_error''
     (''Avainkoodin luonti ep'' @ [CHR 0xE4] @ ''onnistui tilap'' @ [CHR 0xE4] @ ''isen h'' @ [CHR 0xE4]
      @ ''iri'' @ [CHR 0xF6] @ ''n vuoksi. Yrit'' @ [CHR 0xE4] @ '' hetken kuluttua uudelleen.'') 503"

definition safe_name :: "string \<Rightarrow> string" where
  "safe_name name =
     (let kept = filter (\<lambda>c. is_alpha_char c \<or> is_digit c \<or> c \<in> {CHR ''-'', CHR ''_'', CHR ''.''}) name
      in if kept = '''' then ''id.bin'' else kept)"

record checkin_form =
  cf_token :: string
  cf_full_name :: string
  cf_birth :: date
  cf_document :: string  \<comment> \<open>the name of the uploaded file\<close>
  cf_signature :: string
  cf_key :: "string option"

text \<open>\<open>dir\<close> is the upload directory, \<open>hex\<close> the drawn file name; the encrypted file itself is not modelled.\<close>

definition checkin_row :: "checkin_form \<Rightarrow> string \<Rightarrow> string \<Rightarrow> reservation \<Rightarrow> world \<Rightarrow> guest_checkin" where
  "checkin_row f dir hex r w =
     (let path = dir @ ''/checkin_docs/reservation-'' @ show_int (res_id r) @ ''-'' @ hex @ ''-''
                 @ safe_name (cf_document f);
          base = (case List.find (\<lambda>c. gc_reservation c = res_id r) (checkins (cur w)) of
                    None \<Rightarrow> next_key T_checkins (cur w) | Some c \<Rightarrow> gc_id c)
      in \<lparr>gc_id = base, gc_reservation = res_id r, gc_full_name = strip (cf_full_name f),
          gc_birth = cf_birth f, gc_document = path, gc_rules_accepted = True,
          gc_signature = strip (cf_signature f), gc_checked_in_at = clock w\<rparr>)"

definition checked_in_audit :: "int \<Rightarrow> reservation \<Rightarrow> audit_args" where
  "checked_in_audit oid r =
     audit_defaults\<lparr>aa_org := Some oid, aa_target_type := Some ''reservation'',
       aa_target_id := Some (res_id r), aa_actor_id := res_guest r,
       aa_context := Some [(''guest_id'', jint (res_guest r)), (''lock_code_issued'', JBool True)]\<rparr>"

text \<open>The writes of a check-in whose access code was issued, then the event and the mail.\<close>

definition checkin_store ::
  "env \<Rightarrow> checkin_form \<Rightarrow> string \<Rightarrow> string \<Rightarrow> token_row \<Rightarrow> reservation \<Rightarrow> int \<Rightarrow> world \<Rightarrow> world" where
  "checkin_store en f dir hex t r oid w =
     (let c = checkin_row f dir hex r w;
          old = List.find (\<lambda>x. gc_reservation x = res_id r) (checkins (cur w));
          w1 = on_db (if old = None then add_checkin c else put_checkin c) w;
          w2 = on_db (put_checkin_token (token_mark_used (clock w) t)) w1;
          w3 = commit (audit_record en ''guest.checked_in'' (checked_in_audit oid r) w2)
      in publish en ''guest.checked_in'' oid (build_guest_checked_in_payload oid c r w3) w3)"

definition checkin_mail :: "env \<Rightarrow> reservation \<Rightarrow> string \<Rightarrow> world \<Rightarrow> world" where
  "checkin_mail en r code w =
     (case (case res_guest r of None \<Rightarrow> None | Some g \<Rightarrow>
              (case guest_get g (cur w) of None \<Rightarrow> None | Some x \<Rightarrow> text_or (g_email x) None)) of
        None \<Rightarrow> w
      | Some email \<Rightarrow> snd (send_template en ''admin_notification'' email
          [(''user_email'', JStr email), (''subject_line'', JStr ''Your door access code''),
           (''message'', JStr (''Reservation #'' @ show_int (res_id r) @ '' access code: '' @ code))] w))"

definition complete_checkin ::
  "env \<Rightarrow> checkin_form \<Rightarrow> int \<Rightarrow> string \<Rightarrow> string \<Rightarrow> world \<Rightarrow> (exn + reservation \<times> string) \<times> world" where
  "complete_checkin en f draw dir hex w =
     (case token_find_active en (cf_token f) (clock w) (checkin_tokens (cur w)) of
        None \<Rightarrow> (Inl (e_portal ''invalid_token'' ''Invalid check-in link.'' 404), w)
      | Some t \<Rightarrow>
        (case row_get res_id (tk_subject t) (reservations (cur w)) of
           None \<Rightarrow> (Inl e_portal_reservation, w)
         | Some r \<Rightarrow>
           (case res_org (cur w) r of
              None \<Rightarrow> (Inl e_lock_provider, rollback w)
            | Some oid \<Rightarrow>
              (case issue_access_code_for_reservation en draw (res_id r) oid (res_guest r) (cf_key f) w of
                 (Inl e, w1) \<Rightarrow> (Inl (if is_service_error e then e else e_lock_provider),
                                 if is_service_error e then w1 else rollback w1)
               | (Inr None, w1) \<Rightarrow>
                   (Inl (e_portal ''no_lock'' ''No lock configured for this reservation.'' 400), w1)
               | (Inr (Some (c, code)), w1) \<Rightarrow>
                   (Inr (r, code), checkin_mail en r code (checkin_store en f dir hex t r oid w1))))))"

subsection \<open>A token works once\<close>

definition tokens_ok :: "token_row list \<Rightarrow> bool" where
  "tokens_ok ts \<longleftrightarrow> distinct (map tk_id ts) \<and> distinct (map tk_hash ts)"

lemma token_find_active_D:
  assumes "token_find_active en raw now ts = Some t"
  shows "t \<in> set ts" "tk_hash t = hash_token en raw" "tk_used_at t = None" "now \<le> tk_expires_at t"
proof -
  have "List.find (\<lambda>t. tk_hash t = hash_token en raw) ts = Some t \<and> tk_used_at t = None
      \<and> \<not> tk_expires_at t < now"
    using assms by (auto simp: token_find_active_def split: if_split_asm option.splits)
  then show "t \<in> set ts" "tk_hash t = hash_token en raw" "tk_used_at t = None" "now \<le> tk_expires_at t"
    using find_Some_D [of "\<lambda>t. tk_hash t = hash_token en raw"] by auto
qed

lemma token_used_inactive:
  assumes "token_find_active en raw now ts = Some t"
  shows "token_find_active en raw now' (row_put tk_id (token_mark_used now t) ts) = None"
proof -
  let ?P = "\<lambda>t. tk_hash t = hash_token en raw"
  let ?t = "token_mark_used now t"
  have f: "List.find ?P ts = Some t"
    using assms by (auto simp: token_find_active_def split: if_split_asm option.splits)
  have "List.find ?P (row_put tk_id ?t ts) = Some ?t"
    using f
  proof (induction ts)
    case (Cons x xs)
    show ?case
    proof (cases "?P x")
      case True
      then show ?thesis using Cons.prems by (auto simp: row_put_def token_mark_used_def)
    next
      case False
      then show ?thesis using Cons by (auto simp: row_put_def token_mark_used_def)
    qed
  qed simp
  then show ?thesis by (simp add: token_find_active_def token_mark_used_def)
qed

text \<open>A sign-in link works once and only for its lifetime. A successful sign-in means the token
  was stored, unused and not expired, and its user is active with the portal role; as long as no
  other code changes the tokens, no later attempt with the same link succeeds.\<close>

theorem magic_link_single_use:
  assumes "authenticate_by_magic_link en raw w = (Some u, w1)"
  shows "(\<exists>t\<in>set (magic_links (cur w)). tk_hash t = hash_token en raw \<and> tk_used_at t = None
        \<and> clock w \<le> tk_expires_at t \<and> tk_subject t = usr_id u)
    \<and> usr_active u \<and> usr_role u = ''user'' \<and> com w1 = cur w1
    \<and> (\<forall>v. magic_links (cur v) = magic_links (cur w1) \<longrightarrow> fst (authenticate_by_magic_link en raw v) = None)"
proof -
  obtain t where t: "token_find_active en raw (clock w) (magic_links (cur w)) = Some t"
    and u: "row_get usr_id (tk_subject t) (users (cur w)) = Some u" "usr_active u" "usr_role u = ''user''"
    and w1: "w1 = commit (on_db (put_magic_link (token_mark_used (clock w) t)) w)"
    using assms by (auto simp: authenticate_by_magic_link_def split: option.splits if_split_asm)
  have "fst (authenticate_by_magic_link en raw v) = None" if "magic_links (cur v) = magic_links (cur w1)" for v
    using token_used_inactive [OF t] that by (simp add: authenticate_by_magic_link_def w1)
  then show ?thesis
    using token_find_active_D [OF t] row_get_in [OF u(1)] u w1 by auto
qed

subsection \<open>Revoking the codes of a stay\<close>

lemma revoke_at_vendor_world [simp]:
  "cur (snd (revoke_at_vendor en c w)) = cur w" "com (snd (revoke_at_vendor en c w)) = com w"
  "clock (snd (revoke_at_vendor en c w)) = clock w" "memo (snd (revoke_at_vendor en c w)) = memo w"
  by (auto simp: revoke_at_vendor_def revoke_access_code_def split: option.splits)

lemma revoke_at_vendor_frame:
  "revoke_at_vendor en c w = (r, w1) \<Longrightarrow> cur w1 = cur w \<and> com w1 = com w \<and> clock w1 = clock w \<and> memo w1 = memo w"
  by (metis revoke_at_vendor_world snd_conv)

lemma revoked_key [simp]: "ac_id (revoked now actor c) = ac_id c"
  by (simp add: revoked_def)

text \<open>The part of the database that revoking leaves alone.\<close>

definition codes_only :: "db \<Rightarrow> db \<Rightarrow> bool" where
  "codes_only d d' \<longleftrightarrow> (\<exists>a c s. d' = d\<lparr>access_codes := c, audit_logs := a, seqs := s\<rparr>
     \<and> (\<forall>t. t \<noteq> T_audit \<longrightarrow> s t = seqs d t))"

lemma codes_only_refl: "codes_only d d"
  unfolding codes_only_def
  by (intro exI [of _ "audit_logs d"] exI [of _ "access_codes d"] exI [of _ "seqs d"]) simp

lemma codes_only_trans: "codes_only d d' \<Longrightarrow> codes_only d' d'' \<Longrightarrow> codes_only d d''"
proof -
  assume "codes_only d d'" "codes_only d' d''"
  then obtain a c s a' c' s' where 1: "d' = d\<lparr>access_codes := c, audit_logs := a, seqs := s\<rparr>"
      "\<forall>t. t \<noteq> T_audit \<longrightarrow> s t = seqs d t"
    and 2: "d'' = d'\<lparr>access_codes := c', audit_logs := a', seqs := s'\<rparr>" "\<forall>t. t \<noteq> T_audit \<longrightarrow> s' t = seqs d' t"
    unfolding codes_only_def by metis
  show ?thesis
    unfolding codes_only_def
    by (intro exI [of _ a'] exI [of _ c'] exI [of _ s']) (use 1 2 in simp)
qed

lemma codes_only_step: "codes_only d (add_audit e (put_access_code c d))"
  unfolding codes_only_def
  by (intro exI [of _ "audit_logs d @ [e]"] exI [of _ "row_put ac_id c (access_codes d)"]
      exI [of _ "(seqs d)(T_audit := al_id e)"]) simp

lemma codes_only_tables:
  assumes "codes_only d d'"
  shows "reservations d' = reservations d" "units d' = units d" "properties d' = properties d"
    "guests d' = guests d" "users d' = users d" "leases d' = leases d" "invoices d' = invoices d"
    "payments d' = payments d" "locks d' = locks d" "webhook_subs d' = webhook_subs d"
    "webhook_deliveries d' = webhook_deliveries d" "maintenance d' = maintenance d" "settings d' = settings d"
    "notifications d' = notifications d" "email_templates d' = email_templates d" "orgs d' = orgs d"
    "t \<noteq> T_audit \<Longrightarrow> seqs d' t = seqs d t"
proof -
  obtain a c s where "d' = d\<lparr>access_codes := c, audit_logs := a, seqs := s\<rparr>"
    and s: "\<forall>t. t \<noteq> T_audit \<longrightarrow> s t = seqs d t"
    using assms unfolding codes_only_def by blast
  then show "reservations d' = reservations d" "units d' = units d" "properties d' = properties d"
    "guests d' = guests d" "users d' = users d" "leases d' = leases d" "invoices d' = invoices d"
    "payments d' = payments d" "locks d' = locks d" "webhook_subs d' = webhook_subs d"
    "webhook_deliveries d' = webhook_deliveries d" "maintenance d' = maintenance d" "settings d' = settings d"
    "notifications d' = notifications d" "email_templates d' = email_templates d" "orgs d' = orgs d"
    "t \<noteq> T_audit \<Longrightarrow> seqs d' t = seqs d t"
    by simp_all
qed

lemma revoke_loop_spec:
  assumes "revoke_loop en oid rid actor reason cs w = (r, w')"
  shows "\<exists>ds. set ds \<subseteq> set cs \<and> (r = Inr () \<longrightarrow> ds = cs)
    \<and> access_codes (cur w') = fold (\<lambda>c. row_put ac_id (revoked (clock w) actor c)) ds (access_codes (cur w))
    \<and> codes_only (cur w) (cur w') \<and> com w' = com w \<and> clock w' = clock w \<and> memo w' = memo w"
  using assms
proof (induction cs arbitrary: w)
  case Nil
  then show ?case by (intro exI [of _ "[]"]) (simp add: codes_only_refl)
next
  case (Cons c cs)
  obtain v w1 where v: "revoke_at_vendor en c w = (v, w1)" by fastforce
  note f = revoke_at_vendor_frame [OF v]
  show ?case
  proof (cases v)
    case (Inl e)
    then have "r = Inl e" "w' = w1" using Cons.prems v by simp_all
    then show ?thesis using f by (intro exI [of _ "[]"]) (simp add: codes_only_refl)
  next
    case (Inr u)
    let ?w = "audit_record en ''lock.code_revoked'' (revoked_audit oid rid actor reason c)
      (on_db (put_access_code (revoked (clock w1) actor c)) w1)"
    have na: "\<not> aa_commit (revoked_audit oid rid actor reason c)" by (simp add: revoked_audit_def)
    have "revoke_loop en oid rid actor reason cs ?w = (r, w')" using Cons.prems v Inr by simp
    from Cons.IH [OF this] obtain ds where ds: "set ds \<subseteq> set cs" "r = Inr () \<longrightarrow> ds = cs"
      "access_codes (cur w') = fold (\<lambda>c. row_put ac_id (revoked (clock ?w) actor c)) ds (access_codes (cur ?w))"
      "codes_only (cur ?w) (cur w')" "com w' = com ?w" "clock w' = clock ?w" "memo w' = memo ?w" by blast
    have co: "codes_only (cur w) (cur ?w)"
      unfolding audit_record_cur on_db_simps conjunct1 [OF f] by (rule codes_only_step)
    have "codes_only (cur w) (cur w')" by (rule codes_only_trans [OF co ds(4)])
    then show ?thesis using ds f na by (intro exI [of _ "c # ds"]) auto
  qed
qed

text \<open>C7: cancelling or moving a stay closes its doors and no others. A revocation that returns has
  deactivated every active code of the reservation, counts them, and is committed; whatever the
  outcome, a vendor failure included, codes of other reservations are unchanged, and a caller
  of another organization changes nothing.\<close>

theorem revoke_closes_exactly:
  assumes "revoke_access_codes_for_reservation en rid oid actor reason w = (r, w')"
    and "distinct (map ac_id (access_codes (cur w)))"
  shows "(\<forall>c\<in>set (access_codes (cur w)). ac_reservation c \<noteq> rid \<longrightarrow> c \<in> set (access_codes (cur w')))
    \<and> (find_reservation oid rid (cur w) = None \<longrightarrow> r = Inr 0 \<and> w' = w)
    \<and> (find_reservation oid rid (cur w) \<noteq> None \<longrightarrow> (\<forall>n. r = Inr n \<longrightarrow>
        n = int (length (filter (\<lambda>c. ac_reservation c = rid \<and> ac_active c) (access_codes (cur w))))
        \<and> (\<forall>c\<in>set (access_codes (cur w')). ac_reservation c = rid \<longrightarrow> \<not> ac_active c)
        \<and> (n \<noteq> 0 \<longrightarrow> com w' = cur w')))"
proof -
  let ?rows = "revocable_codes rid oid (cur w)"
  have scope: "find_reservation oid rid (cur w) \<noteq> None \<Longrightarrow>
      ?rows = filter (\<lambda>c. ac_reservation c = rid \<and> ac_active c) (access_codes (cur w))"
    unfolding revocable_codes_def by (rule filter_cong) auto
  show ?thesis
  proof (cases "?rows = []")
    case True
    then have e: "r = Inr 0" "w' = w"
      using assms(1) by (simp_all add: revoke_access_codes_for_reservation_def)
    show ?thesis
    proof (intro conjI impI ballI allI)
      assume "find_reservation oid rid (cur w) \<noteq> None"
      with scope True have none: "filter (\<lambda>c. ac_reservation c = rid \<and> ac_active c) (access_codes (cur w)) = []"
        by simp
      fix n assume n: "r = Inr n"
      then show "n = int (length (filter (\<lambda>c. ac_reservation c = rid \<and> ac_active c) (access_codes (cur w))))"
        using e none by simp
      show "\<not> ac_active c" if "c \<in> set (access_codes (cur w'))" "ac_reservation c = rid" for c
        using that e none by (auto simp: filter_empty_conv)
      show "com w' = cur w'" if "n \<noteq> 0" using that n e by simp
    qed (use e in simp_all)
  next
    case False
    obtain r1 w1 where l: "revoke_loop en oid rid actor reason ?rows w = (r1, w1)" by fastforce
    from revoke_loop_spec [OF l] obtain ds where ds: "set ds \<subseteq> set ?rows" "r1 = Inr () \<longrightarrow> ds = ?rows"
      "access_codes (cur w1) = fold (\<lambda>c. row_put ac_id (revoked (clock w) actor c)) ds (access_codes (cur w))"
      by blast
    have acw: "access_codes (cur w') = access_codes (cur w1)"
      using assms(1) False l by (cases r1) (auto simp: revoke_access_codes_for_reservation_def)
    have sub: "c \<in> set (access_codes (cur w))" "ac_reservation c = rid" if "c \<in> set ds" for c
      using that ds(1) by (auto simp: revocable_codes_def)
    have other: "c \<in> set (access_codes (cur w'))"
      if "c \<in> set (access_codes (cur w))" "ac_reservation c \<noteq> rid" for c
      unfolding acw ds(3)
    proof (rule fold_put_other)
      show "ac_id c \<notin> ac_id ` set ds"
      proof
        assume "ac_id c \<in> ac_id ` set ds"
        then obtain e where "e \<in> set ds" "ac_id e = ac_id c" by auto
        then have "e = c" using sub(1) that(1) assms(2) by (auto simp: distinct_map inj_on_def)
        then show False using sub(2) \<open>e \<in> set ds\<close> that(2) by blast
      qed
    qed (use that in simp_all)
    show ?thesis
    proof (intro conjI impI ballI allI)
      show "c \<in> set (access_codes (cur w'))" if "c \<in> set (access_codes (cur w))" "ac_reservation c \<noteq> rid" for c
        using other that .
      assume "find_reservation oid rid (cur w) = None"
      then show "r = Inr 0" "w' = w" using False by (auto simp: revocable_codes_def filter_empty_conv)
    next
      assume f: "find_reservation oid rid (cur w) \<noteq> None"
      fix n assume n: "r = Inr n"
      then have r1: "r1 = Inr ()" and n': "n = int (length ?rows)" and w': "w' = commit w1"
        using assms(1) False l by (cases r1; simp add: revoke_access_codes_for_reservation_def)+
      show "n = int (length (filter (\<lambda>c. ac_reservation c = rid \<and> ac_active c) (access_codes (cur w))))"
        using n' scope [OF f] by simp
      show "com w' = cur w'" by (simp add: w')
      show "\<not> ac_active c" if c: "c \<in> set (access_codes (cur w'))" "ac_reservation c = rid" for c
      proof -
        have "(c \<in> set (access_codes (cur w)) \<and> ac_id c \<notin> ac_id ` set ?rows)
            \<or> (\<exists>x\<in>set ?rows. c = revoked (clock w) actor x)"
          using fold_put_mem [where f = "revoked (clock w) actor" and key = ac_id, of c] c(1) ds r1
          unfolding acw by simp
        then show ?thesis
        proof
          assume "\<exists>x\<in>set ?rows. c = revoked (clock w) actor x"
          then show ?thesis by (auto simp: revoked_def)
        next
          assume a: "c \<in> set (access_codes (cur w)) \<and> ac_id c \<notin> ac_id ` set ?rows"
          then have "c \<notin> set ?rows" by blast
          then show ?thesis using a c(2) unfolding scope [OF f] by simp
        qed
      qed
    qed
  qed
qed

subsection \<open>Issuing a code\<close>

text \<open>C8: a door code opens one stay's door for that stay. When a new code comes back, it is stored
  active and committed, belongs to the reservation, hangs on a lock of the reservation's unit and
  organization, is six digits of which only the hash is kept, and is valid from the later of now
  and midnight of the arrival until one hour after midnight of the departure.\<close>

theorem access_code_scope_and_window:
  assumes "issue_access_code_for_reservation en draw rid oid actor key w = (Inr (Some (c, code)), w')"
    and "code \<noteq> ''''" and "0 \<le> draw" and "draw < 1000000"
  shows "\<exists>r l. find_reservation oid rid (cur w) = Some r \<and> find_lock oid (res_unit r) (cur w) = Some l
    \<and> access_codes (cur w') = access_codes (cur w) @ [c] \<and> com w' = cur w'
    \<and> ac_active c \<and> ac_reservation c = res_id r \<and> ac_lock c = lock_id l
    \<and> ac_hash c = hash_token en code \<and> length code = 6 \<and> list_all is_digit code
    \<and> ac_valid_from c = max (clock w) (utc_midnight (res_start r))
    \<and> ac_valid_until c = utc_midnight (res_end r) + hours 1"
proof -
  obtain r where r: "find_reservation oid rid (cur w) = Some r"
    using assms(1) by (auto simp: issue_access_code_for_reservation_def split: option.splits)
  obtain l where l: "find_lock oid (res_unit r) (cur w) = Some l"
    using assms(1) r by (auto simp: issue_access_code_for_reservation_def split: option.splits)
  obtain x w1 where p: "provision_access_code en (lock_device_id l) (fmt0 6 draw) (code_from r w) (code_until r) w
      = (x, w1)" by fastforce
  have w1: "w1 = call_out (LockProvision (lock_device_id l) (fmt0 6 draw) (stamp_iso (code_from r w))
      (stamp_iso (code_until r))) w" using p by (auto simp: provision_access_code_def)
  note run = assms(1) [unfolded issue_access_code_for_reservation_def r option.case l Let_def p]
  let ?existing = "case text_or key None of None \<Rightarrow> None
     | Some k \<Rightarrow> List.find (\<lambda>c. ac_idem_key c = Some k) (access_codes (cur w))"
  have none: "?existing = None"
    using run assms(2) by (cases ?existing) auto
  obtain ext where x: "x = Inr ext" using run none by (cases x) auto
  let ?c = "new_access_code en r l (fmt0 6 draw) ext key w"
  have c: "c = ?c" "code = fmt0 6 draw"
    "w' = commit (audit_record en ''lock.code_issued'' (issued_audit oid actor r ?c) (on_db (add_access_code ?c) w1))"
    using run none x by auto
  have len: "length code = 6" "list_all is_digit code"
    using assms(3,4) length_pad0 [of "nat draw" 6] all_digits_pad0 [of 6 "nat draw"]
    by (auto simp: c(2) fmt0_def all_digits_def)
  show ?thesis
    by (rule exI [of _ r], rule exI [of _ l])
      (use r l c len w1 in \<open>simp add: new_access_code_def code_from_def code_until_def\<close>)
qed

subsection \<open>Expiry\<close>

lemma revoke_at_vendor_out:
  "revoke_at_vendor en c w = (r, w1) \<Longrightarrow> out w1 = out w \<or> (\<exists>d x. out w1 = out w @ [LockRevoke d x])"
  by (auto simp: revoke_at_vendor_def revoke_access_code_def split: option.splits)

lemma expire_loop_spec:
  assumes "\<And>h. lock_revoke en h = Inr ()"
  shows "\<exists>w' calls. expire_loop en now cs w = (Inr (), w')
    \<and> access_codes (cur w') = fold (\<lambda>c. row_put ac_id (c\<lparr>ac_active := False, ac_revoked_at := Some now\<rparr>)) cs
        (access_codes (cur w))
    \<and> out w' = out w @ calls \<and> (\<forall>c\<in>set calls. \<exists>d x. c = LockRevoke d x)"
proof (induction cs arbitrary: w)
  case Nil
  show ?case by simp
next
  case (Cons c cs)
  obtain v w1 where v: "revoke_at_vendor en c w = (v, w1)" by fastforce
  have vi: "v = Inr ()"
    using v assms by (auto simp: revoke_at_vendor_def revoke_access_code_def lift_py_def split: option.splits)
  note f = revoke_at_vendor_frame [OF v]
  let ?w = "audit_record en ''guest.checked_out''
      (audit_defaults\<lparr>aa_target_type := Some ''reservation'', aa_target_id := Some (ac_reservation c),
         aa_context := Some [(''access_code_id'', JInt (ac_id c))]\<rparr>)
      (on_db (put_access_code (c\<lparr>ac_active := False, ac_revoked_at := Some now\<rparr>)) w1)"
  obtain w' calls where w': "expire_loop en now cs ?w = (Inr (), w')"
    "access_codes (cur w') = fold (\<lambda>c. row_put ac_id (c\<lparr>ac_active := False, ac_revoked_at := Some now\<rparr>)) cs
        (access_codes (cur ?w))"
    "out w' = out ?w @ calls" "\<forall>c\<in>set calls. \<exists>d x. c = LockRevoke d x"
    using Cons.IH [of ?w] by blast
  show ?case
    using revoke_at_vendor_out [OF v]
  proof
    assume "out w1 = out w"
    then show ?thesis using w' v vi f by (intro exI [of _ w'] exI [of _ calls]) simp
  next
    assume "\<exists>d x. out w1 = out w @ [LockRevoke d x]"
    then obtain d x where "out w1 = out w @ [LockRevoke d x]" by blast
    then show ?thesis using w' v vi f by (intro exI [of _ w'] exI [of _ "LockRevoke d x # calls"]) simp
  qed
qed

text \<open>The expiry job revokes the codes but never tells anyone. Even when the lock vendor accepts
  every call, a run with at least one expired code ends in \<open>AttributeError\<close>: the codes are
  revoked and committed, but no checkout event is published, and the calls made are only those
  to the lock vendor.\<close>

theorem expiry_raises_before_publishing:
  assumes "\<And>h. lock_revoke en h = Inr ()"
    and "filter (\<lambda>c. ac_active c \<and> ac_valid_until c \<le> clock w) (access_codes (cur w)) \<noteq> []"
    and "auto_revoke_expired_access_codes en None w = (r, w')"
  shows "r = Inl (PyError AttributeError)
    \<and> (\<forall>c\<in>set (access_codes (com w')). ac_active c \<longrightarrow> clock w < ac_valid_until c)
    \<and> (\<exists>calls. out w' = out w @ calls \<and> (\<forall>c\<in>set calls. \<exists>d x. c = LockRevoke d x))"
proof -
  let ?f = "\<lambda>c. c\<lparr>ac_active := False, ac_revoked_at := Some (clock w)\<rparr>"
  let ?rows = "filter (\<lambda>c. ac_active c \<and> ac_valid_until c \<le> clock w) (access_codes (cur w))"
  obtain w1 calls where l: "expire_loop en (clock w) ?rows w = (Inr (), w1)"
    "access_codes (cur w1) = fold (\<lambda>c. row_put ac_id (?f c)) ?rows (access_codes (cur w))"
    "out w1 = out w @ calls" "\<forall>c\<in>set calls. \<exists>d x. c = LockRevoke d x"
    using expire_loop_spec [OF assms(1), of "clock w" ?rows w] by blast
  obtain c cs where cs: "?rows = c # cs" using assms(2) by (cases ?rows) auto
  have p: "publish_checkouts en ?rows (commit w1) = (Inl (PyError AttributeError), commit w1)"
    unfolding cs by (simp add: access_code_reservation_def)
  have rw: "r = Inl (PyError AttributeError)" "w' = commit w1"
    using assms(3) l(1) p assms(2) by (auto simp: auto_revoke_expired_access_codes_def Let_def)
  have "clock w < ac_valid_until c" if c: "c \<in> set (access_codes (cur w1))" "ac_active c" for c
  proof -
    have "(c \<in> set (access_codes (cur w)) \<and> ac_id c \<notin> ac_id ` set ?rows) \<or> (\<exists>x\<in>set ?rows. c = ?f x)"
    proof (rule fold_put_mem [where key = ac_id and f = ?f])
      show "ac_id (?f c) = ac_id c" for c by simp
      show "c \<in> set (fold (\<lambda>c. row_put ac_id (?f c)) ?rows (access_codes (cur w)))"
        using c(1) unfolding l(2) .
    qed
    then have "c \<in> set (access_codes (cur w)) \<and> c \<notin> set ?rows" using c(2) by auto
    then show ?thesis using c(2) by auto
  qed
  then show ?thesis using l(3,4) rw by auto
qed

subsection \<open>Concrete runs\<close>

definition sample_user :: user_row where
  "sample_user = sample_person 3 1 ''ada@example.com'' ''user''"

definition sample_link :: token_row where
  "sample_link = \<lparr>tk_id = 1, tk_subject = 3, tk_hash = ''h:raw'',
     tk_expires_at = sample_clock + seconds 60, tk_used_at = None, tk_created_at = sample_clock\<rparr>"

definition sample_portal :: world where
  "sample_portal = world_of (sample_hotel\<lparr>users := [sample_user], magic_links := [sample_link]\<rparr>)"

theorem magic_link_single_use_witness:
  "fst (authenticate_by_magic_link sample_env ''raw'' sample_portal) = Some sample_user
    \<and> fst (authenticate_by_magic_link sample_env ''raw''
        (snd (authenticate_by_magic_link sample_env ''raw'' sample_portal))) = None"
proof -
  have a: "token_find_active sample_env ''raw'' sample_clock [sample_link] = Some sample_link"
    by (simp add: token_find_active_def sample_link_def hash_token_def sample_env_simps seconds_def us_per_second_def)
  have "authenticate_by_magic_link sample_env ''raw'' sample_portal
      = (Some sample_user, commit (on_db (put_magic_link (token_mark_used sample_clock sample_link)) sample_portal))"
    using a by (simp add: authenticate_by_magic_link_def sample_portal_def sample_user_def row_get_def)
      (simp add: sample_link_def)
  from magic_link_single_use [OF this] this show ?thesis by simp
qed

definition sample_code :: access_code where
  "sample_code = \<lparr>ac_id = 1, ac_reservation = 1, ac_lock = 1, ac_hash = ''h:012345'',
     ac_provider_code = Some ''pc-1'', ac_idem_key = None, ac_valid_from = 0,
     ac_valid_until = sample_clock - seconds 60, ac_active = True, ac_revoked_at = None, ac_revoked_by = None\<rparr>"

definition sample_coded :: world where
  "sample_coded = world_of (sample_hotel\<lparr>access_codes := [sample_code]\<rparr>)"

lemma find_sample_stay:
  "units d = units sample_db \<Longrightarrow> properties d = properties sample_db \<Longrightarrow> reservations d = [sample_stay]
    \<Longrightarrow> find_reservation 1 1 d = Some sample_stay"
  by (simp add: find_reservation_def scoped_reservations_def res_org_def unit_org_def unit_get_def
      property_org_def property_get_def sample_stay_def sample_db_def row_get_def)

theorem revoke_closes_exactly_witness:
  "filter (\<lambda>c. ac_reservation c = 1 \<and> ac_active c) (access_codes (cur (snd
     (revoke_access_codes_for_reservation sample_env 1 1 None ''cancelled'' sample_coded)))) = []"
proof -
  let ?run = "revoke_access_codes_for_reservation sample_env 1 1 None ''cancelled'' sample_coded"
  have f: "find_reservation 1 1 (cur sample_coded) = Some sample_stay"
    by (rule find_sample_stay) (simp_all add: sample_coded_def)
  have rows: "revocable_codes 1 1 (cur sample_coded) = [sample_code]"
    using f by (simp add: revocable_codes_def sample_coded_def sample_code_def)
  obtain v w1 where v: "revoke_at_vendor sample_env sample_code sample_coded = (v, w1)" by fastforce
  have "v = Inr ()"
    using v by (auto simp: revoke_at_vendor_def revoke_access_code_def sample_env_simps lift_py_def
        split: option.splits)
  then have r: "fst ?run = Inr 1"
    by (simp add: revoke_access_codes_for_reservation_def rows v Let_def split_beta)
  have run: "?run = (Inr 1, snd ?run)" using r by (metis prod.collapse)
  have "distinct (map ac_id (access_codes (cur sample_coded)))" by (simp add: sample_coded_def)
  from revoke_closes_exactly [OF run this] f show ?thesis by (auto simp: filter_empty_conv)
qed

theorem access_code_scope_and_window_witness:
  "\<exists>c. access_codes (cur (snd (issue_access_code_for_reservation sample_env 12345 1 1 None None
          (world_of sample_hotel)))) = [c]
      \<and> ac_active c \<and> ac_reservation c = 1 \<and> ac_hash c = ''h:012345''"
proof -
  let ?w = "world_of sample_hotel"
  let ?run = "issue_access_code_for_reservation sample_env 12345 1 1 None None ?w"
  let ?c = "new_access_code sample_env sample_stay sample_lock ''012345'' (Some ''pc-1'') None ?w"
  have f: "find_reservation 1 1 (cur ?w) = Some sample_stay" by (rule find_sample_stay) simp_all
  have l: "find_lock 1 (res_unit sample_stay) (cur ?w) = Some sample_lock"
    by (simp add: find_lock_def sample_stay_def sample_lock_def)
  have d: "fmt0 6 12345 = ''012345''" by (simp add: fmt0_def pad0_def show_nat.simps Let_def)
  have run1: "fst ?run = Inr (Some (?c, ''012345''))"
    unfolding issue_access_code_for_reservation_def f option.case l Let_def d
    by (simp add: provision_access_code_def sample_env_simps lift_py_def text_or_def)
  have run: "?run = (Inr (Some (?c, ''012345'')), snd ?run)" using run1 by (metis prod.collapse)
  from access_code_scope_and_window [OF run] f l show ?thesis
    by (simp add: sample_stay_def hash_token_def sample_env_simps)
qed

theorem expiry_raises_before_publishing_witness:
  "fst (auto_revoke_expired_access_codes sample_env None sample_coded) = Inl (PyError AttributeError)"
proof -
  have ne: "filter (\<lambda>c. ac_active c \<and> ac_valid_until c \<le> clock sample_coded) (access_codes (cur sample_coded)) \<noteq> []"
    by (simp add: sample_coded_def sample_code_def seconds_def us_per_second_def)
  have v: "\<And>h. lock_revoke sample_env h = Inr ()" by (simp add: sample_env_simps)
  show ?thesis
    using expiry_raises_before_publishing [OF v ne, of "fst (auto_revoke_expired_access_codes sample_env None sample_coded)"
        "snd (auto_revoke_expired_access_codes sample_env None sample_coded)"] by simp
qed

end
