(* ===== verification/Reservations.thy ===== *)
theory Reservations
  imports Portal Notifications
begin

text \<open>
  Reservations (app/reservations/services.py): parsing of the request values, the overlap check,
  serializing, and the operations that change a reservation: create, update, move, resize,
  cancel, pay, invoice, and the creation wizard. Each operation is split into the part that
  decides (\<open>..._plan\<close>, the checks in the order of the code and the row to write) and the part
  that writes, commits, mails, revokes door codes and publishes.
\<close>

subsection \<open>Errors\<close>

definition e_res :: "string \<Rightarrow> string \<Rightarrow> nat \<Rightarrow> exn" where
  "e_res code msg status = ServiceError Reservation_service code msg status"

definition e_res_invalid :: "string \<Rightarrow> exn" where
  "e_res_invalid msg = e_res ''validation_error'' msg 400"

definition e_res_not_found :: exn where
  "e_res_not_found = e_res ''not_found'' ''Reservation not found.'' 404"
definition e_res_forbidden :: exn where
  "e_res_forbidden = e_res ''forbidden'' ''Admin privileges required.'' 403"
definition e_res_order :: exn where
  "e_res_order = e_res_invalid ''Field 'start_date' must be before 'end_date'.''"
definition e_res_overlap :: exn where
  "e_res_overlap = e_res_invalid ''Unit already has an overlapping reservation for the given dates.''"
definition e_res_conflict :: exn where
  "e_res_conflict = e_res ''reservation_overlap'' ''Reservation overlaps with another reservation.'' 409"

subsection \<open>Request values\<close>

definition dget :: "string \<Rightarrow> (string \<times> scalar) list \<Rightarrow> scalar" where
  "dget k d = (case map_of d k of None \<Rightarrow> SNone | Some v \<Rightarrow> v)"

definition parse_iso_date :: "string \<Rightarrow> string \<Rightarrow> exn + date" where
  "parse_iso_date raw field =
     (case fromisoformat (strip raw) of
        None \<Rightarrow> Inl (e_res_invalid
          (''Field '' @ [CHR 0x27] @ field @ [CHR 0x27] @ '' must be a valid ISO date (YYYY-MM-DD).''))
      | Some d \<Rightarrow> Inr d)"

text \<open>A quiet NaN passes \<open>quantize\<close>; the comparison with zero then raises.\<close>

definition parse_amount :: "scalar \<Rightarrow> exn + cents option" where
  "parse_amount raw =
     (if raw = SNone then Inr None
      else
        let t = strip (py_str raw) in
        if t = '''' then Inr None
        else case parse_decimal t of
          None \<Rightarrow> Inl (e_res_invalid ''Amount must be a valid decimal number.'')
        | Some d \<Rightarrow>
            (case quantize HalfEven d of
               None \<Rightarrow> Inl (e_res_invalid ''Amount must be a valid decimal number.'')
             | Some (DFin c e) \<Rightarrow>
                 if c < 0 then Inl (e_res_invalid ''Amount must be zero or greater.'') else Inr (Some c)
             | Some _ \<Rightarrow> Inl (PyError InvalidOperation)))"

definition parse_currency :: "scalar \<Rightarrow> exn + string" where
  "parse_currency raw =
     (let t = upper (strip (str_or raw ''EUR'')) in
      if length t \<noteq> 3 \<or> \<not> is_alpha t then Inl (e_res_invalid ''Currency must be a 3-letter ISO code.'')
      else Inr t)"

subsection \<open>Overlap\<close>

definition overlaps :: "int \<Rightarrow> date \<Rightarrow> date \<Rightarrow> reservation \<Rightarrow> bool" where
  "overlaps uid s e r \<longleftrightarrow>
     res_unit r = uid \<and> res_status r \<noteq> ''cancelled'' \<and> res_start r < e \<and> s < res_end r"

definition overlapping :: "int \<Rightarrow> date \<Rightarrow> date \<Rightarrow> int option \<Rightarrow> db \<Rightarrow> reservation option" where
  "overlapping uid s e excl d =
     List.find (\<lambda>r. overlaps uid s e r \<and> excl \<noteq> Some (res_id r)) (reservations d)"

definition validate_reservation_dates_and_overlap ::
  "int \<Rightarrow> string \<Rightarrow> string \<Rightarrow> int option \<Rightarrow> db \<Rightarrow> exn + date \<times> date" where
  "validate_reservation_dates_and_overlap uid s_raw e_raw excl d =
     (case parse_iso_date s_raw ''start_date'' of
        Inl x \<Rightarrow> Inl x
      | Inr s \<Rightarrow>
          (case parse_iso_date e_raw ''end_date'' of
             Inl x \<Rightarrow> Inl x
           | Inr e \<Rightarrow>
               if e \<le> s then Inl e_res_order
               else if overlapping uid s e excl d \<noteq> None then Inl e_res_overlap
               else Inr (s, e)))"

subsection \<open>Names and payloads\<close>

definition guest_full_name :: "guest_row option \<Rightarrow> string" where
  "guest_full_name g =
     (case g of None \<Rightarrow> ''''
      | Some x \<Rightarrow> strip (strip (g_first_name x) @ '' '' @ strip (g_last_name x)))"

definition display_guest_name :: "guest_row option \<Rightarrow> string \<Rightarrow> string" where
  "display_guest_name g name =
     (let plain = (if strip name = '''' then ''Guest'' else strip name) in
      case g of None \<Rightarrow> plain
      | Some x \<Rightarrow>
          if strip (g_first_name x) \<noteq> '''' \<and> strip (g_last_name x) \<noteq> '''' then guest_full_name g
          else if strip (or_empty (g_email x)) \<noteq> '''' then strip (or_empty (g_email x))
          else plain)"

definition res_guest_row :: "reservation \<Rightarrow> db \<Rightarrow> guest_row option" where
  "res_guest_row r d = (case res_guest r of None \<Rightarrow> None | Some g \<Rightarrow> guest_get g d)"

definition serialize_reservation :: "reservation \<Rightarrow> json" where
  "serialize_reservation r =
     JObj [(''id'', JInt (res_id r)), (''unit_id'', JInt (res_unit r)), (''guest_id'', jint (res_guest r)),
       (''guest_name'', JStr (res_guest_name r)), (''start_date'', JStr (isoformat (res_start r))),
       (''end_date'', JStr (isoformat (res_end r))), (''status'', JStr (res_status r)),
       (''amount'', jmoney (res_amount r)), (''currency'', JStr (res_currency r)),
       (''payment_status'', JStr (res_payment_status r)), (''invoice_number'', jstr (res_invoice_number r)),
       (''invoice_date'', jdate (res_invoice_date r)), (''due_date'', jdate (res_due_date r)),
       (''created_at'', JStr (stamp_iso (res_created_at r))),
       (''updated_at'', JStr (stamp_iso (res_updated_at r)))]"

definition reservation_display_dict :: "reservation \<Rightarrow> db \<Rightarrow> json" where
  "reservation_display_dict r d =
     JObj [(''id'', JInt (res_id r)), (''unit_id'', JInt (res_unit r)),
       (''property_id'', jint (map_option u_property (unit_get (res_unit r) d))),
       (''guest_id'', jint (res_guest r)),
       (''guest_name'', JStr (display_guest_name (res_guest_row r d) (res_guest_name r))),
       (''start_date'', JStr (isoformat (res_start r))), (''end_date'', JStr (isoformat (res_end r))),
       (''status'', JStr (res_status r)), (''amount'', jmoney (res_amount r)),
       (''currency'', JStr (res_currency r)), (''payment_status'', JStr (res_payment_status r)),
       (''invoice_number'', jstr (res_invoice_number r)), (''invoice_date'', jdate (res_invoice_date r)),
       (''due_date'', jdate (res_due_date r)), (''property_name'', JStr (property_name_of d (res_unit r))),
       (''unit_name'', JStr (unit_name_of d (res_unit r)))]"

subsection \<open>Reading\<close>

definition list_reservations :: "int \<Rightarrow> db \<Rightarrow> json list" where
  "list_reservations oid d = map serialize_reservation (sort_key res_id (scoped_reservations oid d))"

text \<open>\<open>limit\<close> and \<open>offset\<close> of the page; both are positive at the callers.\<close>

definition list_reservations_paginated :: "int \<Rightarrow> nat \<Rightarrow> nat \<Rightarrow> db \<Rightarrow> json list \<times> nat" where
  "list_reservations_paginated oid page per_page d =
     (let rows = scoped_reservations oid d in
      (map serialize_reservation
         (take per_page (drop ((page - 1) * per_page) (sort_key res_id rows))), length rows))"

definition get_reservation :: "int \<Rightarrow> int \<Rightarrow> db \<Rightarrow> exn + json" where
  "get_reservation oid rid d =
     (case find_reservation oid rid d of
        None \<Rightarrow> Inl e_res_not_found | Some r \<Rightarrow> Inr (serialize_reservation r))"

definition get_reservation_detail :: "int \<Rightarrow> int \<Rightarrow> db \<Rightarrow> exn + json" where
  "get_reservation_detail oid rid d =
     (case find_reservation oid rid d of
        None \<Rightarrow> Inl e_res_not_found | Some r \<Rightarrow> Inr (reservation_display_dict r d))"

definition get_reservation_for_edit :: "int \<Rightarrow> int \<Rightarrow> db \<Rightarrow> exn + json" where
  "get_reservation_for_edit oid rid d =
     (case find_reservation oid rid d of
        None \<Rightarrow> Inl e_res_not_found | Some r \<Rightarrow> Inr (reservation_display_dict r d))"

subsection \<open>Creating\<close>

definition e_res_no_guest_name :: exn where
  "e_res_no_guest_name = e_res_invalid ''Guest name is required when no linked guest is selected.''"

text \<open>\<open>onupdate\<close> fires only when a column really changed.\<close>

definition res_touch :: "world \<Rightarrow> reservation \<Rightarrow> reservation \<Rightarrow> reservation" where
  "res_touch w old new = (if new = old then old else new\<lparr>res_updated_at := clock w\<rparr>)"

text \<open>
  The linked guest and the name on the reservation. An id that is no guest of the organization
  but one of its users is accepted for its e-mail address only.
\<close>

definition create_guest ::
  "int \<Rightarrow> int option \<Rightarrow> string option \<Rightarrow> db \<Rightarrow> exn + guest_row option \<times> string" where
  "create_guest oid gid name d =
     (let given = strip (or_empty name) in
      case gid of
        None \<Rightarrow> Inr (None, given)
      | Some g \<Rightarrow>
          (case find_guest oid g d of
             Some x \<Rightarrow> Inr (Some x, if given = '''' then display_guest_name (Some x) '''' else given)
           | None \<Rightarrow>
               (case user_in_org g oid d of
                  Some u \<Rightarrow> Inr (None, if given = '''' then usr_email u else given)
                | None \<Rightarrow> Inl (e_res ''not_found'' ''Guest not found.'' 404))))"

record create_args =
  ca_unit :: int
  ca_guest :: "int option"
  ca_guest_name :: "string option"
  ca_start :: string
  ca_end :: string
  ca_amount :: scalar
  ca_currency :: scalar
  ca_actor :: "int option"

definition new_reservation ::
  "int \<Rightarrow> guest_row option \<Rightarrow> string \<Rightarrow> date \<Rightarrow> date \<Rightarrow> cents option \<Rightarrow> string \<Rightarrow> world \<Rightarrow> reservation" where
  "new_reservation uid guest name s e amount currency w =
     \<lparr>res_id = next_key T_reservations (cur w), res_unit = uid, res_guest = map_option g_id guest,
      res_guest_name = name, res_start = s, res_end = e, res_status = ''confirmed'',
      res_amount = amount, res_currency = currency, res_payment_status = ''pending'',
      res_invoice_number = None, res_invoice_date = None, res_due_date = None,
      res_created_at = clock w, res_updated_at = clock w\<rparr>"

definition create_plan :: "int \<Rightarrow> create_args \<Rightarrow> world \<Rightarrow> exn + reservation \<times> guest_row option" where
  "create_plan oid a w =
     (case parse_amount (ca_amount a) of
        Inl x \<Rightarrow> Inl x
      | Inr amount \<Rightarrow>
     (case parse_currency (ca_currency a) of
        Inl x \<Rightarrow> Inl x
      | Inr currency \<Rightarrow>
     (case find_unit oid (ca_unit a) (cur w) of
        None \<Rightarrow> Inl (e_res ''not_found'' ''Unit not found.'' 404)
      | Some u \<Rightarrow>
     (case create_guest oid (ca_guest a) (ca_guest_name a) (cur w) of
        Inl x \<Rightarrow> Inl x
      | Inr (guest, name) \<Rightarrow>
          if name = '''' then Inl e_res_no_guest_name
          else
     (case validate_reservation_dates_and_overlap (u_id u) (ca_start a) (ca_end a) None (cur w) of
        Inl x \<Rightarrow> Inl x
      | Inr (s, e) \<Rightarrow> Inr (new_reservation (u_id u) guest name s e amount currency w, guest))))))"

definition created_audit :: "int \<Rightarrow> int option \<Rightarrow> reservation \<Rightarrow> audit_args" where
  "created_audit oid actor r =
     audit_defaults\<lparr>aa_actor_id := actor, aa_org := Some oid, aa_target_type := Some ''reservation'',
       aa_target_id := Some (res_id r),
       aa_context := Some [(''unit_id'', JInt (res_unit r)), (''guest_id'', jint (res_guest r)),
         (''guest_name'', JStr (res_guest_name r)), (''start_date'', JStr (isoformat (res_start r))),
         (''end_date'', JStr (isoformat (res_end r))), (''amount'', jmoney (res_amount r)),
         (''currency'', JStr (res_currency r)), (''payment_status'', JStr (res_payment_status r)),
         (''user_id'', jint actor)],
       aa_commit := True\<rparr>"

definition send_reservation_email ::
  "env \<Rightarrow> string \<Rightarrow> string \<Rightarrow> reservation \<Rightarrow> string \<Rightarrow> world \<Rightarrow> world" where
  "send_reservation_email en key to r name w =
     snd (send_template en key to
       [(''user_email'', JStr to), (''guest_name'', JStr name), (''reservation_id'', JInt (res_id r)),
        (''unit_name'', JStr (unit_name_of (cur w) (res_unit r))),
        (''start_date'', JStr (isoformat (res_start r))), (''end_date'', JStr (isoformat (res_end r)))] w)"

definition mail_guest :: "env \<Rightarrow> string \<Rightarrow> reservation \<Rightarrow> guest_row option \<Rightarrow> world \<Rightarrow> world" where
  "mail_guest en key r guest w =
     (case (case guest of None \<Rightarrow> None | Some g \<Rightarrow> text_or (g_email g) None) of
        None \<Rightarrow> w
      | Some to \<Rightarrow> send_reservation_email en key to r (display_guest_name guest (res_guest_name r)) w)"

definition created_body :: "reservation \<Rightarrow> string" where
  "created_body r = ''Varaus #'' @ show_int (res_id r) @ '' luotiin ajalle '' @ isoformat (res_start r)
     @ '' - '' @ isoformat (res_end r) @ ''.''"

text \<open>What follows the insert; a failure of the lock vendor is logged and ignored.\<close>

definition after_create ::
  "env \<Rightarrow> int \<Rightarrow> int \<Rightarrow> int option \<Rightarrow> reservation \<Rightarrow> guest_row option \<Rightarrow> world \<Rightarrow> world" where
  "after_create en draw oid actor r guest w =
     (let w1 = audit_record en ''reservation_created'' (created_audit oid actor r) (commit w);
          w2 = mail_guest en ''reservation_confirmation'' r guest w1;
          w3 = (if res_status r = ''confirmed''
                then snd (issue_access_code_for_reservation en draw (res_id r) oid actor
                  (Some (''reservation-create-'' @ show_int (res_id r))) w2)
                else w2)
      in publish en ''reservation.created'' oid (build_reservation_created_payload oid r w3) w3)"

definition create_reservation ::
  "env \<Rightarrow> int \<Rightarrow> int \<Rightarrow> create_args \<Rightarrow> world \<Rightarrow> (exn + json) \<times> world" where
  "create_reservation en draw oid a w =
     (case create_plan oid a w of
        Inl x \<Rightarrow> (Inl x, w)
      | Inr (r, guest) \<Rightarrow>
          (case notification_create en oid ''reservation.created'' ''Uusi varaus luotu'' (Some (created_body r))
                  (Some (''/admin/reservations/'' @ show_int (res_id r))) ''info'' None
                  (on_db (add_reservation r) w) of
             (Inl x, w1) \<Rightarrow> (Inl x, w1)
           | (Inr n, w1) \<Rightarrow>
               (Inr (serialize_reservation r), after_create en draw oid (ca_actor a) r guest w1)))"

subsection \<open>Updating\<close>

definition update_guest :: "int \<Rightarrow> (string \<times> scalar) list \<Rightarrow> db \<Rightarrow> exn + guest_row option" where
  "update_guest oid data d =
     (let raw = dget ''guest_id'' data in
      if strip (str_or raw '''') = '''' then Inr None
      else case py_int raw of
        Inl x \<Rightarrow> Inl (e_res_invalid ''Guest must be a valid ID.'')
      | Inr gid \<Rightarrow>
          (case find_guest oid gid d of
             None \<Rightarrow> Inl (e_res_invalid ''Selected guest was not found in your organization.'')
           | Some g \<Rightarrow> Inr (Some g)))"

definition update_unit :: "int \<Rightarrow> (string \<times> scalar) list \<Rightarrow> db \<Rightarrow> exn + unit_row" where
  "update_unit oid data d =
     (case (py_int (dget ''property_id'' data), py_int (dget ''unit_id'' data)) of
        (Inr pid, Inr uid) \<Rightarrow>
          (case find_unit oid uid d of
             Some u \<Rightarrow>
               if u_property u \<noteq> pid
               then Inl (e_res_invalid ''Selected unit does not belong to the chosen property.'')
               else Inr u
           | None \<Rightarrow> Inl (e_res_invalid ''Selected unit does not belong to the chosen property.''))
      | _ \<Rightarrow> Inl (e_res_invalid ''Property and unit must be valid IDs.''))"

text \<open>The dates of a request body, start before end.\<close>

definition payload_dates :: "(string \<times> scalar) list \<Rightarrow> exn + date \<times> date" where
  "payload_dates data =
     (case parse_iso_date (str_or (dget ''start_date'' data) '''') ''start_date'' of
        Inl x \<Rightarrow> Inl x
      | Inr s \<Rightarrow>
          (case parse_iso_date (str_or (dget ''end_date'' data) '''') ''end_date'' of
             Inl x \<Rightarrow> Inl x
           | Inr e \<Rightarrow> if e \<le> s then Inl e_res_order else Inr (s, e)))"

definition update_status :: "(string \<times> scalar) list \<Rightarrow> exn + string" where
  "update_status data =
     (case strip_text (dget ''status'' data) of
        Inl x \<Rightarrow> Inl (PyError x)
      | Inr t \<Rightarrow>
          if lower t \<notin> {''confirmed'', ''cancelled''}
          then Inl (e_res_invalid ''Status must be one of: cancelled, confirmed.'')
          else Inr (lower t))"

definition update_plan ::
  "int \<Rightarrow> int \<Rightarrow> (string \<times> scalar) list \<Rightarrow> world \<Rightarrow> exn + reservation \<times> reservation" where
  "update_plan oid rid data w =
     (case find_reservation oid rid (cur w) of
        None \<Rightarrow> Inl e_res_not_found
      | Some r \<Rightarrow>
     (case strip_text (dget ''guest_name'' data) of
        Inl x \<Rightarrow> Inl (PyError x)
      | Inr given \<Rightarrow>
     (case update_guest oid data (cur w) of
        Inl x \<Rightarrow> Inl x
      | Inr guest \<Rightarrow>
          let name = (if given = '''' then display_guest_name guest '''' else given) in
          if name = '''' then Inl e_res_no_guest_name
          else
     (case update_unit oid data (cur w) of
        Inl x \<Rightarrow> Inl x
      | Inr u \<Rightarrow>
     (case payload_dates data of
        Inl x \<Rightarrow> Inl x
      | Inr (s, e) \<Rightarrow>
     (case update_status data of
        Inl x \<Rightarrow> Inl x
      | Inr st \<Rightarrow>
     (case parse_amount (dget ''amount'' data) of
        Inl x \<Rightarrow> Inl x
      | Inr amount \<Rightarrow>
     (case parse_currency (dget ''currency'' data) of
        Inl x \<Rightarrow> Inl x
      | Inr currency \<Rightarrow>
     (case (if st = ''confirmed''
            then validate_reservation_dates_and_overlap (u_id u) (isoformat s) (isoformat e) (Some rid) (cur w)
            else Inr (s, e)) of
        Inl x \<Rightarrow> Inl x
      | Inr _ \<Rightarrow>
          Inr (r, res_touch w r (r\<lparr>res_unit := u_id u, res_guest := map_option g_id guest,
            res_guest_name := name, res_start := s, res_end := e, res_status := st,
            res_amount := amount, res_currency := currency\<rparr>)))))))))))"

definition res_snapshot :: "reservation \<Rightarrow> json" where
  "res_snapshot r =
     JObj [(''unit_id'', JInt (res_unit r)), (''guest_id'', jint (res_guest r)),
       (''guest_name'', JStr (res_guest_name r)), (''start_date'', JStr (isoformat (res_start r))),
       (''end_date'', JStr (isoformat (res_end r))), (''status'', JStr (res_status r)),
       (''amount'', jmoney (res_amount r)), (''currency'', JStr (res_currency r)),
       (''payment_status'', JStr (res_payment_status r))]"

definition res_change_audit :: "int \<Rightarrow> int option \<Rightarrow> int \<Rightarrow> json \<Rightarrow> json \<Rightarrow> audit_args" where
  "res_change_audit oid actor rid before after =
     audit_defaults\<lparr>aa_actor_id := actor, aa_org := Some oid, aa_target_type := Some ''reservation'',
       aa_target_id := Some rid,
       aa_context := Some [(''before'', before), (''after'', after), (''user_id'', jint actor)]\<rparr>"

text \<open>Writing a changed reservation, its audit row, and the commit.\<close>

definition save_reservation ::
  "env \<Rightarrow> string \<Rightarrow> audit_args \<Rightarrow> reservation \<Rightarrow> world \<Rightarrow> world" where
  "save_reservation en action a r w =
     commit (audit_record en action a (on_db (put_reservation r) w))"

definition update_revoke ::
  "env \<Rightarrow> int \<Rightarrow> int option \<Rightarrow> reservation \<Rightarrow> reservation \<Rightarrow> world \<Rightarrow> (exn + int) \<times> world" where
  "update_revoke en oid actor old r w =
     (if res_status r = ''cancelled''
      then revoke_access_codes_for_reservation en (res_id r) oid actor ''reservation_cancelled'' w
      else if isoformat (res_end old) \<noteq> isoformat (res_end r)
      then revoke_access_codes_for_reservation en (res_id r) oid actor ''reservation_resized'' w
      else (Inr 0, w))"

definition update_reservation ::
  "env \<Rightarrow> int \<Rightarrow> int \<Rightarrow> (string \<times> scalar) list \<Rightarrow> int option \<Rightarrow> world \<Rightarrow> (exn + json) \<times> world" where
  "update_reservation en rid oid data actor w =
     (case update_plan oid rid data w of
        Inl x \<Rightarrow> (Inl x, w)
      | Inr (old, r) \<Rightarrow>
          (case update_revoke en oid actor old r
                  (save_reservation en ''reservation_updated''
                    (res_change_audit oid actor (res_id r) (res_snapshot old) (res_snapshot r)) r w) of
             (Inl x, w1) \<Rightarrow> (Inl x, w1)
           | (Inr n, w1) \<Rightarrow>
               (Inr (serialize_reservation r),
                publish en ''reservation.updated'' oid (build_reservation_updated_payload oid r w1) w1)))"

subsection \<open>Moving and resizing\<close>

definition is_admin_role :: "string option \<Rightarrow> bool" where
  "is_admin_role role \<longleftrightarrow> role \<in> {Some ''admin'', Some ''superadmin''}"

text \<open>The row is locked by its id first; the tenant check follows.\<close>

definition lock_reservation :: "int \<Rightarrow> int \<Rightarrow> db \<Rightarrow> exn + reservation" where
  "lock_reservation oid rid d =
     (case row_get res_id rid (reservations d) of
        None \<Rightarrow> Inl e_res_not_found
      | Some r \<Rightarrow> if find_unit oid (res_unit r) d = None then Inl e_res_not_found else Inr r)"

definition move_unit :: "int \<Rightarrow> (string \<times> scalar) list \<Rightarrow> db \<Rightarrow> exn + unit_row" where
  "move_unit oid data d =
     (case py_int (dget ''unit_id'' data) of
        Inl x \<Rightarrow> Inl (e_res_invalid ''Field 'unit_id' must be a valid integer.'')
      | Inr uid \<Rightarrow>
          (case find_unit oid uid d of
             None \<Rightarrow> Inl (e_res_invalid ''Unit not found.'') | Some u \<Rightarrow> Inr u))"

definition move_plan ::
  "int \<Rightarrow> int \<Rightarrow> (string \<times> scalar) list \<Rightarrow> string option \<Rightarrow> world \<Rightarrow> exn + reservation \<times> reservation" where
  "move_plan oid rid data role w =
     (if \<not> is_admin_role role then Inl e_res_forbidden
      else
     (case payload_dates data of
        Inl x \<Rightarrow> Inl x
      | Inr (s, e) \<Rightarrow>
     (case move_unit oid data (cur w) of
        Inl x \<Rightarrow> Inl x
      | Inr u \<Rightarrow>
     (case lock_reservation oid rid (cur w) of
        Inl x \<Rightarrow> Inl x
      | Inr r \<Rightarrow>
          if res_status r = ''confirmed'' \<and> overlapping (u_id u) s e (Some rid) (cur w) \<noteq> None
          then Inl e_res_conflict
          else Inr (r, res_touch w r (r\<lparr>res_unit := u_id u, res_start := s, res_end := e\<rparr>))))))"

definition stay_snapshot :: "reservation \<Rightarrow> (string \<times> json) list" where
  "stay_snapshot r =
     [(''start_date'', JStr (isoformat (res_start r))), (''end_date'', JStr (isoformat (res_end r))),
      (''status'', JStr (res_status r))]"

definition moved_snapshot :: "reservation \<Rightarrow> json" where
  "moved_snapshot r = JObj ((''unit_id'', JInt (res_unit r)) # stay_snapshot r)"

definition move_reservation ::
  "env \<Rightarrow> int \<Rightarrow> int \<Rightarrow> (string \<times> scalar) list \<Rightarrow> int option \<Rightarrow> string option \<Rightarrow> world
   \<Rightarrow> (exn + json) \<times> world" where
  "move_reservation en rid oid data actor role w =
     (case move_plan oid rid data role w of
        Inl x \<Rightarrow> (Inl x, w)
      | Inr (old, r) \<Rightarrow>
          (Inr (serialize_reservation r),
           save_reservation en ''reservation_moved''
             (res_change_audit oid actor (res_id r) (moved_snapshot old) (moved_snapshot r)) r w))"

definition resize_plan ::
  "int \<Rightarrow> int \<Rightarrow> (string \<times> scalar) list \<Rightarrow> string option \<Rightarrow> world \<Rightarrow> exn + reservation \<times> reservation" where
  "resize_plan oid rid data role w =
     (if \<not> is_admin_role role then Inl e_res_forbidden
      else
     (case payload_dates data of
        Inl x \<Rightarrow> Inl x
      | Inr (s, e) \<Rightarrow>
     (case lock_reservation oid rid (cur w) of
        Inl x \<Rightarrow> Inl x
      | Inr r \<Rightarrow>
          if res_status r = ''confirmed'' \<and> overlapping (res_unit r) s e (Some rid) (cur w) \<noteq> None
          then Inl e_res_conflict
          else Inr (r, res_touch w r (r\<lparr>res_start := s, res_end := e\<rparr>)))))"

definition resize_reservation ::
  "env \<Rightarrow> int \<Rightarrow> int \<Rightarrow> (string \<times> scalar) list \<Rightarrow> int option \<Rightarrow> string option \<Rightarrow> world
   \<Rightarrow> (exn + json) \<times> world" where
  "resize_reservation en rid oid data actor role w =
     (case resize_plan oid rid data role w of
        Inl x \<Rightarrow> (Inl x, w)
      | Inr (old, r) \<Rightarrow>
          (Inr (serialize_reservation r),
           save_reservation en ''reservation_resized''
             (res_change_audit oid actor (res_id r) (JObj (stay_snapshot old)) (JObj (stay_snapshot r))) r w))"

subsection \<open>Cancelling and paying\<close>

definition cancelled :: "world \<Rightarrow> reservation \<Rightarrow> reservation" where
  "cancelled w r = r\<lparr>res_status := ''cancelled'',
     res_payment_status := (if res_payment_status r \<noteq> ''paid'' then ''cancelled'' else res_payment_status r),
     res_updated_at := clock w\<rparr>"

definition cancelled_audit :: "int \<Rightarrow> int option \<Rightarrow> reservation \<Rightarrow> audit_args" where
  "cancelled_audit oid actor r =
     audit_defaults\<lparr>aa_actor_id := actor, aa_org := Some oid, aa_target_type := Some ''reservation'',
       aa_target_id := Some (res_id r),
       aa_context := Some [(''unit_id'', JInt (res_unit r)), (''guest_id'', jint (res_guest r)),
         (''user_id'', jint actor)]\<rparr>"

text \<open>What follows the commit; a failure of the lock vendor is logged and ignored.\<close>

definition after_cancel :: "env \<Rightarrow> int \<Rightarrow> int option \<Rightarrow> reservation \<Rightarrow> world \<Rightarrow> world" where
  "after_cancel en oid actor r w =
     (let w1 = mail_guest en ''reservation_cancelled'' r (res_guest_row r (cur w)) w;
          w2 = snd (revoke_access_codes_for_reservation en (res_id r) oid actor ''reservation_cancelled'' w1)
      in publish en ''reservation.cancelled'' oid (build_reservation_cancelled_payload oid r w2) w2)"

definition cancel_reservation ::
  "env \<Rightarrow> int \<Rightarrow> int \<Rightarrow> int option \<Rightarrow> world \<Rightarrow> (exn + json) \<times> world" where
  "cancel_reservation en oid rid actor w =
     (case find_reservation oid rid (cur w) of
        None \<Rightarrow> (Inl e_res_not_found, w)
      | Some r \<Rightarrow>
          if res_status r = ''cancelled'' then (Inr (serialize_reservation r), w)
          else
            let r1 = cancelled w r in
            (Inr (serialize_reservation r1),
             after_cancel en oid actor r1
               (save_reservation en ''reservation_cancelled'' (cancelled_audit oid actor r1) r1 w)))"

definition mark_reservation_paid ::
  "env \<Rightarrow> int \<Rightarrow> int \<Rightarrow> user_row \<Rightarrow> world \<Rightarrow> (exn + json) \<times> world" where
  "mark_reservation_paid en rid oid u w =
     (if \<not> is_admin_role (Some (usr_role u)) then (Inl e_res_forbidden, w)
      else case find_reservation oid rid (cur w) of
        None \<Rightarrow> (Inl e_res_not_found, w)
      | Some r \<Rightarrow>
          if res_payment_status r = ''paid'' then (Inr (serialize_reservation r), w)
          else if res_payment_status r \<notin> {''pending'', ''paid'', ''cancelled''}
          then (Inl (e_res_invalid ''Reservation has an invalid payment status.''), w)
          else
            let r1 = r\<lparr>res_payment_status := ''paid'', res_updated_at := clock w\<rparr> in
            (Inr (serialize_reservation r1),
             save_reservation en ''reservation_paid''
               (res_change_audit oid (Some (usr_id u)) (res_id r1)
                 (JObj [(''payment_status'', JStr (res_payment_status r))])
                 (JObj [(''payment_status'', JStr (res_payment_status r1))])) r1 w))"

subsection \<open>The invoice of a reservation\<close>

definition next_invoice_number :: "int \<Rightarrow> int \<Rightarrow> string" where
  "next_invoice_number oid rid = ''INV-'' @ show_int oid @ ''-'' @ fmt0 6 rid"

text \<open>The lines written on the page; their layout is not modelled.\<close>

definition invoice_pdf_lines :: "reservation \<Rightarrow> int \<Rightarrow> db \<Rightarrow> string list" where
  "invoice_pdf_lines r oid d =
     (let number = (case text_or (res_invoice_number r) None of
            None \<Rightarrow> next_invoice_number oid (res_id r) | Some n \<Rightarrow> n);
          day = (\<lambda>x. case x of None \<Rightarrow> ''-'' | Some t \<Rightarrow> isoformat t);
          mail = (case res_guest_row r d of None \<Rightarrow> '''' | Some g \<Rightarrow> or_empty (g_email g))
      in [''Pin PMS Invoice'', ''Invoice number: '' @ number,
          ''Invoice date: '' @ day (res_invoice_date r), ''Due date: '' @ day (res_due_date r),
          ''Guest name: '' @ res_guest_name r,
          ''Guest email: '' @ (if mail = '''' then ''-'' else mail),
          ''Property: '' @ property_name_of d (res_unit r), ''Unit: '' @ unit_name_of d (res_unit r),
          ''Reservation start: '' @ isoformat (res_start r), ''Reservation end: '' @ isoformat (res_end r),
          ''Amount: '' @ (case res_amount r of None \<Rightarrow> ''-'' | Some c \<Rightarrow> money_str c),
          ''Currency: '' @ res_currency r, ''Payment status: '' @ res_payment_status r])"

definition invoiced :: "env \<Rightarrow> int \<Rightarrow> world \<Rightarrow> reservation \<Rightarrow> reservation" where
  "invoiced en oid w r =
     (let number = (case text_or (res_invoice_number r) None of
            None \<Rightarrow> next_invoice_number oid (res_id r) | Some n \<Rightarrow> n);
          issued = (case res_invoice_date r of None \<Rightarrow> local_today en | Some t \<Rightarrow> t);
          due = (case res_due_date r of None \<Rightarrow> issued + 14 | Some t \<Rightarrow> t)
      in res_touch w r (r\<lparr>res_invoice_number := Some number, res_invoice_date := Some issued,
           res_due_date := Some due\<rparr>))"

definition invoiced_audit :: "int \<Rightarrow> int \<Rightarrow> reservation \<Rightarrow> audit_args" where
  "invoiced_audit oid actor r =
     audit_defaults\<lparr>aa_actor_id := Some actor, aa_org := Some oid, aa_target_type := Some ''reservation'',
       aa_target_id := Some (res_id r),
       aa_context := Some [(''invoice_number'', jstr (res_invoice_number r)),
         (''invoice_date'', jdate (res_invoice_date r)), (''due_date'', jdate (res_due_date r)),
         (''payment_status'', JStr (res_payment_status r)), (''amount'', jmoney (res_amount r)),
         (''currency'', JStr (res_currency r)), (''user_id'', JInt actor)]\<rparr>"

text \<open>The result is the file name and the lines of the page.\<close>

definition generate_invoice ::
  "env \<Rightarrow> int \<Rightarrow> int \<Rightarrow> user_row \<Rightarrow> world \<Rightarrow> (exn + string \<times> string list) \<times> world" where
  "generate_invoice en rid oid u w =
     (if \<not> is_admin_role (Some (usr_role u)) then (Inl e_res_forbidden, w)
      else case find_reservation oid rid (cur w) of
        None \<Rightarrow> (Inl e_res_not_found, w)
      | Some r \<Rightarrow>
          let r1 = invoiced en oid w r;
              w1 = save_reservation en ''invoice_generated'' (invoiced_audit oid (usr_id u) r1) r1 w
          in (Inr (''invoice-'' @ (case text_or (res_invoice_number r1) None of
                     None \<Rightarrow> show_int (res_id r1) | Some n \<Rightarrow> n) @ ''.pdf'',
                   invoice_pdf_lines r1 oid (cur w1)), w1))"

subsection \<open>The wizard\<close>

definition ae :: string where "ae = [CHR 0xE4]"
definition oe :: string where "oe = [CHR 0xF6]"

definition wizard_state_empty :: "(string \<times> scalar) list" where
  "wizard_state_empty = [(''property_id'', SNone), (''unit_id'', SNone), (''check_in'', SNone),
     (''check_out'', SNone), (''guest_id'', SNone), (''guest_name'', SNone), (''amount'', SNone),
     (''currency'', SStr ''EUR'')]"

definition get_property_for_wizard :: "int \<Rightarrow> int \<Rightarrow> db \<Rightarrow> exn + property_row" where
  "get_property_for_wizard oid pid d =
     (case find_property oid pid d of
        None \<Rightarrow> Inl (e_res_invalid ''Valittu kohde ei kuulu organisaatioosi.'') | Some p \<Rightarrow> Inr p)"

definition get_unit_for_wizard :: "int \<Rightarrow> int \<Rightarrow> int \<Rightarrow> db \<Rightarrow> exn + unit_row" where
  "get_unit_for_wizard oid pid uid d =
     (case List.find (\<lambda>u. u_id u = uid \<and> u_property u = pid \<and> property_org (u_property u) d = Some oid)
             (units d) of
        None \<Rightarrow> Inl (e_res_invalid ''Valittu huone ei kuulu valittuun kohteeseen.'') | Some u \<Rightarrow> Inr u)"

definition wizard_message :: "exn \<Rightarrow> exn" where
  "wizard_message x =
     (case x of
        ServiceError sv code msg st \<Rightarrow>
          if code = ''validation_error'' \<and> contains (''before 'end_date'' @ [CHR 0x27]) msg
          then ServiceError sv code (''Saapumisp'' @ ae @ ''iv'' @ ae @ ''n on oltava ennen l'' @ ae @ ''ht''
            @ oe @ ''p'' @ ae @ ''iv'' @ ae @ ae @ ''.'') st
          else if code = ''validation_error'' \<and> contains ''overlapping'' msg
          then ServiceError sv code (''Huoneella on jo p'' @ ae @ ae @ ''llekk'' @ ae
            @ ''inen varaus valituilla p'' @ ae @ ''ivill'' @ ae @ ''.'') st
          else x
      | _ \<Rightarrow> x)"

definition validate_wizard_step_dates ::
  "int \<Rightarrow> int \<Rightarrow> int \<Rightarrow> string \<Rightarrow> string \<Rightarrow> db \<Rightarrow> exn + date \<times> date" where
  "validate_wizard_step_dates oid pid uid s_raw e_raw d =
     (case get_property_for_wizard oid pid d of
        Inl x \<Rightarrow> Inl x
      | Inr p \<Rightarrow>
          (case get_unit_for_wizard oid pid uid d of
             Inl x \<Rightarrow> Inl x
           | Inr u \<Rightarrow>
               (case validate_reservation_dates_and_overlap (u_id u) s_raw e_raw None d of
                  Inl x \<Rightarrow> Inl (wizard_message x) | Inr se \<Rightarrow> Inr se)))"

record preview =
  pv_property :: property_row
  pv_unit :: unit_row
  pv_check_in :: string
  pv_check_out :: string
  pv_guest :: "guest_row option"
  pv_guest_name :: string
  pv_amount :: "string option"
  pv_currency :: string

text \<open>\<open>int(...)\<close> of a session value is not guarded here.\<close>

definition preview_guest ::
  "int \<Rightarrow> (string \<times> scalar) list \<Rightarrow> db \<Rightarrow> exn + guest_row option \<times> string" where
  "preview_guest oid st d =
     (case strip_text (dget ''guest_name'' st) of
        Inl x \<Rightarrow> Inl (PyError x)
      | Inr label \<Rightarrow>
          if dget ''guest_id'' st = SNone then Inr (None, label)
          else case py_int (dget ''guest_id'' st) of
            Inl x \<Rightarrow> Inl (PyError x)
          | Inr gid \<Rightarrow>
              (case find_guest oid gid d of
                 None \<Rightarrow> Inl (e_res_invalid (''Valittua vierasta ei l'' @ oe @ ''ytynyt.''))
               | Some g \<Rightarrow> Inr (Some g, display_guest_name (Some g) label)))"

definition preview_place ::
  "int \<Rightarrow> (string \<times> scalar) list \<Rightarrow> db \<Rightarrow> exn + property_row \<times> unit_row" where
  "preview_place oid st d =
     (case py_int (dget ''property_id'' st) of
        Inl x \<Rightarrow> Inl (PyError x)
      | Inr pid \<Rightarrow>
     (case get_property_for_wizard oid pid d of
        Inl x \<Rightarrow> Inl x
      | Inr p \<Rightarrow>
     (case py_int (dget ''unit_id'' st) of
        Inl x \<Rightarrow> Inl (PyError x)
      | Inr uid \<Rightarrow>
     (case get_unit_for_wizard oid pid uid d of
        Inl x \<Rightarrow> Inl x | Inr u \<Rightarrow> Inr (p, u)))))"

definition build_reservation_preview :: "int \<Rightarrow> (string \<times> scalar) list \<Rightarrow> db \<Rightarrow> exn + preview" where
  "build_reservation_preview oid st d =
     (if \<not> truthy (dget ''property_id'' st) \<or> \<not> truthy (dget ''unit_id'' st)
         \<or> \<not> truthy (dget ''check_in'' st) \<or> \<not> truthy (dget ''check_out'' st)
      then Inl (e_res_invalid ''Varauksen tiedot ovat puutteellisia.'')
      else
     (case preview_place oid st d of
        Inl x \<Rightarrow> Inl x
      | Inr (p, u) \<Rightarrow>
     (case preview_guest oid st d of
        Inl x \<Rightarrow> Inl x
      | Inr (guest, label) \<Rightarrow>
     (case parse_amount (dget ''amount'' st) of
        Inl x \<Rightarrow> Inl x
      | Inr amount \<Rightarrow>
     (case parse_currency (dget ''currency'' st) of
        Inl x \<Rightarrow> Inl x
      | Inr currency \<Rightarrow>
          Inr \<lparr>pv_property = p, pv_unit = u, pv_check_in = py_str (dget ''check_in'' st),
            pv_check_out = py_str (dget ''check_out'' st), pv_guest = guest, pv_guest_name = label,
            pv_amount = map_option money_str amount, pv_currency = currency\<rparr>)))))"

text \<open>The arguments the wizard passes on to \<open>create_reservation\<close>.\<close>

definition wizard_args :: "(string \<times> scalar) list \<Rightarrow> preview \<Rightarrow> int option \<Rightarrow> create_args" where
  "wizard_args st p actor =
     \<lparr>ca_unit = u_id (pv_unit p), ca_guest = map_option g_id (pv_guest p),
      ca_guest_name = none_if_empty (pv_guest_name p), ca_start = pv_check_in p,
      ca_end = pv_check_out p, ca_amount = dget ''amount'' st,
      ca_currency = (if truthy (dget ''currency'' st) then dget ''currency'' st else SStr ''EUR''),
      ca_actor = actor\<rparr>"

definition create_reservation_from_wizard ::
  "env \<Rightarrow> int \<Rightarrow> int \<Rightarrow> (string \<times> scalar) list \<Rightarrow> int option \<Rightarrow> world \<Rightarrow> (exn + json) \<times> world" where
  "create_reservation_from_wizard en draw oid st actor w =
     (case build_reservation_preview oid st (cur w) of
        Inl x \<Rightarrow> (Inl x, w)
      | Inr p \<Rightarrow> create_reservation en draw oid (wizard_args st p actor) w)"

end
