(* ===== verification/Frame.thy ===== *)
theory Frame
  imports Portal Notifications
begin

text \<open>
  What the side effects of a business operation leave alone. Audit rows, notifications, mail,
  webhooks and door codes live in tables of their own; \<open>core\<close> is the rest of the database.
  \<open>aside\<close> relates two worlds whose core is the same and whose committed core is one of the two
  the operation started with. \<open>side_effect\<close> is the interface of an operation that only works
  aside; every such operation of the program is an interpretation.
\<close>

definition side_tables :: "table list" where
  "side_tables = [T_audit, T_notifications, T_email, T_webhook_subs, T_deliveries, T_access_codes]"

definition core :: "db \<Rightarrow> db" where
  "core d = d\<lparr>access_codes := [], audit_logs := [], notifications := [], email_queue := [],
     webhook_subs := [], webhook_deliveries := [],
     seqs := (\<lambda>t. if t \<in> set side_tables then 0 else seqs d t)\<rparr>"

lemma core_tables:
  assumes "core d' = core d"
  shows "reservations d' = reservations d" "units d' = units d" "properties d' = properties d"
    "guests d' = guests d" "users d' = users d" "leases d' = leases d" "invoices d' = invoices d"
    "payments d' = payments d" "refunds d' = refunds d" "lease_templates d' = lease_templates d"
    "maintenance d' = maintenance d" "settings d' = settings d" "locks d' = locks d"
    "email_templates d' = email_templates d" "orgs d' = orgs d" "checkins d' = checkins d"
    "t \<notin> set side_tables \<Longrightarrow> seqs d' t = seqs d t"
  using arg_cong [OF assms, of reservations] arg_cong [OF assms, of units]
    arg_cong [OF assms, of properties] arg_cong [OF assms, of guests] arg_cong [OF assms, of users]
    arg_cong [OF assms, of leases] arg_cong [OF assms, of invoices] arg_cong [OF assms, of payments]
    arg_cong [OF assms, of refunds] arg_cong [OF assms, of lease_templates]
    arg_cong [OF assms, of maintenance] arg_cong [OF assms, of settings] arg_cong [OF assms, of locks]
    arg_cong [OF assms, of email_templates] arg_cong [OF assms, of orgs] arg_cong [OF assms, of checkins]
    arg_cong [OF assms, of "\<lambda>d. seqs d t"]
  by (simp_all add: core_def)

lemma core_adds [simp]:
  "core (add_audit e d) = core d" "core (add_notification n d) = core d" "core (put_notification n d) = core d"
  "core (add_email m d) = core d" "core (add_access_code c d) = core d" "core (put_access_code c d) = core d"
  "core (put_webhook_sub s d) = core d" "core (add_delivery x d) = core d" "core (put_delivery x d) = core d"
  by (rule db.equality; simp add: core_def side_tables_def fun_eq_iff)+

definition aside :: "world \<Rightarrow> world \<Rightarrow> bool" where
  "aside w w' \<longleftrightarrow> core (cur w') = core (cur w) \<and> core (com w') \<in> {core (com w), core (cur w)}
     \<and> clock w' = clock w"

lemma aside_refl [simp]: "aside w w"
  by (simp add: aside_def)

lemma aside_trans [trans]: "aside u v \<Longrightarrow> aside v w \<Longrightarrow> aside u w"
  by (auto simp: aside_def)

lemma aside_commit [simp]: "aside w (commit w)" by (simp add: aside_def)

lemma aside_call [simp]: "aside w (call_out c w)" by (simp add: aside_def)

lemma aside_audit [simp]: "aside w (audit_record en act a w)"
  by (cases "aa_commit a") (simp_all add: aside_def del: add_audit_def)

locale side_effect =
  fixes eff :: "'a \<Rightarrow> world \<Rightarrow> world"
  assumes aside: "aside w (eff a w)"
begin

lemma after: "aside v w \<Longrightarrow> aside v (eff a w)"
  by (rule aside_trans [OF _ aside])

lemma fold_aside: "aside v w \<Longrightarrow> aside v (fold eff xs w)"
  by (induction xs arbitrary: w) (simp_all add: after)

lemma core_eff: "core (cur (eff a w)) = core (cur w)"
  using aside by (simp add: aside_def)

lemma keeps: "(\<And>d d'. core d' = core d \<Longrightarrow> P d' = P d) \<Longrightarrow> P (cur (eff a w)) = P (cur w)"
  using core_eff by blast

end

subsection \<open>Notifications, mail, webhooks, door codes\<close>

interpretation notify: side_effect "\<lambda>(en, oid, ty, title, body, link, sev, uid) w.
    snd (notification_create en oid ty title body link sev uid w)"
proof (unfold_locales, clarify)
  fix w en oid ty title body link sev uid
  obtain r w' where n: "notification_create en oid ty title body link sev uid w = (r, w')" by fastforce
  have "aside w w'"
    by (rule notification_create_cases [OF n]) (simp_all add: aside_def del: add_audit_def add_notification_def)
  then show "aside w (snd (notification_create en oid ty title body link sev uid w))" by (simp add: n)
qed

lemma aside_queue: "aside w (audit_record en act a (commit (on_db (add_email m) w)))"
proof -
  have "aside w (commit (on_db (add_email m) w))" by (simp add: aside_def del: add_email_def)
  then show ?thesis by (rule aside_trans) simp
qed

lemma aside_send_rendered: "aside w (snd (send_rendered en key to s b w))"
proof -
  have "aside w (audit_record en act a (call_out c w))" for act a c by (rule aside_trans [OF aside_call aside_audit])
  then show ?thesis by (simp add: send_rendered_def Let_def split: sum.split prod.split)
qed

interpretation mail: side_effect "\<lambda>(en, key, to, ctx) w. snd (send_template en key to ctx w)"
proof (unfold_locales, clarify)
  fix w en key to ctx
  obtain r w' where s: "send_template en key to ctx w = (r, w')" by fastforce
  have sent: "aside w v" if "send_rendered en key to sb b w = (ok, v)" for sb b ok v
    using aside_send_rendered [of w en key to sb b] that by simp
  have "aside w w'"
    by (rule send_template_cases [OF s])
      (auto simp: render_failed_def aside_queue simp del: add_email_def intro: sent)
  then show "aside w (snd (send_template en key to ctx w))" by (simp add: s)
qed

interpretation hook: side_effect "\<lambda>(en, ev, p, sid) w. dispatch_one en ev p sid w"
proof (unfold_locales, clarify)
  fix w en ev p sid
  obtain r w' where s: "dispatch en sid ev p w = (r, w')" by fastforce
  have store: "aside w (store_attempt en st b wt sub d w)" for w st b wt sub d
    by (simp add: store_attempt_def Let_def aside_def del: add_audit_def put_webhook_sub_def put_delivery_def)
  have "aside w w'"
  proof (rule dispatch_cases [OF s])
    fix sub secret st bd d w2 a
    assume w2: "w2 = call_out (WebhookPost (ws_url sub) (json_dumps_sorted p)
              (hmac256 en secret (json_dumps_sorted p))) (on_db (add_delivery d) w)"
      and w': "w' = audit_record en ''webhook.dispatched'' a (store_attempt en st bd 60 sub d w2)"
    have "aside w w2" by (simp add: w2 aside_def del: add_delivery_def)
    then show ?thesis unfolding w' by (meson aside_trans aside_audit store)
  qed simp
  then show "aside w (dispatch_one en ev p sid w)" by (simp add: s dispatch_one_def)
qed

interpretation publishing: side_effect "\<lambda>(en, ev, org, p) w. publish en ev org p w"
proof (unfold_locales, clarify)
  fix w en ev org p
  have h: "aside w (dispatch_head en ev p ids w)" for ids w
    unfolding dispatch_head_def
    by (induction ids arbitrary: w) (auto intro: aside_trans [OF hook.aside [of _ "(en, ev, p, _)", simplified]])
  show "aside w (publish en ev org p w)"
    unfolding publish_def Let_def
    by (simp; meson aside_trans aside_audit aside_call h)
qed

lemma core_codes_only: "codes_only d d' \<Longrightarrow> core d' = core d"
proof -
  assume "codes_only d d'"
  then obtain a c s where "d' = d\<lparr>access_codes := c, audit_logs := a, seqs := s\<rparr>"
    and "\<forall>t. t \<noteq> T_audit \<longrightarrow> s t = seqs d t"
    unfolding codes_only_def by blast
  then show "core d' = core d"
    by (intro db.equality) (auto simp: core_def side_tables_def fun_eq_iff)
qed

interpretation revoking: side_effect "\<lambda>(en, rid, oid, actor, reason) w.
    snd (revoke_access_codes_for_reservation en rid oid actor reason w)"
proof (unfold_locales, clarify)
  fix w en rid oid actor reason
  obtain r w1 where l: "revoke_loop en oid rid actor reason (revocable_codes rid oid (cur w)) w = (r, w1)" by fastforce
  have "codes_only (cur w) (cur w1)" "com w1 = com w" "clock w1 = clock w" using revoke_loop_spec [OF l] by blast+
  then have a: "aside w w1" by (simp add: aside_def core_codes_only)
  then have "aside w (commit w1)" by (rule aside_trans) simp
  then show "aside w (snd (revoke_access_codes_for_reservation en rid oid actor reason w))"
    using a by (cases r) (simp_all add: revoke_access_codes_for_reservation_def Let_def l)
qed

interpretation issuing: side_effect "\<lambda>(en, draw, rid, oid, actor, key) w.
    snd (issue_access_code_for_reservation en draw rid oid actor key w)"
proof (unfold_locales, clarify)
  fix w en draw rid oid actor key
  have a: "aside w (commit (audit_record en act x (on_db (add_access_code c) v)))"
    if "cur v = cur w" "com v = com w" "clock v = clock w" for act x c v
    using that by (cases "aa_commit x") (simp_all add: aside_def del: add_audit_def add_access_code_def)
  show "aside w (snd (issue_access_code_for_reservation en draw rid oid actor key w))"
    by (auto simp: issue_access_code_for_reservation_def provision_access_code_def Let_def
        simp del: add_access_code_def intro!: a split: option.split sum.split)
qed

end
