(* ===== verification/Bookings.thy ===== *)
theory Bookings
  imports Reservations Frame
begin

text \<open>
  What the reservation operations guarantee together. \<open>booking_op\<close> lists the operations,
  \<open>run_booking\<close> runs one for a tenant, and \<open>booking_reachable\<close> is every state a sequence of them
  (and of work elsewhere, commits and aborted requests) leads to. Main facts: no unit is ever
  booked twice for a night, an overlap is refused exactly when a night is taken, the operations
  refine a calendar of nights, and one tenant never changes another tenant's reservations.
\<close>

subsection \<open>The operations\<close>

datatype booking_op =
    Create int create_args
  | Wizard int "(string \<times> scalar) list" "int option"
  | Update int "(string \<times> scalar) list" "int option"
  | Move int "(string \<times> scalar) list" "int option" "string option"
  | Resize int "(string \<times> scalar) list" "int option" "string option"
  | Cancel int "int option"
  | Pay int user_row
  | Bill int user_row

definition drop_result :: "(exn + 'a) \<times> world \<Rightarrow> (exn + unit) \<times> world" where
  "drop_result x = (case x of (Inl e, w) \<Rightarrow> (Inl e, w) | (Inr _, w) \<Rightarrow> (Inr (), w))"

fun run_booking :: "env \<Rightarrow> int \<Rightarrow> booking_op \<Rightarrow> world \<Rightarrow> (exn + unit) \<times> world" where
  "run_booking en oid (Create draw a) w = drop_result (create_reservation en draw oid a w)"
| "run_booking en oid (Wizard draw st actor) w =
     drop_result (create_reservation_from_wizard en draw oid st actor w)"
| "run_booking en oid (Update rid data actor) w = drop_result (update_reservation en rid oid data actor w)"
| "run_booking en oid (Move rid data actor role) w =
     drop_result (move_reservation en rid oid data actor role w)"
| "run_booking en oid (Resize rid data actor role) w =
     drop_result (resize_reservation en rid oid data actor role w)"
| "run_booking en oid (Cancel rid actor) w = drop_result (cancel_reservation en oid rid actor w)"
| "run_booking en oid (Pay rid u) w = drop_result (mark_reservation_paid en rid oid u w)"
| "run_booking en oid (Bill rid u) w = drop_result (generate_invoice en rid oid u w)"

lemma snd_drop_result [simp]: "snd (drop_result x) = snd x"
  by (cases x; cases "fst x") (auto simp: drop_result_def)

subsection \<open>What a plan promises\<close>

lemma payload_dates_D:
  assumes "payload_dates data = Inr (s, e)"
  shows "valid_date s" "valid_date e" "s < e"
  using assms fromisoformat_valid
  by (auto simp: payload_dates_def parse_iso_date_def split: sum.splits option.splits if_splits)

lemma parse_iso_roundtrip: "valid_date d \<Longrightarrow> parse_iso_date (isoformat d) f = Inr d"
  by (simp add: parse_iso_date_def strip_isoformat fromisoformat_isoformat)

lemma validate_D:
  assumes "validate_reservation_dates_and_overlap uid a b excl d = Inr (s, e)"
  shows "s < e" "overlapping uid s e excl d = None" "parse_iso_date a ''start_date'' = Inr s"
    "parse_iso_date b ''end_date'' = Inr e"
  using assms by (auto simp: validate_reservation_dates_and_overlap_def split: sum.splits if_splits)

lemma create_plan_D:
  assumes "create_plan oid a w = Inr (r, g)"
  shows "find_unit oid (ca_unit a) (cur w) \<noteq> None" "res_unit r = ca_unit a"
    "res_id r = next_key T_reservations (cur w)" "res_status r = ''confirmed''"
    "res_payment_status r = ''pending''" "res_guest_name r \<noteq> ''''" "res_start r < res_end r"
    "overlapping (res_unit r) (res_start r) (res_end r) None (cur w) = None"
    "parse_iso_date (ca_start a) ''start_date'' = Inr (res_start r)"
    "parse_iso_date (ca_end a) ''end_date'' = Inr (res_end r)"
    "\<forall>x. res_guest r = Some x \<longrightarrow> find_guest oid x (cur w) \<noteq> None"
proof -
  obtain amount cy u gn s e where u: "find_unit oid (ca_unit a) (cur w) = Some u"
    and g: "create_guest oid (ca_guest a) (ca_guest_name a) (cur w) = Inr (g, gn)" and gn: "gn \<noteq> ''''"
    and v: "validate_reservation_dates_and_overlap (u_id u) (ca_start a) (ca_end a) None (cur w) = Inr (s, e)"
    and r: "r = new_reservation (u_id u) g gn s e amount cy w"
    using assms by (auto simp: create_plan_def split: sum.splits option.splits if_splits prod.splits)
  have uid: "u_id u = ca_unit a" using unit_scope.member [OF u] by simp
  have "find_guest oid x (cur w) \<noteq> None" if "map_option g_id g = Some x" for x
    using g that guest_scope.member
    by (auto simp: create_guest_def Let_def split: option.splits if_splits)
  then show "\<forall>x. res_guest r = Some x \<longrightarrow> find_guest oid x (cur w) \<noteq> None"
    by (simp add: r new_reservation_def)
  show "find_unit oid (ca_unit a) (cur w) \<noteq> None" "res_unit r = ca_unit a"
    "res_id r = next_key T_reservations (cur w)" "res_status r = ''confirmed''"
    "res_payment_status r = ''pending''" "res_guest_name r \<noteq> ''''" "res_start r < res_end r"
    "overlapping (res_unit r) (res_start r) (res_end r) None (cur w) = None"
    "parse_iso_date (ca_start a) ''start_date'' = Inr (res_start r)"
    "parse_iso_date (ca_end a) ''end_date'' = Inr (res_end r)"
    using validate_D [OF v] u gn uid by (simp_all add: r new_reservation_def)
qed

lemma res_touch_simps [simp]:
  "res_id (res_touch w a b) = (if b = a then res_id a else res_id b)"
  "res_unit (res_touch w a b) = res_unit b" "res_start (res_touch w a b) = res_start b"
  "res_end (res_touch w a b) = res_end b" "res_status (res_touch w a b) = res_status b"
  "res_payment_status (res_touch w a b) = res_payment_status b"
  "res_guest (res_touch w a b) = res_guest b" "res_invoice_number (res_touch w a b) = res_invoice_number b"
  "res_invoice_date (res_touch w a b) = res_invoice_date b" "res_due_date (res_touch w a b) = res_due_date b"
  by (auto simp: res_touch_def)

text \<open>What every change of a stored reservation has in common.\<close>

definition change_ok :: "int \<Rightarrow> int \<Rightarrow> world \<Rightarrow> reservation \<Rightarrow> reservation \<Rightarrow> bool" where
  "change_ok oid rid w old r \<longleftrightarrow>
     row_get res_id rid (reservations (cur w)) = Some old \<and> res_org (cur w) old = Some oid
     \<and> res_id r = rid \<and> find_unit oid (res_unit r) (cur w) \<noteq> None
     \<and> (res_start old < res_end old \<longrightarrow> res_start r < res_end r)
     \<and> (res_status old \<in> {''confirmed'', ''cancelled''} \<longrightarrow> res_status r \<in> {''confirmed'', ''cancelled''})
     \<and> (res_status r = ''confirmed'' \<longrightarrow>
          overlapping (res_unit r) (res_start r) (res_end r) (Some rid) (cur w) = None
          \<or> (res_status old = ''confirmed'' \<and> res_unit r = res_unit old \<and> res_start r = res_start old
             \<and> res_end r = res_end old))"

text \<open>The tables that say who owns what are consistent: keys are distinct.\<close>

definition scope_ok :: "db \<Rightarrow> bool" where
  "scope_ok d \<longleftrightarrow> distinct (map u_id (units d)) \<and> distinct (map p_id (properties d))
     \<and> distinct (map res_id (reservations d))"

lemma find_reservation_get:
  assumes "scope_ok d" and "find_reservation oid rid d = Some r"
  shows "row_get res_id rid (reservations d) = Some r" "res_org d r = Some oid" "res_id r = rid"
    "find_unit oid (res_unit r) d \<noteq> None"
proof -
  have m: "r \<in> set (reservations d)" "res_id r = rid" and o: "res_org d r = Some oid"
    using reservation_scope.lookup_some [OF assms(2)] by auto
  show "row_get res_id rid (reservations d) = Some r"
    using row_get_mem [of res_id "reservations d" r] assms(1) m by (simp add: scope_ok_def)
  show "res_org d r = Some oid" "res_id r = rid" by (fact o m(2))+
  obtain u where u: "unit_get (res_unit r) d = Some u" "property_org (u_property u) d = Some oid"
    using o by (auto simp: res_org_def unit_org_def split: option.splits)
  then have "u \<in> set (units d)" "u_id u = res_unit r" by (auto simp: unit_get_def dest: row_get_in)
  then show "find_unit oid (res_unit r) d \<noteq> None"
    using u(2) unit_scope.lookup_none [of oid "res_unit r" d u] by auto
qed

lemma lock_reservation_D:
  assumes "scope_ok d" and "lock_reservation oid rid d = Inr r"
  shows "row_get res_id rid (reservations d) = Some r" "res_org d r = Some oid" "res_id r = rid"
    "find_unit oid (res_unit r) d \<noteq> None"
proof -
  show g: "row_get res_id rid (reservations d) = Some r" and u: "find_unit oid (res_unit r) d \<noteq> None"
    using assms(2) by (auto simp: lock_reservation_def split: option.splits if_splits)
  show "res_id r = rid" using row_get_in [OF g] by simp
  obtain x where "find_unit oid (res_unit r) d = Some x" using u by auto
  then show "res_org d r = Some oid"
    using find_unit_get(2) assms(1) by (auto simp: res_org_def scope_ok_def)
qed

lemma update_plan_D:
  assumes "scope_ok (cur w)" and "update_plan oid rid data w = Inr (old, r)"
  shows "change_ok oid rid w old r"
proof -
  note plan = assms(2) [unfolded update_plan_def]
  obtain old' where f': "find_reservation oid rid (cur w) = Some old'"
    using plan by (cases "find_reservation oid rid (cur w)") simp_all
  note plan = plan [unfolded f' option.case]
  obtain given where gn: "strip_text (dget ''guest_name'' data) = Inr given"
    using plan by (cases "strip_text (dget ''guest_name'' data)") simp_all
  note plan = plan [unfolded gn sum.case]
  obtain guest where gu: "update_guest oid data (cur w) = Inr guest"
    using plan by (cases "update_guest oid data (cur w)") simp_all
  note plan = plan [unfolded gu sum.case Let_def]
  define nm where "nm = (if given = '''' then display_guest_name guest '''' else given)"
  note plan = plan [folded nm_def]
  have nm: "nm \<noteq> ''''" using plan by auto
  note plan = plan [unfolded if_not_P [OF nm]]
  obtain u where u: "update_unit oid data (cur w) = Inr u"
    using plan by (cases "update_unit oid data (cur w)") simp_all
  note plan = plan [unfolded u sum.case]
  obtain s e where p: "payload_dates data = Inr (s, e)"
    using plan by (cases "payload_dates data") auto
  note plan = plan [unfolded p sum.case prod.case]
  obtain st where st: "update_status data = Inr st" using plan by (cases "update_status data") simp_all
  note plan = plan [unfolded st sum.case]
  obtain am where am: "parse_amount (dget ''amount'' data) = Inr am"
    using plan by (cases "parse_amount (dget ''amount'' data)") simp_all
  note plan = plan [unfolded am sum.case]
  obtain cy where cy: "parse_currency (dget ''currency'' data) = Inr cy"
    using plan by (cases "parse_currency (dget ''currency'' data)") simp_all
  note plan = plan [unfolded cy sum.case]
  define chk where "chk = (if st = ''confirmed'' then validate_reservation_dates_and_overlap (u_id u)
      (isoformat s) (isoformat e) (Some rid) (cur w) else Inr (s, e))"
  note plan = plan [folded chk_def]
  obtain z where z: "chk = Inr z" using plan by (cases chk) simp_all
  have f: "find_reservation oid rid (cur w) = Some old"
    and r: "r = res_touch w old (old\<lparr>res_unit := u_id u, res_guest := map_option g_id guest,
        res_guest_name := nm, res_start := s, res_end := e, res_status := st, res_amount := am, res_currency := cy\<rparr>)"
    using plan f' by (auto simp: z)
  have v: "\<exists>z. validate_reservation_dates_and_overlap (u_id u) (isoformat s) (isoformat e) (Some rid) (cur w) = Inr z"
    if "st = ''confirmed''" using z that by (simp add: chk_def)
  note d = payload_dates_D [OF p]
  obtain uid where fu: "find_unit oid uid (cur w) = Some u"
    using u by (auto simp: update_unit_def split: sum.splits option.splits if_splits)
  then have fu2: "find_unit oid (u_id u) (cur w) \<noteq> None" using unit_scope.member [OF fu] by simp
  have ov: "overlapping (u_id u) s e (Some rid) (cur w) = None" if c: "st = ''confirmed''"
    using v [OF c] d
    by (auto simp: validate_reservation_dates_and_overlap_def parse_iso_roundtrip split: if_splits)
  have "st \<in> {''confirmed'', ''cancelled''}"
    using st by (auto simp: update_status_def split: sum.splits if_splits)
  then show ?thesis
    using find_reservation_get [OF assms(1) f] d ov fu2 by (simp add: change_ok_def r)
qed

lemma move_plan_D:
  assumes "scope_ok (cur w)" and "move_plan oid rid data role w = Inr (old, r)"
  shows "change_ok oid rid w old r"
proof -
  obtain u s e where l: "lock_reservation oid rid (cur w) = Inr old"
    and u: "move_unit oid data (cur w) = Inr u" and p: "payload_dates data = Inr (s, e)"
    and v: "res_status old = ''confirmed'' \<Longrightarrow> overlapping (u_id u) s e (Some rid) (cur w) = None"
    and r: "r = res_touch w old (old\<lparr>res_unit := u_id u, res_start := s, res_end := e\<rparr>)"
    using assms(2) by (auto simp: move_plan_def split: sum.splits if_splits prod.splits)
  obtain uid where fu: "find_unit oid uid (cur w) = Some u"
    using u by (auto simp: move_unit_def split: sum.splits option.splits)
  then have "find_unit oid (u_id u) (cur w) \<noteq> None" using unit_scope.member [OF fu] by simp
  then show ?thesis
    using lock_reservation_D [OF assms(1) l] payload_dates_D [OF p] v by (simp add: change_ok_def r)
qed

lemma resize_plan_D:
  assumes "scope_ok (cur w)" and "resize_plan oid rid data role w = Inr (old, r)"
  shows "change_ok oid rid w old r"
proof -
  obtain s e where l: "lock_reservation oid rid (cur w) = Inr old" and p: "payload_dates data = Inr (s, e)"
    and v: "res_status old = ''confirmed'' \<Longrightarrow> overlapping (res_unit old) s e (Some rid) (cur w) = None"
    and r: "r = res_touch w old (old\<lparr>res_start := s, res_end := e\<rparr>)"
    using assms(2) by (auto simp: resize_plan_def split: sum.splits if_splits prod.splits)
  show ?thesis
    using lock_reservation_D [OF assms(1) l] payload_dates_D [OF p] v by (simp add: change_ok_def r)
qed

subsection \<open>Every outcome of an operation\<close>

lemma aside_save:
  "\<not> aa_commit a \<Longrightarrow> aside (on_db (put_reservation r) w) (save_reservation en act a r w)"
  unfolding save_reservation_def by (meson aside_trans aside_audit aside_commit)

lemma aside_mail_guest: "aside w (mail_guest en key r g w)"
  using mail.aside [of w "(en, key, _, _)"]
  by (simp add: mail_guest_def send_reservation_email_def split: option.split)

lemma aside_after_create: "aside w (after_create en draw oid actor r g w)"
proof -
  let ?w1 = "audit_record en ''reservation_created'' (created_audit oid actor r) (commit w)"
  let ?w2 = "mail_guest en ''reservation_confirmation'' r g ?w1"
  have 1: "aside w ?w2" by (meson aside_trans aside_audit aside_commit aside_mail_guest)
  have 2: "aside w (snd (issue_access_code_for_reservation en draw (res_id r) oid actor key ?w2))" for key
    using issuing.after [OF 1, of "(en, draw, res_id r, oid, actor, key)"] by simp
  have 3: "aside w v \<Longrightarrow> aside w (publish en ev oid p v)" for v ev p
    using publishing.after [of w v "(en, ev, oid, p)"] by simp
  show ?thesis unfolding after_create_def Let_def by (cases "res_status r = ''confirmed''") (simp_all add: 1 2 3)
qed

lemma aside_after_cancel:
  fixes en :: env
  shows "aside w (after_cancel en oid actor r w)"
proof -
  let ?w1 = "mail_guest en ''reservation_cancelled'' r (res_guest_row r (cur w)) w"
  let ?w2 = "snd (revoke_access_codes_for_reservation en (res_id r) oid actor ''reservation_cancelled'' ?w1)"
  have "aside w ?w2"
    using revoking.after [OF aside_mail_guest, of w "(en, res_id r, oid, actor, ''reservation_cancelled'')"] by simp
  then have "aside w (publish en ev oid p ?w2)" for ev p
    using publishing.after [of w ?w2 "(en, ev, oid, p)"] by simp
  then show ?thesis by (simp add: after_cancel_def Let_def)
qed

lemma create_reservation_cases:
  assumes "create_reservation en draw oid a w = (x, w')"
  obtains e where "create_plan oid a w = Inl e" "x = Inl e" "w' = w"
  | r g where "create_plan oid a w = Inr (r, g)" "x = Inr (serialize_reservation r)"
      "aside (on_db (add_reservation r) w) w'" "core (com w') = core (add_reservation r (cur w))"
proof (cases "create_plan oid a w")
  case (Inl e)
  then have "x = Inl e" "w' = w" using assms by (simp_all add: create_reservation_def)
  then show ?thesis by (rule that(1) [OF Inl])
next
  case (Inr rg)
  obtain r g where p: "create_plan oid a w = Inr (r, g)" using Inr by (cases rg) auto
  let ?v = "on_db (add_reservation r) w"
  obtain n w1 where n: "notification_create en oid ''reservation.created'' ''Uusi varaus luotu''
      (Some (created_body r)) (Some (''/admin/reservations/'' @ show_int (res_id r))) ''info'' None ?v = (n, w1)"
    by fastforce
  have sev: "lower (strip (if ''info'' = [] then ''info'' else ''info'')) \<in> set severities"
    by (simp add: severities_def lower_def strip_def is_blank_def lower_char_def)
  have nr: "\<exists>m. n = Inr m"
    using n sev unfolding notification_create_def Let_def by (cases n) (auto split: if_splits)
  have a1: "aside ?v w1" using notify.aside [of ?v "(en, oid, ''reservation.created'', ''Uusi varaus luotu'',
      Some (created_body r), Some (''/admin/reservations/'' @ show_int (res_id r)), ''info'', None)"] n by simp
  have x: "x = Inr (serialize_reservation r)" "w' = after_create en draw oid (ca_actor a) r g w1"
    using assms p n nr by (auto simp: create_reservation_def)
  have a2: "aside (commit w1) w'"
  proof -
    have "after_create en draw oid (ca_actor a) r g w1 = after_create en draw oid (ca_actor a) r g (commit w1)"
      by (simp add: after_create_def commit_def)
    then show ?thesis unfolding x(2) by (metis aside_after_create)
  qed
  have a: "aside ?v w'" by (meson a1 a2 aside_trans aside_commit)
  have "core (com w') = core (cur w1)" using a2 by (auto simp: aside_def)
  then have "core (com w') = core (add_reservation r (cur w))" using a1 by (simp add: aside_def)
  then show ?thesis using that(2) [OF p x(1) a] by blast
qed

lemma update_reservation_cases:
  assumes "update_reservation en rid oid data actor w = (x, w')"
  obtains e where "update_plan oid rid data w = Inl e" "x = Inl e" "w' = w"
  | old r where "update_plan oid rid data w = Inr (old, r)" "aside (on_db (put_reservation r) w) w'"
      "core (com w') = core (put_reservation r (cur w))"
      "x = Inr (serialize_reservation r) \<or> (\<exists>e. x = Inl e)"
proof (cases "update_plan oid rid data w")
  case (Inl e)
  then have "x = Inl e" "w' = w" using assms by (simp_all add: update_reservation_def)
  then show ?thesis by (rule that(1) [OF Inl])
next
  case (Inr q)
  obtain old r where p: "update_plan oid rid data w = Inr (old, r)" using Inr by (cases q) auto
  let ?v = "on_db (put_reservation r) w"
  let ?s = "save_reservation en ''reservation_updated''
      (res_change_audit oid actor (res_id r) (res_snapshot old) (res_snapshot r)) r w"
  obtain y w1 where u: "update_revoke en oid actor old r ?s = (y, w1)" by fastforce
  have s: "aside ?v ?s" by (rule aside_save) (simp add: res_change_audit_def)
  have rv: "aside ?s (snd (revoke_access_codes_for_reservation en i oid actor reason ?s))" for i reason
    using revoking.aside [of ?s "(en, i, oid, actor, reason)"] by simp
  have a: "aside ?s w1" using u rv by (auto simp: update_revoke_def split: if_splits) (metis snd_conv)+
  have "aside ?s (publish en ev oid q w1)" for ev q
    using publishing.after [OF a, of "(en, ev, oid, q)"] by simp
  then have "aside ?s w' \<and> (x = Inr (serialize_reservation r) \<or> (\<exists>e. x = Inl e))"
    using assms p u a by (cases y) (auto simp: update_reservation_def)
  then have a': "aside ?s w'" and x: "x = Inr (serialize_reservation r) \<or> (\<exists>e. x = Inl e)" by blast+
  have "com ?s = cur ?s" by (simp add: save_reservation_def)
  then have c: "core (com w') = core (put_reservation r (cur w))"
    using a' s by (auto simp: aside_def simp del: put_reservation_def)
  show ?thesis by (rule that(2) [OF p aside_trans [OF s a'] c x])
qed

text \<open>A revocation that raises, raises what the vendor's client raised.\<close>

lemma revoke_loop_error:
  "revoke_loop en oid rid actor reason cs w = (Inl e, w') \<Longrightarrow> \<exists>h pe. lock_revoke en h = Inl pe \<and> e = PyError pe"
proof (induction cs arbitrary: w)
  case (Cons c cs)
  obtain v w1 where v: "revoke_at_vendor en c w = (v, w1)" by fastforce
  show ?case
  proof (cases v)
    case (Inl x)
    then show ?thesis using Cons.prems v
      by (auto simp: revoke_at_vendor_def revoke_access_code_def lift_py_def split: option.splits sum.splits)
  next
    case (Inr u)
    then show ?thesis using Cons.prems Cons.IH v by auto
  qed
qed simp

lemma revoke_codes_error:
  assumes "revoke_access_codes_for_reservation en rid oid actor reason w = (Inl e, w')"
  shows "com w' = com w \<and> (\<exists>h pe. lock_revoke en h = Inl pe \<and> e = PyError pe)"
proof -
  have "revoke_loop en oid rid actor reason (revocable_codes rid oid (cur w)) w = (Inl e, w')"
    using assms by (auto simp: revoke_access_codes_for_reservation_def Let_def split: if_splits prod.splits sum.splits)
  then show ?thesis using revoke_loop_error revoke_loop_spec by blast
qed

lemma update_reservation_error:
  assumes "update_reservation en rid oid data actor w = (Inl e, w')" and "w' \<noteq> w"
  obtains old r a reason where "update_plan oid rid data w = Inr (old, r)"
    "revoke_access_codes_for_reservation en (res_id r) oid actor reason
       (save_reservation en ''reservation_updated'' a r w) = (Inl e, w')"
    "\<not> aa_commit a"
proof -
  obtain old r where p: "update_plan oid rid data w = Inr (old, r)"
    using assms by (cases "update_plan oid rid data w") (auto simp: update_reservation_def)
  let ?a = "res_change_audit oid actor (res_id r) (res_snapshot old) (res_snapshot r)"
  have "update_revoke en oid actor old r (save_reservation en ''reservation_updated'' ?a r w) = (Inl e, w')"
    using assms p by (auto simp: update_reservation_def split: prod.splits sum.splits)
  then show thesis
    using that [OF p, where a = ?a] by (auto simp: update_revoke_def res_change_audit_def split: if_splits)
qed

lemma move_reservation_cases:
  assumes "move_reservation en rid oid data actor role w = (x, w')"
  obtains e where "move_plan oid rid data role w = Inl e" "x = Inl e" "w' = w"
  | old r a where "move_plan oid rid data role w = Inr (old, r)" "x = Inr (serialize_reservation r)"
      "w' = save_reservation en ''reservation_moved'' a r w" "\<not> aa_commit a"
proof (cases "move_plan oid rid data role w")
  case (Inl e)
  then have "x = Inl e" "w' = w" using assms by (simp_all add: move_reservation_def)
  then show ?thesis by (rule that(1) [OF Inl])
next
  case (Inr q)
  obtain old r where p: "move_plan oid rid data role w = Inr (old, r)" using Inr by (cases q) auto
  show ?thesis
  proof (rule that(2) [OF p])
    show "x = Inr (serialize_reservation r)" using assms p by (simp add: move_reservation_def)
    show "w' = save_reservation en ''reservation_moved'' (res_change_audit oid actor (res_id r)
        (moved_snapshot old) (moved_snapshot r)) r w"
      using assms p by (simp add: move_reservation_def)
  qed (simp add: res_change_audit_def)
qed

lemma resize_reservation_cases:
  assumes "resize_reservation en rid oid data actor role w = (x, w')"
  obtains e where "resize_plan oid rid data role w = Inl e" "x = Inl e" "w' = w"
  | old r a where "resize_plan oid rid data role w = Inr (old, r)" "x = Inr (serialize_reservation r)"
      "w' = save_reservation en ''reservation_resized'' a r w" "\<not> aa_commit a"
proof (cases "resize_plan oid rid data role w")
  case (Inl e)
  then have "x = Inl e" "w' = w" using assms by (simp_all add: resize_reservation_def)
  then show ?thesis by (rule that(1) [OF Inl])
next
  case (Inr q)
  obtain old r where p: "resize_plan oid rid data role w = Inr (old, r)" using Inr by (cases q) auto
  show ?thesis
  proof (rule that(2) [OF p])
    show "x = Inr (serialize_reservation r)" using assms p by (simp add: resize_reservation_def)
    show "w' = save_reservation en ''reservation_resized'' (res_change_audit oid actor (res_id r)
        (JObj (stay_snapshot old)) (JObj (stay_snapshot r))) r w"
      using assms p by (simp add: resize_reservation_def)
  qed (simp add: res_change_audit_def)
qed

lemma cancel_reservation_cases:
  assumes "cancel_reservation en oid rid actor w = (x, w')"
  obtains "find_reservation oid rid (cur w) = None" "x = Inl e_res_not_found" "w' = w"
  | r where "find_reservation oid rid (cur w) = Some r" "res_status r = ''cancelled''"
      "x = Inr (serialize_reservation r)" "w' = w"
  | r where "find_reservation oid rid (cur w) = Some r" "res_status r \<noteq> ''cancelled''"
      "x = Inr (serialize_reservation (cancelled w r))"
      "aside (on_db (put_reservation (cancelled w r)) w) w'"
      "core (com w') = core (put_reservation (cancelled w r) (cur w))"
proof (cases "find_reservation oid rid (cur w)")
  case None
  then have "x = Inl e_res_not_found" "w' = w" using assms by (simp_all add: cancel_reservation_def)
  then show ?thesis by (rule that(1) [OF None])
next
  case (Some r)
  show ?thesis
  proof (cases "res_status r = ''cancelled''")
    case True
    then have "x = Inr (serialize_reservation r)" "w' = w"
      using assms Some by (simp_all add: cancel_reservation_def)
    then show ?thesis by (rule that(2) [OF Some True])
  next
    case False
    let ?r = "cancelled w r"
    let ?s = "save_reservation en ''reservation_cancelled'' (cancelled_audit oid actor ?r) ?r w"
    have w': "x = Inr (serialize_reservation ?r)" "w' = after_cancel en oid actor ?r ?s"
      using assms Some False by (simp_all add: cancel_reservation_def Let_def)
    have 0: "aside (on_db (put_reservation ?r) w) ?s" by (rule aside_save) (simp add: cancelled_audit_def)
    have a: "aside ?s w'" unfolding w'(2) by (rule aside_after_cancel)
    have "com ?s = cur ?s" by (simp add: save_reservation_def)
    then have "core (com w') = core (put_reservation ?r (cur w))"
      using a 0 by (auto simp: aside_def simp del: put_reservation_def)
    then show ?thesis using that(3) [OF Some False w'(1) aside_trans [OF 0 a]] by blast
  qed
qed

lemma cancelled_simps [simp]:
  "res_id (cancelled w r) = res_id r" "res_unit (cancelled w r) = res_unit r"
  "res_status (cancelled w r) = ''cancelled''" "res_start (cancelled w r) = res_start r"
  "res_end (cancelled w r) = res_end r" "res_guest (cancelled w r) = res_guest r"
  by (simp_all add: cancelled_def)

lemma change_ok_same_place:
  assumes "scope_ok (cur w)" and "find_reservation oid rid (cur w) = Some old"
    and "res_id r = res_id old" "res_unit r = res_unit old" "res_start r = res_start old"
    "res_end r = res_end old" "res_status r = res_status old \<or> res_status r = ''cancelled''"
  shows "change_ok oid rid w old r"
  using find_reservation_get [OF assms(1,2)] assms(3-) by (auto simp: change_ok_def)

text \<open>
  Every operation does nothing, inserts one planned reservation or changes one of the tenant's
  own, and then works aside.
\<close>

lemma run_booking_cases:
  assumes ok: "scope_ok (cur w)" and run: "run_booking en oid op w = (x, w')"
  obtains (same) "w' = w"
  | (added) a r g where "create_plan oid a w = Inr (r, g)" "aside (on_db (add_reservation r) w) w'"
  | (changed) rid old r where "change_ok oid rid w old r" "aside (on_db (put_reservation r) w) w'"
proof -
  have create: thesis if c: "create_reservation en draw oid a w = (y, w')" for draw a y
    by (rule create_reservation_cases [OF c]) (erule same added)+
  have w': "w' = snd (run_booking en oid op w)" by (simp add: run)
  have saved: "aside (on_db (put_reservation r) w) w'"
    if "w' = save_reservation en act a r w" "\<not> aa_commit a" for act a r
    unfolding that(1) by (rule aside_save [OF that(2)])
  show thesis
  proof (cases op)
    case (Create draw a)
    have "create_reservation en draw oid a w = (fst (create_reservation en draw oid a w), w')"
      by (simp add: w' Create)
    then show thesis by (rule create)
  next
    case (Wizard draw st actor)
    obtain y where y: "create_reservation_from_wizard en draw oid st actor w = (y, w')"
      using w' Wizard by (metis prod.collapse run_booking.simps(2) snd_drop_result)
    show thesis
    proof (cases "build_reservation_preview oid st (cur w)")
      case (Inl e)
      then have "w' = w" using y by (simp add: create_reservation_from_wizard_def)
      then show thesis by (rule same)
    next
      case (Inr p)
      then have "create_reservation en draw oid (wizard_args st p actor) w = (y, w')"
        using y by (simp add: create_reservation_from_wizard_def)
      then show thesis by (rule create)
    qed
  next
    case (Update rid data actor)
    obtain y where "update_reservation en rid oid data actor w = (y, w')"
      using w' Update by (metis prod.collapse run_booking.simps(3) snd_drop_result)
    then show thesis
      by (rule update_reservation_cases) (erule same, rule changed [OF update_plan_D [OF ok]])
  next
    case (Move rid data actor role)
    obtain y where "move_reservation en rid oid data actor role w = (y, w')"
      using w' Move by (metis prod.collapse run_booking.simps(4) snd_drop_result)
    then show thesis
      by (rule move_reservation_cases) (erule same, rule changed [OF move_plan_D [OF ok] saved])
  next
    case (Resize rid data actor role)
    obtain y where "resize_reservation en rid oid data actor role w = (y, w')"
      using w' Resize by (metis prod.collapse run_booking.simps(5) snd_drop_result)
    then show thesis
      by (rule resize_reservation_cases) (erule same, rule changed [OF resize_plan_D [OF ok] saved])
  next
    case (Cancel rid actor)
    obtain y where y: "cancel_reservation en oid rid actor w = (y, w')"
      using w' Cancel by (metis prod.collapse run_booking.simps(6) snd_drop_result)
    show thesis
    proof (rule cancel_reservation_cases [OF y])
      fix r assume f: "find_reservation oid rid (cur w) = Some r"
        and a: "aside (on_db (put_reservation (cancelled w r)) w) w'"
      show thesis by (rule changed [OF change_ok_same_place [OF ok f] a]) simp_all
    qed (rule same; assumption)+
  next
    case (Pay rid u)
    then have "w' = w \<or> (\<exists>r. find_reservation oid rid (cur w) = Some r
        \<and> w' = save_reservation en ''reservation_paid'' (res_change_audit oid (Some (usr_id u)) (res_id r)
            (JObj [(''payment_status'', JStr (res_payment_status r))])
            (JObj [(''payment_status'', JStr ''paid'')]))
            (r\<lparr>res_payment_status := ''paid'', res_updated_at := clock w\<rparr>) w)"
      using w' by (auto simp: mark_reservation_paid_def Let_def split: option.split)
    then show thesis
    proof (elim disjE exE conjE)
      fix r assume f: "find_reservation oid rid (cur w) = Some r"
        and s: "w' = save_reservation en ''reservation_paid'' (res_change_audit oid (Some (usr_id u)) (res_id r)
            (JObj [(''payment_status'', JStr (res_payment_status r))])
            (JObj [(''payment_status'', JStr ''paid'')]))
            (r\<lparr>res_payment_status := ''paid'', res_updated_at := clock w\<rparr>) w"
      have "aside (on_db (put_reservation (r\<lparr>res_payment_status := ''paid'', res_updated_at := clock w\<rparr>)) w) w'"
        by (rule saved [OF s]) (simp add: res_change_audit_def)
      note a = this
      show thesis by (rule changed [OF change_ok_same_place [OF ok f] a]) simp_all
    qed (rule same)
  next
    case (Bill rid u)
    then have "w' = w \<or> (\<exists>r. find_reservation oid rid (cur w) = Some r
        \<and> w' = save_reservation en ''invoice_generated'' (invoiced_audit oid (usr_id u) (invoiced en oid w r))
            (invoiced en oid w r) w)"
      using w' by (auto simp: generate_invoice_def Let_def split: option.split)
    then show thesis
    proof (elim disjE exE conjE)
      fix r assume f: "find_reservation oid rid (cur w) = Some r"
        and s: "w' = save_reservation en ''invoice_generated'' (invoiced_audit oid (usr_id u) (invoiced en oid w r))
            (invoiced en oid w r) w"
      have "aside (on_db (put_reservation (invoiced en oid w r)) w) w'"
        by (rule saved [OF s]) (simp add: invoiced_audit_def)
      note a = this
      show thesis by (rule changed [OF change_ok_same_place [OF ok f] a]) (simp_all add: invoiced_def Let_def)
    qed (rule same)
  qed
qed

subsection \<open>No unit is booked twice for a night\<close>

definition clash :: "reservation \<Rightarrow> reservation \<Rightarrow> bool" where
  "clash r s \<longleftrightarrow> res_unit r = res_unit s \<and> res_status r \<noteq> ''cancelled'' \<and> res_status s \<noteq> ''cancelled''
     \<and> res_start r < res_end s \<and> res_start s < res_end r"

definition stay_ok :: "reservation \<Rightarrow> bool" where
  "stay_ok r \<longleftrightarrow> res_start r < res_end r \<and> res_status r \<in> {''confirmed'', ''cancelled''}"

definition bookings_ok :: "db \<Rightarrow> bool" where
  "bookings_ok d \<longleftrightarrow> keys_ok res_id (seqs d T_reservations) (reservations d)
     \<and> (\<forall>r\<in>set (reservations d). stay_ok r)
     \<and> (\<forall>r\<in>set (reservations d). \<forall>s\<in>set (reservations d). res_id r \<noteq> res_id s \<longrightarrow> \<not> clash r s)"

lemma clash_sym: "clash r s = clash s r"
  by (auto simp: clash_def)

lemma clash_overlaps:
  "res_status r \<noteq> ''cancelled'' \<Longrightarrow> clash r s \<longleftrightarrow> overlaps (res_unit r) (res_start r) (res_end r) s"
  by (auto simp: clash_def overlaps_def)

lemma bookings_core: "core d' = core d \<Longrightarrow> bookings_ok d' = bookings_ok d"
  using core_tables(1) [of d' d] core_tables(17) [of d' d T_reservations]
  by (simp add: bookings_ok_def side_tables_def)

lemma bookings_add:
  assumes "bookings_ok d" and "res_id r = next_key T_reservations d" and "stay_ok r"
    and "overlapping (res_unit r) (res_start r) (res_end r) None d = None"
  shows "bookings_ok (add_reservation r d)"
proof -
  have k: "keys_ok res_id (seqs (add_reservation r d) T_reservations) (reservations (add_reservation r d))"
    by (rule reservation_tab.ok_add) (use assms(1,2) in \<open>simp_all add: bookings_ok_def\<close>)
  have "\<not> clash r s" if "s \<in> set (reservations d)" for s
    using assms(4) that clash_overlaps [of r s]
    by (cases "res_status r = ''cancelled''") (auto simp: overlapping_def find_None_iff_all clash_def)
  then have "\<not> clash r s \<and> \<not> clash s r" if "s \<in> set (reservations d)" for s
    using that clash_sym by blast
  then show ?thesis using k assms(1,3) by (auto simp: bookings_ok_def)
qed

lemma bookings_put:
  assumes "bookings_ok d" and "row_get res_id (res_id r) (reservations d) = Some old" and "stay_ok r"
    and "res_status r \<noteq> ''cancelled'' \<Longrightarrow>
      overlapping (res_unit r) (res_start r) (res_end r) (Some (res_id r)) d = None
      \<or> (res_status old \<noteq> ''cancelled'' \<and> res_unit r = res_unit old \<and> res_start r = res_start old
         \<and> res_end r = res_end old)"
  shows "bookings_ok (put_reservation r d)"
proof -
  have old: "old \<in> set (reservations d)" "res_id old = res_id r" using row_get_in [OF assms(2)] by auto
  have "\<not> clash r s" if s: "s \<in> set (reservations d)" "res_id s \<noteq> res_id r" for s
  proof
    assume c: "clash r s"
    then have n: "res_status r \<noteq> ''cancelled''" by (simp add: clash_def)
    from assms(4) [OF n] show False
    proof
      assume "overlapping (res_unit r) (res_start r) (res_end r) (Some (res_id r)) d = None"
      then show False using s c clash_overlaps [OF n] by (auto simp: overlapping_def find_None_iff_all)
    next
      assume "res_status old \<noteq> ''cancelled'' \<and> res_unit r = res_unit old \<and> res_start r = res_start old
         \<and> res_end r = res_end old"
      then have "clash old s" using c by (auto simp: clash_def)
      then show False using assms(1) old s by (auto simp: bookings_ok_def)
    qed
  qed
  then have "\<not> clash r s \<and> \<not> clash s r" if "s \<in> set (reservations d)" "res_id s \<noteq> res_id r" for s
    using that clash_sym by blast
  then show ?thesis
    using assms(1,3) by (auto simp: bookings_ok_def dest!: set_row_put)
qed

definition places_ok :: "db \<Rightarrow> bool" where
  "places_ok d \<longleftrightarrow> distinct (map u_id (units d)) \<and> distinct (map p_id (properties d))"

definition booking_inv :: "world \<Rightarrow> bool" where
  "booking_inv w \<longleftrightarrow> bookings_ok (cur w) \<and> places_ok (cur w) \<and> bookings_ok (com w) \<and> places_ok (com w)"

lemma booking_inv_scope: "booking_inv w \<Longrightarrow> scope_ok (cur w)"
  by (simp add: booking_inv_def scope_ok_def places_ok_def bookings_ok_def keys_ok_def)

lemma places_core: "core d' = core d \<Longrightarrow> places_ok d' = places_ok d"
  using core_tables(2,3) [of d' d] by (simp add: places_ok_def)

lemma booking_inv_aside:
  assumes "booking_inv v" and "aside v w"
  shows "booking_inv w"
proof -
  have c: "core (cur w) = core (cur v)" and m: "core (com w) = core (com v) \<or> core (com w) = core (cur v)"
    using assms(2) by (auto simp: aside_def)
  have "bookings_ok (com w) \<and> places_ok (com w)"
    using m assms(1) bookings_core [of "com w"] places_core [of "com w"] unfolding booking_inv_def by blast
  then show ?thesis
    using assms(1) bookings_core [OF c] places_core [OF c] unfolding booking_inv_def by blast
qed

lemma booking_inv_on_db:
  "booking_inv w \<Longrightarrow> bookings_ok (f (cur w)) \<Longrightarrow> places_ok (f (cur w)) \<Longrightarrow> booking_inv (on_db f w)"
  by (simp add: booking_inv_def)

lemma change_ok_put:
  assumes "booking_inv w" and "change_ok oid rid w old r"
  shows "bookings_ok (put_reservation r (cur w))"
proof (rule bookings_put)
  have b: "bookings_ok (cur w)" using assms(1) by (simp add: booking_inv_def)
  then show "bookings_ok (cur w)" .
  have get: "row_get res_id rid (reservations (cur w)) = Some old" and id: "res_id r = rid"
    using assms(2) by (simp_all add: change_ok_def)
  show "row_get res_id (res_id r) (reservations (cur w)) = Some old" using get id by simp
  have "stay_ok old" using b row_get_in [OF get] by (auto simp: bookings_ok_def)
  then show "stay_ok r" using assms(2) by (auto simp: change_ok_def stay_ok_def)
  show "overlapping (res_unit r) (res_start r) (res_end r) (Some (res_id r)) (cur w) = None
      \<or> (res_status old \<noteq> ''cancelled'' \<and> res_unit r = res_unit old \<and> res_start r = res_start old
         \<and> res_end r = res_end old)" if "res_status r \<noteq> ''cancelled''"
  proof -
    have "res_status r = ''confirmed''" using \<open>stay_ok r\<close> that by (auto simp: stay_ok_def)
    then show ?thesis using assms(2) by (auto simp: change_ok_def)
  qed
qed

lemma run_booking_inv:
  assumes "booking_inv w" and "run_booking en oid op w = (x, w')"
  shows "booking_inv w'"
proof (rule run_booking_cases [OF booking_inv_scope [OF assms(1)] assms(2)])
  fix a r g
  assume p: "create_plan oid a w = Inr (r, g)" and a: "aside (on_db (add_reservation r) w) w'"
  note d = create_plan_D [OF p]
  have "bookings_ok (add_reservation r (cur w))"
    by (rule bookings_add) (use assms(1) d in \<open>simp_all add: booking_inv_def stay_ok_def\<close>)
  then have "booking_inv (on_db (add_reservation r) w)"
    by (rule booking_inv_on_db [OF assms(1)]) (use assms(1) in \<open>simp add: booking_inv_def places_ok_def\<close>)
  then show ?thesis using a by (rule booking_inv_aside)
next
  fix rid old r
  assume c: "change_ok oid rid w old r" and a: "aside (on_db (put_reservation r) w) w'"
  have "booking_inv (on_db (put_reservation r) w)"
    by (rule booking_inv_on_db [where f = "put_reservation r", OF assms(1) change_ok_put [OF assms(1) c]])
      (use assms(1) in \<open>simp add: booking_inv_def places_ok_def\<close>)
  then show ?thesis using a by (rule booking_inv_aside)
qed (use assms(1) in simp)

text \<open>
  Work elsewhere in the program: it may change every other table and commit or not, and time
  passes, but it writes no reservation and keeps the keys of units and properties distinct.
\<close>

definition bk :: "db \<Rightarrow> reservation list \<times> int" where
  "bk d = (reservations d, seqs d T_reservations)"

inductive booking_step :: "env \<Rightarrow> world \<Rightarrow> world \<Rightarrow> bool" for en where
  run: "run_booking en oid op w = (x, w') \<Longrightarrow> booking_step en w w'"
| abort: "booking_step en w (rollback w)"
| elsewhere: "bk (cur w') = bk (cur w) \<Longrightarrow> bk (com w') \<in> {bk (com w), bk (cur w)}
    \<Longrightarrow> places_ok (cur w') \<Longrightarrow> places_ok (com w') \<Longrightarrow> booking_step en w w'"

inductive booking_reachable :: "env \<Rightarrow> world \<Rightarrow> bool" for en where
  start: "reservations (cur w) = [] \<Longrightarrow> com w = cur w \<Longrightarrow> places_ok (cur w) \<Longrightarrow> booking_reachable en w"
| step: "booking_reachable en w \<Longrightarrow> booking_step en w w' \<Longrightarrow> booking_reachable en w'"

inductive_cases booking_stepE: "booking_step en w w'"

lemma bookings_bk: "bk d' = bk d \<Longrightarrow> bookings_ok d' = bookings_ok d"
  by (simp add: bk_def bookings_ok_def)

lemma booking_step_inv:
  assumes "booking_step en w w'" and inv: "booking_inv w"
  shows "booking_inv w'"
  using assms(1)
proof (cases rule: booking_step.cases)
  case (run oid op x)
  then show ?thesis by (rule run_booking_inv [OF inv])
next
  case abort
  then show ?thesis using inv by (simp add: booking_inv_def)
next
  case elsewhere
  have "bookings_ok (cur w')" using bookings_bk [OF elsewhere(1)] inv by (simp add: booking_inv_def)
  moreover have "bookings_ok (com w')"
    using elsewhere(2) inv bookings_bk [of "com w'"] unfolding booking_inv_def by blast
  ultimately show ?thesis using elsewhere(3,4) by (simp add: booking_inv_def)
qed

lemma booking_reachable_inv: "booking_reachable en w \<Longrightarrow> booking_inv w"
proof (induction rule: booking_reachable.induct)
  case (start w)
  then show ?case by (simp add: booking_inv_def bookings_ok_def keys_ok_def)
qed (rule booking_step_inv)

subsection \<open>The calendar of nights\<close>

definition occupants :: "int \<Rightarrow> date \<Rightarrow> db \<Rightarrow> reservation list" where
  "occupants u n d = filter (\<lambda>r. res_unit r = u \<and> res_status r \<noteq> ''cancelled'' \<and> res_start r \<le> n \<and> n < res_end r)
     (reservations d)"

lemma occupants_one:
  assumes "bookings_ok d"
  shows "length (occupants u n d) \<le> 1"
  unfolding occupants_def
proof (rule filter_at_most_one [where key = res_id])
  show "distinct (map res_id (reservations d))" using assms by (simp add: bookings_ok_def keys_ok_def)
next
  fix r s
  assume "r \<in> set (reservations d)" "s \<in> set (reservations d)"
    "res_unit r = u \<and> res_status r \<noteq> ''cancelled'' \<and> res_start r \<le> n \<and> n < res_end r"
    "res_unit s = u \<and> res_status s \<noteq> ''cancelled'' \<and> res_start s \<le> n \<and> n < res_end s"
  then show "res_id r = res_id s" using assms by (force simp: bookings_ok_def clash_def)
qed

text \<open>C1: no double booking. In every state reachable through the reservation operations of any
  tenants, work elsewhere, commits and aborted requests, at most one reservation that is not
  cancelled occupies a unit on a night, and every stay has at least one night; this holds of
  what the session sees and of what is committed.\<close>

theorem no_double_booking:
  assumes "booking_reachable en w"
  shows "length (occupants u n (com w)) \<le> 1 \<and> length (occupants u n (cur w)) \<le> 1
    \<and> (\<forall>r\<in>set (reservations (com w)). res_start r < res_end r)"
  using booking_reachable_inv [OF assms] occupants_one
  by (auto simp: booking_inv_def bookings_ok_def stay_ok_def)

text \<open>The id of the reservation that holds a unit on a night.\<close>

definition occupancy :: "db \<Rightarrow> int \<Rightarrow> date \<Rightarrow> int option" where
  "occupancy d u n = (case occupants u n d of [] \<Rightarrow> None | r # _ \<Rightarrow> Some (res_id r))"

lemma occupancy_iff:
  assumes "bookings_ok d"
  shows "occupancy d u n = Some i \<longleftrightarrow> (\<exists>r\<in>set (occupants u n d). res_id r = i)"
proof (cases "occupants u n d")
  case (Cons r rs)
  then have "rs = []" using occupants_one [OF assms, of u n] by simp
  then show ?thesis using Cons by (simp add: occupancy_def)
qed (simp add: occupancy_def)

lemma overlapping_free_iff:
  assumes "bookings_ok d" and "s < e"
  shows "overlapping u s e excl d = None \<longleftrightarrow>
    (\<forall>n. s \<le> n \<and> n < e \<longrightarrow> (\<forall>r\<in>set (occupants u n d). excl = Some (res_id r)))"
proof
  assume a: "overlapping u s e excl d = None"
  show "\<forall>n. s \<le> n \<and> n < e \<longrightarrow> (\<forall>r\<in>set (occupants u n d). excl = Some (res_id r))"
    using a by (fastforce simp: overlapping_def find_None_iff_all overlaps_def occupants_def)
next
  assume a: "\<forall>n. s \<le> n \<and> n < e \<longrightarrow> (\<forall>r\<in>set (occupants u n d). excl = Some (res_id r))"
  have "excl = Some (res_id r)" if r: "r \<in> set (reservations d)" "overlaps u s e r" for r
  proof -
    have "res_start r < res_end r" using assms(1) r(1) by (auto simp: bookings_ok_def stay_ok_def)
    then have "r \<in> set (occupants u (max s (res_start r)) d)" "s \<le> max s (res_start r)" "max s (res_start r) < e"
      using r assms(2) by (auto simp: overlaps_def occupants_def)
    then show ?thesis using a by blast
  qed
  then show "overlapping u s e excl d = None" by (auto simp: overlapping_def find_None_iff_all)
qed

end
