(* ===== verification/BookingCalendar.thy ===== *)
theory BookingCalendar
  imports Bookings
begin

text \<open>
  The reservation operations against their abstract specification, a calendar that gives the
  holder of a unit on a night: \<open>cal_book\<close> takes free nights for one holder and gives up those it
  had, \<open>cal_free\<close> gives all of them up. Then acceptance of a booking, isolation of tenants,
  cancelling, and what an error leaves behind.
\<close>

type_synonym calendar = "int \<Rightarrow> date \<Rightarrow> int option"

definition cal_free :: "int \<Rightarrow> calendar \<Rightarrow> calendar" where
  "cal_free i c = (\<lambda>u n. if c u n = Some i then None else c u n)"

definition cal_book :: "int \<Rightarrow> int \<Rightarrow> date \<Rightarrow> date \<Rightarrow> calendar \<Rightarrow> calendar option" where
  "cal_book i u s e c =
     (if list_all (\<lambda>n. c u n = None \<or> c u n = Some i) [s..e - 1]
      then Some (\<lambda>v n. if v = u \<and> s \<le> n \<and> n < e then Some i else cal_free i c v n) else None)"

lemma occupancy_None: "occupancy d u n = None \<longleftrightarrow> occupants u n d = []"
  by (simp add: occupancy_def split: list.splits)

lemma occupancy_cong:
  assumes "bookings_ok d"
    and "\<And>i. (\<exists>r\<in>set (occupants u n d). res_id r = i) \<longleftrightarrow> x = Some i"
  shows "occupancy d u n = x"
proof (cases x)
  case None
  then have "\<And>i. occupancy d u n \<noteq> Some i" using assms(2) occupancy_iff [OF assms(1), of u n] by simp
  then show ?thesis using None by (cases "occupancy d u n") auto
next
  case (Some i)
  then show ?thesis using assms(2) occupancy_iff [OF assms(1), of u n i] by simp
qed

text \<open>A put reservation holds its nights when it is live, and no others.\<close>

definition covers :: "reservation \<Rightarrow> int \<Rightarrow> date \<Rightarrow> bool" where
  "covers r u n \<longleftrightarrow> res_unit r = u \<and> res_status r \<noteq> ''cancelled'' \<and> res_start r \<le> n \<and> n < res_end r"

lemma occupants_covers: "set (occupants u n d) = {r \<in> set (reservations d). covers r u n}"
  by (auto simp: occupants_def covers_def)

lemma occupants_same:
  assumes "bookings_ok d" and "x \<in> set (occupants u n d)" and "y \<in> set (occupants u n d)"
  shows "x = y"
  using assms(2,3) occupants_one [OF assms(1), of u n] by (cases "occupants u n d") auto

lemma occupancy_add:
  assumes "bookings_ok d" and "bookings_ok (add_reservation r d)"
  shows "occupancy (add_reservation r d) u n = (if covers r u n then Some (res_id r) else occupancy d u n)"
proof (rule occupancy_cong [OF assms(2)])
  fix i
  have mem: "set (occupants u n (add_reservation r d)) = set (occupants u n d) \<union> (if covers r u n then {r} else {})"
    by (auto simp: occupants_covers)
  show "(\<exists>x\<in>set (occupants u n (add_reservation r d)). res_id x = i)
      \<longleftrightarrow> (if covers r u n then Some (res_id r) else occupancy d u n) = Some i"
  proof (cases "covers r u n")
    case True
    have "x = r" if "x \<in> set (occupants u n d)" for x
    proof -
      have "length (occupants u n (add_reservation r d)) \<le> 1" by (rule occupants_one [OF assms(2)])
      moreover have "occupants u n (add_reservation r d) = occupants u n d @ [r]"
        using True by (simp add: occupants_def covers_def)
      ultimately show ?thesis using that by (cases "occupants u n d") auto
    qed
    then show ?thesis using True mem by auto
  next
    case False
    then show ?thesis using mem occupancy_iff [OF assms(1), of u n i] by simp
  qed
qed

lemma occupancy_put:
  assumes "bookings_ok d" and "bookings_ok (put_reservation r d)"
    and "row_get res_id (res_id r) (reservations d) = Some old"
  shows "occupancy (put_reservation r d) u n =
    (if covers r u n then Some (res_id r) else cal_free (res_id r) (occupancy d) u n)"
proof (rule occupancy_cong [OF assms(2)])
  fix i
  have old: "old \<in> set (reservations d)" "res_id old = res_id r" using row_get_in [OF assms(3)] by auto
  then have rin: "r \<in> set (reservations (put_reservation r d))" by (force simp: row_put_def)
  have mem: "x \<in> set (reservations (put_reservation r d)) \<longleftrightarrow>
      x = r \<or> (x \<in> set (reservations d) \<and> res_id x \<noteq> res_id r)" for x
    using rin by (auto dest: set_row_put intro: row_put_other)
  have one: "x = r" if "covers r u n" "x \<in> set (occupants u n (put_reservation r d))" for x
  proof -
    have "r \<in> set (occupants u n (put_reservation r d))" using that(1) rin by (simp add: occupants_covers)
    then show ?thesis
      using that(2) occupants_one [OF assms(2), of u n] by (cases "occupants u n (put_reservation r d)") auto
  qed
  show "(\<exists>x\<in>set (occupants u n (put_reservation r d)). res_id x = i)
      \<longleftrightarrow> (if covers r u n then Some (res_id r) else cal_free (res_id r) (occupancy d) u n) = Some i"
  proof (cases "covers r u n")
    case True
    have "r \<in> set (occupants u n (put_reservation r d))" using True rin by (simp add: occupants_covers)
    then show ?thesis using True one by auto
  next
    case False
    have "x \<in> set (occupants u n (put_reservation r d)) \<longleftrightarrow> x \<in> set (occupants u n d) \<and> res_id x \<noteq> res_id r" for x
      unfolding occupants_covers using mem [of x] False by auto
    note put = this
    show ?thesis
    proof (cases "occupancy d u n")
      case None
      then have "set (occupants u n d) = {}" by (simp add: occupancy_def split: list.splits)
      then show ?thesis using False put None by (auto simp: cal_free_def)
    next
      case (Some j)
      then obtain y where y: "y \<in> set (occupants u n d)" "res_id y = j"
        using occupancy_iff [OF assms(1)] by blast
      then have "x \<in> set (occupants u n d) \<longleftrightarrow> x = y" for x using occupants_same [OF assms(1)] by blast
      then show ?thesis using False put Some y(2) by (auto simp: cal_free_def)
    qed
  qed
qed

lemma occupancy_core: "core d' = core d \<Longrightarrow> occupancy d' = occupancy d"
  using core_tables(1) [of d' d] by (simp add: occupancy_def occupants_def fun_eq_iff)

lemma occupancy_aside: "aside v w \<Longrightarrow> occupancy (cur w) = occupancy (cur v)"
  using occupancy_core [of "cur w" "cur v"] by (simp add: aside_def)

lemma cal_book_free:
  assumes "bookings_ok d" and "s < e"
    and "overlapping u s e (Some i) d = None"
  shows "cal_book i u s e (occupancy d) =
    Some (\<lambda>v n. if v = u \<and> s \<le> n \<and> n < e then Some i else cal_free i (occupancy d) v n)"
proof -
  have "occupancy d u n = None \<or> occupancy d u n = Some i" if "s \<le> n" "n < e" for n
  proof (cases "occupancy d u n")
    case (Some j)
    then obtain r where "r \<in> set (occupants u n d)" "res_id r = j" using occupancy_iff [OF assms(1)] by blast
    then show ?thesis
      using overlapping_free_iff [OF assms(1,2), of u "Some i"] assms(3) that Some by auto
  qed simp
  then show ?thesis by (simp add: cal_book_def list_all_iff)
qed

lemma put_refines:
  assumes "booking_inv w" and "change_ok oid rid w old r" and "res_status r = ''confirmed''"
    and "overlapping (res_unit r) (res_start r) (res_end r) (Some rid) (cur w) = None"
  shows "cal_book rid (res_unit r) (res_start r) (res_end r) (occupancy (cur w))
    = Some (occupancy (put_reservation r (cur w)))"
proof -
  have b: "bookings_ok (cur w)" using assms(1) by (simp add: booking_inv_def)
  have p: "bookings_ok (put_reservation r (cur w))" by (rule change_ok_put [OF assms(1,2)])
  have get: "row_get res_id rid (reservations (cur w)) = Some old" and id: "res_id r = rid"
    using assms(2) by (simp_all add: change_ok_def)
  have "stay_ok old" using b row_get_in [OF get] by (auto simp: bookings_ok_def)
  then have lt: "res_start r < res_end r" using assms(2) by (auto simp: change_ok_def stay_ok_def)
  have "occupancy (put_reservation r (cur w)) = (\<lambda>v n. if v = res_unit r \<and> res_start r \<le> n \<and> n < res_end r
      then Some rid else cal_free rid (occupancy (cur w)) v n)"
    using occupancy_put [OF b p] get id assms(3) by (auto simp: fun_eq_iff covers_def)
  then show ?thesis by (simp only: cal_book_free [OF b lt assms(4)])
qed

subsection \<open>Refinement\<close>

lemma cancel_occupancy:
  assumes inv: "booking_inv w" and c: "cancel_reservation en oid rid actor w = (Inr j, w')"
  shows "occupancy (cur w') = cal_free rid (occupancy (cur w))"
proof (rule cancel_reservation_cases [OF c])
  fix r
  assume f: "find_reservation oid rid (cur w) = Some r" and st: "res_status r = ''cancelled''" and w': "w' = w"
  have b: "bookings_ok (cur w)" using inv by (simp add: booking_inv_def)
  have "occupancy (cur w) u n \<noteq> Some rid" for u n
  proof
    assume "occupancy (cur w) u n = Some rid"
    then obtain x where x: "x \<in> set (occupants u n (cur w))" "res_id x = rid"
      using occupancy_iff [OF b] by blast
    have "row_get res_id rid (reservations (cur w)) = Some r"
      by (rule find_reservation_get(1) [OF booking_inv_scope [OF inv] f])
    moreover have "row_get res_id rid (reservations (cur w)) = Some x"
      using x row_get_mem [of res_id "reservations (cur w)" x] b
      by (auto simp: occupants_def bookings_ok_def keys_ok_def)
    ultimately show False using x(1) st by (simp add: occupants_def)
  qed
  then show ?thesis by (simp add: w' cal_free_def)
next
  fix r
  assume f: "find_reservation oid rid (cur w) = Some r"
    and a: "aside (on_db (put_reservation (cancelled w r)) w) w'"
  note g = find_reservation_get [OF booking_inv_scope [OF inv] f]
  have "change_ok oid rid w r (cancelled w r)"
    by (rule change_ok_same_place [OF booking_inv_scope [OF inv] f]) simp_all
  then have "bookings_ok (put_reservation (cancelled w r) (cur w))" by (rule change_ok_put [OF inv])
  moreover have "bookings_ok (cur w)" using inv by (simp add: booking_inv_def)
  ultimately have "occupancy (put_reservation (cancelled w r) (cur w)) u n = cal_free rid (occupancy (cur w)) u n" for u n
    using occupancy_put [of "cur w" "cancelled w r" r u n] g(1,3) by (simp add: covers_def)
  then show ?thesis using occupancy_aside [OF a] by (simp add: fun_eq_iff)
qed simp_all

lemma create_occupancy:
  assumes inv: "booking_inv w" and c: "create_reservation en draw oid a w = (Inr j, w')"
  shows "\<exists>r g. create_plan oid a w = Inr (r, g) \<and> res_id r = next_key T_reservations (cur w) \<and>
    cal_book (res_id r) (res_unit r) (res_start r) (res_end r) (occupancy (cur w)) = Some (occupancy (cur w'))"
proof -
  have b: "bookings_ok (cur w)" using inv by (simp add: booking_inv_def)
  obtain r g where p: "create_plan oid a w = Inr (r, g)" and x: "aside (on_db (add_reservation r) w) w'"
    using create_reservation_cases [OF c] by (metis Inl_Inr_False)
  note d = create_plan_D [OF p]
  have "bookings_ok (add_reservation r (cur w))"
    by (rule bookings_add) (use b d in \<open>simp_all add: stay_ok_def\<close>)
  then have o: "occupancy (cur w') = (\<lambda>u n. if covers r u n then Some (res_id r) else occupancy (cur w) u n)"
    using occupancy_add [OF b] occupancy_aside [OF x] by (simp add: fun_eq_iff)
  have "occupancy (cur w) u n \<noteq> Some (res_id r)" for u n
    using occupancy_iff [OF b, of u n "res_id r"] b d(3)
    by (force simp: occupants_def bookings_ok_def keys_ok_def next_key_def)
  then have f: "cal_free (res_id r) (occupancy (cur w)) = occupancy (cur w)" by (simp add: cal_free_def fun_eq_iff)
  have "overlapping (res_unit r) (res_start r) (res_end r) (Some (res_id r)) (cur w) = None"
    using d(8) by (auto simp: overlapping_def find_None_iff_all)
  from cal_book_free [OF b d(7) this] o f d p show ?thesis
    by (intro exI [of _ r] exI [of _ g]) (simp add: covers_def fun_eq_iff)
qed

lemma move_occupancy:
  assumes inv: "booking_inv w" and m: "move_reservation en rid oid data actor role w = (Inr j, w')"
    and st: "find_reservation oid rid (cur w) = Some old" "res_status old = ''confirmed''"
  shows "\<exists>s e u. payload_dates data = Inr (s, e) \<and> move_unit oid data (cur w) = Inr u \<and>
    cal_book rid (u_id u) s e (occupancy (cur w)) = Some (occupancy (cur w'))"
proof (rule move_reservation_cases [OF m])
  fix old' r a
  assume p: "move_plan oid rid data role w = Inr (old', r)"
    and w': "w' = save_reservation en ''reservation_moved'' a r w" and a: "\<not> aa_commit a"
  note sc = booking_inv_scope [OF inv]
  note c = move_plan_D [OF sc p]
  have "old' = old" using find_reservation_get(1) [OF sc st(1)] c by (simp add: change_ok_def)
  then obtain u s e where l: "payload_dates data = Inr (s, e)" "move_unit oid data (cur w) = Inr u"
    and o: "overlapping (u_id u) s e (Some rid) (cur w) = None"
    and r: "r = res_touch w old (old\<lparr>res_unit := u_id u, res_start := s, res_end := e\<rparr>)"
    using p st(2) by (auto simp: move_plan_def split: sum.splits if_splits prod.splits)
  have "cal_book rid (res_unit r) (res_start r) (res_end r) (occupancy (cur w))
      = Some (occupancy (put_reservation r (cur w)))"
    by (rule put_refines [OF inv c]) (use o st(2) in \<open>simp_all add: r\<close>)
  then show ?thesis
    using l r occupancy_aside [OF aside_save [OF a, of r w en "''reservation_moved''"]] by (simp add: w')
qed simp

text \<open>C2: the reservation operations implement a calendar of nights. Seen through \<open>occupancy\<close>, the
  holder of each unit and night, a successful creation books the new reservation's nights, all
  free before; a successful move of a confirmed stay gives up its old nights and books the new
  ones, free or its own before; a cancellation gives up its nights and no others.\<close>

theorem calendar_refinement:
  assumes "booking_reachable en w"
  shows "(\<forall>a j w'. create_reservation en draw oid a w = (Inr j, w') \<longrightarrow>
      (\<exists>r g. create_plan oid a w = Inr (r, g) \<and> res_id r = next_key T_reservations (cur w) \<and>
        cal_book (res_id r) (res_unit r) (res_start r) (res_end r) (occupancy (cur w)) = Some (occupancy (cur w'))))
    \<and> (\<forall>rid data actor role old j w'. move_reservation en rid oid data actor role w = (Inr j, w') \<longrightarrow>
        find_reservation oid rid (cur w) = Some old \<and> res_status old = ''confirmed'' \<longrightarrow>
      (\<exists>s e u. payload_dates data = Inr (s, e) \<and> move_unit oid data (cur w) = Inr u \<and>
        cal_book rid (u_id u) s e (occupancy (cur w)) = Some (occupancy (cur w'))))
    \<and> (\<forall>rid actor j w'. cancel_reservation en oid rid actor w = (Inr j, w') \<longrightarrow>
        occupancy (cur w') = cal_free rid (occupancy (cur w)))"
proof -
  note inv = booking_reachable_inv [OF assms]
  show ?thesis
    by (intro conjI allI impI; (elim conjE)?)
      (erule create_occupancy [OF inv], erule (2) move_occupancy [OF inv], erule cancel_occupancy [OF inv])
qed

subsection \<open>Acceptance\<close>

text \<open>A booking is refused exactly when a night is taken. When the amount, the currency, the
  unit, the guest and the two dates of a request are acceptable, creation succeeds if and only
  if no reservation holds the unit on any night of the stay, and otherwise it answers with the
  overlap error and changes nothing.\<close>

theorem booking_accepted_iff_free:
  assumes "booking_reachable en w"
    and "parse_amount (ca_amount a) = Inr amount" and "parse_currency (ca_currency a) = Inr currency"
    and "find_unit oid (ca_unit a) (cur w) = Some u"
    and "create_guest oid (ca_guest a) (ca_guest_name a) (cur w) = Inr (g, name)" and "name \<noteq> ''''"
    and "parse_iso_date (ca_start a) ''start_date'' = Inr s" and "parse_iso_date (ca_end a) ''end_date'' = Inr e"
    and "s < e"
  shows "if \<forall>n\<in>{s..<e}. occupancy (cur w) (ca_unit a) n = None
    then \<exists>j w'. create_reservation en draw oid a w = (Inr j, w')
    else create_reservation en draw oid a w = (Inl e_res_overlap, w)"
proof -
  have b: "bookings_ok (cur w)" using booking_reachable_inv [OF assms(1)] by (simp add: booking_inv_def)
  have u: "u_id u = ca_unit a" using unit_scope.member [OF assms(4)] by simp
  have v: "validate_reservation_dates_and_overlap (u_id u) (ca_start a) (ca_end a) None (cur w) =
      (if overlapping (u_id u) s e None (cur w) \<noteq> None then Inl e_res_overlap else Inr (s, e))"
    using assms(7-9) by (simp add: validate_reservation_dates_and_overlap_def)
  have free: "overlapping (u_id u) s e None (cur w) = None
      \<longleftrightarrow> (\<forall>n\<in>{s..<e}. occupancy (cur w) (ca_unit a) n = None)"
    using overlapping_free_iff [OF b assms(9), of "ca_unit a" None]
    by (auto simp: u occupancy_None)
  show ?thesis
  proof (cases "overlapping (u_id u) s e None (cur w) = None")
    case True
    then obtain r where p: "create_plan oid a w = Inr (r, g)" using assms(2-6) v by (simp add: create_plan_def)
    obtain x w1 where run: "create_reservation en draw oid a w = (x, w1)" by fastforce
    have "\<exists>j w'. create_reservation en draw oid a w = (Inr j, w')"
      by (rule create_reservation_cases [OF run]) (use p run in auto)
    then show ?thesis using True free by simp
  next
    case False
    then have "create_plan oid a w = Inl e_res_overlap" using assms(2-6) v by (simp add: create_plan_def)
    then show ?thesis using False free by (simp add: create_reservation_def)
  qed
qed

subsection \<open>Tenants\<close>

lemma find_unit_org:
  assumes "booking_inv w" and "find_unit oid (res_unit r) (cur w) \<noteq> None"
  shows "res_org (cur w) r = Some oid"
proof -
  obtain u where "find_unit oid (res_unit r) (cur w) = Some u" using assms(2) by auto
  then show ?thesis
    using find_unit_get(2) [of "cur w" oid "res_unit r" u] assms(1)
    by (simp add: booking_inv_def places_ok_def res_org_def)
qed

lemma aside_scope:
  assumes "aside (on_db f w) w'" and "units (f (cur w)) = units (cur w)"
    and "properties (f (cur w)) = properties (cur w)"
  shows "reservations (cur w') = reservations (f (cur w))" and "res_org (cur w') = res_org (cur w)"
proof -
  have c: "core (cur w') = core (f (cur w))" using assms(1) by (simp add: aside_def)
  show "reservations (cur w') = reservations (f (cur w))" by (rule core_tables(1) [OF c])
  show "res_org (cur w') = res_org (cur w)"
    by (rule scope_frame(1)) (simp_all add: core_tables(2,3) [OF c] assms(2,3))
qed

text \<open>C3: tenants do not reach into each other. Whatever operation an organization runs, with
  whatever ids, every reservation of another organization is still there unchanged, and every
  reservation that is new or changed belongs to the organization that ran it.\<close>

theorem tenant_isolation:
  assumes "booking_reachable en w" and "run_booking en oid op w = (x, w')"
  shows "(\<forall>r\<in>set (reservations (cur w)). res_org (cur w) r \<noteq> Some oid \<longrightarrow> r \<in> set (reservations (cur w')))
    \<and> (\<forall>r\<in>set (reservations (cur w')). r \<in> set (reservations (cur w)) \<or> res_org (cur w') r = Some oid)"
proof -
  note inv = booking_reachable_inv [OF assms(1)]
  show ?thesis
  proof (rule run_booking_cases [OF booking_inv_scope [OF inv] assms(2)])
    fix a r g
    assume p: "create_plan oid a w = Inr (r, g)" and a: "aside (on_db (add_reservation r) w) w'"
    have "res_org (cur w) r = Some oid"
      by (rule find_unit_org [OF inv]) (use create_plan_D(1,2) [OF p] in simp)
    then show ?thesis using aside_scope [OF a] by auto
  next
    fix rid old r
    assume c: "change_ok oid rid w old r" and a: "aside (on_db (put_reservation r) w) w'"
    have o: "row_get res_id rid (reservations (cur w)) = Some old" "res_org (cur w) old = Some oid" "res_id r = rid"
      and n: "res_org (cur w) r = Some oid"
      using c find_unit_org [OF inv] by (auto simp: change_ok_def)
    have "y \<in> set (row_put res_id r (reservations (cur w)))"
      if y: "y \<in> set (reservations (cur w))" "res_org (cur w) y \<noteq> Some oid" for y
    proof (rule row_put_other [OF y(1)])
      show "res_id y \<noteq> res_id r"
      proof
        assume "res_id y = res_id r"
        then have "row_get res_id rid (reservations (cur w)) = Some y"
          using row_get_mem [of res_id "reservations (cur w)" y] y(1) booking_inv_scope [OF inv] o(3)
          by (simp add: scope_ok_def)
        then show False using o y(2) by simp
      qed
    qed
    then show ?thesis using aside_scope [OF a] n by (auto dest!: set_row_put)
  qed simp
qed

subsection \<open>Cancelling\<close>

text \<open>A reservation is cancelled once. After a successful cancellation it is stored as
  cancelled, its payment is still paid if it was and cancelled otherwise, and cancelling it again
  answers the same and does nothing: no mail, no event, no audit row. A foreign or unknown id is
  an error that changes nothing.\<close>

theorem cancel_once:
  assumes "booking_reachable en w" and "cancel_reservation en oid rid actor w = (x, w1)"
  shows "case find_reservation oid rid (cur w) of
      None \<Rightarrow> x = Inl e_res_not_found \<and> w1 = w
    | Some old \<Rightarrow> (\<exists>r. find_reservation oid rid (cur w1) = Some r \<and> x = Inr (serialize_reservation r)
        \<and> res_status r = ''cancelled'' \<and> res_unit r = res_unit old \<and> res_guest r = res_guest old
        \<and> (res_status old \<noteq> ''cancelled'' \<longrightarrow> res_payment_status r =
             (if res_payment_status old = ''paid'' then ''paid'' else ''cancelled''))
        \<and> cancel_reservation en oid rid actor2 w1 = (x, w1))"
proof -
  note inv = booking_reachable_inv [OF assms(1)]
  show ?thesis
  proof (rule cancel_reservation_cases [OF assms(2)])
    fix r
    assume f: "find_reservation oid rid (cur w) = Some r" and st: "res_status r = ''cancelled''"
      and x: "x = Inr (serialize_reservation r)" and w1: "w1 = w"
    show ?thesis using f st x w1 by (simp add: cancel_reservation_def)
  next
    fix r
    let ?r = "cancelled w r"
    assume f: "find_reservation oid rid (cur w) = Some r" and st: "res_status r \<noteq> ''cancelled''"
      and x: "x = Inr (serialize_reservation ?r)" and a: "aside (on_db (put_reservation ?r) w) w1"
    note g = find_reservation_get [OF booking_inv_scope [OF inv] f]
    have rs: "reservations (cur w1) = row_put res_id ?r (reservations (cur w))"
      and so: "res_org (cur w1) = res_org (cur w)" using aside_scope [OF a] by simp_all
    have "?r \<in> set (reservations (cur w1))" using row_get_in [OF g(1)] by (force simp: rs row_put_def)
    moreover have "res_org (cur w1) ?r = Some oid" using g(2) by (simp add: so res_org_def)
    moreover have "distinct (map res_id (reservations (cur w1)))"
      using booking_inv_scope [OF inv] by (simp add: rs scope_ok_def)
    ultimately have n: "find_reservation oid rid (cur w1) = Some ?r"
      using reservation_scope.found [of "cur w1" ?r oid] g(3) by simp
    have "cancel_reservation en oid rid actor2 w1 = (x, w1)"
      by (simp add: cancel_reservation_def n x)
    then show ?thesis using f n x st by (simp add: cancelled_def)
  qed simp
qed

text \<open>C11: an operation that answers with an error has changed nothing, with one exception: an update whose change
  is saved and committed first and whose door codes the lock vendor then fails to revoke. The error answered is the
  vendor's, and what is committed is exactly the saved change.\<close>

theorem errors_leave_no_trace:
  assumes "run_booking en oid op w = (Inl e, w')"
  shows "w' = w \<or> (\<exists>rid data actor old r a reason w1 h pe. op = Update rid data actor
    \<and> update_plan oid rid data w = Inr (old, r)
    \<and> w1 = save_reservation en ''reservation_updated'' a r w
    \<and> reservations (com w1) = row_put res_id r (reservations (cur w))
    \<and> revoke_access_codes_for_reservation en (res_id r) oid actor reason w1 = (Inl e, w')
    \<and> com w' = com w1 \<and> lock_revoke en h = Inl pe \<and> e = PyError pe)"
proof -
  have drop: "\<exists>w1. y = (Inl e, w1) \<and> w1 = w'" if "drop_result y = (Inl e, w')" for y :: "(exn + 'z) \<times> world"
    using that by (cases y; cases "fst y") (auto simp: drop_result_def)
  have create: "w' = w" if c: "create_reservation en draw oid a w = (Inl e, w')" for draw a
    by (rule create_reservation_cases [OF c]) simp_all
  show ?thesis
  proof (cases op)
    case (Create draw a)
    then show ?thesis using assms drop create by fastforce
  next
    case (Wizard draw st actor)
    then have "create_reservation_from_wizard en draw oid st actor w = (Inl e, w')" using assms drop by fastforce
    then show ?thesis
      using create by (auto simp: create_reservation_from_wizard_def split: sum.splits)
  next
    case (Update rid data actor)
    then have u: "update_reservation en rid oid data actor w = (Inl e, w')" using assms drop by fastforce
    show ?thesis
    proof (cases "w' = w")
      case False
      obtain old r a reason where p: "update_plan oid rid data w = Inr (old, r)" "\<not> aa_commit a"
        and v: "revoke_access_codes_for_reservation en (res_id r) oid actor reason
          (save_reservation en ''reservation_updated'' a r w) = (Inl e, w')"
        using update_reservation_error [OF u False] by metis
      have s: "reservations (com (save_reservation en ''reservation_updated'' a r w))
          = row_put res_id r (reservations (cur w))"
        by (simp add: save_reservation_def p(2))
      show ?thesis using Update p(1) v s revoke_codes_error [OF v] by blast
    qed simp
  next
    case (Move rid data actor role)
    then have m: "move_reservation en rid oid data actor role w = (Inl e, w')" using assms drop by fastforce
    show ?thesis by (rule move_reservation_cases [OF m]) simp_all
  next
    case (Resize rid data actor role)
    then have m: "resize_reservation en rid oid data actor role w = (Inl e, w')" using assms drop by fastforce
    show ?thesis by (rule resize_reservation_cases [OF m]) simp_all
  next
    case (Cancel rid actor)
    then have c: "cancel_reservation en oid rid actor w = (Inl e, w')" using assms drop by fastforce
    show ?thesis by (rule cancel_reservation_cases [OF c]) simp_all
  next
    case (Pay rid u)
    then have "mark_reservation_paid en rid oid u w = (Inl e, w')" using assms drop by fastforce
    then show ?thesis by (auto simp: mark_reservation_paid_def Let_def split: if_splits option.splits)
  next
    case (Bill rid u)
    then have "generate_invoice en rid oid u w = (Inl e, w')" using assms drop by fastforce
    then show ?thesis by (auto simp: generate_invoice_def Let_def split: if_splits option.splits)
  qed
qed

subsection \<open>Concrete runs\<close>

text \<open>Two nights in unit 1 of the sample organization, booked on an empty calendar.\<close>

definition fresh_hotel :: world where "fresh_hotel = world_of sample_db"

definition sample_booking :: create_args where
  "sample_booking = \<lparr>ca_unit = 1, ca_guest = None, ca_guest_name = Some ''Ada'',
     ca_start = isoformat (ordinal_of 2026 2 1), ca_end = isoformat (ordinal_of 2026 2 3),
     ca_amount = SNone, ca_currency = SStr ''EUR'', ca_actor = None\<rparr>"

definition booked_hotel :: world where
  "booked_hotel = snd (create_reservation sample_env 123456 1 sample_booking fresh_hotel)"

definition booked_stay :: reservation where
  "booked_stay = new_reservation 1 None ''Ada'' (ordinal_of 2026 2 1) (ordinal_of 2026 2 3) None ''EUR'' fresh_hotel"

lemma booked_stay_simps [simp]:
  "res_id booked_stay = 1" "res_unit booked_stay = 1" "res_status booked_stay = ''confirmed''"
  "res_start booked_stay = ordinal_of 2026 2 1" "res_end booked_stay = ordinal_of 2026 2 3"
  "res_payment_status booked_stay = ''pending''"
  by (simp_all add: booked_stay_def new_reservation_def fresh_hotel_def next_key_def)

lemma fresh_reachable: "booking_reachable en fresh_hotel"
  by (rule booking_reachable.start) (simp_all add: fresh_hotel_def places_ok_def sample_db_def)

lemma sample_days: "valid_date (ordinal_of 2026 2 1)" "valid_date (ordinal_of 2026 2 3)"
  "ordinal_of 2026 2 1 < ordinal_of 2026 2 3"
  by (code_simp, code_simp, code_simp)

lemma sample_checks:
  "parse_amount (ca_amount sample_booking) = Inr None"
  "parse_currency (ca_currency sample_booking) = Inr ''EUR''"
  "find_unit 1 (ca_unit sample_booking) (cur fresh_hotel) = Some (sample_unit 1 1 ''A1'')"
  "create_guest 1 (ca_guest sample_booking) (ca_guest_name sample_booking) (cur fresh_hotel) = Inr (None, ''Ada'')"
  "parse_iso_date (ca_start sample_booking) ''start_date'' = Inr (ordinal_of 2026 2 1)"
  "parse_iso_date (ca_end sample_booking) ''end_date'' = Inr (ordinal_of 2026 2 3)"
  using sample_days
  by (simp_all add: sample_booking_def parse_amount_def parse_currency_def str_or_def strip_def is_blank_def
      upper_def upper_char_def is_alpha_def is_alpha_char_def find_unit_def fresh_hotel_def sample_db_def
      property_org_def property_get_def row_get_def create_guest_def parse_iso_roundtrip Let_def)

lemma sample_plan: "create_plan 1 sample_booking fresh_hotel = Inr (booked_stay, None)"
proof -
  have "overlapping 1 (ordinal_of 2026 2 1) (ordinal_of 2026 2 3) None (cur fresh_hotel) = None"
    by (simp add: overlapping_def fresh_hotel_def)
  then show ?thesis
    using sample_checks sample_days(3)
    by (simp add: create_plan_def validate_reservation_dates_and_overlap_def booked_stay_def)
qed

lemma booked_run:
  "create_reservation sample_env 123456 1 sample_booking fresh_hotel
     = (Inr (serialize_reservation booked_stay), booked_hotel)"
  "aside (on_db (add_reservation booked_stay) fresh_hotel) booked_hotel"
proof -
  obtain x w' where r: "create_reservation sample_env 123456 1 sample_booking fresh_hotel = (x, w')" by fastforce
  then have w': "w' = booked_hotel" by (simp add: booked_hotel_def)
  show "create_reservation sample_env 123456 1 sample_booking fresh_hotel
     = (Inr (serialize_reservation booked_stay), booked_hotel)"
    by (rule create_reservation_cases [OF r]) (use r w' sample_plan in simp_all)
  show "aside (on_db (add_reservation booked_stay) fresh_hotel) booked_hotel"
    by (rule create_reservation_cases [OF r]) (use w' sample_plan in simp_all)
qed

lemma booked_tables:
  "reservations (cur booked_hotel) = [booked_stay]" "res_org (cur booked_hotel) booked_stay = Some 1"
  using aside_scope [OF booked_run(2)]
  by (simp_all add: fresh_hotel_def res_org_def unit_org_def unit_get_def property_org_def
      property_get_def row_get_def sample_db_def)

lemma booked_reachable: "booking_reachable sample_env booked_hotel"
proof (rule booking_reachable.step [OF fresh_reachable])
  have "run_booking sample_env 1 (Create 123456 sample_booking) fresh_hotel = (Inr (), booked_hotel)"
    by (simp add: booked_run(1) drop_result_def)
  then show "booking_step sample_env fresh_hotel booked_hotel" by (rule booking_step.run)
qed

lemma booked_find: "find_reservation 1 1 (cur booked_hotel) = Some booked_stay"
  by (simp add: find_reservation_def scoped_reservations_def booked_tables)

theorem no_double_booking_witness:
  "occupants 1 (ordinal_of 2026 2 1) (cur booked_hotel) = [booked_stay]
    \<and> length (occupants 1 (ordinal_of 2026 2 1) (com booked_hotel)) \<le> 1"
proof -
  have "occupants 1 (ordinal_of 2026 2 1) (cur booked_hotel) = [booked_stay]"
    using sample_days(3) by (simp add: occupants_def booked_tables)
  then show ?thesis using no_double_booking [OF booked_reachable] by blast
qed

theorem calendar_refinement_witness:
  "cal_book 1 1 (ordinal_of 2026 2 1) (ordinal_of 2026 2 3) (occupancy (cur fresh_hotel))
    = Some (occupancy (cur booked_hotel))"
  using calendar_refinement [OF fresh_reachable [of sample_env], of 123456 1] booked_run(1) sample_plan by fastforce

theorem booking_accepted_iff_free_witness:
  "create_reservation sample_env 123456 1 sample_booking booked_hotel = (Inl e_res_overlap, booked_hotel)"
proof -
  have s: "units (cur booked_hotel) = units (cur fresh_hotel)" "properties (cur booked_hotel) = properties (cur fresh_hotel)"
    "guests (cur booked_hotel) = guests (cur fresh_hotel)"
    using booked_run(2) core_tables(2-4) [of "cur booked_hotel" "add_reservation booked_stay (cur fresh_hotel)"]
    by (simp_all add: aside_def)
  have u: "find_unit 1 (ca_unit sample_booking) (cur booked_hotel)
      = Some (sample_unit 1 1 ''A1'')"
    using sample_checks(3) by (simp add: find_unit_def property_org_def property_get_def s)
  have g: "create_guest 1 (ca_guest sample_booking) (ca_guest_name sample_booking) (cur booked_hotel) = Inr (None, ''Ada'')"
    by (simp add: create_guest_def sample_booking_def strip_def is_blank_def)
  have "occupancy (cur booked_hotel) (ca_unit sample_booking) (ordinal_of 2026 2 1) = Some 1"
    using sample_days(3) by (simp add: occupancy_def occupants_def booked_tables sample_booking_def)
  then have "\<not> (\<forall>n\<in>{ordinal_of 2026 2 1..<ordinal_of 2026 2 3}.
      occupancy (cur booked_hotel) (ca_unit sample_booking) n = None)" using sample_days(3) by force
  then show ?thesis
    using booking_accepted_iff_free [OF booked_reachable sample_checks(1,2) u g _ sample_checks(5,6) sample_days(3), of 123456]
    by simp
qed

theorem tenant_isolation_witness:
  "booked_stay \<in> set (reservations (cur (snd (run_booking sample_env 2 (Cancel 1 None) booked_hotel))))"
proof -
  obtain x w' where r: "run_booking sample_env 2 (Cancel 1 None) booked_hotel = (x, w')" by fastforce
  from tenant_isolation [OF booked_reachable r] r show ?thesis by (simp add: booked_tables)
qed

theorem cancel_once_witness:
  "\<exists>x w1. cancel_reservation sample_env 1 1 None booked_hotel = (x, w1)
    \<and> cancel_reservation sample_env 1 1 (Some 7) w1 = (x, w1)"
proof -
  obtain x w1 where c: "cancel_reservation sample_env 1 1 None booked_hotel = (x, w1)" by fastforce
  from cancel_once [OF booked_reachable c, of "Some 7"] c show ?thesis by (auto simp: booked_find)
qed

text \<open>A vendor that is down, and the cancelling of a stay with a door code as an edit.\<close>

definition vendor_down :: env where
  "vendor_down = sample_env\<lparr>lock_revoke := (\<lambda>h. Inl RuntimeError)\<rparr>"

definition cancelling :: "(string \<times> scalar) list" where
  "cancelling = [(''guest_name'', SStr ''Ada''), (''property_id'', SInt 1), (''unit_id'', SInt 1),
     (''start_date'', SStr (isoformat (ordinal_of 2026 1 9))), (''end_date'', SStr (isoformat (ordinal_of 2026 1 12))),
     (''status'', SStr ''cancelled'')]"

definition stay_cancelled :: reservation where
  "stay_cancelled = sample_stay\<lparr>res_guest := None, res_status := ''cancelled'', res_amount := None\<rparr>"

lemma isoformat_not_empty: "isoformat d \<noteq> ''''"
  by (simp add: isoformat_def split_beta)

lemma cancelling_plan: "update_plan 1 1 cancelling sample_coded = Inr (sample_stay, stay_cancelled)"
proof -
  have f: "find_reservation 1 1 (cur sample_coded) = Some sample_stay"
    by (rule find_sample_stay) (simp_all add: sample_coded_def)
  have v: "valid_date (ordinal_of 2026 1 9)" "valid_date (ordinal_of 2026 1 12)"
    "ordinal_of 2026 1 9 < ordinal_of 2026 1 12" by (code_simp, code_simp, code_simp)
  have t: "strip ''Ada'' = ''Ada''" "lower (strip ''cancelled'') = ''cancelled''" by (code_simp, code_simp)
  have d: "payload_dates cancelling = Inr (ordinal_of 2026 1 9, ordinal_of 2026 1 12)"
    using v isoformat_not_empty by (simp add: payload_dates_def cancelling_def dget_def str_or_def parse_iso_roundtrip)
  have g: "strip_text (dget ''guest_name'' cancelling) = Inr ''Ada''"
    by (simp add: cancelling_def dget_def t(1))
  have st: "update_status cancelling = Inr ''cancelled''"
    using t(2) by (simp add: cancelling_def dget_def update_status_def)
  have m: "parse_amount (dget ''amount'' cancelling) = Inr None" "parse_currency (dget ''currency'' cancelling) = Inr ''EUR''"
    by (simp_all add: cancelling_def dget_def parse_amount_def parse_currency_def str_or_def strip_def is_blank_def
        upper_def upper_char_def is_alpha_def is_alpha_char_def)
  have n: "py_int (dget ''property_id'' cancelling) = Inr 1" "py_int (dget ''unit_id'' cancelling) = Inr 1"
    "strip (str_or (dget ''guest_id'' cancelling) '''') = ''''"
    by (simp_all add: cancelling_def dget_def str_or_def strip_def)
  have u: "find_unit 1 1 (cur sample_coded) = Some (sample_unit 1 1 ''A1'')"
    by (simp add: find_unit_def sample_coded_def sample_hotel_def sample_db_def property_org_def property_get_def row_get_def)
  have t: "res_touch sample_coded sample_stay stay_cancelled = stay_cancelled"
    by (simp add: res_touch_def stay_cancelled_def sample_coded_def sample_stay_def)
  show ?thesis
    using d g st m n u t by (simp add: update_plan_def f update_guest_def update_unit_def Let_def stay_cancelled_def sample_stay_def sample_unit_def)
qed

lemma cancelling_run:
  "fst (run_booking vendor_down 1 (Update 1 cancelling None) sample_coded) = Inl (PyError RuntimeError)"
  "reservations (cur (snd (run_booking vendor_down 1 (Update 1 cancelling None) sample_coded))) = [stay_cancelled]"
proof -
  let ?a = "res_change_audit 1 None 1 (res_snapshot sample_stay) (res_snapshot stay_cancelled)"
  let ?s = "save_reservation vendor_down ''reservation_updated'' ?a stay_cancelled sample_coded"
  have i: "res_id stay_cancelled = 1" "res_status stay_cancelled = ''cancelled''"
    by (simp_all add: stay_cancelled_def sample_stay_def)
  have na: "\<not> aa_commit ?a" by (simp add: res_change_audit_def)
  have rs: "reservations (cur ?s) = [stay_cancelled]" "access_codes (cur ?s) = [sample_code]"
    "locks (cur ?s) = [sample_lock]" "units (cur ?s) = units sample_db" "properties (cur ?s) = properties sample_db"
    using na by (simp_all add: save_reservation_def sample_coded_def row_put_def i) (simp add: sample_stay_def)
  have ro: "res_org d stay_cancelled = Some 1" if "units d = units sample_db" "properties d = properties sample_db" for d
    using that by (simp add: res_org_def unit_org_def unit_get_def property_org_def property_get_def
        stay_cancelled_def sample_stay_def sample_db_def row_get_def)
  have f: "find_reservation 1 1 (cur ?s) = Some stay_cancelled"
    using rs(4,5) ro by (simp add: find_reservation_def scoped_reservations_def rs(1) i)
  have rows: "revocable_codes 1 1 (cur ?s) = [sample_code]"
    using f by (simp add: revocable_codes_def rs(2) sample_code_def)
  have down: "lock_revoke vendor_down h = Inl RuntimeError" for h by (simp add: vendor_down_def)
  have v: "revoke_at_vendor vendor_down sample_code ?s
      = (Inl (PyError RuntimeError), call_out (LockRevoke ''dev-1'' ''pc-1'') ?s)"
    by (simp add: revoke_at_vendor_def rs(3) sample_code_def sample_lock_def revoke_access_code_def down lift_py_def)
  have r: "run_booking vendor_down 1 (Update 1 cancelling None) sample_coded
      = (Inl (PyError RuntimeError), call_out (LockRevoke ''dev-1'' ''pc-1'') ?s)"
    by (simp add: update_reservation_def cancelling_plan update_revoke_def i
        revoke_access_codes_for_reservation_def rows v drop_result_def)
  show "fst (run_booking vendor_down 1 (Update 1 cancelling None) sample_coded) = Inl (PyError RuntimeError)"
    unfolding r by simp
  show "reservations (cur (snd (run_booking vendor_down 1 (Update 1 cancelling None) sample_coded))) = [stay_cancelled]"
    unfolding r by (simp add: rs(1) call_out_def)
qed

theorem errors_leave_no_trace_witness:
  "snd (run_booking sample_env 2 (Cancel 1 None) booked_hotel) = booked_hotel
    \<and> map res_status (reservations (com (snd (run_booking vendor_down 1 (Update 1 cancelling None) sample_coded))))
        = [''cancelled'']"
proof
  have f: "find_reservation 2 1 (cur booked_hotel) = None"
    by (simp add: find_reservation_def scoped_reservations_def booked_tables)
  then have r: "run_booking sample_env 2 (Cancel 1 None) booked_hotel
      = (Inl e_res_not_found, snd (run_booking sample_env 2 (Cancel 1 None) booked_hotel))"
    by (simp add: cancel_reservation_def drop_result_def)
  from errors_leave_no_trace [OF r]
  show "snd (run_booking sample_env 2 (Cancel 1 None) booked_hotel) = booked_hotel" by simp
next
  let ?y = "run_booking vendor_down 1 (Update 1 cancelling None) sample_coded"
  have r: "?y = (Inl (PyError RuntimeError), snd ?y)" using cancelling_run(1) by (metis prod.collapse)
  have n: "snd ?y \<noteq> sample_coded"
  proof
    assume "snd ?y = sample_coded"
    then have "[stay_cancelled] = [sample_stay]" using cancelling_run(2) by (simp add: sample_coded_def)
    then show False by (simp add: stay_cancelled_def sample_stay_def)
  qed
  from errors_leave_no_trace [OF r]
  show "map res_status (reservations (com (snd ?y))) = [''cancelled'']"
  proof (elim disjE exE conjE)
    fix rid data actor old r w1
    assume c: "Update 1 cancelling None = Update rid data actor" "update_plan 1 rid data sample_coded = Inr (old, r)"
      "reservations (com w1) = row_put res_id r (reservations (cur sample_coded))" "com (snd ?y) = com w1"
    have "r = stay_cancelled" using c(1,2) cancelling_plan by simp
    then show ?thesis using c(3,4) by (simp add: row_put_def sample_coded_def stay_cancelled_def sample_stay_def)
  qed (use n in simp)
qed

end
