(* ===== verification/Availability.thy ===== *)
theory Availability
  imports BookingCalendar
begin

text \<open>
  The availability views of app/reservations/services.py: the matrix of units and days, the
  quick list of free units and the calendar events. A cell of the matrix is a \<open>day_cell\<close>; the
  code's dictionary of days is a function on dates, read off on the requested range. Main facts:
  a free cell is a free night, a reserved cell names its holder, and a day on which one stay
  ends and another begins is shown as a checkout, which the quick list counts as free.
\<close>

subsection \<open>The matrix\<close>

datatype day_cell = Free | Blocked | Reserved int string bool | Maintenance int
  | Checkout int string bool | Checkin int string bool

definition shown_guest :: "db \<Rightarrow> reservation \<Rightarrow> string" where
  "shown_guest d r =
     (let full = strip (guest_full_name (res_guest_row r d)); name = strip (res_guest_name r) in
      if full \<noteq> '''' then full else if name \<noteq> '''' then name else ''Varaus'')"

definition unit_blocked :: "unit_row \<Rightarrow> bool" where
  "unit_blocked u \<longleftrightarrow> lower (or_empty (u_type u)) \<in> {''blocked'', ''out_of_service'', ''inactive''}"

text \<open>The units of the organization with their properties, in the order of the names.\<close>

definition matrix_units :: "env \<Rightarrow> int \<Rightarrow> int option \<Rightarrow> db \<Rightarrow> (property_row \<times> unit_row) list" where
  "matrix_units en oid pid d =
     sort_key (\<lambda>(p, u). collation en (p_name p)) (sort_key (\<lambda>(p, u). collation en (u_name u))
       (sort_key (\<lambda>(p, u). u_id u)
         (filter (\<lambda>(p, u). p_org p = oid \<and> (pid = None \<or> pid = Some (p_id p)))
           (List.map_filter (\<lambda>u. map_option (\<lambda>p. (p, u)) (property_get (u_property u) d)) (units d)))))"

definition matrix_rows ::
  "int \<Rightarrow> date \<Rightarrow> date \<Rightarrow> int option \<Rightarrow> bool \<Rightarrow> db \<Rightarrow> reservation list" where
  "matrix_rows oid s e pid with_cancelled d =
     order2 res_start res_id (filter (\<lambda>r. res_start r < e + 1 \<and> s < res_end r
         \<and> (pid = None \<or> pid = map_option u_property (unit_get (res_unit r) d))
         \<and> (with_cancelled \<or> lower (res_status r) \<in> {''confirmed'', ''active''}))
       (scoped_reservations oid d))"

text \<open>The requests come without an order; the last one of a day is shown.\<close>

definition matrix_requests :: "int \<Rightarrow> date \<Rightarrow> date \<Rightarrow> db \<Rightarrow> maintenance_request list" where
  "matrix_requests oid s e d =
     filter (\<lambda>m. mr_org m = oid \<and> mr_unit m \<noteq> None
         \<and> (case mr_due m of None \<Rightarrow> False | Some t \<Rightarrow> s \<le> t \<and> t \<le> e)
         \<and> mr_status m \<notin> {''resolved'', ''cancelled''}) (maintenance d)"

definition mark_stay :: "db \<Rightarrow> date \<Rightarrow> date \<Rightarrow> reservation \<Rightarrow> (date \<Rightarrow> day_cell) \<Rightarrow> date \<Rightarrow> day_cell" where
  "mark_stay d s e r cells = (\<lambda>day.
     if max (res_start r) s \<le> day \<and> day \<le> min (res_end r - 1) e
     then Reserved (res_id r) (shown_guest d r) (day = res_start r) else cells day)"

definition mark_request :: "maintenance_request \<Rightarrow> (date \<Rightarrow> day_cell) \<Rightarrow> date \<Rightarrow> day_cell" where
  "mark_request m cells = (\<lambda>day. if mr_due m = Some day then Maintenance (mr_id m) else cells day)"

text \<open>The first stay that arrives, or leaves, on a day of the range.\<close>

definition arrival_on :: "date \<Rightarrow> date \<Rightarrow> reservation list \<Rightarrow> date \<Rightarrow> reservation option" where
  "arrival_on s e rows day = List.find (\<lambda>r. s \<le> res_start r \<and> res_start r \<le> e \<and> res_start r = day) rows"

definition departure_on :: "date \<Rightarrow> date \<Rightarrow> reservation list \<Rightarrow> date \<Rightarrow> reservation option" where
  "departure_on s e rows day = List.find (\<lambda>r. s \<le> res_end r \<and> res_end r \<le> e \<and> res_end r = day) rows"

definition mark_departure ::
  "db \<Rightarrow> date \<Rightarrow> date \<Rightarrow> reservation list \<Rightarrow> (date \<Rightarrow> day_cell) \<Rightarrow> date \<Rightarrow> day_cell" where
  "mark_departure d s e rows cells = (\<lambda>day.
     case departure_on s e rows day of
       None \<Rightarrow> cells day
     | Some r \<Rightarrow>
         (case cells day of
            Maintenance i \<Rightarrow> cells day
          | Blocked \<Rightarrow> cells day
          | _ \<Rightarrow> Checkout (res_id r) (shown_guest d r) False))"

definition mark_arrival ::
  "db \<Rightarrow> date \<Rightarrow> date \<Rightarrow> reservation list \<Rightarrow> (date \<Rightarrow> day_cell) \<Rightarrow> date \<Rightarrow> day_cell" where
  "mark_arrival d s e rows cells = (\<lambda>day.
     case arrival_on s e rows day of
       None \<Rightarrow> cells day
     | Some r \<Rightarrow> if cells day = Free then Checkin (res_id r) (shown_guest d r) True else cells day)"

definition unit_cells ::
  "db \<Rightarrow> date \<Rightarrow> date \<Rightarrow> reservation list \<Rightarrow> maintenance_request list \<Rightarrow> unit_row \<Rightarrow> date \<Rightarrow> day_cell" where
  "unit_cells d s e rows reqs u =
     (if unit_blocked u then (\<lambda>_. Blocked)
      else
        let own = filter (\<lambda>r. res_unit r = u_id u) rows;
            open_reqs = filter (\<lambda>m. mr_unit m = Some (u_id u)) reqs
        in mark_arrival d s e own (mark_departure d s e own
             (fold mark_request open_reqs (fold (mark_stay d s e) own (\<lambda>_. Free)))))"

record unit_days =
  ud_unit :: unit_row
  ud_days :: "(date \<times> day_cell) list"

record property_days =
  pd_property :: property_row
  pd_units :: "unit_days list"

text \<open>\<open>setdefault\<close> on the property and \<open>append\<close> of the unit.\<close>

fun add_unit_days :: "property_row \<Rightarrow> unit_days \<Rightarrow> property_days list \<Rightarrow> property_days list" where
  "add_unit_days p x [] = [\<lparr>pd_property = p, pd_units = [x]\<rparr>]"
| "add_unit_days p x (b # bs) =
     (if p_id (pd_property b) = p_id p then b\<lparr>pd_units := pd_units b @ [x]\<rparr> # bs
      else b # add_unit_days p x bs)"

definition availability_matrix ::
  "env \<Rightarrow> int \<Rightarrow> date \<Rightarrow> date \<Rightarrow> int option \<Rightarrow> bool \<Rightarrow> db \<Rightarrow> exn + property_days list" where
  "availability_matrix en oid s e pid with_cancelled d =
     (if e < s then Inl (e_res_invalid ''Invalid date range.'')
      else if pid \<noteq> None \<and> find_property oid (the pid) d = None
      then Inl (e_res_invalid ''Invalid property filter.'')
      else
        let rows = matrix_rows oid s e pid with_cancelled d; reqs = matrix_requests oid s e d
        in Inr (foldl (\<lambda>acc (p, u). add_unit_days p
             \<lparr>ud_unit = u, ud_days = map (\<lambda>day. (day, unit_cells d s e rows reqs u day)) [s..e]\<rparr> acc)
             [] (matrix_units en oid pid d)))"

definition compute_availability_matrix ::
  "env \<Rightarrow> int \<Rightarrow> date \<Rightarrow> date \<Rightarrow> int option \<Rightarrow> bool \<Rightarrow> db \<Rightarrow> exn + property_days list" where
  "compute_availability_matrix en oid s e pid with_cancelled d = availability_matrix en oid s e pid with_cancelled d"

subsection \<open>Quick availability\<close>

definition resolve_quick_availability_range :: "env \<Rightarrow> string \<Rightarrow> date option \<Rightarrow> exn + date \<times> date" where
  "resolve_quick_availability_range en range_key given =
     (let key = lower (strip range_key); base = (case given of None \<Rightarrow> local_today en | Some t \<Rightarrow> t) in
      if key \<notin> {''today'', ''tomorrow'', ''weekend'', ''7d''}
      then Inl (e_res ''invalid_range'' ''Invalid availability range.'' 400)
      else if key = ''today'' then Inr (base, base)
      else if key = ''tomorrow'' then Inr (base + 1, base + 1)
      else if key = ''7d'' then Inr (base, base + 6)
      else if weekday base = 6 then Inr (base, base)
      else let saturday = base + (5 - weekday base) mod 7 in Inr (saturday, saturday + 1))"

fun counts_as_free :: "day_cell \<Rightarrow> bool" where
  "counts_as_free Free = True"
| "counts_as_free (Checkout _ _ _) = True"
| "counts_as_free _ = False"

definition next_start :: "int \<Rightarrow> date \<Rightarrow> int \<Rightarrow> db \<Rightarrow> date option" where
  "next_start oid s uid d =
     (let starts = map res_start (filter (\<lambda>r. res_unit r = uid \<and> res_status r \<noteq> ''cancelled'' \<and> s < res_end r)
        (scoped_reservations oid d))
      in if starts = [] then None else Some (Min (set starts)))"

record free_unit =
  fu_property :: string
  fu_unit :: string
  fu_unit_id :: int
  fu_free_days :: nat
  fu_next_in_days :: "int option"

definition free_units_of :: "int \<Rightarrow> date \<Rightarrow> property_days list \<Rightarrow> db \<Rightarrow> free_unit list" where
  "free_units_of oid s matrix d =
     concat (map (\<lambda>p. List.map_filter (\<lambda>u.
       let free = length (filter (\<lambda>(day, c). counts_as_free c) (ud_days u)) in
       if free = 0 then None
       else Some \<lparr>fu_property = p_name (pd_property p), fu_unit = u_name (ud_unit u),
         fu_unit_id = u_id (ud_unit u), fu_free_days = free,
         fu_next_in_days = map_option (\<lambda>t. max 0 (t - s)) (next_start oid s (u_id (ud_unit u)) d)\<rparr>)
       (pd_units p)) matrix)"

definition get_quick_availability ::
  "env \<Rightarrow> int \<Rightarrow> string \<Rightarrow> db \<Rightarrow> exn + string \<times> date \<times> date \<times> free_unit list" where
  "get_quick_availability en oid range_key d =
     (let key = (if lower (strip range_key) = '''' then ''today'' else lower (strip range_key)) in
      case resolve_quick_availability_range en key None of
        Inl x \<Rightarrow> Inl x
      | Inr (s, e) \<Rightarrow>
          (case availability_matrix en oid s e None False d of
             Inl x \<Rightarrow> Inl x
           | Inr matrix \<Rightarrow> Inr (key, s, e, free_units_of oid s matrix d)))"

subsection \<open>What the cells say\<close>

lemma fold_mark_stay:
  "fold (mark_stay d s e) rows f day =
     (case filter (\<lambda>r. max (res_start r) s \<le> day \<and> day \<le> min (res_end r - 1) e) (rev rows) of
        [] \<Rightarrow> f day | r # _ \<Rightarrow> Reserved (res_id r) (shown_guest d r) (day = res_start r))"
  by (induction rows rule: rev_induct) (simp_all add: mark_stay_def)

lemma fold_mark_request:
  "fold mark_request ms f day =
     (case filter (\<lambda>m. mr_due m = Some day) (rev ms) of [] \<Rightarrow> f day | m # _ \<Rightarrow> Maintenance (mr_id m))"
  by (induction ms rule: rev_induct) (simp_all add: mark_request_def)


lemma matrix_units_mem:
  "(p, u) \<in> set (matrix_units en oid pid d) \<Longrightarrow>
     u \<in> set (units d) \<and> property_get (u_property u) d = Some p \<and> p_org p = oid"
  by (auto simp: matrix_units_def List.map_filter_def)

lemma add_unit_days_mem:
  assumes "b \<in> set (add_unit_days p x bs)" and "y \<in> set (pd_units b)"
  shows "(y = x \<and> p_id (pd_property b) = p_id p) \<or> (\<exists>c\<in>set bs. pd_property c = pd_property b \<and> y \<in> set (pd_units c))"
  using assms(1)
proof (induction bs)
  case (Cons c cs)
  then show ?case using assms(2) by (cases "p_id (pd_property c) = p_id p") auto
qed (use assms(2) in auto)

lemma foldl_units_mem:
  assumes "b \<in> set (foldl (\<lambda>acc (p, u). add_unit_days p (g u) acc) acc0 pus)" and "y \<in> set (pd_units b)"
  shows "(\<exists>(p, u)\<in>set pus. y = g u \<and> p_id (pd_property b) = p_id p)
    \<or> (\<exists>c\<in>set acc0. pd_property c = pd_property b \<and> y \<in> set (pd_units c))"
  using assms(1)
proof (induction pus arbitrary: acc0)
  case Nil
  then show ?case using assms(2) by auto
next
  case (Cons pu pus)
  obtain p u where pu: "pu = (p, u)" by fastforce
  from Cons.prems have "b \<in> set (foldl (\<lambda>acc (p, u). add_unit_days p (g u) acc) (add_unit_days p (g u) acc0) pus)"
    by (simp add: pu)
  from Cons.IH [OF this] show ?case
  proof (elim disjE bexE conjE)
    fix c assume c: "c \<in> set (add_unit_days p (g u) acc0)" "pd_property c = pd_property b" "y \<in> set (pd_units c)"
    from add_unit_days_mem [OF c(1,3)] show ?thesis using c(2) by (auto simp: pu)
  qed (auto simp: pu)
qed

text \<open>Every cell of a matrix is a cell of a unit of the organization, on a day of the range.\<close>

lemma matrix_cell:
  assumes "availability_matrix en oid s e pid inc d = Inr m" and "b \<in> set m" and "x \<in> set (pd_units b)"
    and "(day, c) \<in> set (ud_days x)"
  shows "ud_unit x \<in> set (units d)" "property_org (u_property (ud_unit x)) d = Some oid" "s \<le> day" "day \<le> e"
    "c = unit_cells d s e (matrix_rows oid s e pid inc d) (matrix_requests oid s e d) (ud_unit x) day"
    "pid = None \<or> pid = Some (u_property (ud_unit x))"
proof -
  let ?rows = "matrix_rows oid s e pid inc d" and ?reqs = "matrix_requests oid s e d"
  let ?g = "\<lambda>u. \<lparr>ud_unit = u, ud_days = map (\<lambda>day. (day, unit_cells d s e ?rows ?reqs u day)) [s..e]\<rparr>"
  have m: "m = foldl (\<lambda>acc (p, u). add_unit_days p (?g u) acc) [] (matrix_units en oid pid d)"
    using assms(1) by (auto simp: availability_matrix_def Let_def split: if_splits)
  have "b \<in> set (foldl (\<lambda>acc (p, u). add_unit_days p (?g u) acc) [] (matrix_units en oid pid d))"
    using assms(2) unfolding m .
  from foldl_units_mem [OF this assms(3)] obtain p u where pu: "(p, u) \<in> set (matrix_units en oid pid d)" "x = ?g u"
    by auto
  note mu = matrix_units_mem [OF pu(1)]
  show "ud_unit x \<in> set (units d)" "property_org (u_property (ud_unit x)) d = Some oid"
    using mu pu(2) by (simp_all add: property_org_def)
  show "s \<le> day" "day \<le> e" "c = unit_cells d s e ?rows ?reqs (ud_unit x) day"
    using assms(4) pu(2) by auto
  show "pid = None \<or> pid = Some (u_property (ud_unit x))"
    using pu mu by (auto simp: matrix_units_def List.map_filter_def property_get_def dest: row_get_in)
qed

text \<open>The rows that count for a unit are those that hold one of its nights in the range.\<close>

lemma unit_rows_covers:
  assumes "booking_inv w" and "u \<in> set (units (cur w))" and "property_org (u_property u) (cur w) = Some oid"
    and "pid = None \<or> pid = Some (u_property u)" and "s \<le> day" "day \<le> e"
  shows "r \<in> set (filter (\<lambda>r. res_unit r = u_id u) (matrix_rows oid s e pid False (cur w)))
      \<and> max (res_start r) s \<le> day \<and> day \<le> min (res_end r - 1) e
    \<longleftrightarrow> r \<in> set (occupants (u_id u) day (cur w))"
proof -
  have g: "unit_get (u_id u) (cur w) = Some u"
    using assms(1,2) row_get_mem [of u_id "units (cur w)" u] by (simp add: unit_get_def booking_inv_def places_ok_def)
  have live: "lower (res_status r) \<in> {''confirmed'', ''active''} \<longleftrightarrow> res_status r \<noteq> ''cancelled''"
    if "r \<in> set (reservations (cur w))" for r
  proof -
    have "res_status r = ''confirmed'' \<or> res_status r = ''cancelled''"
      using assms(1) that by (auto simp: booking_inv_def bookings_ok_def stay_ok_def)
    then show ?thesis by (auto simp: lower_def lower_char_def)
  qed
  show ?thesis
    using live [of r] g assms(3-)
    by (auto simp: matrix_rows_def scoped_reservations_def res_org_def unit_org_def occupants_def)
qed





subsection \<open>Properties\<close>


text \<open>A turnover day, on which one stay of a unit ends and the next begins, is shown as a checkout and
  counted as a free day by the quick list, although the night is taken.\<close>

theorem turnover_counts_as_free:
  assumes "booking_reachable en0 w" and "availability_matrix en oid s e pid False (cur w) = Inr m"
    and "b \<in> set m" and "x \<in> set (pd_units b)" and "(day, c) \<in> set (ud_days x)"
    and "\<not> unit_blocked (ud_unit x)" and "s < day"
    and "filter (\<lambda>q. mr_due q = Some day) (matrix_requests oid s e (cur w)) = []"
    and "prev \<in> set (occupants (u_id (ud_unit x)) (day - 1) (cur w))" and "res_end prev = day"
    and "nxt \<in> set (occupants (u_id (ud_unit x)) day (cur w))"
  shows "(\<exists>i n. c = Checkout i n False) \<and> counts_as_free c
    \<and> occupancy (cur w) (u_id (ud_unit x)) day = Some (res_id nxt)"
proof -
  let ?u = "ud_unit x"
  let ?own = "filter (\<lambda>r. res_unit r = u_id ?u) (matrix_rows oid s e pid False (cur w))"
  note inv = booking_reachable_inv [OF assms(1)]
  note cell = matrix_cell [OF assms(2-5)]
  have occ: "occupancy (cur w) (u_id ?u) day = Some (res_id nxt)"
    using occupancy_iff [of "cur w"] inv assms(11) by (auto simp: booking_inv_def)
  have own: "prev \<in> set ?own"
    using unit_rows_covers [OF inv cell(1,2,6), of s "day - 1" e prev] assms(7,9) cell(4) by auto
  have dep: "departure_on s e ?own day \<noteq> None"
    unfolding departure_on_def find_None_iff using own assms(7,10) cell(4) by force
  have stays: "fold (mark_stay (cur w) s e) ?own (\<lambda>_. Free) day \<notin> range Maintenance \<union> {Blocked}"
    by (auto simp: fold_mark_stay split: list.splits)
  have noreq: "filter (\<lambda>m. mr_due m = Some day)
      (rev (filter (\<lambda>m. mr_unit m = Some (u_id ?u)) (matrix_requests oid s e (cur w)))) = []"
    using assms(8) by (auto simp: filter_empty_conv)
  have "\<exists>i n. c = Checkout i n False"
    using dep stays assms(6) unfolding cell(5)
    by (auto simp: unit_cells_def Let_def mark_arrival_def mark_departure_def fold_mark_request noreq
        split: option.splits day_cell.splits)
  then show ?thesis using occ by auto
qed

text \<open>The quick availability ranges lie in the coming week: never before today, at most seven days,
  in order, and the weekend is made of Saturday and Sunday only.\<close>

theorem quick_range_bounds:
  assumes "resolve_quick_availability_range en key given = Inr (s, e)"
  shows "(case given of None \<Rightarrow> local_today en | Some t \<Rightarrow> t) \<le> s \<and> s \<le> e
    \<and> e \<le> (case given of None \<Rightarrow> local_today en | Some t \<Rightarrow> t) + 6
    \<and> (lower (strip key) = ''weekend'' \<longrightarrow> weekday s \<in> {5, 6} \<and> weekday e = 6)"
proof -
  define base where "base = (case given of None \<Rightarrow> local_today en | Some t \<Rightarrow> t)"
  have range: "0 \<le> weekday base \<and> weekday base < 7" by (rule weekday_range)
  have plus: "weekday (base + k) = (weekday base + k) mod 7" for k
    by (simp add: weekday_def mod_simps algebra_simps)
  have plus2: "weekday (k + base) = (weekday base + k) mod 7" for k
    using plus [of k] by (simp add: add.commute)
  have sat: "weekday base = 0 \<or> weekday base = 1 \<or> weekday base = 2 \<or> weekday base = 3 \<or> weekday base = 4
      \<or> weekday base = 5 \<or> weekday base = 6" using range by arith
  show ?thesis
    using assms sat
    unfolding resolve_quick_availability_range_def Let_def
    by (fold base_def) (auto simp: plus plus2 base_def [symmetric] split: if_splits)
qed

subsection \<open>Concrete runs\<close>

lemma sample_matrix:
  assumes "units d = units sample_db" and "properties d = properties sample_db" and "s \<le> e"
  shows "\<exists>b x. availability_matrix sample_env 1 s e None False d = Inr [b] \<and> pd_units b = [x]
    \<and> u_id (ud_unit x) = 1 \<and> \<not> unit_blocked (ud_unit x)
    \<and> ud_days x = map (\<lambda>day. (day, unit_cells d s e (matrix_rows 1 s e None False d)
        (matrix_requests 1 s e d) (ud_unit x) day)) [s..e]"
proof -
  have m: "matrix_units sample_env 1 None d
      = [(sample_property 1 1 ''North'',
          sample_unit 1 1 ''A1'')]"
    using assms(1,2)
    by (simp add: matrix_units_def List.map_filter_def sample_db_def property_get_def row_get_def)
  show ?thesis
    using assms(3) by (simp add: availability_matrix_def m Let_def unit_blocked_def or_empty_def lower_def)
qed

lemma booked_places:
  "units (cur booked_hotel) = units sample_db" "properties (cur booked_hotel) = properties sample_db"
  using booked_run(2) core_tables(2-4) [of "cur booked_hotel" "add_reservation booked_stay (cur fresh_hotel)"]
  by (simp_all add: aside_def fresh_hotel_def)


theorem quick_range_bounds_witness:
  "\<exists>s e. resolve_quick_availability_range sample_env ''weekend'' (Some (ordinal_of 2026 2 4)) = Inr (s, e)
    \<and> ordinal_of 2026 2 4 \<le> s \<and> weekday e = 6"
proof -
  have k: "lower (strip ''weekend'') = ''weekend''" by code_simp
  obtain s e where r: "resolve_quick_availability_range sample_env ''weekend'' (Some (ordinal_of 2026 2 4)) = Inr (s, e)"
    by (cases "weekday (ordinal_of 2026 2 4) = 6") (auto simp: resolve_quick_availability_range_def k Let_def)
  from quick_range_bounds [OF r] r k show ?thesis by auto
qed

text \<open>The day the first guest leaves is the day the next one arrives.\<close>

definition next_booking :: create_args where
  "next_booking = sample_booking\<lparr>ca_start := isoformat (ordinal_of 2026 2 3),
     ca_end := isoformat (ordinal_of 2026 2 5)\<rparr>"

definition next_stay :: reservation where
  "next_stay = new_reservation 1 None ''Ada'' (ordinal_of 2026 2 3) (ordinal_of 2026 2 5) None ''EUR'' booked_hotel"

definition turnover_hotel :: world where
  "turnover_hotel = snd (create_reservation sample_env 654321 1 next_booking booked_hotel)"

lemma turnover_days: "valid_date (ordinal_of 2026 2 5)" "ordinal_of 2026 2 1 + 1 < ordinal_of 2026 2 3"
  "ordinal_of 2026 2 3 < ordinal_of 2026 2 5"
  by (code_simp, code_simp, code_simp)

lemma next_plan: "create_plan 1 next_booking booked_hotel = Inr (next_stay, None)"
proof -
  have free: "overlapping 1 (ordinal_of 2026 2 3) (ordinal_of 2026 2 5) None (cur booked_hotel) = None"
    by (simp add: overlapping_def booked_tables overlaps_def)
  have u: "find_unit 1 (ca_unit next_booking) (cur booked_hotel) = Some (sample_unit 1 1 ''A1'')"
    using sample_checks(3) by (simp add: find_unit_def property_org_def property_get_def booked_places
      fresh_hotel_def next_booking_def)
  have g: "create_guest 1 (ca_guest next_booking) (ca_guest_name next_booking) (cur booked_hotel) = Inr (None, ''Ada'')"
    by (simp add: create_guest_def next_booking_def sample_booking_def strip_def is_blank_def)
  show ?thesis
    using sample_checks(1,2) sample_days(2) turnover_days(1,3) free u g
    by (simp add: create_plan_def validate_reservation_dates_and_overlap_def next_stay_def next_booking_def
        parse_iso_roundtrip sample_booking_def)
qed

lemma next_run:
  "create_reservation sample_env 654321 1 next_booking booked_hotel
     = (Inr (serialize_reservation next_stay), turnover_hotel)"
  "aside (on_db (add_reservation next_stay) booked_hotel) turnover_hotel"
proof -
  obtain x w' where r: "create_reservation sample_env 654321 1 next_booking booked_hotel = (x, w')" by fastforce
  then have w': "w' = turnover_hotel" by (simp add: turnover_hotel_def)
  show "create_reservation sample_env 654321 1 next_booking booked_hotel
     = (Inr (serialize_reservation next_stay), turnover_hotel)"
    by (rule create_reservation_cases [OF r]) (use r w' next_plan in simp_all)
  show "aside (on_db (add_reservation next_stay) booked_hotel) turnover_hotel"
    by (rule create_reservation_cases [OF r]) (use w' next_plan in simp_all)
qed

lemma next_stay_simps [simp]:
  "res_unit next_stay = 1" "res_status next_stay = ''confirmed''"
  "res_start next_stay = ordinal_of 2026 2 3" "res_end next_stay = ordinal_of 2026 2 5"
  by (simp_all add: next_stay_def new_reservation_def)

lemma turnover_tables:
  "reservations (cur turnover_hotel) = [booked_stay, next_stay]"
  "units (cur turnover_hotel) = units sample_db" "properties (cur turnover_hotel) = properties sample_db"
  using aside_scope [OF next_run(2)] next_run(2) booked_places
    core_tables(2-4) [of "cur turnover_hotel" "add_reservation next_stay (cur booked_hotel)"]
  by (simp_all add: booked_tables aside_def)

lemma turnover_reachable: "booking_reachable sample_env turnover_hotel"
proof (rule booking_reachable.step [OF booked_reachable])
  have "run_booking sample_env 1 (Create 654321 next_booking) booked_hotel = (Inr (), turnover_hotel)"
    by (simp add: next_run(1) drop_result_def)
  then show "booking_step sample_env booked_hotel turnover_hotel" by (rule booking_step.run)
qed

theorem turnover_counts_as_free_witness:
  "\<exists>c. counts_as_free c \<and> (\<exists>b x. availability_matrix sample_env 1 (ordinal_of 2026 2 1) (ordinal_of 2026 2 3) None False
      (cur turnover_hotel) = Inr [b] \<and> pd_units b = [x] \<and> (ordinal_of 2026 2 3, c) \<in> set (ud_days x))
    \<and> occupancy (cur turnover_hotel) 1 (ordinal_of 2026 2 3) = Some (res_id next_stay)"
proof -
  let ?d = "cur turnover_hotel" and ?day = "ordinal_of 2026 2 3"
  have le: "ordinal_of 2026 2 1 \<le> ?day" using sample_days(3) by simp
  obtain b x where m: "availability_matrix sample_env 1 (ordinal_of 2026 2 1) ?day None False ?d = Inr [b]"
    "pd_units b = [x]" "u_id (ud_unit x) = 1" "\<not> unit_blocked (ud_unit x)"
    and days: "ud_days x = map (\<lambda>day. (day, unit_cells ?d (ordinal_of 2026 2 1) ?day
       (matrix_rows 1 (ordinal_of 2026 2 1) ?day None False ?d)
       (matrix_requests 1 (ordinal_of 2026 2 1) ?day ?d) (ud_unit x) day)) [ordinal_of 2026 2 1..?day]"
    using sample_matrix [OF turnover_tables(2,3) le] by blast
  have "?day \<in> set (map fst (ud_days x))" using le by (simp add: days comp_def)
  then obtain c where c: "(?day, c) \<in> set (ud_days x)" by auto
  have q: "maintenance ?d = []"
    using next_run(2) booked_run(2) core_tables(11) [of "cur booked_hotel" "add_reservation booked_stay (cur fresh_hotel)"]
      core_tables(11) [of ?d "add_reservation next_stay (cur booked_hotel)"]
    by (simp add: aside_def fresh_hotel_def sample_db_def)
  have "counts_as_free c \<and> occupancy ?d 1 ?day = Some (res_id next_stay)"
    using turnover_counts_as_free [OF turnover_reachable m(1) _ _ c m(4), of b booked_stay next_stay]
      m(2,3) sample_days(3) turnover_days by (simp add: occupants_def turnover_tables matrix_requests_def q)
  then show ?thesis using m(1,2) c by blast
qed

end
