(* ===== verification/CalendarEvents.thy ===== *)
theory CalendarEvents
  imports Availability
begin

text \<open>
  \<open>get_calendar_events\<close> of app/reservations/services.py: the events of the admin calendar, built from
  the reservations, leases, invoices and maintenance requests of an organization. Each group is a
  query (\<open>*_rows\<close>) and a rendering (\<open>*_event\<close>). The loop over the reservations assigns to the
  parameter \<open>property_id\<close>, so the later queries see the property of the last reservation listed:
  \<open>shadowed_property\<close>. Main facts: a property filter holds for every event, and without one the
  shadowed property hides the other properties' leases, invoices and requests.
\<close>

record calendar_event =
  ev_id :: json
  ev_title :: string
  ev_start :: string
  ev_end :: string
  ev_status :: string
  ev_unit :: "int option"
  ev_property :: "int option"
  ev_color :: string
  ev_guest_name :: string
  ev_guest :: "int option"
  ev_property_name :: string
  ev_unit_name :: string
  ev_url :: string
  ev_editable :: bool

definition calendar_event_types :: "string set" where
  "calendar_event_types = {''reservations'', ''leases'', ''invoices'', ''maintenance''}"

definition calendar_color :: "string \<Rightarrow> string" where
  "calendar_color status =
     (if status = ''confirmed'' then ''#10b981'' else if status = ''cancelled'' then ''#9ca3af''
      else ''#3b82f6'')"

definition calendar_title_guest :: "string \<Rightarrow> string" where
  "calendar_title_guest label =
     (let trimmed = strip label in
      if trimmed = '''' then ''Guest''
      else if CHR ''@'' \<in> set trimmed
      then (let name = strip (takeWhile (\<lambda>c. c \<noteq> CHR ''@'') trimmed) in if name = '''' then ''Guest'' else name)
      else trimmed)"

definition single_day_end :: "date \<Rightarrow> string" where
  "single_day_end t = isoformat (t + 1)"

definition from_day :: "date option \<Rightarrow> date \<Rightarrow> bool" where
  "from_day s t = (case s of None \<Rightarrow> True | Some x \<Rightarrow> x \<le> t)"

definition before_day :: "date option \<Rightarrow> date \<Rightarrow> bool" where
  "before_day e t = (case e of None \<Rightarrow> True | Some x \<Rightarrow> t < x)"

definition id_is :: "int option \<Rightarrow> int option \<Rightarrow> bool" where
  \<comment> \<open>a filter that is left out, or that the column meets\<close>
  "id_is want have = (want = None \<or> have = want)"

definition guest_name_of :: "db \<Rightarrow> int option \<Rightarrow> string" where
  "guest_name_of d g = guest_full_name (case g of None \<Rightarrow> None | Some i \<Rightarrow> guest_get i d)"

definition unit_property_of :: "db \<Rightarrow> int \<Rightarrow> int option" where
  "unit_property_of d uid = map_option u_property (unit_get uid d)"

text \<open>The checks of the filters come before any query.\<close>

definition calendar_checks ::
  "int \<Rightarrow> int option \<Rightarrow> int option \<Rightarrow> string set option \<Rightarrow> db \<Rightarrow> exn + string set" where
  "calendar_checks oid pid uid types d =
     (let selected = (case types of None \<Rightarrow> {''reservations''} | Some t \<Rightarrow> if t = {} then {''reservations''} else t) in
      if \<not> selected \<subseteq> calendar_event_types
      then Inl (e_res_invalid ''Invalid calendar event type filter.'')
      else if pid \<noteq> None \<and> find_property oid (the pid) d = None
      then Inl (e_res_invalid ''Invalid property filter.'')
      else if uid \<noteq> None \<and> find_unit oid (the uid) d = None
      then Inl (e_res_invalid ''Invalid unit filter.'')
      else if uid \<noteq> None \<and> pid \<noteq> None \<and> map_option u_property (find_unit oid (the uid) d) \<noteq> pid
      then Inl (e_res_invalid ''Unit does not belong to the selected property.'')
      else Inr selected)"

subsection \<open>Reservations\<close>

definition calendar_rows ::
  "int \<Rightarrow> date option \<Rightarrow> date option \<Rightarrow> int option \<Rightarrow> int option \<Rightarrow> db \<Rightarrow> reservation list" where
  "calendar_rows oid s e pid uid d =
     order2 res_start res_id (filter (\<lambda>r. id_is pid (unit_property_of d (res_unit r)) \<and> id_is uid (Some (res_unit r))
         \<and> (case s of None \<Rightarrow> True | Some x \<Rightarrow> x < res_end r) \<and> before_day e (res_start r))
       (scoped_reservations oid d))"

definition reservation_event :: "db \<Rightarrow> reservation \<Rightarrow> calendar_event" where
  "reservation_event d r =
     (let name = display_guest_name (res_guest_row r d) (res_guest_name r);
          unit = (case unit_get (res_unit r) d of None \<Rightarrow> ''Unit'' | Some u \<Rightarrow> u_name u)
      in \<lparr>ev_id = JInt (res_id r),
          ev_title = calendar_title_guest name @ '' '' @ [CHR 0x96] @ '' '' @ unit,
          ev_start = isoformat (res_start r), ev_end = isoformat (res_end r), ev_status = res_status r,
          ev_unit = Some (res_unit r), ev_property = unit_property_of d (res_unit r),
          ev_color = calendar_color (res_status r), ev_guest_name = name, ev_guest = res_guest r,
          ev_property_name = property_name_of d (res_unit r), ev_unit_name = unit,
          ev_url = ''/admin/reservations/'' @ show_int (res_id r) @ ''/edit'',
          ev_editable = (res_status r \<noteq> ''cancelled'')\<rparr>)"

text \<open>The value of \<open>property_id\<close> after the loop.\<close>

definition shadowed_property :: "int option \<Rightarrow> reservation list \<Rightarrow> db \<Rightarrow> int option" where
  "shadowed_property pid rows d = foldl (\<lambda>_ r. unit_property_of d (res_unit r)) pid rows"

subsection \<open>Leases\<close>

definition scoped_leases :: "int \<Rightarrow> int option \<Rightarrow> int option \<Rightarrow> db \<Rightarrow> lease list" where
  "scoped_leases oid pid uid d =
     filter (\<lambda>l. le_org l = oid \<and> property_of_unit d (le_unit l) \<noteq> None
         \<and> id_is pid (unit_property_of d (le_unit l)) \<and> id_is uid (Some (le_unit l))) (leases d)"

definition lease_start_rows ::
  "int \<Rightarrow> date option \<Rightarrow> date option \<Rightarrow> int option \<Rightarrow> int option \<Rightarrow> db \<Rightarrow> lease list" where
  "lease_start_rows oid s e pid uid d =
     order2 le_start le_id (filter (\<lambda>l. from_day s (le_start l) \<and> before_day e (le_start l)) (scoped_leases oid pid uid d))"

text \<open>The last day of the range counts for the end of a lease.\<close>

definition lease_end_rows ::
  "int \<Rightarrow> date option \<Rightarrow> date option \<Rightarrow> int option \<Rightarrow> int option \<Rightarrow> db \<Rightarrow> (lease \<times> date) list" where
  "lease_end_rows oid s e pid uid d =
     order2 snd (\<lambda>(l, _). le_id l)
       (filter (\<lambda>(l, t). from_day s t \<and> (case e of None \<Rightarrow> True | Some x \<Rightarrow> t \<le> x))
         (List.map_filter (\<lambda>l. map_option (\<lambda>t. (l, t)) (le_end l)) (scoped_leases oid pid uid d)))"

definition lease_event :: "db \<Rightarrow> string \<Rightarrow> string \<Rightarrow> string \<Rightarrow> date \<Rightarrow> lease \<Rightarrow> calendar_event" where
  "lease_event d tag title color day l =
     \<lparr>ev_id = JStr (tag @ show_int (le_id l)), ev_title = title @ show_int (le_id l),
      ev_start = isoformat day, ev_end = single_day_end day, ev_status = le_status l,
      ev_unit = Some (le_unit l), ev_property = unit_property_of d (le_unit l), ev_color = color,
      ev_guest_name = guest_name_of d (Some (le_guest l)), ev_guest = Some (le_guest l),
      ev_property_name = property_name_of d (le_unit l), ev_unit_name = unit_name_of d (le_unit l),
      ev_url = ''/admin/leases/'' @ show_int (le_id l), ev_editable = False\<rparr>"

definition lease_start_event :: "db \<Rightarrow> lease \<Rightarrow> calendar_event" where
  "lease_start_event d l = lease_event d ''lease-start-'' ''Lease starts: #'' ''#2563eb'' (le_start l) l"

definition lease_end_event :: "db \<Rightarrow> lease \<times> date \<Rightarrow> calendar_event" where
  "lease_end_event d = (\<lambda>(l, t). lease_event d ''lease-end-'' ''Lease ends: #'' ''#1d4ed8'' t l)"

subsection \<open>Invoices\<close>

definition inv_lease_row :: "db \<Rightarrow> invoice \<Rightarrow> lease option" where
  "inv_lease_row d i = (case inv_lease i of None \<Rightarrow> None | Some l \<Rightarrow> row_get le_id l (leases d))"

text \<open>A filter on property or unit joins the lease and its unit, so it drops invoices without one.\<close>

definition invoice_rows ::
  "int \<Rightarrow> date option \<Rightarrow> date option \<Rightarrow> int option \<Rightarrow> int option \<Rightarrow> db \<Rightarrow> invoice list" where
  "invoice_rows oid s e pid uid d =
     order2 inv_due inv_id (filter (\<lambda>i. inv_org i = oid \<and> from_day s (inv_due i) \<and> before_day e (inv_due i)
         \<and> (pid = None \<and> uid = None
            \<or> (case inv_lease_row d i of None \<Rightarrow> False
               | Some l \<Rightarrow> unit_get (le_unit l) d \<noteq> None
                   \<and> id_is pid (unit_property_of d (le_unit l)) \<and> id_is uid (Some (le_unit l)))))
       (invoices d))"

definition invoice_event :: "db \<Rightarrow> invoice \<Rightarrow> calendar_event" where
  "invoice_event d i =
     (let l = inv_lease_row d i; uid = map_option le_unit l;
          at = (\<lambda>f. case uid of None \<Rightarrow> '''' | Some u \<Rightarrow> f d u)
      in \<lparr>ev_id = JStr (''invoice-due-'' @ show_int (inv_id i)),
          ev_title = ''Invoice due: '' @ (if or_empty (inv_number i) = '''' then ''#'' @ show_int (inv_id i)
            else or_empty (inv_number i)),
          ev_start = isoformat (inv_due i), ev_end = single_day_end (inv_due i), ev_status = inv_status i,
          ev_unit = uid, ev_property = (case uid of None \<Rightarrow> None | Some u \<Rightarrow> unit_property_of d u),
          ev_color = ''#b45309'', ev_guest_name = guest_name_of d (inv_guest i), ev_guest = inv_guest i,
          ev_property_name = at property_name_of, ev_unit_name = at unit_name_of,
          ev_url = ''/admin/invoices/'' @ show_int (inv_id i), ev_editable = False\<rparr>)"

subsection \<open>Maintenance requests\<close>

definition maintenance_rows ::
  "int \<Rightarrow> date option \<Rightarrow> date option \<Rightarrow> int option \<Rightarrow> int option \<Rightarrow> db \<Rightarrow> (maintenance_request \<times> date) list" where
  "maintenance_rows oid s e pid uid d =
     order2 snd (\<lambda>(m, _). mr_id m)
       (filter (\<lambda>(m, t). mr_org m = oid \<and> from_day s t \<and> before_day e t
           \<and> id_is pid (Some (mr_property m)) \<and> id_is uid (mr_unit m))
         (List.map_filter (\<lambda>m. map_option (\<lambda>t. (m, t)) (mr_due m)) (maintenance d)))"

definition maintenance_event :: "db \<Rightarrow> maintenance_request \<times> date \<Rightarrow> calendar_event" where
  "maintenance_event d = (\<lambda>(m, t).
     \<lparr>ev_id = JStr (''maintenance-due-'' @ show_int (mr_id m)), ev_title = ''Maintenance: '' @ mr_title m,
      ev_start = isoformat t, ev_end = single_day_end t, ev_status = mr_status m,
      ev_unit = mr_unit m, ev_property = Some (mr_property m),
      ev_color = (if mr_priority m = ''urgent'' then ''#dc2626'' else ''#ea580c''),
      ev_guest_name = guest_name_of d (mr_guest m), ev_guest = mr_guest m,
      ev_property_name = (case property_get (mr_property m) d of None \<Rightarrow> '''' | Some p \<Rightarrow> p_name p),
      ev_unit_name = (case mr_unit m of None \<Rightarrow> '''' | Some u \<Rightarrow> unit_name_of d u),
      ev_url = ''/admin/maintenance-requests/'' @ show_int (mr_id m), ev_editable = False\<rparr>)"

subsection \<open>All events\<close>

text \<open>The groups after the reservations, for the value \<open>pid\<close> that \<open>property_id\<close> has by then.\<close>

definition other_events ::
  "int \<Rightarrow> date option \<Rightarrow> date option \<Rightarrow> int option \<Rightarrow> int option \<Rightarrow> string set \<Rightarrow> db \<Rightarrow> calendar_event list" where
  "other_events oid s e pid uid selected d =
     (if ''leases'' \<in> selected
      then map (lease_start_event d) (lease_start_rows oid s e pid uid d)
        @ map (lease_end_event d) (lease_end_rows oid s e pid uid d) else [])
     @ (if ''invoices'' \<in> selected then map (invoice_event d) (invoice_rows oid s e pid uid d) else [])
     @ (if ''maintenance'' \<in> selected then map (maintenance_event d) (maintenance_rows oid s e pid uid d) else [])"

definition get_calendar_events ::
  "int \<Rightarrow> date option \<Rightarrow> date option \<Rightarrow> int option \<Rightarrow> int option \<Rightarrow> string set option \<Rightarrow> db
    \<Rightarrow> exn + calendar_event list" where
  "get_calendar_events oid s e pid uid types d =
     (case calendar_checks oid pid uid types d of
        Inl x \<Rightarrow> Inl x
      | Inr selected \<Rightarrow>
          (let rows = (if ''reservations'' \<in> selected then calendar_rows oid s e pid uid d else [])
           in Inr (map (reservation_event d) rows
                @ other_events oid s e (shadowed_property pid rows d) uid selected d)))"

subsection \<open>The property filter\<close>

lemma id_is_Some [simp]: "id_is (Some p) x \<longleftrightarrow> x = Some p"
  by (auto simp: id_is_def)

lemma other_events_property:
  assumes "ev \<in> set (other_events oid s e (Some p) uid selected d)"
  shows "ev_property ev = Some p"
  using assms
  by (auto simp: other_events_def lease_start_rows_def lease_end_rows_def lease_start_event_def
      lease_end_event_def lease_event_def invoice_rows_def invoice_event_def maintenance_rows_def
      maintenance_event_def scoped_leases_def List.map_filter_def Let_def split: if_splits option.splits)

lemma calendar_rows_property:
  assumes "r \<in> set (calendar_rows oid s e pid uid d)"
  shows "\<exists>p. unit_property_of d (res_unit r) = Some p \<and> id_is pid (Some p) \<and> property_org p d = Some oid"
  using assms
  by (auto simp: calendar_rows_def scoped_reservations_def res_org_def unit_org_def unit_property_of_def
      split: option.splits)

lemma shadowed_same:
  assumes "\<forall>r\<in>set rows. unit_property_of d (res_unit r) = pid"
  shows "shadowed_property pid rows d = pid"
  using assms by (induction rows) (auto simp: shadowed_property_def)

lemma calendar_checks_D:
  "calendar_checks oid pid uid types d = Inr selected \<Longrightarrow>
     selected = (case types of None \<Rightarrow> {''reservations''} | Some t \<Rightarrow> if t = {} then {''reservations''} else t)"
  by (auto simp: calendar_checks_def Let_def split: if_splits)

text \<open>With a property filter every event of the calendar, of whatever type, is of that property,
  which is the organization's own.\<close>

theorem calendar_filter_respected:
  assumes "get_calendar_events oid s e (Some p) uid types d = Inr evs" and "ev \<in> set evs"
  shows "ev_property ev = Some p \<and> find_property oid p d \<noteq> None"
proof -
  obtain selected where c: "calendar_checks oid (Some p) uid types d = Inr selected"
    using assms(1) by (auto simp: get_calendar_events_def split: sum.splits)
  let ?rows = "if ''reservations'' \<in> selected then calendar_rows oid s e (Some p) uid d else []"
  have rows: "\<forall>r\<in>set ?rows. unit_property_of d (res_unit r) = Some p"
    using calendar_rows_property by fastforce
  have evs: "evs = map (reservation_event d) ?rows @ other_events oid s e (Some p) uid selected d"
    using assms(1) shadowed_same [OF rows] by (simp add: get_calendar_events_def c Let_def)
  have "ev_property ev = Some p"
    using assms(2) rows other_events_property [of ev] unfolding evs
    by (fastforce simp: reservation_event_def Let_def)
  moreover have "find_property oid p d \<noteq> None"
    using c by (auto simp: calendar_checks_def Let_def split: if_splits)
  ultimately show ?thesis by simp
qed

text \<open>Without a property filter the calendar that also lists reservations hides the leases,
  invoices and maintenance requests of every property but one: all the other events are of the
  property of the reservation listed last.\<close>

theorem calendar_hides_other_properties:
  assumes "get_calendar_events oid s e None uid (Some types) d = Inr evs"
    and "''reservations'' \<in> types" and "calendar_rows oid s e None uid d = rows @ [r]"
  shows "\<exists>p others. unit_property_of d (res_unit r) = Some p
    \<and> evs = map (reservation_event d) (rows @ [r]) @ others
    \<and> filter (\<lambda>ev. ev_property ev \<noteq> Some p) others = []"
proof -
  obtain selected where c: "calendar_checks oid None uid (Some types) d = Inr selected"
    using assms(1) by (auto simp: get_calendar_events_def split: sum.splits)
  have sel: "''reservations'' \<in> selected" using calendar_checks_D [OF c] assms(2) by auto
  have "r \<in> set (calendar_rows oid s e None uid d)" by (simp add: assms(3))
  from calendar_rows_property [OF this] obtain p where p: "unit_property_of d (res_unit r) = Some p" by blast
  have "shadowed_property None (rows @ [r]) d = Some p" by (simp add: shadowed_property_def p)
  then have "evs = map (reservation_event d) (rows @ [r]) @ other_events oid s e (Some p) uid selected d"
    using assms(1) by (simp add: get_calendar_events_def c Let_def sel assms(3))
  moreover have "filter (\<lambda>ev. ev_property ev \<noteq> Some p) (other_events oid s e (Some p) uid selected d) = []"
    by (auto simp: filter_empty_conv dest: other_events_property)
  ultimately show ?thesis using p by blast
qed

text \<open>A second property of organization 1 with a request that is due, beside the booked unit.\<close>

definition sample_job :: maintenance_request where
  "sample_job = \<lparr>mr_id = 1, mr_org = 1, mr_property = 3, mr_unit = None, mr_guest = None,
     mr_reservation = None, mr_title = ''Roof'', mr_description = None, mr_status = ''new'',
     mr_priority = ''urgent'', mr_assigned_to = None, mr_due = Some (ordinal_of 2026 1 10),
     mr_resolved_at = None, mr_created_by = 1, mr_created_at = sample_clock, mr_updated_at = sample_clock\<rparr>"

definition two_houses :: db where
  "two_houses = sample_hotel\<lparr>
     properties := properties sample_db @ [sample_property 3 1 ''East''],
     maintenance := [sample_job]\<rparr>"

lemma two_houses_rows: "calendar_rows 1 None None None None two_houses = [] @ [sample_stay]"
  by (simp add: calendar_rows_def two_houses_def id_is_def before_day_def scoped_reservations_def res_org_def
      unit_org_def unit_get_def property_org_def property_get_def row_get_def sample_db_def sample_stay_def order2_def)

lemma two_houses_alone: "\<exists>ev. get_calendar_events 1 None None None None (Some {''maintenance''}) two_houses = Inr [ev]"
  by (simp add: get_calendar_events_def calendar_checks_def calendar_event_types_def other_events_def
      maintenance_rows_def two_houses_def shadowed_property_def List.map_filter_def sample_job_def id_is_def
      from_day_def before_day_def order2_def)

theorem calendar_hides_other_properties_witness:
  "\<exists>ev. get_calendar_events 1 None None None None (Some {''maintenance''}) two_houses = Inr [ev]
    \<and> ev \<notin> set (projr (get_calendar_events 1 None None None None (Some {''reservations'', ''maintenance''}) two_houses))"
proof -
  let ?get = "get_calendar_events 1 None None None None"
  obtain ev where ev: "?get (Some {''maintenance''}) two_houses = Inr [ev]" using two_houses_alone by blast
  have p3: "ev_property ev = Some 3"
    using ev by (auto simp: get_calendar_events_def calendar_checks_def calendar_event_types_def other_events_def
      maintenance_rows_def two_houses_def shadowed_property_def List.map_filter_def sample_job_def id_is_def
      from_day_def before_day_def order2_def maintenance_event_def)
  obtain evs where all: "?get (Some {''reservations'', ''maintenance''}) two_houses = Inr evs"
    by (simp add: get_calendar_events_def calendar_checks_def calendar_event_types_def Let_def)
  have u: "unit_property_of two_houses (res_unit sample_stay) = Some 1"
    by (simp add: unit_property_of_def unit_get_def row_get_def two_houses_def sample_db_def sample_stay_def)
  have "ev \<notin> set evs"
    using calendar_hides_other_properties [OF all _ two_houses_rows] p3 u
    by (auto simp: filter_empty_conv reservation_event_def Let_def)
  then show ?thesis using ev all by auto
qed

lemma two_houses_filtered:
  "\<exists>ev. get_calendar_events 1 None None (Some 3) None (Some {''maintenance''}) two_houses = Inr [ev]"
  by (simp add: get_calendar_events_def calendar_checks_def calendar_event_types_def other_events_def
      maintenance_rows_def two_houses_def shadowed_property_def List.map_filter_def sample_job_def
      from_day_def before_day_def order2_def find_property_def sample_db_def id_is_def)

theorem calendar_filter_respected_witness:
  "map ev_property (projr (get_calendar_events 1 None None (Some 3) None (Some {''maintenance''}) two_houses)) = [Some 3]"
proof -
  obtain ev where ev: "get_calendar_events 1 None None (Some 3) None (Some {''maintenance''}) two_houses = Inr [ev]"
    using two_houses_filtered by blast
  show ?thesis using calendar_filter_respected [OF ev, of ev] ev by simp
qed

end
