(* ===== verification/Billing.thy ===== *)
theory Billing
  imports Reservations Settings Frame
begin

text \<open>
  The shared part of app/billing/services.py: request values, the VAT computation, the lookups
  within an organization, the serializers, and the lease templates with their default.
  Money is in cents and a VAT rate in hundredths of a percent. Main facts: the VAT lines add up
  and are rounded to the nearest cent; no two templates of an organization are ever the default;
  and making the default template the default again leaves the organization without one.
\<close>

subsection \<open>Errors\<close>

definition e_lease :: "string \<Rightarrow> string \<Rightarrow> nat \<Rightarrow> exn" where
  "e_lease code msg status = ServiceError Lease_service code msg status"

definition e_inv :: "string \<Rightarrow> string \<Rightarrow> nat \<Rightarrow> exn" where
  "e_inv code msg status = ServiceError Invoice_service code msg status"

definition e_lease_invalid :: "string \<Rightarrow> exn" where
  "e_lease_invalid msg = e_lease ''validation_error'' msg 400"

definition e_inv_invalid :: "string \<Rightarrow> exn" where
  "e_inv_invalid msg = e_inv ''validation_error'' msg 400"

definition e_lease_not_found :: exn where
  "e_lease_not_found = e_lease ''not_found'' ''Lease not found.'' 404"

definition e_template_not_found :: exn where
  "e_template_not_found = e_lease ''not_found'' ''Lease template not found.'' 404"

definition e_inv_not_found :: exn where
  "e_inv_not_found = e_inv ''not_found'' ''Invoice not found.'' 404"

subsection \<open>Request values\<close>

text \<open>The parsers shared by leases and invoices take the exception to build as \<open>err\<close>.\<close>

definition bad_date :: "string \<Rightarrow> string" where
  "bad_date field = ''Field '' @ [CHR 0x27] @ field @ [CHR 0x27] @ '' must be a valid ISO date (YYYY-MM-DD).''"

definition lease_date :: "string option \<Rightarrow> string \<Rightarrow> exn + date" where
  "lease_date raw field =
     (case fromisoformat (strip (or_empty raw)) of
        None \<Rightarrow> Inl (e_lease_invalid (bad_date field)) | Some d \<Rightarrow> Inr d)"

definition invoice_date_of :: "string option \<Rightarrow> string \<Rightarrow> exn + date" where
  "invoice_date_of raw field =
     (case fromisoformat (strip (or_empty raw)) of
        None \<Rightarrow> Inl (e_inv_invalid (bad_date field)) | Some d \<Rightarrow> Inr d)"

definition required_amount :: "scalar \<Rightarrow> (string \<Rightarrow> exn) \<Rightarrow> exn + cents" where
  "required_amount raw err =
     (if raw = SNone then Inl (err ''Amount is required.'')
      else
        let t = strip (py_str raw) in
        if t = '''' then Inl (err ''Amount is required.'')
        else case parse_decimal t of
          None \<Rightarrow> Inl (err ''Amount must be a valid decimal number.'')
        | Some d \<Rightarrow>
            (case quantize HalfEven d of
               None \<Rightarrow> Inl (err ''Amount must be a valid decimal number.'')
             | Some (DFin c e) \<Rightarrow>
                 if c < 0 then Inl (err ''Amount must be zero or greater.'') else Inr c
             | Some _ \<Rightarrow> Inl (PyError InvalidOperation)))"

definition optional_amount :: "scalar \<Rightarrow> (string \<Rightarrow> exn) \<Rightarrow> exn + cents" where
  "optional_amount raw err =
     (if raw = SNone \<or> strip (py_str raw) = '''' then Inr 0 else required_amount raw err)"

lemma required_amount_nonneg: "required_amount raw err = Inr c \<Longrightarrow> 0 \<le> c"
  by (auto simp: required_amount_def Let_def split: if_splits option.splits decimal.splits)

lemma optional_amount_nonneg: "optional_amount raw err = Inr c \<Longrightarrow> 0 \<le> c"
  by (auto simp: optional_amount_def split: if_splits dest: required_amount_nonneg)

lemma amount_of_money:
  "\<bar>c\<bar> < context_limit \<Longrightarrow> 0 \<le> c \<Longrightarrow> required_amount (SStr (money_str c)) err = Inr c"
proof -
  assume c: "\<bar>c\<bar> < context_limit" "0 \<le> c"
  have "money_str c \<noteq> ''''" by (simp add: money_str_def)
  then show ?thesis
    using c quantize_cents [of c HalfEven]
    by (simp add: required_amount_def strip_money parse_money_str Let_def del: quantize.simps)
qed

definition vat_rate_optional :: "scalar \<Rightarrow> (string \<Rightarrow> exn) \<Rightarrow> exn + cents option" where
  "vat_rate_optional raw err =
     (if raw = SNone \<or> strip (py_str raw) = '''' then Inr None
      else case parse_decimal (strip (py_str raw)) of
        None \<Rightarrow> Inl (err ''vat_rate must be a valid decimal number.'')
      | Some d \<Rightarrow>
          (case quantize HalfEven d of
             None \<Rightarrow> Inl (err ''vat_rate must be a valid decimal number.'')
           | Some (DFin c e) \<Rightarrow>
               if c < 0 \<or> 10000 < c then Inl (err ''vat_rate must be between 0 and 100.'') else Inr (Some c)
           | Some _ \<Rightarrow> Inl (PyError InvalidOperation)))"

definition invoice_currency :: "scalar \<Rightarrow> exn + string" where
  "invoice_currency raw =
     (let t = upper (strip (str_or raw ''EUR'')) in
      if length t \<noteq> 3 \<or> \<not> is_alpha t then Inl (e_inv_invalid ''Currency must be a 3-letter ISO code.'')
      else Inr t)"

subsection \<open>Partial updates\<close>

text \<open>
  An update handler runs through the fields of the request; each step checks one and writes it to
  the row. A step that raises leaves the writes of the earlier steps in the session.
\<close>

fun run_fields :: "('r \<Rightarrow> exn + 'r) list \<Rightarrow> 'r \<Rightarrow> exn option \<times> 'r" where
  "run_fields [] r = (None, r)"
| "run_fields (f # fs) r = (case f r of Inl x \<Rightarrow> (Some x, r) | Inr r1 \<Rightarrow> run_fields fs r1)"

lemma run_fields_append:
  "run_fields (fs @ gs) r = (case run_fields fs r of (Some x, r1) \<Rightarrow> (Some x, r1) | (None, r1) \<Rightarrow> run_fields gs r1)"
  by (induction fs arbitrary: r) (auto split: sum.split option.split prod.split)

text \<open>What every step keeps, the run keeps.\<close>

lemma run_fields_inv:
  assumes "run_fields fs r = (x, r')" and "P r" and "\<And>f s s'. f \<in> set fs \<Longrightarrow> P s \<Longrightarrow> f s = Inr s' \<Longrightarrow> P s'"
  shows "P r'"
  using assms
proof (induction fs arbitrary: r)
  case (Cons f fs)
  show ?case
  proof (cases "f r")
    case (Inr r1)
    have "P r1" using Cons.prems(2,3) Inr by auto
    moreover have "run_fields fs r1 = (x, r')" using Cons.prems(1) Inr by simp
    ultimately show ?thesis using Cons.IH Cons.prems(3) by auto
  qed (use Cons.prems(1,2) in auto)
qed simp

definition given :: "string \<Rightarrow> (string \<times> scalar) list \<Rightarrow> bool" where
  "given k data \<longleftrightarrow> k \<in> set (map fst data)"

definition field_if :: "bool \<Rightarrow> ('r \<Rightarrow> exn + 'r) \<Rightarrow> 'r \<Rightarrow> exn + 'r" where
  "field_if b f r = (if b then f r else Inr r)"

subsection \<open>VAT\<close>

text \<open>\<open>_quantize_money\<close>; a value of more than 28 digits raises \<open>InvalidOperation\<close>.\<close>

definition quantize_money :: "int \<times> int \<Rightarrow> py_error + cents" where
  "quantize_money d =
     (case quantize HalfUp (DFin (fst d) (snd d)) of
        Some (DFin c e) \<Rightarrow> Inr c | _ \<Rightarrow> Inl InvalidOperation)"

text \<open>
  The product is rounded to the 28 digits of the context, the division by 100 is exact. A sum
  that needs more than 28 digits still does after the rounding of the addition, so it cannot
  be quantized.
\<close>

definition compute_vat_lines :: "cents \<Rightarrow> cents \<Rightarrow> py_error + cents \<times> cents \<times> cents" where
  "compute_vat_lines subtotal rate =
     (case quantize_money (subtotal, - 2) of
        Inl x \<Rightarrow> Inl x
      | Inr sub \<Rightarrow>
     (case quantize_money (case context_mult (sub, - 2) (rate, - 2) of (c, e) \<Rightarrow> (c, e - 2)) of
        Inl x \<Rightarrow> Inl x
      | Inr vat \<Rightarrow>
     (case quantize_money (sub + vat, - 2) of
        Inl x \<Rightarrow> Inl x
      | Inr gross \<Rightarrow> Inr (sub, vat, gross))))"

text \<open>
  \<open>_default_vat_rate_decimal\<close>. The settings accept a NaN here, which the code would store; the
  model stops at it with \<open>InvalidOperation\<close>.
\<close>

definition rate_of_setting :: "setting_value \<Rightarrow> py_error + cents" where
  "rate_of_setting v =
     (case v of
        VDec d \<Rightarrow> (case quantize HalfEven d of Some (DFin c e) \<Rightarrow> Inr c | _ \<Rightarrow> Inl InvalidOperation)
      | _ \<Rightarrow>
          (case parse_decimal (setting_str v) of
             None \<Rightarrow> Inr 2400
           | Some d \<Rightarrow>
               (case quantize HalfEven d of
                  None \<Rightarrow> Inr 2400 | Some (DFin c e) \<Rightarrow> Inr c | Some _ \<Rightarrow> Inl InvalidOperation)))"

definition default_vat_rate :: "env \<Rightarrow> world \<Rightarrow> (exn + cents) \<times> world" where
  "default_vat_rate en w =
     (case settings_get en ''billing.default_vat_rate'' (VDec (DFin 2400 (- 2))) w of
        (Inl x, w1) \<Rightarrow> (Inl x, w1)
      | (Inr v, w1) \<Rightarrow> (lift_py (rate_of_setting v), w1))"

subsection \<open>Lookups within the organization\<close>

definition ensure_unit_in_org :: "int \<Rightarrow> int \<Rightarrow> db \<Rightarrow> exn + unit_row" where
  "ensure_unit_in_org uid oid d =
     (case find_unit oid uid d of
        None \<Rightarrow> Inl (e_lease_invalid ''Unit not found in this organization.'') | Some u \<Rightarrow> Inr u)"

definition ensure_guest_in_org :: "int \<Rightarrow> int \<Rightarrow> (string \<Rightarrow> exn) \<Rightarrow> db \<Rightarrow> exn + guest_row" where
  "ensure_guest_in_org gid oid err d =
     (case find_guest oid gid d of
        None \<Rightarrow> Inl (err ''Guest not found in this organization.'') | Some g \<Rightarrow> Inr g)"

definition get_lease_row :: "int \<Rightarrow> int \<Rightarrow> db \<Rightarrow> lease option" where
  "get_lease_row oid lid d = List.find (\<lambda>l. le_id l = lid \<and> le_org l = oid) (leases d)"

definition get_lease_template_row :: "int \<Rightarrow> int \<Rightarrow> db \<Rightarrow> lease_template option" where
  "get_lease_template_row oid tid d = List.find (\<lambda>t. lt_id t = tid \<and> lt_org t = oid) (lease_templates d)"

definition get_invoice_row :: "int \<Rightarrow> int \<Rightarrow> db \<Rightarrow> invoice option" where
  "get_invoice_row oid iid d = List.find (\<lambda>i. inv_id i = iid \<and> inv_org i = oid) (invoices d)"

interpretation lease_scope: tenant_scope leases le_id "\<lambda>_ l. Some (le_org l)" get_lease_row
  by unfold_locales (auto simp: get_lease_row_def dest: find_Some_D find_None_D)

interpretation template_scope: tenant_scope lease_templates lt_id "\<lambda>_ t. Some (lt_org t)" get_lease_template_row
  by unfold_locales (auto simp: get_lease_template_row_def dest: find_Some_D find_None_D)

interpretation invoice_scope: tenant_scope invoices inv_id "\<lambda>_ i. Some (inv_org i)" get_invoice_row
  by unfold_locales (auto simp: get_invoice_row_def dest: find_Some_D find_None_D)

subsection \<open>Serializers\<close>

definition serialize_lease :: "lease \<Rightarrow> db \<Rightarrow> json" where
  "serialize_lease l d =
     (let unit = unit_get (le_unit l) d; prop = property_of_unit d (le_unit l); guest = guest_get (le_guest l) d
      in JObj [(''id'', JInt (le_id l)), (''organization_id'', JInt (le_org l)), (''unit_id'', JInt (le_unit l)),
        (''unit_name'', jstr (map_option u_name unit)), (''property_name'', jstr (map_option p_name prop)),
        (''guest_id'', JInt (le_guest l)),
        (''guest_name'', case guest of None \<Rightarrow> JNull | Some g \<Rightarrow> JStr (guest_full_name (Some g))),
        (''reservation_id'', jint (le_reservation l)), (''start_date'', JStr (isoformat (le_start l))),
        (''end_date'', jdate (le_end l)), (''rent_amount'', JStr (money_str (le_rent l))),
        (''deposit_amount'', JStr (money_str (le_deposit l))), (''billing_cycle'', JStr (le_cycle l)),
        (''status'', JStr (le_status l)), (''notes'', jstr (le_notes l)), (''template_id'', jint (le_template l)),
        (''signing_sent_at'', jstamp (le_signing_sent_at l)), (''signed_at'', jstamp (le_signed_at l)),
        (''signed_pdf_filename'', jstr (le_signed_pdf l)), (''created_by_id'', JInt (le_created_by l)),
        (''updated_by_id'', jint (le_updated_by l)), (''created_at'', JStr (stamp_iso (le_created_at l))),
        (''updated_at'', JStr (stamp_iso (le_updated_at l)))])"

definition serialize_invoice :: "invoice \<Rightarrow> json" where
  "serialize_invoice i =
     JObj [(''id'', JInt (inv_id i)), (''organization_id'', JInt (inv_org i)), (''lease_id'', jint (inv_lease i)),
       (''reservation_id'', jint (inv_reservation i)), (''guest_id'', jint (inv_guest i)),
       (''invoice_number'', jstr (inv_number i)), (''amount'', JStr (money_str (inv_total i))),
       (''vat_rate'', JStr (money_str (inv_vat_rate i))), (''vat_amount'', JStr (money_str (inv_vat_amount i))),
       (''subtotal_excl_vat'', JStr (money_str (inv_subtotal i))),
       (''total_incl_vat'', JStr (money_str (inv_total i))), (''total'', JStr (money_str (inv_total i))),
       (''currency'', JStr (inv_currency i)), (''due_date'', JStr (isoformat (inv_due i))),
       (''paid_at'', jstamp (inv_paid_at i)), (''status'', JStr (inv_status i)),
       (''description'', jstr (inv_description i)), (''metadata_json'', inv_metadata i),
       (''created_by_id'', JInt (inv_created_by i)), (''updated_by_id'', jint (inv_updated_by i)),
       (''created_at'', JStr (stamp_iso (inv_created_at i))), (''updated_at'', JStr (stamp_iso (inv_updated_at i)))]"

definition serialize_lease_template :: "lease_template \<Rightarrow> json" where
  "serialize_lease_template t =
     JObj [(''id'', JInt (lt_id t)), (''organization_id'', JInt (lt_org t)), (''name'', JStr (lt_name t)),
       (''description'', jstr (lt_description t)), (''body_markdown'', JStr (lt_body t)),
       (''is_default'', JBool (lt_default t)), (''created_at'', JStr (stamp_iso (lt_created_at t))),
       (''updated_at'', JStr (stamp_iso (lt_updated_at t)))]"

subsection \<open>Lease templates\<close>

definition list_lease_templates_for_organization :: "env \<Rightarrow> int \<Rightarrow> db \<Rightarrow> json list" where
  "list_lease_templates_for_organization en oid d =
     (let rows = sort_key (\<lambda>t. collation en (lt_name t)) (sort_key lt_id (filter (\<lambda>t. lt_org t = oid) (lease_templates d)))
      in map serialize_lease_template (filter lt_default rows @ filter (\<lambda>t. \<not> lt_default t) rows))"

text \<open>
  The bulk \<open>UPDATE\<close> that clears the default of the organization's templates except one. It runs
  in the database only (\<open>synchronize_session=False\<close>) and touches every row it matches.
\<close>

definition clear_defaults :: "int \<Rightarrow> int option \<Rightarrow> stamp \<Rightarrow> db \<Rightarrow> db" where
  "clear_defaults oid except now d =
     d\<lparr>lease_templates := map (\<lambda>t. if lt_org t = oid \<and> Some (lt_id t) \<noteq> except
        then t\<lparr>lt_default := False, lt_updated_at := now\<rparr> else t) (lease_templates d)\<rparr>"

record template_args =
  ta_name :: string
  ta_description :: "string option"
  ta_body :: string
  ta_default :: bool

definition template_plan :: "template_args \<Rightarrow> exn + string \<times> string option \<times> string" where
  "template_plan a =
     (if strip (ta_name a) = '''' then Inl (e_lease_invalid ''Template name is required.'')
      else if strip (ta_body a) = '''' then Inl (e_lease_invalid ''Template body_markdown is required.'')
      else Inr (strip (ta_name a), none_if_empty (strip (or_empty (ta_description a))), strip (ta_body a)))"

definition template_audit :: "int \<Rightarrow> int \<Rightarrow> int \<Rightarrow> string \<Rightarrow> bool \<Rightarrow> audit_args" where
  "template_audit oid actor tid name is_default =
     audit_defaults\<lparr>aa_actor_id := Some actor, aa_org := Some oid, aa_target_type := Some ''lease_template'',
       aa_target_id := Some tid,
       aa_metadata := Some [(''template_id'', JInt tid), (''template_name'', JStr name),
         (''organization_id'', JInt oid), (''is_default'', JBool is_default)],
       aa_commit := True\<rparr>"

definition new_template :: "int \<Rightarrow> string \<times> string option \<times> string \<Rightarrow> bool \<Rightarrow> world \<Rightarrow> lease_template" where
  "new_template oid texts is_default w =
     \<lparr>lt_id = next_key T_lease_templates (cur w), lt_org = oid, lt_name = fst texts,
      lt_description = fst (snd texts), lt_body = snd (snd texts), lt_default = is_default,
      lt_created_at = clock w, lt_updated_at = clock w\<rparr>"

definition edited_template ::
  "lease_template \<Rightarrow> string \<times> string option \<times> string \<Rightarrow> bool \<Rightarrow> world \<Rightarrow> lease_template" where
  "edited_template old texts is_default w =
     (let t = old\<lparr>lt_name := fst texts, lt_description := fst (snd texts), lt_body := snd (snd texts),
        lt_default := is_default\<rparr>
      in if t = old then old else t\<lparr>lt_updated_at := clock w\<rparr>)"

definition clear_others :: "int \<Rightarrow> lease_template \<Rightarrow> stamp \<Rightarrow> db \<Rightarrow> db" where
  "clear_others oid t now d = (if lt_default t then clear_defaults oid (Some (lt_id t)) now d else d)"

definition create_lease_template :: "env \<Rightarrow> int \<Rightarrow> template_args \<Rightarrow> int \<Rightarrow> world \<Rightarrow> (exn + json) \<times> world" where
  "create_lease_template en oid a actor w =
     (case template_plan a of
        Inl x \<Rightarrow> (Inl x, w)
      | Inr texts \<Rightarrow>
          let t = new_template oid texts (ta_default a) w
          in (Inr (serialize_lease_template t),
              audit_record en ''lease.template.created''
                (template_audit oid actor (lt_id t) (lt_name t) (lt_default t))
                (commit (on_db (clear_others oid t (clock w)) (on_db (add_lease_template t) w)))))"

definition update_lease_template ::
  "env \<Rightarrow> int \<Rightarrow> int \<Rightarrow> template_args \<Rightarrow> int \<Rightarrow> world \<Rightarrow> (exn + json) \<times> world" where
  "update_lease_template en oid tid a actor w =
     (case get_lease_template_row oid tid (cur w) of
        None \<Rightarrow> (Inl e_template_not_found, w)
      | Some old \<Rightarrow>
          (case template_plan a of
             Inl x \<Rightarrow> (Inl x, w)
           | Inr texts \<Rightarrow>
               let t = edited_template old texts (ta_default a) w
               in (Inr (serialize_lease_template t),
                   audit_record en ''lease.template.updated''
                     (template_audit oid actor (lt_id t) (lt_name t) (lt_default t))
                     (commit (on_db (clear_others oid t (clock w)) (on_db (put_lease_template t) w))))))"

text \<open>
  The bulk update clears the row of the new default as well; the session still holds the value it
  loaded, so setting it to true is a change, and written, only if it was false.
\<close>

definition set_default_lease_template :: "env \<Rightarrow> int \<Rightarrow> int \<Rightarrow> int \<Rightarrow> world \<Rightarrow> (exn + json) \<times> world" where
  "set_default_lease_template en oid tid actor w =
     (case get_lease_template_row oid tid (cur w) of
        None \<Rightarrow> (Inl e_template_not_found, w)
      | Some old \<Rightarrow>
          let t = old\<lparr>lt_default := \<not> lt_default old, lt_updated_at := clock w\<rparr>;
              w1 = on_db (clear_defaults oid None (clock w)) w;
              w2 = commit (on_db (put_lease_template t) w1)
          in (Inr (serialize_lease_template t),
              audit_record en ''lease.template.updated'' (template_audit oid actor (lt_id t) (lt_name t) True) w2))"

text \<open>Deleting a template clears the reference of the leases that use it.\<close>

definition delete_template_row :: "int \<Rightarrow> stamp \<Rightarrow> db \<Rightarrow> db" where
  "delete_template_row tid now d =
     d\<lparr>lease_templates := row_del lt_id tid (lease_templates d),
       leases := map (\<lambda>l. if le_template l = Some tid then l\<lparr>le_template := None, le_updated_at := now\<rparr> else l)
         (leases d)\<rparr>"

definition delete_lease_template :: "env \<Rightarrow> int \<Rightarrow> int \<Rightarrow> int \<Rightarrow> world \<Rightarrow> (exn + unit) \<times> world" where
  "delete_lease_template en oid tid actor w =
     (case get_lease_template_row oid tid (cur w) of
        None \<Rightarrow> (Inl e_template_not_found, w)
      | Some t \<Rightarrow>
          (Inr (), audit_record en ''lease.template.deleted'' (template_audit oid actor tid (lt_name t) (lt_default t))
             (commit (on_db (delete_template_row tid (clock w)) w))))"

definition org_name_of :: "int \<Rightarrow> db \<Rightarrow> string" where
  "org_name_of oid d = (case row_get org_id oid (orgs d) of None \<Rightarrow> '''' | Some o1 \<Rightarrow> org_name o1)"

definition lease_context :: "lease \<Rightarrow> db \<Rightarrow> (string \<times> json) list" where
  "lease_context l d =
     [(''tenant_name'', JStr (guest_full_name (guest_get (le_guest l) d))),
      (''rent_amount'', JStr (money_str (le_rent l))), (''deposit_amount'', JStr (money_str (le_deposit l))),
      (''billing_cycle'', JStr (le_cycle l)), (''lease_start_date'', JStr (isoformat (le_start l))),
      (''lease_end_date'', JStr (case le_end l of None \<Rightarrow> '''' | Some e \<Rightarrow> isoformat e)),
      (''unit_name'', JStr (unit_name_of d (le_unit l))), (''property_name'', JStr (property_name_of d (le_unit l))),
      (''property_address'', JStr (case property_of_unit d (le_unit l) of
         None \<Rightarrow> '''' | Some p \<Rightarrow> or_empty (p_address p))),
      (''organization_name'', JStr (org_name_of (le_org l) d))]"

definition render_lease_template :: "env \<Rightarrow> int \<Rightarrow> int \<Rightarrow> int \<Rightarrow> db \<Rightarrow> exn + string" where
  "render_lease_template en tid lid oid d =
     (case get_lease_template_row oid tid d of
        None \<Rightarrow> Inl e_template_not_found
      | Some t \<Rightarrow>
          (case get_lease_row oid lid d of
             None \<Rightarrow> Inl e_lease_not_found
           | Some l \<Rightarrow> lift_py (jinja_text en (lt_body t) (lease_context l d))))"

subsection \<open>The VAT lines\<close>

text \<open>For every amount and rate that fit the columns of an invoice the VAT computation succeeds, keeps
  the subtotal, adds up to the total, and rounds the tax to the nearest cent; the tax of a rate
  between 0 and 100 percent is between zero and the subtotal.\<close>

theorem vat_rounding:
  assumes "\<bar>s\<bar> < 10 ^ 12" and "\<bar>r\<bar> < 10 ^ 5"
  shows "\<exists>vat. compute_vat_lines s r = Inr (s, vat, s + vat) \<and> \<bar>2 * (s * r) - 20000 * vat\<bar> \<le> 10000
    \<and> (0 \<le> s \<and> 0 \<le> r \<and> r \<le> 10000 \<longrightarrow> 0 \<le> vat \<and> vat \<le> s)"
proof -
  let ?vat = "div_half_up (s * r) 10000"
  have "\<bar>s * r\<bar> \<le> \<bar>s\<bar> * \<bar>r\<bar>" by (simp add: abs_mult)
  also have "\<dots> \<le> 10 ^ 12 * 10 ^ 5" using assms by (intro mult_mono) auto
  finally have p: "\<bar>s * r\<bar> \<le> 10 ^ 17" by simp
  then have m: "context_mult (s, - 2) (r, - 2) = (s * r, - 4)"
    by (subst context_mult_exact) (auto simp: context_limit_def)
  have close: "\<bar>2 * (s * r) - 20000 * ?vat\<bar> \<le> 10000" using div_half_up_close [of 10000 "s * r"] by simp
  then have v: "\<bar>?vat\<bar> \<le> 10 ^ 17" using p by linarith
  have q: "quantize_money (s * r, - 6) = Inr ?vat"
    using v by (simp add: quantize_money_def to_cents_def Let_def context_limit_def)
  have s: "quantize_money (s, - 2) = Inr s" "quantize_money (s + ?vat, - 2) = Inr (s + ?vat)"
    using assms(1) v by (simp_all add: quantize_money_def to_cents_def Let_def context_limit_def)
  have "0 \<le> ?vat \<and> ?vat \<le> s" if "0 \<le> s" "0 \<le> r" "r \<le> 10000"
  proof -
    have "s * r \<le> s * 10000" using that by (intro mult_left_mono) auto
    moreover have "0 \<le> ?vat" using that by (intro div_half_up_nonneg) auto
    ultimately show ?thesis using close by linarith
  qed
  then show ?thesis using close by (auto simp: compute_vat_lines_def s m q)
qed

theorem vat_rounding_witness:
  "\<exists>vat. compute_vat_lines 10001 2400 = Inr (10001, vat, 10001 + vat) \<and> \<bar>2 * (10001 * 2400) - 20000 * vat\<bar> \<le> 10000"
  using vat_rounding [of 10001 2400] by auto

subsection \<open>The default template\<close>

definition templates_ok :: "db \<Rightarrow> bool" where
  "templates_ok d \<longleftrightarrow> keys_ok lt_id (seqs d T_lease_templates) (lease_templates d)
     \<and> (\<forall>t\<in>set (lease_templates d). \<forall>u\<in>set (lease_templates d).
          lt_default t \<and> lt_default u \<and> lt_org t = lt_org u \<longrightarrow> lt_id t = lt_id u)"

datatype template_op = Create_template template_args int | Update_template int template_args int
  | Set_default int int | Delete_template int int

fun run_template :: "env \<Rightarrow> int \<Rightarrow> template_op \<Rightarrow> world \<Rightarrow> world" where
  "run_template en oid (Create_template a actor) w = snd (create_lease_template en oid a actor w)"
| "run_template en oid (Update_template tid a actor) w = snd (update_lease_template en oid tid a actor w)"
| "run_template en oid (Set_default tid actor) w = snd (set_default_lease_template en oid tid actor w)"
| "run_template en oid (Delete_template tid actor) w = snd (delete_lease_template en oid tid actor w)"

text \<open>Requests run one after the other, each from the committed state, the clock moving freely.\<close>

inductive template_reachable :: "env \<Rightarrow> world \<Rightarrow> bool" for en where
  start: "lease_templates (com w) = [] \<Longrightarrow> cur w = com w \<Longrightarrow> template_reachable en w"
| step: "template_reachable en w \<Longrightarrow> template_reachable en (run_template en oid op (rollback w\<lparr>clock := t\<rparr>))"

lemma template_audit_commit [simp]: "aa_commit (template_audit oid actor tid name b)"
  by (simp add: template_audit_def)

lemma template_audit_ok [simp]: "templates_ok (add_audit e d) = templates_ok d"
  by (simp add: templates_ok_def)

lemma clear_defaults_keys [simp]: "map lt_id (lease_templates (clear_defaults oid x now d)) = map lt_id (lease_templates d)"
  by (simp add: clear_defaults_def comp_def if_distrib cong: if_cong)

lemma clear_defaults_seqs [simp]: "seqs (clear_defaults oid x now d) = seqs d"
  by (simp add: clear_defaults_def)

lemma keys_ok_cong: "map key rs = map key rs' \<Longrightarrow> keys_ok key n rs = keys_ok key n rs'"
  unfolding keys_ok_def by (metis (mono_tags, lifting) image_iff list.set_map)

lemma clear_defaults_mem:
  "t \<in> set (lease_templates (clear_defaults oid x now d)) \<Longrightarrow> lt_default t \<Longrightarrow>
     t \<in> set (lease_templates d) \<and> (lt_org t = oid \<longrightarrow> Some (lt_id t) = x)"
  by (auto simp: clear_defaults_def split: if_splits)

lemma templates_okI:
  assumes "keys_ok lt_id (seqs d T_lease_templates) (lease_templates d)"
    and "\<And>t u. t \<in> set (lease_templates d) \<Longrightarrow> u \<in> set (lease_templates d) \<Longrightarrow>
      lt_default t \<Longrightarrow> lt_default u \<Longrightarrow> lt_org t = lt_org u \<Longrightarrow> lt_id t = lt_id u"
  shows "templates_ok d"
  unfolding templates_ok_def by (intro conjI ballI impI, rule assms(1), elim conjE, rule assms(2))

lemma templates_ok_set:
  \<comment> \<open>one row of the organization becomes the default, or none does\<close>
  assumes k: "keys_ok lt_id (seqs d T_lease_templates) (lease_templates d)"
    and one: "\<And>t u. t \<in> set (lease_templates d) \<Longrightarrow> u \<in> set (lease_templates d) \<Longrightarrow> lt_org t \<noteq> oid \<Longrightarrow>
      lt_default t \<Longrightarrow> lt_default u \<Longrightarrow> lt_org t = lt_org u \<Longrightarrow> lt_id t = lt_id u"
  shows "templates_ok (clear_defaults oid x now d)"
proof (rule templates_okI)
  show "keys_ok lt_id (seqs (clear_defaults oid x now d) T_lease_templates) (lease_templates (clear_defaults oid x now d))"
    unfolding clear_defaults_seqs using k keys_ok_cong [OF clear_defaults_keys] by metis
  fix t u
  assume tu: "t \<in> set (lease_templates (clear_defaults oid x now d))" "u \<in> set (lease_templates (clear_defaults oid x now d))"
    "lt_default t" "lt_default u" "lt_org t = lt_org u"
  note t = clear_defaults_mem [OF tu(1,3)] and u = clear_defaults_mem [OF tu(2,4)]
  show "lt_id t = lt_id u"
  proof (cases "lt_org t = oid")
    case True
    then have "Some (lt_id t) = Some (lt_id u)" using t u tu(5) by simp
    then show ?thesis by simp
  next
    case False
    show ?thesis by (rule one [OF conjunct1 [OF t] conjunct1 [OF u] False tu(3-5)])
  qed
qed

lemma templates_ok_keys: "templates_ok d \<Longrightarrow> keys_ok lt_id (seqs d T_lease_templates) (lease_templates d)"
  by (simp add: templates_ok_def)

lemma templates_ok_one:
  "templates_ok d \<Longrightarrow> t \<in> set (lease_templates d) \<Longrightarrow> u \<in> set (lease_templates d) \<Longrightarrow>
     lt_default t \<Longrightarrow> lt_default u \<Longrightarrow> lt_org t = lt_org u \<Longrightarrow> lt_id t = lt_id u"
  unfolding templates_ok_def by blast

text \<open>Writing a row of the organization and clearing the others, as create and update do.\<close>

lemma templates_ok_add:
  assumes "templates_ok d" and "lt_id t = next_key T_lease_templates d" and "lt_org t = oid"
  shows "templates_ok (clear_others oid t now (add_lease_template t d))"
proof -
  note k = templates_ok_keys [OF assms(1)]
  have k2: "keys_ok lt_id (seqs (add_lease_template t d) T_lease_templates) (lease_templates (add_lease_template t d))"
    by (rule lease_template_tab.ok_add [OF k assms(2)])
  show ?thesis
  proof (cases "lt_default t")
    case True
    have "templates_ok (clear_defaults oid (Some (lt_id t)) now (add_lease_template t d))"
    proof (rule templates_ok_set [OF k2])
      fix u v
      assume uv: "u \<in> set (lease_templates (add_lease_template t d))" "v \<in> set (lease_templates (add_lease_template t d))"
        "lt_org u \<noteq> oid" "lt_default u" "lt_default v" "lt_org u = lt_org v"
      then have "u \<in> set (lease_templates d)" "v \<in> set (lease_templates d)" using assms(3) by auto
      then show "lt_id u = lt_id v" using templates_ok_one [OF assms(1)] uv(4-6) by blast
    qed
    then show ?thesis using True by (simp add: clear_others_def)
  next
    case False
    have "templates_ok (add_lease_template t d)"
    proof (rule templates_okI [OF k2])
      fix u v
      assume uv: "u \<in> set (lease_templates (add_lease_template t d))" "v \<in> set (lease_templates (add_lease_template t d))"
        "lt_default u" "lt_default v" "lt_org u = lt_org v"
      then have "u \<in> set (lease_templates d)" "v \<in> set (lease_templates d)" using False by auto
      then show "lt_id u = lt_id v" using templates_ok_one [OF assms(1)] uv(3-5) by blast
    qed
    then show ?thesis using False by (simp add: clear_others_def)
  qed
qed

lemma templates_ok_put:
  assumes "templates_ok d" and "t0 \<in> set (lease_templates d)" and "lt_org t0 = oid" and "lt_org t = oid"
  shows "templates_ok (clear_others oid t now (put_lease_template t d))"
proof -
  note k = templates_ok_keys [OF assms(1)]
  have k2: "keys_ok lt_id (seqs (put_lease_template t d) T_lease_templates) (lease_templates (put_lease_template t d))"
    by (rule lease_template_tab.ok_put [OF k])
  have mem: "u = t \<or> u \<in> set (lease_templates d)" if "u \<in> set (lease_templates (put_lease_template t d))" for u
    using lease_template_tab.put_mem [OF that] by blast
  show ?thesis
  proof (cases "lt_default t")
    case True
    have "templates_ok (clear_defaults oid (Some (lt_id t)) now (put_lease_template t d))"
    proof (rule templates_ok_set [OF k2])
      fix u v assume u: "u \<in> set (lease_templates (put_lease_template t d))" "v \<in> set (lease_templates (put_lease_template t d))"
        "lt_org u \<noteq> oid" "lt_default u" "lt_default v" "lt_org u = lt_org v"
      then have "u \<in> set (lease_templates d)" "v \<in> set (lease_templates d)" using mem assms(4) by metis+
      then show "lt_id u = lt_id v" using templates_ok_one [OF assms(1)] u by blast
    qed
    then show ?thesis using True by (simp add: clear_others_def)
  next
    case False
    have "templates_ok (put_lease_template t d)"
    proof (rule templates_okI [OF k2])
      fix u v
      assume uv: "u \<in> set (lease_templates (put_lease_template t d))" "v \<in> set (lease_templates (put_lease_template t d))"
        "lt_default u" "lt_default v" "lt_org u = lt_org v"
      then have "u \<in> set (lease_templates d)" "v \<in> set (lease_templates d)" using mem False by metis+
      then show "lt_id u = lt_id v" using templates_ok_one [OF assms(1)] uv(3-5) by blast
    qed
    then show ?thesis using False by (simp add: clear_others_def)
  qed
qed

lemma cleared_none: "u \<in> set (lease_templates (clear_defaults oid None now d)) \<Longrightarrow> lt_org u = oid \<Longrightarrow> \<not> lt_default u"
  using clear_defaults_mem [of u oid None now d] by auto

lemma templates_ok_default:
  assumes "templates_ok d" and "lt_org t = oid"
  shows "templates_ok (put_lease_template t (clear_defaults oid None now d))"
proof (rule templates_okI)
  let ?d = "clear_defaults oid None now d"
  have c: "templates_ok ?d"
    by (rule templates_ok_set [OF templates_ok_keys [OF assms(1)]]) (rule templates_ok_one [OF assms(1)])
  show "keys_ok lt_id (seqs (put_lease_template t ?d) T_lease_templates) (lease_templates (put_lease_template t ?d))"
    by (rule lease_template_tab.ok_put [OF templates_ok_keys [OF c]])
  fix u v
  assume uv: "u \<in> set (lease_templates (put_lease_template t ?d))" "v \<in> set (lease_templates (put_lease_template t ?d))"
    "lt_default u" "lt_default v" "lt_org u = lt_org v"
  note m = lease_template_tab.put_mem [OF uv(1)] lease_template_tab.put_mem [OF uv(2)]
  show "lt_id u = lt_id v"
  proof (cases "lt_org u = oid")
    case True
    then have "u = t" "v = t" using m uv(3-5) cleared_none [of _ oid now d] by auto
    then show ?thesis by simp
  next
    case False
    then have "u \<in> set (lease_templates ?d)" "v \<in> set (lease_templates ?d)" using m uv(5) assms(2) by auto
    then show ?thesis using templates_ok_one [OF c] uv(3-5) by blast
  qed
qed

lemma templates_ok_delete: "templates_ok d \<Longrightarrow> templates_ok (delete_template_row tid now d)"
proof (rule templates_okI)
  assume d: "templates_ok d"
  have sub: "set (lease_templates (delete_template_row tid now d)) \<subseteq> set (lease_templates d)"
    by (auto simp: delete_template_row_def row_del_def)
  show "keys_ok lt_id (seqs (delete_template_row tid now d) T_lease_templates)
      (lease_templates (delete_template_row tid now d))"
    using templates_ok_keys [OF d] by (auto simp: keys_ok_def delete_template_row_def row_del_def distinct_map_filter)
  fix u v
  assume "u \<in> set (lease_templates (delete_template_row tid now d))" "v \<in> set (lease_templates (delete_template_row tid now d))"
    "lt_default u" "lt_default v" "lt_org u = lt_org v"
  then show "lt_id u = lt_id v" using sub templates_ok_one [OF d] by blast
qed

lemma run_template_ok:
  assumes "templates_ok (cur w)" and "com w = cur w"
  shows "templates_ok (cur (run_template en oid op w)) \<and> com (run_template en oid op w) = cur (run_template en oid op w)"
proof (cases op)
  case (Create_template a actor)
  show ?thesis
  proof (cases "template_plan a")
    case (Inr texts)
    let ?t = "new_template oid texts (ta_default a) w"
    have "templates_ok (clear_others oid ?t (clock w) (add_lease_template ?t (cur w)))"
      by (rule templates_ok_add [OF assms(1)]) (simp_all add: new_template_def)
    then show ?thesis
      unfolding Create_template run_template.simps create_lease_template_def Inr sum.case Let_def
      by (simp del: add_lease_template_def add_audit_def)
  qed (use assms Create_template in \<open>simp add: create_lease_template_def\<close>)
next
  case (Update_template tid a actor)
  show ?thesis
  proof (cases "get_lease_template_row oid tid (cur w)")
    case (Some old)
    show ?thesis
    proof (cases "template_plan a")
      case (Inr texts)
      let ?t = "edited_template old texts (ta_default a) w"
      have o: "old \<in> set (lease_templates (cur w))" "lt_org old = oid" using template_scope.lookup_some [OF Some] by auto
      have "lt_org ?t = oid" using o by (simp add: edited_template_def Let_def)
      from templates_ok_put [OF assms(1) o this]
      have "templates_ok (clear_others oid ?t (clock w) (put_lease_template ?t (cur w)))" .
      then show ?thesis
        unfolding Update_template run_template.simps update_lease_template_def Some option.case Inr sum.case Let_def
        by (simp del: put_lease_template_def add_audit_def)
    qed (use assms Update_template Some in \<open>simp add: update_lease_template_def\<close>)
  qed (use assms Update_template in \<open>simp add: update_lease_template_def\<close>)
next
  case (Set_default tid actor)
  show ?thesis
  proof (cases "get_lease_template_row oid tid (cur w)")
    case (Some old)
    then have "lt_org old = oid" using template_scope.lookup_some [OF Some] by auto
    then have "templates_ok (put_lease_template (old\<lparr>lt_default := \<not> lt_default old, lt_updated_at := clock w\<rparr>)
        (clear_defaults oid None (clock w) (cur w)))"
      by (intro templates_ok_default [OF assms(1)]) simp
    then show ?thesis
      unfolding Set_default run_template.simps set_default_lease_template_def Some option.case
      by (simp add: Let_def del: put_lease_template_def add_audit_def)
  qed (use assms Set_default in \<open>simp add: set_default_lease_template_def\<close>)
next
  case (Delete_template tid actor)
  then show ?thesis
    using assms templates_ok_delete [OF assms(1)]
    by (cases "get_lease_template_row oid tid (cur w)") (simp_all add: delete_lease_template_def del: add_audit_def)
qed

lemma template_reachable_ok:
  assumes "template_reachable en w"
  shows "templates_ok (com w) \<and> com w = cur w"
  using assms
proof (induction rule: template_reachable.induct)
  case (start w)
  then show ?case by (auto simp: templates_ok_def keys_ok_def)
next
  case (step w oid op t)
  then show ?case using run_template_ok [of "rollback w\<lparr>clock := t\<rparr>" en oid op] by (metis rollback_simps(1,2) world.select_convs(1,2) world.update_convs(3) world.surjective)
qed

text \<open>However templates are created, edited, made the default and deleted, an organization never
  has more than one default template.\<close>

theorem one_default_template:
  assumes "template_reachable en w"
  shows "length (filter (\<lambda>t. lt_org t = oid \<and> lt_default t) (lease_templates (com w))) \<le> 1"
proof (rule filter_at_most_one [of lt_id])
  have ok: "templates_ok (com w)" using template_reachable_ok [OF assms] by blast
  show "distinct (map lt_id (lease_templates (com w)))" using templates_ok_keys [OF ok] by (simp add: keys_ok_def)
  fix t u assume tu: "t \<in> set (lease_templates (com w))" "u \<in> set (lease_templates (com w))"
    "lt_org t = oid \<and> lt_default t" "lt_org u = oid \<and> lt_default u"
  then show "lt_id t = lt_id u" by (intro templates_ok_one [OF ok]) auto
qed

text \<open>Making the organization's default template the default once more answers success and logs a
  default, but leaves the organization without any default template.\<close>

theorem default_again_loses_default:
  assumes "template_reachable en w" and "get_lease_template_row oid tid (cur w) = Some t" and "lt_default t"
    and "set_default_lease_template en oid tid actor w = (x, w')"
  shows "filter (\<lambda>u. lt_org u = oid \<and> lt_default u) (lease_templates (com w')) = [] \<and> (\<exists>j. x = Inr j)"
proof -
  let ?t = "t\<lparr>lt_default := \<not> lt_default t, lt_updated_at := clock w\<rparr>"
  have x: "x = Inr (serialize_lease_template ?t)"
    and w': "lease_templates (com w') = row_put lt_id ?t (lease_templates (clear_defaults oid None (clock w) (cur w)))"
    using assms(4) unfolding set_default_lease_template_def assms(2) by (auto simp: Let_def)
  have "\<not> lt_default u" if "u \<in> set (lease_templates (com w'))" "lt_org u = oid" for u
    using set_row_put [OF that(1) [unfolded w']] assms(3) cleared_none [of u oid "clock w" "cur w"] that(2) by auto
  then show ?thesis using x by (auto simp: filter_empty_conv)
qed

subsection \<open>A concrete run\<close>

definition template_world :: world where
  "template_world = snd (create_lease_template sample_env 1
     \<lparr>ta_name = ''Standard'', ta_description = None, ta_body = ''Rent'', ta_default = True\<rparr> 7 (world_of sample_db))"

lemma template_start: "template_reachable sample_env (world_of sample_db)"
  by (rule template_reachable.start) (simp_all add: sample_db_def)

lemma template_world_is:
  "template_world = run_template sample_env 1 (Create_template \<lparr>ta_name = ''Standard'', ta_description = None,
     ta_body = ''Rent'', ta_default = True\<rparr> 7) (rollback (world_of sample_db)\<lparr>clock := clock (world_of sample_db)\<rparr>)"
  by (simp add: template_world_def rollback_def world_of_def)

lemma template_world_reachable: "template_reachable sample_env template_world"
  unfolding template_world_is by (rule template_reachable.step [OF template_start])

lemma template_world_rows:
  "\<exists>t. lease_templates (cur template_world) = [t] \<and> lt_id t = 1 \<and> lt_org t = 1 \<and> lt_default t"
proof -
  have p: "template_plan \<lparr>ta_name = ''Standard'', ta_description = None, ta_body = ''Rent'', ta_default = True\<rparr>
      = Inr (''Standard'', None, ''Rent'')"
    by (simp add: template_plan_def strip_def is_blank_def)
  show ?thesis
    by (simp add: template_world_def create_lease_template_def p Let_def new_template_def clear_others_def
        clear_defaults_def next_key_def sample_db_def)
qed

theorem one_default_template_witness:
  "length (filter (\<lambda>t. lt_org t = 1 \<and> lt_default t) (lease_templates (com template_world))) \<le> 1"
  by (rule one_default_template [OF template_world_reachable])

theorem default_again_loses_default_witness:
  "filter (\<lambda>u. lt_org u = 1 \<and> lt_default u)
     (lease_templates (com (snd (set_default_lease_template sample_env 1 1 7 template_world)))) = []"
proof -
  obtain t where t: "lease_templates (cur template_world) = [t]" "lt_id t = 1" "lt_org t = 1" "lt_default t"
    using template_world_rows by blast
  then have g: "get_lease_template_row 1 1 (cur template_world) = Some t" by (simp add: get_lease_template_row_def)
  obtain x w' where r: "set_default_lease_template sample_env 1 1 7 template_world = (x, w')" by fastforce
  from default_again_loses_default [OF template_world_reachable g t(4) r] r show ?thesis by simp
qed

end
