(* ===== verification/Invoices.thy ===== *)
theory Invoices
  imports Billing
begin

text \<open>
  Invoices (app/billing/services.py): create, update, pay, cancel, the daily overdue job and the
  lists. An invoice keeps its subtotal, VAT rate, VAT amount and total in cents. Main facts: in
  every reachable state the lines of every invoice add up and its number is its own; the status
  follows a fixed diagram in which paid and cancelled are final; and no operation opens a draft,
  so a draft can only be cancelled.
\<close>

subsection \<open>Creating\<close>

definition invoice_number_of :: "int \<Rightarrow> int \<Rightarrow> string" where
  "invoice_number_of oid iid = ''BIL-'' @ show_int oid @ ''-'' @ fmt0 8 iid"

definition generate_invoice_number :: "int \<Rightarrow> int \<Rightarrow> string" where
  "generate_invoice_number oid iid = invoice_number_of oid iid"

definition finalize_invoice_number :: "invoice \<Rightarrow> invoice" where
  "finalize_invoice_number i = i\<lparr>inv_number := Some (invoice_number_of (inv_org i) (inv_id i))\<rparr>"

text \<open>The \<open>before_insert\<close> listener: a zero total is taken for a row with a legacy amount only.\<close>

definition coerce_legacy_amount :: "invoice \<Rightarrow> invoice" where
  "coerce_legacy_amount i =
     (if inv_total i = 0
      then i\<lparr>inv_total := inv_amount i, inv_subtotal := inv_amount i, inv_vat_amount := 0, inv_vat_rate := 0\<rparr>
      else i)"

record invoice_args =
  ia_subtotal :: scalar
  ia_due :: string
  ia_currency :: scalar
  ia_description :: "string option"
  ia_lease :: "int option"
  ia_reservation :: "int option"
  ia_guest :: "int option"
  ia_status :: string
  ia_metadata :: json
  ia_actor :: "int option"
  ia_vat_rate :: scalar

definition invoice_status_of :: "string \<Rightarrow> exn + string" where
  "invoice_status_of raw =
     (let st = lower (strip (if raw = '''' then ''draft'' else raw)) in
      if st \<notin> {''draft'', ''open'', ''paid'', ''overdue'', ''cancelled''}
      then Inl (e_inv_invalid ''status must be one of: draft, open, paid, overdue, cancelled.'')
      else if st \<in> {''paid'', ''overdue'', ''cancelled''}
      then Inl (e_inv_invalid ''New invoices must start as draft or open.'')
      else Inr st)"

definition chosen_vat_rate :: "env \<Rightarrow> scalar \<Rightarrow> world \<Rightarrow> (exn + cents) \<times> world" where
  "chosen_vat_rate en raw w =
     (case vat_rate_optional raw e_inv_invalid of
        Inl x \<Rightarrow> (Inl x, w)
      | Inr (Some r) \<Rightarrow> (Inr r, w)
      | Inr None \<Rightarrow> default_vat_rate en w)"

text \<open>The lease, the reservation and the guest an invoice refers to; the guest defaults to the lease's.\<close>

definition invoice_refs :: "int \<Rightarrow> invoice_args \<Rightarrow> db \<Rightarrow> exn + int option" where
  "invoice_refs oid a d =
     (if ia_lease a \<noteq> None \<and> get_lease_row oid (the (ia_lease a)) d = None
      then Inl (e_inv_invalid ''Lease not found in this organization.'')
      else if ia_reservation a \<noteq> None \<and> find_reservation oid (the (ia_reservation a)) d = None
      then Inl (e_inv_invalid ''Reservation not found in this organization.'')
      else
        let gid = (case ia_guest a of
              Some g \<Rightarrow> Some g
            | None \<Rightarrow> (case ia_lease a of None \<Rightarrow> None | Some l \<Rightarrow> map_option le_guest (get_lease_row oid l d)))
        in case gid of
             None \<Rightarrow> Inr None
           | Some g \<Rightarrow>
               (case ensure_guest_in_org g oid e_inv_invalid d of Inl x \<Rightarrow> Inl x | Inr r \<Rightarrow> Inr (Some g)))"

definition new_invoice ::
  "int \<Rightarrow> invoice_args \<Rightarrow> int \<Rightarrow> string \<Rightarrow> cents \<Rightarrow> cents \<times> cents \<times> cents \<Rightarrow> date \<Rightarrow> string \<Rightarrow> int option
    \<Rightarrow> world \<Rightarrow> invoice" where
  "new_invoice oid a actor st rate vat due ccy gid w =
     coerce_legacy_amount
     \<lparr>inv_id = next_key T_invoices (cur w), inv_org = oid, inv_lease = ia_lease a,
      inv_reservation = ia_reservation a, inv_guest = gid, inv_number = None, inv_amount = snd (snd vat),
      inv_vat_rate = rate, inv_vat_amount = fst (snd vat), inv_subtotal = fst vat, inv_total = snd (snd vat),
      inv_currency = ccy, inv_due = due, inv_paid_at = None, inv_status = st,
      inv_description = none_if_empty (strip (or_empty (ia_description a))), inv_metadata = ia_metadata a,
      inv_created_by = actor, inv_updated_by = None, inv_created_at = clock w, inv_updated_at = clock w\<rparr>"

definition invoice_plan ::
  "env \<Rightarrow> int \<Rightarrow> invoice_args \<Rightarrow> world \<Rightarrow> (exn + invoice \<times> cents \<times> cents \<times> cents \<times> cents) \<times> world" where
  \<comment> \<open>the row, and the rate and the lines as computed, for the audit row\<close>
  "invoice_plan en oid a w =
     (case ia_actor a of
        None \<Rightarrow> (Inl (e_inv_invalid ''Actor is required.''), w)
      | Some actor \<Rightarrow>
     (case invoice_status_of (ia_status a) of
        Inl x \<Rightarrow> (Inl x, w)
      | Inr st \<Rightarrow>
     (case required_amount (ia_subtotal a) e_inv_invalid of
        Inl x \<Rightarrow> (Inl x, w)
      | Inr subtotal \<Rightarrow>
     (case chosen_vat_rate en (ia_vat_rate a) w of
        (Inl x, w1) \<Rightarrow> (Inl x, w1)
      | (Inr rate, w1) \<Rightarrow>
     (case compute_vat_lines subtotal rate of
        Inl x \<Rightarrow> (Inl (PyError x), w1)
      | Inr vat \<Rightarrow>
     (case invoice_date_of (Some (ia_due a)) ''due_date'' of
        Inl x \<Rightarrow> (Inl x, w1)
      | Inr due \<Rightarrow>
     (case invoice_currency (ia_currency a) of
        Inl x \<Rightarrow> (Inl x, w1)
      | Inr ccy \<Rightarrow>
     (case invoice_refs oid a (cur w1) of
        Inl x \<Rightarrow> (Inl x, w1)
      | Inr gid \<Rightarrow> (Inr (new_invoice oid a actor st rate vat due ccy gid w1, rate, vat), w1)))))))))"

definition invoice_audit :: "int \<Rightarrow> int option \<Rightarrow> int \<Rightarrow> (string \<times> json) list option \<Rightarrow> audit_args" where
  "invoice_audit oid actor iid context =
     audit_defaults\<lparr>aa_actor_id := actor, aa_org := Some oid, aa_target_type := Some ''invoice'',
       aa_target_id := Some iid, aa_context := context, aa_commit := True\<rparr>"

definition invoice_created_audit ::
  "int \<Rightarrow> int option \<Rightarrow> invoice \<Rightarrow> cents \<Rightarrow> cents \<times> cents \<times> cents \<Rightarrow> audit_args" where
  "invoice_created_audit oid actor i rate vat =
     invoice_audit oid actor (inv_id i) (Some
       [(''invoice_number'', jstr (inv_number i)), (''vat_rate'', JStr (money_str rate)),
        (''total'', JStr (money_str (snd (snd vat)))), (''subtotal_excl_vat'', JStr (money_str (fst vat))),
        (''vat_amount'', JStr (money_str (fst (snd vat))))])"

definition create_invoice :: "env \<Rightarrow> int \<Rightarrow> invoice_args \<Rightarrow> world \<Rightarrow> (exn + json) \<times> world" where
  "create_invoice en oid a w =
     (case invoice_plan en oid a w of
        (Inl x, w1) \<Rightarrow> (Inl x, w1)
      | (Inr (i0, rate, vat), w1) \<Rightarrow>
          let i = finalize_invoice_number i0;
              w2 = audit_record en ''invoice.created'' (invoice_created_audit oid (ia_actor a) i rate vat)
                     (commit (on_db (add_invoice i) w1))
          in (Inr (serialize_invoice i), publish en ''invoice.created'' oid (build_invoice_created_payload i w2) w2))"

definition lease_invoice_args ::
  "lease \<Rightarrow> scalar \<Rightarrow> string \<Rightarrow> scalar \<Rightarrow> string option \<Rightarrow> string \<Rightarrow> int option \<Rightarrow> scalar \<Rightarrow> invoice_args" where
  "lease_invoice_args l subtotal due ccy description st actor rate =
     \<lparr>ia_subtotal = (if subtotal = SNone then SStr (money_str (le_rent l)) else subtotal), ia_due = due,
      ia_currency = ccy,
      ia_description = (if strip (or_empty description) = ''''
        then Some (''Lease #'' @ show_int (le_id l) @ '' ('' @ le_cycle l @ '')'') else description),
      ia_lease = Some (le_id l), ia_reservation = le_reservation l, ia_guest = Some (le_guest l),
      ia_status = st, ia_metadata = JNull, ia_actor = actor, ia_vat_rate = rate\<rparr>"

definition create_invoice_for_lease ::
  "env \<Rightarrow> int \<Rightarrow> int \<Rightarrow> scalar \<Rightarrow> string \<Rightarrow> scalar \<Rightarrow> string option \<Rightarrow> string \<Rightarrow> int option \<Rightarrow> scalar
    \<Rightarrow> world \<Rightarrow> (exn + json) \<times> world" where
  "create_invoice_for_lease en oid lid subtotal due ccy description st actor rate w =
     (case get_lease_row oid lid (cur w) of
        None \<Rightarrow> (Inl (e_inv_invalid ''Lease not found in this organization.''), w)
      | Some l \<Rightarrow> create_invoice en oid (lease_invoice_args l subtotal due ccy description st actor rate) w)"

subsection \<open>Reading\<close>

definition get_invoice_for_org :: "int \<Rightarrow> int \<Rightarrow> db \<Rightarrow> exn + json" where
  "get_invoice_for_org oid iid d =
     (case get_invoice_row oid iid d of None \<Rightarrow> Inl e_inv_not_found | Some i \<Rightarrow> Inr (serialize_invoice i))"

definition org_invoices_desc :: "int \<Rightarrow> db \<Rightarrow> invoice list" where
  "org_invoices_desc oid d = order2_desc inv_due inv_id (filter (\<lambda>i. inv_org i = oid) (invoices d))"

definition list_invoices_for_org :: "int \<Rightarrow> db \<Rightarrow> json list" where
  "list_invoices_for_org oid d = map serialize_invoice (org_invoices_desc oid d)"

definition list_invoices_paginated :: "int \<Rightarrow> nat \<Rightarrow> nat \<Rightarrow> db \<Rightarrow> json list \<times> nat" where
  "list_invoices_paginated oid page per_page d =
     (let rows = org_invoices_desc oid d in
      (map serialize_invoice (take per_page (drop ((page - 1) * per_page) rows)), length rows))"

definition log_invoice_pdf_downloaded :: "env \<Rightarrow> int \<Rightarrow> int \<Rightarrow> world \<Rightarrow> world" where
  "log_invoice_pdf_downloaded en iid oid w =
     audit_record en ''invoice.pdf_downloaded''
       ((invoice_audit oid None iid None)\<lparr>aa_metadata := Some []\<rparr>) w"

subsection \<open>Updating\<close>

definition invoice_touch :: "world \<Rightarrow> invoice \<Rightarrow> invoice \<Rightarrow> invoice" where
  "invoice_touch w old new = (if new = old then old else new\<lparr>inv_updated_at := clock w\<rparr>)"

text \<open>
  The request: its scalar fields, and \<open>metadata_json\<close> apart, when it is given. The keys count for
  the checks of paid, cancelled and overdue invoices.
\<close>

type_synonym invoice_data = "(string \<times> scalar) list \<times> json option"

definition data_keys :: "invoice_data \<Rightarrow> string set" where
  "data_keys data = set (map fst (fst data)) \<union> (if snd data = None then {} else {''metadata_json''})"

definition invoice_update_allowed :: "invoice_data \<Rightarrow> invoice \<Rightarrow> exn + unit" where
  "invoice_update_allowed data i =
     (if inv_status i \<in> {''paid'', ''cancelled''} \<and> \<not> data_keys data \<subseteq> {''description'', ''metadata_json''}
      then Inl (e_inv_invalid ''Only description and metadata can be changed for paid or cancelled invoices.'')
      else if inv_status i = ''overdue'' \<and> \<not> data_keys data \<subseteq> {''description'', ''metadata_json'', ''due_date''}
      then Inl (e_inv_invalid ''Overdue invoices only support limited updates.'')
      else Inr ())"

definition set_texts :: "invoice_data \<Rightarrow> invoice \<Rightarrow> invoice" where
  "set_texts data i =
     (let i1 = (if given ''description'' (fst data)
                then i\<lparr>inv_description := none_if_empty (strip (str_or (dget ''description'' (fst data)) ''''))\<rparr> else i)
      in case snd data of None \<Rightarrow> i1 | Some m \<Rightarrow> i1\<lparr>inv_metadata := m\<rparr>)"

text \<open>The new subtotal and the new rate, where the request has one.\<close>

definition new_subtotal :: "invoice_data \<Rightarrow> exn + cents option" where
  "new_subtotal data =
     (let k = (if given ''subtotal_excl_vat'' (fst data) then Some ''subtotal_excl_vat''
               else if given ''amount'' (fst data) then Some ''amount'' else None)
      in case k of
           None \<Rightarrow> Inr None
         | Some key \<Rightarrow>
             (case required_amount (dget key (fst data)) e_inv_invalid of Inl x \<Rightarrow> Inl x | Inr c \<Rightarrow> Inr (Some c)))"

definition new_rate :: "env \<Rightarrow> invoice_data \<Rightarrow> world \<Rightarrow> (exn + cents option) \<times> world" where
  "new_rate en data w =
     (if \<not> given ''vat_rate'' (fst data) then (Inr None, w)
      else case chosen_vat_rate en (dget ''vat_rate'' (fst data)) w of
        (Inl x, w1) \<Rightarrow> (Inl x, w1) | (Inr r, w1) \<Rightarrow> (Inr (Some r), w1))"

definition set_lines :: "cents option \<Rightarrow> cents option \<Rightarrow> invoice \<Rightarrow> exn + invoice" where
  "set_lines sub rate i =
     (if sub = None \<and> rate = None then Inr i
      else
        let base_sub = (case sub of None \<Rightarrow> inv_subtotal i | Some c \<Rightarrow> c);
            base_rate = (case rate of None \<Rightarrow> inv_vat_rate i | Some r \<Rightarrow> r)
        in case compute_vat_lines base_sub base_rate of
             Inl x \<Rightarrow> Inl (PyError x)
           | Inr (s, v, t) \<Rightarrow>
               Inr (i\<lparr>inv_subtotal := s, inv_vat_rate := base_rate, inv_vat_amount := v, inv_total := t, inv_amount := t\<rparr>))"

definition up_currency :: "invoice_data \<Rightarrow> invoice \<Rightarrow> exn + invoice" where
  "up_currency data = field_if (given ''currency'' (fst data)) (\<lambda>i.
     case invoice_currency (dget ''currency'' (fst data)) of Inl x \<Rightarrow> Inl x | Inr c \<Rightarrow> Inr (i\<lparr>inv_currency := c\<rparr>))"

definition up_due :: "invoice_data \<Rightarrow> invoice \<Rightarrow> exn + invoice" where
  "up_due data = field_if (given ''due_date'' (fst data)) (\<lambda>i.
     case invoice_date_of (Some (py_str (dget ''due_date'' (fst data)))) ''due_date'' of
       Inl x \<Rightarrow> Inl x | Inr t \<Rightarrow> Inr (i\<lparr>inv_due := t\<rparr>))"

text \<open>An id field: null or empty text clears the reference, a known id of the tenant sets it.\<close>

definition up_ref ::
  "string \<Rightarrow> (int \<Rightarrow> exn option) \<Rightarrow> (int option \<Rightarrow> invoice \<Rightarrow> invoice) \<Rightarrow> invoice_data \<Rightarrow> invoice \<Rightarrow> exn + invoice" where
  "up_ref key check put data = field_if (given key (fst data)) (\<lambda>i.
     let raw = dget key (fst data) in
     if raw = SNone \<or> raw = SStr '''' then Inr (put None i)
     else case py_int raw of
       Inl x \<Rightarrow> Inl (PyError x)
     | Inr k \<Rightarrow> (case check k of Some x \<Rightarrow> Inl x | None \<Rightarrow> Inr (put (Some k) i)))"

definition missing_guest :: "int \<Rightarrow> db \<Rightarrow> int \<Rightarrow> exn option" where
  "missing_guest oid d g =
     (if find_guest oid g d = None then Some (e_inv_invalid ''Guest not found in this organization.'') else None)"

definition missing_reservation :: "int \<Rightarrow> db \<Rightarrow> int \<Rightarrow> exn option" where
  "missing_reservation oid d r =
     (if find_reservation oid r d = None then Some (e_inv_invalid ''Reservation not found in this organization.'') else None)"

definition missing_lease :: "int \<Rightarrow> db \<Rightarrow> int \<Rightarrow> exn option" where
  "missing_lease oid d l =
     (if get_lease_row oid l d = None then Some (e_inv_invalid ''Lease not found in this organization.'') else None)"

definition open_fields :: "int \<Rightarrow> db \<Rightarrow> cents option \<Rightarrow> cents option \<Rightarrow> invoice_data \<Rightarrow> (invoice \<Rightarrow> exn + invoice) list" where
  "open_fields oid d sub rate data =
     [set_lines sub rate, up_currency data, up_due data,
      up_ref ''guest_id'' (missing_guest oid d) (\<lambda>v i. i\<lparr>inv_guest := v\<rparr>) data,
      up_ref ''reservation_id'' (missing_reservation oid d) (\<lambda>v i. i\<lparr>inv_reservation := v\<rparr>) data,
      up_ref ''lease_id'' (missing_lease oid d) (\<lambda>v i. i\<lparr>inv_lease := v\<rparr>) data]"

text \<open>The money and reference fields, for a draft or open invoice; of any other only the texts change.\<close>

definition update_open ::
  "env \<Rightarrow> int \<Rightarrow> invoice_data \<Rightarrow> invoice \<Rightarrow> world \<Rightarrow> (exn option \<times> invoice \<times> bool) \<times> world" where
  \<comment> \<open>the exception, the row, whether the amounts were touched\<close>
  "update_open en oid data i w =
     (if inv_status i \<notin> {''draft'', ''open''} then ((None, i, False), w)
      else case new_subtotal data of
        Inl x \<Rightarrow> ((Some x, i, False), w)
      | Inr sub \<Rightarrow>
     (case new_rate en data w of
        (Inl x, w1) \<Rightarrow> ((Some x, i, False), w1)
      | (Inr rate, w1) \<Rightarrow>
     (case run_fields (open_fields oid (cur w1) sub rate data) i of
        (x, i1) \<Rightarrow> ((x, i1, sub \<noteq> None \<or> rate \<noteq> None), w1))))"

definition save_invoice ::
  "env \<Rightarrow> string \<Rightarrow> int \<Rightarrow> int option \<Rightarrow> (invoice \<Rightarrow> (string \<times> json) list option) \<Rightarrow> invoice \<Rightarrow> invoice \<Rightarrow> world
    \<Rightarrow> (exn + json) \<times> world" where
  "save_invoice en action oid actor context old new w =
     (let i = invoice_touch w old (new\<lparr>inv_updated_by := actor\<rparr>)
      in (Inr (serialize_invoice i),
          audit_record en action (invoice_audit oid actor (inv_id i) (context i)) (commit (on_db (put_invoice i) w))))"

definition updated_context :: "bool \<Rightarrow> invoice \<Rightarrow> (string \<times> json) list option" where
  "updated_context touched i =
     (if touched then Some [(''vat_rate'', JStr (money_str (inv_vat_rate i))), (''total'', JStr (money_str (inv_total i)))]
      else None)"

definition update_invoice_limited ::
  "env \<Rightarrow> int \<Rightarrow> int \<Rightarrow> invoice_data \<Rightarrow> int \<Rightarrow> world \<Rightarrow> (exn + json) \<times> world" where
  "update_invoice_limited en oid iid data actor w =
     (case get_invoice_row oid iid (cur w) of
        None \<Rightarrow> (Inl e_inv_not_found, w)
      | Some old \<Rightarrow>
          (case invoice_update_allowed data old of
             Inl x \<Rightarrow> (Inl x, w)
           | Inr u \<Rightarrow>
               (case update_open en oid data (set_texts data old) w of
                  ((Some x, i, b), w1) \<Rightarrow> (Inl x, on_db (put_invoice i) w1)
                | ((None, i, touched), w1) \<Rightarrow>
                    save_invoice en ''invoice.updated'' oid (Some actor) (updated_context touched) old i w1)))"

subsection \<open>Status changes\<close>

definition e_inv_state :: "string \<Rightarrow> exn" where
  "e_inv_state msg = e_inv ''invalid_state'' msg 409"

definition paid_context :: "invoice \<Rightarrow> invoice \<Rightarrow> (string \<times> json) list option" where
  "paid_context old i = Some
     [(''invoice_number'', jstr (inv_number i)), (''previous_status'', JStr (inv_status old)),
      (''new_status'', JStr (inv_status i)), (''amount'', JStr (money_str (inv_total i)))]"

definition mark_invoice_paid :: "env \<Rightarrow> int \<Rightarrow> int \<Rightarrow> int option \<Rightarrow> world \<Rightarrow> (exn + json) \<times> world" where
  "mark_invoice_paid en oid iid actor w =
     (case get_invoice_row oid iid (cur w) of
        None \<Rightarrow> (Inl e_inv_not_found, w)
      | Some old \<Rightarrow>
          if inv_status old = ''paid'' then (Inl (e_inv_state ''Invoice is already marked paid.''), w)
          else if inv_status old = ''cancelled'' then (Inl (e_inv_state ''Cancelled invoices cannot be marked paid.''), w)
          else if inv_status old = ''draft''
          then (Inl (e_inv_state ''Draft invoices must be opened before they can be marked paid.''), w)
          else save_invoice en ''invoice.marked_paid'' oid actor (paid_context old) old
                 (old\<lparr>inv_status := ''paid'', inv_paid_at := Some (clock w)\<rparr>) w)"

definition cancel_invoice :: "env \<Rightarrow> int \<Rightarrow> int \<Rightarrow> int option \<Rightarrow> world \<Rightarrow> (exn + json) \<times> world" where
  "cancel_invoice en oid iid actor w =
     (case get_invoice_row oid iid (cur w) of
        None \<Rightarrow> (Inl e_inv_not_found, w)
      | Some old \<Rightarrow>
          if inv_status old = ''paid'' then (Inl (e_inv_invalid ''Paid invoices cannot be cancelled.''), w)
          else if inv_status old = ''cancelled'' then (Inr (serialize_invoice old), w)
          else save_invoice en ''invoice.cancelled'' oid actor (\<lambda>i. None) old (old\<lparr>inv_status := ''cancelled''\<rparr>) w)"

subsection \<open>The overdue job\<close>

definition overdue_rows :: "int option \<Rightarrow> date \<Rightarrow> db \<Rightarrow> invoice list" where
  "overdue_rows oid now d =
     filter (\<lambda>i. inv_status i = ''open'' \<and> inv_due i < now \<and> (oid = None \<or> oid = Some (inv_org i))) (invoices d)"

definition overdue_row :: "world \<Rightarrow> invoice \<Rightarrow> invoice" where
  "overdue_row w i = i\<lparr>inv_status := ''overdue'', inv_updated_by := None, inv_updated_at := clock w\<rparr>"

definition overdue_body :: "invoice \<Rightarrow> string" where
  "overdue_body i = ''Lasku '' @ (if or_empty (inv_number i) = '''' then ''#'' @ show_int (inv_id i) else or_empty (inv_number i))
     @ '' on eraantynyt.''"

definition overdue_one :: "env \<Rightarrow> invoice \<Rightarrow> world \<Rightarrow> world" where
  "overdue_one en i w =
     snd (notification_create en (inv_org i) ''invoice.overdue'' ''Lasku eraantynyt'' (Some (overdue_body i))
       (Some (''/admin/invoices/'' @ show_int (inv_id i))) ''warning'' None (on_db (put_invoice (overdue_row w i)) w))"

definition overdue_audit :: "invoice \<Rightarrow> audit_args" where
  "overdue_audit i =
     (invoice_audit (inv_org i) None (inv_id i) (Some
        [(''invoice_number'', jstr (inv_number i)), (''due_date'', JStr (isoformat (inv_due i)))]))
       \<lparr>aa_actor_type := Some ''system''\<rparr>"

definition mark_overdue_invoices :: "env \<Rightarrow> int option \<Rightarrow> world \<Rightarrow> nat \<times> world" where
  "mark_overdue_invoices en oid w =
     (let rows = overdue_rows oid (today w) (cur w);
          w1 = fold (overdue_one en) rows w;
          w2 = (if rows = [] then w1 else commit w1)
      in (length rows, fold (\<lambda>i. audit_record en ''invoice.marked_overdue'' (overdue_audit i)) rows w2))"

subsection \<open>The operations together\<close>

datatype invoice_op =
    Create_invoice invoice_args
  | Bill_lease int scalar string scalar "string option" string "int option" scalar
  | Update_invoice int invoice_data int
  | Pay_invoice int "int option"
  | Cancel_invoice int "int option"
  | Mark_overdue "int option"

fun run_invoice :: "env \<Rightarrow> int \<Rightarrow> invoice_op \<Rightarrow> world \<Rightarrow> world" where
  "run_invoice en oid (Create_invoice a) w = snd (create_invoice en oid a w)"
| "run_invoice en oid (Bill_lease lid s due c t st actor r) w = snd (create_invoice_for_lease en oid lid s due c t st actor r w)"
| "run_invoice en oid (Update_invoice iid data actor) w = snd (update_invoice_limited en oid iid data actor w)"
| "run_invoice en oid (Pay_invoice iid actor) w = snd (mark_invoice_paid en oid iid actor w)"
| "run_invoice en oid (Cancel_invoice iid actor) w = snd (cancel_invoice en oid iid actor w)"
| "run_invoice en oid (Mark_overdue only) w = snd (mark_overdue_invoices en only w)"

lemma settings_get_world:
  assumes "settings_get en k v w = (x, w')"
  shows "cur w' = cur w" "com w' = com w" "clock w' = clock w" "out w' = out w"
  using assms by (auto simp: settings_get_def memo_put_def split: option.splits sum.splits if_splits)

lemma chosen_rate_world:
  assumes "chosen_vat_rate en raw w = (x, w')"
  shows "cur w' = cur w" "com w' = com w" "clock w' = clock w"
proof -
  obtain y v where y: "settings_get en ''billing.default_vat_rate'' (VDec (DFin 2400 (- 2))) w = (y, v)" by fastforce
  note sg = settings_get_world [OF y]
  show "cur w' = cur w" "com w' = com w" "clock w' = clock w"
    using assms sg y by (auto simp: chosen_vat_rate_def default_vat_rate_def split: sum.splits option.splits)
qed

lemma quantize_money_id: "quantize_money (c, - 2) = Inr s \<Longrightarrow> s = c"
  by (auto simp: quantize_money_def to_cents_def Let_def split: if_splits)

lemma quantize_money_again: "quantize_money d = Inr s \<Longrightarrow> quantize_money (s, - 2) = Inr s"
  by (auto simp: quantize_money_def to_cents_def Let_def split: option.splits decimal.splits if_splits)

definition money_ok :: "invoice \<Rightarrow> bool" where
  "money_ok i \<longleftrightarrow> inv_amount i = inv_total i \<and> inv_total i = inv_subtotal i + inv_vat_amount i \<and> 0 \<le> inv_subtotal i
     \<and> compute_vat_lines (inv_subtotal i) (inv_vat_rate i) = Inr (inv_subtotal i, inv_vat_amount i, inv_total i)"

lemma vat_lines_D:
  assumes "compute_vat_lines sub rate = Inr (s, v, t)"
  shows "s = sub \<and> t = s + v"
  using assms
  by (auto simp: compute_vat_lines_def split: sum.splits prod.splits dest: quantize_money_id)

lemma coerce_ok:
  assumes "inv_amount i = inv_total i" and "money_ok i"
  shows "money_ok (coerce_legacy_amount i)"
proof -
  have z: "compute_vat_lines 0 0 = Inr (0, 0, 0)" by code_simp
  show ?thesis using assms z by (simp add: coerce_legacy_amount_def money_ok_def)
qed

lemma coerce_simps [simp]:
  "inv_id (coerce_legacy_amount i) = inv_id i" "inv_org (coerce_legacy_amount i) = inv_org i"
  "inv_status (coerce_legacy_amount i) = inv_status i"
  by (simp_all add: coerce_legacy_amount_def)

definition statuses_ok :: "invoice \<Rightarrow> bool" where
  "statuses_ok i \<longleftrightarrow> inv_status i \<in> {''draft'', ''open'', ''paid'', ''overdue'', ''cancelled''}"

lemma new_invoice_ok:
  assumes "required_amount raw e_inv_invalid = Inr sub" and "compute_vat_lines sub rate = Inr vat"
    and "invoice_status_of rst = Inr st"
  shows "money_ok (new_invoice oid a actor st rate vat due ccy gid w)
    \<and> statuses_ok (new_invoice oid a actor st rate vat due ccy gid w)
    \<and> inv_id (new_invoice oid a actor st rate vat due ccy gid w) = next_key T_invoices (cur w)
    \<and> inv_org (new_invoice oid a actor st rate vat due ccy gid w) = oid"
proof -
  obtain s v t where v: "vat = (s, v, t)" by (cases vat)
  note d = vat_lines_D [OF assms(2) [unfolded v]]
  have st: "st = ''draft'' \<or> st = ''open''"
    using assms(3) by (auto simp: invoice_status_of_def Let_def split: if_splits)
  show ?thesis
    using d assms(2) required_amount_nonneg [OF assms(1)] st unfolding new_invoice_def v
    by (intro conjI coerce_ok) (auto simp: money_ok_def statuses_ok_def v)
qed

text \<open>What an accepted plan gives, whatever the environment.\<close>

lemma invoice_plan_D:
  assumes "invoice_plan en oid a w = (Inr (i, rate, vat), w1)"
  shows "money_ok i \<and> statuses_ok i \<and> inv_id i = next_key T_invoices (cur w) \<and> inv_org i = oid"
    "cur w1 = cur w" "com w1 = com w" "clock w1 = clock w"
proof -
  note plan = assms [unfolded invoice_plan_def]
  obtain actor where a: "ia_actor a = Some actor" using plan by (cases "ia_actor a") simp_all
  note plan = plan [unfolded a option.case]
  obtain st where st: "invoice_status_of (ia_status a) = Inr st" using plan by (cases "invoice_status_of (ia_status a)") simp_all
  note plan = plan [unfolded st sum.case]
  obtain sub where sub: "required_amount (ia_subtotal a) e_inv_invalid = Inr sub"
    using plan by (cases "required_amount (ia_subtotal a) e_inv_invalid") simp_all
  note plan = plan [unfolded sub sum.case]
  obtain r v where r: "chosen_vat_rate en (ia_vat_rate a) w = (r, v)" by fastforce
  note w = chosen_rate_world [OF r]
  obtain rate' where rr: "r = Inr rate'" using plan r by (cases r) simp_all
  note plan = plan [unfolded r rr prod.case sum.case]
  obtain vat' where vat: "compute_vat_lines sub rate' = Inr vat'" using plan by (cases "compute_vat_lines sub rate'") simp_all
  note plan = plan [unfolded vat sum.case]
  obtain due where due: "invoice_date_of (Some (ia_due a)) ''due_date'' = Inr due"
    using plan by (cases "invoice_date_of (Some (ia_due a)) ''due_date''") simp_all
  note plan = plan [unfolded due sum.case]
  obtain c where c: "invoice_currency (ia_currency a) = Inr c" using plan by (cases "invoice_currency (ia_currency a)") simp_all
  note plan = plan [unfolded c sum.case]
  obtain gid where g: "invoice_refs oid a (cur v) = Inr gid" using plan by (cases "invoice_refs oid a (cur v)") simp_all
  note plan = plan [unfolded g sum.case]
  have i: "i = new_invoice oid a actor st rate' vat' due c gid v" "w1 = v" using plan by auto
  show "money_ok i \<and> statuses_ok i \<and> inv_id i = next_key T_invoices (cur w) \<and> inv_org i = oid"
    using new_invoice_ok [OF sub vat st, of oid a actor due c gid v] w(1) unfolding i by simp
  show "cur w1 = cur w" "com w1 = com w" "clock w1 = clock w" using w i by simp_all
qed

lemma invoice_plan_error:
  assumes "invoice_plan en oid a w = (Inl x, w1)"
  shows "cur w1 = cur w" "com w1 = com w"
proof -
  obtain r v where r: "chosen_vat_rate en (ia_vat_rate a) w = (r, v)" by fastforce
  note c = chosen_rate_world [OF r]
  have "w1 = w \<or> w1 = v"
    using assms r unfolding invoice_plan_def
    by (simp split: option.splits sum.splits prod.splits)
  then show "cur w1 = cur w" "com w1 = com w" using c by auto
qed

subsection \<open>What an operation commits\<close>

text \<open>The row an operation writes over an old one.\<close>

fun invoice_change :: "env \<Rightarrow> int \<Rightarrow> invoice_op \<Rightarrow> world \<Rightarrow> invoice \<Rightarrow> invoice \<Rightarrow> bool" where
  "invoice_change en oid (Update_invoice iid data actor) w old r =
     (get_invoice_row oid iid (cur w) = Some old \<and> invoice_update_allowed data old = Inr ()
      \<and> (\<exists>i b w1. update_open en oid data (set_texts data old) w = ((None, i, b), w1)
           \<and> r = invoice_touch w1 old (i\<lparr>inv_updated_by := Some actor\<rparr>)))"
| "invoice_change en oid (Pay_invoice iid actor) w old r =
     (get_invoice_row oid iid (cur w) = Some old \<and> inv_status old \<notin> {''paid'', ''cancelled'', ''draft''}
      \<and> r = invoice_touch w old (old\<lparr>inv_status := ''paid'', inv_paid_at := Some (clock w), inv_updated_by := actor\<rparr>))"
| "invoice_change en oid (Cancel_invoice iid actor) w old r =
     (get_invoice_row oid iid (cur w) = Some old \<and> inv_status old \<notin> {''paid'', ''cancelled''}
      \<and> r = invoice_touch w old (old\<lparr>inv_status := ''cancelled'', inv_updated_by := actor\<rparr>))"
| "invoice_change en oid (Mark_overdue only) w old r =
     (old \<in> set (overdue_rows only (today w) (cur w)) \<and> r = overdue_row w old)"
| "invoice_change en oid op w old r = False"

definition put_invoices :: "invoice list \<Rightarrow> db \<Rightarrow> db" where
  "put_invoices rs d = fold put_invoice rs d"

definition invoice_effect :: "env \<Rightarrow> int \<Rightarrow> invoice_op \<Rightarrow> world \<Rightarrow> world \<Rightarrow> bool" where
  "invoice_effect en oid op w w' \<longleftrightarrow> core (com w') = core (cur w)
     \<or> (\<exists>i. core (com w') = core (add_invoice (finalize_invoice_number i) (cur w)) \<and> money_ok i \<and> statuses_ok i
          \<and> inv_id i = next_key T_invoices (cur w) \<and> inv_org i = oid)
     \<or> (\<exists>rs. core (com w') = core (put_invoices rs (cur w))
          \<and> (\<forall>r\<in>set rs. \<exists>old\<in>set (invoices (cur w)). inv_id old = inv_id r \<and> invoice_change en oid op w old r))"

lemma invoice_effect_same: "core (com w') = core (cur w) \<Longrightarrow> invoice_effect en oid op w w'"
  by (simp add: invoice_effect_def)

lemma invoice_effect_put:
  assumes "invoice_change en oid op w old r" and "old \<in> set (invoices (cur w))" and "inv_id old = inv_id r"
    and "core (com w') = core (put_invoice r (cur w))"
  shows "invoice_effect en oid op w w'"
proof -
  have "core (com w') = core (put_invoices [r] (cur w))" using assms(4) by (simp add: put_invoices_def)
  moreover have "\<forall>q\<in>set [r]. \<exists>old\<in>set (invoices (cur w)). inv_id old = inv_id q \<and> invoice_change en oid op w old q"
    using assms(1-3) by auto
  ultimately show ?thesis unfolding invoice_effect_def by blast
qed

lemma invoice_audit_commit [simp]: "aa_commit (invoice_audit oid actor iid c)"
  by (simp add: invoice_audit_def)

lemma aside_publish: "aside w (publish en ev oid p w)"
  using publishing.aside [of w "(en, ev, oid, p)"] by simp

lemma create_invoice_effect:
  assumes "com w = cur w"
  shows "\<exists>i. core (com (snd (create_invoice en oid a w))) = core (cur w)
    \<or> core (com (snd (create_invoice en oid a w))) = core (add_invoice (finalize_invoice_number i) (cur w))
        \<and> money_ok i \<and> statuses_ok i \<and> inv_id i = next_key T_invoices (cur w) \<and> inv_org i = oid"
proof (cases "invoice_plan en oid a w")
  case (Pair p w1)
  show ?thesis
  proof (cases p)
    case (Inl x)
    then show ?thesis using invoice_plan_error [of en oid a w x w1] Pair assms by (simp add: create_invoice_def)
  next
    case (Inr q)
    obtain i0 rate vat where q: "q = (i0, rate, vat)" by (cases q)
    note d = invoice_plan_D [OF Pair [unfolded Inr q]]
    define i where "i = finalize_invoice_number i0"
    define w2 where "w2 = audit_record en ''invoice.created'' (invoice_created_audit oid (ia_actor a) i rate vat)
        (commit (on_db (add_invoice i) w1))"
    have run: "snd (create_invoice en oid a w) = publish en ''invoice.created'' oid (build_invoice_created_payload i w2) w2"
      by (simp add: create_invoice_def Pair Inr q Let_def i_def w2_def)
    have c: "core (cur w2) = core (add_invoice i (cur w))" "core (com w2) = core (add_invoice i (cur w))"
      using d(2) by (simp_all add: w2_def invoice_created_audit_def del: add_invoice_def add_audit_def)
    have "core (com (snd (create_invoice en oid a w))) = core (add_invoice i (cur w))"
      using aside_publish [of w2 en "''invoice.created''" oid "build_invoice_created_payload i w2"] c
      unfolding run by (auto simp: aside_def)
    then show ?thesis using d(1) unfolding i_def by blast
  qed
qed

lemma save_invoice_core:
  "core (com (snd (save_invoice en action oid actor c old new w)))
     = core (put_invoice (invoice_touch w old (new\<lparr>inv_updated_by := actor\<rparr>)) (cur w))"
  by (simp add: save_invoice_def Let_def del: put_invoice_def add_audit_def)

lemma update_open_world:
  assumes "update_open en oid data i w = (r, w1)"
  shows "cur w1 = cur w" "com w1 = com w" "clock w1 = clock w"
proof -
  obtain x v where x: "chosen_vat_rate en (dget ''vat_rate'' (fst data)) w = (x, v)" by fastforce
  note c = chosen_rate_world [OF x]
  have "w1 = w \<or> w1 = v"
    using assms x unfolding update_open_def new_rate_def
    by (simp split: option.splits sum.splits prod.splits if_splits)
  then show "cur w1 = cur w" "com w1 = com w" "clock w1 = clock w" using c by auto
qed

definition invoice_identity :: "invoice \<Rightarrow> int \<times> int \<times> string option \<times> string" where
  "invoice_identity i = (inv_id i, inv_org i, inv_number i, inv_status i)"

lemma invoice_touch_simps [simp]:
  "invoice_identity (invoice_touch w old i) = invoice_identity i" "money_ok (invoice_touch w old i) = money_ok i"
  "inv_status (invoice_touch w old i) = inv_status i" "inv_id (invoice_touch w old i) = inv_id i"
  "inv_total (invoice_touch w old i) = inv_total i" "inv_due (invoice_touch w old i) = inv_due i"
  "inv_number (invoice_touch w old i) = inv_number i" "inv_org (invoice_touch w old i) = inv_org i"
  by (simp_all add: invoice_touch_def invoice_identity_def money_ok_def)

lemma set_texts_simps [simp]:
  "invoice_identity (set_texts data i) = invoice_identity i" "money_ok (set_texts data i) = money_ok i"
  "inv_status (set_texts data i) = inv_status i" "inv_total (set_texts data i) = inv_total i"
  "inv_due (set_texts data i) = inv_due i" "inv_id (set_texts data i) = inv_id i"
  by (simp_all add: set_texts_def invoice_identity_def money_ok_def Let_def split: option.split)

lemma set_lines_ok:
  assumes "set_lines sub rate i = Inr i'" and "money_ok i" and "\<And>c. sub = Some c \<Longrightarrow> 0 \<le> c"
  shows "invoice_identity i' = invoice_identity i \<and> money_ok i'"
proof (cases "sub = None \<and> rate = None")
  case False
  define bs where "bs = (case sub of None \<Rightarrow> inv_subtotal i | Some c \<Rightarrow> c)"
  define br where "br = (case rate of None \<Rightarrow> inv_vat_rate i | Some r \<Rightarrow> r)"
  obtain s v t where l: "compute_vat_lines bs br = Inr (s, v, t)"
    and i': "i' = i\<lparr>inv_subtotal := s, inv_vat_rate := br, inv_vat_amount := v, inv_total := t, inv_amount := t\<rparr>"
    using assms(1) False
    by (auto simp: set_lines_def Let_def bs_def [symmetric] br_def [symmetric] split: sum.splits prod.splits)
  have "0 \<le> bs" using assms(2,3) by (auto simp: bs_def money_ok_def split: option.split)
  then show ?thesis using vat_lines_D [OF l] l by (simp add: i' money_ok_def invoice_identity_def)
qed (use assms in \<open>simp add: set_lines_def\<close>)

lemma open_step_ok:
  assumes "f \<in> set (open_fields oid d sub rate data)" and "f i = Inr i'" and "money_ok i"
    and "\<And>c. sub = Some c \<Longrightarrow> 0 \<le> c"
  shows "invoice_identity i' = invoice_identity i \<and> money_ok i'"
proof -
  consider "f = set_lines sub rate"
    | "f \<in> {up_currency data, up_due data, up_ref ''guest_id'' (missing_guest oid d) (\<lambda>v i. i\<lparr>inv_guest := v\<rparr>) data,
        up_ref ''reservation_id'' (missing_reservation oid d) (\<lambda>v i. i\<lparr>inv_reservation := v\<rparr>) data,
        up_ref ''lease_id'' (missing_lease oid d) (\<lambda>v i. i\<lparr>inv_lease := v\<rparr>) data}"
    using assms(1) by (auto simp: open_fields_def)
  then show ?thesis
  proof cases
    case 1
    then show ?thesis using set_lines_ok [OF _ assms(3,4)] assms(2) by blast
  next
    case 2
    then show ?thesis
      using assms(2,3)
      by (auto simp: up_currency_def up_due_def up_ref_def field_if_def Let_def invoice_identity_def money_ok_def
          split: if_splits sum.splits option.splits)
  qed
qed

lemma new_subtotal_nonneg: "new_subtotal data = Inr (Some c) \<Longrightarrow> 0 \<le> c"
  by (auto simp: new_subtotal_def Let_def split: option.splits sum.splits if_splits dest: required_amount_nonneg)

lemma update_open_ok:
  assumes "update_open en oid data i w = ((x, i', b), w1)" and "money_ok i"
  shows "invoice_identity i' = invoice_identity i \<and> money_ok i'"
    and "inv_status i \<notin> {''draft'', ''open''} \<Longrightarrow> i' = i"
proof -
  show "inv_status i \<notin> {''draft'', ''open''} \<Longrightarrow> i' = i" using assms(1) by (auto simp: update_open_def)
  show "invoice_identity i' = invoice_identity i \<and> money_ok i'"
  proof (cases "inv_status i \<in> {''draft'', ''open''}")
    case True
    note run = assms(1) [unfolded update_open_def, simplified True not_True_eq_False if_False]
    show ?thesis
    proof (cases "new_subtotal data")
      case (Inr sub)
      obtain r v where r: "new_rate en data w = (r, v)" by fastforce
      show ?thesis
      proof (cases r)
        case (Inr rate)
        have f: "run_fields (open_fields oid (cur v) sub rate data) i = (x, i')"
          using run r Inr \<open>new_subtotal data = Inr sub\<close> by (auto split: prod.splits)
        show ?thesis
        proof (rule run_fields_inv [OF f, where P = "\<lambda>j. invoice_identity j = invoice_identity i \<and> money_ok j"])
          fix f s s'
          assume "f \<in> set (open_fields oid (cur v) sub rate data)"
            "invoice_identity s = invoice_identity i \<and> money_ok s" "f s = Inr s'"
          then show "invoice_identity s' = invoice_identity i \<and> money_ok s'"
            using open_step_ok [of f oid "cur v" sub rate data s s'] new_subtotal_nonneg [of data] \<open>new_subtotal data = Inr sub\<close>
            by fastforce
        qed (use assms(2) in simp)
      qed (use run r \<open>new_subtotal data = Inr sub\<close> assms(2) in auto)
    qed (use run assms(2) in auto)
  qed (use assms in \<open>auto simp: update_open_def\<close>)
qed

lemma money_ok_updates [simp]:
  "money_ok (i\<lparr>inv_updated_by := u\<rparr>) = money_ok i" "money_ok (i\<lparr>inv_status := st\<rparr>) = money_ok i"
  "money_ok (i\<lparr>inv_paid_at := t\<rparr>) = money_ok i" "money_ok (i\<lparr>inv_updated_at := t1\<rparr>) = money_ok i"
  "money_ok (finalize_invoice_number i) = money_ok i"
  by (simp_all add: money_ok_def finalize_invoice_number_def)

text \<open>What every change keeps, and the diagram of the status.\<close>

definition status_moves :: "(string \<times> string) set" where
  "status_moves = {(''draft'', ''cancelled''), (''open'', ''paid''), (''open'', ''overdue''), (''open'', ''cancelled''),
     (''overdue'', ''paid''), (''overdue'', ''cancelled'')}"

lemma invoice_change_ok:
  assumes "invoice_change en oid op w old r" and "money_ok old" and "statuses_ok old"
  shows "inv_id r = inv_id old \<and> inv_org r = inv_org old \<and> inv_number r = inv_number old \<and> money_ok r \<and> statuses_ok r"
    and "inv_status r = inv_status old \<or> (inv_status old, inv_status r) \<in> status_moves"
    and "inv_status old \<notin> {''draft'', ''open''} \<Longrightarrow> inv_total r = inv_total old \<and> inv_due r = inv_due old"
proof -
  have "inv_id r = inv_id old \<and> inv_org r = inv_org old \<and> inv_number r = inv_number old \<and> money_ok r \<and> statuses_ok r
    \<and> (inv_status r = inv_status old \<or> (inv_status old, inv_status r) \<in> status_moves)
    \<and> (inv_status old \<notin> {''draft'', ''open''} \<longrightarrow> inv_total r = inv_total old \<and> inv_due r = inv_due old)"
  proof (cases op)
    case (Update_invoice iid data actor)
    then obtain i b w1 where u: "update_open en oid data (set_texts data old) w = ((None, i, b), w1)"
      and r: "r = invoice_touch w1 old (i\<lparr>inv_updated_by := Some actor\<rparr>)" using assms(1) by auto
    note k = update_open_ok [OF u]
    have m: "money_ok (set_texts data old)" using assms(2) by simp
    have "invoice_identity i = invoice_identity old" "money_ok i" using k(1) [OF m] by simp_all
    moreover have "inv_status old \<notin> {''draft'', ''open''} \<Longrightarrow> i = set_texts data old" using k(2) [OF m] by simp
    ultimately show ?thesis using assms(3) by (auto simp: r invoice_identity_def statuses_ok_def)
  next
    case (Mark_overdue only)
    then have "inv_status old = ''open''" "r = overdue_row w old" using assms(1) by (auto simp: overdue_rows_def)
    then show ?thesis
      using assms(2) by (simp add: overdue_row_def statuses_ok_def status_moves_def)
  qed (use assms in \<open>auto simp: statuses_ok_def status_moves_def invoice_identity_def\<close>)
  then show "inv_id r = inv_id old \<and> inv_org r = inv_org old \<and> inv_number r = inv_number old \<and> money_ok r \<and> statuses_ok r"
    and "inv_status r = inv_status old \<or> (inv_status old, inv_status r) \<in> status_moves"
    and "inv_status old \<notin> {''draft'', ''open''} \<Longrightarrow> inv_total r = inv_total old \<and> inv_due r = inv_due old" by blast+
qed

subsection \<open>Every operation has one of the effects\<close>

lemma get_invoice_D: "get_invoice_row oid iid d = Some i \<Longrightarrow> i \<in> set (invoices d) \<and> inv_org i = oid"
  using invoice_scope.lookup_some by auto

lemma save_invoice_effect:
  assumes "invoice_change en oid op w old (invoice_touch w1 old (new\<lparr>inv_updated_by := actor\<rparr>))"
    and "old \<in> set (invoices (cur w))" and "inv_id new = inv_id old" and "cur w1 = cur w"
  shows "invoice_effect en oid op w (snd (save_invoice en action oid actor c old new w1))"
proof (rule invoice_effect_put [OF assms(1,2)])
  show "inv_id old = inv_id (invoice_touch w1 old (new\<lparr>inv_updated_by := actor\<rparr>))" using assms(3) by simp
  show "core (com (snd (save_invoice en action oid actor c old new w1)))
      = core (put_invoice (invoice_touch w1 old (new\<lparr>inv_updated_by := actor\<rparr>)) (cur w))"
    using save_invoice_core [of en action oid actor c old new w1] assms(4) by simp
qed

lemma update_invoice_effect:
  assumes "com w = cur w" and "\<And>i. i \<in> set (invoices (cur w)) \<Longrightarrow> money_ok i"
  shows "invoice_effect en oid (Update_invoice iid data actor) w (snd (update_invoice_limited en oid iid data actor w))"
proof (cases "get_invoice_row oid iid (cur w)")
  case (Some old)
  note g = get_invoice_D [OF Some]
  show ?thesis
  proof (cases "invoice_update_allowed data old")
    case (Inr u)
    obtain x i b w1 where u: "update_open en oid data (set_texts data old) w = ((x, i, b), w1)"
      by (cases "update_open en oid data (set_texts data old) w") auto
    note wd = update_open_world [OF u]
    have m: "money_ok (set_texts data old)" using assms(2) g by simp
    have id: "inv_id i = inv_id old" using update_open_ok(1) [OF u m] by (simp add: invoice_identity_def)
    show ?thesis
    proof (cases x)
      case None
      have "invoice_effect en oid (Update_invoice iid data actor) w
          (snd (save_invoice en ''invoice.updated'' oid (Some actor) (updated_context b) old i w1))"
        by (rule save_invoice_effect) (use Some Inr u None g id wd(1) in auto)
      then show ?thesis by (simp add: update_invoice_limited_def Some Inr u None)
    next
      case (Some e)
      then show ?thesis
        using \<open>get_invoice_row oid iid (cur w) = Some old\<close> Inr u wd assms(1)
        by (simp add: update_invoice_limited_def invoice_effect_same)
    qed
  qed (use assms Some in \<open>simp add: update_invoice_limited_def invoice_effect_same\<close>)
qed (use assms in \<open>simp add: update_invoice_limited_def invoice_effect_same\<close>)

lemma pay_invoice_effect:
  assumes "com w = cur w"
  shows "invoice_effect en oid (Pay_invoice iid actor) w (snd (mark_invoice_paid en oid iid actor w))"
proof (cases "get_invoice_row oid iid (cur w)")
  case (Some old)
  note g = get_invoice_D [OF Some]
  show ?thesis
  proof (cases "inv_status old \<in> {''paid'', ''cancelled'', ''draft''}")
    case False
    have "invoice_effect en oid (Pay_invoice iid actor) w (snd (save_invoice en ''invoice.marked_paid'' oid actor
        (paid_context old) old (old\<lparr>inv_status := ''paid'', inv_paid_at := Some (clock w)\<rparr>) w))"
      by (rule save_invoice_effect) (use Some False g in auto)
    then show ?thesis using False by (simp add: mark_invoice_paid_def Some)
  qed (use assms Some in \<open>auto simp: mark_invoice_paid_def intro: invoice_effect_same\<close>)
qed (use assms in \<open>simp add: mark_invoice_paid_def invoice_effect_same\<close>)

lemma cancel_invoice_effect:
  assumes "com w = cur w"
  shows "invoice_effect en oid (Cancel_invoice iid actor) w (snd (cancel_invoice en oid iid actor w))"
proof (cases "get_invoice_row oid iid (cur w)")
  case (Some old)
  note g = get_invoice_D [OF Some]
  show ?thesis
  proof (cases "inv_status old \<in> {''paid'', ''cancelled''}")
    case False
    have "invoice_effect en oid (Cancel_invoice iid actor) w (snd (save_invoice en ''invoice.cancelled'' oid actor
        (\<lambda>i. None) old (old\<lparr>inv_status := ''cancelled''\<rparr>) w))"
      by (rule save_invoice_effect) (use Some False g in auto)
    then show ?thesis using False by (simp add: cancel_invoice_def Some)
  qed (use assms Some in \<open>auto simp: cancel_invoice_def intro: invoice_effect_same\<close>)
qed (use assms in \<open>simp add: cancel_invoice_def invoice_effect_same\<close>)

text \<open>The overdue job: the notices it adds and the audit rows are aside.\<close>

lemma core_put_invoice: "core d' = core d \<Longrightarrow> core (put_invoice r d') = core (put_invoice r d)"
proof -
  assume c: "core d' = core d"
  have "core (put_invoice r x) = (core x)\<lparr>invoices := row_put inv_id r (invoices (core x))\<rparr>" for x
    by (rule db.equality) (auto simp: core_def fun_eq_iff)
  then show ?thesis using c by metis
qed

lemma overdue_one_core:
  "core (cur (overdue_one en i w)) = core (put_invoice (overdue_row w i) (cur w)) \<and> com (overdue_one en i w) = com w
    \<and> clock (overdue_one en i w) = clock w"
proof -
  let ?w = "on_db (put_invoice (overdue_row w i)) w"
  obtain r v where n: "notification_create en (inv_org i) ''invoice.overdue'' ''Lasku eraantynyt'' (Some (overdue_body i))
       (Some (''/admin/invoices/'' @ show_int (inv_id i))) ''warning'' None ?w = (r, v)" by fastforce
  have "core (cur v) = core (cur ?w)"
    using notify.core_eff [of "(en, inv_org i, ''invoice.overdue'', ''Lasku eraantynyt'', Some (overdue_body i),
      Some (''/admin/invoices/'' @ show_int (inv_id i)), ''warning'', None)" ?w] n by simp
  then show ?thesis using create_frame(1,2) [OF n] unfolding overdue_one_def n by (simp del: put_invoice_def)
qed

lemma core_put_invoices: "core d' = core d \<Longrightarrow> core (put_invoices rs d') = core (put_invoices rs d)"
  unfolding put_invoices_def
proof (induction rs arbitrary: d d')
  case (Cons r rs)
  from Cons.IH [OF core_put_invoice [OF Cons.prems]] show ?case by (simp del: put_invoice_def)
qed simp

lemma overdue_fold:
  "core (cur (fold (overdue_one en) rows w)) = core (put_invoices (map (overdue_row w) rows) (cur w))
    \<and> com (fold (overdue_one en) rows w) = com w"
proof (induction rows arbitrary: w)
  case (Cons i rows)
  let ?v = "overdue_one en i w"
  note one = overdue_one_core [of en i w]
  have o: "overdue_row ?v = overdue_row w" using one by (simp add: overdue_row_def fun_eq_iff)
  have "core (cur (fold (overdue_one en) (i # rows) w)) = core (put_invoices (map (overdue_row w) rows) (cur ?v))"
    using Cons.IH [of ?v] o by simp
  also have "\<dots> = core (put_invoices (map (overdue_row w) rows) (put_invoice (overdue_row w i) (cur w)))"
    by (rule core_put_invoices) (use one in blast)
  finally show ?case using Cons.IH [of ?v] one by (simp add: put_invoices_def del: put_invoice_def)
qed (simp add: put_invoices_def)

lemma overdue_audits:
  "core (com w) = core (cur w) \<Longrightarrow>
     core (com (fold (\<lambda>i. audit_record en ''invoice.marked_overdue'' (overdue_audit i)) rows w)) = core (cur w)"
proof (induction rows arbitrary: w)
  case (Cons i rows)
  have a: "aa_commit (overdue_audit i)" by (simp add: overdue_audit_def)
  show ?case using Cons.IH [of "audit_record en ''invoice.marked_overdue'' (overdue_audit i) w"] a
    by (simp del: add_audit_def)
qed simp

lemma overdue_effect:
  assumes "com w = cur w"
  shows "invoice_effect en oid (Mark_overdue only) w (snd (mark_overdue_invoices en only w))"
proof -
  let ?rows = "overdue_rows only (today w) (cur w)"
  let ?w1 = "fold (overdue_one en) ?rows w"
  have c: "core (com (if ?rows = [] then ?w1 else commit ?w1)) = core (put_invoices (map (overdue_row w) ?rows) (cur w))"
    "core (cur (if ?rows = [] then ?w1 else commit ?w1)) = core (put_invoices (map (overdue_row w) ?rows) (cur w))"
    using overdue_fold [of en ?rows w] assms by (auto simp: put_invoices_def)
  have "core (com (snd (mark_overdue_invoices en only w))) = core (put_invoices (map (overdue_row w) ?rows) (cur w))"
    using overdue_audits [of "if ?rows = [] then ?w1 else commit ?w1" en ?rows] c
    unfolding mark_overdue_invoices_def Let_def by simp
  moreover have "\<forall>r\<in>set (map (overdue_row w) ?rows). \<exists>old\<in>set (invoices (cur w)). inv_id old = inv_id r
      \<and> invoice_change en oid (Mark_overdue only) w old r"
    by (auto simp: overdue_row_def overdue_rows_def)
  ultimately show ?thesis unfolding invoice_effect_def by blast
qed

lemma run_invoice_effect:
  assumes "com w = cur w" and "\<And>i. i \<in> set (invoices (cur w)) \<Longrightarrow> money_ok i"
  shows "invoice_effect en oid op w (run_invoice en oid op w)"
proof -
  have create: "invoice_effect en oid op w (snd (create_invoice en oid a w))" for op a
    using create_invoice_effect [OF assms(1), of en oid a] unfolding invoice_effect_def by blast
  show ?thesis
  proof (cases op)
    case (Bill_lease lid s due c t st actor r)
    then show ?thesis
      using create assms(1) by (auto simp: create_invoice_for_lease_def intro: invoice_effect_same split: option.split)
  next
    case (Update_invoice iid data actor)
    then show ?thesis using update_invoice_effect [OF assms] by simp
  next
    case (Mark_overdue only)
    then show ?thesis using overdue_effect [OF assms(1)] by simp
  qed (use create pay_invoice_effect [OF assms(1)] cancel_invoice_effect [OF assms(1)] in simp_all)
qed

subsection \<open>Reachable states\<close>

definition invoice_ok :: "invoice \<Rightarrow> bool" where
  "invoice_ok i \<longleftrightarrow> money_ok i \<and> statuses_ok i \<and> 0 < inv_id i \<and> 0 \<le> inv_org i
     \<and> inv_number i = Some (invoice_number_of (inv_org i) (inv_id i))"

definition invoices_ok :: "db \<Rightarrow> bool" where
  "invoices_ok d \<longleftrightarrow> keys_ok inv_id (seqs d T_invoices) (invoices d) \<and> 0 \<le> seqs d T_invoices
     \<and> (\<forall>i\<in>set (invoices d). invoice_ok i)"

lemma invoices_ok_core: "core d' = core d \<Longrightarrow> invoices_ok d' = invoices_ok d"
  using core_tables(7,17) [of d' d] by (simp add: invoices_ok_def side_tables_def)

lemma put_invoices_tables [simp]:
  "invoices (put_invoices rs d) = fold (row_put inv_id) rs (invoices d)" "seqs (put_invoices rs d) = seqs d"
  by (induction rs arbitrary: d) (simp_all add: put_invoices_def)

lemma put_invoices_mem:
  "x \<in> set (fold (row_put inv_id) rs is) \<Longrightarrow> (x \<in> set is \<and> inv_id x \<notin> inv_id ` set rs) \<or> x \<in> set rs"
  using fold_put_mem [of inv_id "\<lambda>c. c" x rs "is"] by auto

lemma invoices_ok_add:
  assumes "invoices_ok d" and "money_ok i" and "statuses_ok i" and "inv_id i = next_key T_invoices d"
    and "0 \<le> inv_org i"
  shows "invoices_ok (add_invoice (finalize_invoice_number i) d)"
proof -
  let ?i = "finalize_invoice_number i"
  have f: "inv_id ?i = inv_id i" "inv_org ?i = inv_org i" "statuses_ok ?i = statuses_ok i"
    by (simp_all add: finalize_invoice_number_def statuses_ok_def)
  have pos: "0 < inv_id i" using assms(1,4) by (simp add: invoices_ok_def next_key_def)
  have "keys_ok inv_id (seqs (add_invoice ?i d) T_invoices) (invoices (add_invoice ?i d))"
    using assms(1,4) f(1) by (intro invoice_tab.ok_add) (simp_all add: invoices_ok_def)
  moreover have "invoice_ok ?i" using assms f pos by (simp add: invoice_ok_def) (simp add: finalize_invoice_number_def)
  ultimately show ?thesis using assms(1) pos f(1) by (auto simp: invoices_ok_def)
qed

lemma invoices_ok_put:
  assumes "invoices_ok d" and "\<And>r. r \<in> set rs \<Longrightarrow> invoice_ok r"
  shows "invoices_ok (put_invoices rs d)"
proof -
  have "map inv_id (fold (row_put inv_id) rs (invoices d)) = map inv_id (invoices d)"
    using fold_put_keys [of inv_id "\<lambda>c. c"] by simp
  then have "keys_ok inv_id (seqs d T_invoices) (fold (row_put inv_id) rs (invoices d))"
    using assms(1) keys_ok_cong by (fastforce simp: invoices_ok_def)
  moreover have "invoice_ok x" if "x \<in> set (fold (row_put inv_id) rs (invoices d))" for x
    using put_invoices_mem [OF that] assms by (auto simp: invoices_ok_def)
  ultimately show ?thesis using assms(1) by (simp add: invoices_ok_def)
qed

lemma change_invoice_ok:
  assumes "invoice_change en oid op w old r" and "invoice_ok old"
  shows "invoice_ok r"
  using invoice_change_ok(1) [OF assms(1)] assms(2) by (simp add: invoice_ok_def)

lemma run_invoice_ok:
  assumes "com w = cur w" and "invoices_ok (cur w)" and "0 \<le> oid"
  shows "invoices_ok (com (run_invoice en oid op w))"
proof -
  have m: "\<And>i. i \<in> set (invoices (cur w)) \<Longrightarrow> money_ok i" using assms(2) by (simp add: invoices_ok_def invoice_ok_def)
  have e: "invoice_effect en oid op w (run_invoice en oid op w)" by (rule run_invoice_effect [OF assms(1)]) (rule m)
  show ?thesis
    using e unfolding invoice_effect_def
  proof (elim disjE exE conjE)
    assume "core (com (run_invoice en oid op w)) = core (cur w)"
    then show ?thesis using invoices_ok_core assms(2) by blast
  next
    fix i assume c: "core (com (run_invoice en oid op w)) = core (add_invoice (finalize_invoice_number i) (cur w))"
      and i: "money_ok i" "statuses_ok i" "inv_id i = next_key T_invoices (cur w)" "inv_org i = oid"
    show ?thesis using invoices_ok_core [OF c] invoices_ok_add [OF assms(2) i(1-3)] i(4) assms(3) by simp
  next
    fix rs assume c: "core (com (run_invoice en oid op w)) = core (put_invoices rs (cur w))"
      and rs: "\<forall>r\<in>set rs. \<exists>old\<in>set (invoices (cur w)). inv_id old = inv_id r \<and> invoice_change en oid op w old r"
    have "invoice_ok r" if "r \<in> set rs" for r
      using rs that change_invoice_ok assms(2) by (auto simp: invoices_ok_def)
    then show ?thesis using invoices_ok_core [OF c] invoices_ok_put [OF assms(2)] by simp
  qed
qed

inductive invoice_reachable :: "env \<Rightarrow> db \<Rightarrow> bool" for en where
  start: "invoices d = [] \<Longrightarrow> 0 \<le> seqs d T_invoices \<Longrightarrow> invoice_reachable en d"
| step: "invoice_reachable en d \<Longrightarrow> cur w = d \<Longrightarrow> com w = d \<Longrightarrow> 0 \<le> oid \<Longrightarrow>
    invoice_reachable en (com (run_invoice en oid op w))"

lemma invoice_reachable_ok: "invoice_reachable en d \<Longrightarrow> invoices_ok d"
proof (induction rule: invoice_reachable.induct)
  case (start d)
  then show ?case by (simp add: invoices_ok_def keys_ok_def)
next
  case (step d w oid op)
  then show ?case using run_invoice_ok [of w oid en op] by simp
qed

text \<open>The number of an invoice determines its organization and its id.\<close>

lemma show_int_no_dash: "0 \<le> i \<Longrightarrow> CHR ''-'' \<notin> set (show_int i)"
  using all_digits_show_nat [of "nat i"] by (auto simp: show_int_def all_digits_def list_all_iff is_digit_def Let_def)

lemma append_sep_inj:
  assumes "xs @ c # ys = us @ c # vs" and "c \<notin> set xs" and "c \<notin> set us"
  shows "xs = us \<and> ys = vs"
proof -
  have t: "takeWhile (\<lambda>x. x \<noteq> c) (ws @ c # zs) = ws" if "c \<notin> set ws" for ws zs
    using that by (induction ws) auto
  have "xs = us" using t [OF assms(2), of ys] t [OF assms(3), of vs] assms(1) by simp
  then show ?thesis using assms(1) by simp
qed

lemma invoice_number_inj:
  assumes "invoice_number_of a i = invoice_number_of b j" and "0 \<le> a" "0 \<le> b" "0 \<le> i" "0 \<le> j"
  shows "a = b \<and> i = j"
proof -
  have "show_int a @ CHR ''-'' # fmt0 8 i = show_int b @ CHR ''-'' # fmt0 8 j"
    using assms(1) by (simp add: invoice_number_of_def)
  from append_sep_inj [OF this show_int_no_dash show_int_no_dash] assms(2,3)
  have "show_int a = show_int b" "fmt0 8 i = fmt0 8 j" by simp_all
  then show ?thesis using show_int_inj fmt0_inj assms(2-5) by blast
qed

text \<open>One invoice followed through an operation.\<close>

lemma invoice_followed:
  assumes "invoices_ok (cur w)" and "com w = cur w" and "i \<in> set (invoices (cur w))"
  shows "\<exists>i'\<in>set (invoices (com (run_invoice en oid op w))). i' = i \<or> invoice_change en oid op w i i'"
proof -
  have m: "\<And>i. i \<in> set (invoices (cur w)) \<Longrightarrow> money_ok i" using assms(1) by (simp add: invoices_ok_def invoice_ok_def)
  have e: "invoice_effect en oid op w (run_invoice en oid op w)" by (rule run_invoice_effect [OF assms(2)]) (rule m)
  show ?thesis
    using e unfolding invoice_effect_def
  proof (elim disjE exE conjE)
    assume "core (com (run_invoice en oid op w)) = core (cur w)"
    from core_tables(7) [OF this] show ?thesis using assms(3) by auto
  next
    fix k assume "core (com (run_invoice en oid op w)) = core (add_invoice (finalize_invoice_number k) (cur w))"
    from core_tables(7) [OF this] show ?thesis using assms(3) by auto
  next
    fix rs assume c: "core (com (run_invoice en oid op w)) = core (put_invoices rs (cur w))"
      and rs: "\<forall>r\<in>set rs. \<exists>old\<in>set (invoices (cur w)). inv_id old = inv_id r \<and> invoice_change en oid op w old r"
    have t: "invoices (com (run_invoice en oid op w)) = fold (row_put inv_id) rs (invoices (cur w))"
      using core_tables(7) [OF c] by simp
    have "inv_id i \<in> set (map inv_id (fold (row_put inv_id) rs (invoices (cur w))))"
      using fold_put_keys [of inv_id "\<lambda>c. c" rs "invoices (cur w)"] assms(3) by simp
    then have "inv_id i \<in> inv_id ` set (fold (row_put inv_id) rs (invoices (cur w)))" by (simp only: set_map)
    then obtain x where x: "x \<in> set (fold (row_put inv_id) rs (invoices (cur w)))" "inv_id x = inv_id i" by fastforce
    have d: "distinct (map inv_id (invoices (cur w)))" using assms(1) by (simp add: invoices_ok_def keys_ok_def)
    from put_invoices_mem [OF x(1)] show ?thesis
    proof (elim disjE conjE)
      assume "x \<in> set (invoices (cur w))"
      then have "x = i" using d x(2) assms(3) by (auto simp: distinct_map inj_on_def)
      then show ?thesis using x(1) t by auto
    next
      assume "x \<in> set rs"
      then obtain old where old: "old \<in> set (invoices (cur w))" "inv_id old = inv_id x" "invoice_change en oid op w old x"
        using rs by blast
      then have "old = i" using d x(2) assms(3) by (auto simp: distinct_map inj_on_def)
      then show ?thesis using x(1) t old(3) by auto
    qed
  qed
qed

subsection \<open>Properties\<close>

text \<open>C15: In every reachable state the books are right: every invoice's legacy amount is its total, the total
  is subtotal plus VAT, the VAT is what the rate gives for the subtotal, the subtotal is not
  negative, and no two invoices of any organization have the same number.\<close>

theorem invoice_books:
  assumes "invoice_reachable en d" and "i \<in> set (invoices d)"
  shows "inv_amount i = inv_total i \<and> inv_total i = inv_subtotal i + inv_vat_amount i \<and> 0 \<le> inv_subtotal i
    \<and> compute_vat_lines (inv_subtotal i) (inv_vat_rate i) = Inr (inv_subtotal i, inv_vat_amount i, inv_total i)
    \<and> length (filter (\<lambda>j. inv_number j = inv_number i) (invoices d)) = 1"
proof -
  note ok = invoice_reachable_ok [OF assms(1)]
  have d: "distinct (map inv_id (invoices d))" using ok by (simp add: invoices_ok_def keys_ok_def)
  have n: "inv_id j = inv_id k" if "j \<in> set (invoices d)" "k \<in> set (invoices d)" "inv_number j = inv_number k" for j k
  proof -
    have jk: "invoice_ok j" "invoice_ok k" using that ok by (simp_all add: invoices_ok_def)
    then have "invoice_number_of (inv_org j) (inv_id j) = invoice_number_of (inv_org k) (inv_id k)"
      using that(3) by (simp add: invoice_ok_def)
    then show ?thesis by (rule invoice_number_inj [THEN conjunct2]) (use jk in \<open>simp_all add: invoice_ok_def\<close>)
  qed
  have "length (filter (\<lambda>j. inv_number j = inv_number i) (invoices d)) \<le> 1"
  proof (rule filter_at_most_one [OF d])
    fix j k assume jk: "j \<in> set (invoices d)" "k \<in> set (invoices d)" "inv_number j = inv_number i" "inv_number k = inv_number i"
    show "inv_id j = inv_id k" by (rule n [OF jk(1,2)]) (simp add: jk(3,4))
  qed
  moreover have "filter (\<lambda>j. inv_number j = inv_number i) (invoices d) \<noteq> []" using assms(2) by (auto simp: filter_empty_conv)
  ultimately have one: "length (filter (\<lambda>j. inv_number j = inv_number i) (invoices d)) = 1"
    by (cases "filter (\<lambda>j. inv_number j = inv_number i) (invoices d)") auto
  have "invoice_ok i" using ok assms(2) by (simp add: invoices_ok_def)
  then show ?thesis using one unfolding invoice_ok_def money_ok_def by blast
qed

text \<open>C16: An invoice never disappears and its status follows the diagram: open to paid, overdue or cancelled,
  overdue to paid or cancelled, draft to cancelled. Paid and cancelled are final, no operation
  ever opens a draft, and outside draft and open neither the total nor the due date changes
  (also not by an update of the due date of an overdue invoice, which is accepted).\<close>

theorem invoice_lifecycle:
  assumes "invoice_reachable en d" and "cur w = d" and "com w = d" and "i \<in> set (invoices d)"
  shows "\<exists>i'\<in>set (invoices (com (run_invoice en oid op w))). inv_id i' = inv_id i
    \<and> (inv_status i' = inv_status i \<or> (inv_status i, inv_status i')
         \<in> {(''draft'', ''cancelled''), (''open'', ''paid''), (''open'', ''overdue''), (''open'', ''cancelled''),
            (''overdue'', ''paid''), (''overdue'', ''cancelled'')})
    \<and> (inv_status i \<notin> {''draft'', ''open''} \<longrightarrow> inv_total i' = inv_total i \<and> inv_due i' = inv_due i)"
proof -
  have ok: "invoices_ok (cur w)" using invoice_reachable_ok [OF assms(1)] assms(2) by simp
  have i: "invoice_ok i" using ok assms(2,4) by (simp add: invoices_ok_def)
  obtain i' where i': "i' \<in> set (invoices (com (run_invoice en oid op w)))" "i' = i \<or> invoice_change en oid op w i i'"
    using invoice_followed [OF ok] assms(2-4) by blast
  show ?thesis
  proof (rule bexI [OF _ i'(1)])
    show "inv_id i' = inv_id i
    \<and> (inv_status i' = inv_status i \<or> (inv_status i, inv_status i')
         \<in> {(''draft'', ''cancelled''), (''open'', ''paid''), (''open'', ''overdue''), (''open'', ''cancelled''),
            (''overdue'', ''paid''), (''overdue'', ''cancelled'')})
    \<and> (inv_status i \<notin> {''draft'', ''open''} \<longrightarrow> inv_total i' = inv_total i \<and> inv_due i' = inv_due i)"
      using i'(2) invoice_change_ok [of en oid op w i i', unfolded status_moves_def] i unfolding invoice_ok_def by blast
  qed
qed

subsection \<open>A concrete run\<close>

definition sample_invoice_args :: invoice_args where
  "sample_invoice_args = \<lparr>ia_subtotal = SStr (money_str 10000), ia_due = isoformat (ordinal_of 2026 1 20),
     ia_currency = SNone, ia_description = None, ia_lease = None, ia_reservation = None, ia_guest = Some 5,
     ia_status = ''open'', ia_metadata = JNull, ia_actor = Some 7, ia_vat_rate = SStr (money_str 2400)\<rparr>"

definition sample_invoice :: invoice where
  "sample_invoice = finalize_invoice_number (new_invoice 1 sample_invoice_args 7 ''open'' 2400 (10000, 2400, 12400)
     (ordinal_of 2026 1 20) ''EUR'' (Some 5) (world_of sample_db))"

definition billed_db :: db where
  "billed_db = com (run_invoice sample_env 1 (Create_invoice sample_invoice_args) (world_of sample_db))"

lemma sample_invoice_plan:
  "\<exists>i. invoice_plan sample_env 1 sample_invoice_args (world_of sample_db) = (Inr (i, 2400, 10000, 2400, 12400), world_of sample_db)
    \<and> sample_invoice = finalize_invoice_number i"
proof -
  have v: "valid_date (ordinal_of 2026 1 20)" by code_simp
  have d: "invoice_date_of (Some (isoformat (ordinal_of 2026 1 20))) ''due_date'' = Inr (ordinal_of 2026 1 20)"
    by (simp add: invoice_date_of_def strip_isoformat [OF v] fromisoformat_isoformat [OF v])
  have st: "invoice_status_of ''open'' = Inr ''open''" by code_simp
  have amount: "required_amount (SStr (money_str 10000)) e_inv_invalid = Inr 10000"
    by (rule amount_of_money) (simp_all add: context_limit_def)
  have "money_str 2400 \<noteq> ''''" by (simp add: money_str_def)
  then have rate: "chosen_vat_rate sample_env (SStr (money_str 2400)) (world_of sample_db) = (Inr 2400, world_of sample_db)"
    using quantize_cents [of 2400 HalfEven]
    by (simp add: chosen_vat_rate_def vat_rate_optional_def strip_money parse_money_str context_limit_def del: quantize.simps)
  have lines: "compute_vat_lines 10000 2400 = Inr (10000, 2400, 12400)" by code_simp
  have ccy: "invoice_currency SNone = Inr ''EUR''" by code_simp
  have refs: "invoice_refs 1 sample_invoice_args sample_db = Inr (Some 5)"
    by (simp add: invoice_refs_def sample_invoice_args_def ensure_guest_in_org_def find_guest_def sample_db_def)
  show ?thesis
    unfolding invoice_plan_def sample_invoice_def
    by (simp add: sample_invoice_args_def [THEN arg_cong, of ia_actor] sample_invoice_args_def [THEN arg_cong, of ia_status]
        sample_invoice_args_def [THEN arg_cong, of ia_subtotal] sample_invoice_args_def [THEN arg_cong, of ia_vat_rate]
        sample_invoice_args_def [THEN arg_cong, of ia_due] sample_invoice_args_def [THEN arg_cong, of ia_currency]
        st amount rate lines d ccy refs)
qed

lemma sample_invoice_simps [simp]:
  "inv_id sample_invoice = 1" "inv_org sample_invoice = 1" "inv_status sample_invoice = ''open''"
  "inv_total sample_invoice = 12400" "inv_due sample_invoice = ordinal_of 2026 1 20"
  by (simp_all add: sample_invoice_def finalize_invoice_number_def new_invoice_def coerce_legacy_amount_def next_key_def)

lemma billed_rows: "invoices billed_db = [sample_invoice]"
proof -
  obtain i where i: "invoice_plan sample_env 1 sample_invoice_args (world_of sample_db)
      = (Inr (i, 2400, 10000, 2400, 12400), world_of sample_db)" "sample_invoice = finalize_invoice_number i"
    using sample_invoice_plan by blast
  define w2 where "w2 = audit_record sample_env ''invoice.created''
      (invoice_created_audit 1 (ia_actor sample_invoice_args) sample_invoice 2400 (10000, 2400, 12400))
      (commit (on_db (add_invoice sample_invoice) (world_of sample_db)))"
  have b: "billed_db = com (publish sample_env ''invoice.created'' 1 (build_invoice_created_payload sample_invoice w2) w2)"
    by (simp add: billed_db_def create_invoice_def i(1) Let_def i(2) [symmetric] w2_def)
  have w2: "invoices (cur w2) = [sample_invoice]" "invoices (com w2) = [sample_invoice]"
    by (simp_all add: w2_def invoice_created_audit_def)
  have "core billed_db = core (com w2) \<or> core billed_db = core (cur w2)"
    using aside_publish [of w2 sample_env "''invoice.created''" 1 "build_invoice_created_payload sample_invoice w2"]
    unfolding b by (auto simp: aside_def)
  then show ?thesis
    using core_tables(7) [of billed_db "com w2"] core_tables(7) [of billed_db "cur w2"] w2 by auto
qed

lemma billed_reachable: "invoice_reachable sample_env billed_db"
  unfolding billed_db_def
  by (rule invoice_reachable.step [of _ sample_db]) (auto intro: invoice_reachable.start)

theorem invoice_books_witness:
  "inv_total sample_invoice = inv_subtotal sample_invoice + inv_vat_amount sample_invoice \<and> inv_total sample_invoice = 12400"
  using invoice_books [OF billed_reachable, of sample_invoice] by (simp add: billed_rows)

theorem invoice_lifecycle_witness:
  "\<exists>i'\<in>set (invoices (com (run_invoice sample_env 1 (Pay_invoice 1 None) (world_of billed_db)))). inv_id i' = 1"
proof -
  have "sample_invoice \<in> set (invoices billed_db)" by (simp add: billed_rows)
  from invoice_lifecycle [where w = "world_of billed_db" and oid = 1 and op = "Pay_invoice 1 None",
      OF billed_reachable _ _ this]
  show ?thesis by auto
qed

end
