(* ===== verification/Leases.thy ===== *)
theory Leases
  imports Billing
begin

text \<open>
  Leases (app/billing/services.py): create, update, activate, end, cancel, send for signing and
  sign by link. A lease is a draft, waits for a signature, is active, ended or cancelled. Main
  facts: apart from the signing link no operation leaves ended or cancelled, and then only the
  notes change; the signing link revives an ended or cancelled lease; a signature is never
  overwritten; and a lease always belongs to a unit and guest of its own organization.
\<close>

subsection \<open>Reading\<close>

definition get_lease_for_org :: "int \<Rightarrow> int \<Rightarrow> db \<Rightarrow> exn + json" where
  "get_lease_for_org oid lid d =
     (case get_lease_row oid lid d of None \<Rightarrow> Inl e_lease_not_found | Some l \<Rightarrow> Inr (serialize_lease l d))"

definition org_leases_desc :: "int \<Rightarrow> db \<Rightarrow> lease list" where
  "org_leases_desc oid d = rev (sort_key le_id (filter (\<lambda>l. le_org l = oid) (leases d)))"

definition list_leases_for_org :: "int \<Rightarrow> db \<Rightarrow> json list" where
  "list_leases_for_org oid d = map (\<lambda>l. serialize_lease l d) (org_leases_desc oid d)"

definition list_leases_paginated :: "int \<Rightarrow> nat \<Rightarrow> nat \<Rightarrow> db \<Rightarrow> json list \<times> nat" where
  "list_leases_paginated oid page per_page d =
     (let rows = org_leases_desc oid d in
      (map (\<lambda>l. serialize_lease l d) (take per_page (drop ((page - 1) * per_page) rows)), length rows))"

subsection \<open>Creating\<close>

definition billing_cycles :: "string list" where
  "billing_cycles = [''monthly'', ''weekly'', ''one_time'']"

definition e_cycle :: exn where
  "e_cycle = e_lease_invalid ''billing_cycle must be one of: monthly, weekly, one_time.''"
definition e_lease_order :: exn where
  "e_lease_order = e_lease_invalid ''end_date must be on or after start_date.''"
definition e_lease_reservation :: exn where
  "e_lease_reservation = e_lease_invalid ''Reservation not found in this organization.''"

record lease_args =
  la_unit :: int
  la_guest :: int
  la_reservation :: "int option"
  la_start :: string
  la_end :: "string option"
  la_rent :: scalar
  la_deposit :: scalar
  la_cycle :: string
  la_notes :: "string option"

definition optional_lease_date :: "string option \<Rightarrow> string \<Rightarrow> exn + date option" where
  "optional_lease_date raw field =
     (if strip (or_empty raw) = '''' then Inr None
      else case lease_date raw field of Inl x \<Rightarrow> Inl x | Inr t \<Rightarrow> Inr (Some t))"

definition new_lease ::
  "int \<Rightarrow> lease_args \<Rightarrow> int \<Rightarrow> date \<Rightarrow> date option \<Rightarrow> cents \<Rightarrow> cents \<Rightarrow> world \<Rightarrow> lease" where
  "new_lease oid a actor s e rent deposit w =
     \<lparr>le_id = next_key T_leases (cur w), le_org = oid, le_unit = la_unit a, le_guest = la_guest a,
      le_reservation = la_reservation a, le_start = s, le_end = e, le_rent = rent, le_deposit = deposit,
      le_cycle = lower (strip (la_cycle a)), le_status = ''draft'',
      le_notes = none_if_empty (strip (or_empty (la_notes a))), le_template = None, le_token_hash = None,
      le_signing_sent_at = None, le_signed_at = None, le_signed_ip = None, le_signed_user_agent = None,
      le_signed_pdf = None, le_created_by = actor, le_updated_by = None,
      le_created_at = clock w, le_updated_at = clock w\<rparr>"

definition lease_plan :: "int \<Rightarrow> lease_args \<Rightarrow> int \<Rightarrow> world \<Rightarrow> exn + lease" where
  "lease_plan oid a actor w =
     (if lower (strip (la_cycle a)) \<notin> set billing_cycles then Inl e_cycle
      else case ensure_unit_in_org (la_unit a) oid (cur w) of
        Inl x \<Rightarrow> Inl x
      | Inr u \<Rightarrow>
     (case ensure_guest_in_org (la_guest a) oid e_lease_invalid (cur w) of
        Inl x \<Rightarrow> Inl x
      | Inr g \<Rightarrow>
          if la_reservation a \<noteq> None \<and> find_reservation oid (the (la_reservation a)) (cur w) = None
          then Inl e_lease_reservation
          else
     (case lease_date (Some (la_start a)) ''start_date'' of
        Inl x \<Rightarrow> Inl x
      | Inr s \<Rightarrow>
     (case optional_lease_date (la_end a) ''end_date'' of
        Inl x \<Rightarrow> Inl x
      | Inr e \<Rightarrow>
          if (case e of None \<Rightarrow> False | Some t \<Rightarrow> t < s) then Inl e_lease_order
          else
     (case required_amount (la_rent a) e_lease_invalid of
        Inl x \<Rightarrow> Inl x
      | Inr rent \<Rightarrow>
     (case optional_amount (la_deposit a) e_lease_invalid of
        Inl x \<Rightarrow> Inl x
      | Inr deposit \<Rightarrow> Inr (new_lease oid a actor s e rent deposit w)))))))"

definition lease_audit :: "int \<Rightarrow> int option \<Rightarrow> int \<Rightarrow> (string \<times> json) list option \<Rightarrow> audit_args" where
  "lease_audit oid actor lid context =
     audit_defaults\<lparr>aa_actor_id := actor, aa_org := Some oid, aa_target_type := Some ''lease'',
       aa_target_id := Some lid, aa_context := context, aa_commit := True\<rparr>"

definition create_lease :: "env \<Rightarrow> int \<Rightarrow> lease_args \<Rightarrow> int \<Rightarrow> world \<Rightarrow> (exn + json) \<times> world" where
  "create_lease en oid a actor w =
     (case lease_plan oid a actor w of
        Inl x \<Rightarrow> (Inl x, w)
      | Inr l \<Rightarrow>
          (Inr (serialize_lease l (cur w)), audit_record en ''lease.created''
             (lease_audit oid (Some actor) (le_id l) (Some [(''unit_id'', JInt (le_unit l)), (''guest_id'', JInt (le_guest l))]))
             (commit (on_db (add_lease l) w))))"

subsection \<open>Updating\<close>

text \<open>\<open>onupdate\<close> fires only when a column really changed.\<close>

definition lease_touch :: "world \<Rightarrow> lease \<Rightarrow> lease \<Rightarrow> lease" where
  "lease_touch w old new = (if new = old then old else new\<lparr>le_updated_at := clock w\<rparr>)"

definition bad_status :: "string \<Rightarrow> exn" where
  "bad_status what = e_lease_invalid (what @ '' cannot be changed in the current status.'')"

definition only_draft :: "string \<Rightarrow> exn" where
  "only_draft what = e_lease_invalid (what @ '' can only be changed while the lease is draft.'')"

type_synonym lease_step = "lease \<Rightarrow> exn + lease"

definition up_terminal :: "(string \<times> scalar) list \<Rightarrow> lease_step" where
  "up_terminal data l =
     (if le_status l \<in> {''ended'', ''cancelled''} \<and> \<not> set (map fst data) \<subseteq> {''notes''}
      then Inl (e_lease_invalid ''Only notes can be updated for a lease in this status.'') else Inr l)"

definition up_draft_only :: "(string \<times> scalar) list \<Rightarrow> lease_step" where
  "up_draft_only data l =
     (if (given ''unit_id'' data \<or> given ''guest_id'' data \<or> given ''reservation_id'' data) \<and> le_status l \<noteq> ''draft''
      then Inl (e_lease_invalid ''Unit, guest, and reservation cannot be changed unless the lease is draft.'')
      else Inr l)"

definition up_unit :: "int \<Rightarrow> db \<Rightarrow> (string \<times> scalar) list \<Rightarrow> lease_step" where
  "up_unit oid d data = field_if (given ''unit_id'' data) (\<lambda>l.
     case py_int (dget ''unit_id'' data) of
       Inl x \<Rightarrow> Inl (PyError x)
     | Inr uid \<Rightarrow>
         (case ensure_unit_in_org uid oid d of Inl x \<Rightarrow> Inl x | Inr u \<Rightarrow> Inr (l\<lparr>le_unit := uid\<rparr>)))"

definition up_guest :: "int \<Rightarrow> db \<Rightarrow> (string \<times> scalar) list \<Rightarrow> lease_step" where
  "up_guest oid d data = field_if (given ''guest_id'' data) (\<lambda>l.
     case py_int (dget ''guest_id'' data) of
       Inl x \<Rightarrow> Inl (PyError x)
     | Inr gid \<Rightarrow>
         (case ensure_guest_in_org gid oid e_lease_invalid d of Inl x \<Rightarrow> Inl x | Inr g \<Rightarrow> Inr (l\<lparr>le_guest := gid\<rparr>)))"

definition up_reservation :: "int \<Rightarrow> db \<Rightarrow> (string \<times> scalar) list \<Rightarrow> lease_step" where
  "up_reservation oid d data = field_if (given ''reservation_id'' data) (\<lambda>l.
     let raw = dget ''reservation_id'' data in
     if raw = SNone \<or> raw = SStr '''' then Inr (l\<lparr>le_reservation := None\<rparr>)
     else case py_int raw of
       Inl x \<Rightarrow> Inl (PyError x)
     | Inr rid \<Rightarrow>
         if find_reservation oid rid d = None then Inl e_lease_reservation
         else Inr (l\<lparr>le_reservation := Some rid\<rparr>))"

definition up_start :: "(string \<times> scalar) list \<Rightarrow> lease_step" where
  "up_start data = field_if (given ''start_date'' data) (\<lambda>l.
     if le_status l \<noteq> ''draft'' then Inl (only_draft ''start_date'')
     else case lease_date (Some (py_str (dget ''start_date'' data))) ''start_date'' of
       Inl x \<Rightarrow> Inl x | Inr t \<Rightarrow> Inr (l\<lparr>le_start := t\<rparr>))"

text \<open>Clearing the end date is allowed in every status that gets here.\<close>

definition up_end :: "(string \<times> scalar) list \<Rightarrow> lease_step" where
  "up_end data = field_if (given ''end_date'' data) (\<lambda>l.
     let raw = dget ''end_date'' data in
     if raw = SNone \<or> strip (py_str raw) = '''' then Inr (l\<lparr>le_end := None\<rparr>)
     else if le_status l \<notin> {''draft'', ''active''} then Inl (bad_status ''end_date'')
     else case lease_date (Some (py_str raw)) ''end_date'' of
       Inl x \<Rightarrow> Inl x | Inr t \<Rightarrow> Inr (l\<lparr>le_end := Some t\<rparr>))"

definition up_order :: lease_step where
  "up_order l = (case le_end l of None \<Rightarrow> Inr l | Some t \<Rightarrow> if t < le_start l then Inl e_lease_order else Inr l)"

definition up_rent :: "(string \<times> scalar) list \<Rightarrow> lease_step" where
  "up_rent data = field_if (given ''rent_amount'' data) (\<lambda>l.
     if le_status l \<notin> {''draft'', ''pending_signature'', ''active''} then Inl (bad_status ''rent_amount'')
     else case required_amount (dget ''rent_amount'' data) e_lease_invalid of
       Inl x \<Rightarrow> Inl x | Inr c \<Rightarrow> Inr (l\<lparr>le_rent := c\<rparr>))"

definition up_deposit :: "(string \<times> scalar) list \<Rightarrow> lease_step" where
  "up_deposit data = field_if (given ''deposit_amount'' data) (\<lambda>l.
     if le_status l \<notin> {''draft'', ''pending_signature'', ''active''} then Inl (bad_status ''deposit_amount'')
     else case optional_amount (dget ''deposit_amount'' data) e_lease_invalid of
       Inl x \<Rightarrow> Inl x | Inr c \<Rightarrow> Inr (l\<lparr>le_deposit := c\<rparr>))"

definition up_cycle :: "(string \<times> scalar) list \<Rightarrow> lease_step" where
  "up_cycle data = field_if (given ''billing_cycle'' data) (\<lambda>l.
     if le_status l \<noteq> ''draft'' then Inl (only_draft ''billing_cycle'')
     else let cycle = lower (strip (str_or (dget ''billing_cycle'' data) '''')) in
       if cycle \<notin> set billing_cycles then Inl e_cycle else Inr (l\<lparr>le_cycle := cycle\<rparr>))"

definition up_notes :: "(string \<times> scalar) list \<Rightarrow> lease_step" where
  "up_notes data = field_if (given ''notes'' data) (\<lambda>l.
     Inr (l\<lparr>le_notes := none_if_empty (strip (str_or (dget ''notes'' data) ''''))\<rparr>))"

definition lease_fields :: "int \<Rightarrow> db \<Rightarrow> (string \<times> scalar) list \<Rightarrow> lease_step list" where
  "lease_fields oid d data =
     [up_terminal data, up_draft_only data, up_unit oid d data, up_guest oid d data, up_reservation oid d data,
      up_start data, up_end data, up_order, up_rent data, up_deposit data, up_cycle data, up_notes data]"

definition save_lease ::
  "env \<Rightarrow> string \<Rightarrow> int \<Rightarrow> int \<Rightarrow> (string \<times> json) list option \<Rightarrow> lease \<Rightarrow> lease \<Rightarrow> world \<Rightarrow> (exn + json) \<times> world" where
  \<comment> \<open>\<open>updated_by_id\<close>, commit, audit row, serialized row\<close>
  "save_lease en action oid actor context old new w =
     (let l = lease_touch w old (new\<lparr>le_updated_by := Some actor\<rparr>)
      in (Inr (serialize_lease l (cur w)),
          audit_record en action (lease_audit oid (Some actor) (le_id l) context) (commit (on_db (put_lease l) w))))"

definition update_lease ::
  "env \<Rightarrow> int \<Rightarrow> int \<Rightarrow> (string \<times> scalar) list \<Rightarrow> int \<Rightarrow> world \<Rightarrow> (exn + json) \<times> world" where
  "update_lease en oid lid data actor w =
     (case get_lease_row oid lid (cur w) of
        None \<Rightarrow> (Inl e_lease_not_found, w)
      | Some old \<Rightarrow>
          (case run_fields (lease_fields oid (cur w) data) old of
             (Some x, l) \<Rightarrow> (Inl x, on_db (put_lease l) w)
           | (None, l) \<Rightarrow> save_lease en ''lease.updated'' oid actor None old l w))"

subsection \<open>Status changes\<close>

definition activate_lease :: "env \<Rightarrow> int \<Rightarrow> int \<Rightarrow> int \<Rightarrow> world \<Rightarrow> (exn + json) \<times> world" where
  "activate_lease en oid lid actor w =
     (case get_lease_row oid lid (cur w) of
        None \<Rightarrow> (Inl e_lease_not_found, w)
      | Some old \<Rightarrow>
          if le_status old \<notin> {''draft'', ''pending_signature''}
          then (Inl (e_lease_invalid ''Only draft or pending_signature leases can be activated.''), w)
          else save_lease en ''lease.activated'' oid actor None old (old\<lparr>le_status := ''active''\<rparr>) w)"

definition end_lease :: "env \<Rightarrow> int \<Rightarrow> int \<Rightarrow> string option \<Rightarrow> int \<Rightarrow> world \<Rightarrow> (exn + json) \<times> world" where
  "end_lease en oid lid raw actor w =
     (case get_lease_row oid lid (cur w) of
        None \<Rightarrow> (Inl e_lease_not_found, w)
      | Some old \<Rightarrow>
          if le_status old \<noteq> ''active'' then (Inl (e_lease_invalid ''Only active leases can be ended.''), w)
          else
            (case optional_lease_date raw ''end_date'' of
               Inl x \<Rightarrow> (Inl x, w)
             | Inr t \<Rightarrow>
                 let e = (case t of None \<Rightarrow> local_today en | Some x \<Rightarrow> x) in
                 if e < le_start old then (Inl e_lease_order, w)
                 else save_lease en ''lease.ended'' oid actor (Some [(''end_date'', JStr (isoformat e))]) old
                   (old\<lparr>le_end := Some e, le_status := ''ended''\<rparr>) w))"

definition cancel_lease :: "env \<Rightarrow> int \<Rightarrow> int \<Rightarrow> int \<Rightarrow> world \<Rightarrow> (exn + json) \<times> world" where
  "cancel_lease en oid lid actor w =
     (case get_lease_row oid lid (cur w) of
        None \<Rightarrow> (Inl e_lease_not_found, w)
      | Some old \<Rightarrow>
          if le_status old \<in> {''ended'', ''cancelled''}
          then (Inl (e_lease_invalid ''Lease cannot be cancelled in its current status.''), w)
          else save_lease en ''lease.cancelled'' oid actor None old (old\<lparr>le_status := ''cancelled''\<rparr>) w)"

subsection \<open>Signing\<close>

text \<open>The attachments are not part of the logged call; a file that is missing is skipped.\<close>

definition send_template_with_attachments_now ::
  "env \<Rightarrow> string \<Rightarrow> string \<Rightarrow> (string \<times> json) list \<Rightarrow> string list \<Rightarrow> world \<Rightarrow> (exn + bool) \<times> world" where
  "send_template_with_attachments_now en key to context paths w = send_template_now en key to context w"

record signing_args =
  sg_token :: string
  sg_filename :: string
  sg_path :: string
  sg_url :: string
  sg_recipient :: string

definition sent_for_signing :: "env \<Rightarrow> signing_args \<Rightarrow> lease \<Rightarrow> world \<Rightarrow> lease" where
  "sent_for_signing en a old w =
     lease_touch w old (old\<lparr>le_token_hash := Some (sha256 en (sg_token a)), le_signing_sent_at := Some (clock w),
       le_signed_pdf := Some (sg_filename a), le_status := ''pending_signature''\<rparr>)"

definition signing_context :: "signing_args \<Rightarrow> lease \<Rightarrow> db \<Rightarrow> (string \<times> json) list" where
  "signing_context a l d =
     [(''tenant_name'', JStr (guest_full_name (guest_get (le_guest l) d))),
      (''organization_name'', JStr (org_name_of (le_org l) d)), (''lease_id'', JInt (le_id l)),
      (''rent_amount'', JStr (money_str (le_rent l))), (''billing_cycle'', JStr (le_cycle l)),
      (''lease_start_date'', JStr (isoformat (le_start l))),
      (''lease_end_date'', JStr (case le_end l of None \<Rightarrow> '''' | Some e \<Rightarrow> isoformat e)),
      (''sign_url'', JStr (sg_url a)), (''from_name'', JStr ''Pin PMS'')]"

text \<open>Sent now, or else queued. A missing template escapes from the second attempt.\<close>

definition mail_signing ::
  "env \<Rightarrow> string \<Rightarrow> (string \<times> json) list \<Rightarrow> string \<Rightarrow> world \<Rightarrow> (exn + unit) \<times> world" where
  "mail_signing en to ctx path w =
     (case send_template_with_attachments_now en ''lease_sign_request'' to ctx [path] w of
        (Inr True, w1) \<Rightarrow> (Inr (), w1)
      | (_, w1) \<Rightarrow>
          (case send_template en ''lease_sign_request'' to ctx w1 of
             (Inl x, w2) \<Rightarrow> (Inl x, w2)
           | (Inr False, w2) \<Rightarrow> (Inl (e_lease ''email_failed'' ''Signing email could not be sent.'' 502), w2)
           | (Inr True, w2) \<Rightarrow> (Inr (), w2)))"

definition send_lease_for_signing ::
  "env \<Rightarrow> int \<Rightarrow> int \<Rightarrow> int \<Rightarrow> signing_args \<Rightarrow> world \<Rightarrow> (exn + json) \<times> world" where
  "send_lease_for_signing en oid lid actor a w =
     (case get_lease_row oid lid (cur w) of
        None \<Rightarrow> (Inl e_lease_not_found, w)
      | Some old \<Rightarrow>
          if strip (sg_recipient a) = ''''
          then (Inl (e_lease_invalid ''Lease guest email is required for signing.''), w)
          else if le_status old \<in> {''ended'', ''cancelled''}
          then (Inl (e_lease_invalid ''Ended or cancelled lease cannot be sent for signing.''), w)
          else
            let l = sent_for_signing en a old w; w1 = commit (on_db (put_lease l) w) in
            (case mail_signing en (strip (sg_recipient a)) (signing_context a l (cur w1)) (sg_path a) w1 of
               (Inl x, w2) \<Rightarrow> (Inl x, w2)
             | (Inr u, w2) \<Rightarrow>
                 (Inr (serialize_lease l (cur w2)), audit_record en ''lease.sign_request.sent''
                    ((lease_audit oid (Some actor) (le_id l) None)\<lparr>aa_metadata :=
                       Some [(''lease_id'', JInt (le_id l)), (''status'', JStr (le_status l))]\<rparr>) w2)))"

text \<open>The lease of a link is looked up by the hash of the token alone.\<close>

definition lease_by_token :: "env \<Rightarrow> string \<Rightarrow> db \<Rightarrow> lease option" where
  "lease_by_token en token d = List.find (\<lambda>l. le_token_hash l = Some (sha256 en token)) (leases d)"

definition e_sign_link :: exn where
  "e_sign_link = e_lease ''not_found'' ''Signing link is invalid.'' 404"

definition signed_lease :: "string option \<Rightarrow> string option \<Rightarrow> lease \<Rightarrow> world \<Rightarrow> lease" where
  "signed_lease ip agent old w =
     lease_touch w old (old\<lparr>le_signed_at := Some (clock w),
       le_signed_ip := none_if_empty (take 64 (strip (or_empty ip))),
       le_signed_user_agent := none_if_empty (take 512 (strip (or_empty agent))), le_status := ''active''\<rparr>)"

definition signed_audit :: "lease \<Rightarrow> lease \<Rightarrow> audit_args" where
  "signed_audit old l =
     (lease_audit (le_org l) None (le_id l) None)\<lparr>aa_actor_type := Some ''anonymous'', aa_metadata := Some
       [(''lease_id'', JInt (le_id l)), (''organization_id'', JInt (le_org l)), (''signed_at'', jstamp (le_signed_at l)),
        (''signed_ip'', jstr (le_signed_ip l)), (''user_agent'', jstr (le_signed_user_agent l)),
        (''previous_status'', JStr (le_status old)), (''new_status'', JStr (le_status l))]\<rparr>"

definition sign_lease_with_token ::
  "env \<Rightarrow> string \<Rightarrow> string option \<Rightarrow> string option \<Rightarrow> world \<Rightarrow> (exn + json) \<times> world" where
  "sign_lease_with_token en token ip agent w =
     (case lease_by_token en token (cur w) of
        None \<Rightarrow> (Inl e_sign_link, w)
      | Some old \<Rightarrow>
          if le_signed_at old \<noteq> None then (Inr (serialize_lease old (cur w)), w)
          else
            let l = signed_lease ip agent old w
            in (Inr (serialize_lease l (cur w)),
                audit_record en ''lease.signed'' (signed_audit old l) (commit (on_db (put_lease l) w))))"

definition get_lease_by_signed_token :: "env \<Rightarrow> string \<Rightarrow> db \<Rightarrow> exn + json" where
  "get_lease_by_signed_token en token d =
     (case lease_by_token en token d of None \<Rightarrow> Inl e_sign_link | Some l \<Rightarrow> Inr (serialize_lease l d))"

subsection \<open>The operations together\<close>

datatype lease_op =
    Create_lease lease_args int
  | Update_lease int "(string \<times> scalar) list" int
  | Activate_lease int int
  | End_lease int "string option" int
  | Cancel_lease int int
  | Send_lease int int signing_args
  | Sign_lease string "string option" "string option"

fun run_lease :: "env \<Rightarrow> int \<Rightarrow> lease_op \<Rightarrow> world \<Rightarrow> (exn + json) \<times> world" where
  "run_lease en oid (Create_lease a actor) w = create_lease en oid a actor w"
| "run_lease en oid (Update_lease lid data actor) w = update_lease en oid lid data actor w"
| "run_lease en oid (Activate_lease lid actor) w = activate_lease en oid lid actor w"
| "run_lease en oid (End_lease lid raw actor) w = end_lease en oid lid raw actor w"
| "run_lease en oid (Cancel_lease lid actor) w = cancel_lease en oid lid actor w"
| "run_lease en oid (Send_lease lid actor a) w = send_lease_for_signing en oid lid actor a w"
| "run_lease en oid (Sign_lease token ip agent) w = sign_lease_with_token en token ip agent w"

text \<open>What an operation does to the row it commits.\<close>

fun lease_change :: "env \<Rightarrow> int \<Rightarrow> lease_op \<Rightarrow> world \<Rightarrow> lease \<Rightarrow> lease \<Rightarrow> bool" where
  "lease_change en oid (Create_lease a actor) w old r = False"
| "lease_change en oid (Update_lease lid data actor) w old r =
     (get_lease_row oid lid (cur w) = Some old
      \<and> (\<exists>l. run_fields (lease_fields oid (cur w) data) old = (None, l)
           \<and> r = lease_touch w old (l\<lparr>le_updated_by := Some actor\<rparr>)))"
| "lease_change en oid (Activate_lease lid actor) w old r =
     (get_lease_row oid lid (cur w) = Some old \<and> le_status old \<in> {''draft'', ''pending_signature''}
      \<and> r = lease_touch w old (old\<lparr>le_status := ''active'', le_updated_by := Some actor\<rparr>))"
| "lease_change en oid (End_lease lid raw actor) w old r =
     (get_lease_row oid lid (cur w) = Some old \<and> le_status old = ''active''
      \<and> (\<exists>e. le_start old \<le> e
           \<and> r = lease_touch w old (old\<lparr>le_end := Some e, le_status := ''ended'', le_updated_by := Some actor\<rparr>)))"
| "lease_change en oid (Cancel_lease lid actor) w old r =
     (get_lease_row oid lid (cur w) = Some old \<and> le_status old \<notin> {''ended'', ''cancelled''}
      \<and> r = lease_touch w old (old\<lparr>le_status := ''cancelled'', le_updated_by := Some actor\<rparr>))"
| "lease_change en oid (Send_lease lid actor a) w old r =
     (get_lease_row oid lid (cur w) = Some old \<and> le_status old \<notin> {''ended'', ''cancelled''}
      \<and> r = sent_for_signing en a old w)"
| "lease_change en oid (Sign_lease token ip agent) w old r =
     (lease_by_token en token (cur w) = Some old \<and> le_signed_at old = None \<and> r = signed_lease ip agent old w)"

lemma lease_audit_commit [simp]: "aa_commit (lease_audit oid actor lid c)"
  by (simp add: lease_audit_def)

lemma aside_send_template_now: "aside w (snd (send_template_now en key to ctx w))"
proof -
  have "aside w (snd (case send_rendered en key to s b w of (b, w1) \<Rightarrow> (Inr b :: exn + bool, w1)))" for s b
    using aside_send_rendered [of w en key to s b] by (cases "send_rendered en key to s b w") simp
  then show ?thesis
    by (auto simp: send_template_now_def Let_def render_failed_def split: sum.split prod.split)
qed

lemma aside_mail_signing:
  assumes "mail_signing en to ctx path w = (x, w')"
  shows "aside w w'"
proof -
  obtain y w1 where n: "send_template_now en ''lease_sign_request'' to ctx w = (y, w1)" by fastforce
  obtain z w2 where q: "send_template en ''lease_sign_request'' to ctx w1 = (z, w2)" by fastforce
  have a1: "aside w w1" using aside_send_template_now [of w en "''lease_sign_request''" to ctx] n by simp
  have "aside w1 w2" using mail.aside [of w1 "(en, ''lease_sign_request'', to, ctx)"] q by simp
  with a1 have "aside w w2" by (rule aside_trans)
  then show ?thesis
    using assms a1 n q
    by (auto simp: mail_signing_def send_template_with_attachments_now_def split: sum.splits bool.splits)
qed

lemma save_lease_core:
  "save_lease en action oid actor c old new w = (x, w') \<Longrightarrow>
     core (com w') = core (put_lease (lease_touch w old (new\<lparr>le_updated_by := Some actor\<rparr>)) (cur w))"
  by (auto simp: save_lease_def Let_def simp del: put_lease_def add_audit_def)

text \<open>The three things an operation can do to the committed leases, as seen from outside.\<close>

definition lease_effect :: "env \<Rightarrow> int \<Rightarrow> lease_op \<Rightarrow> world \<Rightarrow> world \<Rightarrow> bool" where
  "lease_effect en oid op w w' \<longleftrightarrow> core (com w') = core (cur w)
     \<or> (\<exists>a actor l. op = Create_lease a actor \<and> lease_plan oid a actor w = Inr l
          \<and> core (com w') = core (add_lease l (cur w)))
     \<or> (\<exists>old r. lease_change en oid op w old r \<and> core (com w') = core (put_lease r (cur w)))"

lemma lease_effect_same: "core (com w') = core (cur w) \<Longrightarrow> lease_effect en oid op w w'"
  by (simp add: lease_effect_def)

lemma lease_effect_put:
  "lease_change en oid op w old r \<Longrightarrow> core (com w') = core (put_lease r (cur w)) \<Longrightarrow> lease_effect en oid op w w'"
  unfolding lease_effect_def by blast

lemma save_lease_effect:
  assumes "save_lease en action oid actor c old new w = (x, w')"
    and "lease_change en oid op w old (lease_touch w old (new\<lparr>le_updated_by := Some actor\<rparr>))"
  shows "lease_effect en oid op w w'"
  by (rule lease_effect_put [OF assms(2) save_lease_core [OF assms(1)]])

lemma create_lease_effect:
  assumes "create_lease en oid a actor w = (x, w')" and "com w = cur w"
  shows "lease_effect en oid (Create_lease a actor) w w'"
  using assms
  by (auto simp: create_lease_def lease_effect_def split: sum.splits simp del: add_lease_def add_audit_def)

lemma update_lease_effect:
  assumes "update_lease en oid lid data actor w = (x, w')" and "com w = cur w"
  shows "lease_effect en oid (Update_lease lid data actor) w w'"
proof (cases "get_lease_row oid lid (cur w)")
  case (Some old)
  obtain e l where f: "run_fields (lease_fields oid (cur w) data) old = (e, l)" by fastforce
  show ?thesis
  proof (cases e)
    case None
    then have "save_lease en ''lease.updated'' oid actor None old l w = (x, w')"
      using assms(1) Some f by (simp add: update_lease_def)
    then show ?thesis by (rule save_lease_effect) (simp add: Some f None)
  qed (use assms Some f in \<open>auto simp: update_lease_def intro: lease_effect_same\<close>)
qed (use assms in \<open>auto simp: update_lease_def intro: lease_effect_same\<close>)

lemma activate_lease_effect:
  assumes "activate_lease en oid lid actor w = (x, w')" and "com w = cur w"
  shows "lease_effect en oid (Activate_lease lid actor) w w'"
  using assms
  by (auto simp: activate_lease_def split: option.splits if_splits intro: lease_effect_same save_lease_effect)

lemma cancel_lease_effect:
  assumes "cancel_lease en oid lid actor w = (x, w')" and "com w = cur w"
  shows "lease_effect en oid (Cancel_lease lid actor) w w'"
  using assms
  by (auto simp: cancel_lease_def split: option.splits if_splits intro: lease_effect_same save_lease_effect)

lemma end_lease_effect:
  assumes "end_lease en oid lid raw actor w = (x, w')" and "com w = cur w"
  shows "lease_effect en oid (End_lease lid raw actor) w w'"
proof (cases "get_lease_row oid lid (cur w)")
  case (Some old)
  show ?thesis
  proof (cases "optional_lease_date raw ''end_date''")
    case (Inr t)
    define e where "e = (case t of None \<Rightarrow> local_today en | Some x \<Rightarrow> x)"
    have run: "end_lease en oid lid raw actor w = (if le_status old \<noteq> ''active''
        then (Inl (e_lease_invalid ''Only active leases can be ended.''), w)
        else if e < le_start old then (Inl e_lease_order, w)
        else save_lease en ''lease.ended'' oid actor (Some [(''end_date'', JStr (isoformat e))]) old
          (old\<lparr>le_end := Some e, le_status := ''ended''\<rparr>) w)"
      by (simp add: end_lease_def Some Inr Let_def e_def)
    show ?thesis
    proof (cases "le_status old = ''active'' \<and> le_start old \<le> e")
      case True
      then have "save_lease en ''lease.ended'' oid actor (Some [(''end_date'', JStr (isoformat e))]) old
          (old\<lparr>le_end := Some e, le_status := ''ended''\<rparr>) w = (x, w')"
        using assms(1) unfolding run by simp
      then show ?thesis by (rule save_lease_effect) (use Some True in auto)
    qed (use assms run in \<open>auto split: if_splits intro: lease_effect_same\<close>)
  qed (use assms Some in \<open>auto simp: end_lease_def split: if_splits intro: lease_effect_same\<close>)
qed (use assms in \<open>auto simp: end_lease_def intro: lease_effect_same\<close>)

lemma send_lease_effect:
  assumes "send_lease_for_signing en oid lid actor a w = (x, w')" and "com w = cur w"
  shows "lease_effect en oid (Send_lease lid actor a) w w'"
proof (cases "get_lease_row oid lid (cur w)")
  case (Some old)
  show ?thesis
  proof (cases "strip (sg_recipient a) = '''' \<or> le_status old \<in> {''ended'', ''cancelled''}")
    case False
    let ?l = "sent_for_signing en a old w"
    let ?w1 = "commit (on_db (put_lease ?l) w)"
    obtain y w2 where m: "mail_signing en (strip (sg_recipient a)) (signing_context a ?l (cur ?w1)) (sg_path a) ?w1 = (y, w2)"
      by fastforce
    have c: "core (com w2) = core (put_lease ?l (cur w))" "core (cur w2) = core (put_lease ?l (cur w))"
      using aside_mail_signing [OF m] by (auto simp: aside_def simp del: put_lease_def)
    have "core (com w') = core (put_lease ?l (cur w))"
      using assms(1) Some False m c
      by (auto simp: send_lease_for_signing_def Let_def lease_audit_def split: sum.splits
          simp del: put_lease_def add_audit_def)
    then show ?thesis by (rule lease_effect_put [where old = old, rotated]) (use Some False in simp)
  qed (use assms Some in \<open>auto simp: send_lease_for_signing_def split: if_splits intro: lease_effect_same\<close>)
qed (use assms in \<open>auto simp: send_lease_for_signing_def intro: lease_effect_same\<close>)

lemma sign_lease_effect:
  assumes "sign_lease_with_token en token ip agent w = (x, w')" and "com w = cur w"
  shows "lease_effect en oid (Sign_lease token ip agent) w w'"
proof (cases "lease_by_token en token (cur w)")
  case (Some old)
  show ?thesis
  proof (cases "le_signed_at old")
    case None
    then have "core (com w') = core (put_lease (signed_lease ip agent old w) (cur w))"
      using assms(1) Some
      by (auto simp: sign_lease_with_token_def Let_def signed_audit_def simp del: put_lease_def add_audit_def)
    then show ?thesis by (rule lease_effect_put [where old = old, rotated]) (use Some None in simp)
  qed (use assms Some in \<open>auto simp: sign_lease_with_token_def intro: lease_effect_same\<close>)
qed (use assms in \<open>auto simp: sign_lease_with_token_def intro: lease_effect_same\<close>)

lemma run_lease_effect:
  assumes "run_lease en oid op w = (x, w')" and "com w = cur w"
  shows "lease_effect en oid op w w'"
  using assms
  by (cases op) (auto intro: create_lease_effect update_lease_effect activate_lease_effect end_lease_effect
      cancel_lease_effect send_lease_effect sign_lease_effect)

subsection \<open>What a change keeps\<close>

lemmas lease_step_defs = up_terminal_def up_draft_only_def up_unit_def up_guest_def up_reservation_def up_start_def
  up_end_def up_order_def up_rent_def up_deposit_def up_cycle_def up_notes_def field_if_def

definition lease_signature :: "lease \<Rightarrow> stamp option \<times> string option \<times> string option" where
  "lease_signature l = (le_signed_at l, le_signed_ip l, le_signed_user_agent l)"

definition lease_identity :: "lease \<Rightarrow> int \<times> int \<times> int \<times> stamp" where
  "lease_identity l = (le_id l, le_org l, le_created_by l, le_created_at l)"

lemma lease_touch_simps [simp]:
  "le_status (lease_touch w old new) = le_status new" "le_id (lease_touch w old new) = le_id new"
  "le_org (lease_touch w old new) = le_org new" "le_start (lease_touch w old new) = le_start new"
  "le_end (lease_touch w old new) = le_end new" "le_unit (lease_touch w old new) = le_unit new"
  "le_guest (lease_touch w old new) = le_guest new" "le_reservation (lease_touch w old new) = le_reservation new"
  "le_rent (lease_touch w old new) = le_rent new" "le_deposit (lease_touch w old new) = le_deposit new"
  "le_cycle (lease_touch w old new) = le_cycle new" "le_notes (lease_touch w old new) = le_notes new"
  "le_token_hash (lease_touch w old new) = le_token_hash new" "le_signed_at (lease_touch w old new) = le_signed_at new"
  "lease_signature (lease_touch w old new) = lease_signature new"
  "lease_identity (lease_touch w old new) = lease_identity new"
  by (simp_all add: lease_touch_def lease_signature_def lease_identity_def)

lemma lease_signature_updates [simp]:
  "lease_signature (l\<lparr>le_status := s\<rparr>) = lease_signature l" "lease_signature (l\<lparr>le_updated_by := u\<rparr>) = lease_signature l"
  "lease_signature (l\<lparr>le_end := e\<rparr>) = lease_signature l" "lease_signature (l\<lparr>le_token_hash := h\<rparr>) = lease_signature l"
  "lease_signature (l\<lparr>le_signing_sent_at := t\<rparr>) = lease_signature l" "lease_signature (l\<lparr>le_signed_pdf := p\<rparr>) = lease_signature l"
  by (simp_all add: lease_signature_def)

lemma lease_step_keeps:
  assumes "f \<in> set (lease_fields oid d data)" and "f l = Inr l'"
  shows "le_status l' = le_status l \<and> lease_signature l' = lease_signature l \<and> lease_identity l' = lease_identity l"
  using assms
  by (auto simp: lease_fields_def lease_step_defs lease_signature_def lease_identity_def Let_def
      split: if_splits sum.splits option.splits)

lemma lease_fields_keep:
  assumes "run_fields (lease_fields oid d data) old = (x, l)"
  shows "le_status l = le_status old \<and> lease_signature l = lease_signature old \<and> lease_identity l = lease_identity old"
  by (rule run_fields_inv [OF assms]) (use lease_step_keeps in auto)

text \<open>On an ended or cancelled lease only the notes pass.\<close>

lemma given_subset: "set (map fst data) \<subseteq> {k'} \<Longrightarrow> k \<noteq> k' \<Longrightarrow> \<not> given k data"
  by (auto simp: given_def)

lemma lease_fields_terminal:
  assumes "run_fields (lease_fields oid d data) old = (None, l)" and "le_status old \<in> {''ended'', ''cancelled''}"
  shows "l\<lparr>le_notes := le_notes old\<rparr> = old"
proof -
  have "\<exists>y. up_terminal data old = Inr y"
    using assms(1) by (cases "up_terminal data old") (auto simp: lease_fields_def)
  then have sub: "set (map fst data) \<subseteq> {''notes''}" using assms(2) by (auto simp: up_terminal_def split: if_splits)
  note no = given_subset [OF sub]
  have skip: "\<not> given ''unit_id'' data" "\<not> given ''guest_id'' data" "\<not> given ''reservation_id'' data"
    "\<not> given ''start_date'' data" "\<not> given ''end_date'' data" "\<not> given ''rent_amount'' data"
    "\<not> given ''deposit_amount'' data" "\<not> given ''billing_cycle'' data" by (rule no, simp)+
  have "(\<lambda>s. s\<lparr>le_notes := le_notes old\<rparr> = old) l"
  proof (rule run_fields_inv [OF assms(1)])
    fix f s s' assume "f \<in> set (lease_fields oid d data)" "s\<lparr>le_notes := le_notes old\<rparr> = old" "f s = Inr s'"
    then show "s'\<lparr>le_notes := le_notes old\<rparr> = old"
      using skip by (auto simp: lease_fields_def lease_step_defs Let_def split: if_splits option.splits)
  qed simp
  then show ?thesis .
qed

lemma lease_change_identity:
  assumes "lease_change en oid op w old r"
  shows "le_id r = le_id old \<and> le_org r = le_org old \<and> old \<in> set (leases (cur w))"
proof -
  have i: "lease_identity r = lease_identity old"
    using assms lease_fields_keep
    by (cases op) (fastforce simp: sent_for_signing_def signed_lease_def lease_identity_def lease_touch_def)+
  have "old \<in> set (leases (cur w))"
    using assms lease_scope.member
    by (cases op) (auto simp: lease_by_token_def dest: find_Some_D)
  then show ?thesis using i by (simp add: lease_identity_def)
qed

subsection \<open>Well-formed leases\<close>

definition lease_refs_ok :: "db \<Rightarrow> lease \<Rightarrow> bool" where
  "lease_refs_ok d l \<longleftrightarrow> find_unit (le_org l) (le_unit l) d \<noteq> None \<and> find_guest (le_org l) (le_guest l) d \<noteq> None
     \<and> (case le_reservation l of None \<Rightarrow> True | Some r \<Rightarrow> find_reservation (le_org l) r d \<noteq> None)"

definition lease_order_ok :: "lease \<Rightarrow> bool" where
  "lease_order_ok l \<longleftrightarrow> (case le_end l of None \<Rightarrow> True | Some e \<Rightarrow> le_start l \<le> e)"

definition lease_values_ok :: "lease \<Rightarrow> bool" where
  "lease_values_ok l \<longleftrightarrow> 0 \<le> le_rent l \<and> 0 \<le> le_deposit l \<and> le_cycle l \<in> set billing_cycles
     \<and> le_status l \<in> {''draft'', ''pending_signature'', ''active'', ''ended'', ''cancelled''}"

definition lease_ok :: "db \<Rightarrow> lease \<Rightarrow> bool" where
  "lease_ok d l \<longleftrightarrow> lease_refs_ok d l \<and> lease_values_ok l"

definition leases_ok :: "db \<Rightarrow> bool" where
  "leases_ok d \<longleftrightarrow> keys_ok le_id (seqs d T_leases) (leases d) \<and> (\<forall>l\<in>set (leases d). lease_ok d l)"

lemma lease_touch_ok [simp]:
  "lease_refs_ok d (lease_touch w old l) = lease_refs_ok d l"
  "lease_order_ok (lease_touch w old l) = lease_order_ok l"
  "lease_values_ok (lease_touch w old l) = lease_values_ok l"
  by (simp_all add: lease_refs_ok_def lease_order_ok_def lease_values_ok_def split: option.split)

lemma lease_plan_D:
  assumes "lease_plan oid a actor w = Inr l"
  shows "lease_ok (cur w) l \<and> lease_order_ok l \<and> le_id l = next_key T_leases (cur w) \<and> le_org l = oid
    \<and> le_status l = ''draft''"
proof -
  note plan = assms [unfolded lease_plan_def]
  have c: "lower (strip (la_cycle a)) \<in> set billing_cycles" using plan by (auto split: if_splits)
  note plan = plan [unfolded eqTrueI [OF c] not_True_eq_False if_False]
  obtain u where u: "find_unit oid (la_unit a) (cur w) = Some u"
    using plan by (cases "find_unit oid (la_unit a) (cur w)") (simp_all add: ensure_unit_in_org_def)
  note plan = plan [unfolded ensure_unit_in_org_def u option.case sum.case]
  obtain g where g: "find_guest oid (la_guest a) (cur w) = Some g"
    using plan by (cases "find_guest oid (la_guest a) (cur w)") (simp_all add: ensure_guest_in_org_def)
  note plan = plan [unfolded ensure_guest_in_org_def g option.case sum.case]
  have r: "case la_reservation a of None \<Rightarrow> True | Some rid \<Rightarrow> find_reservation oid rid (cur w) \<noteq> None"
    using plan by (auto split: if_splits option.split)
  obtain t where t: "lease_date (Some (la_start a)) ''start_date'' = Inr t"
    using plan by (cases "lease_date (Some (la_start a)) ''start_date''") (simp_all split: if_splits)
  obtain e where e: "optional_lease_date (la_end a) ''end_date'' = Inr e"
    using plan t by (cases "optional_lease_date (la_end a) ''end_date''") (simp_all split: if_splits)
  have o: "case e of None \<Rightarrow> True | Some x \<Rightarrow> t \<le> x" using plan t e by (cases e) (auto split: if_splits)
  obtain rent where rent: "required_amount (la_rent a) e_lease_invalid = Inr rent"
    using plan t e by (cases "required_amount (la_rent a) e_lease_invalid") (simp_all split: if_splits)
  obtain dep where dep: "optional_amount (la_deposit a) e_lease_invalid = Inr dep"
    using plan t e rent by (cases "optional_amount (la_deposit a) e_lease_invalid") (simp_all split: if_splits)
  have l: "l = new_lease oid a actor t e rent dep w" using plan t e rent dep by (simp split: if_splits)
  show ?thesis
    using c u g r o required_amount_nonneg [OF rent] optional_amount_nonneg [OF dep]
    by (cases "la_reservation a"; cases e)
      (simp_all add: l new_lease_def lease_ok_def lease_refs_ok_def lease_order_ok_def lease_values_ok_def)
qed

lemma lease_updates_ok [simp]:
  "lease_refs_ok d (l\<lparr>le_updated_by := u\<rparr>) = lease_refs_ok d l" "lease_refs_ok d (l\<lparr>le_start := t\<rparr>) = lease_refs_ok d l"
  "lease_refs_ok d (l\<lparr>le_end := e\<rparr>) = lease_refs_ok d l" "lease_refs_ok d (l\<lparr>le_notes := n\<rparr>) = lease_refs_ok d l"
  "lease_refs_ok d (l\<lparr>le_cycle := c\<rparr>) = lease_refs_ok d l" "lease_refs_ok d (l\<lparr>le_status := st\<rparr>) = lease_refs_ok d l"
  "lease_refs_ok d (l\<lparr>le_rent := m\<rparr>) = lease_refs_ok d l" "lease_refs_ok d (l\<lparr>le_deposit := m\<rparr>) = lease_refs_ok d l"
  "lease_order_ok (l\<lparr>le_updated_by := u\<rparr>) = lease_order_ok l" "lease_order_ok (l\<lparr>le_status := st\<rparr>) = lease_order_ok l"
  "lease_values_ok (l\<lparr>le_updated_by := u\<rparr>) = lease_values_ok l" "lease_values_ok (l\<lparr>le_start := t\<rparr>) = lease_values_ok l"
  "lease_values_ok (l\<lparr>le_end := e\<rparr>) = lease_values_ok l" "lease_values_ok (l\<lparr>le_notes := n\<rparr>) = lease_values_ok l"
  "lease_values_ok (l\<lparr>le_unit := i\<rparr>) = lease_values_ok l" "lease_values_ok (l\<lparr>le_guest := i\<rparr>) = lease_values_ok l"
  "lease_values_ok (l\<lparr>le_reservation := r\<rparr>) = lease_values_ok l"
  "lease_order_ok (l\<lparr>le_end := Some x\<rparr>) = (le_start l \<le> x)"
  by (simp_all add: lease_refs_ok_def lease_order_ok_def lease_values_ok_def split: option.split)

lemma lease_status_ok:
  "lease_values_ok l \<Longrightarrow> st \<in> {''pending_signature'', ''active'', ''ended'', ''cancelled''} \<Longrightarrow>
     lease_values_ok (l\<lparr>le_status := st\<rparr>)"
  by (auto simp: lease_values_ok_def)

text \<open>Sending and signing change the signing columns and the status only.\<close>

lemma signing_ok:
  assumes "lease_ok d l"
  shows "lease_ok d (sent_for_signing en a l w)" "lease_ok d (signed_lease ip agent l w)"
  using assms
  by (auto simp: sent_for_signing_def signed_lease_def lease_ok_def lease_refs_ok_def lease_order_ok_def
      lease_values_ok_def split: option.splits)

lemma lease_plain_step:
  assumes "f \<in> {up_terminal data, up_draft_only data, up_start data, up_end data, up_order, up_notes data, up_cycle data}"
    and "f l = Inr l'"
  shows "l' = l \<or> (\<exists>t. l' = l\<lparr>le_start := t\<rparr>) \<or> (\<exists>e. l' = l\<lparr>le_end := e\<rparr>) \<or> (\<exists>n. l' = l\<lparr>le_notes := n\<rparr>)
    \<or> (\<exists>c\<in>set billing_cycles. l' = l\<lparr>le_cycle := c\<rparr>)"
  using assms by (auto simp: lease_step_defs Let_def split: if_splits option.splits sum.splits)

lemma lease_ref_step:
  assumes "f \<in> {up_unit oid d data, up_guest oid d data, up_reservation oid d data}" and "f l = Inr l'"
  shows "l' = l \<or> (\<exists>u. l' = l\<lparr>le_unit := u\<rparr> \<and> find_unit oid u d \<noteq> None)
    \<or> (\<exists>g. l' = l\<lparr>le_guest := g\<rparr> \<and> find_guest oid g d \<noteq> None) \<or> l' = l\<lparr>le_reservation := None\<rparr>
    \<or> (\<exists>r. l' = l\<lparr>le_reservation := Some r\<rparr> \<and> find_reservation oid r d \<noteq> None)"
  using assms
  by (auto simp: lease_step_defs ensure_unit_in_org_def ensure_guest_in_org_def Let_def
      split: if_splits option.splits sum.splits)

lemma lease_money_step:
  assumes "f \<in> {up_rent data, up_deposit data}" and "f l = Inr l'"
  shows "l' = l \<or> (\<exists>c\<ge>0. l' = l\<lparr>le_rent := c\<rparr> \<or> l' = l\<lparr>le_deposit := c\<rparr>)"
proof -
  have "l' = l \<or> (\<exists>c. required_amount (dget ''rent_amount'' data) e_lease_invalid = Inr c \<and> l' = l\<lparr>le_rent := c\<rparr>)
    \<or> (\<exists>c. optional_amount (dget ''deposit_amount'' data) e_lease_invalid = Inr c \<and> l' = l\<lparr>le_deposit := c\<rparr>)"
    using assms by (auto simp: lease_step_defs split: if_splits sum.splits)
  then show ?thesis using required_amount_nonneg optional_amount_nonneg by blast
qed

lemma lease_step_refs:
  assumes "f \<in> set (lease_fields oid d data)" and "f l = Inr l'"
    and "le_org l = oid \<and> lease_refs_ok d l \<and> lease_values_ok l"
  shows "le_org l' = oid \<and> lease_refs_ok d l' \<and> lease_values_ok l'"
proof -
  consider "f \<in> {up_terminal data, up_draft_only data, up_start data, up_end data, up_order, up_notes data, up_cycle data}"
    | "f \<in> {up_unit oid d data, up_guest oid d data, up_reservation oid d data}"
    | "f \<in> {up_rent data, up_deposit data}"
    using assms(1) by (auto simp: lease_fields_def)
  then show ?thesis
  proof cases
    case 1
    have c: "lease_values_ok (l\<lparr>le_cycle := c\<rparr>)" if "c \<in> set billing_cycles" for c
      using that assms(3) by (simp add: lease_values_ok_def)
    show ?thesis using lease_plain_step [OF 1 assms(2)] assms(3) c by auto
  next
    case 2
    have u: "lease_refs_ok d (l\<lparr>le_unit := u\<rparr>)" if "find_unit oid u d \<noteq> None" for u
      using that assms(3) by (auto simp: lease_refs_ok_def split: option.splits)
    have g: "lease_refs_ok d (l\<lparr>le_guest := g\<rparr>)" if "find_guest oid g d \<noteq> None" for g
      using that assms(3) by (auto simp: lease_refs_ok_def split: option.splits)
    have r: "lease_refs_ok d (l\<lparr>le_reservation := r\<rparr>)" if "r = None \<or> find_reservation oid (the r) d \<noteq> None" for r
      using that assms(3) by (auto simp: lease_refs_ok_def split: option.splits)
    show ?thesis using lease_ref_step [OF 2 assms(2)] assms(3) u g r by auto
  next
    case 3
    have m: "lease_values_ok (l\<lparr>le_rent := c\<rparr>)" "lease_values_ok (l\<lparr>le_deposit := c\<rparr>)" if "0 \<le> c" for c
      using that assms(3) by (simp_all add: lease_values_ok_def)
    show ?thesis using lease_money_step [OF 3 assms(2)] assms(3) m by auto
  qed
qed

text \<open>The order of the dates is checked after the dates are written and before what follows.\<close>

lemma lease_fields_order:
  assumes "run_fields (lease_fields oid d data) old = (None, l)"
  shows "lease_order_ok l"
proof -
  let ?pre = "[up_terminal data, up_draft_only data, up_unit oid d data, up_guest oid d data, up_reservation oid d data,
      up_start data, up_end data]"
  let ?post = "[up_rent data, up_deposit data, up_cycle data, up_notes data]"
  have fs: "lease_fields oid d data = ?pre @ (up_order # ?post)" by (simp add: lease_fields_def)
  obtain m where m: "run_fields (up_order # ?post) m = (None, l)"
    using assms unfolding fs run_fields_append by (auto split: prod.splits option.splits)
  then have o: "up_order m = Inr m" by (auto simp: up_order_def split: option.splits if_splits)
  then have om: "lease_order_ok m"
    by (auto simp: up_order_def lease_order_ok_def split: option.splits if_splits)
  have "lease_order_ok l"
  proof (rule run_fields_inv [where P = lease_order_ok and fs = ?post and r = m])
    show "run_fields ?post m = (None, l)" using m o by simp
    fix f s s' assume "f \<in> set ?post" "lease_order_ok s" "f s = Inr s'"
    then show "lease_order_ok s'"
      by (auto simp: lease_order_ok_def lease_step_defs Let_def split: if_splits sum.splits option.splits)
  qed (rule om)
  then show ?thesis .
qed

lemma lease_change_ok:
  assumes "lease_change en oid op w old r" and "lease_ok (cur w) old"
  shows "lease_ok (cur w) r"
proof (cases op)
  case (Update_lease lid data actor)
  then obtain l where l: "get_lease_row oid lid (cur w) = Some old" "run_fields (lease_fields oid (cur w) data) old = (None, l)"
    "r = lease_touch w old (l\<lparr>le_updated_by := Some actor\<rparr>)" using assms(1) by auto
  have oid: "le_org old = oid" using lease_scope.lookup_some [OF l(1)] by simp
  have "le_org l = oid \<and> lease_refs_ok (cur w) l \<and> lease_values_ok l"
  proof (rule run_fields_inv [OF l(2)])
    show "le_org old = oid \<and> lease_refs_ok (cur w) old \<and> lease_values_ok old"
      using oid assms(2) by (simp add: lease_ok_def)
  qed (rule lease_step_refs)
  then show ?thesis by (simp add: l(3) lease_ok_def)
next
  case (End_lease lid raw actor)
  then obtain e where e: "le_start old \<le> e"
    "r = lease_touch w old (old\<lparr>le_end := Some e, le_status := ''ended'', le_updated_by := Some actor\<rparr>)"
    using assms(1) by auto
  have "lease_values_ok (old\<lparr>le_end := Some e, le_status := ''ended''\<rparr>)"
    using lease_status_ok [of "old\<lparr>le_end := Some e\<rparr>" "''ended''"] assms(2) by (simp add: lease_ok_def)
  then show ?thesis using e assms(2) by (simp add: lease_ok_def)
qed (use assms signing_ok in \<open>auto simp: lease_ok_def intro: lease_status_ok\<close>)

text \<open>The dates of a changed lease are in order, or they are not the change's.\<close>

lemma lease_change_order:
  assumes "lease_change en oid op w old r"
  shows "lease_order_ok r \<or> (le_start r = le_start old \<and> le_end r = le_end old)"
proof (cases op)
  case (Update_lease lid data actor)
  then show ?thesis using assms lease_fields_order by auto
qed (use assms in \<open>auto simp: sent_for_signing_def signed_lease_def\<close>)

text \<open>What a refused change leaves in the session, which the API gate commits with the answer.\<close>

lemma refused_fields_ok:
  assumes "get_lease_row oid lid d = Some old" and "run_fields (lease_fields oid d data) old = (x, l)" and "lease_ok d old"
  shows "lease_ok d l"
proof -
  have "le_org l = oid \<and> lease_refs_ok d l \<and> lease_values_ok l"
  proof (rule run_fields_inv [OF assms(2)])
    show "le_org old = oid \<and> lease_refs_ok d old \<and> lease_values_ok old"
      using lease_scope.lookup_some [OF assms(1)] assms(3) by (simp add: lease_ok_def)
  qed (rule lease_step_refs)
  then show ?thesis by (simp add: lease_ok_def)
qed

lemma save_lease_session:
  "save_lease en action oid actor c old new w = (x, w') \<Longrightarrow> core (cur w') = core (com w')"
  by (auto simp: save_lease_def Let_def simp del: put_lease_def add_audit_def)

lemma update_lease_session:
  assumes "update_lease en oid lid data actor w = (x, w')" and "com w = cur w"
  shows "core (cur w') = core (com w') \<or> (\<exists>old e l. get_lease_row oid lid (cur w) = Some old \<and> x = Inl e
    \<and> run_fields (lease_fields oid (cur w) data) old = (Some e, l) \<and> cur w' = put_lease l (cur w))"
proof (cases "get_lease_row oid lid (cur w)")
  case (Some old)
  obtain e l where f: "run_fields (lease_fields oid (cur w) data) old = (e, l)" by fastforce
  show ?thesis
  proof (cases e)
    case None
    then have "save_lease en ''lease.updated'' oid actor None old l w = (x, w')"
      using assms(1) Some f by (simp add: update_lease_def)
    then show ?thesis using save_lease_session by blast
  next
    case e: (Some y)
    then have "x = Inl y" "cur w' = put_lease l (cur w)"
      using assms(1) Some f by (auto simp: update_lease_def simp del: put_lease_def)
    then show ?thesis using Some f e by blast
  qed
qed (use assms in \<open>simp add: update_lease_def\<close>)

lemma end_lease_session:
  assumes "end_lease en oid lid raw actor w = (x, w')" and "com w = cur w"
  shows "core (cur w') = core (com w')"
  using assms save_lease_session
  by (fastforce simp: end_lease_def Let_def split: option.splits if_splits sum.splits)

lemma send_lease_session:
  assumes "send_lease_for_signing en oid lid actor a w = (x, w')" and "com w = cur w"
  shows "core (cur w') = core (com w')"
proof (cases "get_lease_row oid lid (cur w)")
  case (Some old)
  show ?thesis
  proof (cases "strip (sg_recipient a) = '''' \<or> le_status old \<in> {''ended'', ''cancelled''}")
    case False
    let ?l = "sent_for_signing en a old w"
    let ?w1 = "commit (on_db (put_lease ?l) w)"
    obtain y w2 where m: "mail_signing en (strip (sg_recipient a)) (signing_context a ?l (cur ?w1)) (sg_path a) ?w1 = (y, w2)"
      by fastforce
    have c: "core (cur w2) = core (com w2)" using aside_mail_signing [OF m] by (auto simp: aside_def simp del: put_lease_def)
    show ?thesis
      using assms(1) Some False m c
      by (auto simp: send_lease_for_signing_def Let_def lease_audit_def split: sum.splits
          simp del: put_lease_def add_audit_def)
  qed (use assms Some in \<open>auto simp: send_lease_for_signing_def split: if_splits\<close>)
qed (use assms in \<open>auto simp: send_lease_for_signing_def\<close>)

lemma run_lease_session:
  assumes "run_lease en oid op w = (x, w')" and "com w = cur w"
  shows "core (cur w') = core (com w') \<or> (\<exists>lid data actor old e l. op = Update_lease lid data actor
    \<and> get_lease_row oid lid (cur w) = Some old \<and> x = Inl e
    \<and> run_fields (lease_fields oid (cur w) data) old = (Some e, l) \<and> cur w' = put_lease l (cur w))"
proof (cases op)
  case (Create_lease a actor)
  then show ?thesis
    using assms by (auto simp: create_lease_def split: sum.splits simp del: add_lease_def add_audit_def)
next
  case (Update_lease lid data actor)
  then show ?thesis using assms update_lease_session [of en oid lid data actor w x w'] by auto
next
  case (Activate_lease lid actor)
  then show ?thesis
    using assms save_lease_session by (auto simp: activate_lease_def split: option.splits if_splits)
next
  case (Cancel_lease lid actor)
  then show ?thesis
    using assms save_lease_session by (auto simp: cancel_lease_def split: option.splits if_splits)
next
  case (End_lease lid raw actor)
  then show ?thesis using assms end_lease_session by auto
next
  case (Send_lease lid actor a)
  then show ?thesis using assms send_lease_session by auto
next
  case (Sign_lease token ip agent)
  then show ?thesis
    using assms by (auto simp: sign_lease_with_token_def Let_def signed_audit_def split: option.splits if_splits
        simp del: put_lease_def add_audit_def)
qed

lemma lease_refs_cong:
  assumes "core d' = core d"
  shows "lease_refs_ok d' = lease_refs_ok d"
  using core_tables [OF assms]
  by (intro ext) (simp add: lease_refs_ok_def find_unit_def find_guest_def find_reservation_def scoped_reservations_def
      res_org_def unit_org_def unit_get_def property_org_def property_get_def split: option.split)

lemma leases_ok_core:
  assumes "core d' = core d"
  shows "leases_ok d' = leases_ok d"
  using core_tables(6,17) [OF assms] lease_refs_cong [OF assms]
  by (simp add: leases_ok_def lease_ok_def side_tables_def)

lemma lease_refs_tables [simp]:
  "lease_refs_ok (add_lease l d) = lease_refs_ok d" "lease_refs_ok (put_lease l d) = lease_refs_ok d"
  by (intro ext, simp add: lease_refs_ok_def find_unit_def find_guest_def find_reservation_def scoped_reservations_def
      res_org_def unit_org_def unit_get_def property_org_def property_get_def split: option.split)+

lemma leases_ok_add:
  assumes "leases_ok d" and "lease_ok d l" and "le_id l = next_key T_leases d"
  shows "leases_ok (add_lease l d)"
proof -
  have "keys_ok le_id (seqs (add_lease l d) T_leases) (leases (add_lease l d))"
    using assms by (intro lease_tab.ok_add) (simp_all add: leases_ok_def)
  moreover have "lease_ok (add_lease l d) k" if "k \<in> set (leases (add_lease l d))" for k
    using that assms(1,2) lease_refs_tables(1) [of l d] by (auto simp: leases_ok_def lease_ok_def)
  ultimately show ?thesis unfolding leases_ok_def by blast
qed

lemma leases_ok_put:
  assumes "leases_ok d" and "lease_ok d l"
  shows "leases_ok (put_lease l d)"
proof -
  have "keys_ok le_id (seqs (put_lease l d) T_leases) (leases (put_lease l d))"
    using assms by (intro lease_tab.ok_put) (simp add: leases_ok_def)
  moreover have "lease_ok (put_lease l d) k" if "k \<in> set (leases (put_lease l d))" for k
    using lease_tab.put_mem [OF that] assms(1,2) lease_refs_tables(2) [of l d] by (auto simp: leases_ok_def lease_ok_def)
  ultimately show ?thesis unfolding leases_ok_def by blast
qed

lemma run_lease_ok:
  assumes "run_lease en oid op w = (x, w')" and "com w = cur w" and "leases_ok (cur w)"
  shows "leases_ok (com w')"
  using run_lease_effect [OF assms(1,2)] unfolding lease_effect_def
proof (elim disjE exE conjE)
  assume "core (com w') = core (cur w)"
  then show ?thesis using leases_ok_core assms(3) by blast
next
  fix a actor l assume "lease_plan oid a actor w = Inr l" and c: "core (com w') = core (add_lease l (cur w))"
  then have "leases_ok (add_lease l (cur w))" using lease_plan_D leases_ok_add [OF assms(3)] by blast
  then show ?thesis using leases_ok_core [OF c] by simp
next
  fix old r assume ch: "lease_change en oid op w old r" and c: "core (com w') = core (put_lease r (cur w))"
  have "lease_ok (cur w) old" using lease_change_identity [OF ch] assms(3) by (simp add: leases_ok_def)
  then have "leases_ok (put_lease r (cur w))" using leases_ok_put [OF assms(3)] lease_change_ok [OF ch] by blast
  then show ?thesis using leases_ok_core [OF c] by simp
qed

lemma session_ok:
  assumes "run_lease en oid op w = (x, w')" and "com w = cur w" and "leases_ok (cur w)"
  shows "leases_ok (cur w')"
  using run_lease_session [OF assms(1,2)]
proof (elim disjE exE conjE)
  assume "core (cur w') = core (com w')"
  then show ?thesis using leases_ok_core run_lease_ok [OF assms] by blast
next
  fix lid data actor old e l
  assume g: "get_lease_row oid lid (cur w) = Some old" "run_fields (lease_fields oid (cur w) data) old = (Some e, l)"
    "cur w' = put_lease l (cur w)"
  have "lease_ok (cur w) old" using lease_scope.member [OF g(1)] assms(3) by (auto simp: leases_ok_def)
  then show ?thesis unfolding g(3) by (rule leases_ok_put [OF assms(3) refused_fields_ok [OF g(1,2)]])
qed

text \<open>Each request starts from the committed state, at any later time, for any organization. Its services commit what
  they succeed in; behind the API gate the session is committed again after the answer, whatever the answer is.\<close>

inductive lease_reachable :: "env \<Rightarrow> db \<Rightarrow> bool" for en where
  start: "leases d = [] \<Longrightarrow> lease_reachable en d"
| step: "lease_reachable en d \<Longrightarrow> cur w = d \<Longrightarrow> com w = d \<Longrightarrow> run_lease en oid op w = (x, w') \<Longrightarrow>
    lease_reachable en (com w')"
| answered: "lease_reachable en d \<Longrightarrow> cur w = d \<Longrightarrow> com w = d \<Longrightarrow> run_lease en oid op w = (x, w') \<Longrightarrow>
    lease_reachable en (cur w')"

lemma lease_reachable_ok: "lease_reachable en d \<Longrightarrow> leases_ok d"
proof (induction rule: lease_reachable.induct)
  case (start d)
  then show ?case by (simp add: leases_ok_def keys_ok_def)
next
  case (step d w oid op x w')
  then show ?case using run_lease_ok [OF step.hyps(4)] by simp
next
  case (answered d w oid op x w')
  then show ?case using session_ok [OF answered.hyps(4)] by simp
qed

text \<open>One lease followed through an operation: untouched, or the row the operation wrote.\<close>

lemma lease_followed:
  assumes "leases_ok (cur w)" and "com w = cur w" and "run_lease en oid op w = (x, w')" and "l \<in> set (leases (cur w))"
  obtains "l \<in> set (leases (com w'))"
  | r where "lease_change en oid op w l r" "r \<in> set (leases (com w'))"
  using run_lease_effect [OF assms(3,2)] unfolding lease_effect_def
proof (elim disjE exE conjE)
  assume c: "core (com w') = core (cur w)"
  show ?thesis by (rule that(1)) (simp add: core_tables(6) [OF c] assms(4))
next
  fix a actor k assume c: "core (com w') = core (add_lease k (cur w))"
  show ?thesis by (rule that(1)) (simp add: core_tables(6) [OF c] assms(4))
next
  fix old r assume ch: "lease_change en oid op w old r" and c: "core (com w') = core (put_lease r (cur w))"
  note i = lease_change_identity [OF ch]
  have t: "leases (com w') = row_put le_id r (leases (cur w))" using core_tables(6) [OF c] by simp
  show ?thesis
  proof (cases "le_id l = le_id r")
    case True
    then have "l = old" using assms(1,4) i by (auto simp: leases_ok_def keys_ok_def distinct_map inj_on_def)
    moreover have "r \<in> set (leases (com w'))" unfolding t using assms(4) True by (force simp: row_put_def)
    ultimately show ?thesis using that(2) ch by blast
  next
    case False
    then have "l \<in> set (leases (com w'))" unfolding t using row_put_other [OF assms(4)] by blast
    then show ?thesis by (rule that(1))
  qed
qed

lemma lease_order_step:
  assumes "run_lease en oid op w = (x, w')" and "com w = cur w" and "cur w = d"
    and "d' \<in> {cur w', com w'}" and "l \<in> set (leases d')"
  shows "lease_order_ok l
    \<or> (\<exists>k\<in>set (leases d). le_id k = le_id l \<and> le_start k = le_start l \<and> le_end k = le_end l)
    \<or> (\<exists>data actor e. op = Update_lease (le_id l) data actor \<and> x = Inl e)"
proof -
  have committed: ?thesis if l: "l \<in> set (leases (com w'))"
    using run_lease_effect [OF assms(1,2)] unfolding lease_effect_def
  proof (elim disjE exE conjE)
    assume c: "core (com w') = core (cur w)"
    have "l \<in> set (leases d)" using core_tables(6) [OF c] l assms(3) by simp
    then show ?thesis by blast
  next
    fix a actor k assume "lease_plan oid a actor w = Inr k" and c: "core (com w') = core (add_lease k (cur w))"
    then show ?thesis using lease_plan_D core_tables(6) [OF c] l assms(3) by auto
  next
    fix old r assume ch: "lease_change en oid op w old r" and c: "core (com w') = core (put_lease r (cur w))"
    have "l = r \<or> l \<in> set (leases d)" using core_tables(6) [OF c] l assms(3) by (auto simp: row_put_def)
    then show ?thesis using lease_change_order [OF ch] lease_change_identity [OF ch] assms(3) by auto
  qed
  show ?thesis
    using run_lease_session [OF assms(1,2)]
  proof (elim disjE exE conjE)
    assume c: "core (cur w') = core (com w')"
    have "l \<in> set (leases (com w'))" using core_tables(6) [OF c] assms(4,5) by auto
    then show ?thesis by (rule committed)
  next
    fix lid data actor old e k
    assume g: "op = Update_lease lid data actor" "get_lease_row oid lid (cur w) = Some old" "x = Inl e"
      "run_fields (lease_fields oid (cur w) data) old = (Some e, k)" "cur w' = put_lease k (cur w)"
    have "le_id k = lid"
      using lease_fields_keep [OF g(4)] lease_scope.lookup_some [OF g(2)] by (simp add: lease_identity_def)
    then have "l \<in> set (leases d) \<or> (\<exists>data actor e. op = Update_lease (le_id l) data actor \<and> x = Inl e)"
      if "l \<in> set (leases (cur w'))" using that g(1,3,5) assms(3) by (auto simp: row_put_def)
    then show ?thesis using committed assms(4,5) by (cases "d' = com w'") auto
  qed
qed

subsection \<open>Properties\<close>

text \<open>C13: Whatever operation runs in a reachable state, and whatever it answers, in what it has committed and in what
  the API gate commits after it each lease is well formed: its unit, guest and reservation exist in its own
  organization, rent and deposit are not negative, and its cycle and status are among the known ones. A lease that
  ends before it starts had the same dates before, or is the one a refused edit was about: no operation that
  succeeds puts the dates out of order.\<close>

theorem leases_well_formed:
  assumes "lease_reachable en d" and "cur w = d" and "com w = d" and "run_lease en oid op w = (x, w')"
    and "d' \<in> {cur w', com w'}" and "l \<in> set (leases d')"
  shows "find_unit (le_org l) (le_unit l) d' \<noteq> None \<and> find_guest (le_org l) (le_guest l) d' \<noteq> None
    \<and> (case le_reservation l of None \<Rightarrow> True | Some r \<Rightarrow> find_reservation (le_org l) r d' \<noteq> None)
    \<and> 0 \<le> le_rent l \<and> 0 \<le> le_deposit l
    \<and> le_cycle l \<in> {''monthly'', ''weekly'', ''one_time''}
    \<and> le_status l \<in> {''draft'', ''pending_signature'', ''active'', ''ended'', ''cancelled''}
    \<and> ((case le_end l of None \<Rightarrow> True | Some e \<Rightarrow> le_start l \<le> e)
       \<or> (\<exists>k\<in>set (leases d). le_id k = le_id l \<and> le_start k = le_start l \<and> le_end k = le_end l)
       \<or> (\<exists>data actor e. op = Update_lease (le_id l) data actor \<and> x = Inl e))"
proof -
  have "lease_reachable en d'" using lease_reachable.intros(2,3) [OF assms(1-4)] assms(5) by blast
  note ok = lease_reachable_ok [OF this]
  note s = lease_order_step [OF assms(4) _ _ assms(5,6)]
  show ?thesis
    using ok s assms(2,3,6)
    by (auto simp: leases_ok_def lease_ok_def lease_refs_ok_def lease_order_ok_def lease_values_ok_def billing_cycles_def)
qed

text \<open>C14: An ended or cancelled lease is final: no operation except the signing link changes anything of it
  but its notes and the record of who edited it when.\<close>

theorem ended_lease_is_final:
  assumes "lease_reachable en d" and "cur w = d" and "com w = d" and "run_lease en oid op w = (x, w')"
    and "l \<in> set (leases d)" and "le_status l \<in> {''ended'', ''cancelled''}"
    and "\<And>token ip agent. op \<noteq> Sign_lease token ip agent"
  shows "\<exists>l'\<in>set (leases (com w')).
    l'\<lparr>le_notes := le_notes l, le_updated_by := le_updated_by l, le_updated_at := le_updated_at l\<rparr> = l"
proof -
  have ok: "leases_ok (cur w)" using lease_reachable_ok [OF assms(1)] assms(2) by simp
  show ?thesis
  proof (rule lease_followed [OF ok _ assms(4), of l])
    fix r assume ch: "lease_change en oid op w l r" and r: "r \<in> set (leases (com w'))"
    obtain lid data actor where op: "op = Update_lease lid data actor"
      using ch assms(6,7) by (cases op) auto
    then obtain m where m: "run_fields (lease_fields oid (cur w) data) l = (None, m)"
      "r = lease_touch w l (m\<lparr>le_updated_by := Some actor\<rparr>)" using ch by auto
    have "m\<lparr>le_notes := le_notes l\<rparr> = l" by (rule lease_fields_terminal [OF m(1) assms(6)])
    then have "r\<lparr>le_notes := le_notes l, le_updated_by := le_updated_by l, le_updated_at := le_updated_at l\<rparr> = l"
      by (cases m; cases l) (auto simp: m(2) lease_touch_def)
    then show ?thesis using r by blast
  next
    assume "l \<in> set (leases (com w'))"
    then show ?thesis by (intro bexI [of _ l]) auto
  qed (use assms(2,3,5) in auto)
qed

text \<open>A signature is final: once a lease is signed, no operation changes when, from where or with what
  it was signed.\<close>

theorem signature_is_final:
  assumes "lease_reachable en d" and "cur w = d" and "com w = d" and "run_lease en oid op w = (x, w')"
    and "l \<in> set (leases d)" and "le_signed_at l \<noteq> None"
  shows "\<exists>l'\<in>set (leases (com w')). le_id l' = le_id l \<and> le_signed_at l' = le_signed_at l
    \<and> le_signed_ip l' = le_signed_ip l \<and> le_signed_user_agent l' = le_signed_user_agent l"
proof -
  have ok: "leases_ok (cur w)" using lease_reachable_ok [OF assms(1)] assms(2) by simp
  show ?thesis
  proof (rule lease_followed [OF ok _ assms(4), of l])
    fix r assume ch: "lease_change en oid op w l r" and r: "r \<in> set (leases (com w'))"
    have "lease_signature r = lease_signature l"
      using ch assms(6) lease_fields_keep by (cases op) (auto simp: sent_for_signing_def)
    then show ?thesis using r lease_change_identity [OF ch] by (auto simp: lease_signature_def)
  qed (use assms(2,3,5) in auto)
qed

text \<open>The signing link revives a lease: as long as it is unsigned, opening its link makes an ended or
  cancelled lease active again.\<close>

theorem signing_revives_lease:
  assumes "lease_by_token en token (cur w) = Some l" and "le_signed_at l = None" and "le_status l \<in> {''ended'', ''cancelled''}"
    and "sign_lease_with_token en token ip agent w = (x, w')"
  shows "\<exists>l'\<in>set (leases (com w')). le_id l' = le_id l \<and> le_status l' = ''active''"
proof -
  have l: "l \<in> set (leases (cur w))" using assms(1) by (auto simp: lease_by_token_def dest: find_Some_D)
  have "leases (com w') = row_put le_id (signed_lease ip agent l w) (leases (cur w))"
    using assms(1,2,4) by (auto simp: sign_lease_with_token_def Let_def signed_audit_def)
  moreover have "le_id (signed_lease ip agent l w) = le_id l" "le_status (signed_lease ip agent l w) = ''active''"
    by (simp_all add: signed_lease_def)
  ultimately show ?thesis using l by (force simp: row_put_def)
qed

subsection \<open>Concrete runs\<close>

definition sample_lease_args :: lease_args where
  "sample_lease_args = \<lparr>la_unit = 1, la_guest = 5, la_reservation = None, la_start = isoformat (ordinal_of 2026 2 1),
     la_end = None, la_rent = SStr (money_str 50000), la_deposit = SNone, la_cycle = ''monthly'', la_notes = None\<rparr>"

definition sample_lease :: lease where
  "sample_lease = new_lease 1 sample_lease_args 7 (ordinal_of 2026 2 1) None 50000 0 (world_of sample_db)"

definition leased_db :: db where
  "leased_db = com (snd (create_lease sample_env 1 sample_lease_args 7 (world_of sample_db)))"

lemma sample_lease_plan: "lease_plan 1 sample_lease_args 7 (world_of sample_db) = Inr sample_lease"
proof -
  have v: "valid_date (ordinal_of 2026 2 1)" by code_simp
  have d: "lease_date (Some (isoformat (ordinal_of 2026 2 1))) ''start_date'' = Inr (ordinal_of 2026 2 1)"
    by (simp add: lease_date_def strip_isoformat [OF v] fromisoformat_isoformat [OF v])
  have r: "required_amount (SStr (money_str 50000)) e_lease_invalid = Inr 50000"
    by (rule amount_of_money) (simp_all add: context_limit_def)
  have c: "lower (strip ''monthly'') = ''monthly''" by code_simp
  show ?thesis
    by (simp add: lease_plan_def sample_lease_args_def billing_cycles_def c ensure_unit_in_org_def find_unit_def
        ensure_guest_in_org_def find_guest_def property_org_def property_get_def row_get_def sample_db_def d r
        optional_lease_date_def optional_amount_def sample_lease_def)
qed

lemma leased_rows: "leases leased_db = [sample_lease]"
  by (simp add: leased_db_def create_lease_def sample_lease_plan)

lemma lease_step_from:
  assumes "lease_reachable en d"
  shows "lease_reachable en (com (snd (run_lease en oid op (world_of d))))"
  by (rule lease_reachable.step [OF assms, of "world_of d" oid op "fst (run_lease en oid op (world_of d))"]) simp_all

lemma leased_reachable: "lease_reachable sample_env leased_db"
proof -
  have "lease_reachable sample_env sample_db" by (rule lease_reachable.start) simp
  from lease_step_from [OF this, of 1 "Create_lease sample_lease_args 7"] show ?thesis by (simp add: leased_db_def)
qed

lemma sample_lease_simps [simp]:
  "le_id sample_lease = 1" "le_org sample_lease = 1" "le_status sample_lease = ''draft''" "le_unit sample_lease = 1"
  "le_start sample_lease = ordinal_of 2026 2 1" "le_token_hash sample_lease = None" "le_signed_at sample_lease = None"
  by (simp_all add: sample_lease_def new_lease_def sample_lease_args_def next_key_def)

theorem leases_well_formed_witness:
  "find_unit 1 1 leased_db \<noteq> None \<and> 0 \<le> le_rent sample_lease \<and> le_end sample_lease = None"
proof -
  have r: "lease_reachable sample_env sample_db" by (rule lease_reachable.start) simp
  obtain x w' where run: "run_lease sample_env 1 (Create_lease sample_lease_args 7) (world_of sample_db) = (x, w')"
    by fastforce
  then have "com w' = leased_db" by (simp add: leased_db_def)
  then show ?thesis
    using leases_well_formed [OF r _ _ run, of leased_db sample_lease]
    by (auto simp: leased_rows sample_lease_def new_lease_def sample_lease_args_def)
qed

text \<open>The lease is sent for signing, cancelled, and then signed by its link.\<close>

definition sample_signing :: signing_args where
  "sample_signing = \<lparr>sg_token = ''tok'', sg_filename = ''a.pdf'', sg_path = ''/a.pdf'', sg_url = ''https://x/tok'',
     sg_recipient = ''ada@example.com''\<rparr>"

definition sent_db :: db where
  "sent_db = com (snd (run_lease sample_env 1 (Send_lease 1 7 sample_signing) (world_of leased_db)))"

definition cancelled_db :: db where
  "cancelled_db = com (snd (run_lease sample_env 1 (Cancel_lease 1 7) (world_of sent_db)))"

definition signed_db :: db where
  "signed_db = com (snd (run_lease sample_env 1 (Sign_lease ''tok'' None None) (world_of sent_db)))"

lemma signing_reachable:
  "lease_reachable sample_env sent_db" "lease_reachable sample_env cancelled_db" "lease_reachable sample_env signed_db"
proof -
  show s: "lease_reachable sample_env sent_db" unfolding sent_db_def by (rule lease_step_from [OF leased_reachable])
  show "lease_reachable sample_env cancelled_db" unfolding cancelled_db_def by (rule lease_step_from [OF s])
  show "lease_reachable sample_env signed_db" unfolding signed_db_def by (rule lease_step_from [OF s])
qed

lemma sent_rows: "leases sent_db = [sent_for_signing sample_env sample_signing sample_lease (world_of leased_db)]"
proof -
  have f: "get_lease_row 1 1 leased_db = Some sample_lease" by (simp add: get_lease_row_def leased_rows)
  have t: "email_templates leased_db = []" by (simp add: leased_db_def create_lease_def sample_lease_plan)
  have r: "strip (sg_recipient sample_signing) \<noteq> ''''" by code_simp
  have m: "mail_signing en to ctx path v = (Inl EmailTemplateNotFound, v)" if "email_templates (cur v) = []" for en to ctx path v
    using that by (simp add: mail_signing_def send_template_with_attachments_now_def send_template_now_def send_template_def)
  show ?thesis
    using r by (simp add: sent_db_def send_lease_for_signing_def f Let_def m t leased_rows row_put_def sent_for_signing_def)
qed

lemma sent_token:
  "lease_by_token sample_env ''tok'' (cur (world_of sent_db)) = Some (sent_for_signing sample_env sample_signing sample_lease (world_of leased_db))"
  by (simp add: lease_by_token_def sent_rows sent_for_signing_def sample_signing_def)

lemma cancelled_rows:
  "\<exists>l. leases cancelled_db = [l] \<and> le_id l = 1 \<and> le_status l = ''cancelled'' \<and> le_signed_at l = None
    \<and> le_token_hash l = Some (sha256 sample_env ''tok'')"
proof -
  let ?s = "sent_for_signing sample_env sample_signing sample_lease (world_of leased_db)"
  have s: "le_id ?s = 1" "le_org ?s = 1" "le_status ?s = ''pending_signature''" "le_signed_at ?s = None"
    "le_token_hash ?s = Some (sha256 sample_env ''tok'')"
    by (simp_all add: sent_for_signing_def sample_signing_def)
  have f: "get_lease_row 1 1 sent_db = Some ?s" by (simp add: get_lease_row_def sent_rows s)
  show ?thesis
    by (simp add: cancelled_db_def cancel_lease_def f s save_lease_def Let_def sent_rows row_put_def)
qed

theorem ended_lease_is_final_witness:
  "\<exists>l'\<in>set (leases (com (snd (run_lease sample_env 1 (Activate_lease 1 7) (world_of cancelled_db))))).
     le_status l' = ''cancelled''"
proof -
  obtain l where l: "leases cancelled_db = [l]" "le_status l = ''cancelled''" using cancelled_rows by blast
  obtain x w' where r: "run_lease sample_env 1 (Activate_lease 1 7) (world_of cancelled_db) = (x, w')" by fastforce
  have "\<exists>l'\<in>set (leases (com w')).
      l'\<lparr>le_notes := le_notes l, le_updated_by := le_updated_by l, le_updated_at := le_updated_at l\<rparr> = l"
    by (rule ended_lease_is_final [OF signing_reachable(2) _ _ r]) (use l in simp_all)
  then obtain l' where l': "l' \<in> set (leases (com w'))"
    "l'\<lparr>le_notes := le_notes l, le_updated_by := le_updated_by l, le_updated_at := le_updated_at l\<rparr> = l" by blast
  from arg_cong [OF l'(2), of le_status] l(2) have "le_status l' = ''cancelled''" by simp
  then show ?thesis using l'(1) r by auto
qed

theorem signing_revives_lease_witness:
  "\<exists>l'\<in>set (leases (com (snd (sign_lease_with_token sample_env ''tok'' None None (world_of cancelled_db))))).
     le_status l' = ''active''"
proof -
  obtain l where l: "leases cancelled_db = [l]" "le_status l = ''cancelled''" "le_signed_at l = None"
    "le_token_hash l = Some (sha256 sample_env ''tok'')" using cancelled_rows by blast
  have t: "lease_by_token sample_env ''tok'' (cur (world_of cancelled_db)) = Some l"
    using l by (simp add: lease_by_token_def)
  obtain x w' where r: "sign_lease_with_token sample_env ''tok'' None None (world_of cancelled_db) = (x, w')" by fastforce
  from signing_revives_lease [OF t l(3) _ r] l(2) r show ?thesis by auto
qed

lemma signed_rows: "\<exists>l. leases signed_db = [l] \<and> le_id l = 1 \<and> le_signed_at l = Some sample_clock"
  using sent_token
  by (simp add: signed_db_def sign_lease_with_token_def Let_def sent_rows row_put_def signed_lease_def
      signed_audit_def sent_for_signing_def)

theorem signature_is_final_witness:
  "\<exists>l'\<in>set (leases (com (snd (run_lease sample_env 1 (Sign_lease ''tok'' (Some ''10.9.9.9'') None) (world_of signed_db))))).
     le_signed_at l' = Some sample_clock"
proof -
  obtain l where l: "leases signed_db = [l]" "le_signed_at l = Some sample_clock" using signed_rows by blast
  obtain x w' where r: "run_lease sample_env 1 (Sign_lease ''tok'' (Some ''10.9.9.9'') None) (world_of signed_db) = (x, w')"
    by fastforce
  have "\<exists>l'\<in>set (leases (com w')). le_id l' = le_id l \<and> le_signed_at l' = le_signed_at l
      \<and> le_signed_ip l' = le_signed_ip l \<and> le_signed_user_agent l' = le_signed_user_agent l"
    by (rule signature_is_final [OF signing_reachable(3) _ _ r]) (use l in simp_all)
  then show ?thesis using l(2) r by auto
qed

end
