(* ===== verification/LeaseBilling.thy ===== *)
theory LeaseBilling
  imports Invoices Leases
begin

text \<open>
  The daily lease billing job (app/billing/services.py, \<open>generate_due_lease_invoices\<close>): one
  invoice per active lease and billing period. The period is written into the metadata of the
  invoice and looked up there before the next run bills the lease again. Main facts: a lease never
  gets two invoices for a period, a lease that is due is billed or listed with its error, and what
  the job writes is an open invoice over the rent, due on the day of the run.
\<close>

subsection \<open>Periods\<close>

text \<open>\<open>str(err)\<close>. The service exceptions are dataclasses that never call \<open>Exception.__init__\<close>: no text.\<close>

fun error_text :: "exn \<Rightarrow> string" where
  "error_text (PyError InvalidOperation) = ''[<class '' @ [CHR 0x27] @ ''decimal.InvalidOperation'' @ [CHR 0x27] @ ''>]''"
| "error_text _ = ''''"

definition cycle_of :: "lease \<Rightarrow> string" where
  "cycle_of l = lower (strip (le_cycle l))"

definition billing_period :: "date \<Rightarrow> string \<Rightarrow> bool \<times> string" where
  \<comment> \<open>is a lease of this cycle due on the day, and the key of the period\<close>
  "billing_period now cycle =
     (if cycle = ''monthly'' then (day_of now = 1, fmt0 4 (year_of now) @ ''-'' @ fmt0 2 (month_of now))
      else if cycle = ''weekly'' then (weekday now = 0, fmt0 4 (iso_year now) @ ''-W'' @ fmt0 2 (iso_week now))
      else (True, ''one_time''))"

definition lease_invoices :: "int \<Rightarrow> int \<Rightarrow> db \<Rightarrow> invoice list" where
  "lease_invoices oid lid d = filter (\<lambda>i. inv_org i = oid \<and> inv_lease i = Some lid) (invoices d)"

definition has_period :: "string \<Rightarrow> invoice \<Rightarrow> bool" where
  "has_period key i \<longleftrightarrow> obj_get ''lease_billing_period'' (inv_metadata i) = Some (JStr key)"

definition period_invoices :: "int \<Rightarrow> int \<Rightarrow> string \<Rightarrow> db \<Rightarrow> invoice list" where
  "period_invoices oid lid key d = filter (has_period key) (lease_invoices oid lid d)"

text \<open>A one-time lease counts as billed when it has any invoice.\<close>

definition already_billed :: "lease \<Rightarrow> string \<Rightarrow> string \<Rightarrow> db \<Rightarrow> bool" where
  "already_billed l cycle key d \<longleftrightarrow>
     period_invoices (le_org l) (le_id l) key d \<noteq> []
     \<or> cycle = ''one_time'' \<and> lease_invoices (le_org l) (le_id l) d \<noteq> []"

subsection \<open>The job\<close>

definition cycle_invoice_args :: "date \<Rightarrow> string \<Rightarrow> lease \<Rightarrow> invoice_args" where
  "cycle_invoice_args now key l =
     \<lparr>ia_subtotal = SStr (money_str (le_rent l)), ia_due = isoformat now, ia_currency = SStr ''EUR'',
      ia_description = Some (''Lease #'' @ show_int (le_id l) @ '' ('' @ le_cycle l @ '')''),
      ia_lease = Some (le_id l), ia_reservation = le_reservation l, ia_guest = Some (le_guest l),
      ia_status = ''open'',
      ia_metadata = JObj [(''lease_billing_period'', JStr key), (''generated_by'', JStr ''lease-cycle-billing'')],
      ia_actor = Some (le_created_by l), ia_vat_rate = SNone\<rparr>"

definition cycle_audit :: "lease \<Rightarrow> string \<Rightarrow> string \<Rightarrow> audit_args" where
  "cycle_audit l key cycle =
     audit_defaults\<lparr>aa_actor_type := Some ''system'', aa_org := Some (le_org l), aa_target_type := Some ''lease'',
       aa_target_id := Some (le_id l),
       aa_metadata := Some [(''lease_id'', JInt (le_id l)), (''billing_period'', JStr key), (''billing_cycle'', JStr cycle)],
       aa_commit := True\<rparr>"

datatype billing_outcome = Billed | Not_due | Failed exn

definition bill_lease :: "env \<Rightarrow> date \<Rightarrow> lease \<Rightarrow> world \<Rightarrow> billing_outcome \<times> world" where
  "bill_lease en now l w =
     (let cycle = cycle_of l; (due, key) = billing_period now cycle in
      if cycle \<notin> set billing_cycles \<or> \<not> due \<or> already_billed l cycle key (cur w) then (Not_due, w)
      else case create_invoice en (le_org l) (cycle_invoice_args now key l) w of
        (Inl x, w1) \<Rightarrow> (Failed x, w1)
      | (Inr r, w1) \<Rightarrow> (Billed, audit_record en ''lease.cycle_invoice.created'' (cycle_audit l key cycle) w1))"

record billing_summary =
  bs_created :: nat
  bs_skipped :: nat
  bs_errors :: "(int \<times> string) list"

definition count_outcome :: "lease \<Rightarrow> billing_outcome \<Rightarrow> billing_summary \<Rightarrow> billing_summary" where
  "count_outcome l r s =
     (case r of
        Billed \<Rightarrow> s\<lparr>bs_created := bs_created s + 1\<rparr>
      | Not_due \<Rightarrow> s\<lparr>bs_skipped := bs_skipped s + 1\<rparr>
      | Failed x \<Rightarrow> s\<lparr>bs_skipped := bs_skipped s + 1, bs_errors := bs_errors s @ [(le_id l, error_text x)]\<rparr>)"

fun bill_leases :: "env \<Rightarrow> date \<Rightarrow> lease list \<Rightarrow> billing_summary \<times> world \<Rightarrow> billing_summary \<times> world" where
  "bill_leases en now [] sw = sw"
| "bill_leases en now (l # ls) (s, w) =
     (case bill_lease en now l w of (r, w1) \<Rightarrow> bill_leases en now ls (count_outcome l r s, w1))"

definition active_leases :: "db \<Rightarrow> lease list" where
  "active_leases d = filter (\<lambda>l. le_status l = ''active'') (leases d)"

definition run_day :: "date option \<Rightarrow> world \<Rightarrow> date" where
  "run_day run_date w = (case run_date of Some n \<Rightarrow> n | None \<Rightarrow> today w)"

definition generate_due_lease_invoices :: "env \<Rightarrow> date option \<Rightarrow> world \<Rightarrow> billing_summary \<times> world" where
  "generate_due_lease_invoices en run_date w =
     bill_leases en (run_day run_date w) (active_leases (cur w))
       (\<lparr>bs_created = 0, bs_skipped = 0, bs_errors = []\<rparr>, w)"

subsection \<open>What one lease adds\<close>

lemma plan_row:
  assumes "invoice_plan en oid a w = (Inr (i, rate, vat), w1)"
  obtains actor st sub due c gid v where
    "i = new_invoice oid a actor st rate vat due c gid v" "invoice_status_of (ia_status a) = Inr st"
    "required_amount (ia_subtotal a) e_inv_invalid = Inr sub" "compute_vat_lines sub rate = Inr vat"
    "invoice_date_of (Some (ia_due a)) ''due_date'' = Inr due" "invoice_refs oid a (cur v) = Inr gid"
    "cur v = cur w"
proof -
  obtain r v where r: "chosen_vat_rate en (ia_vat_rate a) w = (r, v)" by fastforce
  note w = chosen_rate_world [OF r]
  show thesis
    using assms r w(1) that unfolding invoice_plan_def
    by (auto split: option.splits sum.splits prod.splits)
qed

lemma amount_of_money_D: "required_amount (SStr (money_str c)) err = Inr x \<Longrightarrow> x = c"
proof -
  assume a: "required_amount (SStr (money_str c)) err = Inr x"
  have "money_str c \<noteq> ''''" by (simp add: money_str_def)
  then have "quantize HalfEven (DFin c (- 2)) = Some (DFin x (- 2)) \<or> (\<exists>e. quantize HalfEven (DFin c (- 2)) = Some (DFin x e))"
    using a by (simp add: required_amount_def strip_money parse_money_str Let_def del: quantize.simps
        split: option.splits decimal.splits if_splits)
  then obtain e where "quantize HalfEven (DFin c (- 2)) = Some (DFin x e)" by blast
  then show "x = c" by (auto simp: to_cents_def Let_def split: if_splits)
qed

text \<open>The invoice the job writes for a lease.\<close>

definition cycle_invoice :: "date \<Rightarrow> lease \<Rightarrow> invoice \<Rightarrow> bool" where
  "cycle_invoice now l i \<longleftrightarrow>
     inv_org i = le_org l \<and> inv_lease i = Some (le_id l) \<and> inv_guest i = Some (le_guest l) \<and> inv_status i = ''open''
     \<and> inv_due i = now \<and> (inv_subtotal i = le_rent l \<or> inv_total i = 0) \<and> has_period (snd (billing_period now (cycle_of l))) i"

lemma coerce_more [simp]:
  "inv_lease (coerce_legacy_amount i) = inv_lease i" "inv_guest (coerce_legacy_amount i) = inv_guest i"
  "inv_due (coerce_legacy_amount i) = inv_due i" "inv_metadata (coerce_legacy_amount i) = inv_metadata i"
  by (simp_all add: coerce_legacy_amount_def)

lemma cycle_plan:
  assumes "invoice_plan en (le_org l) (cycle_invoice_args now (snd (billing_period now (cycle_of l))) l) w = (Inr (i, rate, vat), w1)"
    and "valid_date now"
  shows "cycle_invoice now l i"
proof -
  let ?a = "cycle_invoice_args now (snd (billing_period now (cycle_of l))) l"
  obtain actor st sub due c gid v where
    p: "i = new_invoice (le_org l) ?a actor st rate vat due c gid v" "invoice_status_of (ia_status ?a) = Inr st"
    "required_amount (ia_subtotal ?a) e_inv_invalid = Inr sub" "compute_vat_lines sub rate = Inr vat"
    "invoice_date_of (Some (ia_due ?a)) ''due_date'' = Inr due" "invoice_refs (le_org l) ?a (cur v) = Inr gid"
    by (rule plan_row [OF assms(1)])
  have st: "st = ''open''"
  proof -
    have "invoice_status_of ''open'' = Inr ''open''" by code_simp
    then show ?thesis using p(2) by (simp add: cycle_invoice_args_def)
  qed
  have sub: "sub = le_rent l" using p(3) by (simp add: cycle_invoice_args_def amount_of_money_D)
  have due: "due = now"
    using p(5) by (simp add: cycle_invoice_args_def invoice_date_of_def strip_isoformat [OF assms(2)] fromisoformat_isoformat [OF assms(2)])
  have gid: "gid = Some (le_guest l)"
    using p(6) by (auto simp: cycle_invoice_args_def invoice_refs_def split: if_splits sum.splits)
  obtain s u t where vat: "vat = (s, u, t)" by (cases vat)
  have "s = le_rent l" using vat_lines_D [of sub rate s u t] p(4) sub vat by simp
  then show ?thesis
    unfolding cycle_invoice_def p(1)
    by (simp add: new_invoice_def vat st due gid cycle_invoice_args_def has_period_def obj_get_def)
      (simp add: coerce_legacy_amount_def)
qed

lemma create_invoice_cases:
  assumes "create_invoice en oid a w = (r, w')"
  obtains (error) x where "r = Inl x" "cur w' = cur w" "com w' = com w"
  | (made) i rate vat w1 where "r = Inr (serialize_invoice (finalize_invoice_number i))"
      "invoice_plan en oid a w = (Inr (i, rate, vat), w1)"
      "core (cur w') = core (add_invoice (finalize_invoice_number i) (cur w))"
      "core (com w') = core (add_invoice (finalize_invoice_number i) (cur w))"
proof (cases "invoice_plan en oid a w")
  case (Pair p w1)
  show thesis
  proof (cases p)
    case (Inl x)
    show thesis
      by (rule error) (use assms invoice_plan_error [of en oid a w x w1] Pair Inl in \<open>auto simp: create_invoice_def\<close>)
  next
    case (Inr q)
    obtain i0 rate vat where q: "q = (i0, rate, vat)" by (cases q)
    note d = invoice_plan_D [OF Pair [unfolded Inr q]]
    define i where "i = finalize_invoice_number i0"
    define w2 where "w2 = audit_record en ''invoice.created'' (invoice_created_audit oid (ia_actor a) i rate vat)
        (commit (on_db (add_invoice i) w1))"
    have run: "r = Inr (serialize_invoice i)" "w' = publish en ''invoice.created'' oid (build_invoice_created_payload i w2) w2"
      using assms by (simp_all add: create_invoice_def Pair Inr q Let_def i_def w2_def)
    have c: "core (cur w2) = core (add_invoice i (cur w))" "core (com w2) = core (add_invoice i (cur w))"
      using d(2) by (simp_all add: w2_def invoice_created_audit_def del: add_invoice_def add_audit_def)
    have "aside w2 w'" unfolding run(2) by (rule aside_publish)
    then have "core (cur w') = core (add_invoice i (cur w))" "core (com w') = core (add_invoice i (cur w))"
      using c by (auto simp: aside_def)
    from made [OF run(1) [unfolded i_def] Pair [unfolded Inr q] this [unfolded i_def]] show thesis .
  qed
qed

lemma cycle_finalized [simp]: "cycle_invoice now l (finalize_invoice_number i) = cycle_invoice now l i"
  by (simp add: cycle_invoice_def finalize_invoice_number_def has_period_def)

text \<open>The three outcomes for a lease.\<close>

lemma bill_lease_cases:
  assumes "bill_lease en now l w = (r, w')" and "valid_date now"
  obtains (not_due) "r = Not_due" "w' = w"
  | (failed) x where "r = Failed x" "cur w' = cur w"
  | (billed) i where "r = Billed" "cycle_invoice now l i" "core (cur w') = core (add_invoice i (cur w))"
      "\<not> already_billed l (cycle_of l) (snd (billing_period now (cycle_of l))) (cur w)"
proof -
  let ?a = "cycle_invoice_args now (snd (billing_period now (cycle_of l))) l"
  note run = assms(1) [unfolded bill_lease_def Let_def split_beta]
  show thesis
  proof (cases "cycle_of l \<notin> set billing_cycles \<or> \<not> fst (billing_period now (cycle_of l))
      \<or> already_billed l (cycle_of l) (snd (billing_period now (cycle_of l))) (cur w)")
    case True
    show thesis by (rule not_due) (use run True in \<open>auto\<close>)
  next
    case False
    obtain q w1 where c: "create_invoice en (le_org l) ?a w = (q, w1)" by fastforce
    note run = run [unfolded if_not_P [OF False] c prod.case]
    show thesis
    proof (rule create_invoice_cases [OF c])
      fix x assume "q = Inl x" "cur w1 = cur w"
      then show thesis using run failed [of x] by auto
    next
      fix i rate vat v
      assume q: "q = Inr (serialize_invoice (finalize_invoice_number i))"
        and p: "invoice_plan en (le_org l) ?a w = (Inr (i, rate, vat), v)"
        and k: "core (cur w1) = core (add_invoice (finalize_invoice_number i) (cur w))"
      note run = run [unfolded q sum.case]
      have i: "cycle_invoice now l (finalize_invoice_number i)" using cycle_plan [OF p assms(2)] by simp
      have "aside w1 w'" using run by auto
      then have "core (cur w') = core (add_invoice (finalize_invoice_number i) (cur w))" using k by (simp add: aside_def)
      from billed [OF _ i this] show thesis using False run by simp
    qed
  qed
qed

subsection \<open>The whole run\<close>

lemma step_rows:
  assumes "bill_lease en now l w = (r, w')" and "valid_date now"
  obtains new where "invoices (cur w') = invoices (cur w) @ new" "\<And>i. i \<in> set new \<Longrightarrow> cycle_invoice now l i"
    "length new = (if r = Billed then 1 else 0)" "leases (cur w') = leases (cur w)"
    "new \<noteq> [] \<Longrightarrow> \<not> already_billed l (cycle_of l) (snd (billing_period now (cycle_of l))) (cur w)"
proof (rule bill_lease_cases [OF assms])
  fix i assume r: "r = Billed" and i: "cycle_invoice now l i" and c: "core (cur w') = core (add_invoice i (cur w))"
    and n: "\<not> already_billed l (cycle_of l) (snd (billing_period now (cycle_of l))) (cur w)"
  show thesis by (rule that [of "[i]"]) (use r i n core_tables(6,7) [OF c] in simp_all)
qed (use that [of "[]"] in simp_all)

lemma period_invoices_append:
  "invoices d' = invoices d @ new \<Longrightarrow> period_invoices oid lid key d'
     = period_invoices oid lid key d @ filter (\<lambda>i. has_period key i \<and> inv_org i = oid \<and> inv_lease i = Some lid) new"
  by (simp add: period_invoices_def lease_invoices_def) (simp add: conj_ac)

lemma lease_invoices_append:
  "invoices d' = invoices d @ new \<Longrightarrow> set (lease_invoices oid lid d) \<subseteq> set (lease_invoices oid lid d')"
  by (auto simp: lease_invoices_def)

lemma already_billed_mono:
  assumes "invoices d' = invoices d @ new" and "already_billed l c k d"
  shows "already_billed l c k d'"
  using assms(2) lease_invoices_append [OF assms(1), of "le_org l" "le_id l"]
  by (auto simp: already_billed_def period_invoices_append [OF assms(1)])

lemma has_period_inj: "has_period k i \<Longrightarrow> has_period k' i \<Longrightarrow> k = k'"
  by (simp add: has_period_def)

abbreviation count_of :: "int \<Rightarrow> int \<Rightarrow> string \<Rightarrow> db \<Rightarrow> nat" where
  "count_of oid lid key d \<equiv> length (period_invoices oid lid key d)"

lemma step_count:
  assumes "bill_lease en now l w = (r, w')" and "valid_date now"
  shows "count_of oid lid key (cur w') = count_of oid lid key (cur w)
    \<or> count_of oid lid key (cur w) = 0 \<and> count_of oid lid key (cur w') = 1"
proof -
  obtain new where n: "invoices (cur w') = invoices (cur w) @ new" "\<And>i. i \<in> set new \<Longrightarrow> cycle_invoice now l i"
    "length new = (if r = Billed then 1 else 0)"
    "new \<noteq> [] \<Longrightarrow> \<not> already_billed l (cycle_of l) (snd (billing_period now (cycle_of l))) (cur w)"
    by (rule step_rows [OF assms]) blast
  let ?f = "filter (\<lambda>i. has_period key i \<and> inv_org i = oid \<and> inv_lease i = Some lid) new"
  have a: "period_invoices oid lid key (cur w') = period_invoices oid lid key (cur w) @ ?f"
    by (rule period_invoices_append [OF n(1)])
  show ?thesis
  proof (cases "?f = []")
    case False
    then obtain i where i: "i \<in> set new" "has_period key i" "inv_org i = oid" "inv_lease i = Some lid"
      by (auto simp: filter_empty_conv)
    have k: "oid = le_org l" "lid = le_id l" "key = snd (billing_period now (cycle_of l))"
      using n(2) [OF i(1)] i(2-4) has_period_inj by (auto simp: cycle_invoice_def)
    have "period_invoices oid lid key (cur w) = []" using n(4) i(1) unfolding k already_billed_def by fastforce
    moreover have "length ?f \<le> length new" by simp
    ultimately show ?thesis using a False n(3) by (cases ?f) (auto split: if_splits)
  qed (use a in simp)
qed

lemma bill_leases_count:
  assumes "bill_leases en now ls (s, w) = (s', w')" and "valid_date now"
  shows "count_of oid lid key (cur w') = count_of oid lid key (cur w)
    \<or> count_of oid lid key (cur w) = 0 \<and> count_of oid lid key (cur w') = 1"
  using assms(1)
proof (induction ls arbitrary: s w)
  case (Cons l ls)
  obtain r w1 where b: "bill_lease en now l w = (r, w1)" by fastforce
  have "bill_leases en now ls (count_outcome l r s, w1) = (s', w')" using Cons.prems b by simp
  from Cons.IH [OF this] step_count [OF b assms(2), of oid lid key] show ?case by auto
qed simp

lemma bill_leases_rows:
  assumes "bill_leases en now ls (s, w) = (s', w')" and "valid_date now"
  shows "\<exists>new. invoices (cur w') = invoices (cur w) @ new \<and> (\<forall>i\<in>set new. \<exists>l\<in>set ls. cycle_invoice now l i)
    \<and> bs_created s' = bs_created s + length new \<and> leases (cur w') = leases (cur w)"
  using assms(1)
proof (induction ls arbitrary: s w)
  case (Cons l ls)
  obtain r w1 where b: "bill_lease en now l w = (r, w1)" by fastforce
  obtain new1 where n: "invoices (cur w1) = invoices (cur w) @ new1" "\<And>i. i \<in> set new1 \<Longrightarrow> cycle_invoice now l i"
    "length new1 = (if r = Billed then 1 else 0)" "leases (cur w1) = leases (cur w)"
    by (rule step_rows [OF b assms(2)]) blast
  have run: "bill_leases en now ls (count_outcome l r s, w1) = (s', w')" using Cons.prems b by simp
  obtain new2 where m: "invoices (cur w') = invoices (cur w1) @ new2" "\<forall>i\<in>set new2. \<exists>l\<in>set ls. cycle_invoice now l i"
    "bs_created s' = bs_created (count_outcome l r s) + length new2" "leases (cur w') = leases (cur w1)"
    using Cons.IH [OF run] by blast
  have "bs_created (count_outcome l r s) = bs_created s + length new1"
    using n(3) by (simp add: count_outcome_def split: billing_outcome.split)
  then show ?case using n m by (intro exI [of _ "new1 @ new2"]) auto
qed simp

lemma count_outcome_errors:
  "set (bs_errors s) \<subseteq> set (bs_errors (count_outcome l r s))"
  by (auto simp: count_outcome_def split: billing_outcome.split)

lemma bill_leases_errors:
  "bill_leases en now ls (s, w) = (s', w') \<Longrightarrow> set (bs_errors s) \<subseteq> set (bs_errors s')"
proof (induction ls arbitrary: s w)
  case (Cons l ls)
  obtain r w1 where b: "bill_lease en now l w = (r, w1)" by fastforce
  have "bill_leases en now ls (count_outcome l r s, w1) = (s', w')" using Cons.prems b by simp
  from Cons.IH [OF this] count_outcome_errors [of s l r] show ?case by blast
qed simp

definition due_lease :: "date \<Rightarrow> lease \<Rightarrow> bool" where
  "due_lease now l \<longleftrightarrow> cycle_of l \<in> set billing_cycles \<and> fst (billing_period now (cycle_of l))"

definition lease_settled :: "date \<Rightarrow> lease \<Rightarrow> db \<Rightarrow> bool" where
  "lease_settled now l d \<longleftrightarrow> already_billed l (cycle_of l) (snd (billing_period now (cycle_of l))) d"

lemma bill_lease_idle: "\<not> due_lease now l \<or> lease_settled now l (cur w) \<Longrightarrow> bill_lease en now l w = (Not_due, w)"
  by (auto simp: bill_lease_def Let_def split_beta due_lease_def lease_settled_def)

lemma bill_lease_due:
  assumes "bill_lease en now l w = (r, w')" and "valid_date now" and "due_lease now l"
  shows "lease_settled now l (cur w') \<or> (\<exists>x. r = Failed x)"
proof (cases "lease_settled now l (cur w)")
  case True
  then show ?thesis using bill_lease_idle [of now l w en] assms(1) by simp
next
  case False
  have "r \<noteq> Not_due"
    using assms(1,3) False unfolding due_lease_def lease_settled_def
    by (auto simp: bill_lease_def Let_def split_beta split: sum.splits prod.splits if_splits)
  with assms show ?thesis
  proof (cases rule: bill_lease_cases [OF assms(1,2)])
    case (3 i)
    have "invoices (cur w') = invoices (cur w) @ [i]" using core_tables(7) [OF 3(3)] by simp
    then have "i \<in> set (period_invoices (le_org l) (le_id l) (snd (billing_period now (cycle_of l))) (cur w'))"
      using 3(2) by (simp add: period_invoices_def lease_invoices_def cycle_invoice_def)
    then show ?thesis by (auto simp: lease_settled_def already_billed_def)
  qed auto
qed

lemma settled_run:
  assumes "bill_leases en now ls (s, w) = (s', w')" and "valid_date now" and "lease_settled now l (cur w)"
  shows "lease_settled now l (cur w')"
proof -
  obtain new where "invoices (cur w') = invoices (cur w) @ new" using bill_leases_rows [OF assms(1,2)] by blast
  then show ?thesis using assms(3) unfolding lease_settled_def by (rule already_billed_mono)
qed

lemma bill_leases_due:
  assumes "bill_leases en now ls (s, w) = (s', w')" and "valid_date now" and "l \<in> set ls" and "due_lease now l"
  shows "lease_settled now l (cur w') \<or> le_id l \<in> fst ` set (bs_errors s')"
  using assms(1,3)
proof (induction ls arbitrary: s w)
  case (Cons k ls)
  obtain r w1 where b: "bill_lease en now k w = (r, w1)" by fastforce
  have run: "bill_leases en now ls (count_outcome k r s, w1) = (s', w')" using Cons.prems(1) b by simp
  show ?case
  proof (cases "k = l")
    case True
    from bill_lease_due [OF b [unfolded True] assms(2,4)] show ?thesis
    proof
      assume "lease_settled now l (cur w1)"
      then show ?thesis using settled_run [OF run assms(2)] by blast
    next
      assume "\<exists>x. r = Failed x"
      then have "le_id l \<in> fst ` set (bs_errors (count_outcome k r s))" by (auto simp: count_outcome_def True)
      then show ?thesis using bill_leases_errors [OF run] by blast
    qed
  qed (use Cons.IH [OF run] Cons.prems(2) in auto)
qed simp

lemma bill_leases_idle:
  assumes "\<And>l. l \<in> set ls \<Longrightarrow> due_lease now l \<Longrightarrow> lease_settled now l (cur w)"
  shows "snd (bill_leases en now ls (s, w)) = w \<and> bs_created (fst (bill_leases en now ls (s, w))) = bs_created s"
  using assms
proof (induction ls arbitrary: s)
  case (Cons l ls)
  have "bill_lease en now l w = (Not_due, w)" by (rule bill_lease_idle) (use Cons.prems in auto)
  then show ?case using Cons.IH [of "count_outcome l Not_due s"] Cons.prems by (simp add: count_outcome_def)
qed simp

subsection \<open>Properties\<close>

text \<open>The billing job never gives a lease a second invoice for a period: for every organization, lease and
  period key the number of invoices either stays as it is or goes from none to one. Every invoice
  it writes is an open invoice of an active lease, over its rent (unless the total is zero), to its guest, due on the day
  of the run and marked with the period.\<close>

theorem cycle_billed_once:
  assumes "generate_due_lease_invoices en run_date w = (s, w')" and "valid_date (run_day run_date w)"
  shows "(length (period_invoices oid lid key (cur w')) = length (period_invoices oid lid key (cur w))
      \<or> period_invoices oid lid key (cur w) = [] \<and> length (period_invoices oid lid key (cur w')) = 1)
    \<and> (\<exists>new. invoices (cur w') = invoices (cur w) @ new \<and> length new = bs_created s
        \<and> (\<forall>i\<in>set new. \<exists>l\<in>set (active_leases (cur w)). cycle_invoice (run_day run_date w) l i))"
  using bill_leases_count [OF assms(1) [unfolded generate_due_lease_invoices_def] assms(2), of oid lid key]
    bill_leases_rows [OF assms(1) [unfolded generate_due_lease_invoices_def] assms(2)] by auto

text \<open>C17: No lease is overlooked: after a run every active lease that is due on the day has an invoice for the
  period (a one-time lease has any invoice) or is listed among the errors; and when there was no
  error, a second run for the same day writes nothing.\<close>

theorem due_lease_is_billed:
  assumes "generate_due_lease_invoices en (Some now) w = (s, w')" and "valid_date now"
  shows "(\<forall>l\<in>set (active_leases (cur w)). due_lease now l \<longrightarrow> lease_settled now l (cur w') \<or> le_id l \<in> fst ` set (bs_errors s))
    \<and> (bs_errors s = [] \<longrightarrow> cur v = cur w' \<longrightarrow>
        snd (generate_due_lease_invoices en (Some now) v) = v
        \<and> bs_created (fst (generate_due_lease_invoices en (Some now) v)) = 0)"
proof (intro conjI impI ballI)
  note run = assms(1) [unfolded generate_due_lease_invoices_def run_day_def option.case]
  show due: "lease_settled now l (cur w') \<or> le_id l \<in> fst ` set (bs_errors s)"
    if "l \<in> set (active_leases (cur w))" "due_lease now l" for l
    by (rule bill_leases_due [OF run assms(2) that])
  assume e: "bs_errors s = []" and v: "cur v = cur w'"
  have "leases (cur w') = leases (cur w)" using bill_leases_rows [OF run assms(2)] by blast
  then have a: "active_leases (cur w') = active_leases (cur w)" by (simp add: active_leases_def)
  have "lease_settled now l (cur v)" if "l \<in> set (active_leases (cur v))" "due_lease now l" for l
    using due [of l] that e by (simp add: v a)
  from bill_leases_idle [where ls = "active_leases (cur v)", OF this]
  show "snd (generate_due_lease_invoices en (Some now) v) = v"
    "bs_created (fst (generate_due_lease_invoices en (Some now) v)) = 0"
    by (simp_all add: generate_due_lease_invoices_def run_day_def)
qed

subsection \<open>A concrete run\<close>

text \<open>An active monthly lease on the first of the month.\<close>

definition active_lease :: lease where
  "active_lease = sample_lease\<lparr>le_status := ''active''\<rparr>"

definition active_world :: world where
  "active_world = world_of (sample_db\<lparr>leases := [active_lease]\<rparr>)"

lemma active_lease_due:
  "active_leases (cur active_world) = [active_lease]" "due_lease (ordinal_of 2026 2 1) active_lease"
  "le_id active_lease = 1"
proof -
  have "lower (strip ''monthly'') = ''monthly''" by code_simp
  moreover have "day_of (ordinal_of 2026 2 1) = 1" by code_simp
  moreover have "le_cycle active_lease = ''monthly''"
    unfolding active_lease_def sample_lease_def by (simp add: new_lease_def sample_lease_args_def) code_simp
  ultimately show "due_lease (ordinal_of 2026 2 1) active_lease"
    by (simp add: due_lease_def cycle_of_def billing_cycles_def billing_period_def)
qed (simp_all add: active_leases_def active_world_def active_lease_def)

theorem cycle_billed_once_witness:
  "length (period_invoices 1 1 ''2026-02'' (cur (snd (generate_due_lease_invoices sample_env (Some (ordinal_of 2026 2 1)) active_world)))) \<le> 1"
proof -
  have v: "valid_date (run_day (Some (ordinal_of 2026 2 1)) active_world)" by (simp add: run_day_def) code_simp
  have "period_invoices 1 1 ''2026-02'' (cur active_world) = []" by (simp add: active_world_def period_invoices_def lease_invoices_def)
  then show ?thesis
    using cycle_billed_once [OF surjective_pairing v, where en = sample_env and oid = 1 and lid = 1 and key = "''2026-02''"] by auto
qed

theorem due_lease_is_billed_witness:
  "lease_settled (ordinal_of 2026 2 1) active_lease (cur (snd (generate_due_lease_invoices sample_env (Some (ordinal_of 2026 2 1)) active_world)))
    \<or> 1 \<in> fst ` set (bs_errors (fst (generate_due_lease_invoices sample_env (Some (ordinal_of 2026 2 1)) active_world)))"
proof -
  have v: "valid_date (ordinal_of 2026 2 1)" by code_simp
  show ?thesis
    using due_lease_is_billed [OF surjective_pairing v, where en = sample_env and w = active_world] active_lease_due by simp
qed

end
