(* ===== verification/Payments.thy ===== *)
theory Payments
  imports Invoices
begin

text \<open>
  Payments (app/payments): checkouts with a payment provider, the events the providers send, refunds
  and their retry, and the expiry of stale payments. The providers' network calls are
  \<open>provider_checkout\<close> and \<open>provider_refund\<close>, asked with the calls made so far. Amounts are cents; a
  stored amount is a \<open>Numeric(12, 2)\<close>, so \<open>_money\<close> leaves it alone. Main facts: the payment and its
  invoice become paid together or not at all; \<open>refund\<close> never promises more than was paid, while
  \<open>retry_refund\<close> does not check; and a late failure event undoes a successful payment.
\<close>

subsection \<open>Shared\<close>

definition e_pay :: "string \<Rightarrow> string \<Rightarrow> nat \<Rightarrow> exn" where
  "e_pay code msg status = ServiceError Payment_service code msg status"

definition e_pay_invalid :: "string \<Rightarrow> exn" where
  "e_pay_invalid msg = e_pay ''validation_error'' msg 400"

definition e_pay_not_found :: exn where
  "e_pay_not_found = e_pay ''not_found'' ''Payment not found.'' 404"

definition get_provider :: "string \<Rightarrow> exn + unit" where
  "get_provider name =
     (if name = ''stripe'' \<or> name = ''paytrail'' then Inr ()
      else Inl (e_pay_invalid ''Unsupported payment provider.''))"

definition unix_seconds :: "world \<Rightarrow> int" where
  "unix_seconds w = clock w div us_per_second"

definition effective_idempotency_key :: "int \<Rightarrow> string option \<Rightarrow> world \<Rightarrow> string" where
  "effective_idempotency_key iid key w =
     take 128 (if or_empty key \<noteq> '''' then or_empty key
               else ''checkout-'' @ show_int iid @ ''-'' @ show_int (unix_seconds w))"

text \<open>\<open>_money\<close> of a request value. A NaN passes it and raises in the comparison that follows every use.\<close>

definition money_of :: "scalar \<Rightarrow> py_error + cents" where
  "money_of raw =
     (case parse_decimal (py_str raw) of
        None \<Rightarrow> Inl InvalidOperation
      | Some d \<Rightarrow> (case quantize HalfEven d of Some (DFin c e) \<Rightarrow> Inr c | _ \<Rightarrow> Inl InvalidOperation))"

definition payment_get :: "int \<Rightarrow> db \<Rightarrow> payment option" where
  "payment_get pid d = row_get pay_id pid (payments d)"

definition invoice_get :: "int \<Rightarrow> db \<Rightarrow> invoice option" where
  "invoice_get iid d = row_get inv_id iid (invoices d)"

definition refund_sum :: "string \<Rightarrow> int \<Rightarrow> db \<Rightarrow> cents" where
  "refund_sum st pid d = (\<Sum>r\<leftarrow>filter (\<lambda>r. rf_payment r = pid \<and> rf_status r = st) (refunds d). rf_amount r)"

definition refund_totals :: "int \<Rightarrow> db \<Rightarrow> cents \<times> cents" where
  "refund_totals pid d = (refund_sum ''succeeded'' pid d, refund_sum ''pending'' pid d)"

definition refundable_outstanding_amount :: "int \<Rightarrow> db \<Rightarrow> cents" where
  "refundable_outstanding_amount pid d =
     (case payment_get pid d of
        None \<Rightarrow> 0
      | Some p \<Rightarrow>
          let out = pay_amount p - fst (refund_totals pid d) - snd (refund_totals pid d)
          in if 0 < out then out else 0)"

definition payment_status_for_refunds :: "cents \<Rightarrow> cents \<Rightarrow> string" where
  "payment_status_for_refunds amount refunded =
     (if refunded \<le> 0 then ''succeeded'' else if refunded < amount then ''partially_refunded'' else ''refunded'')"

definition pay_audit :: "string \<Rightarrow> payment \<Rightarrow> audit_args" where
  "pay_audit st p =
     audit_defaults\<lparr>aa_status := Some st, aa_org := Some (pay_org p), aa_target_type := Some ''payment'',
       aa_target_id := Some (pay_id p)\<rparr>"

subsection \<open>Expiry\<close>

definition stale_payments :: "stamp \<Rightarrow> db \<Rightarrow> payment list" where
  "stale_payments cutoff d =
     take 500 (sort_key pay_id (filter (\<lambda>p. pay_status p = ''pending'' \<and> pay_created_at p < cutoff) (payments d)))"

definition expire_one :: "env \<Rightarrow> payment \<Rightarrow> world \<Rightarrow> world" where
  "expire_one en p w =
     audit_record en ''payment.expired'' (pay_audit ''success'' p)
       (on_db (put_payment (p\<lparr>pay_status := ''expired''\<rparr>)) w)"

definition expiry_cutoff :: "env \<Rightarrow> int option \<Rightarrow> world \<Rightarrow> stamp" where
  "expiry_cutoff en max_age w =
     clock w - hours (max 1 (case max_age of Some h \<Rightarrow> h | None \<Rightarrow> pay_expiry_hours en))"

definition expire_pending_payments :: "env \<Rightarrow> int option \<Rightarrow> world \<Rightarrow> nat \<times> world" where
  "expire_pending_payments en max_age w =
     (let rows = stale_payments (expiry_cutoff en max_age w) (cur w);
          w1 = fold (expire_one en) rows w
      in (length rows, if rows = [] then w1 else commit w1))"

subsection \<open>Checkout\<close>

text \<open>
  \<open>url.format(payment_id=...)\<close>: doubled braces are braces, any other field is an error. Conversions and
  format specifications of the field itself are not modelled.
\<close>

fun format_payment_id :: "string \<Rightarrow> string \<Rightarrow> py_error + string" where
  "format_payment_id v [] = Inr []"
| "format_payment_id v (c # s) =
     (if c = CHR ''{'' \<and> starts_with ''payment_id}'' s then map_sum id (append v) (format_payment_id v (drop 11 s))
      else if c = CHR ''{'' then
        (if starts_with ''{'' s then map_sum id (Cons c) (format_payment_id v (tl s)) else Inl LookupError)
      else if c = CHR ''}'' then
        (if starts_with ''}'' s then map_sum id (Cons c) (format_payment_id v (tl s)) else Inl ValueError)
      else map_sum id (Cons c) (format_payment_id v s))"

definition fill_url :: "int \<Rightarrow> string option \<Rightarrow> py_error + string option" where
  "fill_url pid url =
     (case url of
        None \<Rightarrow> Inr None
      | Some u \<Rightarrow>
          if contains ''{payment_id}'' u then map_sum id Some (format_payment_id (show_int pid) u) else Inr (Some u))"

definition may_check_out :: "int option \<Rightarrow> invoice \<Rightarrow> db \<Rightarrow> bool" where
  \<comment> \<open>an actor the database does not know, or none at all, is not checked\<close>
  "may_check_out actor i d =
     (case actor of
        None \<Rightarrow> True
      | Some uid \<Rightarrow>
          (if uid = 0 then True
           else case user_get uid d of
             None \<Rightarrow> True
           | Some u \<Rightarrow> usr_role u = ''superadmin'' \<or> usr_org u = inv_org i))"

definition checkout_checks ::
  "env \<Rightarrow> int option \<Rightarrow> string \<Rightarrow> int option \<Rightarrow> db \<Rightarrow> exn + invoice" where
  "checkout_checks en iid provider actor d =
     (case get_provider provider of
        Inl x \<Rightarrow> Inl x
      | Inr u \<Rightarrow>
     (case (case iid of None \<Rightarrow> None | Some k \<Rightarrow> invoice_get k d) of
        None \<Rightarrow> Inl (e_pay ''not_found'' ''Invoice not found.'' 404)
      | Some i \<Rightarrow>
          if \<not> may_check_out actor i d then Inl (e_pay ''forbidden'' ''Invoice not found.'' 403)
          else if provider = ''stripe'' \<and> \<not> pay_enabled en ''stripe''
          then Inl (e_pay ''provider_disabled'' ''Stripe provider is disabled.'' 503)
          else if provider = ''paytrail'' \<and> \<not> pay_enabled en ''paytrail''
          then Inl (e_pay ''provider_disabled'' ''Paytrail provider is disabled.'' 503)
          else if inv_total i \<le> 0 then Inl (e_pay_invalid ''Invoice amount must be greater than zero.'')
          else Inr i))"

definition new_payment :: "invoice \<Rightarrow> string \<Rightarrow> string option \<Rightarrow> string option \<Rightarrow> string \<Rightarrow> world \<Rightarrow> payment" where
  "new_payment i provider ret cancel idem w =
     \<lparr>pay_id = next_key T_payments (cur w), pay_org = inv_org i, pay_invoice = Some (inv_id i),
      pay_reservation = inv_reservation i, pay_provider = provider, pay_provider_payment = None,
      pay_provider_session = None, pay_amount = inv_total i, pay_currency = inv_currency i, pay_status = ''pending'',
      pay_method = None, pay_last_error = None, pay_idem_key = Some idem, pay_return_url = ret, pay_cancel_url = cancel,
      pay_metadata = JObj [(''invoice_number'', jstr (inv_number i))], pay_created_at = clock w, pay_completed_at = None\<rparr>"

text \<open>The references in the answer: Paytrail gives one transaction id for both.\<close>

definition checkout_refs ::
  "string \<Rightarrow> string option \<times> string option \<times> string option \<Rightarrow> string option \<times> string option \<times> string option" where
  "checkout_refs provider a =
     (case a of (ref, session, url) \<Rightarrow> if provider = ''paytrail'' then (ref, ref, url) else (ref, session, url))"

definition provider_payment_taken :: "payment \<Rightarrow> db \<Rightarrow> bool" where
  "provider_payment_taken p d \<longleftrightarrow> pay_provider_payment p \<noteq> None
     \<and> (\<exists>q\<in>set (payments d). pay_id q \<noteq> pay_id p \<and> pay_provider q = pay_provider p
          \<and> pay_provider_payment q = pay_provider_payment p)"

definition store_checkout ::
  "env \<Rightarrow> string \<Rightarrow> int option \<Rightarrow> payment \<Rightarrow> string option \<times> string option \<times> string option \<Rightarrow> world
    \<Rightarrow> (exn + int \<times> string option) \<times> world" where
  "store_checkout en provider actor p answer w =
     (case checkout_refs provider answer of (ref, session, url) \<Rightarrow>
        let p1 = p\<lparr>pay_provider_payment := ref, pay_provider_session := session,
                 pay_metadata := (case pay_metadata p of JObj kvs \<Rightarrow> JObj (kvs @ [(''provider'', JStr provider)]) | j \<Rightarrow> j)\<rparr>
        in if provider_payment_taken p1 (cur w) then (Inl (PyError IntegrityError), rollback w)
           else (Inr (pay_id p1, url),
             audit_record en ''payment.checkout_created''
               ((pay_audit ''success'' p1)\<lparr>aa_actor_id := actor, aa_commit := True\<rparr>)
               (commit (on_db (put_payment p1) w))))"

definition create_checkout ::
  "env \<Rightarrow> int option \<Rightarrow> string \<Rightarrow> string option \<Rightarrow> string option \<Rightarrow> int option \<Rightarrow> string option \<Rightarrow> world
    \<Rightarrow> (exn + int \<times> string option) \<times> world" where
  "create_checkout en iid provider ret cancel actor key w =
     (case checkout_checks en iid provider actor (cur w) of
        Inl x \<Rightarrow> (Inl x, w)
      | Inr i \<Rightarrow>
          let idem = effective_idempotency_key (inv_id i) key w; p = new_payment i provider ret cancel idem w
          in if \<exists>q\<in>set (payments (cur w)). pay_idem_key q = Some idem
             then (Inl (PyError IntegrityError), rollback w)
             else
               let w1 = on_db (add_payment p) w
               in case (fill_url (pay_id p) ret, fill_url (pay_id p) cancel) of
                    (Inl x, _) \<Rightarrow> (Inl (PyError x), w1)
                  | (Inr r, Inl x) \<Rightarrow> (Inl (PyError x), w1)
                  | (Inr r, Inr c) \<Rightarrow>
                      let p1 = p\<lparr>pay_return_url := r, pay_cancel_url := c\<rparr>;
                          w2 = call_out (ProviderCheckout provider (pay_id p) idem) (on_db (put_payment p1) w1)
                      in case provider_checkout en (out w2) of
                           Inl x \<Rightarrow> (Inl (PyError x), w2)
                         | Inr answer \<Rightarrow> store_checkout en provider actor p1 answer w2)"

definition get_payment_for_org :: "int \<Rightarrow> int \<Rightarrow> db \<Rightarrow> exn + payment" where
  "get_payment_for_org pid oid d =
     (case List.find (\<lambda>p. pay_id p = pid \<and> pay_org p = oid) (payments d) of
        None \<Rightarrow> Inl e_pay_not_found | Some p \<Rightarrow> Inr p)"

subsection \<open>Events of the providers\<close>

record pay_event =
  ev_type :: string
  ev_payment :: json
  ev_session :: json
  ev_method :: json
  ev_error :: json
  ev_refund :: json

definition no_event :: pay_event where
  "no_event = \<lparr>ev_type = '''', ev_payment = JNull, ev_session = JNull, ev_method = JNull, ev_error = JNull, ev_refund = JNull\<rparr>"

text \<open>\<open>d.get(k)\<close>, and \<open>x or {}\<close> used as a dictionary; anything but a dictionary has no \<open>get\<close>.\<close>

definition dict_get :: "string \<Rightarrow> json \<Rightarrow> py_error + json" where
  "dict_get k j = (case j of JObj kvs \<Rightarrow> Inr (case map_of kvs k of None \<Rightarrow> JNull | Some v \<Rightarrow> v) | _ \<Rightarrow> Inl AttributeError)"

definition or_dict :: "json \<Rightarrow> json" where "or_dict j = (if json_truthy j then j else JObj [])"

text \<open>\<open>(x or 0) / 100\<close> of an amount in cents, which nobody reads: only that it is a number counts here.\<close>

definition cents_readable :: "json \<Rightarrow> bool" where
  "cents_readable j \<longleftrightarrow> (case j of JInt i \<Rightarrow> True | JBool b \<Rightarrow> True | _ \<Rightarrow> \<not> json_truthy j)"

definition stripe_object :: "json \<Rightarrow> py_error + json" where
  "stripe_object payload =
     (case dict_get ''data'' payload of
        Inl x \<Rightarrow> Inl x
      | Inr dt \<Rightarrow> (case dict_get ''object'' (or_dict dt) of Inl x \<Rightarrow> Inl x | Inr ob \<Rightarrow> Inr (or_dict ob)))"

definition stripe_event :: "json \<Rightarrow> py_error + pay_event" where
  "stripe_event payload =
     (case dict_get ''type'' payload of
        Inl x \<Rightarrow> Inl x
      | Inr ty \<Rightarrow>
     (case stripe_object payload of
        Inl x \<Rightarrow> Inl x
      | Inr ob \<Rightarrow>
          let kind = json_str (json_or ty (JStr '''')) in
          if kind = ''checkout.session.completed'' then
            (case ob of
               JObj kvs \<Rightarrow>
                 if \<not> cents_readable (pget ob ''amount_total'') then Inl TypeError
                 else Inr (no_event\<lparr>ev_type := ''payment.succeeded'', ev_payment := pget ob ''payment_intent'',
                   ev_session := pget ob ''id'', ev_method := JStr ''card''\<rparr>)
             | _ \<Rightarrow> Inl AttributeError)
          else if kind = ''payment_intent.payment_failed'' then
            (case ob of
               JObj kvs \<Rightarrow>
                 (case dict_get ''message'' (or_dict (pget ob ''last_payment_error'')) of
                    Inl x \<Rightarrow> Inl x
                  | Inr m \<Rightarrow> Inr (no_event\<lparr>ev_type := ''payment.failed'', ev_payment := pget ob ''id'',
                      ev_error := json_or m (JStr ''payment_failed'')\<rparr>))
             | _ \<Rightarrow> Inl AttributeError)
          else if kind = ''charge.refunded'' then
            (case ob of
               JObj kvs \<Rightarrow>
                 if \<not> cents_readable (pget ob ''amount_refunded'') then Inl TypeError
                 else Inr (no_event\<lparr>ev_type := ''refund.succeeded'',
                   ev_payment := json_or (pget ob ''payment_intent'') (pget ob ''id''), ev_refund := pget ob ''id''\<rparr>)
             | _ \<Rightarrow> Inl AttributeError)
          else Inr (no_event\<lparr>ev_type := ''unknown''\<rparr>)))"

definition paytrail_event :: "(string \<times> string) list \<Rightarrow> pay_event" where
  \<comment> \<open>the query of the callback\<close>
  "paytrail_event query =
     (let q = (\<lambda>k. case map_of query k of None \<Rightarrow> JNull | Some v \<Rightarrow> JStr v);
          status = lower (json_str (json_or (q ''checkout-status'') (JStr '''')));
          txn = q ''checkout-transaction-id''
      in if status = ''ok'' then no_event\<lparr>ev_type := ''payment.succeeded'', ev_payment := txn, ev_session := txn, ev_method := JStr ''other''\<rparr>
         else if status = ''fail'' then no_event\<lparr>ev_type := ''payment.failed'', ev_payment := txn, ev_session := txn,
           ev_error := json_or (q ''checkout-provider'') (JStr ''payment_failed'')\<rparr>
         else no_event\<lparr>ev_type := ''invalid_status'', ev_error := JStr ''invalid_checkout_status''\<rparr>)"

definition resolve_payment :: "string \<Rightarrow> pay_event \<Rightarrow> db \<Rightarrow> payment option" where
  "resolve_payment provider e d =
     (let by = (\<lambda>get ref. if json_truthy ref
              then List.find (\<lambda>p. pay_provider p = provider \<and> get p = Some (json_str ref)) (payments d) else None)
      in case by pay_provider_payment (ev_payment e) of
           Some p \<Rightarrow> Some p
         | None \<Rightarrow> by pay_provider_session (ev_session e))"

definition invoice_and_payment :: "payment \<Rightarrow> json" where
  "invoice_and_payment p = JObj [(''invoice_id'', jint (pay_invoice p)), (''payment_id'', JInt (pay_id p))]"

definition succeeded_payment :: "pay_event \<Rightarrow> payment \<Rightarrow> world \<Rightarrow> payment" where
  "succeeded_payment e p w =
     p\<lparr>pay_status := ''succeeded'', pay_completed_at := Some (clock w),
       pay_method := (if json_truthy (ev_method e) then Some (json_str (ev_method e)) else pay_method p)\<rparr>"

text \<open>The receipt; whatever it raises is swallowed.\<close>

definition mail_receipt :: "env \<Rightarrow> payment \<Rightarrow> world \<Rightarrow> world" where
  "mail_receipt en p w =
     (case (case pay_invoice p of None \<Rightarrow> None | Some k \<Rightarrow> invoice_get k (cur w)) of
        None \<Rightarrow> w
      | Some i \<Rightarrow>
     (case (case inv_guest i of None \<Rightarrow> None | Some g \<Rightarrow> guest_get g (cur w)) of
        None \<Rightarrow> w
      | Some g \<Rightarrow>
          if or_empty (g_email g) = '''' then w
          else snd (send_template en ''payment_received'' (or_empty (g_email g))
            [(''invoice_number'', JStr (if or_empty (inv_number i) = '''' then ''#'' @ show_int (inv_id i) else or_empty (inv_number i))),
             (''amount'', JStr (money_str (pay_amount p))), (''currency'', JStr (pay_currency p))] w)))"

definition pay_linked_invoice :: "env \<Rightarrow> payment \<Rightarrow> world \<Rightarrow> (exn + json) \<times> world" where
  "pay_linked_invoice en p w =
     (case pay_invoice p of
        None \<Rightarrow> (Inl e_inv_not_found, w)
      | Some k \<Rightarrow> mark_invoice_paid en (pay_org p) k None w)"

definition payment_succeeded :: "env \<Rightarrow> pay_event \<Rightarrow> payment \<Rightarrow> world \<Rightarrow> (exn + unit) \<times> world" where
  "payment_succeeded en e p w =
     (if pay_status p = ''succeeded'' then (Inr (), w)
      else
        let p1 = succeeded_payment e p w in
        case pay_linked_invoice en p1 (on_db (put_payment p1) w) of
          (Inl x, w1) \<Rightarrow> (Inl x, w1)
        | (Inr j, w1) \<Rightarrow>
            let w2 = audit_record en ''payment.received'' ((pay_audit ''success'' p1)\<lparr>aa_commit := True\<rparr>) (commit w1);
                w3 = publish en ''invoice.paid'' (pay_org p1) (invoice_and_payment p1) w2
            in (Inr (), mail_receipt en p1 w3))"

definition payment_failed :: "env \<Rightarrow> pay_event \<Rightarrow> payment \<Rightarrow> world \<Rightarrow> (exn + unit) \<times> world" where
  "payment_failed en e p w =
     (if pay_status p = ''failed'' then (Inr (), w)
      else
        let p1 = p\<lparr>pay_status := ''failed'', pay_last_error := Some (json_str (json_or (ev_error e) (JStr ''payment_failed'')))\<rparr>
        in (Inr (), audit_record en ''payment.failed'' ((pay_audit ''failure'' p1)\<lparr>aa_commit := True\<rparr>)
             (commit (on_db (put_payment p1) w))))"

text \<open>The refund an event is about: by the provider's id, else the oldest pending one.\<close>

definition event_refund :: "pay_event \<Rightarrow> payment \<Rightarrow> db \<Rightarrow> payment_refund option" where
  "event_refund e p d =
     (let own = filter (\<lambda>r. rf_payment r = pay_id p) (refunds d);
          named = (if json_truthy (ev_refund e)
                   then List.find (\<lambda>r. rf_provider_refund r = Some (json_str (ev_refund e))) own else None)
      in case named of
           Some r \<Rightarrow> Some r
         | None \<Rightarrow> (case sort_key rf_id (filter (\<lambda>r. rf_status r = ''pending'') own) of [] \<Rightarrow> None | r # rs \<Rightarrow> Some r))"

definition completed_refund :: "pay_event \<Rightarrow> payment_refund \<Rightarrow> world \<Rightarrow> payment_refund" where
  "completed_refund e r w =
     r\<lparr>rf_status := ''succeeded'',
       rf_provider_refund := (if json_truthy (ev_refund e) then Some (json_str (ev_refund e)) else rf_provider_refund r),
       rf_completed_at := Some (clock w), rf_last_error := None\<rparr>"

definition refund_succeeded :: "env \<Rightarrow> pay_event \<Rightarrow> payment \<Rightarrow> world \<Rightarrow> (exn + unit) \<times> world" where
  "refund_succeeded en e p w =
     (let w1 = (case event_refund e p (cur w) of
                  None \<Rightarrow> w | Some r \<Rightarrow> on_db (put_refund (completed_refund e r w)) w);
          p1 = p\<lparr>pay_status := payment_status_for_refunds (pay_amount p) (fst (refund_totals (pay_id p) (cur w1)))\<rparr>;
          w2 = audit_record en ''payment.refund_completed'' ((pay_audit ''success'' p1)\<lparr>aa_commit := True\<rparr>)
                 (commit (on_db (put_payment p1) w1))
      in (Inr (), publish en ''invoice.refunded'' (pay_org p1) (invoice_and_payment p1) w2))"

definition handle_webhook_event :: "env \<Rightarrow> string \<Rightarrow> pay_event \<Rightarrow> world \<Rightarrow> (exn + unit) \<times> world" where
  "handle_webhook_event en provider e w =
     (case resolve_payment provider e (cur w) of
        None \<Rightarrow> (Inr (), w)
      | Some p \<Rightarrow>
          if ev_type e = ''payment.succeeded'' then payment_succeeded en e p w
          else if ev_type e = ''payment.failed'' then payment_failed en e p w
          else if ev_type e = ''refund.succeeded'' then refund_succeeded en e p w
          else (Inr (), w))"

subsection \<open>Refunds\<close>

definition may_refund :: "int option \<Rightarrow> payment \<Rightarrow> db \<Rightarrow> exn + unit" where
  "may_refund actor p d =
     (case (case actor of None \<Rightarrow> None | Some u \<Rightarrow> user_get u d) of
        None \<Rightarrow> Inl (e_pay ''forbidden'' ''Admin permission required.'' 403)
      | Some u \<Rightarrow>
          if usr_role u \<notin> {''admin'', ''superadmin''} then Inl (e_pay ''forbidden'' ''Admin permission required.'' 403)
          else if usr_role u \<noteq> ''superadmin'' \<and> usr_org u \<noteq> pay_org p
          then Inl (e_pay ''forbidden'' ''Payment not found.'' 403)
          else Inr ())"

definition refund_audit :: "string \<Rightarrow> payment \<Rightarrow> payment_refund \<Rightarrow> audit_args" where
  "refund_audit st p r =
     audit_defaults\<lparr>aa_status := Some st, aa_org := Some (pay_org p), aa_target_type := Some ''payment_refund'',
       aa_target_id := Some (rf_id r)\<rparr>"

text \<open>The answer of the provider: Paytrail only ever says pending.\<close>

definition refund_answer :: "string \<Rightarrow> string \<Rightarrow> string option \<times> string \<Rightarrow> string option \<times> string" where
  "refund_answer provider idem a =
     (if provider = ''paytrail'' then (Some (if or_empty (fst a) = '''' then idem else or_empty (fst a)), ''pending'')
      else (fst a, if snd a = ''succeeded'' then ''succeeded'' else if snd a = ''failed'' then ''failed'' else ''pending''))"

definition new_refund :: "payment \<Rightarrow> cents \<Rightarrow> string option \<Rightarrow> string \<Rightarrow> int option \<Rightarrow> world \<Rightarrow> payment_refund" where
  "new_refund p amount reason idem actor w =
     \<lparr>rf_id = next_key T_refunds (cur w), rf_payment = pay_id p, rf_amount = amount, rf_reason = reason,
      rf_provider_refund = None, rf_status = ''pending'', rf_idem_key = Some idem, rf_last_error = None,
      rf_actor = actor, rf_completed_at = None\<rparr>"

text \<open>
  The part \<open>refund\<close> and \<open>retry_refund\<close> share: the row, the call and its outcome. \<open>retry\<close> is the extra
  metadata of the failure rows, \<open>fin\<close> the action and metadata of the row on success.
\<close>

definition start_refund ::
  "env \<Rightarrow> payment \<Rightarrow> payment_refund \<Rightarrow> string \<Rightarrow> int option \<Rightarrow> (string \<times> json) list
    \<Rightarrow> string \<times> (string \<times> json) list option \<Rightarrow> world \<Rightarrow> (exn + int \<times> string) \<times> world" where
  "start_refund en p r idem actor retry fin w =
     (if \<exists>q\<in>set (refunds (cur w)). rf_idem_key q = Some idem then (Inl (PyError IntegrityError), rollback w)
      else
        let w1 = on_db (add_refund r) w in
        case get_provider (pay_provider p) of
          Inl x \<Rightarrow> (Inl x, w1)
        | Inr u \<Rightarrow>
            let w2 = call_out (ProviderRefund (pay_provider p) (rf_amount r) idem) w1 in
            case provider_refund en (out w2) of
              Inl err \<Rightarrow>
                let r1 = r\<lparr>rf_status := ''failed'', rf_last_error := Some (take 500 err)\<rparr>;
                    a = (refund_audit ''failure'' p r1)\<lparr>aa_metadata := Some ((''reason'', JStr ''provider_error'') # retry),
                          aa_commit := True\<rparr>
                in (Inr (rf_id r1, rf_status r1),
                    commit (audit_record en ''payment.refund_failed'' a (on_db (put_refund r1) w2)))
            | Inr answer \<Rightarrow>
                (case refund_answer (pay_provider p) idem answer of (rid, st) \<Rightarrow>
                   let r1 = r\<lparr>rf_provider_refund := rid, rf_status := st,
                            rf_last_error := (if st = ''failed'' then Some ''refund_failed'' else None)\<rparr>;
                       w3 = on_db (put_refund r1) w2;
                       w4 = (if st = ''failed''
                             then audit_record en ''payment.refund_failed''
                               ((refund_audit ''failure'' p r1)\<lparr>aa_metadata := Some ((''reason'', JStr ''provider_failed'') # retry)\<rparr>) w3
                             else w3)
                   in (Inr (rf_id r1, rf_status r1),
                       audit_record en (fst fin)
                         ((refund_audit ''success'' p r1)\<lparr>aa_actor_id := actor, aa_metadata := snd fin, aa_commit := True\<rparr>)
                         (commit w4))))"

definition refund_idem :: "int \<Rightarrow> string option \<Rightarrow> world \<Rightarrow> string" where
  "refund_idem pid key w =
     take 128 (if or_empty key \<noteq> '''' then or_empty key
               else ''refund-'' @ show_int pid @ ''-'' @ show_int (unix_seconds w))"

text \<open>A refund stored under the key of the request, of whichever payment.\<close>

definition earlier_refund :: "string option \<Rightarrow> string \<Rightarrow> db \<Rightarrow> payment_refund option" where
  "earlier_refund key idem d =
     (if or_empty key = '''' then None else List.find (\<lambda>r. rf_idem_key r = Some idem) (refunds d))"

definition refund ::
  "env \<Rightarrow> int \<Rightarrow> scalar \<Rightarrow> string option \<Rightarrow> int option \<Rightarrow> string option \<Rightarrow> world
    \<Rightarrow> (exn + int \<times> string) \<times> world" where
  "refund en pid raw reason actor key w =
     (case payment_get pid (cur w) of
        None \<Rightarrow> (Inl e_pay_not_found, w)
      | Some p \<Rightarrow>
     (case may_refund actor p (cur w) of
        Inl x \<Rightarrow> (Inl x, w)
      | Inr u \<Rightarrow>
          if pay_status p \<notin> {''succeeded'', ''partially_refunded''}
          then (Inl (e_pay_invalid ''Only succeeded payments can be refunded.''), w)
          else case money_of raw of
            Inl x \<Rightarrow> (Inl (PyError x), w)
          | Inr amount \<Rightarrow>
              if amount \<le> 0 then (Inl (e_pay_invalid ''Refund amount must be greater than zero.''), w)
              else
                let idem = refund_idem pid key w; text = strip (or_empty reason) in
                case earlier_refund key idem (cur w) of
                  Some old \<Rightarrow>
                    if rf_amount old = amount \<and> strip (or_empty (rf_reason old)) = text
                    then (Inr (rf_id old, rf_status old), w)
                    else (Inl (e_pay ''idempotency_key_conflict''
                      ''This Idempotency-Key has already been used with different parameters.'' 409), w)
                | None \<Rightarrow>
                    if pay_amount p - fst (refund_totals pid (cur w)) - snd (refund_totals pid (cur w)) < amount
                    then (Inl (e_pay_invalid ''Refund amount exceeds remaining payment amount.''), w)
                    else start_refund en p (new_refund p amount (none_if_empty text) idem actor w) idem actor []
                      (''payment.refund_initiated'', None) w))"

definition retry_refund :: "env \<Rightarrow> int \<Rightarrow> int \<Rightarrow> world \<Rightarrow> (exn + int \<times> string) \<times> world" where
  "retry_refund en rid actor w =
     (case row_get rf_id rid (refunds (cur w)) of
        None \<Rightarrow> (Inl (e_pay ''not_found'' ''Refund not found.'' 404), w)
      | Some old \<Rightarrow>
          if rf_status old \<noteq> ''failed'' then (Inl (e_pay_invalid ''Only failed refunds can be retried.''), w)
          else case payment_get (rf_payment old) (cur w) of
            None \<Rightarrow> (Inl e_pay_not_found, w)
          | Some p \<Rightarrow>
              (case may_refund (Some actor) p (cur w) of
                 Inl x \<Rightarrow> (Inl x, w)
               | Inr u \<Rightarrow>
                   let idem = take 128 (''retry-refund-'' @ show_int rid @ ''-'' @ show_int (unix_seconds w))
                   in start_refund en p (new_refund p (rf_amount old) (rf_reason old) idem (Some actor) w) idem (Some actor)
                        [(''retry_of'', JInt rid)] (''payment.refund_retried'', Some [(''original_refund_id'', JInt rid)]) w))"

subsection \<open>Refund totals\<close>

definition refunded :: "int \<Rightarrow> db \<Rightarrow> cents" where
  "refunded pid d = fst (refund_totals pid d) + snd (refund_totals pid d)"

definition promised :: "payment_refund \<Rightarrow> bool" where
  "promised r \<longleftrightarrow> rf_status r = ''succeeded'' \<or> rf_status r = ''pending''"

lemma refunded_cong: "refunds d' = refunds d \<Longrightarrow> refunded pid d' = refunded pid d"
  by (simp add: refunded_def refund_totals_def refund_sum_def)

lemma refunded_snoc:
  "refunds d' = refunds d @ [r] \<Longrightarrow>
     refunded pid d' = refunded pid d + (if rf_payment r = pid \<and> promised r then rf_amount r else 0)"
  by (auto simp: refunded_def refund_totals_def refund_sum_def promised_def)

lemma row_put_last:
  assumes "key r' = key r" and "\<forall>x\<in>set rs. key x \<noteq> key r"
  shows "row_put key r' (rs @ [r]) = rs @ [r']"
  using row_put_absent [of rs key r'] assms by (simp add: row_put_def)

lemma pay_audit_keeps [simp]: "aa_commit (pay_audit st p) = False"
  by (simp add: pay_audit_def audit_defaults_def)

lemma refund_audit_keeps [simp]: "aa_commit (refund_audit st p r) = False"
  by (simp add: refund_audit_def audit_defaults_def)

text \<open>The rows after a refund was started.\<close>

lemma start_refund_rows:
  assumes "start_refund en p r idem actor retry fin w = (x, w')" and "com w = cur w"
    and "keys_ok rf_id (seqs (cur w) T_refunds) (refunds (cur w))" and "rf_id r = next_key T_refunds (cur w)"
  shows "refunds (cur w') = refunds (cur w)
    \<or> (\<exists>r'. refunds (cur w') = refunds (cur w) @ [r'] \<and> rf_payment r' = rf_payment r \<and> rf_amount r' = rf_amount r)"
proof -
  have f: "\<forall>y\<in>set (refunds (cur w)). rf_id y \<noteq> rf_id r"
    using refund_tab.fresh [OF assms(3)] assms(4) by auto
  have put: "row_put rf_id r' (refunds (cur w) @ [r]) = refunds (cur w) @ [r']" if "rf_id r' = rf_id r" for r'
    by (rule row_put_last [OF that f])
  show ?thesis
    using assms(1,2) unfolding start_refund_def Let_def
    by (auto simp: put split: if_splits sum.splits prod.splits)
qed

lemma start_refund_done:
  assumes "start_refund en p r idem actor retry fin w = (Inr (k, st), w')"
    and put: "\<And>r'. rf_id r' = rf_id r \<Longrightarrow> row_put rf_id r' (refunds (cur w) @ [r]) = refunds (cur w) @ [r']"
  shows "\<exists>r'. refunds (com w') = refunds (cur w) @ [r'] \<and> rf_payment r' = rf_payment r \<and> rf_amount r' = rf_amount r
    \<and> rf_status r' = st \<and> st \<in> {''succeeded'', ''pending'', ''failed''}"
proof -
  have fresh: "\<not> (\<exists>q\<in>set (refunds (cur w)). rf_idem_key q = Some idem)"
    using assms(1) unfolding start_refund_def by (simp split: if_splits)
  note run = assms(1) [unfolded start_refund_def if_not_P [OF fresh] Let_def]
  obtain u where "get_provider (pay_provider p) = Inr u" using run by (cases "get_provider (pay_provider p)") simp_all
  note run = run [unfolded this sum.case]
  let ?o = "provider_refund en (out (call_out (ProviderRefund (pay_provider p) (rf_amount r) idem) (on_db (add_refund r) w)))"
  show ?thesis
  proof (cases ?o)
    case (Inl err)
    show ?thesis using run [unfolded Inl sum.case] by (auto simp: put)
  next
    case (Inr answer)
    obtain rid s where a: "refund_answer (pay_provider p) idem answer = (rid, s)" by fastforce
    have s: "s \<in> {''succeeded'', ''pending'', ''failed''}" using a by (auto simp: refund_answer_def split: if_splits)
    show ?thesis using run [unfolded Inr sum.case a prod.case] s by (auto simp: put split: if_splits)
  qed
qed

lemma refund_cases:
  assumes "refund en pid raw reason actor key w = (x, w')"
  obtains (same) "w' = w"
  | (started) p amount idem where "payment_get pid (cur w) = Some p" "may_refund actor p (cur w) = Inr ()"
      "pay_status p = ''succeeded'' \<or> pay_status p = ''partially_refunded''" "0 < amount"
      "refunded pid (cur w) + amount \<le> pay_amount p"
      "start_refund en p (new_refund p amount (none_if_empty (strip (or_empty reason))) idem actor w) idem actor []
         (''payment.refund_initiated'', None) w = (x, w')"
proof (cases "payment_get pid (cur w)")
  case None
  then show thesis using assms same by (simp add: refund_def)
next
  case (Some p)
  note plan = assms [unfolded refund_def Some option.case]
  show thesis
  proof (cases "may_refund actor p (cur w)")
    case (Inl e)
    then show thesis using plan same by simp
  next
    case (Inr u)
    note plan = plan [unfolded Inr sum.case]
    show thesis
    proof (cases "pay_status p \<notin> {''succeeded'', ''partially_refunded''}")
      case True
      then show thesis using plan same by simp
    next
      case ok: False
      note plan = plan [unfolded if_not_P [OF ok]]
      show thesis
      proof (cases "money_of raw")
        case (Inl e)
        then show thesis using plan same by simp
      next
        case (Inr amount)
        note plan = plan [unfolded Inr sum.case]
        show thesis
        proof (cases "earlier_refund key (refund_idem pid key w) (cur w)")
          case (Some old)
          then show thesis using plan same by (simp add: Let_def split: if_splits)
        next
          case None
          show thesis
            using plan None same started [OF Some _ _ _ _, of amount "refund_idem pid key w"] \<open>may_refund actor p (cur w) = Inr u\<close> ok
            by (auto simp: Let_def refunded_def split: if_splits)
        qed
      qed
    qed
  qed
qed

text \<open>\<open>refund\<close> never promises more than was paid: after it, the pending and completed refunds of any
  payment together are at most its amount, or what they were before.\<close>

theorem refund_within_payment:
  assumes "refund en pid raw reason actor key w = (x, w')" and "com w = cur w"
    and "keys_ok rf_id (seqs (cur w) T_refunds) (refunds (cur w))" and "payment_get q (cur w) = Some p"
  shows "refunded q (cur w') \<le> max (refunded q (cur w)) (pay_amount p)"
proof (rule refund_cases [OF assms(1)])
  fix p' amount idem
  let ?r = "new_refund p' amount (none_if_empty (strip (or_empty reason))) idem actor w"
  assume p': "payment_get pid (cur w) = Some p'" and a: "0 < amount" "refunded pid (cur w) + amount \<le> pay_amount p'"
    and st: "start_refund en p' ?r idem actor [] (''payment.refund_initiated'', None) w = (x, w')"
  have id: "rf_id ?r = next_key T_refunds (cur w)" "rf_payment ?r = pid" "rf_amount ?r = amount"
    using row_get_in [OF p' [unfolded payment_get_def]] by (simp_all add: new_refund_def)
  from start_refund_rows [OF st assms(2,3) id(1)] show ?thesis
  proof
    assume "refunds (cur w') = refunds (cur w)"
    then show ?thesis using refunded_cong [of "cur w'" "cur w" q] by simp
  next
    assume "\<exists>r'. refunds (cur w') = refunds (cur w) @ [r'] \<and> rf_payment r' = rf_payment ?r \<and> rf_amount r' = rf_amount ?r"
    then obtain r' where r': "refunds (cur w') = refunds (cur w) @ [r']" "rf_payment r' = pid" "rf_amount r' = amount"
      using id by auto
    have "pay_amount p' = pay_amount p" if "pid = q" using that p' assms(4) by simp
    then show ?thesis using refunded_snoc [OF r'(1), of q] r'(2,3) a by auto
  qed
qed simp

subsection \<open>Events\<close>

lemma resolve_payment_in:
  assumes "resolve_payment provider e d = Some p"
  shows "p \<in> set (payments d)"
  using assms by (auto simp: resolve_payment_def Let_def split: if_splits option.splits dest: find_Some_D)

lemma row_put_in: "\<exists>x\<in>set rs. key x = key r \<Longrightarrow> r \<in> set (row_put key r rs)"
  by (auto simp: row_put_def)

lemma mark_paid_cases:
  assumes "mark_invoice_paid en oid k actor w = (x, w')"
  shows "(\<exists>e. x = Inl e \<and> w' = w)
    \<or> (\<exists>j i. x = Inr j \<and> i \<in> set (invoices (cur w')) \<and> inv_id i = k \<and> inv_org i = oid \<and> inv_status i = ''paid''
        \<and> payments (cur w') = payments (cur w) \<and> com w' = cur w')"
proof (cases "get_invoice_row oid k (cur w)")
  case None
  then show ?thesis using assms by (auto simp: mark_invoice_paid_def)
next
  case (Some old)
  have old: "old \<in> set (invoices (cur w))" "inv_id old = k" "inv_org old = oid"
    using Some by (auto simp: get_invoice_row_def dest: find_Some_D)
  define i where "i = invoice_touch w old (old\<lparr>inv_status := ''paid'', inv_paid_at := Some (clock w), inv_updated_by := actor\<rparr>)"
  have i: "inv_id i = k" "inv_org i = oid" "inv_status i = ''paid''"
    using old by (auto simp: i_def invoice_touch_def dest: arg_cong [of _ _ inv_status])
  have "x = Inl y \<Longrightarrow> w' = w" for y
    using assms by (auto simp: mark_invoice_paid_def Some save_invoice_def Let_def split: if_splits)
  moreover have "i \<in> set (invoices (cur w')) \<and> payments (cur w') = payments (cur w) \<and> com w' = cur w'" if "x = Inr j" for j
  proof -
    have "invoices (cur w') = row_put inv_id i (invoices (cur w)) \<and> payments (cur w') = payments (cur w) \<and> com w' = cur w'"
      using assms that by (auto simp: mark_invoice_paid_def Some save_invoice_def Let_def i_def split: if_splits)
    moreover have "i \<in> set (row_put inv_id i (invoices (cur w)))"
      by (rule row_put_in) (use old i in auto)
    ultimately show ?thesis by simp
  qed
  ultimately show ?thesis using i by (cases x) auto
qed

lemma aside_mail_receipt: "aside w (mail_receipt en p w)"
  unfolding mail_receipt_def
  using mail.aside [of w "(en, _, _, _)", simplified]
  by (auto split: option.split)

lemma core_of_aside:
  assumes "aside w w'" and "core (com w) = core (cur w)"
  shows "core (com w') = core (cur w)" and "core (cur w') = core (cur w)"
  using assms by (auto simp: aside_def)

text \<open>C18: A success event marks the payment and its invoice paid in one commit, or raises and commits nothing
  (the invoice is missing, a draft, cancelled, or already paid by other means).\<close>

theorem payment_and_invoice_together:
  assumes "handle_webhook_event en provider e w = (x, w')" and "com w = cur w"
    and "resolve_payment provider e (cur w) = Some p" and "ev_type e = ''payment.succeeded''"
    and "pay_status p \<noteq> ''succeeded''"
  shows "(\<exists>err. x = Inl err \<and> com w' = com w)
    \<or> (x = Inr () \<and> (\<exists>q\<in>set (payments (com w')). pay_id q = pay_id p \<and> pay_status q = ''succeeded'')
        \<and> (\<exists>i\<in>set (invoices (com w')). pay_invoice p = Some (inv_id i) \<and> inv_org i = pay_org p \<and> inv_status i = ''paid''))"
proof -
  define p1 where "p1 = succeeded_payment e p w"
  define w0 where "w0 = on_db (put_payment p1) w"
  have p1: "pay_id p1 = pay_id p" "pay_status p1 = ''succeeded''" "pay_org p1 = pay_org p" "pay_invoice p1 = pay_invoice p"
    by (simp_all add: p1_def succeeded_payment_def)
  have in1: "p1 \<in> set (payments (cur w0))"
    using row_put_in [of "payments (cur w)" pay_id p1] resolve_payment_in [OF assms(3)] p1(1) by (auto simp: w0_def)
  obtain r w1 where r: "pay_linked_invoice en p1 w0 = (r, w1)" by fastforce
  have run: "payment_succeeded en e p w = (x, w')" using assms(1,3,4) by (simp add: handle_webhook_event_def)
  note run = run [unfolded payment_succeeded_def if_not_P [OF assms(5)] Let_def, folded p1_def, folded w0_def, unfolded r prod.case]
  show ?thesis
  proof (cases r)
    case (Inl err)
    have "w1 = w0"
      using r Inl mark_paid_cases [of en "pay_org p1" _ None w0 r w1]
      by (auto simp: pay_linked_invoice_def split: option.splits)
    then show ?thesis using run Inl by (auto simp: w0_def)
  next
    case (Inr j)
    obtain k where k: "pay_invoice p1 = Some k" using r Inr by (cases "pay_invoice p1") (simp_all add: pay_linked_invoice_def)
    have m: "mark_invoice_paid en (pay_org p1) k None w0 = (Inr j, w1)" using r Inr k by (simp add: pay_linked_invoice_def)
    obtain i where i: "i \<in> set (invoices (cur w1))" "inv_id i = k" "inv_org i = pay_org p1" "inv_status i = ''paid''"
      "payments (cur w1) = payments (cur w0)" "com w1 = cur w1"
      using mark_paid_cases [OF m] by blast
    define w2 where "w2 = audit_record en ''payment.received'' ((pay_audit ''success'' p1)\<lparr>aa_commit := True\<rparr>) (commit w1)"
    define w3 where "w3 = publish en ''invoice.paid'' (pay_org p1) (invoice_and_payment p1) w2"
    have "aside w1 (commit w1)" by simp
    then have a: "aside w1 w2" unfolding w2_def by (rule aside_trans) simp
    have "aside w1 w3" unfolding w3_def by (rule aside_trans [OF a aside_publish])
    moreover have x: "x = Inr ()" "w' = mail_receipt en p1 w3" using run Inr by (simp_all add: w2_def w3_def)
    ultimately have "aside w1 w'" using aside_trans aside_mail_receipt by blast
    from core_of_aside(1) [OF this] i(6) have c: "core (com w') = core (cur w1)" by simp
    have "payments (com w') = payments (cur w0)" "invoices (com w') = invoices (cur w1)"
      using core_tables(7,8) [OF c] i(5) by simp_all
    then have "\<exists>q\<in>set (payments (com w')). pay_id q = pay_id p \<and> pay_status q = ''succeeded''"
      "\<exists>i\<in>set (invoices (com w')). pay_invoice p = Some (inv_id i) \<and> inv_org i = pay_org p \<and> inv_status i = ''paid''"
      using in1 p1 k i(1-4) by (simp_all, blast, metis)
    then show ?thesis using x(1) by blast
  qed
qed

text \<open>A failure event that arrives late marks a payment failed that has already succeeded (or was refunded),
  and leaves its invoice paid.\<close>

theorem late_failure_undoes_payment:
  assumes "handle_webhook_event en provider e w = (x, w')" and "resolve_payment provider e (cur w) = Some p"
    and "ev_type e = ''payment.failed''" and "pay_status p \<in> {''succeeded'', ''partially_refunded'', ''refunded''}"
  shows "x = Inr () \<and> (\<exists>q\<in>set (payments (com w')). pay_id q = pay_id p \<and> pay_status q = ''failed'')
    \<and> invoices (com w') = invoices (cur w)"
proof -
  define p1 where "p1 = p\<lparr>pay_status := ''failed'', pay_last_error := Some (json_str (json_or (ev_error e) (JStr ''payment_failed'')))\<rparr>"
  have run: "x = Inr ()" "w' = audit_record en ''payment.failed'' ((pay_audit ''failure'' p1)\<lparr>aa_commit := True\<rparr>)
      (commit (on_db (put_payment p1) w))"
    using assms by (auto simp: handle_webhook_event_def payment_failed_def Let_def p1_def)
  have "payments (com w') = row_put pay_id p1 (payments (cur w))" "invoices (com w') = invoices (cur w)"
    unfolding run(2) by simp_all
  moreover have "p1 \<in> set (row_put pay_id p1 (payments (cur w)))"
    using resolve_payment_in [OF assms(2)] by (intro row_put_in) (auto simp: p1_def)
  ultimately show ?thesis using run(1) by (auto simp: p1_def intro!: bexI [of _ p1])
qed

text \<open>\<open>retry_refund\<close> does not look at what is left of the payment: a retried refund the provider accepts adds
  its whole amount to the pending and completed refunds, also beyond the amount of the payment.\<close>

theorem retry_ignores_the_limit:
  assumes "retry_refund en rid actor w = (Inr (k, st), w')" and "com w = cur w"
    and "keys_ok rf_id (seqs (cur w) T_refunds) (refunds (cur w))" and "row_get rf_id rid (refunds (cur w)) = Some old"
    and "st \<noteq> ''failed''"
  shows "refunded (rf_payment old) (com w') = refunded (rf_payment old) (cur w) + rf_amount old"
proof -
  obtain p where p: "payment_get (rf_payment old) (cur w) = Some p"
    using assms(1,4) by (cases "payment_get (rf_payment old) (cur w)") (auto simp: retry_refund_def split: if_splits)
  let ?idem = "take 128 (''retry-refund-'' @ show_int rid @ ''-'' @ show_int (unix_seconds w))"
  define r where "r = new_refund p (rf_amount old) (rf_reason old) ?idem (Some actor) w"
  have run: "start_refund en p r ?idem (Some actor) [(''retry_of'', JInt rid)]
      (''payment.refund_retried'', Some [(''original_refund_id'', JInt rid)]) w = (Inr (k, st), w')"
    using assms(1,4) p by (auto simp: retry_refund_def Let_def r_def split: if_splits sum.splits)
  have id: "rf_id r = next_key T_refunds (cur w)" "rf_payment r = rf_payment old" "rf_amount r = rf_amount old"
    using row_get_in [OF p [unfolded payment_get_def]] by (simp_all add: r_def new_refund_def)
  have f: "\<forall>y\<in>set (refunds (cur w)). rf_id y \<noteq> rf_id r" using refund_tab.fresh [OF assms(3)] id(1) by auto
  have put: "row_put rf_id r' (refunds (cur w) @ [r]) = refunds (cur w) @ [r']" if "rf_id r' = rf_id r" for r'
    by (rule row_put_last [OF that f])
  from start_refund_done [OF run put] obtain r' where r': "refunds (com w') = refunds (cur w) @ [r']"
    "rf_payment r' = rf_payment old" "rf_amount r' = rf_amount old" "rf_status r' = st" "st \<in> {''succeeded'', ''pending'', ''failed''}"
    using id(2,3) by auto
  then have "promised r'" using assms(5) by (auto simp: promised_def)
  then show ?thesis using refunded_snoc [OF r'(1)] r'(2,3) by simp
qed

subsection \<open>Checkouts\<close>

lemma checkout_checks_D:
  assumes "checkout_checks en iid provider actor d = Inr i"
  shows "\<exists>k. iid = Some k \<and> inv_id i = k \<and> i \<in> set (invoices d)" "may_check_out actor i d" "0 < inv_total i"
    "provider = ''stripe'' \<or> provider = ''paytrail''"
  using assms unfolding checkout_checks_def get_provider_def invoice_get_def
  by (auto split: if_splits sum.splits option.splits dest: row_get_in)

definition checkout_row :: "payment \<Rightarrow> payment \<Rightarrow> bool" where
  \<comment> \<open>what the answer of the provider leaves alone\<close>
  "checkout_row p q \<longleftrightarrow> pay_id q = pay_id p \<and> pay_org q = pay_org p \<and> pay_invoice q = pay_invoice p
     \<and> pay_amount q = pay_amount p \<and> pay_status q = pay_status p \<and> pay_idem_key q = pay_idem_key p"

lemma store_checkout_D:
  assumes "store_checkout en provider actor p answer w = (Inr (k, url), w')" and "\<exists>q\<in>set (payments (cur w)). pay_id q = pay_id p"
  shows "k = pay_id p \<and> out w' = out w \<and> (\<exists>q\<in>set (payments (com w')). checkout_row p q)"
proof -
  obtain ref session u where a: "checkout_refs provider answer = (ref, session, u)" by (cases "checkout_refs provider answer")
  define q where "q = p\<lparr>pay_provider_payment := ref, pay_provider_session := session,
      pay_metadata := (case pay_metadata p of JObj kvs \<Rightarrow> JObj (kvs @ [(''provider'', JStr provider)]) | j \<Rightarrow> j)\<rparr>"
  have q: "checkout_row p q" by (simp add: checkout_row_def q_def)
  note run = assms(1) [unfolded store_checkout_def a prod.case Let_def, folded q_def]
  have n: "\<not> provider_payment_taken q (cur w)" using run by (simp split: if_splits)
  have w': "k = pay_id q" "w' = audit_record en ''payment.checkout_created''
      ((pay_audit ''success'' q)\<lparr>aa_actor_id := actor, aa_commit := True\<rparr>) (commit (on_db (put_payment q) w))"
    using run n by simp_all
  have "q \<in> set (row_put pay_id q (payments (cur w)))" by (rule row_put_in) (use assms(2) q in \<open>auto simp: checkout_row_def\<close>)
  then have "q \<in> set (payments (com w'))" unfolding w'(2) by simp
  moreover have "out w' = out w" unfolding w'(2) by simp
  ultimately show ?thesis using q w'(1) by (auto simp: checkout_row_def)
qed

text \<open>A successful checkout stores a pending payment of the invoice's total, greater than zero, for the
  invoice's organization, under a key no earlier payment has, and asks the provider exactly once,
  with that key. An actor the database knows is of that organization or a superadmin.\<close>

theorem checkout_is_for_the_invoice:
  assumes "create_checkout en iid provider ret cancel actor key w = (Inr (k, url), w')"
  shows "\<exists>i\<in>set (invoices (cur w)). iid = Some (inv_id i) \<and> may_check_out actor i (cur w)
    \<and> (\<exists>q\<in>set (payments (com w')). pay_id q = k \<and> pay_status q = ''pending'' \<and> pay_amount q = inv_total i \<and> 0 < pay_amount q
        \<and> pay_org q = inv_org i \<and> pay_invoice q = Some (inv_id i)
        \<and> pay_idem_key q = Some (effective_idempotency_key (inv_id i) key w))
    \<and> \<not> (\<exists>q\<in>set (payments (cur w)). pay_idem_key q = Some (effective_idempotency_key (inv_id i) key w))
    \<and> out w' = out w @ [ProviderCheckout provider k (effective_idempotency_key (inv_id i) key w)]"
proof -
  obtain i where i: "checkout_checks en iid provider actor (cur w) = Inr i"
    using assms by (cases "checkout_checks en iid provider actor (cur w)") (simp_all add: create_checkout_def)
  note d = checkout_checks_D [OF i]
  define idem where "idem = effective_idempotency_key (inv_id i) key w"
  define p where "p = new_payment i provider ret cancel idem w"
  note run = assms [unfolded create_checkout_def i sum.case Let_def, folded idem_def, folded p_def]
  have fresh: "\<not> (\<exists>q\<in>set (payments (cur w)). pay_idem_key q = Some idem)" using run by (simp split: if_splits)
  note run = run [unfolded if_not_P [OF fresh]]
  obtain r where r: "fill_url (pay_id p) ret = Inr r"
    using run by (cases "fill_url (pay_id p) ret"; cases "fill_url (pay_id p) cancel") simp_all
  obtain c where c: "fill_url (pay_id p) cancel = Inr c" using run r by (cases "fill_url (pay_id p) cancel") simp_all
  define p1 where "p1 = p\<lparr>pay_return_url := r, pay_cancel_url := c\<rparr>"
  define w2 where "w2 = call_out (ProviderCheckout provider (pay_id p) idem) (on_db (put_payment p1) (on_db (add_payment p) w))"
  note run = run [unfolded r c prod.case sum.case, folded p1_def, folded w2_def]
  obtain answer where a: "provider_checkout en (out w2) = Inr answer" using run by (cases "provider_checkout en (out w2)") simp_all
  have run: "store_checkout en provider actor p1 answer w2 = (Inr (k, url), w')" using run a by simp
  have "p1 \<in> set (payments (cur w2))" by (auto simp: w2_def p1_def row_put_def)
  then have "\<exists>q\<in>set (payments (cur w2)). pay_id q = pay_id p1" by blast
  from store_checkout_D [OF run this] obtain q where q: "q \<in> set (payments (com w'))" "checkout_row p1 q" "k = pay_id p1"
    "out w' = out w2" by blast
  have "pay_id q = k \<and> pay_status q = ''pending'' \<and> pay_amount q = inv_total i \<and> 0 < pay_amount q
      \<and> pay_org q = inv_org i \<and> pay_invoice q = Some (inv_id i) \<and> pay_idem_key q = Some idem"
    using q(2,3) d(3) by (simp add: checkout_row_def p1_def p_def new_payment_def)
  moreover have "out w' = out w @ [ProviderCheckout provider k idem]" using q(3,4) by (simp add: w2_def p1_def)
  ultimately show ?thesis using d(1,2) q(1) fresh unfolding idem_def by blast
qed

subsection \<open>Concrete runs\<close>

definition sample_payment :: payment where
  "sample_payment = \<lparr>pay_id = 1, pay_org = 1, pay_invoice = Some 1, pay_reservation = None, pay_provider = ''stripe'',
     pay_provider_payment = Some ''pi_1'', pay_provider_session = Some ''cs_1'', pay_amount = 12400,
     pay_currency = ''EUR'', pay_status = ''pending'', pay_method = None, pay_last_error = None,
     pay_idem_key = Some ''k'', pay_return_url = None, pay_cancel_url = None, pay_metadata = JNull,
     pay_created_at = sample_clock, pay_completed_at = None\<rparr>"

definition sample_admin :: user_row where
  "sample_admin = sample_person 7 1 ''admin@example.com'' ''admin''"

definition pay_world :: "string \<Rightarrow> payment_refund list \<Rightarrow> world" where
  "pay_world st rs = world_of (sample_db\<lparr>users := [sample_admin], invoices := [sample_invoice],
     payments := [sample_payment\<lparr>pay_status := st\<rparr>], refunds := rs, seqs := (\<lambda>_. 2)\<rparr>)"

definition sample_refund :: "int \<Rightarrow> string \<Rightarrow> payment_refund" where
  "sample_refund k st = \<lparr>rf_id = k, rf_payment = 1, rf_amount = 12400, rf_reason = None, rf_provider_refund = None,
     rf_status = st, rf_idem_key = None, rf_last_error = None, rf_actor = Some 7, rf_completed_at = None\<rparr>"

definition stripe_says :: "string \<Rightarrow> pay_event" where
  "stripe_says ty = no_event\<lparr>ev_type := ty, ev_payment := JStr ''pi_1''\<rparr>"

lemma pay_world_simps [simp]:
  "com (pay_world st rs) = cur (pay_world st rs)" "refunds (cur (pay_world st rs)) = rs"
  "payments (cur (pay_world st rs)) = [sample_payment\<lparr>pay_status := st\<rparr>]"
  "invoices (cur (pay_world st rs)) = [sample_invoice]" "users (cur (pay_world st rs)) = [sample_admin]"
  "seqs (cur (pay_world st rs)) = (\<lambda>_. 2)" "clock (pay_world st rs) = sample_clock" "out (pay_world st rs) = []"
  by (simp_all add: pay_world_def)

lemma sample_payment_get: "payment_get 1 (cur (pay_world st rs)) = Some (sample_payment\<lparr>pay_status := st\<rparr>)"
  by (simp add: payment_get_def row_get_def sample_payment_def)

lemma stripe_resolves:
  "resolve_payment ''stripe'' (stripe_says ty) (cur (pay_world st rs)) = Some (sample_payment\<lparr>pay_status := st\<rparr>)"
  by (simp add: resolve_payment_def stripe_says_def no_event_def json_str_def sample_payment_def)

theorem refund_within_payment_witness:
  "refunded 1 (cur (snd (refund sample_env 1 (SInt 50) None (Some 7) None (pay_world ''succeeded'' [])))) \<le> 12400"
  using refund_within_payment [OF surjective_pairing, of "pay_world ''succeeded'' []" 1 _ sample_env 1 "SInt 50" None "Some 7" None]
  by (simp add: sample_payment_get keys_ok_def refunded_def refund_totals_def refund_sum_def sample_payment_def)

theorem late_failure_undoes_payment_witness:
  "\<exists>q\<in>set (payments (com (snd (handle_webhook_event sample_env ''stripe'' (stripe_says ''payment.failed'') (pay_world ''succeeded'' []))))).
     pay_id q = 1 \<and> pay_status q = ''failed''"
  using late_failure_undoes_payment [OF surjective_pairing stripe_resolves [of "''payment.failed''" "''succeeded''" "[]"],
      where en = sample_env]
  by (simp add: stripe_says_def sample_payment_def)

lemma sample_invoice_paid:
  "\<exists>j w'. mark_invoice_paid sample_env 1 1 None w = (Inr j, w')" if "invoices (cur w) = [sample_invoice]"
  by (simp add: mark_invoice_paid_def get_invoice_row_def that save_invoice_def Let_def)

theorem payment_and_invoice_together_witness:
  "\<exists>q\<in>set (payments (com (snd (handle_webhook_event sample_env ''stripe'' (stripe_says ''payment.succeeded'') (pay_world ''pending'' []))))).
     pay_id q = 1 \<and> pay_status q = ''succeeded''"
proof -
  let ?p = "sample_payment\<lparr>pay_status := ''pending''\<rparr>" and ?e = "stripe_says ''payment.succeeded''"
  let ?run = "handle_webhook_event sample_env ''stripe'' ?e (pay_world ''pending'' [])"
  let ?p1 = "succeeded_payment ?e ?p (pay_world ''pending'' [])"
  let ?w = "on_db (put_payment ?p1) (pay_world ''pending'' [])"
  have ty: "ev_type ?e = ''payment.succeeded''" by (simp add: stripe_says_def)
  have "invoices (cur ?w) = [sample_invoice]" by simp
  from sample_invoice_paid [OF this] obtain j w' where m: "mark_invoice_paid sample_env 1 1 None ?w = (Inr j, w')" by blast
  have "pay_org ?p1 = 1" "pay_invoice ?p1 = Some 1" by (simp_all add: succeeded_payment_def sample_payment_def)
  then have "pay_linked_invoice sample_env ?p1 ?w = (Inr j, w')" using m by (simp add: pay_linked_invoice_def)
  then have "fst ?run = Inr ()"
    by (simp add: handle_webhook_event_def stripe_resolves ty payment_succeeded_def Let_def del: put_payment_def)
  then show ?thesis
    using payment_and_invoice_together [OF surjective_pairing _ stripe_resolves [of _ "''pending''" "[]"] ty,
        where en = sample_env] by (simp add: sample_payment_def)
qed

definition retried :: "(exn + int \<times> string) \<times> world" where
  "retried = retry_refund sample_env 1 7 (pay_world ''partially_refunded'' [sample_refund 1 ''failed'', sample_refund 2 ''succeeded''])"

lemma retried_answer: "fst retried = Inr (3, ''succeeded'')"
  by (simp add: retried_def retry_refund_def row_get_def sample_refund_def payment_get_def sample_payment_def may_refund_def
      user_get_def sample_admin_def start_refund_def Let_def get_provider_def refund_answer_def sample_env_simps new_refund_def
      next_key_def del: add_refund_def put_refund_def)

theorem retry_ignores_the_limit_witness:
  "refunded 1 (com (snd retried)) = 24800 \<and> pay_amount sample_payment = 12400"
proof -
  have r: "retry_refund sample_env 1 7 (pay_world ''partially_refunded'' [sample_refund 1 ''failed'', sample_refund 2 ''succeeded''])
      = (Inr (3, ''succeeded''), snd retried)"
    using retried_answer by (simp add: retried_def prod_eq_iff)
  show ?thesis
    using retry_ignores_the_limit [OF r, of "sample_refund 1 ''failed''"]
    by (simp add: keys_ok_def row_get_def sample_refund_def refunded_def refund_totals_def refund_sum_def sample_payment_def)
qed

definition shop_world :: world where
  "shop_world = world_of (sample_db\<lparr>users := [sample_admin], invoices := [sample_invoice]\<rparr>)"

definition checked_out :: "(exn + int \<times> string option) \<times> world" where
  "checked_out = create_checkout sample_env (Some 1) ''stripe'' None None (Some 7) None shop_world"

lemma checked_out_answer: "fst checked_out = Inr (1, Some ''https://pay'')"
  by (simp add: checked_out_def shop_world_def create_checkout_def checkout_checks_def get_provider_def invoice_get_def
      row_get_def may_check_out_def user_get_def sample_admin_def sample_env_simps Let_def fill_url_def store_checkout_def
      checkout_refs_def provider_payment_taken_def row_put_def new_payment_def next_key_def)

theorem checkout_is_for_the_invoice_witness:
  "\<exists>q\<in>set (payments (com (snd checked_out))). pay_id q = 1 \<and> pay_amount q = 12400"
proof -
  have r: "create_checkout sample_env (Some 1) ''stripe'' None None (Some 7) None shop_world
      = (Inr (1, Some ''https://pay''), snd checked_out)"
    using checked_out_answer by (simp add: checked_out_def prod_eq_iff)
  show ?thesis using checkout_is_for_the_invoice [OF r] by (auto simp: shop_world_def)
qed

end
