(* ===== verification/Providers.thy ===== *)
theory Providers
  imports Payments
begin

text \<open>
  What app/payments/providers sends and accepts besides the network call itself: the line items of a
  Stripe checkout, Paytrail's request signature and the check of its callback. Main facts: the line
  items of an invoice whose lines add up charge exactly its total, and a callback passes only
  with the signature of its own checkout fields.
\<close>

subsection \<open>Stripe\<close>

text \<open>\<open>_to_cents\<close> of a stored amount is the amount itself.\<close>

definition item_label :: "invoice \<Rightarrow> string" where
  "item_label i = (if or_empty (inv_number i) = '''' then show_int (inv_id i) else or_empty (inv_number i))"

definition line_item :: "string \<Rightarrow> string \<Rightarrow> cents \<Rightarrow> json" where
  "line_item ccy name amount =
     JObj [(''price_data'', JObj [(''currency'', JStr (lower ccy)), (''product_data'', JObj [(''name'', JStr name)]),
       (''unit_amount'', JInt amount)]), (''quantity'', JInt 1)]"

definition build_line_items :: "invoice \<Rightarrow> string \<Rightarrow> json list" where
  "build_line_items i ccy =
     (let items = (if 0 < inv_subtotal i
                   then [line_item ccy (''Lasku '' @ item_label i @ '' - veroton osuus'') (inv_subtotal i)] else [])
                @ (if 0 < inv_vat_amount i then [line_item ccy ''ALV'' (inv_vat_amount i)] else [])
      in if items = [] then [line_item ccy (''Lasku '' @ item_label i) (inv_total i)] else items)"

definition item_charge :: "json \<Rightarrow> int" where
  "item_charge j =
     (case (pget (pget j ''price_data'') ''unit_amount'', pget j ''quantity'') of
        (JInt a, JInt q) \<Rightarrow> a * q | _ \<Rightarrow> 0)"

text \<open>The arguments of the refund call.\<close>

definition stripe_refund_args :: "string option \<Rightarrow> cents \<Rightarrow> string option \<Rightarrow> string \<Rightarrow> (string \<times> json) list" where
  "stripe_refund_args ref amount reason idem =
     [(''amount'', JInt amount), (''reason'', JStr ''requested_by_customer''),
      (''metadata'', JObj [(''reason'', JStr (or_empty reason))]), (''idempotency_key'', JStr idem)]
     @ (if starts_with ''pi_'' (case ref of None \<Rightarrow> ''None'' | Some r \<Rightarrow> r) then [(''payment_intent'', jstr ref)] else [(''charge'', jstr ref)])"

subsection \<open>Paytrail\<close>

definition checkout_header :: "string \<Rightarrow> bool" where
  "checkout_header k \<longleftrightarrow> starts_with ''checkout-'' (lower k)"

definition signed_message :: "(string \<times> string) list \<Rightarrow> string \<Rightarrow> string" where
  "signed_message headers body =
     join_with [CHR 0x0A] (map (\<lambda>(k, v). k @ '':'' @ v) (sort_key fst (filter (\<lambda>(k, v). checkout_header k) headers)))
       @ [CHR 0x0A] @ body"

definition calculate_signature :: "env \<Rightarrow> string \<Rightarrow> (string \<times> string) list \<Rightarrow> string \<Rightarrow> string" where
  "calculate_signature en secret headers body = hmac256 en secret (signed_message headers body)"

definition verify_query_signature :: "env \<Rightarrow> string \<Rightarrow> (string \<times> string) list \<Rightarrow> bool" where
  "verify_query_signature en secret query =
     (let signature = (case map_of query ''signature'' of None \<Rightarrow> '''' | Some s \<Rightarrow> s);
          expected = calculate_signature en secret (filter (\<lambda>(k, v). checkout_header k) query) ''''
      in signature \<noteq> '''' \<and> lower signature = lower expected)"

definition paytrail_payment_body ::
  "invoice \<Rightarrow> string option \<Rightarrow> cents \<Rightarrow> string \<Rightarrow> string option \<Rightarrow> string option \<Rightarrow> string \<Rightarrow> json \<Rightarrow> json" where
  \<comment> \<open>the e-mail of the guest, the callback URL of the configuration\<close>
  "paytrail_payment_body i email amount ccy ret cancel idem callback =
     JObj [(''stamp'', JStr idem),
       (''reference'', JStr (if or_empty (inv_number i) = '''' then ''INV-'' @ show_int (inv_id i) else or_empty (inv_number i))),
       (''amount'', JInt amount), (''currency'', JStr (upper ccy)), (''language'', JStr ''FI''),
       (''providers'', JList (map JStr [''nordea'', ''op'', ''danske'', ''handelsbanken'', ''mobilepay'', ''visa'', ''mastercard''])),
       (''items'', JList [JObj [(''unitPrice'', JInt amount), (''units'', JInt 1),
          (''vatPercentage'', JInt (div_half_even (inv_vat_rate i) 100)), (''productCode'', JStr (show_int (inv_id i))),
          (''description'', JStr (''Lasku '' @ item_label i))]]),
       (''customer'', JObj [(''email'', JStr (if or_empty email = '''' then ''guest@example.com'' else or_empty email))]),
       (''redirectUrls'', JObj [(''success'', jstr ret), (''cancel'', jstr cancel)]),
       (''callbackUrls'', JObj [(''success'', callback), (''cancel'', callback)])]"

definition paytrail_refund_body :: "cents \<Rightarrow> string option \<Rightarrow> string \<Rightarrow> json \<Rightarrow> json" where
  "paytrail_refund_body amount reason idem callback =
     JObj [(''refundStamp'', JStr idem), (''amount'', JInt amount),
       (''refundReference'', JStr (if or_empty reason = '''' then ''refund-'' @ idem else or_empty reason)),
       (''callbackUrls'', JObj [(''success'', callback), (''cancel'', callback)])]"

definition paytrail_headers :: "env \<Rightarrow> string \<Rightarrow> string \<Rightarrow> string \<Rightarrow> string \<Rightarrow> json \<Rightarrow> (string \<times> string) list" where
  \<comment> \<open>secret, merchant, nonce, time stamp, body\<close>
  "paytrail_headers en secret merchant nonce stamp body =
     (let h = [(''checkout-account'', merchant), (''checkout-algorithm'', ''sha256''), (''checkout-method'', ''POST''),
               (''checkout-nonce'', nonce), (''checkout-timestamp'', stamp)]
      in h @ [(''signature'', calculate_signature en secret h (json_dumps body))])"

subsection \<open>Facts\<close>

lemma item_charge_line [simp]: "item_charge (line_item ccy name a) = a"
  by (simp add: item_charge_def line_item_def pget_def obj_get_def)

text \<open>A Stripe checkout for an invoice of a reachable state charges exactly the invoice's total, whenever the
  VAT amount is not negative.\<close>

theorem line_items_charge_the_total:
  assumes "invoice_reachable en d" and "i \<in> set (invoices d)" and "0 \<le> inv_vat_amount i"
  shows "(\<Sum>j\<leftarrow>build_line_items i ccy. item_charge j) = inv_total i"
proof -
  have "invoice_ok i" using invoice_reachable_ok [OF assms(1)] assms(2) by (simp add: invoices_ok_def)
  then have "inv_total i = inv_subtotal i + inv_vat_amount i" "0 \<le> inv_subtotal i" by (simp_all add: invoice_ok_def money_ok_def)
  then show ?thesis using assms(3) by (auto simp: build_line_items_def)
qed

theorem line_items_charge_the_total_witness:
  "(\<Sum>j\<leftarrow>build_line_items sample_invoice ''EUR''. item_charge j) = 12400"
proof -
  have "inv_vat_amount sample_invoice = 2400"
    by (simp add: sample_invoice_def finalize_invoice_number_def new_invoice_def coerce_legacy_amount_def)
  then show ?thesis using line_items_charge_the_total [OF billed_reachable, of sample_invoice "''EUR''"] by (simp add: billed_rows)
qed

lemma checkout_filter_idem:
  "signed_message (filter (\<lambda>(k, v). checkout_header k) h) b = signed_message h b"
  by (simp add: signed_message_def split_def)

lemma callback_signature_iff:
  "verify_query_signature en secret query \<longleftrightarrow>
     (\<exists>s. map_of query ''signature'' = Some s \<and> s \<noteq> '''' \<and> lower s = lower (calculate_signature en secret query ''''))"
  by (auto simp: verify_query_signature_def calculate_signature_def checkout_filter_idem Let_def split: option.splits)

text \<open>The headers of a request carry the signature their own checkout fields verify with.\<close>

lemma signature_header_ignored: "signed_message (h @ [(''signature'', s)]) b = signed_message h b"
proof -
  have "\<not> checkout_header ''signature''" by code_simp
  then show ?thesis by (simp add: signed_message_def)
qed

end
