(* ===== verification/Inbound.thy ===== *)
theory Inbound
  imports Providers
begin

text \<open>
  The routes that take webhooks of the providers (app/webhooks/routes.py): the Paytrail callback and
  \<open>POST /webhooks/<provider>\<close>. A reply is a status and a text. Verifying a Stripe signature is the
  \<open>stripe\<close> package: \<open>stripe_ok\<close>. Main fact: a request that is refused for its provider, its size or
  its signature leaves nothing but audit rows.
\<close>

type_synonym reply = "nat \<times> string"

definition ok_reply :: reply where
  "ok_reply = (200, [CHR ''{'', CHR 0x22] @ ''ok'' @ [CHR 0x22] @ '':true}'')"

definition json_error :: "string \<Rightarrow> nat \<Rightarrow> reply" where
  "json_error message status =
     (status, [CHR ''{'', CHR 0x22] @ ''success'' @ [CHR 0x22] @ '': false, '' @ [CHR 0x22] @ ''error'' @ [CHR 0x22] @ '': ''
        @ [CHR 0x22] @ message @ [CHR 0x22] @ ''}'')"

definition refusal_audit :: "bool \<Rightarrow> (string \<times> json) list \<Rightarrow> audit_args" where
  \<comment> \<open>whether the row is committed at once, and its metadata\<close>
  "refusal_audit now metadata =
     audit_defaults\<lparr>aa_status := Some ''failure'', aa_target_type := Some ''webhook_event'', aa_metadata := Some metadata,
       aa_commit := now\<rparr>"

definition inbound_paytrail_webhook ::
  "env \<Rightarrow> string \<Rightarrow> (string \<times> string) list \<Rightarrow> world \<Rightarrow> (exn + reply) \<times> world" where
  "inbound_paytrail_webhook en secret query w =
     (if \<not> verify_query_signature en secret query then
        (Inr (json_error ''unauthorized'' 401),
         audit_record en ''webhook.invalid_signature'' (refusal_audit True [(''provider'', JStr ''paytrail'')]) w)
      else
        let e = paytrail_event query in
        if ev_type e = ''invalid_status'' then (Inr (json_error ''invalid_status'' 400), w)
        else case handle_webhook_event en ''paytrail'' e w of
          (Inl x, w1) \<Rightarrow> (Inl x, w1)
        | (Inr u, w1) \<Rightarrow> (Inr ok_reply, commit w1))"

record inbound_request =
  ir_length :: "int option"
  ir_body :: string
  ir_headers :: "string \<Rightarrow> string"  \<comment> \<open>\<open>''''\<close> when missing\<close>

definition signature_header_name :: "string \<Rightarrow> string" where
  "signature_header_name provider =
     (if provider = ''stripe'' then ''Stripe-Signature''
      else if provider = ''vismapay'' then ''X-VismaPay-Signature''
      else if provider = ''pindora_lock'' then ''X-Signature''
      else ''signature'')"

definition max_webhook_bytes :: int where "max_webhook_bytes = 1024 * 1024"

text \<open>A Stripe event goes straight to the payments.\<close>

definition stripe_webhook ::
  "env \<Rightarrow> (string \<Rightarrow> string \<Rightarrow> bool) \<Rightarrow> inbound_request \<Rightarrow> string \<Rightarrow> world \<Rightarrow> (exn + reply) \<times> world" where
  "stripe_webhook en stripe_ok r header w =
     (if \<not> stripe_ok (ir_body r) header then
        (Inr (json_error ''unauthorized'' 401),
         audit_record en ''webhook.invalid_signature'' (refusal_audit True [(''provider'', JStr ''stripe'')]) w)
      else case json_loads en (ir_body r) of
        None \<Rightarrow> (Inl (PyError ValueError), w)
      | Some payload \<Rightarrow>
          (case stripe_event payload of
             Inl x \<Rightarrow> (Inl (PyError x), w)
           | Inr e \<Rightarrow>
               (case handle_webhook_event en ''stripe'' e w of
                  (Inl x, w1) \<Rightarrow> (Inl x, w1) | (Inr u, w1) \<Rightarrow> (Inr ok_reply, w1))))"

definition unauthorized ::
  "env \<Rightarrow> string \<Rightarrow> (string \<times> json) list \<Rightarrow> nat \<times> string \<Rightarrow> world \<Rightarrow> (exn + reply) \<times> world" where
  \<comment> \<open>the audit row of the refusal, committed, and the reply\<close>
  "unauthorized en action metadata reply w =
     (Inr reply, commit (audit_record en action (refusal_audit False metadata) w))"

text \<open>Storing, dispatching and closing an event. \<open>slow\<close>: the handler took longer than 4.5 seconds.\<close>

definition settle_event :: "env \<Rightarrow> bool \<Rightarrow> webhook_event \<Rightarrow> world \<Rightarrow> world" where
  "settle_event en slow e w =
     (if we_processed e then commit w
      else case dispatch_handler e of
        Inr u \<Rightarrow> if slow then commit w else commit (mark_processed en (we_id e) None w)
      | Inl err \<Rightarrow> commit (mark_processed en (we_id e) (Some (take 512 err)) w))"

definition accept_event ::
  "env \<Rightarrow> (nat \<Rightarrow> idem_key option) \<Rightarrow> webhook_event option \<Rightarrow> bool \<Rightarrow> string \<Rightarrow> string \<Rightarrow> json \<Rightarrow> world
    \<Rightarrow> (exn + reply) \<times> world" where
  "accept_event en rivals rival slow provider header payload w =
     (case extract_event_metadata provider payload of (ty, ext, org) \<Rightarrow>
        case (if or_empty ext = '''' then (Inr (), w)
              else apply_idempotency_for_inbound en rivals provider (or_empty ext) payload org w) of
          (Inl IdempotencyKeyConflict, w1) \<Rightarrow> (Inr (json_error ''idempotency_key_conflict'' 409), rollback w1)
        | (Inl x, w1) \<Rightarrow> (Inl x, w1)
        | (Inr u, w1) \<Rightarrow>
            (case record_inbound_event en rival provider ty ext payload (take 256 (sha256 en header)) True org w1 of
               (Inl x, w2) \<Rightarrow> (Inl x, w2)
             | (Inr e, w2) \<Rightarrow> (Inr ok_reply, settle_event en slow e w2)))"

definition signed_webhook ::
  "env \<Rightarrow> (nat \<Rightarrow> idem_key option) \<Rightarrow> webhook_event option \<Rightarrow> bool \<Rightarrow> string \<Rightarrow> inbound_request \<Rightarrow> string \<Rightarrow> world
    \<Rightarrow> (exn + reply) \<times> world" where
  "signed_webhook en rivals rival slow provider r header w =
     (case get_inbound_webhook_secret en provider w of
        (Inl x, w1) \<Rightarrow> (Inl x, w1)
      | (Inr secret, w1) \<Rightarrow>
          if secret = '''' then
            unauthorized en ''webhook.invalid_signature'' [(''provider'', JStr provider), (''reason'', JStr ''missing_secret'')]
              (json_error ''unauthorized'' 401) w1
          else if \<not> verify_signature en provider (ir_body r) header secret then
            unauthorized en ''webhook.invalid_signature'' [(''provider'', JStr provider)] (json_error ''unauthorized'' 401) w1
          else case json_loads en (ir_body r) of
            Some (JObj kvs) \<Rightarrow> accept_event en rivals rival slow provider header (JObj kvs) w1
          | _ \<Rightarrow> unauthorized en ''webhook.invalid_payload'' [(''provider'', JStr provider)] (json_error ''invalid_json'' 400) w1)"

definition inbound_webhook ::
  "env \<Rightarrow> (string \<Rightarrow> string \<Rightarrow> bool) \<Rightarrow> (nat \<Rightarrow> idem_key option) \<Rightarrow> webhook_event option \<Rightarrow> bool \<Rightarrow> string
    \<Rightarrow> inbound_request \<Rightarrow> world \<Rightarrow> (exn + reply) \<times> world" where
  "inbound_webhook en stripe_ok rivals rival slow name r w =
     (let provider = lower (strip name) in
      if \<not> provider_is_known provider then
        (Inr (json_error ''unknown_provider'' 404),
         audit_record en ''webhook.unknown_provider''
           ((refusal_audit True [(''provider'', JStr provider)])\<lparr>aa_status := Some ''success''\<rparr>) w)
      else if ir_length r \<noteq> None \<and> max_webhook_bytes \<le> the (ir_length r) then
        (Inr (json_error ''payload_too_large'' 413),
         audit_record en ''webhook.payload_too_large''
           (refusal_audit True [(''provider'', JStr provider), (''content_length'', JInt (the (ir_length r)))]) w)
      else
        let header = strip (ir_headers r (signature_header_name provider)) in
        if provider = ''stripe'' then stripe_webhook en stripe_ok r header w
        else signed_webhook en rivals rival slow provider r header w)"

subsection \<open>Refusals\<close>

text \<open>One more audit row, committed, and nothing else: not a row of another table, not a call.\<close>

definition audited_only :: "world \<Rightarrow> world \<Rightarrow> bool" where
  "audited_only w w' \<longleftrightarrow> (\<exists>row n. cur w' = (cur w)\<lparr>audit_logs := audit_logs (cur w) @ [row], seqs := (seqs (cur w))(T_audit := n)\<rparr>)
     \<and> com w' = cur w' \<and> out w' = out w"

lemma audited_only_record: "aa_commit a \<Longrightarrow> audited_only w (audit_record en action a w)"
  by (force simp: audited_only_def audit_record_def Let_def bump_def)

lemma audited_only_unauthorized: "audited_only w (snd (unauthorized en action metadata reply w))"
  by (force simp: audited_only_def unauthorized_def audit_record_def refusal_audit_def Let_def bump_def)

lemma secret_world:
  assumes "get_inbound_webhook_secret en provider w = (x, w1)"
  shows "cur w1 = cur w \<and> com w1 = com w \<and> out w1 = out w"
  using assms settings_get_world
  by (auto simp: get_inbound_webhook_secret_def Let_def split: if_splits option.splits prod.splits sum.splits setting_value.splits)

text \<open>The only requests with another answer than a refusal are correctly signed ones of a known provider.\<close>

definition correctly_signed ::
  "env \<Rightarrow> (string \<Rightarrow> string \<Rightarrow> bool) \<Rightarrow> string \<Rightarrow> inbound_request \<Rightarrow> world \<Rightarrow> bool" where
  "correctly_signed en stripe_ok name r w =
     (let provider = lower (strip name); header = strip (ir_headers r (signature_header_name provider)) in
      provider_is_known provider \<and> \<not> (ir_length r \<noteq> None \<and> max_webhook_bytes \<le> the (ir_length r))
      \<and> (if provider = ''stripe'' then stripe_ok (ir_body r) header
         else case fst (get_inbound_webhook_secret en provider w) of
           Inl x \<Rightarrow> False | Inr secret \<Rightarrow> verify_signature en provider (ir_body r) header secret))"

text \<open>C19: A webhook request that is not correctly signed (with a known provider and a body below one megabyte)
  either gets 401, 404 or 413, and then one audit row more is the only change of the whole database and is
  committed; or it raises, and then nothing of the database changes. No call goes out in either case: no mail, no
  webhook, no call to a lock or a payment provider.\<close>

theorem unsigned_webhook_changes_nothing:
  assumes "\<not> correctly_signed en stripe_ok name r w"
    and "inbound_webhook en stripe_ok rivals rival slow name r w = (x, w')"
  shows "out w' = out w \<and> (case x of
      Inl e \<Rightarrow> cur w' = cur w \<and> com w' = com w
    | Inr reply \<Rightarrow> fst reply \<in> {401, 404, 413} \<and> com w' = cur w'
        \<and> (\<exists>row n. cur w' = (cur w)\<lparr>audit_logs := audit_logs (cur w) @ [row], seqs := (seqs (cur w))(T_audit := n)\<rparr>))"
proof -
  let ?p = "lower (strip name)"
  let ?h = "strip (ir_headers r (signature_header_name ?p))"
  let ?L = "ir_length r \<noteq> None \<and> max_webhook_bytes \<le> the (ir_length r)"
  let ?signed = "case fst (get_inbound_webhook_secret en ?p w) of
      Inl x \<Rightarrow> False | Inr secret \<Rightarrow> verify_signature en ?p (ir_body r) ?h secret"
  have c: "\<not> (provider_is_known ?p \<and> \<not> ?L \<and> (if ?p = ''stripe'' then stripe_ok (ir_body r) ?h else ?signed))"
    using assms(1) unfolding correctly_signed_def Let_def .
  have refused: ?thesis if "x = Inr reply" "fst reply \<in> {401, 404, 413}" "audited_only w w'" for reply
    using that by (simp add: audited_only_def)
  consider (unknown) "\<not> provider_is_known ?p" | (large) "provider_is_known ?p" ?L
    | (stripe) "provider_is_known ?p" "\<not> ?L" "?p = ''stripe''" "\<not> stripe_ok (ir_body r) ?h"
    | (other) "provider_is_known ?p" "\<not> ?L" "?p \<noteq> ''stripe''" "\<not> ?signed"
    using c by (cases "provider_is_known ?p"; cases ?L; cases "?p = ''stripe''") (simp_all only: simp_thms if_True if_False)
  then show ?thesis
  proof cases
    case other
    obtain y w1 where s: "get_inbound_webhook_secret en ?p w = (y, w1)" by fastforce
    note a = secret_world [OF s]
    have run: "signed_webhook en rivals rival slow ?p r ?h w = (x, w')"
      using other(1-3) assms(2) by (auto simp: inbound_webhook_def Let_def)
    show ?thesis
    proof (cases y)
      case (Inl e)
      then show ?thesis using run s a by (auto simp: signed_webhook_def)
    next
      case (Inr secret)
      have n: "\<not> verify_signature en ?p (ir_body r) ?h secret" using other(4) s Inr by simp
      obtain md where "signed_webhook en rivals rival slow ?p r ?h w
          = unauthorized en ''webhook.invalid_signature'' md (json_error ''unauthorized'' 401) w1"
        unfolding signed_webhook_def s Inr prod.case sum.case using n by (cases "secret = ''''") (simp_all only: if_True if_False simp_thms)
      then have e: "unauthorized en ''webhook.invalid_signature'' md (json_error ''unauthorized'' 401) w1 = (x, w')"
        by (simp only: run)
      have "audited_only w w'"
        using audited_only_unauthorized [of w1 en "''webhook.invalid_signature''" md "json_error ''unauthorized'' 401"] a
        by (simp add: e audited_only_def)
      moreover have "x = Inr (json_error ''unauthorized'' 401)" using e by (simp add: unauthorized_def)
      ultimately show ?thesis by (intro refused [of "json_error ''unauthorized'' 401"]) (simp_all add: json_error_def)
    qed
  next
    case unknown
    then have "x = Inr (json_error ''unknown_provider'' 404)" "audited_only w w'"
      using assms(2) audited_only_record by (auto simp: inbound_webhook_def Let_def refusal_audit_def)
    then show ?thesis by (intro refused [of "json_error ''unknown_provider'' 404"]) (simp_all add: json_error_def)
  next
    case large
    then have "x = Inr (json_error ''payload_too_large'' 413)" "audited_only w w'"
      using assms(2) audited_only_record by (auto simp: inbound_webhook_def Let_def refusal_audit_def)
    then show ?thesis by (intro refused [of "json_error ''payload_too_large'' 413"]) (simp_all add: json_error_def)
  next
    case stripe
    then have "x = Inr (json_error ''unauthorized'' 401)" "audited_only w w'"
      using assms(2) audited_only_record by (auto simp: inbound_webhook_def stripe_webhook_def Let_def refusal_audit_def)
    then show ?thesis by (intro refused [of "json_error ''unauthorized'' 401"]) (simp_all add: json_error_def)
  qed
qed

text \<open>A request for an unknown provider.\<close>

definition stray_request :: inbound_request where
  "stray_request = \<lparr>ir_length = Some 2, ir_body = ''{}'', ir_headers = (\<lambda>_. '''')\<rparr>"

theorem unsigned_webhook_changes_nothing_witness:
  "notifications (com (snd (inbound_webhook sample_env (\<lambda>b h. False) (\<lambda>_. None) None False ''stripe'' stray_request (world_of sample_hotel)))) = []
    \<and> out (snd (inbound_webhook sample_env (\<lambda>b h. False) (\<lambda>_. None) None False ''stripe'' stray_request (world_of sample_hotel))) = []"
proof -
  have p: "lower (strip ''stripe'') = ''stripe''" by code_simp
  have n: "\<not> correctly_signed sample_env (\<lambda>b h. False) ''stripe'' stray_request (world_of sample_hotel)"
    by (simp add: correctly_signed_def p Let_def)
  obtain x w' where run: "inbound_webhook sample_env (\<lambda>b h. False) (\<lambda>_. None) None False ''stripe'' stray_request (world_of sample_hotel) = (x, w')"
    by fastforce
  show ?thesis
    using unsigned_webhook_changes_nothing [OF n run] by (cases x) (auto simp: run)
qed

end
