(* ===== verification/RowBooks.thy ===== *)
theory RowBooks
  imports Invoices
begin

text \<open>
  One operation, one row: what a service operation can do to the table it keeps, seen from the
  committed state. \<open>row_effect\<close> lists the three outcomes (nothing, one new row, one changed row), up
  to the tables of the side effects. \<open>row_books\<close> is the interface of a table whose rows carry an
  invariant: its lemmas give the step of the invariant and follow one row through an operation.
\<close>

definition row_effect ::
  "('r \<Rightarrow> db \<Rightarrow> db) \<Rightarrow> ('r \<Rightarrow> db \<Rightarrow> db) \<Rightarrow> ('r \<Rightarrow> bool) \<Rightarrow> ('r \<Rightarrow> 'r \<Rightarrow> bool) \<Rightarrow> world \<Rightarrow> world \<Rightarrow> bool" where
  "row_effect add put new change w w' \<longleftrightarrow> core (com w') = core (cur w)
     \<or> (\<exists>r. new r \<and> core (com w') = core (add r (cur w)))
     \<or> (\<exists>old r. change old r \<and> core (com w') = core (put r (cur w)))"

lemma row_effect_same: "core (com w') = core (cur w) \<Longrightarrow> row_effect add put new change w w'"
  by (simp add: row_effect_def)

lemma row_effect_add: "new r \<Longrightarrow> core (com w') = core (add r (cur w)) \<Longrightarrow> row_effect add put new change w w'"
  unfolding row_effect_def by blast

lemma row_effect_put: "change old r \<Longrightarrow> core (com w') = core (put r (cur w)) \<Longrightarrow> row_effect add put new change w w'"
  unfolding row_effect_def by blast

lemma core_after_commit: "aside (commit v) w' \<Longrightarrow> core (cur v) = c \<Longrightarrow> core (com w') = c"
  by (auto simp: aside_def)

definition rows_ok :: "(db \<Rightarrow> 'r list) \<Rightarrow> ('r \<Rightarrow> int) \<Rightarrow> table \<Rightarrow> (db \<Rightarrow> 'r \<Rightarrow> bool) \<Rightarrow> db \<Rightarrow> bool" where
  "rows_ok rows key tab ok d \<longleftrightarrow> keys_ok key (seqs d tab) (rows d) \<and> (\<forall>r\<in>set (rows d). ok d r)"

locale row_books = keyed_table rows key tab add put
  for rows :: "db \<Rightarrow> 'r list" and key :: "'r \<Rightarrow> int" and tab :: table
    and add :: "'r \<Rightarrow> db \<Rightarrow> db" and put :: "'r \<Rightarrow> db \<Rightarrow> db" +
  fixes ok :: "db \<Rightarrow> 'r \<Rightarrow> bool"
  assumes rows_core: "core d' = core d \<Longrightarrow> rows d' = rows d"
    and seq_core: "core d' = core d \<Longrightarrow> seqs d' tab = seqs d tab"
    and ok_core: "core d' = core d \<Longrightarrow> ok d' r = ok d r"
    and ok_of_add: "ok (add x d) r = ok d r"
    and ok_of_put: "ok (put x d) r = ok d r"
begin

lemma empty_ok: "rows d = [] \<Longrightarrow> rows_ok rows key tab ok d"
  by (simp add: rows_ok_def keys_ok_def)

lemma rows_ok_core: "core d' = core d \<Longrightarrow> rows_ok rows key tab ok d' = rows_ok rows key tab ok d"
  using rows_core [of d' d] seq_core [of d' d] ok_core [of d' d] by (simp add: rows_ok_def)

lemma rows_ok_add:
  assumes "rows_ok rows key tab ok d" and "ok d r" and "key r = next_key tab d"
  shows "rows_ok rows key tab ok (add r d)"
  using assms ok_add [of d r] by (auto simp: rows_ok_def rows_add ok_of_add)

lemma rows_ok_put:
  assumes "rows_ok rows key tab ok d" and "ok d r"
  shows "rows_ok rows key tab ok (put r d)"
  using assms ok_put [of d r] put_mem [of _ r d] by (auto simp: rows_ok_def ok_of_put)

lemma step:
  assumes "row_effect add put new change w w'" and "rows_ok rows key tab ok (cur w)"
    and new: "\<And>r. new r \<Longrightarrow> ok (cur w) r \<and> key r = next_key tab (cur w)"
    and change: "\<And>old r. change old r \<Longrightarrow> ok (cur w) r"
  shows "rows_ok rows key tab ok (com w')"
  using assms(1) unfolding row_effect_def
proof (elim disjE exE conjE)
  fix r assume "new r" and c: "core (com w') = core (add r (cur w))"
  then show ?thesis using new [of r] rows_ok_add [OF assms(2)] rows_ok_core [OF c] by simp
next
  fix old r assume "change old r" and c: "core (com w') = core (put r (cur w))"
  then show ?thesis using change [of old r] rows_ok_put [OF assms(2)] rows_ok_core [OF c] by simp
qed (use assms(2) rows_ok_core in blast)

text \<open>A row that is there before is there afterwards, unchanged or as the operation wrote it.\<close>

lemma followed:
  assumes "row_effect add put new change w w'" and "distinct (map key (rows (cur w)))" and "l \<in> set (rows (cur w))"
    and change: "\<And>old r. change old r \<Longrightarrow> old \<in> set (rows (cur w)) \<and> key r = key old"
  obtains "l \<in> set (rows (com w'))" | r where "change l r" "r \<in> set (rows (com w'))"
  using assms(1) unfolding row_effect_def
proof (elim disjE exE conjE)
  assume c: "core (com w') = core (cur w)"
  show ?thesis by (rule that(1)) (simp add: rows_core [OF c] assms(3))
next
  fix r assume c: "core (com w') = core (add r (cur w))"
  show ?thesis by (rule that(1)) (simp add: rows_core [OF c] rows_add assms(3))
next
  fix old r assume ch: "change old r" and c: "core (com w') = core (put r (cur w))"
  note t = rows_core [OF c, unfolded rows_put]
  show ?thesis
  proof (cases "key l = key r")
    case True
    then have "l = old" using assms(2,3) change [OF ch] by (auto simp: distinct_map inj_on_def)
    moreover have "r \<in> set (rows (com w'))" unfolding t using assms(3) True by (force simp: row_put_def)
    ultimately show ?thesis using that(2) ch by blast
  next
    case False
    then have "l \<in> set (rows (com w'))" unfolding t using row_put_other [OF assms(3)] by blast
    then show ?thesis by (rule that(1))
  qed
qed

end

end
