(* ===== verification/Social.thy ===== *)
theory Social
  imports RowBooks
begin

text \<open>
  Tags (app/tags) and comments (app/comments) on guests, reservations and properties. The services
  only flush; \<open>in_transaction\<close> is what their callers do: commit a result, roll an error back. Main
  facts: the tags of an organization have distinct names, are at most a hundred and hang only on
  its own guests, reservations and properties; a comment changes only by its author's hand within
  fifteen minutes and goes only by its author or an administrator of its organization.
\<close>

definition in_transaction :: "(world \<Rightarrow> (exn + 'a) \<times> world) \<Rightarrow> world \<Rightarrow> (exn + 'a) \<times> world" where
  "in_transaction f w = (case f w of (Inl x, w1) \<Rightarrow> (Inl x, rollback w1) | (Inr v, w1) \<Rightarrow> (Inr v, commit w1))"

text \<open>What is tagged or commented, looked up in the organization. \<open>err\<close> makes the service's exception.\<close>

definition target_exists :: "int \<Rightarrow> string \<Rightarrow> int \<Rightarrow> db \<Rightarrow> bool" where
  "target_exists oid ty k d =
     (if ty = ''guest'' then find_guest oid k d \<noteq> None
      else if ty = ''property'' then find_property oid k d \<noteq> None
      else ty = ''reservation'' \<and> find_reservation oid k d \<noteq> None)"

definition resolve_target :: "(string \<Rightarrow> string \<Rightarrow> nat \<Rightarrow> exn) \<Rightarrow> int \<Rightarrow> string \<Rightarrow> int \<Rightarrow> db \<Rightarrow> exn option" where
  "resolve_target err oid ty k d =
     (if ty \<notin> {''guest'', ''property'', ''reservation''} then Some (err ''validation_error'' ''Invalid target_type.'' 400)
      else if \<not> target_exists oid ty k d then Some (err ''not_found'' ''Target resource not found in organization.'' 404)
      else None)"

subsection \<open>Tags\<close>

definition e_tag :: "string \<Rightarrow> string \<Rightarrow> nat \<Rightarrow> exn" where
  "e_tag = ServiceError Tag_service"

definition allowed_tag_colors :: "string list" where
  "allowed_tag_colors = [''green'', ''yellow'', ''red'', ''blue'', ''purple'', ''orange'', ''gray'', ''black'']"

definition target_types :: "string list" where
  "target_types = [''guest'', ''reservation'', ''property'']"

definition org_tags :: "int \<Rightarrow> db \<Rightarrow> tag list" where
  "org_tags oid d = filter (\<lambda>t. tg_org t = oid) (tags d)"

definition tag_error :: "int \<Rightarrow> string \<Rightarrow> string \<Rightarrow> db \<Rightarrow> exn option" where
  \<comment> \<open>the checks on the cleaned name and color\<close>
  "tag_error oid name color d =
     (if name = '''' then Some (e_tag ''validation_error'' ''Tag name is required.'' 400)
      else if 64 < length name then Some (e_tag ''validation_error'' ''Tag name max length is 64.'' 400)
      else if color \<notin> set allowed_tag_colors then Some (e_tag ''validation_error'' ''Invalid tag color.'' 400)
      else if 100 \<le> length (org_tags oid d)
      then Some (e_tag ''validation_error'' ''Tag limit (100) reached for organization.'' 400)
      else if \<exists>t\<in>set (tags d). tg_org t = oid \<and> tg_name t = name
      then Some (e_tag ''conflict'' ''Tag name already exists in organization.'' 409)
      else None)"

definition tag_audit :: "int \<Rightarrow> string \<Rightarrow> int \<Rightarrow> (string \<times> json) list \<Rightarrow> audit_args" where
  "tag_audit oid ty k metadata =
     audit_defaults\<lparr>aa_org := Some oid, aa_target_type := Some ty, aa_target_id := Some k, aa_metadata := Some metadata\<rparr>"

definition tag_create :: "env \<Rightarrow> int \<Rightarrow> string \<Rightarrow> string \<Rightarrow> int \<Rightarrow> world \<Rightarrow> (exn + tag) \<times> world" where
  "tag_create en oid name color creator w =
     (case tag_error oid (strip name) (lower (strip color)) (cur w) of
        Some x \<Rightarrow> (Inl x, w)
      | None \<Rightarrow>
          let t = \<lparr>tg_id = next_key T_tags (cur w), tg_org = oid, tg_name = strip name, tg_color = lower (strip color),
                   tg_created_by = creator, tg_created_at = clock w\<rparr>
          in (Inr t, audit_record en ''tag.created''
                (tag_audit oid ''tag'' (tg_id t) [(''name'', JStr (tg_name t)), (''color'', JStr (tg_color t))])
                (on_db (add_tag t) w)))"

text \<open>The three association tables: target and tag.\<close>

definition associations :: "string \<Rightarrow> db \<Rightarrow> (int \<times> int) list" where
  "associations ty d =
     (if ty = ''guest'' then guest_tags d else if ty = ''reservation'' then reservation_tags d else property_tags d)"

definition set_associations :: "string \<Rightarrow> (int \<times> int) list \<Rightarrow> db \<Rightarrow> db" where
  "set_associations ty ps d =
     (if ty = ''guest'' then d\<lparr>guest_tags := ps\<rparr>
      else if ty = ''reservation'' then d\<lparr>reservation_tags := ps\<rparr> else d\<lparr>property_tags := ps\<rparr>)"

definition find_tag :: "int \<Rightarrow> int \<Rightarrow> db \<Rightarrow> tag option" where
  "find_tag oid tid d = List.find (\<lambda>t. tg_id t = tid \<and> tg_org t = oid) (tags d)"

definition association_error :: "int \<Rightarrow> string \<Rightarrow> int \<Rightarrow> int \<Rightarrow> db \<Rightarrow> exn option" where
  "association_error oid ty k tid d =
     (if ty \<notin> set target_types then Some (e_tag ''validation_error'' ''Invalid target_type.'' 400)
      else if find_tag oid tid d = None then Some (e_tag ''not_found'' ''Tag not found.'' 404)
      else resolve_target e_tag oid ty k d)"

definition association_audit :: "int \<Rightarrow> string \<Rightarrow> int \<Rightarrow> int \<Rightarrow> int \<Rightarrow> audit_args" where
  "association_audit oid ty k tid actor = (tag_audit oid ty k [(''tag_id'', JInt tid)])\<lparr>aa_actor_id := Some actor\<rparr>"

definition tag_attach :: "env \<Rightarrow> int \<Rightarrow> string \<Rightarrow> int \<Rightarrow> int \<Rightarrow> int \<Rightarrow> world \<Rightarrow> (exn + unit) \<times> world" where
  "tag_attach en oid ty k tid actor w =
     (case association_error oid ty k tid (cur w) of
        Some x \<Rightarrow> (Inl x, w)
      | None \<Rightarrow>
          let ps = associations ty (cur w);
              w1 = (if (k, tid) \<in> set ps then w else on_db (set_associations ty (ps @ [(k, tid)])) w)
          in (Inr (), audit_record en ''tag.attached'' (association_audit oid ty k tid actor) w1))"

definition tag_detach :: "env \<Rightarrow> int \<Rightarrow> string \<Rightarrow> int \<Rightarrow> int \<Rightarrow> int \<Rightarrow> world \<Rightarrow> (exn + unit) \<times> world" where
  "tag_detach en oid ty k tid actor w =
     (case association_error oid ty k tid (cur w) of
        Some x \<Rightarrow> (Inl x, w)
      | None \<Rightarrow>
          (Inr (), audit_record en ''tag.detached'' (association_audit oid ty k tid actor)
             (on_db (set_associations ty (filter (\<lambda>p. p \<noteq> (k, tid)) (associations ty (cur w)))) w)))"

definition by_name :: "env \<Rightarrow> tag list \<Rightarrow> tag list" where
  "by_name en ts = sort_key (\<lambda>t. collation en (tg_name t)) (sort_key tg_id ts)"

definition tags_for_target :: "env \<Rightarrow> int \<Rightarrow> string \<Rightarrow> int \<Rightarrow> db \<Rightarrow> exn + tag list" where
  "tags_for_target en oid ty k d =
     (case resolve_target e_tag oid ty k d of
        Some x \<Rightarrow> Inl x
      | None \<Rightarrow> Inr (by_name en (filter (\<lambda>t. (k, tg_id t) \<in> set (associations ty d)) (org_tags oid d))))"

definition tags_for_org :: "env \<Rightarrow> int \<Rightarrow> db \<Rightarrow> tag list" where
  "tags_for_org en oid d = by_name en (org_tags oid d)"

subsection \<open>Comments\<close>

definition e_comment :: "string \<Rightarrow> string \<Rightarrow> nat \<Rightarrow> exn" where
  "e_comment = ServiceError Comment_service"

definition mention_char :: "char \<Rightarrow> bool" where
  "mention_char c \<longleftrightarrow> is_alpha_char c \<or> c \<in> set ''0123456789._-''"

text \<open>The matches of \<open>@([A-Za-z0-9._-]{2,64})\<close> from left to right.\<close>

function mentions :: "string \<Rightarrow> string list" where
  "mentions [] = []"
| "mentions (c # s) =
     (let n = take 64 (takeWhile mention_char s) in
      if c = CHR ''@'' \<and> 2 \<le> length n then n # mentions (drop (length n) s) else mentions s)"
  by pat_completeness auto
termination by (relation "measure length") auto

definition mentioned_names :: "string \<Rightarrow> string list" where
  "mentioned_names body = remdups (map lower (mentions body))"

text \<open>\<open>ILIKE\<close> with the name as pattern: an underscore stands for any character.\<close>

definition name_matches :: "string \<Rightarrow> string \<Rightarrow> bool" where
  "name_matches name s \<longleftrightarrow> list_all2 (\<lambda>p c. p = CHR ''_'' \<or> lower_char p = lower_char c) name s"

definition is_mentioned :: "string \<Rightarrow> user_row \<Rightarrow> bool" where
  "is_mentioned name u \<longleftrightarrow>
     (let e = usr_email u; n = length name in
      name_matches name e \<or> (n < length e \<and> name_matches name (take n e) \<and> e ! n = CHR ''@''))"

definition target_path :: "string \<Rightarrow> string" where
  "target_path ty = (if ty = ''guest'' then ''guests'' else if ty = ''reservation'' then ''reservations'' else ''properties'')"

definition mention_one :: "env \<Rightarrow> int \<Rightarrow> int \<Rightarrow> string \<Rightarrow> int \<Rightarrow> string \<Rightarrow> world \<Rightarrow> world" where
  "mention_one en oid author ty k name w =
     (case List.find (\<lambda>u. usr_org u = oid \<and> is_mentioned name u) (users (cur w)) of
        None \<Rightarrow> w
      | Some u \<Rightarrow>
          if usr_id u = author then w
          else
            let who = (case user_in_org author oid (cur w) of None \<Rightarrow> ''Kollega'' | Some a \<Rightarrow> usr_email a)
            in snd (notification_create en oid ''comment.mentioned'' ''Sinut mainittiin kommentissa''
                 (Some (who @ '' mainitsi sinut kohteessa '' @ ty @ '' #'' @ show_int k @ ''.''))
                 (Some (''/admin/'' @ target_path ty @ ''/'' @ show_int k)) ''info'' (Some (usr_id u)) w))"

text \<open>The names are a Python set: \<open>order\<close> is the order in which it is walked.\<close>

definition handle_mentions ::
  "env \<Rightarrow> (string list \<Rightarrow> string list) \<Rightarrow> int \<Rightarrow> int \<Rightarrow> string \<Rightarrow> string \<Rightarrow> int \<Rightarrow> world \<Rightarrow> world" where
  "handle_mentions en order oid author body ty k w =
     fold (mention_one en oid author ty k) (order (mentioned_names body)) w"

definition comment_audit :: "comment \<Rightarrow> audit_args" where
  "comment_audit c = tag_audit (cm_org c) (cm_target_type c) (cm_target c) [(''comment_id'', JInt (cm_id c))]"

definition comment_create ::
  "env \<Rightarrow> (string list \<Rightarrow> string list) \<Rightarrow> int \<Rightarrow> string \<Rightarrow> int \<Rightarrow> int \<Rightarrow> string \<Rightarrow> bool \<Rightarrow> world
    \<Rightarrow> (exn + comment) \<times> world" where
  "comment_create en order oid ty k author body internal w =
     (case resolve_target e_comment oid ty k (cur w) of
        Some x \<Rightarrow> (Inl x, w)
      | None \<Rightarrow>
          if strip body = '''' then (Inl (e_comment ''validation_error'' ''Comment body is required.'' 400), w)
          else
            let c = \<lparr>cm_id = next_key T_comments (cur w), cm_org = oid, cm_target_type = ty, cm_target = k,
                     cm_author = author, cm_body = strip body, cm_created_at = clock w, cm_edited_at = None,
                     cm_internal = internal\<rparr>
            in (Inr c, handle_mentions en order oid author (strip body) ty k
                  (audit_record en ''comment.created'' (comment_audit c) (on_db (add_comment c) w))))"

definition edit_window :: stamp where "edit_window = seconds (15 * 60)"

definition comment_edit :: "env \<Rightarrow> int \<Rightarrow> int \<Rightarrow> string \<Rightarrow> world \<Rightarrow> (exn + comment) \<times> world" where
  "comment_edit en cid actor body w =
     (case row_get cm_id cid (comments (cur w)) of
        None \<Rightarrow> (Inl (e_comment ''not_found'' ''Comment not found.'' 404), w)
      | Some c \<Rightarrow>
          if cm_author c \<noteq> actor then (Inl (e_comment ''forbidden'' ''Only the author can edit comment.'' 403), w)
          else if edit_window < clock w - cm_created_at c
          then (Inl (e_comment ''forbidden'' ''Edit window has expired.'' 403), w)
          else if strip body = '''' then (Inl (e_comment ''validation_error'' ''Comment body is required.'' 400), w)
          else
            let c1 = c\<lparr>cm_body := strip body, cm_edited_at := Some (clock w)\<rparr>
            in (Inr c1, audit_record en ''comment.edited'' (comment_audit c1) (on_db (put_comment c1) w)))"

definition may_delete_comment :: "user_row option \<Rightarrow> comment \<Rightarrow> bool" where
  "may_delete_comment actor c =
     (case actor of None \<Rightarrow> False
      | Some u \<Rightarrow> usr_org u = cm_org c \<and> (usr_role u \<in> {''admin'', ''superadmin''} \<or> cm_author c = usr_id u))"

definition comment_delete :: "env \<Rightarrow> int \<Rightarrow> int \<Rightarrow> world \<Rightarrow> (exn + unit) \<times> world" where
  "comment_delete en cid actor w =
     (case row_get cm_id cid (comments (cur w)) of
        None \<Rightarrow> (Inl (e_comment ''not_found'' ''Comment not found.'' 404), w)
      | Some c \<Rightarrow>
          if \<not> may_delete_comment (user_get actor (cur w)) c then (Inl (e_comment ''forbidden'' ''Forbidden.'' 403), w)
          else (Inr (), on_db (\<lambda>d. d\<lparr>comments := filter (\<lambda>x. cm_id x \<noteq> cid) (comments d)\<rparr>)
                  (audit_record en ''comment.deleted'' (comment_audit c) w)))"

definition comments_for_target :: "int \<Rightarrow> string \<Rightarrow> int \<Rightarrow> bool \<Rightarrow> db \<Rightarrow> exn + comment list" where
  "comments_for_target oid ty k internal d =
     (case resolve_target e_comment oid ty k d of
        Some x \<Rightarrow> Inl x
      | None \<Rightarrow> Inr (rev (sort_key cm_created_at (sort_key cm_id (filter (\<lambda>c. cm_org c = oid \<and> cm_target_type c = ty
          \<and> cm_target c = k \<and> (internal \<or> \<not> cm_internal c)) (comments d))))))"

subsection \<open>What tags keep\<close>

datatype tag_op =
    Create_tag string string int
  | Attach_tag string int int int
  | Detach_tag string int int int

fun run_tag :: "env \<Rightarrow> int \<Rightarrow> tag_op \<Rightarrow> world \<Rightarrow> world" where
  "run_tag en oid (Create_tag name color creator) w = snd (in_transaction (tag_create en oid name color creator) w)"
| "run_tag en oid (Attach_tag ty k tid actor) w = snd (in_transaction (tag_attach en oid ty k tid actor) w)"
| "run_tag en oid (Detach_tag ty k tid actor) w = snd (in_transaction (tag_detach en oid ty k tid actor) w)"

definition tag_values_ok :: "tag \<Rightarrow> bool" where
  "tag_values_ok t \<longleftrightarrow> tg_name t \<noteq> '''' \<and> length (tg_name t) \<le> 64 \<and> tg_color t \<in> set allowed_tag_colors"

definition associations_ok :: "string \<Rightarrow> db \<Rightarrow> bool" where
  "associations_ok ty d \<longleftrightarrow> distinct (associations ty d)
     \<and> (\<forall>(k, tid)\<in>set (associations ty d). \<exists>t\<in>set (tags d). tg_id t = tid \<and> target_exists (tg_org t) ty k d)"

definition tags_ok :: "db \<Rightarrow> bool" where
  "tags_ok d \<longleftrightarrow> keys_ok tg_id (seqs d T_tags) (tags d) \<and> (\<forall>t\<in>set (tags d). tag_values_ok t)
     \<and> distinct (map (\<lambda>t. (tg_org t, tg_name t)) (tags d)) \<and> (\<forall>oid. length (org_tags oid d) \<le> 100)
     \<and> (\<forall>ty\<in>set target_types. associations_ok ty d)"

lemma target_exists_cong:
  assumes "guests d' = guests d" "properties d' = properties d" "units d' = units d" "reservations d' = reservations d"
  shows "target_exists oid ty k d' = target_exists oid ty k d"
proof -
  have "property_org p d' = property_org p d" for p using assms(2) by (simp add: property_org_def property_get_def)
  then have "res_org d' = res_org d"
    using assms(3) by (intro ext) (simp add: res_org_def unit_org_def unit_get_def split: option.split)
  then show ?thesis
    using assms by (simp add: target_exists_def find_guest_def find_property_def find_reservation_def scoped_reservations_def)
qed

lemma tags_ok_cong:
  assumes "guests d' = guests d" "properties d' = properties d" "units d' = units d" "reservations d' = reservations d"
    and "tags d' = tags d" "seqs d' T_tags = seqs d T_tags" "guest_tags d' = guest_tags d"
      "reservation_tags d' = reservation_tags d" "property_tags d' = property_tags d"
  shows "tags_ok d' = tags_ok d"
  using assms(5-9) target_exists_cong [OF assms(1-4)]
  by (simp add: tags_ok_def associations_ok_def associations_def org_tags_def)

lemma tags_ok_audit [simp]: "tags_ok (add_audit e d) = tags_ok d"
  by (rule tags_ok_cong) simp_all

lemma set_associations_simps:
  "tags (set_associations ty ps d) = tags d" "seqs (set_associations ty ps d) = seqs d"
  "guests (set_associations ty ps d) = guests d" "properties (set_associations ty ps d) = properties d"
  "units (set_associations ty ps d) = units d" "reservations (set_associations ty ps d) = reservations d"
  by (simp_all add: set_associations_def)

lemma associations_set:
  "ty \<in> set target_types \<Longrightarrow> ty' \<in> set target_types \<Longrightarrow>
     associations ty' (set_associations ty ps d) = (if ty' = ty then ps else associations ty' d)"
  by (auto simp: target_types_def associations_def set_associations_def)

lemma tags_ok_set_associations:
  assumes "tags_ok d" and "ty \<in> set target_types" and "distinct ps"
    and "\<forall>(k, tid)\<in>set ps. \<exists>t\<in>set (tags d). tg_id t = tid \<and> target_exists (tg_org t) ty k d"
  shows "tags_ok (set_associations ty ps d)"
  using assms target_exists_cong [of "set_associations ty ps d" d]
  by (simp add: tags_ok_def associations_ok_def set_associations_simps associations_set org_tags_def)

lemma association_error_None:
  assumes "association_error oid ty k tid d = None"
  obtains t where "ty \<in> set target_types" "t \<in> set (tags d)" "tg_id t = tid" "tg_org t = oid" "target_exists oid ty k d"
  using assms
  by (auto simp: association_error_def find_tag_def resolve_target_def split: if_splits dest: find_Some_D)

lemma attach_keeps:
  assumes "tags_ok (cur w)" and "tag_attach en oid ty k tid actor w = (Inr u, w')"
  shows "tags_ok (cur w')"
proof -
  obtain t where t: "ty \<in> set target_types" "t \<in> set (tags (cur w))" "tg_id t = tid" "tg_org t = oid" "target_exists oid ty k (cur w)"
    and e: "association_error oid ty k tid (cur w) = None"
    using assms(2) by (auto simp: tag_attach_def split: option.splits elim: association_error_None)
  let ?ps = "associations ty (cur w)"
  have a: "associations_ok ty (cur w)" using assms(1) t(1) by (simp add: tags_ok_def)
  have "tags_ok (set_associations ty (?ps @ [(k, tid)]) (cur w))" if "(k, tid) \<notin> set ?ps"
    using assms(1) t(1)
    by (rule tags_ok_set_associations) (use a that t in \<open>auto simp: associations_ok_def\<close>)
  then show ?thesis
    using assms e by (auto simp: tag_attach_def Let_def association_audit_def tag_audit_def simp del: add_audit_def split: if_splits)
qed

lemma detach_keeps:
  assumes "tags_ok (cur w)" and "tag_detach en oid ty k tid actor w = (Inr u, w')"
  shows "tags_ok (cur w')"
proof -
  have e: "association_error oid ty k tid (cur w) = None" and ty: "ty \<in> set target_types"
    using assms(2) by (auto simp: tag_detach_def split: option.splits elim: association_error_None)
  let ?ps = "filter (\<lambda>p. p \<noteq> (k, tid)) (associations ty (cur w))"
  have "associations_ok ty (cur w)" using assms(1) ty by (simp add: tags_ok_def)
  then have "tags_ok (set_associations ty ?ps (cur w))"
    using assms(1) ty by (intro tags_ok_set_associations) (auto simp: associations_ok_def)
  then show ?thesis
    using assms e by (auto simp: tag_detach_def association_audit_def tag_audit_def simp del: add_audit_def)
qed

lemma create_tag_keeps:
  assumes "tags_ok (cur w)" and "tag_create en oid name color creator w = (Inr t, w')"
  shows "tags_ok (cur w')"
proof -
  have e: "tag_error oid (strip name) (lower (strip color)) (cur w) = None"
    and t: "t = \<lparr>tg_id = next_key T_tags (cur w), tg_org = oid, tg_name = strip name, tg_color = lower (strip color),
                 tg_created_by = creator, tg_created_at = clock w\<rparr>"
    and w': "cur w' = add_audit (last (audit_logs (cur w'))) (add_tag t (cur w))"
    using assms(2) by (auto simp: tag_create_def Let_def tag_audit_def split: option.splits)
  have v: "tag_values_ok t" "length (org_tags oid (cur w)) < 100" "\<forall>x\<in>set (tags (cur w)). (tg_org x, tg_name x) \<noteq> (oid, strip name)"
    using e by (auto simp: tag_error_def tag_values_ok_def t split: if_splits)
  have "keys_ok tg_id (seqs (add_tag t (cur w)) T_tags) (tags (add_tag t (cur w)))"
    using assms(1) by (intro tag_tab.ok_add) (simp_all add: tags_ok_def t)
  moreover have "associations_ok ty (add_tag t (cur w))" if "ty \<in> set target_types" for ty
  proof -
    have "associations_ok ty (cur w)" using assms(1) that by (simp add: tags_ok_def)
    then show ?thesis using target_exists_cong [of "add_tag t (cur w)" "cur w"]
      by (fastforce simp: associations_ok_def associations_def)
  qed
  moreover have "length (org_tags o' (add_tag t (cur w))) \<le> 100" for o'
    using assms(1) v(2) by (auto simp: tags_ok_def org_tags_def t)
  moreover have "distinct (map (\<lambda>t. (tg_org t, tg_name t)) (tags (add_tag t (cur w))))"
    using assms(1) v(3) by (auto simp: tags_ok_def t)
  ultimately have "tags_ok (add_tag t (cur w))" using assms(1) v(1) by (simp add: tags_ok_def)
  then show ?thesis by (subst w') (simp only: tags_ok_audit)
qed

lemma run_tag_keeps:
  assumes "tags_ok (cur w)" and "com w = cur w"
  shows "tags_ok (com (run_tag en oid op w))"
proof -
  have tr: "tags_ok (com (snd (in_transaction f w)))"
    if "\<And>v w'. f w = (Inr v, w') \<Longrightarrow> tags_ok (cur w')" "\<And>x w'. f w = (Inl x, w') \<Longrightarrow> com w' = com w" for f :: "world \<Rightarrow> (exn + 'x) \<times> world"
    using that assms by (auto simp: in_transaction_def split: prod.split sum.split)
  show ?thesis
  proof (cases op)
    case (Create_tag name color creator)
    show ?thesis unfolding Create_tag run_tag.simps
      by (rule tr) (use create_tag_keeps [OF assms(1)] in \<open>auto simp: tag_create_def Let_def split: option.splits\<close>)
  next
    case (Attach_tag ty k tid actor)
    show ?thesis unfolding Attach_tag run_tag.simps
      by (rule tr) (use attach_keeps [OF assms(1)] in \<open>auto simp: tag_attach_def Let_def split: option.splits\<close>)
  next
    case (Detach_tag ty k tid actor)
    show ?thesis unfolding Detach_tag run_tag.simps
      by (rule tr) (use detach_keeps [OF assms(1)] in \<open>auto simp: tag_detach_def split: option.splits\<close>)
  qed
qed

inductive tags_reachable :: "env \<Rightarrow> db \<Rightarrow> bool" for en where
  start: "tags d = [] \<Longrightarrow> guest_tags d = [] \<Longrightarrow> reservation_tags d = [] \<Longrightarrow> property_tags d = [] \<Longrightarrow> tags_reachable en d"
| step: "tags_reachable en d \<Longrightarrow> cur w = d \<Longrightarrow> com w = d \<Longrightarrow> tags_reachable en (com (run_tag en oid op w))"

lemma tags_reachable_ok: "tags_reachable en d \<Longrightarrow> tags_ok d"
proof (induction rule: tags_reachable.induct)
  case (start d)
  then show ?case by (simp add: tags_ok_def keys_ok_def associations_ok_def associations_def org_tags_def)
next
  case (step d w oid op)
  then show ?case using run_tag_keeps by simp
qed

text \<open>C23: In every reachable state the tags of an organization are at most a hundred, have distinct names of 1 to 64
  characters and known colors, and every tag on a guest, reservation or property belongs to the organization of
  what it is on.\<close>

theorem tags_stay_in_the_organization:
  assumes "tags_reachable en d"
  shows "length (org_tags oid d) \<le> 100 \<and> distinct (map tg_name (org_tags oid d))
    \<and> list_all (\<lambda>t. 1 \<le> length (tg_name t) \<and> length (tg_name t) \<le> 64 \<and> tg_color t \<in> set allowed_tag_colors) (tags d)
    \<and> list_all (\<lambda>(k, tid). \<exists>t\<in>set (tags d). tg_id t = tid \<and> find_guest (tg_org t) k d \<noteq> None) (guest_tags d)
    \<and> list_all (\<lambda>(k, tid). \<exists>t\<in>set (tags d). tg_id t = tid \<and> find_reservation (tg_org t) k d \<noteq> None) (reservation_tags d)
    \<and> list_all (\<lambda>(k, tid). \<exists>t\<in>set (tags d). tg_id t = tid \<and> find_property (tg_org t) k d \<noteq> None) (property_tags d)"
proof -
  have ok: "tags_ok d" by (rule tags_reachable_ok [OF assms])
  have a: "associations_ok ''guest'' d" "associations_ok ''reservation'' d" "associations_ok ''property'' d"
    using ok by (simp_all add: tags_ok_def target_types_def)
  have n: "distinct (map tg_name (org_tags oid d))"
    using ok by (auto simp: tags_ok_def org_tags_def distinct_map inj_on_def)
  have v: "list_all (\<lambda>t. 1 \<le> length (tg_name t) \<and> length (tg_name t) \<le> 64 \<and> tg_color t \<in> set allowed_tag_colors) (tags d)"
    using ok by (auto simp: tags_ok_def tag_values_ok_def list_all_iff Suc_le_eq)
  show ?thesis
    using ok a n v
    by (auto simp: tags_ok_def associations_ok_def associations_def target_exists_def list_all_iff)
qed

subsection \<open>Who changes a comment\<close>

datatype comment_op =
    Add_comment int string int int string bool
  | Edit_comment int int string
  | Delete_comment int int

fun run_comment :: "env \<Rightarrow> (string list \<Rightarrow> string list) \<Rightarrow> comment_op \<Rightarrow> world \<Rightarrow> world" where
  "run_comment en order (Add_comment oid ty k author body internal) w =
     snd (in_transaction (comment_create en order oid ty k author body internal) w)"
| "run_comment en order (Edit_comment cid actor body) w = snd (in_transaction (comment_edit en cid actor body) w)"
| "run_comment en order (Delete_comment cid actor) w = snd (in_transaction (comment_delete en cid actor) w)"

lemma core_comments: "core d' = core d \<Longrightarrow> comments d' = comments d"
  by (drule arg_cong [where f = comments]) (simp add: core_def)

lemma aside_mention: "aside w (mention_one en oid author ty k name w)"
  using notify.aside [of w "(en, oid, _, _, _, _, _, _)"]
  by (auto simp: mention_one_def Let_def split: option.split)

lemma aside_mentions: "aside w (handle_mentions en order oid author body ty k w)"
proof -
  have "aside v (fold (mention_one en oid author ty k) ns v)" for ns v
    by (induction ns arbitrary: v) (auto intro: aside_trans [OF aside_mention])
  then show ?thesis by (simp add: handle_mentions_def)
qed

lemma comment_create_keeps:
  assumes "comment_create en order oid ty k author body internal w = (x, w')"
  shows "set (comments (cur w)) \<subseteq> set (comments (cur w')) \<and> (\<forall>e. x = Inl e \<longrightarrow> w' = w)"
proof (cases "resolve_target e_comment oid ty k (cur w) = None \<and> strip body \<noteq> ''''")
  case True
  define c where "c = \<lparr>cm_id = next_key T_comments (cur w), cm_org = oid, cm_target_type = ty, cm_target = k,
    cm_author = author, cm_body = strip body, cm_created_at = clock w, cm_edited_at = None, cm_internal = internal\<rparr>"
  define w1 where "w1 = audit_record en ''comment.created'' (comment_audit c) (on_db (add_comment c) w)"
  have run: "comment_create en order oid ty k author body internal w = (Inr c, handle_mentions en order oid author (strip body) ty k w1)"
    using True by (simp add: comment_create_def Let_def c_def w1_def)
  have "aside w1 w'" using aside_mentions [of w1] run assms by simp
  then have "comments (cur w') = comments (cur w1)" using core_comments unfolding aside_def by blast
  moreover have "comments (cur w1) = comments (cur w) @ [c]" by (simp add: w1_def comment_audit_def tag_audit_def)
  ultimately show ?thesis using run assms by auto
qed (use assms in \<open>auto simp: comment_create_def split: option.splits if_splits\<close>)

text \<open>A comment changes only by its author, within fifteen minutes of writing it, and only in its text; it
  disappears only when its author or an administrator, in its own organization, deletes it.\<close>

theorem comment_only_by_author:
  assumes "distinct (map cm_id (comments (cur w)))" and "com w = cur w" and "c \<in> set (comments (cur w))"
    and "c \<notin> set (comments (com (run_comment en order op w)))"
  shows "(\<exists>body. op = Edit_comment (cm_id c) (cm_author c) body \<and> clock w - cm_created_at c \<le> edit_window
        \<and> c\<lparr>cm_body := strip body, cm_edited_at := Some (clock w)\<rparr> \<in> set (comments (com (run_comment en order op w))))
    \<or> (\<exists>actor. op = Delete_comment (cm_id c) actor \<and> may_delete_comment (user_get actor (cur w)) c)"
proof (cases op)
  case (Add_comment oid ty k author body internal)
  then have False
    using assms(2-4) comment_create_keeps [of en order oid ty k author body internal w]
    by (cases "comment_create en order oid ty k author body internal w")
      (auto simp: in_transaction_def split: sum.splits)
  then show ?thesis ..
next
  case (Edit_comment cid actor body)
  obtain x w' where run: "comment_edit en cid actor body w = (x, w')" by fastforce
  show ?thesis
  proof (cases x)
    case (Inl e)
    then have "com w' = cur w" using run assms(2) by (auto simp: comment_edit_def Let_def split: option.splits if_splits)
    then show ?thesis using assms(3,4) Edit_comment run Inl by (simp add: in_transaction_def)
  next
    case (Inr v)
    let ?new = "\<lambda>r. r\<lparr>cm_body := strip body, cm_edited_at := Some (clock w)\<rparr>"
    obtain r where r: "row_get cm_id cid (comments (cur w)) = Some r" "cm_author r = actor"
        "clock w - cm_created_at r \<le> edit_window"
      and rows: "comments (cur w') = row_put cm_id (?new r) (comments (cur w))"
      using run Inr by (auto simp: comment_edit_def Let_def comment_audit_def tag_audit_def split: option.splits if_splits)
    have m: "r \<in> set (comments (cur w))" "cm_id r = cid" using r(1) by (auto simp: row_get_def dest: find_Some_D)
    have after: "comments (com (run_comment en order op w)) = comments (cur w')"
      using Edit_comment run Inr by (simp add: in_transaction_def)
    have "cm_id c = cid"
      using row_put_other [OF assms(3), of cm_id "?new r"] assms(4) m(2) unfolding after rows by auto
    then have "c = r" using assms(1,3) m by (auto simp: distinct_map inj_on_def)
    moreover have "?new r \<in> set (comments (cur w'))" unfolding rows using m(1) by (force simp: row_put_def)
    ultimately show ?thesis using Edit_comment r m(2) after by auto
  qed
next
  case (Delete_comment cid actor)
  obtain x w' where run: "comment_delete en cid actor w = (x, w')" by fastforce
  show ?thesis
  proof (cases x)
    case (Inl e)
    then have "com w' = cur w" using run assms(2) by (auto simp: comment_delete_def split: option.splits if_splits)
    then show ?thesis using assms(3,4) Delete_comment run Inl by (simp add: in_transaction_def)
  next
    case (Inr v)
    obtain r where r: "row_get cm_id cid (comments (cur w)) = Some r" "may_delete_comment (user_get actor (cur w)) r"
      and rows: "comments (cur w') = filter (\<lambda>x. cm_id x \<noteq> cid) (comments (cur w))"
      using run Inr by (auto simp: comment_delete_def comment_audit_def tag_audit_def split: option.splits if_splits)
    have m: "r \<in> set (comments (cur w))" "cm_id r = cid" using r(1) by (auto simp: row_get_def dest: find_Some_D)
    have "cm_id c = cid" using assms(3,4) Delete_comment run Inr by (auto simp: in_transaction_def rows)
    then have "c = r" using assms(1,3) m by (auto simp: distinct_map inj_on_def)
    then show ?thesis using Delete_comment r(2) m(2) by blast
  qed
qed

subsection \<open>Concrete runs\<close>

definition tag_world :: world where
  "tag_world = run_tag sample_env 1 (Attach_tag ''guest'' 5 1 0)
     (world_of (com (run_tag sample_env 1 (Create_tag '' VIP '' ''Red'' 0) (world_of sample_db))))"

theorem tags_stay_in_the_organization_witness:
  "tags_reachable sample_env (com tag_world) \<and> map tg_name (org_tags 1 (com tag_world)) = [''VIP'']
   \<and> guest_tags (com tag_world) = [(5, 1)] \<and> length (org_tags 1 (com tag_world)) \<le> 100"
proof -
  have s: "tags_reachable sample_env sample_db"
    by (rule tags_reachable.start) (simp_all add: sample_db_def empty_db_def)
  have r: "tags_reachable sample_env (com tag_world)"
    unfolding tag_world_def
    using tags_reachable.step [OF tags_reachable.step [OF s, of "world_of sample_db" 1 "Create_tag '' VIP '' ''Red'' 0"],
        of "world_of (com (run_tag sample_env 1 (Create_tag '' VIP '' ''Red'' 0) (world_of sample_db)))"]
    by (simp del: run_tag.simps)
  have c: "map tg_name (org_tags 1 (com tag_world)) = [''VIP'']" "guest_tags (com tag_world) = [(5, 1)]"
    by code_simp+
  show ?thesis using tags_stay_in_the_organization [OF r, of 1] r c by blast
qed

definition old_comment :: comment where
  "old_comment = \<lparr>cm_id = 1, cm_org = 1, cm_target_type = ''guest'', cm_target = 5, cm_author = 3, cm_body = ''late'',
     cm_created_at = sample_clock, cm_edited_at = None, cm_internal = True\<rparr>"

definition comment_world :: world where "comment_world = world_of (sample_db\<lparr>comments := [old_comment]\<rparr>)"

theorem comment_only_by_author_witness:
  "old_comment\<lparr>cm_body := ''on time'', cm_edited_at := Some sample_clock\<rparr>
     \<in> set (comments (com (run_comment sample_env id (Edit_comment 1 3 ''on time'') comment_world)))"
proof -
  have "strip ''on time'' = ''on time''" by code_simp
  moreover have "old_comment \<notin> set (comments (com (run_comment sample_env id (Edit_comment 1 3 ''on time'') comment_world)))"
    by code_simp
  ultimately show ?thesis
    using comment_only_by_author [of comment_world old_comment sample_env id "Edit_comment 1 3 ''on time''"]
    by (simp add: comment_world_def old_comment_def)
qed

end
