(* ===== verification/Auth.thy ===== *)
theory Auth
  imports Portal
begin

text \<open>
  Sign-in (app/auth): the password check with its lockout, the second factor of a superadmin (TOTP,
  backup codes, a code by e-mail), password reset links, and the cleanup of expired tokens. The
  random draws (codes, secrets, tokens) are arguments. Main facts: a password is accepted exactly
  for an active user below the limit of failed attempts; a backup code, an e-mail code and a reset
  link each work once; the cleanup removes nothing that is still valid.
\<close>

subsection \<open>Audit rows\<close>

definition login_failed_audit :: "string \<Rightarrow> string option \<Rightarrow> user_row option \<Rightarrow> audit_args" where
  "login_failed_audit reason ident user =
     (let who = none_if_empty (lower (strip (or_empty ident))) in
      audit_defaults\<lparr>aa_status := Some ''failure'', aa_actor_type := Some ''anonymous'', aa_actor_email := who,
        aa_target_type := Some (if user = None then ''auth'' else ''user''), aa_target_id := map_option usr_id user,
        aa_context := Some [(''reason'', JStr reason), (''login_identifier'', jstr who)], aa_commit := True\<rparr>)"

definition audit_auth_login_failed :: "env \<Rightarrow> string \<Rightarrow> string option \<Rightarrow> user_row option \<Rightarrow> world \<Rightarrow> world" where
  "audit_auth_login_failed en reason ident user w =
     audit_record en ''auth.login_failed'' (login_failed_audit reason ident user) w"

definition user_audit :: "user_row \<Rightarrow> (string \<times> json) list option \<Rightarrow> bool \<Rightarrow> audit_args" where
  \<comment> \<open>a row about a user by himself\<close>
  "user_audit u context now =
     audit_defaults\<lparr>aa_actor_type := Some ''user'', aa_actor_id := Some (usr_id u), aa_actor_email := Some (usr_email u),
       aa_org := Some (usr_org u), aa_target_type := Some ''user'', aa_target_id := Some (usr_id u),
       aa_context := context, aa_commit := now\<rparr>"

definition audit_login_success :: "env \<Rightarrow> user_row \<Rightarrow> world \<Rightarrow> world" where
  "audit_login_success en u w = audit_record en ''login'' (user_audit u (Some []) True) w"

definition audit_login_failed_2fa :: "env \<Rightarrow> user_row \<Rightarrow> world \<Rightarrow> world" where
  "audit_login_failed_2fa en u w = audit_auth_login_failed en ''invalid_2fa_code'' (Some (usr_email u)) (Some u) w"

definition audit_logout :: "env \<Rightarrow> user_row \<Rightarrow> world \<Rightarrow> world" where
  "audit_logout en u w = audit_record en ''auth.logout'' (user_audit u (Some []) True) w"

definition enable_2fa :: "env \<Rightarrow> user_row \<Rightarrow> nat \<Rightarrow> world \<Rightarrow> world" where
  "enable_2fa en u n w =
     audit_record en ''2fa_enabled'' (user_audit u (Some [(''backup_codes_issued'', JInt (int n))]) False) w"

definition disable_2fa :: "env \<Rightarrow> user_row \<Rightarrow> string \<Rightarrow> world \<Rightarrow> world" where
  "disable_2fa en u reason w =
     (let u1 = u\<lparr>usr_2fa := False, usr_totp_secret := None, usr_backup_codes := []\<rparr>
      in commit (audit_record en ''2fa_disabled'' (user_audit u1 (Some [(''reason'', JStr reason)]) False)
           (on_db (put_user u1) w)))"

subsection \<open>Password and lockout\<close>

definition max_attempts :: "env \<Rightarrow> int" where "max_attempts en = max 1 (max_login_attempts en)"

definition failed_attempts :: "string \<Rightarrow> world \<Rightarrow> login_attempt list" where
  "failed_attempts email w =
     filter (\<lambda>a. la_email a = email \<and> \<not> la_success a \<and> clock w - seconds (15 * 60) \<le> la_created_at a)
       (login_attempts (cur w))"

definition is_locked_out :: "env \<Rightarrow> string \<Rightarrow> world \<Rightarrow> bool" where
  "is_locked_out en email w \<longleftrightarrow> max_attempts en < int (length (failed_attempts email w))"

definition request_ip :: "env \<Rightarrow> string option" where
  "request_ip en =
     (let r = req en in
      if \<not> rq_request r then None
      else let ip = strip (before_char (CHR '','') (rq_forwarded r)) in if ip = '''' then rq_remote r else Some ip)"

definition record_login_attempt :: "env \<Rightarrow> string \<Rightarrow> bool \<Rightarrow> world \<Rightarrow> world" where
  "record_login_attempt en email success w =
     commit (on_db (add_login_attempt \<lparr>la_id = next_key T_login_attempts (cur w), la_email = email,
       la_ip = request_ip en, la_success = success, la_created_at = clock w\<rparr>) w)"

definition reset_failed_attempts :: "string \<Rightarrow> world \<Rightarrow> world" where
  "reset_failed_attempts email w =
     commit (on_db (\<lambda>d. d\<lparr>login_attempts := filter (\<lambda>a. \<not> (la_email a = email \<and> \<not> la_success a)) (login_attempts d)\<rparr>) w)"

definition refuse_login :: "env \<Rightarrow> string \<Rightarrow> string \<Rightarrow> user_row option \<Rightarrow> world \<Rightarrow> user_row option \<times> world" where
  "refuse_login en reason email user w =
     (None, audit_auth_login_failed en reason (Some email) user (record_login_attempt en email False w))"

definition authenticate_user :: "env \<Rightarrow> string option \<Rightarrow> string \<Rightarrow> world \<Rightarrow> user_row option \<times> world" where
  "authenticate_user en email password w =
     (let e = lower (strip (or_empty email)) in
      if e = '''' then (None, audit_auth_login_failed en ''missing_identifier'' None None w)
      else if is_locked_out en e w then refuse_login en ''account_locked'' e None w
      else case List.find (\<lambda>u. usr_email u = e) (users (cur w)) of
        None \<Rightarrow> refuse_login en ''user_not_found'' e None w
      | Some u \<Rightarrow>
          if \<not> usr_active u then refuse_login en ''user_inactive'' e (Some u) w
          else if \<not> check_password_hash en (usr_password_hash u) password then refuse_login en ''invalid_password'' e (Some u) w
          else (Some u, reset_failed_attempts e (record_login_attempt en e True w)))"

text \<open>The wrapper of the route only adds a message for database failures, which do not occur here.\<close>

definition authenticate_user_for_login ::
  "env \<Rightarrow> string option \<Rightarrow> string \<Rightarrow> world \<Rightarrow> (user_row option \<times> string option \<times> bool) \<times> world" where
  "authenticate_user_for_login en email password w =
     (case authenticate_user en email password w of (u, w1) \<Rightarrow> ((u, None, False), w1))"

subsection \<open>The second factor\<close>

definition email_2fa_ttl :: stamp where "email_2fa_ttl = seconds (10 * 60)"
definition password_reset_ttl :: stamp where "password_reset_ttl = hours 1"

definition ttl_minutes :: "stamp \<Rightarrow> int" where "ttl_minutes t = t div us_per_second div 60"

text \<open>The hash of a code is unique over all users, used and expired codes included.\<close>

definition send_email_2fa_code :: "env \<Rightarrow> int \<Rightarrow> user_row \<Rightarrow> world \<Rightarrow> (exn + bool) \<times> world" where
  \<comment> \<open>the draw from 0 to 999999\<close>
  "send_email_2fa_code en draw u w =
     (let code = fmt0 6 draw;
          t = token_issue en (next_key T_email_codes (cur w)) (usr_id u) code email_2fa_ttl w
      in if \<exists>x\<in>set (email_codes (cur w)). tk_hash x = tk_hash t then (Inl (PyError IntegrityError), rollback w)
         else case send_template en ''login_2fa_code'' (usr_email u)
             [(''user_email'', JStr (usr_email u)), (''code'', JStr code), (''expires_minutes'', JInt (ttl_minutes email_2fa_ttl))]
             (on_db (add_email_code t) w) of
           (Inl x, w1) \<Rightarrow> (Inl x, w1)
         | (Inr False, w1) \<Rightarrow> (Inr False, rollback w1)
         | (Inr True, w1) \<Rightarrow>
             (Inr True, commit (audit_record en ''2fa.email_code_sent''
               (audit_defaults\<lparr>aa_org := Some (usr_org u), aa_target_type := Some ''user'', aa_target_id := Some (usr_id u),
                  aa_context := Some [(''expires_minutes'', JInt (ttl_minutes email_2fa_ttl))]\<rparr>) w1)))"

definition ensure_totp_secret :: "string \<Rightarrow> user_row \<Rightarrow> world \<Rightarrow> world" where
  "ensure_totp_secret draw u w =
     (if or_empty (usr_totp_secret u) = '''' then commit (on_db (put_user (u\<lparr>usr_totp_secret := Some draw\<rparr>)) w) else w)"

text \<open>\<open>code.replace(" ", "").strip()\<close>\<close>

definition clean_code :: "string option \<Rightarrow> string" where
  "clean_code code = strip (filter (\<lambda>c. c \<noteq> CHR '' '') (or_empty code))"

definition own_audit :: "string \<Rightarrow> user_row \<Rightarrow> (string \<times> json) list option \<Rightarrow> bool \<Rightarrow> audit_args" where
  "own_audit st u context now =
     audit_defaults\<lparr>aa_status := Some st, aa_target_type := Some ''user'', aa_target_id := Some (usr_id u),
       aa_context := context, aa_commit := now\<rparr>"

definition generate_backup_codes :: "env \<Rightarrow> string list \<Rightarrow> user_row \<Rightarrow> user_row" where
  \<comment> \<open>the ten draws\<close>
  "generate_backup_codes en draws u = u\<lparr>usr_backup_codes := map (hash_token en) draws\<rparr>"

text \<open>A user without a secret has nothing to verify against: \<open>pyotp\<close> raises.\<close>

definition totp_ok :: "env \<Rightarrow> user_row \<Rightarrow> string \<Rightarrow> world \<Rightarrow> py_error + bool" where
  "totp_ok en u code w =
     (case usr_totp_secret u of None \<Rightarrow> Inl TypeError | Some s \<Rightarrow> Inr (totp_verify en s code (clock w)))"

definition complete_superadmin_two_factor_setup ::
  "env \<Rightarrow> string list \<Rightarrow> user_row \<Rightarrow> string option \<Rightarrow> world \<Rightarrow> (exn + bool \<times> string list option) \<times> world" where
  "complete_superadmin_two_factor_setup en draws u code w =
     (case totp_ok en u (clean_code code) w of
        Inl x \<Rightarrow> (Inl (PyError x), w)
      | Inr False \<Rightarrow> (Inr (False, None), audit_record en ''auth.2fa.setup_failed'' (own_audit ''failure'' u None True) w)
      | Inr True \<Rightarrow>
          let u1 = generate_backup_codes en draws (u\<lparr>usr_2fa := True\<rparr>)
          in (Inr (True, Some draws), commit (enable_2fa en u1 (length draws) (on_db (put_user u1) w))))"

definition regenerate_superadmin_backup_codes :: "env \<Rightarrow> string list \<Rightarrow> user_row \<Rightarrow> world \<Rightarrow> string list \<times> world" where
  "regenerate_superadmin_backup_codes en draws u w =
     (let u1 = generate_backup_codes en draws u
      in (draws, commit (audit_record en ''auth.2fa.backup_codes_regenerated''
           (own_audit ''success'' u1 (Some [(''count'', JInt (int (length draws)))]) False) (on_db (put_user u1) w))))"

text \<open>A used backup code is taken off the list, once.\<close>

definition consume_backup_code :: "env \<Rightarrow> string \<Rightarrow> user_row \<Rightarrow> user_row option" where
  "consume_backup_code en code u =
     (if code = '''' \<or> usr_backup_codes u = [] then None
      else let h = hash_token en (strip code) in
        if h \<notin> set (usr_backup_codes u) then None
        else Some (u\<lparr>usr_backup_codes := remove1 h (usr_backup_codes u)\<rparr>))"

definition active_email_code :: "env \<Rightarrow> int \<Rightarrow> string \<Rightarrow> world \<Rightarrow> token_row option" where
  "active_email_code en uid raw w =
     (if raw = '''' then None
      else case rev (sort_key tk_id (filter (\<lambda>t. tk_subject t = uid \<and> tk_hash t = hash_token en raw \<and> tk_used_at t = None
             \<and> clock w \<le> tk_expires_at t) (email_codes (cur w)))) of [] \<Rightarrow> None | t # _ \<Rightarrow> Some t)"

datatype verify_result = Totp | Backup | Email_code | Failed_code

definition verify_superadmin_two_factor_code ::
  "env \<Rightarrow> user_row \<Rightarrow> string option \<Rightarrow> world \<Rightarrow> (exn + verify_result) \<times> world" where
  "verify_superadmin_two_factor_code en u raw w =
     (let code = clean_code raw in
      case totp_ok en u code w of
        Inl x \<Rightarrow> (Inl (PyError x), w)
      | Inr True \<Rightarrow> (Inr Totp, audit_record en ''auth.2fa.verified'' (own_audit ''success'' u None True) w)
      | Inr False \<Rightarrow>
     (case consume_backup_code en code u of
        Some u1 \<Rightarrow>
          (Inr Backup, audit_record en ''auth.2fa.backup_code_used''
             (own_audit ''success'' u1 (Some [(''codes_remaining'', JInt (int (length (usr_backup_codes u1))))]) True)
             (on_db (put_user u1) w))
      | None \<Rightarrow>
     (case active_email_code en (usr_id u) code w of
        Some t \<Rightarrow>
          (Inr Email_code, commit (audit_record en ''2fa.email_code_used''
             ((own_audit ''success'' u None False)\<lparr>aa_org := Some (usr_org u)\<rparr>)
             (on_db (put_email_code (token_mark_used (clock w) t)) w)))
      | None \<Rightarrow> (Inr Failed_code, w))))"

subsection \<open>Password reset\<close>

text \<open>\<open>link\<close> builds the URL of the reset page from the token.\<close>

definition request_password_reset :: "env \<Rightarrow> (string \<Rightarrow> string) \<Rightarrow> string \<Rightarrow> string \<Rightarrow> world \<Rightarrow> (exn + unit) \<times> world" where
  "request_password_reset en link raw email w =
     (if email = '''' then (Inr (), w)
      else case List.find (\<lambda>u. usr_email u = email) (users (cur w)) of
        Some u \<Rightarrow>
          if \<not> usr_active u then
            (Inr (), audit_record en ''auth.password.reset_requested''
               (audit_defaults\<lparr>aa_status := Some ''failure'', aa_actor_type := Some ''anonymous'', aa_actor_email := Some email,
                  aa_commit := True\<rparr>) w)
          else
            let t = token_issue en (next_key T_reset_tokens (cur w)) (usr_id u) raw password_reset_ttl w;
                w1 = commit (on_db (add_reset_token t) w);
                w2 = snd (send_template_now en ''password_reset'' (usr_email u)
                       [(''user_email'', JStr (usr_email u)), (''reset_url'', JStr (link raw)),
                        (''expires_minutes'', JInt (ttl_minutes password_reset_ttl))] w1)
            in (Inr (), audit_record en ''auth.password.reset_requested''
                 (audit_defaults\<lparr>aa_actor_type := Some ''user'', aa_actor_id := Some (usr_id u), aa_actor_email := Some (usr_email u),
                    aa_target_type := Some ''user'', aa_target_id := Some (usr_id u), aa_commit := True\<rparr>) w2)
      | None \<Rightarrow>
          (Inr (), audit_record en ''auth.password.reset_requested''
             (audit_defaults\<lparr>aa_status := Some ''failure'', aa_actor_type := Some ''anonymous'', aa_actor_email := Some email,
                aa_commit := True\<rparr>) w))"

definition find_reset_token :: "env \<Rightarrow> string \<Rightarrow> world \<Rightarrow> token_row option" where
  "find_reset_token en raw w = token_find_active en raw (clock w) (reset_tokens (cur w))"

definition complete_password_reset :: "env \<Rightarrow> token_row \<Rightarrow> string \<Rightarrow> world \<Rightarrow> (exn + unit) \<times> world" where
  "complete_password_reset en t password w =
     (case row_get usr_id (tk_subject t) (users (cur w)) of
        None \<Rightarrow> (Inl (PyError AttributeError), w)
      | Some u \<Rightarrow>
          let u1 = u\<lparr>usr_password_hash := password_hash en password\<rparr>
          in (Inr (), commit (audit_record en ''auth.password.changed''
               ((user_audit u1 (Some [(''via'', JStr ''reset_token'')]) False)\<lparr>aa_org := None\<rparr>)
               (on_db (put_reset_token (token_mark_used (clock w) t)) (on_db (put_user u1) w)))))"

definition cleanup_expired_tokens :: "stamp option \<Rightarrow> world \<Rightarrow> (nat \<times> nat \<times> nat) \<times> world" where
  "cleanup_expired_tokens now w =
     (let t = (case now of Some n \<Rightarrow> n | None \<Rightarrow> clock w);
          keep = filter (\<lambda>x. \<not> tk_expires_at x < t); d = cur w
      in ((length (reset_tokens d) - length (keep (reset_tokens d)),
           length (email_codes d) - length (keep (email_codes d)),
           length (magic_links d) - length (keep (magic_links d))),
          commit (on_db (\<lambda>d. d\<lparr>reset_tokens := keep (reset_tokens d), email_codes := keep (email_codes d),
            magic_links := keep (magic_links d)\<rparr>) w)))"

subsection \<open>Passwords\<close>

definition accepted_login :: "env \<Rightarrow> string \<Rightarrow> string \<Rightarrow> user_row \<Rightarrow> world \<Rightarrow> bool" where
  "accepted_login en e password u w \<longleftrightarrow>
     e \<noteq> '''' \<and> \<not> is_locked_out en e w \<and> List.find (\<lambda>u. usr_email u = e) (users (cur w)) = Some u
     \<and> usr_active u \<and> check_password_hash en (usr_password_hash u) password"

lemma login_audit_commit [simp]: "aa_commit (login_failed_audit r i u)"
  by (simp add: login_failed_audit_def Let_def)

lemma refused_attempts:
  "login_attempts (com (snd (refuse_login en reason e user w)))
     = login_attempts (cur w) @ [\<lparr>la_id = next_key T_login_attempts (cur w), la_email = e, la_ip = request_ip en,
         la_success = False, la_created_at = clock w\<rparr>]"
  by (simp add: refuse_login_def audit_auth_login_failed_def record_login_attempt_def)

text \<open>C20: A sign-in succeeds exactly when the address is not empty, at most the allowed number of failed attempts for
  it (never less than one) lie in the last 15 minutes, and its user is active and has the password. So the lock of an
  address opens as soon as the failures leave these 15 minutes: no later time of unlocking is kept anywhere. A
  success leaves no failed attempt of the address. A refusal with an address adds exactly one failed attempt, now,
  also while the address is locked; an empty address is refused without being counted.\<close>

theorem login_exact:
  fixes email password w
  defines "e \<equiv> lower (strip (or_empty email))"
    and "failures \<equiv> filter (\<lambda>a. la_email a = lower (strip (or_empty email)) \<and> \<not> la_success a) (login_attempts (cur w))"
  assumes "authenticate_user en email password w = (r, w')"
  shows "(r = Some u \<longleftrightarrow> e \<noteq> ''''
      \<and> int (length (filter (\<lambda>a. clock w - seconds (15 * 60) \<le> la_created_at a) failures)) \<le> max 1 (max_login_attempts en)
      \<and> List.find (\<lambda>x. usr_email x = e) (users (cur w)) = Some u \<and> usr_active u
      \<and> check_password_hash en (usr_password_hash u) password)
    \<and> (if r \<noteq> None then filter (\<lambda>a. la_email a = e \<and> \<not> la_success a) (login_attempts (com w')) = []
       else if e = '''' then login_attempts (com w') = login_attempts (cur w)
       else \<exists>a. login_attempts (com w') = login_attempts (cur w) @ [a]
         \<and> la_email a = e \<and> \<not> la_success a \<and> la_created_at a = clock w)"
proof
  note run = assms(3) [unfolded authenticate_user_def, folded e_def, unfolded Let_def]
  have n: "length (filter (\<lambda>a. clock w - seconds (15 * 60) \<le> la_created_at a) failures) = length (failed_attempts e w)"
    by (simp add: failures_def failed_attempts_def e_def conj_ac)
  show "r = Some u \<longleftrightarrow> e \<noteq> ''''
      \<and> int (length (filter (\<lambda>a. clock w - seconds (15 * 60) \<le> la_created_at a) failures)) \<le> max 1 (max_login_attempts en)
      \<and> List.find (\<lambda>x. usr_email x = e) (users (cur w)) = Some u \<and> usr_active u
      \<and> check_password_hash en (usr_password_hash u) password"
    using run unfolding n by (auto simp: is_locked_out_def max_attempts_def refuse_login_def split: if_splits option.splits)
  show "if r \<noteq> None then filter (\<lambda>a. la_email a = e \<and> \<not> la_success a) (login_attempts (com w')) = []
       else if e = '''' then login_attempts (com w') = login_attempts (cur w)
       else \<exists>a. login_attempts (com w') = login_attempts (cur w) @ [a]
         \<and> la_email a = e \<and> \<not> la_success a \<and> la_created_at a = clock w"
  proof (cases r)
    case None
    show ?thesis
    proof (cases "e = ''''")
      case True
      then show ?thesis using run None by (auto simp: audit_auth_login_failed_def)
    next
      case False
      then have "\<exists>reason user. refuse_login en reason e user w = (r, w')"
        using run None by (fastforce split: option.splits if_splits)
      then obtain reason user where "w' = snd (refuse_login en reason e user w)" by (metis snd_conv)
      then show ?thesis using None False by (simp add: refused_attempts)
    qed
  next
    case (Some x)
    then have "w' = reset_failed_attempts e (record_login_attempt en e True w)"
      using run by (auto simp: refuse_login_def split: option.splits if_splits)
    then show ?thesis using Some by (simp add: reset_failed_attempts_def filter_empty_conv)
  qed
qed

subsection \<open>Codes\<close>

lemma consumed_once:
  assumes "consume_backup_code en code u = Some u1" and "distinct (usr_backup_codes u)"
  shows "consume_backup_code en code u1 = None \<and> usr_id u1 = usr_id u"
  using assms by (auto simp: consume_backup_code_def Let_def split: if_splits)

lemma active_email_code_D:
  assumes "active_email_code en uid raw w = Some t"
  shows "t \<in> set (email_codes (cur w)) \<and> tk_subject t = uid \<and> tk_hash t = hash_token en raw \<and> tk_used_at t = None"
proof -
  let ?c = "filter (\<lambda>t. tk_subject t = uid \<and> tk_hash t = hash_token en raw \<and> tk_used_at t = None
      \<and> clock w \<le> tk_expires_at t) (email_codes (cur w))"
  have a: "(case rev (sort_key tk_id ?c) of [] \<Rightarrow> None | t # _ \<Rightarrow> Some t) = Some t"
    using assms unfolding active_email_code_def by (simp only: split: if_splits) simp
  have "t \<in> set (rev (sort_key tk_id ?c))"
  proof (cases "rev (sort_key tk_id ?c)")
    case (Cons x xs)
    then have "x = t" using a unfolding Cons by simp
    then show ?thesis unfolding Cons by simp
  qed (use a in simp)
  then show ?thesis by simp
qed

lemma verify_cases:
  assumes "verify_superadmin_two_factor_code en u raw w = (r, w')"
  obtains (backup) u1 where "r = Inr Backup" "consume_backup_code en (clean_code raw) u = Some u1" "users (cur w') = row_put usr_id u1 (users (cur w))"
  | (email) t where "r = Inr Email_code" "active_email_code en (usr_id u) (clean_code raw) w = Some t"
      "email_codes (cur w') = row_put tk_id (token_mark_used (clock w) t) (email_codes (cur w))"
  | (other) "r \<noteq> Inr Backup" "r \<noteq> Inr Email_code"
  using assms unfolding verify_superadmin_two_factor_code_def Let_def
  by (auto split: sum.splits bool.splits option.splits)

text \<open>A backup code and an e-mail code each work once: when one has verified a user, the row of the user no
  longer has the backup code, and no active e-mail code of the user matches the code.\<close>

theorem second_factor_once:
  assumes "verify_superadmin_two_factor_code en u raw w = (r, w')"
    and "row_get usr_id (usr_id u) (users (cur w)) = Some u" and "distinct (usr_backup_codes u)"
    and "distinct (map tk_hash (email_codes (cur w)))" and "distinct (map tk_id (email_codes (cur w)))"
  shows "(r = Inr Backup \<longrightarrow> (\<exists>u1. row_get usr_id (usr_id u) (users (cur w')) = Some u1
        \<and> consume_backup_code en (clean_code raw) u1 = None))
    \<and> (r = Inr Email_code \<longrightarrow> cur v = cur w' \<longrightarrow> active_email_code en (usr_id u) (clean_code raw) v = None)"
proof (rule verify_cases [OF assms(1)])
  fix u1 assume r: "r = Inr Backup" and c: "consume_backup_code en (clean_code raw) u = Some u1"
    and w': "users (cur w') = row_put usr_id u1 (users (cur w))"
  note once = consumed_once [OF c assms(3)]
  have "row_get usr_id (usr_id u1) (users (cur w')) = Some u1"
    unfolding w' using row_get_put_same assms(2) once by (metis option.distinct(1))
  then show ?thesis using r once by auto
next
  fix t assume r: "r = Inr Email_code" and c: "active_email_code en (usr_id u) (clean_code raw) w = Some t"
    and w': "email_codes (cur w') = row_put tk_id (token_mark_used (clock w) t) (email_codes (cur w))"
  note t = active_email_code_D [OF c]
  have "active_email_code en (usr_id u) (clean_code raw) v = None" if v: "cur v = cur w'"
  proof (rule ccontr)
    assume "active_email_code en (usr_id u) (clean_code raw) v \<noteq> None"
    then obtain x where "active_email_code en (usr_id u) (clean_code raw) v = Some x" by blast
    from active_email_code_D [OF this] have x: "x \<in> set (row_put tk_id (token_mark_used (clock w) t) (email_codes (cur w)))"
      "tk_hash x = tk_hash t" "tk_used_at x = None" using v w' t by simp_all
    have x': "x \<in> set (email_codes (cur w))" "tk_id x \<noteq> tk_id t"
      using set_row_put [OF x(1)] x(3) by (auto simp: token_mark_used_def)
    have "x = t" using assms(4) x'(1) x(2) t by (auto simp: distinct_map inj_on_def)
    then show False using x'(2) by simp
  qed
  then show ?thesis using r by auto
qed auto

lemma reset_link_once:
  assumes "find_reset_token en raw w = Some t" and "distinct (map tk_hash (reset_tokens (cur w)))"
    and "complete_password_reset en t password w = (Inr u, w')" and "reset_tokens (cur v) = reset_tokens (cur w')"
  shows "find_reset_token en raw v = None"
proof -
  have t: "t \<in> set (reset_tokens (cur w))" "tk_hash t = hash_token en raw" "raw \<noteq> ''''"
    using assms(1) by (auto simp: find_reset_token_def token_find_active_def split: if_splits option.splits dest: find_Some_D)
  have rows: "reset_tokens (cur w') = row_put tk_id (token_mark_used (clock w) t) (reset_tokens (cur w))"
    using assms(3) by (auto simp: complete_password_reset_def Let_def split: option.splits)
  show ?thesis
  proof (rule ccontr)
    assume "find_reset_token en raw v \<noteq> None"
    then obtain x where x: "x \<in> set (reset_tokens (cur v))" "tk_hash x = hash_token en raw" "tk_used_at x = None"
      by (auto simp: find_reset_token_def token_find_active_def split: if_splits option.splits dest: find_Some_D)
    have x': "x \<in> set (reset_tokens (cur w))" "tk_id x \<noteq> tk_id t"
      using set_row_put [of x tk_id "token_mark_used (clock w) t" "reset_tokens (cur w)"] x assms(4) rows
      by (auto simp: token_mark_used_def)
    have "x = t" using assms(2) x'(1) x(2) t by (auto simp: distinct_map inj_on_def)
    then show False using x'(2) by simp
  qed
qed

text \<open>The cleanup leaves what is still valid.\<close>

lemma cleanup_keeps_valid:
  assumes "clock w \<le> tk_expires_at t"
  shows "t \<in> set (reset_tokens (cur (snd (cleanup_expired_tokens None w)))) \<longleftrightarrow> t \<in> set (reset_tokens (cur w))"
    "t \<in> set (email_codes (cur (snd (cleanup_expired_tokens None w)))) \<longleftrightarrow> t \<in> set (email_codes (cur w))"
    "t \<in> set (magic_links (cur (snd (cleanup_expired_tokens None w)))) \<longleftrightarrow> t \<in> set (magic_links (cur w))"
  using assms by (auto simp: cleanup_expired_tokens_def Let_def)

subsection \<open>Concrete runs\<close>

definition root_user :: user_row where
  "root_user = (sample_person 1 1 ''root@example.com'' ''superadmin'')\<lparr>usr_totp_secret := Some ''s'', usr_2fa := True,
     usr_backup_codes := [''h:abc'', ''h:def'']\<rparr>"

definition auth_world :: world where "auth_world = world_of (sample_db\<lparr>users := [root_user]\<rparr>)"

lemma root_facts: "usr_id root_user = 1" "distinct (usr_backup_codes root_user)"
  by (simp_all add: root_user_def)

lemma backup_verifies: "fst (verify_superadmin_two_factor_code sample_env root_user (Some ''abc'') auth_world) = Inr Backup"
proof -
  have c: "clean_code (Some ''abc'') = ''abc''" "strip ''abc'' = ''abc''" by code_simp+
  have "totp_ok sample_env root_user ''abc'' auth_world = Inr False"
    by (simp add: totp_ok_def root_user_def sample_env_def)
  then show ?thesis
    by (simp add: verify_superadmin_two_factor_code_def c consume_backup_code_def Let_def hash_token_def sample_env_simps root_user_def)
qed

theorem second_factor_once_witness:
  "\<exists>u1. row_get usr_id 1 (users (cur (snd (verify_superadmin_two_factor_code sample_env root_user (Some ''abc'') auth_world)))) = Some u1
     \<and> consume_backup_code sample_env (clean_code (Some ''abc'')) u1 = None"
  using second_factor_once [OF surjective_pairing, where en = sample_env and u = root_user and raw = "Some ''abc''" and w = auth_world]
    backup_verifies
  by (simp add: row_get_def auth_world_def sample_db_def root_facts)

theorem login_exact_witness:
  "fst (authenticate_user sample_env (Some ''root@example.com'') ''pw'' auth_world) = Some root_user"
proof -
  have e: "lower (strip ''root@example.com'') = ''root@example.com''" by code_simp
  obtain r w' where run: "authenticate_user sample_env (Some ''root@example.com'') ''pw'' auth_world = (r, w')" by fastforce
  have "r = Some root_user"
    using login_exact [OF run, of root_user] e
    by (simp add: auth_world_def root_user_def sample_env_def sample_db_def)
  then show ?thesis by (simp add: run)
qed

end
