(* ===== verification/Ical.thy ===== *)
theory Ical
  imports Frame Samples
begin

text \<open>
  Calendars of other platforms (app/integrations/ical/service.py and adapter.py): the feed of a unit and its
  signature, the import of foreign feeds, and the search for double bookings. The download and the reading of
  a calendar text are the libraries': their results are an argument, a failure by its class. Events with equal
  dates come in the order of their rows. Main facts: an import replaces the events of its feed or changes none;
  the conflicts are the pairs that share a night; what is exported comes back on import.
\<close>

subsection \<open>Reading a calendar\<close>

datatype ical_value = Ical_day date | Ical_moment date  \<comment> \<open>its day in its own zone\<close> | Ical_other

record ical_component =
  ic_name :: string
  ic_start :: "ical_value option"
  ic_end :: "ical_value option"
  ic_uid :: "string option"
  ic_summary :: "string option"

definition to_date :: "ical_value option \<Rightarrow> date option" where
  "to_date v = (case v of Some (Ical_day x) \<Rightarrow> Some x | Some (Ical_moment x) \<Rightarrow> Some x | _ \<Rightarrow> None)"

record ical_event =
  pe_uid :: string
  pe_summary :: "string option"
  pe_start :: date
  pe_end :: date

definition parsed_event :: "ical_component \<Rightarrow> ical_event option" where
  "parsed_event c =
     (if ic_name c \<noteq> ''VEVENT'' then None
      else case to_date (ic_start c) of
        None \<Rightarrow> None
      | Some s \<Rightarrow>
          let e = (case to_date (ic_end c) of None \<Rightarrow> s + 1 | Some x \<Rightarrow> if x \<le> s then s + 1 else x)
          in Some \<lparr>pe_uid = or_empty (text_or (ic_uid c) (Some (''no-uid-'' @ isoformat s))),
                  pe_summary = none_if_empty (strip (or_empty (ic_summary c))), pe_start = s, pe_end = e\<rparr>)"

datatype ical_failure = Fetch_timeout | Fetch_connection | Fetch_http int | Fetch_request | Bad_calendar | Unexpected

record ical_lib =
  il_fetch :: "outcall list \<Rightarrow> ical_failure + string"
  il_parse :: "string \<Rightarrow> ical_failure + ical_component list"

definition parse_ical_events :: "ical_lib \<Rightarrow> string \<Rightarrow> ical_failure + ical_event list" where
  "parse_ical_events lib text =
     (case il_parse lib text of Inl e \<Rightarrow> Inl e | Inr cs \<Rightarrow> Inr (List.map_filter parsed_event cs))"

subsection \<open>The feed of a unit\<close>

definition e_ical :: "string \<Rightarrow> string \<Rightarrow> nat \<Rightarrow> exn" where
  "e_ical code msg status = ServiceError Calendar_service code msg status"

definition sign_unit_token :: "env \<Rightarrow> int \<Rightarrow> exn + string" where
  "sign_unit_token en uid =
     (if ical_secret en = '''' then Inl (e_ical ''config_error'' ''iCal feed secret is not configured.'' 500)
      else Inr (hmac256 en (ical_secret en) (show_int uid)))"

definition verify_unit_token :: "env \<Rightarrow> int \<Rightarrow> string \<Rightarrow> exn + bool" where
  "verify_unit_token en uid token =
     (if token = '''' then Inr False
      else case sign_unit_token en uid of Inl e \<Rightarrow> Inl e | Inr expected \<Rightarrow> Inr (expected = strip token))"

record exported_event =
  fe_uid :: string
  fe_summary :: string
  fe_start :: date
  fe_end :: date
  fe_stamp :: stamp

definition exported_stays :: "int \<Rightarrow> db \<Rightarrow> reservation list" where
  "exported_stays uid d =
     order2 res_start res_id (filter (\<lambda>r. res_unit r = uid \<and> res_status r \<noteq> ''cancelled'') (reservations d))"

definition feed_event :: "unit_row \<Rightarrow> stamp \<Rightarrow> reservation \<Rightarrow> exported_event" where
  "feed_event u t r = \<lparr>fe_uid = ''reservation-'' @ show_int (res_id r) @ ''@pindora'', fe_summary = ''Reserved: '' @ u_name u,
     fe_start = res_start r, fe_end = res_end r, fe_stamp = t\<rparr>"

definition export_unit_calendar :: "int \<Rightarrow> stamp \<Rightarrow> db \<Rightarrow> exn + exported_event list" where
  \<comment> \<open>the events; their text is the library's\<close>
  "export_unit_calendar uid t d =
     (case row_get u_id uid (units d) of
        None \<Rightarrow> Inl (e_ical ''not_found'' ''Unit not found.'' 404)
      | Some u \<Rightarrow> Inr (map (feed_event u t) (exported_stays uid d)))"

subsection \<open>Feeds\<close>

definition list_unit_feeds :: "int \<Rightarrow> int \<Rightarrow> db \<Rightarrow> calendar_feed list" where
  "list_unit_feeds oid uid d = sort_key fd_id (filter (\<lambda>f. fd_org f = oid \<and> fd_unit f = uid) (feeds d))"

definition create_feed :: "int \<Rightarrow> int \<Rightarrow> string \<Rightarrow> string option \<Rightarrow> world \<Rightarrow> (exn + calendar_feed) \<times> world" where
  "create_feed oid uid url nm w =
     (if find_unit oid uid (cur w) = None then (Inl (e_ical ''not_found'' ''Unit not found.'' 404), w)
      else
        let f = \<lparr>fd_id = next_key T_feeds (cur w), fd_org = oid, fd_unit = uid, fd_name = none_if_empty (strip (or_empty nm)),
                 fd_url = strip url, fd_active = True, fd_synced_at = None, fd_error = None\<rparr>
        in (Inr f, commit (on_db (add_feed f) w)))"

subsection \<open>Double bookings\<close>

definition imported_of :: "int \<Rightarrow> int option \<Rightarrow> db \<Rightarrow> imported_event list" where
  "imported_of oid uid d =
     sort_key ie_start (filter (\<lambda>e. ie_org e = oid \<and> (uid = None \<or> uid = Some (ie_unit e))) (imported d))"

definition conflicting_stays :: "imported_event \<Rightarrow> db \<Rightarrow> reservation list" where
  "conflicting_stays e d =
     sort_key res_start (filter (\<lambda>r. res_unit r = ie_unit e \<and> res_status r \<noteq> ''cancelled''
       \<and> res_start r < ie_end e \<and> ie_start e < res_end r) (reservations d))"

definition detect_conflicts :: "int \<Rightarrow> int option \<Rightarrow> db \<Rightarrow> (reservation \<times> imported_event) list" where
  "detect_conflicts oid uid d =
     concat (map (\<lambda>e. map (\<lambda>r. (r, e)) (conflicting_stays e d)) (imported_of oid uid d))"

definition conflict_json :: "reservation \<times> imported_event \<Rightarrow> json" where
  "conflict_json c =
     (case c of (r, e) \<Rightarrow> JObj [(''reservation_id'', JInt (res_id r)), (''unit_id'', JInt (res_unit r)),
        (''reservation_start'', JStr (isoformat (res_start r))), (''reservation_end'', JStr (isoformat (res_end r))),
        (''external_uid'', JStr (ie_uid e)), (''external_summary'', JStr (or_empty (ie_summary e))),
        (''external_start'', JStr (isoformat (ie_start e))), (''external_end'', JStr (isoformat (ie_end e)))])"

subsection \<open>Import\<close>

definition failure_message :: "ical_failure \<Rightarrow> string" where
  "failure_message x =
     (case x of
        Fetch_timeout \<Rightarrow> ''Kalenteril'' @ [CHR 0xE4] @ ''hteen haku aikakatkaistiin. Yrit'' @ [CHR 0xE4] @ '' uudelleen hetken kuluttua.''
      | Fetch_connection \<Rightarrow> ''Kalenteril'' @ [CHR 0xE4] @ ''hteeseen ei saatu yhteytt'' @ [CHR 0xE4] @ ''. Tarkista URL ja yrit'' @ [CHR 0xE4] @ '' uudelleen.''
      | Fetch_http n \<Rightarrow> ''Kalenteril'' @ [CHR 0xE4] @ ''hteen haku ep'' @ [CHR 0xE4] @ ''onnistui (HTTP '' @ show_int n @ '').''
      | Fetch_request \<Rightarrow> ''Kalenteril'' @ [CHR 0xE4] @ ''hteen haku ep'' @ [CHR 0xE4] @ ''onnistui. Tarkista URL ja yrit'' @ [CHR 0xE4] @ '' uudelleen.''
      | Bad_calendar \<Rightarrow> ''Kalenteridatan luku ep'' @ [CHR 0xE4] @ ''onnistui. Tarkista, ett'' @ [CHR 0xE4] @ '' l'' @ [CHR 0xE4] @ ''hde on kelvollinen iCal-sy'' @ [CHR 0xF6] @ ''te.''
      | Unexpected \<Rightarrow> ''Kalenterin synkronointi ep'' @ [CHR 0xE4] @ ''onnistui odottamattomasta syyst'' @ [CHR 0xE4] @ ''.'')"

definition import_event :: "calendar_feed \<Rightarrow> stamp \<Rightarrow> ical_event \<Rightarrow> db \<Rightarrow> db" where
  "import_event f t p d =
     add_imported \<lparr>ie_id = next_key T_imported d, ie_org = fd_org f, ie_unit = fd_unit f, ie_feed = fd_id f,
       ie_uid = pe_uid p, ie_summary = pe_summary p, ie_start = pe_start p, ie_end = pe_end p, ie_created_at = t\<rparr> d"

definition replace_events :: "calendar_feed \<Rightarrow> stamp \<Rightarrow> ical_event list \<Rightarrow> db \<Rightarrow> db" where
  "replace_events f t ps d =
     put_feed (f\<lparr>fd_error := None, fd_synced_at := Some t\<rparr>)
       (fold (import_event f t) ps (d\<lparr>imported := filter (\<lambda>e. ie_feed e \<noteq> fd_id f) (imported d)\<rparr>))"

definition sync_audit :: "calendar_feed \<Rightarrow> string \<Rightarrow> int \<Rightarrow> audit_args" where
  "sync_audit f counted n =
     audit_defaults\<lparr>aa_org := Some (fd_org f), aa_target_type := Some ''unit'', aa_target_id := Some (fd_unit f),
       aa_context := Some [(''feed_id'', JInt (fd_id f)), (counted, JInt n)], aa_commit := True\<rparr>"

definition sync_single_feed :: "env \<Rightarrow> ical_lib \<Rightarrow> calendar_feed \<Rightarrow> world \<Rightarrow> (string + int) \<times> world" where
  "sync_single_feed en lib f w =
     (let w1 = call_out (CalendarFetch (fd_url f)) w;
          read = (case il_fetch lib (out w1) of Inl x \<Rightarrow> Inl x | Inr text \<Rightarrow> parse_ical_events lib text)
      in case read of
        Inr ps \<Rightarrow>
          let w2 = commit (on_db (replace_events f (clock w) ps) w1);
              conflicts = detect_conflicts (fd_org f) (Some (fd_unit f)) (cur w2);
              w3 = audit_record en ''calendar.imported'' (sync_audit f ''imported_count'' (int (length ps))) w2
          in (Inr (int (length ps)),
              if conflicts = [] then w3
              else audit_record en ''calendar.conflict_detected'' (sync_audit f ''conflict_count'' (int (length conflicts))) w3)
      | Inl x \<Rightarrow>
          (Inl (failure_message x),
           commit (on_db (put_feed (f\<lparr>fd_error := Some (take 512 (failure_message x)), fd_synced_at := Some (clock w)\<rparr>)) (rollback w1))))"

definition sync_feed :: "env \<Rightarrow> ical_lib \<Rightarrow> int \<Rightarrow> int \<Rightarrow> world \<Rightarrow> (exn + (string + int)) \<times> world" where
  "sync_feed en lib oid fid w =
     (case List.find (\<lambda>f. fd_id f = fid \<and> fd_org f = oid \<and> fd_active f) (feeds (cur w)) of
        None \<Rightarrow> (Inl (e_ical ''not_found'' (''Kalenteril'' @ [CHR 0xE4] @ ''hdett'' @ [CHR 0xE4] @ '' ei l'' @ [CHR 0xF6] @ ''ytynyt.'') 404), w)
      | Some f \<Rightarrow> (case sync_single_feed en lib f w of (r, w') \<Rightarrow> (Inr r, w')))"

definition active_feeds :: "int option \<Rightarrow> db \<Rightarrow> calendar_feed list" where
  "active_feeds oid d = sort_key fd_id (filter (\<lambda>f. fd_active f \<and> (oid = None \<or> oid = Some (fd_org f))) (feeds d))"

fun sync_feeds :: "env \<Rightarrow> ical_lib \<Rightarrow> calendar_feed list \<Rightarrow> int \<times> world \<Rightarrow> int \<times> world" where
  "sync_feeds en lib [] s = s"
| "sync_feeds en lib (f # fs) (n, w) =
     (case sync_single_feed en lib f w of
        (Inr k, w') \<Rightarrow> sync_feeds en lib fs (n + k, w') | (Inl _, w') \<Rightarrow> sync_feeds en lib fs (n, w'))"

definition sync_all_feeds :: "env \<Rightarrow> ical_lib \<Rightarrow> int option \<Rightarrow> world \<Rightarrow> int \<times> world" where
  "sync_all_feeds en lib oid w = sync_feeds en lib (active_feeds oid (cur w)) (0, w)"

subsection \<open>What an import does to the tables\<close>

definition event_of :: "imported_event \<Rightarrow> ical_event" where
  "event_of e = \<lparr>pe_uid = ie_uid e, pe_summary = ie_summary e, pe_start = ie_start e, pe_end = ie_end e\<rparr>"

definition feed_events :: "int \<Rightarrow> db \<Rightarrow> imported_event list" where
  "feed_events fid d = filter (\<lambda>e. ie_feed e = fid) (imported d)"

lemma import_events:
  "feeds (fold (import_event f t) ps d) = feeds d \<and> reservations (fold (import_event f t) ps d) = reservations d
    \<and> (\<exists>new. imported (fold (import_event f t) ps d) = imported d @ new \<and> map event_of new = ps
      \<and> (\<forall>e\<in>set new. ie_feed e = fd_id f \<and> ie_org e = fd_org f \<and> ie_unit e = fd_unit f))"
proof (induction ps arbitrary: d)
  case (Cons p ps)
  from Cons.IH [of "import_event f t p d"] obtain new
    where "imported (fold (import_event f t) ps (import_event f t p d)) = imported (import_event f t p d) @ new"
      "map event_of new = ps" "\<forall>e\<in>set new. ie_feed e = fd_id f \<and> ie_org e = fd_org f \<and> ie_unit e = fd_unit f"
      "feeds (fold (import_event f t) ps (import_event f t p d)) = feeds (import_event f t p d)"
      "reservations (fold (import_event f t) ps (import_event f t p d)) = reservations (import_event f t p d)"
    by blast
  moreover let ?e = "\<lparr>ie_id = next_key T_imported d, ie_org = fd_org f, ie_unit = fd_unit f, ie_feed = fd_id f,
    ie_uid = pe_uid p, ie_summary = pe_summary p, ie_start = pe_start p, ie_end = pe_end p, ie_created_at = t\<rparr>"
  have "import_event f t p d = add_imported ?e d" "event_of ?e = p" by (simp_all only: import_event_def) (simp add: event_of_def)
  ultimately have "imported (fold (import_event f t) (p # ps) d) = imported d @ ?e # new \<and> map event_of (?e # new) = p # ps
      \<and> (\<forall>e\<in>set (?e # new). ie_feed e = fd_id f \<and> ie_org e = fd_org f \<and> ie_unit e = fd_unit f)"
    and "feeds (fold (import_event f t) (p # ps) d) = feeds d" "reservations (fold (import_event f t) (p # ps) d) = reservations d"
    by simp_all
  then show ?case by (intro conjI exI [of _ "?e # new"]) simp_all
qed simp

lemma replaced_events:
  "map event_of (feed_events (fd_id f) (replace_events f t ps d)) = ps"
  "filter (\<lambda>e. ie_feed e \<noteq> fd_id f) (imported (replace_events f t ps d)) = filter (\<lambda>e. ie_feed e \<noteq> fd_id f) (imported d)"
  "feeds (replace_events f t ps d) = row_put fd_id (f\<lparr>fd_error := None, fd_synced_at := Some t\<rparr>) (feeds d)"
  "reservations (replace_events f t ps d) = reservations d"
proof -
  let ?d = "d\<lparr>imported := filter (\<lambda>e. ie_feed e \<noteq> fd_id f) (imported d)\<rparr>"
  from import_events [of f t ps ?d] obtain new where
      n: "imported (fold (import_event f t) ps ?d) = imported ?d @ new" "map event_of new = ps"
        "\<forall>e\<in>set new. ie_feed e = fd_id f \<and> ie_org e = fd_org f \<and> ie_unit e = fd_unit f"
    and o: "feeds (fold (import_event f t) ps ?d) = feeds ?d" "reservations (fold (import_event f t) ps ?d) = reservations ?d"
    by blast
  have "filter (\<lambda>e. ie_feed e = fd_id f) new = new" "filter (\<lambda>e. ie_feed e \<noteq> fd_id f) new = []"
    using n(3) by (simp_all add: filter_id_conv filter_empty_conv)
  then show "map event_of (feed_events (fd_id f) (replace_events f t ps d)) = ps"
    "filter (\<lambda>e. ie_feed e \<noteq> fd_id f) (imported (replace_events f t ps d)) = filter (\<lambda>e. ie_feed e \<noteq> fd_id f) (imported d)"
    using n(1,2) by (simp_all add: replace_events_def feed_events_def)
  show "feeds (replace_events f t ps d) = row_put fd_id (f\<lparr>fd_error := None, fd_synced_at := Some t\<rparr>) (feeds d)"
    "reservations (replace_events f t ps d) = reservations d"
    using o by (simp_all add: replace_events_def)
qed

definition ical_read :: "ical_lib \<Rightarrow> calendar_feed \<Rightarrow> world \<Rightarrow> ical_failure + ical_event list" where
  "ical_read lib f w =
     (case il_fetch lib (out w @ [CalendarFetch (fd_url f)]) of Inl x \<Rightarrow> Inl x | Inr text \<Rightarrow> parse_ical_events lib text)"

lemma sync_ok:
  assumes "ical_read lib f w = Inr ps"
  shows "\<exists>w'. sync_single_feed en lib f w = (Inr (int (length ps)), w') \<and> clock w' = clock w
    \<and> imported (com w') = imported (replace_events f (clock w) ps (cur w)) \<and> feeds (com w') = feeds (replace_events f (clock w) ps (cur w))
    \<and> cur w' = com w'"
proof -
  have read: "(case il_fetch lib (out (call_out (CalendarFetch (fd_url f)) w)) of Inl x \<Rightarrow> Inl x | Inr text \<Rightarrow> parse_ical_events lib text) = Inr ps"
    using assms by (simp add: ical_read_def)
  show ?thesis unfolding sync_single_feed_def Let_def read
    by (auto simp: audit_record_def sync_audit_def Let_def)
qed

lemma sync_failed:
  assumes "ical_read lib f w = Inl x"
  shows "\<exists>w'. sync_single_feed en lib f w = (Inl (failure_message x), w') \<and> clock w' = clock w \<and> cur w' = com w'
    \<and> imported (com w') = imported (com w)
    \<and> feeds (com w') = row_put fd_id (f\<lparr>fd_error := Some (take 512 (failure_message x)), fd_synced_at := Some (clock w)\<rparr>) (feeds (com w))"
proof -
  have read: "(case il_fetch lib (out (call_out (CalendarFetch (fd_url f)) w)) of Inl x \<Rightarrow> Inl x | Inr text \<Rightarrow> parse_ical_events lib text) = Inl x"
    using assms by (simp add: ical_read_def)
  show ?thesis unfolding sync_single_feed_def Let_def read by simp
qed

subsection \<open>Theorems\<close>

lemma parsed_nonempty: "parsed_event c = Some p \<Longrightarrow> pe_start p < pe_end p"
  by (auto simp: parsed_event_def Let_def split: if_splits option.splits)

lemma in_map_filter: "x \<in> set (List.map_filter f xs) \<Longrightarrow> \<exists>c\<in>set xs. f c = Some x"
  by (induction xs) (auto simp: List.map_filter_simps split: option.splits)

text \<open>C36: An import is all or nothing. When the download and the reading succeed, the events of the feed are afterwards exactly
  those read, each with at least one night; otherwise all imported events are as before and the feed carries the
  message. The events of other feeds and the other feeds never change, and the time of the attempt is kept.\<close>

theorem import_all_or_nothing:
  assumes "sync_single_feed en lib f w = (r, w')" and "com w = cur w" and "f \<in> set (feeds (cur w))" and "distinct (map fd_id (feeds (cur w)))"
  shows "(case ical_read lib f w of
        Inr ps \<Rightarrow> r = Inr (int (length ps)) \<and> map event_of (feed_events (fd_id f) (com w')) = ps
          \<and> list_all (\<lambda>p. pe_start p < pe_end p) ps
      | Inl x \<Rightarrow> r = Inl (failure_message x) \<and> imported (com w') = imported (cur w))
    \<and> filter (\<lambda>e. ie_feed e \<noteq> fd_id f) (imported (com w')) = filter (\<lambda>e. ie_feed e \<noteq> fd_id f) (imported (cur w))
    \<and> feeds (com w') = map (\<lambda>g. if g = f then f\<lparr>fd_error := (case r of Inl m \<Rightarrow> Some (take 512 m) | Inr n \<Rightarrow> None),
        fd_synced_at := Some (clock w)\<rparr> else g) (feeds (cur w))"
proof -
  have row: "row_put fd_id (f\<lparr>fd_error := m, fd_synced_at := t\<rparr>) (feeds (cur w))
      = map (\<lambda>g. if g = f then f\<lparr>fd_error := m, fd_synced_at := t\<rparr> else g) (feeds (cur w))" for m t
    unfolding row_put_def using assms(3,4) by (intro map_cong) (auto simp: distinct_map inj_on_def)
  show ?thesis
  proof (cases "ical_read lib f w")
    case (Inl x)
    from sync_failed [OF this, of en] assms(1,2) Inl row show ?thesis by auto
  next
    case (Inr ps)
    have "list_all (\<lambda>p. pe_start p < pe_end p) ps"
      using Inr in_map_filter parsed_nonempty
      by (fastforce simp: ical_read_def parse_ical_events_def list_all_iff split: sum.splits)
    moreover from sync_ok [OF Inr, of en] assms(1) have o: "r = Inr (int (length ps))"
        "imported (com w') = imported (replace_events f (clock w) ps (cur w))" "feeds (com w') = feeds (replace_events f (clock w) ps (cur w))"
      by auto
    moreover have "feed_events (fd_id f) (com w') = feed_events (fd_id f) (replace_events f (clock w) ps (cur w))"
      by (simp only: feed_events_def o)
    ultimately show ?thesis using Inr row by (simp add: replaced_events)
  qed
qed

text \<open>The search for double bookings is exact: it lists a reservation with an imported event exactly when both are of
  the same unit, the reservation is not cancelled and some night belongs to both.\<close>

theorem conflicts_are_shared_nights:
  assumes "\<forall>r\<in>set (reservations d). res_start r < res_end r" and "\<forall>e\<in>set (imported d). ie_start e < ie_end e"
  shows "set (detect_conflicts oid uid d) =
    {(r, e). r \<in> set (reservations d) \<and> e \<in> set (imported d) \<and> ie_org e = oid \<and> (uid = None \<or> uid = Some (ie_unit e))
      \<and> res_unit r = ie_unit e \<and> res_status r \<noteq> ''cancelled''
      \<and> (\<exists>t. res_start r \<le> t \<and> t < res_end r \<and> ie_start e \<le> t \<and> t < ie_end e)}"
proof -
  have night: "(\<exists>t. res_start r \<le> t \<and> t < res_end r \<and> ie_start e \<le> t \<and> t < ie_end e) \<longleftrightarrow> res_start r < ie_end e \<and> ie_start e < res_end r"
    if "r \<in> set (reservations d)" "e \<in> set (imported d)" for r e
  proof
    assume "res_start r < ie_end e \<and> ie_start e < res_end r"
    then show "\<exists>t. res_start r \<le> t \<and> t < res_end r \<and> ie_start e \<le> t \<and> t < ie_end e"
      using assms that by (intro exI [of _ "max (res_start r) (ie_start e)"]) auto
  qed auto
  show ?thesis using night by (fastforce simp: detect_conflicts_def conflicting_stays_def imported_of_def)
qed

definition component_of :: "exported_event \<Rightarrow> ical_component" where
  "component_of e = \<lparr>ic_name = ''VEVENT'', ic_start = Some (Ical_day (fe_start e)), ic_end = Some (Ical_day (fe_end e)),
     ic_uid = Some (fe_uid e), ic_summary = Some (fe_summary e)\<rparr>"

lemma exported_parse:
  "res_start r < res_end r \<Longrightarrow> parsed_event (component_of (feed_event u t r)) = Some \<lparr>pe_uid = ''reservation-'' @ show_int (res_id r) @ ''@pindora'',
     pe_summary = none_if_empty (strip (''Reserved: '' @ u_name u)), pe_start = res_start r, pe_end = res_end r\<rparr>"
  by (simp add: parsed_event_def component_of_def feed_event_def to_date_def)

lemma map_filter_total: "\<forall>x\<in>set xs. f x = Some (g x) \<Longrightarrow> List.map_filter f xs = map g xs"
  by (induction xs) (simp_all add: List.map_filter_simps)

text \<open>C37: What is exported comes back: a feed that serves the calendar exported for a unit, written and read faithfully by
  the calendar library, is imported as one event for each reservation of the unit that is not cancelled, in the order of
  arrival and number, with its number and its nights, when those reservations have at least one night.\<close>

theorem export_comes_back:
  assumes "export_unit_calendar uid t d = Inr evs" and "il_parse lib text = Inr (map component_of evs)"
    and "il_fetch lib (out w @ [CalendarFetch (fd_url f)]) = Inr text"
    and "\<forall>r\<in>set (reservations d). res_unit r = uid \<and> res_status r \<noteq> ''cancelled'' \<longrightarrow> res_start r < res_end r"
  shows "let stays = order2 res_start res_id (filter (\<lambda>r. res_unit r = uid \<and> res_status r \<noteq> ''cancelled'') (reservations d));
      (r, w') = sync_single_feed en lib f w;
      mine = filter (\<lambda>e. ie_feed e = fd_id f) (imported (com w'))
    in r = Inr (int (length stays))
      \<and> map (\<lambda>e. (ie_uid e, ie_start e, ie_end e)) mine
        = map (\<lambda>r. (''reservation-'' @ show_int (res_id r) @ ''@pindora'', res_start r, res_end r)) stays"
proof -
  have stays: "order2 res_start res_id (filter (\<lambda>r. res_unit r = uid \<and> res_status r \<noteq> ''cancelled'') (reservations d)) = exported_stays uid d"
    by (simp add: exported_stays_def)
  have nights: "\<forall>r\<in>set (exported_stays uid d). res_start r < res_end r"
    using assms(4) by (simp add: exported_stays_def order2_def)
  obtain u where u: "evs = map (feed_event u t) (exported_stays uid d)" using assms(1) by (auto simp: export_unit_calendar_def split: option.splits)
  let ?p = "\<lambda>r. \<lparr>pe_uid = ''reservation-'' @ show_int (res_id r) @ ''@pindora'',
     pe_summary = none_if_empty (strip (''Reserved: '' @ u_name u)), pe_start = res_start r, pe_end = res_end r\<rparr>"
  let ?ps = "map ?p (exported_stays uid d)"
  have "List.map_filter parsed_event (map component_of evs) = List.map_filter (\<lambda>r. parsed_event (component_of (feed_event u t r))) (exported_stays uid d)"
    by (simp add: u List.map_filter_def comp_def filter_map)
  also have "\<dots> = ?ps" using nights by (intro map_filter_total) (simp add: exported_parse)
  finally have "ical_read lib f w = Inr ?ps" using assms(2,3) by (simp add: ical_read_def parse_ical_events_def)
  from sync_ok [OF this, of en] obtain w' where s: "sync_single_feed en lib f w = (Inr (int (length ?ps)), w')"
    and "imported (com w') = imported (replace_events f (clock w) ?ps (cur w))" by blast
  then have "map event_of (feed_events (fd_id f) (com w')) = ?ps" using replaced_events(1) [of f "clock w" ?ps "cur w"] by (simp add: feed_events_def)
  from arg_cong [OF this, of "map (\<lambda>p. (pe_uid p, pe_start p, pe_end p))"] s show ?thesis
    unfolding stays by (simp add: event_of_def feed_events_def comp_def)
qed

lemma sync_single_feed_feeds:
  assumes "sync_single_feed en lib f w = (r, w')" and "com w = cur w"
  shows "com w' = cur w' \<and> clock w' = clock w
    \<and> (\<exists>m. feeds (cur w') = row_put fd_id (f\<lparr>fd_error := m, fd_synced_at := Some (clock w)\<rparr>) (feeds (cur w)))"
proof (cases "ical_read lib f w")
  case (Inl x)
  from sync_failed [OF this, of en] assms show ?thesis by auto
next
  case (Inr ps)
  from sync_ok [OF this, of en] assms have "com w' = cur w' \<and> clock w' = clock w" "feeds (cur w') = feeds (replace_events f (clock w) ps (cur w))"
    by auto
  then show ?thesis by (auto simp: replaced_events)
qed

lemma put_filter:
  "filter (\<lambda>g. fd_id g \<notin> fd_id ` set (f # fs)) (row_put fd_id (f\<lparr>fd_error := m, fd_synced_at := t\<rparr>) xs)
    = filter (\<lambda>g. fd_id g \<notin> fd_id ` set (f # fs)) xs"
  by (induction xs) (auto simp: row_put_def)

lemma sync_feeds_synced:
  assumes "sync_feeds en lib fs (k, w) = (n, w')" and "com w = cur w"
  shows "com w' = cur w' \<and> map fd_id (feeds (cur w')) = map fd_id (feeds (cur w))
    \<and> (\<forall>f\<in>set (feeds (cur w')). fd_id f \<in> fd_id ` set fs \<longrightarrow> fd_synced_at f = Some (clock w))
    \<and> filter (\<lambda>f. fd_id f \<notin> fd_id ` set fs) (feeds (cur w')) = filter (\<lambda>f. fd_id f \<notin> fd_id ` set fs) (feeds (cur w))"
  using assms
proof (induction fs arbitrary: k w)
  case (Cons f fs)
  obtain r w1 where s: "sync_single_feed en lib f w = (r, w1)" by fastforce
  note one = sync_single_feed_feeds [OF s Cons.prems(2)]
  obtain m where m: "feeds (cur w1) = row_put fd_id (f\<lparr>fd_error := m, fd_synced_at := Some (clock w)\<rparr>) (feeds (cur w))" using one by blast
  obtain k' where rest: "sync_feeds en lib fs (k', w1) = (n, w')" using Cons.prems(1) s by (cases r) auto
  note ih = Cons.IH [OF rest] 
  have c: "com w1 = cur w1" "clock w1 = clock w" using one by simp_all
  have ids: "map fd_id (feeds (cur w1)) = map fd_id (feeds (cur w))" unfolding m by (simp add: row_put_keys)
  have others: "filter (\<lambda>g. fd_id g \<notin> fd_id ` set (f # fs)) (feeds (cur w')) = filter (\<lambda>g. fd_id g \<notin> fd_id ` set (f # fs)) (feeds (cur w))"
  proof -
    have split: "filter (\<lambda>g. fd_id g \<notin> fd_id ` set (f # fs)) xs = filter (\<lambda>g. fd_id g \<noteq> fd_id f) (filter (\<lambda>g. fd_id g \<notin> fd_id ` set fs) xs)" for xs
      unfolding filter_filter by (rule filter_cong) auto
    have "filter (\<lambda>g. fd_id g \<notin> fd_id ` set (f # fs)) (feeds (cur w')) = filter (\<lambda>g. fd_id g \<notin> fd_id ` set (f # fs)) (feeds (cur w1))"
      unfolding split using ih [OF c(1)] by simp
    also have "\<dots> = filter (\<lambda>g. fd_id g \<notin> fd_id ` set (f # fs)) (feeds (cur w))"
      unfolding m by (rule put_filter)
    finally show ?thesis .
  qed
  have "fd_synced_at g = Some (clock w)" if g: "g \<in> set (feeds (cur w'))" "fd_id g \<in> fd_id ` set (f # fs)" for g
  proof (cases "fd_id g \<in> fd_id ` set fs")
    case True
    then show ?thesis using ih [OF c(1)] g(1) c(2) by auto
  next
    case False
    then have "g \<in> set (filter (\<lambda>f. fd_id f \<notin> fd_id ` set fs) (feeds (cur w')))" using g(1) by simp
    then have "g \<in> set (feeds (cur w1))" using ih [OF c(1)] by simp
    moreover have "fd_id g = fd_id f" using g(2) False by simp
    ultimately show ?thesis unfolding m by (auto simp: row_put_def)
  qed
  then show ?case using others ids ih [OF c(1)] by (intro conjI ballI impI) simp_all
qed simp

text \<open>A run over the feeds passes none by: afterwards every active feed of the organization (of all, without one) carries
  the time of this run, whatever happened to the feeds before it; the other feeds are untouched, and everything
  is committed.\<close>

theorem every_feed_is_tried:
  assumes "sync_all_feeds en lib oid w = (n, w')" and "com w = cur w" and "distinct (map fd_id (feeds (cur w)))"
  shows "map fd_id (feeds (com w')) = map fd_id (feeds (cur w)) \<and> com w' = cur w'
    \<and> fd_id ` {f \<in> set (feeds (com w')). fd_synced_at f = Some (clock w)} \<supseteq>
        fd_id ` {f \<in> set (feeds (cur w)). fd_active f \<and> (oid = None \<or> oid = Some (fd_org f))}
    \<and> {f \<in> set (feeds (cur w)). \<not> (fd_active f \<and> (oid = None \<or> oid = Some (fd_org f)))} \<subseteq> set (feeds (com w'))"
proof -
  let ?fs = "active_feeds oid (cur w)"
  note all = sync_feeds_synced [OF assms(1) [unfolded sync_all_feeds_def] assms(2)]
  have fs: "set ?fs = {f \<in> set (feeds (cur w)). fd_active f \<and> (oid = None \<or> oid = Some (fd_org f))}"
    by (auto simp: active_feeds_def)
  have "fd_id f \<in> fd_id ` {f \<in> set (feeds (com w')). fd_synced_at f = Some (clock w)}" if "f \<in> set ?fs" for f
  proof -
    have "fd_id f \<in> set (map fd_id (feeds (cur w)))" using that fs by auto
    then have "fd_id f \<in> set (map fd_id (feeds (cur w')))" using all by simp
    then obtain g where g: "g \<in> set (feeds (cur w'))" "fd_id g = fd_id f" by (auto simp: image_iff)
    then have "fd_synced_at g = Some (clock w)" using all that by (metis image_eqI)
    then show ?thesis using g all by (auto simp: image_iff intro!: bexI [of _ g])
  qed
  moreover have "f \<in> set (feeds (com w'))" if "f \<in> set (feeds (cur w))" "f \<notin> set ?fs" for f
  proof -
    have "fd_id f \<notin> fd_id ` set ?fs" using that assms(3) fs by (auto simp: distinct_map inj_on_def)
    then have "f \<in> set (filter (\<lambda>f. fd_id f \<notin> fd_id ` set ?fs) (feeds (cur w)))" using that(1) by simp
    also have "filter (\<lambda>f. fd_id f \<notin> fd_id ` set ?fs) (feeds (cur w)) = filter (\<lambda>f. fd_id f \<notin> fd_id ` set ?fs) (feeds (cur w'))"
      using all by simp
    finally have "f \<in> set (feeds (cur w'))" unfolding set_filter by blast
    moreover have "com w' = cur w'" using all by blast
    ultimately show ?thesis by simp
  qed
  ultimately show ?thesis using all fs by auto
qed

subsection \<open>Concrete calendars\<close>

text \<open>Unit 1 with one stay, and a foreign feed for it that serves the calendar exported for the unit itself; a second feed
  whose address does not answer.\<close>

definition sample_feed :: "int \<Rightarrow> string \<Rightarrow> calendar_feed" where
  "sample_feed i url = \<lparr>fd_id = i, fd_org = 1, fd_unit = 1, fd_name = None, fd_url = url, fd_active = True, fd_synced_at = None, fd_error = None\<rparr>"

definition feed_world :: world where
  "feed_world = world_of (sample_hotel\<lparr>feeds := [sample_feed 1 ''https://own'', sample_feed 2 ''https://gone'']\<rparr>)"

definition sample_lib :: ical_lib where
  "sample_lib = \<lparr>il_fetch = (\<lambda>calls. if last calls = CalendarFetch ''https://own'' then Inr ''CAL'' else Inl Fetch_timeout),
     il_parse = (\<lambda>text. Inr [component_of (feed_event (sample_unit 1 1 ''A1'') 0 sample_stay)])\<rparr>"

lemma feed_world_simps [simp]:
  "cur feed_world = sample_hotel\<lparr>feeds := [sample_feed 1 ''https://own'', sample_feed 2 ''https://gone'']\<rparr>"
  "com feed_world = cur feed_world" "clock feed_world = sample_clock" "out feed_world = []"
  by (simp_all add: feed_world_def world_of_def)

lemma sample_exported: "exported_stays 1 (cur feed_world) = [sample_stay]"
  by (simp add: exported_stays_def sample_hotel_def sample_stay_def order2_def)

lemma sample_nights:
  "ordinal_of 2026 1 9 < ordinal_of 2026 1 12" "ordinal_of 2026 1 11 < ordinal_of 2026 1 14"
  "ordinal_of 2026 1 9 \<le> ordinal_of 2026 1 11" "ordinal_of 2026 1 11 < ordinal_of 2026 1 12"
  by code_simp+

theorem export_comes_back_witness:
  "map (\<lambda>e. (ie_uid e, ie_start e, ie_end e)) (feed_events 1 (com (snd (sync_single_feed sample_env sample_lib (sample_feed 1 ''https://own'') feed_world))))
    = [(''reservation-1@pindora'', ordinal_of 2026 1 9, ordinal_of 2026 1 12)]"
proof -
  let ?evs = "[feed_event (sample_unit 1 1 ''A1'') 0 sample_stay]"
  have x: "export_unit_calendar 1 0 (cur feed_world) = Inr ?evs"
    unfolding export_unit_calendar_def sample_exported by (simp add: sample_hotel_def sample_db_def row_get_def)
  have l: "il_parse sample_lib ''CAL'' = Inr (map component_of ?evs)"
    "il_fetch sample_lib (out feed_world @ [CalendarFetch (fd_url (sample_feed 1 ''https://own''))]) = Inr ''CAL''"
    by (simp_all add: sample_lib_def sample_feed_def)
  have n: "\<forall>r\<in>set (reservations (cur feed_world)). res_unit r = 1 \<and> res_status r \<noteq> ''cancelled'' \<longrightarrow> res_start r < res_end r"
    using sample_nights by (simp add: sample_hotel_def sample_stay_def)
  have e: "order2 res_start res_id (filter (\<lambda>r. res_unit r = 1 \<and> res_status r \<noteq> ''cancelled'') (reservations (cur feed_world))) = [sample_stay]"
    using sample_exported by (simp only: exported_stays_def)
  have i: "show_int 1 = ''1''" by code_simp
  have s: "fd_id (sample_feed 1 u) = 1" "res_id sample_stay = 1" "res_start sample_stay = ordinal_of 2026 1 9"
    "res_end sample_stay = ordinal_of 2026 1 12" for u by (simp_all add: sample_feed_def sample_stay_def)
  from export_comes_back [OF x l n, of sample_env] show ?thesis
    unfolding e s list.map i Let_def by (simp add: feed_events_def split: prod.splits)
qed

theorem import_all_or_nothing_witness:
  "\<exists>r w'. sync_single_feed sample_env sample_lib (sample_feed 2 ''https://gone'') feed_world = (r, w')
    \<and> r = Inl (failure_message Fetch_timeout) \<and> imported (com w') = []
    \<and> map fd_synced_at (feeds (com w')) = [None, Some sample_clock]"
proof -
  obtain r w' where s: "sync_single_feed sample_env sample_lib (sample_feed 2 ''https://gone'') feed_world = (r, w')" by fastforce
  have read: "ical_read sample_lib (sample_feed 2 ''https://gone'') feed_world = Inl Fetch_timeout"
    by (simp add: ical_read_def sample_lib_def sample_feed_def)
  have "imported sample_hotel = []" by (simp add: sample_hotel_def sample_db_def)
  then show ?thesis using import_all_or_nothing [OF s] s read by (simp add: sample_feed_def)
qed

definition clash_db :: db where
  "clash_db = sample_hotel\<lparr>imported := [\<lparr>ie_id = 1, ie_org = 1, ie_unit = 1, ie_feed = 1, ie_uid = ''x'', ie_summary = None,
     ie_start = ordinal_of 2026 1 11, ie_end = ordinal_of 2026 1 14, ie_created_at = 0\<rparr>]\<rparr>"

theorem conflicts_are_shared_nights_witness:
  "(sample_stay, hd (imported clash_db)) \<in> set (detect_conflicts 1 None clash_db)"
proof -
  note d = sample_nights
  have "\<forall>r\<in>set (reservations clash_db). res_start r < res_end r" "\<forall>e\<in>set (imported clash_db). ie_start e < ie_end e"
    using d by (simp_all add: clash_db_def sample_stay_def)
  note exact = conflicts_are_shared_nights [OF this, of 1 None]
  have "\<exists>t. res_start sample_stay \<le> t \<and> t < res_end sample_stay \<and> ie_start (hd (imported clash_db)) \<le> t \<and> t < ie_end (hd (imported clash_db))"
    using d by (intro exI [of _ "ordinal_of 2026 1 11"]) (simp add: clash_db_def sample_stay_def)
  moreover have "res_unit sample_stay = 1" "res_status sample_stay \<noteq> ''cancelled''" by (simp_all add: sample_stay_def)
  ultimately show ?thesis unfolding exact by (simp add: clash_db_def)
qed

theorem every_feed_is_tried_witness:
  "\<exists>n w'. sync_all_feeds sample_env sample_lib (Some 1) feed_world = (n, w')
    \<and> {1, 2} \<subseteq> fd_id ` {f \<in> set (feeds (com w')). fd_synced_at f = Some sample_clock}"
proof -
  obtain n w' where s: "sync_all_feeds sample_env sample_lib (Some 1) feed_world = (n, w')" by fastforce
  have "{f \<in> set (feeds (cur feed_world)). fd_active f \<and> (Some 1 = None \<or> Some 1 = Some (fd_org f))}
      = {sample_feed 1 ''https://own'', sample_feed 2 ''https://gone''}"
    by (auto simp: sample_feed_def)
  then have ids: "fd_id ` {f \<in> set (feeds (cur feed_world)). fd_active f \<and> (Some 1 = None \<or> Some 1 = Some (fd_org f))} = {1, 2}"
    by (simp add: sample_feed_def)
  have "distinct (map fd_id (feeds (cur feed_world)))" by (simp add: sample_feed_def)
  note run = every_feed_is_tried [OF s feed_world_simps(2) this]
  from run have "{1, 2} \<subseteq> fd_id ` {f \<in> set (feeds (com w')). fd_synced_at f = Some sample_clock}"
    unfolding ids feed_world_simps(3) by (elim conjE)
  with s show ?thesis by blast
qed

end
