(* ===== verification/ApiKeys.thy ===== *)
theory ApiKeys
  imports Social Auth Ical
begin

text \<open>
  API keys (app/api/models.py, app/api/services.py) and the gate in front of every \<open>/api/v1\<close> route
  (app/api/auth.py): the key of the request, its scopes, the usage row. \<open>api_call\<close> is one request
  through the gate, up to the end-of-request hook that commits. The raw key is drawn by the
  argument \<open>draw\<close>; only its hash is stored. Main facts: a view runs exactly for an active, unexpired
  key whose scopes cover the route, and a rotated key stops at once while its successor works.
\<close>

subsection \<open>Keys\<close>

datatype key_error = Rotate_error string | Admin_error string | No_such_key | Key_exn exn

definition allowed_api_key_scopes :: "string list" where
  "allowed_api_key_scopes =
     [''reservations:read'', ''reservations:write'', ''invoices:read'', ''invoices:write'', ''guests:read'', ''guests:write'',
      ''properties:read'', ''properties:write'', ''maintenance:read'', ''maintenance:write'', ''reports:read'', ''webhooks:read'',
      ''webhooks:write'', ''search:read'', ''tags:read'', ''tags:write'', ''payments:read'', ''payments:write'', ''admin:*'']"

definition legacy_wildcard_scopes :: "string list" where
  "legacy_wildcard_scopes = [''reservations:*'', ''invoices:*'']"

definition known_scope :: "string \<Rightarrow> bool" where
  "known_scope s \<longleftrightarrow> s \<in> set allowed_api_key_scopes \<or> s \<in> set legacy_wildcard_scopes"

text \<open>The loop of \<open>normalize_scopes\<close>: blanks and repetitions are skipped, an unknown scope raises.\<close>

fun collect_scopes :: "string list \<Rightarrow> string list \<Rightarrow> py_error + string list" where
  "collect_scopes [] seen = Inr seen"
| "collect_scopes (s # ss) seen =
     (let t = strip s in
      if t = '''' \<or> t \<in> set seen then collect_scopes ss seen
      else if \<not> known_scope t then Inl ValueError
      else collect_scopes ss (seen @ [t]))"

definition normalize_scopes :: "string \<Rightarrow> py_error + string" where
  "normalize_scopes raw = map_sum id (join_with '','') (collect_scopes (split_on (CHR '','') raw) [])"

definition scope_list :: "api_key \<Rightarrow> string list" where
  "scope_list k = filter (\<lambda>s. s \<noteq> '''') (map strip (split_on (CHR '','') (ky_scopes k)))"

definition generate_raw_key :: "string \<Rightarrow> string" where
  "generate_raw_key draw = ''pms_'' @ draw"

definition issue_key ::
  "env \<Rightarrow> string \<Rightarrow> string \<Rightarrow> int \<Rightarrow> int option \<Rightarrow> string \<Rightarrow> stamp option \<Rightarrow> world \<Rightarrow> py_error + api_key" where
  "issue_key en draw name oid uid scopes expires w =
     map_sum id (\<lambda>sc. \<lparr>ky_id = next_key T_api_keys (cur w), ky_org = oid, ky_user = uid, ky_name = strip name,
       ky_prefix = take 12 (generate_raw_key draw), ky_hash = sha256 en (generate_raw_key draw), ky_scopes = sc,
       ky_active = True, ky_rotated_at = None, ky_expires_at = expires, ky_last_used_at = None, ky_created_at = clock w\<rparr>)
       (normalize_scopes scopes)"

definition find_active_by_raw_key :: "env \<Rightarrow> string \<Rightarrow> world \<Rightarrow> api_key option" where
  "find_active_by_raw_key en raw w =
     (if raw = '''' then None
      else case List.find (\<lambda>k. ky_hash k = sha256 en raw) (api_keys (cur w)) of
        None \<Rightarrow> None
      | Some k \<Rightarrow>
          if \<not> ky_active k then None
          else if (case ky_expires_at k of None \<Rightarrow> False | Some t \<Rightarrow> t < clock w) then None
          else Some k)"

definition hash_taken :: "api_key \<Rightarrow> db \<Rightarrow> bool" where
  "hash_taken k d \<longleftrightarrow> (\<exists>x\<in>set (api_keys d). ky_hash x = ky_hash k)"

definition rotation_audit :: "api_key \<Rightarrow> api_key \<Rightarrow> string option \<Rightarrow> audit_args" where
  "rotation_audit old new reason =
     audit_defaults\<lparr>aa_org := Some (ky_org new), aa_target_type := Some ''api_key'', aa_target_id := Some (ky_id old),
       aa_context := Some [(''new_key_id'', JInt (ky_id new)), (''prefix'', JStr (ky_prefix new)),
         (''reason'', JStr (strip (or_empty reason)))]\<rparr>"

definition rotate_api_key ::
  "env \<Rightarrow> string \<Rightarrow> int \<Rightarrow> string option \<Rightarrow> world \<Rightarrow> (key_error + api_key \<times> api_key \<times> string) \<times> world" where
  "rotate_api_key en draw kid reason w =
     (case row_get ky_id kid (api_keys (cur w)) of
        None \<Rightarrow> (Inl (Rotate_error (''No API key found with id '' @ show_int kid @ ''.'')), w)
      | Some old \<Rightarrow>
          if \<not> ky_active old
          then (Inl (Rotate_error (''API key '' @ show_int kid @ '' is not active; cannot rotate.'')), w)
          else case issue_key en draw (ky_name old) (ky_org old) (ky_user old) (ky_scopes old) (ky_expires_at old) w of
            Inl x \<Rightarrow> (Inl (Key_exn (PyError x)), w)
          | Inr new \<Rightarrow>
              if hash_taken new (cur w) then (Inl (Key_exn (PyError IntegrityError)), rollback w)
              else
                let old1 = old\<lparr>ky_active := False, ky_rotated_at := Some (clock w)\<rparr>
                in (Inr (old1, new, generate_raw_key draw),
                    audit_record en ''api_key.rotated'' (rotation_audit old1 new reason)
                      (on_db (put_api_key old1) (on_db (add_api_key new) w))))"

subsection \<open>Administration\<close>

definition admin_key_audit :: "int \<Rightarrow> int \<Rightarrow> string option \<Rightarrow> (string \<times> json) list \<Rightarrow> audit_args" where
  "admin_key_audit kid actor email context =
     audit_defaults\<lparr>aa_actor_type := Some ''user'', aa_actor_id := Some actor, aa_actor_email := email,
       aa_target_type := Some ''api_key'', aa_target_id := Some kid, aa_context := Some context, aa_commit := True\<rparr>"

definition admin_key_plan ::
  "env \<Rightarrow> string \<Rightarrow> string \<Rightarrow> int \<Rightarrow> int option \<Rightarrow> string list \<Rightarrow> stamp option \<Rightarrow> bool \<Rightarrow> world \<Rightarrow> key_error + api_key" where
  "admin_key_plan en draw name oid uid scopes expires super w =
     (if ''admin:*'' \<in> set scopes \<and> \<not> super then Inl (Admin_error ''admin scope'')
      else case (case uid of None \<Rightarrow> None | Some u \<Rightarrow>
             (case user_get u (cur w) of None \<Rightarrow> Some (Admin_error ''no such user'')
              | Some r \<Rightarrow> if usr_org r = oid then None else Some (Admin_error ''user of another organization''))) of
        Some x \<Rightarrow> Inl x
      | None \<Rightarrow>
          (case issue_key en draw name oid uid (join_with '','' scopes) expires w of
             Inl x \<Rightarrow> Inl (Key_exn (PyError x)) | Inr k \<Rightarrow> Inr k))"

definition create_api_key_admin ::
  "env \<Rightarrow> string \<Rightarrow> string \<Rightarrow> int \<Rightarrow> int option \<Rightarrow> string list \<Rightarrow> stamp option \<Rightarrow> int \<Rightarrow> string option \<Rightarrow> bool \<Rightarrow> world
    \<Rightarrow> (key_error + api_key \<times> string) \<times> world" where
  "create_api_key_admin en draw name oid uid scopes expires actor email super w =
     (case admin_key_plan en draw name oid uid scopes expires super w of
        Inl x \<Rightarrow> (Inl x, w)
      | Inr k \<Rightarrow>
          if hash_taken k (cur w) then (Inl (Key_exn (PyError IntegrityError)), rollback w)
          else (Inr (k, generate_raw_key draw),
                audit_record en ''apikey.created''
                  (admin_key_audit (ky_id k) actor email [(''name'', JStr (ky_name k)), (''prefix'', JStr (ky_prefix k)),
                     (''scopes'', JList (map JStr (scope_list k)))])
                  (on_db (add_api_key k) w)))"

definition toggle_api_key_active_admin ::
  "env \<Rightarrow> int \<Rightarrow> int \<Rightarrow> string option \<Rightarrow> world \<Rightarrow> (key_error + api_key) \<times> world" where
  "toggle_api_key_active_admin en kid actor email w =
     (case row_get ky_id kid (api_keys (cur w)) of
        None \<Rightarrow> (Inl No_such_key, w)
      | Some k \<Rightarrow>
          let k1 = k\<lparr>ky_active := \<not> ky_active k\<rparr>
          in (Inr k1, audit_record en ''apikey.active_toggled''
                (admin_key_audit kid actor email [(''is_active'', JBool (ky_active k1)), (''prefix'', JStr (ky_prefix k1))])
                (on_db (put_api_key k1) w)))"

text \<open>
  \<open>ApiKey.usage_rows\<close> is a backref without a delete cascade: deleting the key first sets the foreign
  key of its usage rows to NULL, which the column refuses. The audit row is committed before.
\<close>

definition delete_api_key_admin :: "env \<Rightarrow> int \<Rightarrow> int \<Rightarrow> string option \<Rightarrow> world \<Rightarrow> (key_error + string) \<times> world" where
  "delete_api_key_admin en kid actor email w =
     (case row_get ky_id kid (api_keys (cur w)) of
        None \<Rightarrow> (Inl No_such_key, w)
      | Some k \<Rightarrow>
          let w1 = audit_record en ''apikey.deleted'' (admin_key_audit kid actor email [(''prefix'', JStr (ky_prefix k))]) w in
          if \<exists>u\<in>set (key_usage (cur w1)). ku_key u = kid then (Inl (Key_exn (PyError IntegrityError)), rollback w1)
          else (Inr (ky_prefix k), commit (on_db (\<lambda>d. d\<lparr>api_keys := filter (\<lambda>x. ky_id x \<noteq> kid) (api_keys d)\<rparr>) w1)))"

definition prune_api_key_usage :: "int \<Rightarrow> world \<Rightarrow> nat \<times> world" where
  "prune_api_key_usage retention w =
     (if retention \<le> 0 then (0, w)
      else
        let old = (\<lambda>u. ku_created_at u < clock w - days retention)
        in (length (filter old (key_usage (cur w))),
            commit (on_db (\<lambda>d. d\<lparr>key_usage := filter (\<lambda>u. \<not> old u) (key_usage d)\<rparr>) w)))"

subsection \<open>The gate\<close>

type_synonym api_reply = "nat \<times> json"

definition json_ok :: "json \<Rightarrow> nat \<Rightarrow> api_reply" where
  "json_ok data status = (status, json_ok_body data)"

definition json_ok_meta :: "json \<Rightarrow> json \<Rightarrow> api_reply" where
  "json_ok_meta data meta =
     (200, JObj [(''success'', JBool True), (''data'', data), (''error'', JNull), (''meta'', meta)])"

definition api_error :: "string \<Rightarrow> string \<Rightarrow> nat \<Rightarrow> api_reply" where
  "api_error code message status = (status, json_error_body code message)"

record api_request =
  ar_authorization :: string  \<comment> \<open>\<open>''''\<close> when missing\<close>
  ar_x_api_key :: string
  ar_path :: string
  ar_token :: string  \<comment> \<open>the query's \<open>token\<close>, \<open>''''\<close> when missing\<close>

definition bearer_token :: "string \<Rightarrow> string" where
  "bearer_token h =
     (if lower (takeWhile (\<lambda>c. c \<noteq> CHR '' '') h) = ''bearer''
      then strip (tl (dropWhile (\<lambda>c. c \<noteq> CHR '' '') h)) else '''')"

definition extract_raw_key :: "api_request \<Rightarrow> string option" where
  "extract_raw_key r =
     (if bearer_token (ar_authorization r) \<noteq> '''' then Some (bearer_token (ar_authorization r))
      else none_if_empty (strip (ar_x_api_key r)))"

definition scope_matches :: "string \<Rightarrow> string \<Rightarrow> bool" where
  "scope_matches assigned required \<longleftrightarrow>
     assigned = required
     \<or> (drop (length assigned - 2) assigned = '':*'' \<and> starts_with (butlast assigned) required)"

definition load_key :: "env \<Rightarrow> api_request \<Rightarrow> world \<Rightarrow> api_reply + api_key" where
  "load_key en r w =
     (case extract_raw_key r of
        None \<Rightarrow> Inl (api_error ''unauthorized'' (''API key is required. Provide it via the ''
          @ [CHR 0x27] @ ''Authorization: Bearer <key>'' @ [CHR 0x27] @ '' or '' @ [CHR 0x27] @ ''X-API-Key: <key>''
          @ [CHR 0x27] @ '' header.'') 401)
      | Some raw \<Rightarrow>
          (case find_active_by_raw_key en raw w of
             None \<Rightarrow> Inl (api_error ''unauthorized'' ''Invalid, disabled, or expired API key.'' 401)
           | Some k \<Rightarrow> Inr k))"

definition scope_error :: "string \<Rightarrow> api_key \<Rightarrow> api_reply option" where
  \<comment> \<open>a route without a scope only asks for a key\<close>
  "scope_error required k =
     (if required = '''' then None
      else if scope_list k = []
      then Some (api_error ''forbidden'' ''API key has no scopes assigned; assign at least one scope to use this endpoint.'' 403)
      else if \<not> (\<exists>s\<in>set (scope_list k). scope_matches s required)
      then Some (api_error ''forbidden'' (''Missing required scope: '' @ required) 403)
      else None)"

definition record_api_key_usage :: "env \<Rightarrow> int \<Rightarrow> string \<Rightarrow> nat \<Rightarrow> world \<Rightarrow> world" where
  "record_api_key_usage en kid path status w =
     on_db (add_key_usage \<lparr>ku_id = next_key T_key_usage (cur w), ku_key = kid,
       ku_endpoint = (if path = '''' then ''-'' else take 255 path), ku_status = int status,
       ku_ip = none_if_empty (or_empty (request_ip en)),
       ku_user_agent = none_if_empty (take 512 (or_empty (rq_user_agent (req en)))), ku_created_at = clock w\<rparr>) w"

definition server_error :: api_reply where
  "server_error = api_error ''internal_server_error'' ''Internal server error.'' 500"

text \<open>
  One request. The view answers with a reply or raises; an exception nobody catches rolls the session
  back. Whatever the reply, the hook adds the usage row and commits the session as it stands.
\<close>

type_synonym api_view = "api_key \<Rightarrow> world \<Rightarrow> (exn + api_reply) \<times> world"

definition used_key :: "world \<Rightarrow> api_key \<Rightarrow> api_key" where
  "used_key w k = k\<lparr>ky_last_used_at := Some (clock w)\<rparr>"

definition run_view :: "string \<Rightarrow> api_view \<Rightarrow> api_key \<Rightarrow> world \<Rightarrow> api_reply \<times> world" where
  "run_view required view k w =
     (case scope_error required k of
        Some e \<Rightarrow> (e, w)
      | None \<Rightarrow> (case view k w of (Inr rep, w1) \<Rightarrow> (rep, w1) | (Inl x, w1) \<Rightarrow> (server_error, rollback w1)))"

definition api_call :: "env \<Rightarrow> api_request \<Rightarrow> string \<Rightarrow> api_view \<Rightarrow> world \<Rightarrow> api_reply \<times> world" where
  "api_call en r required view w =
     (case load_key en r w of
        Inl e \<Rightarrow> (e, w)
      | Inr k \<Rightarrow>
          let k1 = used_key w k in
          (case run_view required view k1 (on_db (put_api_key k1) w) of
             (rep, w1) \<Rightarrow> (rep, commit (record_api_key_usage en (ky_id k1) (ar_path r) (fst rep) w1))))"

text \<open>
  A unit's calendar is also handed out for a signed link: a request for the calendar's path with a token goes by the
  token alone, without a key, a usage row or a commit. The path gives the unit its number.
\<close>

definition ics_unit :: "string \<Rightarrow> int option" where
  "ics_unit path =
     (let pre = ''/api/v1/units/''; post = ''/calendar.ics'';
          mid = take (length path - length pre - length post) (drop (length pre) path)
      in if path = pre @ mid @ post \<and> mid \<noteq> '''' \<and> list_all is_digit mid then int_of_text mid else None)"

definition is_unit_calendar_ics_request_path :: "string \<Rightarrow> bool" where
  "is_unit_calendar_ics_request_path path \<longleftrightarrow> ics_unit path \<noteq> None"

type_synonym open_view = "api_key option \<Rightarrow> world \<Rightarrow> (exn + api_reply) \<times> world"

definition answered :: "(exn + api_reply) \<times> world \<Rightarrow> api_reply \<times> world" where
  "answered r = (case r of (Inr rep, w1) \<Rightarrow> (rep, w1) | (Inl x, w1) \<Rightarrow> (server_error, rollback w1))"

definition scoped_call :: "env \<Rightarrow> api_request \<Rightarrow> string \<Rightarrow> open_view \<Rightarrow> world \<Rightarrow> api_reply \<times> world" where
  "scoped_call en r required view w =
     (let token = strip (ar_token r) in
      case (if required = ''properties:read'' \<and> is_unit_calendar_ics_request_path (ar_path r) \<and> token \<noteq> ''''
            then ics_unit (ar_path r) else None) of
        Some uid \<Rightarrow>
          (case verify_unit_token en uid token of
             Inl x \<Rightarrow> (server_error, rollback w)
           | Inr ok \<Rightarrow>
               if ok then answered (view None w)
               else (api_error ''forbidden'' ''Invalid calendar token.'' 403, w))
      | None \<Rightarrow> api_call en r required (\<lambda>k. view (Some k)) w)"

text \<open>
  \<open>_lookup_required_scope\<close>: a view and its wrappers are numbered; \<open>scope_of\<close> is the declared scope,
  \<open>wrapped\<close> the next function in. The loop stops at a function it has seen.
\<close>

partial_function (option) lookup_loop ::
  "(nat \<Rightarrow> string option) \<Rightarrow> (nat \<Rightarrow> nat option) \<Rightarrow> nat list \<Rightarrow> nat option \<Rightarrow> string option option" where
  "lookup_loop scope_of wrapped seen f =
     (if f = None \<or> the f \<in> set seen then Some None
      else if strip (or_empty (scope_of (the f))) \<noteq> '''' then Some (Some (strip (or_empty (scope_of (the f)))))
      else lookup_loop scope_of wrapped (the f # seen) (wrapped (the f)))"

definition lookup_required_scope :: "(nat \<Rightarrow> string option) \<Rightarrow> (nat \<Rightarrow> nat option) \<Rightarrow> nat \<Rightarrow> string option option" where
  "lookup_required_scope scope_of wrapped f = lookup_loop scope_of wrapped [] (Some f)"

subsection \<open>Who gets through\<close>

definition unexpired :: "world \<Rightarrow> api_key \<Rightarrow> bool" where
  "unexpired w k \<longleftrightarrow> (case ky_expires_at k of None \<Rightarrow> True | Some t \<Rightarrow> clock w \<le> t)"

definition admitted :: "env \<Rightarrow> api_request \<Rightarrow> string \<Rightarrow> world \<Rightarrow> api_key \<Rightarrow> bool" where
  "admitted en r required w k \<longleftrightarrow> k \<in> set (api_keys (cur w)) \<and> ky_active k \<and> unexpired w k
     \<and> (\<exists>raw. extract_raw_key r = Some raw \<and> ky_hash k = sha256 en raw)
     \<and> (required = '''' \<or> (\<exists>s\<in>set (scope_list k). scope_matches s required))"

lemma extract_nonempty: "extract_raw_key r = Some raw \<Longrightarrow> raw \<noteq> ''''"
  by (auto simp: extract_raw_key_def none_if_empty_def split: if_splits)

lemma find_active_iff:
  assumes "distinct (map ky_hash (api_keys (cur w)))" and "raw \<noteq> ''''"
  shows "find_active_by_raw_key en raw w = Some k \<longleftrightarrow>
    k \<in> set (api_keys (cur w)) \<and> ky_hash k = sha256 en raw \<and> ky_active k \<and> unexpired w k"
proof
  assume "find_active_by_raw_key en raw w = Some k"
  then show "k \<in> set (api_keys (cur w)) \<and> ky_hash k = sha256 en raw \<and> ky_active k \<and> unexpired w k"
    by (auto simp: find_active_by_raw_key_def unexpired_def split: if_splits option.splits dest: find_Some_D)
next
  assume k: "k \<in> set (api_keys (cur w)) \<and> ky_hash k = sha256 en raw \<and> ky_active k \<and> unexpired w k"
  have "List.find (\<lambda>k. ky_hash k = sha256 en raw) (api_keys (cur w)) = Some k"
    by (rule find_only) (use k assms(1) in \<open>auto simp: distinct_map inj_on_def\<close>)
  then show "find_active_by_raw_key en raw w = Some k"
    using k assms(2) by (auto simp: find_active_by_raw_key_def unexpired_def split: option.splits)
qed

lemma used_key_simps [simp]: "scope_list (used_key w k) = scope_list k" "ky_id (used_key w k) = ky_id k"
  by (simp_all add: scope_list_def used_key_def)

lemma scope_error_None:
  "scope_error required (used_key w k) = None
    \<longleftrightarrow> required = '''' \<or> (\<exists>s\<in>set (scope_list k). scope_matches s required)"
  by (auto simp: scope_error_def)

text \<open>Without a signed link the gate goes by the key.\<close>

lemma key_gate_exact:
  assumes "distinct (map ky_hash (api_keys (cur w)))"
  shows "(\<forall>k. admitted en r required w k \<longrightarrow>
      (let w0 = on_db (put_api_key (used_key w k)) w; done = (\<lambda>(rep, w1). (rep, commit (record_api_key_usage en (ky_id k) (ar_path r) (fst rep) w1)))
       in api_call en r required view w =
         done (case view (used_key w k) w0 of (Inr rep, w1) \<Rightarrow> (rep, w1) | (Inl x, w1) \<Rightarrow> (server_error, rollback w1))))
    \<and> ((\<nexists>k. admitted en r required w k) \<longrightarrow>
        fst (fst (api_call en r required view w)) \<in> {401, 403}
        \<and> api_call en r required view w = api_call en r required view' w)"
proof (intro conjI allI impI)
  fix k assume a: "admitted en r required w k"
  then obtain raw where raw: "extract_raw_key r = Some raw" "ky_hash k = sha256 en raw" by (auto simp: admitted_def)
  have "find_active_by_raw_key en raw w = Some k"
    using find_active_iff [OF assms extract_nonempty [OF raw(1)]] a raw by (auto simp: admitted_def)
  then have l: "load_key en r w = Inr k" by (simp add: load_key_def raw)
  have s: "scope_error required (used_key w k) = None" using a by (auto simp: scope_error_None admitted_def)
  show "let w0 = on_db (put_api_key (used_key w k)) w; done = (\<lambda>(rep, w1). (rep, commit (record_api_key_usage en (ky_id k) (ar_path r) (fst rep) w1)))
       in api_call en r required view w =
         done (case view (used_key w k) w0 of (Inr rep, w1) \<Rightarrow> (rep, w1) | (Inl x, w1) \<Rightarrow> (server_error, rollback w1))"
    by (simp add: api_call_def l run_view_def s Let_def split: prod.split sum.split)
next
  assume none: "\<nexists>k. admitted en r required w k"
  have "(\<exists>e. load_key en r w = Inl e \<and> fst e = 401)
    \<or> (\<exists>k e. load_key en r w = Inr k \<and> scope_error required (used_key w k) = Some e \<and> fst e = 403)"
  proof (cases "load_key en r w")
    case (Inl e)
    then show ?thesis by (auto simp: load_key_def api_error_def split: option.splits)
  next
    case (Inr k)
    then obtain raw where raw: "extract_raw_key r = Some raw" "find_active_by_raw_key en raw w = Some k"
      by (auto simp: load_key_def split: option.splits)
    then have "\<not> (required = '''' \<or> (\<exists>s\<in>set (scope_list k). scope_matches s required))"
      using none find_active_iff [OF assms extract_nonempty [OF raw(1)]] by (auto simp: admitted_def)
    then show ?thesis using Inr scope_error_None [of required w k]
      by (auto simp: scope_error_def api_error_def)
  qed
  then show "fst (fst (api_call en r required view w)) \<in> {401, 403}"
    and "api_call en r required view w = api_call en r required view' w"
    by (auto simp: api_call_def run_view_def Let_def)
qed

text \<open>C21: The gate of a route with a scope is exact. A request for a unit's calendar that carries a token goes by the
  token alone: with the unit's signature under the configured secret the view runs, without a key and without any
  commit of the gate; else the reply is 403 or 500 whatever the view is, and nothing is stored. Any other request
  goes by its key: the view runs just when the request carries the raw key of a stored key that is active, unexpired
  and has a scope that covers the route; the reply is then the view's, or 500 with the session rolled back when it
  raises, and the use of the key is committed. Otherwise the reply is 401 or 403 and does not depend on the view.\<close>

theorem gate_exact:
  assumes "distinct (map ky_hash (api_keys (cur w)))"
  shows "case (if required = ''properties:read'' \<and> strip (ar_token r) \<noteq> '''' then ics_unit (ar_path r) else None) of
      Some uid \<Rightarrow>
        if ical_secret en \<noteq> '''' \<and> strip (ar_token r) = hmac256 en (ical_secret en) (show_int uid)
        then scoped_call en r required view w =
          (case view None w of (Inr rep, w1) \<Rightarrow> (rep, w1) | (Inl x, w1) \<Rightarrow> (server_error, rollback w1))
        else fst (fst (scoped_call en r required view w)) \<in> {403, 500}
          \<and> scoped_call en r required view w = scoped_call en r required view' w
          \<and> com (snd (scoped_call en r required view w)) = com w
    | None \<Rightarrow>
        (\<forall>k. admitted en r required w k \<longrightarrow>
          (let w0 = on_db (put_api_key (used_key w k)) w;
               done = (\<lambda>(rep, w1). (rep, commit (record_api_key_usage en (ky_id k) (ar_path r) (fst rep) w1)))
           in scoped_call en r required view w = done (case view (Some (used_key w k)) w0 of
               (Inr rep, w1) \<Rightarrow> (rep, w1) | (Inl x, w1) \<Rightarrow> (server_error, rollback w1))))
        \<and> ((\<nexists>k. admitted en r required w k) \<longrightarrow>
            fst (fst (scoped_call en r required view w)) \<in> {401, 403}
            \<and> scoped_call en r required view w = scoped_call en r required view' w)"
proof (cases "if required = ''properties:read'' \<and> strip (ar_token r) \<noteq> '''' then ics_unit (ar_path r) else None")
  case None
  then have run: "scoped_call en r required v w = api_call en r required (\<lambda>k. v (Some k)) w" for v
    by (auto simp: scoped_call_def is_unit_calendar_ics_request_path_def Let_def split: if_splits)
  show ?thesis
    unfolding None option.case run
    by (rule key_gate_exact [OF assms, of en r required "\<lambda>k. view (Some k)" "\<lambda>k. view' (Some k)"])
next
  case (Some uid)
  then have run: "scoped_call en r required v w = (case verify_unit_token en uid (strip (ar_token r)) of
      Inl x \<Rightarrow> (server_error, rollback w)
    | Inr ok \<Rightarrow> if ok then answered (v None w) else (api_error ''forbidden'' ''Invalid calendar token.'' 403, w))" for v
    by (auto simp: scoped_call_def is_unit_calendar_ics_request_path_def Let_def split: if_splits)
  have t: "strip (ar_token r) \<noteq> ''''" using Some by (simp split: if_splits)
  have k: "verify_unit_token en uid (strip (ar_token r)) = Inr True"
    if "ical_secret en \<noteq> ''''" "strip (ar_token r) = hmac256 en (ical_secret en) (show_int uid)"
    using that t strip_strip [of "ar_token r"] by (simp add: verify_unit_token_def sign_unit_token_def)
  have n: "verify_unit_token en uid (strip (ar_token r)) \<noteq> Inr True"
    if "\<not> (ical_secret en \<noteq> '''' \<and> strip (ar_token r) = hmac256 en (ical_secret en) (show_int uid))"
    using that t strip_strip [of "ar_token r"] by (auto simp: verify_unit_token_def sign_unit_token_def split: if_splits)
  show ?thesis
    unfolding Some option.case run
    using k n by (auto simp: answered_def server_error_def api_error_def rollback_def split: sum.split)
qed

subsection \<open>Rotation\<close>

lemma collect_scopes_D:
  "collect_scopes ss seen = Inr res \<Longrightarrow> (\<forall>s\<in>set seen. known_scope s) \<Longrightarrow>
     (\<forall>s\<in>set res. known_scope s \<and> (s \<in> set seen \<or> s \<in> strip ` set ss))"
proof (induction ss seen arbitrary: res rule: collect_scopes.induct)
  case (2 s ss seen)
  then show ?case by (auto simp: Let_def split: if_splits)
qed auto

lemma split_on_join:
  "ss \<noteq> [] \<Longrightarrow> (\<forall>s\<in>set ss. c \<notin> set s) \<Longrightarrow> split_on c (join_with [c] ss) = ss"
  by (induction "[c]" ss rule: join_with.induct) (auto simp: split_on_none split_on_append)

lemma known_scope_plain:
  assumes "known_scope s"
  shows "CHR '','' \<notin> set s" "strip s = s" "s \<noteq> ''''"
proof -
  have "list_all (\<lambda>s. CHR '','' \<notin> set s \<and> strip s = s \<and> s \<noteq> '''') (allowed_api_key_scopes @ legacy_wildcard_scopes)"
    by code_simp
  then show "CHR '','' \<notin> set s" "strip s = s" "s \<noteq> ''''"
    using assms by (auto simp: known_scope_def list_all_iff)
qed

lemma issued_scopes:
  assumes "issue_key en draw name oid uid scopes expires w = Inr k" and "s \<in> set (scope_list k)"
  shows "known_scope s \<and> s \<in> strip ` set (split_on (CHR '','') scopes)"
proof -
  obtain res where res: "collect_scopes (split_on (CHR '','') scopes) [] = Inr res" "ky_scopes k = join_with '','' res"
    using assms(1) by (cases "collect_scopes (split_on (CHR '','') scopes) []") (auto simp: issue_key_def normalize_scopes_def)
  note d = collect_scopes_D [OF res(1)]
  have "s \<in> set res"
  proof (cases "res = []")
    case True
    have "strip '''' = ''''" by code_simp
    then show ?thesis using assms(2) True by (simp add: scope_list_def res(2))
  next
    case False
    have p: "\<forall>s\<in>set res. CHR '','' \<notin> set s" using d known_scope_plain(1) by auto
    have "map strip res = res" by (rule map_idI) (use d known_scope_plain(2) in auto)
    then show ?thesis using assms(2) split_on_join [OF False p] by (simp add: scope_list_def res(2))
  qed
  then show ?thesis using d by auto
qed

text \<open>Rotating a key ends it at once and hands its rights to the successor: the old raw key is refused from then
  on, the new one is accepted (unless the key has expired) for the same organization and user, and its scopes are
  known ones the old key had.\<close>

theorem rotated_key_stops:
  assumes "rotate_api_key en draw kid reason w = (Inr (old, new, raw'), w')"
    and "keys_ok ky_id (seqs (cur w) T_api_keys) (api_keys (cur w))" and "distinct (map ky_hash (api_keys (cur w)))"
    and "raw \<noteq> ''''" and "sha256 en raw = ky_hash old"
    and "cur v = cur w'"
  shows "find_active_by_raw_key en raw v = None
    \<and> (unexpired v new \<longrightarrow> find_active_by_raw_key en raw' v = Some new)
    \<and> ky_org new = ky_org old \<and> ky_user new = ky_user old \<and> set (scope_list new) \<subseteq> set (scope_list old)"
proof -
  obtain k where k: "row_get ky_id kid (api_keys (cur w)) = Some k" "ky_active k"
      and n: "issue_key en draw (ky_name k) (ky_org k) (ky_user k) (ky_scopes k) (ky_expires_at k) w = Inr new"
      and fresh: "\<not> hash_taken new (cur w)"
      and o: "old = k\<lparr>ky_active := False, ky_rotated_at := Some (clock w)\<rparr>" and raw': "raw' = generate_raw_key draw"
      and rows: "api_keys (cur w') = row_put ky_id old (api_keys (cur w) @ [new])"
    using assms(1)
    by (auto simp: rotate_api_key_def Let_def rotation_audit_def split: option.splits if_splits sum.splits)
  have km: "k \<in> set (api_keys (cur w))" "ky_id k = kid" using k(1) by (auto simp: row_get_def dest: find_Some_D)
  have nf: "ky_hash new = sha256 en raw'" "ky_active new" "ky_org new = ky_org k" "ky_user new = ky_user k"
    using n by (auto simp: issue_key_def raw' map_sum_def split: sum.splits)
  have mem: "x = old \<or> ((x \<in> set (api_keys (cur w)) \<or> x = new) \<and> ky_id x \<noteq> kid)" if "x \<in> set (api_keys (cur v))" for x
    using set_row_put [of x ky_id old "api_keys (cur w) @ [new]"] that assms(6) rows o km(2) by auto
  have h: "ky_hash x \<noteq> ky_hash old" if "x \<in> set (api_keys (cur w))" "ky_id x \<noteq> kid" for x
  proof
    assume "ky_hash x = ky_hash old"
    then have "x = k" using assms(3) that(1) km(1) o by (auto simp: distinct_map inj_on_def)
    then show False using that(2) km(2) by simp
  qed
  have hn: "ky_hash new \<noteq> ky_hash x" if "x \<in> set (api_keys (cur w))" for x
    using fresh that by (auto simp: hash_taken_def)
  have stop: "find_active_by_raw_key en raw v = None"
  proof (rule ccontr)
    assume "find_active_by_raw_key en raw v \<noteq> None"
    then obtain x where x: "x \<in> set (api_keys (cur v))" "ky_hash x = ky_hash old" "ky_active x"
      using assms(5) by (auto simp: find_active_by_raw_key_def split: if_splits option.splits dest: find_Some_D)
    then show False using mem [OF x(1)] h hn [OF km(1)] o by auto
  qed
  show ?thesis
  proof (intro conjI impI)
    show "find_active_by_raw_key en raw v = None" by (rule stop)
    show "ky_org new = ky_org old" "ky_user new = ky_user old" using nf o by simp_all
    show "set (scope_list new) \<subseteq> set (scope_list old)"
      using issued_scopes [OF n] known_scope_plain(3) by (auto simp: o scope_list_def)
  next
    assume e: "unexpired v new"
    have "ky_id new = next_key T_api_keys (cur w)"
      using n by (auto simp: issue_key_def map_sum_def split: sum.splits)
    then have "ky_id new \<noteq> ky_id k" using api_key_tab.fresh [OF assms(2) km(1)] by simp
    then have "new \<in> set (api_keys (cur v))" using row_put_other [of new _ ky_id old] by (simp add: assms(6) rows o)
    moreover have "x = new" if "x \<in> set (api_keys (cur v))" "ky_hash x = sha256 en raw'" for x
      using mem [OF that(1)] that(2) hn [of x] hn [OF km(1)] o nf(1) by auto
    ultimately have "List.find (\<lambda>k. ky_hash k = sha256 en raw') (api_keys (cur v)) = Some new"
      using nf(1) by (intro find_only)
    then show "find_active_by_raw_key en raw' v = Some new"
      using e nf by (auto simp: find_active_by_raw_key_def unexpired_def raw' generate_raw_key_def split: option.splits)
  qed
qed

subsection \<open>The declared scope of a view\<close>

abbreviation wraps :: "(nat \<Rightarrow> nat option) \<Rightarrow> (nat \<times> nat) set" where
  "wraps wrapped \<equiv> {(a, b). wrapped a = Some b}"

abbreviation declared :: "(nat \<Rightarrow> string option) \<Rightarrow> nat \<Rightarrow> string" where
  "declared scope_of k \<equiv> strip (or_empty (scope_of k))"

text \<open>The scope of the first function that declares one, from a function inwards.\<close>

definition first_declared :: "(nat \<Rightarrow> string option) \<Rightarrow> (nat \<Rightarrow> nat option) \<Rightarrow> nat option \<Rightarrow> string \<Rightarrow> bool" where
  "first_declared scope_of wrapped f s \<longleftrightarrow>
     (\<exists>n k. ((\<lambda>a. Option.bind a wrapped) ^^ n) f = Some k \<and> declared scope_of k = s
        \<and> (\<forall>m<n. \<forall>j. ((\<lambda>a. Option.bind a wrapped) ^^ m) f = Some j \<longrightarrow> declared scope_of j = ''''))"

lemma first_declared_here: "declared scope_of j = s \<Longrightarrow> first_declared scope_of wrapped (Some j) s"
  unfolding first_declared_def by (rule exI [of _ 0]) simp

lemma first_declared_inside:
  assumes "declared scope_of j = ''''" and "first_declared scope_of wrapped (wrapped j) s"
  shows "first_declared scope_of wrapped (Some j) s"
proof -
  let ?walk = "\<lambda>n. ((\<lambda>a. Option.bind a wrapped) ^^ n)"
  have step: "?walk (Suc n) (Some j) = ?walk n (wrapped j)" for n by (simp only: funpow_Suc_right o_apply Option.bind.simps)
  obtain n k where k: "?walk n (wrapped j) = Some k" "declared scope_of k = s"
    "\<forall>m<n. \<forall>i. ?walk m (wrapped j) = Some i \<longrightarrow> declared scope_of i = ''''"
    using assms(2) unfolding first_declared_def by blast
  have "declared scope_of i = ''''" if "m < Suc n" "?walk m (Some j) = Some i" for m i
  proof (cases m)
    case 0
    then show ?thesis using that(2) assms(1) by simp
  next
    case (Suc m')
    then show ?thesis using that k(3) step [of m'] by (auto simp del: funpow.simps)
  qed
  then show ?thesis
    unfolding first_declared_def using k(1,2) step [of n] by (intro exI [of _ "Suc n"] exI [of _ k]) (simp del: funpow.simps)
qed

text \<open>Functions the loop has passed declare nothing, and lead to each other or to the next one.\<close>

lemma lookup_loop_total:
  assumes "finite A" and "\<forall>k\<in>A. \<forall>j. wrapped k = Some j \<longrightarrow> j \<in> A" and "set_option f \<subseteq> A" and "set seen \<subseteq> A"
    and "\<forall>k\<in>set seen. declared scope_of k = '''' \<and> (\<forall>j. wrapped k = Some j \<longrightarrow> j \<in> set seen \<or> f = Some j)"
  shows "(\<exists>s. lookup_loop scope_of wrapped seen f = Some (Some s) \<and> s \<noteq> '''' \<and> first_declared scope_of wrapped f s)
    \<or> (lookup_loop scope_of wrapped seen f = Some None
        \<and> (\<forall>j k. j \<in> set seen \<union> set_option f \<longrightarrow> (j, k) \<in> (wraps wrapped)\<^sup>* \<longrightarrow> declared scope_of k = ''''))"
  using assms
proof (induction "card (A - set seen)" arbitrary: seen f rule: less_induct)
  case less
  consider "f = None \<or> the f \<in> set seen" | j where "f = Some j" "j \<notin> set seen" "declared scope_of j \<noteq> ''''"
    | j where "f = Some j" "j \<notin> set seen" "declared scope_of j = ''''" by (cases f) auto
  then show ?case
  proof cases
    case 1
    have closed: "declared scope_of k = '''' \<and> k \<in> set seen" if "(j, k) \<in> (wraps wrapped)\<^sup>*" "j \<in> set seen" for j k
      using that
    proof (induction rule: rtrancl_induct)
      case (step y z)
      then have "y \<in> set seen" "wrapped y = Some z" by auto
      then have "z \<in> set seen" using less.prems(5) 1 by fastforce
      then show ?case using less.prems(5) by blast
    qed (use less.prems(5) in blast)
    have "lookup_loop scope_of wrapped seen f = Some None" using 1 by (subst lookup_loop.simps) simp
    then show ?thesis using closed 1 by auto
  next
    case (2 j)
    have "lookup_loop scope_of wrapped seen f = Some (Some (declared scope_of j))" using 2 by (subst lookup_loop.simps) simp
    then show ?thesis using 2 first_declared_here [of scope_of j] by blast
  next
    case (3 j)
    have step: "lookup_loop scope_of wrapped seen f = lookup_loop scope_of wrapped (j # seen) (wrapped j)"
      using 3 by (subst lookup_loop.simps) simp
    have "card (A - set (j # seen)) < card (A - set seen)"
      using less.prems(1,3) 3 by (intro psubset_card_mono) auto
    moreover have "set_option (wrapped j) \<subseteq> A" "set (j # seen) \<subseteq> A"
      using less.prems(2-4) 3(1) by (auto simp: elem_set)
    moreover have "\<forall>k\<in>set (j # seen). declared scope_of k = '''' \<and> (\<forall>i. wrapped k = Some i \<longrightarrow> i \<in> set (j # seen) \<or> wrapped j = Some i)"
      using less.prems(5) 3 by auto
    ultimately have ih: "(\<exists>s. lookup_loop scope_of wrapped (j # seen) (wrapped j) = Some (Some s) \<and> s \<noteq> ''''
            \<and> first_declared scope_of wrapped (wrapped j) s)
        \<or> (lookup_loop scope_of wrapped (j # seen) (wrapped j) = Some None
        \<and> (\<forall>i k. i \<in> set (j # seen) \<union> set_option (wrapped j) \<longrightarrow> (i, k) \<in> (wraps wrapped)\<^sup>* \<longrightarrow> declared scope_of k = ''''))"
      using less.hyps [of "j # seen" "wrapped j"] less.prems(1,2) by blast
    from ih show ?thesis
    proof (elim disjE exE conjE)
      fix s assume "lookup_loop scope_of wrapped (j # seen) (wrapped j) = Some (Some s)" "s \<noteq> ''''"
        "first_declared scope_of wrapped (wrapped j) s"
      then show ?thesis using first_declared_inside [of scope_of j wrapped] 3(1,3) unfolding step by blast
    next
      assume "lookup_loop scope_of wrapped (j # seen) (wrapped j) = Some None"
        and "\<forall>i k. i \<in> set (j # seen) \<union> set_option (wrapped j) \<longrightarrow> (i, k) \<in> (wraps wrapped)\<^sup>* \<longrightarrow> declared scope_of k = ''''"
      then show ?thesis using 3(1) unfolding step by simp
    qed
  qed
qed

text \<open>C22: The search for a route's declared scope always ends, even when the wrappers form a cycle. It returns the
  scope of the first function that declares one, counted from the view inwards through what each wraps; it returns
  none just when neither the view nor a function it wraps, at any depth, declares one.\<close>

theorem scope_lookup_ends:
  assumes "finite {k. (f, k) \<in> {(a, b). wrapped a = Some b}\<^sup>*}"
  shows "\<exists>res. lookup_required_scope scope_of wrapped f = Some res
    \<and> (case res of
         None \<Rightarrow> \<forall>k. (f, k) \<in> {(a, b). wrapped a = Some b}\<^sup>* \<longrightarrow> strip (or_empty (scope_of k)) = ''''
       | Some s \<Rightarrow> s \<noteq> '''' \<and> (\<exists>n k. ((\<lambda>a. Option.bind a wrapped) ^^ n) (Some f) = Some k \<and> strip (or_empty (scope_of k)) = s
           \<and> (\<forall>m<n. \<forall>j. ((\<lambda>a. Option.bind a wrapped) ^^ m) (Some f) = Some j \<longrightarrow> strip (or_empty (scope_of j)) = '''')))"
  using lookup_loop_total [OF assms, of wrapped "Some f" "[]" scope_of]
  by (fastforce simp: lookup_required_scope_def first_declared_def intro: rtrancl_into_rtrancl)

subsection \<open>Concrete keys\<close>

definition sample_key :: api_key where
  "sample_key = \<lparr>ky_id = 1, ky_org = 1, ky_user = Some 3, ky_name = ''k'', ky_prefix = ''pms_abc'', ky_hash = ''h:pms_abc'',
     ky_scopes = ''invoices:*,reports:read'', ky_active = True, ky_rotated_at = None, ky_expires_at = None,
     ky_last_used_at = None, ky_created_at = 0\<rparr>"

definition key_world :: world where
  "key_world = world_of (sample_db\<lparr>api_keys := [sample_key], seqs := (seqs sample_db)(T_api_keys := 1)\<rparr>)"

definition sample_call :: api_request where
  "sample_call = \<lparr>ar_authorization = ''Bearer pms_abc'', ar_x_api_key = '''', ar_path = ''/api/v1/leases/1'', ar_token = ''''\<rparr>"

lemma sample_admitted: "admitted sample_env sample_call ''invoices:write'' key_world sample_key"
proof -
  have e: "extract_raw_key sample_call = Some ''pms_abc''" by code_simp
  have s: "''invoices:*'' \<in> set (scope_list sample_key)" "scope_matches ''invoices:*'' ''invoices:write''" by code_simp+
  have "sample_key \<in> set (api_keys (cur key_world))" "ky_active sample_key" "unexpired key_world sample_key"
    "ky_hash sample_key = sha256 sample_env ''pms_abc''"
    by (simp_all add: key_world_def sample_key_def unexpired_def sample_env_simps)
  then show ?thesis using e s unfolding admitted_def by blast
qed

text \<open>A call without a key, by the signed link of unit 7.\<close>

definition link_env :: env where
  "link_env = sample_env\<lparr>ical_secret := ''s'', hmac256 := (\<lambda>k m. ''sig'' @ m)\<rparr>"

definition link_call :: api_request where
  "link_call = \<lparr>ar_authorization = '''', ar_x_api_key = '''', ar_path = ''/api/v1/units/7/calendar.ics'', ar_token = ''sig7''\<rparr>"

definition key_or_link :: open_view where
  "key_or_link k w = (Inr (json_ok JNull (if k = None then 200 else 201)), w)"

theorem gate_exact_witness:
  "fst (scoped_call sample_env sample_call ''invoices:write'' key_or_link key_world) = json_ok JNull 201
    \<and> fst (scoped_call link_env link_call ''properties:read'' key_or_link key_world) = json_ok JNull 200"
proof
  have d: "distinct (map ky_hash (api_keys (cur key_world)))" by (simp add: key_world_def)
  show "fst (scoped_call sample_env sample_call ''invoices:write'' key_or_link key_world) = json_ok JNull 201"
    using gate_exact [OF d, where required = "''invoices:write''" and r = sample_call and view = key_or_link and en = sample_env]
      sample_admitted by (auto simp: Let_def key_or_link_def)
  have u: "ics_unit (ar_path link_call) = Some 7" "strip (ar_token link_call) = ''sig7''" "show_int 7 = ''7''" by code_simp+
  have e: "ical_secret link_env = ''s''" "hmac256 link_env k m = ''sig'' @ m" for k m by (simp_all add: link_env_def)
  show "fst (scoped_call link_env link_call ''properties:read'' key_or_link key_world) = json_ok JNull 200"
    using gate_exact [OF d, where required = "''properties:read''" and r = link_call and view = key_or_link and en = link_env]
    by (simp add: u e key_or_link_def)
qed

theorem rotated_key_stops_witness:
  "find_active_by_raw_key sample_env ''pms_abc'' (snd (rotate_api_key sample_env ''new'' 1 None key_world)) = None"
proof -
  obtain old new raw w' where run: "rotate_api_key sample_env ''new'' 1 None key_world = (Inr (old, new, raw), w')"
    and h: "ky_hash old = ''h:pms_abc''"
  proof -
    have "case fst (rotate_api_key sample_env ''new'' 1 None key_world) of
        Inr (old, new, raw) \<Rightarrow> ky_hash old = ''h:pms_abc'' | Inl _ \<Rightarrow> False" by code_simp
    then show thesis using that
      by (cases "rotate_api_key sample_env ''new'' 1 None key_world") (auto split: sum.splits)
  qed
  have "keys_ok ky_id (seqs (cur key_world) T_api_keys) (api_keys (cur key_world))"
    by (simp add: key_world_def sample_key_def keys_ok_def)
  from rotated_key_stops [OF run this, of "''pms_abc''" w']
  have "find_active_by_raw_key sample_env ''pms_abc'' w' = None" by (simp add: key_world_def h sample_env_simps)
  then show ?thesis using run by simp
qed

text \<open>Two wrappers around each other: without a scope nothing is found, and of two scopes the outer one.\<close>

theorem scope_lookup_ends_witness:
  "lookup_required_scope (\<lambda>k. None) (\<lambda>k. Some (1 - k)) 0 = Some None
    \<and> lookup_required_scope (\<lambda>k. Some (if k = 0 then ''tags:read'' else ''tags:write'')) (\<lambda>k. Some (1 - k)) 0 = Some (Some ''tags:read'')"
proof
  have "{k. (0 :: nat, k) \<in> {(a, b). Some (1 - a) = Some b}\<^sup>*} \<subseteq> {0, 1}"
  proof
    fix k assume "k \<in> {k. (0 :: nat, k) \<in> {(a, b). Some (1 - a) = Some b}\<^sup>*}"
    then have "(0 :: nat, k) \<in> {(a, b). Some (1 - a) = Some b}\<^sup>*" by simp
    then show "k \<in> {0, 1}" by (induction rule: rtrancl_induct) auto
  qed
  then have fin: "finite {k. (0 :: nat, k) \<in> {(a, b). (\<lambda>k. Some (1 - k)) a = Some b}\<^sup>*}" by (simp add: finite_subset)
  have e: "strip (or_empty None) = ''''" "strip (or_empty (Some ''tags:read'')) = ''tags:read''" by code_simp+
  show "lookup_required_scope (\<lambda>k. None) (\<lambda>k. Some (1 - k)) 0 = Some None"
    using scope_lookup_ends [OF fin, of "\<lambda>k. None"] e(1) by (fastforce split: option.splits)
  let ?s = "\<lambda>k :: nat. Some (if k = 0 then ''tags:read'' else ''tags:write'')"
  obtain res where r: "lookup_required_scope ?s (\<lambda>k. Some (1 - k)) 0 = Some res"
    "case res of
       None \<Rightarrow> \<forall>k. (0, k) \<in> {(a, b). (\<lambda>k. Some (1 - k)) a = Some b}\<^sup>* \<longrightarrow> strip (or_empty (?s k)) = ''''
     | Some s \<Rightarrow> s \<noteq> '''' \<and> (\<exists>n k. ((\<lambda>a. Option.bind a (\<lambda>k. Some (1 - k))) ^^ n) (Some 0) = Some k \<and> strip (or_empty (?s k)) = s
         \<and> (\<forall>m<n. \<forall>j. ((\<lambda>a. Option.bind a (\<lambda>k. Some (1 - k))) ^^ m) (Some 0) = Some j \<longrightarrow> strip (or_empty (?s j)) = ''''))"
    using scope_lookup_ends [OF fin, of ?s] by blast
  then show "lookup_required_scope ?s (\<lambda>k. Some (1 - k)) 0 = Some (Some ''tags:read'')"
    using e by (cases res) (force simp: neq0_conv)+
qed

end
