(* ===== verification/Maintenance.thy ===== *)
theory Maintenance
  imports RowBooks
begin

text \<open>
  Maintenance requests (app/maintenance/services.py): create, update, resolve, cancel, the mail to
  whoever keeps the property, and the lists. \<open>link\<close> builds the URL of a request. Main facts: in every
  reachable state a request is of a property of its organization and its unit, if any, of that
  property; a resolved or cancelled request never changes again.
\<close>

subsection \<open>Errors and values\<close>

definition e_mr :: "string \<Rightarrow> exn" where
  "e_mr msg = ServiceError Maintenance_service ''validation_error'' msg 400"

definition e_mr_not_found :: exn where
  "e_mr_not_found = ServiceError Maintenance_service ''not_found'' ''Maintenance request not found.'' 404"

definition mr_statuses :: "string list" where
  "mr_statuses = [''new'', ''in_progress'', ''waiting'', ''resolved'', ''cancelled'']"

definition mr_open_statuses :: "string list" where
  "mr_open_statuses = [''new'', ''in_progress'', ''waiting'']"

definition mr_priorities :: "string list" where
  "mr_priorities = [''low'', ''normal'', ''medium'', ''high'', ''urgent'']"

definition e_priority :: exn where
  "e_priority = e_mr ''priority must be one of: low, normal, medium, high, urgent.''"

definition mr_date :: "string option \<Rightarrow> string \<Rightarrow> exn + date option" where
  "mr_date raw field =
     (let t = strip (or_empty raw) in
      if t = '''' then Inr None
      else case fromisoformat t of None \<Rightarrow> Inl (e_mr (bad_date field)) | Some d \<Rightarrow> Inr (Some d))"

definition unit_on_property :: "int \<Rightarrow> int \<Rightarrow> int \<Rightarrow> db \<Rightarrow> unit_row option" where
  "unit_on_property oid pid uid d =
     List.find (\<lambda>u. u_id u = uid \<and> u_property u = pid \<and> property_org pid d = Some oid) (units d)"

definition find_assignee :: "int \<Rightarrow> int \<Rightarrow> db \<Rightarrow> user_row option" where
  "find_assignee oid uid d = List.find (\<lambda>u. usr_id u = uid \<and> usr_org u = oid \<and> usr_active u) (users d)"

definition get_request_row :: "int \<Rightarrow> int \<Rightarrow> db \<Rightarrow> maintenance_request option" where
  "get_request_row oid mid d = List.find (\<lambda>m. mr_id m = mid \<and> mr_org m = oid) (maintenance d)"

definition mr_mask_email :: "string \<Rightarrow> string" where
  "mr_mask_email value =
     (let a = strip value in
      if CHR ''@'' \<notin> set a then ''***''
      else (if length (local_part a) \<le> 2 then take 1 (local_part a) @ ''*'' else take 2 (local_part a) @ ''***'')
         @ ''@'' @ domain_part a)"

definition priority_label :: "string \<Rightarrow> string" where
  "priority_label p =
     (let k = lower (strip p) in
      if k = ''low'' then ''Matala'' else if k = ''normal'' \<or> k = ''medium'' then ''Normaali''
      else if k = ''high'' then ''Korkea'' else if k = ''urgent'' then ''Kiireellinen'' else ''-'')"

subsection \<open>The mail\<close>

definition setting_truthy :: "setting_value \<Rightarrow> bool" where
  "setting_truthy v = (case v of VNone \<Rightarrow> False | VStr s \<Rightarrow> s \<noteq> '''' | VInt i \<Rightarrow> i \<noteq> 0 | VBool b \<Rightarrow> b
     | VDec (DFin c e) \<Rightarrow> c \<noteq> 0 | VDec _ \<Rightarrow> True | VJson j \<Rightarrow> json_truthy j)"

text \<open>\<open>(value or "").strip()\<close>\<close>

definition setting_text :: "setting_value \<Rightarrow> py_error + string" where
  "setting_text v = (if \<not> setting_truthy v then Inr '''' else case v of VStr s \<Rightarrow> Inr (strip s) | _ \<Rightarrow> Inl AttributeError)"

definition maintenance_recipient :: "env \<Rightarrow> int \<Rightarrow> int \<Rightarrow> world \<Rightarrow> (exn + string) \<times> world" where
  \<comment> \<open>\<open>''''\<close>: nobody\<close>
  "maintenance_recipient en oid pid w =
     (let own = (case find_property oid pid (cur w) of None \<Rightarrow> '''' | Some p \<Rightarrow> strip (or_empty (p_maintenance_email p))) in
      if own \<noteq> '''' then (Inr own, w)
      else case settings_get en ''maintenance.default_email'' (VStr '''') w of
        (Inl x, w1) \<Rightarrow> (Inl x, w1)
      | (Inr v, w1) \<Rightarrow> (lift_py (setting_text v), w1))"

definition maintenance_context :: "(int \<Rightarrow> string) \<Rightarrow> maintenance_request \<Rightarrow> db \<Rightarrow> (string \<times> json) list" where
  "maintenance_context link m d =
     [(''organization_id'', JInt (mr_org m)),
      (''property_name'', JStr (case property_get (mr_property m) d of None \<Rightarrow> ''-'' | Some p \<Rightarrow> p_name p)),
      (''unit_name'', JStr (case mr_unit m of None \<Rightarrow> ''-'' | Some u \<Rightarrow>
         (case unit_get u d of None \<Rightarrow> ''-'' | Some r \<Rightarrow> u_name r))),
      (''priority'', JStr (priority_label (mr_priority m))), (''status'', JStr (mr_status m)),
      (''description'', JStr (let t = strip (if or_empty (mr_description m) = '''' then mr_title m else or_empty (mr_description m))
         in if t = '''' then ''-'' else t)),
      (''maintenance_url'', JStr (link (mr_id m)))]"

definition queued_notice_audit :: "maintenance_request \<Rightarrow> string \<Rightarrow> string \<Rightarrow> audit_args" where
  "queued_notice_audit m event to =
     audit_defaults\<lparr>aa_org := Some (mr_org m), aa_target_type := Some ''maintenance_request'', aa_target_id := Some (mr_id m),
       aa_context := Some [(''event_type'', JStr event), (''property_id'', JInt (mr_property m)),
         (''recipient_email'', JStr (mr_mask_email to))],
       aa_commit := True\<rparr>"

definition queue_maintenance_email ::
  "env \<Rightarrow> (int \<Rightarrow> string) \<Rightarrow> maintenance_request \<Rightarrow> string \<Rightarrow> world \<Rightarrow> (exn + unit) \<times> world" where
  "queue_maintenance_email en link m event w =
     (case settings_get en ''maintenance.email_notifications_enabled'' (VBool True) w of
        (Inl x, w1) \<Rightarrow> (Inl x, w1)
      | (Inr v, w1) \<Rightarrow>
          if \<not> setting_truthy v then (Inr (), w1)
          else case maintenance_recipient en (mr_org m) (mr_property m) w1 of
            (Inl x, w2) \<Rightarrow> (Inl x, w2)
          | (Inr to, w2) \<Rightarrow>
              if to = '''' then (Inr (), w2)
              else case send_template en ''maintenance_request'' to (maintenance_context link m (cur w2)) w2 of
                (Inr True, w3) \<Rightarrow> (Inr (), audit_record en ''maintenance_request.email_queued'' (queued_notice_audit m event to) w3)
              | (_, w3) \<Rightarrow> (Inr (), w3))"

subsection \<open>Serializing and reading\<close>

definition serialize_request :: "maintenance_request \<Rightarrow> db \<Rightarrow> json" where
  "serialize_request m d =
     JObj [(''id'', JInt (mr_id m)), (''organization_id'', JInt (mr_org m)), (''property_id'', JInt (mr_property m)),
       (''property_name'', jstr (map_option p_name (property_get (mr_property m) d))),
       (''unit_id'', jint (mr_unit m)),
       (''unit_name'', jstr (case mr_unit m of None \<Rightarrow> None | Some u \<Rightarrow> map_option u_name (unit_get u d))),
       (''guest_id'', jint (mr_guest m)),
       (''guest_name'', jstr (case mr_guest m of None \<Rightarrow> None | Some g \<Rightarrow>
          map_option (\<lambda>r. strip (strip (g_first_name r) @ '' '' @ strip (g_last_name r))) (guest_get g d))),
       (''reservation_id'', jint (mr_reservation m)), (''title'', JStr (mr_title m)),
       (''description'', jstr (mr_description m)), (''status'', JStr (mr_status m)), (''priority'', JStr (mr_priority m)),
       (''priority_label'', JStr (priority_label (mr_priority m))), (''assigned_to_id'', jint (mr_assigned_to m)),
       (''assigned_to_email'', jstr (case mr_assigned_to m of None \<Rightarrow> None | Some u \<Rightarrow> map_option usr_email (user_get u d))),
       (''due_date'', jdate (mr_due m)), (''resolved_at'', jstamp (mr_resolved_at m)),
       (''created_by_id'', JInt (mr_created_by m)),
       (''created_by_email'', jstr (map_option usr_email (user_get (mr_created_by m) d))),
       (''created_at'', jstamp (Some (mr_created_at m))), (''updated_at'', jstamp (Some (mr_updated_at m)))]"

definition list_maintenance_requests ::
  "int \<Rightarrow> nat \<Rightarrow> nat \<Rightarrow> string option \<Rightarrow> string option \<Rightarrow> int option \<Rightarrow> int option \<Rightarrow> db \<Rightarrow> json list \<times> nat" where
  "list_maintenance_requests oid page per_page status priority pid uid d =
     (let rows = rev (sort_key mr_id (filter (\<lambda>m. mr_org m = oid
            \<and> (or_empty status = '''' \<or> mr_status m = lower (strip (or_empty status)))
            \<and> (or_empty priority = '''' \<or> mr_priority m = lower (strip (or_empty priority)))
            \<and> (pid = None \<or> pid = Some (mr_property m)) \<and> (uid = None \<or> uid = mr_unit m)) (maintenance d)))
      in (map (\<lambda>m. serialize_request m d) (take per_page (drop ((page - 1) * per_page) rows)), length rows))"

definition get_maintenance_request :: "int \<Rightarrow> int \<Rightarrow> db \<Rightarrow> exn + json" where
  "get_maintenance_request oid mid d =
     (case get_request_row oid mid d of None \<Rightarrow> Inl e_mr_not_found | Some m \<Rightarrow> Inr (serialize_request m d))"

subsection \<open>Creating\<close>

record mr_args =
  ma_property :: int
  ma_unit :: "int option"
  ma_guest :: "int option"
  ma_reservation :: "int option"
  ma_title :: string
  ma_description :: "string option"
  ma_priority :: string
  ma_status :: string
  ma_due :: "string option"
  ma_assigned :: "int option"
  ma_actor :: int

definition mr_refs_error :: "int \<Rightarrow> mr_args \<Rightarrow> db \<Rightarrow> exn option" where
  "mr_refs_error oid a d =
     (if find_property oid (ma_property a) d = None then Some (e_mr ''Property not found in this organization.'')
      else if ma_unit a \<noteq> None \<and> unit_on_property oid (ma_property a) (the (ma_unit a)) d = None
      then Some (e_mr ''Unit not found for this property.'')
      else if ma_guest a \<noteq> None \<and> find_guest oid (the (ma_guest a)) d = None
      then Some (e_mr ''Guest not found in this organization.'')
      else if ma_reservation a \<noteq> None \<and> find_reservation oid (the (ma_reservation a)) d = None
      then Some (e_mr ''Reservation not found in this organization.'') else None)"

definition mr_plan :: "int \<Rightarrow> mr_args \<Rightarrow> world \<Rightarrow> exn + maintenance_request" where
  "mr_plan oid a w =
     (let title = strip (ma_title a) in
      if title = '''' then Inl (e_mr ''Title is required.'')
      else case mr_refs_error oid a (cur w) of
        Some x \<Rightarrow> Inl x
      | None \<Rightarrow>
          let st = lower (strip (if ma_status a = '''' then ''new'' else ma_status a));
              pr = lower (strip (if ma_priority a = '''' then ''normal'' else ma_priority a))
          in if st \<notin> set mr_open_statuses then Inl (e_mr ''Initial status must be new, in_progress, or waiting.'')
             else if pr \<notin> set mr_priorities then Inl e_priority
             else case mr_date (ma_due a) ''due_date'' of
               Inl x \<Rightarrow> Inl x
             | Inr due \<Rightarrow>
                 if ma_assigned a \<noteq> None \<and> find_assignee oid (the (ma_assigned a)) (cur w) = None
                 then Inl (e_mr ''Assignee must be an active user in this organization.'')
                 else Inr \<lparr>mr_id = next_key T_maintenance (cur w), mr_org = oid, mr_property = ma_property a,
                   mr_unit = ma_unit a, mr_guest = ma_guest a, mr_reservation = ma_reservation a, mr_title = title,
                   mr_description = none_if_empty (strip (or_empty (ma_description a))), mr_status = st, mr_priority = pr,
                   mr_assigned_to = ma_assigned a, mr_due = due, mr_resolved_at = None, mr_created_by = ma_actor a,
                   mr_created_at = clock w, mr_updated_at = clock w\<rparr>)"

definition mr_audit :: "int \<Rightarrow> int \<Rightarrow> (string \<times> json) list \<Rightarrow> audit_args" where
  "mr_audit oid mid context =
     audit_defaults\<lparr>aa_org := Some oid, aa_target_type := Some ''maintenance_request'', aa_target_id := Some mid,
       aa_context := Some context\<rparr>"

definition announce_request :: "env \<Rightarrow> int \<Rightarrow> maintenance_request \<Rightarrow> world \<Rightarrow> world" where
  \<comment> \<open>audit row and notification, uncommitted\<close>
  "announce_request en oid m w =
     snd (notification_create en oid ''maintenance.requested'' ''Uusi huoltopyynto'' (Some (mr_title m))
       (Some (''/admin/maintenance-requests/'' @ show_int (mr_id m)))
       (if mr_priority m \<in> {''high'', ''urgent''} then ''warning'' else ''info'') None
       (audit_record en ''maintenance_request.created'' (mr_audit oid (mr_id m)
          [(''title'', JStr (mr_title m)), (''status'', JStr (mr_status m)), (''priority'', JStr (mr_priority m)),
           (''property_id'', JInt (mr_property m)), (''unit_id'', jint (mr_unit m))]) w))"

definition create_maintenance_request ::
  "env \<Rightarrow> (int \<Rightarrow> string) \<Rightarrow> int \<Rightarrow> mr_args \<Rightarrow> world \<Rightarrow> (exn + json) \<times> world" where
  "create_maintenance_request en link oid a w =
     (case mr_plan oid a w of
        Inl x \<Rightarrow> (Inl x, w)
      | Inr m \<Rightarrow>
          let w1 = commit (announce_request en oid m (on_db (add_maintenance m) w));
              w2 = publish en ''maintenance.requested'' oid (build_maintenance_requested_payload m w1) w1
          in case queue_maintenance_email en link m ''created'' w2 of
               (Inl x, w3) \<Rightarrow> (Inl x, w3)
             | (Inr u, w3) \<Rightarrow> (Inr (serialize_request m (cur w3)), w3))"

subsection \<open>Updating\<close>

definition mr_touch :: "world \<Rightarrow> maintenance_request \<Rightarrow> maintenance_request \<Rightarrow> maintenance_request" where
  "mr_touch w old new = (if new = old then old else new\<lparr>mr_updated_at := clock w\<rparr>)"

text \<open>A request while it is edited, with the audit rows written and the mails owed so far.\<close>

record mr_edit =
  me_row :: maintenance_request
  me_audits :: "(string \<times> audit_args) list"
  me_assigned :: bool
  me_urgent :: bool

type_synonym mr_step = "mr_edit \<Rightarrow> exn + mr_edit"

definition set_row :: "(maintenance_request \<Rightarrow> maintenance_request) \<Rightarrow> mr_edit \<Rightarrow> mr_edit" where
  "set_row f e = e\<lparr>me_row := f (me_row e)\<rparr>"

definition blank :: "scalar \<Rightarrow> bool" where
  "blank v = (v = SNone \<or> v = SStr '''')"

definition ed_title :: "(string \<times> scalar) list \<Rightarrow> mr_step" where
  "ed_title data = field_if (given ''title'' data) (\<lambda>e.
     let t = strip (str_or (dget ''title'' data) '''') in
     if t = '''' then Inl (e_mr ''Title cannot be empty.'') else Inr (set_row (\<lambda>m. m\<lparr>mr_title := t\<rparr>) e))"

definition ed_description :: "(string \<times> scalar) list \<Rightarrow> mr_step" where
  "ed_description data = field_if (given ''description'' data) (\<lambda>e.
     Inr (set_row (\<lambda>m. m\<lparr>mr_description := none_if_empty (strip (str_or (dget ''description'' data) ''''))\<rparr>) e))"

definition ed_priority :: "string \<Rightarrow> (string \<times> scalar) list \<Rightarrow> mr_step" where
  "ed_priority old data = field_if (given ''priority'' data) (\<lambda>e.
     let pr = lower (strip (str_or (dget ''priority'' data) '''')) in
     if pr \<notin> set mr_priorities then Inl e_priority
     else Inr ((set_row (\<lambda>m. m\<lparr>mr_priority := pr\<rparr>) e)
       \<lparr>me_urgent := me_urgent e \<or> (pr = ''urgent'' \<and> old \<noteq> ''urgent'')\<rparr>))"

definition ed_status :: "int \<Rightarrow> string \<Rightarrow> (string \<times> scalar) list \<Rightarrow> mr_step" where
  "ed_status oid old data = field_if (given ''status'' data) (\<lambda>e.
     let st = lower (strip (str_or (dget ''status'' data) '''')) in
     if st \<notin> set mr_open_statuses then Inl (e_mr ''Use resolve or cancel actions for terminal statuses.'')
     else if st = old then Inr e
     else Inr ((set_row (\<lambda>m. m\<lparr>mr_status := st\<rparr>) e)
       \<lparr>me_audits := me_audits e @ [(''maintenance_request.status_changed'',
          mr_audit oid (mr_id (me_row e)) [(''from_status'', JStr old), (''to_status'', JStr st)])]\<rparr>))"

definition move_to_property :: "int \<Rightarrow> int \<Rightarrow> db \<Rightarrow> maintenance_request \<Rightarrow> maintenance_request" where
  \<comment> \<open>a unit that is not on the new property is dropped\<close>
  "move_to_property oid pid d m = m\<lparr>mr_property := pid, mr_unit := (case mr_unit m of None \<Rightarrow> None
     | Some u \<Rightarrow> if unit_on_property oid pid u d = None then None else Some u)\<rparr>"

definition ed_property :: "int \<Rightarrow> db \<Rightarrow> (string \<times> scalar) list \<Rightarrow> mr_step" where
  "ed_property oid d data = field_if (given ''property_id'' data) (\<lambda>e.
     case py_int (dget ''property_id'' data) of
       Inl x \<Rightarrow> Inl (PyError x)
     | Inr pid \<Rightarrow>
         if find_property oid pid d = None then Inl (e_mr ''Property not found in this organization.'')
         else Inr (set_row (move_to_property oid pid d) e))"

definition ed_unit :: "int \<Rightarrow> db \<Rightarrow> (string \<times> scalar) list \<Rightarrow> mr_step" where
  "ed_unit oid d data = field_if (given ''unit_id'' data) (\<lambda>e.
     let raw = dget ''unit_id'' data in
     if blank raw then Inr (set_row (\<lambda>m. m\<lparr>mr_unit := None\<rparr>) e)
     else case py_int raw of
       Inl x \<Rightarrow> Inl (PyError x)
     | Inr uid \<Rightarrow>
         if unit_on_property oid (mr_property (me_row e)) uid d = None
         then Inl (e_mr ''Unit not found for this property.'')
         else Inr (set_row (\<lambda>m. m\<lparr>mr_unit := Some uid\<rparr>) e))"

definition ed_guest :: "int \<Rightarrow> db \<Rightarrow> (string \<times> scalar) list \<Rightarrow> mr_step" where
  "ed_guest oid d data = field_if (given ''guest_id'' data) (\<lambda>e.
     let raw = dget ''guest_id'' data in
     if blank raw then Inr (set_row (\<lambda>m. m\<lparr>mr_guest := None\<rparr>) e)
     else case py_int raw of
       Inl x \<Rightarrow> Inl (PyError x)
     | Inr gid \<Rightarrow>
         if find_guest oid gid d = None then Inl (e_mr ''Guest not found in this organization.'')
         else Inr (set_row (\<lambda>m. m\<lparr>mr_guest := Some gid\<rparr>) e))"

definition ed_reservation :: "int \<Rightarrow> db \<Rightarrow> (string \<times> scalar) list \<Rightarrow> mr_step" where
  "ed_reservation oid d data = field_if (given ''reservation_id'' data) (\<lambda>e.
     let raw = dget ''reservation_id'' data in
     if blank raw then Inr (set_row (\<lambda>m. m\<lparr>mr_reservation := None\<rparr>) e)
     else case py_int raw of
       Inl x \<Rightarrow> Inl (PyError x)
     | Inr rid \<Rightarrow>
         if find_reservation oid rid d = None then Inl (e_mr ''Reservation not found in this organization.'')
         else Inr (set_row (\<lambda>m. m\<lparr>mr_reservation := Some rid\<rparr>) e))"

definition ed_due :: "(string \<times> scalar) list \<Rightarrow> mr_step" where
  "ed_due data = field_if (given ''due_date'' data) (\<lambda>e.
     let raw = dget ''due_date'' data in
     if blank raw then Inr (set_row (\<lambda>m. m\<lparr>mr_due := None\<rparr>) e)
     else case mr_date (Some (py_str raw)) ''due_date'' of
       Inl x \<Rightarrow> Inl x | Inr t \<Rightarrow> Inr (set_row (\<lambda>m. m\<lparr>mr_due := t\<rparr>) e))"

definition note_assignee :: "int \<Rightarrow> int option \<Rightarrow> mr_edit \<Rightarrow> mr_edit" where
  "note_assignee oid old e =
     (if mr_assigned_to (me_row e) = old then e
      else e\<lparr>me_assigned := True, me_audits := me_audits e @ [(''maintenance_request.assigned'',
        mr_audit oid (mr_id (me_row e)) [(''from_user_id'', jint old), (''to_user_id'', jint (mr_assigned_to (me_row e)))])]\<rparr>)"

definition ed_assignee :: "int \<Rightarrow> int option \<Rightarrow> db \<Rightarrow> (string \<times> scalar) list \<Rightarrow> mr_step" where
  "ed_assignee oid old d data = field_if (given ''assigned_to_id'' data) (\<lambda>e.
     let raw = dget ''assigned_to_id'' data in
     if blank raw then Inr (note_assignee oid old (set_row (\<lambda>m. m\<lparr>mr_assigned_to := None\<rparr>) e))
     else case py_int raw of
       Inl x \<Rightarrow> Inl (PyError x)
     | Inr aid \<Rightarrow>
         if find_assignee oid aid d = None then Inl (e_mr ''Assignee must be an active user in this organization.'')
         else Inr (note_assignee oid old (set_row (\<lambda>m. m\<lparr>mr_assigned_to := Some aid\<rparr>) e)))"

definition mr_steps :: "int \<Rightarrow> maintenance_request \<Rightarrow> db \<Rightarrow> (string \<times> scalar) list \<Rightarrow> mr_step list" where
  "mr_steps oid old d data =
     [ed_title data, ed_description data, ed_priority (mr_priority old) data, ed_status oid (mr_status old) data,
      ed_property oid d data, ed_unit oid d data, ed_guest oid d data, ed_reservation oid d data, ed_due data,
      ed_assignee oid (mr_assigned_to old) d data]"

definition edited :: "env \<Rightarrow> maintenance_request \<Rightarrow> mr_edit \<Rightarrow> world \<Rightarrow> world" where
  "edited en old e w =
     fold (\<lambda>(action, args). audit_record en action args) (me_audits e) (on_db (put_maintenance (mr_touch w old (me_row e))) w)"

definition mail_edit :: "env \<Rightarrow> (int \<Rightarrow> string) \<Rightarrow> mr_edit \<Rightarrow> maintenance_request \<Rightarrow> world \<Rightarrow> (exn + unit) \<times> world" where
  "mail_edit en link e m w =
     (if me_assigned e then queue_maintenance_email en link m ''assigned'' w
      else if me_urgent e then queue_maintenance_email en link m ''urgent_priority'' w
      else (Inr (), w))"

definition update_maintenance_request ::
  "env \<Rightarrow> (int \<Rightarrow> string) \<Rightarrow> int \<Rightarrow> int \<Rightarrow> (string \<times> scalar) list \<Rightarrow> world \<Rightarrow> (exn + json) \<times> world" where
  "update_maintenance_request en link oid mid data w =
     (case get_request_row oid mid (cur w) of
        None \<Rightarrow> (Inl e_mr_not_found, w)
      | Some old \<Rightarrow>
          if mr_status old \<in> {''resolved'', ''cancelled''}
          then (Inl (e_mr ''Cannot edit a resolved or cancelled maintenance request.''), w)
          else
            (case run_fields (mr_steps oid old (cur w) data)
                    \<lparr>me_row = old, me_audits = [], me_assigned = False, me_urgent = False\<rparr> of
               (Some x, e) \<Rightarrow> (Inl x, edited en old e w)
             | (None, e) \<Rightarrow>
                 let m = mr_touch w old (me_row e)
                 in case mail_edit en link e m (commit (edited en old e w)) of
                      (Inl x, w1) \<Rightarrow> (Inl x, w1)
                    | (Inr u, w1) \<Rightarrow> (Inr (serialize_request m (cur w1)), w1)))"

subsection \<open>Resolving and cancelling\<close>

definition save_request ::
  "env \<Rightarrow> string \<Rightarrow> int \<Rightarrow> (string \<times> json) list \<Rightarrow> maintenance_request \<Rightarrow> maintenance_request \<Rightarrow> world \<Rightarrow> (exn + json) \<times> world" where
  "save_request en action oid context old new w =
     (let m = mr_touch w old new
      in (Inr (serialize_request m (cur w)),
          commit (audit_record en action (mr_audit oid (mr_id m) context) (on_db (put_maintenance m) w))))"

definition resolve_maintenance_request :: "env \<Rightarrow> int \<Rightarrow> int \<Rightarrow> world \<Rightarrow> (exn + json) \<times> world" where
  "resolve_maintenance_request en oid mid w =
     (case get_request_row oid mid (cur w) of
        None \<Rightarrow> (Inl e_mr_not_found, w)
      | Some old \<Rightarrow>
          if mr_status old = ''resolved'' then (Inl (e_mr ''Request is already resolved.''), w)
          else if mr_status old = ''cancelled'' then (Inl (e_mr ''Cannot resolve a cancelled request.''), w)
          else save_request en ''maintenance_request.resolved'' oid [(''resolved_at'', jstamp (Some (clock w)))] old
            (old\<lparr>mr_status := ''resolved'', mr_resolved_at := Some (clock w)\<rparr>) w)"

definition cancel_maintenance_request :: "env \<Rightarrow> int \<Rightarrow> int \<Rightarrow> world \<Rightarrow> (exn + json) \<times> world" where
  "cancel_maintenance_request en oid mid w =
     (case get_request_row oid mid (cur w) of
        None \<Rightarrow> (Inl e_mr_not_found, w)
      | Some old \<Rightarrow>
          if mr_status old = ''resolved'' then (Inl (e_mr ''Cannot cancel a resolved request.''), w)
          else if mr_status old = ''cancelled'' then (Inl (e_mr ''Request is already cancelled.''), w)
          else save_request en ''maintenance_request.cancelled'' oid [] old (old\<lparr>mr_status := ''cancelled''\<rparr>) w)"

subsection \<open>The operations together\<close>

datatype mr_op =
    Create_request mr_args
  | Update_request int "(string \<times> scalar) list"
  | Resolve_request int
  | Cancel_request int

fun run_mr :: "env \<Rightarrow> (int \<Rightarrow> string) \<Rightarrow> int \<Rightarrow> mr_op \<Rightarrow> world \<Rightarrow> (exn + json) \<times> world" where
  "run_mr en link oid (Create_request a) w = create_maintenance_request en link oid a w"
| "run_mr en link oid (Update_request mid data) w = update_maintenance_request en link oid mid data w"
| "run_mr en link oid (Resolve_request mid) w = resolve_maintenance_request en oid mid w"
| "run_mr en link oid (Cancel_request mid) w = cancel_maintenance_request en oid mid w"

interpretation request_scope: tenant_scope maintenance mr_id "\<lambda>_ m. Some (mr_org m)" get_request_row
  by unfold_locales (auto simp: get_request_row_def dest: find_Some_D find_None_D)

subsection \<open>What an operation commits\<close>

fun mr_change :: "int \<Rightarrow> mr_op \<Rightarrow> world \<Rightarrow> maintenance_request \<Rightarrow> maintenance_request \<Rightarrow> bool" where
  "mr_change oid (Create_request a) w old r = False"
| "mr_change oid (Update_request mid data) w old r =
     (get_request_row oid mid (cur w) = Some old \<and> mr_status old \<notin> {''resolved'', ''cancelled''}
      \<and> (\<exists>e. run_fields (mr_steps oid old (cur w) data)
            \<lparr>me_row = old, me_audits = [], me_assigned = False, me_urgent = False\<rparr> = (None, e)
           \<and> r = mr_touch w old (me_row e)))"
| "mr_change oid (Resolve_request mid) w old r =
     (get_request_row oid mid (cur w) = Some old \<and> mr_status old \<notin> {''resolved'', ''cancelled''}
      \<and> r = mr_touch w old (old\<lparr>mr_status := ''resolved'', mr_resolved_at := Some (clock w)\<rparr>))"
| "mr_change oid (Cancel_request mid) w old r =
     (get_request_row oid mid (cur w) = Some old \<and> mr_status old \<notin> {''resolved'', ''cancelled''}
      \<and> r = mr_touch w old (old\<lparr>mr_status := ''cancelled''\<rparr>))"

fun mr_new :: "int \<Rightarrow> mr_op \<Rightarrow> world \<Rightarrow> maintenance_request \<Rightarrow> bool" where
  "mr_new oid (Create_request a) w r = (mr_plan oid a w = Inr r)"
| "mr_new oid op w r = False"

abbreviation mr_effect :: "int \<Rightarrow> mr_op \<Rightarrow> world \<Rightarrow> world \<Rightarrow> bool" where
  "mr_effect oid op w w' \<equiv> row_effect add_maintenance put_maintenance (mr_new oid op w) (mr_change oid op w) w w'"

lemma aside_settings_get: "settings_get en k v w = (x, w') \<Longrightarrow> aside w w'"
  using settings_get_world [of en k v w x w'] by (simp add: aside_def)

lemma aside_recipient: "maintenance_recipient en oid pid w = (x, w') \<Longrightarrow> aside w w'"
  by (auto simp: maintenance_recipient_def Let_def split: if_splits option.splits prod.splits sum.splits
      intro: aside_settings_get)

lemma aside_queue_mail:
  assumes "queue_maintenance_email en link m ev w = (x, w')"
  shows "aside w w'"
proof -
  obtain v w1 where 1: "settings_get en ''maintenance.email_notifications_enabled'' (VBool True) w = (v, w1)" by fastforce
  obtain t w2 where 2: "maintenance_recipient en (mr_org m) (mr_property m) w1 = (t, w2)" by fastforce
  have a: "aside w w1" "aside w w2"
    using aside_settings_get [OF 1] aside_recipient [OF 2] aside_trans by blast+
  have "aside w2 w3" if "send_template en k to c w2 = (y, w3)" for y w3 k to c
    using mail.aside [of w2 "(en, k, to, c)"] that by simp
  then have b: "aside w w3" if "send_template en k to c w2 = (y, w3)" for y w3 k to c
    using that a(2) aside_trans by blast
  have "aside w (audit_record en act args w3)" if "send_template en k to c w2 = (y, w3)" for y w3 k to c act args
    using b [OF that] by (rule aside_trans) simp
  then show ?thesis
    using assms a b unfolding queue_maintenance_email_def 1 prod.case
    by (auto simp: 2 split: sum.splits if_splits prod.splits bool.splits)
qed

lemma core_announce: "core (cur (announce_request en oid m w)) = core (cur w)"
proof -
  let ?a = "audit_record en ''maintenance_request.created'' (mr_audit oid (mr_id m)
          [(''title'', JStr (mr_title m)), (''status'', JStr (mr_status m)), (''priority'', JStr (mr_priority m)),
           (''property_id'', JInt (mr_property m)), (''unit_id'', jint (mr_unit m))]) w"
  have "aside ?a (announce_request en oid m w)"
    using notify.aside [of ?a "(en, oid, _, _, _, _, _, _)"] by (simp add: announce_request_def)
  moreover have "aside w ?a" by simp
  ultimately show ?thesis by (simp add: aside_def)
qed

lemma create_mr_core:
  assumes "mr_plan oid a w = Inr m" and "create_maintenance_request en link oid a w = (x, w')"
  shows "core (com w') = core (add_maintenance m (cur w))"
proof -
  let ?w0 = "announce_request en oid m (on_db (add_maintenance m) w)"
  let ?w2 = "publish en ''maintenance.requested'' oid (build_maintenance_requested_payload m (commit ?w0)) (commit ?w0)"
  obtain y w3 where q: "queue_maintenance_email en link m ''created'' ?w2 = (y, w3)" by fastforce
  have "aside (commit ?w0) w3" using aside_publish aside_queue_mail [OF q] by (rule aside_trans)
  then have "core (com w3) = core (add_maintenance m (cur w))"
    by (rule core_after_commit) (simp add: core_announce del: add_maintenance_def)
  moreover have "w' = w3"
    using assms(2) q by (auto simp: create_maintenance_request_def assms(1) Let_def split: sum.splits)
  ultimately show ?thesis by simp
qed

lemma create_mr_effect:
  assumes "create_maintenance_request en link oid a w = (x, w')" and "com w = cur w"
  shows "mr_effect oid (Create_request a) w w'"
proof (cases "mr_plan oid a w")
  case (Inr m)
  then show ?thesis using create_mr_core [OF Inr assms(1)] by (intro row_effect_add [where r = m]) simp_all
qed (use assms in \<open>simp add: create_maintenance_request_def row_effect_same\<close>)

lemma core_audits: "core (cur (fold (\<lambda>(action, args). audit_record en action args) xs w)) = core (cur w)"
proof -
  have "aside v (fold (\<lambda>(action, args). audit_record en action args) xs v)" for v
  proof (induction xs arbitrary: v)
    case (Cons x xs)
    have "aside v ((\<lambda>(action, args). audit_record en action args) x v)" by (cases x) simp
    then show ?case using Cons.IH aside_trans by fastforce
  qed simp
  then show ?thesis by (simp add: aside_def)
qed

lemma audits_com:
  "list_all (\<lambda>x. \<not> aa_commit (snd x)) xs \<Longrightarrow> com (fold (\<lambda>(action, args). audit_record en action args) xs w) = com w"
  by (induction xs arbitrary: w) auto

text \<open>The audit rows of an edit are not committed on their own.\<close>

lemma mr_audit_commit [simp]: "\<not> aa_commit (mr_audit oid mid c)"
  by (simp add: mr_audit_def)

lemmas mr_step_defs = ed_title_def ed_description_def ed_priority_def ed_status_def ed_property_def ed_unit_def
  ed_guest_def ed_reservation_def ed_due_def ed_assignee_def note_assignee_def set_row_def field_if_def

lemma mr_step_audits:
  assumes "f \<in> set (mr_steps oid old d data)" and "f e = Inr e'" and "list_all (\<lambda>x. \<not> aa_commit (snd x)) (me_audits e)"
  shows "list_all (\<lambda>x. \<not> aa_commit (snd x)) (me_audits e')"
  using assms
  by (auto simp: mr_steps_def mr_step_defs Let_def split: if_splits sum.splits)

lemma update_mr_effect:
  assumes "update_maintenance_request en link oid mid data w = (x, w')" and "com w = cur w"
  shows "mr_effect oid (Update_request mid data) w w'"
proof (cases "get_request_row oid mid (cur w)")
  case (Some old)
  let ?e0 = "\<lparr>me_row = old, me_audits = [], me_assigned = False, me_urgent = False\<rparr>"
  obtain y e where f: "run_fields (mr_steps oid old (cur w) data) ?e0 = (y, e)" by fastforce
  have au: "list_all (\<lambda>x. \<not> aa_commit (snd x)) (me_audits e)"
    by (rule run_fields_inv [OF f, where P = "\<lambda>e. list_all (\<lambda>x. \<not> aa_commit (snd x)) (me_audits e)"])
      (use mr_step_audits in auto)
  show ?thesis
  proof (cases "mr_status old \<in> {''resolved'', ''cancelled''}")
    case False
    note fresh = False
    show ?thesis
    proof (cases y)
      case None
      let ?w0 = "edited en old e w"
      obtain z w1 where q: "mail_edit en link e (mr_touch w old (me_row e)) (commit ?w0) = (z, w1)" by fastforce
      have "aside (commit ?w0) w1"
        using q aside_queue_mail by (auto simp: mail_edit_def split: if_splits)
      then have "core (com w1) = core (put_maintenance (mr_touch w old (me_row e)) (cur w))"
        by (rule core_after_commit) (simp add: edited_def core_audits del: put_maintenance_def)
      moreover have "w' = w1"
        using assms(1) Some fresh f None q by (auto simp: update_maintenance_request_def Let_def split: sum.splits)
      ultimately show ?thesis
        by (intro row_effect_put [where old = old and r = "mr_touch w old (me_row e)"])
          (use Some fresh f None in \<open>auto simp del: put_maintenance_def\<close>)
    next
      case (Some z)
      have "com (edited en old e w) = com w" using audits_com [OF au] by (simp add: edited_def)
      then show ?thesis
        using assms \<open>get_request_row oid mid (cur w) = Some old\<close> fresh f Some
        by (simp add: update_maintenance_request_def row_effect_same)
    qed
  qed (use assms Some in \<open>simp add: update_maintenance_request_def row_effect_same\<close>)
qed (use assms in \<open>simp add: update_maintenance_request_def row_effect_same\<close>)

lemma save_request_effect:
  assumes "save_request en act oid c old new w = (x, w')" and "mr_change oid op w old (mr_touch w old new)"
  shows "mr_effect oid op w w'"
  by (rule row_effect_put [where change = "mr_change oid op w", OF assms(2)])
    (use assms(1) in \<open>auto simp: save_request_def Let_def simp del: put_maintenance_def add_audit_def\<close>)

lemma run_mr_effect:
  assumes "run_mr en link oid op w = (x, w')" and "com w = cur w"
  shows "mr_effect oid op w w'"
proof (cases op)
  case (Resolve_request mid)
  then show ?thesis using assms
    by (auto simp: resolve_maintenance_request_def split: option.splits if_splits intro: row_effect_same save_request_effect)
next
  case (Cancel_request mid)
  then show ?thesis using assms
    by (auto simp: cancel_maintenance_request_def split: option.splits if_splits intro: row_effect_same save_request_effect)
qed (use assms create_mr_effect update_mr_effect in auto)

subsection \<open>Well-placed requests\<close>

definition mr_ok :: "db \<Rightarrow> maintenance_request \<Rightarrow> bool" where
  "mr_ok d m \<longleftrightarrow> find_property (mr_org m) (mr_property m) d \<noteq> None
     \<and> (case mr_unit m of None \<Rightarrow> True | Some u \<Rightarrow> unit_on_property (mr_org m) (mr_property m) u d \<noteq> None)
     \<and> (case mr_guest m of None \<Rightarrow> True | Some g \<Rightarrow> find_guest (mr_org m) g d \<noteq> None)
     \<and> (case mr_reservation m of None \<Rightarrow> True | Some r \<Rightarrow> find_reservation (mr_org m) r d \<noteq> None)
     \<and> mr_status m \<in> set mr_statuses \<and> mr_priority m \<in> set mr_priorities
     \<and> (mr_resolved_at m \<noteq> None \<longleftrightarrow> mr_status m = ''resolved'')"

lemma mr_ok_cong:
  assumes "properties d' = properties d" "units d' = units d" "guests d' = guests d" "reservations d' = reservations d"
  shows "mr_ok d' m = mr_ok d m"
  using assms
  by (simp add: mr_ok_def find_property_def unit_on_property_def property_org_def property_get_def find_guest_def
      find_reservation_def scoped_reservations_def res_org_def unit_org_def unit_get_def split: option.split)

interpretation request_books: row_books maintenance mr_id T_maintenance add_maintenance put_maintenance mr_ok
proof
  fix d d' :: db and x m :: maintenance_request
  show "maintenance d' = maintenance d" "seqs d' T_maintenance = seqs d T_maintenance" "mr_ok d' m = mr_ok d m"
    if "core d' = core d"
    using core_tables(1-4,11,17) [OF that] mr_ok_cong [of d' d m] by (simp_all add: side_tables_def)
  show "mr_ok (add_maintenance x d) m = mr_ok d m" "mr_ok (put_maintenance x d) m = mr_ok d m"
    by (rule mr_ok_cong; simp)+
qed

lemma open_not_resolved: "st \<in> set mr_open_statuses \<Longrightarrow> st \<in> set mr_statuses \<and> st \<noteq> ''resolved''"
  by (auto simp: mr_open_statuses_def mr_statuses_def)

lemma mr_plan_D:
  assumes "mr_plan oid a w = Inr m"
  shows "mr_ok (cur w) m \<and> mr_id m = next_key T_maintenance (cur w)"
proof -
  note plan = assms [unfolded mr_plan_def Let_def]
  have r: "mr_refs_error oid a (cur w) = None" using plan by (auto split: if_splits option.splits)
  have refs: "find_property oid (ma_property a) (cur w) \<noteq> None"
    "case ma_unit a of None \<Rightarrow> True | Some u \<Rightarrow> unit_on_property oid (ma_property a) u (cur w) \<noteq> None"
    "case ma_guest a of None \<Rightarrow> True | Some g \<Rightarrow> find_guest oid g (cur w) \<noteq> None"
    "case ma_reservation a of None \<Rightarrow> True | Some g \<Rightarrow> find_reservation oid g (cur w) \<noteq> None"
    using r by (auto simp: mr_refs_error_def split: if_splits option.split)
  define st where "st = lower (strip (if ma_status a = '''' then ''new'' else ma_status a))"
  define pr where "pr = lower (strip (if ma_priority a = '''' then ''normal'' else ma_priority a))"
  note plan = plan [unfolded r option.case, folded st_def pr_def]
  have c: "strip (ma_title a) \<noteq> ''''" "st \<in> set mr_open_statuses" "pr \<in> set mr_priorities"
    using plan by (simp_all split: if_splits)
  note plan = plan [unfolded eqTrueI [OF c(2)] eqTrueI [OF c(3)] not_True_eq_False if_False if_not_P [OF c(1)]]
  obtain due where due: "mr_date (ma_due a) ''due_date'' = Inr due"
    using plan by (cases "mr_date (ma_due a) ''due_date''") simp_all
  have m: "mr_id m = next_key T_maintenance (cur w)" "mr_org m = oid" "mr_property m = ma_property a" "mr_unit m = ma_unit a"
    "mr_guest m = ma_guest a" "mr_reservation m = ma_reservation a" "mr_status m = st" "mr_priority m = pr" "mr_resolved_at m = None"
    using plan unfolding due sum.case by (auto split: if_splits)
  show ?thesis using refs c open_not_resolved [OF c(2)] unfolding mr_ok_def m by blast
qed

text \<open>The checks of an edit: what each step may write.\<close>

definition edit_ok :: "int \<Rightarrow> db \<Rightarrow> maintenance_request \<Rightarrow> mr_edit \<Rightarrow> bool" where
  "edit_ok oid d old e \<longleftrightarrow> mr_ok d (me_row e) \<and> mr_org (me_row e) = oid \<and> mr_id (me_row e) = mr_id old
     \<and> mr_status (me_row e) \<in> set mr_open_statuses"

lemma mr_ok_plain [simp]:
  "mr_ok d (m\<lparr>mr_title := t\<rparr>) = mr_ok d m" "mr_ok d (m\<lparr>mr_description := o1\<rparr>) = mr_ok d m"
  "mr_ok d (m\<lparr>mr_due := du\<rparr>) = mr_ok d m" "mr_ok d (m\<lparr>mr_assigned_to := u\<rparr>) = mr_ok d m"
  "mr_ok d (m\<lparr>mr_updated_at := s\<rparr>) = mr_ok d m"
  by (simp_all add: mr_ok_def split: option.split)

lemma mr_ok_written:
  assumes "mr_ok d m"
  shows "p \<in> set mr_priorities \<Longrightarrow> mr_ok d (m\<lparr>mr_priority := p\<rparr>)"
    "find_property (mr_org m) pid d \<noteq> None \<Longrightarrow> mr_ok d (move_to_property (mr_org m) pid d m)"
    "unit_on_property (mr_org m) (mr_property m) u d \<noteq> None \<Longrightarrow> mr_ok d (m\<lparr>mr_unit := Some u\<rparr>)"
    "mr_ok d (m\<lparr>mr_unit := None\<rparr>)" "mr_ok d (m\<lparr>mr_guest := None\<rparr>)" "mr_ok d (m\<lparr>mr_reservation := None\<rparr>)"
    "find_guest (mr_org m) g d \<noteq> None \<Longrightarrow> mr_ok d (m\<lparr>mr_guest := Some g\<rparr>)"
    "find_reservation (mr_org m) rid d \<noteq> None \<Longrightarrow> mr_ok d (m\<lparr>mr_reservation := Some rid\<rparr>)"
    "mr_status m \<in> set mr_open_statuses \<Longrightarrow> st \<in> set mr_open_statuses \<Longrightarrow> mr_ok d (m\<lparr>mr_status := st\<rparr>)"
  using assms open_not_resolved
  by (auto simp: mr_ok_def move_to_property_def split: option.split)

lemma edit_step_ok:
  assumes "f \<in> set (mr_steps oid old d data)" and "edit_ok oid d old e" and "f e = Inr e'"
  shows "edit_ok oid d old e'"
proof -
  have ok: "mr_ok d (me_row e)" "mr_org (me_row e) = oid" "mr_id (me_row e) = mr_id old" "mr_status (me_row e) \<in> set mr_open_statuses"
    using assms(2) by (simp_all add: edit_ok_def)
  note w = mr_ok_written [OF ok(1), unfolded ok(2)]
  note wr = w(1-8) w(9) [OF ok(4)]
  consider "f \<in> {ed_title data, ed_description data, ed_priority (mr_priority old) data, ed_status oid (mr_status old) data}"
    | "f \<in> {ed_property oid d data, ed_unit oid d data}" | "f \<in> {ed_guest oid d data, ed_reservation oid d data}"
    | "f \<in> {ed_due data, ed_assignee oid (mr_assigned_to old) d data}"
    using assms(1) by (auto simp: mr_steps_def)
  then show ?thesis
  proof cases
    case 1
    then show ?thesis using assms(3) ok wr by (auto simp: edit_ok_def mr_step_defs Let_def split: if_splits)
  next
    case 2
    have "mr_org (move_to_property oid pid d m) = mr_org m \<and> mr_id (move_to_property oid pid d m) = mr_id m
        \<and> mr_status (move_to_property oid pid d m) = mr_status m" for pid m by (simp add: move_to_property_def)
    then show ?thesis using 2 assms(3) ok wr by (auto simp: edit_ok_def mr_step_defs Let_def split: if_splits sum.splits)
  next
    case 3
    then show ?thesis using assms(3) ok wr by (auto simp: edit_ok_def mr_step_defs Let_def split: if_splits sum.splits)
  next
    case 4
    then show ?thesis using assms(3) ok by (auto simp: edit_ok_def mr_step_defs Let_def split: if_splits sum.splits)
  qed
qed

lemma mr_ok_touch [simp]: "mr_ok d (mr_touch w old m) = mr_ok d m" "mr_id (mr_touch w old m) = mr_id m"
  by (simp_all add: mr_touch_def mr_ok_def split: option.split)

lemma mr_change_D:
  assumes "mr_change oid op w old r" and "mr_ok (cur w) old"
  shows "mr_ok (cur w) r \<and> mr_id r = mr_id old \<and> old \<in> set (maintenance (cur w)) \<and> mr_status old \<notin> {''resolved'', ''cancelled''}"
proof -
  obtain mid where g: "get_request_row oid mid (cur w) = Some old" and st: "mr_status old \<notin> {''resolved'', ''cancelled''}"
    using assms(1) by (cases op) auto
  note open' = request_scope.lookup_some [OF g, THEN conjunct1] request_scope.own [OF g] st
  have fresh: "mr_status old \<in> set mr_open_statuses"
    using st assms(2) by (auto simp: mr_ok_def mr_statuses_def mr_open_statuses_def)
  have "mr_ok (cur w) r \<and> mr_id r = mr_id old"
  proof (cases op)
    case (Update_request mid data)
    then obtain e where e: "run_fields (mr_steps oid old (cur w) data)
        \<lparr>me_row = old, me_audits = [], me_assigned = False, me_urgent = False\<rparr> = (None, e)" "r = mr_touch w old (me_row e)"
      using assms(1) by auto
    have "edit_ok oid (cur w) old e"
    proof (rule run_fields_inv [OF e(1)])
      show "edit_ok oid (cur w) old \<lparr>me_row = old, me_audits = [], me_assigned = False, me_urgent = False\<rparr>"
        using open' fresh assms(2) by (simp add: edit_ok_def)
    qed (rule edit_step_ok)
    then show ?thesis by (simp add: e(2) edit_ok_def)
  next
    case (Resolve_request mid)
    have "mr_ok (cur w) (old\<lparr>mr_status := ''resolved'', mr_resolved_at := Some (clock w)\<rparr>)"
      using assms(2) by (simp add: mr_ok_def mr_statuses_def split: option.splits)
    then show ?thesis using assms(1) Resolve_request by simp
  next
    case (Cancel_request mid)
    have "mr_ok (cur w) (old\<lparr>mr_status := ''cancelled''\<rparr>)"
      using assms(2) st by (simp add: mr_ok_def mr_statuses_def split: option.splits)
    then show ?thesis using assms(1) Cancel_request by simp
  qed (use assms in simp)
  then show ?thesis using open' by blast
qed

inductive mr_reachable :: "env \<Rightarrow> (int \<Rightarrow> string) \<Rightarrow> db \<Rightarrow> bool" for en link where
  start: "maintenance d = [] \<Longrightarrow> mr_reachable en link d"
| step: "mr_reachable en link d \<Longrightarrow> cur w = d \<Longrightarrow> com w = d \<Longrightarrow> run_mr en link oid op w = (x, w') \<Longrightarrow>
    mr_reachable en link (com w')"

lemma mr_reachable_ok: "mr_reachable en link d \<Longrightarrow> rows_ok maintenance mr_id T_maintenance mr_ok d"
proof (induction rule: mr_reachable.induct)
  case (step d w oid op x w')
  have ok: "rows_ok maintenance mr_id T_maintenance mr_ok (cur w)" using step by simp
  show ?case
  proof (rule request_books.step [OF run_mr_effect [OF step.hyps(4)] ok])
    show "com w = cur w" using step.hyps by simp
    show "mr_ok (cur w) r \<and> mr_id r = next_key T_maintenance (cur w)" if "mr_new oid op w r" for r
      using that mr_plan_D by (cases op) auto
    show "mr_ok (cur w) r" if ch: "mr_change oid op w old r" for old r
    proof -
      have "old \<in> set (maintenance (cur w))" using ch request_scope.lookup_some by (cases op) auto
      then show ?thesis using mr_change_D [OF ch] ok by (auto simp: rows_ok_def)
    qed
  qed
qed (rule request_books.empty_ok)

subsection \<open>Properties\<close>

text \<open>In every reachable state a maintenance request is of a property of its own organization, its unit (if any)
  is on that property, its guest and reservation are of the organization, and it has a time of resolution
  exactly when it is resolved; moving it to another property drops a unit that is not there.\<close>

theorem requests_well_placed:
  assumes "mr_reachable en link d" and "m \<in> set (maintenance d)"
  shows "find_property (mr_org m) (mr_property m) d \<noteq> None
    \<and> (case mr_unit m of None \<Rightarrow> True | Some u \<Rightarrow> unit_on_property (mr_org m) (mr_property m) u d \<noteq> None)
    \<and> (case mr_guest m of None \<Rightarrow> True | Some g \<Rightarrow> find_guest (mr_org m) g d \<noteq> None)
    \<and> (case mr_reservation m of None \<Rightarrow> True | Some r \<Rightarrow> find_reservation (mr_org m) r d \<noteq> None)
    \<and> (mr_resolved_at m \<noteq> None \<longleftrightarrow> mr_status m = ''resolved'')"
  using mr_reachable_ok [OF assms(1)] assms(2) unfolding rows_ok_def mr_ok_def by blast

text \<open>A resolved or cancelled request is closed: no operation of any organization changes or removes it.\<close>

theorem closed_request_is_final:
  assumes "distinct (map mr_id (maintenance (cur w)))" and "com w = cur w" and "run_mr en link oid op w = (x, w')"
    and "m \<in> set (maintenance (cur w))" and "mr_status m \<in> {''resolved'', ''cancelled''}"
  shows "m \<in> set (maintenance (com w'))"
proof (rule request_books.followed [OF run_mr_effect [OF assms(3,2)] assms(1,4)])
  fix old r assume ch: "mr_change oid op w old r"
  have "mr_id (me_row e) = mr_id old"
    if "run_fields (mr_steps oid old d data) \<lparr>me_row = old, me_audits = [], me_assigned = False, me_urgent = False\<rparr> = (y, e)"
    for d data y e
    by (rule run_fields_inv [OF that]) (auto simp: mr_steps_def mr_step_defs move_to_property_def Let_def
        split: if_splits sum.splits)
  then show "old \<in> set (maintenance (cur w)) \<and> mr_id r = mr_id old"
    using ch request_scope.lookup_some by (cases op) fastforce+
next
  fix r assume "mr_change oid op w m r"
  then show ?thesis using assms(5) by (cases op) auto
qed

subsection \<open>A concrete request\<close>

definition sample_mr_args :: mr_args where
  "sample_mr_args = \<lparr>ma_property = 1, ma_unit = Some 1, ma_guest = None, ma_reservation = None, ma_title = '' Leak '',
     ma_description = None, ma_priority = ''High'', ma_status = '''', ma_due = None, ma_assigned = None, ma_actor = 3\<rparr>"

definition sample_mr :: maintenance_request where
  "sample_mr = \<lparr>mr_id = 1, mr_org = 1, mr_property = 1, mr_unit = Some 1, mr_guest = None, mr_reservation = None,
     mr_title = ''Leak'', mr_description = None, mr_status = ''new'', mr_priority = ''high'', mr_assigned_to = None,
     mr_due = None, mr_resolved_at = None, mr_created_by = 3, mr_created_at = sample_clock, mr_updated_at = sample_clock\<rparr>"

lemma sample_mr_plan: "mr_plan 1 sample_mr_args (world_of sample_db) = Inr sample_mr"
  by code_simp

definition sample_mr_world :: world where
  "sample_mr_world = snd (run_mr sample_env show_int 1 (Create_request sample_mr_args) (world_of sample_db))"

lemma sample_mr_created: "maintenance (com sample_mr_world) = [sample_mr]"
proof -
  obtain x w' where w: "create_maintenance_request sample_env show_int 1 sample_mr_args (world_of sample_db) = (x, w')"
    by fastforce
  have c: "core (com w') = core (add_maintenance sample_mr sample_db)"
    using create_mr_core [OF sample_mr_plan w] by (simp del: add_maintenance_def)
  have "maintenance (com w') = [sample_mr]" using core_tables(11) [OF c] by (simp add: sample_db_def empty_db_def)
  then show ?thesis using w by (simp add: sample_mr_world_def)
qed

theorem requests_well_placed_witness:
  "mr_reachable sample_env show_int (com sample_mr_world) \<and> sample_mr \<in> set (maintenance (com sample_mr_world))
   \<and> unit_on_property 1 1 1 (com sample_mr_world) \<noteq> None"
proof -
  obtain x w' where w: "run_mr sample_env show_int 1 (Create_request sample_mr_args) (world_of sample_db) = (x, w')"
    by fastforce
  have "mr_reachable sample_env show_int sample_db" by (rule mr_reachable.start) (simp add: sample_db_def empty_db_def)
  from mr_reachable.step [OF this _ _ w] have r: "mr_reachable sample_env show_int (com sample_mr_world)"
    by (simp add: sample_mr_world_def w del: run_mr.simps)
  have m: "sample_mr \<in> set (maintenance (com sample_mr_world))" by (simp add: sample_mr_created)
  show ?thesis using requests_well_placed [OF r m] r m by (simp add: sample_mr_def)
qed

definition closed_mr_db :: db where
  "closed_mr_db = sample_db\<lparr>maintenance := [sample_mr\<lparr>mr_status := ''cancelled''\<rparr>]\<rparr>"

theorem closed_request_is_final_witness:
  "sample_mr\<lparr>mr_status := ''cancelled''\<rparr> \<in> set (maintenance (com (snd (run_mr sample_env show_int 1
     (Update_request 1 [(''title'', SStr ''Flood'')]) (world_of closed_mr_db)))))"
proof -
  obtain x w' where w: "run_mr sample_env show_int 1 (Update_request 1 [(''title'', SStr ''Flood'')]) (world_of closed_mr_db)
      = (x, w')" by fastforce
  show ?thesis
    using closed_request_is_final [OF _ _ w, of "sample_mr\<lparr>mr_status := ''cancelled''\<rparr>"]
    by (simp add: w closed_mr_db_def [symmetric] del: run_mr.simps) (simp add: closed_mr_db_def)
qed

end
