(* ===== verification/ApiRoutes.thy ===== *)
theory ApiRoutes
  imports ApiKeys Leases Maintenance Payments
begin

text \<open>
  The JSON routes under \<open>/api/v1\<close> (app/api/routes.py, app/payments/routes.py), as views of the gate in
  ApiKeys. A body is a flat object of scalars (\<open>[]\<close> when it is missing or no object), the query a
  list of strings. Tags and comments roll a refused operation back; the other routes turn the
  service's exception into a reply and leave the session as it is. Main facts: what a refused PATCH
  wrote before it failed is committed with the usage row; and a checkout through a key without a
  user is not bound to the key's organization.
\<close>

subsection \<open>Shared\<close>

type_synonym fields = "(string \<times> scalar) list"

definition body_get :: "string \<Rightarrow> scalar \<Rightarrow> fields \<Rightarrow> scalar" where
  "body_get k dflt body = (case map_of body k of None \<Rightarrow> dflt | Some v \<Rightarrow> v)"

definition body_str :: "string \<Rightarrow> string \<Rightarrow> fields \<Rightarrow> string" where
  \<comment> \<open>\<open>str(payload.get(k, default))\<close>\<close>
  "body_str k dflt body = py_str (body_get k (SStr dflt) body)"

definition body_text :: "string \<Rightarrow> fields \<Rightarrow> string" where
  \<comment> \<open>a text handed on as it is; other types are outside the model\<close>
  "body_text k body = (case dget k body of SStr s \<Rightarrow> s | _ \<Rightarrow> '''')"

definition optional_id :: "string \<Rightarrow> fields \<Rightarrow> py_error + int option" where
  \<comment> \<open>\<open>int(raw) if raw not in (None, "") else None\<close>\<close>
  "optional_id k body = (if blank (dget k body) then Inr None else map_sum id Some (py_int (dget k body)))"

definition api_actor :: "api_key \<Rightarrow> db \<Rightarrow> int option" where
  "api_actor k d = (case ky_user k of None \<Rightarrow> None | Some u \<Rightarrow> map_option usr_id (user_get u d))"

definition billing_actor :: "api_key \<Rightarrow> db \<Rightarrow> int option" where
  "billing_actor k d = (case api_actor k d of Some u \<Rightarrow> Some u | None \<Rightarrow> ky_user k)"

definition author_id :: "api_key \<Rightarrow> db \<Rightarrow> int" where
  \<comment> \<open>\<open>_actor_user_id() or g.api_key.user_id or 0\<close>\<close>
  "author_id k d = (case billing_actor k d of None \<Rightarrow> 0 | Some u \<Rightarrow> u)"

text \<open>The service's own exception becomes the reply; any other escapes.\<close>

definition service_reply :: "service \<Rightarrow> nat \<Rightarrow> (exn + json) \<times> world \<Rightarrow> (exn + api_reply) \<times> world" where
  "service_reply svc status r =
     (case r of
        (Inr j, w) \<Rightarrow> (Inr (json_ok j status), w)
      | (Inl (ServiceError s code msg st), w) \<Rightarrow>
          if s = svc then (Inr (api_error code msg st), w) else (Inl (ServiceError s code msg st), w)
      | (Inl x, w) \<Rightarrow> (Inl x, w))"

definition number_reply :: "string \<Rightarrow> (exn + api_reply) \<times> world \<Rightarrow> (exn + api_reply) \<times> world" where
  \<comment> \<open>\<open>except (TypeError, ValueError)\<close>\<close>
  "number_reply msg r =
     (case r of
        (Inl (PyError e), w) \<Rightarrow>
          if e = TypeError \<or> e = ValueError then (Inr (api_error ''validation_error'' msg 400), w) else (Inl (PyError e), w)
      | _ \<Rightarrow> r)"

definition read_reply :: "service \<Rightarrow> exn + json \<Rightarrow> world \<Rightarrow> (exn + api_reply) \<times> world" where
  "read_reply svc r w = service_reply svc 200 (r, w)"

definition invalid :: "string \<Rightarrow> world \<Rightarrow> (exn + api_reply) \<times> world" where
  "invalid msg w = (Inr (api_error ''validation_error'' msg 400), w)"

definition pagination_params :: "(string \<times> string) list \<Rightarrow> (nat \<times> nat) option" where
  "pagination_params q =
     (let raw = (\<lambda>k d. case map_of q k of None \<Rightarrow> d | Some v \<Rightarrow> v) in
      case (int_of_text (raw ''page'' ''1''), int_of_text (raw ''per_page'' ''20'')) of
        (Some p, Some n) \<Rightarrow> if p < 1 \<or> n < 1 then None else Some (nat p, nat (min n 100))
      | _ \<Rightarrow> None)"

definition paged :: "(string \<times> string) list \<Rightarrow> (nat \<Rightarrow> nat \<Rightarrow> json list \<times> nat) \<Rightarrow> world \<Rightarrow> (exn + api_reply) \<times> world" where
  "paged q list w =
     (case pagination_params q of
        None \<Rightarrow> invalid (''Query params '' @ [CHR 0x27] @ ''page'' @ [CHR 0x27] @ '' and '' @ [CHR 0x27] @ ''per_page'' @ [CHR 0x27]
                  @ '' must be positive integers.'') w
      | Some (p, n) \<Rightarrow>
          (case list p n of (rows, all) \<Rightarrow>
             (Inr (json_ok_meta (JList rows) (JObj [(''page'', JInt (int p)), (''per_page'', JInt (int n)),
                (''total'', JInt (int all))])), w)))"

subsection \<open>The key itself\<close>

definition api_me :: api_view where
  "api_me k w =
     (let d = cur w in
      (Inr (json_ok (JObj
        [(''api_key'', JObj [(''id'', JInt (ky_id k)), (''name'', JStr (ky_name k)), (''prefix'', JStr (ky_prefix k)),
           (''scopes'', JList (map JStr (scope_list k))), (''expires_at'', jstamp (ky_expires_at k)),
           (''last_used_at'', jstamp (ky_last_used_at k))]),
         (''organization'', JObj [(''id'', JInt (ky_org k)), (''name'', JStr (org_name_of (ky_org k) d))]),
         (''user'', (case (case ky_user k of None \<Rightarrow> None | Some u \<Rightarrow> user_get u d) of
            None \<Rightarrow> JNull
          | Some u \<Rightarrow> JObj [(''id'', JInt (usr_id u)), (''email'', JStr (usr_email u)), (''role'', JStr (usr_role u))]))]) 200), w))"

subsection \<open>The calendar of a unit\<close>

text \<open>A key reaches the units of its own organization, a signed link the one unit it is signed for; \<open>text\<close> is the calendar
  library's rendering of the events.\<close>

definition get_unit_for_org_calendar_export :: "int \<Rightarrow> int \<Rightarrow> db \<Rightarrow> unit_row option" where
  "get_unit_for_org_calendar_export oid uid d =
     List.find (\<lambda>u. u_id u = uid \<and> property_org (u_property u) d = Some oid) (units d)"

definition export_unit_calendar_ics :: "(exported_event list \<Rightarrow> string) \<Rightarrow> int \<Rightarrow> open_view" where
  "export_unit_calendar_ics text uid k w =
     (if (case k of None \<Rightarrow> False | Some key \<Rightarrow> get_unit_for_org_calendar_export (ky_org key) uid (cur w) = None)
      then (Inr (api_error ''not_found'' ''Unit not found.'' 404), w)
      else case export_unit_calendar uid (clock w) (cur w) of
        Inr evs \<Rightarrow> (Inr (200, JStr (text evs)), w)
      | Inl (ServiceError s code msg st) \<Rightarrow> (Inr (api_error code msg st), w)
      | Inl x \<Rightarrow> (Inl x, w))"

subsection \<open>Tags and comments\<close>

definition json_tag :: "tag \<Rightarrow> json" where
  "json_tag t = JObj [(''id'', JInt (tg_id t)), (''organization_id'', JInt (tg_org t)), (''name'', JStr (tg_name t)),
     (''color'', JStr (tg_color t)), (''created_by_user_id'', JInt (tg_created_by t)), (''created_at'', jstamp (Some (tg_created_at t)))]"

definition json_comment :: "comment \<Rightarrow> json" where
  "json_comment c = JObj [(''id'', JInt (cm_id c)), (''organization_id'', JInt (cm_org c)), (''target_type'', JStr (cm_target_type c)),
     (''target_id'', JInt (cm_target c)), (''author_user_id'', JInt (cm_author c)), (''body'', JStr (cm_body c)),
     (''created_at'', jstamp (Some (cm_created_at c))), (''edited_at'', jstamp (cm_edited_at c)), (''is_internal'', JBool (cm_internal c))]"

definition target_type_of :: "string \<Rightarrow> string option" where
  "target_type_of resource =
     (if resource = ''guests'' then Some ''guest'' else if resource = ''reservations'' then Some ''reservation''
      else if resource = ''properties'' then Some ''property'' else None)"

definition unsupported :: "world \<Rightarrow> (exn + api_reply) \<times> world" where
  "unsupported w = (Inr (api_error ''not_found'' ''Resource not supported.'' 404), w)"

definition settled :: "service \<Rightarrow> nat \<Rightarrow> ('a \<Rightarrow> json) \<Rightarrow> (world \<Rightarrow> (exn + 'a) \<times> world) \<Rightarrow> world \<Rightarrow> (exn + api_reply) \<times> world" where
  \<comment> \<open>commit a result, roll the service's exception back\<close>
  "settled svc status show f w =
     (case f w of
        (Inr v, w1) \<Rightarrow> (Inr (json_ok (show v) status), commit w1)
      | (Inl (ServiceError s code msg st), w1) \<Rightarrow>
          if s = svc then (Inr (api_error code msg st), rollback w1) else (Inl (ServiceError s code msg st), w1)
      | (Inl x, w1) \<Rightarrow> (Inl x, w1))"

definition ok_json :: "unit \<Rightarrow> json" where "ok_json u = JObj [(''ok'', JBool True)]"

definition list_tags :: "env \<Rightarrow> api_view" where
  "list_tags en k w = (Inr (json_ok (JList (map json_tag (tags_for_org en (ky_org k) (cur w)))) 200), w)"

definition create_tag_api :: "env \<Rightarrow> fields \<Rightarrow> api_view" where
  "create_tag_api en body k w =
     settled Tag_service 201 json_tag
       (tag_create en (ky_org k) (body_str ''name'' '''' body) (body_str ''color'' '''' body) (author_id k (cur w))) w"

definition missing_scope :: "string \<Rightarrow> api_reply" where
  "missing_scope s = api_error ''forbidden'' (''Missing required scope: '' @ s) 403"

definition attach_allowed :: "string \<Rightarrow> api_key \<Rightarrow> bool" where
  "attach_allowed resource k \<longleftrightarrow>
     (\<exists>s\<in>set (scope_list k). s = resource @ '':write'' \<or> s = ''admin:*'' \<or> s = filter (\<lambda>c. c \<noteq> CHR ''s'') resource @ '':*'')"

definition attach_tag :: "env \<Rightarrow> string \<Rightarrow> int \<Rightarrow> fields \<Rightarrow> api_view" where
  "attach_tag en resource rid body k w =
     (if \<not> attach_allowed resource k then (Inr (missing_scope (resource @ '':write'')), w)
      else case target_type_of resource of
        None \<Rightarrow> unsupported w
      | Some ty \<Rightarrow>
          (case py_int (body_get ''tag_id'' (SInt 0) body) of
             Inl x \<Rightarrow> number_reply ''tag_id must be an integer.'' (Inl (PyError x), w)
           | Inr tid \<Rightarrow> settled Tag_service 200 ok_json (tag_attach en (ky_org k) ty rid tid (author_id k (cur w))) w))"

definition detach_tag :: "env \<Rightarrow> string \<Rightarrow> int \<Rightarrow> int \<Rightarrow> api_view" where
  "detach_tag en resource rid tid k w =
     (if resource @ '':write'' \<notin> set (scope_list k) \<and> ''admin:*'' \<notin> set (scope_list k)
      then (Inr (missing_scope (resource @ '':write'')), w)
      else case target_type_of resource of
        None \<Rightarrow> unsupported w
      | Some ty \<Rightarrow> settled Tag_service 200 ok_json (tag_detach en (ky_org k) ty rid tid (author_id k (cur w))) w)"

definition list_comments :: "string \<Rightarrow> int \<Rightarrow> api_view" where
  "list_comments resource rid k w =
     (case target_type_of resource of
        None \<Rightarrow> unsupported w
      | Some ty \<Rightarrow>
          read_reply Comment_service
            (map_sum id (\<lambda>cs. JList (map json_comment cs)) (comments_for_target (ky_org k) ty rid True (cur w))) w)"

definition create_comment_api :: "env \<Rightarrow> (string list \<Rightarrow> string list) \<Rightarrow> string \<Rightarrow> int \<Rightarrow> fields \<Rightarrow> api_view" where
  "create_comment_api en order resource rid body k w =
     (case target_type_of resource of
        None \<Rightarrow> unsupported w
      | Some ty \<Rightarrow>
          settled Comment_service 201 json_comment
            (comment_create en order (ky_org k) ty rid (author_id k (cur w)) (body_str ''body'' '''' body)
               (truthy (body_get ''is_internal'' (SBool True) body))) w)"

definition edit_comment_api :: "env \<Rightarrow> int \<Rightarrow> fields \<Rightarrow> api_view" where
  "edit_comment_api en cid body k w =
     settled Comment_service 200 json_comment (comment_edit en cid (author_id k (cur w)) (body_str ''body'' '''' body)) w"

definition delete_comment_api :: "env \<Rightarrow> int \<Rightarrow> api_view" where
  "delete_comment_api en cid k w =
     settled Comment_service 200 ok_json (comment_delete en cid (author_id k (cur w))) w"

subsection \<open>Reservations\<close>

definition list_reservations_api :: "(string \<times> string) list \<Rightarrow> api_view" where
  "list_reservations_api q k w = paged q (\<lambda>p n. list_reservations_paginated (ky_org k) p n (cur w)) w"

definition create_reservation_api :: "env \<Rightarrow> int \<Rightarrow> fields \<Rightarrow> api_view" where
  \<comment> \<open>\<open>draw\<close>: the access code that booking may issue\<close>
  "create_reservation_api en draw body k w =
     (case (py_int (body_get ''unit_id'' (SInt 0) body), py_int (body_get ''guest_id'' (SInt 0) body)) of
        (Inr uid, Inr gid) \<Rightarrow>
          service_reply Reservation_service 201
            (create_reservation en draw (ky_org k)
               \<lparr>ca_unit = uid, ca_guest = Some gid, ca_guest_name = None, ca_start = body_text ''start_date'' body,
                ca_end = body_text ''end_date'' body, ca_amount = SNone, ca_currency = SStr ''EUR'',
                ca_actor = api_actor k (cur w)\<rparr> w)
      | _ \<Rightarrow> invalid (''Fields '' @ [CHR 0x27] @ ''unit_id'' @ [CHR 0x27] @ '' and '' @ [CHR 0x27] @ ''guest_id'' @ [CHR 0x27]
               @ '' must be integers.'') w)"

definition get_reservation_api :: "int \<Rightarrow> api_view" where
  "get_reservation_api rid k w = read_reply Reservation_service (get_reservation (ky_org k) rid (cur w)) w"

definition cancel_reservation_api :: "env \<Rightarrow> int \<Rightarrow> api_view" where
  "cancel_reservation_api en rid k w =
     service_reply Reservation_service 200 (cancel_reservation en (ky_org k) rid (api_actor k (cur w)) w)"

subsection \<open>Leases\<close>

definition quoted :: "string \<Rightarrow> string" where "quoted s = [CHR 0x27] @ s @ [CHR 0x27]"

definition list_leases_api :: "(string \<times> string) list \<Rightarrow> api_view" where
  "list_leases_api q k w = paged q (\<lambda>p n. list_leases_paginated (ky_org k) p n (cur w)) w"

definition lease_body :: "fields \<Rightarrow> py_error + lease_args" where
  \<comment> \<open>in the order of the conversions: reservation, unit, guest\<close>
  "lease_body b =
     (case (optional_id ''reservation_id'' b, py_int (body_get ''unit_id'' (SInt 0) b), py_int (body_get ''guest_id'' (SInt 0) b)) of
        (Inr res, Inr uid, Inr gid) \<Rightarrow>
          Inr \<lparr>la_unit = uid, la_guest = gid, la_reservation = res, la_start = body_str ''start_date'' '''' b,
            la_end = (if truthy (dget ''end_date'' b) then Some (py_str (dget ''end_date'' b)) else None),
            la_rent = dget ''rent_amount'' b, la_deposit = dget ''deposit_amount'' b,
            la_cycle = body_str ''billing_cycle'' ''monthly'' b,
            la_notes = (if dget ''notes'' b = SNone then None else Some (py_str (dget ''notes'' b)))\<rparr>
      | (Inl x, _) \<Rightarrow> Inl x | (Inr _, Inl x, _) \<Rightarrow> Inl x | (Inr _, Inr _, Inl x) \<Rightarrow> Inl x)"

definition create_lease_api :: "env \<Rightarrow> fields \<Rightarrow> api_view" where
  "create_lease_api en b k w =
     (case billing_actor k (cur w) of
        None \<Rightarrow> invalid ''API key must be linked to a user to create leases.'' w
      | Some actor \<Rightarrow>
          number_reply ''unit_id and guest_id must be integers.''
            (case lease_body b of
               Inl x \<Rightarrow> (Inl (PyError x), w)
             | Inr a \<Rightarrow> service_reply Lease_service 201 (create_lease en (ky_org k) a actor w)))"

definition get_lease_api :: "int \<Rightarrow> api_view" where
  "get_lease_api lid k w = read_reply Lease_service (get_lease_for_org (ky_org k) lid (cur w)) w"

definition lease_patch_fields :: "string list" where
  "lease_patch_fields = [''unit_id'', ''guest_id'', ''reservation_id'', ''start_date'', ''end_date'', ''rent_amount'',
     ''deposit_amount'', ''billing_cycle'', ''notes'']"

definition only_fields :: "string list \<Rightarrow> fields \<Rightarrow> fields" where
  "only_fields ks b = filter (\<lambda>(k, v). k \<in> set ks) b"

definition convert_id :: "bool \<Rightarrow> string \<Rightarrow> fields \<Rightarrow> string + fields" where
  \<comment> \<open>\<open>data[k] = int(data[k])\<close>; an optional id may be blank\<close>
  "convert_id optional k b =
     (if \<not> given k b \<or> (optional \<and> blank (dget k b)) then Inr b
      else case py_int (dget k b) of
        Inl x \<Rightarrow> Inl (k @ '' must be an integer.'')
      | Inr i \<Rightarrow> Inr (map (\<lambda>(j, v). if j = k then (j, SInt i) else (j, v)) b))"

definition lease_patch :: "fields \<Rightarrow> string + fields" where
  "lease_patch b =
     (case convert_id False ''unit_id'' (only_fields lease_patch_fields b) of
        Inl m \<Rightarrow> Inl m
      | Inr b1 \<Rightarrow>
          (case convert_id False ''guest_id'' b1 of
             Inl m \<Rightarrow> Inl m | Inr b2 \<Rightarrow> convert_id True ''reservation_id'' b2))"

definition patch_lease_api :: "env \<Rightarrow> int \<Rightarrow> fields \<Rightarrow> api_view" where
  "patch_lease_api en lid b k w =
     (case billing_actor k (cur w) of
        None \<Rightarrow> invalid ''API key must be linked to a user to update leases.'' w
      | Some actor \<Rightarrow>
          if b = [] then invalid ''JSON body with at least one field is required.'' w
          else case lease_patch b of
            Inl m \<Rightarrow> invalid m w
          | Inr data \<Rightarrow> service_reply Lease_service 200 (update_lease en (ky_org k) lid data actor w))"

subsection \<open>Invoices\<close>

definition list_invoices_api :: "(string \<times> string) list \<Rightarrow> api_view" where
  "list_invoices_api q k w = paged q (\<lambda>p n. list_invoices_paginated (ky_org k) p n (cur w)) w"

definition subtotal_of :: "fields \<Rightarrow> scalar" where
  "subtotal_of b =
     (let s = dget ''subtotal_excl_vat'' b in if s = SNone \<or> strip (py_str s) = '''' then dget ''amount'' b else s)"

definition text_if_truthy :: "string \<Rightarrow> fields \<Rightarrow> string option" where
  "text_if_truthy k b = (if truthy (dget k b) then Some (py_str (dget k b)) else None)"

definition currency_of :: "fields \<Rightarrow> scalar" where
  "currency_of b = (case text_if_truthy ''currency'' b of None \<Rightarrow> SNone | Some s \<Rightarrow> SStr s)"

text \<open>A scalar as a JSON value, for \<open>metadata_json\<close>.\<close>

fun scalar_json :: "scalar \<Rightarrow> json" where
  "scalar_json SNone = JNull"
| "scalar_json (SBool b) = JBool b"
| "scalar_json (SInt i) = JInt i"
| "scalar_json (SStr s) = JStr s"

definition create_invoice_api :: "env \<Rightarrow> fields \<Rightarrow> api_view" where
  \<comment> \<open>\<open>int(lease_id)\<close> stands before the \<open>try\<close>\<close>
  "create_invoice_api en b k w =
     (case billing_actor k (cur w) of
        None \<Rightarrow> invalid ''API key must be linked to a user to create invoices.'' w
      | Some actor \<Rightarrow>
     (case optional_id ''lease_id'' b of
        Inl x \<Rightarrow> (Inl (PyError x), w)
      | Inr (Some lid) \<Rightarrow>
          number_reply ''Invalid numeric id in payload.'' (service_reply Invoice_service 201
            (create_invoice_for_lease en (ky_org k) lid (subtotal_of b) (body_str ''due_date'' '''' b) (currency_of b)
               (text_if_truthy ''description'' b) (body_str ''status'' ''open'' b) (Some actor) (dget ''vat_rate'' b) w))
      | Inr None \<Rightarrow>
          number_reply ''Invalid numeric id in payload.''
            (case (optional_id ''reservation_id'' b, optional_id ''guest_id'' b) of
               (Inl x, _) \<Rightarrow> (Inl (PyError x), w)
             | (Inr _, Inl x) \<Rightarrow> (Inl (PyError x), w)
             | (Inr res, Inr gid) \<Rightarrow>
                 service_reply Invoice_service 201 (create_invoice en (ky_org k)
                   \<lparr>ia_subtotal = subtotal_of b, ia_due = body_str ''due_date'' '''' b, ia_currency = currency_of b,
                    ia_description = text_if_truthy ''description'' b, ia_lease = None, ia_reservation = res, ia_guest = gid,
                    ia_status = body_str ''status'' ''draft'' b, ia_metadata = scalar_json (dget ''metadata_json'' b),
                    ia_actor = Some actor, ia_vat_rate = dget ''vat_rate'' b\<rparr> w))))"

definition get_invoice_api :: "int \<Rightarrow> api_view" where
  "get_invoice_api iid k w = read_reply Invoice_service (get_invoice_for_org (ky_org k) iid (cur w)) w"

definition mark_invoice_paid_api :: "env \<Rightarrow> int \<Rightarrow> api_view" where
  "mark_invoice_paid_api en iid k w =
     service_reply Invoice_service 200 (mark_invoice_paid en (ky_org k) iid (billing_actor k (cur w)) w)"

definition cancel_invoice_api :: "env \<Rightarrow> int \<Rightarrow> api_view" where
  "cancel_invoice_api en iid k w =
     service_reply Invoice_service 200 (cancel_invoice en (ky_org k) iid (billing_actor k (cur w)) w)"

text \<open>\<open>require_api_tenant_entity(Invoice)\<close>\<close>

definition tenant_invoice :: "int \<Rightarrow> api_key \<Rightarrow> db \<Rightarrow> api_reply + invoice" where
  "tenant_invoice iid k d =
     (case invoice_get iid d of
        None \<Rightarrow> Inl (api_error ''not_found'' ''Resource not found.'' 404)
      | Some i \<Rightarrow> if inv_org i = ky_org k then Inr i else Inl (api_error ''forbidden'' ''Invoice not found.'' 403))"

subsection \<open>Maintenance requests\<close>

definition list_requests_api :: "(string \<times> string) list \<Rightarrow> api_view" where
  "list_requests_api q k w =
     (case pagination_params q of
        None \<Rightarrow> paged q (\<lambda>p n. ([], 0)) w
      | Some _ \<Rightarrow>
          let text = (\<lambda>x. none_if_empty (strip (case map_of q x of None \<Rightarrow> '''' | Some v \<Rightarrow> v)));
              num = (\<lambda>x. case map_of q x of None \<Rightarrow> Some None | Some v \<Rightarrow>
                       if v = '''' then Some None else map_option Some (int_of_text v))
          in case (num ''property_id'', num ''unit_id'') of
               (Some pid, Some uid) \<Rightarrow>
                 paged q (\<lambda>p n. list_maintenance_requests (ky_org k) p n (text ''status'') (text ''priority'') pid uid (cur w)) w
             | _ \<Rightarrow> invalid ''property_id and unit_id must be integers.'' w)"

definition request_body :: "fields \<Rightarrow> int \<Rightarrow> py_error + mr_args" where
  "request_body b actor =
     (case (py_int (body_get ''property_id'' (SInt 0) b), optional_id ''unit_id'' b, optional_id ''guest_id'' b,
            optional_id ''reservation_id'' b, optional_id ''assigned_to_id'' b) of
        (Inr pid, Inr uid, Inr gid, Inr res, Inr aid) \<Rightarrow>
          (let opt = (\<lambda>k. if dget k b = SNone then None else Some (py_str (dget k b))) in
           Inr \<lparr>ma_property = pid, ma_unit = uid, ma_guest = gid, ma_reservation = res, ma_title = body_str ''title'' '''' b,
             ma_description = opt ''description'', ma_priority = body_str ''priority'' ''normal'' b,
             ma_status = body_str ''status'' ''new'' b, ma_due = opt ''due_date'', ma_assigned = aid, ma_actor = actor\<rparr>)
      | (Inl x, _) \<Rightarrow> Inl x
      | (_, Inl x, _) \<Rightarrow> Inl x
      | (_, _, Inl x, _) \<Rightarrow> Inl x
      | (_, _, _, Inl x, _) \<Rightarrow> Inl x
      | (_, _, _, _, Inl x) \<Rightarrow> Inl x)"

definition create_request_api :: "env \<Rightarrow> (int \<Rightarrow> string) \<Rightarrow> fields \<Rightarrow> api_view" where
  "create_request_api en link b k w =
     (case billing_actor k (cur w) of
        None \<Rightarrow> invalid ''API key must be linked to a user to create maintenance requests.'' w
      | Some actor \<Rightarrow>
          number_reply ''Invalid numeric id in payload.''
            (case request_body b actor of
               Inl x \<Rightarrow> (Inl (PyError x), w)
             | Inr a \<Rightarrow> service_reply Maintenance_service 201 (create_maintenance_request en link (ky_org k) a w)))"

definition get_request_api :: "int \<Rightarrow> api_view" where
  "get_request_api mid k w = read_reply Maintenance_service (get_maintenance_request (ky_org k) mid (cur w)) w"

definition request_patch_fields :: "string list" where
  "request_patch_fields = [''title'', ''description'', ''priority'', ''status'', ''property_id'', ''unit_id'', ''guest_id'',
     ''reservation_id'', ''due_date'', ''assigned_to_id'']"

definition patch_request_api :: "env \<Rightarrow> (int \<Rightarrow> string) \<Rightarrow> int \<Rightarrow> fields \<Rightarrow> api_view" where
  "patch_request_api en link mid b k w =
     (case billing_actor k (cur w) of
        None \<Rightarrow> invalid ''API key must be linked to a user to update maintenance requests.'' w
      | Some actor \<Rightarrow>
          if b = [] then invalid ''JSON body with at least one field is required.'' w
          else service_reply Maintenance_service 200
            (update_maintenance_request en link (ky_org k) mid (only_fields request_patch_fields b) w))"

definition resolve_request_api :: "env \<Rightarrow> int \<Rightarrow> api_view" where
  "resolve_request_api en mid k w =
     (if billing_actor k (cur w) = None then invalid ''API key must be linked to a user to resolve maintenance requests.'' w
      else service_reply Maintenance_service 200 (resolve_maintenance_request en (ky_org k) mid w))"

definition cancel_request_api :: "env \<Rightarrow> int \<Rightarrow> api_view" where
  "cancel_request_api en mid k w =
     (if billing_actor k (cur w) = None then invalid ''API key must be linked to a user to cancel maintenance requests.'' w
      else service_reply Maintenance_service 200 (cancel_maintenance_request en (ky_org k) mid w))"

subsection \<open>Webhook subscriptions\<close>

definition json_subscription :: "webhook_sub \<Rightarrow> (string \<times> json) list" where
  "json_subscription s =
     [(''id'', JInt (ws_id s)), (''organization_id'', JInt (ws_org s)), (''url'', JStr (ws_url s)),
      (''events'', JList (map JStr (ws_events s))), (''is_active'', JBool (ws_active s)),
      (''failure_count'', JInt (ws_failures s)), (''last_delivery_at'', jstamp (ws_last_delivery_at s)),
      (''last_delivery_status'', jint (ws_last_status s)), (''created_at'', jstamp (Some (ws_created_at s))),
      (''updated_at'', jstamp (Some (ws_updated_at s)))]"

definition subscription_audit :: "int \<Rightarrow> int option \<Rightarrow> (string \<times> json) list option \<Rightarrow> audit_args" where
  "subscription_audit oid sid metadata =
     audit_defaults\<lparr>aa_org := Some oid, aa_target_type := Some ''webhook_subscription'', aa_target_id := sid,
       aa_metadata := metadata, aa_commit := True\<rparr>"

definition list_subscriptions_api :: "env \<Rightarrow> api_view" where
  "list_subscriptions_api en k w =
     (let rows = list_subscriptions_for_org (ky_org k) (cur w)
      in (Inr (json_ok (JList (map (\<lambda>s. JObj (json_subscription s)) rows)) 200),
          audit_record en ''webhook.subscriptions_listed''
            (subscription_audit (ky_org k) None (Some [(''count'', JInt (int (length rows)))])) w))"

definition create_subscription_api :: "env \<Rightarrow> string \<Rightarrow> scalar \<Rightarrow> string list option \<Rightarrow> api_view" where
  \<comment> \<open>the drawn secret, the URL field, the event list (\<open>None\<close>: not an array)\<close>
  "create_subscription_api en draw raw_url raw_events k w =
     (let url = strip (str_or raw_url '''') in
      if url = '''' then invalid (''Field '' @ quoted ''url'' @ '' is required.'') w
      else if raw_events = None \<or> raw_events = Some []
      then invalid (''Field '' @ quoted ''events'' @ '' must be a non-empty JSON array of strings.'') w
      else
        let events = filter (\<lambda>e. e \<noteq> '''') (map strip (the raw_events)) in
        if events = [] then invalid (''Field '' @ quoted ''events'' @ '' must contain at least one non-empty string.'') w
        else case create_outbound_subscription en (ky_org k) url events (api_actor k (cur w)) draw w of
          ((s, secret), w1) \<Rightarrow>
            (Inr (json_ok (JObj (json_subscription s @ [(''secret'', JStr secret)])) 201),
             audit_record en ''webhook.subscription_created'' (subscription_audit (ky_org k) (Some (ws_id s))
               (Some [(''url'', JStr url), (''events'', JList (map JStr events))])) w1))"

definition delete_subscription_api :: "env \<Rightarrow> int \<Rightarrow> api_view" where
  "delete_subscription_api en sid k w =
     (case deactivate_outbound_subscription sid (ky_org k) w of
        (False, w1) \<Rightarrow> (Inr (api_error ''not_found'' ''Subscription not found.'' 404), w1)
      | (True, w1) \<Rightarrow>
          (Inr (json_ok (JObj [(''id'', JInt sid), (''is_active'', JBool False)]) 200),
           audit_record en ''webhook.subscription_deactivated'' (subscription_audit (ky_org k) (Some sid) None) w1))"

subsection \<open>Payments\<close>

text \<open>The body of the checkout view, which \<open>idempotent_post\<close> wraps. The gate has already set the key.\<close>

definition optional_text :: "string \<Rightarrow> fields \<Rightarrow> string option" where
  "optional_text k b = (case dget k b of SStr s \<Rightarrow> Some s | _ \<Rightarrow> None)"

definition payments_checkout :: "env \<Rightarrow> fields \<Rightarrow> string \<Rightarrow> api_view" where
  \<comment> \<open>the invoice id is a number or absent; \<open>header\<close> is \<open>Idempotency-Key\<close>\<close>
  "payments_checkout en b header k w =
     service_reply Payment_service 200
       (case create_checkout en (case dget ''invoice_id'' b of SInt i \<Rightarrow> Some i | _ \<Rightarrow> None)
               (lower (strip (str_or (dget ''provider'' b) ''''))) (optional_text ''return_url'' b) (optional_text ''cancel_url'' b)
               (api_actor k (cur w)) (none_if_empty (strip header)) w of
          (Inl x, w1) \<Rightarrow> (Inl x, w1)
        | (Inr (pid, url), w1) \<Rightarrow> (Inr (JObj [(''payment_id'', JInt pid), (''redirect_url'', jstr url)]), w1))"

definition json_payment :: "payment \<Rightarrow> json" where
  "json_payment p = JObj [(''id'', JInt (pay_id p)), (''invoice_id'', jint (pay_invoice p)), (''provider'', JStr (pay_provider p)),
     (''status'', JStr (pay_status p)), (''amount'', JStr (money_str (pay_amount p))), (''currency'', JStr (pay_currency p)),
     (''created_at'', jstamp (Some (pay_created_at p))), (''completed_at'', jstamp (pay_completed_at p))]"

definition get_payment_api :: "int \<Rightarrow> api_view" where
  "get_payment_api pid k w = read_reply Payment_service (map_sum id json_payment (get_payment_for_org pid (ky_org k) (cur w))) w"

definition refund_payment_api :: "env \<Rightarrow> int \<Rightarrow> fields \<Rightarrow> string \<Rightarrow> api_view" where
  "refund_payment_api en pid b header k w =
     service_reply Payment_service 200
       (case refund en pid (dget ''amount'' b) (optional_text ''reason'' b) (api_actor k (cur w)) (none_if_empty (strip header)) w of
          (Inl x, w1) \<Rightarrow> (Inl x, w1)
        | (Inr (rid, st), w1) \<Rightarrow> (Inr (JObj [(''refund_id'', JInt rid), (''status'', JStr st)]), w1))"

subsection \<open>A refused request\<close>

text \<open>The key's own row and the usage row aside, the gate keeps what the view left in the session.\<close>

lemma admitted_run:
  assumes "distinct (map ky_hash (api_keys (cur w)))" and "admitted en r required w k"
    and "view (used_key w k) (on_db (put_api_key (used_key w k)) w) = (Inr rep, w1)"
  shows "api_call en r required view w = (rep, commit (record_api_key_usage en (ky_id k) (ar_path r) (fst rep) w1))"
  using key_gate_exact [OF assms(1), THEN conjunct1, rule_format, OF assms(2), of view] assms(3) by (simp add: Let_def)

lemma lease_fields_key [simp]: "lease_fields oid (put_api_key k d) data = lease_fields oid d data"
proof -
  have "property_org p (put_api_key k d) = property_org p d" for p by (simp add: property_org_def property_get_def)
  then have "unit_org u (put_api_key k d) = unit_org u d" and f: "find_unit oid u (put_api_key k d) = find_unit oid u d" for u
    by (simp_all add: unit_org_def unit_get_def find_unit_def del: put_api_key_def) (simp_all split: option.split)
  then have "res_org (put_api_key k d) = res_org d" by (intro ext) (simp add: res_org_def del: put_api_key_def)
  then have "find_guest oid g (put_api_key k d) = find_guest oid g d" "find_reservation oid r (put_api_key k d) = find_reservation oid r d" for g r
    by (simp_all add: find_guest_def find_reservation_def scoped_reservations_def)
  note this f
  then show ?thesis
    by (simp add: lease_fields_def up_unit_def up_guest_def up_reservation_def ensure_unit_in_org_def
        ensure_guest_in_org_def del: put_api_key_def cong del: sum.case_cong_weak if_weak_cong)
qed

text \<open>A refused PATCH of a lease is stored all the same. When the service refuses a field after it has written
  others, the reply is the service's error, but the half-edited row is committed: the hook of the gate that records
  the use of the key commits the session as it stands.\<close>

theorem refused_patch_is_stored:
  assumes "distinct (map ky_hash (api_keys (cur w)))" and "admitted en r ''invoices:write'' w k" and "ky_user k = Some actor"
    and "b \<noteq> []" and "lease_patch b = Inr data" and "get_lease_row (ky_org k) lid (cur w) = Some old"
    and "run_fields (lease_fields (ky_org k) (cur w) data) old = (Some (ServiceError Lease_service code msg st), l)"
  shows "fst (api_call en r ''invoices:write'' (patch_lease_api en lid b) w) = api_error code msg st
    \<and> l \<in> set (leases (com (snd (api_call en r ''invoices:write'' (patch_lease_api en lid b) w))))"
proof -
  let ?w0 = "on_db (put_api_key (used_key w k)) w"
  have g: "get_lease_row (ky_org k) lid (cur ?w0) = Some old" using assms(6) by (simp add: get_lease_row_def)
  have o: "ky_org (used_key w k) = ky_org k" "ky_user (used_key w k) = Some actor" using assms(3) by (simp_all add: used_key_def)
  obtain a where a: "billing_actor (used_key w k) (cur ?w0) = Some a"
    using o(2) by (cases "api_actor (used_key w k) (cur ?w0)") (simp_all add: billing_actor_def)
  have id: "le_id l = le_id old" using lease_fields_keep [OF assms(7)] by (simp add: lease_identity_def)
  have u: "update_lease en (ky_org k) lid data a ?w0 = (Inl (ServiceError Lease_service code msg st), on_db (put_lease l) ?w0)"
    using g assms(7) by (simp add: update_lease_def del: put_api_key_def)
  have v: "patch_lease_api en lid b (used_key w k) ?w0 = (Inr (api_error code msg st), on_db (put_lease l) ?w0)"
    using assms(4,5) using a by (simp add: patch_lease_api_def o u service_reply_def del: put_api_key_def)
  have "old \<in> set (leases (cur w))" using lease_scope.lookup_some [OF assms(6)] by blast
  then have "l \<in> set (row_put le_id l (leases (cur w)))" using row_put_in [of "leases (cur w)" le_id l] id by auto
  then show ?thesis
    by (simp add: admitted_run [where view = "patch_lease_api en lid b", OF assms(1,2) v] record_api_key_usage_def)
qed

text \<open>A lease that now ends before it starts.\<close>

definition lease_key_world :: world where
  "lease_key_world = world_of (sample_db\<lparr>api_keys := [sample_key], leases := [sample_lease]\<rparr>)"

definition early_end :: fields where "early_end = [(''end_date'', SStr (isoformat (ordinal_of 2026 1 1)))]"

theorem refused_patch_is_stored_witness:
  "fst (api_call sample_env sample_call ''invoices:write'' (patch_lease_api sample_env 1 early_end) lease_key_world)
     = api_error ''validation_error'' ''end_date must be on or after start_date.'' 400
   \<and> (\<exists>l\<in>set (leases (com (snd (api_call sample_env sample_call ''invoices:write'' (patch_lease_api sample_env 1 early_end)
        lease_key_world)))). le_end l = Some (ordinal_of 2026 1 1) \<and> le_start l = ordinal_of 2026 2 1)"
proof -
  let ?l = "sample_lease\<lparr>le_end := Some (ordinal_of 2026 1 1)\<rparr>"
  have v: "valid_date (ordinal_of 2026 1 1)" by code_simp
  have dt: "lease_date (Some (isoformat (ordinal_of 2026 1 1))) ''end_date'' = Inr (ordinal_of 2026 1 1)"
    "strip (isoformat (ordinal_of 2026 1 1)) \<noteq> ''''"
    using strip_isoformat [OF v] by (simp_all add: lease_date_def fromisoformat_isoformat [OF v]) code_simp
  have o: "ordinal_of 2026 1 1 < ordinal_of 2026 2 1" by code_simp
  have f: "run_fields (lease_fields 1 d early_end) sample_lease
      = (Some (ServiceError Lease_service ''validation_error'' ''end_date must be on or after start_date.'' 400), ?l)" for d
    using dt o
    by (simp add: lease_fields_def lease_step_defs given_def early_end_def dget_def Let_def e_lease_order_def
        e_lease_invalid_def e_lease_def)
  have k: "admitted sample_env sample_call ''invoices:write'' lease_key_world sample_key"
    using sample_admitted by (simp add: admitted_def lease_key_world_def key_world_def unexpired_def split: option.splits)
  have p: "lease_patch early_end = Inr early_end"
    by (simp add: lease_patch_def only_fields_def convert_id_def given_def early_end_def lease_patch_fields_def)
  have s: "ky_org sample_key = 1" "ky_user sample_key = Some 3" by (simp_all add: sample_key_def)
  have f': "run_fields (lease_fields (ky_org sample_key) (cur lease_key_world) early_end) sample_lease
      = (Some (ServiceError Lease_service ''validation_error'' ''end_date must be on or after start_date.'' 400), ?l)"
    by (simp only: s f)
  note stored = refused_patch_is_stored [where w = lease_key_world and en = sample_env and r = sample_call and k = sample_key
      and b = early_end and lid = 1 and old = sample_lease, OF _ k s(2) _ p _ f']
  have "early_end \<noteq> []" "distinct (map ky_hash (api_keys (cur lease_key_world)))"
    "get_lease_row (ky_org sample_key) 1 (cur lease_key_world) = Some sample_lease"
    by (simp_all add: early_end_def lease_key_world_def get_lease_row_def s)
  note stored = stored [OF this(2,1,3)]
  show ?thesis using stored by (auto intro!: bexI [of _ ?l])
qed

end
