(* ===== verification/MailQueue.thy ===== *)
theory MailQueue
  imports Email Samples
begin

text \<open>
  The worker of the mail queue (app/email/scheduler.py): it takes the mails that are due, marks each
  as being sent and commits, hands it to the mail service, and files the result: sent, put off by the
  backoff table, or failed after five attempts. The columns \<open>to\<close> and \<open>recipient_email\<close>, \<open>attempts\<close>
  and \<open>attempt_count\<close>, which the model keeps equal, are one field each. Main facts: the rows stay well
  formed, and a cycle settles every mail that was due and touches no other.
\<close>

definition max_mail_attempts :: int where "max_mail_attempts = 5"

definition retry_backoff :: "stamp list" where
  "retry_backoff = [seconds 60, seconds 300, seconds 1800, hours 2, hours 12]"

definition compute_next_attempt :: "stamp \<Rightarrow> int \<Rightarrow> stamp" where
  "compute_next_attempt now n =
     now + retry_backoff ! nat (max 0 (min (n - 1) (int (length retry_backoff) - 1)))"

definition mail_due :: "stamp \<Rightarrow> email_item \<Rightarrow> bool" where
  "mail_due now m \<longleftrightarrow> em_status m = ''pending'' \<and> (case em_next_attempt_at m of None \<Rightarrow> True | Some t \<Rightarrow> t \<le> now)"

definition due_mails :: "nat \<Rightarrow> world \<Rightarrow> email_item list" where
  \<comment> \<open>by \<open>next_attempt_at\<close> with missing ones first, then by id\<close>
  "due_mails limit w =
     (let rs = filter (mail_due (clock w)) (email_queue (cur w)) in
      take limit (sort_key em_id (filter (\<lambda>m. em_next_attempt_at m = None) rs)
        @ order2 (\<lambda>m. the (em_next_attempt_at m)) em_id (filter (\<lambda>m. em_next_attempt_at m \<noteq> None) rs)))"

definition sending :: "email_item \<Rightarrow> email_item" where
  "sending m = m\<lparr>em_status := ''sending'',
     em_next_attempt_at := or_else (em_next_attempt_at m) (Some (em_scheduled_at m))\<rparr>"

text \<open>\<open>None\<close> when the mail left, else the text of the error.\<close>

definition attempt_mail :: "env \<Rightarrow> email_item \<Rightarrow> world \<Rightarrow> string option \<times> world" where
  "attempt_mail en m w =
     (case send_template_now en (em_template m) (strip (em_to m)) (em_context m) w of
        (Inr ok, w1) \<Rightarrow> (if ok then None else Some ''Mailgun send returned false.'', w1)
      | (Inl x, w1) \<Rightarrow>
          (Some (take 240 (''Email template '' @ [CHR 0x27] @ em_template m @ [CHR 0x27] @ '' is not seeded.'')), w1))"

definition after_attempt :: "stamp \<Rightarrow> string option \<Rightarrow> email_item \<Rightarrow> email_item" where
  "after_attempt now err m =
     (case err of
        None \<Rightarrow> m\<lparr>em_status := ''sent'', em_sent_at := Some now, em_last_error := None, em_next_attempt_at := None\<rparr>
      | Some e \<Rightarrow>
          let n = min max_mail_attempts (em_attempts m + 1); m1 = m\<lparr>em_attempts := n, em_last_error := Some e\<rparr> in
          if max_mail_attempts \<le> n then m1\<lparr>em_status := ''failed'', em_next_attempt_at := None\<rparr>
          else m1\<lparr>em_status := ''pending'', em_next_attempt_at := Some (compute_next_attempt now n)\<rparr>)"

definition attempt_audit :: "email_item \<Rightarrow> string \<times> audit_args" where
  "attempt_audit m =
     (let a = audit_defaults\<lparr>aa_org := (case em_org m of JInt i \<Rightarrow> Some i | _ \<Rightarrow> None),
                aa_target_type := Some ''email_queue'', aa_target_id := Some (em_id m)\<rparr>
      in if em_status m = ''sent'' then
           (''email.sent'', a\<lparr>aa_metadata := Some [(''template_key'', JStr (em_template m)), (''status'', JStr (em_status m))]\<rparr>)
         else
           (if em_status m = ''failed'' then ''email.failed'' else ''email.retried'',
            a\<lparr>aa_status := Some ''failure'',
              aa_metadata := Some [(''template_key'', JStr (em_template m)), (''attempt_count'', JInt (em_attempts m)),
                (''status'', JStr (em_status m)), (''error'', JStr (take 240 (or_empty (em_last_error m))))]\<rparr>))"

definition deliver_mail :: "env \<Rightarrow> stamp \<Rightarrow> email_item \<Rightarrow> world \<Rightarrow> world" where
  "deliver_mail en now m w =
     (let w1 = commit (on_db (put_email (sending m)) w) in
      case attempt_mail en (sending m) w1 of
        (err, w2) \<Rightarrow>
          let m2 = after_attempt now err (sending m) in
          case attempt_audit m2 of
            (act, a) \<Rightarrow> commit (on_db (put_email m2) (audit_record en act a w2)))"

definition process_email_queue :: "env \<Rightarrow> nat \<Rightarrow> world \<Rightarrow> nat \<times> world" where
  "process_email_queue en limit w =
     (let rs = due_mails limit w in (length rs, fold (deliver_mail en (clock w)) rs w))"

subsection \<open>One delivery\<close>

lemma backoff_later: "0 < n \<Longrightarrow> n < max_mail_attempts \<Longrightarrow> now < compute_next_attempt now n"
proof -
  assume "0 < n" "n < max_mail_attempts"
  then have "n \<in> {1, 2, 3, 4}" by (auto simp: max_mail_attempts_def)
  then show ?thesis by (auto simp: compute_next_attempt_def retry_backoff_def seconds_def hours_def us_per_second_def)
qed

lemma sending_simps [simp]:
  "em_id (sending m) = em_id m" "em_attempts (sending m) = em_attempts m" "em_sent_at (sending m) = em_sent_at m"
  by (simp_all add: sending_def)

lemma after_attempt_id [simp]: "em_id (after_attempt now err m) = em_id m"
  by (simp add: after_attempt_def Let_def split: option.split)

lemma attempt_audit_commit [simp]: "\<not> aa_commit (snd (attempt_audit m))"
  by (simp add: attempt_audit_def Let_def audit_defaults_def)

lemma send_now_keeps:
  "send_template_now en key to ctx w = (r, w') \<Longrightarrow>
     email_queue (cur w') = email_queue (cur w) \<and> clock w' = clock w \<and> seqs (cur w') T_email = seqs (cur w) T_email"
  by (auto simp: send_template_now_def send_rendered_def Let_def split: if_split_asm sum.splits prod.splits)

lemma attempt_keeps:
  "attempt_mail en m w = (err, w') \<Longrightarrow>
     email_queue (cur w') = email_queue (cur w) \<and> clock w' = clock w \<and> seqs (cur w') T_email = seqs (cur w) T_email"
  by (auto simp: attempt_mail_def split: sum.splits prod.splits dest: send_now_keeps)

lemma put_twice: "row_put key a (row_put key b rs) = row_put key a rs" if "key a = key b"
  using that by (simp add: row_put_def)

text \<open>A delivery writes the row of its mail, and only that one.\<close>

lemma deliver_rows:
  obtains err where "email_queue (cur (deliver_mail en now m w)) = row_put em_id (after_attempt now err (sending m)) (email_queue (cur w))"
    and "com (deliver_mail en now m w) = cur (deliver_mail en now m w)" and "clock (deliver_mail en now m w) = clock w"
    and "seqs (cur (deliver_mail en now m w)) T_email = seqs (cur w) T_email"
proof -
  let ?w1 = "commit (on_db (put_email (sending m)) w)"
  obtain err w2 where a: "attempt_mail en (sending m) ?w1 = (err, w2)" by fastforce
  obtain act x where b: "attempt_audit (after_attempt now err (sending m)) = (act, x)" by fastforce
  have c: "\<not> aa_commit x" using attempt_audit_commit [of "after_attempt now err (sending m)"] b by simp
  have d: "deliver_mail en now m w = commit (on_db (put_email (after_attempt now err (sending m))) (audit_record en act x w2))"
    by (simp only: deliver_mail_def a b Let_def prod.case)
  show ?thesis
    by (rule that [of err]) (use attempt_keeps [OF a] c in \<open>simp_all add: d put_twice\<close>)
qed

definition mail_ok :: "email_item \<Rightarrow> bool" where
  "mail_ok m \<longleftrightarrow> 0 \<le> em_attempts m \<and> em_attempts m \<le> max_mail_attempts
     \<and> em_status m \<in> {''pending'', ''sent'', ''failed''}
     \<and> (em_status m = ''pending'' \<longrightarrow> em_attempts m < max_mail_attempts \<and> em_next_attempt_at m \<noteq> None)
     \<and> (em_status m = ''failed'' \<longrightarrow> em_attempts m = max_mail_attempts \<and> em_last_error m \<noteq> None)
     \<and> (em_status m = ''sent'' \<longleftrightarrow> em_sent_at m \<noteq> None)"

definition mails_ok :: "db \<Rightarrow> bool" where
  "mails_ok d \<longleftrightarrow> keys_ok em_id (seqs d T_email) (email_queue d) \<and> (\<forall>m\<in>set (email_queue d). mail_ok m)"

lemma attempt_ok: "mail_ok m \<Longrightarrow> em_status m = ''pending'' \<Longrightarrow> mail_ok (after_attempt now err (sending m))"
  by (auto simp: mail_ok_def after_attempt_def sending_def Let_def max_mail_attempts_def split: option.split)

lemma due_mails_in: "m \<in> set (due_mails limit w) \<Longrightarrow> m \<in> set (email_queue (cur w)) \<and> mail_due (clock w) m"
  by (auto simp: due_mails_def Let_def dest!: in_set_takeD)

lemma due_mails_all:
  "length (filter (mail_due (clock w)) (email_queue (cur w))) \<le> limit \<Longrightarrow>
     set (due_mails limit w) = set (filter (mail_due (clock w)) (email_queue (cur w)))"
proof -
  assume l: "length (filter (mail_due (clock w)) (email_queue (cur w))) \<le> limit"
  define rs where "rs = filter (mail_due (clock w)) (email_queue (cur w))"
  have "length (filter (\<lambda>m. em_next_attempt_at m = None) rs) + length (filter (\<lambda>m. em_next_attempt_at m \<noteq> None) rs) = length rs"
    by (rule sum_length_filter_compl)
  then show ?thesis using l by (auto simp: due_mails_def rs_def [symmetric] Let_def)
qed

lemma deliver_ok:
  assumes "mails_ok (cur w)" and "mail_ok m" and "em_status m = ''pending''"
  shows "mails_ok (cur (deliver_mail en now m w))"
proof -
  obtain err where q: "email_queue (cur (deliver_mail en now m w)) = row_put em_id (after_attempt now err (sending m)) (email_queue (cur w))"
    and s: "seqs (cur (deliver_mail en now m w)) T_email = seqs (cur w) T_email"
    by (rule deliver_rows [of en now m w])
  show ?thesis
    unfolding mails_ok_def q s keys_ok_put
    using assms(1) attempt_ok [OF assms(2,3)] by (auto simp: mails_ok_def dest!: set_row_put)
qed

lemma deliver_all:
  assumes "mails_ok (cur w)" and "\<forall>m\<in>set rs. mail_ok m \<and> em_status m = ''pending''"
  shows "mails_ok (cur (fold (deliver_mail en now) rs w)) \<and> clock (fold (deliver_mail en now) rs w) = clock w
    \<and> (rs \<noteq> [] \<longrightarrow> com (fold (deliver_mail en now) rs w) = cur (fold (deliver_mail en now) rs w))
    \<and> (\<forall>x\<in>set (email_queue (cur (fold (deliver_mail en now) rs w))).
         (x \<in> set (email_queue (cur w)) \<and> em_id x \<notin> em_id ` set rs)
         \<or> (\<exists>m\<in>set rs. \<exists>err. x = after_attempt now err (sending m)))
    \<and> (\<forall>x\<in>set (email_queue (cur w)). em_id x \<notin> em_id ` set rs \<longrightarrow> x \<in> set (email_queue (cur (fold (deliver_mail en now) rs w))))"
  using assms
proof (induction rs arbitrary: w)
  case (Cons m rs)
  obtain err where q: "email_queue (cur (deliver_mail en now m w)) = row_put em_id (after_attempt now err (sending m)) (email_queue (cur w))"
    and c: "com (deliver_mail en now m w) = cur (deliver_mail en now m w)" and k: "clock (deliver_mail en now m w) = clock w"
    by (rule deliver_rows [of en now m w])
  have ok: "mails_ok (cur (deliver_mail en now m w))" using Cons.prems by (intro deliver_ok) auto
  note IH = Cons.IH [OF ok, simplified k] 
  let ?v = "deliver_mail en now m w"
  let ?f = "fold (deliver_mail en now) rs ?v"
  have mem: "(x \<in> set (email_queue (cur w)) \<and> em_id x \<noteq> em_id m) \<or> x = after_attempt now err (sending m)"
    if "x \<in> set (email_queue (cur ?v))" for x
    using that set_row_put [of x em_id "after_attempt now err (sending m)" "email_queue (cur w)"] by (auto simp: q)
  have keep: "x \<in> set (email_queue (cur ?v))" if "x \<in> set (email_queue (cur w))" "em_id x \<noteq> em_id m" for x
    using that row_put_other [of x "email_queue (cur w)" em_id "after_attempt now err (sending m)"] by (simp add: q)
  have rest: "\<forall>m\<in>set rs. mail_ok m \<and> em_status m = ''pending''" using Cons.prems(2) by simp
  note IH = Cons.IH [OF ok rest]
  have "com ?f = cur ?f" using IH c by (cases "rs = []") simp_all
  moreover have "(x \<in> set (email_queue (cur w)) \<and> em_id x \<notin> em_id ` set (m # rs))
       \<or> (\<exists>y\<in>set (m # rs). \<exists>err. x = after_attempt now err (sending y))" if "x \<in> set (email_queue (cur ?f))" for x
    using IH mem that by auto
  moreover have "x \<in> set (email_queue (cur ?f))" if "x \<in> set (email_queue (cur w))" "em_id x \<notin> em_id ` set (m # rs)" for x
    using IH keep [OF that(1)] that(2) by auto
  ultimately show ?case using IH k by simp
qed simp

text \<open>The row of each mail of the batch is the outcome of its attempt.\<close>

lemma deliver_written:
  assumes "mails_ok (cur w)" and "\<forall>m\<in>set rs. mail_ok m \<and> em_status m = ''pending''"
    and "set rs \<subseteq> set (email_queue (cur w))" and "distinct rs"
  shows "\<forall>m\<in>set rs. \<exists>err. after_attempt now err (sending m) \<in> set (email_queue (cur (fold (deliver_mail en now) rs w)))"
  using assms
proof (induction rs arbitrary: w)
  case (Cons m rs)
  obtain err where q: "email_queue (cur (deliver_mail en now m w)) = row_put em_id (after_attempt now err (sending m)) (email_queue (cur w))"
    by (rule deliver_rows [of en now m w])
  let ?v = "deliver_mail en now m w"
  have ok: "mails_ok (cur ?v)" using Cons.prems by (intro deliver_ok) auto
  have rest: "\<forall>m\<in>set rs. mail_ok m \<and> em_status m = ''pending''" using Cons.prems(2) by simp
  have ids: "em_id x \<noteq> em_id m" if "x \<in> set rs" for x
    using that Cons.prems(1,3,4) by (auto simp: mails_ok_def keys_ok_def distinct_map inj_on_def)
  have "set rs \<subseteq> set (email_queue (cur ?v))"
    using Cons.prems(3) ids row_put_other [of _ "email_queue (cur w)" em_id "after_attempt now err (sending m)"] by (auto simp: q)
  note IH = Cons.IH [OF ok rest this]
  have here: "after_attempt now err (sending m) \<in> set (email_queue (cur ?v))"
    using Cons.prems(3) by (force simp: q row_put_def)
  have "em_id (after_attempt now err (sending m)) \<notin> em_id ` set rs" using ids by force
  then have "after_attempt now err (sending m) \<in> set (email_queue (cur (fold (deliver_mail en now) rs ?v)))"
    using deliver_all [OF ok rest, of en now] here by blast
  then show ?case using IH Cons.prems(4) by auto
qed simp

subsection \<open>The queue over time\<close>

text \<open>Mails are queued, the worker runs, time passes; what the rest of the program does to the
  database leaves the queue alone.\<close>

inductive queue_reachable :: "env \<Rightarrow> world \<Rightarrow> bool" for en where
  fresh: "email_queue (cur w) = [] \<Longrightarrow> queue_reachable en w"
| queued: "queue_reachable en w \<Longrightarrow> queue_reachable en (snd (send_template en key to ctx w))"
| worked: "queue_reachable en w \<Longrightarrow> queue_reachable en (snd (process_email_queue en limit w))"
| other: "queue_reachable en w \<Longrightarrow> email_queue (cur w') = email_queue (cur w) \<Longrightarrow>
    seqs (cur w') T_email = seqs (cur w) T_email \<Longrightarrow> queue_reachable en w'"

lemma new_mail_ok: "mail_ok (queued_mail key to ctx s w)"
  by (simp add: mail_ok_def queued_mail_def max_mail_attempts_def)

lemma send_mails_ok:
  assumes "mails_ok (cur w)"
  shows "mails_ok (cur (snd (send_template en key to ctx w)))"
proof -
  obtain r w' where run: "send_template en key to ctx w = (r, w')" by fastforce
  have same: "email_queue (cur w1) = email_queue (cur w) \<and> seqs (cur w1) T_email = seqs (cur w) T_email"
    if "send_rendered en key to s b w = (ok, w1)" for s b ok w1
    using that by (auto simp: send_rendered_def Let_def split: if_split_asm sum.splits prod.splits)
  have new: "mails_ok (add_audit e (add_email (queued_mail key to c s w) (cur w)))" for e c s
    using assms new_mail_ok [of key to c s w] keys_ok_snoc [of em_id "seqs (cur w) T_email" "email_queue (cur w)" "queued_mail key to c s w"]
    by (auto simp: mails_ok_def queued_mail_def next_key_def)
  show ?thesis
    unfolding run snd_conv
    by (rule send_template_cases [OF run])
      (use assms same new in \<open>auto simp: mails_ok_def simp del: add_audit_def add_email_def\<close>, simp_all add: mails_ok_def)
qed

lemma process_ok: "mails_ok (cur w) \<Longrightarrow> mails_ok (cur (snd (process_email_queue en limit w)))"
  using deliver_all [of w "due_mails limit w" en "clock w"] due_mails_in [of _ limit w]
  by (auto simp: process_email_queue_def Let_def mails_ok_def mail_due_def)

lemma queue_reachable_ok: "queue_reachable en w \<Longrightarrow> mails_ok (cur w)"
proof (induction rule: queue_reachable.induct)
  case (fresh w)
  then show ?case by (simp add: mails_ok_def keys_ok_def)
qed (simp_all add: send_mails_ok process_ok, simp add: mails_ok_def)

text \<open>What a cycle makes of a mail: sent, put off by one more of the waiting times, or failed with the fifth attempt.\<close>

definition settled_mail :: "stamp \<Rightarrow> email_item \<Rightarrow> email_item \<Rightarrow> bool" where
  "settled_mail now m x \<longleftrightarrow> em_id x = em_id m \<and> em_to x = em_to m
     \<and> (em_status x = ''sent'' \<and> em_sent_at x = Some now
        \<or> em_attempts x = em_attempts m + 1
          \<and> (if em_attempts x = 5 then em_status x = ''failed''
             else em_status x = ''pending''
               \<and> em_next_attempt_at x = Some (now + [seconds 60, seconds 300, seconds 1800, hours 2] ! nat (em_attempts x - 1))))"

lemma after_attempt_settled:
  assumes "mail_ok m" and "em_status m = ''pending''"
  shows "settled_mail now m (after_attempt now err (sending m)) \<and> \<not> mail_due now (after_attempt now err (sending m))"
proof
  have "em_attempts m \<in> {0, 1, 2, 3, 4}" using assms by (auto simp: mail_ok_def max_mail_attempts_def)
  then show "settled_mail now m (after_attempt now err (sending m))"
    by (auto simp: settled_mail_def after_attempt_def sending_def Let_def max_mail_attempts_def compute_next_attempt_def
        retry_backoff_def split: option.split)
  show "\<not> mail_due now (after_attempt now err (sending m))"
    using assms backoff_later [of "em_attempts m + 1" now]
    by (auto simp: mail_ok_def mail_due_def after_attempt_def sending_def Let_def max_mail_attempts_def split: option.split)
qed

text \<open>The mails of a batch come before the ones left for the next, by time and number.\<close>

lemma insort_lex:
  "sorted_wrt (\<lambda>a b. f a < f b \<or> f a = f b \<and> R a b) zs \<Longrightarrow> \<forall>z\<in>set zs. R y z \<Longrightarrow>
     sorted_wrt (\<lambda>a b. f a < f b \<or> f a = f b \<and> R a b) (insort_key f y zs)" for f :: "'a \<Rightarrow> int"
  by (induction zs) (auto simp: set_insort_key)

lemma sort_key_lex:
  "sorted_wrt R ys \<Longrightarrow> sorted_wrt (\<lambda>a b. f a < f b \<or> f a = f b \<and> R a b) (sort_key f ys)" for f :: "'a \<Rightarrow> int"
  by (induction ys) (auto intro: insort_lex)

lemma order2_lex: "sorted_wrt (\<lambda>a b. f a < f b \<or> f a = f b \<and> g a \<le> g b) (order2 f g rs)"
  unfolding order2_def by (rule sort_key_lex) (simp add: sorted_wrt_map [symmetric])

lemma batch_first:
  assumes "mails_ok (cur w)" and "m \<in> set (due_mails limit w)" and "x \<in> set (email_queue (cur w))" "mail_due (clock w) x"
    and "x \<notin> set (due_mails limit w)"
  shows "the (em_next_attempt_at m) < the (em_next_attempt_at x)
    \<or> the (em_next_attempt_at m) = the (em_next_attempt_at x) \<and> em_id m \<le> em_id x"
proof -
  define due where "due = filter (mail_due (clock w)) (email_queue (cur w))"
  have "\<forall>m\<in>set due. em_next_attempt_at m \<noteq> None" using assms(1) by (auto simp: due_def mails_ok_def mail_ok_def mail_due_def)
  then have "filter (\<lambda>m. em_next_attempt_at m = None) due = []" "filter (\<lambda>m. em_next_attempt_at m \<noteq> None) due = due"
    by (auto simp: filter_empty_conv intro: filter_True)
  then have d: "due_mails limit w = take limit (order2 (\<lambda>m. the (em_next_attempt_at m)) em_id due)"
    by (simp add: due_mails_def due_def [symmetric] Let_def)
  let ?L = "order2 (\<lambda>m. the (em_next_attempt_at m)) em_id due"
  have "x \<in> set ?L" using assms(3,4) by (simp add: due_def)
  then have "x \<in> set (drop limit ?L)" using assms(5) unfolding d by (metis Un_iff append_take_drop_id set_append)
  moreover have "sorted_wrt (\<lambda>a b. the (em_next_attempt_at a) < the (em_next_attempt_at b)
      \<or> the (em_next_attempt_at a) = the (em_next_attempt_at b) \<and> em_id a \<le> em_id b) (take limit ?L @ drop limit ?L)"
    using order2_lex [of "\<lambda>m. the (em_next_attempt_at m)" em_id due] by simp
  ultimately show ?thesis using assms(2) unfolding sorted_wrt_append d by blast
qed

lemma due_mails_length: "length (due_mails limit w) = min limit (length (filter (mail_due (clock w)) (email_queue (cur w))))"
proof -
  define rs where "rs = filter (mail_due (clock w)) (email_queue (cur w))"
  have "length (filter (\<lambda>m. em_next_attempt_at m = None) rs) + length (filter (\<lambda>m. em_next_attempt_at m \<noteq> None) rs) = length rs"
    by (rule sum_length_filter_compl)
  then show ?thesis by (simp add: due_mails_def rs_def [symmetric] Let_def)
qed

lemma order2_distinct: "distinct rs \<Longrightarrow> distinct (order2 f g rs)"
  by (simp add: order2_def)

lemma due_mails_distinct: "distinct (email_queue (cur w)) \<Longrightarrow> distinct (due_mails limit w)"
  unfolding due_mails_def Let_def by (rule distinct_take) (auto simp: order2_distinct)

text \<open>C27: In every reachable state a cycle of the worker takes as many of the due mails as its limit allows (50 in the
  program): those with the earliest time of the next attempt, and among equal times the lowest number. Each mail it
  takes is afterwards sent, or put off by the next of the waiting times with one more attempt counted, or failed with
  its fifth. The mails still due are exactly the due ones it did not take, as they were, so none is due when the limit
  covers them all; mails not due are as they were; and all of it is committed.\<close>

theorem mail_cycle_settles:
  fixes w :: world
  defines "due \<equiv> filter (\<lambda>m. em_status m = ''pending'' \<and> (case em_next_attempt_at m of None \<Rightarrow> True | Some t \<Rightarrow> t \<le> clock w))"
  assumes "queue_reachable en w" and "process_email_queue en limit w = (n, w')"
  shows "n = min limit (length (due (email_queue (cur w)))) \<and> (n \<noteq> 0 \<longrightarrow> com w' = cur w')
    \<and> length (due (email_queue (cur w'))) = length (due (email_queue (cur w))) - n
    \<and> set (due (email_queue (cur w'))) \<subseteq> set (due (email_queue (cur w)))
    \<and> (\<forall>m\<in>set (due (email_queue (cur w))). m \<notin> set (due (email_queue (cur w'))) \<longrightarrow>
        (\<exists>x\<in>set (email_queue (cur w')). settled_mail (clock w) m x)
        \<and> (\<forall>x\<in>set (due (email_queue (cur w'))). the (em_next_attempt_at m) < the (em_next_attempt_at x)
            \<or> the (em_next_attempt_at m) = the (em_next_attempt_at x) \<and> em_id m \<le> em_id x))
    \<and> (\<forall>x\<in>set (email_queue (cur w)). x \<notin> set (due (email_queue (cur w))) \<longrightarrow> x \<in> set (email_queue (cur w')))
    \<and> (\<forall>x\<in>set (email_queue (cur w')). x \<in> set (email_queue (cur w))
        \<or> (\<exists>m\<in>set (due (email_queue (cur w))). settled_mail (clock w) m x))"
proof -
  have due: "due = filter (mail_due (clock w))" by (simp add: due_def mail_due_def [abs_def])
  have ok: "mails_ok (cur w)" by (rule queue_reachable_ok [OF assms(2)])
  define rs where "rs = due_mails limit w"
  have sub: "set rs \<subseteq> set (due (email_queue (cur w)))" using due_mails_in by (auto simp: rs_def due)
  have w': "w' = fold (deliver_mail en (clock w)) rs w" "n = length rs"
    using assms(3) by (auto simp: process_email_queue_def rs_def Let_def)
  have pends: "\<forall>m\<in>set rs. mail_ok m \<and> em_status m = ''pending''"
    using sub ok by (auto simp: due mails_ok_def mail_due_def)
  note all = deliver_all [OF ok pends, of en "clock w", folded w'(1)]
  note ok' = all [THEN conjunct1]
  note rows = all [THEN conjunct2, THEN conjunct2, THEN conjunct2, THEN conjunct1, rule_format]
  note kept = all [THEN conjunct2, THEN conjunct2, THEN conjunct2, THEN conjunct2, rule_format]
  have dist: "distinct (email_queue (cur w))" "distinct (email_queue (cur w'))"
    using ok ok' by (auto simp: mails_ok_def keys_ok_def distinct_map)
  have within: "set rs \<subseteq> set (email_queue (cur w))" using sub by (auto simp: due)
  note written = deliver_written [OF ok pends within due_mails_distinct [OF dist(1), of limit, folded rs_def], of "clock w" en, folded w'(1)]
  have key: "em_id x \<in> em_id ` set rs \<longleftrightarrow> x \<in> set rs" if "x \<in> set (email_queue (cur w))" for x
    using that ok sub by (auto simp: due mails_ok_def keys_ok_def distinct_map inj_on_def)
  have new: "(x \<in> set (email_queue (cur w)) \<and> x \<notin> set rs)
      \<or> (\<exists>m\<in>set rs. settled_mail (clock w) m x \<and> \<not> mail_due (clock w) x)" if "x \<in> set (email_queue (cur w'))" for x
    using rows [OF that]
  proof (elim disjE bexE exE)
    fix m err assume m: "m \<in> set rs" "x = after_attempt (clock w) err (sending m)"
    have "settled_mail (clock w) m x \<and> \<not> mail_due (clock w) x"
      unfolding m(2) by (rule after_attempt_settled) (use pends m(1) in blast)+
    then show ?thesis using m(1) by blast
  qed (use key in blast)
  have left: "set (due (email_queue (cur w'))) = set (due (email_queue (cur w))) - set rs"
  proof (intro equalityI subsetI)
    fix x assume "x \<in> set (due (email_queue (cur w')))"
    then have "x \<in> set (email_queue (cur w'))" "mail_due (clock w) x" by (simp_all add: due)
    then show "x \<in> set (due (email_queue (cur w))) - set rs" using new [of x] by (auto simp: due)
  next
    fix x assume x: "x \<in> set (due (email_queue (cur w))) - set rs"
    then have "x \<in> set (email_queue (cur w))" "mail_due (clock w) x" by (simp_all add: due)
    moreover from this x have "x \<in> set (email_queue (cur w'))" using kept key by blast
    ultimately show "x \<in> set (due (email_queue (cur w')))" by (simp add: due)
  qed
  have n: "n = min limit (length (due (email_queue (cur w))))" by (simp add: w'(2) rs_def due_mails_length due)
  have "card (set (due (email_queue (cur w'))))= card (set (due (email_queue (cur w)))) - card (set rs)"
    unfolding left by (rule card_Diff_subset) (use sub in auto)
  then have len: "length (due (email_queue (cur w'))) = length (due (email_queue (cur w))) - n"
    using dist due_mails_distinct [OF dist(1), of limit]
      distinct_card [of "due (email_queue (cur w'))"] distinct_card [of "due (email_queue (cur w))"] distinct_card [of rs]
    by (simp add: due w'(2) rs_def del: set_filter)
  have first: "the (em_next_attempt_at m) < the (em_next_attempt_at x)
      \<or> the (em_next_attempt_at m) = the (em_next_attempt_at x) \<and> em_id m \<le> em_id x"
    if "m \<in> set rs" "x \<in> set (due (email_queue (cur w')))" for m x
  proof -
    have "x \<in> set (email_queue (cur w))" "mail_due (clock w) x" "x \<notin> set (due_mails limit w)"
      using that(2) unfolding left by (simp_all add: due rs_def)
    then show ?thesis by (rule batch_first [OF ok that(1) [unfolded rs_def]])
  qed
  have out: "\<exists>x\<in>set (email_queue (cur w')). settled_mail (clock w) m x" if m: "m \<in> set rs" for m
  proof -
    obtain err where "after_attempt (clock w) err (sending m) \<in> set (email_queue (cur w'))"
      using bspec [OF written m] by blast
    moreover have "settled_mail (clock w) m (after_attempt (clock w) err (sending m))"
      by (rule after_attempt_settled [THEN conjunct1]) (use pends m in blast)+
    ultimately show ?thesis by blast
  qed
  show ?thesis
  proof (intro conjI ballI impI)
    show "n = min limit (length (due (email_queue (cur w))))" by (rule n)
    show "length (due (email_queue (cur w'))) = length (due (email_queue (cur w))) - n" by (rule len)
    show "com w' = cur w'" if "n \<noteq> 0" using all that w'(2) by simp
    show "set (due (email_queue (cur w'))) \<subseteq> set (due (email_queue (cur w)))" using left by blast
  next
    fix m assume m: "m \<in> set (due (email_queue (cur w)))" "m \<notin> set (due (email_queue (cur w')))"
    then have m': "m \<in> set rs" using left by blast
    show "\<exists>x\<in>set (email_queue (cur w')). settled_mail (clock w) m x" by (rule out [OF m'])
    show "the (em_next_attempt_at m) < the (em_next_attempt_at x)
        \<or> the (em_next_attempt_at m) = the (em_next_attempt_at x) \<and> em_id m \<le> em_id x"
      if "x \<in> set (due (email_queue (cur w')))" for x
      by (rule first [OF m' that])
  next
    fix x assume "x \<in> set (email_queue (cur w))" "x \<notin> set (due (email_queue (cur w)))"
    then show "x \<in> set (email_queue (cur w'))" using kept [of x] key [of x] sub by blast
  next
    fix x assume "x \<in> set (email_queue (cur w'))"
    then show "x \<in> set (email_queue (cur w)) \<or> (\<exists>m\<in>set (due (email_queue (cur w))). settled_mail (clock w) m x)"
      using new sub by blast
  qed
qed

definition mail_world :: world where
  "mail_world = world_of sample_mail_db"

theorem mail_cycle_settles_witness:
  "filter (mail_due sample_clock)
     (email_queue (cur (snd (process_email_queue sample_env 50 (snd (send_template sample_env ''welcome'' ''a@b.fi'' [] mail_world)))))) = []
   \<and> fst (process_email_queue sample_env 50 (snd (send_template sample_env ''welcome'' ''a@b.fi'' [] mail_world))) = 1"
proof -
  let ?m = "queued_mail ''welcome'' ''a@b.fi'' [] ''welcome'' mail_world"
  let ?w = "snd (send_template sample_env ''welcome'' ''a@b.fi'' [] mail_world)"
  have "sanitize_context [] = []" by (simp add: sanitize_context_def)
  then have w: "?w = audit_record sample_env ''email.queued'' (queued_audit ?m) (commit (on_db (add_email ?m) mail_world))"
    by (simp add: send_template_def mail_world_def sample_mail_db_def sample_env_simps Let_def)
  have q: "email_queue (cur ?w) = [?m]" "clock ?w = sample_clock" unfolding w by (simp_all add: mail_world_def sample_mail_db_def)
  have d: "mail_due sample_clock ?m" by (simp add: mail_due_def queued_mail_def mail_world_def)
  have r: "queue_reachable sample_env ?w"
    by (rule queue_reachable.queued, rule queue_reachable.fresh) (simp add: mail_world_def sample_mail_db_def)
  obtain n w' where p: "process_email_queue sample_env 50 ?w = (n, w')" by fastforce
  note c = mail_cycle_settles [OF r p]
  have due: "(\<lambda>m. em_status m = ''pending'' \<and> (case em_next_attempt_at m of None \<Rightarrow> True | Some t \<Rightarrow> t \<le> clock ?w)) = mail_due sample_clock"
    unfolding q by (simp add: mail_due_def [abs_def])
  note c = c [unfolded due q(1)]
  have "n = 1" using c [THEN conjunct1] d by simp
  moreover have "length (filter (mail_due sample_clock) (email_queue (cur w'))) = length (filter (mail_due sample_clock) [?m]) - n"
    using c by blast
  then have "filter (mail_due sample_clock) (email_queue (cur w')) = []" using d \<open>n = 1\<close> by simp
  ultimately show ?thesis unfolding p by simp
qed

end
