(* ===== verification/Decimals.thy ===== *)
theory Decimals
  imports Money Complex_Main
begin

text \<open>
  Arithmetic of finite decimals in Python's default context: a decimal is a coefficient and an
  exponent, sums, differences, products and quotients are rounded half-even to 28 digits. \<open>dval\<close> is the
  number a decimal stands for. Trailing zeros of an exact quotient are kept; they do not change its
  value. Main facts: how far a rounded operation is from the exact one, and that a rounding to
  whole units is within half a unit.
\<close>

type_synonym dec = "int \<times> int"

definition pow10 :: "int \<Rightarrow> int" where "pow10 n = 10 ^ nat n"

definition digits_of :: "int \<Rightarrow> int" where "digits_of c = int (length (show_nat (nat \<bar>c\<bar>)))"

definition context_add :: "dec \<Rightarrow> dec \<Rightarrow> dec" where
  "context_add a b =
     (let e = min (snd a) (snd b)
      in context_round (fst a * pow10 (snd a - e) + fst b * pow10 (snd b - e)) e)"

definition context_minus :: "dec \<Rightarrow> dec \<Rightarrow> dec" where
  "context_minus a b = context_add a (- fst b, snd b)"

text \<open>The quotient of two integers, the dividend not negative and the divisor positive.\<close>

definition context_div :: "int \<Rightarrow> int \<Rightarrow> dec" where
  "context_div a b =
     (let shift = digits_of b - digits_of a + 29;
          n = (if 0 \<le> shift then a * pow10 shift else a);
          d = (if 0 \<le> shift then b else b * pow10 (- shift));
          q = n div d
      in if n mod d = 0 then context_round q (- shift)
         else context_round (if q mod 5 = 0 then q + 1 else q) (- shift))"

text \<open>\<open>int((value * 100).quantize(Decimal("1"), rounding=ROUND_HALF_UP))\<close>; \<open>None\<close> is \<open>InvalidOperation\<close>.\<close>

definition dec_cents :: "dec \<Rightarrow> cents option" where
  "dec_cents v =
     (case context_mult v (100, 0) of
        (c, e) \<Rightarrow>
          let n = (if 0 \<le> e then c * pow10 e else div_half_up c (pow10 (- e)))
          in if \<bar>n\<bar> < context_limit then Some n else None)"

subsection \<open>Values\<close>

definition dval :: "dec \<Rightarrow> real" where
  "dval a = of_int (fst a) * 10 powi snd a"

lemma pow10_pos [simp]: "0 < pow10 n" "0 \<le> pow10 n" "pow10 n \<noteq> 0"
  by (simp_all add: pow10_def)

lemma real_pow10: "0 \<le> n \<Longrightarrow> real_of_int (pow10 n) = 10 powi n"
  by (simp add: pow10_def power_int_def)

lemma powi_add10: "(10::real) powi (a + b) = 10 powi a * 10 powi b"
  by (simp add: power_int_add)

lemma dval_scale: "e \<le> e' \<Longrightarrow> dval (c * pow10 (e' - e), e) = dval (c, e')"
  by (simp add: dval_def real_pow10 powi_add10 [symmetric] mult.assoc)

lemma dval_sum: "dval (a + b, e) = dval (a, e) + dval (b, e)"
  by (simp add: dval_def distrib_right)

lemma dval_minus: "dval (- a, e) = - dval (a, e)"
  by (simp add: dval_def)

text \<open>Rounding to 28 digits moves a number by less than a unit of its 28th digit.\<close>

lemma show_nat_length: "length (show_nat n) = (if n < 10 then 1 else Suc (length (show_nat (n div 10))))"
  by (subst show_nat.simps) simp

lemma show_nat_small: "n < 10 ^ length (show_nat n)"
proof (induction n rule: less_induct)
  case (less n)
  show ?case
  proof (cases "n < 10")
    case False
    then have "n div 10 < 10 ^ length (show_nat (n div 10))" by (intro less.IH) simp
    then show ?thesis using False by (simp add: show_nat_length)
  qed (simp add: show_nat_length)
qed

lemma show_nat_big: "0 < n \<Longrightarrow> 10 ^ (length (show_nat n) - 1) \<le> n"
proof (induction n rule: less_induct)
  case (less n)
  show ?case
  proof (cases "n < 10")
    case True
    then show ?thesis using less.prems by (simp add: show_nat_length)
  next
    case False
    then have "10 ^ (length (show_nat (n div 10)) - 1) \<le> n div 10" by (intro less.IH) auto
    moreover obtain l where "length (show_nat (n div 10)) = Suc l"
      by (cases "length (show_nat (n div 10))") auto
    ultimately show ?thesis using False by (simp add: show_nat_length)
  qed
qed

lemma context_round_error:
  "\<bar>dval (context_round c e) - dval (c, e)\<bar> \<le> \<bar>dval (c, e)\<bar> / 10 ^ 27"
proof (cases "\<bar>c\<bar> < context_limit")
  case True
  then show ?thesis by (simp add: context_round_def)
next
  case False
  define k where "k = length (show_nat (nat \<bar>c\<bar>)) - 28"
  define q where "q = div_half_even c (10 ^ k)"
  have c: "10 ^ (length (show_nat (nat \<bar>c\<bar>)) - 1) \<le> nat \<bar>c\<bar>"
    by (rule show_nat_big) (use False in \<open>simp add: context_limit_def\<close>)
  have "\<not> length (show_nat (nat \<bar>c\<bar>)) \<le> 27"
  proof
    assume "length (show_nat (nat \<bar>c\<bar>)) \<le> 27"
    then have "(10::nat) ^ length (show_nat (nat \<bar>c\<bar>)) \<le> 10 ^ 27" by (rule power_increasing) simp
    moreover have "nat \<bar>c\<bar> < 10 ^ length (show_nat (nat \<bar>c\<bar>))" by (rule show_nat_small)
    ultimately have "nat \<bar>c\<bar> < 10 ^ 27" by linarith
    then show False using False by (simp add: context_limit_def)
  qed
  then have m: "length (show_nat (nat \<bar>c\<bar>)) - 1 = k + 27" by (simp add: k_def)
  have big: "(10::real) ^ k * 10 ^ 27 \<le> \<bar>real_of_int c\<bar>"
  proof -
    have "(10::int) ^ (k + 27) \<le> \<bar>c\<bar>" using c [unfolded m] by (simp add: le_nat_iff)
    then have "real_of_int (10 ^ (k + 27)) \<le> real_of_int \<bar>c\<bar>" by (simp only: of_int_le_iff)
    then show ?thesis by (simp add: power_add)
  qed
  have "\<bar>2 * c - 2 * 10 ^ k * q\<bar> \<le> 10 ^ k" unfolding q_def by (rule div_half_even_close) simp
  then have "real_of_int \<bar>2 * c - 2 * 10 ^ k * q\<bar> \<le> real_of_int (10 ^ k)" by (simp only: of_int_le_iff)
  then have close: "\<bar>real_of_int q * 10 ^ k - real_of_int c\<bar> \<le> 10 ^ k" by (simp add: algebra_simps abs_le_iff)
  have p: "(0::real) < 10 powi e" by (simp add: zero_less_power_int)
  have "dval (context_round c e) - dval (c, e) = (real_of_int q * 10 ^ k - real_of_int c) * 10 powi e"
    using False by (simp add: context_round_def Let_def k_def [symmetric] q_def [symmetric] dval_def powi_add10 algebra_simps)
  also have "\<bar>\<dots>\<bar> \<le> 10 ^ k * 10 powi e" using close p by (simp add: abs_mult mult_right_mono)
  also have "\<dots> \<le> (\<bar>real_of_int c\<bar> / 10 ^ 27) * 10 powi e" using big p by (simp add: field_simps)
  also have "\<dots> = \<bar>dval (c, e)\<bar> / 10 ^ 27" using p by (simp add: dval_def abs_mult)
  finally show ?thesis .
qed

lemma context_minus_error:
  "\<bar>dval (context_minus a b) - (dval a - dval b)\<bar> \<le> \<bar>dval a - dval b\<bar> / 10 ^ 27"
proof -
  let ?e = "min (snd a) (snd b)"
  have "dval (fst a * pow10 (snd a - ?e) + - fst b * pow10 (snd b - ?e), ?e) = dval a - dval b"
    using dval_scale [of ?e "snd a" "fst a"] dval_scale [of ?e "snd b" "- fst b"]
    by (simp only: dval_sum) (simp add: dval_minus)
  then show ?thesis
    using context_round_error [of "fst a * pow10 (snd a - ?e) + - fst b * pow10 (snd b - ?e)" ?e]
    by (simp add: context_minus_def context_add_def Let_def)
qed

lemma context_mult_error:
  "\<bar>dval (context_mult a b) - dval a * dval b\<bar> \<le> \<bar>dval a * dval b\<bar> / 10 ^ 27"
proof -
  have "dval (fst a * fst b, snd a + snd b) = dval a * dval b" by (simp add: dval_def powi_add10 mult_ac)
  then show ?thesis using context_round_error [of "fst a * fst b" "snd a + snd b"] by (simp add: context_mult_def)
qed

text \<open>The cents of a decimal are within half a cent of it, up to the rounding of the product.\<close>

lemma dec_cents_error:
  assumes "dec_cents v = Some n"
  shows "\<bar>real_of_int n - 100 * dval v\<bar> \<le> 1 / 2 + \<bar>100 * dval v\<bar> / 10 ^ 27"
proof -
  obtain c e where m: "context_mult v (100, 0) = (c, e)" by fastforce
  have err: "\<bar>dval (c, e) - 100 * dval v\<bar> \<le> \<bar>100 * dval v\<bar> / 10 ^ 27"
    using context_mult_error [of v "(100, 0)"] by (simp add: m dval_def [of "(100, 0)"] mult.commute)
  have "\<bar>real_of_int n - dval (c, e)\<bar> \<le> 1 / 2"
  proof (cases "0 \<le> e")
    case True
    then have "n = c * pow10 e" using assms by (simp add: dec_cents_def m Let_def split: if_splits)
    then show ?thesis using True by (simp add: dval_def real_pow10)
  next
    case False
    then have n: "n = div_half_up c (pow10 (- e))" using assms by (simp add: dec_cents_def m Let_def split: if_splits)
    have "\<bar>2 * c - 2 * pow10 (- e) * n\<bar> \<le> pow10 (- e)" unfolding n by (rule div_half_up_close) simp
    then have "real_of_int \<bar>2 * c - 2 * pow10 (- e) * n\<bar> \<le> real_of_int (pow10 (- e))" by (simp only: of_int_le_iff)
    then have a: "\<bar>2 * real_of_int c - 2 * real_of_int (pow10 (- e)) * real_of_int n\<bar> \<le> real_of_int (pow10 (- e))" by simp
    have p: "real_of_int (pow10 (- e)) * 10 powi e = 1" "(0::real) < 10 powi e"
      using False by (simp_all add: real_pow10 power_int_minus zero_less_power_int)
    have "\<bar>2 * real_of_int c - 2 * real_of_int (pow10 (- e)) * real_of_int n\<bar> * 10 powi e
        \<le> real_of_int (pow10 (- e)) * 10 powi e"
      using a p(2) by (simp add: mult_right_mono)
    then have "\<bar>(2 * real_of_int c - 2 * real_of_int (pow10 (- e)) * real_of_int n) * 10 powi e\<bar> \<le> 1"
      using p by (simp add: abs_mult)
    moreover have "(2 * real_of_int c - 2 * real_of_int (pow10 (- e)) * real_of_int n) * 10 powi e
        = 2 * dval (c, e) - 2 * real_of_int n"
      using p(1) by (simp add: dval_def left_diff_distrib mult.assoc mult.left_commute [of _ "real_of_int n"] mult.commute [of _ "real_of_int n"])
    ultimately show ?thesis by linarith
  qed
  then show ?thesis using err by linarith
qed

end
