(* ===== verification/Owners.thy ===== *)
theory Owners
  imports Decimals Frame Samples
begin

text \<open>
  Owners of properties (app/owners) and their portal (app/owner_portal). A payout of a month adds up
  the owner's share of the confirmed stays, night by night, and the manager's fee; the sums are
  decimals of 28 digits, the columns whole cents. The PDF is reduced to its path. The portal is a
  session with two entries; a page is reduced to the rows it shows. Main facts: the share of a stay
  counts its nights inside the month and the assignment; the printed amounts add up to a cent; the
  second step of the portal's sign-in asks for nothing.
\<close>

subsection \<open>Owners and assignments\<close>

definition owner_get :: "int \<Rightarrow> db \<Rightarrow> owner_row option" where
  "owner_get i d = row_get ow_id i (owners d)"

definition find_owner :: "int \<Rightarrow> int \<Rightarrow> db \<Rightarrow> owner_row option" where
  "find_owner oid i d = List.find (\<lambda>x. ow_id x = i \<and> ow_org x = oid) (owners d)"

definition create_owner ::
  "env \<Rightarrow> int \<Rightarrow> string \<Rightarrow> string \<Rightarrow> string option \<Rightarrow> string option \<Rightarrow> world \<Rightarrow> owner_row \<times> world" where
  "create_owner en oid name mail phone iban w =
     (let x = \<lparr>ow_id = next_key T_owners (cur w), ow_org = oid, ow_name = strip name, ow_email = lower (strip mail),
                ow_phone = none_if_empty (strip (or_empty phone)), ow_iban = none_if_empty (strip (or_empty iban)),
                ow_active = True\<rparr>
      in (x, audit_record en ''owner.created''
               (audit_defaults\<lparr>aa_org := Some oid, aa_target_type := Some ''property_owner'', aa_target_id := Some (ow_id x),
                  aa_context := Some [(''email'', JStr (ow_email x)), (''name'', JStr (ow_name x))]\<rparr>)
               (on_db (add_owner x) w)))"

definition deactivate_owner :: "env \<Rightarrow> int \<Rightarrow> int \<Rightarrow> world \<Rightarrow> bool \<times> world" where
  "deactivate_owner en i oid w =
     (case find_owner oid i (cur w) of
        None \<Rightarrow> (False, w)
      | Some x \<Rightarrow>
          (True, audit_record en ''owner.deactivated''
             (audit_defaults\<lparr>aa_org := Some oid, aa_target_type := Some ''property_owner'', aa_target_id := Some i\<rparr>)
             (on_db (put_owner (x\<lparr>ow_active := False\<rparr>)) w)))"

definition assign_property ::
  "int \<Rightarrow> int \<Rightarrow> int \<Rightarrow> int \<Rightarrow> int \<Rightarrow> date \<Rightarrow> date option \<Rightarrow> world \<Rightarrow> (exn + owner_assignment) \<times> world" where
  "assign_property i oid pid pct fee from to w =
     (if find_owner oid i (cur w) = None \<or> find_property oid pid (cur w) = None then (Inl (PyError ValueError), w)
      else
        let a = \<lparr>oa_id = next_key T_assignments (cur w), oa_property = pid, oa_owner = i, oa_pct = pct, oa_fee_pct = fee,
                  oa_from = from, oa_to = to\<rparr>
        in (Inr a, on_db (add_assignment a) w))"

definition assign_owner_property_and_commit ::
  "int \<Rightarrow> int \<Rightarrow> int \<Rightarrow> int \<Rightarrow> int \<Rightarrow> date \<Rightarrow> date option \<Rightarrow> world \<Rightarrow> (exn + unit) \<times> world" where
  "assign_owner_property_and_commit i oid pid pct fee from to w =
     (case assign_property i oid pid pct fee from to w of
        (Inl x, w1) \<Rightarrow> (Inl x, w1) | (Inr a, w1) \<Rightarrow> (Inr (), commit w1))"

definition create_owner_user :: "env \<Rightarrow> int \<Rightarrow> string \<Rightarrow> string \<Rightarrow> world \<Rightarrow> (exn + owner_user) \<times> world" where
  \<comment> \<open>the column \<open>email\<close> is unique\<close>
  "create_owner_user en i mail password w =
     (let u = \<lparr>ou_id = next_key T_owner_users (cur w), ou_owner = i, ou_email = lower (strip mail),
                ou_password_hash = password_hash en password, ou_active = True, ou_last_login_at = None\<rparr>
      in if \<exists>x\<in>set (owner_users (cur w)). ou_email x = ou_email u then (Inl (PyError IntegrityError), rollback w)
         else (Inr u, on_db (add_owner_user u) w))"

definition create_owner_with_login ::
  "env \<Rightarrow> int \<Rightarrow> string \<Rightarrow> string \<Rightarrow> string option \<Rightarrow> string option \<Rightarrow> string option \<Rightarrow> world \<Rightarrow> (exn + owner_row) \<times> world" where
  "create_owner_with_login en oid name mail phone iban password w =
     (case create_owner en oid name mail phone iban w of
        (x, w1) \<Rightarrow>
          let pw = strip (or_empty password) in
          if pw = '''' then (Inr x, commit w1)
          else case create_owner_user en (ow_id x) (ow_email x) pw w1 of
            (Inl e, w2) \<Rightarrow> (Inl e, w2) | (Inr u, w2) \<Rightarrow> (Inr x, commit w2))"

definition authenticate_owner_user :: "env \<Rightarrow> string \<Rightarrow> string \<Rightarrow> world \<Rightarrow> owner_user option \<times> world" where
  "authenticate_owner_user en mail password w =
     (case List.find (\<lambda>u. ou_email u = lower (strip mail) \<and> ou_active u) (owner_users (cur w)) of
        None \<Rightarrow> (None, w)
      | Some u \<Rightarrow>
          if check_password_hash en (ou_password_hash u) password
          then let u1 = u\<lparr>ou_last_login_at := Some (clock w)\<rparr> in (Some u1, commit (on_db (put_owner_user u1) w))
          else (None, w))"

subsection \<open>The payout of a month\<close>

definition parse_period_month :: "string \<Rightarrow> (date \<times> date) option" where
  "parse_period_month s =
     (let y = takeWhile (\<lambda>c. c \<noteq> CHR ''-'') s; rest = drop (length y) s in
      if rest = [] then None
      else case (int_of_text y, int_of_text (tl rest)) of
        (Some year, Some month) \<Rightarrow>
          map_option (\<lambda>first. (first, first + days_in_month year month - 1)) (mk_date year month 1)
      | _ \<Rightarrow> None)"

definition overlap_days :: "date \<Rightarrow> date \<Rightarrow> date \<Rightarrow> date \<Rightarrow> int" where
  "overlap_days start_a end_a start_b end_b =
     (let s = max start_a start_b; e = min end_a end_b in if e < s then 0 else e - s + 1)"

definition month_assignments :: "owner_row \<Rightarrow> date \<Rightarrow> date \<Rightarrow> db \<Rightarrow> owner_assignment list" where
  "month_assignments x first fin d =
     filter (\<lambda>a. oa_owner a = ow_id x \<and> property_org (oa_property a) d = Some (ow_org x) \<and> oa_from a \<le> fin
        \<and> (case oa_to a of None \<Rightarrow> True | Some t \<Rightarrow> first \<le> t)) (assignments d)"

definition month_stays :: "int \<Rightarrow> date \<Rightarrow> date \<Rightarrow> db \<Rightarrow> reservation list" where
  "month_stays pid first fin d =
     filter (\<lambda>r. (case unit_get (res_unit r) d of None \<Rightarrow> False | Some u \<Rightarrow> u_property u = pid)
        \<and> res_status r = ''confirmed'' \<and> res_start r \<le> fin \<and> first < res_end r) (reservations d)"

definition assigned_nights :: "date \<Rightarrow> date \<Rightarrow> owner_assignment \<Rightarrow> reservation \<Rightarrow> int" where
  "assigned_nights first fin a r =
     overlap_days (res_start r) (res_end r - 1) (max first (oa_from a))
       (min fin (case oa_to a of None \<Rightarrow> fin | Some t \<Rightarrow> t))"

definition stay_share :: "date \<Rightarrow> date \<Rightarrow> owner_assignment \<Rightarrow> reservation \<Rightarrow> (dec \<times> dec) option" where
  \<comment> \<open>the owner's gross revenue of a stay and the fee on it\<close>
  "stay_share first fin a r =
     (case res_amount r of
        None \<Rightarrow> None
      | Some amount \<Rightarrow>
          if res_end r - 1 < res_start r then None
          else
            let n = assigned_nights first fin a r;
                total = overlap_days (res_start r) (res_end r - 1) (res_start r) (res_end r - 1)
            in if n \<le> 0 \<or> total \<le> 0 then None
               else let gross = context_mult (context_mult (amount, - 2) (context_div n total)) (oa_pct a, - 4)
                    in Some (gross, context_mult gross (oa_fee_pct a, - 4)))"

definition add_share :: "(dec \<times> dec) option \<Rightarrow> dec \<times> dec \<Rightarrow> dec \<times> dec" where
  "add_share s t = (case s of None \<Rightarrow> t | Some (g, f) \<Rightarrow> (context_add (fst t) g, context_add (snd t) f))"

definition payout_sums :: "owner_row \<Rightarrow> date \<Rightarrow> date \<Rightarrow> db \<Rightarrow> dec \<times> dec" where
  "payout_sums x first fin d =
     fold (\<lambda>a. fold (\<lambda>r. add_share (stay_share first fin a r)) (month_stays (oa_property a) first fin d))
       (month_assignments x first fin d) ((0, 0), (0, 0))"

definition payout_cents :: "dec \<times> dec \<Rightarrow> (cents \<times> cents \<times> cents \<times> cents) option" where
  \<comment> \<open>gross, fee, expenses (always zero) and net\<close>
  "payout_cents t =
     (case (dec_cents (fst t), dec_cents (snd t), dec_cents (0, 0),
            dec_cents (context_minus (context_minus (fst t) (snd t)) (0, 0))) of
        (Some g, Some f, Some e, Some n) \<Rightarrow> Some (g, f, e, n) | _ \<Rightarrow> None)"

definition find_payout :: "int \<Rightarrow> string \<Rightarrow> db \<Rightarrow> owner_payout option" where
  "find_payout i month d = List.find (\<lambda>p. op_owner p = i \<and> op_month p = month) (payouts d)"

definition new_payout :: "int \<Rightarrow> string \<Rightarrow> db \<Rightarrow> owner_payout" where
  "new_payout i month d =
     \<lparr>op_id = next_key T_payouts d, op_owner = i, op_month = month, op_gross = 0, op_fee = 0, op_expenses = 0, op_net = 0,
      op_status = ''draft'', op_pdf = None, op_sent_at = None, op_paid_at = None\<rparr>"

definition payout_row :: "int \<Rightarrow> string \<Rightarrow> db \<Rightarrow> owner_payout \<times> db" where
  "payout_row i month d =
     (case find_payout i month d of
        Some p \<Rightarrow> (p, d) | None \<Rightarrow> let p = new_payout i month d in (p, add_payout p d))"

definition pdf_path :: "int \<Rightarrow> string \<Rightarrow> string" where
  "pdf_path i month = ''owner_payouts/owner-'' @ show_int i @ ''-'' @ month @ ''.pdf''"

definition written_payout :: "int \<Rightarrow> cents \<times> cents \<times> cents \<times> cents \<Rightarrow> owner_payout \<Rightarrow> owner_payout" where
  "written_payout i t p =
     (case t of (g, f, e, n) \<Rightarrow>
        p\<lparr>op_gross := g, op_fee := f, op_expenses := e, op_net := n, op_status := ''draft'',
          op_pdf := Some (pdf_path i (op_month p))\<rparr>)"

definition payout_audit :: "int \<Rightarrow> owner_payout \<Rightarrow> audit_args" where
  "payout_audit oid p =
     audit_defaults\<lparr>aa_org := Some oid, aa_target_type := Some ''owner_payout'', aa_target_id := Some (op_id p),
       aa_context := Some [(''owner_id'', JInt (op_owner p)), (''period_month'', JStr (op_month p))]\<rparr>"

definition generate_monthly_payout :: "env \<Rightarrow> int \<Rightarrow> string \<Rightarrow> world \<Rightarrow> (exn + owner_payout) \<times> world" where
  "generate_monthly_payout en i month w =
     (case owner_get i (cur w) of
        None \<Rightarrow> (Inl (PyError ValueError), w)
      | Some x \<Rightarrow>
     (case parse_period_month month of
        None \<Rightarrow> (Inl (PyError ValueError), w)
      | Some (first, fin) \<Rightarrow>
          (case payout_row i month (cur w) of (p, d1) \<Rightarrow>
             let w1 = on_db (\<lambda>d. d1) w in
             case payout_cents (payout_sums x first fin (cur w)) of
               None \<Rightarrow> (Inl (PyError InvalidOperation), w1)
             | Some t \<Rightarrow>
                 let p1 = written_payout i t p
                 in (Inr p1, commit (audit_record en ''payout.generated'' (payout_audit (ow_org x) p1) (on_db (put_payout p1) w1))))))"

definition payout_mail :: "owner_row \<Rightarrow> owner_payout \<Rightarrow> (string \<times> json) list" where
  "payout_mail x p =
     [(''user_email'', JStr (ow_email x)), (''subject_line'', JStr (''Monthly payout '' @ op_month p)),
      (''message'', JStr (''Your payout PDF is ready: '' @ (case op_pdf p of None \<Rightarrow> ''None'' | Some s \<Rightarrow> s)))]"

definition send_payout_email :: "env \<Rightarrow> owner_payout \<Rightarrow> world \<Rightarrow> (exn + bool) \<times> world" where
  "send_payout_email en p w =
     (case owner_get (op_owner p) (cur w) of
        None \<Rightarrow> (Inr False, w)
      | Some x \<Rightarrow>
          (case send_template en ''admin_notification'' (ow_email x) (payout_mail x p) w of
             (Inl e, w1) \<Rightarrow> (Inl e, w1)
           | (Inr ok, w1) \<Rightarrow>
               if \<not> ok then (Inr False, w1)
               else let p1 = p\<lparr>op_status := ''sent'', op_sent_at := Some (clock w1)\<rparr>
                    in (Inr True, commit (audit_record en ''payout.sent'' (payout_audit (ow_org x) p1) (on_db (put_payout p1) w1)))))"

definition mark_payout_paid :: "env \<Rightarrow> int \<Rightarrow> int \<Rightarrow> world \<Rightarrow> bool \<times> world" where
  "mark_payout_paid en pid oid w =
     (case List.find (\<lambda>p. op_id p = pid \<and> (case owner_get (op_owner p) (cur w) of None \<Rightarrow> False | Some x \<Rightarrow> ow_org x = oid))
             (payouts (cur w)) of
        None \<Rightarrow> (False, w)
      | Some p \<Rightarrow>
          (True, commit (audit_record en ''payout.marked_paid''
             (audit_defaults\<lparr>aa_org := Some oid, aa_target_type := Some ''owner_payout'', aa_target_id := Some pid\<rparr>)
             (on_db (put_payout (p\<lparr>op_status := ''paid'', op_paid_at := Some (clock w)\<rparr>)) w))))"

subsection \<open>The monthly job\<close>

definition previous_month :: "date \<Rightarrow> string" where
  "previous_month d =
     (let m = month_of d - 1 in
      if m = 0 then fmt0 4 (year_of d - 1) @ ''-'' @ fmt0 2 12 else fmt0 4 (year_of d) @ ''-'' @ fmt0 2 m)"

fun payout_loop :: "env \<Rightarrow> string \<Rightarrow> owner_row list \<Rightarrow> nat \<Rightarrow> world \<Rightarrow> (exn + nat) \<times> world" where
  "payout_loop en month [] n w = (Inr n, w)"
| "payout_loop en month (x # xs) n w =
     (case generate_monthly_payout en (ow_id x) month w of
        (Inl e, w1) \<Rightarrow> (Inl e, w1)
      | (Inr p, w1) \<Rightarrow>
          (case find_payout (ow_id x) month (cur w1) of
             None \<Rightarrow> payout_loop en month xs (n + 1) w1
           | Some q \<Rightarrow>
               if op_status q \<noteq> ''draft'' then payout_loop en month xs (n + 1) w1
               else case send_payout_email en q w1 of
                 (Inl e, w2) \<Rightarrow> (Inl e, w2) | (Inr ok, w2) \<Rightarrow> payout_loop en month xs (n + 1) w2))"

definition run_monthly_owner_payout_job :: "env \<Rightarrow> world \<Rightarrow> (exn + nat) \<times> world" where
  "run_monthly_owner_payout_job en w =
     payout_loop en (previous_month (local_today en)) (filter ow_active (owners (cur w))) 0 w"

subsection \<open>The owner portal\<close>

record owner_session =
  os_user :: "int option"
  os_2fa :: bool

datatype owner_page = Login_form bool | Two_factor_form | Redirect string | Missing
  | Dashboard "cents \<times> cents \<times> cents" "property_row list" | Stays "reservation list" | Payouts "owner_payout list"
  | Payout_pdf string | Profile owner_user

definition owner_user_from_session :: "int option \<Rightarrow> db \<Rightarrow> owner_user option" where
  "owner_user_from_session s d =
     (case s of None \<Rightarrow> None | Some i \<Rightarrow> List.find (\<lambda>u. ou_id u = i \<and> ou_active u) (owner_users d))"

definition monthly_owner_dashboard :: "int \<Rightarrow> string \<Rightarrow> db \<Rightarrow> cents \<times> cents \<times> cents" where
  "monthly_owner_dashboard i month d =
     (case find_payout i month d of None \<Rightarrow> (0, 0, 0) | Some p \<Rightarrow> (op_gross p, op_fee p, op_net p))"

definition owner_properties :: "env \<Rightarrow> int \<Rightarrow> db \<Rightarrow> property_row list" where
  "owner_properties en i d =
     sort_key (\<lambda>p. collation en (p_name p))
       (List.map_filter (\<lambda>a. property_get (oa_property a) d) (filter (\<lambda>a. oa_owner a = i) (assignments d)))"

definition list_owner_property_reservations :: "int \<Rightarrow> int \<Rightarrow> db \<Rightarrow> reservation list option" where
  \<comment> \<open>\<open>None\<close>: no assignment\<close>
  "list_owner_property_reservations i pid d =
     (if \<exists>a\<in>set (assignments d). oa_owner a = i \<and> oa_property a = pid
      then Some (order2 res_start res_id
        (filter (\<lambda>r. case unit_get (res_unit r) d of None \<Rightarrow> False | Some u \<Rightarrow> u_property u = pid) (reservations d)))
      else None)"

definition payout_pdf_response :: "(string \<Rightarrow> bool) \<Rightarrow> int \<Rightarrow> int \<Rightarrow> db \<Rightarrow> string option" where
  \<comment> \<open>the path of the file sent; \<open>isfile\<close> tells which files exist\<close>
  "payout_pdf_response isfile pid i d =
     (case List.find (\<lambda>p. op_id p = pid \<and> op_owner p = i) (payouts d) of
        None \<Rightarrow> None
      | Some p \<Rightarrow> (case op_pdf p of None \<Rightarrow> None | Some f \<Rightarrow> if f = '''' \<or> \<not> isfile f then None else Some f))"

definition owner_payouts :: "env \<Rightarrow> int \<Rightarrow> db \<Rightarrow> owner_payout list" where
  "owner_payouts en i d =
     rev (sort_key (\<lambda>p. collation en (op_month p)) (sort_key op_id (filter (\<lambda>p. op_owner p = i) (payouts d))))"

datatype owner_request = Get_login | Post_login string string | Get_2fa | Post_2fa | Logout
  | Get_dashboard | Get_calendar int | Get_payouts | Get_pdf int | Get_profile

definition owner_view ::
  "env \<Rightarrow> (string \<Rightarrow> bool) \<Rightarrow> owner_request \<Rightarrow> owner_user \<Rightarrow> db \<Rightarrow> owner_page" where
  \<comment> \<open>the pages behind the second step\<close>
  "owner_view en isfile rq u d =
     (case rq of
        Get_dashboard \<Rightarrow>
          Dashboard (monthly_owner_dashboard (ou_owner u)
              (fmt0 4 (year_of (local_today en)) @ ''-'' @ fmt0 2 (month_of (local_today en))) d)
            (owner_properties en (ou_owner u) d)
      | Get_calendar pid \<Rightarrow> (case list_owner_property_reservations (ou_owner u) pid d of None \<Rightarrow> Missing | Some rs \<Rightarrow> Stays rs)
      | Get_payouts \<Rightarrow> Payouts (owner_payouts en (ou_owner u) d)
      | Get_pdf pid \<Rightarrow> (case payout_pdf_response isfile pid (ou_owner u) d of None \<Rightarrow> Missing | Some f \<Rightarrow> Payout_pdf f)
      | _ \<Rightarrow> Profile u)"

definition owner_step ::
  "env \<Rightarrow> (string \<Rightarrow> bool) \<Rightarrow> owner_request \<Rightarrow> owner_session \<Rightarrow> world \<Rightarrow> owner_page \<times> owner_session \<times> world" where
  "owner_step en isfile rq s w =
     (case rq of
        Get_login \<Rightarrow> (Login_form False, s, w)
      | Post_login mail password \<Rightarrow>
          (case authenticate_owner_user en (strip mail) password w of
             (None, w1) \<Rightarrow> (Login_form True, s, w1)
           | (Some u, w1) \<Rightarrow> (Redirect ''two_factor'', s\<lparr>os_user := Some (ou_id u)\<rparr>, w1))
      | Logout \<Rightarrow> (Redirect ''login'', \<lparr>os_user = None, os_2fa = False\<rparr>, w)
      | _ \<Rightarrow>
          (case owner_user_from_session (os_user s) (cur w) of
             None \<Rightarrow> (Redirect ''login'', s, w)
           | Some u \<Rightarrow>
               if rq = Get_2fa then (Two_factor_form, s, w)
               else if rq = Post_2fa then (Redirect ''dashboard'', s\<lparr>os_2fa := True\<rparr>, w)
               else if \<not> os_2fa s then (Redirect ''two_factor'', s, w)
               else (owner_view en isfile rq u (cur w), s, w)))"

subsection \<open>Nights and cents\<close>

lemma overlap_days_card: "overlap_days a b c d = int (card ({a..b} \<inter> {c..d}))"
  by (auto simp: overlap_days_def Let_def Int_atLeastAtMost)

text \<open>The nights that count are those of the stay that lie in the month and in the assignment;
  two adjacent months split them without loss.\<close>

lemma assigned_nights_card:
  "assigned_nights first fin a r = int (card {d. res_start r \<le> d \<and> d < res_end r \<and> first \<le> d \<and> d \<le> fin
      \<and> oa_from a \<le> d \<and> (case oa_to a of None \<Rightarrow> True | Some t \<Rightarrow> d \<le> t)})"
  unfolding assigned_nights_def overlap_days_card
  by (rule arg_cong [where f = "\<lambda>A. int (card A)"]) (auto split: option.splits)

lemma nights_split:
  assumes "first \<le> mid + 1" and "mid \<le> fin"
  shows "assigned_nights first mid a r + assigned_nights (mid + 1) fin a r = assigned_nights first fin a r"
proof -
  let ?A = "{d. res_start r \<le> d \<and> d < res_end r \<and> first \<le> d \<and> d \<le> mid
      \<and> oa_from a \<le> d \<and> (case oa_to a of None \<Rightarrow> True | Some t \<Rightarrow> d \<le> t)}"
  let ?B = "{d. res_start r \<le> d \<and> d < res_end r \<and> mid + 1 \<le> d \<and> d \<le> fin
      \<and> oa_from a \<le> d \<and> (case oa_to a of None \<Rightarrow> True | Some t \<Rightarrow> d \<le> t)}"
  have "finite ?A" by (rule finite_subset [of _ "{first..mid}"]) auto
  moreover have "finite ?B" by (rule finite_subset [of _ "{mid + 1..fin}"]) auto
  moreover have "?A \<inter> ?B = {}" by auto
  moreover have "?A \<union> ?B = {d. res_start r \<le> d \<and> d < res_end r \<and> first \<le> d \<and> d \<le> fin
      \<and> oa_from a \<le> d \<and> (case oa_to a of None \<Rightarrow> True | Some t \<Rightarrow> d \<le> t)}" using assms by auto
  ultimately have "card {d. res_start r \<le> d \<and> d < res_end r \<and> first \<le> d \<and> d \<le> fin
      \<and> oa_from a \<le> d \<and> (case oa_to a of None \<Rightarrow> True | Some t \<Rightarrow> d \<le> t)} = card ?A + card ?B"
    using card_Un_disjoint [of ?A ?B] by simp
  then show ?thesis unfolding assigned_nights_card by simp
qed

lemma dval_zero [simp]: "dval (0, e) = 0" by (simp add: dval_def)

lemma half_of_big: "\<bar>x\<bar> \<le> 1 / 2 + \<bar>y\<bar> / 10 ^ 27 \<Longrightarrow> \<bar>y\<bar> \<le> 10 ^ 25 \<Longrightarrow> \<bar>x\<bar> \<le> (1 / 2 + 1 / 100 :: real)"
proof -
  assume a: "\<bar>x\<bar> \<le> 1 / 2 + \<bar>y\<bar> / 10 ^ 27" "\<bar>y\<bar> \<le> 10 ^ 25"
  have "\<bar>y\<bar> / 10 ^ 27 \<le> (1 / 100 :: real)" using a(2) by simp
  then show ?thesis using a(1) by linarith
qed

lemma payout_cents_close:
  assumes "payout_cents t = Some (g, f, e, n)" and "\<bar>g\<bar> \<le> 10 ^ 20" and "\<bar>f\<bar> \<le> 10 ^ 20"
  shows "\<bar>n - (g - f)\<bar> \<le> 1 \<and> e = 0"
proof -
  obtain G F where t: "t = (G, F)" by (cases t)
  define N where "N = context_minus (context_minus G F) (0, 0)"
  have c: "dec_cents G = Some g" "dec_cents F = Some f" "dec_cents (0, 0) = Some e" "dec_cents N = Some n"
    using assms(1) by (auto simp: payout_cents_def t N_def split: option.splits)
  have bound: "\<bar>100 * dval v\<bar> \<le> 10 ^ 21 \<and> \<bar>of_int x - 100 * dval v\<bar> \<le> 1 / 2 + 1 / 100"
    if "dec_cents v = Some x" "\<bar>x\<bar> \<le> 10 ^ 20" for v x
  proof -
    have e: "\<bar>of_int x - 100 * dval v\<bar> \<le> 1 / 2 + \<bar>100 * dval v\<bar> / 10 ^ 27" by (rule dec_cents_error [OF that(1)])
    have "real_of_int \<bar>x\<bar> \<le> real_of_int (10 ^ 20)" using that(2) by (simp only: of_int_le_iff)
    then have x: "\<bar>real_of_int x\<bar> \<le> 10 ^ 20" by simp
    have "\<bar>100 * dval v\<bar> / 10 ^ 27 \<le> \<bar>100 * dval v\<bar> / 4" by (simp add: divide_left_mono)
    moreover have "(10::real) ^ 21 = 10 * 10 ^ 20" "(1::real) \<le> 10 ^ 20" by simp_all
    ultimately have v: "\<bar>100 * dval v\<bar> \<le> 10 ^ 21" using e x by linarith
    moreover have "(10::real) ^ 21 \<le> 10 ^ 25" by simp
    ultimately show ?thesis using half_of_big [OF e] by linarith
  qed
  have g: "\<bar>100 * dval G\<bar> \<le> 10 ^ 21" "\<bar>of_int g - 100 * dval G\<bar> \<le> 1 / 2 + 1 / 100"
    using bound [OF c(1) assms(2)] by blast+
  have f: "\<bar>100 * dval F\<bar> \<le> 10 ^ 21" "\<bar>of_int f - 100 * dval F\<bar> \<le> 1 / 2 + 1 / 100"
    using bound [OF c(2) assms(3)] by blast+
  define M where "M = context_minus G F"
  have m: "\<bar>dval M - (dval G - dval F)\<bar> \<le> \<bar>dval G - dval F\<bar> / 10 ^ 27"
    unfolding M_def by (rule context_minus_error)
  have gf: "\<bar>dval G - dval F\<bar> \<le> 10 ^ 20" using g(1) f(1) by simp
  then have m1: "\<bar>dval M - (dval G - dval F)\<bar> \<le> 1 / 10 ^ 6"
    using m divide_right_mono [OF gf, of "10 ^ 27"] by simp
  have nm: "\<bar>dval N - (dval M - dval (0, 0))\<bar> \<le> \<bar>dval M - dval (0, 0)\<bar> / 10 ^ 27"
    unfolding N_def M_def by (rule context_minus_error)
  have tri: "\<bar>a\<bar> \<le> \<bar>a - b\<bar> + \<bar>b\<bar>" for a b :: real by linarith
  have big: "1 / 10 ^ 6 + 10 ^ 20 \<le> (10::real) ^ 21" "1 / 10 ^ 6 + 10 ^ 21 \<le> (10::real) ^ 22" by simp_all
  have dm: "\<bar>dval M\<bar> \<le> 10 ^ 21" using tri [of "dval M" "dval G - dval F"] m1 gf big(1) by linarith
  then have n1: "\<bar>dval N - dval M\<bar> \<le> 1 / 10 ^ 6"
    using nm divide_right_mono [of "\<bar>dval M\<bar>" "10 ^ 21" "10 ^ 27"] dm by simp
  have "\<bar>dval N\<bar> \<le> 10 ^ 22" using tri [of "dval N" "dval M"] n1 dm big(2) by linarith
  then have "\<bar>100 * dval N\<bar> \<le> 10 ^ 25" by (simp add: abs_mult)
  then have n: "\<bar>of_int n - 100 * dval N\<bar> \<le> 1 / 2 + 1 / 100" by (rule half_of_big [OF dec_cents_error [OF c(4)]])
  have "\<bar>real_of_int n - (of_int g - of_int f)\<bar> < 2" using n g(2) f(2) m1 n1 unfolding abs_le_iff abs_less_iff by (elim conjE, intro conjI) simp_all
  then have "\<bar>real_of_int (n - (g - f))\<bar> < real_of_int 2" by simp
  then have "\<bar>n - (g - f)\<bar> < 2" by linarith
  moreover have "e = 0" using c(3) by (simp add: dec_cents_def context_mult_def context_round_def pow10_def)
  ultimately show ?thesis by simp
qed

lemma generate_cases:
  assumes "generate_monthly_payout en i month w = (Inr p, w')"
  obtains x first fin q t where "owner_get i (cur w) = Some x" "parse_period_month month = Some (first, fin)"
    "payout_cents (payout_sums x first fin (cur w)) = Some t"
    "q = fst (payout_row i month (cur w))" "p = written_payout i t q"
    "w' = commit (audit_record en ''payout.generated'' (payout_audit (ow_org x) p)
       (on_db (put_payout p) (on_db (\<lambda>d. snd (payout_row i month (cur w))) w)))"
proof -
  obtain x where x: "owner_get i (cur w) = Some x" using assms by (cases "owner_get i (cur w)") (auto simp: generate_monthly_payout_def)
  obtain first fin where pp: "parse_period_month month = Some (first, fin)"
    using assms x by (cases "parse_period_month month") (auto simp: generate_monthly_payout_def)
  obtain q d1 where r: "payout_row i month (cur w) = (q, d1)" by fastforce
  obtain t where t: "payout_cents (payout_sums x first fin (cur w)) = Some t"
    using assms x pp r by (cases "payout_cents (payout_sums x first fin (cur w))") (auto simp: generate_monthly_payout_def Let_def)
  show ?thesis
    by (rule that [OF x pp t]) (use assms in \<open>auto simp: generate_monthly_payout_def x pp r t Let_def simp del: put_payout_def\<close>)
qed

text \<open>C24: The amounts of a payout add up to the cent. Gross, fee and net are each rounded for
  themselves from the same decimals, so the net amount printed is at most one cent off gross minus fee;
  the expenses are always zero.\<close>

theorem payout_adds_up:
  assumes "generate_monthly_payout en i month w = (Inr p, w')" and "\<bar>op_gross p\<bar> \<le> 10 ^ 20" and "\<bar>op_fee p\<bar> \<le> 10 ^ 20"
  shows "\<bar>op_net p - (op_gross p - op_fee p)\<bar> \<le> 1 \<and> op_expenses p = 0 \<and> op_status p = ''draft''"
proof -
  obtain x first fin q t where t: "payout_cents (payout_sums x first fin (cur w)) = Some t" and p: "p = written_payout i t q"
    by (rule generate_cases [OF assms(1)])
  obtain g f e n where gfen: "t = (g, f, e, n)" by (cases t)
  have "op_gross p = g" "op_fee p = f" "op_expenses p = e" "op_net p = n" "op_status p = ''draft''"
    by (simp_all add: p gfen written_payout_def)
  then show ?thesis using payout_cents_close [OF t [unfolded gfen]] assms(2,3) by simp
qed

subsection \<open>One payout for an owner and month\<close>

definition payouts_ok :: "db \<Rightarrow> bool" where
  "payouts_ok d \<longleftrightarrow> keys_ok op_id (seqs d T_payouts) (payouts d)
     \<and> distinct (map (\<lambda>p. (op_owner p, op_month p)) (payouts d))"

lemma payouts_ok_cong:
  "payouts d' = payouts d \<Longrightarrow> seqs d' T_payouts = seqs d T_payouts \<Longrightarrow> payouts_ok d' = payouts_ok d"
  by (simp add: payouts_ok_def)

lemma payouts_ok_put:
  assumes "payouts_ok d" and "q \<in> set (payouts d)" and "op_id p = op_id q" "op_owner p = op_owner q" "op_month p = op_month q"
  shows "payouts_ok (put_payout p d)"
proof -
  have "map (\<lambda>p. (op_owner p, op_month p)) (row_put op_id p (payouts d)) = map (\<lambda>p. (op_owner p, op_month p)) (payouts d)"
    using assms unfolding row_put_def payouts_ok_def keys_ok_def by (auto simp: distinct_map inj_on_def)
  then show ?thesis using assms(1) by (simp add: payouts_ok_def)
qed

lemma payout_row_ok:
  assumes "payouts_ok d" and "payout_row i month d = (p, d1)"
  shows "payouts_ok d1" "p \<in> set (payouts d1)" "op_owner p = i" "op_month p = month" "owners d1 = owners d"
proof -
  have "payouts_ok d1 \<and> p \<in> set (payouts d1) \<and> op_owner p = i \<and> op_month p = month \<and> owners d1 = owners d"
  proof (cases "find_payout i month d")
    case None
    then have "\<forall>x\<in>set (payouts d). (op_owner x, op_month x) \<noteq> (i, month)" by (auto simp: find_payout_def find_None_iff_all)
    then show ?thesis
      using assms None keys_ok_snoc [of op_id "seqs d T_payouts" "payouts d" p]
      by (auto simp: payout_row_def payouts_ok_def new_payout_def next_key_def Let_def)
  next
    case (Some q)
    then show ?thesis using assms by (auto simp: payout_row_def find_payout_def dest: find_Some_D)
  qed
  then show "payouts_ok d1" "p \<in> set (payouts d1)" "op_owner p = i" "op_month p = month" "owners d1 = owners d" by blast+
qed

lemma written_payout_key [simp]:
  "op_id (written_payout i t p) = op_id p" "op_owner (written_payout i t p) = op_owner p" "op_month (written_payout i t p) = op_month p"
  "op_status (written_payout i t p) = ''draft''" "op_paid_at (written_payout i t p) = op_paid_at p"
  by (cases t; simp add: written_payout_def)+

lemma audit_payouts [simp]:
  "payouts (cur (audit_record en act a w)) = payouts (cur w)" "seqs (cur (audit_record en act a w)) T_payouts = seqs (cur w) T_payouts"
  "owners (cur (audit_record en act a w)) = owners (cur w)" "owner_users (cur (audit_record en act a w)) = owner_users (cur w)"
  by simp_all

lemma generate_ok: "payouts_ok (cur w) \<Longrightarrow> payouts_ok (cur (snd (generate_monthly_payout en i month w)))"
proof -
  assume ok: "payouts_ok (cur w)"
  obtain q d1 where r: "payout_row i month (cur w) = (q, d1)" by fastforce
  note row = payout_row_ok [OF ok r]
  have put: "payouts_ok (put_payout (written_payout i t q) d1)" for t by (rule payouts_ok_put [OF row(1,2)]) simp_all
  have kept: "payouts_ok (cur (commit (audit_record en act a (on_db (put_payout (written_payout i t q)) (on_db (\<lambda>d. d1) w)))))"
    for act a t by (rule payouts_ok_cong [THEN iffD2, OF _ _ put [of t]]) simp_all
  show ?thesis
  proof (cases "owner_get i (cur w)")
    case (Some x)
    show ?thesis
    proof (cases "parse_period_month month")
      case (Some m)
      then show ?thesis using \<open>owner_get i (cur w) = Some x\<close> kept row(1)
        by (cases "payout_cents (payout_sums x (fst m) (snd m) (cur w))")
          (simp_all only: generate_monthly_payout_def r Let_def option.case prod.case fst_conv snd_conv on_db_simps split_beta)
    qed (use Some ok in \<open>simp add: generate_monthly_payout_def\<close>)
  qed (use ok in \<open>simp add: generate_monthly_payout_def\<close>)
qed

lemma mail_only_payouts: "mail_only d d' \<Longrightarrow> payouts d' = payouts d \<and> owners d' = owners d \<and> seqs d' T_payouts = seqs d T_payouts"
proof -
  assume "mail_only d d'"
  then obtain a q s where "d' = d\<lparr>audit_logs := a, email_queue := q, seqs := s\<rparr>"
    and "\<forall>t. t \<noteq> T_audit \<longrightarrow> t \<noteq> T_email \<longrightarrow> s t = seqs d t" unfolding mail_only_def by blast
  then show ?thesis by simp
qed

lemma send_ok:
  assumes "payouts_ok (cur w)" and "p \<in> set (payouts (cur w))"
  shows "payouts_ok (cur (snd (send_payout_email en p w)))"
proof (cases "owner_get (op_owner p) (cur w)")
  case None
  then show ?thesis using assms by (simp add: send_payout_email_def)
next
  case (Some x)
  obtain r w1 where run: "send_template en ''admin_notification'' (ow_email x) (payout_mail x p) w = (r, w1)" by fastforce
  have t: "payouts (cur w1) = payouts (cur w)" "seqs (cur w1) T_payouts = seqs (cur w) T_payouts"
    using mail_only_payouts [OF send_template_world(1) [OF run]] by blast+
  have ok: "payouts_ok (cur w1)" using payouts_ok_cong [OF t] assms(1) by simp
  have put: "payouts_ok (put_payout (p\<lparr>op_status := ''sent'', op_sent_at := s\<rparr>) (cur w1))" for s
    by (rule payouts_ok_put [OF ok, of p]) (simp_all add: t assms(2))
  have kept: "payouts_ok (cur (commit (audit_record en act a (on_db (put_payout (p\<lparr>op_status := ''sent'', op_sent_at := s\<rparr>)) w1))))"
    for act a s by (rule payouts_ok_cong [THEN iffD2, OF _ _ put [of s]]) simp_all
  show ?thesis
  proof (cases r)
    case (Inl e)
    then have "snd (send_payout_email en p w) = w1" by (simp only: send_payout_email_def Some run option.case prod.case sum.case snd_conv)
    then show ?thesis using ok by (simp only:)
  next
    case (Inr sent)
    show ?thesis
    proof (cases sent)
      case True
      then show ?thesis
        using kept by (simp only: send_payout_email_def Some run Inr option.case prod.case sum.case Let_def snd_conv not_True_eq_False if_False)
    next
      case False
      then have "snd (send_payout_email en p w) = w1"
        by (simp only: send_payout_email_def Some run Inr option.case prod.case sum.case snd_conv not_False_eq_True if_True)
      then show ?thesis using ok by (simp only:)
    qed
  qed
qed

lemma mark_paid_ok: "payouts_ok (cur w) \<Longrightarrow> payouts_ok (cur (snd (mark_payout_paid en pid oid w)))"
proof -
  assume ok: "payouts_ok (cur w)"
  let ?P = "\<lambda>p. op_id p = pid \<and> (case owner_get (op_owner p) (cur w) of None \<Rightarrow> False | Some x \<Rightarrow> ow_org x = oid)"
  show ?thesis
  proof (cases "List.find ?P (payouts (cur w))")
    case (Some p)
    have put: "payouts_ok (put_payout (p\<lparr>op_status := ''paid'', op_paid_at := Some (clock w)\<rparr>) (cur w))"
      by (rule payouts_ok_put [OF ok, of p]) (use find_Some_D [OF Some] in simp_all)
    show ?thesis
      unfolding mark_payout_paid_def Some option.case snd_conv
      by (rule payouts_ok_cong [THEN iffD2, OF _ _ put]) simp_all
  qed (use ok in \<open>simp add: mark_payout_paid_def\<close>)
qed

lemma payout_loop_ok: "payouts_ok (cur w) \<Longrightarrow> payouts_ok (cur (snd (payout_loop en month xs n w)))"
proof (induction xs arbitrary: n w)
  case (Cons x xs)
  obtain r w1 where g: "generate_monthly_payout en (ow_id x) month w = (r, w1)" by fastforce
  have ok: "payouts_ok (cur w1)" using generate_ok [OF Cons.prems, of en "ow_id x" month] by (simp add: g)
  have sent: "payouts_ok (cur (snd (send_payout_email en q w1)))" if "find_payout (ow_id x) month (cur w1) = Some q" for q
    by (rule send_ok [OF ok]) (use that in \<open>auto simp: find_payout_def dest: find_Some_D\<close>)
  show ?case
  proof (cases r)
    case (Inr p)
    show ?thesis
    proof (cases "find_payout (ow_id x) month (cur w1)")
      case (Some q)
      obtain r2 w2 where s: "send_payout_email en q w1 = (r2, w2)" by fastforce
      then have "payouts_ok (cur w2)" using sent [OF Some] by simp
      then show ?thesis using ok Cons.IH by (cases r2) (simp_all add: g Inr Some s)
    qed (use ok Cons.IH in \<open>simp add: g Inr\<close>)
  qed (use ok in \<open>simp add: g\<close>)
qed simp

datatype payout_op = Generate int string | Send_mail owner_payout | Mark_paid int int | Monthly_job

fun run_payout :: "env \<Rightarrow> payout_op \<Rightarrow> world \<Rightarrow> world" where
  "run_payout en (Generate i month) w = snd (generate_monthly_payout en i month w)"
| "run_payout en (Send_mail p) w = (if p \<in> set (payouts (cur w)) then snd (send_payout_email en p w) else w)"
| "run_payout en (Mark_paid pid oid) w = snd (mark_payout_paid en pid oid w)"
| "run_payout en Monthly_job w = snd (run_monthly_owner_payout_job en w)"

inductive payout_reachable :: "env \<Rightarrow> world \<Rightarrow> bool" for en where
  fresh: "payouts (cur w) = [] \<Longrightarrow> payout_reachable en w"
| step: "payout_reachable en w \<Longrightarrow> payout_reachable en (run_payout en x w)"
| other: "payout_reachable en w \<Longrightarrow> payouts (cur w') = payouts (cur w) \<Longrightarrow>
    seqs (cur w') T_payouts = seqs (cur w) T_payouts \<Longrightarrow> payout_reachable en w'"

lemma payout_reachable_ok: "payout_reachable en w \<Longrightarrow> payouts_ok (cur w)"
proof (induction rule: payout_reachable.induct)
  case (step w x)
  then show ?case
    by (cases x) (simp_all add: generate_ok send_ok mark_paid_ok payout_loop_ok run_monthly_owner_payout_job_def)
qed (simp_all add: payouts_ok_def keys_ok_def)

text \<open>C25: An owner has one payout for a month, and generating it again opens it again. In every
  reachable state, generating the payout of a month leaves exactly one row of the owner for the month,
  committed; when there was one, it keeps its key and its time of payment, but a paid one is a draft
  again, which the monthly job then sends out a second time.\<close>

theorem regenerated_payout_reopens:
  assumes "payout_reachable en w" and "generate_monthly_payout en i month w = (Inr p, w')"
  shows "filter (\<lambda>q. op_owner q = i \<and> op_month q = month) (payouts (com w')) = [p]
    \<and> op_status p = ''draft''
    \<and> (\<forall>q\<in>set (payouts (cur w)). op_owner q = i \<and> op_month q = month \<longrightarrow> op_id p = op_id q \<and> op_paid_at p = op_paid_at q)"
proof -
  have ok: "payouts_ok (cur w)" by (rule payout_reachable_ok [OF assms(1)])
  obtain q d1 where r: "payout_row i month (cur w) = (q, d1)" by fastforce
  note row = payout_row_ok [OF ok r]
  obtain x first fin q' t where "owner_get i (cur w) = Some x" "parse_period_month month = Some (first, fin)"
    "payout_cents (payout_sums x first fin (cur w)) = Some t" and q': "q' = fst (payout_row i month (cur w))" and p': "p = written_payout i t q'"
    and w'': "w' = commit (audit_record en ''payout.generated'' (payout_audit (ow_org x) p)
      (on_db (put_payout p) (on_db (\<lambda>d. snd (payout_row i month (cur w))) w)))"
    by (rule generate_cases [OF assms(2)])
  then have p: "p = written_payout i t q"
    and w': "w' = commit (audit_record en ''payout.generated'' (payout_audit (ow_org x) p) (on_db (put_payout p) (on_db (\<lambda>d. d1) w)))"
    by (simp_all only: r fst_conv snd_conv)
  have rows: "payouts (com w') = row_put op_id p (payouts d1)" by (simp add: w')
  have ok': "payouts_ok (put_payout p d1)" by (rule payouts_ok_put [OF row(1,2)]) (simp_all add: p)
  have in': "p \<in> set (row_put op_id p (payouts d1))" using row(2) by (force simp: row_put_def p)
  have key: "op_owner p = i" "op_month p = month" using row(3,4) by (simp_all add: p)
  have "length (filter (\<lambda>q. op_owner q = i \<and> op_month q = month) (row_put op_id p (payouts d1))) \<le> 1"
    by (rule filter_at_most_one [where key = "\<lambda>p. (op_owner p, op_month p)"]) (use ok' in \<open>simp_all add: payouts_ok_def\<close>)
  moreover have "p \<in> set (filter (\<lambda>q. op_owner q = i \<and> op_month q = month) (row_put op_id p (payouts d1)))"
    using in' key by simp
  ultimately have one: "filter (\<lambda>q. op_owner q = i \<and> op_month q = month) (payouts (com w')) = [p]"
    unfolding rows by (cases "filter (\<lambda>q. op_owner q = i \<and> op_month q = month) (row_put op_id p (payouts d1))") auto
  have same: "op_id p = op_id y \<and> op_paid_at p = op_paid_at y"
    if y: "y \<in> set (payouts (cur w))" "op_owner y = i" "op_month y = month" for y
  proof -
    obtain z where z: "find_payout i month (cur w) = Some z"
      using y by (cases "find_payout i month (cur w)") (auto simp: find_payout_def find_None_iff_all)
    then have "z \<in> set (payouts (cur w))" "op_owner z = i" "op_month z = month" by (auto simp: find_payout_def dest: find_Some_D)
    then have "z = y" using y ok by (auto simp: payouts_ok_def distinct_map inj_on_def)
    moreover have "q = z" using r z by (simp add: payout_row_def)
    ultimately show ?thesis by (simp add: p)
  qed
  show ?thesis using one same by (simp add: p)
qed

subsection \<open>The portal\<close>

text \<open>An owner sees his own rows only. A page of the portal that shows payouts, a payout's file or
  stays is served only in a session of an active portal user that has passed the second step; the payouts
  are those of the user's owner, and the stays those of a property with an assignment of that owner.\<close>

theorem owner_sees_own_rows:
  assumes "owner_step en isfile rq s w = (page, s', w')"
    and "page \<in> {Payouts ps, Payout_pdf f, Stays rs, Dashboard st props}"
  shows "\<exists>u. owner_user_from_session (os_user s) (cur w) = Some u \<and> ou_active u \<and> os_2fa s
    \<and> (page = Payouts ps \<longrightarrow> (\<forall>p\<in>set ps. op_owner p = ou_owner u))
    \<and> (page = Payout_pdf f \<longrightarrow> (\<exists>p\<in>set (payouts (cur w)). op_owner p = ou_owner u \<and> op_pdf p = Some f))
    \<and> (page = Stays rs \<longrightarrow> (\<exists>a\<in>set (assignments (cur w)). oa_owner a = ou_owner u
         \<and> (\<forall>r\<in>set rs. \<exists>x. unit_get (res_unit r) (cur w) = Some x \<and> u_property x = oa_property a)))"
proof -
  have u: "\<exists>u. owner_user_from_session (os_user s) (cur w) = Some u \<and> os_2fa s \<and> page = owner_view en isfile rq u (cur w)"
    using assms by (cases rq) (auto simp: owner_step_def split: if_splits option.splits prod.splits)
  then obtain u where u: "owner_user_from_session (os_user s) (cur w) = Some u" "os_2fa s" "page = owner_view en isfile rq u (cur w)"
    by blast
  have "ou_active u" using u(1) by (auto simp: owner_user_from_session_def split: option.splits dest: find_Some_D)
  moreover have "page = Payouts ps \<longrightarrow> (\<forall>p\<in>set ps. op_owner p = ou_owner u)"
    using u(3) by (cases rq) (auto simp: owner_view_def owner_payouts_def split: option.splits)
  moreover have "page = Payout_pdf f \<longrightarrow> (\<exists>p\<in>set (payouts (cur w)). op_owner p = ou_owner u \<and> op_pdf p = Some f)"
    using u(3) by (cases rq) (auto simp: owner_view_def payout_pdf_response_def split: option.splits if_splits dest!: find_Some_D)
  moreover have "\<exists>a\<in>set (assignments (cur w)). oa_owner a = ou_owner u
         \<and> (\<forall>r\<in>set rs. \<exists>x. unit_get (res_unit r) (cur w) = Some x \<and> u_property x = oa_property a)" if pg: "page = Stays rs"
  proof -
    obtain pid where l: "list_owner_property_reservations (ou_owner u) pid (cur w) = Some rs"
      using u(3) [unfolded pg] by (cases rq) (auto simp: owner_view_def split: option.splits)
    then obtain a where a: "a \<in> set (assignments (cur w))" "oa_owner a = ou_owner u" "oa_property a = pid"
      by (auto simp: list_owner_property_reservations_def split: if_splits)
    moreover have "\<forall>r\<in>set rs. \<exists>x. unit_get (res_unit r) (cur w) = Some x \<and> u_property x = pid"
      using l by (auto simp: list_owner_property_reservations_def split: if_splits option.splits)
    ultimately show ?thesis by blast
  qed
  ultimately show ?thesis using u by blast
qed

text \<open>C26: The password of a portal user is enough. After a sign-in with the password, one empty POST to
  the page of the second factor opens the owner's payouts: no code is asked for. The owner's own
  \<open>is_active\<close> plays no part, so a deactivated owner still signs in.\<close>

theorem owner_password_is_enough:
  assumes "distinct (map ou_id (owner_users (cur w)))"
    and "owner_step en isfile (Post_login mail pw) s w = (Redirect ''two_factor'', s1, w1)"
    and "owner_step en isfile Post_2fa s1 w1 = (page, s2, w2)"
    and "owner_step en isfile Get_payouts s2 w2 = (page', s3, w3)"
  shows "\<exists>u\<in>set (owner_users (cur w)). ou_email u = lower (strip (strip mail)) \<and> ou_active u
    \<and> check_password_hash en (ou_password_hash u) pw \<and> page' = Payouts (owner_payouts en (ou_owner u) (cur w1))"
proof -
  obtain u v where a: "authenticate_owner_user en (strip mail) pw w = (Some v, w1)" and s1: "s1 = s\<lparr>os_user := Some (ou_id v)\<rparr>"
    and u: "u \<in> set (owner_users (cur w))" "ou_email u = lower (strip (strip mail))" "ou_active u"
      "check_password_hash en (ou_password_hash u) pw" "v = u\<lparr>ou_last_login_at := Some (clock w)\<rparr>"
      "w1 = commit (on_db (put_owner_user v) w)"
    using assms(2) by (auto simp: owner_step_def authenticate_owner_user_def Let_def
        split: option.splits if_splits dest!: find_Some_D)
  have rows: "owner_users (cur w1) = row_put ou_id v (owner_users (cur w))" by (simp add: u(6))
  have "distinct (map ou_id (owner_users (cur w1)))" using assms(1) by (simp add: rows)
  moreover have "v \<in> set (owner_users (cur w1))" using u(1) by (force simp: rows row_put_def u(5))
  moreover have "ou_active v" using u(3,5) by simp
  ultimately have "List.find (\<lambda>x. ou_id x = ou_id v \<and> ou_active x) (owner_users (cur w1)) = Some v"
    by (intro find_only) (auto simp: distinct_map inj_on_def)
  then have f: "owner_user_from_session (os_user s1) (cur w1) = Some v" by (simp add: owner_user_from_session_def s1)
  have s2: "s2 = s1\<lparr>os_2fa := True\<rparr>" "w2 = w1" using assms(3) f by (simp_all add: owner_step_def)
  have "page' = Payouts (owner_payouts en (ou_owner v) (cur w1))"
    using assms(4) f by (auto simp: owner_step_def owner_view_def s2)
  then show ?thesis using u(1-5) by auto
qed

subsection \<open>Witnesses\<close>

text \<open>A stay of three nights for one euro in the house of an owner who pays half a percent.\<close>

definition sample_owner :: owner_row where
  "sample_owner = \<lparr>ow_id = 1, ow_org = 1, ow_name = ''Olli'', ow_email = ''olli@example.com'', ow_phone = None,
     ow_iban = None, ow_active = False\<rparr>"

definition sample_share :: owner_assignment where
  "sample_share = \<lparr>oa_id = 1, oa_property = 1, oa_owner = 1, oa_pct = 10000, oa_fee_pct = 50,
     oa_from = ordinal_of 2025 1 1, oa_to = None\<rparr>"

definition sample_owner_user :: owner_user where
  "sample_owner_user = \<lparr>ou_id = 1, ou_owner = 1, ou_email = ''olli@example.com'', ou_password_hash = ''pw'', ou_active = True,
     ou_last_login_at = None\<rparr>"

definition paid_payout :: owner_payout where
  "paid_payout = \<lparr>op_id = 1, op_owner = 1, op_month = ''2026-01'', op_gross = 100, op_fee = 1, op_expenses = 0, op_net = 100,
     op_status = ''draft'', op_pdf = Some (pdf_path 1 ''2026-01''), op_sent_at = None, op_paid_at = None\<rparr>"

definition owner_world :: world where
  "owner_world = world_of (sample_db\<lparr>reservations := [sample_stay\<lparr>res_amount := Some 100\<rparr>], owners := [sample_owner],
     assignments := [sample_share], owner_users := [sample_owner_user]\<rparr>)"

lemma owner_world_simps:
  "payouts (cur owner_world) = []" "owners (cur owner_world) = [sample_owner]" "owner_users (cur owner_world) = [sample_owner_user]"
  "assignments (cur owner_world) = [sample_share]" "seqs (cur owner_world) = (\<lambda>_. 0)"
  "reservations (cur owner_world) = [sample_stay\<lparr>res_amount := Some 100\<rparr>]"
  "units (cur owner_world) = units sample_db" "properties (cur owner_world) = properties sample_db"
  by (simp_all add: owner_world_def, simp_all add: sample_db_def)

lemma january: "parse_period_month ''2026-01'' = Some (739617, 739647)" by code_simp

lemma sample_month_days: "ordinal_of 2025 1 1 \<le> 739647" "ordinal_of 2026 1 9 \<le> 739647" "739617 < ordinal_of 2026 1 12"
  by code_simp+

lemma sample_shares: "payout_cents (payout_sums sample_owner 739617 739647 (cur owner_world)) = Some (100, 1, 0, 100)"
proof -
  have a: "month_assignments sample_owner 739617 739647 (cur owner_world) = [sample_share]"
    by (simp add: month_assignments_def owner_world_simps property_org_def property_get_def row_get_def sample_db_def
        sample_share_def sample_owner_def sample_month_days)
  have s: "month_stays (oa_property sample_share) 739617 739647 (cur owner_world) = [sample_stay\<lparr>res_amount := Some 100\<rparr>]"
    by (simp add: month_stays_def owner_world_simps unit_get_def row_get_def sample_db_def
        sample_share_def sample_stay_def sample_month_days)
  have n: "assigned_nights 739617 739647 sample_share (sample_stay\<lparr>res_amount := Some 100\<rparr>) = 3"
    "overlap_days (ordinal_of 2026 1 9) (ordinal_of 2026 1 12 - 1) (ordinal_of 2026 1 9) (ordinal_of 2026 1 12 - 1) = 3"
    "\<not> ordinal_of 2026 1 12 - 1 < ordinal_of 2026 1 9" by code_simp+
  have d: "context_div 3 3 = (10 ^ 27, - 27)"
    by (simp add: context_div_def digits_of_def show_nat_length pow10_def context_round_def context_limit_def div_half_even_def Let_def)
  have "stay_share 739617 739647 sample_share (sample_stay\<lparr>res_amount := Some 100\<rparr>) = Some ((10 ^ 27, - 27), (5 * 10 ^ 27, - 30))"
    using n by (simp add: stay_share_def sample_stay_def Let_def d sample_share_def context_mult_def context_round_def
        context_limit_def show_nat_length div_half_even_def)
  then have "payout_cents (add_share (stay_share 739617 739647 sample_share (sample_stay\<lparr>res_amount := Some 100\<rparr>)) ((0, 0), (0, 0)))
      = Some (100, 1, 0, 100)"
    by (simp add: add_share_def payout_cents_def context_minus_def context_add_def context_mult_def dec_cents_def context_round_def
        context_limit_def show_nat_length div_half_even_def div_half_up_def pow10_def Let_def)
  then show ?thesis by (simp only: payout_sums_def a s fold.simps comp_def id_def)
qed

lemma sample_payout:
  "\<exists>w'. generate_monthly_payout sample_env 1 ''2026-01'' owner_world = (Inr paid_payout, w')"
proof -
  have g: "owner_get 1 (cur owner_world) = Some sample_owner"
    by (simp add: owner_get_def owner_world_simps row_get_def sample_owner_def)
  have r: "fst (payout_row 1 ''2026-01'' (cur owner_world)) = new_payout 1 ''2026-01'' (cur owner_world)"
    by (simp add: payout_row_def find_payout_def owner_world_simps Let_def)
  have "written_payout 1 (100, 1, 0, 100) (new_payout 1 ''2026-01'' (cur owner_world)) = paid_payout"
    by (simp add: written_payout_def new_payout_def paid_payout_def next_key_def owner_world_simps)
  then show ?thesis
    by (simp add: generate_monthly_payout_def g january sample_shares split_beta r Let_def del: put_payout_def)
qed

theorem payout_adds_up_witness:
  "\<bar>op_net paid_payout - (op_gross paid_payout - op_fee paid_payout)\<bar> \<le> 1 \<and> op_expenses paid_payout = 0
    \<and> op_net paid_payout \<noteq> op_gross paid_payout - op_fee paid_payout"
proof -
  obtain w' where "generate_monthly_payout sample_env 1 ''2026-01'' owner_world = (Inr paid_payout, w')"
    using sample_payout by blast
  from payout_adds_up [OF this] show ?thesis by (simp add: paid_payout_def)
qed

theorem regenerated_payout_reopens_witness:
  "let w = run_payout sample_env (Mark_paid 1 1) (run_payout sample_env (Generate 1 ''2026-01'') owner_world) in
   map op_status (payouts (cur w)) = [''paid''] \<and> map op_status (payouts (com (run_payout sample_env (Generate 1 ''2026-01'') w))) = [''draft'']"
proof -
  let ?v = "run_payout sample_env (Generate 1 ''2026-01'') owner_world"
  define W where "W = run_payout sample_env (Mark_paid 1 1) ?v"
  obtain v where g: "generate_monthly_payout sample_env 1 ''2026-01'' owner_world = (Inr paid_payout, v)"
    using sample_payout by blast
  have r0: "payout_reachable sample_env owner_world" by (rule payout_reachable.fresh) (simp add: owner_world_simps)
  obtain x first fin q t where "owner_get 1 (cur owner_world) = Some x" "parse_period_month ''2026-01'' = Some (first, fin)"
    "payout_cents (payout_sums x first fin (cur owner_world)) = Some t" and q: "q = fst (payout_row 1 ''2026-01'' (cur owner_world))"
    and pq: "paid_payout = written_payout 1 t q"
    and vw: "v = commit (audit_record sample_env ''payout.generated'' (payout_audit (ow_org x) paid_payout)
       (on_db (put_payout paid_payout) (on_db (\<lambda>d. snd (payout_row 1 ''2026-01'' (cur owner_world))) owner_world)))"
    by (rule generate_cases [OF g])
  have d1: "snd (payout_row 1 ''2026-01'' (cur owner_world)) = add_payout q (cur owner_world)"
    by (simp add: q payout_row_def find_payout_def owner_world_simps Let_def)
  have "op_id q = op_id paid_payout" using arg_cong [OF pq, of op_id] by simp
  then have v: "payouts (cur v) = [paid_payout]" "owners (cur v) = [sample_owner]"
    "reservations (cur v) = reservations (cur owner_world)" "assignments (cur v) = assignments (cur owner_world)"
    "units (cur v) = units (cur owner_world)" "properties (cur v) = properties (cur owner_world)"
    unfolding vw d1 by (simp_all add: owner_world_simps row_put_def)
  have p: "List.find (\<lambda>p. op_id p = 1 \<and> (case owner_get (op_owner p) (cur v) of None \<Rightarrow> False | Some x \<Rightarrow> ow_org x = 1)) (payouts (cur v))
      = Some paid_payout"
    by (simp add: v paid_payout_def owner_get_def row_get_def sample_owner_def)
  have w: "payouts (cur W) = [paid_payout\<lparr>op_status := ''paid'', op_paid_at := Some (clock v)\<rparr>]"
    "owners (cur W) = [sample_owner]" "reservations (cur W) = reservations (cur owner_world)"
    "assignments (cur W) = assignments (cur owner_world)" "units (cur W) = units (cur owner_world)"
    "properties (cur W) = properties (cur owner_world)"
    by (simp_all add: W_def g mark_payout_paid_def p, simp_all add: v row_put_def paid_payout_def)
  have r: "payout_reachable sample_env W" unfolding W_def by (intro payout_reachable.step r0)
  have sums: "payout_sums sample_owner f l (cur W) = payout_sums sample_owner f l (cur owner_world)" for f l
    by (simp add: payout_sums_def month_assignments_def month_stays_def w property_org_def property_get_def unit_get_def)
  have "owner_get 1 (cur W) = Some sample_owner" unfolding owner_get_def w by (simp add: row_get_def sample_owner_def)
  then obtain p' w' where again: "generate_monthly_payout sample_env 1 ''2026-01'' W = (Inr p', w')"
    by (simp add: generate_monthly_payout_def january sums sample_shares split_beta Let_def del: put_payout_def)
  from regenerated_payout_reopens [OF r again]
  have one: "filter (\<lambda>q. op_owner q = 1 \<and> op_month q = ''2026-01'') (payouts (com w')) = [p']" "op_status p' = ''draft''" by blast+
  have "payouts (com w') = [p']"
    by (rule generate_cases [OF again])
      (simp add: payout_row_def find_payout_def w, simp add: paid_payout_def written_payout_def row_put_def split: prod.split)
  then show ?thesis using one w again by (simp add: paid_payout_def Let_def flip: W_def del: run_payout.simps) simp
qed

theorem owner_password_is_enough_witness:
  "let (page, s, w) = owner_step sample_env (\<lambda>f. True) (Post_login ''olli@example.com'' ''pw'') \<lparr>os_user = None, os_2fa = False\<rparr> owner_world;
       (page1, s1, w1) = owner_step sample_env (\<lambda>f. True) Post_2fa s w;
       (page2, s2, w2) = owner_step sample_env (\<lambda>f. True) Get_payouts s1 w1
   in page2 = Payouts [] \<and> map ow_active (owners (cur owner_world)) = [False]"
proof -
  obtain page s w where a: "owner_step sample_env (\<lambda>f. True) (Post_login ''olli@example.com'' ''pw'') \<lparr>os_user = None, os_2fa = False\<rparr> owner_world = (page, s, w)"
    by (metis surj_pair)
  obtain page1 s1 w1 where b: "owner_step sample_env (\<lambda>f. True) Post_2fa s w = (page1, s1, w1)" by (metis surj_pair)
  obtain page2 s2 w2 where c: "owner_step sample_env (\<lambda>f. True) Get_payouts s1 w1 = (page2, s2, w2)" by (metis surj_pair)
  have str: "lower (strip (strip ''olli@example.com'')) = ''olli@example.com''" by code_simp
  have l: "page = Redirect ''two_factor''" "payouts (cur w) = []"
    using a by (auto simp: owner_step_def authenticate_owner_user_def owner_world_simps sample_owner_user_def str Let_def sample_env_def)
  have "distinct (map ou_id (owner_users (cur owner_world)))" by (simp add: owner_world_simps)
  from owner_password_is_enough [OF this a [unfolded l(1)] b c]
  obtain u :: owner_user where "page2 = Payouts (owner_payouts sample_env (ou_owner u) (cur w))" by blast
  moreover have "owner_payouts sample_env i (cur w) = []" for i by (simp add: owner_payouts_def l(2))
  ultimately show ?thesis using a b c by (simp add: owner_world_simps sample_owner_def)
qed

end
