(* ===== verification/Guests.thy ===== *)
theory Guests
  imports RowBooks Samples
begin

text \<open>
  Guest profiles (app/guests/services.py) and the pattern match of the searches. The key of a new guest
  comes from the sequence of the table; a shadow guest of a user account is inserted under the number of
  the user (theory Accounts), so a key can be taken. Main facts: within an organization no two guests have
  the same mail address as long as guests are written by this service; the pages of a list are the list.
\<close>

subsection \<open>Patterns\<close>

fun like_match :: "string \<Rightarrow> string \<Rightarrow> bool" where
  \<comment> \<open>\<open>LIKE\<close>: percent, underscore, and the backslash that quotes the next character\<close>
  "like_match [] s = (s = [])"
| "like_match (p # ps) s =
     (if p = CHR 0x25 then like_match ps s \<or> (case s of [] \<Rightarrow> False | _ # t \<Rightarrow> like_match (p # ps) t)
      else if p = CHR 0x5F then (case s of [] \<Rightarrow> False | _ # t \<Rightarrow> like_match ps t)
      else if p = CHR 0x5C \<and> ps \<noteq> []
      then (case s of [] \<Rightarrow> False | c # t \<Rightarrow> c = hd ps \<and> like_match (tl ps) t)
      else (case s of [] \<Rightarrow> False | c # t \<Rightarrow> c = p \<and> like_match ps t))"

definition ilike :: "string \<Rightarrow> string \<Rightarrow> bool" where
  "ilike s p = like_match (lower p) (lower s)"

definition ilike_opt :: "string option \<Rightarrow> string \<Rightarrow> bool" where
  "ilike_opt s p = (case s of None \<Rightarrow> False | Some t \<Rightarrow> ilike t p)"

definition needle :: "string \<Rightarrow> string" where
  "needle s = [CHR 0x25] @ s @ [CHR 0x25]"

definition guest_matches :: "string \<Rightarrow> guest_row \<Rightarrow> bool" where
  "guest_matches p g = (ilike (g_first_name g) p \<or> ilike (g_last_name g) p \<or> ilike_opt (g_email g) p \<or> ilike_opt (g_phone g) p)"

subsection \<open>The service\<close>

definition e_guest :: "string \<Rightarrow> exn" where
  "e_guest msg = ServiceError Guest_service ''validation_error'' msg 400"

definition e_guest_not_found :: exn where
  "e_guest_not_found = ServiceError Guest_service ''not_found'' ''Guest not found.'' 404"

record guest_form =
  gf_first_name :: "string option"
  gf_last_name :: "string option"
  gf_email :: "string option"
  gf_phone :: "string option"
  gf_notes :: "string option"
  gf_preferences :: "string option"

definition serialize_guest :: "guest_row \<Rightarrow> json" where
  "serialize_guest g =
     JObj [(''id'', JInt (g_id g)), (''organization_id'', JInt (g_org g)), (''first_name'', JStr (g_first_name g)),
       (''last_name'', JStr (g_last_name g)), (''full_name'', JStr (guest_full_name (Some g))), (''email'', jstr (g_email g)),
       (''phone'', jstr (g_phone g)), (''notes'', jstr (g_notes g)), (''preferences'', jstr (g_preferences g)),
       (''created_at'', jstamp (Some (g_created_at g))), (''updated_at'', jstamp (Some (g_updated_at g)))]"

definition normalize_email :: "string option \<Rightarrow> string option" where
  "normalize_email raw = none_if_empty (lower (strip (or_empty raw)))"

definition email_taken :: "int \<Rightarrow> string option \<Rightarrow> int option \<Rightarrow> db \<Rightarrow> bool" where
  "email_taken oid mail besides d \<longleftrightarrow>
     mail \<noteq> None \<and> (\<exists>g\<in>set (guests d). g_org g = oid \<and> map_option lower (g_email g) = mail \<and> Some (g_id g) \<noteq> besides)"

definition guest_list :: "env \<Rightarrow> int \<Rightarrow> string \<Rightarrow> db \<Rightarrow> guest_row list" where
  "guest_list en oid search d =
     (let v = strip search;
          rs = filter (\<lambda>g. g_org g = oid \<and> (v = '''' \<or> guest_matches (needle v) g)) (guests d)
      in sort_key (\<lambda>g. collation en (g_last_name g)) (sort_key (\<lambda>g. collation en (g_first_name g)) (sort_key g_id rs)))"

definition list_guests :: "env \<Rightarrow> int \<Rightarrow> string \<Rightarrow> int \<Rightarrow> int \<Rightarrow> db \<Rightarrow> json list \<times> nat" where
  "list_guests en oid search page per_page d =
     (let rs = guest_list en oid search d; size = nat (max per_page 1)
      in (map serialize_guest (take size (drop (nat (max page 1 - 1) * size) rs)), length rs))"

definition get_guest :: "int \<Rightarrow> int \<Rightarrow> db \<Rightarrow> exn + json" where
  "get_guest gid oid d =
     (case find_guest oid gid d of None \<Rightarrow> Inl e_guest_not_found | Some g \<Rightarrow> Inr (serialize_guest g))"

definition guest_name_error :: "guest_form \<Rightarrow> bool" where
  "guest_name_error f \<longleftrightarrow> strip (or_empty (gf_first_name f)) = '''' \<or> strip (or_empty (gf_last_name f)) = ''''"

definition e_guest_names :: exn where "e_guest_names = e_guest ''First name and last name are required.''"

definition e_guest_email :: exn where
  "e_guest_email = e_guest ''A guest with this email already exists in your organization.''"

definition filled_guest :: "guest_form \<Rightarrow> guest_row \<Rightarrow> guest_row" where
  "filled_guest f g =
     g\<lparr>g_first_name := strip (or_empty (gf_first_name f)), g_last_name := strip (or_empty (gf_last_name f)),
       g_email := normalize_email (gf_email f), g_phone := none_if_empty (strip (or_empty (gf_phone f))),
       g_notes := none_if_empty (strip (or_empty (gf_notes f))),
       g_preferences := none_if_empty (strip (or_empty (gf_preferences f)))\<rparr>"

definition guest_audit :: "guest_row \<Rightarrow> int option \<Rightarrow> audit_args" where
  "guest_audit g actor =
     audit_defaults\<lparr>aa_actor_id := actor, aa_org := Some (g_org g), aa_target_type := Some ''guest'',
       aa_target_id := Some (g_id g), aa_context := Some [(''email'', jstr (g_email g))]\<rparr>"

definition blank_guest :: "int \<Rightarrow> int \<Rightarrow> stamp \<Rightarrow> guest_row" where
  "blank_guest i oid t = \<lparr>g_id = i, g_org = oid, g_first_name = '''', g_last_name = '''', g_email = None, g_phone = None,
     g_notes = None, g_preferences = None, g_created_at = t, g_updated_at = t\<rparr>"

definition guest_create :: "env \<Rightarrow> int \<Rightarrow> guest_form \<Rightarrow> int option \<Rightarrow> world \<Rightarrow> (exn + guest_row) \<times> world" where
  "guest_create en oid f actor w =
     (if guest_name_error f then (Inl e_guest_names, w)
      else if email_taken oid (normalize_email (gf_email f)) None (cur w) then (Inl e_guest_email, w)
      else
        let g = filled_guest f (blank_guest (next_key T_guests (cur w)) oid (clock w)) in
        if \<exists>x\<in>set (guests (cur w)). g_id x = g_id g then (Inl (PyError IntegrityError), rollback w)
        else (Inr g, commit (audit_record en ''guest_created'' (guest_audit g actor) (on_db (add_guest g) w))))"

definition guest_touch :: "world \<Rightarrow> guest_row \<Rightarrow> guest_row \<Rightarrow> guest_row" where
  "guest_touch w old new = (if new = old then old else new\<lparr>g_updated_at := clock w\<rparr>)"

definition guest_update :: "env \<Rightarrow> int \<Rightarrow> int \<Rightarrow> guest_form \<Rightarrow> int option \<Rightarrow> world \<Rightarrow> (exn + guest_row) \<times> world" where
  "guest_update en gid oid f actor w =
     (case find_guest oid gid (cur w) of
        None \<Rightarrow> (Inl e_guest_not_found, w)
      | Some old \<Rightarrow>
          if guest_name_error f then (Inl e_guest_names, w)
          else if email_taken oid (normalize_email (gf_email f)) (Some gid) (cur w) then (Inl e_guest_email, w)
          else
            let g = guest_touch w old (filled_guest f old)
            in (Inr g, commit (audit_record en ''guest_updated'' (guest_audit g actor) (on_db (put_guest g) w))))"

definition get_guest_reservations :: "int \<Rightarrow> int \<Rightarrow> db \<Rightarrow> exn + json list" where
  "get_guest_reservations gid oid d =
     (case find_guest oid gid d of
        None \<Rightarrow> Inl e_guest_not_found
      | Some g \<Rightarrow>
          Inr (map (\<lambda>r. let u = unit_get (res_unit r) d; p = Option.bind u (\<lambda>x. property_get (u_property x) d) in
              JObj [(''id'', JInt (res_id r)), (''start_date'', JStr (isoformat (res_start r))),
                (''end_date'', JStr (isoformat (res_end r))), (''status'', JStr (res_status r)),
                (''property_name'', JStr (case p of None \<Rightarrow> '''' | Some x \<Rightarrow> p_name x)),
                (''unit_name'', JStr (case u of None \<Rightarrow> '''' | Some x \<Rightarrow> u_name x)), (''guest_name'', JStr (res_guest_name r))])
            (order2_desc res_start res_id (filter (\<lambda>r. res_guest r = Some gid) (scoped_reservations oid d)))))"

subsection \<open>Searching\<close>

definition plain :: "string \<Rightarrow> bool" where
  "plain s \<longleftrightarrow> CHR 0x25 \<notin> set s \<and> CHR 0x5F \<notin> set s \<and> CHR 0x5C \<notin> set s"

lemma like_any: "like_match [CHR 0x25] t"
  by (induction t) simp_all

lemma like_prefix: "plain s \<Longrightarrow> like_match (s @ [CHR 0x25]) t = starts_with s t"
proof (induction s arbitrary: t)
  case Nil
  then show ?case using like_any by (simp add: starts_with_def)
next
  case (Cons c s)
  then show ?case by (cases t) (auto simp: plain_def starts_with_def)
qed

text \<open>A search for a text without wildcards finds the rows that contain it, in any case of letters.\<close>

lemma ilike_contains:
  assumes "plain (lower s)"
  shows "ilike t (needle s) = contains (lower s) (lower t)"
proof -
  have "like_match (CHR 0x25 # lower s @ [CHR 0x25]) u = contains (lower s) u" for u
  proof (induction u)
    case Nil
    show ?case using like_prefix [OF assms, of "[]"] by (auto simp: starts_with_def)
  next
    case (Cons c u)
    then show ?case using like_prefix [OF assms, of "c # u"] by simp
  qed
  then show ?thesis by (simp add: ilike_def needle_def lower_def lower_char_def)
qed

subsection \<open>Pages\<close>

lemma take_pages: "concat (map (\<lambda>p. take k (drop (p * k) xs)) [0..<m]) = take (m * k) xs"
proof (induction m)
  case (Suc m)
  have "take (m * k) xs @ take k (drop (m * k) xs) = take (m * k + k) xs" by (simp add: take_add)
  then show ?case using Suc by (simp add: add.commute)
qed simp

text \<open>The pages of the list, put together, are the list: whatever the search and the size of a page, the
  pages up to the last one show every guest the search finds once, in one order, and the total is their number.\<close>

theorem guest_pages_cover:
  assumes "0 < k" and "length (guest_list en oid search d) \<le> nat m * nat k"
  shows "concat (map (\<lambda>p. fst (list_guests en oid search (int p + 1) k d)) [0..<nat m]) = map serialize_guest (guest_list en oid search d)
    \<and> snd (list_guests en oid search m k d) = length (guest_list en oid search d)
    \<and> set (guest_list en oid search d)
        = {g \<in> set (guests d). g_org g = oid \<and> (strip search = '''' \<or> guest_matches (needle (strip search)) g)}"
proof (intro conjI)
  let ?gs = "guest_list en oid search d"
  have "max k 1 = k" using assms(1) by simp
  then have "fst (list_guests en oid search (int p + 1) k d)
      = map serialize_guest (take (nat k) (drop (p * nat k) ?gs))" for p
    by (simp add: list_guests_def Let_def)
  then have "concat (map (\<lambda>p. fst (list_guests en oid search (int p + 1) k d)) [0..<nat m])
      = map serialize_guest (concat (map (\<lambda>p. take (nat k) (drop (p * nat k) ?gs)) [0..<nat m]))"
    by (simp add: map_concat comp_def)
  then show "concat (map (\<lambda>p. fst (list_guests en oid search (int p + 1) k d)) [0..<nat m]) = map serialize_guest ?gs"
    using assms(2) by (simp add: take_pages)
  show "snd (list_guests en oid search m k d) = length ?gs" by (simp add: list_guests_def Let_def)
  show "set ?gs = {g \<in> set (guests d). g_org g = oid \<and> (strip search = '''' \<or> guest_matches (needle (strip search)) g)}"
    by (auto simp: guest_list_def Let_def)
qed

subsection \<open>One guest for a mail address\<close>

definition guest_ok :: "guest_row \<Rightarrow> bool" where
  "guest_ok g \<longleftrightarrow> g_first_name g \<noteq> '''' \<and> g_last_name g \<noteq> '''' \<and> map_option lower (g_email g) = g_email g"

definition same_mail :: "guest_row \<Rightarrow> guest_row \<Rightarrow> bool" where
  "same_mail g h \<longleftrightarrow> g_org g = g_org h \<and> g_email g = g_email h \<and> g_email g \<noteq> None"

definition mails_distinct :: "guest_row list \<Rightarrow> bool" where
  "mails_distinct gs \<longleftrightarrow> (\<forall>g\<in>set gs. \<forall>h\<in>set gs. same_mail g h \<longrightarrow> g_id g = g_id h)"

definition guests_ok :: "db \<Rightarrow> bool" where
  "guests_ok d \<longleftrightarrow> keys_ok g_id (seqs d T_guests) (guests d) \<and> (\<forall>g\<in>set (guests d). guest_ok g) \<and> mails_distinct (guests d)"

lemma same_mail_sym: "same_mail g h \<Longrightarrow> same_mail h g"
  by (metis same_mail_def)

lemma guests_ok_cong:
  "guests d' = guests d \<Longrightarrow> seqs d' T_guests = seqs d T_guests \<Longrightarrow> guests_ok d' = guests_ok d"
  by (simp add: guests_ok_def)

lemma filled_guest_simps [simp]:
  "g_id (filled_guest f g) = g_id g" "g_org (filled_guest f g) = g_org g" "g_email (filled_guest f g) = normalize_email (gf_email f)"
  "g_id (guest_touch w old g) = g_id g" "g_org (guest_touch w old g) = g_org g" "g_email (guest_touch w old g) = g_email g"
  by (simp_all add: filled_guest_def guest_touch_def)

lemma filled_guest_ok: "\<not> guest_name_error f \<Longrightarrow> guest_ok (filled_guest f g)"
  by (auto simp: guest_ok_def guest_name_error_def filled_guest_def normalize_email_def none_if_empty_def split: option.split)

lemma guest_ok_touch [simp]: "guest_ok (guest_touch w old g) = guest_ok g"
  by (simp add: guest_ok_def guest_touch_def)

lemma email_free:
  assumes "\<not> email_taken (g_org h) (g_email h) besides d" and "guest_ok g" and "g \<in> set (guests d)" and "same_mail g h"
  shows "Some (g_id g) = besides"
  using assms by (auto simp: email_taken_def same_mail_def guest_ok_def)

lemma mails_distinct_with:
  assumes "mails_distinct gs" and "set hs \<subseteq> insert h (set gs)"
    and "\<And>g. g \<in> set gs \<Longrightarrow> g \<in> set hs \<Longrightarrow> same_mail g h \<Longrightarrow> g_id g = g_id h"
  shows "mails_distinct hs"
  unfolding mails_distinct_def
proof (intro ballI impI)
  fix x y assume m: "x \<in> set hs" "y \<in> set hs" and sm: "same_mail x y"
  consider "x = h" "y = h" | "x = h" "y \<in> set gs" | "x \<in> set gs" "y = h" | "x \<in> set gs" "y \<in> set gs"
    using m assms(2) by blast
  then show "g_id x = g_id y"
  proof cases
    case 2
    then show ?thesis using assms(3) [OF 2(2) m(2)] same_mail_sym [OF sm] by simp
  next
    case 3
    then show ?thesis using assms(3) [OF 3(1) m(1)] sm by simp
  next
    case 4
    then show ?thesis using assms(1) sm unfolding mails_distinct_def by blast
  qed simp
qed

lemma guests_ok_add:
  assumes "guests_ok d" and "guest_ok g" and "g_id g = next_key T_guests d" and "\<not> email_taken (g_org g) (g_email g) None d"
  shows "guests_ok (add_guest g d)"
  unfolding guests_ok_def
proof (intro conjI)
  have ok: "keys_ok g_id (seqs d T_guests) (guests d)" "\<forall>x\<in>set (guests d). guest_ok x" "mails_distinct (guests d)"
    using assms(1) by (simp_all add: guests_ok_def)
  show "keys_ok g_id (seqs (add_guest g d) T_guests) (guests (add_guest g d))" by (rule guest_tab.ok_add [OF ok(1) assms(3)])
  show "\<forall>x\<in>set (guests (add_guest g d)). guest_ok x" using ok(2) assms(2) by simp
  show "mails_distinct (guests (add_guest g d))"
    by (rule mails_distinct_with [OF ok(3), where h = g]) (use email_free [OF assms(4)] ok(2) in auto)
qed

lemma guests_ok_put:
  assumes "guests_ok d" and "guest_ok g" and "\<not> email_taken (g_org g) (g_email g) (Some (g_id g)) d"
  shows "guests_ok (put_guest g d)"
  unfolding guests_ok_def
proof (intro conjI)
  have ok: "keys_ok g_id (seqs d T_guests) (guests d)" "\<forall>x\<in>set (guests d). guest_ok x" "mails_distinct (guests d)"
    using assms(1) by (simp_all add: guests_ok_def)
  have mem: "x = g \<or> x \<in> set (guests d)" if "x \<in> set (guests (put_guest g d))" for x
    using guest_tab.put_mem [OF that] by blast
  show "keys_ok g_id (seqs (put_guest g d) T_guests) (guests (put_guest g d))" by (rule guest_tab.ok_put [OF ok(1)])
  show "\<forall>x\<in>set (guests (put_guest g d)). guest_ok x" using mem ok(2) assms(2) by blast
  show "mails_distinct (guests (put_guest g d))"
    by (rule mails_distinct_with [OF ok(3), where h = g]) (use mem email_free [OF assms(3)] ok(2) in blast)+
qed

datatype guest_op = Create_guest int guest_form "int option" | Update_guest int int guest_form "int option"

fun run_guest :: "env \<Rightarrow> guest_op \<Rightarrow> world \<Rightarrow> world" where
  "run_guest en (Create_guest oid f actor) w = snd (guest_create en oid f actor w)"
| "run_guest en (Update_guest gid oid f actor) w = snd (guest_update en gid oid f actor w)"

inductive guests_reachable :: "env \<Rightarrow> db \<Rightarrow> bool" for en where
  start: "guests d = [] \<Longrightarrow> guests_reachable en d"
| step: "guests_reachable en d \<Longrightarrow> cur w = d \<Longrightarrow> com w = d \<Longrightarrow> guests_reachable en (com (run_guest en op w))"

lemma guest_tables_aside:
  assumes "aside v w"
  shows "guests_ok (cur w) = guests_ok (cur v)"
proof -
  have c: "core (cur w) = core (cur v)" using assms by (simp add: aside_def)
  show ?thesis by (rule guests_ok_cong [OF core_tables(4) [OF c] core_tables(17) [OF c]]) (simp add: side_tables_def)
qed

lemma guest_step_ok:
  assumes "guests_ok (cur w)" and "com w = cur w"
  shows "guests_ok (com (run_guest en op w))"
proof (cases op)
  case (Create_guest oid f actor)
  let ?g = "filled_guest f (blank_guest (next_key T_guests (cur w)) oid (clock w))"
  have "guests_ok (add_guest ?g (cur w))"
    if "\<not> guest_name_error f" "\<not> email_taken oid (normalize_email (gf_email f)) None (cur w)"
    by (rule guests_ok_add [OF assms(1) filled_guest_ok]) (use that in \<open>simp_all add: blank_guest_def\<close>)
  then show ?thesis
    using assms guest_tables_aside [OF aside_audit [of "on_db (add_guest ?g) w" en "''guest_created''" "guest_audit ?g actor"]]
    by (simp add: Create_guest guest_create_def Let_def del: add_guest_def)
next
  case (Update_guest gid oid f actor)
  show ?thesis
  proof (cases "find_guest oid gid (cur w)")
    case (Some old)
    let ?g = "guest_touch w old (filled_guest f old)"
    have old: "g_id old = gid" "g_org old = oid" using guest_scope.lookup_some [OF Some] by simp_all
    have "guests_ok (put_guest ?g (cur w))"
      if "\<not> guest_name_error f" "\<not> email_taken oid (normalize_email (gf_email f)) (Some gid) (cur w)"
      by (rule guests_ok_put [OF assms(1)]) (use that old filled_guest_ok in simp_all)
    then show ?thesis
      using assms guest_tables_aside [OF aside_audit [of "on_db (put_guest ?g) w" en "''guest_updated''" "guest_audit ?g actor"]]
      by (simp add: Update_guest guest_update_def Some Let_def del: put_guest_def)
  qed (use assms in \<open>simp add: Update_guest guest_update_def\<close>)
qed

text \<open>In every state the service reaches, a guest has both names, a mail address is stored trimmed and in
  small letters, and no two guests of an organization share one.\<close>

theorem guest_mail_unique:
  assumes "guests_reachable en d" and "g \<in> set (guests d)" and "h \<in> set (guests d)"
    and "g_org g = g_org h" and "map_option lower (g_email g) = map_option lower (g_email h)" and "g_email g \<noteq> None"
  shows "g = h \<and> lower (the (g_email g)) = the (g_email g)"
proof -
  have ok: "guests_ok d"
    using assms(1)
  proof (induction rule: guests_reachable.induct)
    case (step d w op)
    then show ?case using guest_step_ok [of w en op] by simp
  qed (simp add: guests_ok_def keys_ok_def mails_distinct_def)
  have low: "map_option lower (g_email x) = g_email x" if "x \<in> set (guests d)" for x
    using that ok by (auto simp: guests_ok_def guest_ok_def)
  have "same_mail g h" using assms(4-6) low [OF assms(2)] low [OF assms(3)] by (simp add: same_mail_def)
  then have "g_id g = g_id h" using ok assms(2,3) unfolding guests_ok_def mails_distinct_def by blast
  moreover have "inj_on g_id (set (guests d))" using ok by (simp add: guests_ok_def keys_ok_def distinct_map)
  ultimately have "g = h" using assms(2,3) by (metis inj_onD)
  moreover have "lower (the (g_email g)) = the (g_email g)" using low [OF assms(2)] assms(6) by (cases "g_email g") simp_all
  ultimately show ?thesis by simp
qed

subsection \<open>Concrete guests\<close>

definition sample_form :: "string \<Rightarrow> guest_form" where
  "sample_form mail = \<lparr>gf_first_name = Some '' Grace'', gf_last_name = Some ''Hopper'', gf_email = Some mail, gf_phone = None,
     gf_notes = None, gf_preferences = None\<rparr>"

lemma sample_guest:
  "filled_guest (sample_form ''Grace@example.com '') (blank_guest 1 1 0) =
     \<lparr>g_id = 1, g_org = 1, g_first_name = ''Grace'', g_last_name = ''Hopper'', g_email = Some ''grace@example.com'', g_phone = None,
       g_notes = None, g_preferences = None, g_created_at = 0, g_updated_at = 0\<rparr>"
  "\<not> guest_name_error (sample_form m)" "normalize_email (Some '' GRACE@example.com'') = Some ''grace@example.com''"
proof -
  show "filled_guest (sample_form ''Grace@example.com '') (blank_guest 1 1 0) =
     \<lparr>g_id = 1, g_org = 1, g_first_name = ''Grace'', g_last_name = ''Hopper'', g_email = Some ''grace@example.com'', g_phone = None,
       g_notes = None, g_preferences = None, g_created_at = 0, g_updated_at = 0\<rparr>" by code_simp
  have "strip '' Grace'' = ''Grace''" "strip ''Hopper'' = ''Hopper''" by code_simp+
  then show "\<not> guest_name_error (sample_form m)" by (simp add: guest_name_error_def sample_form_def)
  show "normalize_email (Some '' GRACE@example.com'') = Some ''grace@example.com''" by code_simp
qed

theorem guest_pages_cover_witness:
  "map serialize_guest (guests sample_db) = fst (list_guests sample_env 1 ''LOVE'' 1 20 sample_db)"
proof -
  have l: "guest_list sample_env 1 ''LOVE'' sample_db = guests sample_db"
    by (simp add: guest_list_def sample_db_def) code_simp
  have "length (guest_list sample_env 1 ''LOVE'' sample_db) \<le> nat 1 * nat 20" unfolding l by (simp add: sample_db_def)
  from guest_pages_cover [OF _ this] show ?thesis unfolding l by simp
qed

theorem guest_mail_unique_witness:
  "let w = run_guest sample_env (Create_guest 1 (sample_form ''Grace@example.com '') None) (world_of empty_db);
       w2 = run_guest sample_env (Create_guest 1 (sample_form '' GRACE@example.com'') None) w
   in map g_email (guests (com w2)) = [Some ''grace@example.com''] \<and> lower ''grace@example.com'' = ''grace@example.com''"
proof -
  let ?w = "run_guest sample_env (Create_guest 1 (sample_form ''Grace@example.com '') None) (world_of empty_db)"
  let ?w2 = "run_guest sample_env (Create_guest 1 (sample_form '' GRACE@example.com'') None) ?w"
  let ?g = "filled_guest (sample_form ''Grace@example.com '') (blank_guest 1 1 sample_clock)"
  have m: "g_email ?g = Some ''grace@example.com''" "g_org ?g = 1"
    by (simp_all add: sample_form_def blank_guest_def) code_simp
  have g: "guests (com ?w) = [?g]" "cur ?w = com ?w"
    by (simp_all add: guest_create_def sample_guest email_taken_def next_key_def Let_def)
  have low: "lower ''grace@example.com'' = ''grace@example.com''" by code_simp
  have n: "normalize_email (gf_email (sample_form '' GRACE@example.com'')) = Some ''grace@example.com''"
    by (simp add: sample_form_def sample_guest(3))
  have "email_taken 1 (normalize_email (gf_email (sample_form '' GRACE@example.com''))) None (cur ?w)"
    unfolding email_taken_def n g using m low by simp
  then have same: "?w2 = ?w"
    unfolding run_guest.simps(1) [of sample_env 1 "sample_form '' GRACE@example.com''" None ?w]
      guest_create_def [of sample_env 1 "sample_form '' GRACE@example.com''" None ?w]
    by (simp only: sample_guest(2) if_False if_True snd_conv)
  have "guests_reachable sample_env (com ?w)"
    by (rule guests_reachable.step [OF guests_reachable.start]) simp_all
  moreover have mem: "?g \<in> set (guests (com ?w))" unfolding g by simp
  moreover have "g_email ?g \<noteq> None" unfolding m(1) by simp
  ultimately have "lower (the (g_email ?g)) = the (g_email ?g)"
    using guest_mail_unique [of sample_env "com ?w" ?g ?g] by blast
  then have "lower ''grace@example.com'' = ''grace@example.com''" unfolding m(1) option.sel .
  then show ?thesis unfolding Let_def same g by (simp only: list.map m(1) simp_thms)
qed

end
