(* ===== verification/Properties.thy ===== *)
theory Properties
  imports Guests "HOL-Library.Product_Lexorder"
begin

text \<open>
  Properties and units (app/properties/services.py): their forms, lists and serializations, and the state of
  each unit on a day. Main facts: a unit counts as reserved or in transition exactly when a live stay covers
  the coming night; the counts per state add up.
\<close>

definition e_property :: "string \<Rightarrow> exn" where
  "e_property msg = ServiceError Property_service ''validation_error'' msg 400"

definition e_property_missing :: exn where
  "e_property_missing = ServiceError Property_service ''not_found'' ''Property not found.'' 404"

definition e_unit_missing :: exn where
  "e_unit_missing = ServiceError Property_service ''not_found'' ''Unit not found.'' 404"

definition degrees_str :: "int \<Rightarrow> string" where
  \<comment> \<open>\<open>str\<close> of a stored decimal of seven places: below a millionth in scientific notation\<close>
  "degrees_str n =
     (if n < 0 then ''-'' else '''') @
     (let m = nat \<bar>n\<bar> in if m < 10 then show_nat m @ ''E-7'' else show_nat (m div 10000000) @ ''.'' @ pad0 7 (m mod 10000000))"

definition serialize_property :: "property_row \<Rightarrow> json" where
  "serialize_property p =
     JObj [(''id'', JInt (p_id p)), (''organization_id'', JInt (p_org p)), (''name'', JStr (p_name p)),
       (''address'', jstr (p_address p)), (''city'', jstr (p_city p)), (''postal_code'', jstr (p_postal p)),
       (''street_address'', jstr (p_street p)), (''latitude'', jstr (map_option degrees_str (p_lat p))),
       (''longitude'', jstr (map_option degrees_str (p_lon p))), (''year_built'', jint (p_year p)),
       (''has_elevator'', JBool (p_elevator p)), (''has_parking'', JBool (p_parking p)), (''has_sauna'', JBool (p_sauna p)),
       (''has_courtyard'', JBool (p_courtyard p)), (''has_air_conditioning'', JBool (p_aircon p)),
       (''description'', jstr (p_description p)), (''url'', jstr (p_url p)), (''maintenance_email'', jstr (p_maintenance_email p)),
       (''created_at'', jstamp (Some (p_created_at p))), (''updated_at'', jstamp (Some (p_updated_at p)))]"

definition serialize_unit :: "unit_row \<Rightarrow> json" where
  "serialize_unit u =
     JObj [(''id'', JInt (u_id u)), (''property_id'', JInt (u_property u)), (''name'', JStr (u_name u)),
       (''unit_type'', jstr (u_type u)), (''floor'', jint (u_floor u)), (''area_sqm'', jmoney (u_area u)),
       (''bedrooms'', JInt (u_bedrooms u)), (''has_kitchen'', JBool (u_kitchen u)), (''has_bathroom'', JBool (u_bathroom u)),
       (''has_balcony'', JBool (u_balcony u)), (''has_terrace'', JBool (u_terrace u)),
       (''has_dishwasher'', JBool (u_dishwasher u)), (''has_washing_machine'', JBool (u_washing_machine u)),
       (''has_tv'', JBool (u_tv u)), (''has_wifi'', JBool (u_wifi u)), (''max_guests'', JInt (u_max_guests u)),
       (''description'', jstr (u_description u)), (''floor_plan_image_id'', jint (u_floor_plan u)),
       (''created_at'', jstamp (Some (u_created_at u))), (''updated_at'', jstamp (Some (u_updated_at u)))]"

subsection \<open>Properties\<close>

definition org_properties :: "int \<Rightarrow> db \<Rightarrow> property_row list" where
  "org_properties oid d = sort_key p_id (filter (\<lambda>p. p_org p = oid) (properties d))"

definition list_properties :: "int \<Rightarrow> db \<Rightarrow> json list" where
  "list_properties oid d = map serialize_property (org_properties oid d)"

definition list_properties_paginated :: "int \<Rightarrow> nat \<Rightarrow> nat \<Rightarrow> db \<Rightarrow> json list \<times> nat" where
  \<comment> \<open>the page counts from 1\<close>
  "list_properties_paginated oid page per_page d =
     (let ps = org_properties oid d in (map serialize_property (take per_page (drop ((page - 1) * per_page) ps)), length ps))"

record property_form =
  pf_name :: "string option"
  pf_address :: "string option"
  pf_city :: "string option"
  pf_postal :: "string option"
  pf_street :: "string option"
  pf_lat :: "int option"
  pf_lon :: "int option"
  pf_year :: "int option"
  pf_elevator :: bool
  pf_parking :: bool
  pf_sauna :: bool
  pf_courtyard :: bool
  pf_aircon :: bool
  pf_description :: "string option"
  pf_url :: "string option"
  pf_maintenance_email :: "string option"

definition clean :: "string option \<Rightarrow> string option" where
  "clean s = none_if_empty (strip (or_empty s))"

definition filled_property :: "property_form \<Rightarrow> property_row \<Rightarrow> property_row" where
  "filled_property f p =
     p\<lparr>p_name := strip (or_empty (pf_name f)), p_address := clean (pf_address f), p_city := clean (pf_city f),
       p_postal := clean (pf_postal f), p_street := clean (pf_street f), p_lat := pf_lat f, p_lon := pf_lon f,
       p_year := pf_year f, p_elevator := pf_elevator f, p_parking := pf_parking f, p_sauna := pf_sauna f,
       p_courtyard := pf_courtyard f, p_aircon := pf_aircon f, p_description := clean (pf_description f),
       p_url := clean (pf_url f), p_maintenance_email := clean (pf_maintenance_email f)\<rparr>"

definition blank_property :: "int \<Rightarrow> int \<Rightarrow> stamp \<Rightarrow> property_row" where
  "blank_property i oid t = \<lparr>p_id = i, p_org = oid, p_name = '''', p_address = None, p_maintenance_email = None, p_city = None,
     p_postal = None, p_street = None, p_lat = None, p_lon = None, p_year = None, p_elevator = False, p_parking = False,
     p_sauna = False, p_courtyard = False, p_aircon = False, p_description = None, p_url = None, p_created_at = t, p_updated_at = t\<rparr>"

definition place_audit :: "string \<Rightarrow> int \<Rightarrow> int \<Rightarrow> int option \<Rightarrow> (string \<times> json) list option \<Rightarrow> audit_args" where
  "place_audit typ oid i actor ctx =
     audit_defaults\<lparr>aa_actor_id := actor, aa_org := Some oid, aa_target_type := Some typ, aa_target_id := Some i,
       aa_context := ctx, aa_commit := True\<rparr>"

definition user_context :: "int option \<Rightarrow> (string \<times> json) list" where
  "user_context actor = (case actor of None \<Rightarrow> [] | Some a \<Rightarrow> [(''user_id'', JInt a)])"

definition property_audit :: "property_row \<Rightarrow> int option \<Rightarrow> audit_args" where
  "property_audit p actor =
     place_audit ''property'' (p_org p) (p_id p) actor (map_option (\<lambda>a. [(''user_id'', JInt a)]) actor)"

definition create_property :: "env \<Rightarrow> int \<Rightarrow> property_form \<Rightarrow> int option \<Rightarrow> world \<Rightarrow> (exn + property_row) \<times> world" where
  "create_property en oid f actor w =
     (if strip (or_empty (pf_name f)) = '''' then (Inl (e_property (''Field '' @ [CHR 0x27] @ ''name'' @ [CHR 0x27] @ '' is required.'')), w)
      else
        let p = filled_property f (blank_property (next_key T_properties (cur w)) oid (clock w))
        in (Inr p, audit_record en ''property_created'' (property_audit p actor) (commit (on_db (add_property p) w))))"

definition get_property :: "int \<Rightarrow> int \<Rightarrow> db \<Rightarrow> exn + property_row" where
  "get_property oid pid d = (case find_property oid pid d of None \<Rightarrow> Inl e_property_missing | Some p \<Rightarrow> Inr p)"

definition property_touch :: "world \<Rightarrow> property_row \<Rightarrow> property_row \<Rightarrow> property_row" where
  "property_touch w old new = (if new = old then old else new\<lparr>p_updated_at := clock w\<rparr>)"

definition update_property :: "env \<Rightarrow> int \<Rightarrow> int \<Rightarrow> property_form \<Rightarrow> int option \<Rightarrow> world \<Rightarrow> (exn + property_row) \<times> world" where
  "update_property en oid pid f actor w =
     (case find_property oid pid (cur w) of
        None \<Rightarrow> (Inl e_property_missing, w)
      | Some old \<Rightarrow>
          if strip (or_empty (pf_name f)) = '''' then (Inl (e_property (''Field '' @ [CHR 0x27] @ ''name'' @ [CHR 0x27] @ '' is required.'')), w)
          else
            let p = property_touch w old (filled_property f old)
            in (Inr p, audit_record en ''property_updated'' (property_audit p actor) (commit (on_db (put_property p) w))))"

subsection \<open>Units\<close>

definition list_units :: "int \<Rightarrow> int \<Rightarrow> db \<Rightarrow> exn + json list" where
  "list_units oid pid d =
     (case get_property oid pid d of
        Inl e \<Rightarrow> Inl e | Inr p \<Rightarrow> Inr (map serialize_unit (sort_key u_id (filter (\<lambda>u. u_property u = pid) (units d)))))"

definition get_unit :: "int \<Rightarrow> int \<Rightarrow> db \<Rightarrow> exn + json" where
  "get_unit oid uid d = (case find_unit oid uid d of None \<Rightarrow> Inl e_unit_missing | Some u \<Rightarrow> Inr (serialize_unit u))"

record unit_form =
  uf_name :: "string option"
  uf_type :: "string option"
  uf_floor :: "int option"
  uf_area :: "cents option"
  uf_bedrooms :: "int option"
  uf_kitchen :: bool
  uf_bathroom :: bool
  uf_balcony :: bool
  uf_terrace :: bool
  uf_dishwasher :: bool
  uf_washing_machine :: bool
  uf_tv :: bool
  uf_wifi :: bool
  uf_max_guests :: "int option"
  uf_description :: "string option"

definition unit_form_error :: "unit_form \<Rightarrow> int \<Rightarrow> int \<Rightarrow> exn option" where
  "unit_form_error f bedrooms max_guests =
     (if strip (or_empty (uf_name f)) = '''' then Some (e_property (''Field '' @ [CHR 0x27] @ ''name'' @ [CHR 0x27] @ '' is required.''))
      else if max_guests < 1 then Some (e_property (''Field '' @ [CHR 0x27] @ ''max_guests'' @ [CHR 0x27] @ '' must be at least 1.''))
      else if bedrooms < 0 then Some (e_property (''Field '' @ [CHR 0x27] @ ''bedrooms'' @ [CHR 0x27] @ '' cannot be negative.''))
      else None)"

definition value_or :: "int \<Rightarrow> int option \<Rightarrow> int" where
  "value_or x o1 = (case o1 of None \<Rightarrow> x | Some y \<Rightarrow> y)"

definition filled_unit :: "unit_form \<Rightarrow> int \<Rightarrow> int \<Rightarrow> unit_row \<Rightarrow> unit_row" where
  "filled_unit f bedrooms max_guests u =
     u\<lparr>u_name := strip (or_empty (uf_name f)), u_type := clean (uf_type f), u_floor := uf_floor f, u_area := uf_area f,
       u_bedrooms := bedrooms, u_kitchen := uf_kitchen f, u_bathroom := uf_bathroom f, u_balcony := uf_balcony f,
       u_terrace := uf_terrace f, u_dishwasher := uf_dishwasher f, u_washing_machine := uf_washing_machine f,
       u_tv := uf_tv f, u_wifi := uf_wifi f, u_max_guests := max_guests, u_description := clean (uf_description f)\<rparr>"

definition blank_unit :: "int \<Rightarrow> int \<Rightarrow> int option \<Rightarrow> stamp \<Rightarrow> unit_row" where
  "blank_unit i pid plan t = \<lparr>u_id = i, u_property = pid, u_name = '''', u_type = None, u_floor = None, u_area = None,
     u_bedrooms = 0, u_kitchen = False, u_bathroom = True, u_balcony = False, u_terrace = False, u_dishwasher = False,
     u_washing_machine = False, u_tv = False, u_wifi = True, u_max_guests = 2, u_description = None, u_floor_plan = plan,
     u_created_at = t, u_updated_at = t\<rparr>"

definition unit_audit :: "int \<Rightarrow> unit_row \<Rightarrow> int option \<Rightarrow> audit_args" where
  "unit_audit oid u actor =
     place_audit ''unit'' oid (u_id u) actor (Some ([(''property_id'', JInt (u_property u))] @ user_context actor))"

definition create_unit :: "env \<Rightarrow> int \<Rightarrow> int \<Rightarrow> unit_form \<Rightarrow> int option \<Rightarrow> int option \<Rightarrow> world \<Rightarrow> (exn + unit_row) \<times> world" where
  "create_unit en oid pid f plan actor w =
     (case get_property oid pid (cur w) of
        Inl e \<Rightarrow> (Inl e, w)
      | Inr p \<Rightarrow>
          let beds = value_or 0 (uf_bedrooms f); most = value_or 2 (uf_max_guests f) in
          (case unit_form_error f beds most of
             Some e \<Rightarrow> (Inl e, w)
           | None \<Rightarrow>
               let u = filled_unit f beds most (blank_unit (next_key T_units (cur w)) pid plan (clock w))
               in (Inr u, audit_record en ''unit_created'' (unit_audit oid u actor) (commit (on_db (add_unit u) w)))))"

datatype plan_change = Keep_plan | Clear_plan | Set_plan "int option"

definition changed_plan :: "plan_change \<Rightarrow> unit_row \<Rightarrow> unit_row" where
  "changed_plan c u = (case c of Keep_plan \<Rightarrow> u | Clear_plan \<Rightarrow> u\<lparr>u_floor_plan := None\<rparr> | Set_plan i \<Rightarrow> u\<lparr>u_floor_plan := i\<rparr>)"

definition unit_touch :: "world \<Rightarrow> unit_row \<Rightarrow> unit_row \<Rightarrow> unit_row" where
  "unit_touch w old new = (if new = old then old else new\<lparr>u_updated_at := clock w\<rparr>)"

definition unit_update :: "env \<Rightarrow> int \<Rightarrow> int \<Rightarrow> unit_form \<Rightarrow> plan_change \<Rightarrow> int option \<Rightarrow> world \<Rightarrow> (exn + unit_row) \<times> world" where
  "unit_update en oid uid f plan actor w =
     (case find_unit oid uid (cur w) of
        None \<Rightarrow> (Inl e_unit_missing, w)
      | Some old \<Rightarrow>
          let beds = value_or (u_bedrooms old) (uf_bedrooms f); most = value_or (u_max_guests old) (uf_max_guests f) in
          (case unit_form_error f beds most of
             Some e \<Rightarrow> (Inl e, w)
           | None \<Rightarrow>
               let u = unit_touch w old (changed_plan plan (filled_unit f beds most old))
               in (Inr u, audit_record en ''unit_updated'' (unit_audit oid u actor) (commit (on_db (put_unit u) w)))))"

subsection \<open>The state of the units on a day\<close>

definition active_statuses :: "string list" where "active_statuses = [''confirmed'', ''active'']"

definition open_maintenance_statuses :: "string list" where
  "open_maintenance_statuses = [''new'', ''in_progress'', ''waiting'']"

definition unit_availability_states :: "string list" where
  "unit_availability_states = [''free'', ''reserved'', ''transition'', ''maintenance'', ''blocked'']"

definition unit_out_of_use :: "unit_row \<Rightarrow> bool" where
  "unit_out_of_use u \<longleftrightarrow> lower (or_empty (u_type u)) \<in> {''blocked'', ''out_of_service'', ''inactive''}"

definition unit_stays :: "date \<Rightarrow> unit_row \<Rightarrow> db \<Rightarrow> reservation list" where
  \<comment> \<open>live or to come, by start\<close>
  "unit_stays t u d =
     order2 res_start res_id
       (filter (\<lambda>r. res_unit r = u_id u \<and> lower (res_status r) \<in> set active_statuses \<and> t \<le> res_end r) (reservations d))"

definition is_current :: "date \<Rightarrow> reservation \<Rightarrow> bool" where
  "is_current t r \<longleftrightarrow> res_start r \<le> t \<and> t < res_end r \<or> res_end r = t"

definition next_unit_stay :: "date \<Rightarrow> unit_row \<Rightarrow> db \<Rightarrow> reservation option" where
  "next_unit_stay t u d = List.find (\<lambda>r. \<not> is_current t r \<and> t < res_start r) (unit_stays t u d)"

definition unit_maintenance :: "int \<Rightarrow> date \<Rightarrow> unit_row \<Rightarrow> db \<Rightarrow> maintenance_request option" where
  "unit_maintenance oid t u d =
     List.find (\<lambda>m. case mr_due m of None \<Rightarrow> True | Some x \<Rightarrow> x \<le> t)
       (sort_key (\<lambda>m. case mr_due m of None \<Rightarrow> (1::int, 0) | Some x \<Rightarrow> (0, x))
         (sort_key mr_id (filter (\<lambda>m. mr_org m = oid \<and> mr_unit m = Some (u_id u) \<and> mr_status m \<in> set open_maintenance_statuses)
           (maintenance d))))"

record unit_status =
  us_unit :: unit_row
  us_property :: property_row
  us_state :: string
  us_guest :: "string option"
  us_reservation :: "int option"
  us_until :: "date option"
  us_next_at :: "date option"
  us_next_guest :: "string option"
  us_days :: "int option"

definition plain_status :: "unit_row \<Rightarrow> property_row \<Rightarrow> string \<Rightarrow> unit_status" where
  "plain_status u p s = \<lparr>us_unit = u, us_property = p, us_state = s, us_guest = None, us_reservation = None, us_until = None,
     us_next_at = None, us_next_guest = None, us_days = None\<rparr>"

definition taken_status :: "unit_row \<Rightarrow> property_row \<Rightarrow> string \<Rightarrow> reservation \<Rightarrow> unit_status" where
  "taken_status u p s r =
     (plain_status u p s)\<lparr>us_guest := none_if_empty (strip (res_guest_name r)), us_reservation := Some (res_id r), us_until := Some (res_end r)\<rparr>"

definition unit_status_of :: "int \<Rightarrow> date \<Rightarrow> unit_row \<Rightarrow> property_row \<Rightarrow> db \<Rightarrow> unit_status" where
  "unit_status_of oid t u p d =
     (let cur = filter (is_current t) (unit_stays t u d);
          ongoing = List.find (\<lambda>r. res_start r < t \<and> t < res_end r) cur;
          ending = List.find (\<lambda>r. res_end r = t) cur;
          starting = List.find (\<lambda>r. res_start r = t \<and> t < res_end r) cur
      in if unit_out_of_use u then plain_status u p ''blocked''
         else case (ending, starting) of
           (Some _, Some r) \<Rightarrow> taken_status u p ''transition'' r
         | _ \<Rightarrow>
             (case ongoing of
                Some r \<Rightarrow> taken_status u p ''reserved'' r
              | None \<Rightarrow>
                  (case starting of
                     Some r \<Rightarrow> taken_status u p ''reserved'' r
                   | None \<Rightarrow>
                       if unit_maintenance oid t u d \<noteq> None then plain_status u p ''maintenance''
                       else case next_unit_stay t u d of
                         None \<Rightarrow> plain_status u p ''free''
                       | Some r \<Rightarrow> (plain_status u p ''free'')\<lparr>us_next_at := Some (res_start r),
                           us_next_guest := none_if_empty (strip (res_guest_name r)), us_days := Some (res_start r - t)\<rparr>)))"

definition placed_units :: "env \<Rightarrow> int \<Rightarrow> int option \<Rightarrow> db \<Rightarrow> (unit_row \<times> property_row) list" where
  \<comment> \<open>by name of the property, name of the unit, and key\<close>
  "placed_units en oid pid d =
     sort_key (\<lambda>(u, p). collation en (p_name p)) (sort_key (\<lambda>(u, p). collation en (u_name u)) (sort_key (\<lambda>(u, p). u_id u)
       (List.map_filter (\<lambda>u. case property_get (u_property u) d of None \<Rightarrow> None
          | Some p \<Rightarrow> if p_org p = oid \<and> (pid = None \<or> pid = Some (p_id p)) then Some (u, p) else None) (units d))))"

definition list_units_with_availability_status :: "env \<Rightarrow> int \<Rightarrow> int option \<Rightarrow> date option \<Rightarrow> db \<Rightarrow> unit_status list" where
  "list_units_with_availability_status en oid pid as_of d =
     (let t = (case as_of of None \<Rightarrow> local_today en | Some x \<Rightarrow> x)
      in map (\<lambda>(u, p). unit_status_of oid t u p d) (placed_units en oid pid d))"

definition summarize_units_for_properties ::
  "env \<Rightarrow> int \<Rightarrow> int list \<Rightarrow> date option \<Rightarrow> db \<Rightarrow> (int \<times> nat \<times> (string \<times> nat) list) list" where
  \<comment> \<open>for each property: its units, and how many of them are in each state\<close>
  "summarize_units_for_properties en oid pids as_of d =
     (let rows = list_units_with_availability_status en oid None as_of d
      in map (\<lambda>pid. let mine = filter (\<lambda>r. p_id (us_property r) = pid) rows
           in (pid, length mine, map (\<lambda>s. (s, length (filter (\<lambda>r. us_state r = s) mine))) unit_availability_states)) (remdups pids))"

subsection \<open>What the states mean\<close>

definition covers_night :: "date \<Rightarrow> unit_row \<Rightarrow> reservation \<Rightarrow> bool" where
  "covers_night t u r \<longleftrightarrow> res_unit r = u_id u \<and> lower (res_status r) \<in> {''confirmed'', ''active''} \<and> res_start r \<le> t \<and> t < res_end r"

lemma found_stay: "List.find P xs \<noteq> None \<longleftrightarrow> (\<exists>x\<in>set xs. P x)"
  by (auto simp: find_None_iff_all)

lemma current_set:
  "r \<in> set (filter (is_current t) (unit_stays t u d)) \<longleftrightarrow> r \<in> set (reservations d) \<and> res_unit r = u_id u
     \<and> lower (res_status r) \<in> {''confirmed'', ''active''} \<and> (res_start r \<le> t \<and> t < res_end r \<or> res_end r = t)"
  by (auto simp: unit_stays_def is_current_def active_statuses_def)

abbreviation current_stays :: "date \<Rightarrow> unit_row \<Rightarrow> db \<Rightarrow> reservation list" where
  "current_stays t u d \<equiv> filter (is_current t) (unit_stays t u d)"

abbreviation ongoing_stay :: "date \<Rightarrow> unit_row \<Rightarrow> db \<Rightarrow> reservation option" where
  "ongoing_stay t u d \<equiv> List.find (\<lambda>r. res_start r < t \<and> t < res_end r) (current_stays t u d)"

abbreviation ending_stay :: "date \<Rightarrow> unit_row \<Rightarrow> db \<Rightarrow> reservation option" where
  "ending_stay t u d \<equiv> List.find (\<lambda>r. res_end r = t) (current_stays t u d)"

abbreviation starting_stay :: "date \<Rightarrow> unit_row \<Rightarrow> db \<Rightarrow> reservation option" where
  "starting_stay t u d \<equiv> List.find (\<lambda>r. res_start r = t \<and> t < res_end r) (current_stays t u d)"

lemma found_stays:
  "ongoing_stay t u d \<noteq> None \<longleftrightarrow> (\<exists>r\<in>set (reservations d). covers_night t u r \<and> res_start r < t)"
  "starting_stay t u d \<noteq> None \<longleftrightarrow> (\<exists>r\<in>set (reservations d). covers_night t u r \<and> res_start r = t)"
  "ending_stay t u d \<noteq> None \<longleftrightarrow>
     (\<exists>r\<in>set (reservations d). res_unit r = u_id u \<and> lower (res_status r) \<in> {''confirmed'', ''active''} \<and> res_end r = t)"
  unfolding found_stay by (auto simp: current_set covers_night_def simp del: set_filter)

lemma covered_night:
  "(\<exists>r\<in>set (reservations d). covers_night t u r) \<longleftrightarrow> ongoing_stay t u d \<noteq> None \<or> starting_stay t u d \<noteq> None"
proof -
  have "res_start r < t \<or> res_start r = t" if "covers_night t u r" for r using that by (auto simp: covers_night_def)
  then show ?thesis unfolding found_stays by blast
qed

lemma unit_state_cases:
  "us_state (unit_status_of oid t u p d) =
     (if unit_out_of_use u then ''blocked'' else if ending_stay t u d \<noteq> None \<and> starting_stay t u d \<noteq> None then ''transition''
      else if ongoing_stay t u d \<noteq> None \<or> starting_stay t u d \<noteq> None then ''reserved''
      else if unit_maintenance oid t u d \<noteq> None then ''maintenance'' else ''free'')"
  by (auto simp: unit_status_of_def Let_def taken_status_def plain_status_def split: option.split)

lemma unit_taken:
  "us_state (unit_status_of oid t u p d) \<in> {''reserved'', ''transition''} \<longleftrightarrow>
     \<not> unit_out_of_use u \<and> (\<exists>r\<in>set (reservations d). covers_night t u r)"
  unfolding covered_night unit_state_cases by simp

lemma unit_named:
  assumes "us_reservation (unit_status_of oid t u p d) = Some i"
  shows "\<exists>r\<in>set (reservations d). res_id r = i \<and> covers_night t u r"
proof -
  obtain r where r: "ongoing_stay t u d = Some r \<or> starting_stay t u d = Some r" "res_id r = i"
    using assms by (auto simp: unit_status_of_def Let_def taken_status_def plain_status_def split: if_splits option.splits)
  then have "r \<in> set (current_stays t u d) \<and> res_start r \<le> t \<and> t < res_end r" by (auto dest!: find_Some_D simp del: set_filter)
  then have "r \<in> set (reservations d) \<and> covers_night t u r" unfolding current_set covers_night_def by blast
  then show ?thesis using r(2) by blast
qed

text \<open>C29: The state of a unit on a day: blocked by its type; else reserved or in transition exactly when a live stay
  covers the night of that day, in transition when moreover one leaves and one arrives that day; else in
  maintenance when a request is open and due, or free. The stay a taken unit names is one that covers the night.\<close>

theorem unit_state_truth:
  "(us_state (unit_status_of oid t u p d) \<in> {''reserved'', ''transition''} \<longleftrightarrow>
      \<not> unit_out_of_use u \<and> (\<exists>r\<in>set (reservations d). covers_night t u r))
   \<and> (us_state (unit_status_of oid t u p d) = ''transition'' \<longleftrightarrow>
      \<not> unit_out_of_use u \<and> (\<exists>r\<in>set (reservations d). covers_night t u r \<and> res_start r = t)
        \<and> (\<exists>r\<in>set (reservations d). res_unit r = u_id u \<and> lower (res_status r) \<in> {''confirmed'', ''active''} \<and> res_end r = t))
   \<and> (us_state (unit_status_of oid t u p d) = ''blocked'' \<longleftrightarrow> unit_out_of_use u)
   \<and> us_state (unit_status_of oid t u p d) \<in> set unit_availability_states
   \<and> (case us_reservation (unit_status_of oid t u p d) of None \<Rightarrow> True
      | Some i \<Rightarrow> \<exists>r\<in>set (reservations d). res_id r = i \<and> covers_night t u r)"
proof (intro conjI)
  show "us_state (unit_status_of oid t u p d) = ''transition'' \<longleftrightarrow>
      \<not> unit_out_of_use u \<and> (\<exists>r\<in>set (reservations d). covers_night t u r \<and> res_start r = t)
        \<and> (\<exists>r\<in>set (reservations d). res_unit r = u_id u \<and> lower (res_status r) \<in> {''confirmed'', ''active''} \<and> res_end r = t)"
    unfolding unit_state_cases found_stays(2,3) [symmetric] by auto
  show "us_state (unit_status_of oid t u p d) = ''blocked'' \<longleftrightarrow> unit_out_of_use u" unfolding unit_state_cases by simp
  show "us_state (unit_status_of oid t u p d) \<in> set unit_availability_states"
    unfolding unit_state_cases by (simp add: unit_availability_states_def)
  show "case us_reservation (unit_status_of oid t u p d) of None \<Rightarrow> True
      | Some i \<Rightarrow> \<exists>r\<in>set (reservations d). res_id r = i \<and> covers_night t u r"
    using unit_named by (auto split: option.split)
qed (rule unit_taken)

lemma count_by_state:
  assumes "distinct ss" and "\<forall>r\<in>set rs. us_state r \<in> set ss"
  shows "(\<Sum>s\<leftarrow>ss. length (filter (\<lambda>r. us_state r = s) rs)) = length rs"
  using assms(2)
proof (induction rs)
  case (Cons r rs)
  have "(\<Sum>s\<leftarrow>ss. length (filter (\<lambda>x. us_state x = s) (r # rs)))
      = (\<Sum>s\<leftarrow>ss. length (filter (\<lambda>x. us_state x = s) rs) + (if us_state r = s then 1 else 0))"
    by (rule arg_cong [where f = sum_list]) auto
  also have "\<dots> = (\<Sum>s\<leftarrow>ss. length (filter (\<lambda>x. us_state x = s) rs)) + length (filter (\<lambda>s. us_state r = s) ss)"
    by (induction ss) auto
  also have "length (filter (\<lambda>s. us_state r = s) ss) = 1"
    using assms(1) Cons.prems by (simp add: distinct_length_filter)
  finally show ?case using Cons by simp
qed simp

text \<open>The counts of a property's units by state add up to the number of its units.\<close>

lemma summary_adds_up:
  assumes "(pid, n, counts) \<in> set (summarize_units_for_properties en oid pids as_of d)"
  shows "(\<Sum>c\<leftarrow>counts. snd c) = n"
proof -
  define rs where "rs = filter (\<lambda>r. p_id (us_property r) = pid) (list_units_with_availability_status en oid None as_of d)"
  have c: "counts = map (\<lambda>s. (s, length (filter (\<lambda>r. us_state r = s) rs))) unit_availability_states" "n = length rs"
    using assms by (auto simp: summarize_units_for_properties_def Let_def rs_def)
  have "\<forall>r\<in>set rs. us_state r \<in> set unit_availability_states"
    using unit_state_truth by (auto simp: rs_def list_units_with_availability_status_def Let_def)
  moreover have "distinct unit_availability_states" by (simp add: unit_availability_states_def)
  ultimately show ?thesis unfolding c by (simp add: count_by_state comp_def)
qed

end
