(* ===== verification/Images.thy ===== *)
theory Images
  imports Properties
begin

text \<open>
  The pictures of a property (app/properties/images.py): upload, order, cover and deletion. Decoding and
  scaling a picture is the imaging library's: the sizes of the two encodings it gives, or none for a broken
  file, are an argument; the public address of a stored file is an argument too. Main facts: every operation
  does to the list of a property's pictures what it says, seen as a list of their numbers.
\<close>

definition e_image :: "string \<Rightarrow> exn" where
  "e_image msg = ServiceError Image_service ''validation_error'' msg 400"

definition e_image_missing :: "string \<Rightarrow> exn" where
  "e_image_missing msg = ServiceError Image_service ''not_found'' msg 404"

definition max_upload_bytes :: int where "max_upload_bytes = 10 * 1024 * 1024"

definition allowed_content_types :: "string list" where
  "allowed_content_types = [''image/jpeg'', ''image/png'', ''image/webp'']"

definition allowed_extensions :: "string list" where
  "allowed_extensions = [''.jpg'', ''.jpeg'', ''.png'', ''.webp'']"

definition splitext :: "string \<Rightarrow> string" where
  \<comment> \<open>the extension of a path: leading dots of the file name do not start one\<close>
  "splitext f =
     (let base = rev (takeWhile (\<lambda>c. c \<noteq> CHR ''/'') (rev f)); body = dropWhile (\<lambda>c. c = CHR ''.'') base;
          tail = takeWhile (\<lambda>c. c \<noteq> CHR ''.'') (rev body)
      in if length tail < length body then CHR ''.'' # rev tail else '''')"

definition bad_extension :: "string option \<Rightarrow> bool" where
  "bad_extension f =
     (case f of None \<Rightarrow> False | Some s \<Rightarrow> s \<noteq> '''' \<and> lower (splitext s) \<notin> set allowed_extensions)"

definition image_ext :: "string \<Rightarrow> string" where
  "image_ext typ = (if typ = ''image/webp'' then ''webp'' else if typ = ''image/png'' then ''png'' else ''jpg'')"

definition process_image :: "int \<Rightarrow> string \<Rightarrow> (int \<times> int) option \<Rightarrow> exn + (int \<times> string)" where
  \<comment> \<open>the size of the stored picture and its extension\<close>
  "process_image raw typ decoded =
     (if typ \<notin> set allowed_content_types
      then Inl (e_image (if typ = ''image/svg+xml'' then ''SVG uploads are not allowed.'' else ''Only WebP, JPEG and PNG are supported.''))
      else if max_upload_bytes < raw then Inl (e_image ''Image exceeds 10 MB limit.'')
      else case decoded of
        None \<Rightarrow> Inl (e_image ''Invalid image file.'')
      | Some (base, thumb) \<Rightarrow>
          if max_upload_bytes < base then Inl (e_image ''Optimized image still exceeds 10 MB.'') else Inr (base, image_ext typ))"

definition list_property_images :: "int \<Rightarrow> int \<Rightarrow> db \<Rightarrow> exn + property_image list" where
  "list_property_images oid pid d =
     (if find_property oid pid d = None then Inl (e_image_missing ''Property not found.'')
      else Inr (order2 pi_order pi_id (filter (\<lambda>i. pi_org i = oid \<and> pi_property i = pid) (images d))))"

definition pick_cover_image :: "property_image list \<Rightarrow> property_image option" where
  \<comment> \<open>\<open>min\<close> by order and key: the first of the least\<close>
  "pick_cover_image rows = (case order2 pi_order pi_id rows of [] \<Rightarrow> None | i # _ \<Rightarrow> Some i)"

definition get_cover_image :: "int \<Rightarrow> int \<Rightarrow> db \<Rightarrow> exn + property_image option" where
  "get_cover_image oid pid d =
     (case list_property_images oid pid d of Inl e \<Rightarrow> Inl e | Inr rows \<Rightarrow> Inr (pick_cover_image rows))"

definition get_cover_images_for_properties :: "int \<Rightarrow> int list \<Rightarrow> db \<Rightarrow> (int \<times> property_image) list" where
  "get_cover_images_for_properties oid pids d =
     fold (\<lambda>i acc. if pi_property i \<in> fst ` set acc then acc else acc @ [(pi_property i, i)])
       (sort_key pi_property (order2 pi_order pi_id (filter (\<lambda>i. pi_org i = oid \<and> pi_property i \<in> set pids) (images d)))) []"

fun number_images :: "int \<Rightarrow> int list \<Rightarrow> db \<Rightarrow> db" where
  "number_images n [] d = d"
| "number_images n (i # is) d =
     number_images (n + 1) is
       (case row_get pi_id i (images d) of None \<Rightarrow> d | Some x \<Rightarrow> put_image (x\<lparr>pi_order := n\<rparr>) d)"

definition reorder_property_images :: "int \<Rightarrow> int \<Rightarrow> int list \<Rightarrow> world \<Rightarrow> (exn + unit) \<times> world" where
  "reorder_property_images oid pid ids w =
     (case list_property_images oid pid (cur w) of
        Inl e \<Rightarrow> (Inl e, w)
      | Inr rows \<Rightarrow>
          if set ids \<noteq> pi_id ` set rows then (Inl (e_image ''Image sort payload is invalid.''), w)
          else (Inr (), commit (on_db (number_images 1 ids) w)))"

definition set_cover_image :: "int \<Rightarrow> int \<Rightarrow> int \<Rightarrow> world \<Rightarrow> (exn + unit) \<times> world" where
  "set_cover_image oid pid i w =
     (case list_property_images oid pid (cur w) of
        Inl e \<Rightarrow> (Inl e, w)
      | Inr rows \<Rightarrow>
          if i \<notin> pi_id ` set rows then (Inl (e_image_missing ''Image not found.''), w)
          else reorder_property_images oid pid (i # filter (\<lambda>j. j \<noteq> i) (map pi_id rows)) w)"

definition moved :: "string \<Rightarrow> int \<Rightarrow> int list \<Rightarrow> int list option" where
  \<comment> \<open>the neighbours exchanged; \<open>None\<close>: nothing to do\<close>
  "moved direction i ids =
     (let k = length (takeWhile (\<lambda>j. j \<noteq> i) ids) in
      if direction = ''up'' \<and> 0 < k then Some (ids[k - 1 := ids ! k, k := ids ! (k - 1)])
      else if direction = ''down'' \<and> k + 1 < length ids then Some (ids[k + 1 := ids ! k, k := ids ! (k + 1)])
      else None)"

definition move_property_image :: "int \<Rightarrow> int \<Rightarrow> int \<Rightarrow> string \<Rightarrow> world \<Rightarrow> (exn + unit) \<times> world" where
  "move_property_image oid pid i direction w =
     (case list_property_images oid pid (cur w) of
        Inl e \<Rightarrow> (Inl e, w)
      | Inr rows \<Rightarrow>
          if i \<notin> pi_id ` set rows then (Inl (e_image_missing ''Image not found.''), w)
          else case moved direction i (map pi_id rows) of
            None \<Rightarrow> (Inr (), w) | Some ids \<Rightarrow> reorder_property_images oid pid ids w)"

record image_args =
  ia_raw :: int
  ia_type :: string
  ia_alt :: string
  ia_by :: "int option"
  ia_filename :: "string option"

definition image_key :: "int \<Rightarrow> int \<Rightarrow> string \<Rightarrow> string \<Rightarrow> string \<Rightarrow> string" where
  "image_key oid pid token thumb ext =
     ''org-'' @ show_int oid @ ''/property-'' @ show_int pid @ ''/'' @ token @ thumb @ ''.'' @ ext"

definition next_order :: "int \<Rightarrow> int \<Rightarrow> db \<Rightarrow> int" where
  "next_order oid pid d =
     (case map pi_order (filter (\<lambda>i. pi_org i = oid \<and> pi_property i = pid) (images d)) of
        [] \<Rightarrow> 0 | ns \<Rightarrow> Max (set ns))"

definition upload_property_image ::
  "(string \<Rightarrow> string) \<Rightarrow> (int \<times> int) option \<Rightarrow> string \<Rightarrow> int \<Rightarrow> int \<Rightarrow> image_args \<Rightarrow> world \<Rightarrow> (exn + property_image) \<times> world" where
  "upload_property_image url decoded token oid pid a w =
     (if find_property oid pid (cur w) = None then (Inl (e_image_missing ''Property not found.''), w)
      else if bad_extension (ia_filename a) then (Inl (e_image ''Only JPG, JPEG, PNG and WebP files are allowed.''), w)
      else if strip (ia_alt a) = '''' then (Inl (e_image ''alt_text is required.''), w)
      else case process_image (ia_raw a) (ia_type a) decoded of
        Inl e \<Rightarrow> (Inl e, w)
      | Inr (n, ext) \<Rightarrow>
          let key = image_key oid pid token '''' ext; thumb = image_key oid pid token ''-thumb'' ext;
              i = \<lparr>pi_id = next_key T_images (cur w), pi_org = oid, pi_property = pid, pi_url = url key, pi_thumb_url = url thumb,
                   pi_key = key, pi_thumb_key = thumb, pi_alt = strip (ia_alt a), pi_order = next_order oid pid (cur w) + 1,
                   pi_size = n, pi_content_type = ia_type a, pi_uploaded_by = ia_by a, pi_created_at = clock w\<rparr>
          in (Inr i, commit (on_db (add_image i) (call_out (StorageUpload thumb) (call_out (StorageUpload key) w)))))"

definition delete_property_image :: "int \<Rightarrow> int \<Rightarrow> int \<Rightarrow> world \<Rightarrow> (exn + bool) \<times> world" where
  \<comment> \<open>the database empties the floor plans that name the picture\<close>
  "delete_property_image oid pid i w =
     (if find_property oid pid (cur w) = None then (Inl (e_image_missing ''Property not found.''), w)
      else case List.find (\<lambda>x. pi_id x = i \<and> pi_org x = oid \<and> pi_property x = pid) (images (cur w)) of
        None \<Rightarrow> (Inl (e_image_missing ''Image not found.''), w)
      | Some x \<Rightarrow>
          (Inr True, commit (on_db (\<lambda>d. d\<lparr>images := row_del pi_id i (images d),
               units := map (\<lambda>u. if u_floor_plan u = Some i then u\<lparr>u_floor_plan := None\<rparr> else u) (units d)\<rparr>)
             (call_out (StorageDelete (pi_thumb_key x)) (call_out (StorageDelete (pi_key x)) w)))))"

subsection \<open>The list of pictures\<close>

definition image_ids :: "int \<Rightarrow> int \<Rightarrow> db \<Rightarrow> int list" where
  "image_ids oid pid d = map pi_id (order2 pi_order pi_id (filter (\<lambda>i. pi_org i = oid \<and> pi_property i = pid) (images d)))"

lemma listed: "list_property_images oid pid d = Inr rows \<Longrightarrow> map pi_id rows = image_ids oid pid d"
  by (auto simp: list_property_images_def image_ids_def split: if_splits)

text \<open>The number a picture gets: counted from \<open>n\<close>, the last time it is named.\<close>

fun place :: "int \<Rightarrow> int list \<Rightarrow> int \<Rightarrow> int" where
  "place n [] k = 0"
| "place n (i # is) k = (if k \<in> set is then place (n + 1) is k else n)"

lemma place_from: "k \<in> set is \<Longrightarrow> n \<le> place n is k"
proof (induction "is" arbitrary: n)
  case (Cons i "is")
  show ?case using Cons.IH [of "n + 1"] Cons.prems by (cases "k \<in> set is") auto
qed simp

lemma place_rising: "sorted_wrt (\<lambda>a b. place n is a < place n is b) (remdups is)"
proof (induction "is" arbitrary: n)
  case (Cons i "is")
  have "sorted_wrt (\<lambda>a b. place n (i # is) a < place n (i # is) b) (remdups is)"
    using Cons.IH [of "n + 1"] by (rule sorted_wrt_mono_rel [rotated]) simp
  then show ?case using place_from [of _ "is" "n + 1"] by (fastforce simp: int_one_le_iff_zero_less)
qed simp

lemma number_images:
  assumes "distinct (map pi_id (images d))"
  shows "images (number_images n ids d) =
      map (\<lambda>x. if pi_id x \<in> set ids then x\<lparr>pi_order := place n ids (pi_id x)\<rparr> else x) (images d)
    \<and> properties (number_images n ids d) = properties d"
  using assms
proof (induction ids arbitrary: n d)
  case (Cons i ids)
  let ?d = "case row_get pi_id i (images d) of None \<Rightarrow> d | Some x \<Rightarrow> put_image (x\<lparr>pi_order := n\<rparr>) d"
  have step: "images ?d = map (\<lambda>x. if pi_id x = i then x\<lparr>pi_order := n\<rparr> else x) (images d) \<and> properties ?d = properties d"
  proof (cases "row_get pi_id i (images d)")
    case None
    then have "\<forall>x\<in>set (images d). pi_id x \<noteq> i" by (auto simp: row_get_def find_None_iff)
    then show ?thesis using None by (simp add: map_idI)
  next
    case (Some x)
    note x = row_get_in [OF Some]
    have "(if pi_id y = i then x\<lparr>pi_order := n\<rparr> else y) = (if pi_id y = i then y\<lparr>pi_order := n\<rparr> else y)" if "y \<in> set (images d)" for y
      using Cons.prems x that by (auto simp: distinct_map inj_on_def)
    then show ?thesis using Some x by (auto simp: row_put_def)
  qed
  have "distinct (map pi_id (images ?d))" using Cons.prems step by (simp add: comp_def if_distrib cong: if_cong)
  from Cons.IH [OF this, of "n + 1"] step show ?case by auto
qed simp

subsection \<open>The operations on the list\<close>

lemma sort_key_snoc:
  assumes "\<forall>y\<in>set ys. f y \<le> f x"
  shows "sort_key f (ys @ [x]) = sort_key f ys @ [x]"
proof -
  have ins: "insort_key f a (zs @ [x]) = insort_key f a zs @ [x]" if "f a \<le> f x" for a zs using that by (induction zs) auto
  have "foldr (insort_key f) ys [x] = foldr (insort_key f) ys [] @ [x]" using assms by (induction ys) (auto simp: ins)
  then show ?thesis by (simp add: sort_key_def)
qed

lemma order2_snoc:
  assumes "\<forall>y\<in>set ys. f y \<le> f x" and "\<forall>y\<in>set ys. g y \<le> g x"
  shows "order2 f g (ys @ [x]) = order2 f g ys @ [x]"
  using assms by (simp add: order2_def sort_key_snoc)

lemma order2_filter: "order2 f g (filter P rs) = filter P (order2 f g rs)"
  by (simp add: order2_def filter_sort)

lemma order2_by_position:
  \<comment> \<open>rows whose numbers rise along a list are read in its order\<close>
  assumes "sorted_wrt (\<lambda>a b. F a < F b) ks" and "set (map key rs) = set ks" and "distinct (map key rs)"
    and "\<forall>r\<in>set rs. f r = F (key r)"
  shows "map key (order2 f g rs) = ks"
proof -
  let ?L = "map key (order2 f g rs)"
  have F: "map F ?L = map f (order2 f g rs)" using assms(4) by simp
  have "sorted_wrt (<) (map F ks)" using assms(1) by (simp add: sorted_wrt_map)
  then have ks: "sorted (map F ks)" "distinct (map F ks)" by (simp_all add: strict_sorted_iff)
  then have inj: "inj_on F (set ks)" by (simp add: distinct_map)
  have L: "set ?L = set ks" "distinct ?L" using assms(2,3) by (simp_all add: order2_def distinct_map)
  then have "distinct (map F ?L)" using inj by (simp only: distinct_map)
  moreover have "sorted (map F ?L)" unfolding F by (rule order2_sorted)
  moreover have "set (map F ?L) = set (map F ks)" using L(1) by (simp only: set_map)
  ultimately have "map F ?L = map F ks" using ks by (intro sorted_distinct_set_unique)
  then show ?thesis using L(1) inj by (simp only: inj_on_map_eq_map Un_absorb)
qed

text \<open>A number exchanged with the one before it; the first one stays.\<close>

fun raised :: "int \<Rightarrow> int list \<Rightarrow> int list" where
  "raised i (x # y # zs) = (if y = i then y # x # zs else x # raised i (y # zs))"
| "raised i xs = xs"

lemma raised_skip: "i \<notin> set ps \<Longrightarrow> p \<noteq> i \<Longrightarrow> raised i (ps @ p # i # qs) = ps @ i # p # qs"
  by (induction ps rule: induct_list012) (auto simp: neq_Nil_conv)

lemma raised_first: "i \<notin> set qs \<Longrightarrow> raised i (i # qs) = i # qs"
proof -
  have "raised i xs = xs" if "i \<notin> set (tl xs)" for xs
    using that by (induction i xs rule: raised.induct) auto
  then show "i \<notin> set qs \<Longrightarrow> raised i (i # qs) = i # qs" by simp
qed

lemma moved_distinct:
  assumes "moved direction i is = Some ids" and "i \<in> set is"
  shows "distinct ids = distinct is"
proof -
  have "length (takeWhile (\<lambda>j. j \<noteq> i) is) < length is" using assms(2) by (induction "is") auto
  then show ?thesis using assms(1) by (auto simp: moved_def Let_def simp del: takeWhile_eq_Nil_iff split: if_splits)
qed

lemma moved_raised:
  assumes "distinct is" and "i \<in> set is"
  shows "(case moved direction i is of None \<Rightarrow> is | Some ids \<Rightarrow> ids) =
    (if direction = ''up'' then raised i is else if direction = ''down'' then rev (raised i (rev is)) else is)"
proof -
  obtain ps qs where s: "is = ps @ i # qs" using assms(2) by (auto dest: split_list)
  have n: "i \<notin> set ps" "i \<notin> set qs" using assms(1) s by auto
  have k: "length (takeWhile (\<lambda>j. j \<noteq> i) is) = length ps"
    unfolding s using n(1) by (subst takeWhile_append2) auto
  have up: "(if 0 < length ps then (is [length ps - 1 := is ! length ps, length ps := is ! (length ps - 1)]) else is) = raised i is"
  proof (cases ps rule: rev_cases)
    case Nil
    then show ?thesis using raised_first [OF n(2)] by (simp add: s)
  next
    case (snoc ps' p)
    then have "raised i is = ps' @ i # p # qs" using raised_skip [of i ps' p qs] n(1) by (auto simp: s)
    then show ?thesis by (simp add: s snoc nth_append list_update_append)
  qed
  have down: "(if length ps + 1 < length is then (is [length ps + 1 := is ! length ps, length ps := is ! (length ps + 1)]) else is)
      = rev (raised i (rev is))"
  proof (cases qs)
    case Nil
    then show ?thesis using raised_first [of i "rev ps"] n(1) by (simp add: s)
  next
    case (Cons q qs')
    then have "raised i (rev is) = rev qs' @ i # q # rev ps" using raised_skip [of i "rev qs'" q "rev ps"] n(2) by (auto simp: s)
    then show ?thesis by (simp add: s Cons nth_append list_update_append)
  qed
  show ?thesis using up down by (auto simp: moved_def Let_def k)
qed

datatype image_op =
    Upload_image "string \<Rightarrow> string" "(int \<times> int) option" string image_args
  | Reorder_images "int list" | Cover_image int | Move_image int string | Delete_image int

fun run_image :: "int \<Rightarrow> int \<Rightarrow> image_op \<Rightarrow> world \<Rightarrow> (exn + unit) \<times> world" where
  "run_image oid pid (Upload_image url decoded token a) w =
     (case upload_property_image url decoded token oid pid a w of (Inl e, w') \<Rightarrow> (Inl e, w') | (Inr _, w') \<Rightarrow> (Inr (), w'))"
| "run_image oid pid (Reorder_images ids) w = reorder_property_images oid pid ids w"
| "run_image oid pid (Cover_image i) w = set_cover_image oid pid i w"
| "run_image oid pid (Move_image i direction) w = move_property_image oid pid i direction w"
| "run_image oid pid (Delete_image i) w =
     (case delete_property_image oid pid i w of (Inl e, w') \<Rightarrow> (Inl e, w') | (Inr _, w') \<Rightarrow> (Inr (), w'))"

text \<open>The same on a list of numbers, \<open>k\<close> being the next one.\<close>

fun on_list :: "int \<Rightarrow> image_op \<Rightarrow> int list \<Rightarrow> int list" where
  "on_list k (Upload_image _ _ _ _) is = is @ [k]"
| "on_list k (Reorder_images ids) is = remdups ids"
| "on_list k (Cover_image i) is = i # filter (\<lambda>j. j \<noteq> i) is"
| "on_list k (Move_image i direction) is =
     (if direction = ''up'' then raised i is else if direction = ''down'' then rev (raised i (rev is)) else is)"
| "on_list k (Delete_image i) is = filter (\<lambda>j. j \<noteq> i) is"

lemma image_ids_distinct:
  assumes "distinct (map pi_id (images d))"
  shows "distinct (image_ids oid pid d)"
  using assms by (simp add: image_ids_def order2_def distinct_map inj_on_def)

lemma image_ids_of:
  "image_ids oid pid d = map pi_id (filter (\<lambda>i. pi_org i = oid \<and> pi_property i = pid) (order2 pi_order pi_id (images d)))"
  by (simp add: image_ids_def order2_filter)

lemma filter_ids_distinct: "distinct (map f rs) \<Longrightarrow> distinct (map f (filter P rs))"
  by (induction rs) auto

lemma reorder_lists:
  assumes k: "distinct (map pi_id (images (cur w)))"
    and ok: "reorder_property_images oid pid ids w = (Inr (), w')"
  shows "image_ids oid pid (cur w') = remdups ids \<and> com w' = cur w'
    \<and> ((oid', pid') \<noteq> (oid, pid) \<longrightarrow> image_ids oid' pid' (cur w') = image_ids oid' pid' (cur w))
    \<and> map pi_id (images (cur w')) = map pi_id (images (cur w)) \<and> set ids = set (image_ids oid pid (cur w))"
proof -
  let ?mine = "\<lambda>i. pi_org i = oid \<and> pi_property i = pid"
  let ?number = "\<lambda>x. if pi_id x \<in> set ids then x\<lparr>pi_order := place 1 ids (pi_id x)\<rparr> else x"
  from ok have p: "find_property oid pid (cur w) \<noteq> None" by (auto simp: reorder_property_images_def list_property_images_def split: if_splits)
  from ok p have s: "set ids = pi_id ` set (filter ?mine (images (cur w)))"
    and w': "w' = commit (on_db (number_images 1 ids) w)"
    by (auto simp: reorder_property_images_def list_property_images_def split: if_splits)
  have im: "images (cur w') = map ?number (images (cur w))"
    using number_images [OF k, of 1 ids] unfolding w' by simp
  have keep: "filter (\<lambda>i. pi_org i = o' \<and> pi_property i = p') (images (cur w'))
      = map ?number (filter (\<lambda>i. pi_org i = o' \<and> pi_property i = p') (images (cur w)))" for o' p'
    unfolding im by (simp add: filter_map comp_def if_distrib cong: if_cong)
  have idn: "pi_id (?number x) = pi_id x" for x by simp
  have "image_ids oid pid (cur w') = remdups ids" unfolding image_ids_def keep
  proof (rule order2_by_position [OF place_rising [of 1 ids]])
    show "set (map pi_id (map ?number (filter ?mine (images (cur w))))) = set (remdups ids)" unfolding set_remdups s by (simp add: image_image)
    show "distinct (map pi_id (map ?number (filter ?mine (images (cur w)))))"
      using filter_ids_distinct [OF k, of ?mine] by (simp only: map_map comp_def idn)
    show "\<forall>r\<in>set (map ?number (filter ?mine (images (cur w)))). pi_order r = place 1 ids (pi_id r)"
    proof
      fix r assume "r \<in> set (map ?number (filter ?mine (images (cur w))))"
      then obtain x where x: "x \<in> set (filter ?mine (images (cur w)))" "r = ?number x" by auto
      then have "pi_id x \<in> set ids" unfolding s by blast
      then show "pi_order r = place 1 ids (pi_id r)" unfolding x(2) by simp
    qed
  qed
  moreover have "image_ids oid' pid' (cur w') = image_ids oid' pid' (cur w)" if "(oid', pid') \<noteq> (oid, pid)"
  proof -
    have "?number x = x" if "x \<in> set (filter (\<lambda>i. pi_org i = oid' \<and> pi_property i = pid') (images (cur w)))" for x
    proof -
      have "pi_id x \<notin> set ids"
      proof
        assume "pi_id x \<in> set ids"
        then obtain y where y: "y \<in> set (images (cur w))" "?mine y" "pi_id y = pi_id x" unfolding s by auto
        then have "y = x" using k that by (auto simp: distinct_map inj_on_def)
        with y that \<open>(oid', pid') \<noteq> (oid, pid)\<close> show False by simp
      qed
      then show ?thesis by simp
    qed
    then show ?thesis unfolding image_ids_def keep by (simp only: map_idI)
  qed
  moreover have "map pi_id (images (cur w')) = map pi_id (images (cur w))" unfolding im by (simp add: comp_def)
  moreover have "com w' = cur w'" unfolding w' by simp
  ultimately show ?thesis using s by (simp add: image_ids_def)
qed

lemma upload_lists:
  assumes k: "keys_ok pi_id (seqs (cur w) T_images) (images (cur w))"
    and ok: "upload_property_image url decoded token oid pid a w = (Inr x, w')"
  shows "image_ids oid pid (cur w') = image_ids oid pid (cur w) @ [next_key T_images (cur w)] \<and> com w' = cur w'
    \<and> ((oid', pid') \<noteq> (oid, pid) \<longrightarrow> image_ids oid' pid' (cur w') = image_ids oid' pid' (cur w))
    \<and> keys_ok pi_id (seqs (cur w') T_images) (images (cur w'))"
proof -
  let ?mine = "\<lambda>i. pi_org i = oid \<and> pi_property i = pid"
  from ok have x: "pi_id x = next_key T_images (cur w)" "pi_org x = oid" "pi_property x = pid" "pi_order x = next_order oid pid (cur w) + 1"
    and w': "w' = commit (on_db (add_image x) (call_out (StorageUpload (pi_thumb_key x)) (call_out (StorageUpload (pi_key x)) w)))"
    by (auto simp: upload_property_image_def Let_def split: if_splits sum.splits prod.splits)
  have im: "images (cur w') = images (cur w) @ [x]" "seqs (cur w') T_images = next_key T_images (cur w)"
    unfolding w' using x(1) by (simp_all add: bump_def)
  have le: "pi_order y \<le> next_order oid pid (cur w) \<and> pi_id y < next_key T_images (cur w)"
    if "y \<in> set (filter ?mine (images (cur w)))" for y
  proof
    have "pi_order y \<in> set (map pi_order (filter ?mine (images (cur w))))" using that by simp
    then show "pi_order y \<le> next_order oid pid (cur w)"
      unfolding next_order_def by (cases "map pi_order (filter ?mine (images (cur w)))") (simp_all add: Max_ge)
    show "pi_id y < next_key T_images (cur w)" using that k by (auto simp: keys_ok_def next_key_def)
  qed
  have "image_ids oid pid (cur w') = map pi_id (order2 pi_order pi_id (filter ?mine (images (cur w)) @ [x]))"
    unfolding image_ids_def im by (simp add: x)
  also have "\<dots> = image_ids oid pid (cur w) @ [next_key T_images (cur w)]"
    unfolding image_ids_def using le by (subst order2_snoc) (fastforce simp: x)+
  finally show ?thesis using k x im w' unfolding image_ids_def
    by (auto simp: keys_ok_def next_key_def)
qed

lemma delete_lists:
  assumes ok: "delete_property_image oid pid i w = (Inr x, w')"
    and k: "distinct (map pi_id (images (cur w)))"
  shows "image_ids oid pid (cur w') = filter (\<lambda>j. j \<noteq> i) (image_ids oid pid (cur w)) \<and> com w' = cur w'
    \<and> ((oid', pid') \<noteq> (oid, pid) \<longrightarrow> image_ids oid' pid' (cur w') = image_ids oid' pid' (cur w))
    \<and> images (cur w') = row_del pi_id i (images (cur w)) \<and> seqs (cur w') = seqs (cur w)"
proof -
  from ok obtain y where f: "List.find (\<lambda>x. pi_id x = i \<and> pi_org x = oid \<and> pi_property x = pid) (images (cur w)) = Some y"
    by (auto simp: delete_property_image_def split: if_splits option.splits)
  have im: "images (cur w') = row_del pi_id i (images (cur w)) \<and> com w' = cur w' \<and> seqs (cur w') = seqs (cur w)"
    using ok f by (auto simp: delete_property_image_def split: if_splits)
  have y: "y \<in> set (images (cur w))" "pi_id y = i" "pi_org y = oid" "pi_property y = pid" using find_Some_D [OF f] by auto
  have one: "pi_org z = oid \<and> pi_property z = pid" if "z \<in> set (images (cur w))" "pi_id z = i" for z
    using k y that by (auto simp: distinct_map inj_on_def)
  have "filter (\<lambda>z. pi_org z = oid' \<and> pi_property z = pid') (row_del pi_id i (images (cur w)))
      = filter (\<lambda>z. pi_org z = oid' \<and> pi_property z = pid') (images (cur w))" if "(oid', pid') \<noteq> (oid, pid)"
    unfolding row_del_def filter_filter using one that by (auto intro: filter_cong)
  moreover have "image_ids oid pid (cur w') = filter (\<lambda>j. j \<noteq> i) (image_ids oid pid (cur w))"
    unfolding image_ids_def using im
    by (simp add: row_del_def order2_filter filter_map comp_def conj_ac)
  ultimately show ?thesis using im by (simp add: image_ids_def)
qed

lemma run_image_refused: "run_image oid pid op w = (Inl e, w') \<Longrightarrow> w' = w"
  by (cases op) (auto simp: upload_property_image_def reorder_property_images_def set_cover_image_def move_property_image_def
      delete_property_image_def Let_def split: if_splits sum.splits option.splits prod.splits)

text \<open>C28: The pictures of a property are a list: seen as the list of their numbers in display order, an upload that is
  accepted appends, a reordering puts the list that was posted (of a number posted twice the last place counts), a new
  cover moves its number to the front, a move up exchanges the number with the one before it and a move down with the
  one after it (at the end of the list it does nothing), and a deletion takes the number out; the numbers stay
  distinct, the change is committed, and no list of another property or organization changes. A request that is
  refused changes nothing.\<close>

theorem pictures_are_a_list:
  assumes "keys_ok pi_id (seqs (cur w) T_images) (images (cur w))"
    and "com w = cur w" and "run_image oid pid op w = (r, w')"
  shows "image_ids oid pid (cur w') = (if r = Inr () then on_list (next_key T_images (cur w)) op (image_ids oid pid (cur w))
      else image_ids oid pid (cur w))
    \<and> com w' = cur w' \<and> keys_ok pi_id (seqs (cur w') T_images) (images (cur w')) \<and> distinct (image_ids oid pid (cur w'))
    \<and> ((oid', pid') \<noteq> (oid, pid) \<longrightarrow> image_ids oid' pid' (cur w') = image_ids oid' pid' (cur w))"
proof (cases r)
  case (Inl e)
  with run_image_refused assms(3) have "w' = w" by simp
  then show ?thesis using assms(1,2) Inl image_ids_distinct by (simp add: keys_ok_def)
next
  case (Inr u)
  have k: "distinct (map pi_id (images (cur w)))" using assms(1) by (simp add: keys_ok_def)
  have old: "distinct (image_ids oid pid (cur w))" by (rule image_ids_distinct [OF k])
  have reorder: ?thesis
    if "reorder_property_images oid pid ids w = (Inr (), w')" "on_list (next_key T_images (cur w)) op (image_ids oid pid (cur w)) = remdups ids" for ids
  proof -
    note l = reorder_lists [OF k that(1), of oid' pid']
    have "seqs (cur w') T_images = seqs (cur w) T_images"
    proof -
      have "seqs (number_images n is d) = seqs d" for n "is" d
        by (induction "is" arbitrary: n d) (auto split: option.split)
      then show ?thesis using that(1) by (auto simp: reorder_property_images_def split: sum.splits if_splits)
    qed
    moreover have "keys_ok pi_id n (images (cur w')) = keys_ok pi_id n (images (cur w))" for n
      using l by (metis (no_types) keys_ok_cong)
    ultimately show ?thesis using l that Inr assms(1) by simp
  qed
  show ?thesis
  proof (cases op)
    case (Upload_image url decoded token a)
    with assms(3) Inr obtain x where "upload_property_image url decoded token oid pid a w = (Inr x, w')" by (auto split: prod.splits sum.splits)
    note l = upload_lists [OF assms(1) this, of oid' pid']
    have "distinct (image_ids oid pid (cur w'))" using l by (intro image_ids_distinct) (simp add: keys_ok_def)
    with l show ?thesis using Inr Upload_image by simp
  next
    case (Reorder_images ids)
    then show ?thesis using reorder [of ids] assms(3) Inr by simp
  next
    case (Cover_image i)
    with assms(3) Inr obtain rows where rows: "list_property_images oid pid (cur w) = Inr rows"
      and ok: "reorder_property_images oid pid (i # filter (\<lambda>j. j \<noteq> i) (map pi_id rows)) w = (Inr (), w')"
      by (auto simp: set_cover_image_def split: sum.splits if_splits)
    show ?thesis using reorder [OF ok] old Cover_image unfolding listed [OF rows] by (simp add: distinct_remdups_id)
  next
    case (Move_image i direction)
    with assms(3) Inr obtain rows where rows: "list_property_images oid pid (cur w) = Inr rows" and i: "i \<in> pi_id ` set rows"
      by (auto simp: move_property_image_def split: sum.splits if_splits)
    have step: "(case moved direction i (image_ids oid pid (cur w)) of
        None \<Rightarrow> (Inr (), w) | Some ids \<Rightarrow> reorder_property_images oid pid ids w) = (Inr (), w')"
      using Move_image assms(3) Inr rows i by (simp add: move_property_image_def listed [OF rows, symmetric])
    have i': "i \<in> set (image_ids oid pid (cur w))" using i unfolding listed [OF rows, symmetric] by simp
    note lifted = moved_raised [OF old i', of direction]
    show ?thesis
    proof (cases "moved direction i (image_ids oid pid (cur w))")
      case None
      have e: "on_list (next_key T_images (cur w)) op (image_ids oid pid (cur w)) = image_ids oid pid (cur w)"
        by (simp only: Move_image on_list.simps lifted [symmetric] None option.case)
      have "w' = w" using step None by simp
      then show ?thesis using assms(1,2) old Inr e by simp
    next
      case (Some ids)
      with step have "reorder_property_images oid pid ids w = (Inr (), w')" by simp
      moreover have "distinct ids" using moved_distinct [OF Some i'] old by simp
      moreover have "on_list (next_key T_images (cur w)) op (image_ids oid pid (cur w)) = ids"
        by (simp only: Move_image on_list.simps lifted [symmetric] Some option.case)
      ultimately show ?thesis using reorder [of ids] Inr by (simp add: distinct_remdups_id)
    qed
  next
    case (Delete_image i)
    with assms(3) Inr obtain x where "delete_property_image oid pid i w = (Inr x, w')" by (auto split: prod.splits sum.splits)
    from delete_lists [OF this k, of oid' pid'] show ?thesis using Inr Delete_image assms(1) old
      by (auto simp: keys_ok_def row_del_def distinct_map_filter)
  qed
qed

definition sample_picture :: "int \<Rightarrow> int \<Rightarrow> property_image" where
  "sample_picture i n = \<lparr>pi_id = i, pi_org = 1, pi_property = 1, pi_url = '''', pi_thumb_url = '''', pi_key = '''', pi_thumb_key = '''',
     pi_alt = ''hall'', pi_order = n, pi_size = 9, pi_content_type = ''image/png'', pi_uploaded_by = None, pi_created_at = 0\<rparr>"

definition picture_world :: world where
  "picture_world = world_of (sample_db\<lparr>images := [sample_picture 1 1, sample_picture 2 2, sample_picture 3 3], seqs := (\<lambda>_. 3)\<rparr>)"

lemma picture_world_moves:
  "run_image 1 1 (Move_image 3 ''up'') picture_world = (Inr (), snd (run_image 1 1 (Move_image 3 ''up'') picture_world))"
proof -
  have "fst (run_image 1 1 (Move_image 3 ''up'') picture_world) = Inr ()" by code_simp
  then show ?thesis by (metis prod.collapse)
qed

theorem pictures_are_a_list_witness:
  "let w = snd (run_image 1 1 (Move_image 3 ''up'') picture_world) in image_ids 1 1 (com w) = [1, 3, 2]"
proof -
  have k: "keys_ok pi_id (seqs (cur picture_world) T_images) (images (cur picture_world))"
    by (simp add: picture_world_def world_of_def sample_picture_def keys_ok_def)
  have c: "com picture_world = cur picture_world" by (simp add: picture_world_def world_of_def)
  have l: "on_list (next_key T_images (cur picture_world)) (Move_image 3 ''up'') (image_ids 1 1 (cur picture_world)) = [1, 3, 2]"
    by code_simp
  from pictures_are_a_list [OF k c picture_world_moves, of 1 1] show ?thesis
    by (simp add: l Let_def del: on_list.simps run_image.simps)
qed

end
