(* ===== verification/Status.thy ===== *)
theory Status
  imports Frame Samples
begin

text \<open>
  The status page: the probes of the components once a minute and the readiness report (app/status/service.py), the
  public page and the actions of the superadmin on it (app/admin/services.py). What the machine says is an
  argument: latencies, the answer of the database, the schedulers, the monotonic clock and the text of a rounded
  number of hours. Main facts: a round of probes appends one row for each component; the service is ready exactly when
  the database, the schedulers and the mail queue are; a readiness failure leaves an audit row.
\<close>

subsection \<open>Components and probes\<close>

definition default_components :: "(string \<times> string) list" where
  "default_components = [(''api'', ''API''), (''web'', ''Web''), (''email'', ''Email (Mailgun)''), (''backups'', ''Backups''),
     (''channel_manager'', ''Channel manager''), (''booking_com'', ''Booking.com''), (''airbnb'', ''Airbnb''), (''pindora'', ''Pindora'')]"

definition ensure_component :: "string \<times> string \<Rightarrow> db \<Rightarrow> db" where
  "ensure_component c d =
     (if fst c \<in> sc_key ` set (components d) then d
      else add_component \<lparr>sc_id = next_key T_components d, sc_key = fst c, sc_name = snd c, sc_state = ''operational'', sc_scheduled = False\<rparr> d)"

definition ensure_default_components :: "world \<Rightarrow> world" where
  "ensure_default_components w =
     (let w' = on_db (fold ensure_component default_components) w
      in if set (map fst default_components) \<subseteq> sc_key ` set (components (cur w)) then w else commit w')"

definition record_check :: "string \<Rightarrow> bool \<Rightarrow> int option \<Rightarrow> string option \<Rightarrow> world \<Rightarrow> world" where
  "record_check key ok latency msg w =
     on_db (\<lambda>d. add_check \<lparr>sk_id = next_key T_checks d, sk_component = key, sk_at = clock w, sk_ok = ok, sk_latency = latency,
       sk_error = none_if_empty (take 1000 (or_empty msg))\<rparr> d) w"

definition base_url :: "env \<Rightarrow> string" where
  "base_url en = rev (dropWhile (\<lambda>c. c = CHR ''/'')
     (rev (if app_base_url en = '''' then ''http://127.0.0.1:5000'' else app_base_url en)))"

definition check_http :: "env \<Rightarrow> string \<Rightarrow> string \<Rightarrow> int \<Rightarrow> world \<Rightarrow> world" where
  "check_http en key path ms w =
     (let w1 = call_out (HttpGet (base_url en @ path)) w in
      case http_get en (out w1) of
        Inl e \<Rightarrow> record_check key False None (Some e) w1
      | Inr n \<Rightarrow> record_check key (n < 400) (Some ms) (if n < 400 then None else Some (''HTTP '' @ show_int n)) w1)"

definition check_email :: "env \<Rightarrow> world \<Rightarrow> world" where
  "check_email en w =
     (let ok = (mail_api_key en \<noteq> '''' \<and> mail_domain en \<noteq> '''')
      in record_check ''email'' ok (Some 0) (if ok then None else Some ''Mailgun not configured'') w)"

definition latest_backup :: "db \<Rightarrow> backup_row option" where
  "latest_backup d =
     (case rev (sort_key bk_created_at (filter (\<lambda>b. bk_status b = ''success'') (backups d))) of [] \<Rightarrow> None | b # _ \<Rightarrow> Some b)"

definition check_backups :: "world \<Rightarrow> world" where
  "check_backups w =
     (case latest_backup (cur w) of
        None \<Rightarrow> record_check ''backups'' False None (Some ''No successful backup found'') w
      | Some b \<Rightarrow>
          let ok = clock w - bk_created_at b < hours 36
          in record_check ''backups'' ok (Some 0) (if ok then None else Some ''Last backup too old'') w)"

definition check_simple :: "string \<Rightarrow> world \<Rightarrow> world" where
  "check_simple key w = record_check key True (Some 0) None w"

definition run_synthetic_checks :: "env \<Rightarrow> int \<Rightarrow> int \<Rightarrow> world \<Rightarrow> world" where
  "run_synthetic_checks en api_ms web_ms w =
     commit (fold check_simple [''channel_manager'', ''booking_com'', ''airbnb'', ''pindora'']
       (check_backups (check_email en (check_http en ''web'' ''/health'' web_ms
         (check_http en ''api'' ''/api/v1/health'' api_ms (ensure_default_components w))))))"

subsection \<open>Readiness\<close>

type_synonym health = "(string \<times> json) list"

definition health_ok :: "health \<Rightarrow> bool" where
  "health_ok c = (map_of c ''ok'' = Some (JBool True))"

definition check_db_ready :: "string option \<Rightarrow> int \<Rightarrow> health" where
  \<comment> \<open>the error of the probe, if any, and its latency\<close>
  "check_db_ready failed ms =
     [(''name'', JStr ''db''), (''ok'', JBool (failed = None \<and> ms \<le> 500)), (''latency_ms'', JInt ms)]
     @ (case failed of Some e \<Rightarrow> [(''error'', JStr e)] | None \<Rightarrow> if 500 < ms then [(''error'', JStr ''DB latency too high'')] else [])"

record mailgun_cache =
  mc_at :: int  \<comment> \<open>microseconds of the monotonic clock\<close>
  mc_ok :: bool
  mc_detail :: "string option"

definition fresh_cache :: mailgun_cache where
  "fresh_cache = \<lparr>mc_at = 0, mc_ok = False, mc_detail = Some ''uninitialized''\<rparr>"

definition mailgun_check :: "bool \<Rightarrow> string option \<Rightarrow> bool \<Rightarrow> health" where
  "mailgun_check ok detail cached =
     [(''name'', JStr ''mailgun''), (''ok'', JBool ok), (''cached'', JBool cached)]
     @ (case detail of None \<Rightarrow> [] | Some e \<Rightarrow> if e = '''' then [] else [(''error'', JStr e)])"

definition check_mailgun_ready ::
  "env \<Rightarrow> string \<Rightarrow> int \<Rightarrow> mailgun_cache \<Rightarrow> world \<Rightarrow> health \<times> mailgun_cache \<times> world" where
  "check_mailgun_ready en mailgun_url ticks cache w =
     (if ticks - mc_at cache < seconds 30 then (mailgun_check (mc_ok cache) (mc_detail cache) True, cache, w)
      else if strip (mail_api_key en) = '''' \<or> strip (mail_domain en) = ''''
      then ([(''name'', JStr ''mailgun''), (''ok'', JBool True), (''disabled'', JBool True)], cache, w)
      else
        let w1 = call_out (HttpGet (mailgun_url @ ''/'' @ strip (mail_domain en) @ ''/log'')) w;
            detail = (case http_get en (out w1) of Inl e \<Rightarrow> Some e | Inr n \<Rightarrow> if n = 200 then None else Some (''HTTP '' @ show_int n));
            ok = (detail = None); cache' = \<lparr>mc_at = ticks, mc_ok = ok, mc_detail = detail\<rparr>
        in ([(''name'', JStr ''mailgun''), (''ok'', JBool ok), (''cached'', JBool False)]
              @ (case detail of None \<Rightarrow> [] | Some e \<Rightarrow> [(''error'', JStr e)]), cache',
            if ok then w1
            else audit_record en ''monitoring.mailgun_unreachable'' (audit_defaults\<lparr>aa_status := Some ''failure'',
                   aa_target_type := Some ''mailgun'',
                   aa_metadata := Some [(''error'', JStr (take 200 (if or_empty detail = '''' then ''unknown'' else or_empty detail)))]\<rparr>) w1))"

record scheduler_state =
  ss_name :: string
  ss_running :: bool
  ss_jobs :: "(string \<times> bool) list"  \<comment> \<open>a job and whether it has a next run\<close>

definition quoted_list :: "string list \<Rightarrow> string" where
  \<comment> \<open>\<open>repr\<close> of a list of names without quotes in them\<close>
  "quoted_list xs = ''['' @ concat (map2 (\<lambda>i x. (if i = 0 then '''' else '', '') @ [CHR 0x27] @ x @ [CHR 0x27]) [0..<length xs] xs) @ '']''"

definition check_scheduler_running :: "scheduler_state list \<Rightarrow> bool \<Rightarrow> health" where
  "check_scheduler_running ss enabled =
     (let up = filter ss_running ss;
          stuck = concat (map (\<lambda>x. map (\<lambda>j. ss_name x @ '':'' @ fst j) (filter (\<lambda>j. \<not> snd j) (ss_jobs x))) up)
      in if up \<noteq> [] \<and> stuck = [] then [(''name'', JStr ''scheduler''), (''ok'', JBool True), (''running'', JList (map (\<lambda>x. JStr (ss_name x)) up))]
         else if up = [] \<and> \<not> enabled then [(''name'', JStr ''scheduler''), (''ok'', JBool True), (''disabled'', JBool True)]
         else if stuck \<noteq> [] then [(''name'', JStr ''scheduler''), (''ok'', JBool False), (''error'', JStr (''jobs without next_run_time: '' @ quoted_list stuck))]
         else [(''name'', JStr ''scheduler''), (''ok'', JBool False), (''error'', JStr ''No running APScheduler instance detected'')])"

definition check_backup_recency :: "env \<Rightarrow> (int \<Rightarrow> json) \<Rightarrow> world \<Rightarrow> health \<times> world" where
  "check_backup_recency en in_hours w =
     (case latest_backup (cur w) of
        None \<Rightarrow> ([(''name'', JStr ''backup''), (''ok'', JBool True), (''warning'', JStr ''No successful backup found'')], w)
      | Some b \<Rightarrow>
          let age = clock w - bk_created_at b;
              c = [(''name'', JStr ''backup''), (''ok'', JBool True), (''age_hours'', in_hours age)]
          in if hours 36 < age
             then (c @ [(''warning'', JStr ''Last successful backup is older than 36h'')],
                   audit_record en ''monitoring.backup_overdue'' (audit_defaults\<lparr>aa_status := Some ''failure'',
                     aa_target_type := Some ''backup'', aa_metadata := Some [(''last_success_at'', JStr (stamp_iso (bk_created_at b)))]\<rparr>) w)
             else if hours 25 < age then (c @ [(''warning'', JStr ''Last successful backup is older than 25h'')], w)
             else (c, w))"

definition oldest_pending_minutes :: "world \<Rightarrow> int" where
  "oldest_pending_minutes w =
     (case sort_key em_created_at (filter (\<lambda>m. em_status m = ''pending'') (email_queue (cur w))) of
        [] \<Rightarrow> 0 | m # _ \<Rightarrow> max 0 ((clock w - em_created_at m) div seconds 60))"

definition failed_mails :: "db \<Rightarrow> nat" where
  "failed_mails d = length (filter (\<lambda>m. em_status m = ''failed'') (email_queue d))"

definition check_email_queue_ready :: "world \<Rightarrow> health" where
  "check_email_queue_ready w =
     (let pending = length (filter (\<lambda>m. em_status m = ''pending'') (email_queue (cur w))); failed = failed_mails (cur w);
          old = oldest_pending_minutes w
      in [(''name'', JStr ''email_queue''), (''ok'', JBool (failed \<le> 10)), (''pending'', JInt (int pending)), (''failed'', JInt (int failed)),
          (''oldest_pending_age_minutes'', JInt old)]
         @ (if 10 < failed then [(''warning'', JStr ''Too many failed emails in queue'')]
            else if 30 < old then [(''warning'', JStr ''Oldest pending email is older than 30 minutes'')] else []))"

definition or_null :: "json option \<Rightarrow> json" where "or_null x = (case x of None \<Rightarrow> JNull | Some j \<Rightarrow> j)"

definition safe_check :: "health \<Rightarrow> json" where
  "safe_check c =
     JObj [(''name'', or_null (map_of c ''name'')), (''ok'', JBool (health_ok c)), (''latency_ms'', or_null (map_of c ''latency_ms'')),
       (''warning'', or_null (map_of c ''warning'')),
       (''error'', JStr (case map_of c ''error'' of Some (JStr e) \<Rightarrow> take 120 e | _ \<Rightarrow> ''''))]"

record machine =
  mm_db_error :: "string option"
  mm_db_ms :: int
  mm_ticks :: int
  mm_schedulers :: "scheduler_state list"
  mm_scheduler_enabled :: bool
  mm_mailgun_url :: string
  mm_in_hours :: "int \<Rightarrow> json"

definition readiness_status :: "env \<Rightarrow> machine \<Rightarrow> mailgun_cache \<Rightarrow> world \<Rightarrow> (bool \<times> health list) \<times> mailgun_cache \<times> world" where
  "readiness_status en m cache w =
     (case check_mailgun_ready en (mm_mailgun_url m) (mm_ticks m) cache w of (mail, cache', w1) \<Rightarrow>
      case check_backup_recency en (mm_in_hours m) w1 of (backup, w2) \<Rightarrow>
        let db = check_db_ready (mm_db_error m) (mm_db_ms m); sched = check_scheduler_running (mm_schedulers m) (mm_scheduler_enabled m);
            queue = check_email_queue_ready w2; checks = [db, mail, sched, backup, queue];
            ok = (health_ok db \<and> health_ok sched \<and> health_ok queue)
        in ((ok, checks), cache',
            if ok then w2
            else audit_record en ''monitoring.health_check_failed'' (audit_defaults\<lparr>aa_status := Some ''failure'',
                   aa_target_type := Some ''monitoring'', aa_metadata := Some [(''checks'', JList (map safe_check checks))]\<rparr>) w2))"

subsection \<open>The status page\<close>

definition status_uptime :: "stamp \<Rightarrow> string \<Rightarrow> int \<Rightarrow> db \<Rightarrow> nat \<times> nat" where
  \<comment> \<open>the successful probes of the window and all of them; a percentage of 100 without any\<close>
  "status_uptime now key window d =
     (let rows = filter (\<lambda>k. sk_component k = key \<and> now - days window \<le> sk_at k \<and> sk_at k \<le> now) (checks d)
      in (length (filter sk_ok rows), length rows))"

definition public_status_payload :: "env \<Rightarrow> stamp \<Rightarrow> int \<Rightarrow> db \<Rightarrow> (status_component \<times> nat \<times> nat) list \<times> status_incident list" where
  "public_status_payload en now window d =
     (map (\<lambda>c. (c, status_uptime now (sc_key c) window d)) (sort_key (\<lambda>c. collation en (sc_name c)) (components d)),
      take 5 (rev (sort_key si_started_at (incidents d))))"

datatype status_error = Not_found_404 | Status_py py_error

type_synonym form = "string \<Rightarrow> string option"

definition set_component_state :: "form \<Rightarrow> world \<Rightarrow> (status_error + string list) \<times> world" where
  "set_component_state form w =
     (case List.find (\<lambda>c. sc_key c = strip (or_empty (form ''component_key''))) (components (cur w)) of
        None \<Rightarrow> (Inl Not_found_404, w)
      | Some c \<Rightarrow>
          (Inr [''Komponentin tila p'' @ [CHR 0xE4] @ ''ivitetty.''],
           commit (on_db (put_component (c\<lparr>
             sc_state := strip (or_empty (text_or (form ''current_state'') (Some ''operational''))),
             sc_scheduled := or_empty (form ''scheduled_maintenance'') \<noteq> ''''\<rparr>)) w)))"

definition create_incident :: "form \<Rightarrow> world \<Rightarrow> (status_error + string list) \<times> world" where
  "create_incident form w =
     (let title = strip (or_empty (form ''title''));
          i = \<lparr>si_id = next_key T_incidents (cur w),
               si_title = (if title = '''' then ''Nime'' @ [CHR 0xE4] @ ''m'' @ [CHR 0xE4] @ ''t'' @ [CHR 0xF6] @ ''n h'' @ [CHR 0xE4] @ ''iri'' @ [CHR 0xF6] else title),
               si_body = strip (or_empty (form ''body'')), si_started_at = clock w, si_resolved_at = None,
               si_components = filter (\<lambda>x. x \<noteq> '''') (map strip (split_on (CHR '','') (or_empty (form ''component_keys'')))),
               si_severity = strip (or_empty (text_or (form ''severity'') (Some ''minor''))), si_status = ''open''\<rparr>
      in (Inr [''H'' @ [CHR 0xE4] @ ''iri'' @ [CHR 0xF6] @ '' luotu.''], commit (on_db (add_incident i) w)))"

definition close_incident :: "form \<Rightarrow> world \<Rightarrow> (status_error + string list) \<times> world" where
  "close_incident form w =
     (case form ''incident_id'' of
        None \<Rightarrow> (Inl (Status_py TypeError), w)
      | Some text \<Rightarrow>
          (case int_of_text text of
             None \<Rightarrow> (Inl (Status_py ValueError), w)
           | Some n \<Rightarrow>
               (case row_get si_id n (incidents (cur w)) of
                  None \<Rightarrow> (Inl Not_found_404, w)
                | Some i \<Rightarrow>
                    (Inr [''H'' @ [CHR 0xE4] @ ''iri'' @ [CHR 0xF6] @ '' suljettu.''],
                     commit (on_db (put_incident (i\<lparr>si_status := ''resolved'', si_resolved_at := Some (clock w)\<rparr>)) w)))))"

definition apply_superadmin_status_post :: "form \<Rightarrow> world \<Rightarrow> (status_error + string list) \<times> world" where
  "apply_superadmin_status_post form w =
     (let action = strip (or_empty (form ''action'')) in
      if action = ''component_state'' then set_component_state form w
      else if action = ''incident_create'' then create_incident form w
      else if action = ''incident_close'' then close_incident form w
      else (Inr [], w))"

subsection \<open>Theorems\<close>

lemma ensure_components:
  "let d' = fold ensure_component cs d in
     fst ` set cs \<union> sc_key ` set (components d) = sc_key ` set (components d') \<and> checks d' = checks d \<and> backups d' = backups d
     \<and> (distinct (map sc_key (components d)) \<longrightarrow> distinct (map sc_key (components d')))"
proof (induction cs arbitrary: d)
  case (Cons c cs)
  show ?case using Cons.IH [of "ensure_component c d"] by (auto simp: ensure_component_def Let_def split: if_splits)
qed simp

lemma record_check_simps [simp]:
  "checks (cur (record_check k ok ms e w)) = checks (cur w) @ [\<lparr>sk_id = next_key T_checks (cur w), sk_component = k, sk_at = clock w,
     sk_ok = ok, sk_latency = ms, sk_error = none_if_empty (take 1000 (or_empty e))\<rparr>]"
  "clock (record_check k ok ms e w) = clock w" "components (cur (record_check k ok ms e w)) = components (cur w)"
  "backups (cur (record_check k ok ms e w)) = backups (cur w)"
  by (simp_all add: record_check_def)

definition adds_check :: "string \<Rightarrow> world \<Rightarrow> world \<Rightarrow> bool" where
  "adds_check k w w' \<longleftrightarrow> clock w' = clock w \<and> components (cur w') = components (cur w)
     \<and> (\<exists>x. checks (cur w') = checks (cur w) @ [x] \<and> sk_component x = k \<and> sk_at x = clock w)"

lemma one_check:
  "adds_check k w (check_simple k w)" "adds_check ''email'' w (check_email en w)" "adds_check ''backups'' w (check_backups w)"
  "adds_check k w (check_http en k path ms w)"
  by (auto simp: adds_check_def check_simple_def check_email_def check_backups_def check_http_def Let_def split: option.split sum.split)

text \<open>A round of probes appends exactly one row for each of the eight components, in their order, with the time of the
  round; the components exist afterwards, each key once, and all of it is committed.\<close>

theorem round_of_probes:
  assumes "distinct (map sc_key (components (cur w)))"
  shows "let w' = run_synthetic_checks en a b w in
    com w' = cur w' \<and> distinct (map sc_key (components (com w')))
    \<and> set (map fst default_components) \<subseteq> sc_key ` set (components (com w'))
    \<and> take (length (checks (cur w))) (checks (com w')) = checks (cur w)
    \<and> map sk_component (drop (length (checks (cur w))) (checks (com w'))) = map fst default_components
    \<and> list_all (\<lambda>k. sk_at k = clock w) (drop (length (checks (cur w))) (checks (com w')))"
proof -
  let ?w0 = "ensure_default_components w"
  have e: "clock ?w0 = clock w" "checks (cur ?w0) = checks (cur w)" "distinct (map sc_key (components (cur ?w0)))"
    "set (map fst default_components) \<subseteq> sc_key ` set (components (cur ?w0))"
    using ensure_components [of default_components "cur w"] assms by (auto simp: ensure_default_components_def Let_def)
  define w1 where "w1 = check_http en ''api'' ''/api/v1/health'' a ?w0"
  define w2 where "w2 = check_http en ''web'' ''/health'' b w1"
  define w3 where "w3 = check_email en w2"
  define w4 where "w4 = check_backups w3"
  define w5 where "w5 = check_simple ''channel_manager'' w4"
  define w6 where "w6 = check_simple ''booking_com'' w5"
  define w7 where "w7 = check_simple ''airbnb'' w6"
  define w8 where "w8 = check_simple ''pindora'' w7"
  have "adds_check ''api'' ?w0 w1" "adds_check ''web'' w1 w2" "adds_check ''email'' w2 w3" "adds_check ''backups'' w3 w4"
    "adds_check ''channel_manager'' w4 w5" "adds_check ''booking_com'' w5 w6" "adds_check ''airbnb'' w6 w7" "adds_check ''pindora'' w7 w8"
    unfolding w1_def w2_def w3_def w4_def w5_def w6_def w7_def w8_def by (rule one_check)+
  then obtain new where "checks (cur w8) = checks (cur ?w0) @ new" "map sk_component new = map fst default_components"
    "list_all (\<lambda>k. sk_at k = clock ?w0) new" "components (cur w8) = components (cur ?w0)"
    unfolding adds_check_def default_components_def by fastforce
  moreover have "run_synthetic_checks en a b w = commit w8"
    by (simp add: run_synthetic_checks_def w1_def w2_def w3_def w4_def w5_def w6_def w7_def w8_def)
  ultimately show ?thesis using e by (simp add: Let_def)
qed

lemma audit_keeps [simp]:
  "core (cur (audit_record en act a w)) = core (cur w)" "email_queue (cur (audit_record en act a w)) = email_queue (cur w)"
  "clock (audit_record en act a w) = clock w"
  "audit_logs (cur (audit_record en act a w)) \<noteq> []" "al_action (last (audit_logs (cur (audit_record en act a w)))) = act"
  using aside_audit [of w en act a] by (simp_all add: aside_def audit_entry_def Let_def split: prod.split)

lemma scheduler_ok:
  "health_ok (check_scheduler_running ss enabled) \<longleftrightarrow>
    (if \<exists>x\<in>set ss. ss_running x then \<forall>x\<in>set ss. \<forall>j\<in>set (ss_jobs x). ss_running x \<longrightarrow> snd j else \<not> enabled)"
  by (auto simp: check_scheduler_running_def health_ok_def Let_def filter_empty_conv)

text \<open>The service reports itself ready exactly when the database answers within half a second, no more than ten mails have
  failed, and either a scheduler runs with every job of the running ones planned, or none runs and none is
  enabled; mail delivery and backups only warn. A report that is not ready appends its audit row last.\<close>

theorem ready_exactly:
  assumes "readiness_status en m cache w = ((ok, cs), cache', w')"
  shows "(ok \<longleftrightarrow> mm_db_error m = None \<and> mm_db_ms m \<le> 500 \<and> failed_mails (cur w) \<le> 10
      \<and> (if \<exists>x\<in>set (mm_schedulers m). ss_running x
         then \<forall>x\<in>set (mm_schedulers m). \<forall>j\<in>set (ss_jobs x). ss_running x \<longrightarrow> snd j
         else \<not> mm_scheduler_enabled m))
    \<and> (\<not> ok \<longrightarrow> audit_logs (cur w') \<noteq> [] \<and> al_action (last (audit_logs (cur w'))) = ''monitoring.health_check_failed'')
    \<and> length cs = 5 \<and> core (cur w') = core (cur w)"
proof -
  obtain mail c1 w1 where mail: "check_mailgun_ready en (mm_mailgun_url m) (mm_ticks m) cache w = (mail, c1, w1)" by (metis prod_cases3)
  obtain backup w2 where backup: "check_backup_recency en (mm_in_hours m) w1 = (backup, w2)" by fastforce
  have c1: "core (cur w1) = core (cur w)" "email_queue (cur w1) = email_queue (cur w)" "clock w1 = clock w"
    using mail by (auto simp: check_mailgun_ready_def Let_def simp del: audit_record_cur split: if_splits)
  have c2: "core (cur w2) = core (cur w1)" "email_queue (cur w2) = email_queue (cur w1)"
    using backup by (auto simp: check_backup_recency_def Let_def simp del: audit_record_cur split: if_splits option.splits)
  let ?db = "check_db_ready (mm_db_error m) (mm_db_ms m)"
  let ?sched = "check_scheduler_running (mm_schedulers m) (mm_scheduler_enabled m)"
  let ?queue = "check_email_queue_ready w2"
  let ?ok = "health_ok ?db \<and> health_ok ?sched \<and> health_ok ?queue"
  from assms have r: "ok = ?ok" "cs = [?db, mail, ?sched, backup, ?queue]"
      "w' = (if ?ok then w2 else audit_record en ''monitoring.health_check_failed'' (audit_defaults\<lparr>aa_status := Some ''failure'',
          aa_target_type := Some ''monitoring'', aa_metadata := Some [(''checks'', JList (map safe_check cs))]\<rparr>) w2)"
    unfolding readiness_status_def mail backup prod.case Let_def prod.inject by blast+
  have db: "health_ok ?db \<longleftrightarrow> mm_db_error m = None \<and> mm_db_ms m \<le> 500" by (simp add: health_ok_def check_db_ready_def)
  have queue: "health_ok ?queue \<longleftrightarrow> failed_mails (cur w) \<le> 10"
    using c1 c2 by (simp add: health_ok_def check_email_queue_ready_def failed_mails_def Let_def)
  have side: "core (cur w') = core (cur w)"
    "\<not> ok \<Longrightarrow> audit_logs (cur w') \<noteq> [] \<and> al_action (last (audit_logs (cur w'))) = ''monitoring.health_check_failed''"
    unfolding r(3) r(1) [symmetric] using c1 c2 by (simp_all del: audit_record_cur)
  have exact: "ok \<longleftrightarrow> mm_db_error m = None \<and> mm_db_ms m \<le> 500 \<and> failed_mails (cur w) \<le> 10
      \<and> (if \<exists>x\<in>set (mm_schedulers m). ss_running x
         then \<forall>x\<in>set (mm_schedulers m). \<forall>j\<in>set (ss_jobs x). ss_running x \<longrightarrow> snd j
         else \<not> mm_scheduler_enabled m)"
    unfolding r(1) db queue scheduler_ok by blast
  show ?thesis using side exact r(2) by (intro conjI) simp_all
qed

definition sample_machine :: machine where
  "sample_machine = \<lparr>mm_db_error = None, mm_db_ms = 700, mm_ticks = 0, mm_schedulers = [], mm_scheduler_enabled = False,
     mm_mailgun_url = ''https://mg'', mm_in_hours = JInt\<rparr>"

theorem ready_exactly_witness:
  "\<exists>ok cs c w'. readiness_status sample_env sample_machine fresh_cache (world_of empty_db) = ((ok, cs), c, w')
    \<and> \<not> ok \<and> al_action (last (audit_logs (cur w'))) = ''monitoring.health_check_failed''"
proof -
  obtain ok cs c w' where r: "readiness_status sample_env sample_machine fresh_cache (world_of empty_db) = ((ok, cs), c, w')"
    by (metis prod.collapse)
  have "\<not> ok \<and> al_action (last (audit_logs (cur w'))) = ''monitoring.health_check_failed''"
    using ready_exactly [OF r] by (simp add: sample_machine_def)
  then show ?thesis using r by blast
qed

theorem round_of_probes_witness:
  "map sk_component (checks (com (run_synthetic_checks sample_env 5 7 (world_of empty_db)))) = map fst default_components"
  using round_of_probes [of "world_of empty_db" sample_env 5 7] by (auto simp: Let_def)

end
