(* ===== verification/Expenses.thy ===== *)
theory Expenses
  imports RowBooks
begin

text \<open>
  Expenses (app/expenses/services.py): parsing of the amount and the date, the organization check of
  the property, the insert and the list. Main facts: every stored expense has a known category, amounts
  that are not negative and a property of its own organization; a refused one leaves nothing behind.
\<close>

definition e_expense :: "string \<Rightarrow> exn" where
  "e_expense msg = ServiceError Expense_service ''validation_error'' msg 400"

definition allowed_categories :: "string list" where
  "allowed_categories =
     [''cleaning'', ''maintenance'', ''utilities'', ''insurance'', ''taxes'', ''marketing'', ''other'']"

definition parse_expense_amount :: "scalar \<Rightarrow> string \<Rightarrow> exn + cents" where
  \<comment> \<open>a NaN passes \<open>quantize\<close> and fails at the comparison, outside the \<open>try\<close>\<close>
  "parse_expense_amount raw nm =
     (let t = strip (str_or raw '''') in
      if t = '''' then Inl (e_expense (nm @ '' is required.''))
      else case parse_decimal t of
        None \<Rightarrow> Inl (e_expense (nm @ '' must be decimal.''))
      | Some d \<Rightarrow>
          (case quantize HalfEven d of
             None \<Rightarrow> Inl (e_expense (nm @ '' must be decimal.''))
           | Some (DFin c e) \<Rightarrow> if c < 0 then Inl (e_expense (nm @ '' must be >= 0.'')) else Inr c
           | Some _ \<Rightarrow> Inl (PyError InvalidOperation)))"

definition parse_expense_date :: "string \<Rightarrow> exn + date" where
  "parse_expense_date raw =
     (case fromisoformat (strip raw) of None \<Rightarrow> Inl (e_expense ''date must be YYYY-MM-DD.'') | Some x \<Rightarrow> Inr x)"

definition ensure_property_in_org :: "int \<Rightarrow> int option \<Rightarrow> db \<Rightarrow> bool" where
  "ensure_property_in_org oid pid d =
     (case pid of None \<Rightarrow> True | Some p \<Rightarrow> find_property oid p d \<noteq> None)"

definition list_expenses :: "int \<Rightarrow> int option \<Rightarrow> db \<Rightarrow> expense list" where
  "list_expenses oid pid d =
     order2_desc ex_date ex_id
       (filter (\<lambda>x. ex_org x = oid \<and> (case pid of None \<Rightarrow> True | Some p \<Rightarrow> ex_property x = Some p)) (expenses d))"

record expense_args =
  xa_property :: "int option"
  xa_category :: string
  xa_amount :: scalar
  xa_vat :: scalar
  xa_date :: string
  xa_description :: "string option"
  xa_payee :: "string option"

definition expense_plan :: "int \<Rightarrow> expense_args \<Rightarrow> db \<Rightarrow> exn + expense" where
  "expense_plan oid a d =
     (let cat = lower (strip (xa_category a)) in
      if cat \<notin> set allowed_categories then Inl (e_expense ''Invalid category.'')
      else if \<not> ensure_property_in_org oid (xa_property a) d
      then Inl (e_expense ''Property not found in organization.'')
      else case parse_expense_amount (xa_amount a) ''amount'' of
        Inl e \<Rightarrow> Inl e
      | Inr amount \<Rightarrow>
     (case parse_expense_amount (if truthy (xa_vat a) then xa_vat a else SStr ''0'') ''vat'' of
        Inl e \<Rightarrow> Inl e
      | Inr vat \<Rightarrow>
     (case parse_expense_date (xa_date a) of
        Inl e \<Rightarrow> Inl e
      | Inr day \<Rightarrow>
          Inr \<lparr>ex_id = next_key T_expenses d, ex_org = oid, ex_property = xa_property a, ex_category = cat,
               ex_amount = amount, ex_vat = vat, ex_date = day,
               ex_description = none_if_empty (strip (or_empty (xa_description a))),
               ex_payee = none_if_empty (strip (or_empty (xa_payee a)))\<rparr>)))"

definition expense_audit :: "expense \<Rightarrow> int option \<Rightarrow> audit_args" where
  "expense_audit x actor =
     audit_defaults\<lparr>aa_org := Some (ex_org x), aa_target_type := Some ''expense'', aa_target_id := Some (ex_id x),
       aa_actor_id := actor,
       aa_metadata := Some [(''category'', JStr (ex_category x)), (''amount'', JStr (money_str (ex_amount x))),
         (''vat'', JStr (money_str (ex_vat x))), (''property_id'', (case ex_property x of None \<Rightarrow> JNull | Some p \<Rightarrow> JInt p))]\<rparr>"

definition create_expense :: "env \<Rightarrow> int \<Rightarrow> expense_args \<Rightarrow> int option \<Rightarrow> world \<Rightarrow> (exn + expense) \<times> world" where
  "create_expense en oid a actor w =
     (case expense_plan oid a (cur w) of
        Inl e \<Rightarrow> (Inl e, w)
      | Inr x \<Rightarrow> (Inr x, commit (audit_record en ''expense.created'' (expense_audit x actor) (on_db (add_expense x) w))))"

subsection \<open>What is stored\<close>

definition expense_ok :: "db \<Rightarrow> expense \<Rightarrow> bool" where
  "expense_ok d x \<longleftrightarrow> ex_category x \<in> set allowed_categories \<and> 0 \<le> ex_amount x \<and> 0 \<le> ex_vat x
     \<and> (case ex_property x of None \<Rightarrow> True | Some p \<Rightarrow> find_property (ex_org x) p d \<noteq> None)"

lemma parse_expense_amount_nonneg: "parse_expense_amount raw nm = Inr c \<Longrightarrow> 0 \<le> c"
  by (auto simp: parse_expense_amount_def Let_def split: option.splits decimal.splits if_splits)

lemma expense_plan_ok:
  assumes "expense_plan oid a d = Inr x"
  shows "expense_ok d x" and "ex_id x = next_key T_expenses d" and "ex_org x = oid" and "valid_date (ex_date x)"
  using assms
  by (auto simp: expense_plan_def expense_ok_def ensure_property_in_org_def parse_expense_date_def Let_def
      dest: parse_expense_amount_nonneg fromisoformat_valid split: option.splits if_splits sum.splits)

lemma create_expense_cases:
  assumes "create_expense en oid a actor w = (x, w')"
  obtains e where "x = Inl e" "w' = w"
  | r where "x = Inr r" "expense_plan oid a (cur w) = Inr r" "core (cur w') = core (add_expense r (cur w))" "com w' = cur w'"
proof (cases "expense_plan oid a (cur w)")
  case (Inr r)
  let ?v = "audit_record en ''expense.created'' (expense_audit r actor) (on_db (add_expense r) w)"
  have w': "x = Inr r" "w' = commit ?v" using assms Inr by (simp_all add: create_expense_def)
  have "core (cur ?v) = core (cur (on_db (add_expense r) w))"
    by (rule aside_audit [unfolded aside_def, THEN conjunct1])
  then have "core (cur w') = core (add_expense r (cur w))" unfolding w'(2) by (simp only: on_db_simps commit_simps)
  then show ?thesis by (rule that(2) [OF w'(1) Inr]) (simp add: w'(2))
next
  case (Inl e)
  have "x = Inl e" "w' = w" using assms Inl by (simp_all add: create_expense_def)
  then show ?thesis by (rule that(1))
qed

inductive expense_reachable :: "env \<Rightarrow> db \<Rightarrow> bool" for en where
  start: "expenses d = [] \<Longrightarrow> expense_reachable en d"
| create: "expense_reachable en d \<Longrightarrow> cur w = d \<Longrightarrow> create_expense en oid a actor w = (x, w') \<Longrightarrow> expense_reachable en (cur w')"

lemma core_expenses: "core d' = core d \<Longrightarrow> expenses d' = expenses d"
  by (drule arg_cong [of _ _ expenses]) (simp add: core_def)

lemma expense_ok_cong: "properties d' = properties d \<Longrightarrow> expense_ok d' x = expense_ok d x"
  by (simp add: expense_ok_def find_property_def split: option.split)

text \<open>What is stored is well formed, and a refusal stores nothing. In every reachable state each
  expense has a known category, amounts that are not negative and a property of its own organization;
  a call that fails leaves the world as it was.\<close>

theorem expenses_well_formed:
  assumes "expense_reachable en d"
  shows "\<forall>x\<in>set (expenses d). expense_ok d x"
  using assms
proof (induction rule: expense_reachable.induct)
  case (create d w oid a actor x w')
  from create.hyps(3) show ?case
  proof (cases rule: create_expense_cases)
    case (2 r)
    have e: "expenses (cur w') = expenses d @ [r]" "properties (cur w') = properties d"
      using core_expenses [OF 2(3)] core_tables(3) [OF 2(3)] create.hyps(2) by simp_all
    have "expense_ok d r" using expense_plan_ok(1) [OF 2(2)] create.hyps(2) by simp
    with create.IH show ?thesis by (simp add: e expense_ok_cong [OF e(2)])
  qed (use create in simp)
qed simp

definition sample_expense_args :: expense_args where
  "sample_expense_args = \<lparr>xa_property = Some 1, xa_category = '' Cleaning'', xa_amount = SStr ''12.345'', xa_vat = SNone,
     xa_date = ''2026-01-05'', xa_description = None, xa_payee = Some '' ''\<rparr>"

lemma sample_expense: "expense_plan 1 sample_expense_args sample_db = Inr \<lparr>ex_id = 1, ex_org = 1, ex_property = Some 1,
    ex_category = ''cleaning'', ex_amount = 1234, ex_vat = 0, ex_date = ordinal_of 2026 1 5, ex_description = None, ex_payee = None\<rparr>"
  by code_simp

lemma nan_amount_escapes: "parse_expense_amount (SStr ''NaN'') ''amount'' = Inl (PyError InvalidOperation)"
  by code_simp

theorem expenses_well_formed_witness:
  "let d = cur (snd (create_expense sample_env 1 sample_expense_args None (world_of sample_db)))
   in map ex_amount (expenses d) = [1234] \<and> filter (expense_ok d) (expenses d) = expenses d"
proof -
  obtain x w' where c: "create_expense sample_env 1 sample_expense_args None (world_of sample_db) = (x, w')" by fastforce
  have e: "expenses sample_db = []" by (simp add: sample_db_def)
  have "expense_reachable sample_env (cur w')"
    by (rule expense_reachable.create [OF expense_reachable.start [OF e] _ c]) simp
  from expenses_well_formed [OF this] have "filter (expense_ok (cur w')) (expenses (cur w')) = expenses (cur w')"
    by (simp add: filter_id_conv)
  moreover have "map ex_amount (expenses (cur w')) = [1234]"
    using c by (auto simp: create_expense_def sample_expense e)
  ultimately show ?thesis unfolding c by simp
qed

end
