(* ===== verification/Reports.thy ===== *)
theory Reports
  imports Expenses Leases "HOL-Library.Product_Lexorder"
begin

text \<open>
  The financial reports (app/reports/services.py): occupancy, cash flow, income and expense breakdowns,
  overdue receivables, the forecast, and profitability. Sums of stored amounts are exact, so they are
  integers of cents; a percentage is kept as the two numbers it is computed from; days of time stamps are
  UTC. Main facts: the reports agree on their totals, the forecast counts exactly the due days, the
  profitability report loses income.
\<close>

subsection \<open>Dictionaries of sums\<close>

definition bump_at :: "'k \<Rightarrow> ('v \<Rightarrow> 'v) \<Rightarrow> ('k \<times> 'v) list \<Rightarrow> ('k \<times> 'v) list" where
  \<comment> \<open>\<open>if k in d: d[k] = f(d[k])\<close>\<close>
  "bump_at k f xs = map (\<lambda>(i, v). (i, if i = k then f v else v)) xs"

definition dict_add :: "'k \<Rightarrow> int \<Rightarrow> ('k \<times> int) list \<Rightarrow> ('k \<times> int) list" where
  \<comment> \<open>\<open>d[k] = d.get(k, 0) + v\<close>\<close>
  "dict_add k v xs = dict_set k ((case map_of xs k of None \<Rightarrow> 0 | Some x \<Rightarrow> x) + v) xs"

subsection \<open>Occupancy and reservations\<close>

definition org_units :: "int \<Rightarrow> db \<Rightarrow> unit_row list" where
  "org_units oid d = filter (\<lambda>u. property_org (u_property u) d = Some oid) (units d)"

definition reserved_in :: "date \<Rightarrow> date \<Rightarrow> db \<Rightarrow> unit_row \<Rightarrow> bool" where
  "reserved_in s e d u \<longleftrightarrow>
     (\<exists>r\<in>set (reservations d). res_unit r = u_id u \<and> res_status r = ''confirmed'' \<and> res_start r < e \<and> s < res_end r)"

definition occupancy_report :: "int \<Rightarrow> date \<Rightarrow> date \<Rightarrow> db \<Rightarrow> nat \<times> nat" where
  \<comment> \<open>all units and the reserved ones\<close>
  "occupancy_report oid s e d =
     (length (org_units oid d), length (filter (reserved_in s e d) (org_units oid d)))"

definition reservation_report :: "int \<Rightarrow> db \<Rightarrow> nat \<times> nat \<times> nat" where
  "reservation_report oid d =
     (let rs = scoped_reservations oid d
      in (length rs, length (filter (\<lambda>r. res_status r = ''confirmed'') rs),
          length (filter (\<lambda>r. res_status r = ''cancelled'') rs)))"

subsection \<open>Months\<close>

definition month_le :: "int \<times> int \<Rightarrow> int \<times> int \<Rightarrow> bool" where
  \<comment> \<open>dates compare by year, month and day; here the day is 1\<close>
  "month_le a b \<longleftrightarrow> fst a < fst b \<or> fst a = fst b \<and> snd a \<le> snd b"

definition next_month :: "int \<times> int \<Rightarrow> int \<times> int" where
  "next_month a = (if 12 \<le> snd a then (fst a + 1, 1) else (fst a, snd a + 1))"

function months_from :: "int \<times> int \<Rightarrow> int \<times> int \<Rightarrow> (int \<times> int) list" where
  "months_from a b = (if month_le a b then a # months_from (next_month a) b else [])"
  by auto
termination
  by (relation "measures [\<lambda>(a, b). nat (fst b - fst a + 1), \<lambda>(a, b). nat (13 - snd a)]")
    (auto simp: month_le_def next_month_def)

declare months_from.simps [simp del]

definition month_iter :: "date \<Rightarrow> date \<Rightarrow> date list" where
  "month_iter s e =
     map (\<lambda>(y, m). ordinal_of y m 1) (months_from (year_of s, month_of s) (year_of e, month_of e))"

definition month_key :: "date \<Rightarrow> string" where
  "month_key d = fmt0 4 (year_of d) @ ''-'' @ fmt0 2 (month_of d)"

subsection \<open>Income and expenses\<close>

definition lease_unit :: "db \<Rightarrow> invoice \<Rightarrow> unit_row option" where
  "lease_unit d i =
     Option.bind (inv_lease i) (\<lambda>l. Option.bind (row_get le_id l (leases d)) (\<lambda>x. unit_get (le_unit x) d))"

definition stay_unit :: "db \<Rightarrow> invoice \<Rightarrow> unit_row option" where
  "stay_unit d i =
     Option.bind (inv_reservation i) (\<lambda>r. Option.bind (row_get res_id r (reservations d)) (\<lambda>x. unit_get (res_unit x) d))"

definition invoice_property_id :: "db \<Rightarrow> invoice \<Rightarrow> int option" where
  "invoice_property_id d i =
     (case lease_unit d i of Some u \<Rightarrow> Some (u_property u) | None \<Rightarrow> map_option u_property (stay_unit d i))"

definition invoice_income_type :: "invoice \<Rightarrow> string" where
  "invoice_income_type i =
     (let meta = (case inv_metadata i of JObj kvs \<Rightarrow> kvs | _ \<Rightarrow> []);
          raw = (case map_of meta ''invoice_kind'' of None \<Rightarrow> JNull | Some v \<Rightarrow> v);
          kind = lower (strip (if json_truthy raw then json_str raw else ''''));
          desc = lower (or_empty (inv_description i))
      in if kind \<in> {''rent'', ''service'', ''deposit''} then kind
         else if contains ''deposit'' desc \<or> contains ''vakuus'' desc then ''deposit''
         else if contains ''service'' desc \<or> contains ''palvelu'' desc then ''service''
         else ''rent'')"

definition paid_on :: "invoice \<Rightarrow> date" where
  "paid_on i = (case inv_paid_at i of None \<Rightarrow> 0 | Some t \<Rightarrow> utc_date t)"

definition paid_invoices :: "int \<Rightarrow> date \<Rightarrow> date \<Rightarrow> db \<Rightarrow> invoice list" where
  "paid_invoices oid s e d =
     order2 (\<lambda>i. case inv_paid_at i of None \<Rightarrow> 0 | Some t \<Rightarrow> t) inv_id
       (filter (\<lambda>i. inv_org i = oid \<and> inv_status i \<noteq> ''cancelled'' \<and> inv_paid_at i \<noteq> None
          \<and> s \<le> paid_on i \<and> paid_on i \<le> e) (invoices d))"

definition period_expenses :: "int \<Rightarrow> date \<Rightarrow> date \<Rightarrow> db \<Rightarrow> expense list" where
  "period_expenses oid s e d =
     order2 ex_date ex_id (filter (\<lambda>x. ex_org x = oid \<and> s \<le> ex_date x \<and> ex_date x \<le> e) (expenses d))"

definition of_property :: "int option \<Rightarrow> ('r \<Rightarrow> int option) \<Rightarrow> 'r list \<Rightarrow> 'r list" where
  "of_property pid f xs = (case pid of None \<Rightarrow> xs | Some p \<Rightarrow> filter (\<lambda>x. f x = Some p) xs)"

record cash_group =
  cf_label :: string
  cf_income :: cents
  cf_expenses :: cents
  cf_net :: cents

definition cash_buckets :: "date \<Rightarrow> date \<Rightarrow> (string \<times> cash_group) list" where
  "cash_buckets s e =
     fold (\<lambda>m. dict_set (month_key m) \<lparr>cf_label = month_key m, cf_income = 0, cf_expenses = 0, cf_net = 0\<rparr>)
       (month_iter s e) []"

definition filled_buckets :: "invoice list \<Rightarrow> expense list \<Rightarrow> (string \<times> cash_group) list \<Rightarrow> (string \<times> cash_group) list" where
  "filled_buckets is xs bs =
     fold (\<lambda>x. bump_at (month_key (ex_date x)) (\<lambda>b. b\<lparr>cf_expenses := cf_expenses b + ex_amount x\<rparr>)) xs
       (fold (\<lambda>i. bump_at (month_key (paid_on i)) (\<lambda>b. b\<lparr>cf_income := cf_income b + inv_total i\<rparr>)) is bs)"

definition cash_flow_report ::
  "int \<Rightarrow> date \<Rightarrow> date \<Rightarrow> int option \<Rightarrow> string \<Rightarrow> db \<Rightarrow> exn + (cash_group list \<times> cents \<times> cents \<times> cents)" where
  "cash_flow_report oid s e pid group_by d =
     (if group_by \<noteq> ''month'' then Inl (PyError ValueError)
      else
        let is = of_property pid (invoice_property_id d) (paid_invoices oid s e d);
            xs = of_property pid ex_property (period_expenses oid s e d);
            bs = map (\<lambda>(k, b). (k, b\<lparr>cf_net := cf_income b - cf_expenses b\<rparr>)) (filled_buckets is xs (cash_buckets s e));
            groups = map snd (sort_key fst bs);
            income = (\<Sum>g\<leftarrow>groups. cf_income g);
            spent = (\<Sum>g\<leftarrow>groups. cf_expenses g)
        in Inr (groups, income, spent, income - spent))"

definition income_breakdown_report :: "int \<Rightarrow> date \<Rightarrow> date \<Rightarrow> int option \<Rightarrow> db \<Rightarrow> (string \<times> cents) list \<times> cents" where
  "income_breakdown_report oid s e pid d =
     (let totals = fold (\<lambda>i. bump_at (invoice_income_type i) ((+) (inv_total i)))
            (of_property pid (invoice_property_id d) (paid_invoices oid s e d))
            [(''rent'', 0), (''service'', 0), (''deposit'', 0)]
      in (totals, \<Sum>x\<leftarrow>totals. snd x))"

definition expense_label :: "expense \<Rightarrow> string" where
  "expense_label x =
     (let c = lower (strip (if ex_category x = '''' then ''other'' else ex_category x)) in if c = '''' then ''other'' else c)"

definition expenses_breakdown_report :: "int \<Rightarrow> date \<Rightarrow> date \<Rightarrow> int option \<Rightarrow> db \<Rightarrow> (string \<times> cents) list \<times> cents" where
  "expenses_breakdown_report oid s e pid d =
     (let groups = sort_key fst (fold (\<lambda>x. dict_add (expense_label x) (ex_amount x))
            (of_property pid ex_property (period_expenses oid s e d)) [])
      in (groups, \<Sum>x\<leftarrow>groups. snd x))"

subsection \<open>Receivables and the forecast\<close>

definition overdue_invoices :: "int \<Rightarrow> date \<Rightarrow> db \<Rightarrow> invoice list" where
  "overdue_invoices oid as_of d =
     filter (\<lambda>i. inv_org i = oid \<and> inv_status i \<in> {''open'', ''overdue''} \<and> inv_due i < as_of) (invoices d)"

definition aging_bucket :: "int \<Rightarrow> string" where
  "aging_bucket n =
     (if n \<le> 30 then ''0_30'' else if n \<le> 60 then ''31_60'' else if n \<le> 90 then ''61_90'' else ''90_plus'')"

definition compute_aging_receivables :: "int \<Rightarrow> date \<Rightarrow> db \<Rightarrow> (string \<times> cents) list" where
  "compute_aging_receivables oid as_of d =
     fold (\<lambda>i. bump_at (aging_bucket (as_of - inv_due i)) ((+) (inv_total i))) (overdue_invoices oid as_of d)
       [(''0_30'', 0), (''31_60'', 0), (''61_90'', 0), (''90_plus'', 0)]"

definition due_in_month :: "int \<Rightarrow> int \<times> int \<Rightarrow> date" where
  "due_in_month day a =
     (let last_day = day_of (ordinal_of (fst (next_month a)) (snd (next_month a)) 1 - 1)
      in ordinal_of (fst a) (snd a) (min day last_day))"

function count_months :: "date \<Rightarrow> date \<Rightarrow> date \<Rightarrow> int \<times> int \<Rightarrow> int \<times> int \<Rightarrow> nat \<Rightarrow> nat" where
  "count_months ls ws we a b n =
     (if month_le a b
      then count_months ls ws we (next_month a) b
        (let due = due_in_month (day_of ls) a in if ws \<le> due \<and> due \<le> we \<and> ls \<le> due then n + 1 else n)
      else n)"
  by auto
termination
  by (relation "measures [\<lambda>(ls, ws, we, a, b, n). nat (fst b - fst a + 1), \<lambda>(ls, ws, we, a, b, n). nat (13 - snd a)]")
    (auto simp: month_le_def next_month_def)

declare count_months.simps [simp del]

definition count_monthly_occurrences :: "date \<Rightarrow> date \<Rightarrow> date \<Rightarrow> nat" where
  "count_monthly_occurrences ls ws we =
     count_months ls ws we (year_of ws, month_of ws) (year_of we, month_of we) 0"

definition lease_forecast_amount :: "lease \<Rightarrow> date \<Rightarrow> date \<Rightarrow> cents" where
  "lease_forecast_amount l ws we =
     (if le_status l \<noteq> ''active'' then 0
      else
        let ls = le_start l; le = (case le_end l of None \<Rightarrow> we | Some t \<Rightarrow> t) in
        if le < ws \<or> we < ls then 0
        else
          let cycle = lower (strip (if le_cycle l = '''' then ''monthly'' else le_cycle l)) in
          if cycle = ''one_time'' then (if ws \<le> ls \<and> ls \<le> we then le_rent l else 0)
          else if cycle = ''weekly'' then
            let anchor = max ls ws; offset = (anchor - ls) mod 7;
                first = (if offset = 0 then anchor else anchor + (7 - offset)); fin = min le we
            in if fin < first then 0 else le_rent l * ((fin - first) div 7 + 1)
          else
            let s = max ls ws; e = min le we
            in if e < s then 0 else le_rent l * int (count_monthly_occurrences ls s e))"

definition compute_forecasted_cash_flow :: "env \<Rightarrow> int \<Rightarrow> int \<Rightarrow> db \<Rightarrow> cents" where
  "compute_forecasted_cash_flow en oid days_ahead d =
     (let today = local_today en; horizon = today + max 0 days_ahead in
      (\<Sum>l\<leftarrow>filter (\<lambda>l. le_org l = oid \<and> le_status l = ''active'' \<and> le_start l \<le> horizon) (leases d).
          lease_forecast_amount l today horizon)
      + (\<Sum>r\<leftarrow>filter (\<lambda>r. res_status r = ''confirmed'' \<and> today \<le> res_start r \<and> res_start r \<le> horizon)
            (scoped_reservations oid d). case res_amount r of None \<Rightarrow> 0 | Some c \<Rightarrow> c))"

subsection \<open>Income by property, unit and method\<close>

definition income_property :: "db \<Rightarrow> invoice \<Rightarrow> property_row option" where
  \<comment> \<open>\<open>coalesce\<close> of the property of the lease and that of the stay\<close>
  "income_property d i =
     or_else (Option.bind (lease_unit d i) (\<lambda>u. property_get (u_property u) d))
       (Option.bind (stay_unit d i) (\<lambda>u. property_get (u_property u) d))"

definition income_unit :: "db \<Rightarrow> invoice \<Rightarrow> unit_row option" where
  "income_unit d i = or_else (lease_unit d i) (stay_unit d i)"

definition name_of :: "string \<Rightarrow> ('r \<Rightarrow> string) \<Rightarrow> 'r option \<Rightarrow> string" where
  "name_of other f x = (case x of None \<Rightarrow> other | Some r \<Rightarrow> f r)"

definition provider_of_invoice :: "int \<Rightarrow> invoice \<Rightarrow> db \<Rightarrow> string option" where
  \<comment> \<open>the first successful payment wins\<close>
  "provider_of_invoice oid i d =
     map_option (\<lambda>p. lower (strip (pay_provider p)))
       (List.find (\<lambda>p. pay_org p = oid \<and> pay_status p = ''succeeded'' \<and> pay_invoice p = Some (inv_id i)) (payments d))"

definition method_label :: "string option \<Rightarrow> string" where
  "method_label p =
     (if p = Some ''stripe'' then ''Stripe'' else if p = Some ''paytrail'' then ''Paytrail'' else ''Manuaalinen'')"

definition income_by_property :: "int \<Rightarrow> date \<Rightarrow> date \<Rightarrow> db \<Rightarrow> ((int option \<times> string) \<times> cents) list" where
  "income_by_property oid s e d =
     sort_key (\<lambda>x. lower (snd (fst x)))
       (fold (\<lambda>i. dict_add (map_option p_id (income_property d i), name_of ''Tuntematon'' p_name (income_property d i))
           (inv_total i)) (paid_invoices oid s e d) [])"

definition income_by_unit :: "int \<Rightarrow> date \<Rightarrow> date \<Rightarrow> db \<Rightarrow> ((int option \<times> int option \<times> string \<times> string) \<times> cents) list" where
  "income_by_unit oid s e d =
     sort_key (\<lambda>((u, p, pn, un), c). (lower pn, lower un))
       (fold (\<lambda>i. dict_add (map_option u_id (income_unit d i), map_option p_id (income_property d i),
             name_of ''Tuntematon'' p_name (income_property d i), name_of ''-'' u_name (income_unit d i))
           (inv_total i)) (paid_invoices oid s e d) [])"

definition income_by_method :: "int \<Rightarrow> date \<Rightarrow> date \<Rightarrow> db \<Rightarrow> (string \<times> cents) list" where
  "income_by_method oid s e d =
     fold (\<lambda>i. bump_at (method_label (provider_of_invoice oid i d)) ((+) (inv_total i))) (paid_invoices oid s e d)
       [(''Stripe'', 0), (''Paytrail'', 0), (''Manuaalinen'', 0)]"

record cash_breakdown =
  cb_property :: "((int option \<times> string) \<times> cents) list"
  cb_unit :: "((int option \<times> int option \<times> string \<times> string) \<times> cents) list"
  cb_method :: "(string \<times> cents) list"
  cb_aging :: "(string \<times> cents) list"
  cb_forecast :: "(string \<times> cents) list"

definition compute_cash_flow_breakdown :: "env \<Rightarrow> date \<Rightarrow> date \<Rightarrow> int \<Rightarrow> db \<Rightarrow> cash_breakdown" where
  "compute_cash_flow_breakdown en s e oid d =
     \<lparr>cb_property = income_by_property oid s e d, cb_unit = income_by_unit oid s e d,
      cb_method = income_by_method oid s e d, cb_aging = compute_aging_receivables oid e d,
      cb_forecast = [(''30'', compute_forecasted_cash_flow en oid 30 d),
        (''60'', compute_forecasted_cash_flow en oid 60 d), (''90'', compute_forecasted_cash_flow en oid 90 d)]\<rparr>"

subsection \<open>Profitability\<close>

type_synonym income_group = "int option \<times> int option"

definition income_group_of :: "db \<Rightarrow> invoice \<Rightarrow> income_group" where
  \<comment> \<open>the rows are grouped by the property of the lease and that of the stay\<close>
  "income_group_of d i =
     (Option.bind (lease_unit d i) (\<lambda>u. map_option p_id (property_get (u_property u) d)),
      Option.bind (stay_unit d i) (\<lambda>u. map_option p_id (property_get (u_property u) d)))"

definition group_property :: "income_group \<Rightarrow> int" where
  "group_property g = (case or_else (fst g) (snd g) of None \<Rightarrow> 0 | Some p \<Rightarrow> p)"

definition income_rows ::
  "(income_group list \<Rightarrow> income_group list) \<Rightarrow> int \<Rightarrow> date \<Rightarrow> date \<Rightarrow> db \<Rightarrow> (int \<times> cents) list" where
  \<comment> \<open>\<open>arrange\<close> is the order in which the database returns the groups\<close>
  "income_rows arrange oid s e d =
     (let is = paid_invoices oid s e d
      in map (\<lambda>g. (group_property g, \<Sum>i\<leftarrow>filter (\<lambda>i. income_group_of d i = g) is. inv_total i))
           (arrange (remdups (map (income_group_of d) is))))"

definition income_map :: "(int \<times> cents) list \<Rightarrow> (int \<times> cents) list" where
  \<comment> \<open>the comprehension keeps the last row of a property\<close>
  "income_map rows = fold (\<lambda>x. dict_set (fst x) (snd x)) (filter (\<lambda>x. fst x \<noteq> 0) rows) []"

definition expense_map :: "int \<Rightarrow> date \<Rightarrow> date \<Rightarrow> db \<Rightarrow> (int \<times> cents) list" where
  "expense_map oid s e d =
     fold (\<lambda>x. dict_add (the (ex_property x)) (ex_amount x))
       (filter (\<lambda>x. ex_property x \<noteq> None \<and> ex_property x \<noteq> Some 0) (period_expenses oid s e d)) []"

record profit_row =
  pr_property :: int
  pr_name :: string
  pr_income :: cents
  pr_expenses :: cents
  pr_net :: cents
  pr_occupancy :: "nat \<times> nat"  \<comment> \<open>reserved units of all units\<close>

definition look :: "int \<Rightarrow> (int \<times> cents) list \<Rightarrow> cents" where
  "look p m = (case map_of m p of None \<Rightarrow> 0 | Some c \<Rightarrow> c)"

definition profit_row_of :: "(int \<times> cents) list \<Rightarrow> (int \<times> cents) list \<Rightarrow> int \<Rightarrow> date \<Rightarrow> date \<Rightarrow> db \<Rightarrow> int \<Rightarrow> profit_row" where
  "profit_row_of inc spent oid s e d p =
     (let us = filter (\<lambda>u. u_property u = p) (org_units oid d) in
      \<lparr>pr_property = p,
       pr_name = name_of (''Kohde #'' @ show_int p) p_name (find_property oid p d),
       pr_income = look p inc, pr_expenses = look p spent, pr_net = look p inc - look p spent,
       pr_occupancy = (length (filter (reserved_in s e d) us), length us)\<rparr>)"

definition compute_profitability_by_property ::
  "(income_group list \<Rightarrow> income_group list) \<Rightarrow> date \<Rightarrow> date \<Rightarrow> int \<Rightarrow> db \<Rightarrow> profit_row list" where
  "compute_profitability_by_property arrange s e oid d =
     (let inc = income_map (income_rows arrange oid s e d); spent = expense_map oid s e d
      in map (profit_row_of inc spent oid s e d) (sorted_list_of_set (set (map fst inc) \<union> set (map fst spent))))"

subsection \<open>Sums over dictionaries\<close>

lemma sum_insort: "(\<Sum>x\<leftarrow>insort_key g y xs. f x) = f y + (\<Sum>x\<leftarrow>xs. f x :: int)"
  by (induction xs) simp_all

lemma sum_sorted [simp]: "(\<Sum>x\<leftarrow>sort_key g xs. f x) = (\<Sum>x\<leftarrow>xs. f x :: int)"
  by (induction xs) (simp_all add: sum_insort)

lemma sum_order2 [simp]: "(\<Sum>x\<leftarrow>order2 f g xs. h x) = (\<Sum>x\<leftarrow>xs. h x :: int)"
  by (simp add: order2_def)

lemma bump_keys [simp]: "map fst (bump_at k f xs) = map fst xs" "fst ` set (bump_at k f xs) = fst ` set xs"
  by (simp_all add: bump_at_def split_beta comp_def image_image)

lemma bump_sum:
  assumes "distinct (map fst xs)" and "k \<in> fst ` set xs" and "\<And>v. g (f v) = g v + c"
  shows "(\<Sum>x\<leftarrow>bump_at k f xs. g (snd x)) = (\<Sum>x\<leftarrow>xs. g (snd x)) + (c::int)"
  using assms(1,2)
proof (induction xs)
  case (Cons x xs)
  have other: "bump_at k f xs = xs" if "k \<notin> fst ` set xs"
    using that by (induction xs) (auto simp: bump_at_def)
  show ?case
  proof (cases "fst x = k")
    case True
    then have "k \<notin> fst ` set xs" using Cons.prems(1) by auto
    then show ?thesis using True other assms(3) by (simp add: bump_at_def split_beta)
  next
    case False
    then have "(\<Sum>x\<leftarrow>bump_at k f xs. g (snd x)) = (\<Sum>x\<leftarrow>xs. g (snd x)) + c" using Cons by auto
    then show ?thesis using False by (simp add: bump_at_def split_beta)
  qed
qed simp

lemma fold_bump_keys [simp]: "map fst (fold (\<lambda>x. bump_at (key x) (f x)) rs xs) = map fst xs"
  by (induction rs arbitrary: xs) simp_all

lemma fold_bump_sum:
  assumes "distinct (map fst xs)" and "\<And>x. x \<in> set rs \<Longrightarrow> key x \<in> fst ` set xs" and "\<And>x v. g (f x v) = g v + c x"
  shows "(\<Sum>x\<leftarrow>fold (\<lambda>x. bump_at (key x) (f x)) rs xs. g (snd x)) = (\<Sum>x\<leftarrow>xs. g (snd x)) + (\<Sum>x\<leftarrow>rs. c x :: int)"
  using assms(1,2)
proof (induction rs arbitrary: xs)
  case (Cons r rs)
  have "(\<Sum>x\<leftarrow>fold (\<lambda>x. bump_at (key x) (f x)) rs (bump_at (key r) (f r) xs). g (snd x))
      = (\<Sum>x\<leftarrow>bump_at (key r) (f r) xs. g (snd x)) + (\<Sum>x\<leftarrow>rs. c x)"
    by (rule Cons.IH) (use Cons.prems in simp_all)
  moreover have "(\<Sum>x\<leftarrow>bump_at (key r) (f r) xs. g (snd x)) = (\<Sum>x\<leftarrow>xs. g (snd x)) + c r"
    by (rule bump_sum) (use Cons.prems assms(3) in simp_all)
  ultimately show ?case by simp
qed simp

lemma fold_bump_same:
  assumes "\<And>x v. g (f x v) = (g v :: int)"
  shows "(\<Sum>x\<leftarrow>fold (\<lambda>x. bump_at (key x) (f x)) rs xs. g (snd x)) = (\<Sum>x\<leftarrow>xs. g (snd x))"
proof (induction rs arbitrary: xs)
  case (Cons r rs)
  have "map (\<lambda>x. g (snd x)) (bump_at (key r) (f r) xs) = map (\<lambda>x. g (snd x)) xs"
    using assms by (simp add: bump_at_def split_beta)
  then show ?case using Cons [of "bump_at (key r) (f r) xs"] by simp
qed simp

text \<open>The entry of a key after the additions is what was added under it.\<close>

lemma map_of_dict_set: "map_of (dict_set k v xs) = (map_of xs)(k \<mapsto> v)"
proof (cases "k \<in> set (map fst xs)")
  case True
  then have d: "dict_set k v xs = map (\<lambda>(a, b). (a, if a = k then v else b)) xs" by (simp add: dict_set_def)
  have "map_of (map (\<lambda>(a, b). (a, if a = k then v else b)) xs) i
      = (if i = k then map_option (\<lambda>_. v) (map_of xs i) else map_of xs i)" for i
    by (induction xs) auto
  moreover have "map_of xs k \<noteq> None" using True by (simp add: map_of_eq_None_iff)
  ultimately show ?thesis unfolding d by (auto simp: fun_eq_iff)
qed (force simp: dict_set_def fun_eq_iff map_add_def split: option.split dest: map_of_SomeD)

lemma dict_set_keys: "fst ` set (dict_set k v xs) = insert k (fst ` set xs)"
  by (auto simp: dict_set_def image_iff split_beta; force)

lemma dict_set_distinct: "distinct (map fst xs) \<Longrightarrow> distinct (map fst (dict_set k v xs))"
  by (simp add: dict_set_def split_beta comp_def)

lemma fold_dict_add:
  "map_of (fold (\<lambda>x. dict_add (key x) (f x)) rs xs) k =
     (if k \<in> key ` set rs \<or> map_of xs k \<noteq> None
      then Some ((case map_of xs k of None \<Rightarrow> 0 | Some c \<Rightarrow> c) + (\<Sum>x\<leftarrow>filter (\<lambda>x. key x = k) rs. f x)) else None)"
  by (induction rs arbitrary: xs) (auto simp: dict_add_def map_of_dict_set split: option.splits)

lemma fold_dict_add_keys: "fst ` set (fold (\<lambda>x. dict_add (key x) (f x)) rs xs) = key ` set rs \<union> fst ` set xs"
  by (induction rs arbitrary: xs) (auto simp: dict_add_def dict_set_keys)

lemma fold_dict_add_distinct:
  "distinct (map fst xs) \<Longrightarrow> distinct (map fst (fold (\<lambda>x. dict_add (key x) (f x)) rs xs))"
  by (induction rs arbitrary: xs) (simp_all add: dict_add_def dict_set_distinct)

lemma dict_add_sum:
  assumes "distinct (map fst xs)"
  shows "(\<Sum>x\<leftarrow>dict_add k v xs. snd x) = (\<Sum>x\<leftarrow>xs. snd x) + v"
proof (cases "k \<in> fst ` set xs")
  case True
  then obtain c where c: "map_of xs k = Some c" by (metis map_of_eq_None_iff not_Some_eq)
  then have d: "dict_add k v xs = bump_at k (\<lambda>_. c + v) xs"
    using True by (simp add: dict_add_def dict_set_def bump_at_def)
  have same: "bump_at k (\<lambda>_. c + v) xs = bump_at k ((+) v) xs"
    using eq_key_imp_eq_value [OF assms _ map_of_SomeD [OF c]] by (auto simp: bump_at_def)
  show ?thesis unfolding d same using bump_sum [OF assms True, of "\<lambda>x. x" "(+) v" v] by simp
next
  case False
  then have "map_of xs k = None" by (simp add: map_of_eq_None_iff)
  then show ?thesis using False by (simp add: dict_add_def dict_set_def)
qed

lemma fold_dict_add_sum:
  "distinct (map fst xs) \<Longrightarrow> (\<Sum>x\<leftarrow>fold (\<lambda>x. dict_add (key x) (f x)) rs xs. snd x) = (\<Sum>x\<leftarrow>xs. snd x) + (\<Sum>x\<leftarrow>rs. f x)"
proof (induction rs arbitrary: xs)
  case (Cons r rs)
  have "distinct (map fst (dict_add (key r) (f r) xs))" using Cons.prems by (simp add: dict_add_def dict_set_distinct)
  from Cons.IH [OF this] show ?case by (simp add: dict_add_sum [OF Cons.prems])
qed simp

lemma dict_set_mem: "x \<in> set (dict_set k v xs) \<Longrightarrow> x = (k, v) \<or> x \<in> set xs"
  by (auto simp: dict_set_def split: if_splits)

lemma fold_dict_set:
  "fst ` set (fold (\<lambda>m. dict_set (k m) (v m)) ms xs) = k ` set ms \<union> fst ` set xs"
  "distinct (map fst xs) \<Longrightarrow> distinct (map fst (fold (\<lambda>m. dict_set (k m) (v m)) ms xs))"
  "x \<in> set (fold (\<lambda>m. dict_set (k m) (v m)) ms xs) \<Longrightarrow> x \<in> set xs \<or> (\<exists>m\<in>set ms. x = (k m, v m))"
proof (induction ms arbitrary: xs)
  case (Cons m ms)
  { case 1 show ?case using Cons.IH(1) [of "dict_set (k m) (v m) xs"] by (auto simp: dict_set_keys) }
  { case 2 then show ?case using Cons.IH(2) by (simp add: dict_set_distinct) }
  { case 3 then show ?case using Cons.IH(3) [of "dict_set (k m) (v m) xs"] by (auto dest: dict_set_mem) }
qed simp_all

subsection \<open>Months\<close>

lemma days_before_later_month:
  assumes "1 \<le> a" and "a < b" and "b \<le> 12"
  shows "days_before_month y a + days_in_month y a \<le> days_before_month y b"
proof -
  have "a \<in> {1, 2, 3, 4, 5, 6, 7, 8, 9, 10, 11, 12}" "b \<in> {1, 2, 3, 4, 5, 6, 7, 8, 9, 10, 11, 12}"
    using month_starts_nth [of a] month_starts_nth [of b] assms by simp_all
  then show ?thesis using assms(2)
    by (elim insertE emptyE; simp add: days_before_month_def month_starts_def days_in_month_def)
qed

lemma month_le_of_dates:
  assumes "valid_date a" and "valid_date b" and "a \<le> b"
  shows "month_le (year_of a, month_of a) (year_of b, month_of b)"
proof (rule ccontr)
  have pos: "1 \<le> a" "1 \<le> b" using assms(1,2) by (simp_all add: valid_date_def)
  note va = ymd_of_ordinal [OF assms(1)] note vb = ymd_of_ordinal [OF assms(2)]
  assume "\<not> ?thesis"
  then have "year_of b + 1 \<le> year_of a \<or> year_of a = year_of b \<and> month_of b < month_of a"
    by (auto simp: month_le_def)
  then consider "year_of b + 1 \<le> year_of a" | "year_of a = year_of b" "month_of b < month_of a" by blast
  then show False
  proof cases
    case 1
    from days_before_year_mono [OF 1] show False using year_bounds [OF pos(1)] year_bounds [OF pos(2)] assms(3) by simp
  next
    case 2
    have "days_before_month (year_of b) (month_of b) + days_in_month (year_of b) (month_of b)
        \<le> days_before_month (year_of b) (month_of a)"
      by (rule days_before_later_month) (use va(1) vb(1) 2 in \<open>simp_all add: valid_ymd_def\<close>)
    moreover have "day_of b \<le> days_in_month (year_of b) (month_of b)" "1 \<le> day_of a"
      using va(1) vb(1) by (simp_all add: valid_ymd_def)
    ultimately show False using va(2) vb(2) 2(1) assms(3) by (simp add: ordinal_of_def)
  qed
qed

text \<open>The walk over the months ends, and visits exactly the months from the first to the last.\<close>

lemma months_from_mem:
  assumes "1 \<le> snd a" and "snd a \<le> 12"
  shows "x \<in> set (months_from a b) \<longleftrightarrow> month_le a x \<and> month_le x b \<and> 1 \<le> snd x \<and> snd x \<le> 12"
  using assms
proof (induction a b rule: months_from.induct)
  case (1 a b)
  show ?case
  proof (cases "month_le a b")
    case True
    have "x \<in> set (months_from (next_month a) b) \<longleftrightarrow>
        month_le (next_month a) x \<and> month_le x b \<and> 1 \<le> snd x \<and> snd x \<le> 12"
      by (rule "1.IH") (use True 1 in \<open>auto simp: next_month_def\<close>)
    moreover have "month_le a x \<longleftrightarrow> x = a \<or> month_le (next_month a) x" if "1 \<le> snd x" "snd x \<le> 12"
      using that 1 by (cases x; cases a) (auto simp: month_le_def next_month_def)
    ultimately show ?thesis using True 1 by (subst months_from.simps) auto
  qed (subst months_from.simps, auto simp: month_le_def)
qed

lemma months_from_distinct:
  assumes "1 \<le> snd a" and "snd a \<le> 12"
  shows "distinct (months_from a b)"
  using assms
proof (induction a b rule: months_from.induct)
  case (1 a b)
  have n: "1 \<le> snd (next_month a)" "snd (next_month a) \<le> 12" using 1 by (auto simp: next_month_def)
  have "a \<notin> set (months_from (next_month a) b)"
    using months_from_mem [OF n] 1 by (cases a) (auto simp: month_le_def next_month_def)
  then show ?case using "1.IH" n by (subst months_from.simps) simp
qed

lemma month_range:
  assumes "valid_date s" and "valid_date e"
  shows "x \<in> set (months_from (year_of s, month_of s) (year_of e, month_of e)) \<longleftrightarrow>
      month_le (year_of s, month_of s) x \<and> month_le x (year_of e, month_of e) \<and> 1 \<le> snd x \<and> snd x \<le> 12"
  by (rule months_from_mem) (use ymd_of_ordinal(1) [OF assms(1)] in \<open>simp_all add: valid_ymd_def\<close>)

lemma first_of_month:
  assumes "valid_date s" and "valid_date e" and "(y, m) \<in> set (months_from (year_of s, month_of s) (year_of e, month_of e))"
  shows "valid_ymd y m 1"
proof -
  have "1 \<le> year_of s" "year_of e \<le> 9999" using ymd_of_ordinal(1) assms(1,2) by (simp_all add: valid_ymd_def)
  then show ?thesis
    using assms(3) unfolding month_range [OF assms(1,2)]
    by (auto simp: valid_ymd_def month_le_def days_in_month_def)
qed

lemma month_key_covered:
  assumes "valid_date s" and "valid_date e" and "s \<le> t" and "t \<le> e"
  shows "month_key t \<in> month_key ` set (month_iter s e)"
proof -
  have t: "valid_date t" using assms by (simp add: valid_date_def)
  have "(year_of t, month_of t) \<in> set (months_from (year_of s, month_of s) (year_of e, month_of e))"
    unfolding month_range [OF assms(1,2)]
    using month_le_of_dates [OF assms(1) t assms(3)] month_le_of_dates [OF t assms(2,4)] ymd_of_ordinal(1) [OF t]
    by (simp add: valid_ymd_def)
  moreover from first_of_month [OF assms(1,2) this]
  have "month_key (ordinal_of (year_of t) (month_of t) 1) = month_key t"
    by (simp add: month_key_def year_of_ordinal month_of_ordinal)
  ultimately show ?thesis unfolding month_iter_def image_set [symmetric] by (force intro: rev_image_eqI)
qed

subsection \<open>The reports agree\<close>

lemma cash_buckets:
  "distinct (map fst (cash_buckets s e))" "fst ` set (cash_buckets s e) = month_key ` set (month_iter s e)"
  "(\<Sum>x\<leftarrow>cash_buckets s e. cf_income (snd x)) = 0" "(\<Sum>x\<leftarrow>cash_buckets s e. cf_expenses (snd x)) = 0"
proof -
  show "distinct (map fst (cash_buckets s e))" unfolding cash_buckets_def by (rule fold_dict_set(2)) simp
  show "fst ` set (cash_buckets s e) = month_key ` set (month_iter s e)"
    unfolding cash_buckets_def fold_dict_set(1) by simp
  have "cf_income (snd x) = 0 \<and> cf_expenses (snd x) = 0" if "x \<in> set (cash_buckets s e)" for x
    using fold_dict_set(3) [OF that [unfolded cash_buckets_def]] by auto
  then show "(\<Sum>x\<leftarrow>cash_buckets s e. cf_income (snd x)) = 0" "(\<Sum>x\<leftarrow>cash_buckets s e. cf_expenses (snd x)) = 0"
    by (simp_all add: sum_list_eq_0_iff cong: map_cong)
qed

lemma of_property_set: "x \<in> set (of_property pid f xs) \<Longrightarrow> x \<in> set xs"
  by (auto simp: of_property_def split: option.splits)

lemma paid_invoices_mem:
  "i \<in> set (paid_invoices oid s e d) \<Longrightarrow> s \<le> paid_on i \<and> paid_on i \<le> e \<and> i \<in> set (invoices d) \<and> inv_org i = oid"
  by (auto simp: paid_invoices_def)

lemma filled_sums:
  assumes "valid_date s" and "valid_date e"
    and "set is \<subseteq> set (paid_invoices oid s e d)" and "set xs \<subseteq> set (period_expenses oid s e d)"
  shows "(\<Sum>x\<leftarrow>filled_buckets is xs (cash_buckets s e). cf_income (snd x)) = (\<Sum>i\<leftarrow>is. inv_total i)"
    and "(\<Sum>x\<leftarrow>filled_buckets is xs (cash_buckets s e). cf_expenses (snd x)) = (\<Sum>x\<leftarrow>xs. ex_amount x)"
proof -
  let ?inc = "\<lambda>i. bump_at (month_key (paid_on i)) (\<lambda>b. b\<lparr>cf_income := cf_income b + inv_total i\<rparr>)"
  have ki: "month_key (paid_on i) \<in> fst ` set (cash_buckets s e)" if "i \<in> set is" for i
    using month_key_covered [OF assms(1,2)] paid_invoices_mem assms(3) that unfolding cash_buckets(2) by blast
  have kx: "month_key (ex_date x) \<in> fst ` set (cash_buckets s e)" if "x \<in> set xs" for x
    using month_key_covered [OF assms(1,2)] assms(4) that unfolding cash_buckets(2) by (auto simp: period_expenses_def)
  have keys: "map fst (fold ?inc is (cash_buckets s e)) = map fst (cash_buckets s e)" by simp
  have set_keys: "fst ` set (fold ?inc is (cash_buckets s e)) = fst ` set (cash_buckets s e)"
    using keys by (metis list.set_map)
  show "(\<Sum>x\<leftarrow>filled_buckets is xs (cash_buckets s e). cf_income (snd x)) = (\<Sum>i\<leftarrow>is. inv_total i)"
    unfolding filled_buckets_def
    by (subst fold_bump_same, simp, subst fold_bump_sum [where c = inv_total])
      (use cash_buckets ki in simp_all)
  show "(\<Sum>x\<leftarrow>filled_buckets is xs (cash_buckets s e). cf_expenses (snd x)) = (\<Sum>x\<leftarrow>xs. ex_amount x)"
    unfolding filled_buckets_def
    by (subst fold_bump_sum [where c = ex_amount], unfold keys set_keys)
      (use cash_buckets kx in simp_all, subst fold_bump_same, use cash_buckets in simp_all)
qed

lemma income_type_known: "invoice_income_type i \<in> {''rent'', ''service'', ''deposit''}"
  by (simp add: invoice_income_type_def Let_def)

lemma income_breakdown_total:
  "snd (income_breakdown_report oid s e pid d) = (\<Sum>i\<leftarrow>of_property pid (invoice_property_id d) (paid_invoices oid s e d). inv_total i)"
  unfolding income_breakdown_report_def Let_def snd_conv
  by (subst fold_bump_sum [where g = "\<lambda>v. v" and c = inv_total]) (use income_type_known in auto)

lemma expenses_breakdown_total:
  "snd (expenses_breakdown_report oid s e pid d) = (\<Sum>x\<leftarrow>of_property pid ex_property (period_expenses oid s e d). ex_amount x)"
  by (simp add: expenses_breakdown_report_def Let_def fold_dict_add_sum)

lemma sum_filter_order2: "(\<Sum>x\<leftarrow>filter P (order2 f g xs). h x) = (\<Sum>x\<leftarrow>filter P xs. h x :: int)"
  using sum_order2 [of h f g "filter P xs"] by (simp add: order2_def filter_sort)

lemma paid_sum:
  "(\<Sum>i\<leftarrow>of_property pid (invoice_property_id d) (paid_invoices oid s e d). inv_total i) =
     (\<Sum>i\<leftarrow>filter (\<lambda>i. inv_org i = oid \<and> inv_status i \<noteq> ''cancelled''
         \<and> (case inv_paid_at i of None \<Rightarrow> False | Some p \<Rightarrow> s \<le> utc_date p \<and> utc_date p \<le> e)
         \<and> (case pid of None \<Rightarrow> True | Some p \<Rightarrow> invoice_property_id d i = Some p)) (invoices d). inv_total i)"
  unfolding paid_invoices_def of_property_def paid_on_def
  by (cases pid) (auto simp: sum_filter_order2 intro!: arg_cong [where f = "\<lambda>P. \<Sum>i\<leftarrow>filter P (invoices d). inv_total i"] split: option.splits)

lemma spent_sum:
  "(\<Sum>x\<leftarrow>of_property pid ex_property (period_expenses oid s e d). ex_amount x) =
     (\<Sum>x\<leftarrow>filter (\<lambda>x. ex_org x = oid \<and> s \<le> ex_date x \<and> ex_date x \<le> e
         \<and> (case pid of None \<Rightarrow> True | Some p \<Rightarrow> ex_property x = Some p)) (expenses d). ex_amount x)"
  unfolding period_expenses_def of_property_def
  by (cases pid) (auto simp: sum_filter_order2 intro!: arg_cong [where f = "\<lambda>P. \<Sum>x\<leftarrow>filter P (expenses d). ex_amount x"])

text \<open>C30: The cash flow, the income breakdown and the expense breakdown of a period agree. For every period of valid days
  and every choice of a property, the income of the cash flow, the total of the income breakdown and the sum of the months'
  income are each the sum of the organization's invoices paid on a day of the period and not cancelled; likewise for the
  expenses dated in the period; and each month's net amount is its income less its expenses.\<close>

theorem reports_agree:
  assumes "valid_date s" and "valid_date e"
  shows "let income = (\<Sum>i\<leftarrow>filter (\<lambda>i. inv_org i = oid \<and> inv_status i \<noteq> ''cancelled''
         \<and> (case inv_paid_at i of None \<Rightarrow> False | Some p \<Rightarrow> s \<le> utc_date p \<and> utc_date p \<le> e)
         \<and> (case pid of None \<Rightarrow> True | Some p \<Rightarrow> invoice_property_id d i = Some p)) (invoices d). inv_total i);
      spent = (\<Sum>x\<leftarrow>filter (\<lambda>x. ex_org x = oid \<and> s \<le> ex_date x \<and> ex_date x \<le> e
         \<and> (case pid of None \<Rightarrow> True | Some p \<Rightarrow> ex_property x = Some p)) (expenses d). ex_amount x)
    in snd (income_breakdown_report oid s e pid d) = income \<and> snd (expenses_breakdown_report oid s e pid d) = spent
      \<and> (\<exists>groups. cash_flow_report oid s e pid ''month'' d = Inr (groups, income, spent, income - spent)
          \<and> (\<Sum>g\<leftarrow>groups. cf_income g) = income \<and> (\<Sum>g\<leftarrow>groups. cf_expenses g) = spent
          \<and> (\<forall>g\<in>set groups. cf_net g = cf_income g - cf_expenses g))"
proof -
  let ?is = "of_property pid (invoice_property_id d) (paid_invoices oid s e d)"
  let ?xs = "of_property pid ex_property (period_expenses oid s e d)"
  let ?bs = "map (\<lambda>(k, b). (k, b\<lparr>cf_net := cf_income b - cf_expenses b\<rparr>)) (filled_buckets ?is ?xs (cash_buckets s e))"
  let ?groups = "map snd (sort_key fst ?bs)"
  note sums = filled_sums [OF assms, of ?is oid d ?xs, OF subsetI subsetI, OF of_property_set of_property_set]
  have months: "(\<Sum>g\<leftarrow>?groups. cf_income g) = (\<Sum>i\<leftarrow>?is. inv_total i)"
    "(\<Sum>g\<leftarrow>?groups. cf_expenses g) = (\<Sum>x\<leftarrow>?xs. ex_amount x)"
    using sums by (simp_all add: comp_def split_beta)
  then have "cash_flow_report oid s e pid ''month'' d = Inr (?groups, \<Sum>i\<leftarrow>?is. inv_total i, \<Sum>x\<leftarrow>?xs. ex_amount x,
      (\<Sum>i\<leftarrow>?is. inv_total i) - (\<Sum>x\<leftarrow>?xs. ex_amount x))"
    by (simp only: cash_flow_report_def Let_def simp_thms if_False)
  moreover have "\<forall>g\<in>set ?groups. cf_net g = cf_income g - cf_expenses g" by auto
  ultimately show ?thesis
    unfolding Let_def income_breakdown_total expenses_breakdown_total paid_sum [symmetric] spent_sum [symmetric]
    using months by blast
qed

subsection \<open>The breakdowns\<close>

lemma fold_bump_add:
  "fold (\<lambda>x. bump_at (key x) ((+) (f x))) rs xs = map (\<lambda>(k, v). (k, v + (\<Sum>x\<leftarrow>filter (\<lambda>x. key x = k) rs. f x :: int))) xs"
proof (induction rs arbitrary: xs)
  case (Cons r rs)
  show ?case unfolding fold_simps comp_def Cons.IH by (auto simp: bump_at_def)
qed simp

text \<open>The three ways to split the income of a period lose nothing: by property, by unit and by method of
  payment the amounts add up to the invoices paid in the period, which is the income of the cash flow.\<close>

theorem breakdowns_add_up:
  "(\<Sum>x\<leftarrow>cb_property (compute_cash_flow_breakdown en s e oid d). snd x) = snd (income_breakdown_report oid s e None d)
   \<and> (\<Sum>x\<leftarrow>cb_unit (compute_cash_flow_breakdown en s e oid d). snd x) = snd (income_breakdown_report oid s e None d)
   \<and> (\<Sum>x\<leftarrow>cb_method (compute_cash_flow_breakdown en s e oid d). snd x) = snd (income_breakdown_report oid s e None d)"
proof -
  have "snd (income_breakdown_report oid s e None d) = (\<Sum>i\<leftarrow>paid_invoices oid s e d. inv_total i)"
    by (simp add: income_breakdown_total of_property_def)
  moreover have "(\<Sum>x\<leftarrow>income_by_method oid s e d. snd x) = (\<Sum>i\<leftarrow>paid_invoices oid s e d. inv_total i)"
    unfolding income_by_method_def
    by (subst fold_bump_sum [where g = "\<lambda>v. v" and c = inv_total]) (simp_all add: method_label_def)
  ultimately show ?thesis
    by (simp add: compute_cash_flow_breakdown_def income_by_property_def income_by_unit_def fold_dict_add_sum)
qed

text \<open>Every overdue invoice is in exactly one bucket of the receivables, by the days since it was due.\<close>

theorem aging_partition:
  "let late = overdue_invoices oid as_of d; sum = (\<lambda>P. \<Sum>i\<leftarrow>filter (\<lambda>i. P (as_of - inv_due i)) late. inv_total i) in
   compute_aging_receivables oid as_of d =
     [(''0_30'', sum (\<lambda>n. n \<le> 30)), (''31_60'', sum (\<lambda>n. 30 < n \<and> n \<le> 60)), (''61_90'', sum (\<lambda>n. 60 < n \<and> n \<le> 90)),
      (''90_plus'', sum (\<lambda>n. 90 < n))]
   \<and> (\<Sum>x\<leftarrow>compute_aging_receivables oid as_of d. snd x) = (\<Sum>i\<leftarrow>late. inv_total i)"
proof -
  have b: "(aging_bucket n = ''0_30'') = (n \<le> 30)" "(aging_bucket n = ''31_60'') = (30 < n \<and> n \<le> 60)"
    "(aging_bucket n = ''61_90'') = (60 < n \<and> n \<le> 90)" "(aging_bucket n = ''90_plus'') = (90 < n)" for n
    by (auto simp: aging_bucket_def)
  have "(\<Sum>x\<leftarrow>compute_aging_receivables oid as_of d. snd x) = (\<Sum>i\<leftarrow>overdue_invoices oid as_of d. inv_total i)"
    unfolding compute_aging_receivables_def
    by (subst fold_bump_sum [where g = "\<lambda>v. v" and c = inv_total]) (simp_all add: aging_bucket_def)
  then show ?thesis unfolding Let_def by (simp add: compute_aging_receivables_def fold_bump_add b)
qed

subsection \<open>The forecast counts the due days\<close>

lemma month_end:
  assumes "valid_ymd y m k"
  shows "ordinal_of (fst (next_month (y, m))) (snd (next_month (y, m))) 1 - 1 = ordinal_of y m (days_in_month y m)"
proof (cases "m = 12")
  case True
  then show ?thesis
    by (simp add: next_month_def ordinal_of_def days_before_year_Suc days_before_month_def month_starts_def days_in_month_def)
next
  case False
  have "m \<in> {1, 2, 3, 4, 5, 6, 7, 8, 9, 10, 11, 12}" using month_starts_nth [of m] assms by (simp add: valid_ymd_def)
  then have "days_before_month y (m + 1) = days_before_month y m + days_in_month y m"
    using False by (elim insertE emptyE; simp add: days_before_month_def month_starts_def days_in_month_def)
  then show ?thesis using False assms by (simp add: next_month_def ordinal_of_def valid_ymd_def)
qed

lemma due_in_month:
  assumes "valid_ymd y m k"
  shows "due_in_month day (y, m) = ordinal_of y m (min day (days_in_month y m))"
proof -
  have "valid_ymd y m (days_in_month y m)" using assms by (simp add: valid_ymd_def)
  then show ?thesis unfolding due_in_month_def month_end [OF assms] by (simp add: day_of_ordinal)
qed

lemma count_months_filter:
  "count_months ls ws we a b n =
     n + length (filter (\<lambda>x. ws \<le> due_in_month (day_of ls) x \<and> due_in_month (day_of ls) x \<le> we \<and> ls \<le> due_in_month (day_of ls) x)
       (months_from a b))"
proof (induction ls ws we a b n rule: count_months.induct)
  case (1 ls ws we a b n)
  show ?case
    by (subst count_months.simps, subst months_from.simps) (use 1 in \<open>simp add: Let_def\<close>)
qed

definition rent_day :: "date \<Rightarrow> date \<Rightarrow> bool" where
  \<comment> \<open>the day of the month the lease started on, or the last one of a shorter month\<close>
  "rent_day ls t \<longleftrightarrow> day_of t = min (day_of ls) (days_in_month (year_of t) (month_of t))"

lemma count_monthly_card:
  assumes "valid_date ls" and "valid_date ws" and "valid_date we"
  shows "count_monthly_occurrences ls ws we = card {t. ws \<le> t \<and> t \<le> we \<and> ls \<le> t \<and> rent_day ls t}"
proof -
  let ?ms = "months_from (year_of ws, month_of ws) (year_of we, month_of we)"
  let ?due = "due_in_month (day_of ls)"
  let ?P = "\<lambda>x. ws \<le> ?due x \<and> ?due x \<le> we \<and> ls \<le> ?due x"
  have day: "1 \<le> day_of ls" using ymd_of_ordinal(1) [OF assms(1)] by (simp add: valid_ymd_def)
  have due: "?due (y, m) = ordinal_of y m (min (day_of ls) (days_in_month y m)) \<and> valid_ymd y m (min (day_of ls) (days_in_month y m))"
    if "(y, m) \<in> set ?ms" for y m
    using first_of_month [OF assms(2,3) that] day due_in_month by (auto simp: valid_ymd_def)
  have inj: "inj_on ?due (set ?ms)"
  proof (rule inj_onI)
    fix x x' assume x: "x \<in> set ?ms" "x' \<in> set ?ms" "?due x = ?due x'"
    obtain y m y' m' where xy: "x = (y, m)" "x' = (y', m')" by (meson surj_pair)
    have "year_of (?due x) = y" "month_of (?due x) = m" "year_of (?due x') = y'" "month_of (?due x') = m'"
      using due x(1,2) xy year_of_ordinal month_of_ordinal by metis+
    then show "x = x'" using x(3) xy by simp
  qed
  have "distinct ?ms"
    by (rule months_from_distinct) (use ymd_of_ordinal(1) [OF assms(2)] in \<open>simp_all add: valid_ymd_def\<close>)
  then have "count_monthly_occurrences ls ws we = card {x \<in> set ?ms. ?P x}"
    by (simp add: count_monthly_occurrences_def count_months_filter distinct_length_filter Collect_conj_eq Int_commute)
  also have "\<dots> = card (?due ` {x \<in> set ?ms. ?P x})"
    by (rule card_image [symmetric], rule inj_on_subset [OF inj]) blast
  also have "?due ` {x \<in> set ?ms. ?P x} = {t. ws \<le> t \<and> t \<le> we \<and> ls \<le> t \<and> rent_day ls t}"
  proof (intro set_eqI iffI)
    fix t assume "t \<in> ?due ` {x \<in> set ?ms. ?P x}"
    then obtain y m where x: "(y, m) \<in> set ?ms" "?P (y, m)" "t = ?due (y, m)" by auto
    then show "t \<in> {t. ws \<le> t \<and> t \<le> we \<and> ls \<le> t \<and> rent_day ls t}"
      using due [OF x(1)] by (simp add: rent_day_def year_of_ordinal month_of_ordinal day_of_ordinal)
  next
    fix t assume t: "t \<in> {t. ws \<le> t \<and> t \<le> we \<and> ls \<le> t \<and> rent_day ls t}"
    then have v: "valid_date t" using assms by (simp add: valid_date_def)
    have m: "(year_of t, month_of t) \<in> set ?ms"
      unfolding month_range [OF assms(2,3)]
      using month_le_of_dates [OF assms(2) v] month_le_of_dates [OF v assms(3)] ymd_of_ordinal(1) [OF v] t
      by (simp add: valid_ymd_def)
    have "?due (year_of t, month_of t) = t"
      using due [OF m] t ymd_of_ordinal(2) [OF v] by (simp add: rent_day_def)
    then show "t \<in> ?due ` {x \<in> set ?ms. ?P x}" using m t by (force intro: rev_image_eqI)
  qed
  finally show ?thesis .
qed

lemma weekly_card:
  fixes ls a e :: int
  assumes "ls \<le> a"
  shows "(let offset = (a - ls) mod 7; first = (if offset = 0 then a else a + (7 - offset))
          in if e < first then 0 else (e - first) div 7 + 1) = int (card {t. a \<le> t \<and> t \<le> e \<and> 7 dvd t - ls})"
proof -
  define first where "first = (if (a - ls) mod 7 = 0 then a else a + (7 - (a - ls) mod 7))"
  have m: "0 \<le> (a - ls) mod 7" "(a - ls) mod 7 < 7" by simp_all
  have first: "a \<le> first" "first < a + 7" using m by (auto simp: first_def)
  have dvd: "7 dvd first - ls" unfolding first_def by (cases "(a - ls) mod 7 = 0") (auto, presburger+)
  have days: "{t. a \<le> t \<and> t \<le> e \<and> 7 dvd t - ls} = (\<lambda>k. first + 7 * k) ` {0..(e - first) div 7}"
  proof (intro set_eqI iffI)
    fix t assume "t \<in> {t. a \<le> t \<and> t \<le> e \<and> 7 dvd t - ls}"
    then have t: "a \<le> t" "t \<le> e" "7 dvd t - ls" by simp_all
    have "7 dvd t - first" using dvd_diff [OF t(3) dvd] by simp
    then obtain k where k: "t - first = 7 * k" ..
    have "0 \<le> k" using k t(1) first(2) by linarith
    moreover have "k \<le> (e - first) div 7" using k t(2) by linarith
    ultimately show "t \<in> (\<lambda>k. first + 7 * k) ` {0..(e - first) div 7}" using k by (auto intro!: rev_image_eqI [of k])
  next
    fix t assume "t \<in> (\<lambda>k. first + 7 * k) ` {0..(e - first) div 7}"
    then obtain k where k: "t = first + 7 * k" "0 \<le> k" "k \<le> (e - first) div 7" by auto
    have "7 dvd t - ls" using dvd k(1) by presburger
    then show "t \<in> {t. a \<le> t \<and> t \<le> e \<and> 7 dvd t - ls}" using k first by simp
  qed
  have "card {t. a \<le> t \<and> t \<le> e \<and> 7 dvd t - ls} = card {0..(e - first) div 7}"
    unfolding days by (rule card_image) (simp add: inj_on_def)
  moreover have "int (card {0..(e - first) div 7}) = (if e < first then 0 else (e - first) div 7 + 1)"
    using pos_imp_zdiv_neg_iff [of 7 "e - first"] by (cases "e < first") simp_all
  ultimately show ?thesis by (simp add: Let_def first_def)
qed

definition rent_cycle :: "lease \<Rightarrow> string" where
  "rent_cycle l = lower (strip (if le_cycle l = '''' then ''monthly'' else le_cycle l))"

definition due_day :: "lease \<Rightarrow> date \<Rightarrow> bool" where
  "due_day l t \<longleftrightarrow> le_start l \<le> t
     \<and> (if rent_cycle l = ''one_time'' then t = le_start l
        else (case le_end l of None \<Rightarrow> True | Some e \<Rightarrow> t \<le> e)
          \<and> (if rent_cycle l = ''weekly'' then 7 dvd t - le_start l else rent_day (le_start l) t))"

text \<open>The forecast of a lease is its rent times its due days in the window: the day it starts for a
  lease paid at once, every seventh day from there for a weekly one, and otherwise the same day of each
  month or the last day of a shorter month, up to the end of the lease.\<close>

theorem forecast_counts_due_days:
  assumes "valid_date ws" and "valid_date we" and "valid_date (le_start l)" and "le_status l = ''active''"
    and "case le_end l of None \<Rightarrow> True | Some e \<Rightarrow> le_start l \<le> e"
  shows "lease_forecast_amount l ws we = le_rent l * int (card {t. ws \<le> t \<and> t \<le> we \<and> due_day l t})"
proof -
  let ?le = "case le_end l of None \<Rightarrow> we | Some t \<Rightarrow> t"
  let ?D = "{t. ws \<le> t \<and> t \<le> we \<and> due_day l t}"
  have in_lease: "t \<le> we \<and> (case le_end l of None \<Rightarrow> True | Some e \<Rightarrow> t \<le> e) \<longleftrightarrow> t \<le> min ?le we" for t
    by (auto split: option.split)
  show ?thesis
  proof (cases "?le < ws \<or> we < le_start l")
    case True
    have "\<not> due_day l t" if "ws \<le> t" "t \<le> we" for t
      using that True assms(5) by (auto simp: due_day_def split: option.splits if_splits)
    then have D: "?D = {}" by blast
    have "lease_forecast_amount l ws we = 0" using True assms(4) by (simp add: lease_forecast_amount_def Let_def)
    then show ?thesis by (simp only: D card.empty of_nat_0 mult_zero_right)
  next
    case out: False
    consider (once) "rent_cycle l = ''one_time''" | (weekly) "rent_cycle l = ''weekly''"
      | (monthly) "rent_cycle l \<noteq> ''one_time''" "rent_cycle l \<noteq> ''weekly''" by blast
    then show ?thesis
    proof cases
      case once
      then have "?D = (if ws \<le> le_start l \<and> le_start l \<le> we then {le_start l} else {})" by (auto simp: due_day_def)
      then show ?thesis using once out assms(4) by (simp add: lease_forecast_amount_def rent_cycle_def Let_def)
    next
      case weekly
      have "?D = {t. max (le_start l) ws \<le> t \<and> t \<le> min ?le we \<and> 7 dvd t - le_start l}"
        using weekly in_lease by (auto simp: due_day_def)
      moreover have "lease_forecast_amount l ws we = le_rent l *
          (let a = max (le_start l) ws; offset = (a - le_start l) mod 7; first = (if offset = 0 then a else a + (7 - offset))
           in if min ?le we < first then 0 else (min ?le we - first) div 7 + 1)"
        using weekly out assms(4) unfolding lease_forecast_amount_def rent_cycle_def Let_def by simp
      moreover note weekly_card [of "le_start l" "max (le_start l) ws" "min ?le we", OF max.cobounded1]
      ultimately show ?thesis by (simp only: Let_def)
    next
      case monthly
      have D: "?D = {t. max (le_start l) ws \<le> t \<and> t \<le> min ?le we \<and> le_start l \<le> t \<and> rent_day (le_start l) t}"
        using monthly in_lease by (auto simp: due_day_def)
      have f: "lease_forecast_amount l ws we = (if min ?le we < max (le_start l) ws then 0
          else le_rent l * int (count_monthly_occurrences (le_start l) (max (le_start l) ws) (min ?le we)))"
        using monthly out assms(4) by (simp add: lease_forecast_amount_def rent_cycle_def Let_def)
      show ?thesis
      proof (cases "min ?le we < max (le_start l) ws")
        case True
        then have "?D = {}" unfolding D by auto
        then show ?thesis by (simp only: f True if_True card.empty of_nat_0 mult_zero_right)
      next
        case False
        then have "valid_date (max (le_start l) ws)" "valid_date (min ?le we)"
          using assms(1-3) by (auto simp: valid_date_def)
        from count_monthly_card [OF assms(3) this] show ?thesis by (simp only: f False if_False D)
      qed
    qed
  qed
qed

subsection \<open>Profitability\<close>

lemma fold_set_absent: "k \<notin> fst ` set rs \<Longrightarrow> map_of (fold (\<lambda>x. dict_set (fst x) (snd x)) rs xs) k = map_of xs k"
  by (induction rs arbitrary: xs) (auto simp: map_of_dict_set)

lemma income_map_row:
  assumes "look p (income_map rows) \<noteq> 0"
  shows "\<exists>c. (p, c) \<in> set rows \<and> p \<noteq> 0 \<and> look p (income_map rows) = c"
proof -
  have "map_of (fold (\<lambda>x. dict_set (fst x) (snd x)) rs xs) k = Some c \<Longrightarrow> (k, c) \<in> set rs \<or> map_of xs k = Some c" for rs xs k and c :: int
    by (induction rs arbitrary: xs) (force simp: map_of_dict_set split: if_splits)+
  from this [of "filter (\<lambda>x. fst x \<noteq> 0) rows" "[]" p] show ?thesis
    using assms by (auto simp: look_def income_map_def split: option.splits)
qed

lemma income_map_only:
  assumes "\<forall>x\<in>set rows. fst x = p \<longrightarrow> snd x = c" and "p \<in> fst ` set rows" and "p \<noteq> 0"
  shows "look p (income_map rows) = c"
proof -
  have "map_of (fold (\<lambda>x. dict_set (fst x) (snd x)) rs xs) p = Some c"
    if "\<forall>x\<in>set rs. fst x = p \<longrightarrow> snd x = c" "p \<in> fst ` set rs" for rs xs
    using that
  proof (induction rs arbitrary: xs)
    case (Cons r rs)
    then show ?case
      by (cases "p \<in> fst ` set rs") (auto simp: fold_set_absent map_of_dict_set split_beta)
  qed simp
  from this [of "filter (\<lambda>x. fst x \<noteq> 0) rows"] show ?thesis
    using assms by (force simp: look_def income_map_def)
qed

lemma expense_map_look:
  assumes "p \<noteq> 0"
  shows "look p (expense_map oid s e d) = (\<Sum>x\<leftarrow>filter (\<lambda>x. ex_property x = Some p) (period_expenses oid s e d). ex_amount x)"
proof -
  let ?xs = "filter (\<lambda>x. ex_property x \<noteq> None \<and> ex_property x \<noteq> Some 0) (period_expenses oid s e d)"
  have "filter (\<lambda>x. the (ex_property x) = p) ?xs = filter (\<lambda>x. ex_property x = Some p) (period_expenses oid s e d)"
    unfolding filter_filter using assms by (intro filter_cong) auto
  moreover have "filter (\<lambda>x. the (ex_property x) = p) ?xs = []" if "p \<notin> (\<lambda>x. the (ex_property x)) ` set ?xs"
    using that by (auto simp: filter_empty_conv)
  ultimately show ?thesis by (simp add: look_def expense_map_def fold_dict_add)
qed

lemma profit_rows:
  assumes "r \<in> set (compute_profitability_by_property arrange s e oid d)"
  shows "pr_property r \<noteq> 0" and "pr_income r = look (pr_property r) (income_map (income_rows arrange oid s e d))"
    and "pr_expenses r = look (pr_property r) (expense_map oid s e d)"
proof -
  have keys: "0 \<notin> fst ` set (income_map rows)" for rows
  proof -
    have "fst ` set (fold (\<lambda>x. dict_set (fst x) (snd x)) rs xs) = fst ` set rs \<union> fst ` set xs" for rs and xs :: "(int \<times> cents) list"
      by (induction rs arbitrary: xs) (auto simp: dict_set_keys)
    then show ?thesis by (auto simp: income_map_def)
  qed
  have "0 \<notin> fst ` set (expense_map oid s e d)" by (auto simp: expense_map_def fold_dict_add_keys)
  moreover have "pr_property r \<in> fst ` set (income_map (income_rows arrange oid s e d)) \<union> fst ` set (expense_map oid s e d)"
    using assms by (auto simp: compute_profitability_by_property_def profit_row_of_def Let_def rev_image_eqI)
  ultimately show "pr_property r \<noteq> 0" using keys [of "income_rows arrange oid s e d"] by (metis UnE)
  show "pr_income r = look (pr_property r) (income_map (income_rows arrange oid s e d))"
    "pr_expenses r = look (pr_property r) (expense_map oid s e d)"
    using assms by (auto simp: compute_profitability_by_property_def profit_row_of_def Let_def)
qed

text \<open>The profitability of a property shows one group of its income. The rows of income are grouped by
  the property of the lease and the property of the stay, and the comprehension over them keeps one
  row of a property: when the invoices of a property are all of one group its income is their sum, but a
  property with rent and with stays shows only one of the two. Its expenses are complete.\<close>

theorem profitability_keeps_one_group:
  assumes "\<And>gs. set (arrange gs) = set gs" and "r \<in> set (compute_profitability_by_property arrange s e oid d)"
  shows "pr_expenses r = (\<Sum>x\<leftarrow>filter (\<lambda>x. ex_property x = Some (pr_property r)) (period_expenses oid s e d). ex_amount x)
    \<and> (pr_income r \<noteq> 0 \<longrightarrow> (\<exists>g. group_property g = pr_property r
         \<and> pr_income r = (\<Sum>i\<leftarrow>filter (\<lambda>i. income_group_of d i = g) (paid_invoices oid s e d). inv_total i)))
    \<and> (\<forall>g. (\<forall>i\<in>set (paid_invoices oid s e d). group_property (income_group_of d i) = pr_property r \<longleftrightarrow> income_group_of d i = g) \<longrightarrow>
         pr_income r = (\<Sum>i\<leftarrow>filter (\<lambda>i. group_property (income_group_of d i) = pr_property r) (paid_invoices oid s e d). inv_total i))"
proof (intro conjI allI impI)
  let ?is = "paid_invoices oid s e d" and ?p = "pr_property r"
  let ?rows = "income_rows arrange oid s e d"
  note row = profit_rows [OF assms(2)]
  have mem: "(q, c) \<in> set ?rows \<longleftrightarrow> (\<exists>g\<in>income_group_of d ` set ?is. q = group_property g
      \<and> c = (\<Sum>i\<leftarrow>filter (\<lambda>i. income_group_of d i = g) ?is. inv_total i))" for q c
    by (auto simp: income_rows_def Let_def assms(1))
  show "pr_expenses r = (\<Sum>x\<leftarrow>filter (\<lambda>x. ex_property x = Some ?p) (period_expenses oid s e d). ex_amount x)"
    unfolding row(3) by (rule expense_map_look [OF row(1)])
  { assume "pr_income r \<noteq> 0"
    then obtain c where "(?p, c) \<in> set ?rows" "pr_income r = c" using income_map_row row(2) by metis
    then show "\<exists>g. group_property g = ?p \<and> pr_income r = (\<Sum>i\<leftarrow>filter (\<lambda>i. income_group_of d i = g) ?is. inv_total i)"
      unfolding mem by metis }
  fix g assume one: "\<forall>i\<in>set ?is. group_property (income_group_of d i) = ?p \<longleftrightarrow> income_group_of d i = g"
  let ?c = "\<Sum>i\<leftarrow>filter (\<lambda>i. income_group_of d i = g) ?is. inv_total i"
  have same: "filter (\<lambda>i. group_property (income_group_of d i) = ?p) ?is = filter (\<lambda>i. income_group_of d i = g) ?is"
    using one by (intro filter_cong) auto
  have "pr_income r = ?c"
  proof (cases "g \<in> income_group_of d ` set ?is")
    case True
    have rows: "snd x = ?c" if x: "x \<in> set ?rows" "fst x = ?p" for x
    proof -
      have "(?p, snd x) \<in> set ?rows" using x by (metis prod.collapse)
      then obtain i where i: "i \<in> set ?is" "?p = group_property (income_group_of d i)"
        "snd x = (\<Sum>j\<leftarrow>filter (\<lambda>j. income_group_of d j = income_group_of d i) ?is. inv_total j)"
        unfolding mem by blast
      have "income_group_of d i = g" using bspec [OF one i(1)] i(2) by simp
      then show ?thesis using i(3) by simp
    qed
    from True obtain i where i: "i \<in> set ?is" "income_group_of d i = g" by blast
    have p: "?p = group_property g" using bspec [OF one i(1)] i(2) by simp
    have "(?p, ?c) \<in> set ?rows" unfolding mem by (rule bexI [OF _ True]) (simp add: p)
    then have "?p \<in> fst ` set ?rows" by (rule rev_image_eqI) simp
    then show ?thesis unfolding row(2) using income_map_only [of ?rows ?p ?c] rows row(1) by blast
  next
    case False
    then have none: "filter (\<lambda>i. income_group_of d i = g) ?is = []" by (auto simp: filter_empty_conv)
    have "pr_income r = 0"
    proof (rule ccontr)
      assume "pr_income r \<noteq> 0"
      then obtain c where "(?p, c) \<in> set ?rows" using income_map_row row(2) by metis
      then obtain i where i: "i \<in> set ?is" "?p = group_property (income_group_of d i)" unfolding mem by blast
      have "income_group_of d i = g" using bspec [OF one i(1)] i(2) by simp
      then show False using i(1) False by blast
    qed
    then show ?thesis by (simp add: none)
  qed
  then show "pr_income r = (\<Sum>i\<leftarrow>filter (\<lambda>i. group_property (income_group_of d i) = ?p) ?is. inv_total i)" by (simp add: same)
qed

subsection \<open>A concrete month\<close>

text \<open>Unit 1 has a lease and a stay, and an invoice of each was paid on 10 January.\<close>

definition paid_invoice :: "int \<Rightarrow> int option \<Rightarrow> int option \<Rightarrow> cents \<Rightarrow> invoice" where
  "paid_invoice i l r c = \<lparr>inv_id = i, inv_org = 1, inv_lease = l, inv_reservation = r, inv_guest = Some 5, inv_number = None,
     inv_amount = c, inv_vat_rate = 0, inv_vat_amount = 0, inv_subtotal = c, inv_total = c, inv_currency = ''EUR'',
     inv_due = ordinal_of 2026 1 20, inv_paid_at = Some sample_clock, inv_status = ''paid'', inv_description = None,
     inv_metadata = JNull, inv_created_by = 7, inv_updated_by = None, inv_created_at = 0, inv_updated_at = 0\<rparr>"

lemma paid_invoice_total [simp]: "inv_total (paid_invoice i l r c) = c"
  by (simp add: paid_invoice_def)

definition unit_lease :: "date \<Rightarrow> lease" where
  "unit_lease s = \<lparr>le_id = 1, le_org = 1, le_unit = 1, le_guest = 5, le_reservation = None, le_start = s, le_end = None,
     le_rent = 50000, le_deposit = 0, le_cycle = ''monthly'', le_status = ''active'', le_notes = None, le_template = None,
     le_token_hash = None, le_signing_sent_at = None, le_signed_at = None, le_signed_ip = None, le_signed_user_agent = None,
     le_signed_pdf = None, le_created_by = 7, le_updated_by = None, le_created_at = 0, le_updated_at = 0\<rparr>"

definition month_db :: db where
  "month_db = sample_hotel\<lparr>leases := [unit_lease (ordinal_of 2026 1 1)],
     invoices := [paid_invoice 1 (Some 1) None 50000, paid_invoice 2 None (Some 1) 12400]\<rparr>"

lemma month_days: "valid_date (ordinal_of 2026 1 1)" "valid_date (ordinal_of 2026 1 31)" "valid_date (ordinal_of 2026 4 30)"
  by code_simp+

lemma month_db_simps:
  "invoices month_db = [paid_invoice 1 (Some 1) None 50000, paid_invoice 2 None (Some 1) 12400]"
  "leases month_db = [unit_lease (ordinal_of 2026 1 1)]" "reservations month_db = [sample_stay]" "expenses month_db = []"
  "units month_db = [sample_unit 1 1 ''A1'', sample_unit 2 2 ''B1'']"
  "properties month_db = [sample_property 1 1 ''North'', sample_property 2 2 ''South'']"
  by (simp_all add: month_db_def sample_hotel_def sample_db_def)

lemma month_paid:
  "paid_invoices 1 (ordinal_of 2026 1 1) (ordinal_of 2026 1 31) month_db
     = [paid_invoice 1 (Some 1) None 50000, paid_invoice 2 None (Some 1) 12400]"
proof -
  have "ordinal_of 2026 1 1 \<le> utc_date sample_clock" "utc_date sample_clock \<le> ordinal_of 2026 1 31" by code_simp+
  then show ?thesis by (simp add: paid_invoices_def month_db_simps paid_on_def paid_invoice_def order2_def)
qed

lemma month_groups:
  "income_group_of month_db (paid_invoice 1 (Some 1) None 50000) = (Some 1, None)"
  "income_group_of month_db (paid_invoice 2 None (Some 1) 12400) = (None, Some 1)"
  by (simp_all add: income_group_of_def lease_unit_def stay_unit_def paid_invoice_def month_db_simps unit_get_def row_get_def
      unit_lease_def sample_stay_def property_get_def)

lemma month_profit:
  "map (\<lambda>r. (pr_property r, pr_income r)) (compute_profitability_by_property id (ordinal_of 2026 1 1) (ordinal_of 2026 1 31) 1 month_db)
     = [(1, 12400)]"
  by (simp add: compute_profitability_by_property_def income_rows_def month_paid month_groups group_property_def income_map_def
      expense_map_def period_expenses_def month_db_simps order2_def dict_set_def look_def profit_row_of_def Let_def)

theorem reports_agree_witness:
  "snd (income_breakdown_report 1 (ordinal_of 2026 1 1) (ordinal_of 2026 1 31) None month_db) = 62400
   \<and> snd (expenses_breakdown_report 1 (ordinal_of 2026 1 1) (ordinal_of 2026 1 31) None month_db) = 0"
proof -
  have "(\<Sum>i\<leftarrow>paid_invoices 1 (ordinal_of 2026 1 1) (ordinal_of 2026 1 31) month_db. inv_total i) = 62400"
    by (simp add: month_paid)
  moreover have "period_expenses 1 (ordinal_of 2026 1 1) (ordinal_of 2026 1 31) month_db = []"
    by (simp add: period_expenses_def month_db_simps order2_def)
  ultimately show ?thesis
    using reports_agree [OF month_days(1,2), where oid = 1 and pid = None and d = month_db]
      paid_sum [where pid = None and d = month_db and oid = 1 and s = "ordinal_of 2026 1 1" and e = "ordinal_of 2026 1 31"]
      spent_sum [where pid = None and d = month_db and oid = 1 and s = "ordinal_of 2026 1 1" and e = "ordinal_of 2026 1 31"]
    by (simp add: of_property_def Let_def)
qed

theorem forecast_counts_due_days_witness:
  "card {t. ordinal_of 2026 1 1 \<le> t \<and> t \<le> ordinal_of 2026 4 30 \<and> due_day (unit_lease (ordinal_of 2026 1 31)) t} = 4"
proof -
  let ?l = "unit_lease (ordinal_of 2026 1 31)"
  have n: "count_monthly_occurrences (ordinal_of 2026 1 31) (ordinal_of 2026 1 31) (ordinal_of 2026 4 30) = 4" by code_simp
  have d: "ordinal_of 2026 1 1 \<le> ordinal_of 2026 1 31" "ordinal_of 2026 1 31 \<le> ordinal_of 2026 4 30" by code_simp+
  have c: "lower (strip ''monthly'') = ''monthly''" by code_simp
  have l: "le_rent ?l = 50000" "le_start ?l = ordinal_of 2026 1 31" "le_status ?l = ''active''"
    "case le_end ?l of None \<Rightarrow> True | Some e \<Rightarrow> le_start ?l \<le> e"
    by (simp_all add: unit_lease_def)
  have a: "lease_forecast_amount ?l (ordinal_of 2026 1 1) (ordinal_of 2026 4 30) = 200000"
    using d n c by (simp add: lease_forecast_amount_def unit_lease_def Let_def max_def)
  have "valid_date (le_start ?l)" unfolding l(2) by (rule month_days)
  from forecast_counts_due_days [OF month_days(1,3) this l(3,4)] show ?thesis unfolding l(1) a by simp
qed

theorem profitability_keeps_one_group_witness:
  "\<exists>r. r \<in> set (compute_profitability_by_property id (ordinal_of 2026 1 1) (ordinal_of 2026 1 31) 1 month_db)
    \<and> pr_property r = 1 \<and> pr_income r = 12400 \<and> pr_expenses r = 0
    \<and> (\<Sum>i\<leftarrow>filter (\<lambda>i. group_property (income_group_of month_db i) = 1)
          (paid_invoices 1 (ordinal_of 2026 1 1) (ordinal_of 2026 1 31) month_db). inv_total i) = 62400"
proof -
  have "(1, 12400) \<in> set (map (\<lambda>r. (pr_property r, pr_income r))
      (compute_profitability_by_property id (ordinal_of 2026 1 1) (ordinal_of 2026 1 31) 1 month_db))"
    unfolding month_profit by simp
  then obtain r where r: "r \<in> set (compute_profitability_by_property id (ordinal_of 2026 1 1) (ordinal_of 2026 1 31) 1 month_db)"
    "pr_property r = 1" "pr_income r = 12400"
    by fastforce
  have "pr_expenses r = 0"
    using profitability_keeps_one_group [OF _ r(1)] by (simp add: period_expenses_def order2_def month_db_simps)
  moreover have "(\<Sum>i\<leftarrow>filter (\<lambda>i. group_property (income_group_of month_db i) = 1)
      (paid_invoices 1 (ordinal_of 2026 1 1) (ordinal_of 2026 1 31) month_db). inv_total i) = 62400"
    by (simp add: month_paid month_groups group_property_def)
  ultimately show ?thesis using r by blast
qed

end
