(* ===== verification/Dashboard.thy ===== *)
theory Dashboard
  imports Properties Reports Samples
begin

text \<open>
  The numbers of the back-office start page (app/admin/services.py). A percentage is kept as the two counts it
  is computed from; amounts are exact; the euro sign after an amount, the links and the local date in a time zone
  are arguments or left out, as each definition says. Main facts: the week is counted right except for the
  departures of its first day, and the 30-day occupancy is too low by the departures of the first day of the window.
\<close>

subsection \<open>Words and ranges\<close>

definition normalize_dashboard_range :: "string option \<Rightarrow> string" where
  "normalize_dashboard_range raw =
     (let v = lower (strip (or_empty raw)) in if v \<in> {''today'', ''7d'', ''30d''} then v else ''today'')"

definition resolve_range_window :: "string \<Rightarrow> date \<Rightarrow> date \<times> date \<times> int" where
  "resolve_range_window key t =
     (let n = (if key = ''30d'' then 30 else if key = ''7d'' then 7 else 1) in (t, t + (n - 1), n))"

definition sum_paid_between :: "int \<Rightarrow> stamp \<Rightarrow> stamp \<Rightarrow> db \<Rightarrow> cents" where
  "sum_paid_between oid from until d =
     (\<Sum>i\<leftarrow>filter (\<lambda>i. inv_org i = oid \<and> inv_status i = ''paid''
        \<and> (case inv_paid_at i of None \<Rightarrow> False | Some t \<Rightarrow> from \<le> t \<and> t < until)) (invoices d). inv_amount i)"

fun grouped :: "string \<Rightarrow> string" where
  \<comment> \<open>reversed digits with a blank after every third\<close>
  "grouped (a # b # c # x # xs) = a # b # c # CHR '' '' # grouped (x # xs)"
| "grouped xs = xs"

definition format_eur_fi :: "cents \<Rightarrow> string" where
  \<comment> \<open>without the blank and the euro sign at the end\<close>
  "format_eur_fi c =
     (if c < 0 then ''-'' else '''') @ rev (grouped (rev (show_nat (nat \<bar>c\<bar> div 100)))) @ '','' @ pad0 2 (nat \<bar>c\<bar> mod 100)"

definition day_month_label_fi :: "date \<Rightarrow> string" where
  "day_month_label_fi t = show_int (day_of t) @ ''.'' @ show_int (month_of t) @ ''.''"

definition weekday_label_fi :: "date \<Rightarrow> string" where
  "weekday_label_fi t =
     [''Ma'', ''Ti'', ''Ke'', ''To'', ''Pe'', ''La'', ''Su''] ! nat (weekday t) @ '' '' @ day_month_label_fi t"

subsection \<open>The units on a day\<close>

definition overview_rank :: "date \<Rightarrow> reservation \<Rightarrow> int" where
  "overview_rank t r =
     (if res_start r = t then 3 else if res_end r = t then 2 else if res_start r \<le> t \<and> t < res_end r then 1 else 0)"

definition relevant_stays :: "date \<Rightarrow> unit_row \<Rightarrow> db \<Rightarrow> reservation list" where
  "relevant_stays t u d =
     filter (\<lambda>r. res_unit r = u_id u \<and> res_status r = ''confirmed''
       \<and> (res_start r = t \<or> res_end r = t \<or> res_start r \<le> t \<and> t < res_end r)) (reservations d)"

definition ranked_stay :: "date \<Rightarrow> unit_row \<Rightarrow> db \<Rightarrow> reservation option" where
  \<comment> \<open>the first by rank, start and key, all descending\<close>
  "ranked_stay t u d =
     (case rev (sort_key (overview_rank t) (order2 res_start res_id (relevant_stays t u d))) of [] \<Rightarrow> None | r # _ \<Rightarrow> Some r)"

record unit_overview =
  uo_unit :: int
  uo_label :: string
  uo_state :: string
  uo_guest :: "string option"
  uo_until :: "date option"
  uo_reservation :: "int option"
  uo_link :: string

definition overview_state :: "date \<Rightarrow> unit_row \<Rightarrow> reservation option \<Rightarrow> string" where
  "overview_state t u best =
     (if unit_out_of_use u then ''blocked''
      else case best of
        None \<Rightarrow> ''free''
      | Some r \<Rightarrow> if res_start r = t then ''arriving'' else if res_end r = t then ''departing'' else ''occupied'')"

definition unit_overview_of :: "(string \<Rightarrow> int \<Rightarrow> string) \<Rightarrow> date \<Rightarrow> unit_row \<Rightarrow> property_row \<Rightarrow> db \<Rightarrow> unit_overview" where
  "unit_overview_of url t u p d =
     (let best = ranked_stay t u d; state = overview_state t u best in
      \<lparr>uo_unit = u_id u, uo_label = strip (p_name p) @ '' '' @ [CHR 0xB7] @ '' '' @ strip (u_name u), uo_state = state,
       uo_guest = (if state \<in> {''occupied'', ''arriving'', ''departing''}
         then Some (case best of None \<Rightarrow> ''Vieras'' | Some r \<Rightarrow> if strip (res_guest_name r) = '''' then ''Vieras'' else strip (res_guest_name r)) else None),
       uo_until = (if state \<in> {''occupied'', ''arriving''} then map_option res_end best else None),
       uo_reservation = map_option res_id best,
       uo_link = (case best of Some r \<Rightarrow> url ''admin.reservations_detail'' (res_id r) | None \<Rightarrow> url ''admin.units_edit'' (u_id u))\<rparr>)"

definition get_unit_status_overview :: "env \<Rightarrow> (string \<Rightarrow> int \<Rightarrow> string) \<Rightarrow> int \<Rightarrow> date \<Rightarrow> db \<Rightarrow> unit_overview list" where
  "get_unit_status_overview en url oid t d = map (\<lambda>(u, p). unit_overview_of url t u p d) (placed_units en oid None d)"

subsection \<open>The week\<close>

definition confirmed_stays :: "int \<Rightarrow> db \<Rightarrow> reservation list" where
  "confirmed_stays oid d = filter (\<lambda>r. res_status r = ''confirmed'') (scoped_reservations oid d)"

definition count_stays :: "(reservation \<Rightarrow> bool) \<Rightarrow> reservation list \<Rightarrow> nat" where
  "count_stays P rs = length (filter P rs)"

record day_overview =
  dv_date :: date
  dv_weekday :: string
  dv_stays :: nat
  dv_units :: nat  \<comment> \<open>the percentage is of the stays among the units\<close>
  dv_arrivals :: nat
  dv_departures :: nat
  dv_link :: string

definition week_stays :: "int \<Rightarrow> date \<Rightarrow> db \<Rightarrow> reservation list" where
  "week_stays oid s d = filter (\<lambda>r. res_start r \<le> s + 6 \<and> s < res_end r) (confirmed_stays oid d)"

definition day_overview_of :: "nat \<Rightarrow> reservation list \<Rightarrow> date \<Rightarrow> day_overview" where
  "day_overview_of n rs t =
     \<lparr>dv_date = t, dv_weekday = weekday_label_fi t, dv_stays = count_stays (\<lambda>r. res_start r \<le> t \<and> t < res_end r) rs, dv_units = n,
      dv_arrivals = count_stays (\<lambda>r. res_start r = t) rs, dv_departures = count_stays (\<lambda>r. res_end r = t) rs,
      dv_link = ''/admin/calendar?date='' @ isoformat t\<rparr>"

definition get_week_overview :: "int \<Rightarrow> date \<Rightarrow> db \<Rightarrow> day_overview list" where
  "get_week_overview oid s d = map (\<lambda>k. day_overview_of (length (org_units oid d)) (week_stays oid s d) (s + int k)) [0..<7]"

subsection \<open>The summary with trends\<close>

definition coerce_timezone_name :: "(string \<Rightarrow> bool) \<Rightarrow> string option \<Rightarrow> string" where
  \<comment> \<open>the names the time-zone database knows are an argument\<close>
  "coerce_timezone_name known raw =
     (let s = strip (or_empty raw); z = (if s = '''' then ''Europe/Helsinki'' else s)
      in if known z then z else ''Europe/Helsinki'')"

definition daily_sum :: "int \<Rightarrow> date \<Rightarrow> date \<Rightarrow> db \<Rightarrow> date \<Rightarrow> cents" where
  \<comment> \<open>by day of arrival; a day without a row has zero\<close>
  "daily_sum oid s e d t =
     (\<Sum>r\<leftarrow>filter (\<lambda>r. res_status r \<noteq> ''cancelled'' \<and> s \<le> res_start r \<and> res_start r \<le> e \<and> res_start r = t) (scoped_reservations oid d).
        case res_amount r of None \<Rightarrow> 0 | Some c \<Rightarrow> c)"

definition revenue_between :: "int \<Rightarrow> date \<Rightarrow> date \<Rightarrow> db \<Rightarrow> cents" where
  "revenue_between oid s e d =
     (\<Sum>r\<leftarrow>filter (\<lambda>r. res_status r \<noteq> ''cancelled'' \<and> s \<le> res_start r \<and> res_start r \<le> e) (scoped_reservations oid d).
        case res_amount r of None \<Rightarrow> 0 | Some c \<Rightarrow> c)"

definition month_start :: "date \<Rightarrow> date" where "month_start t = t - (day_of t - 1)"

fun occupancy_walk :: "(date \<Rightarrow> int) \<Rightarrow> (date \<Rightarrow> int) \<Rightarrow> int \<Rightarrow> date \<Rightarrow> nat \<Rightarrow> (date \<times> int) list" where
  "occupancy_walk arrivals departures running t 0 = []"
| "occupancy_walk arrivals departures running t (Suc n) =
     (let now = running + arrivals t - departures t in (t, now) # occupancy_walk arrivals departures now (t + 1) n)"

definition trend_occupancy :: "int \<Rightarrow> date \<Rightarrow> db \<Rightarrow> (date \<times> int) list" where
  "trend_occupancy oid t d =
     (let s = t - 29; rs = confirmed_stays oid d;
          arrivals = (\<lambda>x. int (count_stays (\<lambda>r. s \<le> res_start r \<and> res_start r \<le> t \<and> res_start r = x) rs));
          departures = (\<lambda>x. int (count_stays (\<lambda>r. s \<le> res_end r \<and> res_end r \<le> t \<and> res_end r = x) rs));
          base = int (count_stays (\<lambda>r. res_start r < s \<and> s < res_end r) rs)
      in occupancy_walk arrivals departures base s 30)"

record upcoming_arrival =
  ua_reservation :: int
  ua_start :: date
  ua_end :: date
  ua_guest :: string
  ua_unit_label :: string
  ua_link :: string

definition stay_label :: "reservation \<Rightarrow> db \<Rightarrow> string" where
  "stay_label r d =
     (case unit_get (res_unit r) d of
        None \<Rightarrow> ''Yksikk'' @ [CHR 0xF6] @ '' #'' @ show_int (res_unit r)
      | Some u \<Rightarrow>
          (case property_get (u_property u) d of
             None \<Rightarrow> ''Yksikk'' @ [CHR 0xF6] @ '' #'' @ show_int (res_unit r)
           | Some p \<Rightarrow> strip (p_name p) @ '' / '' @ strip (u_name u)))"

definition guest_or :: "string \<Rightarrow> string" where
  "guest_or s = (if strip s = '''' then ''Vieras'' else strip s)"

definition upcoming_arrivals :: "(string \<Rightarrow> int \<Rightarrow> string) \<Rightarrow> int \<Rightarrow> date \<Rightarrow> db \<Rightarrow> upcoming_arrival list" where
  "upcoming_arrivals url oid t d =
     map (\<lambda>r. \<lparr>ua_reservation = res_id r, ua_start = res_start r, ua_end = res_end r, ua_guest = guest_or (res_guest_name r),
         ua_unit_label = stay_label r d, ua_link = url ''admin.reservations_detail'' (res_id r)\<rparr>)
       (take 10 (order2 res_start res_id (filter (\<lambda>r. t \<le> res_start r \<and> res_start r \<le> t + 7) (confirmed_stays oid d))))"

definition open_invoice_count :: "int \<Rightarrow> string list \<Rightarrow> db \<Rightarrow> nat" where
  "open_invoice_count oid ss d = length (filter (\<lambda>i. inv_org i = oid \<and> inv_status i \<in> set ss) (invoices d))"

definition open_maintenance_count :: "int \<Rightarrow> db \<Rightarrow> nat" where
  "open_maintenance_count oid d = length (filter (\<lambda>m. mr_org m = oid \<and> mr_status m \<in> set open_maintenance_statuses) (maintenance d))"

definition dashboard_alerts :: "nat \<Rightarrow> nat \<Rightarrow> nat \<Rightarrow> nat \<Rightarrow> (string \<times> string \<times> string) list" where
  "dashboard_alerts overdue open_requests arriving n =
     (if 0 < overdue then [(''warning'', show_nat overdue @ '' laskua er'' @ [CHR 0xE4, CHR 0xE4] @ ''ntynyt'', ''/admin/invoices?status=overdue'')] else [])
     @ (if 0 < open_requests then [(''warning'', show_nat open_requests @ '' avointa huoltopyynt'' @ [CHR 0xF6, CHR 0xE4], ''/admin/maintenance-requests?status=new'')] else [])
     @ (if n < arriving \<and> 0 < n then [(''info'', ''Poikkeuksellisen paljon check-intej'' @ [CHR 0xE4] @ '' t'' @ [CHR 0xE4] @ ''n'' @ [CHR 0xE4, CHR 0xE4] @ ''n'', ''/admin/reservations'')] else [])"

record summary =
  sm_occupancy :: "(date \<times> int) list"
  sm_units :: nat
  sm_last_week :: "(date \<times> int) list"  \<comment> \<open>the average of the week is of these\<close>
  sm_revenue :: "(date \<times> cents) list"
  sm_this_month :: cents
  sm_last_month :: cents
  sm_active :: nat
  sm_checkins :: nat
  sm_checkouts :: nat
  sm_open_invoices :: nat
  sm_overdue :: nat
  sm_open_maintenance :: nat
  sm_upcoming :: "upcoming_arrival list"
  sm_alerts :: "(string \<times> string \<times> string) list"
  sm_timezone :: string
  sm_properties :: nat
  sm_reservations :: nat
  sm_few_properties :: bool
  sm_few_reservations :: bool

definition dashboard_summary ::
  "(string \<Rightarrow> int \<Rightarrow> string) \<Rightarrow> (string \<Rightarrow> bool) \<Rightarrow> (string \<Rightarrow> date) \<Rightarrow> int \<Rightarrow> string option \<Rightarrow> db \<Rightarrow> summary" where
  \<comment> \<open>the third argument is today in a time zone\<close>
  "dashboard_summary url known today_in oid zone d =
     (let z = coerce_timezone_name known zone; t = today_in z; units = length (org_units oid d);
          places = length (filter (\<lambda>p. p_org p = oid) (properties d)); rs = confirmed_stays oid d;
          kept = length (filter (\<lambda>r. res_status r \<noteq> ''cancelled'') (scoped_reservations oid d));
          overdue = open_invoice_count oid [''overdue''] d; requests = open_maintenance_count oid d;
          arriving = count_stays (\<lambda>r. res_start r = t) rs; trend = trend_occupancy oid t d
      in \<lparr>sm_occupancy = trend, sm_units = units, sm_last_week = drop 23 trend,
          sm_revenue = map (\<lambda>k. (t - 29 + int k, daily_sum oid (t - 29) t d (t - 29 + int k))) [0..<30],
          sm_this_month = revenue_between oid (month_start t) t d,
          sm_last_month = revenue_between oid (month_start (month_start t - 1)) (month_start t - 1) d,
          sm_active = count_stays (\<lambda>r. res_start r \<le> t \<and> t < res_end r) rs, sm_checkins = arriving,
          sm_checkouts = count_stays (\<lambda>r. res_end r = t) rs,
          sm_open_invoices = open_invoice_count oid [''open'', ''overdue''] d, sm_overdue = overdue, sm_open_maintenance = requests,
          sm_upcoming = upcoming_arrivals url oid t d, sm_alerts = dashboard_alerts overdue requests arriving units,
          sm_timezone = z, sm_properties = places, sm_reservations = kept,
          sm_few_properties = (places < 3), sm_few_reservations = (kept < 5)\<rparr>)"

subsection \<open>The start page\<close>

definition unit_label :: "string \<Rightarrow> string \<Rightarrow> int \<Rightarrow> string" where
  "unit_label p u i =
     (if strip p \<noteq> '''' \<and> strip u \<noteq> '''' then strip p @ '' / '' @ strip u
      else if strip p \<noteq> '''' then strip p else if strip u \<noteq> '''' then strip u else ''Yksikk'' @ [CHR 0xF6] @ '' #'' @ show_int i)"

definition free_units_now :: "(string \<Rightarrow> int \<Rightarrow> string) \<Rightarrow> unit_status list \<Rightarrow> (string \<times> string \<times> string) list" where
  "free_units_now url xs =
     map (\<lambda>x. (unit_label (p_name (us_property x)) (u_name (us_unit x)) (u_id (us_unit x)), url ''admin.units_detail'' (u_id (us_unit x)),
         case us_next_at x of Some t \<Rightarrow> ''Vapaa kunnes '' @ day_month_label_fi t | None \<Rightarrow> ''Ei tulevia varauksia''))
       (take 10 (filter (\<lambda>x. us_state x = ''free'') xs))"

record reservation_counts =
  rc_active :: nat
  rc_cancelled :: nat
  rc_arrivals :: nat
  rc_departures :: nat
  rc_current :: nat
  rc_upcoming :: nat
  rc_arrivals_range :: nat
  rc_departures_range :: nat

definition reservation_metrics :: "int \<Rightarrow> date \<Rightarrow> date \<Rightarrow> date \<Rightarrow> db \<Rightarrow> reservation_counts" where
  "reservation_metrics oid t s e d =
     (let rs = confirmed_stays oid d in
      \<lparr>rc_active = length rs, rc_cancelled = count_stays (\<lambda>r. res_status r = ''cancelled'') (scoped_reservations oid d),
       rc_arrivals = count_stays (\<lambda>r. res_start r = t) rs, rc_departures = count_stays (\<lambda>r. res_end r = t) rs,
       rc_current = count_stays (\<lambda>r. res_start r \<le> t \<and> t < res_end r) rs, rc_upcoming = count_stays (\<lambda>r. t < res_start r) rs,
       rc_arrivals_range = count_stays (\<lambda>r. s \<le> res_start r \<and> res_start r \<le> e) rs,
       rc_departures_range = count_stays (\<lambda>r. s \<le> res_end r \<and> res_end r \<le> e) rs\<rparr>)"

definition invoice_sum :: "int \<Rightarrow> string list \<Rightarrow> db \<Rightarrow> cents" where
  "invoice_sum oid ss d = (\<Sum>i\<leftarrow>filter (\<lambda>i. inv_org i = oid \<and> inv_status i \<in> set ss) (invoices d). inv_amount i)"

definition leases_ending :: "int \<Rightarrow> date \<Rightarrow> db \<Rightarrow> nat" where
  "leases_ending oid t d =
     length (filter (\<lambda>l. le_org l = oid \<and> le_status l = ''active''
       \<and> (case le_end l of None \<Rightarrow> False | Some e \<Rightarrow> t \<le> e \<and> e \<le> t + 7)) (leases d))"

record stay_line =
  sl_reservation :: int
  sl_unit :: string
  sl_guest :: string
  sl_start :: date
  sl_end :: date
  sl_status :: string
  sl_code :: bool

definition line_of_stay :: "db \<Rightarrow> reservation \<Rightarrow> stay_line" where
  "line_of_stay d r =
     (let u = unit_get (res_unit r) d; p = (case u of None \<Rightarrow> None | Some x \<Rightarrow> property_get (u_property x) d);
          own = strip (res_guest_name r);
          named = (case Option.bind (res_guest r) (\<lambda>g. guest_get g d) of
             None \<Rightarrow> ''''
           | Some g \<Rightarrow>
               strip (strip (g_first_name g) @ (if strip (g_first_name g) \<noteq> '''' \<and> strip (g_last_name g) \<noteq> '''' then '' '' else '''') @ strip (g_last_name g)))
      in \<lparr>sl_reservation = res_id r,
          sl_unit = unit_label (case p of None \<Rightarrow> '''' | Some x \<Rightarrow> p_name x) (case u of None \<Rightarrow> '''' | Some x \<Rightarrow> u_name x) (res_unit r),
          sl_guest = (if own \<noteq> '''' then own else if named \<noteq> '''' then named else ''Vieras''),
          sl_start = res_start r, sl_end = res_end r, sl_status = res_status r,
          sl_code = (\<exists>c\<in>set (access_codes d). ac_reservation c = res_id r \<and> ac_active c)\<rparr>)"

definition today_arrivals :: "int \<Rightarrow> date \<Rightarrow> db \<Rightarrow> stay_line list" where
  "today_arrivals oid t d = map (line_of_stay d) (take 10 (sort_key res_id (filter (\<lambda>r. res_start r = t) (confirmed_stays oid d))))"

definition today_departures :: "int \<Rightarrow> date \<Rightarrow> db \<Rightarrow> stay_line list" where
  "today_departures oid t d = map (line_of_stay d) (take 10 (sort_key res_id (filter (\<lambda>r. res_end r = t) (confirmed_stays oid d))))"

record todo =
  td_kind :: string
  td_label :: string
  td_link :: string
  td_severity :: string
  td_since :: string

definition overdue_todos :: "(string \<Rightarrow> int \<Rightarrow> string) \<Rightarrow> int \<Rightarrow> db \<Rightarrow> todo list" where
  "overdue_todos url oid d =
     map (\<lambda>i. \<lparr>td_kind = ''invoice_overdue'', td_label = ''My'' @ [CHR 0xF6] @ ''h'' @ [CHR 0xE4] @ ''ss'' @ [CHR 0xE4] @ '' oleva lasku ''
           @ (if or_empty (inv_number i) = '''' then ''#'' @ show_int (inv_id i) else or_empty (inv_number i)),
         td_link = url ''admin.invoices_detail'' (inv_id i), td_severity = ''danger'', td_since = isoformat (inv_due i)\<rparr>)
       (take 5 (order2 inv_due inv_id (filter (\<lambda>i. inv_org i = oid \<and> inv_status i = ''overdue'') (invoices d))))"

definition maintenance_todos :: "(string \<Rightarrow> int \<Rightarrow> string) \<Rightarrow> int \<Rightarrow> db \<Rightarrow> todo list" where
  "maintenance_todos url oid d =
     map (\<lambda>m. \<lparr>td_kind = ''maintenance_new'', td_label = ''Uusi huoltopyynt'' @ [CHR 0xF6] @ '' #'' @ show_int (mr_id m) @ '': '' @ mr_title m,
         td_link = url ''admin.maintenance_requests_detail'' (mr_id m), td_severity = ''warning'', td_since = stamp_iso (mr_created_at m)\<rparr>)
       (take 5 (order2 mr_created_at mr_id (filter (\<lambda>m. mr_org m = oid \<and> mr_status m = ''new'') (maintenance d))))"

definition checkin_todos :: "(string \<Rightarrow> int \<Rightarrow> string) \<Rightarrow> int \<Rightarrow> stamp \<Rightarrow> db \<Rightarrow> todo list" where
  "checkin_todos url oid now d =
     map (\<lambda>k. \<lparr>td_kind = ''checkin_expired'',
         td_label = ''Vanhentunut sis'' @ [CHR 0xE4, CHR 0xE4] @ ''nkirjautumislinkki varaukselle #'' @ show_int (tk_subject k),
         td_link = url ''admin.reservations_detail'' (tk_subject k), td_severity = ''warning'', td_since = stamp_iso (tk_expires_at k)\<rparr>)
       (order2 tk_expires_at tk_id (filter (\<lambda>k. tk_used_at k = None \<and> tk_expires_at k < now
          \<and> (\<exists>r\<in>set (scoped_reservations oid d). res_id r = tk_subject k)) (checkin_tokens d)))"

definition conflict_events :: "int \<Rightarrow> db \<Rightarrow> imported_event list" where
  "conflict_events oid d =
     order2 ie_created_at ie_id (filter (\<lambda>e. ie_org e = oid \<and> ilike_opt (ie_summary e) (needle ''conflict'')) (imported d))"

definition ical_todos :: "(string \<Rightarrow> int \<Rightarrow> string) \<Rightarrow> int \<Rightarrow> db \<Rightarrow> todo list" where
  "ical_todos url oid d =
     map (\<lambda>e. \<lparr>td_kind = ''ical_conflict'',
         td_label = ''iCal-konflikti: '' @ (if or_empty (ie_summary e) = '''' then ''Tapahtuma #'' @ show_int (ie_id e) else or_empty (ie_summary e)),
         td_link = url ''admin.conflicts_page'' 0, td_severity = ''warning'', td_since = stamp_iso (ie_created_at e)\<rparr>)
       (conflict_events oid d)"

definition action_required :: "(string \<Rightarrow> int \<Rightarrow> string) \<Rightarrow> int \<Rightarrow> stamp \<Rightarrow> db \<Rightarrow> todo list" where
  \<comment> \<open>sorted by the text of the time, stably\<close>
  "action_required url oid now d =
     sort_key td_since (overdue_todos url oid d @ maintenance_todos url oid d @ checkin_todos url oid now d @ ical_todos url oid d)"

record revenue =
  rv_month :: cents
  rv_previous_month :: cents
  rv_range :: cents
  rv_compare :: cents  \<comment> \<open>the trend is the growth over it, none when it is zero\<close>
  rv_open :: cents
  rv_overdue :: cents

definition revenue_of :: "int \<Rightarrow> stamp \<Rightarrow> date \<Rightarrow> date \<times> date \<times> int \<Rightarrow> db \<Rightarrow> revenue" where
  "revenue_of oid now t window d =
     (case window of (s, e, n) \<Rightarrow>
        let m = month_start t; prev = month_start (m - 1) in
        \<lparr>rv_month = sum_paid_between oid (utc_midnight m) now d, rv_previous_month = sum_paid_between oid (utc_midnight prev) (utc_midnight m) d,
         rv_range = sum_paid_between oid (utc_midnight s) (utc_midnight (e + 1)) d,
         rv_compare = sum_paid_between oid (utc_midnight (s - n)) (utc_midnight s) d,
         rv_open = invoice_sum oid [''open'', ''overdue''] d, rv_overdue = invoice_sum oid [''overdue''] d\<rparr>)"

definition revenue_trend :: "revenue \<Rightarrow> (cents \<times> cents) option" where
  \<comment> \<open>the difference and what it is a percentage of\<close>
  "revenue_trend v = (if rv_compare v = 0 then None else Some (rv_range v - rv_compare v, rv_compare v))"

record cash_month =
  cm_income :: cents
  cm_expenses :: cents
  cm_net :: cents
  cm_forecast :: cents

definition cash_month_of :: "env \<Rightarrow> int \<Rightarrow> stamp \<Rightarrow> date \<Rightarrow> db \<Rightarrow> cash_month" where
  "cash_month_of en oid now t d =
     (let m = month_start t; income = sum_paid_between oid (utc_midnight m) now d;
          spent = (\<Sum>x\<leftarrow>filter (\<lambda>x. ex_org x = oid \<and> m \<le> ex_date x \<and> ex_date x \<le> t) (expenses d). ex_amount x)
      in \<lparr>cm_income = income, cm_expenses = spent, cm_net = income - spent, cm_forecast = compute_forecasted_cash_flow en oid 30 d\<rparr>)"

record mail_health =
  mh_sent :: nat
  mh_failed :: nat
  mh_last_failure :: "email_item option"

definition email_health :: "int \<Rightarrow> stamp \<Rightarrow> stamp \<Rightarrow> db \<Rightarrow> mail_health" where
  "email_health oid from until d =
     (let ms = filter (\<lambda>m. from \<le> em_created_at m \<and> em_created_at m < until \<and> (em_org m = JInt oid \<or> em_org m = JNull)) (email_queue d);
          failed = order2_desc em_created_at em_id (filter (\<lambda>m. em_status m = ''failed'') ms)
      in \<lparr>mh_sent = length (filter (\<lambda>m. em_status m = ''sent'') ms), mh_failed = length failed,
          mh_last_failure = (case failed of [] \<Rightarrow> None | m # _ \<Rightarrow> Some m)\<rparr>)"

record integrations =
  ig_last_sync :: "stamp option"
  ig_conflicts :: nat
  ig_feeds :: nat
  ig_lock_configured :: bool
  ig_last_lock_call :: "stamp option"
  ig_failed_lock_calls :: nat

definition lock_calls :: "int \<Rightarrow> string \<Rightarrow> db \<Rightarrow> audit_log list" where
  "lock_calls oid status d =
     filter (\<lambda>a. al_org a = Some oid \<and> al_status a = Some status \<and> al_action a \<in> {''lock.code_issued'', ''lock.code_revoked''}) (audit_logs d)"

definition last_sync :: "int \<Rightarrow> db \<Rightarrow> stamp option" where
  \<comment> \<open>descending order puts a feed that was never synchronized first\<close>
  "last_sync oid d =
     (let fs = filter (\<lambda>f. fd_org f = oid \<and> fd_active f) (feeds d) in
      if \<exists>f\<in>set fs. fd_synced_at f = None then None
      else case rev (sort (map (\<lambda>f. case fd_synced_at f of None \<Rightarrow> 0 | Some t \<Rightarrow> t) fs)) of [] \<Rightarrow> None | t # _ \<Rightarrow> Some t)"

definition integrations_of :: "bool \<Rightarrow> int \<Rightarrow> stamp \<Rightarrow> db \<Rightarrow> integrations" where
  "integrations_of configured oid now d =
     \<lparr>ig_last_sync = last_sync oid d, ig_conflicts = length (conflict_events oid d),
      ig_feeds = length (filter (\<lambda>f. fd_org f = oid \<and> fd_active f) (feeds d)), ig_lock_configured = configured,
      ig_last_lock_call = (case order2_desc al_created_at al_id (lock_calls oid ''success'' d) of [] \<Rightarrow> None | a # _ \<Rightarrow> Some (al_created_at a)),
      ig_failed_lock_calls = length (filter (\<lambda>a. now - hours 24 \<le> al_created_at a) (lock_calls oid ''failure'' d))\<rparr>"

record dashboard =
  db_properties :: nat
  db_units :: nat
  db_counts :: reservation_counts
  db_occupancy :: "nat \<times> nat"
  db_active_leases :: nat
  db_open_invoices :: nat
  db_overdue_invoices :: nat
  db_open_maintenance :: nat
  db_urgent_maintenance :: nat
  db_leases_ending :: nat
  db_arrivals :: "stay_line list"
  db_departures :: "stay_line list"
  db_free_units :: "(string \<times> string \<times> string) list"
  db_todos :: "todo list"
  db_range :: string
  db_audit :: "audit_log list"
  db_week :: "day_overview list"
  db_unit_states :: "unit_overview list"
  db_revenue :: revenue
  db_cash :: cash_month
  db_aging :: "(string \<times> cents) list"
  db_integrations :: integrations
  db_mail :: "mail_health option"

definition get_dashboard_stats ::
  "env \<Rightarrow> (string \<Rightarrow> int \<Rightarrow> string) \<Rightarrow> bool \<Rightarrow> int \<Rightarrow> bool \<Rightarrow> string option \<Rightarrow> stamp \<Rightarrow> db \<Rightarrow> dashboard" where
  "get_dashboard_stats en url lock_configured oid superadmin wanted now d =
     (let key = normalize_dashboard_range wanted; t = local_today en; window = resolve_range_window key t;
          s = fst window; e = fst (snd window) in
      \<lparr>db_properties = length (filter (\<lambda>p. p_org p = oid) (properties d)), db_units = length (org_units oid d),
       db_counts = reservation_metrics oid t s e d, db_occupancy = occupancy_report oid t (t + 1) d,
       db_active_leases = length (filter (\<lambda>l. le_org l = oid \<and> le_status l = ''active'') (leases d)),
       db_open_invoices = open_invoice_count oid [''open'', ''overdue''] d, db_overdue_invoices = open_invoice_count oid [''overdue''] d,
       db_open_maintenance = open_maintenance_count oid d,
       db_urgent_maintenance = length (filter (\<lambda>m. mr_org m = oid \<and> mr_priority m = ''urgent'' \<and> mr_status m \<in> set open_maintenance_statuses) (maintenance d)),
       db_leases_ending = leases_ending oid t d, db_arrivals = today_arrivals oid t d, db_departures = today_departures oid t d,
       db_free_units = free_units_now url (list_units_with_availability_status en oid None (Some t) d),
       db_todos = action_required url oid now d, db_range = key,
       db_audit = take 5 (rev (sort_key al_created_at (filter (\<lambda>a. al_org a = Some oid) (audit_logs d)))),
       db_week = get_week_overview oid t d, db_unit_states = get_unit_status_overview en url oid t d,
       db_revenue = revenue_of oid now t window d, db_cash = cash_month_of en oid now t d,
       db_aging = compute_aging_receivables oid t d, db_integrations = integrations_of lock_configured oid now d,
       db_mail = (if superadmin then Some (email_health oid (utc_midnight s) (utc_midnight (e + 1)) d) else None)\<rparr>)"

subsection \<open>The trend and the week\<close>

lemma count_stays_simps [simp]:
  "count_stays P [] = 0" "count_stays P (r # rs) = (if P r then 1 else 0) + count_stays P rs"
  by (simp_all add: count_stays_def)

lemma count_stays_cong: "(\<And>r. r \<in> set rs \<Longrightarrow> P r = Q r) \<Longrightarrow> count_stays P rs = count_stays Q rs"
  unfolding count_stays_def by (rule arg_cong [of _ _ length], rule filter_cong) auto

lemma count_filtered: "count_stays P (filter Q rs) = count_stays (\<lambda>r. Q r \<and> P r) rs"
  by (simp add: count_stays_def conj_commute)

lemma occupancy_walk_nth:
  "k < n \<Longrightarrow> occupancy_walk A D run t n ! k = (t + int k, run + (\<Sum>j\<le>k. A (t + int j) - D (t + int j)))"
proof (induction A D run t n arbitrary: k rule: occupancy_walk.induct)
  case (2 A D run t n)
  show ?case
  proof (cases k)
    case (Suc m)
    have "(\<Sum>j\<le>Suc m. A (t + int j) - D (t + int j)) = (A t - D t) + (\<Sum>j\<le>m. A (t + 1 + int j) - D (t + 1 + int j))"
      unfolding sum.atMost_Suc_shift by (simp add: algebra_simps)
    then show ?thesis using 2 Suc by (simp add: Let_def)
  qed (simp add: Let_def)
qed simp

lemma count_by_day:
  assumes "s + int k \<le> t"
  shows "(\<Sum>j\<le>k. int (count_stays (\<lambda>r. s \<le> f r \<and> f r \<le> t \<and> f r = s + int j) rs)) = int (count_stays (\<lambda>r. s \<le> f r \<and> f r \<le> s + int k) rs)"
  using assms
proof (induction k)
  case 0
  show ?case using 0 by (simp add: antisym_conv1) (rule count_stays_cong, auto)
next
  case (Suc k)
  have "int (count_stays (\<lambda>r. s \<le> f r \<and> f r \<le> s + int k) rs) + int (count_stays (\<lambda>r. s \<le> f r \<and> f r \<le> t \<and> f r = s + int (Suc k)) rs)
      = int (count_stays (\<lambda>r. s \<le> f r \<and> f r \<le> s + int (Suc k)) rs)"
    using Suc.prems by (induction rs) auto
  then show ?case using Suc by simp
qed

lemma balance:
  assumes "\<forall>r\<in>set rs. res_start r < res_end r" and "s \<le> x"
  shows "int (count_stays (\<lambda>r. res_start r < s \<and> s < res_end r) rs) + int (count_stays (\<lambda>r. s \<le> res_start r \<and> res_start r \<le> x) rs)
      - int (count_stays (\<lambda>r. s \<le> res_end r \<and> res_end r \<le> x) rs)
    = int (count_stays (\<lambda>r. res_start r \<le> x \<and> x < res_end r) rs) - int (count_stays (\<lambda>r. res_start r < s \<and> res_end r = s) rs)"
  using assms by (induction rs) auto

text \<open>C40: The 30-day occupancy of the start page is too low by the same number every day: the stays that end on the first day of
  the window are subtracted from a start value that does not contain them. Otherwise each day shows the
  confirmed stays that cover its night.\<close>

theorem trend_misses_departures:
  assumes "\<forall>r\<in>set (confirmed_stays oid d). res_start r < res_end r" and "k < 30"
  shows "trend_occupancy oid t d ! k = (t - 29 + int k,
      int (count_stays (\<lambda>r. res_start r \<le> t - 29 + int k \<and> t - 29 + int k < res_end r) (confirmed_stays oid d))
      - int (count_stays (\<lambda>r. res_start r < t - 29 \<and> res_end r = t - 29) (confirmed_stays oid d)))"
proof -
  let ?s = "t - 29" and ?rs = "confirmed_stays oid d"
  have le: "?s + int k \<le> t" using assms(2) by simp
  have "trend_occupancy oid t d ! k = (?s + int k, int (count_stays (\<lambda>r. res_start r < ?s \<and> ?s < res_end r) ?rs)
      + ((\<Sum>j\<le>k. int (count_stays (\<lambda>r. ?s \<le> res_start r \<and> res_start r \<le> t \<and> res_start r = ?s + int j) ?rs))
        - (\<Sum>j\<le>k. int (count_stays (\<lambda>r. ?s \<le> res_end r \<and> res_end r \<le> t \<and> res_end r = ?s + int j) ?rs))))"
    unfolding trend_occupancy_def Let_def by (subst occupancy_walk_nth [OF assms(2)]) (simp only: sum_subtractf)
  also have "\<dots> = (?s + int k, int (count_stays (\<lambda>r. res_start r < ?s \<and> ?s < res_end r) ?rs)
      + int (count_stays (\<lambda>r. ?s \<le> res_start r \<and> res_start r \<le> ?s + int k) ?rs) - int (count_stays (\<lambda>r. ?s \<le> res_end r \<and> res_end r \<le> ?s + int k) ?rs))"
    unfolding count_by_day [OF le] by simp
  finally show ?thesis unfolding balance [OF assms(1), of ?s "?s + int k", simplified] .
qed

text \<open>The week overview counts each day's guests, arrivals and departures right, except that the departures of its first day
  are always shown as none.\<close>

theorem week_forgets_first_departures:
  assumes "\<forall>r\<in>set (confirmed_stays oid d). res_start r < res_end r" and "k < 7"
  shows "let v = get_week_overview oid s d ! k; x = s + int k; rs = confirmed_stays oid d in
      dv_date v = x \<and> dv_stays v = count_stays (\<lambda>r. res_start r \<le> x \<and> x < res_end r) rs
    \<and> dv_arrivals v = count_stays (\<lambda>r. res_start r = x) rs
    \<and> dv_departures v = (if k = 0 then 0 else count_stays (\<lambda>r. res_end r = x) rs)"
proof -
  have v: "get_week_overview oid s d ! k = day_overview_of (length (org_units oid d)) (week_stays oid s d) (s + int k)"
    using assms(2) by (simp add: get_week_overview_def)
  have "count_stays (\<lambda>r. (res_start r \<le> s + 6 \<and> s < res_end r) \<and> res_end r = s + int k) (confirmed_stays oid d)
      = (if k = 0 then 0 else count_stays (\<lambda>r. res_end r = s + int k) (confirmed_stays oid d))"
  proof (cases "k = 0")
    case True
    then show ?thesis by (induction "confirmed_stays oid d") (auto simp: count_stays_def filter_empty_conv)
  next
    case False
    then show ?thesis using assms by simp (intro count_stays_cong, fastforce)
  qed
  then show ?thesis using assms unfolding v
    by (auto simp: Let_def day_overview_of_def week_stays_def count_filtered intro!: count_stays_cong)
qed

subsection \<open>Two views of a unit\<close>

lemma ranked_stay_best:
  assumes "ranked_stay t u d = Some r"
  shows "r \<in> set (relevant_stays t u d) \<and> (\<forall>x\<in>set (relevant_stays t u d). overview_rank t x \<le> overview_rank t r)"
proof -
  let ?rs = "sort_key (overview_rank t) (order2 res_start res_id (relevant_stays t u d))"
  obtain zs where "rev ?rs = r # zs" using assms by (auto simp: ranked_stay_def split: list.splits)
  then have rs: "?rs = rev zs @ [r]" by (metis rev.simps(2) rev_rev_ident)
  have "sorted (map (overview_rank t) ?rs)" by simp
  then have "\<forall>x\<in>set ?rs. overview_rank t x \<le> overview_rank t r" unfolding rs by (auto simp: sorted_append)
  moreover have "r \<in> set ?rs" unfolding rs by simp
  ultimately show ?thesis by simp
qed

lemma ranked_stay_none: "ranked_stay t u d = None \<longleftrightarrow> relevant_stays t u d = []"
proof -
  have "ranked_stay t u d = None \<longleftrightarrow> sort_key (overview_rank t) (order2 res_start res_id (relevant_stays t u d)) = []"
    by (auto simp: ranked_stay_def split: list.splits)
  then show ?thesis by (metis length_0_conv length_sort order2_length)
qed

text \<open>C39: The two views of a unit agree on whether it is taken for the coming night. When every live stay of a unit is stored as
  \<open>confirmed\<close> (and not as \<open>active\<close>), has at least one night and no two of them share the night before, the start page shows
  the unit as occupied or arriving exactly when the page of its property shows it as reserved or in transition, and that is when
  the unit is in use and a live stay covers the night; as free or departing exactly when the other shows it as free or
  under maintenance; as blocked exactly when the other does; and what the other calls a transition it calls arriving.\<close>

theorem unit_views_agree:
  assumes "\<forall>r\<in>set (reservations d). res_unit r = u_id u \<longrightarrow> res_start r < res_end r
      \<and> (lower (res_status r) \<in> {''confirmed'', ''active''} \<longleftrightarrow> res_status r = ''confirmed'')"
    and "\<forall>r\<in>set (reservations d). \<forall>x\<in>set (reservations d). covers_night y u r \<and> covers_night y u x \<longrightarrow> r = x"
    and "y = t - 1"
  shows "(uo_state (unit_overview_of url t u p d) \<in> {''arriving'', ''occupied''} \<longleftrightarrow>
      us_state (unit_status_of oid t u p d) \<in> {''reserved'', ''transition''})
    \<and> (us_state (unit_status_of oid t u p d) \<in> {''reserved'', ''transition''} \<longleftrightarrow>
      \<not> unit_out_of_use u \<and> (\<exists>r\<in>set (reservations d). covers_night t u r))
    \<and> (uo_state (unit_overview_of url t u p d) \<in> {''free'', ''departing''} \<longleftrightarrow>
      us_state (unit_status_of oid t u p d) \<in> {''free'', ''maintenance''})
    \<and> (uo_state (unit_overview_of url t u p d) = ''blocked'' \<longleftrightarrow> us_state (unit_status_of oid t u p d) = ''blocked'')
    \<and> (us_state (unit_status_of oid t u p d) = ''transition'' \<longrightarrow> uo_state (unit_overview_of url t u p d) = ''arriving'')"
proof -
  let ?S = "relevant_stays t u d"
  have pos: "res_start r < res_end r" and live: "lower (res_status r) \<in> {''confirmed'', ''active''} \<longleftrightarrow> res_status r = ''confirmed''"
    if "r \<in> set (reservations d)" "res_unit r = u_id u" for r
    using assms(1) that by blast+
  have S: "r \<in> set ?S \<longleftrightarrow> r \<in> set (reservations d) \<and> res_unit r = u_id u \<and> res_status r = ''confirmed'' \<and> (res_end r = t \<or> res_start r \<le> t \<and> t < res_end r)" for r
    unfolding relevant_stays_def set_filter using pos [of r] by auto
  have night: "covers_night x u r \<longleftrightarrow> res_unit r = u_id u \<and> res_status r = ''confirmed'' \<and> res_start r \<le> x \<and> x < res_end r"
    if "r \<in> set (reservations d)" for x r
    unfolding covers_night_def using live [OF that] by blast
  have cover: "(\<exists>r\<in>set (reservations d). covers_night t u r) \<longleftrightarrow> (\<exists>r\<in>set ?S. res_start r \<le> t \<and> t < res_end r)"
  proof -
    have "(\<exists>r\<in>set (reservations d). covers_night t u r) \<longleftrightarrow>
        (\<exists>r\<in>set (reservations d). res_unit r = u_id u \<and> res_status r = ''confirmed'' \<and> res_start r \<le> t \<and> t < res_end r)"
      by (rule bex_cong) (simp_all only: night)
    also have "\<dots> \<longleftrightarrow> (\<exists>r\<in>set ?S. res_start r \<le> t \<and> t < res_end r)" unfolding Bex_def S by auto
    finally show ?thesis .
  qed
  have no_end: "res_end r \<noteq> t" if r: "r \<in> set ?S" and c: "c \<in> set ?S" "res_start c < t" "t < res_end c" for r c
  proof
    assume e: "res_end r = t"
    have "r \<in> set (reservations d)" "c \<in> set (reservations d)" using r c(1) unfolding S by blast+
    moreover from this have "covers_night y u r" "covers_night y u c"
      using r c e pos [of r] unfolding S assms(3) by (simp_all add: night)
    ultimately have "r = c" using assms(2) by blast
    then show False using e c(3) by simp
  qed
  have state: "overview_state t u (ranked_stay t u d) \<in> {''arriving'', ''occupied''} \<longleftrightarrow>
      \<not> unit_out_of_use u \<and> (\<exists>r\<in>set ?S. res_start r \<le> t \<and> t < res_end r)"
  proof (cases "ranked_stay t u d")
    case None
    then show ?thesis using ranked_stay_none [of t u d] by (simp add: overview_state_def)
  next
    case (Some r)
    note best = ranked_stay_best [OF Some]
    have "(res_start r = t \<or> res_end r \<noteq> t) \<longleftrightarrow> (\<exists>c\<in>set ?S. res_start c \<le> t \<and> t < res_end c)"
    proof
      assume "res_start r = t \<or> res_end r \<noteq> t"
      moreover have "res_start r < res_end r" "res_end r = t \<or> res_start r \<le> t \<and> t < res_end r"
        using best pos [of r] unfolding S by blast+
      ultimately show "\<exists>c\<in>set ?S. res_start c \<le> t \<and> t < res_end c" using best by (intro bexI [of _ r]) auto
    next
      assume "\<exists>c\<in>set ?S. res_start c \<le> t \<and> t < res_end c"
      then obtain c where c: "c \<in> set ?S" "res_start c \<le> t" "t < res_end c" by blast
      show "res_start r = t \<or> res_end r \<noteq> t"
      proof (cases "res_start c = t")
        case True
        then have "overview_rank t c = 3" by (simp add: overview_rank_def)
        then have "3 \<le> overview_rank t r" using best c(1) by metis
        then show ?thesis by (auto simp: overview_rank_def split: if_splits)
      next
        case False
        then have "res_start c < t" using c(2) by simp
        then have "res_end r \<noteq> t" using no_end [of r c] best c by blast
        then show ?thesis by blast
      qed
    qed
    then show ?thesis by (auto simp: overview_state_def Some)
  qed
  have o: "uo_state (unit_overview_of url t u p d) = overview_state t u (ranked_stay t u d)" by (simp add: unit_overview_of_def Let_def)
  have taken: "uo_state (unit_overview_of url t u p d) \<in> {''arriving'', ''occupied''} \<longleftrightarrow>
      us_state (unit_status_of oid t u p d) \<in> {''reserved'', ''transition''}"
    unfolding o state unit_taken cover ..
  have blocked: "uo_state (unit_overview_of url t u p d) = ''blocked'' \<longleftrightarrow> us_state (unit_status_of oid t u p d) = ''blocked''"
    unfolding o unit_state_cases by (simp add: overview_state_def split: option.split)
  have "uo_state (unit_overview_of url t u p d) \<in> {''blocked'', ''free'', ''arriving'', ''departing'', ''occupied''}"
    unfolding o by (simp add: overview_state_def split: option.split)
  moreover have "us_state (unit_status_of oid t u p d) \<in> {''blocked'', ''transition'', ''reserved'', ''maintenance'', ''free''}"
    unfolding unit_state_cases by simp
  ultimately have rest: "uo_state (unit_overview_of url t u p d) \<in> {''free'', ''departing''} \<longleftrightarrow>
      us_state (unit_status_of oid t u p d) \<in> {''free'', ''maintenance''}"
    using taken blocked by auto
  have "uo_state (unit_overview_of url t u p d) = ''arriving''" if "us_state (unit_status_of oid t u p d) = ''transition''"
  proof -
    have use: "\<not> unit_out_of_use u" "starting_stay t u d \<noteq> None" using that unfolding unit_state_cases by (simp_all split: if_splits)
    then obtain c where c: "c \<in> set (reservations d)" "covers_night t u c" "res_start c = t" unfolding found_stays by blast
    have cS: "c \<in> set ?S" using c unfolding S night [OF c(1)] by simp
    then obtain r where r: "ranked_stay t u d = Some r" using ranked_stay_none [of t u d] by (cases "ranked_stay t u d") auto
    have "overview_rank t c = 3" using c(3) by (simp add: overview_rank_def)
    then have "3 \<le> overview_rank t r" using ranked_stay_best [OF r] cS by metis
    then have "res_start r = t" by (auto simp: overview_rank_def split: if_splits)
    then show ?thesis unfolding o using use(1) by (simp add: overview_state_def r)
  qed
  then show ?thesis using taken rest blocked unit_taken [of oid t u p d] by blast
qed

subsection \<open>A stay that leaves on the first day\<close>

lemma one_stay: "confirmed_stays 1 sample_hotel = [sample_stay]"
  by (simp add: confirmed_stays_def) code_simp

lemma stay_days: "res_start sample_stay = ordinal_of 2026 1 9" "res_end sample_stay = ordinal_of 2026 1 12"
  "ordinal_of 2026 1 9 < ordinal_of 2026 1 12"
  by (simp_all add: sample_stay_def) code_simp

theorem trend_misses_departures_witness:
  "trend_occupancy 1 (ordinal_of 2026 1 12 + 29) sample_hotel ! 0 = (ordinal_of 2026 1 12, - 1)"
proof -
  have "\<forall>r\<in>set (confirmed_stays 1 sample_hotel). res_start r < res_end r" by (simp add: one_stay stay_days)
  from trend_misses_departures [OF this, of 0 "ordinal_of 2026 1 12 + 29"] show ?thesis using stay_days(3) by (simp add: one_stay stay_days)
qed

theorem week_forgets_first_departures_witness:
  "dv_departures (get_week_overview 1 (ordinal_of 2026 1 12) sample_hotel ! 0) = 0
   \<and> dv_departures (get_week_overview 1 (ordinal_of 2026 1 11) sample_hotel ! 1) = 1"
proof -
  have p: "\<forall>r\<in>set (confirmed_stays 1 sample_hotel). res_start r < res_end r" by (simp add: one_stay stay_days)
  have "ordinal_of 2026 1 11 + 1 = ordinal_of 2026 1 12" by code_simp
  then show ?thesis
    using week_forgets_first_departures [OF p, of 0 "ordinal_of 2026 1 12"] week_forgets_first_departures [OF p, of 1 "ordinal_of 2026 1 11"]
    by (simp add: Let_def one_stay stay_days)
qed

theorem unit_views_agree_witness:
  "uo_state (unit_overview_of (\<lambda>_ _. '''') (ordinal_of 2026 1 9) (sample_unit 1 1 ''A1'') (sample_property 1 1 ''North'') sample_hotel) \<in> {''arriving'', ''occupied''}
   \<longleftrightarrow> us_state (unit_status_of 1 (ordinal_of 2026 1 9) (sample_unit 1 1 ''A1'') (sample_property 1 1 ''North'') sample_hotel) \<in> {''reserved'', ''transition''}"
proof -
  have l: "lower ''confirmed'' = ''confirmed''" by code_simp
  have s: "res_status sample_stay = ''confirmed''" by (simp add: sample_stay_def)
  have "\<forall>r\<in>set (reservations sample_hotel). res_unit r = u_id (sample_unit 1 1 ''A1'') \<longrightarrow> res_start r < res_end r
      \<and> (lower (res_status r) \<in> {''confirmed'', ''active''} \<longleftrightarrow> res_status r = ''confirmed'')"
    using stay_days(3) by (simp add: stay_days s l)
  from unit_views_agree [OF this _ refl, of "ordinal_of 2026 1 9" "\<lambda>_ _. ''''" "sample_property 1 1 ''North''" 1]
  show ?thesis by simp
qed

end
