(* ===== verification/Accounts.thy ===== *)
theory Accounts
  imports Guests Notifications
begin

text \<open>
  User accounts (app/users/services.py) and the requests of the data subject: export, anonymization and
  deletion (app/gdpr/services.py). Inserting a user inserts a shadow guest under the same number when that
  number is free. The shortest password is an argument, as are the random password and the URL in the
  welcome mail. Main facts: mail addresses are unique over all organizations; an export holds no secret;
  what an anonymization reaches, and what it does not.
\<close>

subsection \<open>User accounts\<close>

datatype account_error = UserServiceError string | GdprPermissionError | AccountPy py_error

definition user_roles :: "string list" where
  "user_roles = [''superadmin'', ''admin'', ''user'', ''api_client'']"

definition validate_password_strength :: "int \<Rightarrow> string \<Rightarrow> string list" where
  "validate_password_strength min_length p =
     (if int (length p) < min_length then [''Password must be at least '' @ show_int min_length @ '' characters long.''] else [])
     @ (if list_ex is_alpha_char p then [] else [''Password must include at least one letter.''])
     @ (if list_ex is_digit p then [] else [''Password must include at least one number.''])"

definition e_role :: "string \<Rightarrow> account_error" where
  "e_role r = UserServiceError (''Invalid role '' @ [CHR 0x27] @ r @ [CHR 0x27] @ ''. Must be one of: admin, api_client, superadmin, user.'')"

definition e_no_user :: "int \<Rightarrow> account_error" where
  "e_no_user i = UserServiceError (''User id '' @ show_int i @ '' not found.'')"

record actor =
  act_type :: "string option"
  act_id :: "int option"
  act_email :: "string option"

definition actor_audit :: "actor \<Rightarrow> user_row \<Rightarrow> (string \<times> json) list \<Rightarrow> audit_args" where
  "actor_audit a u context =
     audit_defaults\<lparr>aa_actor_type := Some (if or_empty (act_type a) = '''' then ''system'' else or_empty (act_type a)),
       aa_actor_id := act_id a, aa_actor_email := act_email a, aa_org := Some (usr_org u), aa_target_type := Some ''user'',
       aa_target_id := Some (usr_id u), aa_context := Some context\<rparr>"

definition shadow_guest :: "user_row \<Rightarrow> stamp \<Rightarrow> guest_row" where
  "shadow_guest u t =
     (let part = strip (takeWhile (\<lambda>c. c \<noteq> CHR ''@'') (if usr_email u = '''' then ''guest'' else usr_email u))
      in \<lparr>g_id = usr_id u, g_org = usr_org u, g_first_name = (if part = '''' then ''Guest'' else part), g_last_name = '''',
          g_email = Some (usr_email u), g_phone = None, g_notes = None, g_preferences = None, g_created_at = t, g_updated_at = t\<rparr>)"

definition ensure_shadow_guest :: "user_row \<Rightarrow> stamp \<Rightarrow> db \<Rightarrow> db" where
  \<comment> \<open>inserted with a key of its own: the sequence of the table stays\<close>
  "ensure_shadow_guest u t d =
     (if \<exists>g\<in>set (guests d). g_id g = usr_id u then d else d\<lparr>guests := guests d @ [shadow_guest u t]\<rparr>)"

definition send_welcome_email :: "env \<Rightarrow> string \<Rightarrow> user_row \<Rightarrow> org_row \<Rightarrow> world \<Rightarrow> world" where
  "send_welcome_email en login_url u x w =
     snd (send_template en ''welcome_email'' (usr_email u)
       [(''user_email'', JStr (usr_email u)), (''organization_name'', JStr (org_name x)), (''login_url'', JStr login_url)] w)"

record user_args =
  ua_email :: string
  ua_password :: string
  ua_role :: string
  ua_org_name :: "string option"
  ua_org_id :: "int option"
  ua_actor :: actor

definition new_user :: "env \<Rightarrow> int \<Rightarrow> user_args \<Rightarrow> int \<Rightarrow> stamp \<Rightarrow> user_row" where
  "new_user en i a oid t =
     \<lparr>usr_id = i, usr_org = oid, usr_email = lower (strip (ua_email a)), usr_password_hash = password_hash en (ua_password a),
      usr_role = lower (strip (ua_role a)), usr_active = True, usr_totp_secret = None, usr_2fa = False, usr_backup_codes = [],
      usr_first_name = None, usr_last_name = None, usr_phone = None, usr_address = None, usr_anonymized_at = None,
      usr_created_at = t, usr_updated_at = t\<rparr>"

definition user_args_error :: "int \<Rightarrow> user_args \<Rightarrow> db \<Rightarrow> account_error option" where
  "user_args_error min_length a d =
     (let mail = lower (strip (ua_email a)); role = lower (strip (ua_role a)); weak = validate_password_strength min_length (ua_password a) in
      if mail = '''' then Some (UserServiceError ''Email is required.'')
      else if ua_password a = '''' then Some (UserServiceError ''Password is required.'')
      else if weak \<noteq> [] then Some (UserServiceError (hd weak))
      else if (ua_org_name a = None) = (ua_org_id a = None)
      then Some (UserServiceError ''Exactly one of organization_name or organization_id must be provided.'')
      else if role \<notin> set user_roles then Some (e_role role)
      else if \<exists>u\<in>set (users d). usr_email u = mail
      then Some (UserServiceError (''User with email '' @ [CHR 0x27] @ mail @ [CHR 0x27] @ '' already exists.''))
      else case ua_org_id a of
        Some oid \<Rightarrow> if row_get org_id oid (orgs d) = None
          then Some (UserServiceError (''Organization id '' @ show_int oid @ '' does not exist.'')) else None
      | None \<Rightarrow> if strip (or_empty (ua_org_name a)) = '''' then Some (UserServiceError ''Organization name is required.'') else None)"

definition user_org :: "user_args \<Rightarrow> db \<Rightarrow> org_row \<times> db" where
  \<comment> \<open>fetched by id, fetched by name, or created\<close>
  "user_org a d =
     (case ua_org_id a of
        Some oid \<Rightarrow> (the (row_get org_id oid (orgs d)), d)
      | None \<Rightarrow>
          let nm = strip (or_empty (ua_org_name a)) in
          (case List.find (\<lambda>x. org_name x = nm) (orgs d) of
             Some x \<Rightarrow> (x, d)
           | None \<Rightarrow> let x = \<lparr>org_id = next_key T_orgs d, org_name = nm\<rparr> in (x, add_org x d)))"

definition create_user :: "env \<Rightarrow> int \<Rightarrow> string \<Rightarrow> user_args \<Rightarrow> bool \<Rightarrow> world \<Rightarrow> (account_error + user_row) \<times> world" where
  "create_user en min_length login_url a now w =
     (case user_args_error min_length a (cur w) of
        Some e \<Rightarrow> (Inl e, w)
      | None \<Rightarrow>
          (case user_org a (cur w) of (x, d) \<Rightarrow>
             let u = new_user en (next_key T_users d) a (org_id x) (clock w);
                 w1 = audit_record en (if usr_role u = ''superadmin'' then ''superadmin.created'' else ''user.created'')
                   (actor_audit (ua_actor a) u [(''email'', JStr (usr_email u)), (''role'', JStr (usr_role u)),
                      (''organization'', JStr (org_name x))])
                   (on_db (\<lambda>_. ensure_shadow_guest u (clock w) (add_user u d)) w)
             in (Inr u, if now then send_welcome_email en login_url u x (commit w1) else w1)))"

definition user_touch :: "world \<Rightarrow> user_row \<Rightarrow> user_row \<Rightarrow> user_row" where
  "user_touch w old new = (if new = old then old else new\<lparr>usr_updated_at := clock w\<rparr>)"

definition write_user :: "env \<Rightarrow> string \<Rightarrow> actor \<Rightarrow> user_row \<Rightarrow> user_row \<Rightarrow> (string \<times> json) list \<Rightarrow> bool \<Rightarrow> world
    \<Rightarrow> (account_error + user_row) \<times> world" where
  \<comment> \<open>the change, its audit row, and the commit the caller may ask for\<close>
  "write_user en action a old new context now w =
     (let u = user_touch w old new; w1 = audit_record en action (actor_audit a u context) (on_db (put_user u) w)
      in (Inr u, if now then commit w1 else w1))"

definition update_user_role :: "env \<Rightarrow> int \<Rightarrow> string \<Rightarrow> actor \<Rightarrow> bool \<Rightarrow> world \<Rightarrow> (account_error + user_row) \<times> world" where
  "update_user_role en uid role a now w =
     (let nr = lower (strip role) in
      if nr \<notin> set user_roles then (Inl (e_role nr), w)
      else case row_get usr_id uid (users (cur w)) of
        None \<Rightarrow> (Inl (e_no_user uid), w)
      | Some u \<Rightarrow>
          if usr_role u = nr then (Inr u, w)
          else write_user en ''user.role_changed'' a u (u\<lparr>usr_role := nr\<rparr>)
            [(''old_role'', JStr (usr_role u)), (''new_role'', JStr nr)] now w)"

definition deactivate_user :: "env \<Rightarrow> int \<Rightarrow> actor \<Rightarrow> bool \<Rightarrow> bool \<Rightarrow> world \<Rightarrow> (account_error + user_row) \<times> world" where
  "deactivate_user en uid a forbid_self now w =
     (case row_get usr_id uid (users (cur w)) of
        None \<Rightarrow> (Inl (e_no_user uid), w)
      | Some u \<Rightarrow>
          let mail = lower (strip (or_empty (act_email a))) in
          if forbid_self \<and> act_id a = Some uid \<and> (mail = '''' \<or> mail = lower (strip (usr_email u)))
          then (Inl (UserServiceError ''You cannot deactivate yourself.''), w)
          else if \<not> usr_active u then (Inr u, w)
          else write_user en ''user.deleted'' a u (u\<lparr>usr_active := False\<rparr>) [(''email'', JStr (usr_email u))] now w)"

definition reactivate_user :: "env \<Rightarrow> int \<Rightarrow> actor \<Rightarrow> bool \<Rightarrow> world \<Rightarrow> (account_error + user_row) \<times> world" where
  "reactivate_user en uid a now w =
     (case row_get usr_id uid (users (cur w)) of
        None \<Rightarrow> (Inl (e_no_user uid), w)
      | Some u \<Rightarrow>
          if usr_active u then (Inr u, w)
          else write_user en ''user.reactivated'' a u (u\<lparr>usr_active := True\<rparr>) [(''email'', JStr (usr_email u))] now w)"

definition password_policy :: "int \<Rightarrow> int option \<Rightarrow> string \<Rightarrow> string list" where
  "password_policy min_length extra p =
     (case extra of
        Some n \<Rightarrow> if int (length p) < n then [''Password must be at least '' @ show_int n @ '' characters.''] else []
      | None \<Rightarrow> []) @ validate_password_strength min_length p"

definition change_password ::
  "env \<Rightarrow> int \<Rightarrow> int \<Rightarrow> string \<Rightarrow> int option \<Rightarrow> actor \<Rightarrow> bool \<Rightarrow> world \<Rightarrow> (account_error + user_row) \<times> world" where
  "change_password en min_length uid p extra a now w =
     (let weak = password_policy min_length extra p in
      if weak \<noteq> [] then (Inl (UserServiceError (hd weak)), w)
      else case row_get usr_id uid (users (cur w)) of
        None \<Rightarrow> (Inl (e_no_user uid), w)
      | Some u \<Rightarrow>
          write_user en ''password_changed'' a u (u\<lparr>usr_password_hash := password_hash en p\<rparr>)
            [(''via'', JStr (if or_empty (act_type a) = ''user'' then ''admin'' else ''service''))] now w)"

subsection \<open>Export\<close>

definition serialize_user_public :: "user_row \<Rightarrow> json" where
  "serialize_user_public u =
     JObj [(''id'', JInt (usr_id u)), (''organization_id'', JInt (usr_org u)), (''email'', JStr (usr_email u)),
       (''role'', JStr (usr_role u)), (''is_active'', JBool (usr_active u)), (''is_2fa_enabled'', JBool (usr_2fa u)),
       (''first_name'', jstr (usr_first_name u)), (''last_name'', jstr (usr_last_name u)), (''phone'', jstr (usr_phone u)),
       (''address'', jstr (usr_address u)), (''anonymized_at'', jstamp (usr_anonymized_at u)),
       (''created_at'', jstamp (Some (usr_created_at u))), (''updated_at'', jstamp (Some (usr_updated_at u)))]"

definition serialize_guest_public :: "guest_row \<Rightarrow> json" where
  "serialize_guest_public g =
     JObj [(''id'', JInt (g_id g)), (''organization_id'', JInt (g_org g)), (''first_name'', JStr (g_first_name g)),
       (''last_name'', JStr (g_last_name g)), (''email'', jstr (g_email g)), (''phone'', jstr (g_phone g)),
       (''notes'', jstr (g_notes g)), (''preferences'', jstr (g_preferences g)),
       (''created_at'', jstamp (Some (g_created_at g))), (''updated_at'', jstamp (Some (g_updated_at g)))]"

definition serialize_reservation_public :: "reservation \<Rightarrow> json" where
  "serialize_reservation_public r =
     JObj [(''id'', JInt (res_id r)), (''unit_id'', JInt (res_unit r)), (''guest_id'', jint (res_guest r)),
       (''guest_name'', JStr (res_guest_name r)), (''start_date'', jdate (Some (res_start r))),
       (''end_date'', jdate (Some (res_end r))), (''status'', JStr (res_status r)), (''amount'', jmoney (res_amount r)),
       (''currency'', JStr (res_currency r)), (''payment_status'', JStr (res_payment_status r)),
       (''invoice_number'', jstr (res_invoice_number r)), (''invoice_date'', jdate (res_invoice_date r)),
       (''due_date'', jdate (res_due_date r)), (''created_at'', jstamp (Some (res_created_at r))),
       (''updated_at'', jstamp (Some (res_updated_at r)))]"

definition serialize_invoice_public :: "invoice \<Rightarrow> json" where
  "serialize_invoice_public i =
     JObj [(''id'', JInt (inv_id i)), (''organization_id'', JInt (inv_org i)), (''lease_id'', jint (inv_lease i)),
       (''reservation_id'', jint (inv_reservation i)), (''guest_id'', jint (inv_guest i)),
       (''invoice_number'', jstr (inv_number i)), (''amount'', jmoney (Some (inv_amount i))),
       (''vat_rate'', jmoney (Some (inv_vat_rate i))), (''vat_amount'', jmoney (Some (inv_vat_amount i))),
       (''subtotal_excl_vat'', jmoney (Some (inv_subtotal i))), (''total_incl_vat'', jmoney (Some (inv_total i))),
       (''currency'', JStr (inv_currency i)), (''due_date'', jdate (Some (inv_due i))), (''paid_at'', jstamp (inv_paid_at i)),
       (''status'', JStr (inv_status i)), (''description'', jstr (inv_description i)),
       (''created_by_id'', JInt (inv_created_by i)), (''updated_by_id'', jint (inv_updated_by i)),
       (''created_at'', jstamp (Some (inv_created_at i))), (''updated_at'', jstamp (Some (inv_updated_at i)))]"

definition serialize_audit_public :: "audit_log \<Rightarrow> json" where
  "serialize_audit_public a =
     JObj [(''id'', JInt (al_id a)), (''created_at'', jstamp (Some (al_created_at a))), (''action'', JStr (al_action a)),
       (''status'', jstr (al_status a)), (''actor_type'', JStr (al_actor_type a)), (''actor_id'', jint (al_actor_id a)),
       (''organization_id'', jint (al_org a)), (''target_type'', jstr (al_target_type a)), (''target_id'', jint (al_target_id a))]"

definition user_reservations :: "user_row \<Rightarrow> db \<Rightarrow> reservation list" where
  "user_reservations u d = filter (\<lambda>r. res_guest r = Some (usr_id u)) (scoped_reservations (usr_org u) d)"

definition user_invoices :: "user_row \<Rightarrow> db \<Rightarrow> invoice list" where
  "user_invoices u d =
     filter (\<lambda>i. inv_org i = usr_org u \<and> (inv_guest i = Some (usr_id u) \<or> inv_created_by i = usr_id u)) (invoices d)"

definition collect_guest_rows :: "user_row \<Rightarrow> db \<Rightarrow> guest_row list" where
  \<comment> \<open>the guest with the number of the user, of whatever organization, and those with the mail address\<close>
  "collect_guest_rows u d =
     (let seen = (case guest_get (usr_id u) d of None \<Rightarrow> [] | Some g \<Rightarrow> [(g_id g, g)]);
          mine = (if usr_email u = '''' then []
                  else filter (\<lambda>g. g_org g = usr_org u \<and> g_email g = Some (usr_email u)) (guests d))
      in map snd (fold (\<lambda>g. dict_set (g_id g) g) mine seen))"

definition export_data :: "user_row \<Rightarrow> db \<Rightarrow> json" where
  "export_data u d =
     JObj [(''users'', serialize_user_public u),
       (''reservations'', JList (map serialize_reservation_public (user_reservations u d))),
       (''invoices'', JList (map serialize_invoice_public (user_invoices u d))),
       (''guests'', JList (map serialize_guest_public (collect_guest_rows u d))),
       (''audit_log'', JList (map serialize_audit_public
          (sort_key al_created_at (filter (\<lambda>a. al_actor_id a = Some (usr_id u)) (audit_logs d)))))]"

definition gdpr_audit :: "string \<Rightarrow> int option \<Rightarrow> string option \<Rightarrow> int \<Rightarrow> int \<Rightarrow> bool \<Rightarrow> audit_args" where
  "gdpr_audit typ actor mail oid uid now =
     audit_defaults\<lparr>aa_actor_id := actor, aa_actor_type := Some typ, aa_actor_email := mail, aa_org := Some oid,
       aa_target_type := Some ''user'', aa_target_id := Some uid, aa_metadata := Some [], aa_commit := now\<rparr>"

definition export_user_data :: "env \<Rightarrow> int \<Rightarrow> world \<Rightarrow> (account_error + json) \<times> world" where
  "export_user_data en uid w =
     (case row_get usr_id uid (users (cur w)) of
        None \<Rightarrow> (Inl (e_no_user uid), w)
      | Some u \<Rightarrow>
          (Inr (export_data u (cur w)),
           audit_record en ''gdpr.export'' (gdpr_audit ''user'' (Some uid) (Some (usr_email u)) (usr_org u) uid True) w))"

subsection \<open>Anonymization and deletion\<close>

definition anonymous_last_name :: string where
  \<comment> \<open>the two letters beyond ASCII as their code points\<close>
  "anonymous_last_name = ''K'' @ [CHR 0xE4] @ ''ytt'' @ [CHR 0xE4, CHR 0xE4]"

definition anonymous_email :: "int \<Rightarrow> string" where
  "anonymous_email uid = ''anonymized-'' @ show_int uid @ ''@deleted.local''"

definition anonymous_user :: "env \<Rightarrow> string \<Rightarrow> stamp \<Rightarrow> user_row \<Rightarrow> user_row" where
  "anonymous_user en draw t u =
     u\<lparr>usr_email := anonymous_email (usr_id u), usr_first_name := Some ''Anonyymi'', usr_last_name := Some anonymous_last_name,
       usr_phone := None, usr_address := None, usr_active := False, usr_anonymized_at := Some t, usr_totp_secret := None,
       usr_2fa := False, usr_backup_codes := [], usr_password_hash := password_hash en draw, usr_updated_at := t\<rparr>"

definition anonymous_guest :: "user_row \<Rightarrow> guest_row \<Rightarrow> guest_row" where
  "anonymous_guest u g =
     g\<lparr>g_first_name := (if or_empty (usr_first_name u) = '''' then ''Anonyymi'' else or_empty (usr_first_name u)),
       g_last_name := (if or_empty (usr_last_name u) = '''' then anonymous_last_name else or_empty (usr_last_name u)),
       g_email := Some (usr_email u), g_phone := None\<rparr>"

definition sync_shadow_guest :: "world \<Rightarrow> user_row \<Rightarrow> db \<Rightarrow> db" where
  "sync_shadow_guest w u d =
     (case guest_get (usr_id u) d of None \<Rightarrow> d | Some g \<Rightarrow> put_guest (guest_touch w g (anonymous_guest u g)) d)"

definition anonymize_user_data :: "env \<Rightarrow> string \<Rightarrow> int \<Rightarrow> world \<Rightarrow> (account_error + unit) \<times> world" where
  \<comment> \<open>the new address can be that of another user: the column is unique\<close>
  "anonymize_user_data en draw uid w =
     (case row_get usr_id uid (users (cur w)) of
        None \<Rightarrow> (Inl (e_no_user uid), w)
      | Some u \<Rightarrow>
          let v = anonymous_user en draw (clock w) u in
          if \<exists>x\<in>set (users (cur w)). usr_email x = usr_email v \<and> usr_id x \<noteq> uid
          then (Inl (AccountPy IntegrityError), rollback w)
          else (Inr (), commit (audit_record en ''gdpr.anonymize''
                 (gdpr_audit ''user'' (Some uid) (Some (usr_email v)) (usr_org v) uid False)
                 (on_db (\<lambda>d. sync_shadow_guest w v (put_user v d)) w))))"

definition replacement_creator_user :: "int \<Rightarrow> int \<Rightarrow> db \<Rightarrow> user_row option" where
  "replacement_creator_user oid uid d =
     (case sort_key usr_id (filter (\<lambda>u. usr_org u = oid \<and> usr_id u \<noteq> uid) (users d)) of [] \<Rightarrow> None | u # _ \<Rightarrow> Some u)"

definition e_no_replacement :: account_error where
  "e_no_replacement = UserServiceError (''Cannot delete user: organization has no other user to reassign ''
     @ ''created_by_id references on leases, invoices, or maintenance requests.'')"

definition reassign_created_by :: "int \<Rightarrow> int \<Rightarrow> stamp \<Rightarrow> db \<Rightarrow> db" where
  \<comment> \<open>bulk updates of three tables; they set \<open>updated_at\<close> too\<close>
  "reassign_created_by uid new t d =
     d\<lparr>leases := map (\<lambda>l. if le_created_by l = uid then l\<lparr>le_created_by := new, le_updated_at := t\<rparr> else l) (leases d),
       invoices := map (\<lambda>i. if inv_created_by i = uid then i\<lparr>inv_created_by := new, inv_updated_at := t\<rparr> else i) (invoices d),
       maintenance := map (\<lambda>m. if mr_created_by m = uid then m\<lparr>mr_created_by := new, mr_updated_at := t\<rparr> else m) (maintenance d)\<rparr>"

definition delete_audit :: "env \<Rightarrow> bool \<Rightarrow> user_row \<Rightarrow> audit_args" where
  "delete_audit en from_cli u =
     (let who = (if from_cli then None else rq_user (req en))
      in gdpr_audit (if from_cli then ''system'' else ''user'') (map_option usr_id who) (map_option usr_email who) (usr_org u) (usr_id u) False)"

text \<open>
  What the database does when a row of \<open>users\<close> is deleted. Columns that refer to the row without an action refuse the
  deletion; the rows of the user's tokens, codes and filters go with it; the other columns are set to NULL. A key takes
  the rows of its use along.
\<close>

definition user_referenced :: "int \<Rightarrow> db \<Rightarrow> bool" where
  "user_referenced uid d \<longleftrightarrow> Some uid \<in> nt_user ` set (notifications d) \<or> uid \<in> cm_author ` set (comments d)
     \<or> uid \<in> tg_created_by ` set (tags d) \<or> Some uid \<in> rf_actor ` set (refunds d)"

definition unset :: "int \<Rightarrow> int option \<Rightarrow> int option" where
  "unset uid x = (if x = Some uid then None else x)"

definition remove_user :: "int \<Rightarrow> db \<Rightarrow> db" where
  "remove_user uid d =
     d\<lparr>users := row_del usr_id uid (users d),
       reset_tokens := filter (\<lambda>t. tk_subject t \<noteq> uid) (reset_tokens d),
       email_codes := filter (\<lambda>t. tk_subject t \<noteq> uid) (email_codes d),
       magic_links := filter (\<lambda>t. tk_subject t \<noteq> uid) (magic_links d),
       saved_filters := filter (\<lambda>f. sf_user f \<noteq> uid) (saved_filters d),
       leases := map (\<lambda>l. l\<lparr>le_updated_by := unset uid (le_updated_by l)\<rparr>) (leases d),
       invoices := map (\<lambda>i. i\<lparr>inv_updated_by := unset uid (inv_updated_by i)\<rparr>) (invoices d),
       maintenance := map (\<lambda>m. m\<lparr>mr_assigned_to := unset uid (mr_assigned_to m)\<rparr>) (maintenance d),
       settings := map (\<lambda>r. r\<lparr>st_updated_by := unset uid (st_updated_by r)\<rparr>) (settings d),
       images := map (\<lambda>i. i\<lparr>pi_uploaded_by := unset uid (pi_uploaded_by i)\<rparr>) (images d),
       webhook_subs := map (\<lambda>x. x\<lparr>ws_created_by := unset uid (ws_created_by x)\<rparr>) (webhook_subs d),
       access_codes := map (\<lambda>c. c\<lparr>ac_revoked_by := unset uid (ac_revoked_by c)\<rparr>) (access_codes d),
       backups := map (\<lambda>b. b\<lparr>bk_created_by := unset uid (bk_created_by b)\<rparr>) (backups d)\<rparr>"

definition remove_keys :: "int \<Rightarrow> db \<Rightarrow> db" where
  "remove_keys uid d =
     (let mine = filter (\<lambda>k. ky_user k = Some uid) (api_keys d)
      in d\<lparr>api_keys := filter (\<lambda>k. ky_user k \<noteq> Some uid) (api_keys d),
           key_usage := filter (\<lambda>u. ku_key u \<notin> ky_id ` set mine) (key_usage d)\<rparr>)"

definition erase_user :: "env \<Rightarrow> bool \<Rightarrow> user_row \<Rightarrow> stamp \<Rightarrow> world \<Rightarrow> (account_error + unit) \<times> world" where
  \<comment> \<open>what follows the anonymization\<close>
  "erase_user en from_cli u t w =
     (let w1 = audit_record en ''gdpr.delete'' (delete_audit en from_cli u) w;
          w2 = on_db (remove_keys (usr_id u)) w1
      in case replacement_creator_user (usr_org u) (usr_id u) (cur w2) of
           None \<Rightarrow> (Inl e_no_replacement, w2)
         | Some r \<Rightarrow>
             if user_referenced (usr_id u) (cur w2) then (Inl (AccountPy IntegrityError), rollback w2)
             else (Inr (), commit (on_db (\<lambda>d. remove_user (usr_id u) (reassign_created_by (usr_id u) (usr_id r) t d)) w2)))"

definition delete_user_data :: "env \<Rightarrow> string \<Rightarrow> int \<Rightarrow> bool \<Rightarrow> world \<Rightarrow> (account_error + unit) \<times> world" where
  "delete_user_data en draw uid from_cli w =
     (case row_get usr_id uid (users (cur w)) of
        None \<Rightarrow> (Inl (e_no_user uid), w)
      | Some u \<Rightarrow>
          if \<not> from_cli \<and> (case rq_user (req en) of None \<Rightarrow> True | Some a \<Rightarrow> usr_role a \<noteq> ''superadmin'')
          then (Inl GdprPermissionError, w)
          else case anonymize_user_data en draw uid w of
            (Inl e, w1) \<Rightarrow> (Inl e, w1) | (Inr _, w1) \<Rightarrow> erase_user en from_cli u (clock w) w1)"

subsection \<open>Users keep their addresses apart\<close>

definition users_ok :: "db \<Rightarrow> bool" where
  "users_ok d \<longleftrightarrow> keys_ok usr_id (seqs d T_users) (users d) \<and> distinct (map usr_email (users d))
     \<and> (\<forall>u\<in>set (users d). usr_role u \<in> set user_roles)"

lemma users_ok_cong: "users d' = users d \<Longrightarrow> seqs d' T_users = seqs d T_users \<Longrightarrow> users_ok d' = users_ok d"
  by (simp add: users_ok_def)

lemma users_aside: "aside v w \<Longrightarrow> users_ok (cur w) = users_ok (cur v)"
proof -
  assume "aside v w"
  then have c: "core (cur w) = core (cur v)" by (simp add: aside_def)
  show "users_ok (cur w) = users_ok (cur v)"
    by (rule users_ok_cong [OF core_tables(5) [OF c] core_tables(17) [OF c]]) (simp add: side_tables_def)
qed

lemma users_aside_com:
  assumes "aside v w" and "users_ok (cur v)" and "users_ok (com v)"
  shows "users_ok (com w)"
proof -
  have "core (com w) = core (com v) \<or> core (com w) = core (cur v)" using assms(1) by (simp add: aside_def)
  then show ?thesis
  proof
    assume c: "core (com w) = core (com v)"
    show ?thesis
      using users_ok_cong [OF core_tables(5) [OF c] core_tables(17) [OF c]] assms(3) by (simp add: side_tables_def)
  next
    assume c: "core (com w) = core (cur v)"
    show ?thesis
      using users_ok_cong [OF core_tables(5) [OF c] core_tables(17) [OF c]] assms(2) by (simp add: side_tables_def)
  qed
qed

lemma users_ok_add:
  assumes "users_ok d" and "usr_id u = next_key T_users d" and "usr_role u \<in> set user_roles"
    and "\<forall>x\<in>set (users d). usr_email x \<noteq> usr_email u"
  shows "users_ok (add_user u d)"
  using assms user_tab.ok_add [of d u] unfolding users_ok_def user_tab.rows_add by auto

lemma users_ok_put:
  assumes "users_ok d" and "usr_role u \<in> set user_roles"
    and "\<forall>x\<in>set (users d). usr_email x = usr_email u \<longrightarrow> usr_id x = usr_id u"
  shows "users_ok (put_user u d)"
proof -
  have "distinct (map usr_email (row_put usr_id u xs))"
    if "distinct (map usr_id xs)" "distinct (map usr_email xs)" "\<forall>x\<in>set xs. usr_email x = usr_email u \<longrightarrow> usr_id x = usr_id u" for xs
    using that
  proof (induction xs)
    case (Cons x xs)
    have "row_put usr_id u xs = xs" if "usr_id x = usr_id u"
      by (rule row_put_absent) (use Cons.prems(1) that in \<open>auto simp: rev_image_eqI\<close>)
    moreover have "usr_email x \<notin> usr_email ` set (row_put usr_id u xs)" if "usr_id x \<noteq> usr_id u"
      using Cons.prems that by (auto dest!: set_row_put)
    moreover have "usr_email u \<notin> usr_email ` set xs" if "usr_id x = usr_id u"
    proof
      assume "usr_email u \<in> usr_email ` set xs"
      then obtain y where y: "y \<in> set xs" "usr_email y = usr_email u" by auto
      then have "usr_id y = usr_id x" using Cons.prems(3) that by simp
      then show False using Cons.prems(1) y(1) by (auto simp: rev_image_eqI)
    qed
    moreover have "row_put usr_id u (x # xs) = (if usr_id x = usr_id u then u else x) # row_put usr_id u xs"
      by (simp add: row_put_def)
    moreover have "distinct (map usr_email (row_put usr_id u xs))"
      by (rule Cons.IH) (use Cons.prems in simp_all)
    ultimately show ?case by (cases "usr_id x = usr_id u") simp_all
  qed (simp add: row_put_def)
  then have "distinct (map usr_email (users (put_user u d)))" using assms(1,3) by (simp add: users_ok_def keys_ok_def)
  moreover have "\<forall>x\<in>set (users (put_user u d)). usr_role x \<in> set user_roles"
    using assms(1,2) user_tab.put_mem [of _ u d] by (auto simp: users_ok_def)
  ultimately show ?thesis using assms(1) user_tab.ok_put [of d u] by (simp add: users_ok_def)
qed

datatype account_op = Create_user user_args bool | Set_role int string actor bool | Deactivate int actor bool bool
  | Reactivate int actor bool | Set_password int string "int option" actor bool
  | Export int | Anonymize string int | Delete_user string int bool

fun run_account :: "env \<Rightarrow> int \<Rightarrow> string \<Rightarrow> account_op \<Rightarrow> world \<Rightarrow> world" where
  "run_account en n url (Create_user a now) w = snd (create_user en n url a now w)"
| "run_account en n url (Set_role i r a now) w = snd (update_user_role en i r a now w)"
| "run_account en n url (Deactivate i a f now) w = snd (deactivate_user en i a f now w)"
| "run_account en n url (Reactivate i a now) w = snd (reactivate_user en i a now w)"
| "run_account en n url (Set_password i p m a now) w = snd (change_password en n i p m a now w)"
| "run_account en n url (Export i) w = snd (export_user_data en i w)"
| "run_account en n url (Anonymize draw i) w = snd (anonymize_user_data en draw i w)"
| "run_account en n url (Delete_user draw i cli) w = snd (delete_user_data en draw i cli w)"

definition both_ok :: "world \<Rightarrow> bool" where
  "both_ok w \<longleftrightarrow> users_ok (cur w) \<and> users_ok (com w)"

lemma both_ok_aside: "aside v w \<Longrightarrow> both_ok v \<Longrightarrow> both_ok w"
  using users_aside users_aside_com by (simp add: both_ok_def)

lemma both_ok_basic: "users_ok d \<Longrightarrow> both_ok w \<Longrightarrow> both_ok (on_db (\<lambda>_. d) w)" "both_ok w \<Longrightarrow> both_ok (commit w)"
  "both_ok w \<Longrightarrow> both_ok (rollback w)" "both_ok w \<Longrightarrow> both_ok (audit_record en act a w)"
  using both_ok_aside [OF aside_audit] by (simp_all add: both_ok_def)

lemma write_user_ok:
  assumes "both_ok w" and "row_get usr_id i (users (cur w)) = Some old" and "usr_id new = i" and "usr_email new = usr_email old"
    and "usr_role new \<in> set user_roles"
  shows "both_ok (snd (write_user en act a old new ctx now w))"
proof -
  let ?u = "user_touch w old new"
  have old: "old \<in> set (users (cur w))" "usr_id old = i" using row_get_in [OF assms(2)] by simp_all
  have u: "usr_id ?u = i" "usr_email ?u = usr_email old" "usr_role ?u \<in> set user_roles"
    using assms old by (auto simp: user_touch_def)
  have "\<forall>x\<in>set (users (cur w)). usr_email x = usr_email ?u \<longrightarrow> usr_id x = usr_id ?u"
    using assms(1) old u by (auto simp: both_ok_def users_ok_def distinct_map inj_on_def)
  then have "users_ok (put_user ?u (cur w))" using users_ok_put [OF _ u(3)] assms(1) by (simp add: both_ok_def del: put_user_def)
  then have "both_ok (on_db (put_user ?u) w)" using assms(1) by (simp add: both_ok_def del: put_user_def)
  then show ?thesis using both_ok_basic by (simp add: write_user_def Let_def del: put_user_def)
qed

lemma role_kept: "both_ok w \<Longrightarrow> row_get usr_id i (users (cur w)) = Some u \<Longrightarrow> usr_role u \<in> set user_roles \<and> usr_id u = i"
  using row_get_in [of usr_id i "users (cur w)" u] by (auto simp: both_ok_def users_ok_def)

lemma create_user_ok: "both_ok w \<Longrightarrow> both_ok (snd (create_user en n url a now w))"
proof (cases "user_args_error n a (cur w)")
  case None
  assume ok: "both_ok w"
  obtain x d where x: "user_org a (cur w) = (x, d)" by fastforce
  have d: "users d = users (cur w)" "seqs d T_users = seqs (cur w) T_users"
    using x by (auto simp: user_org_def Let_def split: option.splits)
  let ?u = "new_user en (next_key T_users d) a (org_id x) (clock w)"
  have "users_ok (add_user ?u d)"
  proof (rule users_ok_add)
    show "users_ok d" using ok users_ok_cong [OF d] by (simp add: both_ok_def)
    show "usr_role ?u \<in> set user_roles" "\<forall>y\<in>set (users d). usr_email y \<noteq> usr_email ?u"
      using None by (auto simp: user_args_error_def Let_def new_user_def d(1) split: if_splits)
  qed (simp add: new_user_def)
  then have "users_ok (ensure_shadow_guest ?u (clock w) (add_user ?u d))"
    using users_ok_cong [of "ensure_shadow_guest ?u (clock w) (add_user ?u d)" "add_user ?u d"]
    by (simp add: ensure_shadow_guest_def)
  from both_ok_basic(1) [OF this ok]
  have "both_ok (audit_record en act b (on_db (\<lambda>_. ensure_shadow_guest ?u (clock w) (add_user ?u d)) w))" for act b
    by (rule both_ok_basic(4))
  moreover have "both_ok (send_welcome_email en url u y (commit v))" if "both_ok v" for u y v
    unfolding send_welcome_email_def
    by (rule both_ok_aside [OF mail.after [OF aside_refl, of _ "(en, _, _, _)", unfolded prod.case] both_ok_basic(2) [OF that]])
  ultimately show ?thesis by (simp add: create_user_def None x Let_def del: add_user_def)
qed (simp add: create_user_def)

lemma anonymize_ok: "both_ok w \<Longrightarrow> both_ok (snd (anonymize_user_data en draw i w))"
proof (cases "row_get usr_id i (users (cur w))")
  case (Some u)
  assume ok: "both_ok w"
  let ?v = "anonymous_user en draw (clock w) u"
  note u = role_kept [OF ok Some]
  have put: "users_ok (put_user ?v (cur w))"
    if "\<not> (\<exists>x\<in>set (users (cur w)). usr_email x = usr_email ?v \<and> usr_id x \<noteq> i)"
    by (rule users_ok_put) (use ok u that in \<open>auto simp: both_ok_def anonymous_user_def\<close>)
  have "users_ok (sync_shadow_guest w ?v (put_user ?v (cur w)))"
    if "\<not> (\<exists>x\<in>set (users (cur w)). usr_email x = usr_email ?v \<and> usr_id x \<noteq> i)"
    using put [OF that] users_ok_cong [of "sync_shadow_guest w ?v (put_user ?v (cur w))" "put_user ?v (cur w)"]
    by (simp add: sync_shadow_guest_def split: option.split)
  then have "both_ok (on_db (\<lambda>d. sync_shadow_guest w ?v (put_user ?v d)) w)"
    if "\<not> (\<exists>x\<in>set (users (cur w)). usr_email x = usr_email ?v \<and> usr_id x \<noteq> i)"
    using that ok by (simp add: both_ok_def del: put_user_def)
  then show ?thesis using ok both_ok_basic by (simp add: anonymize_user_data_def Some Let_def del: put_user_def)
qed (simp add: anonymize_user_data_def)

lemma row_del_ok: "users_ok d \<Longrightarrow> users_ok (d\<lparr>users := row_del usr_id i (users d)\<rparr>)"
  by (auto simp: users_ok_def keys_ok_def row_del_def distinct_map_filter)

lemma both_ok_same: "both_ok w \<Longrightarrow> users d = users (cur w) \<Longrightarrow> seqs d T_users = seqs (cur w) T_users \<Longrightarrow> both_ok (w\<lparr>cur := d\<rparr>)"
  by (simp add: both_ok_def users_ok_def)

lemma erase_ok: "both_ok w \<Longrightarrow> both_ok (snd (erase_user en cli u t w))"
proof -
  assume ok: "both_ok w"
  let ?w2 = "on_db (remove_keys (usr_id u)) (audit_record en ''gdpr.delete'' (delete_audit en cli u) w)"
  have w2: "both_ok ?w2"
    using both_ok_basic(4) [OF ok, of en "''gdpr.delete''" "delete_audit en cli u"]
    by (simp add: both_ok_def users_ok_def remove_keys_def Let_def)
  have del: "both_ok (commit (on_db (\<lambda>d. remove_user i (reassign_created_by i n t d)) v))" if "both_ok v" for i n t v
    using that row_del_ok [of "cur v" i] by (simp add: both_ok_def users_ok_def reassign_created_by_def remove_user_def)
  have rolled: "both_ok (rollback ?w2)" using w2 by (simp add: both_ok_def rollback_def)
  show ?thesis
  proof (cases "replacement_creator_user (usr_org u) (usr_id u) (cur ?w2)")
    case None
    then show ?thesis using w2 unfolding erase_user_def Let_def by (simp only: option.case snd_conv)
  next
    case (Some n)
    show ?thesis
    proof (cases "user_referenced (usr_id u) (cur ?w2)")
      case True
      then show ?thesis using rolled unfolding erase_user_def Let_def Some by (simp only: option.case if_True snd_conv)
    next
      case False
      then show ?thesis using del [OF w2] unfolding erase_user_def Let_def Some by (simp only: option.case if_False snd_conv)
    qed
  qed
qed

lemma delete_ok: "both_ok w \<Longrightarrow> both_ok (snd (delete_user_data en draw i cli w))"
proof -
  assume ok: "both_ok w"
  obtain r w1 where a: "anonymize_user_data en draw i w = (r, w1)" by fastforce
  have "both_ok w1" using anonymize_ok [OF ok, of en draw i] by (simp add: a)
  then show ?thesis using ok erase_ok by (simp add: delete_user_data_def a split: option.split sum.split)
qed

lemma run_account_ok: "both_ok w \<Longrightarrow> both_ok (run_account en n url op w)"
proof (induction en n url op w rule: run_account.induct)
  case (2 en n url i r a now w)
  then show ?case using write_user_ok role_kept by (auto simp: update_user_role_def Let_def split: option.split)
next
  case (3 en n url i a f now w)
  then show ?case using write_user_ok role_kept by (auto simp: deactivate_user_def Let_def split: option.split)
next
  case (4 en n url i a now w)
  then show ?case using write_user_ok role_kept by (auto simp: reactivate_user_def split: option.split)
next
  case (5 en n url i p m a now w)
  then show ?case using write_user_ok role_kept by (auto simp: change_password_def Let_def split: option.split)
next
  case (6 en n url i w)
  then show ?case using both_ok_basic(4) by (auto simp: export_user_data_def split: option.split)
qed (simp_all add: create_user_ok anonymize_ok delete_ok)

inductive accounts_reachable :: "env \<Rightarrow> int \<Rightarrow> string \<Rightarrow> world \<Rightarrow> bool" for en n url where
  start: "users (cur w) = [] \<Longrightarrow> com w = cur w \<Longrightarrow> accounts_reachable en n url w"
| step: "accounts_reachable en n url w \<Longrightarrow> accounts_reachable en n url (run_account en n url op w)"

text \<open>In every state the account operations reach, committed or not, no two users of any organization share a
  mail address, every user has one of the four roles, and the keys are distinct: an anonymization that would take
  the address of another user is refused.\<close>

theorem user_mail_unique:
  assumes "accounts_reachable en n url w"
  shows "distinct (map usr_email (users (com w))) \<and> distinct (map usr_id (users (com w)))
    \<and> usr_role ` set (users (com w)) \<subseteq> set user_roles"
proof -
  have "both_ok w"
    using assms
  proof (induction rule: accounts_reachable.induct)
    case (start w)
    then show ?case by (simp add: both_ok_def users_ok_def keys_ok_def)
  qed (rule run_account_ok)
  then show ?thesis by (auto simp: both_ok_def users_ok_def keys_ok_def)
qed

subsection \<open>The requests of the data subject\<close>

text \<open>An export shows no secret: password hashes, second factors and backup codes of the users, and the
  metadata of invoices, can be anything; the data exported for a user stay the same.\<close>

definition other_secrets :: "(user_row \<Rightarrow> string \<times> string option \<times> string list) \<Rightarrow> (invoice \<Rightarrow> json) \<Rightarrow> db \<Rightarrow> db" where
  "other_secrets f g d =
     d\<lparr>users := map (\<lambda>u. u\<lparr>usr_password_hash := fst (f u), usr_totp_secret := fst (snd (f u)), usr_backup_codes := snd (snd (f u))\<rparr>)
         (users d),
       invoices := map (\<lambda>i. i\<lparr>inv_metadata := g i\<rparr>) (invoices d)\<rparr>"

theorem export_shows_no_secret:
  "fst (export_user_data en uid (on_db (other_secrets f g) w)) = fst (export_user_data en uid w)"
proof -
  let ?s = "\<lambda>u. u\<lparr>usr_password_hash := fst (f u), usr_totp_secret := fst (snd (f u)), usr_backup_codes := snd (snd (f u))\<rparr>"
  have get: "row_get usr_id uid (map ?s us) = map_option ?s (row_get usr_id uid us)" for us
    by (induction us) (simp_all add: row_get_def)
  have tabs: "reservations (other_secrets f g d) = reservations d" "units (other_secrets f g d) = units d"
    "properties (other_secrets f g d) = properties d" "guests (other_secrets f g d) = guests d"
    "audit_logs (other_secrets f g d) = audit_logs d" for d
    by (simp_all add: other_secrets_def)
  have inv: "map serialize_invoice_public (user_invoices (?s u) (other_secrets f g d)) = map serialize_invoice_public (user_invoices u d)" for u d
    by (simp add: user_invoices_def other_secrets_def filter_map comp_def serialize_invoice_public_def)
  have res: "user_reservations (?s u) (other_secrets f g d) = user_reservations u d" for u d
    using scope_frame(1) [OF tabs(2,3)] by (simp add: user_reservations_def scoped_reservations_def tabs)
  have gst: "collect_guest_rows (?s u) (other_secrets f g d) = collect_guest_rows u d" for u d
    by (simp add: collect_guest_rows_def guest_get_def tabs)
  have usr: "serialize_user_public (?s u) = serialize_user_public u" for u
    by (simp add: serialize_user_public_def)
  have "export_data (?s u) (other_secrets f g d) = export_data u d" for u d
    unfolding export_data_def inv res gst usr by (simp add: tabs)
  moreover have "users (other_secrets f g d) = map ?s (users d)" for d by (simp add: other_secrets_def)
  ultimately show ?thesis
    by (simp add: export_user_data_def get split: option.split)
qed

lemma row_put_map:
  assumes "key r = k"
  shows "row_put key r rs = map (\<lambda>x. if key x = k then r else x) rs"
  using assms by (simp add: row_put_def)

lemma anonymized_world:
  assumes "distinct (map usr_id (users (cur w)))" and "distinct (map g_id (guests (cur w)))"
    and "u \<in> set (users (cur w))" and "anonymize_user_data en draw (usr_id u) w = (Inr x, w')"
  shows "users (com w') = map (\<lambda>y. if usr_id y = usr_id u then anonymous_user en draw (clock w) u else y) (users (cur w))
    \<and> guests (com w') = map (\<lambda>g. if g_id g = usr_id u
         then guest_touch w g (anonymous_guest (anonymous_user en draw (clock w) u) g) else g) (guests (cur w))"
proof -
  let ?v = "anonymous_user en draw (clock w) u"
  let ?d = "sync_shadow_guest w ?v (put_user ?v (cur w))"
  have get: "row_get usr_id (usr_id u) (users (cur w)) = Some u" by (rule row_get_mem [OF assms(1,3)])
  have "\<exists>act a. w' = commit (audit_record en act a (on_db (\<lambda>d. sync_shadow_guest w ?v (put_user ?v d)) w))"
    using assms(4) by (auto simp: anonymize_user_data_def get Let_def split: if_splits)
  then obtain act a where w': "w' = commit (audit_record en act a (on_db (\<lambda>d. sync_shadow_guest w ?v (put_user ?v d)) w))" by blast
  have c: "core (com w') = core ?d"
    unfolding w' using aside_audit [of "on_db (\<lambda>d. sync_shadow_guest w ?v (put_user ?v d)) w" en act a]
    by (simp add: aside_def del: put_user_def)
  have v: "usr_id ?v = usr_id u" by (simp add: anonymous_user_def)
  have "users ?d = row_put usr_id ?v (users (cur w))" by (simp add: sync_shadow_guest_def split: option.split)
  then have 1: "users (com w') = map (\<lambda>y. if usr_id y = usr_id u then ?v else y) (users (cur w))"
    using core_tables(5) [OF c] row_put_map [of usr_id ?v, OF v] by simp
  let ?f = "\<lambda>g. guest_touch w g (anonymous_guest ?v g)"
  have "guests ?d = map (\<lambda>g. if g_id g = usr_id u then ?f g else g) (guests (cur w))"
  proof (cases "guest_get (usr_id u) (cur w)")
    case None
    then have "\<forall>g\<in>set (guests (cur w)). g_id g \<noteq> usr_id u" by (auto simp: guest_get_def row_get_def find_None_iff)
    then show ?thesis using None v by (simp add: sync_shadow_guest_def guest_get_def map_idI)
  next
    case (Some g)
    have g: "g \<in> set (guests (cur w))" "g_id g = usr_id u" using Some row_get_in by (fastforce simp: guest_get_def)+
    have "x = g" if "x \<in> set (guests (cur w))" "g_id x = usr_id u" for x
      using assms(2) g that by (auto simp: distinct_map inj_on_def)
    then have "map (\<lambda>x. if g_id x = usr_id u then ?f g else x) (guests (cur w)) = map (\<lambda>x. if g_id x = usr_id u then ?f x else x) (guests (cur w))"
      by (intro map_cong) auto
    moreover have "guests ?d = row_put g_id (?f g) (guests (cur w))"
      using Some v by (simp add: sync_shadow_guest_def guest_get_def)
    moreover have "g_id (?f g) = usr_id u" using g(2) by (simp add: anonymous_guest_def)
    ultimately show ?thesis using row_put_map [of g_id "?f g" "usr_id u"] by simp
  qed
  then show ?thesis using 1 core_tables(4) [OF c] by simp
qed

lemma snd_dict_set: "snd ` set (dict_set k v xs) \<subseteq> insert v (snd ` set xs)"
  by (induction xs) (auto simp: dict_set_def split: if_splits)

lemma snd_dict_fold: "snd ` set (fold (\<lambda>g. dict_set (f g) g) ys xs) \<subseteq> set ys \<union> snd ` set xs"
proof (induction ys arbitrary: xs)
  case (Cons y ys)
  have "snd ` set (fold (\<lambda>g. dict_set (f g) g) (y # ys) xs) \<subseteq> set ys \<union> snd ` set (dict_set (f y) y xs)" using Cons.IH by simp
  also have "\<dots> \<subseteq> set ys \<union> insert y (snd ` set xs)" using snd_dict_set by (intro Un_mono) simp_all
  finally show ?case by auto
qed simp

lemma collected_guests: "set (collect_guest_rows u d) \<subseteq> set (guests d)"
proof -
  let ?seen = "case guest_get (usr_id u) d of None \<Rightarrow> [] | Some g \<Rightarrow> [(g_id g, g)]"
  let ?mine = "if usr_email u = '''' then [] else filter (\<lambda>g. g_org g = usr_org u \<and> g_email g = Some (usr_email u)) (guests d)"
  have "snd ` set ?seen \<subseteq> set (guests d)"
    using row_get_in [of g_id "usr_id u" "guests d"] by (auto simp: guest_get_def split: option.split)
  moreover have "set (collect_guest_rows u d) \<subseteq> set ?mine \<union> snd ` set ?seen"
    unfolding collect_guest_rows_def Let_def list.set_map by (rule snd_dict_fold)
  moreover have "set ?mine \<subseteq> set (guests d)" by auto
  ultimately show ?thesis by blast
qed

text \<open>C31: What an anonymization reaches, and that it overwrites all of it. The account gets an address made of its
  number, the names Anonyymi and a fixed one, no phone and no postal address, a new password nobody knows, no second
  factor and no backup codes, and is switched off; its number, its organization and its role stay. Beside it exactly
  the guest with the same number, of whatever organization that guest is, gets these names and this address and no
  phone, and keeps its notes and preferences; no other account and no other guest changes, in particular not the
  guests an export lists by the mail address of the user.\<close>

theorem anonymization_reaches:
  assumes "distinct (map usr_id (users (cur w)))" and "distinct (map g_id (guests (cur w)))"
    and "u \<in> set (users (cur w))" and "anonymize_user_data en draw (usr_id u) w = (Inr x, w')"
  shows "users (com w') = map (\<lambda>y. if usr_id y = usr_id u
        then y\<lparr>usr_email := ''anonymized-'' @ show_int (usr_id u) @ ''@deleted.local'', usr_first_name := Some ''Anonyymi'',
          usr_last_name := Some (''K'' @ [CHR 0xE4] @ ''ytt'' @ [CHR 0xE4, CHR 0xE4]), usr_phone := None, usr_address := None,
          usr_active := False, usr_anonymized_at := Some (clock w), usr_totp_secret := None, usr_2fa := False,
          usr_backup_codes := [], usr_password_hash := password_hash en draw, usr_updated_at := clock w\<rparr>
        else y) (users (cur w))
    \<and> guests (com w') = map (\<lambda>g. if g_id g = usr_id u
        then guest_touch w g (g\<lparr>g_first_name := ''Anonyymi'',
          g_last_name := ''K'' @ [CHR 0xE4] @ ''ytt'' @ [CHR 0xE4, CHR 0xE4],
          g_email := Some (''anonymized-'' @ show_int (usr_id u) @ ''@deleted.local''), g_phone := None\<rparr>)
        else g) (guests (cur w))
    \<and> {g \<in> set (collect_guest_rows u (cur w)). g_id g \<noteq> usr_id u} \<subseteq> set (guests (com w'))"
proof -
  note whole = anonymized_world [OF assms]
  have "g \<in> set (guests (com w'))" if "g \<in> set (collect_guest_rows u (cur w))" "g_id g \<noteq> usr_id u" for g
    using that collected_guests [of u "cur w"] whole by (auto intro: rev_image_eqI)
  moreover have "y = u" if "y \<in> set (users (cur w))" "usr_id y = usr_id u" for y
    using assms(1,3) that by (auto simp: distinct_map inj_on_def)
  ultimately show ?thesis
    using whole by (auto simp: anonymous_user_def anonymous_guest_def anonymous_email_def anonymous_last_name_def cong: map_cong)
qed

lemma replacement_other: "replacement_creator_user oid uid d = Some n \<Longrightarrow> usr_id n \<noteq> uid"
proof -
  assume r: "replacement_creator_user oid uid d = Some n"
  let ?us = "sort_key usr_id (filter (\<lambda>u. usr_org u = oid \<and> usr_id u \<noteq> uid) (users d))"
  have "n \<in> set ?us" using r by (cases ?us) (auto simp: replacement_creator_user_def simp del: set_sort)
  then show ?thesis by simp
qed

text \<open>No column that refers to users names the user. (The audit log keeps plain numbers.)\<close>

definition unmentioned :: "int \<Rightarrow> db \<Rightarrow> bool" where
  "unmentioned uid d \<longleftrightarrow> uid \<notin> usr_id ` set (users d) \<and> Some uid \<notin> ky_user ` set (api_keys d)
     \<and> uid \<notin> le_created_by ` set (leases d) \<and> uid \<notin> inv_created_by ` set (invoices d) \<and> uid \<notin> mr_created_by ` set (maintenance d)
     \<and> Some uid \<notin> le_updated_by ` set (leases d) \<and> Some uid \<notin> inv_updated_by ` set (invoices d)
     \<and> Some uid \<notin> mr_assigned_to ` set (maintenance d) \<and> Some uid \<notin> st_updated_by ` set (settings d)
     \<and> Some uid \<notin> pi_uploaded_by ` set (images d) \<and> Some uid \<notin> ws_created_by ` set (webhook_subs d)
     \<and> Some uid \<notin> ac_revoked_by ` set (access_codes d) \<and> Some uid \<notin> bk_created_by ` set (backups d)
     \<and> Some uid \<notin> nt_user ` set (notifications d) \<and> uid \<notin> cm_author ` set (comments d)
     \<and> uid \<notin> tg_created_by ` set (tags d) \<and> Some uid \<notin> rf_actor ` set (refunds d)
     \<and> uid \<notin> tk_subject ` (set (reset_tokens d) \<union> set (email_codes d) \<union> set (magic_links d))
     \<and> uid \<notin> sf_user ` set (saved_filters d)"

lemma unset_other [simp]: "unset uid x \<noteq> Some uid" "Some uid \<noteq> unset uid x"
  by (auto simp: unset_def)

lemma removed_unmentioned:
  assumes "\<not> user_referenced uid d" and "Some uid \<notin> ky_user ` set (api_keys d)" and "n \<noteq> uid"
  shows "unmentioned uid (remove_user uid (reassign_created_by uid n t d))"
proof -
  have free: "Some uid \<notin> (\<lambda>x. unset uid (f x)) ` A" for f and A :: "'x set" by auto
  show ?thesis
    using assms
    by (simp add: unmentioned_def remove_user_def reassign_created_by_def user_referenced_def row_del_def image_image free
        if_distrib [of le_created_by] if_distrib [of inv_created_by] if_distrib [of mr_created_by] cong: if_cong) auto
qed

text \<open>The account of the user as the anonymization leaves it, and everything else of the database still there.\<close>

definition only_anonymized :: "env \<Rightarrow> string \<Rightarrow> int \<Rightarrow> world \<Rightarrow> world \<Rightarrow> bool" where
  "only_anonymized en draw uid w w' \<longleftrightarrow>
     users (com w') = map (\<lambda>y. if usr_id y = uid then anonymous_user en draw (clock w) y else y) (users (cur w))
     \<and> api_keys (com w') = api_keys (cur w) \<and> leases (com w') = leases (cur w) \<and> invoices (com w') = invoices (cur w)
     \<and> maintenance (com w') = maintenance (cur w) \<and> notifications (com w') = notifications (cur w)
     \<and> comments (com w') = comments (cur w) \<and> tags (com w') = tags (cur w) \<and> refunds (com w') = refunds (cur w)"

lemma anonymized_tables:
  assumes "anonymize_user_data en draw uid w = (Inr x, w1)"
  shows "cur w1 = com w1 \<and> api_keys (com w1) = api_keys (cur w) \<and> leases (com w1) = leases (cur w)
    \<and> invoices (com w1) = invoices (cur w) \<and> maintenance (com w1) = maintenance (cur w)
    \<and> notifications (com w1) = notifications (cur w) \<and> comments (com w1) = comments (cur w)
    \<and> tags (com w1) = tags (cur w) \<and> refunds (com w1) = refunds (cur w)"
  using assms
  by (auto simp: anonymize_user_data_def Let_def sync_shadow_guest_def audit_record_def split: option.splits if_splits)

lemma replacement_None: "replacement_creator_user oid uid d = None \<longleftrightarrow> filter (\<lambda>u. usr_org u = oid \<and> usr_id u \<noteq> uid) (users d) = []"
proof -
  let ?rs = "filter (\<lambda>u. usr_org u = oid \<and> usr_id u \<noteq> uid) (users d)"
  have e: "sort_key usr_id ?rs = [] \<longleftrightarrow> ?rs = []" by (simp only: length_0_conv [symmetric] length_sort)
  show ?thesis
    unfolding replacement_creator_user_def e [symmetric] by (cases "sort_key usr_id ?rs") (simp_all only: list.case option.distinct list.distinct simp_thms)
qed

lemma erase_user_cases:
  assumes "erase_user en cli u t w = (r, w')"
  shows "if filter (\<lambda>x. usr_org x = usr_org u \<and> usr_id x \<noteq> usr_id u) (users (cur w)) = []
    then r = Inl e_no_replacement \<and> com w' = com w
    else if user_referenced (usr_id u) (cur w) then r = Inl (AccountPy IntegrityError) \<and> com w' = com w
    else r = Inr () \<and> unmentioned (usr_id u) (com w')"
proof -
  let ?w1 = "audit_record en ''gdpr.delete'' (delete_audit en cli u) w"
  let ?w2 = "on_db (remove_keys (usr_id u)) ?w1"
  have com: "com ?w2 = com w" by (simp add: audit_record_def delete_audit_def gdpr_audit_def Let_def)
  have us: "users (cur ?w2) = users (cur w)" and ref: "user_referenced (usr_id u) (cur ?w2) = user_referenced (usr_id u) (cur w)"
    by (simp_all add: remove_keys_def audit_record_def user_referenced_def Let_def)
  have keys: "Some (usr_id u) \<notin> ky_user ` set (api_keys (cur ?w2))" by (auto simp: remove_keys_def Let_def)
  show ?thesis
  proof (cases "replacement_creator_user (usr_org u) (usr_id u) (cur ?w2)")
    case None
    then have "r = Inl e_no_replacement" "w' = ?w2"
      using assms unfolding erase_user_def Let_def by (simp_all only: option.case prod.inject)
    then show ?thesis using com None [unfolded replacement_None us] by simp
  next
    case (Some n)
    then have n: "filter (\<lambda>x. usr_org x = usr_org u \<and> usr_id x \<noteq> usr_id u) (users (cur w)) \<noteq> []"
      using replacement_None [of "usr_org u" "usr_id u" "cur ?w2"] us by simp
    show ?thesis
    proof (cases "user_referenced (usr_id u) (cur ?w2)")
      case True
      then have "r = Inl (AccountPy IntegrityError)" "w' = rollback ?w2"
        using assms unfolding erase_user_def Let_def Some by (simp_all only: option.case if_True prod.inject)
      then show ?thesis using com n True ref by simp
    next
      case False
      then have "r = Inr ()"
        "w' = commit (on_db (\<lambda>d. remove_user (usr_id u) (reassign_created_by (usr_id u) (usr_id n) t d)) ?w2)"
        using assms unfolding erase_user_def Let_def Some by (simp_all only: option.case if_False prod.inject)
      then show ?thesis
        using n ref False removed_unmentioned [OF False keys replacement_other [OF Some], of t] by simp
    qed
  qed
qed

text \<open>C32: A deletion leaves nothing behind, a refused one half the work. An unknown user, a caller who is no
  superadmin, or an account that holds the anonymous address already is refused and nothing has changed. Past that the
  account is anonymized for good, and then: without another user in the organization the deletion is refused; with a
  notification, a comment, a tag or a refund that names the user the database refuses it; in both cases the account is
  left anonymized with all the rows that name it. Otherwise the user is gone, and no column that refers to users
  names him.\<close>

theorem deletion_or_half:
  assumes "distinct (map usr_id (users (cur w)))" and "distinct (map g_id (guests (cur w)))"
    and "delete_user_data en draw uid cli w = (r, w')"
  shows "case List.find (\<lambda>u. usr_id u = uid) (users (cur w)) of
      None \<Rightarrow> r = Inl (e_no_user uid) \<and> com w' = com w
    | Some u \<Rightarrow>
        if \<not> cli \<and> (case rq_user (req en) of None \<Rightarrow> True | Some a \<Rightarrow> usr_role a \<noteq> ''superadmin'')
        then r = Inl GdprPermissionError \<and> com w' = com w
        else if filter (\<lambda>x. usr_email x = anonymous_email uid \<and> usr_id x \<noteq> uid) (users (cur w)) \<noteq> []
        then r = Inl (AccountPy IntegrityError) \<and> com w' = com w
        else if filter (\<lambda>x. usr_org x = usr_org u \<and> usr_id x \<noteq> uid) (users (cur w)) = []
        then r = Inl e_no_replacement \<and> only_anonymized en draw uid w w'
        else if Some uid \<in> nt_user ` set (notifications (cur w)) \<or> uid \<in> cm_author ` set (comments (cur w))
          \<or> uid \<in> tg_created_by ` set (tags (cur w)) \<or> Some uid \<in> rf_actor ` set (refunds (cur w))
        then r = Inl (AccountPy IntegrityError) \<and> only_anonymized en draw uid w w'
        else r = Inr () \<and> unmentioned uid (com w')"
proof (cases "row_get usr_id uid (users (cur w))")
  case None
  then show ?thesis using assms(3) by (auto simp: delete_user_data_def row_get_def)
next
  case (Some u)
  have f: "List.find (\<lambda>u. usr_id u = uid) (users (cur w)) = Some u" using Some by (simp add: row_get_def)
  have u: "u \<in> set (users (cur w))" "usr_id u = uid" using row_get_in [OF Some] by simp_all
  have mail: "usr_email (anonymous_user en draw (clock w) u) = anonymous_email uid" by (simp add: anonymous_user_def u(2))
  obtain x w1 where a: "anonymize_user_data en draw uid w = (x, w1)" by fastforce
  show ?thesis
  proof (cases "\<not> cli \<and> (case rq_user (req en) of None \<Rightarrow> True | Some a \<Rightarrow> usr_role a \<noteq> ''superadmin'')")
    case True
    then have "r = Inl GdprPermissionError" "w' = w" using assms(3) Some by (simp_all add: delete_user_data_def)
    then show ?thesis unfolding f option.case if_P [OF True] by simp
  next
    case allowed: False
    have e: "(case x of Inl e \<Rightarrow> (Inl e, w1) | Inr _ \<Rightarrow> erase_user en cli u (clock w) w1) = (r, w')"
      using assms(3) by (simp only: delete_user_data_def Some option.case if_not_P [OF allowed] a prod.case)
    show ?thesis
    proof (cases "filter (\<lambda>x. usr_email x = anonymous_email uid \<and> usr_id x \<noteq> uid) (users (cur w)) = []")
      case False
      then have t: "\<exists>x\<in>set (users (cur w)). usr_email x = anonymous_email uid \<and> usr_id x \<noteq> uid" by (auto simp: filter_empty_conv)
      then have "x = Inl (AccountPy IntegrityError)" "w1 = rollback w"
        using a by (simp_all only: anonymize_user_data_def Some option.case Let_def mail if_True eqTrueI [OF t] prod.inject)
      then show ?thesis unfolding f option.case if_not_P [OF allowed] using False e by auto
    next
      case True
      then have t: "\<not> (\<exists>x\<in>set (users (cur w)). usr_email x = anonymous_email uid \<and> usr_id x \<noteq> uid)" by (auto simp: filter_empty_conv)
      then obtain y where x: "x = Inr y"
        using a by (simp only: anonymize_user_data_def Some option.case Let_def mail if_False Eq_FalseI [OF t] prod.inject) blast
      note tab = anonymized_tables [OF a [unfolded x]]
      note whole = anonymized_world [OF assms(1,2) u(1), of en draw y w1, unfolded u(2), OF a [unfolded x], THEN conjunct1]
      have one: "y = u" if "y \<in> set (users (cur w))" "usr_id y = uid" for y
        using assms(1) u that by (auto simp: distinct_map inj_on_def)
      have us: "users (com w1) = map (\<lambda>y. if usr_id y = uid then anonymous_user en draw (clock w) y else y) (users (cur w))"
        unfolding whole using one by (auto cong: map_cong)
      have half: "only_anonymized en draw uid w v" if "com v = com w1" for v
        using that tab us by (simp add: only_anonymized_def)
      have org: "(filter (\<lambda>x. usr_org x = usr_org u \<and> usr_id x \<noteq> uid) (users (cur w1)) = [])
          = (filter (\<lambda>x. usr_org x = usr_org u \<and> usr_id x \<noteq> uid) (users (cur w)) = [])"
        unfolding tab [THEN conjunct1] us by (auto simp: filter_empty_conv anonymous_user_def split: if_splits)
      have ref: "user_referenced uid (cur w1) = user_referenced uid (cur w)" using tab by (simp add: user_referenced_def)
      have er: "erase_user en cli u (clock w) w1 = (r, w')" using e x by simp
      have c: "if filter (\<lambda>x. usr_org x = usr_org u \<and> usr_id x \<noteq> uid) (users (cur w)) = []
          then r = Inl e_no_replacement \<and> com w' = com w1
          else if user_referenced uid (cur w) then r = Inl (AccountPy IntegrityError) \<and> com w' = com w1
          else r = Inr () \<and> unmentioned uid (com w')"
        using erase_user_cases [OF er] unfolding u(2) org ref .
      then show ?thesis
        unfolding f option.case if_not_P [OF allowed] user_referenced_def using True half by (auto split: if_splits)
    qed
  qed
qed

subsection \<open>Concrete accounts\<close>

text \<open>User 5 of organization 2, and guest 5 of organization 1.\<close>

definition account_world :: world where
  "account_world = world_of (sample_db\<lparr>users := [sample_person 5 2 ''eve@hill.fi'' ''user'']\<rparr>)"

lemma account_world_simps:
  "users (cur account_world) = [sample_person 5 2 ''eve@hill.fi'' ''user'']" "guests (cur account_world) = guests sample_db"
  "clock account_world = sample_clock" "com account_world = cur account_world"
  by (simp_all add: account_world_def)

lemma account_anonymized: "\<exists>w'. anonymize_user_data sample_env ''draw'' 5 account_world = (Inr (), w')"
  by (simp add: anonymize_user_data_def account_world_simps row_get_def Let_def)

theorem anonymization_reaches_witness:
  "map (\<lambda>g. (g_org g, g_first_name g)) (guests (cur account_world)) = [(1, ''Ada'')]
   \<and> map (\<lambda>g. (g_org g, g_first_name g)) (guests (com (snd (anonymize_user_data sample_env ''draw'' 5 account_world)))) = [(1, ''Anonyymi'')]"
proof -
  obtain w' where a: "anonymize_user_data sample_env ''draw'' 5 account_world = (Inr (), w')" using account_anonymized by blast
  let ?u = "sample_person 5 2 ''eve@hill.fi'' ''user''"
  note r = anonymization_reaches [of account_world ?u sample_env "''draw''" "()" w']
  have "map (\<lambda>g. (g_org g, g_first_name g)) (guests (com w')) = [(1, ''Anonyymi'')]"
    using r a by (simp add: account_world_simps sample_db_def guest_touch_def)
  then show ?thesis unfolding a by (simp add: account_world_simps sample_db_def)
qed

text \<open>The last user of an organization, and one of two users who has written a tag.\<close>

definition tagged_world :: world where
  "tagged_world = world_of (sample_db\<lparr>users := [sample_person 5 2 ''eve@hill.fi'' ''user'', sample_person 6 2 ''kim@hill.fi'' ''user''],
     tags := [\<lparr>tg_id = 1, tg_org = 2, tg_name = ''vip'', tg_color = ''#ffffff'', tg_created_by = 5, tg_created_at = 0\<rparr>]\<rparr>)"

theorem deletion_or_half_witness:
  "fst (delete_user_data sample_env ''draw'' 5 True account_world) = Inl e_no_replacement
    \<and> fst (delete_user_data sample_env ''draw'' 5 True tagged_world) = Inl (AccountPy IntegrityError)
    \<and> map usr_active (users (com (snd (delete_user_data sample_env ''draw'' 5 True tagged_world)))) = [False, True]"
proof -
  have m: "anonymous_email 5 \<noteq> ''kim@hill.fi''" by code_simp
  obtain r w' where d: "delete_user_data sample_env ''draw'' 5 True account_world = (r, w')" by fastforce
  have "r = Inl e_no_replacement"
    using deletion_or_half [OF _ _ d] by (simp add: account_world_simps sample_db_def)
  moreover obtain q v where t: "delete_user_data sample_env ''draw'' 5 True tagged_world = (q, v)" by fastforce
  have "q = Inl (AccountPy IntegrityError) \<and> only_anonymized sample_env ''draw'' 5 tagged_world v"
    using deletion_or_half [OF _ _ t] m by (auto simp: tagged_world_def sample_db_def)
  ultimately have "r = Inl e_no_replacement" "q = Inl (AccountPy IntegrityError)" "map usr_active (users (com v)) = [False, True]"
    by (simp_all add: only_anonymized_def tagged_world_def anonymous_user_def)
  then show ?thesis unfolding d t fst_conv snd_conv by blast
qed

definition sample_account :: user_args where
  "sample_account = \<lparr>ua_email = '' Eve@Hill.fi'', ua_password = ''longpassword1'', ua_role = ''Admin'', ua_org_name = Some ''Hill'',
     ua_org_id = None, ua_actor = \<lparr>act_type = None, act_id = None, act_email = None\<rparr>\<rparr>"

theorem user_mail_unique_witness:
  "let w = run_account sample_env 12 ''/login'' (Create_user sample_account True) (world_of empty_db)
   in map usr_email (users (com w)) = [''eve@hill.fi''] \<and> distinct (map usr_email (users (com w)))
    \<and> map (\<lambda>g. (g_id g, g_first_name g)) (guests (com w)) = [(1, ''eve'')]"
proof -
  let ?w = "run_account sample_env 12 ''/login'' (Create_user sample_account True) (world_of empty_db)"
  have "accounts_reachable sample_env 12 ''/login'' ?w"
    by (rule accounts_reachable.step [OF accounts_reachable.start]) simp_all
  then have "distinct (map usr_email (users (com ?w)))" using user_mail_unique by blast
  moreover have e: "user_args_error 12 sample_account empty_db = None" by code_simp
  have s: "strip ''Hill'' = ''Hill''" "lower (strip '' Eve@Hill.fi'') = ''eve@hill.fi''" "lower (strip ''Admin'') = ''admin''"
    "strip (takeWhile (\<lambda>c. c \<noteq> CHR ''@'') ''eve@hill.fi'') = ''eve''"
    by code_simp+
  have "map usr_email (users (com ?w)) = [''eve@hill.fi''] \<and> map (\<lambda>g. (g_id g, g_first_name g)) (guests (com ?w)) = [(1, ''eve'')]"
    using e s by (simp add: create_user_def user_org_def sample_account_def new_user_def ensure_shadow_guest_def shadow_guest_def
        send_welcome_email_def send_template_def next_key_def Let_def)
  ultimately show ?thesis by (simp add: Let_def)
qed

end
