(* ===== verification/WebSession.thy ===== *)
theory WebSession
  imports Auth Accounts
begin

text \<open>
  The browser session of the back office: the sign-in pages (app/auth/routes.py), the guard before every request
  (app/__init__.py), the guards of views (app/core/permissions.py) and acting as another user
  (app/admin/routes.py, app/admin/services.py). The state is the signed session cookie beside the database.
  Random draws, links and the shortest password are arguments; a page is its name with what it shows. Main facts: a
  superadmin page runs exactly behind its three conditions; the password alone is enough to meet them; an
  impersonation that ends by signing out hands the superadmin's session to whoever signs in next.
\<close>

subsection \<open>The session\<close>

record web =
  wb_user :: "int option"
  wb_verified :: bool
  wb_next :: "string option"
  wb_codes :: "string list option"
  wb_impersonator :: "int option"
  wb_started :: "stamp option"

definition fresh_web :: web where
  "fresh_web = \<lparr>wb_user = None, wb_verified = False, wb_next = None, wb_codes = None, wb_impersonator = None, wb_started = None\<rparr>"

datatype web_reply = Redirect string | Abort nat | Server_error | Page string | Secret_page string | Codes_page "string list option"

definition current_user :: "web \<Rightarrow> world \<Rightarrow> user_row option" where
  \<comment> \<open>a deactivated user is not authenticated\<close>
  "current_user s w =
     (case wb_user s of None \<Rightarrow> None
      | Some i \<Rightarrow> (case row_get usr_id i (users (cur w)) of None \<Rightarrow> None | Some u \<Rightarrow> if usr_active u then Some u else None))"

definition login_user :: "user_row \<Rightarrow> web \<Rightarrow> web" where
  \<comment> \<open>refused for a deactivated user\<close>
  "login_user u s = (if usr_active u then s\<lparr>wb_user := Some (usr_id u)\<rparr> else s)"

definition user_env :: "env \<Rightarrow> user_row option \<Rightarrow> env" where
  "user_env en u = en\<lparr>req := (req en)\<lparr>rq_user := u\<rparr>\<rparr>"

definition is_superadmin :: "user_row \<Rightarrow> bool" where "is_superadmin u \<longleftrightarrow> usr_role u = ''superadmin''"

definition is_admin :: "string option \<Rightarrow> bool" where
  "is_admin role \<longleftrightarrow> role = Some ''admin'' \<or> role = Some ''superadmin''"

definition can_access_organization :: "int option \<Rightarrow> int option \<Rightarrow> bool" where
  "can_access_organization a b = (case (a, b) of (Some x, Some y) \<Rightarrow> x = y | _ \<Rightarrow> False)"

definition safe_next_url :: "string option \<Rightarrow> string option" where
  \<comment> \<open>\<open>urlparse\<close> drops tabs and line ends before it looks for a host\<close>
  "safe_next_url target =
     (let t = or_empty target; c = filter (\<lambda>x. x \<notin> {CHR 0x09, CHR 0x0A, CHR 0x0D}) t in
      if t = '''' \<or> take 2 c = ''//'' \<or> hd t \<noteq> CHR ''/'' then None else Some t)"

definition default_post_login :: "string \<Rightarrow> string" where
  "default_post_login role = (if role \<in> {''admin'', ''superadmin''} then ''admin.admin_home'' else ''core.index'')"

definition or_default :: "string option \<Rightarrow> string \<Rightarrow> web_reply" where
  "or_default url role = Redirect (case url of Some x \<Rightarrow> x | None \<Rightarrow> default_post_login role)"

subsection \<open>Guards\<close>

definition allowed_endpoints :: "string list" where
  "allowed_endpoints = [''auth.login'', ''auth.logout'', ''auth.two_factor_setup'', ''auth.two_factor_verify'',
     ''auth.two_factor_email_code'', ''auth.two_factor_backup_codes'', ''auth.forgot_password'', ''auth.reset_password'',
     ''static'', ''core.health'', ''core.health_db'']"

definition enforce_superadmin_2fa :: "string \<Rightarrow> web \<Rightarrow> world \<Rightarrow> web_reply option" where
  \<comment> \<open>before every request: \<open>None\<close> lets it pass\<close>
  "enforce_superadmin_2fa endpoint s w =
     (case current_user s w of
        None \<Rightarrow> None
      | Some u \<Rightarrow>
          if \<not> is_superadmin u \<or> wb_verified s \<or> endpoint \<in> set allowed_endpoints then None
          else Some (Redirect (if usr_2fa u then ''auth.two_factor_verify'' else ''auth.two_factor_setup'')))"

definition guarded :: "string \<Rightarrow> (web \<Rightarrow> world \<Rightarrow> web_reply \<times> web \<times> world) \<Rightarrow> web \<Rightarrow> world \<Rightarrow> web_reply \<times> web \<times> world" where
  "guarded endpoint view s w = (case enforce_superadmin_2fa endpoint s w of Some r \<Rightarrow> (r, s, w) | None \<Rightarrow> view s w)"

definition login_required :: "(user_row \<Rightarrow> web \<Rightarrow> world \<Rightarrow> web_reply \<times> web \<times> world) \<Rightarrow> web \<Rightarrow> world \<Rightarrow> web_reply \<times> web \<times> world" where
  "login_required view s w = (case current_user s w of None \<Rightarrow> (Redirect ''auth.login'', s, w) | Some u \<Rightarrow> view u s w)"

definition require_superadmin_2fa :: "(user_row \<Rightarrow> web \<Rightarrow> world \<Rightarrow> web_reply \<times> web \<times> world) \<Rightarrow> web \<Rightarrow> world \<Rightarrow> web_reply \<times> web \<times> world" where
  "require_superadmin_2fa view s w =
     (case current_user s w of
        None \<Rightarrow> (Redirect ''auth.login'', s, w)
      | Some u \<Rightarrow>
          if \<not> is_superadmin u then (Abort 403, s, w)
          else if \<not> usr_2fa u then (Redirect ''auth.two_factor_setup'', s, w)
          else if \<not> wb_verified s then (Redirect ''auth.two_factor_verify'', s, w)
          else view u s w)"

definition require_admin :: "(user_row \<Rightarrow> web \<Rightarrow> world \<Rightarrow> web_reply \<times> web \<times> world) \<Rightarrow> web \<Rightarrow> world \<Rightarrow> web_reply \<times> web \<times> world" where
  "require_admin view = login_required (\<lambda>u s w. if is_admin (Some (usr_role u)) then view u s w else (Abort 403, s, w))"

definition require_superadmin :: "(user_row \<Rightarrow> web \<Rightarrow> world \<Rightarrow> web_reply \<times> web \<times> world) \<Rightarrow> web \<Rightarrow> world \<Rightarrow> web_reply \<times> web \<times> world" where
  "require_superadmin view = login_required (\<lambda>u s w. if is_superadmin u then view u s w else (Abort 403, s, w))"

definition require_tenant_access ::
  "bool \<Rightarrow> ('r \<Rightarrow> int) \<Rightarrow> 'r option \<Rightarrow> ('r \<Rightarrow> web \<Rightarrow> world \<Rightarrow> web_reply \<times> web \<times> world) \<Rightarrow> web \<Rightarrow> world \<Rightarrow> web_reply \<times> web \<times> world" where
  \<comment> \<open>the row the request names, if there is one\<close>
  "require_tenant_access all_tenants org row view s w =
     (case row of
        None \<Rightarrow> (Abort 404, s, w)
      | Some x \<Rightarrow>
          (case current_user s w of
             None \<Rightarrow> (Abort 404, s, w)
           | Some u \<Rightarrow>
               if all_tenants \<and> is_superadmin u \<or> org x = usr_org u then view x s w else (Abort 404, s, w)))"

subsection \<open>The sign-in pages\<close>

definition login :: "env \<Rightarrow> string option \<Rightarrow> string \<Rightarrow> string option \<Rightarrow> web \<Rightarrow> world \<Rightarrow> web_reply \<times> web \<times> world" where
  "login en email password next_url s w =
     (case authenticate_user_for_login en (Some (lower (strip (or_empty email)))) password w of
        ((None, _, _), w1) \<Rightarrow> (Page ''Invalid email or password.'', s, w1)
      | ((Some u, _, _), w1) \<Rightarrow>
          let s1 = login_user u s; w2 = audit_login_success en u w1 in
          if is_superadmin u
          then (Redirect ''auth.two_factor_verify'', s1\<lparr>wb_verified := False, wb_next := safe_next_url next_url\<rparr>, w2)
          else (or_default (safe_next_url next_url) (usr_role u), s1\<lparr>wb_verified := True\<rparr>, w2))"

definition superadmin_only :: "(user_row \<Rightarrow> web \<Rightarrow> world \<Rightarrow> web_reply \<times> web \<times> world) \<Rightarrow> web \<Rightarrow> world \<Rightarrow> web_reply \<times> web \<times> world" where
  "superadmin_only view = login_required (\<lambda>u s w. if is_superadmin u then view u s w else (Abort 403, s, w))"

definition two_factor_setup :: "env \<Rightarrow> string \<Rightarrow> string option option \<Rightarrow> string list \<Rightarrow> web \<Rightarrow> world \<Rightarrow> web_reply \<times> web \<times> world" where
  \<comment> \<open>the new secret, the code of a POST, the draws of the backup codes; the page shows the secret\<close>
  "two_factor_setup en fresh posted draws =
     superadmin_only (\<lambda>u s w.
       let w1 = ensure_totp_secret fresh u w;
           u1 = (if or_empty (usr_totp_secret u) = '''' then u\<lparr>usr_totp_secret := Some fresh\<rparr> else u);
           shown = Secret_page (or_empty (usr_totp_secret u1)) in
       case posted of
         None \<Rightarrow> (shown, s, w1)
       | Some code \<Rightarrow>
           (case complete_superadmin_two_factor_setup (user_env en (Some u1)) draws u1 code w1 of
              (Inl _, w2) \<Rightarrow> (Server_error, s, rollback w2)
            | (Inr (True, Some codes), w2) \<Rightarrow>
                (Redirect ''auth.two_factor_backup_codes'', s\<lparr>wb_codes := Some codes, wb_verified := False\<rparr>, w2)
            | (Inr _, w2) \<Rightarrow> (shown, s, w2)))"

definition backup_codes_post :: "env \<Rightarrow> string list \<Rightarrow> web \<Rightarrow> world \<Rightarrow> web_reply \<times> web \<times> world" where
  "backup_codes_post en draws =
     superadmin_only (\<lambda>u s w.
       case regenerate_superadmin_backup_codes (user_env en (Some u)) draws u w of
         (codes, w1) \<Rightarrow> (Redirect ''auth.two_factor_backup_codes'', s\<lparr>wb_codes := Some codes\<rparr>, w1))"

definition backup_codes_get :: "web \<Rightarrow> world \<Rightarrow> web_reply \<times> web \<times> world" where
  "backup_codes_get = superadmin_only (\<lambda>u s w. (Codes_page (wb_codes s), s\<lparr>wb_codes := None\<rparr>, w))"

definition two_factor_verify :: "env \<Rightarrow> string option \<Rightarrow> web \<Rightarrow> world \<Rightarrow> web_reply \<times> web \<times> world" where
  "two_factor_verify en code =
     superadmin_only (\<lambda>u s w.
       if \<not> usr_2fa u \<or> or_empty (usr_totp_secret u) = '''' then (Redirect ''auth.two_factor_setup'', s, w)
       else case verify_superadmin_two_factor_code (user_env en (Some u)) u code w of
         (Inl _, w1) \<Rightarrow> (Server_error, s, rollback w1)
       | (Inr Failed_code, w1) \<Rightarrow> (Page ''two_factor_verify'', s, audit_login_failed_2fa (user_env en (Some u)) u w1)
       | (Inr _, w1) \<Rightarrow> (or_default (safe_next_url (wb_next s)) (usr_role u), s\<lparr>wb_verified := True, wb_next := None\<rparr>, w1))"

definition two_factor_email_code :: "env \<Rightarrow> int \<Rightarrow> web \<Rightarrow> world \<Rightarrow> web_reply \<times> web \<times> world" where
  "two_factor_email_code en draw =
     superadmin_only (\<lambda>u s w.
       if \<not> usr_2fa u then (Redirect ''auth.two_factor_setup'', s, w)
       else case send_email_2fa_code (user_env en (Some u)) draw u w of
         (Inl _, w1) \<Rightarrow> (Server_error, s, rollback w1)
       | (Inr True, w1) \<Rightarrow> (Redirect ''auth.two_factor_verify'', s, w1)
       | (Inr False, w1) \<Rightarrow> (Page ''two_factor_email_code'', s, w1))"

definition forgot_password :: "env \<Rightarrow> (string \<Rightarrow> string) \<Rightarrow> string \<Rightarrow> string option \<Rightarrow> web \<Rightarrow> world \<Rightarrow> web_reply \<times> web \<times> world" where
  "forgot_password en link raw email s w =
     (let mail = lower (strip (or_empty email)); en1 = user_env en (current_user s w) in
      if mail = '''' then (Redirect ''auth.login'', s, w)
      else case request_password_reset en1 link raw mail w of
        (Inl _, w1) \<Rightarrow> (Server_error, s, rollback w1) | (Inr _, w1) \<Rightarrow> (Redirect ''auth.login'', s, w1))"

definition reset_form_error :: "int \<Rightarrow> string \<Rightarrow> string \<Rightarrow> string option" where
  "reset_form_error min_length password confirm =
     (case validate_password_strength min_length password of
        e # _ \<Rightarrow> Some e | [] \<Rightarrow> if password \<noteq> confirm then Some ''Passwords do not match.'' else None)"

definition reset_password :: "env \<Rightarrow> int \<Rightarrow> string \<Rightarrow> string \<Rightarrow> string \<Rightarrow> web \<Rightarrow> world \<Rightarrow> web_reply \<times> web \<times> world" where
  "reset_password en min_length raw password confirm s w =
     (case find_reset_token en raw w of
        None \<Rightarrow> (Page ''invalid_token'', s, w)
      | Some t \<Rightarrow>
          (case reset_form_error min_length password confirm of
             Some e \<Rightarrow> (Page e, s, w)
           | None \<Rightarrow>
               (case complete_password_reset (user_env en (current_user s w)) t password w of
                  (Inl _, w1) \<Rightarrow> (Server_error, s, rollback w1) | (Inr _, w1) \<Rightarrow> (Redirect ''auth.login'', s, w1))))"

definition logout :: "env \<Rightarrow> web \<Rightarrow> world \<Rightarrow> web_reply \<times> web \<times> world" where
  "logout en = login_required (\<lambda>u s w.
     (Redirect ''auth.login'', s\<lparr>wb_verified := False, wb_user := None\<rparr>, audit_logout (user_env en (Some u)) u w))"

subsection \<open>Acting as another user\<close>

definition start_impersonation :: "env \<Rightarrow> user_row \<Rightarrow> user_row \<Rightarrow> string option \<Rightarrow> world \<Rightarrow> (py_error + unit) \<times> world" where
  "start_impersonation en actor target reason w =
     (if \<not> is_superadmin actor \<or> strip (or_empty reason) = '''' \<or> \<not> usr_active target then (Inl ValueError, w)
      else (Inr (), audit_record en ''support.impersonate.started''
        (audit_defaults\<lparr>aa_org := Some (usr_org target), aa_target_type := Some ''user'', aa_target_id := Some (usr_id target),
           aa_context := Some [(''target_user_id'', JInt (usr_id target)), (''reason'', JStr (strip (or_empty reason))),
             (''impersonator_user_id'', JInt (usr_id actor))], aa_commit := True\<rparr>) w))"

definition end_impersonation :: "env \<Rightarrow> user_row \<Rightarrow> user_row \<Rightarrow> int \<Rightarrow> world \<Rightarrow> world" where
  "end_impersonation en actor impersonator secs w =
     audit_record en ''support.impersonate.ended''
       (audit_defaults\<lparr>aa_org := Some (usr_org actor), aa_target_type := Some ''user'', aa_target_id := Some (usr_id actor),
          aa_context := Some [(''target_user_id'', JInt (usr_id actor)), (''impersonator_user_id'', JInt (usr_id impersonator)),
            (''duration_seconds'', JInt (max 0 secs))], aa_commit := True\<rparr>) w"

definition superadmin_impersonate :: "env \<Rightarrow> int \<Rightarrow> string option \<Rightarrow> web \<Rightarrow> world \<Rightarrow> web_reply \<times> web \<times> world" where
  "superadmin_impersonate en uid reason =
     require_superadmin_2fa (\<lambda>a s w.
       if strip (or_empty reason) = '''' then (Redirect ''admin.users_list'', s, w)
       else case row_get usr_id uid (users (cur w)) of
         None \<Rightarrow> (Abort 404, s, w)
       | Some u \<Rightarrow>
           if usr_id u = usr_id a then (Redirect ''admin.users_list'', s, w)
           else case start_impersonation (user_env en (Some a)) a u (Some (strip (or_empty reason))) w of
             (Inl _, w1) \<Rightarrow> (Server_error, s, rollback w1)
           | (Inr _, w1) \<Rightarrow>
               (Redirect ''admin.admin_home'',
                login_user u (s\<lparr>wb_impersonator := Some (usr_id a), wb_started := Some (clock w)\<rparr>), w1))"

definition exit_impersonation :: "env \<Rightarrow> web \<Rightarrow> world \<Rightarrow> web_reply \<times> web \<times> world" where
  "exit_impersonation en =
     login_required (\<lambda>u s w.
       case wb_impersonator s of
         None \<Rightarrow> (Abort 400, s, w)
       | Some i \<Rightarrow>
           if i = 0 then (Abort 400, s, w)
           else case row_get usr_id i (users (cur w)) of
             None \<Rightarrow> (Abort 404, s, w)
           | Some a \<Rightarrow>
               let secs = (case wb_started s of None \<Rightarrow> 0 | Some t \<Rightarrow> (clock w - t) div us_per_second)
               in (Redirect ''admin.users_list'',
                   login_user a (s\<lparr>wb_impersonator := None, wb_started := None\<rparr>),
                   end_impersonation (user_env en (Some u)) u a secs w))"

subsection \<open>Requests\<close>

datatype web_request =
    Login_post "string option" string "string option"
  | Setup string "string option option" "string list"
  | Backup_codes_post "string list" | Backup_codes_get
  | Verify_post "string option" | Email_code_post int
  | Forgot_post string "string option" | Reset_post string string string
  | Logout_get | Impersonate int "string option" | Exit_impersonation
  | Superadmin_page string  \<comment> \<open>any view behind \<open>require_superadmin_2fa\<close>\<close>

fun endpoint_of :: "web_request \<Rightarrow> string" where
  "endpoint_of (Login_post _ _ _) = ''auth.login''"
| "endpoint_of (Setup _ _ _) = ''auth.two_factor_setup''"
| "endpoint_of (Backup_codes_post _) = ''auth.two_factor_backup_codes''"
| "endpoint_of Backup_codes_get = ''auth.two_factor_backup_codes''"
| "endpoint_of (Verify_post _) = ''auth.two_factor_verify''"
| "endpoint_of (Email_code_post _) = ''auth.two_factor_email_code''"
| "endpoint_of (Forgot_post _ _) = ''auth.forgot_password''"
| "endpoint_of (Reset_post _ _ _) = ''auth.reset_password''"
| "endpoint_of Logout_get = ''auth.logout''"
| "endpoint_of (Impersonate _ _) = ''admin.superadmin_impersonate''"
| "endpoint_of Exit_impersonation = ''admin.exit_impersonation''"
| "endpoint_of (Superadmin_page name) = name"

fun view_of :: "env \<Rightarrow> int \<Rightarrow> (string \<Rightarrow> string) \<Rightarrow> web_request \<Rightarrow> web \<Rightarrow> world \<Rightarrow> web_reply \<times> web \<times> world" where
  "view_of en min_length link (Login_post email password next_url) = login en email password next_url"
| "view_of en min_length link (Setup fresh posted draws) = two_factor_setup en fresh posted draws"
| "view_of en min_length link (Backup_codes_post draws) = backup_codes_post en draws"
| "view_of en min_length link Backup_codes_get = backup_codes_get"
| "view_of en min_length link (Verify_post code) = two_factor_verify en code"
| "view_of en min_length link (Email_code_post draw) = two_factor_email_code en draw"
| "view_of en min_length link (Forgot_post raw email) = forgot_password en link raw email"
| "view_of en min_length link (Reset_post raw password confirm) = reset_password en min_length raw password confirm"
| "view_of en min_length link Logout_get = logout en"
| "view_of en min_length link (Impersonate uid reason) = superadmin_impersonate en uid reason"
| "view_of en min_length link Exit_impersonation = exit_impersonation en"
| "view_of en min_length link (Superadmin_page name) = require_superadmin_2fa (\<lambda>u s w. (Page name, s, w))"

definition serve :: "env \<Rightarrow> int \<Rightarrow> (string \<Rightarrow> string) \<Rightarrow> web_request \<Rightarrow> web \<times> world \<Rightarrow> web_reply \<times> web \<times> world" where
  "serve en min_length link q x = guarded (endpoint_of q) (view_of en min_length link q) (fst x) (snd x)"

fun serve_all :: "env \<Rightarrow> int \<Rightarrow> (string \<Rightarrow> string) \<Rightarrow> web_request list \<Rightarrow> web \<times> world \<Rightarrow> web \<times> world" where
  "serve_all en min_length link [] x = x"
| "serve_all en min_length link (q # qs) x = serve_all en min_length link qs (snd (serve en min_length link q x))"

subsection \<open>Theorems\<close>

lemma current_user_Some:
  "current_user s w = Some u \<longleftrightarrow> wb_user s = Some (usr_id u) \<and> row_get usr_id (usr_id u) (users (cur w)) = Some u \<and> usr_active u"
proof
  assume c: "current_user s w = Some u"
  then obtain i where i: "wb_user s = Some i" "row_get usr_id i (users (cur w)) = Some u" "usr_active u"
    by (auto simp: current_user_def split: option.splits if_splits)
  then have "usr_id u = i" using row_get_in [OF i(2)] by blast
  then show "wb_user s = Some (usr_id u) \<and> row_get usr_id (usr_id u) (users (cur w)) = Some u \<and> usr_active u" using i by simp
qed (simp add: current_user_def)

lemma passes: "\<not> is_superadmin u \<or> wb_verified s \<or> endpoint \<in> set allowed_endpoints \<Longrightarrow> current_user s w = Some u \<Longrightarrow>
    guarded endpoint view s w = view s w"
  by (auto simp: guarded_def enforce_superadmin_2fa_def)

lemma audit_users [simp]: "users (cur (audit_record en act a w)) = users (cur w)" "login_attempts (cur (audit_record en act a w)) = login_attempts (cur w)"
  by simp_all

definition user_roles_of :: "db \<Rightarrow> (int \<times> string) list" where
  "user_roles_of d = map (\<lambda>u. (usr_id u, usr_role u)) (users d)"

definition unmarked :: "(int \<times> string) list \<Rightarrow> web \<times> world \<Rightarrow> bool" where
  \<comment> \<open>no session that acts as another user, and a mark only for users that are no superadmins\<close>
  "unmarked R x \<longleftrightarrow> user_roles_of (cur (snd x)) = R \<and> user_roles_of (com (snd x)) = R \<and> wb_impersonator (fst x) = None
     \<and> (wb_verified (fst x) \<longrightarrow> (\<forall>i. wb_user (fst x) = Some i \<longrightarrow> (i, ''superadmin'') \<notin> set R))"

definition stable :: "(int \<times> string) list \<Rightarrow> world \<Rightarrow> bool" where
  "stable R w \<longleftrightarrow> user_roles_of (cur w) = R \<and> user_roles_of (com w) = R"

lemma stable_steps [simp]:
  "stable R w \<Longrightarrow> stable R (audit_record en act a w)" "stable R w \<Longrightarrow> stable R (commit w)" "stable R w \<Longrightarrow> stable R (rollback w)"
  "stable R w \<Longrightarrow> (\<And>d. users (f d) = users d) \<Longrightarrow> stable R (on_db f w)"
  by (auto simp: stable_def user_roles_of_def audit_record_def Let_def)

lemma stable_put:
  assumes "stable R w" and "distinct (map fst R)" and "(usr_id v, usr_role v) \<in> set R"
  shows "stable R (on_db (put_user v) w)"
proof -
  have "user_roles_of (put_user v d) = R" if r: "user_roles_of d = R" for d
  proof -
    have "usr_role x = usr_role v" if "x \<in> set (users d)" "usr_id x = usr_id v" for x
    proof -
      have "(usr_id x, usr_role x) \<in> set (user_roles_of d)" using that(1) by (simp add: user_roles_of_def)
      then have "(usr_id v, usr_role x) \<in> set R" by (simp add: r that(2))
      then show ?thesis using assms(2,3) by (metis eq_key_imp_eq_value)
    qed
    then have "map (\<lambda>u. (usr_id u, usr_role u)) (row_put usr_id v (users d)) = map (\<lambda>u. (usr_id u, usr_role u)) (users d)"
      by (auto simp: row_put_def)
    then show ?thesis using r by (simp add: user_roles_of_def)
  qed
  then show ?thesis using assms(1) by (simp add: stable_def)
qed

lemma stable_mail:
  "send_template en key to ctx w = (r, w') \<Longrightarrow> stable R w \<Longrightarrow> stable R w'"
  "send_template_now en key to ctx w = (r, w') \<Longrightarrow> stable R w \<Longrightarrow> stable R w'"
proof -
  assume s: "send_template en key to ctx w = (r, w')" "stable R w"
  note k = send_template_world [OF s(1)]
  have "users (cur w') = users (cur w)" using mail_only_tables [OF k(1)] by simp
  then show "stable R w'" using s(2) k(2,3) by (cases "r = Inl EmailTemplateNotFound") (auto simp: stable_def user_roles_of_def)
next
  assume s: "send_template_now en key to ctx w = (r, w')" "stable R w"
  have "w' = w \<or> (mail_only (cur w) (cur w') \<and> com w' = cur w')"
    using s(1) send_rendered_world
    by (auto simp: send_template_now_def Let_def mail_only_audit simp del: add_audit_def split: if_splits sum.splits prod.splits)
  then show "stable R w'" using s(2) mail_only_tables by (auto simp: stable_def user_roles_of_def)
qed

lemma role_listed: "stable R w \<Longrightarrow> u \<in> set (users (cur w)) \<Longrightarrow> (usr_id u, usr_role u) \<in> set R"
  by (auto simp: stable_def user_roles_of_def)

lemma current_listed: "stable R w \<Longrightarrow> current_user s w = Some u \<Longrightarrow> (usr_id u, usr_role u) \<in> set R \<and> wb_user s = Some (usr_id u)"
  using role_listed row_get_in by (metis current_user_Some)

lemma stable_login:
  assumes "authenticate_user_for_login en e pw w = ((x, y, z), w')" and "stable R w"
  shows "stable R w' \<and> (\<forall>u. x = Some u \<longrightarrow> (usr_id u, usr_role u) \<in> set R \<and> usr_active u)"
proof -
  have "stable R w'" using assms
    by (auto simp: authenticate_user_for_login_def authenticate_user_def refuse_login_def audit_auth_login_failed_def
        record_login_attempt_def reset_failed_attempts_def Let_def split: if_splits option.splits)
  moreover have "u \<in> set (users (cur w)) \<and> usr_active u" if "x = Some u" for u
    using assms(1) that find_Some_D
    by (fastforce simp: authenticate_user_for_login_def authenticate_user_def refuse_login_def Let_def split: if_splits option.splits)
  ultimately show ?thesis using role_listed [OF assms(2)] by blast
qed

lemma unmarked_stable: "unmarked R (s, w) \<Longrightarrow> stable R w' \<Longrightarrow> unmarked R (s, w')"
  by (simp add: unmarked_def stable_def)

lemma unmarked_login:
  assumes "unmarked R (s, w)" and "distinct (map fst R)"
  shows "unmarked R (snd (login en email pw url s w))"
proof -
  have st: "stable R w" using assms(1) by (simp add: unmarked_def stable_def)
  obtain x y z w1 where a: "authenticate_user_for_login en (Some (lower (strip (or_empty email)))) pw w = ((x, y, z), w1)"
    by (metis prod.collapse)
  note k = stable_login [OF a st]
  show ?thesis
  proof (cases x)
    case None
    then show ?thesis using k unmarked_stable [OF assms(1)] by (simp add: login_def a)
  next
    case (Some u)
    then have u: "(usr_id u, usr_role u) \<in> set R" "usr_active u" and w1: "stable R (audit_login_success en u w1)"
      using k by (simp_all add: audit_login_success_def)
    have "usr_role u = ''superadmin''" if "(usr_id u, ''superadmin'') \<in> set R" using assms(2) u(1) that by (metis eq_key_imp_eq_value)
    then show ?thesis using assms(1) w1 u(2)
      by (auto simp: login_def a Some Let_def login_user_def unmarked_def stable_def is_superadmin_def)
  qed
qed

lemma unmarked_own:
  assumes "unmarked R (s, w)" and "\<And>u. current_user s w = Some u \<Longrightarrow> unmarked R (snd (view u s w))"
  shows "unmarked R (snd (superadmin_only view s w))" "unmarked R (snd (login_required view s w))"
  using assms by (auto simp: superadmin_only_def login_required_def split: option.splits)

lemma stable_setup:
  assumes "stable R w" and "distinct (map fst R)" and "(usr_id u, usr_role u) \<in> set R"
  shows "stable R (ensure_totp_secret fresh u w)"
    and "complete_superadmin_two_factor_setup en draws u code w = (r, w') \<Longrightarrow> stable R w'"
    and "regenerate_superadmin_backup_codes en draws u w = (codes, w') \<Longrightarrow> stable R w'"
  using assms stable_put [OF assms(1,2)]
  by (auto simp: ensure_totp_secret_def complete_superadmin_two_factor_setup_def regenerate_superadmin_backup_codes_def
      generate_backup_codes_def enable_2fa_def Let_def split: sum.splits bool.splits)

lemma stable_email_code:
  assumes "send_email_2fa_code en draw u w = (r, w')" and "stable R w"
  shows "stable R w'"
proof -
  have a: "stable R (on_db (add_email_code t) w)" for t using assms(2) by simp
  show ?thesis using assms stable_mail(1) [OF _ a]
    by (auto simp: send_email_2fa_code_def Let_def split: if_splits prod.splits sum.splits bool.splits)
qed

lemma stable_reset:
  assumes "stable R w" and "distinct (map fst R)"
  shows "request_password_reset en link raw email w = (r, w') \<Longrightarrow> stable R w'"
    and "complete_password_reset en t password w = (r, w') \<Longrightarrow> stable R w'"
proof -
  have m: "stable R v \<Longrightarrow> stable R (snd (send_template_now en k to c v))" for k to c v
    using stable_mail(2) by (metis prod.collapse)
  show "request_password_reset en link raw email w = (r, w') \<Longrightarrow> stable R w'"
    using assms(1) m by (auto simp: request_password_reset_def Let_def split: if_splits option.splits)
  assume c: "complete_password_reset en t password w = (r, w')"
  show "stable R w'"
  proof (cases "row_get usr_id (tk_subject t) (users (cur w))")
    case None
    then show ?thesis using c assms(1) by (simp add: complete_password_reset_def)
  next
    case (Some u)
    then have "(usr_id u, usr_role u) \<in> set R" using role_listed [OF assms(1)] row_get_in by metis
    then have "stable R (on_db (put_user (u\<lparr>usr_password_hash := password_hash en password\<rparr>)) w)"
      by (intro stable_put [OF assms]) simp
    then show ?thesis using c Some by (auto simp: complete_password_reset_def Let_def)
  qed
qed

lemma unmarked_view:
  assumes "unmarked R (s, w)" and "distinct (map fst R)" and "\<forall>c. q \<noteq> Verify_post c"
  shows "unmarked R (snd (view_of en n link q s w))"
proof -
  have st: "stable R w" using assms(1) by (simp add: unmarked_def stable_def)
  note keep = unmarked_stable [OF assms(1)]
  have mark: "\<not> is_superadmin u \<or> \<not> wb_verified s" if "current_user s w = Some u" for u
    using assms(1) current_listed [OF st that] by (auto simp: unmarked_def is_superadmin_def)
  show ?thesis
  proof (cases q)
    case (Login_post email pw url)
    then show ?thesis using unmarked_login [OF assms(1,2)] by simp
  next
    case (Setup fresh posted draws)
    have "unmarked R (snd (two_factor_setup en fresh posted draws s w))"
      unfolding two_factor_setup_def
    proof (rule unmarked_own(1) [OF assms(1)])
      fix u assume c: "current_user s w = Some u"
      define u1 where "u1 = (if or_empty (usr_totp_secret u) = '''' then u\<lparr>usr_totp_secret := Some fresh\<rparr> else u)"
      have l: "(usr_id u, usr_role u) \<in> set R" "(usr_id u1, usr_role u1) \<in> set R" using current_listed [OF st c] by (simp_all add: u1_def)
      have e: "stable R (ensure_totp_secret fresh u w)" by (rule stable_setup(1) [OF st assms(2) l(1)])
      note d = stable_setup(2) [OF e assms(2) l(2)]
      show "unmarked R (snd (let w1 = ensure_totp_secret fresh u w;
           u1 = (if or_empty (usr_totp_secret u) = '''' then u\<lparr>usr_totp_secret := Some fresh\<rparr> else u);
           shown = Secret_page (or_empty (usr_totp_secret u1)) in
       case posted of
         None \<Rightarrow> (shown, s, w1)
       | Some code \<Rightarrow>
           (case complete_superadmin_two_factor_setup (user_env en (Some u1)) draws u1 code w1 of
              (Inl _, w2) \<Rightarrow> (Server_error, s, rollback w2)
            | (Inr (True, Some codes), w2) \<Rightarrow>
                (Redirect ''auth.two_factor_backup_codes'', s\<lparr>wb_codes := Some codes, wb_verified := False\<rparr>, w2)
            | (Inr _, w2) \<Rightarrow> (shown, s, w2))))"
        unfolding Let_def u1_def [symmetric]
        using e keep d assms(1)
        by (fastforce simp: unmarked_def stable_def split: option.splits prod.splits sum.splits bool.splits)
    qed
    then show ?thesis using Setup by simp
  next
    case (Backup_codes_post draws)
    have "unmarked R (snd (backup_codes_post en draws s w))" unfolding backup_codes_post_def
    proof (rule unmarked_own(1) [OF assms(1)])
      fix u assume c: "current_user s w = Some u"
      obtain codes w1 where r: "regenerate_superadmin_backup_codes (user_env en (Some u)) draws u w = (codes, w1)" by fastforce
      have "stable R w1" by (rule stable_setup(3) [OF st assms(2) _ r]) (use current_listed [OF st c] in simp)
      then show "unmarked R (snd (case regenerate_superadmin_backup_codes (user_env en (Some u)) draws u w of
         (codes, w1) \<Rightarrow> (Redirect ''auth.two_factor_backup_codes'', s\<lparr>wb_codes := Some codes\<rparr>, w1)))"
        using assms(1) by (simp add: r unmarked_def stable_def)
    qed
    then show ?thesis using Backup_codes_post by simp
  next
    case Backup_codes_get
    have "unmarked R (snd (backup_codes_get s w))" unfolding backup_codes_get_def
      by (rule unmarked_own(1) [OF assms(1)]) (use assms(1) in \<open>simp add: unmarked_def\<close>)
    then show ?thesis using Backup_codes_get by simp
  next
    case (Email_code_post draw)
    have "unmarked R (snd (two_factor_email_code en draw s w))" unfolding two_factor_email_code_def
      by (rule unmarked_own(1) [OF assms(1)])
        (use keep st stable_email_code in \<open>auto simp: assms(1) split: prod.splits sum.splits bool.splits\<close>)
    then show ?thesis using Email_code_post by simp
  next
    case (Forgot_post raw email)
    then show ?thesis using keep st stable_reset(1) [OF st assms(2)]
      by (auto simp: assms(1) forgot_password_def Let_def split: prod.splits sum.splits)
  next
    case (Reset_post raw password confirm)
    then show ?thesis using keep st stable_reset(2) [OF st assms(2)]
      by (auto simp: assms(1) reset_password_def split: prod.splits sum.splits option.splits)
  next
    case Logout_get
    then show ?thesis using unmarked_own(2) [OF assms(1)] st assms(1)
      by (auto simp: logout_def unmarked_def stable_def login_required_def audit_logout_def user_roles_of_def user_audit_def split: option.splits)
  next
    case (Impersonate uid reason)
    then show ?thesis using mark assms(1)
      by (auto simp: superadmin_impersonate_def require_superadmin_2fa_def split: option.splits)
  next
    case Exit_impersonation
    then show ?thesis using assms(1) by (auto simp: exit_impersonation_def login_required_def unmarked_def split: option.splits)
  next
    case (Superadmin_page name)
    then show ?thesis using assms(1) by (auto simp: require_superadmin_2fa_def split: option.splits)
  qed (use assms(3) in blast)
qed

lemma unmarked_run:
  assumes "unmarked R x" and "distinct (map fst R)" and "\<forall>q\<in>set qs. \<forall>c. q \<noteq> Verify_post c"
  shows "unmarked R (serve_all en n link qs x)"
  using assms(1,3)
proof (induction qs arbitrary: x)
  case (Cons q qs)
  obtain s w where x: "x = (s, w)" by fastforce
  have "unmarked R (snd (serve en n link q x))"
    using Cons.prems unmarked_view [OF _ assms(2), of s w q en n link]
    by (auto simp: x serve_def guarded_def split: option.split)
  then show ?case using Cons by simp
qed simp

lemma unmarked_start: "com w = cur w \<Longrightarrow> unmarked (user_roles_of (cur w)) (fresh_web, w)"
  by (simp add: unmarked_def fresh_web_def)

lemma page_needs:
  "fst (serve en n link (Superadmin_page name) (s, w)) = Page name \<longleftrightarrow>
     (\<exists>u. current_user s w = Some u \<and> usr_active u \<and> usr_role u = ''superadmin'' \<and> usr_2fa u \<and> wb_verified s)"
proof (cases "current_user s w")
  case (Some u)
  then have "usr_active u" using current_user_Some by metis
  then show ?thesis using Some
    by (simp add: serve_def guarded_def enforce_superadmin_2fa_def require_superadmin_2fa_def is_superadmin_def)
qed (simp add: serve_def guarded_def enforce_superadmin_2fa_def require_superadmin_2fa_def)

lemma allowed_set:
  "set allowed_endpoints = {''auth.login'', ''auth.logout'', ''auth.two_factor_setup'', ''auth.two_factor_verify'',
     ''auth.two_factor_email_code'', ''auth.two_factor_backup_codes'', ''auth.forgot_password'', ''auth.reset_password'',
     ''static'', ''core.health'', ''core.health_db''}"
  unfolding allowed_endpoints_def list.set ..

text \<open>C33: A view behind the superadmin guard runs exactly for an active superadmin with the second factor enabled whose session
  carries the mark of a verified code. For a superadmin without the mark the guard before every request redirects to the code
  page (or to the set-up page while the second factor is off), with session and database unchanged, at every endpoint but the
  eleven listed; for everybody else, and at those eleven, it changes nothing. In a new browser over a committed database, no
  sequence of requests that never posts a code to the code page, in whatever names and passwords, opens a superadmin page.\<close>

theorem superadmin_page_exact:
  "(fst (serve en n link (Superadmin_page name) (s, w)) = Page name \<longleftrightarrow>
      (\<exists>u. current_user s w = Some u \<and> usr_active u \<and> usr_role u = ''superadmin'' \<and> usr_2fa u \<and> wb_verified s))
   \<and> guarded endpoint view s w =
       (case current_user s w of None \<Rightarrow> view s w
        | Some u \<Rightarrow>
            if usr_role u = ''superadmin'' \<and> \<not> wb_verified s
               \<and> endpoint \<notin> {''auth.login'', ''auth.logout'', ''auth.two_factor_setup'', ''auth.two_factor_verify'',
                  ''auth.two_factor_email_code'', ''auth.two_factor_backup_codes'', ''auth.forgot_password'', ''auth.reset_password'',
                  ''static'', ''core.health'', ''core.health_db''}
            then (Redirect (if usr_2fa u then ''auth.two_factor_verify'' else ''auth.two_factor_setup''), s, w)
            else view s w)
   \<and> (com v = cur v \<and> distinct (map usr_id (users (cur v))) \<and> (\<forall>q\<in>set qs. \<forall>code. q \<noteq> Verify_post code) \<longrightarrow>
       fst (serve en n link (Superadmin_page name) (serve_all en n link qs (fresh_web, v))) \<noteq> Page name)"
proof (intro conjI impI)
  have page: "fst (serve en n link (Superadmin_page name) (s, w)) = Page name \<longleftrightarrow>
      (\<exists>u. current_user s w = Some u \<and> usr_active u \<and> usr_role u = ''superadmin'' \<and> usr_2fa u \<and> wb_verified s)" for s w
    by (rule page_needs)
  then show "fst (serve en n link (Superadmin_page name) (s, w)) = Page name \<longleftrightarrow>
      (\<exists>u. current_user s w = Some u \<and> usr_active u \<and> usr_role u = ''superadmin'' \<and> usr_2fa u \<and> wb_verified s)" .
  show "guarded endpoint view s w =
       (case current_user s w of None \<Rightarrow> view s w
        | Some u \<Rightarrow>
            if usr_role u = ''superadmin'' \<and> \<not> wb_verified s
               \<and> endpoint \<notin> {''auth.login'', ''auth.logout'', ''auth.two_factor_setup'', ''auth.two_factor_verify'',
                  ''auth.two_factor_email_code'', ''auth.two_factor_backup_codes'', ''auth.forgot_password'', ''auth.reset_password'',
                  ''static'', ''core.health'', ''core.health_db''}
            then (Redirect (if usr_2fa u then ''auth.two_factor_verify'' else ''auth.two_factor_setup''), s, w)
            else view s w)"
    unfolding guarded_def enforce_superadmin_2fa_def is_superadmin_def allowed_set [symmetric] by (simp split: option.split)
  assume a: "com v = cur v \<and> distinct (map usr_id (users (cur v))) \<and> (\<forall>q\<in>set qs. \<forall>code. q \<noteq> Verify_post code)"
  let ?R = "user_roles_of (cur v)" and ?z = "serve_all en n link qs (fresh_web, v)"
  have d: "distinct (map fst ?R)" using a by (simp add: user_roles_of_def comp_def)
  have u: "unmarked ?R ?z" using a by (intro unmarked_run [OF unmarked_start d]) simp_all
  show "fst (serve en n link (Superadmin_page name) ?z) \<noteq> Page name"
  proof
    assume "fst (serve en n link (Superadmin_page name) ?z) = Page name"
    then obtain r where r: "current_user (fst ?z) (snd ?z) = Some r" "usr_role r = ''superadmin''" "wb_verified (fst ?z)"
      using page [of "fst ?z" "snd ?z"] by auto
    have "stable ?R (snd ?z)" using u by (simp add: unmarked_def stable_def)
    then show False using current_listed [OF _ r(1)] u r by (simp add: unmarked_def)
  qed
qed

lemma authenticate_keeps:
  "authenticate_user_for_login en email pw w = (r, w') \<Longrightarrow> users (cur w') = users (cur w) \<and> clock w' = clock w"
  by (auto simp: authenticate_user_for_login_def authenticate_user_def refuse_login_def audit_auth_login_failed_def
      record_login_attempt_def reset_failed_attempts_def Let_def split: if_splits option.splits)

lemma clean_mail: "accepted_login en (lower (strip e)) pw u w \<Longrightarrow>
    fst (fst (authenticate_user_for_login en (Some (lower (strip e))) pw w)) = Some u"
  by (auto simp: authenticate_user_for_login_def authenticate_user_def accepted_login_def mail_once Let_def split: option.splits)

lemma step_login:
  assumes "accepted_login en (lower (strip (or_empty email))) pw u w"
    and "distinct (map usr_id (users (cur w)))"
    and "serve en n link (Login_post email pw next_url) (s, w) = (r, s', w')"
  shows "current_user s' w' = Some u \<and> users (cur w') = users (cur w) \<and> clock w' = clock w
    \<and> wb_verified s' = (\<not> is_superadmin u) \<and> wb_impersonator s' = wb_impersonator s"
proof -
  let ?a = "authenticate_user_for_login en (Some (lower (strip (or_empty email)))) pw w"
  have g: "enforce_superadmin_2fa ''auth.login'' s w = None" by (simp add: enforce_superadmin_2fa_def allowed_endpoints_def split: option.split)
  obtain x y w1 where a: "?a = ((Some u, x, y), w1)" using clean_mail [OF assms(1)] by (metis prod.collapse fst_conv)
  note k = authenticate_keeps [OF a]
  have u: "u \<in> set (users (cur w))" "usr_active u"
    using assms(1) find_Some_D by (fastforce simp: accepted_login_def)+
  have row: "row_get usr_id (usr_id u) (users (cur w)) = Some u" by (rule row_get_mem [OF assms(2) u(1)])
  have "(s', w') = (if is_superadmin u
      then ((login_user u s)\<lparr>wb_verified := False, wb_next := safe_next_url next_url\<rparr>, audit_login_success en u w1)
      else ((login_user u s)\<lparr>wb_verified := True\<rparr>, audit_login_success en u w1))"
    using assms(3) by (auto simp: serve_def guarded_def g login_def a Let_def)
  then show ?thesis using u k row by (auto simp: login_user_def current_user_Some audit_login_success_def split: if_splits)
qed

lemma step_new_codes:
  assumes "current_user s w = Some u" and "is_superadmin u" and "distinct (map usr_id (users (cur w)))"
    and "serve en n link (Backup_codes_post draws) (s, w) = (r, s', w')"
  shows "current_user s' w' = Some (generate_backup_codes en draws u) \<and> wb_codes s' = Some draws
    \<and> distinct (map usr_id (users (cur w')))"
proof -
  let ?u = "generate_backup_codes en draws u"
  have u: "wb_user s = Some (usr_id u)" "row_get usr_id (usr_id u) (users (cur w)) = Some u" "usr_active u"
    using assms(1) by (simp_all add: current_user_Some)
  have g: "generate_backup_codes (user_env en (Some u)) draws u = ?u"
    by (simp add: generate_backup_codes_def hash_token_def user_env_def)
  have out: "serve en n link (Backup_codes_post draws) (s, w) = backup_codes_post en draws s w"
    by (simp add: serve_def) (rule passes [OF _ assms(1)], simp add: allowed_endpoints_def)
  have "s' = s\<lparr>wb_codes := Some draws\<rparr>" "users (cur w') = row_put usr_id ?u (users (cur w))"
    using assms(1,2,4) unfolding out
    by (auto simp: backup_codes_post_def superadmin_only_def login_required_def regenerate_superadmin_backup_codes_def g Let_def)
  moreover have i: "usr_id ?u = usr_id u" "usr_active ?u = usr_active u" by (simp_all add: generate_backup_codes_def)
  moreover have "row_get usr_id (usr_id u) (row_put usr_id ?u (users (cur w))) = Some ?u"
    using row_get_put_same [of usr_id ?u "users (cur w)"] u(2) i(1) by simp
  ultimately show ?thesis using u assms(3) by (simp add: current_user_Some)
qed

lemma step_show_codes:
  assumes "current_user s w = Some u" and "is_superadmin u"
  shows "serve en n link Backup_codes_get (s, w) = (Codes_page (wb_codes s), s\<lparr>wb_codes := None\<rparr>, w)"
  using assms passes [OF _ assms(1)]
  by (simp add: serve_def allowed_endpoints_def backup_codes_get_def superadmin_only_def login_required_def)

lemma step_verify:
  assumes "current_user s w = Some u" and "is_superadmin u" and "usr_2fa u" and "usr_totp_secret u = Some x" and "x \<noteq> ''''"
    and "hash_token en c \<in> set (usr_backup_codes u)" and "clean_code (Some c) = c" and "strip c = c" and "c \<noteq> ''''"
    and "distinct (map usr_id (users (cur w)))" and "serve en n link (Verify_post (Some c)) (s, w) = (r, s', w')"
  shows "\<exists>v. current_user s' w' = Some v \<and> is_superadmin v \<and> usr_2fa v \<and> wb_verified s'"
proof -
  let ?en = "user_env en (Some u)"
  have h: "hash_token ?en = hash_token en" by (simp add: fun_eq_iff hash_token_def user_env_def)
  obtain r1 w1 where v: "verify_superadmin_two_factor_code ?en u (Some c) w = (r1, w1)" by fastforce
  have "consume_backup_code ?en c u = Some (u\<lparr>usr_backup_codes := remove1 (hash_token en c) (usr_backup_codes u)\<rparr>)"
    using assms(6,8,9) by (auto simp: consume_backup_code_def h Let_def)
  then obtain v where r1: "r1 = Inr Totp \<and> users (cur w1) = users (cur w) \<and> v = u
      \<or> r1 = Inr Backup \<and> users (cur w1) = row_put usr_id v (users (cur w)) \<and> v = u\<lparr>usr_backup_codes := remove1 (hash_token en c) (usr_backup_codes u)\<rparr>"
    using v assms(4,7) by (auto simp: verify_superadmin_two_factor_code_def totp_ok_def Let_def split: bool.splits)
  have row: "row_get usr_id (usr_id u) (users (cur w)) = Some u" "wb_user s = Some (usr_id u)" "usr_active u"
    using assms(1) by (simp_all add: current_user_Some)
  have out: "serve en n link (Verify_post (Some c)) (s, w) = two_factor_verify en (Some c) s w"
    by (simp add: serve_def) (rule passes [OF _ assms(1)], simp add: allowed_endpoints_def)
  have "s' = s\<lparr>wb_verified := True, wb_next := None\<rparr> \<and> w' = w1"
    using r1
  proof (elim disjE conjE)
    assume "r1 = Inr Totp"
    then show ?thesis using assms(11) assms(1-5) v unfolding out by (simp add: two_factor_verify_def superadmin_only_def login_required_def)
  next
    assume "r1 = Inr Backup"
    then show ?thesis using assms(11) assms(1-5) v unfolding out by (simp add: two_factor_verify_def superadmin_only_def login_required_def)
  qed
  moreover have "usr_id v = usr_id u \<and> usr_active v = usr_active u \<and> is_superadmin v \<and> usr_2fa v"
    using r1 assms(2,3) by (auto simp: is_superadmin_def)
  moreover have "row_get usr_id (usr_id v) (users (cur w1)) = Some v"
    using r1 row row_get_put_same [of usr_id v "users (cur w)"] by auto
  ultimately show ?thesis using row by (intro exI [of _ v]) (simp add: current_user_Some)
qed

text \<open>C34: The password alone opens the superadmin's pages. After a sign-in with the right password the pages for new backup codes are
  open without a code: one POST makes ten codes, one GET shows them, and the first of them meets the second factor.\<close>

theorem superadmin_password_is_enough:
  assumes "accepted_login en (lower (strip (or_empty email))) pw u w"
    and "distinct (map usr_id (users (cur w)))" and "is_superadmin u" and "usr_2fa u" and "usr_totp_secret u = Some x" and "x \<noteq> ''''"
    and "clean_code (Some c) = c" and "strip c = c" and "c \<noteq> ''''"
  shows "let y = serve_all en n link [Login_post email pw None, Backup_codes_post (c # cs)] (fresh_web, w);
      z = serve_all en n link [Backup_codes_get, Verify_post (Some c)] y in
    fst (serve en n link Backup_codes_get y) = Codes_page (Some (c # cs))
    \<and> fst (serve en n link (Superadmin_page name) z) = Page name"
proof -
  obtain r1 s1 w1 where 1: "serve en n link (Login_post email pw None) (fresh_web, w) = (r1, s1, w1)" by (metis prod_cases3)
  note l1 = step_login [OF assms(1,2) 1]
  obtain r2 s2 w2 where 2: "serve en n link (Backup_codes_post (c # cs)) (s1, w1) = (r2, s2, w2)" by (metis prod_cases3)
  let ?u = "generate_backup_codes en (c # cs) u"
  have l2: "current_user s2 w2 = Some ?u \<and> wb_codes s2 = Some (c # cs) \<and> distinct (map usr_id (users (cur w2)))"
    by (rule step_new_codes [OF _ assms(3) _ 2]) (use l1 assms(2) in simp_all)
  have u: "is_superadmin ?u" "usr_2fa ?u" "usr_totp_secret ?u = Some x" "hash_token en c \<in> set (usr_backup_codes ?u)"
    using assms(3,4,5) by (simp_all add: generate_backup_codes_def is_superadmin_def)
  let ?s3 = "s2\<lparr>wb_codes := None\<rparr>"
  have 3: "serve en n link Backup_codes_get (s2, w2) = (Codes_page (wb_codes s2), ?s3, w2)" using step_show_codes l2 u(1) by blast
  have c3: "current_user ?s3 w2 = Some ?u" using l2 by (simp add: current_user_Some)
  obtain r4 s4 w4 where 4: "serve en n link (Verify_post (Some c)) (?s3, w2) = (r4, s4, w4)" by (metis prod_cases3)
  have "\<exists>v. current_user s4 w4 = Some v \<and> is_superadmin v \<and> usr_2fa v \<and> wb_verified s4"
    by (rule step_verify [OF c3 u(1-3) assms(6) u(4) assms(7-9) _ 4]) (use l2 in blast)
  then have "fst (serve en n link (Superadmin_page name) (s4, w4)) = Page name"
    by (auto simp: serve_def guarded_def enforce_superadmin_2fa_def require_superadmin_2fa_def)
  then show ?thesis using l2 by (simp add: 1 2 3 4 Let_def)
qed

lemma step_impersonate:
  assumes "current_user s w = Some a" and "is_superadmin a" and "usr_2fa a" and "wb_verified s" and "strip (or_empty reason) \<noteq> ''''"
    and "t \<in> set (users (cur w))" and "usr_id t \<noteq> usr_id a" and "usr_active t" and "distinct (map usr_id (users (cur w)))"
    and "serve en n link (Impersonate (usr_id t) reason) (s, w) = (r, s', w')"
  shows "current_user s' w' = Some t \<and> users (cur w') = users (cur w) \<and> wb_impersonator s' = Some (usr_id a)
    \<and> login_attempts (cur w') = login_attempts (cur w) \<and> clock w' = clock w"
proof -
  have t: "row_get usr_id (usr_id t) (users (cur w)) = Some t" by (rule row_get_mem [OF assms(9,6)])
  have "strip (strip (or_empty reason)) \<noteq> '''' \<or> strip (strip (or_empty reason)) = ''''" by blast
  have st: "strip (strip x) = strip x" for x by (rule strip_strip)
  have g: "guarded (endpoint_of (Impersonate (usr_id t) reason)) v s w = v s w" for v by (rule passes [OF _ assms(1)]) (use assms(4) in simp)
  have v: "serve en n link (Impersonate (usr_id t) reason) (s, w) = superadmin_impersonate en (usr_id t) reason s w"
    unfolding serve_def fst_conv snd_conv g by simp
  show ?thesis using assms(10) t assms unfolding v
    by (auto simp: superadmin_impersonate_def require_superadmin_2fa_def start_impersonation_def st login_user_def current_user_Some)
qed

lemma step_logout:
  assumes "current_user s w = Some u"
  shows "\<exists>r w'. serve en n link Logout_get (s, w) = (r, s\<lparr>wb_verified := False, wb_user := None\<rparr>, w')
    \<and> users (cur w') = users (cur w) \<and> login_attempts (cur w') = login_attempts (cur w) \<and> clock w' = clock w"
proof -
  have "serve en n link Logout_get (s, w) = logout en s w"
    by (simp add: serve_def) (rule passes [OF _ assms], simp add: allowed_endpoints_def)
  then show ?thesis using assms by (simp add: logout_def login_required_def audit_logout_def)
qed

text \<open>C35: Who signs out while acting as another user leaves the door open: the cookie still names the superadmin, and the next
  ordinary user who signs in with this browser and leaves the impersonation gets the superadmin's session, marked
  as verified.\<close>

theorem impersonation_survives_logout:
  assumes "current_user s w = Some a" and "is_superadmin a" and "usr_2fa a" and "wb_verified s" and "usr_id a \<noteq> 0"
    and "strip (or_empty reason) \<noteq> ''''" and "t \<in> set (users (cur w))" and "usr_id t \<noteq> usr_id a" and "usr_active t"
    and "distinct (map usr_id (users (cur w)))"
    and "accepted_login en (lower (strip (or_empty email))) pw b w"
    and "\<not> is_superadmin b"
  shows "let z = serve_all en n link [Impersonate (usr_id t) reason, Logout_get, Login_post email pw None, Exit_impersonation] (s, w) in
    current_user (fst z) (snd z) = Some a \<and> fst (serve en n link (Superadmin_page name) z) = Page name"
proof -
  obtain r1 s1 w1 where 1: "serve en n link (Impersonate (usr_id t) reason) (s, w) = (r1, s1, w1)" by (metis prod_cases3)
  note l1 = step_impersonate [OF assms(1-4,6-10) 1]
  then obtain r2 w2 where 2: "serve en n link Logout_get (s1, w1) = (r2, s1\<lparr>wb_verified := False, wb_user := None\<rparr>, w2)"
    and l2: "users (cur w2) = users (cur w)" "login_attempts (cur w2) = login_attempts (cur w)" "clock w2 = clock w"
    using step_logout [of s1 w1 t en n link] by auto
  let ?s2 = "s1\<lparr>wb_verified := False, wb_user := None\<rparr>"
  have acc: "accepted_login en (lower (strip (or_empty email))) pw b w2"
    using assms(11) l2 by (simp add: accepted_login_def is_locked_out_def failed_attempts_def)
  obtain r3 s3 w3 where 3: "serve en n link (Login_post email pw None) (?s2, w2) = (r3, s3, w3)" by (metis prod_cases3)
  have l3: "current_user s3 w3 = Some b \<and> users (cur w3) = users (cur w2) \<and> clock w3 = clock w2
      \<and> wb_verified s3 = (\<not> is_superadmin b) \<and> wb_impersonator s3 = wb_impersonator ?s2"
    by (rule step_login [OF acc _ 3]) (use assms(10) l2 in simp)
  have a: "row_get usr_id (usr_id a) (users (cur w3)) = Some a" "usr_active a"
    using assms(1) l2 l3 by (simp_all add: current_user_Some)
  have g: "guarded (endpoint_of Exit_impersonation) v s3 w3 = v s3 w3" for v
    by (rule passes [of b]) (use l3 assms(12) in simp_all)
  have "serve en n link Exit_impersonation (s3, w3) = exit_impersonation en s3 w3" unfolding serve_def fst_conv snd_conv g by simp
  then obtain r4 w4 where 4: "serve en n link Exit_impersonation (s3, w3)
      = (r4, login_user a (s3\<lparr>wb_impersonator := None, wb_started := None\<rparr>), w4)" and u4: "users (cur w4) = users (cur w3)"
    using l3 l1 a assms(5) by (auto simp: exit_impersonation_def login_required_def end_impersonation_def Let_def)
  let ?s4 = "login_user a (s3\<lparr>wb_impersonator := None, wb_started := None\<rparr>)"
  have "current_user ?s4 w4 = Some a" "wb_verified ?s4" using a u4 l3 assms(12) by (simp_all add: login_user_def current_user_Some)
  moreover from this have "fst (serve en n link (Superadmin_page name) (?s4, w4)) = Page name"
    using assms(2,3) by (simp add: serve_def guarded_def enforce_superadmin_2fa_def require_superadmin_2fa_def)
  ultimately show ?thesis by (simp add: 1 2 3 4 Let_def)
qed

subsection \<open>A concrete browser\<close>

definition root_row :: user_row where
  "root_row = (sample_person 1 1 ''root@a.fi'' ''superadmin'')\<lparr>usr_totp_secret := Some ''S'', usr_2fa := True\<rparr>"

definition web_world :: world where
  "web_world = world_of (sample_db\<lparr>users := [root_row, sample_person 2 1 ''tom@a.fi'' ''admin'', sample_person 3 2 ''eve@b.fi'' ''user'']\<rparr>)"

lemma web_world_simps [simp]:
  "users (cur web_world) = [root_row, sample_person 2 1 ''tom@a.fi'' ''admin'', sample_person 3 2 ''eve@b.fi'' ''user'']"
  "login_attempts (cur web_world) = []"
  by (simp_all add: web_world_def sample_db_def)

lemma root_row_simps [simp]:
  "usr_id root_row = 1" "usr_email root_row = ''root@a.fi''" "usr_role root_row = ''superadmin''" "usr_active root_row" "usr_2fa root_row"
  "usr_totp_secret root_row = Some ''S''" "usr_password_hash root_row = ''pw''"
  by (simp_all add: root_row_def)

lemma web_people: "distinct (map usr_id (users (cur web_world)))" by simp

lemma sample_login:
  "accepted_login sample_env (lower (strip (or_empty (Some ''root@a.fi'')))) ''pw'' root_row web_world"
  "accepted_login sample_env (lower (strip (or_empty (Some ''eve@b.fi'')))) ''pw'' (sample_person 3 2 ''eve@b.fi'' ''user'') web_world"
proof -
  have l: "lower (strip ''root@a.fi'') = ''root@a.fi''" "lower (strip ''eve@b.fi'') = ''eve@b.fi''" by code_simp+
  show "accepted_login sample_env (lower (strip (or_empty (Some ''root@a.fi'')))) ''pw'' root_row web_world"
    "accepted_login sample_env (lower (strip (or_empty (Some ''eve@b.fi'')))) ''pw'' (sample_person 3 2 ''eve@b.fi'' ''user'') web_world"
    by (simp_all add: accepted_login_def l is_locked_out_def failed_attempts_def max_attempts_def sample_env_def)
qed

theorem superadmin_password_is_enough_witness:
  "let z = serve_all sample_env 12 id [Login_post (Some ''root@a.fi'') ''pw'' None, Backup_codes_post [''abc''], Backup_codes_get, Verify_post (Some ''abc'')]
      (fresh_web, web_world)
   in fst (serve sample_env 12 id (Superadmin_page ''admin.users_list'') z) = Page ''admin.users_list''"
proof -
  have "clean_code (Some ''abc'') = ''abc''" "strip ''abc'' = ''abc''" by code_simp+
  from superadmin_password_is_enough [OF sample_login(1) web_people _ _ _ _ this, of "''S''" 12 id "[]" "''admin.users_list''"]
  show ?thesis by (simp add: is_superadmin_def Let_def)
qed

theorem superadmin_page_exact_witness:
  "fst (serve sample_env 12 id (Superadmin_page ''admin.users_list'')
     (serve_all sample_env 12 id [Login_post (Some ''root@a.fi'') ''pw'' None, Backup_codes_post [''abc''], Backup_codes_get] (fresh_web, web_world)))
   \<noteq> Page ''admin.users_list''"
proof -
  have "com web_world = cur web_world" by (simp add: web_world_def)
  then show ?thesis
    using superadmin_page_exact [of sample_env 12 id "''admin.users_list''" fresh_web web_world "''static''" "\<lambda>s w. (Server_error, s, w)"
        web_world "[Login_post (Some ''root@a.fi'') ''pw'' None, Backup_codes_post [''abc''], Backup_codes_get]"] web_people
    by simp
qed

definition root_web :: web where "root_web = fresh_web\<lparr>wb_user := Some 1, wb_verified := True\<rparr>"

theorem impersonation_survives_logout_witness:
  "let z = serve_all sample_env 12 id [Impersonate 2 (Some ''help''), Logout_get, Login_post (Some ''eve@b.fi'') ''pw'' None, Exit_impersonation]
      (root_web, web_world)
   in current_user (fst z) (snd z) = Some root_row"
proof -
  have c: "current_user root_web web_world = Some root_row" by (simp add: current_user_Some root_web_def row_get_def)
  have "strip (or_empty (Some ''help'')) \<noteq> ''''" by code_simp
  from impersonation_survives_logout [OF c _ _ _ _ this _ _ _ web_people sample_login(2),
      of "sample_person 2 1 ''tom@a.fi'' ''admin''" 12 id "''admin.users_list''"]
  show ?thesis by (simp add: is_superadmin_def root_web_def Let_def)
qed

end
