(* ===== verification/Backoffice.thy ===== *)
theory Backoffice
  imports WebSession Guests Ical
begin

text \<open>
  Searches, lists and small operations of the back office (app/admin/services.py). Page numbers start at one. Rows
  with equal sort keys come newest first, as the queries ask. Main facts: the search shows rows of its own
  organization only, each once; the pages of the lists show every row of the filter once; a saved filter is
  removed only by its owner.
\<close>

subsection \<open>Search\<close>

record hit =
  ht_type :: string
  ht_id :: int
  ht_label :: string
  ht_sublabel :: string
  ht_url :: string

definition hit_key :: "hit \<Rightarrow> string \<times> int" where
  "hit_key h = (ht_type h, ht_id h)"

definition guest_hit :: "guest_row \<Rightarrow> hit" where
  "guest_hit g =
     \<lparr>ht_type = ''guest'', ht_id = g_id g,
      ht_label = (let n = guest_full_name (Some g) in if n = '''' then ''Guest #'' @ show_int (g_id g) else n),
      ht_sublabel = or_empty (text_or (g_email g) (text_or (g_phone g) (Some ''''))),
      ht_url = ''/admin/guests/'' @ show_int (g_id g)\<rparr>"

definition newest :: "('r \<Rightarrow> int) \<Rightarrow> 'r list \<Rightarrow> 'r list" where
  "newest key rs = rev (sort_key key rs)"

definition guest_hits :: "int \<Rightarrow> string \<Rightarrow> nat \<Rightarrow> db \<Rightarrow> hit list" where
  "guest_hits oid p lim d = map guest_hit (take lim (newest g_id (filter (\<lambda>g. g_org g = oid \<and> guest_matches p g) (guests d))))"

definition tagged_guests :: "int \<Rightarrow> string \<Rightarrow> db \<Rightarrow> guest_row list" where
  \<comment> \<open>once for each tag that matches\<close>
  "tagged_guests oid p d =
     concat (map (\<lambda>g. map (\<lambda>_. g) (filter (\<lambda>(target, t). target = g_id g
         \<and> (\<exists>x\<in>set (tags d). tg_id x = t \<and> ilike (tg_name x) p)) (guest_tags d)))
       (filter (\<lambda>g. g_org g = oid) (guests d)))"

fun add_unseen :: "hit list \<Rightarrow> hit list \<Rightarrow> hit list" where
  "add_unseen acc [] = acc"
| "add_unseen acc (h # hs) = add_unseen (if hit_key h \<in> set (map hit_key acc) then acc else acc @ [h]) hs"

definition reservation_hits :: "int \<Rightarrow> string \<Rightarrow> nat \<Rightarrow> db \<Rightarrow> hit list" where
  "reservation_hits oid p lim d =
     map (\<lambda>r. \<lparr>ht_type = ''reservation'', ht_id = res_id r, ht_label = ''Reservation #'' @ show_int (res_id r),
         ht_sublabel = res_guest_name r, ht_url = ''/admin/reservations/'' @ show_int (res_id r)\<rparr>)
       (take lim (newest res_id (filter (\<lambda>r. ilike (res_guest_name r) p \<or> ilike (show_int (res_id r)) p) (scoped_reservations oid d))))"

definition property_hits :: "int \<Rightarrow> string \<Rightarrow> nat \<Rightarrow> db \<Rightarrow> hit list" where
  "property_hits oid p lim d =
     map (\<lambda>x. \<lparr>ht_type = ''property'', ht_id = p_id x, ht_label = p_name x, ht_sublabel = or_empty (p_address x),
         ht_url = ''/admin/properties/'' @ show_int (p_id x)\<rparr>)
       (take lim (newest p_id (filter (\<lambda>x. p_org x = oid \<and> ilike (p_name x) p) (properties d))))"

definition invoice_hits :: "int \<Rightarrow> string \<Rightarrow> nat \<Rightarrow> db \<Rightarrow> hit list" where
  "invoice_hits oid p lim d =
     map (\<lambda>i. \<lparr>ht_type = ''invoice'', ht_id = inv_id i,
         ht_label = (if or_empty (inv_number i) = '''' then ''Invoice #'' @ show_int (inv_id i) else or_empty (inv_number i)),
         ht_sublabel = inv_status i, ht_url = ''/admin/invoices/'' @ show_int (inv_id i)\<rparr>)
       (take lim (newest inv_id (filter (\<lambda>i. inv_org i = oid \<and> ilike_opt (inv_number i) p) (invoices d))))"

definition search_all_resources :: "int \<Rightarrow> string option \<Rightarrow> nat \<Rightarrow> db \<Rightarrow> hit list" where
  "search_all_resources oid q lim d =
     (let term = strip (or_empty q); p = needle term in
      if length term < 2 then []
      else take lim (add_unseen (guest_hits oid p lim d) (map guest_hit (take lim (newest g_id (tagged_guests oid p d))))
        @ reservation_hits oid p lim d @ property_hits oid p lim d @ invoice_hits oid p lim d))"

subsection \<open>Lists\<close>

definition sorted_rows :: "bool \<Rightarrow> ('r \<Rightarrow> 'k :: linorder) \<Rightarrow> ('r \<Rightarrow> int) \<Rightarrow> 'r list \<Rightarrow> 'r list" where
  \<comment> \<open>equal keys newest first\<close>
  "sorted_rows ascending col key rs =
     (if ascending then sort_key col (newest key rs) else rev (sort_key col (sort_key key rs)))"

definition page_of :: "int \<Rightarrow> int \<Rightarrow> 'r list \<Rightarrow> 'r list" where
  "page_of page per_page rs = take (nat per_page) (drop (nat ((page - 1) * per_page)) rs)"

record list_query =
  lq_status :: string
  lq_from :: "date option"
  lq_to :: "date option"
  lq_q :: string
  lq_page :: int
  lq_per_page :: int
  lq_sort :: string
  lq_ascending :: bool

definition from_to :: "list_query \<Rightarrow> date \<Rightarrow> date \<Rightarrow> bool" where
  "from_to q a b \<longleftrightarrow> (case lq_from q of None \<Rightarrow> True | Some x \<Rightarrow> x \<le> a) \<and> (case lq_to q of None \<Rightarrow> True | Some y \<Rightarrow> b \<le> y)"

definition asks :: "list_query \<Rightarrow> (string \<Rightarrow> bool) \<Rightarrow> bool" where
  "asks q P \<longleftrightarrow> lq_q q = '''' \<or> P (needle (strip (lq_q q)))"

definition admin_reservations :: "int \<Rightarrow> list_query \<Rightarrow> db \<Rightarrow> reservation list" where
  "admin_reservations oid q d =
     sorted_rows (lq_ascending q) (\<lambda>r. if lq_sort q = ''start_date'' then res_start r else if lq_sort q = ''id'' then res_id r else res_created_at r) res_id
       (filter (\<lambda>r. (lq_status q = '''' \<or> res_status r = lq_status q) \<and> from_to q (res_start r) (res_end r)
          \<and> asks q (\<lambda>p. ilike (res_guest_name r) p \<or> ilike (show_int (res_id r)) p)) (scoped_reservations oid d))"

definition admin_reservation :: "reservation \<Rightarrow> json" where
  "admin_reservation r =
     JObj [(''id'', JInt (res_id r)), (''unit_id'', JInt (res_unit r)), (''guest_id'', jint (res_guest r)), (''guest_name'', JStr (res_guest_name r)),
       (''start_date'', JStr (isoformat (res_start r))), (''end_date'', JStr (isoformat (res_end r))), (''status'', JStr (res_status r)),
       (''created_at'', JStr (stamp_iso (res_created_at r)))]"

definition list_admin_reservations :: "int \<Rightarrow> list_query \<Rightarrow> db \<Rightarrow> json list \<times> nat" where
  "list_admin_reservations oid q d =
     (map admin_reservation (page_of (lq_page q) (lq_per_page q) (admin_reservations oid q d)), length (admin_reservations oid q d))"

definition admin_guests :: "env \<Rightarrow> int \<Rightarrow> list_query \<Rightarrow> db \<Rightarrow> guest_row list" where
  \<comment> \<open>the status is ignored\<close>
  "admin_guests en oid q d =
     (let rs = filter (\<lambda>g. g_org g = oid \<and> from_to q (utc_date (g_created_at g)) (utc_date (g_created_at g)) \<and> asks q (\<lambda>p. guest_matches p g)) (guests d)
      in if lq_sort q = ''name'' then sorted_rows (lq_ascending q) (\<lambda>g. collation en (g_last_name g)) g_id rs
         else sorted_rows (lq_ascending q) (\<lambda>g. if lq_sort q = ''id'' then g_id g else g_created_at g) g_id rs)"

definition admin_guest :: "guest_row \<Rightarrow> json" where
  "admin_guest g =
     JObj [(''id'', JInt (g_id g)), (''full_name'', JStr (guest_full_name (Some g))), (''first_name'', JStr (g_first_name g)),
       (''last_name'', JStr (g_last_name g)), (''email'', jstr (g_email g)), (''phone'', jstr (g_phone g)),
       (''created_at'', JStr (stamp_iso (g_created_at g)))]"

definition list_admin_guests :: "env \<Rightarrow> int \<Rightarrow> list_query \<Rightarrow> db \<Rightarrow> json list \<times> nat" where
  "list_admin_guests en oid q d =
     (map admin_guest (page_of (lq_page q) (lq_per_page q) (admin_guests en oid q d)), length (admin_guests en oid q d))"

definition admin_invoices :: "int \<Rightarrow> list_query \<Rightarrow> db \<Rightarrow> invoice list" where
  "admin_invoices oid q d =
     sorted_rows (lq_ascending q) (\<lambda>i. if lq_sort q = ''due_date'' then inv_due i else if lq_sort q = ''id'' then inv_id i else inv_created_at i) inv_id
       (filter (\<lambda>i. inv_org i = oid \<and> (lq_status q = '''' \<or> inv_status i = lq_status q) \<and> from_to q (inv_due i) (inv_due i)
          \<and> asks q (ilike_opt (inv_number i))) (invoices d))"

definition customer_name :: "int \<Rightarrow> invoice \<Rightarrow> db \<Rightarrow> string option" where
  "customer_name oid i d =
     (let named = (\<lambda>g. none_if_empty (case g of None \<Rightarrow> '''' | Some x \<Rightarrow> guest_full_name (Some x)));
          own = (case inv_guest i of None \<Rightarrow> None | Some g \<Rightarrow> named (find_guest oid g d));
          tenant = (case inv_lease i of None \<Rightarrow> None
            | Some l \<Rightarrow> named (Option.bind (List.find (\<lambda>x. le_id x = l \<and> le_org x = oid) (leases d)) (\<lambda>x. guest_get (le_guest x) d)))
      in text_or own tenant)"

definition admin_invoice :: "int \<Rightarrow> db \<Rightarrow> invoice \<Rightarrow> json" where
  "admin_invoice oid d i =
     JObj [(''id'', JInt (inv_id i)), (''invoice_number'', jstr (inv_number i)), (''customer_name'', jstr (customer_name oid i d)),
       (''status'', JStr (inv_status i)), (''due_date'', JStr (isoformat (inv_due i))), (''currency'', JStr (inv_currency i)),
       (''subtotal_excl_vat'', jmoney (Some (inv_subtotal i))), (''vat_rate'', jmoney (Some (inv_vat_rate i))),
       (''vat_amount'', jmoney (Some (inv_vat_amount i))), (''total_incl_vat'', jmoney (Some (inv_total i))),
       (''created_at'', JStr (stamp_iso (inv_created_at i)))]"

definition list_admin_invoices :: "int \<Rightarrow> list_query \<Rightarrow> db \<Rightarrow> json list \<times> nat" where
  "list_admin_invoices oid q d =
     (map (admin_invoice oid d) (page_of (lq_page q) (lq_per_page q) (admin_invoices oid q d)), length (admin_invoices oid q d))"

subsection \<open>Saved filters\<close>

definition create_saved_filter :: "env \<Rightarrow> int \<Rightarrow> string option \<Rightarrow> string option \<Rightarrow> json option \<Rightarrow> world \<Rightarrow> saved_filter \<times> world" where
  "create_saved_filter en uid name view params w =
     (let named = take 128 (strip (or_empty name));
          r = \<lparr>sf_id = next_key T_filters (cur w), sf_user = uid, sf_name = (if named = '''' then ''Saved filter'' else named),
               sf_view = strip (or_empty view), sf_params = (case params of None \<Rightarrow> JObj [] | Some x \<Rightarrow> x), sf_created_at = clock w\<rparr>
      in (r, commit (audit_record en ''saved_filter.created''
           (audit_defaults\<lparr>aa_actor_id := Some uid, aa_target_type := Some ''saved_filter'', aa_target_id := Some (sf_id r),
              aa_metadata := Some [(''view_type'', JStr (sf_view r)), (''name'', JStr (sf_name r))]\<rparr>)
           (on_db (add_saved_filter r) w))))"

definition delete_saved_filter :: "env \<Rightarrow> int \<Rightarrow> int \<Rightarrow> world \<Rightarrow> (exn + unit) \<times> world" where
  "delete_saved_filter en uid i w =
     (if \<not> (\<exists>r\<in>set (saved_filters (cur w)). sf_id r = i \<and> sf_user r = uid) then (Inl (PyError ValueError), w)
      else (Inr (), commit (audit_record en ''saved_filter.deleted''
        (audit_defaults\<lparr>aa_actor_id := Some uid, aa_target_type := Some ''saved_filter'', aa_target_id := Some i\<rparr>)
        (on_db (\<lambda>d. d\<lparr>saved_filters := filter (\<lambda>r. sf_id r \<noteq> i) (saved_filters d)\<rparr>) w))))"

definition list_saved_filters :: "int \<Rightarrow> string \<Rightarrow> db \<Rightarrow> saved_filter list" where
  "list_saved_filters uid view d = order2_desc sf_created_at sf_id (filter (\<lambda>r. sf_user r = uid \<and> sf_view r = view) (saved_filters d))"

subsection \<open>Organizations, users and the support view\<close>

definition user_actor_audit :: "int \<Rightarrow> string \<Rightarrow> org_row \<Rightarrow> (string \<times> json) list \<Rightarrow> audit_args" where
  "user_actor_audit uid mail x context =
     audit_defaults\<lparr>aa_actor_type := Some ''user'', aa_actor_id := Some uid, aa_actor_email := Some mail,
       aa_target_type := Some ''organization'', aa_target_id := Some (org_id x), aa_context := Some context, aa_commit := True\<rparr>"

definition create_organization_superadmin :: "env \<Rightarrow> string \<Rightarrow> int \<Rightarrow> string \<Rightarrow> world \<Rightarrow> (string + org_row) \<times> world" where
  "create_organization_superadmin en name uid mail w =
     (let nm = strip name in
      if \<exists>x\<in>set (orgs (cur w)). org_name x = nm then (Inl (''Organisaatio '' @ [CHR 0x27] @ nm @ [CHR 0x27] @ '' on jo olemassa.''), w)
      else let x = \<lparr>org_id = next_key T_orgs (cur w), org_name = nm\<rparr>
        in (Inr x, audit_record en ''organization.created'' (user_actor_audit uid mail x [(''name'', JStr nm)]) (on_db (add_org x) w)))"

definition update_organization_superadmin :: "env \<Rightarrow> org_row \<Rightarrow> string \<Rightarrow> int \<Rightarrow> string \<Rightarrow> world \<Rightarrow> world" where
  "update_organization_superadmin en x name uid mail w =
     (let x1 = x\<lparr>org_name := strip name\<rparr>
      in audit_record en ''organization.updated''
           (user_actor_audit uid mail x1 [(''old_name'', JStr (org_name x)), (''new_name'', JStr (org_name x1))]) (on_db (put_org x1) w))"

definition superadmin_toggle_user_active ::
  "env \<Rightarrow> int \<Rightarrow> int \<Rightarrow> string \<Rightarrow> world \<Rightarrow> (account_error + user_row) option \<times> world" where
  \<comment> \<open>\<open>None\<close> is the answer 404\<close>
  "superadmin_toggle_user_active en uid actor_id mail w =
     (case row_get usr_id uid (users (cur w)) of
        None \<Rightarrow> (None, w)
      | Some u \<Rightarrow>
          let a = \<lparr>act_type = Some ''user'', act_id = Some actor_id, act_email = Some mail\<rparr>;
              r = (if usr_active u then deactivate_user en uid a True True w else reactivate_user en uid a True w)
          in (Some (fst r), snd r))"

definition verify_fresh_2fa_code :: "env \<Rightarrow> user_row \<Rightarrow> string option \<Rightarrow> world \<Rightarrow> bool \<times> world" where
  "verify_fresh_2fa_code en u code w =
     (let c = or_empty code in
      if strip c = '''' then (False, w)
      else if or_empty (usr_totp_secret u) \<noteq> '''' \<and> totp_verify en (or_empty (usr_totp_secret u)) (strip c) (clock w) then (True, w)
      else case consume_backup_code en c u of
        Some u1 \<Rightarrow> (True, commit (on_db (put_user u1) w))
      | None \<Rightarrow>
     (case active_email_code en (usr_id u) c w of
        Some t \<Rightarrow> (True, commit (on_db (put_email_code (token_mark_used (clock w) t)) w))
      | None \<Rightarrow> (False, w)))"

record debug_view =
  tv_org :: org_row
  tv_users :: nat
  tv_last_login :: "stamp option"
  tv_reservations :: nat
  tv_audits :: "audit_log list"
  tv_emails :: "email_item list"
  tv_backups :: "backup_row list"
  tv_properties :: nat
  tv_units :: nat

definition build_tenant_debug_view :: "int \<Rightarrow> world \<Rightarrow> exn + debug_view" where
  \<comment> \<open>the mails and the back-ups are those of the whole installation\<close>
  "build_tenant_debug_view oid w =
     (let d = cur w; members = filter (\<lambda>u. usr_org u = oid) (users d);
          own = (\<lambda>x. (case row_get p_id x (properties d) of None \<Rightarrow> False | Some p \<Rightarrow> p_org p = oid));
          logins = newest al_created_at (filter (\<lambda>a. al_action a = ''login'' \<and> al_status a = Some ''success''
            \<and> (case al_actor_id a of None \<Rightarrow> False | Some i \<Rightarrow> i \<in> set (map usr_id members))) (audit_logs d))
      in case row_get org_id oid (orgs d) of
        None \<Rightarrow> Inl (PyError ValueError)
      | Some x \<Rightarrow> Inr
          \<lparr>tv_org = x, tv_users = length members,
           tv_last_login = (case logins of [] \<Rightarrow> None | a # _ \<Rightarrow> Some (al_created_at a)),
           tv_reservations = length (filter (\<lambda>r. clock w - days 30 \<le> res_created_at r) (scoped_reservations oid d)),
           tv_audits = take 20 (newest al_created_at (filter (\<lambda>a. al_org a = Some oid) (audit_logs d))),
           tv_emails = take 20 (newest em_created_at (filter (\<lambda>m. clock w - days 30 \<le> em_created_at m) (email_queue d))),
           tv_backups = take 5 (newest bk_created_at (backups d)),
           tv_properties = length (filter (\<lambda>p. p_org p = oid) (properties d)),
           tv_units = length (filter (\<lambda>u. own (u_property u)) (units d))\<rparr>)"

definition conflicts_api :: "user_row option \<Rightarrow> string option \<Rightarrow> db \<Rightarrow> nat + (reservation \<times> imported_event) list" where
  \<comment> \<open>\<open>Inl\<close> is the status of the refusal; the argument counts for a superadmin only\<close>
  "conflicts_api user arg d =
     (case user of
        None \<Rightarrow> Inl 401
      | Some u \<Rightarrow>
          if \<not> is_admin (Some (usr_role u)) then Inl 403
          else let asked = strip (or_empty arg);
                   oid = (if is_superadmin u \<and> all_digits asked then int (digits_val asked) else usr_org u)
            in Inr (detect_conflicts oid None d))"

subsection \<open>The search stays inside\<close>

fun hit_of :: "int \<Rightarrow> db \<Rightarrow> hit \<Rightarrow> bool" where
  \<comment> \<open>the hit names a row of the organization\<close>
  "hit_of oid d h =
     ((ht_type h = ''guest'' \<and> (\<exists>g\<in>set (guests d). g_id g = ht_id h \<and> g_org g = oid))
      \<or> (ht_type h = ''reservation'' \<and> (\<exists>r\<in>set (scoped_reservations oid d). res_id r = ht_id h))
      \<or> (ht_type h = ''property'' \<and> (\<exists>x\<in>set (properties d). p_id x = ht_id h \<and> p_org x = oid))
      \<or> (ht_type h = ''invoice'' \<and> (\<exists>i\<in>set (invoices d). inv_id i = ht_id h \<and> inv_org i = oid)))"

lemma set_newest [simp]: "set (newest key rs) = set rs"
  by (simp add: newest_def)

lemma in_take_newest: "r \<in> set (take n (newest key rs)) \<Longrightarrow> r \<in> set rs"
  using in_set_takeD [of r n "newest key rs"] by simp

lemma newest_keys: "distinct (map key rs) \<Longrightarrow> distinct (map key (take n (newest key rs)))"
  by (auto simp: newest_def distinct_map intro: inj_on_subset [OF _ set_take_subset [THEN subset_trans]])

lemma guest_hit_key [simp]: "hit_key (guest_hit g) = (''guest'', g_id g)"
  by (simp add: hit_key_def guest_hit_def)

lemma add_unseen_keys:
  assumes "distinct (map hit_key acc)"
  shows "distinct (map hit_key (add_unseen acc hs))" and "set (add_unseen acc hs) \<subseteq> set acc \<union> set hs"
  using assms by (induction acc hs rule: add_unseen.induct) auto

lemma keys_of_kind:
  assumes "\<And>x. hit_key (f x) = (t, key x)" and "distinct (map key rs)"
  shows "distinct (map hit_key (map f rs))"
proof -
  have "map hit_key (map f rs) = map (\<lambda>k. (t, k)) (map key rs)" by (simp add: assms(1))
  then show ?thesis using assms(2) by (simp add: distinct_map inj_on_def flip: map_map)
qed

text \<open>The four kinds of rows have different names, so their keys do not meet.\<close>

lemma kind_keys:
  "h \<in> set (guest_hits oid p n d) \<Longrightarrow> fst (hit_key h) = ''guest''"
  "h \<in> set (map guest_hit gs) \<Longrightarrow> fst (hit_key h) = ''guest''"
  "h \<in> set (reservation_hits oid p n d) \<Longrightarrow> fst (hit_key h) = ''reservation''"
  "h \<in> set (property_hits oid p n d) \<Longrightarrow> fst (hit_key h) = ''property''"
  "h \<in> set (invoice_hits oid p n d) \<Longrightarrow> fst (hit_key h) = ''invoice''"
  by (auto simp: guest_hits_def reservation_hits_def property_hits_def invoice_hits_def hit_key_def guest_hit_def)

lemma hits_inside:
  "h \<in> set (guest_hits oid p n d) \<Longrightarrow> hit_of oid d h"
  "h \<in> set (map guest_hit (take n (newest g_id (tagged_guests oid p d)))) \<Longrightarrow> hit_of oid d h"
  "h \<in> set (reservation_hits oid p n d) \<Longrightarrow> hit_of oid d h"
  "h \<in> set (property_hits oid p n d) \<Longrightarrow> hit_of oid d h"
  "h \<in> set (invoice_hits oid p n d) \<Longrightarrow> hit_of oid d h"
  by (auto simp: guest_hits_def reservation_hits_def property_hits_def invoice_hits_def guest_hit_def tagged_guests_def
      dest!: in_take_newest)

definition searched_keys :: "db \<Rightarrow> bool" where
  "searched_keys d \<longleftrightarrow> distinct (map g_id (guests d)) \<and> distinct (map res_id (reservations d))
     \<and> distinct (map p_id (properties d)) \<and> distinct (map inv_id (invoices d))"

lemma hits_distinct:
  assumes "searched_keys d"
  shows "distinct (map hit_key (guest_hits oid p n d))" and "distinct (map hit_key (reservation_hits oid p n d))"
    and "distinct (map hit_key (property_hits oid p n d))" and "distinct (map hit_key (invoice_hits oid p n d))"
proof -
  have k: "distinct (map g_id (guests d))" "distinct (map res_id (reservations d))" "distinct (map p_id (properties d))"
      "distinct (map inv_id (invoices d))"
    using assms by (simp_all add: searched_keys_def)
  show "distinct (map hit_key (guest_hits oid p n d))"
    unfolding guest_hits_def by (rule keys_of_kind [where key = g_id and t = "''guest''"]) (simp, intro newest_keys distinct_map_filter k)
  show "distinct (map hit_key (reservation_hits oid p n d))"
    unfolding reservation_hits_def scoped_reservations_def
    by (rule keys_of_kind [where key = res_id and t = "''reservation''"]) (simp add: hit_key_def, intro newest_keys distinct_map_filter k)
  show "distinct (map hit_key (property_hits oid p n d))"
    unfolding property_hits_def
    by (rule keys_of_kind [where key = p_id and t = "''property''"]) (simp add: hit_key_def, intro newest_keys distinct_map_filter k)
  show "distinct (map hit_key (invoice_hits oid p n d))"
    unfolding invoice_hits_def
    by (rule keys_of_kind [where key = inv_id and t = "''invoice''"]) (simp add: hit_key_def, intro newest_keys distinct_map_filter k)
qed

text \<open>C38: The search box of the back office shows at most as many rows as asked for, each once, and every one of them
  is a guest, stay, property or invoice of the organization that searches, however the tags of other organizations are
  named; a text of fewer than two characters finds nothing.\<close>

theorem search_stays_inside:
  assumes "searched_keys d"
  shows "(\<forall>h\<in>set (search_all_resources oid q n d). hit_of oid d h)
    \<and> distinct (map hit_key (search_all_resources oid q n d)) \<and> length (search_all_resources oid q n d) \<le> n
    \<and> (length (strip (or_empty q)) < 2 \<longrightarrow> search_all_resources oid q n d = [])"
proof (cases "length (strip (or_empty q)) < 2")
  case False
  define p where "p = needle (strip (or_empty q))"
  define tagged where "tagged = map guest_hit (take n (newest g_id (tagged_guests oid p d)))"
  define gs where "gs = add_unseen (guest_hits oid p n d) tagged"
  define hs where "hs = gs @ reservation_hits oid p n d @ property_hits oid p n d @ invoice_hits oid p n d"
  have s: "search_all_resources oid q n d = take n hs"
    using False by (simp add: search_all_resources_def Let_def hs_def gs_def tagged_def p_def)
  note g = add_unseen_keys [OF hits_distinct(1) [OF assms], of oid p n tagged, folded gs_def]
  have g_kind: "fst (hit_key h) = ''guest''" if "h \<in> set gs" for h
    using g(2) that kind_keys(1,2) unfolding tagged_def by blast
  have "distinct (map hit_key hs)"
    using g(1) hits_distinct(2-) [OF assms]
    by (auto simp: hs_def dest!: g_kind kind_keys(3-) dest: arg_cong [where f = fst])
  then have "distinct (map hit_key (take n hs))" by (simp flip: take_map)
  moreover have "hit_of oid d h" if "h \<in> set hs" for h
    using that g(2) hits_inside [where h = h and oid = oid and p = p and n = n and d = d] unfolding hs_def tagged_def by auto
  ultimately show ?thesis using False by (auto simp: s dest: in_set_takeD)
qed (simp add: search_all_resources_def Let_def)

theorem search_stays_inside_witness:
  "list_all (hit_of 1 sample_hotel) (search_all_resources 1 (Some ''Ada'') 20 sample_hotel)
    \<and> length (search_all_resources 1 (Some ''Ada'') 20 sample_hotel) \<le> 20"
proof -
  have k: "searched_keys sample_hotel" by (simp add: searched_keys_def sample_hotel_def sample_db_def empty_db_def)
  show ?thesis using search_stays_inside [OF k, of 1 "Some ''Ada''" 20] by (simp add: list_all_iff del: hit_of.simps)
qed

subsection \<open>The pages of a list\<close>

lemma pages_cover:
  assumes "0 < k" and "length rs \<le> m * nat k"
  shows "concat (map (\<lambda>p. page_of (int p + 1) k rs) [0..<m]) = rs"
proof -
  have "nat (int p * k) = p * nat k" for p using assms(1) by (simp add: nat_mult_distrib)
  then show ?thesis using take_pages [of "nat k" rs m] assms(2) by (simp add: page_of_def)
qed

lemma pages_mapped:
  assumes "0 < k" and "length rs \<le> m * nat k"
  shows "concat (map (\<lambda>p. map f (page_of (int p + 1) k rs)) [0..<m]) = map f rs"
  using arg_cong [OF pages_cover [OF assms], of "map f"] by (simp add: map_concat comp_def)

lemma set_sorted_rows [simp]: "set (sorted_rows b col key rs) = set rs"
  by (simp add: sorted_rows_def)

text \<open>The pages of the list of reservations, put together, are the list, which holds exactly the rows that the filter asks for.\<close>

theorem admin_reservation_pages:
  assumes "0 < k" and "length (admin_reservations oid q d) \<le> m * nat k"
  shows "concat (map (\<lambda>p. fst (list_admin_reservations oid (q\<lparr>lq_page := int p + 1, lq_per_page := k\<rparr>) d)) [0..<m])
      = map admin_reservation (admin_reservations oid q d)
    \<and> set (admin_reservations oid q d) = {r \<in> set (scoped_reservations oid d). (lq_status q = '''' \<or> res_status r = lq_status q)
        \<and> from_to q (res_start r) (res_end r) \<and> asks q (\<lambda>p. ilike (res_guest_name r) p \<or> ilike (show_int (res_id r)) p)}"
proof -
  have same: "admin_reservations oid (q\<lparr>lq_page := i, lq_per_page := k\<rparr>) d = admin_reservations oid q d" for i
    by (simp add: admin_reservations_def from_to_def asks_def cong: if_cong)
  have "set (admin_reservations oid q d) = {r \<in> set (scoped_reservations oid d). (lq_status q = '''' \<or> res_status r = lq_status q)
        \<and> from_to q (res_start r) (res_end r) \<and> asks q (\<lambda>p. ilike (res_guest_name r) p \<or> ilike (show_int (res_id r)) p)}"
    by (simp add: admin_reservations_def)
  moreover have "concat (map (\<lambda>p. fst (list_admin_reservations oid (q\<lparr>lq_page := int p + 1, lq_per_page := k\<rparr>) d)) [0..<m])
      = map admin_reservation (admin_reservations oid q d)"
    unfolding list_admin_reservations_def same using pages_mapped [OF assms] by simp
  ultimately show ?thesis by blast
qed

subsection \<open>Saved filters belong to their owner\<close>

datatype filter_op = Save_filter int "string option" "string option" "json option" | Drop_filter int int

fun filter_user :: "filter_op \<Rightarrow> int" where
  "filter_user (Save_filter u _ _ _) = u"
| "filter_user (Drop_filter u _) = u"

fun filter_step :: "env \<Rightarrow> filter_op \<Rightarrow> world \<Rightarrow> world" where
  "filter_step en (Save_filter u name view params) w = snd (create_saved_filter en u name view params w)"
| "filter_step en (Drop_filter u i) w = snd (delete_saved_filter en u i w)"

definition filter_steps :: "env \<Rightarrow> filter_op list \<Rightarrow> world \<Rightarrow> world" where
  "filter_steps en ops w = foldl (\<lambda>v op. filter_step en op v) w ops"

abbreviation filters_keyed :: "world \<Rightarrow> bool" where
  "filters_keyed w \<equiv> keys_ok sf_id (seqs (cur w) T_filters) (saved_filters (cur w))"

lemma filters_added:
  "saved_filters (cur (snd (create_saved_filter en u name view params w)))
     = saved_filters (cur w) @ [fst (create_saved_filter en u name view params w)]"
  "seqs (cur (snd (create_saved_filter en u name view params w))) T_filters = next_key T_filters (cur w)"
  "sf_user (fst (create_saved_filter en u name view params w)) = u"
  "sf_id (fst (create_saved_filter en u name view params w)) = next_key T_filters (cur w)"
  by (simp_all add: create_saved_filter_def Let_def bump_def next_key_def)

lemma filters_dropped:
  "saved_filters (cur (snd (delete_saved_filter en u i w)))
     = (if \<exists>r\<in>set (saved_filters (cur w)). sf_id r = i \<and> sf_user r = u
        then filter (\<lambda>r. sf_id r \<noteq> i) (saved_filters (cur w)) else saved_filters (cur w))"
  "seqs (cur (snd (delete_saved_filter en u i w))) T_filters = seqs (cur w) T_filters"
  by (auto simp: delete_saved_filter_def bump_def)

lemma others_filters_stay:
  assumes "filters_keyed w" and "filter_user op \<noteq> u"
  shows "filters_keyed (filter_step en op w)
    \<and> filter (\<lambda>r. sf_user r = u \<and> sf_view r = v) (saved_filters (cur (filter_step en op w)))
      = filter (\<lambda>r. sf_user r = u \<and> sf_view r = v) (saved_filters (cur w))"
proof (cases op)
  case (Save_filter u' name view params)
  have "filters_keyed (filter_step en op w)"
    using keys_ok_snoc [OF assms(1), of "fst (create_saved_filter en u' name view params w)"]
    by (simp add: Save_filter filters_added next_key_def)
  then show ?thesis using assms Save_filter by (simp add: filters_added)
next
  case (Drop_filter u' i)
  have other: "sf_id r \<noteq> i"
    if x: "x \<in> set (saved_filters (cur w))" "sf_id x = i" "sf_user x = u'" and r: "r \<in> set (saved_filters (cur w))" "sf_user r = u" for x r
  proof
    assume "sf_id r = i"
    moreover have "inj_on sf_id (set (saved_filters (cur w)))" using assms(1) by (simp add: keys_ok_def distinct_map)
    ultimately have "r = x" using r(1) x(1,2) by (auto dest: inj_onD)
    then show False using x(3) r(2) assms(2) Drop_filter by simp
  qed
  show ?thesis using assms(1) other
    by (auto simp: Drop_filter filters_dropped keys_ok_def distinct_map_filter intro!: filter_cong dest: other)
qed

text \<open>Whatever other users save and delete, under whatever ids, the saved filters a user sees stay as they are: a
  filter is removed by its owner alone.\<close>

theorem saved_filters_private:
  assumes "filters_keyed w" and "\<forall>op\<in>set ops. filter_user op \<noteq> u"
  shows "list_saved_filters u v (cur (filter_steps en ops w)) = list_saved_filters u v (cur w)"
  using assms
proof (induction ops arbitrary: w)
  case (Cons op ops)
  then have "filter_user op \<noteq> u" by simp
  note s = others_filters_stay [OF Cons.prems(1) this, of en v]
  have "list_saved_filters u v (cur (filter_steps en ops (filter_step en op w))) = list_saved_filters u v (cur (filter_step en op w))"
    by (rule Cons.IH) (use s Cons.prems in simp_all)
  then show ?case using s by (simp add: filter_steps_def list_saved_filters_def)
qed (simp add: filter_steps_def)

theorem saved_filters_private_witness:
  "let w = snd (create_saved_filter sample_env 1 (Some ''Paid'') (Some ''guests'') None (world_of empty_db))
   in list_saved_filters 1 ''guests'' (cur (filter_steps sample_env [Drop_filter 2 1, Save_filter 2 None (Some ''guests'') None] w))
      = list_saved_filters 1 ''guests'' (cur w)"
proof -
  define w where "w = snd (create_saved_filter sample_env 1 (Some ''Paid'') (Some ''guests'') None (world_of empty_db))"
  have "filters_keyed w" by (simp add: w_def filters_added keys_ok_def next_key_def empty_db_def)
  from saved_filters_private [OF this, of "[Drop_filter 2 1, Save_filter 2 None (Some ''guests'') None]" 1 "''guests''" sample_env]
  show ?thesis by (simp add: w_def Let_def)
qed

subsection \<open>Names of organizations\<close>

text \<open>Creating an organization refuses a name in use; renaming one does not ask. A user account then created for
  the shared name goes to the older of the two.\<close>

theorem rename_ignores_names:
  assumes "x \<in> set (orgs (cur w))" and "y \<in> set (orgs (cur w))" and "org_id x \<noteq> org_id y"
    and "distinct (map org_id (orgs (cur w)))" and "strip (org_name x) = org_name x"
  shows "fst (create_organization_superadmin en (org_name x) uid mail w)
      = Inl (''Organisaatio '' @ [CHR 0x27] @ org_name x @ [CHR 0x27] @ '' on jo olemassa.'')
    \<and> (let d = cur (update_organization_superadmin en y (org_name x) uid mail w) in
       \<exists>a\<in>set (orgs d). \<exists>b\<in>set (orgs d). org_id a \<noteq> org_id b \<and> org_name a = org_name b)"
proof -
  define y1 where "y1 = y\<lparr>org_name := org_name x\<rparr>"
  have o: "orgs (cur (update_organization_superadmin en y (org_name x) uid mail w)) = row_put org_id y1 (orgs (cur w))"
    by (simp add: update_organization_superadmin_def Let_def assms(5) y1_def bump_def)
  have "y1 \<in> set (row_put org_id y1 (orgs (cur w)))" using assms(2) by (force simp: row_put_def y1_def)
  moreover have "x \<in> set (row_put org_id y1 (orgs (cur w)))" by (rule row_put_other) (use assms(1,3) in \<open>simp_all add: y1_def\<close>)
  moreover have "org_name x = org_name y1" "org_id x \<noteq> org_id y1" using assms(3) by (simp_all add: y1_def)
  moreover have "\<exists>a\<in>set (orgs (cur w)). org_name a = org_name x" using assms(1) by blast
  ultimately show ?thesis unfolding Let_def o create_organization_superadmin_def assms(5) by auto
qed

end
