(* ===== verification/Spec2Isabelle.thy ===== *)
theory Spec2Isabelle
  imports Notifications CalendarEvents LeaseBilling Inbound ApiRoutes MailQueue Owners Images Status Dashboard Backoffice
begin

text \<open>
  A verification library for the property-management system under src/: a multi-tenant web application (Flask,
  SQLAlchemy, PostgreSQL) for short stays and leases. It models the services of the back end (src/app) and states
  what makes them correct; where the code does something else than it means to, a theorem says what it does.

  \<^bold>\<open>The program.\<close> An organization has properties, a property has units, a unit has reservations (nights) and
  leases (months). Reservations issue and revoke door codes, publish events to webhooks and send mail. Leases are
  billed by a daily job into invoices; invoices are paid by hand or through a provider, whose callbacks come in as
  webhooks. Guests use a portal with links of their own, owners a portal with monthly payouts, other programs an API
  with keys and scopes, the staff a back office with sessions and, for superadmins, a second factor. Every operation
  leaves an audit row.

  \<^bold>\<open>The model.\<close> A handler is an executable function \<open>op env args w\<close> from a world to a result and a world. A
  \<open>world\<close> (Db) holds the session's view \<open>cur\<close> and the committed state \<open>com\<close> of the database, the clock, the calls made to
  the outside and the memo of the settings; \<open>commit\<close> and \<open>rollback\<close> copy one view to the other. An exception is the left
  summand of the result and leaves \<open>cur\<close> as the code leaves the session: the end of a request drops it, except behind
  the API gate, which commits. The database is a record of tables, a table is a list of records in the order of
  insertion with the last key it handed out. What is not under src/ is a field of \<open>env\<close> or an argument: hashing, the
  text templates, the HTTP peers, the payment providers, the lock vendor, the calendar library, random draws. Money is
  whole cents, except the payouts of the owners, which use decimals of 28 digits; a percentage is kept as the two counts
  it is computed from; a date is its ordinal and a moment a number of microseconds in UTC.

  \<^bold>\<open>The theories.\<close>
  \<^item> Vocabulary. Prelude: rows by key, ordering, fact collections. PyText, PyDate, Money, Decimals, Json: Python's text, dates,
    decimals and JSON texts. Db: rows, database, world, exceptions, environment. Tables: the inserts and updates of each table,
    as interpretations of the locales \<open>append_table\<close> and \<open>keyed_table\<close>. Frame: what side effects leave alone. RowBooks:
    services that keep one table, as a locale with an invariant over reachable states. Samples: a concrete environment.
  \<^item> Side services. AuditLog (app/audit), Notifications, Idempotency, Settings, Webhooks, Email (the services of these names),
    Inbound (app/webhooks/routes.py), MailQueue (app/email/scheduler.py). Facts: exact recipients and signatures of a published
    event, the circuit breaker, replay of a stored response, write and read of a setting, an unsigned webhook changes nothing,
    every due mail is settled.
  \<^item> Stays. Scope: lookups within an organization, as a locale. Reservations: every operation of app/reservations/services.py.
    Bookings: no double booking in any reachable state. BookingCalendar: refinement of an abstract calendar, isolation of
    the organizations, errors leave no trace. Availability, CalendarEvents: the matrix and the calendar against the rows they show.
    Portal (app/portal/services.py): links, door codes, check-in. Ical (app/integrations/ical): import is all or nothing, an
    exported calendar comes back, conflicts are the shared nights, every feed is tried.
  \<^item> Money. Billing, Leases, Invoices, LeaseBilling (app/billing/services.py): the life of leases and invoices, their books,
    the billing job. Payments, Providers (app/payments): checkout, callbacks, refunds. Owners (app/owners, app/owner_portal):
    payouts and their portal. Expenses, Reports (app/expenses, app/reports): the reports agree with each other and the rows.
  \<^item> People and places. Guests, Accounts (app/guests, app/users, app/gdpr): unique addresses, what an export, an anonymization and
    a deletion reach. Properties, Images (app/properties): the state of a unit, the list of pictures. Maintenance, Social
    (app/maintenance, app/tags, app/comments): well-formed rows and tags that stay in their organization.
  \<^item> Access. Auth (app/auth/services.py): a sign-in is exact, codes work once. WebSession (app/auth/routes.py, the guards of
    app/__init__.py and app/core, impersonation in app/admin): which pages a session opens. ApiKeys, ApiRoutes (app/api):
    the gate is exact, the walk over the wrappers of a view ends, what a refused request stores.
  \<^item> Operations. Status (app/status/service.py): probes and readiness. Dashboard, Backoffice (app/admin/services.py): the numbers
    of the start page, searches, lists, saved filters, organizations.

  \<^bold>\<open>How components meet.\<close> A service calls another through its own operation (the invoice of a payment is paid by the
  operations of Payments on the rows of Invoices; a cancelled stay revokes through Portal; both publish through Webhooks), and
  Frame says which tables such a call can touch. A contract that several operations share is a locale, interpreted in the
  theory that provides it; the properties are stated outside, over the definitions of the code.

  \<^bold>\<open>Bounds.\<close> All recursion is on lists, numbers or with a proved measure; there is no fuel. The walk over the wrappers of a
  view ends because it never visits one twice, and the occupancy walk runs over thirty days. Five attempts of a mail and
  five failures of a webhook are the constants of the code.

  \<^bold>\<open>Choices.\<close> Where a query gives no order, rows come in the order of insertion. Texts are byte strings; a Finnish letter is
  its Latin-1 byte and the euro sign is left out. A flush that breaks a uniqueness constraint rolls the session back. A job
  given to a background thread is recorded as a call. The days of time stamps are UTC days.

  \<^bold>\<open>Not modelled.\<close> Failures of the database itself (connection, column overflow, foreign keys that point nowhere), gaps that a
  rollback leaves in a sequence, case mapping outside ASCII, negative zero and NaN as the default VAT rate, dates near the year
  9999, JSON floats, mail attachments, PDF layout, image decoding, rate limits, CSRF tokens and the lifetime of a session, CSV
  texts, bodies of API requests whose dates are no strings. Whole parts left out: the pages of the back office and of the guest
  portal (forms and rendering around the services), backups (the effect is that of external programs), the command line,
  application set-up, logging, geocoding, the HTTP clients of the lock vendor and the file storage, migrations and browser code.
\<close>

end
